(* ===== verification/Prelude.thy ===== *)
theory Prelude
  imports Main "HOL-Library.Word" "HOL-Library.Product_Lexorder"
begin

text \<open>
  Shared material of the development: names for the Rust integer widths, the \<open>Result\<close> type of
  Rust as a sum with its early-return operator \<open>?\<close>, first-match evaluation of an ordered list of
  guarded verdicts (the shape of every firewall chain), and the fact
  collection of what the generated firewall rules do.
\<close>

named_theorems rule_sem \<open>what one generated firewall rule does to a packet\<close>

type_synonym u8 = "8 word"
type_synonym u16 = "16 word"
type_synonym u32 = "32 word"
type_synonym u64 = "64 word"
type_synonym u128 = "128 word"

section \<open>Results and early return\<close>

text \<open>\<open>Result<T, E>\<close> is \<open>'e + 'a\<close>; \<open>and_then\<close> is the \<open>?\<close> operator: the first error wins.\<close>

definition and_then :: "'e + 'a \<Rightarrow> ('a \<Rightarrow> 'e + 'b) \<Rightarrow> 'e + 'b" where
  "and_then r f = (case r of Inl e \<Rightarrow> Inl e | Inr x \<Rightarrow> f x)"

lemma and_then_simps [simp]:
  "and_then (Inl e) f = Inl e"
  "and_then (Inr x) f = f x"
  by (simp_all add: and_then_def)

lemma and_then_Inr_iff: "and_then r f = Inr y \<longleftrightarrow> (\<exists>x. r = Inr x \<and> f x = Inr y)"
  by (cases r) auto

lemma and_then_InrE [elim!]:
  assumes "and_then r f = Inr y"
  obtains x where "r = Inr x" and "f x = Inr y"
  using assms by (auto simp: and_then_Inr_iff)

definition of_option :: "'e \<Rightarrow> 'a option \<Rightarrow> 'e + 'a" where
  "of_option e x = (case x of None \<Rightarrow> Inl e | Some v \<Rightarrow> Inr v)"

lemma of_option_simps [simp]:
  "of_option e None = Inl e"
  "of_option e (Some v) = Inr v"
  by (simp_all add: of_option_def)

lemma of_option_Inr [simp]: "of_option e x = Inr v \<longleftrightarrow> x = Some v"
  by (cases x) auto

definition res_ok :: "'e + 'a \<Rightarrow> bool" where
  "res_ok r = (case r of Inl _ \<Rightarrow> False | Inr _ \<Rightarrow> True)"

lemma res_ok_simps [simp]: "\<not> res_ok (Inl e)" "res_ok (Inr x)"
  by (simp_all add: res_ok_def)

text \<open>A loop whose body may fail: the \<open>for x in xs { ... ? }\<close> of the source.\<close>

fun try_fold :: "('x \<Rightarrow> 's \<Rightarrow> 'e + 's) \<Rightarrow> 'x list \<Rightarrow> 's \<Rightarrow> 'e + 's" where
  "try_fold f [] s = Inr s"
| "try_fold f (x # xs) s = and_then (f x s) (try_fold f xs)"

lemma try_fold_Inr:
  assumes "\<And>x s. x \<in> set xs \<Longrightarrow> f x s = Inr (g x s)"
  shows "try_fold f xs s = Inr (fold g xs s)"
  using assms by (induction xs arbitrary: s) auto

lemma try_fold_cong [fundef_cong]:
  "xs = ys \<Longrightarrow> s = t \<Longrightarrow> (\<And>x s. x \<in> set ys \<Longrightarrow> f x s = g x s) \<Longrightarrow> try_fold f xs s = try_fold g ys t"
proof (induction ys arbitrary: xs s t)
  case (Cons y ys)
  then have "f y t = g y t" "\<And>u. try_fold f ys u = try_fold g ys u" by auto
  with Cons.prems show ?case by (simp add: and_then_def split: sum.split)
qed simp

section \<open>First match\<close>

text \<open>The verdict of the first entry whose guard holds, else the default.\<close>

fun first_match :: "(bool \<times> 'v) list \<Rightarrow> 'v \<Rightarrow> 'v" where
  "first_match [] d = d"
| "first_match ((c, v) # xs) d = (if c then v else first_match xs d)"

lemma first_match_append:
  "first_match (xs @ ys) d = first_match xs (first_match ys d)"
  by (induction xs d rule: first_match.induct) auto

lemma first_match_same:
  "first_match (map (\<lambda>x. (P x, v)) xs) d = (if \<exists>x \<in> set xs. P x then v else d)"
  by (induction xs) auto

section \<open>Lists that are searched and filtered\<close>

lemma set_map_filter: "y \<in> set (List.map_filter f xs) \<longleftrightarrow> (\<exists>x \<in> set xs. f x = Some y)"
  by (induction xs) (auto simp: map_filter_simps split: option.splits)

lemma find_append: "find P (xs @ ys) = (case find P xs of Some x \<Rightarrow> Some x | None \<Rightarrow> find P ys)"
  by (induction xs) auto

section \<open>Folds that append\<close>

text \<open>
  A loop that appends the same function of each element is a concatenation, seen through any
  projection of the state that each step extends.
\<close>

lemma fold_append_proj:
  assumes "\<And>x s. proj (f x s) = proj s @ g x"
  shows "proj (fold f xs s) = proj s @ concat (map g xs)"
  using assms by (induction xs arbitrary: s) auto

lemma sorted_distinct_remdups_adj:
  fixes xs :: "'a :: linorder list"
  assumes "sorted xs"
  shows "distinct (remdups_adj xs)"
  using assms
proof (induction xs rule: remdups_adj.induct)
  case (3 x y xs)
  then show ?case
    by (cases "x = y") (auto simp: remdups_adj_set dest!: antisym)
qed auto

section \<open>Strings\<close>

text \<open>\<open>str::trim\<close>, for the ASCII white space that a sysctl file can contain.\<close>

definition is_ws :: "char \<Rightarrow> bool" where
  "is_ws c = (of_char c \<in> {9, 10, 11, 12, 13, 32 :: nat})"

definition trim :: "string \<Rightarrow> string" where
  "trim s = rev (dropWhile is_ws (rev (dropWhile is_ws s)))"

end
