(* ===== verification/Net_Types.thy ===== *)
theory Net_Types
  imports Prelude
begin

text \<open>
  The network vocabulary of \<open>talpid-types\<close> (\<open>talpid-types/src/net/\<close>), in the order of the source:
  addresses, endpoints and the clients allowed to use them, in-tunnel traffic, connectivity of
  the host, the networks of the "allow LAN" setting, obfuscator configurations and the WireGuard
  tunnel parameters. Standard library addresses are words of their width; a \<open>SocketAddrV6\<close> keeps
  its flow label and scope id because the derived order compares them. The WireGuard keys
  (\<open>x25519_dalek\<close>) are opaque byte strings. The build modelled is the Linux one, so enum variants
  under another \<open>target_os\<close> are absent.
\<close>

section \<open>Addresses of the standard library\<close>

datatype ip_addr = IpV4 u32 | IpV6 u128

text \<open>\<open>Ipv4Addr::new\<close> and \<open>Ipv6Addr::new\<close>: octets and segments, most significant first.\<close>

definition ipv4_new :: "nat \<Rightarrow> nat \<Rightarrow> nat \<Rightarrow> nat \<Rightarrow> u32" where
  "ipv4_new a b c d = of_nat (((a * 256 + b) * 256 + c) * 256 + d)"

definition ipv6_new :: "nat list \<Rightarrow> u128" where
  "ipv6_new segments = of_nat (fold (\<lambda>s acc. acc * 65536 + s) segments 0)"

definition ipv4_broadcast :: u32 where
  "ipv4_broadcast = ipv4_new 255 255 255 255"

fun is_ipv4 :: "ip_addr \<Rightarrow> bool" where
  "is_ipv4 (IpV4 _) = True"
| "is_ipv4 (IpV6 _) = False"

fun is_loopback_ip :: "ip_addr \<Rightarrow> bool" where
  "is_loopback_ip (IpV4 a) = (drop_bit 24 a = 127)"
| "is_loopback_ip (IpV6 a) = (a = 1)"

datatype socket_addr =
  SockV4 u32 u16
| SockV6 u128 u16 u32 u32

fun sock_ip :: "socket_addr \<Rightarrow> ip_addr" where
  "sock_ip (SockV4 a _) = IpV4 a"
| "sock_ip (SockV6 a _ _ _) = IpV6 a"

fun sock_port :: "socket_addr \<Rightarrow> u16" where
  "sock_port (SockV4 _ p) = p"
| "sock_port (SockV6 _ p _ _) = p"

text \<open>\<open>SocketAddr::new\<close> leaves the flow label and the scope id of an IPv6 address at zero.\<close>

fun socket_addr_new :: "ip_addr \<Rightarrow> u16 \<Rightarrow> socket_addr" where
  "socket_addr_new (IpV4 a) p = SockV4 a p"
| "socket_addr_new (IpV6 a) p = SockV6 a p 0 0"

lemma socket_addr_new_roundtrip [simp]:
  "sock_ip (socket_addr_new ip p) = ip" "sock_port (socket_addr_new ip p) = p"
  by (cases ip; simp)+

section \<open>Endpoints\<close>

datatype transport_protocol = Udp | Tcp

datatype endpoint = Endpoint (ep_address: socket_addr) (ep_protocol: transport_protocol)

definition endpoint_new :: "ip_addr \<Rightarrow> u16 \<Rightarrow> transport_protocol \<Rightarrow> endpoint" where
  "endpoint_new address port protocol =
     Endpoint (socket_addr_new address port) protocol"

definition endpoint_from_socket_address :: "socket_addr \<Rightarrow> transport_protocol \<Rightarrow> endpoint" where
  "endpoint_from_socket_address address protocol = Endpoint address protocol"

text \<open>
  \<open>Endpoint\<close> derives \<open>Ord\<close>: lexicographic on the fields, enums by their declaration order
  (\<open>V4\<close> before \<open>V6\<close>, \<open>Udp\<close> before \<open>Tcp\<close>). The key below is that order as a tuple of numbers.
\<close>

fun protocol_key :: "transport_protocol \<Rightarrow> nat" where
  "protocol_key Udp = 0"
| "protocol_key Tcp = 1"

fun socket_key :: "socket_addr \<Rightarrow> nat \<times> nat \<times> nat \<times> nat \<times> nat" where
  "socket_key (SockV4 a p) = (0, unat a, unat p, 0, 0)"
| "socket_key (SockV6 a p f s) = (1, unat a, unat p, unat f, unat s)"

lemma protocol_key_inject [simp]: "protocol_key a = protocol_key b \<longleftrightarrow> a = b"
  by (cases a; cases b) auto

lemma socket_key_inject [simp]: "socket_key a = socket_key b \<longleftrightarrow> a = b"
  by (cases a; cases b) (auto simp: unat_arith_simps)

definition endpoint_key :: "endpoint \<Rightarrow> (nat \<times> nat \<times> nat \<times> nat \<times> nat) \<times> nat" where
  "endpoint_key e = (socket_key (ep_address e), protocol_key (ep_protocol e))"

lemma endpoint_key_inject [simp]: "endpoint_key a = endpoint_key b \<longleftrightarrow> a = b"
  by (auto simp: endpoint_key_def intro: endpoint.expand)

instantiation endpoint :: linorder
begin

definition less_eq_endpoint :: "endpoint \<Rightarrow> endpoint \<Rightarrow> bool" where
  "less_eq_endpoint a b = (endpoint_key a \<le> endpoint_key b)"

definition less_endpoint :: "endpoint \<Rightarrow> endpoint \<Rightarrow> bool" where
  "less_endpoint a b = (endpoint_key a < endpoint_key b)"

instance
  by standard (auto simp: less_eq_endpoint_def less_endpoint_def dest: antisym)

end

datatype allowed_clients = Root | All

definition allow_all :: "allowed_clients \<Rightarrow> bool" where
  "allow_all c = (case c of Root \<Rightarrow> False | All \<Rightarrow> True)"

record allowed_endpoint =
  ae_endpoint :: endpoint
  ae_clients :: allowed_clients

datatype allowed_tunnel_traffic =
  TrafficNone
| TrafficAll
| TrafficOne endpoint
| TrafficTwo endpoint endpoint

definition traffic_all :: "allowed_tunnel_traffic \<Rightarrow> bool" where
  "traffic_all t = (case t of TrafficAll \<Rightarrow> True | _ \<Rightarrow> False)"

section \<open>IP versions and connectivity\<close>

datatype ip_version = V4 | V6

fun ip_version_of :: "ip_addr \<Rightarrow> ip_version" where
  "ip_version_of (IpV4 _) = V4"
| "ip_version_of (IpV6 _) = V6"

definition ip_version_to_string :: "ip_version \<Rightarrow> string" where
  "ip_version_to_string v = (case v of V4 \<Rightarrow> ''IPv4'' | V6 \<Rightarrow> ''IPv6'')"

definition ip_version_from_str :: "string \<Rightarrow> unit + ip_version" where
  "ip_version_from_str s =
     (if s = ''v4'' \<or> s = ''ipv4'' then Inr V4
      else if s = ''v6'' \<or> s = ''ipv6'' then Inr V6
      else Inl ())"

text \<open>\<open>str::eq_ignore_ascii_case\<close> of the standard library, byte by byte.\<close>

definition to_ascii_lowercase :: "char \<Rightarrow> char" where
  "to_ascii_lowercase c =
     (if (65 :: nat) \<le> of_char c \<and> of_char c \<le> (90 :: nat) then char_of (of_char c + 32 :: nat) else c)"

definition eq_ignore_ascii_case :: "string \<Rightarrow> string \<Rightarrow> bool" where
  "eq_ignore_ascii_case a b = (map to_ascii_lowercase a = map to_ascii_lowercase b)"

definition transport_protocol_from_str :: "string \<Rightarrow> unit + transport_protocol" where
  "transport_protocol_from_str s =
     (if eq_ignore_ascii_case s ''udp'' then Inr Udp
      else if eq_ignore_ascii_case s ''tcp'' then Inr Tcp
      else Inl ())"

definition transport_protocol_to_string :: "transport_protocol \<Rightarrow> string" where
  "transport_protocol_to_string p = (case p of Udp \<Rightarrow> ''UDP'' | Tcp \<Rightarrow> ''TCP'')"

datatype ip_availability = Ipv4 | Ipv6 | Ipv4AndIpv6

definition ip_availability_default :: ip_availability where
  "ip_availability_default = Ipv4"

definition ia_has_ipv4 :: "ip_availability \<Rightarrow> bool" where
  "ia_has_ipv4 a = (case a of Ipv4 \<Rightarrow> True | Ipv4AndIpv6 \<Rightarrow> True | Ipv6 \<Rightarrow> False)"

definition ia_has_ipv6 :: "ip_availability \<Rightarrow> bool" where
  "ia_has_ipv6 a = (case a of Ipv6 \<Rightarrow> True | Ipv4AndIpv6 \<Rightarrow> True | Ipv4 \<Rightarrow> False)"

datatype connectivity = Offline | PresumeOnline | Online ip_availability

definition is_offline :: "connectivity \<Rightarrow> bool" where
  "is_offline c = (c = Offline)"

definition is_online :: "connectivity \<Rightarrow> bool" where
  "is_online c = (\<not> is_offline c)"

fun availability :: "connectivity \<Rightarrow> ip_availability option" where
  "availability (Online a) = Some a"
| "availability PresumeOnline = Some ip_availability_default"
| "availability Offline = None"

definition has_ipv4 :: "connectivity \<Rightarrow> bool" where
  "has_ipv4 c = (case map_option ia_has_ipv4 (availability c) of None \<Rightarrow> False | Some b \<Rightarrow> b)"

definition has_ipv6 :: "connectivity \<Rightarrow> bool" where
  "has_ipv6 c = (case map_option ia_has_ipv6 (availability c) of None \<Rightarrow> False | Some b \<Rightarrow> b)"

definition has_family :: "connectivity \<Rightarrow> ip_version \<Rightarrow> bool" where
  "has_family c v = (case v of V4 \<Rightarrow> has_ipv4 c | V6 \<Rightarrow> has_ipv6 c)"

fun connectivity_new :: "bool \<Rightarrow> bool \<Rightarrow> connectivity" where
  "connectivity_new True True = Online Ipv4AndIpv6"
| "connectivity_new True False = Online Ipv4"
| "connectivity_new False True = Online Ipv6"
| "connectivity_new False False = Offline"

section \<open>Networks of the allow-LAN setting\<close>

text \<open>
  \<open>ipnetwork::IpNetwork\<close> values are an address and a prefix length. Its netmask is library code
  and a parameter (\<open>net_masks\<close>) of every definition that computes one. The constants below are
  network addresses with no host bits.
\<close>

datatype ip_network = NetV4 u32 nat | NetV6 u128 nat

fun net_ip :: "ip_network \<Rightarrow> ip_addr" where
  "net_ip (NetV4 a _) = IpV4 a"
| "net_ip (NetV6 a _) = IpV6 a"

definition ALLOWED_LAN_NETS :: "ip_network list" where
  "ALLOWED_LAN_NETS =
    [NetV4 (ipv4_new 10 0 0 0) 8,
     NetV4 (ipv4_new 172 16 0 0) 12,
     NetV4 (ipv4_new 192 168 0 0) 16,
     NetV4 (ipv4_new 169 254 0 0) 16,
     NetV6 (ipv6_new [0xfe80, 0, 0, 0, 0, 0, 0, 0]) 10,
     NetV6 (ipv6_new [0xfc00, 0, 0, 0, 0, 0, 0, 0]) 7]"

definition ALLOWED_LAN_MULTICAST_NETS :: "ip_network list" where
  "ALLOWED_LAN_MULTICAST_NETS =
    [NetV4 (ipv4_new 255 255 255 255) 32,
     NetV4 (ipv4_new 224 0 0 0) 24,
     NetV4 (ipv4_new 239 0 0 0) 8,
     NetV6 (ipv6_new [0xff01, 0, 0, 0, 0, 0, 0, 0]) 16,
     NetV6 (ipv6_new [0xff02, 0, 0, 0, 0, 0, 0, 0]) 16,
     NetV6 (ipv6_new [0xff03, 0, 0, 0, 0, 0, 0, 0]) 16,
     NetV6 (ipv6_new [0xff04, 0, 0, 0, 0, 0, 0, 0]) 16,
     NetV6 (ipv6_new [0xff05, 0, 0, 0, 0, 0, 0, 0]) 16]"

section \<open>Obfuscation\<close>

datatype obfuscator_config =
  CfgUdp2Tcp socket_addr
| CfgShadowsocks socket_addr
| CfgQuic string socket_addr string \<comment> \<open>hostname, endpoint, auth token\<close>
| CfgLwo socket_addr

fun obfuscator_endpoint :: "obfuscator_config \<Rightarrow> endpoint" where
  "obfuscator_endpoint (CfgUdp2Tcp a) = Endpoint a Tcp"
| "obfuscator_endpoint (CfgShadowsocks a) = Endpoint a Udp"
| "obfuscator_endpoint (CfgQuic _ a _) = Endpoint a Udp"
| "obfuscator_endpoint (CfgLwo a) = Endpoint a Udp"

datatype obfuscators =
  Single obfuscator_config
| Multiplexer "socket_addr option" "obfuscator_config \<times> obfuscator_config list"

definition multiplexer :: "socket_addr option \<Rightarrow> obfuscator_config list \<Rightarrow> obfuscators option" where
  "multiplexer direct configs =
     (case configs of [] \<Rightarrow> None
      | first # remaining \<Rightarrow> Some (Multiplexer direct (first, remaining)))"

text \<open>\<open>Obfuscators::endpoints\<close>: the vector is sorted, then adjacent duplicates are removed.\<close>

fun obfuscators_endpoints :: "obfuscators \<Rightarrow> endpoint list" where
  "obfuscators_endpoints (Single config) = [obfuscator_endpoint config]"
| "obfuscators_endpoints (Multiplexer direct (first_config, remaining_configs)) =
     (let eps = (case direct of None \<Rightarrow> [] | Some a \<Rightarrow> [Endpoint a Udp])
                @ [obfuscator_endpoint first_config]
                @ map obfuscator_endpoint remaining_configs
      in remdups_adj (sort eps))"

datatype obfuscation_type = ObfUdp2Tcp | ObfShadowsocks | ObfQuic | ObfLwo

fun obfuscation_type_to_string :: "obfuscation_type \<Rightarrow> string" where
  "obfuscation_type_to_string ObfUdp2Tcp = ''Udp2Tcp''"
| "obfuscation_type_to_string ObfShadowsocks = ''Shadowsocks''"
| "obfuscation_type_to_string ObfQuic = ''QUIC''"
| "obfuscation_type_to_string ObfLwo = ''LWO''"

record obfuscation_endpoint =
  oe_endpoint :: endpoint
  oe_type :: obfuscation_type

definition obfuscation_endpoint_from :: "obfuscator_config \<Rightarrow> obfuscation_endpoint" where
  "obfuscation_endpoint_from config =
     \<lparr>oe_endpoint = obfuscator_endpoint config,
      oe_type = (case config of CfgUdp2Tcp _ \<Rightarrow> ObfUdp2Tcp
                 | CfgShadowsocks _ \<Rightarrow> ObfShadowsocks
                 | CfgQuic _ _ _ \<Rightarrow> ObfQuic
                 | CfgLwo _ \<Rightarrow> ObfLwo)\<rparr>"

datatype obfuscation_info =
  InfoSingle obfuscation_endpoint
| InfoMultiplexer "endpoint option" "obfuscation_endpoint list"

fun obfuscation_info_get_endpoints :: "obfuscation_info \<Rightarrow> endpoint list" where
  "obfuscation_info_get_endpoints (InfoSingle ep) = [oe_endpoint ep]"
| "obfuscation_info_get_endpoints (InfoMultiplexer direct obfs) =
     (case direct of None \<Rightarrow> [] | Some d \<Rightarrow> [d]) @ map oe_endpoint obfs"

fun obfuscation_info_from :: "obfuscators \<Rightarrow> obfuscation_info" where
  "obfuscation_info_from (Multiplexer direct (first_obfs, remaining_obfs)) =
     InfoMultiplexer (map_option (\<lambda>d. Endpoint d Udp) direct)
       (map obfuscation_endpoint_from (first_obfs # remaining_obfs))"
| "obfuscation_info_from (Single obfs) = InfoSingle (obfuscation_endpoint_from obfs)"

record tunnel_endpoint =
  te_endpoint :: endpoint
  te_quantum_resistant :: bool
  te_obfuscation :: "obfuscation_info option"
  te_entry_endpoint :: "endpoint option"
  te_tunnel_interface :: "string option"
  te_daita :: bool

section \<open>WireGuard tunnel parameters\<close>

type_synonym wg_key = "u8 list"

record peer_config =
  pc_public_key :: wg_key
  pc_allowed_ips :: "ip_network list"
  pc_endpoint :: socket_addr
  pc_psk :: "wg_key option"
  pc_constant_packet_size :: bool

record tunnel_config =
  tc_private_key :: wg_key
  tc_addresses :: "ip_addr list"

record connection_config =
  cc_tunnel :: tunnel_config
  cc_peer :: peer_config
  cc_exit_peer :: "peer_config option"
  cc_ipv4_gateway :: u32
  cc_ipv6_gateway :: "u128 option"
  cc_fwmark :: "u32 option"

definition get_endpoint :: "connection_config \<Rightarrow> endpoint" where
  "get_endpoint c = Endpoint (pc_endpoint (cc_peer c)) Udp"

definition get_exit_endpoint :: "connection_config \<Rightarrow> endpoint option" where
  "get_exit_endpoint c = map_option (\<lambda>peer. Endpoint (pc_endpoint peer) Udp) (cc_exit_peer c)"

definition set_ip :: "connection_config \<Rightarrow> ip_addr \<Rightarrow> connection_config" where
  "set_ip c ip = c\<lparr>cc_peer := (cc_peer c)
     \<lparr>pc_endpoint := socket_addr_new ip (sock_port (pc_endpoint (cc_peer c)))\<rparr>\<rparr>"

record tunnel_options =
  to_mtu :: "u16 option"
  to_quantum_resistant :: bool
  to_daita :: bool
  to_userspace :: bool

record generic_tunnel_options =
  enable_ipv6 :: bool

record tunnel_parameters =
  tp_connection :: connection_config
  tp_options :: tunnel_options
  tp_generic_options :: generic_tunnel_options
  tp_obfuscation :: "obfuscators option"

definition get_next_hop_endpoints :: "tunnel_parameters \<Rightarrow> endpoint list" where
  "get_next_hop_endpoints p =
     (case map_option obfuscators_endpoints (tp_obfuscation p) of
        Some eps \<Rightarrow> eps
      | None \<Rightarrow> [get_endpoint (tp_connection p)])"

definition get_tunnel_endpoint :: "tunnel_parameters \<Rightarrow> tunnel_endpoint" where
  "get_tunnel_endpoint p =
     \<lparr>te_endpoint = (case get_exit_endpoint (tp_connection p) of
                       Some e \<Rightarrow> e | None \<Rightarrow> get_endpoint (tp_connection p)),
      te_quantum_resistant = to_quantum_resistant (tp_options p),
      te_obfuscation = map_option obfuscation_info_from (tp_obfuscation p),
      te_entry_endpoint =
        map_option (\<lambda>_. get_endpoint (tp_connection p)) (get_exit_endpoint (tp_connection p)),
      te_tunnel_interface = None,
      te_daita = to_daita (tp_options p)\<rparr>"

text \<open>On Linux both \<open>cfg!\<close> conditions of \<open>use_userspace_wg\<close> are false.\<close>

definition use_userspace_wg :: "tunnel_parameters \<Rightarrow> bool" where
  "use_userspace_wg p = (to_userspace (tp_options p) \<or> to_daita (tp_options p))"

section \<open>Tunnel metadata\<close>

record tunnel_metadata =
  tm_interface :: string
  tm_ips :: "ip_addr list"
  tm_ipv4_gateway :: u32
  tm_ipv6_gateway :: "u128 option"

definition gateways :: "tunnel_metadata \<Rightarrow> ip_addr list" where
  "gateways m = [IpV4 (tm_ipv4_gateway m)]
     @ (case tm_ipv6_gateway m of None \<Rightarrow> [] | Some g \<Rightarrow> [IpV6 g])"

section \<open>Properties\<close>

lemma availability_None_iff [simp]: "availability c = None \<longleftrightarrow> is_offline c"
  by (cases c) (auto simp: is_offline_def)

lemma connectivity_new_family:
  "has_family (connectivity_new v4 v6) V4 = v4"
  "has_family (connectivity_new v4 v6) V6 = v6"
  by (cases v4; cases v6; simp add: has_family_def has_ipv4_def has_ipv6_def ia_has_ipv4_def
      ia_has_ipv6_def)+

lemma connectivity_new_offline: "is_offline (connectivity_new v4 v6) \<longleftrightarrow> \<not> v4 \<and> \<not> v6"
  by (cases v4; cases v6) (auto simp: is_offline_def)

lemma has_family_online: "has_family c v \<Longrightarrow> is_online c"
  by (cases c; cases v)
    (auto simp: has_family_def has_ipv4_def has_ipv6_def is_online_def is_offline_def)

lemma obfuscators_endpoints_sorted: "sorted (obfuscators_endpoints obfs)"
  by (cases obfs rule: obfuscators_endpoints.cases) (simp_all add: sorted_remdups_adj Let_def)

lemma obfuscators_endpoints_distinct: "distinct (obfuscators_endpoints obfs)"
  by (cases obfs rule: obfuscators_endpoints.cases)
    (simp_all add: sorted_distinct_remdups_adj Let_def)

text \<open>
  The endpoints the firewall opens are exactly the endpoints reported to the user interface:
  sorting and deduplication lose nothing and add nothing.
\<close>

lemma obfuscators_endpoints_info:
  "set (obfuscators_endpoints obfs) =
     set (obfuscation_info_get_endpoints (obfuscation_info_from obfs))"
  by (cases obfs rule: obfuscators_endpoints.cases)
    (auto simp: obfuscation_endpoint_from_def Let_def split: option.splits)

lemma get_next_hop_endpoints_nonempty: "get_next_hop_endpoints p \<noteq> []"
proof (cases "tp_obfuscation p")
  case None
  then show ?thesis by (simp add: get_next_hop_endpoints_def)
next
  case (Some obfs)
  have "set (obfuscators_endpoints obfs) \<noteq> {}"
    by (cases obfs rule: obfuscators_endpoints.cases) (auto simp: Let_def)
  with Some show ?thesis by (auto simp: get_next_hop_endpoints_def)
qed

lemma get_next_hop_endpoints_sorted_distinct:
  "sorted (get_next_hop_endpoints p) \<and> distinct (get_next_hop_endpoints p)"
  by (auto simp: get_next_hop_endpoints_def obfuscators_endpoints_sorted
      obfuscators_endpoints_distinct split: option.splits)

lemma transport_protocol_roundtrip:
  "transport_protocol_from_str (transport_protocol_to_string p) = Inr p"
proof (cases p)
  case Udp
  have "transport_protocol_from_str (transport_protocol_to_string Udp) = Inr Udp" by code_simp
  with Udp show ?thesis by simp
next
  case Tcp
  have "transport_protocol_from_str (transport_protocol_to_string Tcp) = Inr Tcp" by code_simp
  with Tcp show ?thesis by simp
qed

lemma set_ip_endpoint:
  "sock_ip (ep_address (get_endpoint (set_ip c ip))) = ip"
  "sock_port (ep_address (get_endpoint (set_ip c ip))) = sock_port (ep_address (get_endpoint c))"
  by (simp_all add: set_ip_def get_endpoint_def)

end
