(* ===== verification/Relay_Constraints.thy ===== *)
theory Relay_Constraints
  imports Net_Types "HOL-Library.Monad_Syntax"
begin

text \<open>
  The constraints a user can put on relays and how two sets of constraints are combined:
  \<open>mullvad-types/src/constraints/\<close> (\<open>Constraint\<close>, the \<open>Intersection\<close> trait and the implementations
  its macros generate), \<open>mullvad-types/src/relay_constraints.rs\<close> and the constraint structures of
  \<open>mullvad-types/src/relay_selector/mod.rs\<close>.

  The trait is a locale whose laws are the ones its documentation asks of every implementation;
  the consequences the relay selector relies on (the result is at least as strict as both sides,
  and as lax as possible) are proved once inside it, and every implementation is an
  interpretation.
\<close>

section \<open>Constraints\<close>

datatype 'a constraint = Any | Only 'a

definition constraint_option :: "'a constraint \<Rightarrow> 'a option" where
  "constraint_option c = (case c of Any \<Rightarrow> None | Only v \<Rightarrow> Some v)"

definition constraint_from_option :: "'a option \<Rightarrow> 'a constraint" where
  "constraint_from_option x = (case x of Some v \<Rightarrow> Only v | None \<Rightarrow> Any)"

definition constraint_unwrap_or :: "'a constraint \<Rightarrow> 'a \<Rightarrow> 'a" where
  "constraint_unwrap_or c d = (case c of Any \<Rightarrow> d | Only v \<Rightarrow> v)"

definition constraint_or :: "'a constraint \<Rightarrow> 'a constraint \<Rightarrow> 'a constraint" where
  "constraint_or c other = (case c of Any \<Rightarrow> other | Only v \<Rightarrow> Only v)"

definition constraint_map :: "('a \<Rightarrow> 'b) \<Rightarrow> 'a constraint \<Rightarrow> 'b constraint" where
  "constraint_map f c = (case c of Any \<Rightarrow> Any | Only v \<Rightarrow> Only (f v))"

definition constraint_and_then :: "'a constraint \<Rightarrow> ('a \<Rightarrow> 'b constraint) \<Rightarrow> 'b constraint" where
  "constraint_and_then c f = (case c of Any \<Rightarrow> Any | Only v \<Rightarrow> f v)"

definition constraint_is_any :: "'a constraint \<Rightarrow> bool" where
  "constraint_is_any c = (case c of Any \<Rightarrow> True | Only _ \<Rightarrow> False)"

definition constraint_is_only :: "'a constraint \<Rightarrow> bool" where
  "constraint_is_only c = (\<not> constraint_is_any c)"

definition is_only_and :: "'a constraint \<Rightarrow> ('a \<Rightarrow> bool) \<Rightarrow> bool" where
  "is_only_and c f = (case constraint_option c of Some v \<Rightarrow> f v | None \<Rightarrow> False)"

definition is_any_or :: "'a constraint \<Rightarrow> ('a \<Rightarrow> bool) \<Rightarrow> bool" where
  "is_any_or c f = (case constraint_option c of Some v \<Rightarrow> f v | None \<Rightarrow> True)"

definition matches_eq :: "'a constraint \<Rightarrow> 'a \<Rightarrow> bool" where
  "matches_eq c other = (case c of Any \<Rightarrow> True | Only v \<Rightarrow> v = other)"

text \<open>\<open>impl Match<U> for Constraint<T>\<close>, for any \<open>Match\<close> of the constrained type.\<close>

definition constraint_matches :: "('a \<Rightarrow> 'r \<Rightarrow> bool) \<Rightarrow> 'a constraint \<Rightarrow> 'r \<Rightarrow> bool" where
  "constraint_matches m c r = (case c of Any \<Rightarrow> True | Only v \<Rightarrow> m v r)"

text \<open>\<open>Constraint::unwrap\<close> panics on \<open>Any\<close>, which is \<open>None\<close> here.\<close>

definition constraint_unwrap :: "'a constraint \<Rightarrow> 'a option" where
  "constraint_unwrap c = (case c of Any \<Rightarrow> None | Only v \<Rightarrow> Some v)"

lemma constraint_simps [simp]:
  "is_any_or Any f" "is_any_or (Only v) f = f v"
  "constraint_matches m Any r" "constraint_matches m (Only v) r = m v r"
  "constraint_unwrap (Only v) = Some v" "constraint_unwrap Any = None"
  "constraint_unwrap_or Any d = d" "constraint_unwrap_or (Only v) d = v"
  by (simp_all add: is_any_or_def constraint_option_def constraint_matches_def constraint_unwrap_def
      constraint_unwrap_or_def)

section \<open>The Intersection trait\<close>

locale intersection =
  fixes meet :: "'a \<Rightarrow> 'a \<Rightarrow> 'a option"
  assumes idempotence: "meet a a = Some a"
    and commutativity: "meet a b = meet b a"
    and associativity: "meet a b \<bind> (\<lambda>x. meet x c) = meet b c \<bind> meet a"
begin

lemma stricter_left: "meet a b = Some c \<Longrightarrow> meet c a = Some c"
  using associativity [of b a a] idempotence [of a] commutativity [of a b] by simp

lemma stricter_right: "meet a b = Some c \<Longrightarrow> meet c b = Some c"
  using stricter_left [of b a c] commutativity [of a b] by simp

lemma laxest:
  assumes "meet d a = Some d" and "meet d b = Some d"
  shows "\<exists>c. meet a b = Some c \<and> meet d c = Some d"
  using associativity [of d a b] assms by (cases "meet a b") auto

lemma stricter_trans:
  assumes "meet a b = Some a" and "meet b c = Some b"
  shows "meet a c = Some a"
  using associativity [of a b c] assms by simp

lemma stricter_antisym:
  assumes "meet a b = Some a" and "meet b a = Some b"
  shows "a = b"
  using commutativity [of a b] assms by simp

end

text \<open>An implementation that agrees with a lawful one through an injection is lawful.\<close>

lemma intersection_via:
  assumes f: "intersection f" and "inj h"
    and step: "\<And>a b. map_option h (g a b) = f (h a) (h b)"
  shows "intersection g"
proof
  have inj: "x = y" if "map_option h x = map_option h y" for x y
    using that option.inj_map [OF \<open>inj h\<close>] by (auto dest: injD)
  have bind_left: "map_option h (g a b \<bind> (\<lambda>x. g x c)) = f (h a) (h b) \<bind> (\<lambda>x. f x (h c))" for a b c
    by (cases "g a b") (simp_all flip: step)
  have bind_right: "map_option h (g b c \<bind> g a) = f (h b) (h c) \<bind> f (h a)" for a b c
    by (cases "g b c") (simp_all flip: step)
  show "g a a = Some a" for a
    by (rule inj) (simp add: step intersection.idempotence [OF f])
  show "g a b = g b a" for a b
    by (rule inj) (simp add: step intersection.commutativity [OF f])
  show "g a b \<bind> (\<lambda>x. g x c) = g b c \<bind> g a" for a b c
    by (rule inj) (simp add: bind_left bind_right intersection.associativity [OF f])
qed

text \<open>\<open>impl_intersection_partialeq!\<close>: two values intersect if they are equal.\<close>

definition inter_partialeq :: "'a \<Rightarrow> 'a \<Rightarrow> 'a option" where
  "inter_partialeq a b = (if a = b then Some a else None)"

interpretation partialeq: intersection inter_partialeq
  by unfold_locales (auto simp: inter_partialeq_def)

fun constraint_inter :: "('a \<Rightarrow> 'a \<Rightarrow> 'a option) \<Rightarrow> 'a constraint \<Rightarrow> 'a constraint \<Rightarrow> 'a constraint option" where
  "constraint_inter meet Any Any = Some Any"
| "constraint_inter meet (Only t) Any = Some (Only t)"
| "constraint_inter meet Any (Only t) = Some (Only t)"
| "constraint_inter meet (Only l) (Only r) = map_option Only (meet l r)"

lemma constraint_inter_Any [simp]:
  "constraint_inter meet c Any = Some c" "constraint_inter meet Any = Some"
proof -
  show "constraint_inter meet c Any = Some c" by (cases c) simp_all
  have "constraint_inter meet Any d = Some d" for d by (cases d) simp_all
  then show "constraint_inter meet Any = Some" by (rule ext)
qed

context intersection
begin

lemma constraint_intersection: "intersection (constraint_inter meet)"
proof
  have only: "map_option Only (meet a b) \<bind> (\<lambda>x. constraint_inter meet x (Only c)) =
      map_option Only (meet a b \<bind> (\<lambda>x. meet x c))"
    "map_option Only (meet b c) \<bind> constraint_inter meet (Only a) =
      map_option Only (meet b c \<bind> meet a)" for a b c
    by (cases "meet a b"; cases "meet b c"; simp)+
  show "constraint_inter meet a a = Some a" for a
    by (cases a) (simp_all add: idempotence)
  show "constraint_inter meet a b = constraint_inter meet b a" for a b
    by (cases a; cases b) (simp_all add: commutativity)
  show "constraint_inter meet a b \<bind> (\<lambda>x. constraint_inter meet x c) =
      constraint_inter meet b c \<bind> constraint_inter meet a" for a b c
  proof (cases a; cases b; cases c)
    fix x y z
    assume "a = Only x" "b = Only y" "c = Only z"
    then show ?thesis by (simp add: only associativity)
  qed (simp_all add: Option.bind_runit)
qed

end

interpretation partialeq_constraint: intersection "constraint_inter inter_partialeq"
  by (rule partialeq.constraint_intersection)

text \<open>The struct case of the derive macro, for the fields of a structure as a pair.\<close>

definition inter_pair ::
  "('a \<Rightarrow> 'a \<Rightarrow> 'a option) \<Rightarrow> ('b \<Rightarrow> 'b \<Rightarrow> 'b option) \<Rightarrow> 'a \<times> 'b \<Rightarrow> 'a \<times> 'b \<Rightarrow> ('a \<times> 'b) option" where
  "inter_pair f g x y = do { a \<leftarrow> f (fst x) (fst y); b \<leftarrow> g (snd x) (snd y); Some (a, b) }"

lemma intersection_pair:
  assumes "intersection f" and "intersection g"
  shows "intersection (inter_pair f g)"
proof
  note f = intersection.idempotence [OF assms(1)] intersection.commutativity [OF assms(1)]
  note g = intersection.idempotence [OF assms(2)] intersection.commutativity [OF assms(2)]
  show "inter_pair f g a a = Some a" for a
    by (simp add: inter_pair_def f(1) g(1))
  show "inter_pair f g a b = inter_pair f g b a" for a b
    unfolding inter_pair_def by (subst f(2), subst g(2)) simp
  show "inter_pair f g a b \<bind> (\<lambda>x. inter_pair f g x c) = inter_pair f g b c \<bind> inter_pair f g a" for a b c
    using intersection.associativity [OF assms(1), of "fst a" "fst b" "fst c"]
      intersection.associativity [OF assms(2), of "snd a" "snd b" "snd c"]
    by (cases "f (fst a) (fst b)"; cases "f (fst b) (fst c)"; cases "g (snd a) (snd b)";
        cases "g (snd b) (snd c)") (auto simp: inter_pair_def split: bind_splits)
qed

section \<open>Obfuscation\<close>

record udp2tcp_obfuscation_settings =
  u2t_port :: "u16 constraint"

record shadowsocks_settings =
  ss_port :: "u16 constraint"

record wireguard_port_settings =
  wgp_port :: "u16 constraint"

record lwo_settings =
  lwo_port :: "u16 constraint"

datatype selected_obfuscation =
  SelAuto | SelOff | SelWireguardPort | SelUdp2Tcp | SelShadowsocks | SelQuic | SelLwo

fun selected_obfuscation_inter ::
  "selected_obfuscation \<Rightarrow> selected_obfuscation \<Rightarrow> selected_obfuscation option" where
  "selected_obfuscation_inter left SelAuto = Some left"
| "selected_obfuscation_inter SelAuto right = Some right"
| "selected_obfuscation_inter left right = (if left = right then Some left else None)"

record obfuscation_settings =
  selected_obfuscation :: selected_obfuscation
  os_udp2tcp :: udp2tcp_obfuscation_settings
  os_shadowsocks :: shadowsocks_settings
  os_wireguard_port :: wireguard_port_settings
  os_lwo :: lwo_settings

definition obfuscation_settings_default :: obfuscation_settings where
  "obfuscation_settings_default =
     \<lparr>selected_obfuscation = SelAuto, os_udp2tcp = \<lparr>u2t_port = Any\<rparr>, os_shadowsocks = \<lparr>ss_port = Any\<rparr>,
      os_wireguard_port = \<lparr>wgp_port = Any\<rparr>, os_lwo = \<lparr>lwo_port = Any\<rparr>\<rparr>"

datatype obfuscation_mode =
  ModeOff
| ModePort wireguard_port_settings
| ModeUdp2tcp udp2tcp_obfuscation_settings
| ModeShadowsocks shadowsocks_settings
| ModeQuic
| ModeLwo lwo_settings

definition mode_into_settings :: "obfuscation_mode \<Rightarrow> obfuscation_settings" where
  "mode_into_settings mode = (case mode of
       ModeOff \<Rightarrow> obfuscation_settings_default\<lparr>selected_obfuscation := SelOff\<rparr>
     | ModeQuic \<Rightarrow> obfuscation_settings_default\<lparr>selected_obfuscation := SelQuic\<rparr>
     | ModeLwo s \<Rightarrow> obfuscation_settings_default\<lparr>selected_obfuscation := SelLwo, os_lwo := s\<rparr>
     | ModePort s \<Rightarrow>
         obfuscation_settings_default\<lparr>selected_obfuscation := SelWireguardPort, os_wireguard_port := s\<rparr>
     | ModeUdp2tcp s \<Rightarrow>
         obfuscation_settings_default\<lparr>selected_obfuscation := SelUdp2Tcp, os_udp2tcp := s\<rparr>
     | ModeShadowsocks s \<Rightarrow>
         obfuscation_settings_default\<lparr>selected_obfuscation := SelShadowsocks, os_shadowsocks := s\<rparr>)"

definition obfuscation_to_settings :: "obfuscation_mode constraint \<Rightarrow> obfuscation_settings" where
  "obfuscation_to_settings c = (case c of
       Any \<Rightarrow> obfuscation_settings_default\<lparr>selected_obfuscation := SelAuto\<rparr>
     | Only mode \<Rightarrow> mode_into_settings mode)"

definition obfuscation_constraint_from_settings ::
  "obfuscation_settings \<Rightarrow> obfuscation_mode constraint" where
  "obfuscation_constraint_from_settings s = (case selected_obfuscation s of
       SelAuto \<Rightarrow> Any
     | SelOff \<Rightarrow> Only ModeOff
     | SelWireguardPort \<Rightarrow> Only (ModePort (os_wireguard_port s))
     | SelUdp2Tcp \<Rightarrow> Only (ModeUdp2tcp (os_udp2tcp s))
     | SelShadowsocks \<Rightarrow> Only (ModeShadowsocks (os_shadowsocks s))
     | SelQuic \<Rightarrow> Only ModeQuic
     | SelLwo \<Rightarrow> Only (ModeLwo (os_lwo s)))"

lemma obfuscation_settings_roundtrip:
  "obfuscation_constraint_from_settings (obfuscation_to_settings c) = c"
  by (simp add: obfuscation_constraint_from_settings_def obfuscation_to_settings_def
      mode_into_settings_def split: constraint.splits obfuscation_mode.splits)

text \<open>The implementations the derive macro generates.\<close>

definition port_inter :: "u16 constraint \<Rightarrow> u16 constraint \<Rightarrow> u16 constraint option" where
  "port_inter = constraint_inter inter_partialeq"

fun obfuscation_mode_inter :: "obfuscation_mode \<Rightarrow> obfuscation_mode \<Rightarrow> obfuscation_mode option" where
  "obfuscation_mode_inter ModeOff ModeOff = Some ModeOff"
| "obfuscation_mode_inter (ModePort a) (ModePort b) =
     map_option (\<lambda>p. ModePort \<lparr>wgp_port = p\<rparr>) (port_inter (wgp_port a) (wgp_port b))"
| "obfuscation_mode_inter (ModeUdp2tcp a) (ModeUdp2tcp b) =
     map_option (\<lambda>p. ModeUdp2tcp \<lparr>u2t_port = p\<rparr>) (port_inter (u2t_port a) (u2t_port b))"
| "obfuscation_mode_inter (ModeShadowsocks a) (ModeShadowsocks b) =
     map_option (\<lambda>p. ModeShadowsocks \<lparr>ss_port = p\<rparr>) (port_inter (ss_port a) (ss_port b))"
| "obfuscation_mode_inter ModeQuic ModeQuic = Some ModeQuic"
| "obfuscation_mode_inter (ModeLwo a) (ModeLwo b) =
     map_option (\<lambda>p. ModeLwo \<lparr>lwo_port = p\<rparr>) (port_inter (lwo_port a) (lwo_port b))"
| "obfuscation_mode_inter _ _ = None"

interpretation port: intersection port_inter
  unfolding port_inter_def by (rule partialeq.constraint_intersection)

text \<open>A mode is a variant and the port constraint inside it.\<close>

fun mode_key :: "obfuscation_mode \<Rightarrow> nat \<times> u16 constraint" where
  "mode_key ModeOff = (0, Any)"
| "mode_key (ModePort s) = (1, wgp_port s)"
| "mode_key (ModeUdp2tcp s) = (2, u2t_port s)"
| "mode_key (ModeShadowsocks s) = (3, ss_port s)"
| "mode_key ModeQuic = (4, Any)"
| "mode_key (ModeLwo s) = (5, lwo_port s)"

lemma mode_key_inj: "inj mode_key"
proof (rule injI)
  show "a = b" if "mode_key a = mode_key b" for a b
    using that by (cases a; cases b) simp_all
qed

interpretation obfuscation_mode: intersection obfuscation_mode_inter
proof (rule intersection_via [OF intersection_pair mode_key_inj])
  show "intersection inter_partialeq" by (rule partialeq.intersection_axioms)
  show "intersection port_inter" by (rule port.intersection_axioms)
  show "map_option mode_key (obfuscation_mode_inter a b) =
      inter_pair inter_partialeq port_inter (mode_key a) (mode_key b)" for a b
    by (cases a; cases b)
      (simp_all add: inter_pair_def inter_partialeq_def map_option_case bind_split port_inter_def
        split: option.splits)
qed

interpretation selected: intersection selected_obfuscation_inter
proof
  show "selected_obfuscation_inter a a = Some a" for a
    by (cases a) simp_all
  show "selected_obfuscation_inter a b = selected_obfuscation_inter b a" for a b
    by (cases a; cases b) simp_all
  show "selected_obfuscation_inter a b \<bind> (\<lambda>x. selected_obfuscation_inter x c) =
      selected_obfuscation_inter b c \<bind> selected_obfuscation_inter a" for a b c
    by (cases a; cases b; cases c) simp_all
qed

section \<open>Locations, providers and ownership\<close>

text \<open>The identifier of a custom list is a UUID, 128 bits.\<close>

datatype geographic_location_constraint =
  Country string
| City string string
| Hostname string string string

datatype location_constraint =
  Location geographic_location_constraint
| CustomListId u128

definition glc_is_country :: "geographic_location_constraint \<Rightarrow> bool" where
  "glc_is_country l = (case l of Country _ \<Rightarrow> True | _ \<Rightarrow> False)"

definition glc_get_hostname :: "geographic_location_constraint \<Rightarrow> string option" where
  "glc_get_hostname l = (case l of Hostname _ _ h \<Rightarrow> Some h | _ \<Rightarrow> None)"

definition glc_is_hostname :: "geographic_location_constraint \<Rightarrow> bool" where
  "glc_is_hostname l = (glc_get_hostname l \<noteq> None)"

text \<open>\<open>str::split("-")\<close>: never empty.\<close>

fun split_dash :: "string \<Rightarrow> string list" where
  "split_dash [] = [[]]"
| "split_dash (c # cs) =
     (if c = CHR ''-'' then [] # split_dash cs
      else case split_dash cs of [] \<Rightarrow> [[c]] | x # xs \<Rightarrow> (c # x) # xs)"

fun glc_of_parts :: "string \<Rightarrow> string list \<Rightarrow> string + geographic_location_constraint" where
  "glc_of_parts input [country] = Inr (Country country)"
| "glc_of_parts input [country, city] = Inr (City country city)"
| "glc_of_parts input (country # city # _) = Inr (Hostname country city input)"
| "glc_of_parts input [] = Inl input"

definition glc_from_str :: "string \<Rightarrow> string + geographic_location_constraint" where
  "glc_from_str input = glc_of_parts input (split_dash input)"

lemma split_dash_nonempty: "split_dash s \<noteq> []"
  by (induction s) (auto split: list.splits)

lemma glc_from_str_total: "\<exists>l. glc_from_str s = Inr l"
  unfolding glc_from_str_def
  by (cases "(s, split_dash s)" rule: glc_of_parts.cases) (use split_dash_nonempty in auto)

datatype ownership = MullvadOwned | Rented

text \<open>\<open>Providers\<close> is a \<open>HashSet\<close>, compared as a set; \<open>Providers::new\<close> refuses an empty one.\<close>

record providers =
  providers :: "string set"

definition providers_new :: "string list \<Rightarrow> unit + providers" where
  "providers_new ps = (let s = set ps in if s \<noteq> {} then Inr \<lparr>providers = s\<rparr> else Inl ())"

definition ownership_from_str :: "string \<Rightarrow> unit + ownership" where
  "ownership_from_str s =
     (if s = ''owned'' \<or> s = ''mullvad-owned'' then Inr MullvadOwned
      else if s = ''rented'' then Inr Rented else Inl ())"

section \<open>Constraints on the entry and the exit\<close>

record exit_constraints =
  ex_location :: "location_constraint constraint"
  ex_providers :: "providers constraint"
  ex_ownership :: "ownership constraint"

record entry_specific_constraints =
  es_obfuscation :: "obfuscation_mode constraint"
  es_daita :: "bool constraint"
  es_ip_version :: "ip_version constraint"

record entry_constraints =
  ec_general :: exit_constraints
  ec_entry_specific :: entry_specific_constraints

record multihop_constraints =
  mh_entry :: entry_constraints
  mh_exit :: exit_constraints

definition exit_constraints_default :: exit_constraints where
  "exit_constraints_default = \<lparr>ex_location = Any, ex_providers = Any, ex_ownership = Any\<rparr>"

definition entry_specific_default :: entry_specific_constraints where
  "entry_specific_default = \<lparr>es_obfuscation = Any, es_daita = Any, es_ip_version = Any\<rparr>"

definition entry_constraints_default :: entry_constraints where
  "entry_constraints_default =
     \<lparr>ec_general = exit_constraints_default, ec_entry_specific = entry_specific_default\<rparr>"

definition es_with_obfuscation ::
  "entry_specific_constraints \<Rightarrow> obfuscation_mode \<Rightarrow> entry_specific_constraints" where
  "es_with_obfuscation c mode = c\<lparr>es_obfuscation := Only mode\<rparr>"

definition es_with_ip_version ::
  "entry_specific_constraints \<Rightarrow> ip_version \<Rightarrow> entry_specific_constraints" where
  "es_with_ip_version c v = c\<lparr>es_ip_version := Only v\<rparr>"

definition es_shadowsocks :: entry_specific_constraints where
  "es_shadowsocks = es_with_obfuscation entry_specific_default (ModeShadowsocks \<lparr>ss_port = Any\<rparr>)"

definition es_quic :: entry_specific_constraints where
  "es_quic = es_with_obfuscation entry_specific_default ModeQuic"

definition es_udp2tcp :: entry_specific_constraints where
  "es_udp2tcp = es_with_obfuscation entry_specific_default (ModeUdp2tcp \<lparr>u2t_port = Any\<rparr>)"

definition es_lwo :: entry_specific_constraints where
  "es_lwo = es_with_obfuscation entry_specific_default (ModeLwo \<lparr>lwo_port = Any\<rparr>)"

definition into_autohop :: "entry_constraints \<Rightarrow> multihop_constraints" where
  "into_autohop c =
     \<lparr>mh_entry = \<lparr>ec_general = \<lparr>ex_location = Any, ex_providers = ex_providers (ec_general c),
                               ex_ownership = ex_ownership (ec_general c)\<rparr>,
                 ec_entry_specific = ec_entry_specific c\<rparr>,
      mh_exit = ec_general c\<rparr>"

definition exit_constraints_inter ::
  "exit_constraints \<Rightarrow> exit_constraints \<Rightarrow> exit_constraints option" where
  "exit_constraints_inter a b = do {
     location \<leftarrow> constraint_inter inter_partialeq (ex_location a) (ex_location b);
     providers \<leftarrow> constraint_inter inter_partialeq (ex_providers a) (ex_providers b);
     ownership \<leftarrow> constraint_inter inter_partialeq (ex_ownership a) (ex_ownership b);
     Some \<lparr>ex_location = location, ex_providers = providers, ex_ownership = ownership\<rparr> }"

definition entry_specific_inter ::
  "entry_specific_constraints \<Rightarrow> entry_specific_constraints \<Rightarrow> entry_specific_constraints option" where
  "entry_specific_inter a b = do {
     obfuscation \<leftarrow> constraint_inter obfuscation_mode_inter (es_obfuscation a) (es_obfuscation b);
     daita \<leftarrow> constraint_inter inter_partialeq (es_daita a) (es_daita b);
     ip_version \<leftarrow> constraint_inter inter_partialeq (es_ip_version a) (es_ip_version b);
     Some \<lparr>es_obfuscation = obfuscation, es_daita = daita, es_ip_version = ip_version\<rparr> }"

definition entry_constraints_inter ::
  "entry_constraints \<Rightarrow> entry_constraints \<Rightarrow> entry_constraints option" where
  "entry_constraints_inter a b = do {
     general \<leftarrow> exit_constraints_inter (ec_general a) (ec_general b);
     entry_specific \<leftarrow> entry_specific_inter (ec_entry_specific a) (ec_entry_specific b);
     Some \<lparr>ec_general = general, ec_entry_specific = entry_specific\<rparr> }"

interpretation obfuscation_constraint: intersection "constraint_inter obfuscation_mode_inter"
  by (rule obfuscation_mode.constraint_intersection)

lemma map_option_bind_Some: "map_option h (x \<bind> f) = x \<bind> (\<lambda>v. map_option h (f v))"
  by (cases x) simp_all

interpretation exit_constraints: intersection exit_constraints_inter
proof (rule intersection_via [OF intersection_pair [OF partialeq_constraint.intersection_axioms
        intersection_pair [OF partialeq_constraint.intersection_axioms
          partialeq_constraint.intersection_axioms]]])
  let ?h = "\<lambda>c :: exit_constraints. (ex_location c, ex_providers c, ex_ownership c)"
  show "inj ?h" by (rule injI) (auto intro: exit_constraints.equality)
  show "map_option ?h (exit_constraints_inter a b) =
      inter_pair (constraint_inter inter_partialeq)
        (inter_pair (constraint_inter inter_partialeq) (constraint_inter inter_partialeq)) (?h a) (?h b)" for a b
    by (simp add: exit_constraints_inter_def inter_pair_def map_option_bind_Some Option.bind_assoc)
qed

interpretation entry_specific: intersection entry_specific_inter
proof (rule intersection_via [OF intersection_pair [OF obfuscation_constraint.intersection_axioms
        intersection_pair [OF partialeq_constraint.intersection_axioms
          partialeq_constraint.intersection_axioms]]])
  let ?h = "\<lambda>c :: entry_specific_constraints. (es_obfuscation c, es_daita c, es_ip_version c)"
  show "inj ?h" by (rule injI) (auto intro: entry_specific_constraints.equality)
  show "map_option ?h (entry_specific_inter a b) =
      inter_pair (constraint_inter obfuscation_mode_inter)
        (inter_pair (constraint_inter inter_partialeq) (constraint_inter inter_partialeq)) (?h a) (?h b)" for a b
    by (simp add: entry_specific_inter_def inter_pair_def map_option_bind_Some Option.bind_assoc)
qed

interpretation entry_constraints: intersection entry_constraints_inter
proof (rule intersection_via [OF intersection_pair [OF exit_constraints.intersection_axioms
        entry_specific.intersection_axioms]])
  let ?h = "\<lambda>c :: entry_constraints. (ec_general c, ec_entry_specific c)"
  show "inj ?h" by (rule injI) (auto intro: entry_constraints.equality)
  show "map_option ?h (entry_constraints_inter a b) =
      inter_pair exit_constraints_inter entry_specific_inter (?h a) (?h b)" for a b
    by (simp add: entry_constraints_inter_def inter_pair_def map_option_bind_Some)
qed

end
