(* ===== verification/Json.thy ===== *)
theory Json
  imports Relay_Constraints "HOL-Library.List_Lexorder" "HOL-Library.Char_ord"
begin

text \<open>
  JSON values as \<open>serde_json::Value\<close> has them, with the accessors that the source uses, and the
  encoding of the few types that are read from and written to settings. An object is a list of fields sorted
  by key, as in a \<open>BTreeMap\<close>. Indexing with brackets panics where the source panics: \<open>None\<close>.
\<close>

section \<open>Values\<close>

datatype json_number = JInt int | JFloat u64

datatype json =
  JNull
| JBool bool
| JNumber json_number
| JString string
| JArray "json list"
| JObject "(string \<times> json) list"

type_synonym json_map = "(string \<times> json) list"

definition obj_get :: "string \<Rightarrow> json_map \<Rightarrow> json option" where
  "obj_get k m = map_of m k"

fun obj_insert :: "string \<Rightarrow> json \<Rightarrow> json_map \<Rightarrow> json_map" where
  "obj_insert k v [] = [(k, v)]"
| "obj_insert k v ((k', v') # m) =
     (if k = k' then (k, v) # m else if k < k' then (k, v) # (k', v') # m else (k', v') # obj_insert k v m)"

definition obj_remove :: "string \<Rightarrow> json_map \<Rightarrow> json_map" where
  "obj_remove k m = filter (\<lambda>(k', _). k' \<noteq> k) m"

definition obj_extend :: "json_map \<Rightarrow> json_map \<Rightarrow> json_map" where
  "obj_extend xs m = fold (\<lambda>(k, v). obj_insert k v) xs m"

definition json_get :: "string \<Rightarrow> json \<Rightarrow> json option" where
  "json_get k v = (case v of JObject m \<Rightarrow> obj_get k m | _ \<Rightarrow> None)"

definition as_object :: "json \<Rightarrow> json_map option" where
  "as_object v = (case v of JObject m \<Rightarrow> Some m | _ \<Rightarrow> None)"

definition as_array :: "json \<Rightarrow> json list option" where
  "as_array v = (case v of JArray xs \<Rightarrow> Some xs | _ \<Rightarrow> None)"

definition as_str :: "json \<Rightarrow> string option" where
  "as_str v = (case v of JString s \<Rightarrow> Some s | _ \<Rightarrow> None)"

definition as_bool :: "json \<Rightarrow> bool option" where
  "as_bool v = (case v of JBool b \<Rightarrow> Some b | _ \<Rightarrow> None)"

definition as_u64 :: "json \<Rightarrow> nat option" where
  "as_u64 v = (case v of JNumber (JInt n) \<Rightarrow> if 0 \<le> n \<and> n < 2 ^ 64 then Some (nat n) else None | _ \<Rightarrow> None)"

text \<open>\<open>get(a)?.get(b)? ...\<close>\<close>

fun json_path :: "string list \<Rightarrow> json \<Rightarrow> json option" where
  "json_path [] v = Some v"
| "json_path (k # ks) v = Option.bind (json_get k v) (json_path ks)"

text \<open>\<open>get_mut(a)?.get_mut(b)? ...\<close> and a change at that place; without the place, nothing changes.\<close>

fun json_put :: "string list \<Rightarrow> json \<Rightarrow> json \<Rightarrow> json" where
  "json_put [] x v = x"
| "json_put (k # ks) x v =
     (case v of
        JObject m \<Rightarrow> JObject (obj_insert k (json_put ks x (case obj_get k m of Some y \<Rightarrow> y | None \<Rightarrow> JNull)) m)
      | _ \<Rightarrow> v)"

definition json_update :: "string list \<Rightarrow> (json \<Rightarrow> 'e + json) \<Rightarrow> json \<Rightarrow> 'e + json" where
  "json_update ks f v =
     (case json_path ks v of
        None \<Rightarrow> Inr v
      | Some x \<Rightarrow> and_then (f x) (\<lambda>y. Inr (json_put ks y v)))"

text \<open>
  \<open>v[a][b] ... = x\<close>: a missing field is created, a null becomes an object, and any other value panics.
\<close>

fun json_assign :: "string list \<Rightarrow> json \<Rightarrow> json \<Rightarrow> json option" where
  "json_assign [] x v = Some x"
| "json_assign (k # ks) x v =
     (case v of
        JNull \<Rightarrow> map_option (\<lambda>y. JObject [(k, y)]) (json_assign ks x JNull)
      | JObject m \<Rightarrow>
          map_option (\<lambda>y. JObject (obj_insert k y m))
            (json_assign ks x (case obj_get k m of Some y \<Rightarrow> y | None \<Rightarrow> JNull))
      | _ \<Rightarrow> None)"

text \<open>A loop over an array whose body may fail.\<close>

fun try_map :: "('a \<Rightarrow> 'e + 'b) \<Rightarrow> 'a list \<Rightarrow> 'e + 'b list" where
  "try_map f [] = Inr []"
| "try_map f (x # xs) = and_then (f x) (\<lambda>y. and_then (try_map f xs) (\<lambda>ys. Inr (y # ys)))"

section \<open>Encoding and decoding\<close>

text \<open>
  Derived decoders. A variant of an enum is a string, or an object with the variant as its only
  field; a struct is an object or an array of its fields.
\<close>

definition json_variant :: "json \<Rightarrow> (string \<times> json option) option" where
  "json_variant v =
     (case v of JString s \<Rightarrow> Some (s, None) | JObject [(k, x)] \<Rightarrow> Some (k, Some x) | _ \<Rightarrow> None)"

definition unit_variant :: "json option \<Rightarrow> bool" where
  "unit_variant x = (x = None \<or> x = Some JNull)"

definition json_constraint :: "(json \<Rightarrow> 'a option) \<Rightarrow> json \<Rightarrow> 'a constraint option" where
  "json_constraint dec v =
     (case json_variant v of
        Some (tag, x) \<Rightarrow>
          if tag = ''any'' \<and> unit_variant x then Some Any
          else if tag = ''only'' then Option.bind x (\<lambda>x. map_option Only (dec x))
          else None
      | None \<Rightarrow> None)"

definition json_of_constraint :: "('a \<Rightarrow> json) \<Rightarrow> 'a constraint \<Rightarrow> json" where
  "json_of_constraint enc c = (case c of Any \<Rightarrow> JString ''any'' | Only x \<Rightarrow> JObject [(''only'', enc x)])"

definition json_u16 :: "json \<Rightarrow> u16 option" where
  "json_u16 v =
     (case v of JNumber (JInt n) \<Rightarrow> if 0 \<le> n \<and> n < 2 ^ 16 then Some (word_of_int n) else None | _ \<Rightarrow> None)"

definition json_of_u16 :: "u16 \<Rightarrow> json" where
  "json_of_u16 n = JNumber (JInt (uint n))"

definition json_transport_protocol :: "json \<Rightarrow> transport_protocol option" where
  "json_transport_protocol v =
     (case json_variant v of
        Some (tag, x) \<Rightarrow>
          if \<not> unit_variant x then None
          else if tag = ''udp'' then Some Udp else if tag = ''tcp'' then Some Tcp else None
      | None \<Rightarrow> None)"

definition json_of_transport_protocol :: "transport_protocol \<Rightarrow> json" where
  "json_of_transport_protocol p = JString (case p of Udp \<Rightarrow> ''udp'' | Tcp \<Rightarrow> ''tcp'')"

section \<open>Laws\<close>

lemma json_get_simps [simp]:
  "json_get k (JObject m) = obj_get k m" "json_get k JNull = None" "json_get k (JBool b) = None"
  "json_get k (JNumber n) = None" "json_get k (JString s) = None" "json_get k (JArray xs) = None"
  by (simp_all add: json_get_def)

lemma json_get_Some: "json_get k v = Some x \<longleftrightarrow> (\<exists>m. v = JObject m \<and> obj_get k m = Some x)"
  by (cases v) auto

lemma obj_get_insert [simp]: "obj_get k (obj_insert k' v m) = (if k = k' then Some v else obj_get k m)"
  unfolding obj_get_def by (induction m) auto

lemma obj_get_remove [simp]: "obj_get k (obj_remove k' m) = (if k = k' then None else obj_get k m)"
  unfolding obj_get_def obj_remove_def by (induction m) auto

lemma obj_get_Nil [simp]: "obj_get k [] = None"
  by (simp add: obj_get_def)

lemma obj_get_Cons [simp]: "obj_get k ((k', v) # m) = (if k = k' then Some v else obj_get k m)"
  by (auto simp: obj_get_def)

text \<open>A change below one field leaves the other fields alone, and an object an object.\<close>

definition same_except :: "string set \<Rightarrow> json \<Rightarrow> json \<Rightarrow> bool" where
  "same_except ks v w = (as_object v \<noteq> None \<and> as_object w \<noteq> None \<and> (\<forall>k. k \<notin> ks \<longrightarrow> json_get k w = json_get k v))"

lemma as_object_simps [simp]: "as_object (JObject m) = Some m" "as_object v = Some m \<longleftrightarrow> v = JObject m"
  by (cases v; auto simp: as_object_def)+

lemma same_except_refl: "same_except ks v v \<longleftrightarrow> as_object v \<noteq> None"
  by (simp add: same_except_def)

lemma same_except_trans [trans]: "same_except ks u v \<Longrightarrow> same_except ls v w \<Longrightarrow> same_except (ks \<union> ls) u w"
  by (simp add: same_except_def)

lemma same_except_mono: "same_except ks v w \<Longrightarrow> ks \<subseteq> ls \<Longrightarrow> same_except ls v w"
  by (auto simp: same_except_def)

lemma same_except_get: "same_except ks v w \<Longrightarrow> k \<notin> ks \<Longrightarrow> json_get k w = json_get k v"
  by (simp add: same_except_def)

lemma same_except_insert [simp]: "same_except ks (JObject m) (JObject (obj_insert k x m)) \<longleftrightarrow> k \<in> ks \<or> obj_get k m = Some x"
  by (auto simp: same_except_def)

lemma same_except_update:
  assumes "json_update (k # ks) f v = Inr w" and "as_object v \<noteq> None"
  shows "same_except {k} v w"
  using assms by (auto simp: json_update_def same_except_def as_object_def split: option.splits json.splits)

lemma json_assign_object:
  assumes "json_assign (k # ks) x (JObject m) = Some w"
  shows "same_except {k} (JObject m) w"
  using assms by (auto simp: same_except_def)

lemma json_path_put: "json_path ks v \<noteq> None \<Longrightarrow> json_path ks (json_put ks x v) = Some x"
proof (induction ks arbitrary: v)
  case (Cons k ks)
  then obtain m y where "v = JObject m" "obj_get k m = Some y" "json_path ks y \<noteq> None"
    by (cases v) (auto split: Option.bind_splits)
  with Cons.IH [of y] show ?case by simp
qed simp

lemma json_constraint_roundtrip:
  "(\<And>x. dec (enc x) = Some x) \<Longrightarrow> json_constraint dec (json_of_constraint enc c) = Some c"
  by (cases c) (simp_all add: json_constraint_def json_of_constraint_def json_variant_def unit_variant_def)

lemma json_u16_roundtrip [simp]: "json_u16 (json_of_u16 n) = Some n"
  using uint_range_size [of n] by (simp add: json_u16_def json_of_u16_def word_size)

end
