(* ===== verification/Settings_Patch.thy ===== *)
theory Settings_Patch
  imports Json
begin

text \<open>
  Patches of the settings (\<open>mullvad-daemon/src/settings/patch.rs\<close>): a JSON value is checked against the keys that
  may be changed, merged into the settings, and what comes out is read as settings again. The recursion of the source
  stops at a fixed depth, and so do these functions.
\<close>

section \<open>Errors and permitted keys\<close>

datatype patch_error =
  InvalidOrMissingValue string
| UnknownOrProhibitedKey string
| ParsePatch
| DeserializePatched
| SerializeSettings
| SerializeValue
| RecursionLimit

datatype merge_strategy =
  MergeReplace
| MergeCustom "json \<Rightarrow> json \<Rightarrow> patch_error + json"

datatype permitted_key = PermittedKey (pk_key_type: permitted_key_value) (pk_merge_strategy: merge_strategy)
and permitted_key_value =
  PermittedObject "(string \<times> permitted_key) list"
| PermittedArray permitted_key
| PermittedAny

definition permitted_object :: "(string \<times> permitted_key) list \<Rightarrow> permitted_key" where
  "permitted_object keys = PermittedKey (PermittedObject keys) MergeReplace"

definition permitted_array :: "permitted_key \<Rightarrow> permitted_key" where
  "permitted_array key = PermittedKey (PermittedArray key) MergeReplace"

definition permitted_any :: permitted_key where
  "permitted_any = PermittedKey PermittedAny MergeReplace"

definition with_merge_strategy :: "merge_strategy \<Rightarrow> permitted_key \<Rightarrow> permitted_key" where
  "with_merge_strategy s k = PermittedKey (pk_key_type k) s"

definition RECURSE_LIMIT :: nat where "RECURSE_LIMIT = 15"

section \<open>Merging relay overrides\<close>

definition entry_hostname :: "json \<Rightarrow> string option" where
  "entry_hostname v = Option.bind (json_get ''hostname'' v) as_str"

text \<open>Replace the first element that satisfies a predicate; \<open>None\<close> if there is none.\<close>

fun update_first :: "('a \<Rightarrow> bool) \<Rightarrow> ('a \<Rightarrow> 'a) \<Rightarrow> 'a list \<Rightarrow> 'a list option" where
  "update_first P f [] = None"
| "update_first P f (x # xs) = (if P x then Some (f x # xs) else map_option (Cons x) (update_first P f xs))"

text \<open>An entry that was found by its host name is an object, so the error for other values does not arise.\<close>

definition merge_relay_override :: "json \<Rightarrow> json list \<Rightarrow> patch_error + json list" where
  "merge_relay_override patch_override new_array =
     and_then (of_option (InvalidOrMissingValue ''override entry'') (as_object patch_override)) (\<lambda>patch_obj.
     and_then (of_option (InvalidOrMissingValue ''hostname'') (Option.bind (obj_get ''hostname'' patch_obj) as_str)) (\<lambda>hostname.
     Inr (case update_first (\<lambda>v. entry_hostname v = Some hostname)
                (\<lambda>v. case v of JObject current \<Rightarrow> JObject (obj_extend patch_obj current) | _ \<Rightarrow> v) new_array of
            Some xs \<Rightarrow> xs
          | None \<Rightarrow> new_array @ [patch_override])))"

definition merge_relay_overrides :: "json \<Rightarrow> json \<Rightarrow> patch_error + json" where
  "merge_relay_overrides current patch =
     (if current = JNull then Inr patch
      else
        and_then (of_option (InvalidOrMissingValue ''relay overrides must be array'') (as_array patch)) (\<lambda>patch_array.
        and_then (of_option (InvalidOrMissingValue ''existing overrides should be an array'') (as_array current)) (\<lambda>current_array.
        and_then (try_fold merge_relay_override patch_array current_array) (\<lambda>new_array. Inr (JArray new_array)))))"

definition RELAY_OVERRIDES_KEY :: permitted_key where
  "RELAY_OVERRIDES_KEY =
     with_merge_strategy (MergeCustom merge_relay_overrides)
       (permitted_array (permitted_object
         [(''hostname'', permitted_any), (''ipv4_addr_in'', permitted_any), (''ipv6_addr_in'', permitted_any)]))"

definition PERMITTED_SUBKEYS :: permitted_key where
  "PERMITTED_SUBKEYS = permitted_object [(''relay_overrides'', RELAY_OVERRIDES_KEY)]"

section \<open>Validating and merging\<close>

function validate_patch_value :: "permitted_key \<Rightarrow> json \<Rightarrow> nat \<Rightarrow> patch_error + unit" where
  "validate_patch_value permitted v recurse_level =
     (if RECURSE_LIMIT \<le> recurse_level then Inl RecursionLimit
      else case pk_key_type permitted of
          PermittedObject subkeys \<Rightarrow>
            and_then (of_option (InvalidOrMissingValue ''expected JSON object in patch'') (as_object v)) (\<lambda>m.
            try_fold (\<lambda>(k, v) _.
              case map_of subkeys k of
                None \<Rightarrow> Inl (UnknownOrProhibitedKey k)
              | Some subkey \<Rightarrow> validate_patch_value subkey v (recurse_level + 1)) m ())
        | PermittedArray subkey \<Rightarrow>
            and_then (of_option (InvalidOrMissingValue ''expected JSON array in patch'') (as_array v)) (\<lambda>values.
            try_fold (\<lambda>v _. validate_patch_value subkey v (recurse_level + 1)) values ())
        | PermittedAny \<Rightarrow> Inr ())"
  by pat_completeness auto

termination
  by (relation "measure (\<lambda>(_, _, level). RECURSE_LIMIT - level)") auto

declare validate_patch_value.simps [simp del]

function merge_patch_to_value :: "permitted_key \<Rightarrow> json \<Rightarrow> json \<Rightarrow> nat \<Rightarrow> patch_error + json" where
  "merge_patch_to_value permitted current patch recurse_level =
     (if RECURSE_LIMIT \<le> recurse_level then Inl RecursionLimit
      else case pk_merge_strategy permitted of
          MergeCustom f \<Rightarrow> f current patch
        | MergeReplace \<Rightarrow>
            (case (pk_key_type permitted, current, patch) of
               (PermittedObject subkeys, JObject m, JObject p) \<Rightarrow>
                 and_then (try_fold (\<lambda>(k, sub_patch) m.
                   case map_of subkeys k of
                     None \<Rightarrow> Inl (UnknownOrProhibitedKey k)
                   | Some subkey \<Rightarrow>
                       and_then (merge_patch_to_value subkey (case obj_get k m of Some x \<Rightarrow> x | None \<Rightarrow> JNull) sub_patch
                                   (recurse_level + 1)) (\<lambda>x. Inr (obj_insert k x m))) p m)
                   (\<lambda>m. Inr (JObject m))
             | _ \<Rightarrow> Inr patch))"
  by pat_completeness auto

termination
  by (relation "measure (\<lambda>(_, _, _, level). RECURSE_LIMIT - level)") auto

declare merge_patch_to_value.simps [simp del]

text \<open>
  \<open>to_json\<close> and \<open>from_json\<close> are the derived encoder and decoder of the settings, \<open>parse\<close> is the JSON parser.
\<close>

definition merge_validate_patch_inner ::
  "('s \<Rightarrow> json) \<Rightarrow> (json \<Rightarrow> 's option) \<Rightarrow> (string \<Rightarrow> json option) \<Rightarrow> 's \<Rightarrow> string \<Rightarrow> patch_error + 's" where
  "merge_validate_patch_inner to_json from_json parse settings json_patch =
     and_then (of_option ParsePatch (parse json_patch)) (\<lambda>patch_value.
     and_then (validate_patch_value PERMITTED_SUBKEYS patch_value 0) (\<lambda>_.
     and_then (merge_patch_to_value PERMITTED_SUBKEYS (to_json settings) patch_value 0) (\<lambda>settings_value.
     of_option DeserializePatched (from_json settings_value))))"

section \<open>Export\<close>

text \<open>The overrides are given as their encoder writes them.\<close>

definition export_override :: "json \<Rightarrow> json option" where
  "export_override v =
     (case as_object v of
        None \<Rightarrow> Some v
      | Some m \<Rightarrow>
          (let m = filter (\<lambda>(_, v). v \<noteq> JNull) m in
           if list_ex (\<lambda>(k, _). k \<noteq> ''hostname'') m then Some (JObject m) else None))"

definition export_settings_inner :: "json list \<Rightarrow> json" where
  "export_settings_inner relay_overrides =
     (let overrides = List.map_filter export_override relay_overrides in
      JObject (if overrides = [] then [] else [(''relay_overrides'', JArray overrides)]))"

section \<open>What a patch can change\<close>

lemma validate_top:
  "validate_patch_value PERMITTED_SUBKEYS patch 0 =
     and_then (of_option (InvalidOrMissingValue ''expected JSON object in patch'') (as_object patch)) (\<lambda>m.
     try_fold (\<lambda>(k, v) _. if k = ''relay_overrides'' then validate_patch_value RELAY_OVERRIDES_KEY v 1
       else Inl (UnknownOrProhibitedKey k)) m ())"
  by (subst validate_patch_value.simps)
    (auto simp: PERMITTED_SUBKEYS_def permitted_object_def RECURSE_LIMIT_def intro!: arg_cong2 [of _ _ _ _ and_then] try_fold_cong)

lemma merge_top:
  "merge_patch_to_value PERMITTED_SUBKEYS (JObject m) (JObject p) 0 =
     and_then (try_fold (\<lambda>(k, v) m. if k = ''relay_overrides''
         then and_then (merge_relay_overrides (case obj_get k m of Some x \<Rightarrow> x | None \<Rightarrow> JNull) v) (\<lambda>x. Inr (obj_insert k x m))
         else Inl (UnknownOrProhibitedKey k)) p m) (\<lambda>m. Inr (JObject m))"
proof -
  have "merge_patch_to_value RELAY_OVERRIDES_KEY x v (Suc 0) = merge_relay_overrides x v" for x v
    by (subst merge_patch_to_value.simps) (simp add: RELAY_OVERRIDES_KEY_def with_merge_strategy_def RECURSE_LIMIT_def)
  then show ?thesis
    by (subst merge_patch_to_value.simps)
      (auto simp: PERMITTED_SUBKEYS_def permitted_object_def RECURSE_LIMIT_def intro!: arg_cong2 [of _ _ _ _ and_then] try_fold_cong)
qed

lemma merge_fields:
  "try_fold (\<lambda>(k, v) m. if k = l then and_then (g k v m) (\<lambda>x. Inr (obj_insert k x m)) else Inl (e k)) p m = Inr m' \<Longrightarrow>
   same_except {l} (JObject m) (JObject m')"
proof (induction p arbitrary: m)
  case (Cons kv p)
  obtain k v where kv: "kv = (k, v)" by fastforce
  with Cons.prems obtain x where k: "k = l" and
    rest: "try_fold (\<lambda>(k, v) m. if k = l then and_then (g k v m) (\<lambda>x. Inr (obj_insert k x m)) else Inl (e k)) p (obj_insert k x m) = Inr m'"
    by (auto split: if_splits)
  from Cons.IH [OF rest] show ?case by (auto simp: same_except_def k)
qed (simp add: same_except_refl)

lemma merge_patch_same_except:
  "merge_patch_to_value PERMITTED_SUBKEYS (JObject m) (JObject p) 0 = Inr w \<Longrightarrow> same_except {''relay_overrides''} (JObject m) w"
  unfolding merge_top by (auto dest: merge_fields)

section \<open>What the overrides are after a merge\<close>

text \<open>The overrides of a relay: the fields of the first entry with its host name.\<close>

definition find_entry :: "string \<Rightarrow> json list \<Rightarrow> json option" where
  "find_entry h xs = find (\<lambda>v. entry_hostname v = Some h) xs"

definition override_of :: "json list \<Rightarrow> string \<Rightarrow> string \<Rightarrow> json option" where
  "override_of xs h k = Option.bind (find_entry h xs) (json_get k)"

text \<open>What one entry of a patch does to the overrides.\<close>

definition apply_override :: "json \<Rightarrow> (string \<Rightarrow> string \<Rightarrow> json option) \<Rightarrow> string \<Rightarrow> string \<Rightarrow> json option" where
  "apply_override p ov h k =
     (if entry_hostname p = Some h then (case json_get k p of Some v \<Rightarrow> Some v | None \<Rightarrow> ov h k) else ov h k)"

text \<open>The entries of a patch are objects with a host name, and, as for every object, no field occurs twice.\<close>

definition patch_entry :: "json \<Rightarrow> bool" where
  "patch_entry p = (entry_hostname p \<noteq> None \<and> (\<forall>m. p = JObject m \<longrightarrow> distinct (map fst m)))"

lemma obj_get_extend: "distinct (map fst p) \<Longrightarrow> obj_get k (obj_extend p m) = (case obj_get k p of Some v \<Rightarrow> Some v | None \<Rightarrow> obj_get k m)"
  unfolding obj_extend_def
proof (induction p arbitrary: m)
  case (Cons kv p)
  obtain l v where kv: "kv = (l, v)" by fastforce
  have "obj_get l p = None" using Cons.prems by (auto simp: kv obj_get_def map_of_eq_None_iff)
  with Cons show ?case by (auto simp: kv split: option.splits)
qed simp

lemma update_first_None: "update_first P f xs = None \<longleftrightarrow> (\<forall>x \<in> set xs. \<not> P x)"
  by (induction xs) auto

lemma update_first_entry:
  assumes "update_first (\<lambda>v. entry_hostname v = Some h') f xs = Some ys"
    and "\<And>x. entry_hostname x = Some h' \<Longrightarrow> entry_hostname (f x) = Some h'"
  shows "find_entry h ys = (if h = h' then map_option f (find_entry h xs) else find_entry h xs)"
  using assms(1)
proof (induction xs arbitrary: ys)
  case (Cons x xs)
  then show ?case
    using assms(2) by (auto simp: find_entry_def split: if_splits)
qed simp

lemma entry_object: "entry_hostname v = Some h \<Longrightarrow> \<exists>m. v = JObject m \<and> obj_get ''hostname'' m = Some (JString h)"
  by (cases v) (auto simp: entry_hostname_def as_str_def split: Option.bind_splits json.splits)

lemma merge_relay_override_exact:
  assumes "patch_entry p"
  shows "\<exists>ys. merge_relay_override p xs = Inr ys \<and> override_of ys = apply_override p (override_of xs)"
proof -
  obtain h where h: "entry_hostname p = Some h" using assms by (auto simp: patch_entry_def)
  then obtain m where m: "p = JObject m" "obj_get ''hostname'' m = Some (JString h)" using entry_object by blast
  have dm: "distinct (map fst m)" using assms m by (simp add: patch_entry_def)
  let ?f = "\<lambda>v. case v of JObject current \<Rightarrow> JObject (obj_extend m current) | _ \<Rightarrow> v"
  have keep: "entry_hostname (?f x) = Some h" if "entry_hostname x = Some h" for x
    using entry_object [OF that] m(2) by (auto simp: entry_hostname_def obj_get_extend [OF dm] as_str_def)
  show ?thesis
  proof (cases "update_first (\<lambda>v. entry_hostname v = Some h) ?f xs")
    case None
    then have none: "find_entry h xs = None" by (simp add: update_first_None find_entry_def find_None_iff)
    have "override_of (xs @ [p]) = apply_override p (override_of xs)"
    proof (intro ext)
      fix h' k
      show "override_of (xs @ [p]) h' k = apply_override p (override_of xs) h' k"
        using none h by (auto simp: override_of_def apply_override_def find_entry_def find_append split: option.splits)
    qed
    then show ?thesis using None m by (simp add: merge_relay_override_def as_str_def)
  next
    case (Some ys)
    have "override_of ys = apply_override p (override_of xs)"
    proof (intro ext)
      fix h' k
      show "override_of ys h' k = apply_override p (override_of xs) h' k"
      proof (cases "h' = h")
        case True
        obtain v where v: "find_entry h xs = Some v"
          using Some update_first_None [of "\<lambda>v. entry_hostname v = Some h" ?f xs]
          by (cases "find_entry h xs") (auto simp: find_entry_def find_None_iff)
        then have "entry_hostname v = Some h" by (auto simp: find_entry_def find_Some_iff)
        then obtain c where "v = JObject c" using entry_object by blast
        with v True h m show ?thesis
          using update_first_entry [OF Some keep, of h']
          by (simp add: override_of_def apply_override_def obj_get_extend [OF dm] split: option.split)
      next
        case False
        then show ?thesis
          using update_first_entry [OF Some keep, of h'] h by (simp add: override_of_def apply_override_def)
      qed
    qed
    then show ?thesis using Some m by (simp add: merge_relay_override_def as_str_def)
  qed
qed

lemma merge_relay_override_error:
  "entry_hostname p = None \<Longrightarrow> \<exists>e. merge_relay_override p xs = Inl (InvalidOrMissingValue e)"
  by (cases p) (auto simp: merge_relay_override_def entry_hostname_def as_object_def of_option_def split: option.splits)

lemma merge_all_overrides:
  "list_all patch_entry ps \<Longrightarrow>
   \<exists>ys. try_fold merge_relay_override ps xs = Inr ys \<and> override_of ys = fold apply_override ps (override_of xs)"
proof (induction ps arbitrary: xs)
  case (Cons p ps)
  then obtain ys where ys: "merge_relay_override p xs = Inr ys" "override_of ys = apply_override p (override_of xs)"
    using merge_relay_override_exact [of p xs] by auto
  with Cons show ?case using Cons.IH [of ys] by simp
qed simp

lemma merge_overrides_exact:
  assumes "list_all patch_entry ps"
  shows "\<exists>ys. merge_relay_overrides (JArray xs) (JArray ps) = Inr (JArray ys) \<and>
    override_of ys = fold apply_override ps (override_of xs)"
  using merge_all_overrides [OF assms, of xs] by (auto simp: merge_relay_overrides_def as_array_def)

lemma merge_single_field:
  assumes "obj_get ''relay_overrides'' m = Some (JArray xs)" and "list_all patch_entry ps"
  shows "\<exists>ys. merge_patch_to_value PERMITTED_SUBKEYS (JObject m) (JObject [(''relay_overrides'', JArray ps)]) 0 =
      Inr (JObject (obj_insert ''relay_overrides'' (JArray ys) m)) \<and> override_of ys = fold apply_override ps (override_of xs)"
  using merge_overrides_exact [OF assms(2), of xs] assms(1) unfolding merge_top by auto

section \<open>Exporting\<close>

text \<open>What the encoder of an override writes: the host name and the addresses, which may be null.\<close>

definition encoded_override :: "json \<Rightarrow> bool" where
  "encoded_override v =
     (\<exists>m. v = JObject m \<and> map fst m = [''hostname'', ''ipv4_addr_in'', ''ipv6_addr_in''] \<and> entry_hostname v \<noteq> None)"

lemma encoded_overrideE:
  assumes "encoded_override v"
  obtains h a b where "v = JObject [(''hostname'', JString h), (''ipv4_addr_in'', a), (''ipv6_addr_in'', b)]"
proof -
  obtain m where m: "v = JObject m" "map fst m = [''hostname'', ''ipv4_addr_in'', ''ipv6_addr_in'']" "entry_hostname v \<noteq> None"
    using assms by (auto simp: encoded_override_def)
  then obtain x a b where x: "m = [(''hostname'', x), (''ipv4_addr_in'', a), (''ipv6_addr_in'', b)]"
    by (auto simp: map_eq_Cons_conv)
  with m entry_object obtain h where "x = JString h" by fastforce
  with x m(1) that show ?thesis by blast
qed

lemma export_override_entry:
  assumes "encoded_override v" and "export_override v = Some w"
  shows "entry_hostname w = entry_hostname v" and "patch_entry w"
    and "json_get k w = (if json_get k v = Some JNull then None else json_get k v)"
    and "\<exists>m. w = JObject m \<and> set (map fst m) \<subseteq> {''hostname'', ''ipv4_addr_in'', ''ipv6_addr_in''}"
proof -
  obtain h a b where v: "v = JObject [(''hostname'', JString h), (''ipv4_addr_in'', a), (''ipv6_addr_in'', b)]"
    by (rule encoded_overrideE [OF assms(1)])
  have "w = JObject (filter (\<lambda>(_, x). x \<noteq> JNull) [(''hostname'', JString h), (''ipv4_addr_in'', a), (''ipv6_addr_in'', b)])"
    using assms(2) by (simp add: v export_override_def Let_def split: if_splits)
  then show "entry_hostname w = entry_hostname v" "patch_entry w"
    "json_get k w = (if json_get k v = Some JNull then None else json_get k v)"
    "\<exists>m. w = JObject m \<and> set (map fst m) \<subseteq> {''hostname'', ''ipv4_addr_in'', ''ipv6_addr_in''}"
    unfolding v by (cases "a = JNull"; cases "b = JNull"; simp add: entry_hostname_def patch_entry_def as_str_def)+
qed

lemma validate_overrides:
  assumes "\<And>p. p \<in> set ps \<Longrightarrow> \<exists>m. p = JObject m \<and> set (map fst m) \<subseteq> {''hostname'', ''ipv4_addr_in'', ''ipv6_addr_in''}"
  shows "validate_patch_value RELAY_OVERRIDES_KEY (JArray ps) 1 = Inr ()"
proof -
  let ?entry = "permitted_object [(''hostname'', permitted_any), (''ipv4_addr_in'', permitted_any), (''ipv6_addr_in'', permitted_any)]"
  have any: "validate_patch_value permitted_any v (2 + 1) = Inr ()" for v
    by (subst validate_patch_value.simps) (simp add: permitted_any_def RECURSE_LIMIT_def)
  have entry: "validate_patch_value ?entry p 2 = Inr ()" if p: "p \<in> set ps" for p
  proof -
    obtain m where m: "p = JObject m" "set (map fst m) \<subseteq> {''hostname'', ''ipv4_addr_in'', ''ipv6_addr_in''}"
      using assms [OF p] by blast
    have "try_fold (\<lambda>(k, v) _. case map_of [(''hostname'', permitted_any), (''ipv4_addr_in'', permitted_any),
          (''ipv6_addr_in'', permitted_any)] k of None \<Rightarrow> Inl (UnknownOrProhibitedKey k)
        | Some subkey \<Rightarrow> validate_patch_value subkey v (2 + 1)) m () = Inr ()"
      using m(2) any by (induction m) auto
    then show ?thesis
      by (subst validate_patch_value.simps) (simp add: permitted_object_def m RECURSE_LIMIT_def)
  qed
  have "try_fold (\<lambda>v _. validate_patch_value ?entry v 2) ps () = Inr ()"
    using entry by (induction ps) (auto simp: assms)
  then show ?thesis
    by (subst validate_patch_value.simps)
      (simp add: RELAY_OVERRIDES_KEY_def with_merge_strategy_def permitted_array_def as_array_def RECURSE_LIMIT_def numeral_2_eq_2)
qed

lemma export_validates:
  assumes "list_all encoded_override xs"
  shows "validate_patch_value PERMITTED_SUBKEYS (export_settings_inner xs) 0 = Inr ()"
proof -
  have "\<exists>m. p = JObject m \<and> set (map fst m) \<subseteq> {''hostname'', ''ipv4_addr_in'', ''ipv6_addr_in''}"
    if p: "p \<in> set (List.map_filter export_override xs)" for p
  proof -
    obtain v where "v \<in> set xs" "export_override v = Some p"
      using p by (auto simp: set_map_filter)
    with assms export_override_entry(4) show ?thesis by (auto simp: list_all_iff)
  qed
  then show ?thesis
    using validate_overrides by (simp add: validate_top export_settings_inner_def Let_def)
qed

text \<open>Applying entries with distinct host names: each host has the fields of its entry.\<close>

lemma fold_apply_distinct:
  assumes "distinct (map entry_hostname ps)"
  shows "fold apply_override ps ov h k =
    (case find_entry h ps of
       Some p \<Rightarrow> (case json_get k p of Some v \<Rightarrow> Some v | None \<Rightarrow> ov h k) | None \<Rightarrow> ov h k)"
  using assms
proof (induction ps arbitrary: ov)
  case (Cons p ps)
  have "find_entry h ps = None" if "entry_hostname p = Some h"
    using Cons.prems that by (auto simp: find_entry_def find_None_iff image_iff)
  then show ?case
    using Cons by (auto simp: apply_override_def find_entry_def split: option.splits)
qed (simp add: find_entry_def)

lemma exported_entries:
  assumes "list_all encoded_override xs" and "distinct (map entry_hostname xs)"
  shows "list_all patch_entry (List.map_filter export_override xs)"
    and "distinct (map entry_hostname (List.map_filter export_override xs))"
    and "find_entry h (List.map_filter export_override xs) = Option.bind (find_entry h xs) export_override"
proof -
  show "list_all patch_entry (List.map_filter export_override xs)"
    using assms(1) export_override_entry(2) by (induction xs) (auto simp: map_filter_simps split: option.splits)
  have sub: "entry_hostname ` set (List.map_filter export_override ys) \<subseteq> entry_hostname ` set ys"
    if "list_all encoded_override ys" for ys
    using that export_override_entry(1) by (induction ys) (auto simp: map_filter_simps split: option.splits)
  show "distinct (map entry_hostname (List.map_filter export_override xs))"
    using assms sub export_override_entry(1)
    by (induction xs) (fastforce simp: map_filter_simps split: option.splits)+
  show "find_entry h (List.map_filter export_override xs) = Option.bind (find_entry h xs) export_override"
    using assms
  proof (induction xs)
    case (Cons x xs)
    have none: "find_entry h (List.map_filter export_override xs) = None" if "entry_hostname x = Some h"
    proof -
      have "Some h \<notin> entry_hostname ` set (List.map_filter export_override xs)"
        using sub [of xs] Cons.prems that by auto
      then show ?thesis by (force simp: find_entry_def find_None_iff)
    qed
    show ?case
      using Cons none export_override_entry(1) [of x]
      by (auto simp: find_entry_def map_filter_simps split: option.splits)
  qed (simp add: find_entry_def map_filter_simps)
qed

end
