(* ===== verification/Relay_List.thy ===== *)
theory Relay_List
  imports Relay_Constraints
begin

text \<open>
  The relay list of the API (\<open>mullvad-types/src/relay_list.rs\<close>), the matching of a relay against
  constraints (\<open>relay_constraints.rs\<close>), the user's address overrides, and the custom lists of
  locations (\<open>custom_list.rs\<close>).

  Floating point numbers are their 64-bit patterns. A \<open>HashSet\<close> of addresses is the list of its
  elements in the order of its iterator. The hash map of overrides is a map.
\<close>

section \<open>Locations\<close>

type_synonym f64 = "64 word"

record location =
  loc_country :: string
  loc_country_code :: string
  loc_city :: string
  loc_city_code :: string
  latitude :: f64
  longitude :: f64

definition has_same_city :: "location \<Rightarrow> location \<Rightarrow> bool" where
  "has_same_city a b = (loc_country_code a = loc_country_code b \<and> loc_city_code a = loc_city_code b)"

text \<open>
  \<open>haversine_dist_deg\<close> is trigonometry of the platform's mathematics library and a parameter;
  \<open>distance_from\<close> passes it the coordinates of both locations.
\<close>

type_synonym haversine = "f64 \<Rightarrow> f64 \<Rightarrow> f64 \<Rightarrow> f64 \<Rightarrow> f64"

definition distance_from :: "haversine \<Rightarrow> location \<Rightarrow> location \<Rightarrow> f64" where
  "distance_from haversine_dist_deg self other =
     haversine_dist_deg (latitude self) (longitude self) (latitude other) (longitude other)"

section \<open>Relays\<close>

record quic =
  q_addr_in :: "ip_addr list"
  q_token :: string
  q_domain :: string

definition quic_in_ipv4 :: "quic \<Rightarrow> u32 list" where
  "quic_in_ipv4 q = List.map_filter (\<lambda>a. case a of IpV4 x \<Rightarrow> Some x | IpV6 _ \<Rightarrow> None) (q_addr_in q)"

definition quic_in_ipv6 :: "quic \<Rightarrow> u128 list" where
  "quic_in_ipv6 q = List.map_filter (\<lambda>a. case a of IpV4 _ \<Rightarrow> None | IpV6 x \<Rightarrow> Some x) (q_addr_in q)"

definition quic_port :: u16 where
  "quic_port = 443"

record wireguard_relay_endpoint_data =
  wre_public_key :: wg_key
  wre_daita :: bool
  wre_quic :: "quic option"
  wre_lwo :: bool
  wre_shadowsocks_extra_addr_in :: "ip_addr list"

record relay =
  hostname :: string
  ipv4_addr_in :: u32
  ipv6_addr_in :: "u128 option"
  active :: bool
  weight :: u64
  rl_location :: location

text \<open>A \<open>WireguardRelay\<close> dereferences to the \<open>Relay\<close> inside, so it extends that record.\<close>

record wireguard_relay = relay +
  overridden_ipv4 :: bool
  overridden_ipv6 :: bool
  include_in_country :: bool
  owned :: bool
  provider :: string
  endpoint_data :: wireguard_relay_endpoint_data

text \<open>\<open>impl PartialEq for Relay\<close> and \<open>WireguardRelay\<close>: relays are told apart by their host name.\<close>

definition relay_eq :: "'a relay_scheme \<Rightarrow> 'b relay_scheme \<Rightarrow> bool" where
  "relay_eq a b = (hostname a = hostname b)"

record endpoint_data =
  ed_port_ranges :: "(u16 \<times> u16) list"
  ed_ipv4_gateway :: u32
  ed_ipv6_gateway :: u128
  ed_shadowsocks_port_ranges :: "(u16 \<times> u16) list"
  ed_udp2tcp_ports :: "u16 list"

record relay_list_city =
  rlc_name :: string
  rlc_code :: string
  rlc_latitude :: f64
  rlc_longitude :: f64
  rlc_relays :: "wireguard_relay list"

record relay_list_country =
  rlo_name :: string
  rlo_code :: string
  rlo_cities :: "relay_list_city list"

record relay_list =
  rl_countries :: "relay_list_country list"
  rl_wireguard :: endpoint_data

definition relay_list_relays :: "relay_list \<Rightarrow> wireguard_relay list" where
  "relay_list_relays l =
     concat (map rlc_relays (concat (map rlo_cities (rl_countries l))))"

definition lookup_country :: "relay_list \<Rightarrow> string \<Rightarrow> relay_list_country option" where
  "lookup_country l code = find (\<lambda>c. rlo_code c = code) (rl_countries l)"

definition lookup_city :: "relay_list_country \<Rightarrow> string \<Rightarrow> relay_list_city option" where
  "lookup_city c code = find (\<lambda>city. rlc_code city = code) (rlo_cities c)"

definition lookup_country_code_by_name :: "relay_list \<Rightarrow> string \<Rightarrow> string option" where
  "lookup_country_code_by_name l name =
     map_option rlo_code (find (\<lambda>c. rlo_name c = name) (rl_countries l))"

section \<open>Matching relays against constraints\<close>

fun glc_matches :: "geographic_location_constraint \<Rightarrow> wireguard_relay \<Rightarrow> bool" where
  "glc_matches (Country country) r = (loc_country_code (rl_location r) = country)"
| "glc_matches (City country city) r =
     (loc_country_code (rl_location r) = country \<and> loc_city_code (rl_location r) = city)"
| "glc_matches (Hostname country city host) r =
     (loc_country_code (rl_location r) = country \<and> loc_city_code (rl_location r) = city \<and>
      hostname r = host)"

definition ownership_matches :: "ownership \<Rightarrow> wireguard_relay \<Rightarrow> bool" where
  "ownership_matches o' r = (case o' of MullvadOwned \<Rightarrow> owned r | Rented \<Rightarrow> \<not> owned r)"

definition providers_matches :: "providers \<Rightarrow> wireguard_relay \<Rightarrow> bool" where
  "providers_matches p r = (provider r \<in> providers p)"

section \<open>Address overrides\<close>

record relay_override =
  ro_hostname :: string
  ro_ipv4_addr_in :: "u32 option"
  ro_ipv6_addr_in :: "u128 option"

definition override_empty :: "string \<Rightarrow> relay_override" where
  "override_empty h = \<lparr>ro_hostname = h, ro_ipv4_addr_in = None, ro_ipv6_addr_in = None\<rparr>"

definition override_is_empty :: "relay_override \<Rightarrow> bool" where
  "override_is_empty o' = (o' = override_empty (ro_hostname o'))"

definition override_ipv4 :: "u32 \<Rightarrow> wireguard_relay \<Rightarrow> wireguard_relay" where
  "override_ipv4 a r = r\<lparr>ipv4_addr_in := a, overridden_ipv4 := True\<rparr>"

definition override_ipv6 :: "u128 \<Rightarrow> wireguard_relay \<Rightarrow> wireguard_relay" where
  "override_ipv6 a r = r\<lparr>ipv6_addr_in := Some a, overridden_ipv6 := True\<rparr>"

definition apply_to_relay :: "relay_override \<Rightarrow> wireguard_relay \<Rightarrow> wireguard_relay" where
  "apply_to_relay o' r =
     (let r = (case ro_ipv4_addr_in o' of Some a \<Rightarrow> override_ipv4 a r | None \<Rightarrow> r);
          r = (case ro_ipv6_addr_in o' of Some a \<Rightarrow> override_ipv6 a r | None \<Rightarrow> r);
          keep = (\<lambda>addr. ro_ipv4_addr_in o' = None \<and> is_ipv4 addr \<or>
                         ro_ipv6_addr_in o' = None \<and> \<not> is_ipv4 addr)
      in r\<lparr>endpoint_data := (endpoint_data r)
           \<lparr>wre_shadowsocks_extra_addr_in :=
              filter keep (wre_shadowsocks_extra_addr_in (endpoint_data r))\<rparr>\<rparr>)"

text \<open>
  The three nested loops of \<open>apply_overrides\<close>, threading the map of overrides not used yet: an
  override applies to the first relay of its name.
\<close>

definition override_step ::
  "relay_list_country \<Rightarrow> relay_list_city \<Rightarrow> wireguard_relay \<Rightarrow> (string \<rightharpoonup> relay_override)
   \<Rightarrow> wireguard_relay \<times> (string \<rightharpoonup> relay_override)" where
  "override_step country city r remaining =
     (let r = r\<lparr>rl_location := \<lparr>loc_country = rlo_name country, loc_country_code = rlo_code country,
                 loc_city = rlc_name city, loc_city_code = rlc_code city,
                 latitude = rlc_latitude city, longitude = rlc_longitude city\<rparr>\<rparr>
      in case remaining (hostname r) of
           Some o' \<Rightarrow> (apply_to_relay o' r, remaining(hostname r := None))
         | None \<Rightarrow> (r, remaining))"

fun map_state :: "('a \<Rightarrow> 's \<Rightarrow> 'b \<times> 's) \<Rightarrow> 'a list \<Rightarrow> 's \<Rightarrow> 'b list \<times> 's" where
  "map_state f [] s = ([], s)"
| "map_state f (x # xs) s = (let (y, s) = f x s; (ys, s) = map_state f xs s in (y # ys, s))"

definition apply_overrides :: "relay_list \<Rightarrow> relay_override list \<Rightarrow> relay_list" where
  "apply_overrides l overrides =
     (let remaining = fold (\<lambda>o' m. m(ro_hostname o' \<mapsto> o')) overrides Map.empty;
          in_city = (\<lambda>country city s.
            let (rs, s) = map_state (override_step country city) (rlc_relays city) s
            in (city\<lparr>rlc_relays := rs\<rparr>, s));
          in_country = (\<lambda>country s.
            let (cities, s) = map_state (in_city country) (rlo_cities country) s
            in (country\<lparr>rlo_cities := cities\<rparr>, s))
      in l\<lparr>rl_countries := fst (map_state in_country (rl_countries l) remaining)\<rparr>)"

section \<open>Custom lists\<close>

datatype custom_list_error = NameTooLong | DuplicateName | ListNotFound | ListExists

record custom_list =
  cl_id :: u128
  cl_name :: string
  cl_locations :: "geographic_location_constraint list"

type_synonym custom_lists_settings = "custom_list list"

definition CUSTOM_LIST_NAME_MAX_SIZE :: nat where
  "CUSTOM_LIST_NAME_MAX_SIZE = 30"

definition custom_list_with_id :: "u128 \<Rightarrow> custom_list" where
  "custom_list_with_id i = \<lparr>cl_id = i, cl_name = [], cl_locations = []\<rparr>"

text \<open>The UUID drawn by \<open>Uuid::new_v4\<close> is an argument; a name is its list of characters.\<close>

definition custom_list_new :: "u128 \<Rightarrow> string \<Rightarrow> custom_list_error + custom_list" where
  "custom_list_new uuid name =
     (if length name > CUSTOM_LIST_NAME_MAX_SIZE then Inl NameTooLong
      else Inr ((custom_list_with_id uuid)\<lparr>cl_name := name\<rparr>))"

definition check_list_name_is_unique ::
  "custom_lists_settings \<Rightarrow> custom_list \<Rightarrow> custom_list_error + unit" where
  "check_list_name_is_unique ls new_list =
     (if list_ex (\<lambda>l. cl_name l = cl_name new_list \<and> cl_id l \<noteq> cl_id new_list) ls
      then Inl DuplicateName else Inr ())"

definition check_if_id_is_unique ::
  "custom_lists_settings \<Rightarrow> custom_list \<Rightarrow> custom_list_error + unit" where
  "check_if_id_is_unique ls new_list =
     (if list_ex (\<lambda>l. cl_id l = cl_id new_list) ls then Inl ListExists else Inr ())"

fun find_index :: "('a \<Rightarrow> bool) \<Rightarrow> 'a list \<Rightarrow> nat option" where
  "find_index P [] = None"
| "find_index P (x # xs) = (if P x then Some 0 else map_option Suc (find_index P xs))"

definition find_list_index :: "custom_lists_settings \<Rightarrow> u128 \<Rightarrow> nat option" where
  "find_list_index ls i = find_index (\<lambda>l. cl_id l = i) ls"

text \<open>\<open>Vec::remove\<close> at an index that is in range.\<close>

definition vec_remove :: "nat \<Rightarrow> 'a list \<Rightarrow> 'a list" where
  "vec_remove i xs = take i xs @ drop (Suc i) xs"

definition custom_lists_add ::
  "custom_lists_settings \<Rightarrow> custom_list \<Rightarrow> custom_list_error + custom_lists_settings" where
  "custom_lists_add ls new_list =
     and_then (check_if_id_is_unique ls new_list) (\<lambda>_.
     and_then (check_list_name_is_unique ls new_list) (\<lambda>_.
     Inr (ls @ [new_list])))"

definition custom_lists_remove ::
  "custom_lists_settings \<Rightarrow> u128 \<Rightarrow> custom_list_error + custom_lists_settings" where
  "custom_lists_remove ls i =
     (case find_list_index ls i of
        None \<Rightarrow> Inl ListNotFound
      | Some index \<Rightarrow> Inr (vec_remove index ls))"

definition custom_lists_clear :: "custom_lists_settings \<Rightarrow> custom_lists_settings" where
  "custom_lists_clear ls = []"

definition custom_lists_update ::
  "custom_lists_settings \<Rightarrow> custom_list \<Rightarrow> custom_list_error + custom_lists_settings" where
  "custom_lists_update ls new_list =
     and_then (of_option ListNotFound (find_list_index ls (cl_id new_list))) (\<lambda>index.
     and_then (check_list_name_is_unique ls new_list) (\<lambda>_.
     Inr (ls[index := new_list])))"

section \<open>Properties of lists and indices\<close>

lemma find_index_Some:
  "find_index P xs = Some i \<longleftrightarrow> i < length xs \<and> P (xs ! i) \<and> (\<forall>j < i. \<not> P (xs ! j))"
proof (induction xs arbitrary: i)
  case (Cons x xs)
  then show ?case
    by (cases i) (auto simp: less_Suc_eq_0_disj)
qed simp

lemma find_index_None: "find_index P xs = None \<longleftrightarrow> (\<forall>x \<in> set xs. \<not> P x)"
  by (induction xs) auto

lemma vec_remove_index:
  assumes "find_index P xs = Some i"
  shows "\<exists>pre x suf. xs = pre @ x # suf \<and> vec_remove i xs = pre @ suf \<and> P x \<and>
    (\<forall>y \<in> set pre. \<not> P y) \<and> length pre = i"
proof -
  have i: "i < length xs" "P (xs ! i)" "\<forall>j < i. \<not> P (xs ! j)"
    using assms by (auto simp: find_index_Some)
  have "xs = take i xs @ xs ! i # drop (Suc i) xs"
    using i(1) by (simp add: id_take_nth_drop)
  moreover have "\<forall>y \<in> set (take i xs). \<not> P y"
    using i by (auto simp: in_set_conv_nth)
  ultimately show ?thesis
    using i unfolding vec_remove_def
    by (intro exI [of _ "take i xs"] exI [of _ "xs ! i"] exI [of _ "drop (Suc i) xs"]) simp
qed

text \<open>Identifiers are unique and no two lists have the same name.\<close>

definition custom_lists_wf :: "custom_lists_settings \<Rightarrow> bool" where
  "custom_lists_wf ls = (distinct (map cl_id ls) \<and> distinct (map cl_name ls))"

lemma custom_lists_add_Inr:
  "custom_lists_add ls l = Inr ls' \<longleftrightarrow>
     (\<forall>x \<in> set ls. cl_id x \<noteq> cl_id l \<and> cl_name x \<noteq> cl_name l) \<and> ls' = ls @ [l]"
  by (auto simp: custom_lists_add_def check_if_id_is_unique_def check_list_name_is_unique_def
      list_ex_iff split: if_splits)

lemma custom_lists_remove_Inr:
  assumes "custom_lists_remove ls i = Inr ls'"
  shows "\<exists>pre x suf. ls = pre @ x # suf \<and> ls' = pre @ suf \<and> cl_id x = i"
  using assms vec_remove_index [of "\<lambda>l. cl_id l = i" ls]
  unfolding custom_lists_remove_def find_list_index_def
  by (auto split: option.splits)

lemma custom_lists_update_Inr:
  assumes "custom_lists_update ls l = Inr ls'"
  shows "\<exists>pre x suf. ls = pre @ x # suf \<and> ls' = pre @ l # suf \<and> cl_id x = cl_id l \<and>
    (\<forall>y \<in> set ls. cl_name y = cl_name l \<longrightarrow> cl_id y = cl_id l)"
proof -
  obtain i where i: "find_index (\<lambda>x. cl_id x = cl_id l) ls = Some i" and ls': "ls' = ls[i := l]"
    and names: "\<forall>y \<in> set ls. cl_name y = cl_name l \<longrightarrow> cl_id y = cl_id l"
    using assms
    by (auto simp: custom_lists_update_def find_list_index_def check_list_name_is_unique_def
        list_ex_iff split: if_splits)
  from vec_remove_index [OF i] obtain pre x suf
    where "ls = pre @ x # suf" "cl_id x = cl_id l" "length pre = i" by auto
  with ls' have "ls' = pre @ l # suf" by (auto simp: list_update_append)
  with names \<open>ls = pre @ x # suf\<close> \<open>cl_id x = cl_id l\<close> show ?thesis by blast
qed

lemma custom_lists_add_wf:
  "custom_lists_wf ls \<Longrightarrow> custom_lists_add ls l = Inr ls' \<Longrightarrow> custom_lists_wf ls'"
  by (force simp: custom_lists_add_Inr custom_lists_wf_def)

lemma custom_lists_remove_wf:
  "custom_lists_wf ls \<Longrightarrow> custom_lists_remove ls i = Inr ls' \<Longrightarrow> custom_lists_wf ls'"
  by (auto simp: custom_lists_wf_def dest!: custom_lists_remove_Inr)

lemma custom_lists_update_wf:
  assumes wf: "custom_lists_wf ls" and up: "custom_lists_update ls l = Inr ls'"
  shows "custom_lists_wf ls'"
proof -
  obtain pre x suf where ls: "ls = pre @ x # suf" "ls' = pre @ l # suf" "cl_id x = cl_id l"
    and names: "\<forall>y \<in> set ls. cl_name y = cl_name l \<longrightarrow> cl_id y = cl_id l"
    using custom_lists_update_Inr [OF up] by blast
  have "cl_id y \<noteq> cl_id l" if "y \<in> set pre \<union> set suf" for y
    using wf that ls by (auto simp: custom_lists_wf_def) (metis image_eqI)+
  with names wf ls show ?thesis
    by (auto simp: custom_lists_wf_def)
qed

end
