(* ===== verification/Relay_Endpoints.thy ===== *)
theory Relay_Endpoints
  imports Relay_List
begin

text \<open>
  The connection endpoints of a relay (\<open>mullvad-relay-selector/src/relay_selector/endpoint_set.rs\<close>):
  the verdict that filters relays and the choice of a concrete address for an accepted one.

  Random choices are made by the \<open>rand\<close> crate. Its generator is a parameter, one function for each
  place that draws, and \<open>rng_ok\<close> states what the crate documents: \<open>choose\<close> picks an element of a
  non-empty sequence, and \<open>random_range\<close> a number in the range. The feature
  \<open>staggered-obfuscation\<close> is not enabled by default and not modelled.
\<close>

section \<open>Verdicts\<close>

datatype reason =
  ReasonConflict | ReasonDaita | ReasonInactive | ReasonIpVersion | ReasonLocation
| ReasonObfuscation | ReasonOwnership | ReasonPort | ReasonProviders | ReasonIncludeInCountry

datatype relay_verdict = RelayAccept | RelayReject "reason list"

fun verdict_and :: "relay_verdict \<Rightarrow> relay_verdict \<Rightarrow> relay_verdict" where
  "verdict_and RelayAccept RelayAccept = RelayAccept"
| "verdict_and RelayAccept (RelayReject reasons) = RelayReject reasons"
| "verdict_and (RelayReject reasons) RelayAccept = RelayReject reasons"
| "verdict_and (RelayReject left) (RelayReject right) = RelayReject (left @ right)"

definition verdict_reject :: "reason \<Rightarrow> relay_verdict" where
  "verdict_reject r = RelayReject [r]"

definition verdict_all :: "relay_verdict list \<Rightarrow> relay_verdict" where
  "verdict_all vs = foldl verdict_and RelayAccept vs"

definition if_false :: "bool \<Rightarrow> reason \<Rightarrow> relay_verdict" where
  "if_false b r = (if b then RelayAccept else verdict_reject r)"

lemma verdict_and_Accept [simp]: "verdict_and a b = RelayAccept \<longleftrightarrow> a = RelayAccept \<and> b = RelayAccept"
  by (cases "(a, b)" rule: verdict_and.cases) auto

lemma verdict_reject_Accept [simp]: "verdict_reject r \<noteq> RelayAccept"
  by (simp add: verdict_reject_def)

lemma if_false_Accept [simp]: "if_false b r = RelayAccept \<longleftrightarrow> b"
  by (simp add: if_false_def)

lemma foldl_verdict_Accept:
  "foldl verdict_and v vs = RelayAccept \<longleftrightarrow> v = RelayAccept \<and> (\<forall>x \<in> set vs. x = RelayAccept)"
  by (induction vs arbitrary: v) auto

lemma verdict_all_Accept [simp]: "verdict_all vs = RelayAccept \<longleftrightarrow> (\<forall>v \<in> set vs. v = RelayAccept)"
  by (simp add: verdict_all_def foldl_verdict_Accept)

section \<open>The endpoint set of a relay\<close>

datatype endpoint_error = NoMatchingPort | NoMatchingAddresses | MissingSupport

text \<open>A \<open>Vec1\<close> is a list that is not empty: \<open>Vec1::try_from_vec\<close> fails on an empty one.\<close>

definition vec1_try_from_vec :: "'a list \<Rightarrow> 'a list option" where
  "vec1_try_from_vec xs = (if xs = [] then None else Some xs)"

record wireguard_endpoints =
  we_ipv4 :: u32
  we_ipv6 :: "u128 option"
  we_port_ranges :: "(u16 \<times> u16) list"

record shadowsocks_endpoints =
  se_dedicated_addrs :: "ip_addr list"
  se_shadowsocks_port_ranges :: "(u16 \<times> u16) list option"

record quic_endpoints =
  qe_ipv4 :: "u32 list"
  qe_ipv6 :: "u128 list"
  qe_hostname :: string
  qe_auth_token :: string

record relay_endpoint_set =
  res_wireguard :: wireguard_endpoints
  res_shadowsocks :: "shadowsocks_endpoints option"
  res_udp2tcp_ports :: "u16 list option"
  res_quic :: "quic_endpoints option"
  res_lwo :: bool

definition shadowsocks_endpoints_new ::
  "wireguard_relay \<Rightarrow> endpoint_data \<Rightarrow> shadowsocks_endpoints option" where
  "shadowsocks_endpoints_new relay data =
     (let dedicated_addrs = wre_shadowsocks_extra_addr_in (endpoint_data relay);
          ss_port_ranges = ed_shadowsocks_port_ranges data
      in if dedicated_addrs = [] \<and> ss_port_ranges = [] then None
         else Some \<lparr>se_dedicated_addrs = dedicated_addrs,
                    se_shadowsocks_port_ranges = vec1_try_from_vec ss_port_ranges\<rparr>)"

definition quic_endpoints_new :: "wireguard_relay \<Rightarrow> quic_endpoints option" where
  "quic_endpoints_new relay =
     (case wre_quic (endpoint_data relay) of
        None \<Rightarrow> None
      | Some q \<Rightarrow>
          if quic_in_ipv4 q = [] \<and> quic_in_ipv6 q = [] then None
          else Some \<lparr>qe_ipv4 = quic_in_ipv4 q, qe_ipv6 = quic_in_ipv6 q,
                     qe_hostname = q_domain q, qe_auth_token = q_token q\<rparr>)"

definition relay_endpoint_set_new ::
  "wireguard_relay \<Rightarrow> endpoint_data \<Rightarrow> relay_endpoint_set option" where
  "relay_endpoint_set_new relay data =
     map_option (\<lambda>wg_port_ranges.
       \<lparr>res_wireguard = \<lparr>we_ipv4 = ipv4_addr_in relay, we_ipv6 = ipv6_addr_in relay,
                        we_port_ranges = wg_port_ranges\<rparr>,
        res_shadowsocks = shadowsocks_endpoints_new relay data,
        res_udp2tcp_ports = vec1_try_from_vec (ed_udp2tcp_ports data),
        res_quic = quic_endpoints_new relay,
        res_lwo = wre_lwo (endpoint_data relay)\<rparr>)
     (vec1_try_from_vec (ed_port_ranges data))"

section \<open>Filtering\<close>

definition range_contains :: "u16 \<times> u16 \<Rightarrow> u16 \<Rightarrow> bool" where
  "range_contains r p = (fst r \<le> p \<and> p \<le> snd r)"

definition port_in_ranges :: "(u16 \<times> u16) list \<Rightarrow> u16 constraint \<Rightarrow> bool" where
  "port_in_ranges ranges port = is_any_or port (\<lambda>p. list_ex (\<lambda>r. range_contains r p) ranges)"

definition select_ip :: "wireguard_endpoints \<Rightarrow> ip_version constraint \<Rightarrow> ip_addr option" where
  "select_ip wg v = (case v of
       Any \<Rightarrow> Some (IpV4 (we_ipv4 wg))
     | Only V4 \<Rightarrow> Some (IpV4 (we_ipv4 wg))
     | Only V6 \<Rightarrow> map_option IpV6 (we_ipv6 wg))"

definition wg_supports_ip_version :: "wireguard_endpoints \<Rightarrow> ip_version constraint \<Rightarrow> bool" where
  "wg_supports_ip_version wg v = (select_ip wg v \<noteq> None)"

definition wg_supports_port :: "wireguard_endpoints \<Rightarrow> u16 constraint \<Rightarrow> bool" where
  "wg_supports_port wg port = port_in_ranges (we_port_ranges wg) port"

definition has_dedicated_addr :: "shadowsocks_endpoints \<Rightarrow> ip_version constraint \<Rightarrow> bool" where
  "has_dedicated_addr ss v = (case v of
       Any \<Rightarrow> se_dedicated_addrs ss \<noteq> []
     | Only v' \<Rightarrow> list_ex (\<lambda>ip. ip_version_of ip = v') (se_dedicated_addrs ss))"

definition shadowsocks_verdict ::
  "shadowsocks_endpoints \<Rightarrow> wireguard_endpoints \<Rightarrow> ip_version constraint \<Rightarrow> u16 constraint \<Rightarrow> relay_verdict" where
  "shadowsocks_verdict ss wg v port =
     (if has_dedicated_addr ss v then RelayAccept
      else let wg_verdict = (case se_shadowsocks_port_ranges ss of
                 None \<Rightarrow> verdict_reject ReasonObfuscation
               | Some port_ranges \<Rightarrow>
                   verdict_all [if_false (port_in_ranges port_ranges port) ReasonPort,
                                if_false (wg_supports_ip_version wg v) ReasonIpVersion])
           in if wg_verdict \<noteq> RelayAccept \<and> se_dedicated_addrs ss \<noteq> [] then verdict_reject ReasonIpVersion
              else wg_verdict)"

definition quic_supports_ip_version :: "quic_endpoints \<Rightarrow> ip_version constraint \<Rightarrow> bool" where
  "quic_supports_ip_version quic v =
     is_any_or v (\<lambda>v. case v of V4 \<Rightarrow> qe_ipv4 quic \<noteq> [] | V6 \<Rightarrow> qe_ipv6 quic \<noteq> [])"

definition obfuscation_verdict :: "relay_endpoint_set \<Rightarrow> entry_specific_constraints \<Rightarrow> relay_verdict" where
  "obfuscation_verdict self c =
     (let wg = res_wireguard self; v = es_ip_version c;
          ip_ok = if_false (wg_supports_ip_version wg v) ReasonIpVersion
      in case es_obfuscation c of
           Any \<Rightarrow> ip_ok
         | Only ModeOff \<Rightarrow> ip_ok
         | Only (ModePort s) \<Rightarrow>
             verdict_all [if_false (wg_supports_port wg (wgp_port s)) ReasonPort, ip_ok]
         | Only (ModeUdp2tcp s) \<Rightarrow> (case res_udp2tcp_ports self of
               None \<Rightarrow> verdict_reject ReasonObfuscation
             | Some ports \<Rightarrow>
                 verdict_all [if_false (is_any_or (u2t_port s) (\<lambda>p. p \<in> set ports)) ReasonPort, ip_ok])
         | Only (ModeShadowsocks s) \<Rightarrow> (case res_shadowsocks self of
               None \<Rightarrow> verdict_reject ReasonObfuscation
             | Some ss \<Rightarrow> shadowsocks_verdict ss wg v (ss_port s))
         | Only ModeQuic \<Rightarrow> (case res_quic self of
               None \<Rightarrow> verdict_reject ReasonObfuscation
             | Some quic \<Rightarrow> if_false (quic_supports_ip_version quic v) ReasonIpVersion)
         | Only (ModeLwo s) \<Rightarrow>
             verdict_all [if_false (res_lwo self) ReasonObfuscation,
                          if_false (wg_supports_port wg (lwo_port s)) ReasonPort, ip_ok])"

section \<open>Random choices\<close>

record rng =
  rng_relay :: "nat \<Rightarrow> wireguard_relay list \<Rightarrow> wireguard_relay option"
  rng_weight :: "nat \<Rightarrow> u64 \<Rightarrow> u64 \<Rightarrow> u64"
  rng_wg_port :: "u16 list \<Rightarrow> u16 option"
  rng_obfuscator_port :: "u16 list \<Rightarrow> u16 option"
  rng_any_port :: "u16 \<Rightarrow> u16 \<Rightarrow> u16"
  rng_obfuscator_addr :: "ip_addr list \<Rightarrow> ip_addr option"

definition chooses :: "('a list \<Rightarrow> 'a option) \<Rightarrow> bool" where
  "chooses f \<longleftrightarrow> f [] = None \<and> (\<forall>xs. xs \<noteq> [] \<longrightarrow> (\<exists>x \<in> set xs. f xs = Some x))"

definition draws_in_range :: "('a :: linorder \<Rightarrow> 'a \<Rightarrow> 'a) \<Rightarrow> bool" where
  "draws_in_range f \<longleftrightarrow> (\<forall>lo hi. lo \<le> hi \<longrightarrow> lo \<le> f lo hi \<and> f lo hi \<le> hi)"

definition rng_ok :: "rng \<Rightarrow> bool" where
  "rng_ok r \<longleftrightarrow> (\<forall>n. chooses (rng_relay r n)) \<and> (\<forall>n. draws_in_range (rng_weight r n)) \<and>
     chooses (rng_wg_port r) \<and> chooses (rng_obfuscator_port r) \<and> draws_in_range (rng_any_port r) \<and>
     chooses (rng_obfuscator_addr r)"

lemma chooses_Some: "chooses f \<Longrightarrow> f xs = Some x \<Longrightarrow> x \<in> set xs"
  unfolding chooses_def by (cases "xs = []") auto

lemma chooses_None: "chooses f \<Longrightarrow> f xs = None \<longleftrightarrow> xs = []"
  unfolding chooses_def by fastforce

section \<open>Selection of an endpoint\<close>

text \<open>The ports of a range in order; \<open>ranges.iter().cloned().flatten()\<close>. An empty range has none.\<close>

definition range_ports :: "u16 \<times> u16 \<Rightarrow> u16 list" where
  "range_ports r = map of_nat [unat (fst r) ..< Suc (unat (snd r))]"

definition random_port_in_ranges ::
  "(u16 list \<Rightarrow> u16 option) \<Rightarrow> (u16 \<times> u16) list \<Rightarrow> u16 constraint \<Rightarrow> u16 option" where
  "random_port_in_ranges pick ranges port = (case port of
       Only p \<Rightarrow> if list_ex (\<lambda>r. range_contains r p) ranges then Some p else None
     | Any \<Rightarrow> pick (concat (map range_ports ranges)))"

definition wg_random_endpoint ::
  "(u16 list \<Rightarrow> u16 option) \<Rightarrow> wireguard_endpoints \<Rightarrow> ip_version constraint \<Rightarrow> u16 constraint
   \<Rightarrow> socket_addr option" where
  "wg_random_endpoint pick wg v port = do {
     ip \<leftarrow> select_ip wg v;
     port \<leftarrow> random_port_in_ranges pick (we_port_ranges wg) port;
     Some (socket_addr_new ip port) }"

definition ss_random_endpoint ::
  "rng \<Rightarrow> shadowsocks_endpoints \<Rightarrow> wireguard_endpoints \<Rightarrow> ip_version constraint \<Rightarrow> u16 constraint
   \<Rightarrow> socket_addr option" where
  "ss_random_endpoint rng ss wg v port =
     (case rng_obfuscator_addr rng
             (filter (\<lambda>ip. case v of Any \<Rightarrow> True | Only v' \<Rightarrow> ip_version_of ip = v')
               (se_dedicated_addrs ss)) of
        Some ip \<Rightarrow>
          Some (socket_addr_new ip (constraint_unwrap_or port (rng_any_port rng 1 0xFFFF)))
      | None \<Rightarrow> do {
          addr \<leftarrow> select_ip wg v;
          ranges \<leftarrow> se_shadowsocks_port_ranges ss;
          port \<leftarrow> random_port_in_ranges (rng_obfuscator_port rng) ranges port;
          Some (socket_addr_new addr port) })"

definition quic_random_endpoint ::
  "rng \<Rightarrow> quic_endpoints \<Rightarrow> ip_version constraint \<Rightarrow> socket_addr option" where
  "quic_random_endpoint rng quic v =
     (let ipv4 = map IpV4 (qe_ipv4 quic); ipv6 = map IpV6 (qe_ipv6 quic);
          ip = (case v of
                  Only V4 \<Rightarrow> rng_obfuscator_addr rng ipv4
                | Only V6 \<Rightarrow> rng_obfuscator_addr rng ipv6
                | Any \<Rightarrow> (case rng_obfuscator_addr rng ipv4 of
                            Some a \<Rightarrow> Some a
                          | None \<Rightarrow> rng_obfuscator_addr rng ipv6))
      in map_option (\<lambda>ip. socket_addr_new ip quic_port) ip)"

definition udp2tcp_config ::
  "rng \<Rightarrow> relay_endpoint_set \<Rightarrow> ip_addr \<Rightarrow> u16 constraint \<Rightarrow> endpoint_error + obfuscator_config" where
  "udp2tcp_config rng self wg_ip port =
     and_then (of_option MissingSupport (res_udp2tcp_ports self)) (\<lambda>ports.
     and_then (of_option NoMatchingPort (case port of
                   Only p \<Rightarrow> if p \<in> set ports then Some p else None
                 | Any \<Rightarrow> rng_obfuscator_port rng ports)) (\<lambda>port.
     Inr (CfgUdp2Tcp (socket_addr_new wg_ip port))))"

definition lwo_config ::
  "rng \<Rightarrow> relay_endpoint_set \<Rightarrow> ip_addr \<Rightarrow> u16 constraint \<Rightarrow> endpoint_error + obfuscator_config" where
  "lwo_config rng self wg_ip port =
     (if \<not> res_lwo self then Inl MissingSupport
      else and_then (of_option NoMatchingPort
             (random_port_in_ranges (rng_obfuscator_port rng) (we_port_ranges (res_wireguard self)) port)) (\<lambda>port.
           Inr (CfgLwo (socket_addr_new wg_ip port))))"

definition shadowsocks_config ::
  "rng \<Rightarrow> relay_endpoint_set \<Rightarrow> ip_version constraint \<Rightarrow> u16 constraint
   \<Rightarrow> endpoint_error + obfuscator_config" where
  "shadowsocks_config rng self v port =
     and_then (of_option MissingSupport (res_shadowsocks self)) (\<lambda>ss.
     and_then (of_option NoMatchingAddresses (ss_random_endpoint rng ss (res_wireguard self) v port)) (\<lambda>endpoint.
     Inr (CfgShadowsocks endpoint)))"

definition quic_config ::
  "rng \<Rightarrow> relay_endpoint_set \<Rightarrow> ip_version constraint \<Rightarrow> endpoint_error + obfuscator_config" where
  "quic_config rng self v =
     and_then (of_option MissingSupport (res_quic self)) (\<lambda>quic.
     and_then (of_option NoMatchingAddresses (quic_random_endpoint rng quic v)) (\<lambda>endpoint.
     Inr (CfgQuic (qe_hostname quic) endpoint (qe_auth_token quic))))"

definition get_wireguard_obfuscator ::
  "rng \<Rightarrow> relay_endpoint_set \<Rightarrow> obfuscation_mode constraint \<Rightarrow> ip_version constraint
   \<Rightarrow> endpoint_error + (socket_addr \<times> obfuscators option)" where
  "get_wireguard_obfuscator rng self query v =
     (let port = (case query of Only (ModePort s) \<Rightarrow> wgp_port s | _ \<Rightarrow> Any)
      in and_then (of_option NoMatchingAddresses
                    (wg_random_endpoint (rng_wg_port rng) (res_wireguard self) v port)) (\<lambda>endpoint.
           let single = (\<lambda>config. and_then config (\<lambda>c. Inr (endpoint, Some (Single c))))
           in case query of
                Any \<Rightarrow> Inr (endpoint, None)
              | Only ModeOff \<Rightarrow> Inr (endpoint, None)
              | Only (ModePort _) \<Rightarrow> Inr (endpoint, None)
              | Only (ModeUdp2tcp s) \<Rightarrow> single (udp2tcp_config rng self (sock_ip endpoint) (u2t_port s))
              | Only (ModeShadowsocks s) \<Rightarrow> single (shadowsocks_config rng self v (ss_port s))
              | Only ModeQuic \<Rightarrow> single (quic_config rng self v)
              | Only (ModeLwo s) \<Rightarrow> single (lwo_config rng self (sock_ip endpoint) (lwo_port s))))"

section \<open>An accepted relay and its endpoint\<close>

text \<open>
  What a client may expect of the endpoint and the obfuscator chosen for its constraints on the
  address family and the obfuscation.
\<close>

definition obfuscator_serves ::
  "obfuscation_mode constraint \<Rightarrow> ip_version constraint \<Rightarrow> socket_addr \<Rightarrow> obfuscators option \<Rightarrow> bool" where
  "obfuscator_serves query v endpoint obfuscator = (case query of
       Any \<Rightarrow> obfuscator = None
     | Only ModeOff \<Rightarrow> obfuscator = None
     | Only (ModePort s) \<Rightarrow> obfuscator = None \<and> matches_eq (wgp_port s) (sock_port endpoint)
     | Only (ModeUdp2tcp s) \<Rightarrow> (\<exists>a. obfuscator = Some (Single (CfgUdp2Tcp a)) \<and>
         sock_ip a = sock_ip endpoint \<and> matches_eq (u2t_port s) (sock_port a))
     | Only (ModeShadowsocks s) \<Rightarrow> (\<exists>a. obfuscator = Some (Single (CfgShadowsocks a)) \<and>
         matches_eq v (ip_version_of (sock_ip a)) \<and> matches_eq (ss_port s) (sock_port a))
     | Only ModeQuic \<Rightarrow> (\<exists>host a token. obfuscator = Some (Single (CfgQuic host a token)) \<and>
         matches_eq v (ip_version_of (sock_ip a)) \<and> sock_port a = quic_port)
     | Only (ModeLwo s) \<Rightarrow> (\<exists>a. obfuscator = Some (Single (CfgLwo a)) \<and>
         sock_ip a = sock_ip endpoint \<and> matches_eq (lwo_port s) (sock_port a)))"

text \<open>
  The port ranges of a relay list are usable if one of them is not empty: \<open>Vec1\<close> only says that
  there is a range.
\<close>

definition ranges_usable :: "(u16 \<times> u16) list \<Rightarrow> bool" where
  "ranges_usable ranges \<longleftrightarrow> list_ex (\<lambda>r. fst r \<le> snd r) ranges"

definition endpoints_usable :: "relay_endpoint_set \<Rightarrow> bool" where
  "endpoints_usable self \<longleftrightarrow> ranges_usable (we_port_ranges (res_wireguard self)) \<and>
     (\<forall>ss ranges. res_shadowsocks self = Some ss \<longrightarrow> se_shadowsocks_port_ranges ss = Some ranges \<longrightarrow>
        ranges_usable ranges) \<and>
     (\<forall>ports. res_udp2tcp_ports self = Some ports \<longrightarrow> ports \<noteq> []) \<and>
     (\<forall>quic. res_quic self = Some quic \<longrightarrow> qe_ipv4 quic \<noteq> [] \<or> qe_ipv6 quic \<noteq> [])"

lemma matches_eq_simps [simp]: "matches_eq Any x" "matches_eq (Only v) x \<longleftrightarrow> v = x"
  by (simp_all add: matches_eq_def)

lemma set_range_ports [simp]: "p \<in> set (range_ports r) \<longleftrightarrow> range_contains r p"
proof -
  have "p \<in> set (range_ports r) \<longleftrightarrow> (\<exists>n. unat (fst r) \<le> n \<and> n \<le> unat (snd r) \<and> p = of_nat n)"
    by (auto simp: range_ports_def image_iff less_Suc_eq_le)
  also have "\<dots> \<longleftrightarrow> unat (fst r) \<le> unat p \<and> unat p \<le> unat (snd r)"
  proof
    assume "\<exists>n. unat (fst r) \<le> n \<and> n \<le> unat (snd r) \<and> p = of_nat n"
    then obtain n where n: "unat (fst r) \<le> n" "n \<le> unat (snd r)" "p = of_nat n" by blast
    have "n < 2 ^ LENGTH(16)"
      using n(2) unsigned_less [of "snd r"] by (rule le_less_trans)
    then have "unat p = n" using n(3) by (simp add: unat_of_nat)
    with n show "unat (fst r) \<le> unat p \<and> unat p \<le> unat (snd r)" by simp
  qed (auto intro: exI [of _ "unat p"])
  finally show ?thesis by (simp add: range_contains_def word_le_nat_alt)
qed

lemma random_port_sound:
  assumes "chooses pick" and "random_port_in_ranges pick ranges port = Some p"
  shows "matches_eq port p \<and> list_ex (\<lambda>r. range_contains r p) ranges"
  using assms
  by (auto simp: random_port_in_ranges_def list_ex_iff dest!: chooses_Some
      split: constraint.splits if_splits)

lemma random_port_total:
  assumes "chooses pick" and "ranges_usable ranges"
  shows "random_port_in_ranges pick ranges port \<noteq> None \<longleftrightarrow> port_in_ranges ranges port"
proof -
  have "concat (map range_ports ranges) \<noteq> []"
  proof -
    obtain r where r: "r \<in> set ranges" "range_contains r (fst r)"
      using assms(2) by (auto simp: ranges_usable_def list_ex_iff range_contains_def)
    then have "fst r \<in> set (concat (map range_ports ranges))" by auto
    then show ?thesis by (metis empty_iff empty_set)
  qed
  then have "pick (concat (map range_ports ranges)) \<noteq> None"
    by (simp only: chooses_None [OF assms(1)] not_False_eq_True)
  then show ?thesis
    by (cases port) (simp_all add: random_port_in_ranges_def port_in_ranges_def)
qed

lemma select_ip_version:
  "select_ip wg v = Some ip \<Longrightarrow> matches_eq v (ip_version_of ip)"
  by (auto simp: select_ip_def split: constraint.splits ip_version.splits)

lemma wg_random_endpoint_sound:
  assumes "chooses pick" and "wg_random_endpoint pick wg v port = Some a"
  shows "select_ip wg v = Some (sock_ip a) \<and> matches_eq v (ip_version_of (sock_ip a)) \<and>
    matches_eq port (sock_port a) \<and> list_ex (\<lambda>r. range_contains r (sock_port a)) (we_port_ranges wg)"
  using assms random_port_sound [OF assms(1)]
  by (auto simp: wg_random_endpoint_def bind_eq_Some_conv select_ip_version)

lemma wg_random_endpoint_total:
  assumes "chooses pick" and "ranges_usable (we_port_ranges wg)"
  shows "wg_random_endpoint pick wg v port \<noteq> None \<longleftrightarrow>
    wg_supports_ip_version wg v \<and> wg_supports_port wg port"
  using random_port_total [OF assms, of port]
  by (cases "select_ip wg v")
    (auto simp: wg_random_endpoint_def wg_supports_ip_version_def wg_supports_port_def
      bind_eq_Some_conv)

lemma rng_okD:
  assumes "rng_ok rng"
  shows "chooses (rng_relay rng n)" "draws_in_range (rng_weight rng n)" "chooses (rng_wg_port rng)"
    "chooses (rng_obfuscator_port rng)" "draws_in_range (rng_any_port rng)"
    "chooses (rng_obfuscator_addr rng)"
  using assms by (simp_all add: rng_ok_def)

lemma ss_random_endpoint_sound:
  assumes ok: "rng_ok rng" and a: "ss_random_endpoint rng ss wg v port = Some a"
  shows "matches_eq v (ip_version_of (sock_ip a)) \<and> matches_eq port (sock_port a)"
proof (cases "rng_obfuscator_addr rng
    (filter (\<lambda>ip. case v of Any \<Rightarrow> True | Only v' \<Rightarrow> ip_version_of ip = v') (se_dedicated_addrs ss))")
  case None
  then obtain ip ranges p where "select_ip wg v = Some ip" "a = socket_addr_new ip p"
    "random_port_in_ranges (rng_obfuscator_port rng) ranges port = Some p"
    using a by (auto simp: ss_random_endpoint_def bind_eq_Some_conv)
  then show ?thesis
    using random_port_sound [OF rng_okD(4) [OF ok]] by (simp add: select_ip_version)
next
  case (Some ip)
  then have "case v of Any \<Rightarrow> True | Only v' \<Rightarrow> ip_version_of ip = v'"
    using chooses_Some [OF rng_okD(6) [OF ok]] by fastforce
  with Some a show ?thesis
    by (cases v; cases port) (auto simp: ss_random_endpoint_def)
qed

lemma has_dedicated_addr_filter:
  "has_dedicated_addr ss v \<longleftrightarrow>
     filter (\<lambda>ip. case v of Any \<Rightarrow> True | Only v' \<Rightarrow> ip_version_of ip = v') (se_dedicated_addrs ss) \<noteq> []"
  by (auto simp: has_dedicated_addr_def list_ex_iff filter_empty_conv split: constraint.splits)
    (meson last_in_set)

lemma ss_random_endpoint_total:
  assumes ok: "rng_ok rng" and "\<And>ranges. se_shadowsocks_port_ranges ss = Some ranges \<Longrightarrow> ranges_usable ranges"
    and "shadowsocks_verdict ss wg v port = RelayAccept"
  shows "ss_random_endpoint rng ss wg v port \<noteq> None"
proof (cases "has_dedicated_addr ss v")
  case True
  then show ?thesis
    using chooses_None [OF rng_okD(6) [OF ok]]
    by (auto simp: ss_random_endpoint_def has_dedicated_addr_filter split: option.splits)
next
  case False
  then obtain ranges where ranges: "se_shadowsocks_port_ranges ss = Some ranges"
    "port_in_ranges ranges port" "wg_supports_ip_version wg v"
    using assms(3)
    by (auto simp: shadowsocks_verdict_def Let_def split: option.splits if_splits)
  then have "random_port_in_ranges (rng_obfuscator_port rng) ranges port \<noteq> None"
    using random_port_total [OF rng_okD(4) [OF ok] assms(2)] by simp
  then show ?thesis
    using ranges by (auto simp: ss_random_endpoint_def wg_supports_ip_version_def split: option.splits)
qed

lemma quic_random_endpoint_sound:
  assumes ok: "rng_ok rng" and a: "quic_random_endpoint rng quic v = Some a"
  shows "matches_eq v (ip_version_of (sock_ip a)) \<and> sock_port a = quic_port"
proof -
  have v4: "ip_version_of ip = V4" if "rng_obfuscator_addr rng (map IpV4 xs) = Some ip" for ip xs
    using chooses_Some [OF rng_okD(6) [OF ok] that] by auto
  have v6: "ip_version_of ip = V6" if "rng_obfuscator_addr rng (map IpV6 xs) = Some ip" for ip xs
    using chooses_Some [OF rng_okD(6) [OF ok] that] by auto
  show ?thesis
  proof (cases v)
    case Any
    with a show ?thesis by (auto simp: quic_random_endpoint_def Let_def)
  next
    case (Only v')
    with a v4 v6 show ?thesis
      by (cases v') (auto simp: quic_random_endpoint_def Let_def)
  qed
qed

lemma quic_random_endpoint_total:
  assumes ok: "rng_ok rng" and some: "qe_ipv4 quic \<noteq> [] \<or> qe_ipv6 quic \<noteq> []"
  shows "quic_random_endpoint rng quic v \<noteq> None \<longleftrightarrow> quic_supports_ip_version quic v"
proof -
  have none: "rng_obfuscator_addr rng xs = None \<longleftrightarrow> xs = []" for xs
    by (rule chooses_None [OF rng_okD(6) [OF ok]])
  show ?thesis
  proof (cases v)
    case Any
    then show ?thesis
      using some none [of "map IpV4 (qe_ipv4 quic)"] none [of "map IpV6 (qe_ipv6 quic)"]
      by (cases "rng_obfuscator_addr rng (map IpV4 (qe_ipv4 quic))")
        (simp_all add: quic_random_endpoint_def quic_supports_ip_version_def)
  next
    case (Only v')
    then show ?thesis
      by (cases v') (simp_all add: quic_random_endpoint_def quic_supports_ip_version_def none del: not_None_eq)
  qed
qed

text \<open>
  For a relay that the filter accepts, a client gets an endpoint exactly if the relay's WireGuard
  address has the wanted family, and then the obfuscator is the one the client asked for.
\<close>

lemma get_wireguard_obfuscator_sound:
  assumes ok: "rng_ok rng" and r: "get_wireguard_obfuscator rng self query v = Inr (endpoint, obfuscator)"
  shows "matches_eq v (ip_version_of (sock_ip endpoint)) \<and> obfuscator_serves query v endpoint obfuscator"
proof -
  let ?port = "case query of Only (ModePort s) \<Rightarrow> wgp_port s | _ \<Rightarrow> Any"
  obtain e where e: "wg_random_endpoint (rng_wg_port rng) (res_wireguard self) v ?port = Some e"
    using r unfolding get_wireguard_obfuscator_def Let_def by auto
  have "endpoint = e"
    using r e unfolding get_wireguard_obfuscator_def Let_def
    by (auto split: constraint.splits obfuscation_mode.splits)
  with e have e: "wg_random_endpoint (rng_wg_port rng) (res_wireguard self) v ?port = Some endpoint"
    by simp
  note wg = wg_random_endpoint_sound [OF rng_okD(3) [OF ok] e]
  have r': "obfuscator_serves query v endpoint obfuscator"
  proof (cases query)
    case Any
    with r e show ?thesis by (simp add: get_wireguard_obfuscator_def obfuscator_serves_def)
  next
    case (Only mode)
    note defs = get_wireguard_obfuscator_def obfuscator_serves_def Only
    show ?thesis
    proof (cases mode)
      case (ModeUdp2tcp s)
      with r e Only show ?thesis
        by (auto simp: defs udp2tcp_config_def split: constraint.splits if_splits)
    next
      case (ModeShadowsocks s)
      with r e Only show ?thesis
        using ss_random_endpoint_sound [OF ok] by (fastforce simp: defs shadowsocks_config_def)
    next
      case ModeQuic
      with r e Only show ?thesis
        using quic_random_endpoint_sound [OF ok] by (fastforce simp: defs quic_config_def)
    next
      case (ModeLwo s)
      with r e Only show ?thesis
        using random_port_sound [OF rng_okD(4) [OF ok]]
        by (fastforce simp: defs lwo_config_def split: if_splits)
    qed (use r e wg Only in \<open>auto simp: defs\<close>)
  qed
  with wg show ?thesis by simp
qed

text \<open>If the filter accepts the relay for a mode, the configuration of that mode can be built.\<close>

lemma udp2tcp_config_total:
  assumes ok: "rng_ok rng" and usable: "endpoints_usable self"
    and accept: "obfuscation_verdict self c = RelayAccept" "es_obfuscation c = Only (ModeUdp2tcp s)"
  shows "res_ok (udp2tcp_config rng self ip (u2t_port s))"
proof -
  obtain ports where ports: "res_udp2tcp_ports self = Some ports"
    "is_any_or (u2t_port s) (\<lambda>p. p \<in> set ports)"
    using accept by (auto simp: obfuscation_verdict_def Let_def split: option.splits)
  then have "ports \<noteq> []" using usable by (simp add: endpoints_usable_def)
  then have "rng_obfuscator_port rng ports \<noteq> None"
    by (simp only: chooses_None [OF rng_okD(4) [OF ok]] not_False_eq_True)
  with ports show ?thesis
    by (cases "u2t_port s") (auto simp: udp2tcp_config_def)
qed

lemma shadowsocks_config_total:
  assumes ok: "rng_ok rng" and usable: "endpoints_usable self"
    and accept: "obfuscation_verdict self c = RelayAccept" "es_obfuscation c = Only (ModeShadowsocks s)"
  shows "res_ok (shadowsocks_config rng self (es_ip_version c) (ss_port s))"
proof -
  obtain ss where ss: "res_shadowsocks self = Some ss"
    "shadowsocks_verdict ss (res_wireguard self) (es_ip_version c) (ss_port s) = RelayAccept"
    using accept by (auto simp: obfuscation_verdict_def Let_def split: option.splits)
  then have "ss_random_endpoint rng ss (res_wireguard self) (es_ip_version c) (ss_port s) \<noteq> None"
    using usable by (intro ss_random_endpoint_total [OF ok]) (auto simp: endpoints_usable_def)
  with ss show ?thesis by (auto simp: shadowsocks_config_def)
qed

lemma quic_config_total:
  assumes ok: "rng_ok rng" and usable: "endpoints_usable self"
    and accept: "obfuscation_verdict self c = RelayAccept" "es_obfuscation c = Only ModeQuic"
  shows "res_ok (quic_config rng self (es_ip_version c))"
proof -
  obtain quic where quic: "res_quic self = Some quic" "quic_supports_ip_version quic (es_ip_version c)"
    using accept by (auto simp: obfuscation_verdict_def Let_def split: option.splits)
  then have "quic_random_endpoint rng quic (es_ip_version c) \<noteq> None"
    using usable quic_random_endpoint_total [OF ok] by (simp add: endpoints_usable_def)
  with quic show ?thesis by (auto simp: quic_config_def)
qed

lemma lwo_config_total:
  assumes ok: "rng_ok rng" and usable: "endpoints_usable self"
    and accept: "obfuscation_verdict self c = RelayAccept" "es_obfuscation c = Only (ModeLwo s)"
  shows "res_ok (lwo_config rng self ip (lwo_port s))"
proof -
  have lwo: "res_lwo self" "port_in_ranges (we_port_ranges (res_wireguard self)) (lwo_port s)"
    using accept by (auto simp: obfuscation_verdict_def Let_def wg_supports_port_def)
  then have "random_port_in_ranges (rng_obfuscator_port rng) (we_port_ranges (res_wireguard self))
      (lwo_port s) \<noteq> None"
    using random_port_total [OF rng_okD(4) [OF ok]] usable by (simp add: endpoints_usable_def)
  with lwo show ?thesis by (auto simp: lwo_config_def)
qed

lemma res_ok_and_then [simp]: "res_ok (and_then x (\<lambda>c. Inr (f c))) = res_ok x"
  by (cases x) simp_all

lemma get_wireguard_obfuscator_exact:
  assumes ok: "rng_ok rng" and usable: "endpoints_usable self"
    and accept: "obfuscation_verdict self c = RelayAccept"
  shows "res_ok (get_wireguard_obfuscator rng self (es_obfuscation c) (es_ip_version c)) \<longleftrightarrow>
    wg_supports_ip_version (res_wireguard self) (es_ip_version c)"
proof -
  let ?port = "case es_obfuscation c of Only (ModePort s) \<Rightarrow> wgp_port s | _ \<Rightarrow> Any"
  let ?endpoint = "wg_random_endpoint (rng_wg_port rng) (res_wireguard self) (es_ip_version c) ?port"
  have "wg_supports_port (res_wireguard self) ?port"
    using accept
    by (auto simp: obfuscation_verdict_def Let_def wg_supports_port_def port_in_ranges_def
        split: constraint.splits obfuscation_mode.splits)
  then have total: "?endpoint \<noteq> None \<longleftrightarrow> wg_supports_ip_version (res_wireguard self) (es_ip_version c)"
    using wg_random_endpoint_total [OF rng_okD(3) [OF ok]] usable by (simp add: endpoints_usable_def)
  show ?thesis
  proof (cases ?endpoint)
    case None
    with total show ?thesis by (simp add: get_wireguard_obfuscator_def)
  next
    case (Some e)
    note config = udp2tcp_config_total [OF assms] shadowsocks_config_total [OF assms]
      quic_config_total [OF assms] lwo_config_total [OF assms]
    have "res_ok (get_wireguard_obfuscator rng self (es_obfuscation c) (es_ip_version c))"
      using Some config
      by (auto simp: get_wireguard_obfuscator_def split: constraint.splits obfuscation_mode.splits)
    with Some total show ?thesis by simp
  qed
qed

text \<open>The endpoint set built for a relay of a list with usable ranges is usable.\<close>

definition endpoint_data_usable :: "endpoint_data \<Rightarrow> bool" where
  "endpoint_data_usable data \<longleftrightarrow> ranges_usable (ed_port_ranges data) \<and>
     (ed_shadowsocks_port_ranges data = [] \<or> ranges_usable (ed_shadowsocks_port_ranges data))"

lemma relay_endpoint_set_new_usable:
  assumes "relay_endpoint_set_new relay data = Some self" and "endpoint_data_usable data"
  shows "endpoints_usable self"
  using assms
  by (auto simp: relay_endpoint_set_new_def vec1_try_from_vec_def endpoints_usable_def
      endpoint_data_usable_def shadowsocks_endpoints_new_def quic_endpoints_new_def Let_def
      split: if_splits option.splits)

lemma relay_endpoint_set_new_None:
  "relay_endpoint_set_new relay data = None \<longleftrightarrow> ed_port_ranges data = []"
  by (simp add: relay_endpoint_set_new_def vec1_try_from_vec_def)

end
