(* ===== verification/Relay_Query.thy ===== *)
theory Relay_Query
  imports Relay_Endpoints
begin

text \<open>
  Queries to the relay selector (\<open>mullvad-relay-selector/src/relay_selector/query.rs\<close>): how they are
  built from the settings, narrowed by the address families the host has, and merged with the
  retry order of \<open>relay_selector/mod.rs\<close>.
\<close>

datatype quantum_resistant_state = QrOn | QrOff

type_synonym allowed_ips = "ip_network list"

datatype hops =
  HopsSingle entry_constraints
| HopsAuto entry_constraints
| HopsMulti multihop_constraints

record relay_query =
  rq_hops :: hops
  rq_allowed_ips :: "allowed_ips constraint"
  rq_quantum_resistant :: "quantum_resistant_state constraint"

text \<open>
  The errors of \<open>mullvad-relay-selector/src/error.rs\<close> that the selector returns. \<open>Panic\<close> is not one of
  them: it stands for a call of \<open>unwrap\<close> or \<open>expect\<close> that fails.
\<close>

datatype selector_error =
  InvalidConstraints
| NoRelayEntry entry_constraints
| NoRelayExit exit_constraints
| NoRelay relay_query
| NoBridge
| NoObfuscator endpoint_error
| IpVersionUnavailable ip_version
| Panic string

section \<open>Accessors\<close>

definition query_entry :: "relay_query \<Rightarrow> entry_constraints" where
  "query_entry q = (case rq_hops q of HopsSingle e \<Rightarrow> e | HopsAuto e \<Rightarrow> e | HopsMulti m \<Rightarrow> mh_entry m)"

definition query_map_entry ::
  "(entry_constraints \<Rightarrow> entry_constraints) \<Rightarrow> relay_query \<Rightarrow> relay_query" where
  "query_map_entry f q = q\<lparr>rq_hops := (case rq_hops q of
       HopsSingle e \<Rightarrow> HopsSingle (f e)
     | HopsAuto e \<Rightarrow> HopsAuto (f e)
     | HopsMulti m \<Rightarrow> HopsMulti (m\<lparr>mh_entry := f (mh_entry m)\<rparr>))\<rparr>"

definition query_entry_specific :: "relay_query \<Rightarrow> entry_specific_constraints" where
  "query_entry_specific q = ec_entry_specific (query_entry q)"

definition query_set_entry_specific ::
  "entry_specific_constraints \<Rightarrow> relay_query \<Rightarrow> relay_query" where
  "query_set_entry_specific s = query_map_entry (\<lambda>e. e\<lparr>ec_entry_specific := s\<rparr>)"

definition query_exit :: "relay_query \<Rightarrow> exit_constraints" where
  "query_exit q = (case rq_hops q of
       HopsSingle e \<Rightarrow> ec_general e | HopsAuto e \<Rightarrow> ec_general e | HopsMulti m \<Rightarrow> mh_exit m)"

definition query_default :: relay_query where
  "query_default = \<lparr>rq_hops = HopsSingle entry_constraints_default, rq_allowed_ips = Any,
                    rq_quantum_resistant = Any\<rparr>"

section \<open>Merging\<close>

definition merge_retry :: "relay_query \<Rightarrow> entry_specific_constraints \<Rightarrow> relay_query option" where
  "merge_retry self retry = do {
     merged \<leftarrow> entry_specific_inter (query_entry_specific self) retry;
     Some (query_set_entry_specific merged self) }"

definition apply_ip_availability ::
  "relay_query \<Rightarrow> ip_availability \<Rightarrow> selector_error + relay_query" where
  "apply_ip_availability self runtime_ip_availability =
     (let runtime_ip = (case runtime_ip_availability of
            Ipv4 \<Rightarrow> Only V4 | Ipv6 \<Rightarrow> Only V6 | Ipv4AndIpv6 \<Rightarrow> Any);
          entry_specific = query_entry_specific self
      in case constraint_inter inter_partialeq (es_ip_version entry_specific) runtime_ip of
           None \<Rightarrow> (case constraint_unwrap (es_ip_version entry_specific) of
               Some family \<Rightarrow> Inl (IpVersionUnavailable family)
             | None \<Rightarrow> Inl (Panic ''unwrap''))
         | Some merged \<Rightarrow>
             Inr (query_set_entry_specific (entry_specific\<lparr>es_ip_version := merged\<rparr>) self))"

definition RETRY_ORDER :: "entry_specific_constraints list" where
  "RETRY_ORDER =
     [entry_specific_default,
      es_with_ip_version entry_specific_default V6,
      es_lwo,
      es_shadowsocks,
      es_quic,
      es_udp2tcp,
      es_with_ip_version es_udp2tcp V6]"

section \<open>Settings\<close>

record wireguard_constraints =
  wc_ip_version :: "ip_version constraint"
  wc_allowed_ips :: "allowed_ips constraint"
  wc_use_multihop :: bool
  wc_entry_location :: "location_constraint constraint"
  wc_entry_providers :: "providers constraint"
  wc_entry_ownership :: "ownership constraint"

record relay_constraints =
  rc_location :: "location_constraint constraint"
  rc_providers :: "providers constraint"
  rc_ownership :: "ownership constraint"
  rc_wireguard_constraints :: wireguard_constraints

record custom_tunnel_endpoint =
  cte_host :: string
  cte_config :: connection_config

datatype relay_settings =
  CustomTunnelEndpoint custom_tunnel_endpoint
| NormalRelays relay_constraints

text \<open>The fields of \<open>Settings\<close> that the relay selector reads.\<close>

record selector_settings =
  st_relay_settings :: relay_settings
  st_obfuscation_settings :: obfuscation_settings
  st_daita_enabled :: bool
  st_daita_use_multihop_if_necessary :: bool
  st_quantum_resistant :: quantum_resistant_state
  st_custom_lists :: custom_lists_settings

definition query_from_settings :: "selector_settings \<Rightarrow> relay_query" where
  "query_from_settings settings = (case st_relay_settings settings of
       CustomTunnelEndpoint _ \<Rightarrow> query_default
     | NormalRelays relay_settings \<Rightarrow>
         (let daita = st_daita_enabled settings;
              wg = rc_wireguard_constraints relay_settings;
              entry_specific =
                \<lparr>es_obfuscation = obfuscation_constraint_from_settings (st_obfuscation_settings settings),
                 es_daita = Only daita, es_ip_version = wc_ip_version wg\<rparr>;
              exit = \<lparr>ex_location = rc_location relay_settings, ex_providers = rc_providers relay_settings,
                      ex_ownership = rc_ownership relay_settings\<rparr>;
              singlehop = \<lparr>ec_general = exit, ec_entry_specific = entry_specific\<rparr>;
              multihop =
                \<lparr>mh_entry = \<lparr>ec_general = \<lparr>ex_location = wc_entry_location wg,
                                          ex_providers = wc_entry_providers wg,
                                          ex_ownership = wc_entry_ownership wg\<rparr>,
                            ec_entry_specific = entry_specific\<rparr>,
                 mh_exit = exit\<rparr>;
              autohop = (daita \<and> st_daita_use_multihop_if_necessary settings);
              hops = (case (wc_use_multihop wg, autohop) of
                  (False, False) \<Rightarrow> HopsSingle singlehop
                | (False, True) \<Rightarrow> HopsAuto singlehop
                | (True, False) \<Rightarrow> HopsMulti multihop
                | (True, True) \<Rightarrow> HopsMulti (into_autohop singlehop))
          in \<lparr>rq_hops = hops, rq_allowed_ips = wc_allowed_ips wg,
              rq_quantum_resistant = Only (st_quantum_resistant settings)\<rparr>))"

definition query_try_from_settings :: "selector_settings \<Rightarrow> selector_error + relay_query" where
  "query_try_from_settings settings = (case st_relay_settings settings of
       NormalRelays _ \<Rightarrow> Inr (query_from_settings settings)
     | CustomTunnelEndpoint _ \<Rightarrow> Inl InvalidConstraints)"

definition query_into_settings :: "relay_query \<Rightarrow> relay_constraints \<times> obfuscation_settings" where
  "query_into_settings self =
     (let single = (\<lambda>entry.
        (\<lparr>rc_location = ex_location (ec_general entry), rc_providers = ex_providers (ec_general entry),
          rc_ownership = ex_ownership (ec_general entry),
          rc_wireguard_constraints =
            \<lparr>wc_ip_version = es_ip_version (ec_entry_specific entry), wc_allowed_ips = rq_allowed_ips self,
             wc_use_multihop = False, wc_entry_location = Any, wc_entry_providers = Any,
             wc_entry_ownership = Any\<rparr>\<rparr>,
         obfuscation_to_settings (es_obfuscation (ec_entry_specific entry))))
      in case rq_hops self of
           HopsSingle entry \<Rightarrow> single entry
         | HopsAuto entry \<Rightarrow> single entry
         | HopsMulti m \<Rightarrow>
             (let entry = mh_entry m; exit = mh_exit m
              in (\<lparr>rc_location = ex_location exit, rc_providers = ex_providers exit,
                   rc_ownership = ex_ownership exit,
                   rc_wireguard_constraints =
                     \<lparr>wc_ip_version = es_ip_version (ec_entry_specific entry),
                      wc_allowed_ips = rq_allowed_ips self, wc_use_multihop = True,
                      wc_entry_location = ex_location (ec_general entry),
                      wc_entry_providers = ex_providers (ec_general entry),
                      wc_entry_ownership = ex_ownership (ec_general entry)\<rparr>\<rparr>,
                  obfuscation_to_settings (es_obfuscation (ec_entry_specific entry)))))"

section \<open>Properties\<close>

lemma query_entry_set [simp]:
  "query_entry_specific (query_set_entry_specific s q) = s"
  "query_exit (query_set_entry_specific s q) =  query_exit q"
  "ec_general (query_entry (query_set_entry_specific s q)) = ec_general (query_entry q)"
  "rq_allowed_ips (query_set_entry_specific s q) = rq_allowed_ips q"
  "rq_quantum_resistant (query_set_entry_specific s q) = rq_quantum_resistant q"
  by (simp_all add: query_entry_specific_def query_set_entry_specific_def query_map_entry_def
      query_entry_def query_exit_def split: hops.splits)

text \<open>A query built from settings and written back gives the constraints it was built from.\<close>

lemma query_settings_roundtrip:
  assumes "st_relay_settings s = NormalRelays rc"
    and "\<not> (st_daita_enabled s \<and> st_daita_use_multihop_if_necessary s)"
    and "\<not> wc_use_multihop (rc_wireguard_constraints rc) \<Longrightarrow>
      wc_entry_location (rc_wireguard_constraints rc) = Any \<and>
      wc_entry_providers (rc_wireguard_constraints rc) = Any \<and>
      wc_entry_ownership (rc_wireguard_constraints rc) = Any"
  shows "fst (query_into_settings (query_from_settings s)) = rc"
  using assms
  by (cases "wc_use_multihop (rc_wireguard_constraints rc)")
    (auto simp: query_from_settings_def query_into_settings_def Let_def
      intro!: relay_constraints.equality wireguard_constraints.equality)

text \<open>
  What a merge with a retry entry does: the merged constraints on the entry are the laxest ones
  at least as strict as the user's and the entry's, and nothing else of the query changes.
\<close>

lemma merge_retry_Some:
  "merge_retry q retry = Some q' \<longleftrightarrow>
     (\<exists>merged. entry_specific_inter (query_entry_specific q) retry = Some merged \<and>
        q' = query_set_entry_specific merged q)"
  by (auto simp: merge_retry_def bind_eq_Some_conv)

lemma constraint_inter_only:
  assumes "constraint_inter meet a b = Some c" and "a = Only x"
    and "\<And>x y z. meet x y = Some z \<Longrightarrow> z = x"
  shows "c = Only x"
  using assms by (cases b) auto

lemma partialeq_left: "inter_partialeq x y = Some z \<Longrightarrow> z = x"
  by (simp add: inter_partialeq_def split: if_splits)

lemma apply_ip_availability_no_panic: "apply_ip_availability q avail \<noteq> Inl (Panic msg)"
  by (cases "es_ip_version (query_entry_specific q)"; cases avail)
    (auto simp: apply_ip_availability_def Let_def inter_partialeq_def split: option.splits)

lemma apply_ip_availability_Inr:
  assumes "apply_ip_availability q avail = Inr q'"
  shows "\<exists>merged. q' = query_set_entry_specific
      ((query_entry_specific q)\<lparr>es_ip_version := merged\<rparr>) q \<and>
    (\<forall>v. es_ip_version (query_entry_specific q) = Only v \<longrightarrow> merged = Only v) \<and>
    (avail = Ipv4 \<longrightarrow> merged = Only V4) \<and> (avail = Ipv6 \<longrightarrow> merged = Only V6)"
  using assms
  by (cases "es_ip_version (query_entry_specific q)"; cases avail)
    (auto simp: apply_ip_availability_def Let_def inter_partialeq_def split: option.splits if_splits)

lemma apply_ip_availability_error:
  "apply_ip_availability q avail = Inl e \<longleftrightarrow>
     (\<exists>v. es_ip_version (query_entry_specific q) = Only v \<and> e = IpVersionUnavailable v \<and>
        (case v of V4 \<Rightarrow> avail = Ipv6 | V6 \<Rightarrow> avail = Ipv4))"
  by (cases "es_ip_version (query_entry_specific q)"; cases avail)
    (auto simp: apply_ip_availability_def Let_def inter_partialeq_def
      split: option.splits if_splits ip_version.splits)

end
