(* ===== verification/Relay_Filter.thy ===== *)
theory Relay_Filter
  imports Relay_Query
begin

text \<open>
  Filtering of the relay list (\<open>mullvad-relay-selector/src/relay_selector/filter.rs\<close> and the annotated
  relay list of \<open>relay_selector/mod.rs\<close>): which relays can be the entry, the exit or the only hop,
  and the reasons for the others.
\<close>

section \<open>The annotated relay list\<close>

record annotated_relay_list =
  arl_inner :: relay_list
  arl_endpoint_sets :: "string \<rightharpoonup> relay_endpoint_set"

text \<open>
  \<open>AnnotatedRelayList::new\<close>: collecting the pairs into a hash map keeps the last set of a name, and
  \<open>expect\<close> panics on the first relay without endpoint set.
\<close>

definition annotate_relay ::
  "endpoint_data \<Rightarrow> wireguard_relay \<Rightarrow> (string \<rightharpoonup> relay_endpoint_set)
   \<Rightarrow> selector_error + (string \<rightharpoonup> relay_endpoint_set)" where
  "annotate_relay data relay sets =
     (case relay_endpoint_set_new relay data of
        Some es \<Rightarrow> Inr (sets(hostname relay \<mapsto> es))
      | None \<Rightarrow> Inl (Panic ''Relay list has no WireGuard port ranges''))"

definition annotated_new :: "relay_list \<Rightarrow> selector_error + annotated_relay_list" where
  "annotated_new l =
     and_then (try_fold (annotate_relay (rl_wireguard l)) (relay_list_relays l) Map.empty)
     (\<lambda>sets. Inr \<lparr>arl_inner = l, arl_endpoint_sets = sets\<rparr>)"

definition endpoint_set_for :: "annotated_relay_list \<Rightarrow> wireguard_relay \<Rightarrow> relay_endpoint_set option" where
  "endpoint_set_for relays relay = arl_endpoint_sets relays (hostname relay)"

section \<open>Partitions\<close>

record relay_partitions =
  rp_matches :: "wireguard_relay list"
  rp_discards :: "(wireguard_relay \<times> reason list) list"

record multihop_partitions =
  mp_entries :: relay_partitions
  mp_exits :: relay_partitions

record autohop_partition =
  ap_singlehop :: relay_partitions
  ap_multihop :: multihop_partitions

datatype predicate =
  PredSinglehop entry_constraints
| PredAutohop entry_constraints
| PredEntry multihop_constraints
| PredExit multihop_constraints

fun partition_verdicts ::
  "(wireguard_relay \<Rightarrow> selector_error + relay_verdict) \<Rightarrow> wireguard_relay list \<Rightarrow> selector_error + relay_partitions" where
  "partition_verdicts f [] = Inr \<lparr>rp_matches = [], rp_discards = []\<rparr>"
| "partition_verdicts f (relay # relays) =
     and_then (f relay) (\<lambda>v.
     and_then (partition_verdicts f relays) (\<lambda>p.
     Inr (case v of
            RelayAccept \<Rightarrow> p\<lparr>rp_matches := relay # rp_matches p\<rparr>
          | RelayReject reasons \<Rightarrow> p\<lparr>rp_discards := (relay, reasons) # rp_discards p\<rparr>)))"

definition partition_by_verdict ::
  "annotated_relay_list \<Rightarrow> (wireguard_relay \<Rightarrow> relay_endpoint_set \<Rightarrow> relay_verdict)
   \<Rightarrow> selector_error + relay_partitions" where
  "partition_by_verdict relays f =
     partition_verdicts (\<lambda>relay.
         and_then (of_option (Panic ''Relays in list always have an endpoint set'')
                    (endpoint_set_for relays relay)) (\<lambda>es.
         Inr (f relay es)))
       (relay_list_relays (arl_inner relays))"

section \<open>Criteria\<close>

definition filter_on_daita :: "bool constraint \<Rightarrow> wireguard_relay \<Rightarrow> bool" where
  "filter_on_daita c relay = (case c of Only True \<Rightarrow> wre_daita (endpoint_data relay) | _ \<Rightarrow> True)"

text \<open>A custom list that does not exist resolves to no location.\<close>

definition resolved_from_constraint ::
  "location_constraint constraint \<Rightarrow> custom_lists_settings
   \<Rightarrow> geographic_location_constraint list constraint" where
  "resolved_from_constraint location custom_lists = (case location of
       Any \<Rightarrow> Any
     | Only (Location l) \<Rightarrow> Only [l]
     | Only (CustomListId list_id) \<Rightarrow>
         Only (case find (\<lambda>l. cl_id l = list_id) custom_lists of
                 Some l \<Rightarrow> cl_locations l
               | None \<Rightarrow> []))"

definition resolved_matches :: "geographic_location_constraint list \<Rightarrow> wireguard_relay \<Rightarrow> bool" where
  "resolved_matches ls relay = list_ex (\<lambda>l. glc_matches l relay) ls"

definition filter_include_in_country ::
  "wireguard_relay \<Rightarrow> geographic_location_constraint list constraint \<Rightarrow> relay_verdict" where
  "filter_include_in_country relay location =
     (if include_in_country relay then RelayAccept
      else case location of
             Any \<Rightarrow> verdict_reject ReasonIncludeInCountry
           | Only resolved \<Rightarrow>
               if_false (list_ex (\<lambda>l. \<not> glc_is_country l) (filter (\<lambda>l. glc_matches l relay) resolved))
                 ReasonIncludeInCountry)"

definition location_criteria ::
  "wireguard_relay \<Rightarrow> location_constraint constraint \<Rightarrow> custom_lists_settings \<Rightarrow> relay_verdict" where
  "location_criteria relay location custom_lists =
     (let c = resolved_from_constraint location custom_lists
      in if \<not> constraint_matches resolved_matches c relay then verdict_reject ReasonLocation
         else filter_include_in_country relay c)"

definition usable_as_entry ::
  "wireguard_relay \<Rightarrow> relay_endpoint_set \<Rightarrow> entry_specific_constraints \<Rightarrow> relay_verdict" where
  "usable_as_entry relay es c =
     verdict_and (if_false (filter_on_daita (es_daita c) relay) ReasonDaita) (obfuscation_verdict es c)"

definition usable_as_exit ::
  "wireguard_relay \<Rightarrow> exit_constraints \<Rightarrow> custom_lists_settings \<Rightarrow> relay_verdict" where
  "usable_as_exit relay c custom_lists =
     (let ownership = if_false (constraint_matches ownership_matches (ex_ownership c) relay) ReasonOwnership;
          providers = if_false (constraint_matches providers_matches (ex_providers c) relay) ReasonProviders;
          location = location_criteria relay (ex_location c) custom_lists;
          active = if_false (active relay) ReasonInactive
      in verdict_and (verdict_and (verdict_and ownership providers) location) active)"

section \<open>Partitioning the relay list\<close>

definition partition_entry ::
  "annotated_relay_list \<Rightarrow> entry_constraints \<Rightarrow> custom_lists_settings \<Rightarrow> selector_error + relay_partitions" where
  "partition_entry relays c custom_lists =
     partition_by_verdict relays (\<lambda>relay es.
       verdict_and (usable_as_entry relay es (ec_entry_specific c))
         (usable_as_exit relay (ec_general c) custom_lists))"

definition partition_exit ::
  "annotated_relay_list \<Rightarrow> exit_constraints \<Rightarrow> custom_lists_settings \<Rightarrow> selector_error + relay_partitions" where
  "partition_exit relays c custom_lists =
     partition_by_verdict relays (\<lambda>relay _. usable_as_exit relay c custom_lists)"

definition move_unique_conflict :: "relay_partitions \<Rightarrow> relay_partitions \<Rightarrow> relay_partitions" where
  "move_unique_conflict from into = (case rp_matches from of
       [unique] \<Rightarrow> (case find_index (\<lambda>r. relay_eq r unique) (rp_matches into) of
           None \<Rightarrow> into
         | Some pos \<Rightarrow>
             into\<lparr>rp_matches := vec_remove pos (rp_matches into),
                  rp_discards := rp_discards into @ [(rp_matches into ! pos, [ReasonConflict])]\<rparr>)
     | _ \<Rightarrow> into)"

definition remove_conflicting_relay ::
  "relay_partitions \<Rightarrow> relay_partitions \<Rightarrow> relay_partitions \<times> relay_partitions" where
  "remove_conflicting_relay entries exits =
     (let exits = move_unique_conflict entries exits;
          entries = move_unique_conflict exits entries
      in (entries, exits))"

definition partition_multihop ::
  "annotated_relay_list \<Rightarrow> multihop_constraints \<Rightarrow> custom_lists_settings \<Rightarrow> selector_error + multihop_partitions" where
  "partition_multihop relays c custom_lists =
     and_then (partition_entry relays (mh_entry c) custom_lists) (\<lambda>entries.
     and_then (partition_exit relays (mh_exit c) custom_lists) (\<lambda>exits.
     let (entries, exits) = remove_conflicting_relay entries exits
     in Inr \<lparr>mp_entries = entries, mp_exits = exits\<rparr>))"

definition partition_autohop ::
  "annotated_relay_list \<Rightarrow> entry_constraints \<Rightarrow> custom_lists_settings \<Rightarrow> selector_error + autohop_partition" where
  "partition_autohop relays c custom_lists =
     and_then (partition_entry relays c custom_lists) (\<lambda>singlehop.
     and_then (partition_multihop relays (into_autohop c) custom_lists) (\<lambda>multihop.
     Inr \<lparr>ap_singlehop = singlehop, ap_multihop = multihop\<rparr>))"

definition into_relay_partitions :: "autohop_partition \<Rightarrow> relay_partitions" where
  "into_relay_partitions p =
     (let singlehop = ap_singlehop p; multihop = ap_multihop p
      in if rp_matches (mp_entries multihop) = [] then singlehop
         else let rescued = (\<lambda>d. list_ex (\<lambda>m. relay_eq m (fst d)) (rp_matches singlehop))
              in \<lparr>rp_matches = rp_matches (mp_exits multihop)
                    @ map fst (filter rescued (rp_discards (mp_exits multihop))),
                  rp_discards = filter (\<lambda>d. \<not> rescued d) (rp_discards (mp_exits multihop))\<rparr>)"

definition partition_relays ::
  "annotated_relay_list \<Rightarrow> custom_lists_settings \<Rightarrow> predicate \<Rightarrow> selector_error + relay_partitions" where
  "partition_relays relays custom_lists p = (case p of
       PredSinglehop c \<Rightarrow> partition_entry relays c custom_lists
     | PredAutohop c \<Rightarrow>
         and_then (partition_autohop relays c custom_lists) (\<lambda>a. Inr (into_relay_partitions a))
     | PredEntry c \<Rightarrow> and_then (partition_multihop relays c custom_lists) (\<lambda>m. Inr (mp_entries m))
     | PredExit c \<Rightarrow> and_then (partition_multihop relays c custom_lists) (\<lambda>m. Inr (mp_exits m)))"

section \<open>What the filters mean\<close>

text \<open>Every relay of the list has an endpoint set, built from that list.\<close>

definition annotated_ok :: "annotated_relay_list \<Rightarrow> bool" where
  "annotated_ok relays \<longleftrightarrow> (\<forall>relay \<in> set (relay_list_relays (arl_inner relays)). \<exists>r' es.
     r' \<in> set (relay_list_relays (arl_inner relays)) \<and> hostname r' = hostname relay \<and>
     relay_endpoint_set_new r' (rl_wireguard (arl_inner relays)) = Some es \<and>
     endpoint_set_for relays relay = Some es)"

text \<open>The criteria a relay has to meet, as one condition.\<close>

definition location_ok ::
  "wireguard_relay \<Rightarrow> location_constraint constraint \<Rightarrow> custom_lists_settings \<Rightarrow> bool" where
  "location_ok relay location custom_lists \<longleftrightarrow> (case resolved_from_constraint location custom_lists of
       Any \<Rightarrow> include_in_country relay
     | Only ls \<Rightarrow> (\<exists>l \<in> set ls. glc_matches l relay \<and> (include_in_country relay \<or> \<not> glc_is_country l)))"

definition exit_ok :: "wireguard_relay \<Rightarrow> exit_constraints \<Rightarrow> custom_lists_settings \<Rightarrow> bool" where
  "exit_ok relay c custom_lists \<longleftrightarrow> active relay \<and>
     constraint_matches ownership_matches (ex_ownership c) relay \<and>
     constraint_matches providers_matches (ex_providers c) relay \<and>
     location_ok relay (ex_location c) custom_lists"

lemma usable_as_exit_Accept: "usable_as_exit relay c cl = RelayAccept \<longleftrightarrow> exit_ok relay c cl"
  by (auto simp: usable_as_exit_def exit_ok_def location_criteria_def filter_include_in_country_def
      location_ok_def resolved_matches_def list_ex_iff Let_def split: constraint.splits)

lemma usable_as_entry_Accept:
  "usable_as_entry relay es c = RelayAccept \<longleftrightarrow>
     (es_daita c = Only True \<longrightarrow> wre_daita (endpoint_data relay)) \<and> obfuscation_verdict es c = RelayAccept"
  by (auto simp: usable_as_entry_def filter_on_daita_def split: constraint.splits bool.splits)

lemma annotate_relay_Inr:
  "annotate_relay data r m = Inr m' \<longleftrightarrow>
     (\<exists>es. relay_endpoint_set_new r data = Some es \<and> m' = m(hostname r \<mapsto> es))"
  by (auto simp: annotate_relay_def split: option.splits)

lemma annotate_relays:
  assumes "try_fold (annotate_relay data) rs m = Inr m'"
  shows "m' key = m key \<and> key \<notin> hostname ` set rs \<or>
    (\<exists>y \<in> set rs. hostname y = key \<and> m' key = relay_endpoint_set_new y data \<and> m' key \<noteq> None)"
  using assms
proof (induction rs arbitrary: m)
  case (Cons x rs)
  then obtain es where es: "relay_endpoint_set_new x data = Some es"
    and step: "try_fold (annotate_relay data) rs (m(hostname x \<mapsto> es)) = Inr m'"
    by (auto simp: annotate_relay_Inr)
  from Cons.IH [OF step] es show ?case
    by (cases "key = hostname x") auto
qed simp

lemma annotated_new_Inr:
  assumes "annotated_new l = Inr relays"
  shows "arl_inner relays = l \<and> annotated_ok relays"
proof -
  obtain sets where sets: "relays = \<lparr>arl_inner = l, arl_endpoint_sets = sets\<rparr>"
    and fold: "try_fold (annotate_relay (rl_wireguard l)) (relay_list_relays l) Map.empty = Inr sets"
    using assms unfolding annotated_new_def by auto
  show ?thesis
    using annotate_relays [OF fold] sets
    unfolding annotated_ok_def endpoint_set_for_def by fastforce
qed

lemma annotated_new_exact:
  "res_ok (annotated_new l) \<longleftrightarrow> relay_list_relays l = [] \<or> ed_port_ranges (rl_wireguard l) \<noteq> []"
proof (cases "ed_port_ranges (rl_wireguard l) = []")
  case True
  then have "relay_endpoint_set_new r (rl_wireguard l) = None" for r
    by (simp only: relay_endpoint_set_new_None)
  with True show ?thesis
    by (cases "relay_list_relays l") (simp_all add: annotated_new_def annotate_relay_def)
next
  case False
  have "try_fold (annotate_relay (rl_wireguard l)) rs m =
      Inr (fold (\<lambda>r m. m(hostname r := relay_endpoint_set_new r (rl_wireguard l))) rs m)" for rs m
  proof (rule try_fold_Inr)
    fix r m
    show "annotate_relay (rl_wireguard l) r m =
        Inr (m(hostname r := relay_endpoint_set_new r (rl_wireguard l)))"
      using False by (auto simp: annotate_relay_def relay_endpoint_set_new_None split: option.splits)
  qed
  with False show ?thesis by (simp add: annotated_new_def)
qed

text \<open>With an endpoint set for every relay, partitioning is a filter that never panics.\<close>

definition verdict_reasons :: "relay_verdict \<Rightarrow> reason list" where
  "verdict_reasons v = (case v of RelayAccept \<Rightarrow> [] | RelayReject rs \<Rightarrow> rs)"

definition partition_of :: "(wireguard_relay \<Rightarrow> relay_verdict) \<Rightarrow> wireguard_relay list \<Rightarrow> relay_partitions" where
  "partition_of f rs =
     \<lparr>rp_matches = filter (\<lambda>r. f r = RelayAccept) rs,
      rp_discards = map (\<lambda>r. (r, verdict_reasons (f r))) (filter (\<lambda>r. f r \<noteq> RelayAccept) rs)\<rparr>"

lemma partition_verdicts_Inr:
  assumes "\<And>r. r \<in> set rs \<Longrightarrow> f r = Inr (g r)"
  shows "partition_verdicts f rs = Inr (partition_of g rs)"
  using assms
  by (induction rs) (auto simp: partition_of_def verdict_reasons_def split: relay_verdict.splits)

definition the_endpoints :: "annotated_relay_list \<Rightarrow> wireguard_relay \<Rightarrow> relay_endpoint_set" where
  "the_endpoints relays r = the (endpoint_set_for relays r)"

lemma partition_by_verdict_Inr:
  assumes "annotated_ok relays"
  shows "partition_by_verdict relays f =
    Inr (partition_of (\<lambda>r. f r (the_endpoints relays r)) (relay_list_relays (arl_inner relays)))"
  unfolding partition_by_verdict_def
proof (rule partition_verdicts_Inr)
  fix r assume "r \<in> set (relay_list_relays (arl_inner relays))"
  then obtain es where "endpoint_set_for relays r = Some es"
    using assms by (auto simp: annotated_ok_def)
  then show "and_then (of_option (Panic ''Relays in list always have an endpoint set'')
      (endpoint_set_for relays r)) (\<lambda>es. Inr (f r es)) = Inr (f r (the_endpoints relays r))"
    by (simp add: the_endpoints_def)
qed

end
