(* ===== verification/Relay_Selector.thy ===== *)
theory Relay_Selector
  imports Relay_Filter
begin

text \<open>
  The relay selector (\<open>mullvad-relay-selector/src/relay_selector/\<close>): the weighted choice of
  \<open>helpers.rs\<close>, the choice of one or two relays for a query and the retry loop of \<open>mod.rs\<close>, and the
  peer configuration of \<open>detailer.rs\<close>. A \<open>u64\<close> sum wraps around, as in the release build.
\<close>

unbundle bit_operations_syntax

section \<open>Weighted choice\<close>

definition saturating_sub :: "u64 \<Rightarrow> u64 \<Rightarrow> u64" where
  "saturating_sub a b = (if a \<le> b then 0 else a - b)"

text \<open>\<open>relays.find\<close> with its closure that counts the drawn number down.\<close>

fun roulette :: "('r \<Rightarrow> u64) \<Rightarrow> u64 \<Rightarrow> 'r list \<Rightarrow> 'r option" where
  "roulette wt i [] = None"
| "roulette wt i (r # rs) =
     (let i = saturating_sub i (wt r) in if i = 0 then Some r else roulette wt i rs)"

definition pick_random_relay_weighted ::
  "('r list \<Rightarrow> 'r option) \<Rightarrow> (u64 \<Rightarrow> u64 \<Rightarrow> u64) \<Rightarrow> ('r \<Rightarrow> u64) \<Rightarrow> 'r list
   \<Rightarrow> selector_error + 'r option" where
  "pick_random_relay_weighted pick random_range wt relays =
     (let total_weight = sum_list (map wt relays)
      in if total_weight = 0 then Inr (pick relays)
         else case roulette wt (random_range 1 total_weight) relays of
                Some r \<Rightarrow> Inr (Some r)
              | None \<Rightarrow> Inl (Panic ''At least one relay must've had a weight above 0''))"

text \<open>The first argument numbers the draw: 0 for the exit or only relay, 1 for the entry.\<close>

definition pick_random_relay ::
  "rng \<Rightarrow> nat \<Rightarrow> wireguard_relay list \<Rightarrow> selector_error + wireguard_relay option" where
  "pick_random_relay rng n relays =
     pick_random_relay_weighted (rng_relay rng n) (rng_weight rng n) weight relays"

definition pick_random_relay_excluding ::
  "rng \<Rightarrow> nat \<Rightarrow> wireguard_relay list \<Rightarrow> wireguard_relay \<Rightarrow> selector_error + wireguard_relay option" where
  "pick_random_relay_excluding rng n relays exclude =
     pick_random_relay_weighted (rng_relay rng n) (rng_weight rng n) weight
       (filter (\<lambda>a. \<not> relay_eq a exclude) relays)"

section \<open>Floating point comparison\<close>

text \<open>
  \<open>f64::total_cmp\<close> compares bit patterns as signed integers after flipping the lower bits of
  negative numbers; \<open><=\<close> is false for \<open>NaN\<close> and does not distinguish the two zeros.
\<close>

definition f64_total_key :: "f64 \<Rightarrow> int" where
  "f64_total_key x = (if bit x 63 then - 1 - uint (x AND 0x7FFFFFFFFFFFFFFF) else uint x)"

definition f64_is_nan :: "f64 \<Rightarrow> bool" where
  "f64_is_nan x = (x AND 0x7FFFFFFFFFFFFFFF > 0x7FF0000000000000)"

definition f64_le :: "f64 \<Rightarrow> f64 \<Rightarrow> bool" where
  "f64_le a b = (\<not> f64_is_nan a \<and> \<not> f64_is_nan b \<and>
     (f64_total_key a \<le> f64_total_key b \<or>
      a AND 0x7FFFFFFFFFFFFFFF = 0 \<and> b AND 0x7FFFFFFFFFFFFFFF = 0))"

section \<open>Choosing the relays\<close>

datatype wireguard_config =
  Singlehop (wc_exit: wireguard_relay)
| Multihop (wc_exit: wireguard_relay) (wc_entry: wireguard_relay)

text \<open>\<open>sort_unstable_by\<close> gives some sorted arrangement; the stable one stands for it.\<close>

definition closest_relays :: "haversine \<Rightarrow> wireguard_relay list \<Rightarrow> location \<Rightarrow> wireguard_relay list" where
  "closest_relays hav entries from =
     (let candidates = sort_key (\<lambda>c. f64_total_key (fst c))
            (map (\<lambda>e. (distance_from hav (rl_location e) from, e)) entries);
          min_distance = (case candidates of [] \<Rightarrow> 0 | c # _ \<Rightarrow> fst c)
      in map snd (takeWhile (\<lambda>c. f64_le (fst c) min_distance) candidates))"

definition select_from_multihop_partitions ::
  "haversine \<Rightarrow> rng \<Rightarrow> multihop_partitions \<Rightarrow> multihop_constraints \<Rightarrow> selector_error + wireguard_config" where
  "select_from_multihop_partitions hav rng partitions c =
     and_then (pick_random_relay rng 0 (rp_matches (mp_exits partitions))) (\<lambda>exit.
     and_then (of_option (NoRelayExit (mh_exit c)) exit) (\<lambda>exit.
     let entries = rp_matches (mp_entries partitions);
         candidates = (case ex_location (ec_general (mh_entry c)) of
             Any \<Rightarrow> closest_relays hav entries (rl_location exit)
           | Only _ \<Rightarrow> entries)
     in and_then (pick_random_relay_excluding rng 1 candidates exit) (\<lambda>entry.
        and_then (of_option (NoRelayEntry (mh_entry c)) entry) (\<lambda>entry.
        Inr (Multihop exit entry)))))"

definition select_wireguard_relay ::
  "haversine \<Rightarrow> rng \<Rightarrow> annotated_relay_list \<Rightarrow> custom_lists_settings \<Rightarrow> relay_query
   \<Rightarrow> selector_error + wireguard_config" where
  "select_wireguard_relay hav rng relays custom_lists query = (case rq_hops query of
       HopsSingle c \<Rightarrow>
         and_then (partition_entry relays c custom_lists) (\<lambda>partitions.
         and_then (pick_random_relay rng 0 (rp_matches partitions)) (\<lambda>exit.
         case exit of Some exit \<Rightarrow> Inr (Singlehop exit) | None \<Rightarrow> Inl (NoRelay query)))
     | HopsAuto c \<Rightarrow>
         and_then (partition_autohop relays c custom_lists) (\<lambda>autohop.
         and_then (pick_random_relay rng 0 (rp_matches (ap_singlehop autohop))) (\<lambda>exit.
         case exit of
           Some exit \<Rightarrow> Inr (Singlehop exit)
         | None \<Rightarrow> select_from_multihop_partitions hav rng (ap_multihop autohop) (into_autohop c)))
     | HopsMulti c \<Rightarrow>
         and_then (partition_multihop relays c custom_lists) (\<lambda>partitions.
         select_from_multihop_partitions hav rng partitions c))"

section \<open>The WireGuard peers\<close>

definition allowed_ips_allow_all :: allowed_ips where
  "allowed_ips_allow_all = [NetV4 0 0, NetV6 0 0]"

definition allowed_ips_to_constraint :: "allowed_ips \<Rightarrow> allowed_ips constraint" where
  "allowed_ips_to_constraint ips = (if ips = [] then Any else Only ips)"

definition allowed_ips_resolve :: "allowed_ips \<Rightarrow> u32 option \<Rightarrow> u128 option \<Rightarrow> ip_network list" where
  "allowed_ips_resolve ips host_ipv4 host_ipv6 =
     ips @ (case host_ipv6 of Some a \<Rightarrow> [NetV6 a 128] | None \<Rightarrow> [])
         @ (case host_ipv4 of Some a \<Rightarrow> [NetV4 a 32] | None \<Rightarrow> [])"

definition resolve_from_constraint ::
  "allowed_ips constraint \<Rightarrow> u32 option \<Rightarrow> u128 option \<Rightarrow> ip_network list" where
  "resolve_from_constraint c host_ipv4 host_ipv6 =
     allowed_ips_resolve
       (case c of Any \<Rightarrow> allowed_ips_allow_all
        | Only ips \<Rightarrow> if ips = [] then allowed_ips_allow_all else ips)
       host_ipv4 host_ipv6"

record mullvad_endpoint =
  me_peer :: peer_config
  me_exit_peer :: "peer_config option"
  me_ipv4_gateway :: u32
  me_ipv6_gateway :: u128

definition WIREGUARD_EXIT_PORT :: u16 where
  "WIREGUARD_EXIT_PORT = 51820"

definition wireguard_singlehop_endpoint ::
  "allowed_ips constraint \<Rightarrow> endpoint_data \<Rightarrow> wireguard_relay \<Rightarrow> socket_addr \<Rightarrow> mullvad_endpoint" where
  "wireguard_singlehop_endpoint allowed_ips data exit endpoint =
     \<lparr>me_peer = \<lparr>pc_public_key = wre_public_key (endpoint_data exit),
                pc_allowed_ips = resolve_from_constraint allowed_ips
                  (Some (ed_ipv4_gateway data)) (Some (ed_ipv6_gateway data)),
                pc_endpoint = endpoint, pc_psk = None, pc_constant_packet_size = False\<rparr>,
      me_exit_peer = None,
      me_ipv4_gateway = ed_ipv4_gateway data, me_ipv6_gateway = ed_ipv6_gateway data\<rparr>"

text \<open>\<open>IpNetwork::from\<close> an address is the network of that one address.\<close>

fun ip_network_from :: "ip_addr \<Rightarrow> ip_network" where
  "ip_network_from (IpV4 a) = NetV4 a 32"
| "ip_network_from (IpV6 a) = NetV6 a 128"

definition wireguard_multihop_endpoint ::
  "allowed_ips constraint \<Rightarrow> endpoint_data \<Rightarrow> wireguard_relay \<Rightarrow> wireguard_relay \<Rightarrow> socket_addr
   \<Rightarrow> mullvad_endpoint" where
  "wireguard_multihop_endpoint allowed_ips data exit entry entry_endpoint =
     (let exit_endpoint = socket_addr_new (IpV4 (ipv4_addr_in exit)) WIREGUARD_EXIT_PORT;
          exit = \<lparr>pc_public_key = wre_public_key (endpoint_data exit),
                  pc_allowed_ips = resolve_from_constraint allowed_ips
                    (Some (ed_ipv4_gateway data)) (Some (ed_ipv6_gateway data)),
                  pc_endpoint = exit_endpoint, pc_psk = None, pc_constant_packet_size = False\<rparr>;
          entry = \<lparr>pc_public_key = wre_public_key (endpoint_data entry),
                   pc_allowed_ips = [ip_network_from (sock_ip (pc_endpoint exit))],
                   pc_endpoint = entry_endpoint, pc_psk = None, pc_constant_packet_size = False\<rparr>
      in \<lparr>me_peer = entry, me_exit_peer = Some exit,
          me_ipv4_gateway = ed_ipv4_gateway data, me_ipv6_gateway = ed_ipv6_gateway data\<rparr>)"

definition wireguard_endpoint ::
  "allowed_ips constraint \<Rightarrow> endpoint_data \<Rightarrow> wireguard_config \<Rightarrow> socket_addr \<Rightarrow> mullvad_endpoint" where
  "wireguard_endpoint allowed_ips data config entry_endpoint = (case config of
       Singlehop exit \<Rightarrow> wireguard_singlehop_endpoint allowed_ips data exit entry_endpoint
     | Multihop exit entry \<Rightarrow> wireguard_multihop_endpoint allowed_ips data exit entry entry_endpoint)"

section \<open>Answering a query\<close>

record get_relay =
  gr_endpoint :: mullvad_endpoint
  gr_obfuscator :: "obfuscators option"
  gr_inner :: wireguard_config

definition config_entry :: "wireguard_config \<Rightarrow> wireguard_relay" where
  "config_entry config = (case config of Singlehop exit \<Rightarrow> exit | Multihop _ entry \<Rightarrow> entry)"

definition get_relay_by_query ::
  "haversine \<Rightarrow> rng \<Rightarrow> annotated_relay_list \<Rightarrow> custom_lists_settings \<Rightarrow> relay_query
   \<Rightarrow> selector_error + get_relay" where
  "get_relay_by_query hav rng annotated custom_lists query =
     and_then (select_wireguard_relay hav rng annotated custom_lists query) (\<lambda>inner.
     and_then (of_option (NoRelay query) (endpoint_set_for annotated (config_entry inner))) (\<lambda>es.
     let entry_specific = query_entry_specific query
     in case get_wireguard_obfuscator rng es (es_obfuscation entry_specific) (es_ip_version entry_specific) of
          Inl e \<Rightarrow> Inl (NoObfuscator e)
        | Inr (wg_addr, obfuscator) \<Rightarrow>
            Inr \<lparr>gr_endpoint = wireguard_endpoint (rq_allowed_ips query)
                   (rl_wireguard (arl_inner annotated)) inner wg_addr,
                 gr_obfuscator = obfuscator, gr_inner = inner\<rparr>))"

section \<open>The retry loop\<close>

text \<open>
  \<open>filter_map(..ok()).cycle().nth(n)\<close>: the next success among the queries left, starting over once
  when they are used up, and none if a whole pass fails. Every call draws from a generator of its
  own: \<open>d\<close> counts the calls. \<open>ok()\<close> hides errors, but a call that panics ends the iteration with that panic.
\<close>

fun is_panic :: "selector_error \<Rightarrow> bool" where
  "is_panic (Panic msg) = True"
| "is_panic _ = False"

fun next_ok ::
  "(nat \<Rightarrow> 'q \<Rightarrow> selector_error + 'a) \<Rightarrow> nat \<Rightarrow> 'q list \<Rightarrow> (selector_error + 'a) option \<times> 'q list \<times> nat" where
  "next_ok f d [] = (None, [], d)"
| "next_ok f d (q # qs) =
     (case f d q of
        Inr v \<Rightarrow> (Some (Inr v), qs, Suc d)
      | Inl e \<Rightarrow> if is_panic e then (Some (Inl e), qs, Suc d) else next_ok f (Suc d) qs)"

definition cycle_next ::
  "(nat \<Rightarrow> 'q \<Rightarrow> selector_error + 'a) \<Rightarrow> 'q list \<Rightarrow> 'q list \<times> nat
   \<Rightarrow> (selector_error + 'a) option \<times> 'q list \<times> nat" where
  "cycle_next f orig st =
     (case next_ok f (snd st) (fst st) of
        (Some r, rest, d) \<Rightarrow> (Some r, rest, d)
      | (None, _, d) \<Rightarrow> next_ok f d orig)"

fun cycle_nth ::
  "(nat \<Rightarrow> 'q \<Rightarrow> selector_error + 'a) \<Rightarrow> 'q list \<Rightarrow> nat \<Rightarrow> 'q list \<times> nat \<Rightarrow> (selector_error + 'a) option \<times> nat" where
  "cycle_nth f orig 0 st = (case cycle_next f orig st of (o', _, d) \<Rightarrow> (o', d))"
| "cycle_nth f orig (Suc n) st =
     (case cycle_next f orig st of
        (None, _, d) \<Rightarrow> (None, d)
      | (Some (Inl e), _, d) \<Rightarrow> (Some (Inl e), d)
      | (Some (Inr _), rest, d) \<Rightarrow> cycle_nth f orig n (rest, d))"

definition get_relay_with_custom_params ::
  "haversine \<Rightarrow> (nat \<Rightarrow> rng) \<Rightarrow> annotated_relay_list \<Rightarrow> custom_lists_settings \<Rightarrow> relay_query
   \<Rightarrow> nat \<Rightarrow> entry_specific_constraints list \<Rightarrow> ip_availability \<Rightarrow> selector_error + get_relay" where
  "get_relay_with_custom_params hav rngs annotated custom_lists config_query retry_attempt retry_order
     runtime_ip_availability =
     and_then (apply_ip_availability config_query runtime_ip_availability) (\<lambda>user_query.
     let queries = List.map_filter (merge_retry user_query) retry_order;
         f = (\<lambda>d q. get_relay_by_query hav (rngs d) annotated custom_lists q)
     in case cycle_nth f queries retry_attempt (queries, 0) of
          (Some r, _) \<Rightarrow> r
        | (None, d) \<Rightarrow> f d user_query)"

section \<open>The selector and its state\<close>

record shadowsocks_endpoint_data =
  sed_port :: u16
  sed_cipher :: string
  sed_password :: string
  sed_protocol :: transport_protocol

record bridge_list =
  bl_bridges :: "relay list"
  bl_bridge_endpoint :: "shadowsocks_endpoint_data list"

record shadowsocks_proxy =
  sp_endpoint :: socket_addr
  sp_password :: string
  sp_cipher :: string

record selector_config =
  sc_query :: relay_query
  sc_custom_lists :: custom_lists_settings

record relay_selector =
  rs_config :: selector_config
  rs_relays :: annotated_relay_list
  rs_bridges :: bridge_list

definition config_from_settings :: "selector_settings \<Rightarrow> selector_config" where
  "config_from_settings settings =
     \<lparr>sc_query = query_from_settings settings, sc_custom_lists = st_custom_lists settings\<rparr>"

definition config_from_query :: "relay_query \<Rightarrow> selector_config" where
  "config_from_query query = \<lparr>sc_query = query, sc_custom_lists = []\<rparr>"

definition selector_from_query ::
  "relay_query \<Rightarrow> relay_list \<Rightarrow> bridge_list \<Rightarrow> selector_error + relay_selector" where
  "selector_from_query query relays bridges =
     and_then (annotated_new relays) (\<lambda>annotated.
     Inr \<lparr>rs_config = config_from_query query, rs_relays = annotated, rs_bridges = bridges\<rparr>)"

definition selector_from_settings ::
  "selector_settings \<Rightarrow> relay_list \<Rightarrow> bridge_list \<Rightarrow> selector_error + relay_selector" where
  "selector_from_settings settings relays bridges =
     and_then (annotated_new relays) (\<lambda>annotated.
     Inr \<lparr>rs_config = config_from_settings settings, rs_relays = annotated, rs_bridges = bridges\<rparr>)"

definition set_config :: "selector_settings \<Rightarrow> relay_selector \<Rightarrow> relay_selector" where
  "set_config settings s = s\<lparr>rs_config := config_from_settings settings\<rparr>"

definition set_custom_lists :: "custom_lists_settings \<Rightarrow> relay_selector \<Rightarrow> relay_selector" where
  "set_custom_lists ls s = s\<lparr>rs_config := (rs_config s)\<lparr>sc_custom_lists := ls\<rparr>\<rparr>"

definition set_relays :: "relay_list \<Rightarrow> relay_selector \<Rightarrow> selector_error + relay_selector" where
  "set_relays relays s =
     and_then (annotated_new relays) (\<lambda>annotated. Inr (s\<lparr>rs_relays := annotated\<rparr>))"

definition set_bridges :: "bridge_list \<Rightarrow> relay_selector \<Rightarrow> relay_selector" where
  "set_bridges bridges s = s\<lparr>rs_bridges := bridges\<rparr>"

definition selector_get_relay ::
  "haversine \<Rightarrow> (nat \<Rightarrow> rng) \<Rightarrow> relay_selector \<Rightarrow> nat \<Rightarrow> ip_availability \<Rightarrow> selector_error + get_relay" where
  "selector_get_relay hav rngs s retry_attempt runtime_ip_availability =
     get_relay_with_custom_params hav rngs (rs_relays s) (sc_custom_lists (rs_config s))
       (sc_query (rs_config s)) retry_attempt RETRY_ORDER runtime_ip_availability"

definition to_proxy_settings :: "shadowsocks_endpoint_data \<Rightarrow> ip_addr \<Rightarrow> shadowsocks_proxy" where
  "to_proxy_settings d addr =
     \<lparr>sp_endpoint = socket_addr_new addr (sed_port d), sp_password = sed_password d, sp_cipher = sed_cipher d\<rparr>"

definition bridge_endpoint ::
  "(shadowsocks_endpoint_data list \<Rightarrow> shadowsocks_endpoint_data option)
   \<Rightarrow> shadowsocks_endpoint_data list \<Rightarrow> relay \<Rightarrow> shadowsocks_proxy option" where
  "bridge_endpoint pick data relay =
     map_option (\<lambda>d. to_proxy_settings d (IpV4 (ipv4_addr_in relay))) (pick data)"

definition get_proxy_settings ::
  "(relay list \<Rightarrow> relay option) \<Rightarrow> (u64 \<Rightarrow> u64 \<Rightarrow> u64)
   \<Rightarrow> (shadowsocks_endpoint_data list \<Rightarrow> shadowsocks_endpoint_data option)
   \<Rightarrow> bridge_list \<Rightarrow> selector_error + (shadowsocks_proxy \<times> relay)" where
  "get_proxy_settings pick_bridge random_range pick bridges =
     and_then (pick_random_relay_weighted pick_bridge random_range weight
                (filter active (bl_bridges bridges))) (\<lambda>bridge.
     and_then (of_option NoBridge bridge) (\<lambda>bridge.
     and_then (of_option NoBridge (bridge_endpoint pick (bl_bridge_endpoint bridges) bridge)) (\<lambda>endpoint.
     Inr (endpoint, bridge))))"

end
