(* ===== verification/Encrypted_Dns.thy ===== *)
theory Encrypted_Dns
  imports Net_Types "HOL-Library.Multiset"
begin

text \<open>
  The encrypted DNS proxy (\<open>mullvad-encrypted-dns-proxy/src/\<close>): proxy configurations that are hidden
  in IPv6 addresses (\<open>config/\<close>), the order in which they are tried (\<open>state.rs\<close>), and the stream
  that applies their obfuscation (\<open>forwarder.rs\<close>). Arrays of bytes are lists. A slice or a remainder
  that would panic is \<open>None\<close>. The lookup of the addresses is a parameter, and so is the order in which
  a \<open>HashSet\<close> is iterated: a set is the list of its elements in that order.
\<close>

unbundle bit_operations_syntax

section \<open>Configurations\<close>

datatype edp_error =
  UnknownProxyType u16
| XorV1Unsupported
| InvalidPort u16
| EmptyXorKey

datatype edp_proxy_type = EdpPlain | EdpXorV1 | EdpXorV2

record xor_key =
  xk_data :: "u8 list"
  xk_len :: nat

datatype obfuscation_config = XorV2 xor_key

record edp_config =
  edp_ip :: u32
  edp_port :: u16
  edp_obfuscation :: "obfuscation_config option"

text \<open>\<open>u16::from_le_bytes\<close>, \<open>Ipv4Addr::from([u8; 4])\<close> and \<open>Ipv6Addr::octets\<close>.\<close>

definition u16_from_le_bytes :: "u8 \<Rightarrow> u8 \<Rightarrow> u16" where
  "u16_from_le_bytes a b = of_nat (unat a + 256 * unat b)"

fun ipv4_from_bytes :: "u8 list \<Rightarrow> u32" where
  "ipv4_from_bytes [a, b, c, d] = ipv4_new (unat a) (unat b) (unat c) (unat d)"
| "ipv4_from_bytes _ = 0"

definition ipv6_octets :: "u128 \<Rightarrow> u8 list" where
  "ipv6_octets ip = map (\<lambda>i. ucast (drop_bit (8 * (15 - i)) ip)) [0 ..< 16]"

definition proxy_type_try_from :: "u8 \<Rightarrow> u8 \<Rightarrow> edp_error + edp_proxy_type" where
  "proxy_type_try_from a b =
     (let t = u16_from_le_bytes a b in
      if t = 1 then Inr EdpPlain
      else if t = 2 then Inr EdpXorV1
      else if t = 3 then Inr EdpXorV2
      else Inl (UnknownProxyType t))"

definition parse_plain :: "u8 list \<Rightarrow> edp_error + edp_config" where
  "parse_plain data =
     (let ip = ipv4_from_bytes (take 4 data);
          port = u16_from_le_bytes (data ! 4) (data ! 5) in
      if port = 0 then Inl (InvalidPort 0)
      else Inr \<lparr>edp_ip = ip, edp_port = port, edp_obfuscation = None\<rparr>)"

text \<open>\<open>iter().position(|b| *b == 0).unwrap_or(len)\<close> is the length of the part before the first zero.\<close>

definition xor_key_try_from :: "u8 list \<Rightarrow> edp_error + xor_key" where
  "xor_key_try_from key_bytes =
     (let key_len = length (takeWhile (\<lambda>b. b \<noteq> 0) key_bytes) in
      if key_len = 0 then Inl EmptyXorKey
      else Inr \<lparr>xk_data = take key_len key_bytes @ replicate (length key_bytes - key_len) 0,
                xk_len = key_len\<rparr>)"

definition parse_xor :: "u8 list \<Rightarrow> edp_error + edp_config" where
  "parse_xor data =
     (let ip = ipv4_from_bytes (take 4 data);
          port = u16_from_le_bytes (data ! 4) (data ! 5) in
      if port = 0 then Inl (InvalidPort port)
      else and_then (xor_key_try_from (drop 6 data)) (\<lambda>key.
           Inr \<lparr>edp_ip = ip, edp_port = port, edp_obfuscation = Some (XorV2 key)\<rparr>))"

definition edp_config_try_from :: "u128 \<Rightarrow> edp_error + edp_config" where
  "edp_config_try_from ip =
     (let data = ipv6_octets ip;
          payload = drop 4 data in
      and_then (proxy_type_try_from (data ! 2) (data ! 3)) (\<lambda>proxy_type.
      case proxy_type of
        EdpPlain \<Rightarrow> parse_plain payload
      | EdpXorV1 \<Rightarrow> Inl XorV1Unsupported
      | EdpXorV2 \<Rightarrow> parse_xor payload))"

text \<open>The configurations in the answer of a lookup: what is not one is skipped.\<close>

definition configs_of_lookup :: "ip_addr list \<Rightarrow> edp_config list" where
  "configs_of_lookup addrs =
     List.map_filter (\<lambda>addr. case addr of
         IpV4 _ \<Rightarrow> None
       | IpV6 a \<Rightarrow> (case edp_config_try_from a of Inl _ \<Rightarrow> None | Inr c \<Rightarrow> Some c)) addrs"

section \<open>Obfuscation\<close>

definition key_data :: "xor_key \<Rightarrow> u8 list option" where
  "key_data key = (if xk_len key \<le> length (xk_data key) then Some (take (xk_len key) (xk_data key)) else None)"

record xor_obfuscator =
  xo_key :: xor_key
  xo_key_index :: nat

definition xor_obfuscator_new :: "xor_key \<Rightarrow> xor_obfuscator" where
  "xor_obfuscator_new key = \<lparr>xo_key = key, xo_key_index = 0\<rparr>"

fun xor_bytes :: "u8 list \<Rightarrow> nat \<Rightarrow> u8 list \<Rightarrow> (nat \<times> u8 list) option" where
  "xor_bytes k key_index [] = Some (key_index, [])"
| "xor_bytes k key_index (byte # bytes) =
     (if k = [] then None
      else map_option (\<lambda>(i, out). (i, (byte XOR k ! (key_index mod length k)) # out))
             (xor_bytes k ((key_index + 1) mod length k) bytes))"

definition obfuscate :: "xor_obfuscator \<Rightarrow> u8 list \<Rightarrow> (xor_obfuscator \<times> u8 list) option" where
  "obfuscate self buffer =
     Option.bind (key_data (xo_key self)) (\<lambda>k.
     map_option (\<lambda>(i, out). (self\<lparr>xo_key_index := i\<rparr>, out)) (xor_bytes k (xo_key_index self) buffer))"

definition create_obfuscator :: "obfuscation_config \<Rightarrow> xor_obfuscator" where
  "create_obfuscator c = (case c of XorV2 key \<Rightarrow> xor_obfuscator_new key)"

definition obfuscate_opt :: "xor_obfuscator option \<Rightarrow> u8 list \<Rightarrow> (xor_obfuscator option \<times> u8 list) option" where
  "obfuscate_opt ob buffer =
     (case ob of None \<Rightarrow> Some (None, buffer)
      | Some ob \<Rightarrow> map_option (\<lambda>(ob, out). (Some ob, out)) (obfuscate ob buffer))"

section \<open>The forwarder\<close>

record forwarder =
  fwd_read_obfuscator :: "xor_obfuscator option"
  fwd_write_obfuscator :: "xor_obfuscator option"

definition forwarder_from_stream :: "edp_config \<Rightarrow> forwarder" where
  "forwarder_from_stream proxy_config =
     (case edp_obfuscation proxy_config of
        Some c \<Rightarrow> \<lparr>fwd_read_obfuscator = Some (create_obfuscator c),
                   fwd_write_obfuscator = Some (create_obfuscator c)\<rparr>
      | None \<Rightarrow> \<lparr>fwd_read_obfuscator = None, fwd_write_obfuscator = None\<rparr>)"

text \<open>
  The loop of \<open>forward\<close>: each element is what one read returned; an empty read or a failed read ends
  it. The result is what has been written to the sink.
\<close>

fun forward_loop :: "xor_obfuscator option \<Rightarrow> u8 list list \<Rightarrow> u8 list option" where
  "forward_loop ob [] = Some []"
| "forward_loop ob (chunk # chunks) =
     (if chunk = [] then Some []
      else Option.bind (obfuscate_opt ob chunk) (\<lambda>(ob, out).
           map_option ((@) out) (forward_loop ob chunks)))"

text \<open>
  Polling: the stream below is pending, fails, or is ready. A write that is ready says how many of
  the bytes it was given it has taken; a read that is ready has appended bytes to the buffer.
\<close>

datatype 'a poll = PollPending | PollError | PollReady 'a

text \<open>\<open>poll_write\<close> returns the forwarder, the answer, and the bytes that reached the stream.\<close>

definition edp_poll_write :: "(u8 list \<Rightarrow> nat poll) \<Rightarrow> u8 list \<Rightarrow> forwarder \<Rightarrow> (forwarder \<times> nat poll \<times> u8 list) option" where
  "edp_poll_write stream_write buf self =
     map_option (\<lambda>(ob, owned_buf).
         let r = stream_write owned_buf in
         (self\<lparr>fwd_write_obfuscator := ob\<rparr>, r,
          case r of PollReady n \<Rightarrow> take n owned_buf | _ \<Rightarrow> []))
       (obfuscate_opt (fwd_write_obfuscator self) buf)"

text \<open>\<open>poll_read\<close> on a buffer whose filled part is \<open>filled\<close>; the result is the new filled part.\<close>

definition edp_poll_read :: "u8 list poll \<Rightarrow> u8 list \<Rightarrow> forwarder \<Rightarrow> (forwarder \<times> u8 list poll) option" where
  "edp_poll_read stream_read filled self =
     (case stream_read of
        PollPending \<Rightarrow> Some (self, PollPending)
      | PollError \<Rightarrow> Some (self, PollError)
      | PollReady data \<Rightarrow>
          map_option (\<lambda>(ob, filled). (self\<lparr>fwd_read_obfuscator := ob\<rparr>, PollReady filled))
            (obfuscate_opt (fwd_read_obfuscator self) (filled @ data)))"

section \<open>The order of trying configurations\<close>

record edp_state =
  es_configurations :: "edp_config list"
  es_tried_configurations :: "edp_config list"

definition edp_state_default :: edp_state where
  "edp_state_default = \<lparr>es_configurations = [], es_tried_configurations = []\<rparr>"

definition edp_difference :: "edp_state \<Rightarrow> edp_config list" where
  "edp_difference self = filter (\<lambda>c. c \<notin> set (es_tried_configurations self)) (es_configurations self)"

definition should_reset :: "edp_state \<Rightarrow> bool" where
  "should_reset self = (length (edp_difference self) = 0)"

definition edp_reset :: "edp_state \<Rightarrow> edp_state" where
  "edp_reset self = self\<lparr>es_tried_configurations := []\<rparr>"

definition next_configuration :: "edp_state \<Rightarrow> edp_state \<times> edp_config option" where
  "next_configuration self =
     (let self = (if should_reset self then edp_reset self else self) in
      case edp_difference self of
        [] \<Rightarrow> (self, None)
      | first_config # difference \<Rightarrow>
          (let selected = (case find (\<lambda>c. edp_obfuscation c \<noteq> None) difference of
                             Some c \<Rightarrow> c | None \<Rightarrow> first_config) in
           (self\<lparr>es_tried_configurations := selected # es_tried_configurations self\<rparr>, Some selected)))"

text \<open>\<open>fetch_configs\<close>: \<open>lookup\<close> is the answer of \<open>resolve_default_config\<close>, \<open>order\<close> the iteration order.\<close>

definition fetch_configs :: "(edp_config list \<Rightarrow> edp_config list) \<Rightarrow> 'e + edp_config list \<Rightarrow> edp_state \<Rightarrow> edp_state \<times> ('e + unit)" where
  "fetch_configs order lookup self =
     (case lookup of
        Inr new_configs \<Rightarrow> (self\<lparr>es_configurations := order new_configs\<rparr>, Inr ())
      | Inl err \<Rightarrow> if es_configurations self = [] then (self, Inl err) else (self, Inr ()))"

section \<open>Keys and parsing\<close>

definition xor_key_wf :: "xor_key \<Rightarrow> bool" where
  "xor_key_wf key = (0 < xk_len key \<and> xk_len key \<le> length (xk_data key))"

definition edp_config_wf :: "edp_config \<Rightarrow> bool" where
  "edp_config_wf c =
     (edp_port c \<noteq> 0 \<and> (case edp_obfuscation c of None \<Rightarrow> True | Some (XorV2 k) \<Rightarrow> xor_key_wf k))"

lemma xor_key_try_from_wf: "xor_key_try_from bs = Inr k \<Longrightarrow> xor_key_wf k"
  by (auto simp: xor_key_try_from_def xor_key_wf_def Let_def length_takeWhile_le split: if_splits)

lemma parse_plain_wf: "parse_plain data = Inr c \<Longrightarrow> edp_config_wf c"
  by (auto simp: parse_plain_def edp_config_wf_def Let_def split: if_splits)

lemma parse_xor_wf: "parse_xor data = Inr c \<Longrightarrow> edp_config_wf c"
  by (auto simp: parse_xor_def edp_config_wf_def Let_def split: if_splits)
    (simp add: xor_key_try_from_wf)

lemma edp_config_try_from_wf: "edp_config_try_from ip = Inr c \<Longrightarrow> edp_config_wf c"
  by (auto simp: edp_config_try_from_def Let_def parse_plain_wf parse_xor_wf
      split: edp_proxy_type.splits)

lemma configs_of_lookup_wf:
  assumes "c \<in> set (configs_of_lookup addrs)"
  shows "edp_config_wf c"
proof -
  from assms obtain x where x: "(case x of IpV4 _ \<Rightarrow> None
      | IpV6 a \<Rightarrow> (case edp_config_try_from a of Inl _ \<Rightarrow> None | Inr c \<Rightarrow> Some c)) = Some c"
    by (auto simp: configs_of_lookup_def set_map_filter)
  then obtain a where "x = IpV6 a" by (cases x) auto
  with x show ?thesis by (cases "edp_config_try_from a") (auto intro: edp_config_try_from_wf)
qed

text \<open>Two keys are equal as soon as their key material is: the bytes after it are cleared.\<close>

lemma xor_key_eq:
  assumes "xor_key_try_from a = Inr k" "xor_key_try_from b = Inr l" "length a = length b"
    and "key_data k = key_data l"
  shows "k = l"
  using assms
  by (auto simp: xor_key_try_from_def key_data_def Let_def length_takeWhile_le split: if_splits)
    (metis length_take length_takeWhile_le min.absorb2)+

section \<open>The obfuscated stream\<close>

text \<open>The bytes XORed with the repeated key, from a position on: what both ends mean by the stream.\<close>

definition xor_stream :: "u8 list \<Rightarrow> nat \<Rightarrow> u8 list \<Rightarrow> u8 list" where
  "xor_stream k i bs = map (\<lambda>j. bs ! j XOR k ! ((i + j) mod length k)) [0 ..< length bs]"

lemma xor_stream_Nil [simp]: "xor_stream k i [] = []"
  by (simp add: xor_stream_def)

lemma xor_stream_Cons [simp]:
  "xor_stream k i (b # bs) = (b XOR k ! (i mod length k)) # xor_stream k (Suc i) bs"
  by (simp only: xor_stream_def length_Cons map_upt_Suc) simp

lemma length_xor_stream [simp]: "length (xor_stream k i bs) = length bs"
  by (simp add: xor_stream_def)

lemma xor_stream_append:
  "xor_stream k i (as @ bs) = xor_stream k i as @ xor_stream k (i + length as) bs"
  by (induction as arbitrary: i) auto

lemma xor_stream_mod: "xor_stream k (i mod length k) bs = xor_stream k i bs"
  by (simp add: xor_stream_def mod_add_left_eq)

lemma xor_stream_involutive [simp]: "xor_stream k i (xor_stream k i bs) = bs"
  by (induction bs arbitrary: i) (auto simp: xor.assoc)

lemma xor_bytes_exact:
  assumes "k \<noteq> []" "i < length k"
  shows "xor_bytes k i bs = Some ((i + length bs) mod length k, xor_stream k i bs)"
  using assms(2)
proof (induction bs arbitrary: i)
  case (Cons b bs)
  have "Suc i mod length k < length k" using assms(1) by simp
  from Cons.IH [OF this] Cons.prems show ?case
    using xor_stream_mod [of k "Suc i" bs] assms(1) by (simp add: mod_add_left_eq mod_Suc_eq)
qed simp

text \<open>An obfuscator that has processed \<open>n\<close> bytes, or none at all.\<close>

definition ob_at :: "xor_key option \<Rightarrow> nat \<Rightarrow> xor_obfuscator option" where
  "ob_at key n = map_option (\<lambda>k. \<lparr>xo_key = k, xo_key_index = n mod xk_len k\<rparr>) key"

definition wire :: "xor_key option \<Rightarrow> nat \<Rightarrow> u8 list \<Rightarrow> u8 list" where
  "wire key n bs = (case key of None \<Rightarrow> bs | Some k \<Rightarrow> xor_stream (take (xk_len k) (xk_data k)) n bs)"

lemma wire_involutive [simp]: "wire key n (wire key n bs) = bs"
  by (simp add: wire_def split: option.splits)

lemma length_wire [simp]: "length (wire key n bs) = length bs"
  by (simp add: wire_def split: option.splits)

lemma wire_Nil [simp]: "wire key n [] = []"
  by (simp add: wire_def split: option.splits)

lemma wire_append: "wire key n (as @ bs) = wire key n as @ wire key (n + length as) bs"
  by (simp add: wire_def xor_stream_append split: option.splits)

lemma obfuscate_opt_exact:
  assumes "\<forall>k. key = Some k \<longrightarrow> xor_key_wf k"
  shows "obfuscate_opt (ob_at key n) bs = Some (ob_at key (n + length bs), wire key n bs)"
proof (cases key)
  case (Some k)
  let ?k = "take (xk_len k) (xk_data k)"
  have k: "length ?k = xk_len k" "?k \<noteq> []" "xk_len k \<le> length (xk_data k)" "0 < xk_len k"
    using assms Some by (auto simp: xor_key_wf_def)
  show ?thesis
    using xor_bytes_exact [of ?k "n mod xk_len k" bs] k xor_stream_mod [of ?k n bs]
    by (simp add: Some obfuscate_opt_def obfuscate_def ob_at_def wire_def key_data_def mod_add_left_eq)
qed (simp add: obfuscate_opt_def ob_at_def wire_def)

lemma ob_at_new: "map_option create_obfuscator (map_option XorV2 key) = ob_at key 0"
  by (cases key) (simp_all add: ob_at_def create_obfuscator_def xor_obfuscator_new_def)

lemma forward_loop_exact:
  assumes "\<forall>k. key = Some k \<longrightarrow> xor_key_wf k" and "[] \<notin> set chunks"
  shows "forward_loop (ob_at key n) chunks = Some (wire key n (concat chunks))"
  using assms(2)
  by (induction chunks arbitrary: n) (auto simp: obfuscate_opt_exact [OF assms(1)] wire_append)

section \<open>Every configuration gets its turn\<close>

definition obfuscated :: "edp_config \<Rightarrow> bool" where
  "obfuscated c = (edp_obfuscation c \<noteq> None)"

text \<open>What remains to be tried when the next configuration is asked for.\<close>

definition edp_remaining :: "edp_state \<Rightarrow> edp_config list" where
  "edp_remaining self = (if edp_difference self = [] then es_configurations self else edp_difference self)"

lemma edp_remaining_alt: "edp_remaining self = edp_difference (if should_reset self then edp_reset self else self)"
  by (auto simp: edp_remaining_def should_reset_def edp_reset_def edp_difference_def)

lemma next_configuration_exact:
  assumes "distinct (es_configurations self)" and "edp_remaining self \<noteq> []"
  obtains self' c where "next_configuration self = (self', Some c)" and "c \<in> set (edp_remaining self)"
    and "es_configurations self' = es_configurations self"
    and "edp_difference self' = filter (\<lambda>x. x \<noteq> c) (edp_remaining self)"
    and "(\<exists>x \<in> set (edp_remaining self). obfuscated x) \<Longrightarrow> obfuscated c"
proof -
  define s where "s = (if should_reset self then edp_reset self else self)"
  have s: "edp_remaining self = edp_difference s" "es_configurations s = es_configurations self"
    by (simp_all add: s_def edp_remaining_alt edp_reset_def)
  obtain x xs where d: "edp_difference s = x # xs"
    using assms(2) s(1) by (cases "edp_difference s") auto
  define c where "c = (case find (\<lambda>c. edp_obfuscation c \<noteq> None) xs of Some c \<Rightarrow> c | None \<Rightarrow> x)"
  have "next_configuration self =
      (s\<lparr>es_tried_configurations := c # es_tried_configurations s\<rparr>, Some c)"
    unfolding next_configuration_def Let_def by (simp only: s_def [symmetric] d list.case c_def [symmetric])
  moreover have "c \<in> set (x # xs)" and "(\<exists>y \<in> set (x # xs). obfuscated y) \<Longrightarrow> obfuscated c"
    by (auto simp: c_def obfuscated_def find_None_iff find_Some_iff split: option.splits)
  moreover have "edp_difference (s\<lparr>es_tried_configurations := c # es_tried_configurations s\<rparr>) =
      filter (\<lambda>x. x \<noteq> c) (edp_difference s)"
    by (simp add: edp_difference_def conj_commute)
  ultimately show thesis using that s d by simp
qed

fun next_configurations :: "nat \<Rightarrow> edp_state \<Rightarrow> edp_config option list" where
  "next_configurations 0 self = []"
| "next_configurations (Suc n) self =
     (case next_configuration self of (self, c) \<Rightarrow> c # next_configurations n self)"

lemma next_configurations_exhaust:
  assumes "distinct (es_configurations self)" and "edp_difference self \<noteq> []"
  shows "\<exists>cs. next_configurations (length (edp_difference self)) self = map Some cs \<and>
    mset cs = mset (edp_difference self) \<and> sorted_wrt (\<lambda>a b. obfuscated b \<longrightarrow> obfuscated a) cs"
  using assms
proof (induction "length (edp_difference self)" arbitrary: self)
  case (Suc n)
  have rem: "edp_remaining self = edp_difference self" using Suc.prems(2) by (simp add: edp_remaining_def)
  obtain self' c where step: "next_configuration self = (self', Some c)" "c \<in> set (edp_difference self)"
    "es_configurations self' = es_configurations self"
    "edp_difference self' = filter (\<lambda>x. x \<noteq> c) (edp_difference self)"
    "(\<exists>x \<in> set (edp_difference self). obfuscated x) \<Longrightarrow> obfuscated c"
    using next_configuration_exact [OF Suc.prems(1)] Suc.prems(2) rem by metis
  have dist: "distinct (edp_difference self)" using Suc.prems(1) by (simp add: edp_difference_def)
  have rest: "filter (\<lambda>x. x \<noteq> c) (edp_difference self) = remove1 c (edp_difference self)"
    using dist by (simp add: distinct_remove1_removeAll removeAll_filter_not_eq eq_commute)
  then have len: "n = length (edp_difference self')"
    using Suc.hyps(2) step(2,4) by (simp add: length_remove1)
  have "\<exists>cs. next_configurations n self' = map Some cs \<and> mset cs = mset (edp_difference self') \<and>
      sorted_wrt (\<lambda>a b. obfuscated b \<longrightarrow> obfuscated a) cs"
  proof (cases "edp_difference self' = []")
    case True then show ?thesis using len by simp
  next
    case False then show ?thesis using Suc.hyps(1) [OF len] Suc.prems(1) step(3) len by simp
  qed
  then obtain cs where cs: "next_configurations n self' = map Some cs" "mset cs = mset (edp_difference self')"
    "sorted_wrt (\<lambda>a b. obfuscated b \<longrightarrow> obfuscated a) cs" by blast
  have "set cs \<subseteq> set (edp_difference self)" using cs(2) step(4) by (metis filter_is_subset mset_eq_setD)
  then have "sorted_wrt (\<lambda>a b. obfuscated b \<longrightarrow> obfuscated a) (c # cs)"
    using cs(3) step(5) by auto
  moreover have "mset (c # cs) = mset (edp_difference self)"
    using cs(2) step(2,4) rest by (simp add: mset_remove1)
  ultimately show ?case
    using cs(1) step(1) by (intro exI [of _ "c # cs"]) (simp add: Suc.hyps(2) [symmetric])
qed simp

end
