(* ===== verification/Access_Methods.thy ===== *)
theory Access_Methods
  imports Relay_Selector Encrypted_Dns
begin

text \<open>
  The access methods of the API: proxies (\<open>talpid-types/src/net/proxy.rs\<close>), the settings with their
  operations (\<open>mullvad-types/src/access_method.rs\<close>), and the commands of the daemon on them
  (\<open>mullvad-daemon/src/access_method.rs\<close>). A UUID is a word of 128 bits; a new one is an argument.
  Strings are bytes, so that \<open>len\<close> is their length.
\<close>

section \<open>Proxies\<close>

datatype socks_auth = SocksAuth (sa_username: string) (sa_password: string)

definition socks_auth_new :: "string \<Rightarrow> string \<Rightarrow> string + socks_auth" where
  "socks_auth_new username password =
     (if \<not> (1 \<le> length password \<and> length password \<le> 255)
      then Inl ''Password length should between 1 and 255 bytes''
      else if \<not> (1 \<le> length username \<and> length username \<le> 255)
      then Inl ''Username length should between 1 and 255 bytes''
      else Inr (SocksAuth username password))"

record socks5_local =
  sl_remote_endpoint :: endpoint
  sl_local_port :: u16

record socks5_remote =
  sr_endpoint :: socket_addr
  sr_auth :: "socks_auth option"

definition socks5_local_new_with_transport_protocol ::
  "socket_addr \<Rightarrow> u16 \<Rightarrow> transport_protocol \<Rightarrow> socks5_local" where
  "socks5_local_new_with_transport_protocol remote_endpoint local_port protocol =
     \<lparr>sl_remote_endpoint = endpoint_from_socket_address remote_endpoint protocol, sl_local_port = local_port\<rparr>"

definition socks5_local_new :: "socket_addr \<Rightarrow> u16 \<Rightarrow> socks5_local" where
  "socks5_local_new remote_endpoint local_port =
     socks5_local_new_with_transport_protocol remote_endpoint local_port Tcp"

definition socks5_remote_new :: "socket_addr \<Rightarrow> socks5_remote" where
  "socks5_remote_new endpoint = \<lparr>sr_endpoint = endpoint, sr_auth = None\<rparr>"

definition socks5_remote_new_with_authentication :: "socket_addr \<Rightarrow> socks_auth \<Rightarrow> socks5_remote" where
  "socks5_remote_new_with_authentication endpoint auth = \<lparr>sr_endpoint = endpoint, sr_auth = Some auth\<rparr>"

datatype custom_proxy =
  CustomShadowsocks shadowsocks_proxy
| CustomSocks5Local socks5_local
| CustomSocks5Remote socks5_remote

datatype proxy_kind = KindShadowsocks | KindCustom

definition get_remote_endpoint :: "custom_proxy \<Rightarrow> endpoint \<times> proxy_kind" where
  "get_remote_endpoint p =
     (case p of
        CustomSocks5Local s \<Rightarrow> (sl_remote_endpoint s, KindCustom)
      | CustomSocks5Remote s \<Rightarrow> (endpoint_from_socket_address (sr_endpoint s) Tcp, KindCustom)
      | CustomShadowsocks s \<Rightarrow> (endpoint_from_socket_address (sp_endpoint s) Tcp, KindShadowsocks))"

section \<open>Access methods\<close>

datatype built_in_access_method = AmDirect | AmBridge | AmEncryptedDnsProxy | AmDomainFronting

datatype access_method = BuiltIn built_in_access_method | Custom custom_proxy

fun canonical_name :: "built_in_access_method \<Rightarrow> string" where
  "canonical_name AmDirect = ''Direct''"
| "canonical_name AmBridge = ''Mullvad Bridges''"
| "canonical_name AmEncryptedDnsProxy = ''Encrypted DNS proxy''"
| "canonical_name AmDomainFronting = ''Domain fronting''"

record access_method_setting =
  ams_id :: u128
  ams_name :: string
  ams_enabled :: bool
  ams_access_method :: access_method

definition access_method_setting_new :: "u128 \<Rightarrow> string \<Rightarrow> bool \<Rightarrow> access_method \<Rightarrow> access_method_setting" where
  "access_method_setting_new uuid name enabled method =
     \<lparr>ams_id = uuid, ams_name = name, ams_enabled = enabled, ams_access_method = method\<rparr>"

definition ams_disabled :: "access_method_setting \<Rightarrow> bool" where
  "ams_disabled s = (\<not> ams_enabled s)"

definition ams_as_custom :: "access_method_setting \<Rightarrow> custom_proxy option" where
  "ams_as_custom s = (case ams_access_method s of BuiltIn _ \<Rightarrow> None | Custom p \<Rightarrow> Some p)"

definition ams_is_builtin :: "access_method_setting \<Rightarrow> bool" where
  "ams_is_builtin s = (ams_as_custom s = None)"

definition ams_is_direct :: "access_method_setting \<Rightarrow> bool" where
  "ams_is_direct s = (ams_access_method s = BuiltIn AmDirect)"

definition ams_enable :: "access_method_setting \<Rightarrow> access_method_setting" where
  "ams_enable s = s\<lparr>ams_enabled := True\<rparr>"

definition ams_disable :: "access_method_setting \<Rightarrow> access_method_setting" where
  "ams_disable s = s\<lparr>ams_enabled := False\<rparr>"

section \<open>The settings\<close>

datatype access_method_error = AmDuplicateName | RemoveBuiltin built_in_access_method

record access_settings =
  acs_direct :: access_method_setting
  acs_mullvad_bridges :: access_method_setting
  acs_encrypted_dns_proxy :: access_method_setting
  acs_domain_fronting :: access_method_setting
  acs_custom :: "access_method_setting list"

definition create_builtin :: "built_in_access_method \<Rightarrow> u128 \<Rightarrow> access_method_setting" where
  "create_builtin method uuid = access_method_setting_new uuid (canonical_name method) True (BuiltIn method)"

definition access_settings_default :: "u128 \<Rightarrow> u128 \<Rightarrow> u128 \<Rightarrow> u128 \<Rightarrow> access_settings" where
  "access_settings_default u1 u2 u3 u4 =
     \<lparr>acs_direct = create_builtin AmDirect u1, acs_mullvad_bridges = create_builtin AmBridge u2,
      acs_encrypted_dns_proxy = create_builtin AmEncryptedDnsProxy u3,
      acs_domain_fronting = create_builtin AmDomainFronting u4, acs_custom = []\<rparr>"

definition acs_iter :: "access_settings \<Rightarrow> access_method_setting list" where
  "acs_iter s = [acs_direct s, acs_mullvad_bridges s, acs_encrypted_dns_proxy s, acs_domain_fronting s] @ acs_custom s"

text \<open>\<open>iter_mut\<close>: the same order, as what an assignment through the \<open>i\<close>-th reference changes.\<close>

definition acs_iter_mut :: "nat \<Rightarrow> access_method_setting \<Rightarrow> access_settings \<Rightarrow> access_settings" where
  "acs_iter_mut i v s =
     (if i = 0 then s\<lparr>acs_direct := v\<rparr>
      else if i = 1 then s\<lparr>acs_mullvad_bridges := v\<rparr>
      else if i = 2 then s\<lparr>acs_encrypted_dns_proxy := v\<rparr>
      else if i = 3 then s\<lparr>acs_domain_fronting := v\<rparr>
      else s\<lparr>acs_custom := (acs_custom s)[i - 4 := v]\<rparr>)"

definition cardinality :: "access_settings \<Rightarrow> nat" where
  "cardinality s = length (acs_iter s)"

fun position :: "('a \<Rightarrow> bool) \<Rightarrow> 'a list \<Rightarrow> nat option" where
  "position p [] = None"
| "position p (x # xs) = (if p x then Some 0 else map_option Suc (position p xs))"

definition ensure_consistent_state :: "access_settings \<Rightarrow> access_settings" where
  "ensure_consistent_state s =
     (if list_all ams_disabled (acs_iter s) then s\<lparr>acs_direct := ams_enable (acs_direct s)\<rparr> else s)"

definition check_custom_access_method_name_is_unique ::
  "access_settings \<Rightarrow> access_method_setting \<Rightarrow> access_method_error + unit" where
  "check_custom_access_method_name_is_unique s new_method =
     (if list_ex (\<lambda>m. ams_id m \<noteq> ams_id new_method \<and> ams_name m = ams_name new_method) (acs_custom s)
      then Inl AmDuplicateName else Inr ())"

definition acs_append :: "access_method_setting \<Rightarrow> access_settings \<Rightarrow> access_method_error + access_settings" where
  "acs_append m s =
     and_then (check_custom_access_method_name_is_unique s m) (\<lambda>_.
     Inr (s\<lparr>acs_custom := acs_custom s @ [m]\<rparr>))"

definition acs_remove :: "u128 \<Rightarrow> access_settings \<Rightarrow> access_method_error + access_settings" where
  "acs_remove i s =
     (case find (\<lambda>m. ams_id m = i) (acs_custom s) of
        Some x \<Rightarrow>
          (case ams_access_method x of
             BuiltIn built_in \<Rightarrow> Inl (RemoveBuiltin built_in)
           | Custom _ \<Rightarrow>
               Inr (ensure_consistent_state (s\<lparr>acs_custom := filter (\<lambda>m. ams_id m \<noteq> i) (acs_custom s)\<rparr>)))
      | None \<Rightarrow> Inr s)"

definition acs_update ::
  "(access_method_setting \<Rightarrow> bool) \<Rightarrow> (access_method_setting \<Rightarrow> access_method_setting) \<Rightarrow> access_settings
   \<Rightarrow> access_method_error + (access_settings \<times> bool)" where
  "acs_update predicate f s =
     (case position predicate (acs_iter s) of
        Some i \<Rightarrow>
          (let new_access_method = f (acs_iter s ! i) in
           and_then (check_custom_access_method_name_is_unique s new_access_method) (\<lambda>_.
           Inr (ensure_consistent_state (acs_iter_mut i new_access_method s), True)))
      | None \<Rightarrow> Inr (ensure_consistent_state s, False))"

definition acs_update_builtin ::
  "(access_method_setting \<Rightarrow> bool) \<Rightarrow> (access_method_setting \<Rightarrow> access_method_setting) \<Rightarrow> access_settings
   \<Rightarrow> access_settings \<times> bool" where
  "acs_update_builtin predicate f s =
     (case position (\<lambda>m. ams_is_builtin m \<and> predicate m) (acs_iter s) of
        Some i \<Rightarrow> (acs_iter_mut i (f (acs_iter s ! i)) s, True)
      | None \<Rightarrow> (s, False))"

definition acs_clear_custom :: "access_settings \<Rightarrow> access_settings" where
  "acs_clear_custom s = ensure_consistent_state (s\<lparr>acs_custom := []\<rparr>)"

section \<open>Commands of the daemon\<close>

text \<open>
  The closures that the daemon passes to the settings persister, which keeps the old settings when
  they fail.
\<close>

datatype access_command =
  AddAccessMethod u128 string bool access_method
| RemoveAccessMethod u128
| UseAccessMethod u128
| UpdateAccessMethod access_method_setting
| ClearCustomAccessMethods

definition add_access_method :: "u128 \<Rightarrow> string \<Rightarrow> bool \<Rightarrow> access_method \<Rightarrow> access_settings \<Rightarrow> access_method_error + access_settings" where
  "add_access_method uuid name enabled method s = acs_append (access_method_setting_new uuid name enabled method) s"

definition remove_access_method :: "u128 \<Rightarrow> access_settings \<Rightarrow> access_method_error + access_settings" where
  "remove_access_method i s = acs_remove i s"

definition use_api_access_method :: "u128 \<Rightarrow> access_settings \<Rightarrow> access_method_error + access_settings" where
  "use_api_access_method i s =
     and_then (acs_update (\<lambda>m. ams_id m = i) ams_enable s) (\<lambda>(s, _). Inr s)"

definition get_api_access_method :: "u128 \<Rightarrow> access_settings \<Rightarrow> u128 + access_method_setting" where
  "get_api_access_method i s = of_option i (find (\<lambda>m. ams_id m = i) (acs_iter s))"

definition update_access_method :: "access_method_setting \<Rightarrow> access_settings \<Rightarrow> access_method_error + access_settings" where
  "update_access_method new s =
     and_then (acs_update (\<lambda>m. ams_id m = ams_id new) (\<lambda>_. new) s) (\<lambda>(s, _). Inr s)"

definition clear_custom_api_access_methods :: "access_settings \<Rightarrow> access_settings" where
  "clear_custom_api_access_methods s = acs_clear_custom s"

definition access_command_exec :: "access_command \<Rightarrow> access_settings \<Rightarrow> access_method_error + access_settings" where
  "access_command_exec c s =
     (case c of
        AddAccessMethod uuid name enabled method \<Rightarrow> add_access_method uuid name enabled method s
      | RemoveAccessMethod i \<Rightarrow> remove_access_method i s
      | UseAccessMethod i \<Rightarrow> use_api_access_method i s
      | UpdateAccessMethod new \<Rightarrow> update_access_method new s
      | ClearCustomAccessMethods \<Rightarrow> Inr (clear_custom_api_access_methods s))"

definition access_command_step :: "access_command \<Rightarrow> access_settings \<Rightarrow> access_settings" where
  "access_command_step c s = (case access_command_exec c s of Inr s' \<Rightarrow> s' | Inl _ \<Rightarrow> s)"

section \<open>Invariant\<close>

text \<open>
  Some method is enabled, identifiers are distinct, and so are the names of custom methods.
\<close>

definition access_settings_wf :: "access_settings \<Rightarrow> bool" where
  "access_settings_wf s =
     (list_ex ams_enabled (acs_iter s) \<and> distinct (map ams_id (acs_iter s)) \<and>
      distinct (map ams_name (acs_custom s)))"

lemma length_acs_iter [simp]: "length (acs_iter s) = 4 + length (acs_custom s)"
  by (simp add: acs_iter_def)

lemma acs_iter_iter_mut:
  "acs_iter (acs_iter_mut i v s) = (acs_iter s)[i := v]"
proof -
  have "i = 0 \<or> i = Suc 0 \<or> i = Suc (Suc 0) \<or> i = Suc (Suc (Suc 0)) \<or> i = Suc (Suc (Suc (Suc (i - 4))))"
    by presburger
  then show ?thesis
    by (elim disjE) (auto simp: acs_iter_mut_def acs_iter_def split: nat.split)
qed

lemma position_Some:
  "position p xs = Some i \<Longrightarrow> i < length xs \<and> p (xs ! i)"
  by (induction xs arbitrary: i) (auto split: if_splits)

lemma position_None: "position p xs = None \<longleftrightarrow> (\<forall>x \<in> set xs. \<not> p x)"
  by (induction xs) auto

lemma acs_iter_ensure:
  "acs_iter (ensure_consistent_state s) =
     (if list_all ams_disabled (acs_iter s) then (acs_iter s)[0 := ams_enable (acs_direct s)] else acs_iter s)"
  by (simp add: ensure_consistent_state_def acs_iter_def)

lemma ensure_enabled: "list_ex ams_enabled (acs_iter (ensure_consistent_state s))"
  by (auto simp: ensure_consistent_state_def list_all_iff list_ex_iff ams_disabled_def ams_enable_def acs_iter_def)

lemma ensure_ids [simp]: "map ams_id (acs_iter (ensure_consistent_state s)) = map ams_id (acs_iter s)"
  by (simp add: ensure_consistent_state_def acs_iter_def ams_enable_def)

lemma ensure_custom [simp]: "acs_custom (ensure_consistent_state s) = acs_custom s"
  by (simp add: ensure_consistent_state_def)

lemma unique_name_Inr:
  "check_custom_access_method_name_is_unique s m = Inr u \<longleftrightarrow>
     (\<forall>x \<in> set (acs_custom s). ams_name x = ams_name m \<longrightarrow> ams_id x = ams_id m)"
  by (auto simp: check_custom_access_method_name_is_unique_def list_ex_iff)

lemma acs_append_wf:
  assumes "access_settings_wf s" "acs_append m s = Inr s'" "ams_id m \<notin> ams_id ` set (acs_iter s)"
  shows "access_settings_wf s'"
proof -
  have s': "acs_iter s' = acs_iter s @ [m]" "acs_custom s' = acs_custom s @ [m]"
    and name: "\<forall>x \<in> set (acs_custom s). ams_name x = ams_name m \<longrightarrow> ams_id x = ams_id m"
    using assms(2) unfolding acs_append_def and_then_Inr_iff unique_name_Inr by (auto simp: acs_iter_def)
  have "ams_id x \<noteq> ams_id m" if "x \<in> set (acs_custom s)" for x
    using assms(3) that by (auto simp: acs_iter_def image_iff)
  with name have "\<forall>x \<in> set (acs_custom s). ams_name x \<noteq> ams_name m" by fast
  then have "ams_name m \<notin> ams_name ` set (acs_custom s)" by (auto simp: image_iff)
  then show ?thesis
    using assms(1,3) by (auto simp: access_settings_wf_def s')
qed

lemma acs_clear_custom_wf: "access_settings_wf s \<Longrightarrow> access_settings_wf (acs_clear_custom s)"
  using ensure_enabled [of "s\<lparr>acs_custom := []\<rparr>"]
  by (simp add: access_settings_wf_def acs_clear_custom_def) (simp add: acs_iter_def)

lemma acs_remove_wf:
  assumes "access_settings_wf s" "acs_remove i s = Inr s'"
  shows "access_settings_wf s'"
proof -
  let ?t = "s\<lparr>acs_custom := filter (\<lambda>m. ams_id m \<noteq> i) (acs_custom s)\<rparr>"
  have "distinct (map ams_id (acs_iter ?t))"
    using assms(1) by (auto simp: access_settings_wf_def acs_iter_def distinct_map_filter)
  then have "access_settings_wf (ensure_consistent_state ?t)"
    using assms(1) ensure_enabled [of ?t] by (auto simp: access_settings_wf_def distinct_map_filter)
  then show ?thesis
    using assms by (auto simp: acs_remove_def split: option.splits access_method.splits)
qed

text \<open>An assignment keeps the identifiers if it keeps its own, and the names if its name is new.\<close>

lemma acs_iter_mut_wf:
  assumes "access_settings_wf s" "i < length (acs_iter s)" "ams_id v = ams_id (acs_iter s ! i)"
    "\<forall>x \<in> set (acs_custom s). ams_name x = ams_name v \<longrightarrow> ams_id x = ams_id v"
  shows "access_settings_wf (ensure_consistent_state (acs_iter_mut i v s))"
proof -
  let ?t = "acs_iter_mut i v s"
  have ids: "map ams_id (acs_iter ?t) = map ams_id (acs_iter s)"
    using assms(2,3) by (simp only: acs_iter_iter_mut map_update) (metis list_update_id map_update nth_map)
  have "distinct (map ams_name (acs_custom ?t))"
  proof (cases "i < 4")
    case True
    then have "acs_custom ?t = acs_custom s" by (auto simp: acs_iter_mut_def)
    then show ?thesis using assms(1) by (simp add: access_settings_wf_def)
  next
    case False
    define n where "n = i - 4"
    have n: "acs_custom ?t = (acs_custom s)[n := v]" "n < length (acs_custom s)" "acs_iter s ! i = acs_custom s ! n"
      using False assms(2) by (auto simp: acs_iter_mut_def n_def acs_iter_def nth_append numeral_eq_Suc)
    have "ams_name v \<noteq> ams_name (acs_custom s ! j)" if "j < length (acs_custom s)" "j \<noteq> n" for j
    proof
      assume "ams_name v = ams_name (acs_custom s ! j)"
      then have "ams_id (acs_custom s ! j) = ams_id (acs_custom s ! n)"
        using assms(3,4) that(1) n(3) by (metis nth_mem)
      moreover have "distinct (map ams_id (acs_custom s))"
        using assms(1) by (simp add: access_settings_wf_def acs_iter_def)
      ultimately show False using that n(2) by (simp add: distinct_conv_nth)
    qed
    moreover have "distinct (map ams_name (acs_custom s))" using assms(1) by (simp add: access_settings_wf_def)
    ultimately have "distinct (map ams_name ((acs_custom s)[n := v]))"
      using n(2) by (fastforce simp: map_update distinct_conv_nth nth_list_update)
    then show ?thesis using n(1) by simp
  qed
  then show ?thesis
    using ids assms(1) ensure_enabled [of ?t] by (simp add: access_settings_wf_def)
qed

lemma acs_update_wf:
  assumes "access_settings_wf s" "acs_update p f s = Inr (s', u)" "\<And>m. p m \<Longrightarrow> ams_id (f m) = ams_id m"
  shows "access_settings_wf s'"
proof (cases "position p (acs_iter s)")
  case None
  then show ?thesis using assms(1,2) ensure_enabled [of s] by (auto simp: acs_update_def access_settings_wf_def)
next
  case (Some i)
  then show ?thesis
    using assms acs_iter_mut_wf [OF assms(1)] position_Some [OF Some]
    by (auto simp: acs_update_def Let_def unique_name_Inr)
qed

definition fresh_for :: "access_command \<Rightarrow> access_settings \<Rightarrow> bool" where
  "fresh_for c s = (case c of AddAccessMethod uuid _ _ _ \<Rightarrow> uuid \<notin> ams_id ` set (acs_iter s) | _ \<Rightarrow> True)"

lemma access_command_wf:
  assumes "access_settings_wf s" "fresh_for c s"
  shows "access_settings_wf (access_command_step c s)"
proof (cases "access_command_exec c s")
  case (Inr s')
  have "access_settings_wf s'"
    using assms Inr
    by (cases c) (auto simp: access_command_exec_def fresh_for_def add_access_method_def remove_access_method_def
        use_api_access_method_def update_access_method_def clear_custom_api_access_methods_def
        access_method_setting_new_def ams_enable_def acs_clear_custom_wf
        intro: acs_append_wf acs_remove_wf acs_update_wf)
  then show ?thesis by (simp add: access_command_step_def Inr)
qed (use assms in \<open>simp add: access_command_step_def\<close>)

end
