(* ===== verification/Dns_Config.thy ===== *)
theory Dns_Config
  imports Net_Types
begin

unbundle bit_operations_syntax

text \<open>
  DNS configuration: the configuration types and their resolution against the tunnel gateways
  (\<open>talpid-dns/src/lib.rs\<close>), the user's DNS options (\<open>mullvad-types/src/settings/dns.rs\<close>) and
  the computation of the configuration from the options (\<open>mullvad-daemon/src/dns.rs\<close>), which
  classifies custom servers with \<open>is_local_address\<close> (\<open>talpid-core/src/firewall/mod.rs\<close>).
  \<open>IpNetwork::contains\<close> belongs to the \<open>ipnetwork\<close> crate and is the parameter \<open>contains\<close>.
\<close>

section \<open>Configurations and their resolution\<close>

datatype dns_config =
  DnsDefault
| DnsOverride (over_tunnel: "ip_addr list") (over_non_tunnel: "ip_addr list")

definition from_addresses :: "ip_addr list \<Rightarrow> ip_addr list \<Rightarrow> dns_config" where
  "from_addresses tunnel_config non_tunnel_config = DnsOverride tunnel_config non_tunnel_config"

record resolved_dns_config =
  rd_tunnel_config :: "ip_addr list"
  rd_non_tunnel_config :: "ip_addr list"

fun dns_resolve :: "dns_config \<Rightarrow> ip_addr list \<Rightarrow> resolved_dns_config" where
  "dns_resolve DnsDefault default_tun_config =
     \<lparr>rd_tunnel_config = default_tun_config, rd_non_tunnel_config = []\<rparr>"
| "dns_resolve (DnsOverride tunnel_config non_tunnel_config) default_tun_config =
     \<lparr>rd_tunnel_config = tunnel_config, rd_non_tunnel_config = non_tunnel_config\<rparr>"

definition rd_addresses :: "resolved_dns_config \<Rightarrow> ip_addr list" where
  "rd_addresses c = rd_non_tunnel_config c @ rd_tunnel_config c"

definition rd_is_loopback :: "resolved_dns_config \<Rightarrow> bool" where
  "rd_is_loopback c =
     (let (loopback_addrs, non_loopback_addrs) =
            partition is_loopback_ip (rd_tunnel_config c @ rd_non_tunnel_config c)
      in loopback_addrs \<noteq> [] \<and> non_loopback_addrs = [])"

section \<open>The user's options\<close>

datatype dns_state = DnsStateDefault | DnsStateCustom

record default_dns_options =
  block_ads :: bool
  block_trackers :: bool
  block_malware :: bool
  block_adult_content :: bool
  block_gambling :: bool
  block_social_media :: bool

record dns_options =
  do_state :: dns_state
  do_default_options :: default_dns_options
  do_custom_addresses :: "ip_addr list"

definition any_blockers_enabled :: "default_dns_options \<Rightarrow> bool" where
  "any_blockers_enabled d =
     (block_ads d \<or> block_trackers d \<or> block_malware d \<or> block_adult_content d
      \<or> block_gambling d \<or> block_social_media d)"

section \<open>From options to a configuration\<close>

definition LOOPBACK_NETS :: "ip_network list" where
  "LOOPBACK_NETS = [NetV4 (ipv4_new 127 0 0 0) 8, NetV6 (ipv6_new [0, 0, 0, 0, 0, 0, 0, 1]) 128]"

definition is_local_address :: "(ip_network \<Rightarrow> ip_addr \<Rightarrow> bool) \<Rightarrow> ip_addr \<Rightarrow> bool" where
  "is_local_address contains address =
     list_ex (\<lambda>net. contains net address) (ALLOWED_LAN_NETS @ LOOPBACK_NETS)"

text \<open>\<open>Ipv4Addr::octets\<close> and the conversion back from four octets.\<close>

definition ipv4_octets :: "u32 \<Rightarrow> u8 list" where
  "ipv4_octets a = [ucast (drop_bit 24 a), ucast (drop_bit 16 a), ucast (drop_bit 8 a), ucast a]"

definition ipv4_from_octets :: "u8 list \<Rightarrow> u32" where
  "ipv4_from_octets os = ipv4_new (unat (os ! 0)) (unat (os ! 1)) (unat (os ! 2)) (unat (os ! 3))"

definition DNS_BLOCKING_IP_BASE :: u32 where
  "DNS_BLOCKING_IP_BASE = ipv4_new 100 64 0 0"

definition dns_last_byte :: "default_dns_options \<Rightarrow> u8" where
  "dns_last_byte d =
     (let b = 0;
          b = (if block_ads d then b OR 1 else b);
          b = (if block_trackers d then b OR 2 else b);
          b = (if block_malware d then b OR 4 else b);
          b = (if block_adult_content d then b OR 8 else b);
          b = (if block_gambling d then b OR 16 else b);
          b = (if block_social_media d then b OR 32 else b)
      in b)"

definition addresses_from_options ::
  "(ip_network \<Rightarrow> ip_addr \<Rightarrow> bool) \<Rightarrow> dns_options \<Rightarrow> dns_config" where
  "addresses_from_options contains options =
     (case do_state options of
        DnsStateDefault \<Rightarrow>
          (let last_byte = dns_last_byte (do_default_options options)
           in if last_byte \<noteq> 0 then
                (let dns_ip = ipv4_octets DNS_BLOCKING_IP_BASE;
                     dns_ip = dns_ip[length dns_ip - 1 := dns_ip ! (length dns_ip - 1) OR last_byte]
                 in from_addresses [IpV4 (ipv4_from_octets dns_ip)] [])
              else DnsDefault)
      | DnsStateCustom \<Rightarrow>
          (if do_custom_addresses options = [] then DnsDefault
           else (let (non_tunnel_config, tunnel_config) =
                       partition (is_local_address contains) (do_custom_addresses options)
                 in from_addresses tunnel_config non_tunnel_config)))"

section \<open>Properties\<close>

lemma dns_last_byte_bits:
  "bit (dns_last_byte d) 0 = block_ads d"
  "bit (dns_last_byte d) 1 = block_trackers d"
  "bit (dns_last_byte d) 2 = block_malware d"
  "bit (dns_last_byte d) 3 = block_adult_content d"
  "bit (dns_last_byte d) 4 = block_gambling d"
  "bit (dns_last_byte d) 5 = block_social_media d"
  by (auto simp: dns_last_byte_def Let_def bit_or_iff)

lemma dns_last_byte_zero: "dns_last_byte d = 0 \<longleftrightarrow> \<not> any_blockers_enabled d"
proof
  assume "dns_last_byte d = 0"
  then show "\<not> any_blockers_enabled d"
    using dns_last_byte_bits [of d] by (auto simp: any_blockers_enabled_def)
qed (simp add: dns_last_byte_def any_blockers_enabled_def)

lemma dns_last_byte_inject: "dns_last_byte d = dns_last_byte e \<longleftrightarrow> d = e"
proof
  assume eq: "dns_last_byte d = dns_last_byte e"
  show "d = e"
    using dns_last_byte_bits [of d] dns_last_byte_bits [of e]
    by (intro default_dns_options.equality) (simp_all add: eq)
qed simp

lemma blocking_octets: "ipv4_octets DNS_BLOCKING_IP_BASE = [100, 64, 0, 0]"
  by (simp add: ipv4_octets_def DNS_BLOCKING_IP_BASE_def ipv4_new_def drop_bit_eq_div unsigned_ucast_eq)

lemma push_bit_8_and_ucast: "push_bit 8 (x :: u32) AND ucast (b :: u8) = 0"
  by (rule bit_word_eqI)
    (auto simp: bit_and_iff bit_push_bit_iff bit_ucast_iff dest: bit_imp_le_length)

lemma ipv4_from_octets_or:
  "ipv4_from_octets [100, 64, 0, b] = DNS_BLOCKING_IP_BASE OR ucast b"
proof -
  have "(0x64400000 :: u32) AND ucast b = 0"
    using push_bit_8_and_ucast [of "0x644000" b] by simp
  then have "(0x64400000 :: u32) OR ucast b = 0x64400000 + ucast b"
    by (simp add: disjunctive_add_eq_or)
  moreover have "ipv4_from_octets [100, 64, 0, b] = 0x64400000 + ucast b"
    by (simp add: ipv4_from_octets_def ipv4_new_def)
  ultimately show ?thesis by (simp add: DNS_BLOCKING_IP_BASE_def ipv4_new_def)
qed

lemma addresses_from_options_default:
  "do_state options = DnsStateDefault \<Longrightarrow>
   addresses_from_options contains options =
     (if any_blockers_enabled (do_default_options options)
      then from_addresses
             [IpV4 (DNS_BLOCKING_IP_BASE OR ucast (dns_last_byte (do_default_options options)))] []
      else DnsDefault)"
  by (simp add: addresses_from_options_def dns_last_byte_zero blocking_octets Let_def
      ipv4_from_octets_or)

end
