(* ===== verification/Firewall_Policy.thy ===== *)
theory Firewall_Policy
  imports Dns_Config
begin

text \<open>
  The platform-independent part of the firewall (\<open>talpid-core/src/firewall/mod.rs\<close>): the policy
  that the tunnel state machine asks for and its accessors. Fields of other platforms
  (\<open>exit_endpoint_ip\<close>, \<open>redirect_interface\<close>) are absent from the Linux build.
\<close>

datatype firewall_policy =
  PolicyConnecting
    (pol_peer_endpoints: "allowed_endpoint list")
    (pol_opt_tunnel: "tunnel_metadata option")
    (pol_allow_lan: bool)
    (pol_api_endpoint: allowed_endpoint)
    (pol_traffic: allowed_tunnel_traffic)
| PolicyConnected
    (pol_peer_endpoints: "allowed_endpoint list")
    (pol_tunnel: tunnel_metadata)
    (pol_allow_lan: bool)
    (pol_dns: resolved_dns_config)
| PolicyBlocked
    (pol_allow_lan: bool)
    (pol_opt_api_endpoint: "allowed_endpoint option")

fun policy_peer_endpoints :: "firewall_policy \<Rightarrow> allowed_endpoint list option" where
  "policy_peer_endpoints (PolicyConnecting peers _ _ _ _) = Some peers"
| "policy_peer_endpoints (PolicyConnected peers _ _ _) = Some peers"
| "policy_peer_endpoints (PolicyBlocked _ _) = None"

fun policy_allowed_endpoint :: "firewall_policy \<Rightarrow> allowed_endpoint option" where
  "policy_allowed_endpoint (PolicyConnecting _ _ _ ep _) = Some ep"
| "policy_allowed_endpoint (PolicyBlocked _ (Some ep)) = Some ep"
| "policy_allowed_endpoint _ = None"

fun policy_tunnel :: "firewall_policy \<Rightarrow> tunnel_metadata option" where
  "policy_tunnel (PolicyConnecting _ (Some tunnel) _ _ _) = Some tunnel"
| "policy_tunnel (PolicyConnected _ tunnel _ _) = Some tunnel"
| "policy_tunnel _ = None"

fun policy_allowed_tunnel_traffic :: "firewall_policy \<Rightarrow> allowed_tunnel_traffic" where
  "policy_allowed_tunnel_traffic (PolicyConnecting _ _ _ _ traffic) = traffic"
| "policy_allowed_tunnel_traffic (PolicyConnected _ _ _ _) = TrafficAll"
| "policy_allowed_tunnel_traffic (PolicyBlocked _ _) = TrafficNone"

fun policy_allow_lan :: "firewall_policy \<Rightarrow> bool" where
  "policy_allow_lan (PolicyConnecting _ _ allow_lan _ _) = allow_lan"
| "policy_allow_lan (PolicyConnected _ _ allow_lan _) = allow_lan"
| "policy_allow_lan (PolicyBlocked allow_lan _) = allow_lan"

end
