(* ===== verification/Tunnel_Types.thy ===== *)
theory Tunnel_Types
  imports Firewall_Policy
begin

text \<open>
  Data of the tunnel state machine: causes, transitions and errors (\<open>talpid-types/src/tunnel.rs\<close>),
  tunnel events (\<open>talpid-tunnel/src/lib.rs\<close>), commands and the lockdown mode
  (\<open>tunnel_state_machine/mod.rs\<close>), and the thread that runs a tunnel until it exits
  (\<open>tunnel_monitor.rs\<close> and the closure of \<open>ConnectingState::start_tunnel\<close>). Variants that only
  exist on other platforms are left out.
\<close>

section \<open>Causes and transitions\<close>

datatype parameter_generation_error =
  NoMatchingRelayEntry
| NoMatchingRelayExit
| NoMatchingRelay
| NoMatchingBridgeRelay
| CustomTunnelHostResolutionError
| IpVersionUnavailable ip_version

datatype firewall_policy_error = Generic

datatype error_state_cause =
  AuthFailed "string option"
| Ipv6Unavailable
| SetFirewallPolicyError firewall_policy_error
| SetDnsError
| StartTunnelError
| TunnelParameterError parameter_generation_error
| IsOffline

datatype action_after_disconnect = ActionNothing | ActionBlock | ActionReconnect

record error_state_info =
  es_cause :: error_state_cause
  es_block_failure :: "firewall_policy_error option"

definition is_blocking :: "error_state_info \<Rightarrow> bool" where
  "is_blocking e = (es_block_failure e = None)"

datatype tunnel_state_transition =
  TDisconnected (locked_down: bool)
| TConnecting tunnel_endpoint
| TConnected tunnel_endpoint
| TDisconnecting action_after_disconnect
| TError error_state_info

section \<open>Lockdown mode\<close>

datatype lockdown_mode = LockdownDisabled | LockdownEnabled (persist: bool)

definition lockdown_yes :: lockdown_mode where "lockdown_yes = LockdownEnabled True"
definition lockdown_no :: lockdown_mode where "lockdown_no = LockdownDisabled"

definition lockdown_bool :: "lockdown_mode \<Rightarrow> bool" where
  "lockdown_bool m = (case m of LockdownEnabled _ \<Rightarrow> True | LockdownDisabled \<Rightarrow> False)"

definition lockdown_from_bool :: "bool \<Rightarrow> lockdown_mode" where
  "lockdown_from_bool block = (if block then lockdown_yes else lockdown_no)"

text \<open>The hand-written \<open>PartialEq\<close>: the persist flag does not count.\<close>

definition lockdown_eq :: "lockdown_mode \<Rightarrow> lockdown_mode \<Rightarrow> bool" where
  "lockdown_eq a b = (lockdown_bool a = lockdown_bool b)"

lemma lockdown_from_bool_bool [simp]: "lockdown_bool (lockdown_from_bool b) = b"
  by (simp add: lockdown_from_bool_def lockdown_yes_def lockdown_no_def lockdown_bool_def)

section \<open>Events and commands\<close>

datatype tunnel_event =
  EventAuthFailed "string option"
| InterfaceUp tunnel_metadata allowed_tunnel_traffic
| Up tunnel_metadata
| Down

text \<open>
  Commands carry the sender of a oneshot channel on which completion is reported; senders are
  numbered.
\<close>

type_synonym sender = nat

datatype tunnel_command =
  AllowLan bool sender
| AllowEndpoint allowed_endpoint sender
| Dns dns_config sender
| LockdownMode lockdown_mode sender
| Connectivity connectivity
| Connect
| Disconnect
| Block error_state_cause

text \<open>What the oneshot channel of a tunnel thread yields: its block reason, or that it was dropped.\<close>

datatype canceled = Canceled

type_synonym close_result = "canceled + error_state_cause option"

datatype event_result =
  EvCommand "tunnel_command option"
| EvEvent "tunnel_event option"
| EvClose close_result

datatype after_disconnect =
  AfterNothing
| AfterBlock error_state_cause
| AfterReconnect u32

fun action :: "after_disconnect \<Rightarrow> action_after_disconnect" where
  "action AfterNothing = ActionNothing"
| "action (AfterBlock _) = ActionBlock"
| "action (AfterReconnect _) = ActionReconnect"

section \<open>The tunnel thread\<close>

datatype wg_tunnel_error =
  RecoverableStartWireguardError
| FatalStartWireguardError
| StopWireguardError
| StatsError
| GetConfigError
| SetConfigError
| FdDuplicationError
| SetupTunnelDevice
| InterfaceNameError
| StartDaita
| DaitaNotSupported
| GotaTunDevice
| ConfigureGotaTunDevice

datatype routing_error = ManagerChannelDown | PlatformError | RouteManagerDown

definition routing_is_recoverable :: "routing_error \<Rightarrow> bool" where
  "routing_is_recoverable e = False"

datatype wireguard_error =
  SetupRoutingError routing_error
| TimeoutError
| WireguardConfigError
| TunnelError wg_tunnel_error
| ObfuscationError
| ConnectivityMonitorError
| EphemeralPeerNegotiationError

fun wg_is_recoverable :: "wireguard_error \<Rightarrow> bool" where
  "wg_is_recoverable ObfuscationError = True"
| "wg_is_recoverable EphemeralPeerNegotiationError = True"
| "wg_is_recoverable (TunnelError RecoverableStartWireguardError) = True"
| "wg_is_recoverable (SetupRoutingError error) = routing_is_recoverable error"
| "wg_is_recoverable _ = False"

datatype monitor_error =
  EnableIpv6
| UnsupportedPlatform
| RotateLogError
| TunnelMonitoring wireguard_error

fun monitor_is_recoverable :: "monitor_error \<Rightarrow> bool" where
  "monitor_is_recoverable (TunnelMonitoring error) = wg_is_recoverable error"
| "monitor_is_recoverable _ = False"

fun cause_from_monitor_error :: "monitor_error \<Rightarrow> error_state_cause" where
  "cause_from_monitor_error EnableIpv6 = Ipv6Unavailable"
| "cause_from_monitor_error _ = StartTunnelError"

definition should_retry :: "monitor_error \<Rightarrow> u32 \<Rightarrow> bool" where
  "should_retry error retry_attempt = monitor_is_recoverable error"

text \<open>
  \<open>is_ipv6_enabled_in_os\<close>: the contents of \<open>disable_ipv6\<close>, \<open>None\<close> when it cannot be read.
\<close>

definition is_ipv6_enabled_in_os :: "string option \<Rightarrow> bool" where
  "is_ipv6_enabled_in_os disable_ipv6 = (case disable_ipv6 of None \<Rightarrow> False | Some s \<Rightarrow> trim s = ''0'')"

definition ensure_ipv6_can_be_used_if_enabled ::
  "string option \<Rightarrow> tunnel_parameters \<Rightarrow> monitor_error + unit" where
  "ensure_ipv6_can_be_used_if_enabled disable_ipv6 params =
     (if enable_ipv6 (tp_generic_options params) \<and> \<not> is_ipv6_enabled_in_os disable_ipv6
      then Inl EnableIpv6 else Inr ())"

text \<open>
  \<open>TunnelMonitor::start\<close>; the log file name never fails on Linux, and what starting WireGuard
  yields is an input.
\<close>

definition monitor_start ::
  "string option \<Rightarrow> tunnel_parameters \<Rightarrow> wireguard_error + 'm \<Rightarrow> monitor_error + 'm" where
  "monitor_start disable_ipv6 params started =
     and_then (ensure_ipv6_can_be_used_if_enabled disable_ipv6 params) (\<lambda>_.
     case started of Inl e \<Rightarrow> Inl (TunnelMonitoring e) | Inr m \<Rightarrow> Inr m)"

definition wait_for_tunnel_monitor ::
  "wireguard_error + unit \<Rightarrow> u32 \<Rightarrow> error_state_cause option" where
  "wait_for_tunnel_monitor waited retry_attempt =
     (case waited of
        Inr _ \<Rightarrow> None
      | Inl TimeoutError \<Rightarrow> None
      | Inl e \<Rightarrow>
          if \<not> should_retry (TunnelMonitoring e) retry_attempt then Some StartTunnelError else None)"

text \<open>
  The body of the thread spawned by \<open>start_tunnel\<close>: the block reason it sends. \<open>started\<close> yields
  the value \<open>waited\<close> that waiting for the monitor ends with.
\<close>

definition tunnel_thread ::
  "string option \<Rightarrow> tunnel_parameters \<Rightarrow> wireguard_error + (wireguard_error + unit) \<Rightarrow> u32 \<Rightarrow>
   error_state_cause option" where
  "tunnel_thread disable_ipv6 params started retry_attempt =
     (case monitor_start disable_ipv6 params started of
        Inr waited \<Rightarrow> wait_for_tunnel_monitor waited retry_attempt
      | Inl error \<Rightarrow>
          if should_retry error retry_attempt then None else Some (cause_from_monitor_error error))"

lemma tunnel_thread_causes:
  "tunnel_thread disable_ipv6 params started retry_attempt \<in> {None, Some Ipv6Unavailable, Some StartTunnelError}"
  by (auto simp: tunnel_thread_def wait_for_tunnel_monitor_def monitor_start_def
      ensure_ipv6_can_be_used_if_enabled_def should_retry_def
      split: sum.splits wireguard_error.splits elim: cause_from_monitor_error.elims)

end
