(* ===== verification/Relay_Correct.thy ===== *)
theory Relay_Correct
  imports Relay_Selector
begin

text \<open>
  Correctness of the relay selector: the weighted choice is total and respects the weights, a
  selected configuration meets the constraints of the query, two hops are two relays, and the
  retry loop never loosens the user's query.
\<close>

section \<open>The weighted choice\<close>

lemma unat_saturating_sub: "unat (saturating_sub a b) = unat a - unat b"
  by (auto simp: saturating_sub_def word_le_nat_alt unat_sub)

lemma unat_sum_list_le: "unat (sum_list (map wt rs) :: u64) \<le> sum_list (map (\<lambda>r. unat (wt r)) rs)"
proof (induction rs)
  case (Cons r rs)
  have "unat (wt r + sum_list (map wt rs)) \<le> unat (wt r) + unat (sum_list (map wt rs))"
    by (simp add: unat_word_ariths)
  with Cons show ?case by simp
qed simp

lemma roulette_total:
  assumes "i \<noteq> 0" and "unat i \<le> sum_list (map (\<lambda>r. unat (wt r)) rs)"
  shows "\<exists>r \<in> set rs. roulette wt i rs = Some r \<and> wt r \<noteq> 0"
  using assms
proof (induction rs arbitrary: i)
  case (Cons r rs)
  let ?i = "saturating_sub i (wt r)"
  show ?case
  proof (cases "?i = 0")
    case True
    then have "unat i \<le> unat (wt r)"
      using unat_saturating_sub [of i "wt r"] by simp
    with Cons.prems(1) have "wt r \<noteq> 0" by (auto simp: unat_eq_0)
    with True show ?thesis by simp
  next
    case False
    have "unat ?i \<le> sum_list (map (\<lambda>r. unat (wt r)) rs)"
      using Cons.prems(2) by (simp add: unat_saturating_sub)
    from Cons.IH [OF False this] False show ?thesis by auto
  qed
qed (simp add: unat_eq_0)

lemma pick_random_relay_weighted_total:
  assumes "chooses pick" and "draws_in_range draw"
  shows "\<exists>o'. pick_random_relay_weighted pick draw wt rs = Inr o' \<and> (o' = None \<longleftrightarrow> rs = []) \<and>
    (\<forall>r. o' = Some r \<longrightarrow> r \<in> set rs \<and> (sum_list (map wt rs) \<noteq> 0 \<longrightarrow> wt r \<noteq> 0))"
proof (cases "sum_list (map wt rs) = 0")
  case True
  then show ?thesis
    using chooses_None [OF assms(1)] chooses_Some [OF assms(1)]
    by (auto simp: pick_random_relay_weighted_def)
next
  case False
  let ?total = "sum_list (map wt rs)" and ?i = "draw 1 (sum_list (map wt rs))"
  have "1 \<le> ?total" using False by (simp add: word_le_nat_alt unat_gt_0 Suc_le_eq)
  then have i: "1 \<le> ?i" "?i \<le> ?total" using assms(2) by (auto simp: draws_in_range_def)
  have "unat ?i \<le> sum_list (map (\<lambda>r. unat (wt r)) rs)"
    using i(2) unat_sum_list_le [of wt rs] by (simp add: word_le_nat_alt)
  moreover have "?i \<noteq> 0" using i(1) by auto
  ultimately obtain r where "r \<in> set rs" "roulette wt ?i rs = Some r" "wt r \<noteq> 0"
    using roulette_total by blast
  with False show ?thesis by (auto simp: pick_random_relay_weighted_def)
qed

text \<open>The two choices of the selector, as they are used below.\<close>

lemma pick_random_relay_cases:
  assumes "rng_ok rng"
  obtains (empty) "rs = []" "pick_random_relay rng n rs = Inr None"
  | (relay) r where "r \<in> set rs" "pick_random_relay rng n rs = Inr (Some r)"
proof -
  obtain o' where "pick_random_relay rng n rs = Inr o'" "o' = None \<longleftrightarrow> rs = []"
    "\<forall>r. o' = Some r \<longrightarrow> r \<in> set rs"
    using pick_random_relay_weighted_total [OF rng_okD(1,2) [OF assms]]
    unfolding pick_random_relay_def by meson
  then show ?thesis using that by (cases o') auto
qed

lemma pick_random_relay_excluding_cases:
  assumes "rng_ok rng"
  obtains (empty) "\<forall>r \<in> set rs. relay_eq r x" "pick_random_relay_excluding rng n rs x = Inr None"
  | (relay) r where "r \<in> set rs" "\<not> relay_eq r x" "pick_random_relay_excluding rng n rs x = Inr (Some r)"
proof -
  have "pick_random_relay_excluding rng n rs x = pick_random_relay rng n (filter (\<lambda>a. \<not> relay_eq a x) rs)"
    by (simp add: pick_random_relay_excluding_def pick_random_relay_def)
  then show ?thesis
    using that by (cases rule: pick_random_relay_cases [OF assms, of "filter (\<lambda>a. \<not> relay_eq a x) rs" n])
      (auto simp: filter_empty_conv)
qed

section \<open>Partitions\<close>

definition entry_ok ::
  "annotated_relay_list \<Rightarrow> custom_lists_settings \<Rightarrow> entry_constraints \<Rightarrow> wireguard_relay \<Rightarrow> bool" where
  "entry_ok relays cl c r \<longleftrightarrow> exit_ok r (ec_general c) cl \<and>
     (es_daita (ec_entry_specific c) = Only True \<longrightarrow> wre_daita (endpoint_data r)) \<and>
     obfuscation_verdict (the_endpoints relays r) (ec_entry_specific c) = RelayAccept"

abbreviation all_relays :: "annotated_relay_list \<Rightarrow> wireguard_relay list" where
  "all_relays relays \<equiv> relay_list_relays (arl_inner relays)"

lemma partition_entry_matches:
  assumes "annotated_ok relays"
  shows "\<exists>p. partition_entry relays c cl = Inr p \<and> rp_matches p = filter (entry_ok relays cl c) (all_relays relays)"
proof -
  have "(verdict_and (usable_as_entry r (the_endpoints relays r) (ec_entry_specific c))
      (usable_as_exit r (ec_general c) cl) = RelayAccept) = entry_ok relays cl c r" for r
    by (auto simp: usable_as_entry_Accept usable_as_exit_Accept entry_ok_def)
  then show ?thesis
    by (simp add: partition_entry_def partition_by_verdict_Inr [OF assms] partition_of_def
        del: verdict_and_Accept)
qed

lemma partition_exit_matches:
  assumes "annotated_ok relays"
  shows "\<exists>p. partition_exit relays c cl = Inr p \<and> rp_matches p = filter (\<lambda>r. exit_ok r c cl) (all_relays relays)"
  by (simp add: partition_exit_def partition_by_verdict_Inr [OF assms] partition_of_def usable_as_exit_Accept)

lemma move_unique_conflict_matches:
  "rp_matches (move_unique_conflict from into) =
     (case rp_matches from of
        [u] \<Rightarrow> (case find_index (\<lambda>r. relay_eq r u) (rp_matches into) of
                 None \<Rightarrow> rp_matches into | Some pos \<Rightarrow> vec_remove pos (rp_matches into))
      | _ \<Rightarrow> rp_matches into)"
  by (simp add: move_unique_conflict_def split: list.splits option.splits)

lemma vec_remove_unique:
  assumes "distinct (map hostname rs)" and "find_index (\<lambda>r. relay_eq r u) rs = Some pos"
  shows "vec_remove pos rs = filter (\<lambda>r. \<not> relay_eq r u) rs"
proof -
  obtain pre x suf where rs: "rs = pre @ x # suf" "vec_remove pos rs = pre @ suf" "relay_eq x u"
    using vec_remove_index [OF assms(2)] by blast
  have "\<not> relay_eq r u" if "r \<in> set pre \<union> set suf" for r
    using assms(1) rs(1,3) that by (auto simp: relay_eq_def) (metis image_eqI)+
  with rs show ?thesis by (auto simp: filter_id_conv)
qed

text \<open>With unique host names, a side with a single match loses it to the other side.\<close>

lemma move_unique_conflict_filter:
  assumes "distinct (map hostname (rp_matches into))"
  shows "rp_matches (move_unique_conflict from into) =
     (case rp_matches from of
        [u] \<Rightarrow> filter (\<lambda>r. \<not> relay_eq r u) (rp_matches into)
      | _ \<Rightarrow> rp_matches into)"
proof -
  have "(case find_index (\<lambda>r. relay_eq r u) (rp_matches into) of
      None \<Rightarrow> rp_matches into | Some pos \<Rightarrow> vec_remove pos (rp_matches into)) =
      filter (\<lambda>r. \<not> relay_eq r u) (rp_matches into)" for u :: wireguard_relay
    using find_index_None [of "\<lambda>r. relay_eq r u" "rp_matches into"] vec_remove_unique [OF assms]
    by (auto split: option.splits simp: filter_id_conv)
  then show ?thesis by (simp add: move_unique_conflict_matches split: list.splits)
qed

lemma move_unique_conflict_subset:
  "set (rp_matches (move_unique_conflict from into)) \<subseteq> set (rp_matches into)"
proof -
  have "set (vec_remove pos xs) \<subseteq> set xs" for pos and xs :: "wireguard_relay list"
    unfolding vec_remove_def by (auto dest: in_set_takeD in_set_dropD)
  then show ?thesis by (auto simp: move_unique_conflict_matches split: list.splits option.splits)
qed

lemma partition_multihop_Inr:
  assumes "annotated_ok relays"
  shows "\<exists>entries exits p. partition_multihop relays c cl = Inr p \<and>
    rp_matches entries = filter (entry_ok relays cl (mh_entry c)) (all_relays relays) \<and>
    rp_matches exits = filter (\<lambda>r. exit_ok r (mh_exit c) cl) (all_relays relays) \<and>
    mp_exits p = move_unique_conflict entries exits \<and>
    mp_entries p = move_unique_conflict (mp_exits p) entries"
proof -
  obtain entries where entries: "partition_entry relays (mh_entry c) cl = Inr entries"
    "rp_matches entries = filter (entry_ok relays cl (mh_entry c)) (all_relays relays)"
    using partition_entry_matches [OF assms] by blast
  obtain exits where exits: "partition_exit relays (mh_exit c) cl = Inr exits"
    "rp_matches exits = filter (\<lambda>r. exit_ok r (mh_exit c) cl) (all_relays relays)"
    using partition_exit_matches [OF assms] by blast
  show ?thesis
    by (rule exI [of _ entries], rule exI [of _ exits])
      (use entries exits in \<open>simp add: partition_multihop_def remove_conflicting_relay_def Let_def\<close>)
qed

lemma partition_multihop_sound:
  assumes "annotated_ok relays" and "partition_multihop relays c cl = Inr p"
  shows "set (rp_matches (mp_entries p)) \<subseteq> {r \<in> set (all_relays relays). entry_ok relays cl (mh_entry c) r}"
    and "set (rp_matches (mp_exits p)) \<subseteq> {r \<in> set (all_relays relays). exit_ok r (mh_exit c) cl}"
  using partition_multihop_Inr [OF assms(1), of c cl] assms(2) move_unique_conflict_subset
  by fastforce+

section \<open>Selected relays meet the query\<close>

text \<open>What a configuration owes the constraints on its hops.\<close>

definition config_meets ::
  "annotated_relay_list \<Rightarrow> custom_lists_settings \<Rightarrow> hops \<Rightarrow> wireguard_config \<Rightarrow> bool" where
  "config_meets relays cl hops config = (case config of
       Singlehop r \<Rightarrow> r \<in> set (all_relays relays) \<and>
         (case hops of HopsSingle c \<Rightarrow> entry_ok relays cl c r | HopsAuto c \<Rightarrow> entry_ok relays cl c r
          | HopsMulti _ \<Rightarrow> False)
     | Multihop exit entry \<Rightarrow> exit \<in> set (all_relays relays) \<and> entry \<in> set (all_relays relays) \<and>
         hostname entry \<noteq> hostname exit \<and>
         (case hops of
            HopsSingle _ \<Rightarrow> False
          | HopsAuto c \<Rightarrow> entry_ok relays cl (mh_entry (into_autohop c)) entry \<and> exit_ok exit (ec_general c) cl
          | HopsMulti c \<Rightarrow> entry_ok relays cl (mh_entry c) entry \<and> exit_ok exit (mh_exit c) cl))"

lemma closest_relays_subset: "set (closest_relays hav entries from) \<subseteq> set entries"
  unfolding closest_relays_def Let_def by (auto dest!: set_takeWhileD)

lemma select_from_multihop_sound:
  assumes ok: "rng_ok rng" and r: "select_from_multihop_partitions hav rng p c = Inr config"
  shows "\<exists>exit entry. config = Multihop exit entry \<and> exit \<in> set (rp_matches (mp_exits p)) \<and>
    entry \<in> set (rp_matches (mp_entries p)) \<and> hostname entry \<noteq> hostname exit"
proof -
  let ?candidates = "\<lambda>exit. case ex_location (ec_general (mh_entry c)) of
    Any \<Rightarrow> closest_relays hav (rp_matches (mp_entries p)) (rl_location exit)
  | Only _ \<Rightarrow> rp_matches (mp_entries p)"
  obtain exit entry where exit: "pick_random_relay rng 0 (rp_matches (mp_exits p)) = Inr (Some exit)"
    and entry: "pick_random_relay_excluding rng 1 (?candidates exit) exit = Inr (Some entry)"
    and config: "config = Multihop exit entry"
    using r unfolding select_from_multihop_partitions_def Let_def by auto
  have "exit \<in> set (rp_matches (mp_exits p))"
    using exit by (cases rule: pick_random_relay_cases [OF ok, of "rp_matches (mp_exits p)" 0]) auto
  moreover have "entry \<in> set (?candidates exit)" "\<not> relay_eq entry exit"
    using entry by (cases rule: pick_random_relay_excluding_cases [OF ok, of "?candidates exit" exit 1]; auto)+
  moreover have "set (?candidates exit) \<subseteq> set (rp_matches (mp_entries p))"
    using closest_relays_subset by (auto split: constraint.splits)
  ultimately show ?thesis using config by (auto simp: relay_eq_def)
qed

lemma select_wireguard_relay_sound:
  assumes ok: "rng_ok rng" and relays: "annotated_ok relays"
    and r: "select_wireguard_relay hav rng relays cl query = Inr config"
  shows "config_meets relays cl (rq_hops query) config"
proof (cases "rq_hops query")
  case (HopsSingle c)
  obtain p where p: "partition_entry relays c cl = Inr p"
    "rp_matches p = filter (entry_ok relays cl c) (all_relays relays)"
    using partition_entry_matches [OF relays] by blast
  then show ?thesis
    using r HopsSingle
    by (cases rule: pick_random_relay_cases [OF ok, of "rp_matches p" 0])
      (auto simp: select_wireguard_relay_def config_meets_def)
next
  case (HopsAuto c)
  obtain p where p: "partition_entry relays c cl = Inr p"
    "rp_matches p = filter (entry_ok relays cl c) (all_relays relays)"
    using partition_entry_matches [OF relays] by blast
  obtain m where m: "partition_multihop relays (into_autohop c) cl = Inr m"
    using partition_multihop_Inr [OF relays] by blast
  consider (none) "pick_random_relay rng 0 (rp_matches p) = Inr None"
    | (relay) r' where "r' \<in> set (rp_matches p)" "pick_random_relay rng 0 (rp_matches p) = Inr (Some r')"
    by (rule pick_random_relay_cases [OF ok])
  then show ?thesis
  proof cases
    case none
    then have "select_from_multihop_partitions hav rng m (into_autohop c) = Inr config"
      using r HopsAuto p m by (simp add: select_wireguard_relay_def partition_autohop_def)
    from select_from_multihop_sound [OF ok this] partition_multihop_sound [OF relays m]
    show ?thesis using HopsAuto by (auto simp: config_meets_def into_autohop_def)
  next
    case relay
    then show ?thesis
      using r HopsAuto p m by (auto simp: select_wireguard_relay_def partition_autohop_def config_meets_def)
  qed
next
  case (HopsMulti c)
  obtain m where m: "partition_multihop relays c cl = Inr m"
    using partition_multihop_Inr [OF relays] by blast
  then have "select_from_multihop_partitions hav rng m c = Inr config"
    using r HopsMulti by (simp add: select_wireguard_relay_def)
  from select_from_multihop_sound [OF ok this] partition_multihop_sound [OF relays m]
  show ?thesis using HopsMulti by (auto simp: config_meets_def)
qed

section \<open>When a selection succeeds\<close>

lemma distinct_hostname_filter:
  "distinct (map hostname rs) \<Longrightarrow> distinct (map hostname (filter P rs))"
  by (simp add: distinct_map_filter)

lemma distinct_hostname_inj:
  "distinct (map hostname rs) \<Longrightarrow> x \<in> set rs \<Longrightarrow> y \<in> set rs \<Longrightarrow> relay_eq x y \<Longrightarrow> x = y"
  by (auto simp: distinct_map inj_on_def relay_eq_def)

text \<open>
  After the conflict is resolved, both sides have a relay exactly if there were two different ones,
  and then every choice of an exit leaves an entry.
\<close>

lemma conflict_resolved:
  assumes de: "distinct (map hostname (rp_matches entries))" and dx: "distinct (map hostname (rp_matches exits))"
    and x: "exits' = move_unique_conflict entries exits" and e: "entries' = move_unique_conflict exits' entries"
  shows "(\<exists>entry \<in> set (rp_matches entries). \<exists>exit \<in> set (rp_matches exits). \<not> relay_eq entry exit) \<longleftrightarrow>
      rp_matches exits' \<noteq> [] \<and>
      (\<forall>exit \<in> set (rp_matches exits'). \<exists>entry \<in> set (rp_matches entries'). \<not> relay_eq entry exit)"
    (is "?pair \<longleftrightarrow> ?ok")
proof
  have sub: "set (rp_matches exits') \<subseteq> set (rp_matches exits)" "set (rp_matches entries') \<subseteq> set (rp_matches entries)"
    unfolding x e by (rule move_unique_conflict_subset)+
  show "?ok \<Longrightarrow> ?pair"
    using sub by (cases "rp_matches exits'") auto
  assume ?pair
  then obtain a b where ab: "a \<in> set (rp_matches entries)" "b \<in> set (rp_matches exits)" "\<not> relay_eq a b" by blast
  have x': "rp_matches exits' = (case rp_matches entries of
      [u] \<Rightarrow> filter (\<lambda>r. \<not> relay_eq r u) (rp_matches exits) | _ \<Rightarrow> rp_matches exits)"
    unfolding x by (rule move_unique_conflict_filter [OF dx])
  have e': "rp_matches entries' = (case rp_matches exits' of
      [u] \<Rightarrow> filter (\<lambda>r. \<not> relay_eq r u) (rp_matches entries) | _ \<Rightarrow> rp_matches entries)"
    unfolding e by (rule move_unique_conflict_filter [OF de])
  show ?ok
  proof (cases "\<exists>u. rp_matches entries = [u]")
    case True
    then obtain u where u: "rp_matches entries = [u]" by blast
    then have exits': "rp_matches exits' = filter (\<lambda>r. \<not> relay_eq r u) (rp_matches exits)" by (simp add: x')
    then have "b \<in> set (rp_matches exits')" using ab u by (auto simp: relay_eq_def)
    moreover have "\<forall>r \<in> set (rp_matches exits'). hostname r \<noteq> hostname u"
      by (simp add: exits' relay_eq_def)
    then have "u \<in> set (rp_matches entries') \<and> \<not> relay_eq u exit" if "exit \<in> set (rp_matches exits')" for exit
      using that u by (auto simp: e' relay_eq_def split: list.splits)
    ultimately show ?thesis by (metis empty_iff empty_set)
  next
    case False
    then have exits': "rp_matches exits' = rp_matches exits" by (auto simp: x' split: list.splits)
    have two: "\<exists>r \<in> set (rp_matches entries). \<not> relay_eq r exit" for exit :: wireguard_relay
    proof (cases "rp_matches entries")
      case (Cons p rest)
      then obtain q rest' where "rest = q # rest'" using False by (cases rest) auto
      with Cons de show ?thesis by (auto simp: relay_eq_def)
    qed (use ab in simp)
    have "\<exists>entry \<in> set (rp_matches entries'). \<not> relay_eq entry exit" if "exit \<in> set (rp_matches exits')" for exit
      using that two [of exit] by (auto simp: e' split: list.splits)
    with exits' ab show ?thesis by auto
  qed
qed

lemma select_from_multihop_located:
  assumes ok: "rng_ok rng" and loc: "ex_location (ec_general (mh_entry c)) = Only l"
    and p: "rp_matches (mp_exits p) \<noteq> []"
      "\<forall>exit \<in> set (rp_matches (mp_exits p)). \<exists>entry \<in> set (rp_matches (mp_entries p)). \<not> relay_eq entry exit"
  shows "res_ok (select_from_multihop_partitions hav rng p c)"
proof -
  obtain exit where exit: "exit \<in> set (rp_matches (mp_exits p))"
    "pick_random_relay rng 0 (rp_matches (mp_exits p)) = Inr (Some exit)"
    using p(1) by (rule_tac pick_random_relay_cases [OF ok, of "rp_matches (mp_exits p)" 0]) auto
  obtain entry where "pick_random_relay_excluding rng 1 (rp_matches (mp_entries p)) exit = Inr (Some entry)"
    using p(2) exit(1)
    by (rule_tac pick_random_relay_excluding_cases [OF ok, of "rp_matches (mp_entries p)" exit 1]) auto
  with exit loc show ?thesis by (simp add: select_from_multihop_partitions_def)
qed

text \<open>
  With unique host names and an entry location, a multihop selection succeeds, whatever is drawn,
  exactly if some relay fits as the entry and another one as the exit.
\<close>

lemma select_multihop_exact:
  assumes ok: "rng_ok rng" and relays: "annotated_ok relays"
    and distinct: "distinct (map hostname (all_relays relays))"
    and hops: "rq_hops query = HopsMulti c" and loc: "ex_location (ec_general (mh_entry c)) = Only l"
  shows "res_ok (select_wireguard_relay hav rng relays cl query) \<longleftrightarrow>
    (\<exists>entry \<in> set (all_relays relays). \<exists>exit \<in> set (all_relays relays).
       entry_ok relays cl (mh_entry c) entry \<and> exit_ok exit (mh_exit c) cl \<and> hostname entry \<noteq> hostname exit)"
    (is "_ \<longleftrightarrow> ?pair")
proof -
  obtain entries exits p where p: "partition_multihop relays c cl = Inr p"
    and m: "rp_matches entries = filter (entry_ok relays cl (mh_entry c)) (all_relays relays)"
      "rp_matches exits = filter (\<lambda>r. exit_ok r (mh_exit c) cl) (all_relays relays)"
    and moved: "mp_exits p = move_unique_conflict entries exits"
      "mp_entries p = move_unique_conflict (mp_exits p) entries"
    using partition_multihop_Inr [OF relays, of c cl] by blast
  have sel: "select_wireguard_relay hav rng relays cl query = select_from_multihop_partitions hav rng p c"
    by (simp add: select_wireguard_relay_def hops p)
  have pair: "?pair \<longleftrightarrow> rp_matches (mp_exits p) \<noteq> [] \<and>
      (\<forall>exit \<in> set (rp_matches (mp_exits p)). \<exists>entry \<in> set (rp_matches (mp_entries p)). \<not> relay_eq entry exit)"
    using conflict_resolved [OF _ _ moved] distinct_hostname_filter [OF distinct] m
    by (auto simp: relay_eq_def)
  show ?thesis
  proof
    assume "res_ok (select_wireguard_relay hav rng relays cl query)"
    then obtain config where "select_wireguard_relay hav rng relays cl query = Inr config"
      by (auto simp: res_ok_def split: sum.splits)
    from select_wireguard_relay_sound [OF ok relays this] show ?pair
      by (cases config) (auto simp: config_meets_def hops)
  next
    assume ?pair
    then show "res_ok (select_wireguard_relay hav rng relays cl query)"
      using select_from_multihop_located [OF ok loc] pair by (simp add: sel)
  qed
qed

text \<open>
  With no entry location the entry is picked among the closest relays only. If the exit itself fits
  as an entry, it is the closest one; unless another candidate is at distance zero too, nothing is
  left to pick.
\<close>

lemma f64_zero_magnitude:
  fixes d :: f64
  assumes "\<not> bit d 63" and "d AND 0x7FFFFFFFFFFFFFFF = 0"
  shows "d = 0"
proof (rule bit_word_eqI)
  fix n
  assume "n < LENGTH(64)"
  have "take_bit 63 d = 0"
    using assms(2) by (simp add: take_bit_eq_mask mask_eq_exp_minus_1)
  then have "\<not> bit (take_bit 63 d) n" by simp
  then show "bit d n = bit 0 n"
    using assms(1) \<open>n < LENGTH(64)\<close> by (cases "n = 63") (auto simp: bit_take_bit_iff)
qed

lemma closest_relays_only_exit:
  assumes exit: "exit \<in> set entries" and zero: "distance_from hav (rl_location exit) (rl_location exit) = 0"
    and far: "\<And>e. e \<in> set entries \<Longrightarrow> \<not> relay_eq e exit \<Longrightarrow>
      f64_total_key (distance_from hav (rl_location e) (rl_location exit)) > 0"
    and same: "\<And>e. e \<in> set entries \<Longrightarrow> relay_eq e exit \<Longrightarrow> e = exit"
  shows "\<forall>r \<in> set (closest_relays hav entries (rl_location exit)). relay_eq r exit"
proof -
  define cs where "cs = sort_key (\<lambda>c. f64_total_key (fst c))
    (map (\<lambda>e. (distance_from hav (rl_location e) (rl_location exit), e)) entries)"
  have zero_key: "f64_total_key 0 = 0" by (simp add: f64_total_key_def)
  have key: "f64_total_key (fst c) > 0 \<or> c = (0, exit)" if "c \<in> set cs" for c
    using that far same zero by (auto simp: cs_def; blast)
  have mem: "(0, exit) \<in> set cs" using exit zero by (force simp: cs_def)
  then have nonempty: "cs \<noteq> []" by auto
  have "sorted (map (\<lambda>c. f64_total_key (fst c)) cs)"
    unfolding cs_def by (rule sorted_sort_key)
  then have "f64_total_key (fst (hd cs)) \<le> f64_total_key 0"
    using mem by (cases cs) auto
  then have min: "fst (hd cs) = 0"
    using key [of "hd cs"] nonempty zero_key by auto
  have not_le: "\<not> f64_le d 0" if "f64_total_key d > 0" for d
    using that f64_zero_magnitude [of d]
    by (auto simp: f64_le_def f64_total_key_def split: if_splits)
  have closest: "closest_relays hav entries (rl_location exit) = map snd (takeWhile (\<lambda>c. f64_le (fst c) 0) cs)"
    using nonempty min by (cases cs) (simp_all add: closest_relays_def flip: cs_def)
  have "snd c = exit" if "c \<in> set (takeWhile (\<lambda>c. f64_le (fst c) 0) cs)" for c
    using key [of c] not_le set_takeWhileD [OF that] by auto
  then show ?thesis by (auto simp: closest relay_eq_def)
qed

lemma select_auto_entry_blocked:
  assumes ok: "rng_ok rng" and loc: "ex_location (ec_general (mh_entry c)) = Any"
    and exit: "pick_random_relay rng 0 (rp_matches (mp_exits p)) = Inr (Some exit)"
    and only: "\<forall>r \<in> set (closest_relays hav (rp_matches (mp_entries p)) (rl_location exit)). relay_eq r exit"
  shows "select_from_multihop_partitions hav rng p c = Inl (NoRelayEntry (mh_entry c))"
proof -
  have "pick_random_relay_excluding rng 1
      (closest_relays hav (rp_matches (mp_entries p)) (rl_location exit)) exit = Inr None"
    using only by (rule_tac pick_random_relay_excluding_cases [OF ok]) auto
  with exit loc show ?thesis by (simp add: select_from_multihop_partitions_def)
qed

text \<open>A relay that is left on both sides of a multihop partition is not alone as an entry.\<close>

lemma unresolved_conflict_other:
  assumes relays: "annotated_ok relays" and distinct: "distinct (map hostname (all_relays relays))"
    and p: "partition_multihop relays c cl = Inr p"
    and exit: "exit \<in> set (rp_matches (mp_exits p))" "exit \<in> set (rp_matches (mp_entries p))"
  shows "\<exists>entry \<in> set (rp_matches (mp_entries p)). hostname entry \<noteq> hostname exit"
proof -
  obtain entries exits where
    m: "rp_matches entries = filter (entry_ok relays cl (mh_entry c)) (all_relays relays)"
      "rp_matches exits = filter (\<lambda>r. exit_ok r (mh_exit c) cl) (all_relays relays)"
    and moved: "mp_exits p = move_unique_conflict entries exits"
      "mp_entries p = move_unique_conflict (mp_exits p) entries"
    using partition_multihop_Inr [OF relays, of c cl] p by auto
  have d: "distinct (map hostname (rp_matches entries))" "distinct (map hostname (rp_matches exits))"
    unfolding m by (rule distinct_hostname_filter [OF distinct])+
  have entry: "exit \<in> set (rp_matches entries)"
    using exit(2) move_unique_conflict_subset unfolding moved(2) by blast
  have x: "exit \<in> set (rp_matches exits)"
    using exit(1) move_unique_conflict_subset unfolding moved(1) by blast
  have "\<exists>e \<in> set (rp_matches entries). \<not> relay_eq e exit"
  proof (cases "\<exists>u. rp_matches entries = [u]")
    case True
    then have "rp_matches entries = [exit]" using entry by auto
    then have False
      using exit(1) move_unique_conflict_filter [OF d(2), of entries] by (auto simp: moved(1) relay_eq_def)
    then show ?thesis ..
  next
    case False
    then obtain a b rest where "rp_matches entries = a # b # rest"
      using entry by (cases "rp_matches entries" rule: remdups_adj.cases) auto
    then show ?thesis using d(1) by (auto simp: relay_eq_def)
  qed
  then show ?thesis
    using conflict_resolved [OF d moved] exit(1) x by (auto simp: relay_eq_def)
qed

section \<open>Answers to queries\<close>

text \<open>What the relay, its address and the obfuscator owe the user's query.\<close>

definition answer_honours ::
  "annotated_relay_list \<Rightarrow> custom_lists_settings \<Rightarrow> relay_query \<Rightarrow> ip_availability \<Rightarrow> get_relay \<Rightarrow> bool" where
  "answer_honours relays cl q avail r \<longleftrightarrow>
     (let exit = wc_exit (gr_inner r); entry = config_entry (gr_inner r);
          addr = pc_endpoint (me_peer (gr_endpoint r)); user = query_entry_specific q
      in exit \<in> set (all_relays relays) \<and> entry \<in> set (all_relays relays) \<and>
         exit_ok exit (query_exit q) cl \<and>
         (case gr_inner r of
            Singlehop _ \<Rightarrow> (\<forall>m. rq_hops q \<noteq> HopsMulti m)
          | Multihop _ _ \<Rightarrow> hostname entry \<noteq> hostname exit \<and> (\<forall>c. rq_hops q \<noteq> HopsSingle c) \<and>
              (\<forall>m. rq_hops q = HopsMulti m \<longrightarrow> exit_ok entry (ec_general (mh_entry m)) cl)) \<and>
         (es_daita user = Only True \<longrightarrow> wre_daita (endpoint_data entry)) \<and>
         matches_eq (es_ip_version user) (ip_version_of (sock_ip addr)) \<and>
         (avail = Ipv4 \<longrightarrow> ip_version_of (sock_ip addr) = V4) \<and>
         (avail = Ipv6 \<longrightarrow> ip_version_of (sock_ip addr) = V6) \<and>
         (es_obfuscation user \<noteq> Any \<longrightarrow>
            obfuscator_serves (es_obfuscation user) (es_ip_version user) addr (gr_obfuscator r)))"

text \<open>Stricter constraints promise more.\<close>

lemma matches_eq_mono:
  assumes "constraint_inter inter_partialeq v' v = Some v'" and "matches_eq v' x"
  shows "matches_eq v x"
  using assms by (cases v; cases v') (auto simp: inter_partialeq_def split: if_splits)

lemma obfuscator_serves_mono:
  assumes obf: "constraint_inter obfuscation_mode_inter c a = Some c" and v: "constraint_inter inter_partialeq v' v = Some v'"
    and "a \<noteq> Any" and serves: "obfuscator_serves c v' endpoint obfuscator"
  shows "obfuscator_serves a v endpoint obfuscator"
proof -
  obtain m where m: "a = Only m" using \<open>a \<noteq> Any\<close> by (cases a) auto
  then obtain m' where m': "c = Only m'" "obfuscation_mode_inter m' m = Some m'"
    using obf by (cases c) auto
  have key: "fst (mode_key m') = fst (mode_key m)" "port_inter (snd (mode_key m')) (snd (mode_key m)) = Some (snd (mode_key m'))"
    using m'(2) by (cases m'; cases m; force simp: port_inter_def)+
  note port = matches_eq_mono [OF key(2) [unfolded port_inter_def]]
  show ?thesis
  proof (cases m; cases m')
    fix s s' assume c: "m = ModeShadowsocks s" "m' = ModeShadowsocks s'"
    with serves m m' obtain a where "obfuscator = Some (Single (CfgShadowsocks a))"
      "matches_eq v' (ip_version_of (sock_ip a))" "matches_eq (ss_port s') (sock_port a)"
      by (auto simp: obfuscator_serves_def)
    with c m matches_eq_mono [OF v] port show ?thesis by (simp add: obfuscator_serves_def)
  next
    assume c: "m = ModeQuic" "m' = ModeQuic"
    with serves m m' matches_eq_mono [OF v] show ?thesis by (auto simp: obfuscator_serves_def)
  qed (use key(1) serves m m' port in \<open>auto simp: obfuscator_serves_def\<close>)
qed

lemma entry_specific_inter_Some:
  "entry_specific_inter a b = Some c \<longleftrightarrow>
     constraint_inter obfuscation_mode_inter (es_obfuscation a) (es_obfuscation b) = Some (es_obfuscation c) \<and>
     constraint_inter inter_partialeq (es_daita a) (es_daita b) = Some (es_daita c) \<and>
     constraint_inter inter_partialeq (es_ip_version a) (es_ip_version b) = Some (es_ip_version c)"
  by (auto simp: entry_specific_inter_def bind_eq_Some_conv)

lemma stricter_Only:
  "constraint_inter inter_partialeq a (Only x) = Some a \<longleftrightarrow> a = Only x"
  by (cases a) (auto simp: inter_partialeq_def split: if_splits)

lemma wireguard_endpoint_peer: "pc_endpoint (me_peer (wireguard_endpoint ips data config addr)) = addr"
  by (cases config)
    (simp_all add: wireguard_endpoint_def wireguard_singlehop_endpoint_def wireguard_multihop_endpoint_def Let_def)

lemma get_relay_by_query_Inr:
  assumes "get_relay_by_query hav rng relays cl q = Inr r"
  shows "select_wireguard_relay hav rng relays cl q = Inr (gr_inner r) \<and>
    (\<exists>es. get_wireguard_obfuscator rng es (es_obfuscation (query_entry_specific q))
       (es_ip_version (query_entry_specific q)) =
       Inr (pc_endpoint (me_peer (gr_endpoint r)), gr_obfuscator r))"
proof -
  obtain inner es addr o' where "select_wireguard_relay hav rng relays cl q = Inr inner"
    and "get_wireguard_obfuscator rng es (es_obfuscation (query_entry_specific q))
       (es_ip_version (query_entry_specific q)) = Inr (addr, o')"
    and "r = \<lparr>gr_endpoint = wireguard_endpoint (rq_allowed_ips q) (rl_wireguard (arl_inner relays)) inner addr,
              gr_obfuscator = o', gr_inner = inner\<rparr>"
    using assms unfolding get_relay_by_query_def Let_def by (auto split: sum.splits)
  then show ?thesis by (auto simp: wireguard_endpoint_peer)
qed

text \<open>The answer to a query whose entry constraints are stricter than the user's honours the user's.\<close>

lemma config_meets_hops:
  assumes "config_meets relays cl (rq_hops (query_set_entry_specific es q)) config"
  shows "wc_exit config \<in> set (all_relays relays) \<and> config_entry config \<in> set (all_relays relays) \<and>
    exit_ok (wc_exit config) (query_exit q) cl \<and>
    (es_daita es = Only True \<longrightarrow> wre_daita (endpoint_data (config_entry config))) \<and>
    (case config of
       Singlehop _ \<Rightarrow> (\<forall>m. rq_hops q \<noteq> HopsMulti m)
     | Multihop exit entry \<Rightarrow> hostname entry \<noteq> hostname exit \<and> (\<forall>c. rq_hops q \<noteq> HopsSingle c) \<and>
         (\<forall>m. rq_hops q = HopsMulti m \<longrightarrow> exit_ok entry (ec_general (mh_entry m)) cl))"
  using assms
  by (cases config; cases "rq_hops q")
    (simp_all add: config_meets_def query_set_entry_specific_def query_map_entry_def query_exit_def
      config_entry_def entry_ok_def into_autohop_def)

lemma answer_honours_stricter:
  assumes ok: "rng_ok rng" and relays: "annotated_ok relays"
    and r: "get_relay_by_query hav rng relays cl (query_set_entry_specific es q) = Inr r"
    and stricter: "entry_specific_inter es (query_entry_specific q) = Some es"
    and avail: "avail = Ipv4 \<Longrightarrow> es_ip_version es = Only V4" "avail = Ipv6 \<Longrightarrow> es_ip_version es = Only V6"
  shows "answer_honours relays cl q avail r"
proof -
  let ?addr = "pc_endpoint (me_peer (gr_endpoint r))"
  from get_relay_by_query_Inr [OF r] obtain set where
    sel: "select_wireguard_relay hav rng relays cl (query_set_entry_specific es q) = Inr (gr_inner r)"
    and obf: "get_wireguard_obfuscator rng set (es_obfuscation es) (es_ip_version es) = Inr (?addr, gr_obfuscator r)"
    by auto
  note config = config_meets_hops [OF select_wireguard_relay_sound [OF ok relays sel]]
  note serves = get_wireguard_obfuscator_sound [OF ok obf]
  note st = stricter [unfolded entry_specific_inter_Some]
  have daita: "es_daita es = Only True" if "es_daita (query_entry_specific q) = Only True"
    using st that by (simp add: stricter_Only)
  have version: "matches_eq (es_ip_version (query_entry_specific q)) (ip_version_of (sock_ip ?addr))"
    by (rule matches_eq_mono [OF st [THEN conjunct2, THEN conjunct2] serves [THEN conjunct1]])
  have obfuscator: "obfuscator_serves (es_obfuscation (query_entry_specific q))
      (es_ip_version (query_entry_specific q)) ?addr (gr_obfuscator r)"
    if "es_obfuscation (query_entry_specific q) \<noteq> Any"
    by (rule obfuscator_serves_mono [OF st [THEN conjunct1] st [THEN conjunct2, THEN conjunct2] that
          serves [THEN conjunct2]])
  have family: "avail = Ipv4 \<Longrightarrow> ip_version_of (sock_ip ?addr) = V4" "avail = Ipv6 \<Longrightarrow> ip_version_of (sock_ip ?addr) = V6"
    using serves avail by auto
  show ?thesis
    unfolding answer_honours_def Let_def
    using config daita version obfuscator family
    by (cases "gr_inner r") (simp_all add: config_entry_def)
qed

section \<open>The retry loop\<close>

lemma next_ok_Some: "next_ok f d qs = (Some r, rest) \<Longrightarrow> \<exists>k q. q \<in> set qs \<and> f k q = r"
  by (induction f d qs rule: next_ok.induct) (auto split: sum.splits if_splits)

lemma next_ok_rest: "next_ok f d qs = (o', rest, d') \<Longrightarrow> set rest \<subseteq> set qs"
  by (induction f d qs rule: next_ok.induct) (auto split: sum.splits if_splits)

lemma cycle_next_Some:
  assumes "cycle_next f orig st = (Some r, rest, d)" and "set (fst st) \<subseteq> set orig"
  shows "(\<exists>k q. q \<in> set orig \<and> f k q = r) \<and> set rest \<subseteq> set orig"
proof (cases "next_ok f (snd st) (fst st)")
  case (fields o' rest' d')
  show ?thesis
  proof (cases o')
    case None
    with fields assms have "next_ok f d' orig = (Some r, rest, d)" by (simp add: cycle_next_def)
    then show ?thesis using next_ok_Some next_ok_rest by meson
  next
    case (Some w)
    with fields assms have "next_ok f (snd st) (fst st) = (Some r, rest, d)" by (simp add: cycle_next_def)
    from next_ok_Some [OF this] next_ok_rest [OF this] assms(2) show ?thesis by blast
  qed
qed

lemma cycle_nth_Some:
  assumes "cycle_nth f orig n st = (Some r, d)" and "set (fst st) \<subseteq> set orig"
  shows "\<exists>k q. q \<in> set orig \<and> f k q = r"
  using assms
proof (induction n arbitrary: st)
  case 0
  then obtain rest where "cycle_next f orig st = (Some r, rest, d)"
    by (auto split: prod.splits)
  from cycle_next_Some [OF this 0(2)] show ?case by blast
next
  case (Suc n)
  then obtain w rest d' where next': "cycle_next f orig st = (Some w, rest, d')"
    "w = r \<or> cycle_nth f orig n (rest, d') = (Some r, d)"
    by (auto split: prod.splits option.splits sum.splits)
  with cycle_next_Some [OF next'(1) Suc.prems(2)] Suc.IH [of "(rest, d')"] show ?case by auto
qed

lemma map_filter_Some: "y \<in> set (List.map_filter f xs) \<longleftrightarrow> (\<exists>x \<in> set xs. f x = Some y)"
  by (auto simp: List.map_filter_def image_iff)

text \<open>
  Neither the retry order nor the address families of the host make the selector answer with
  something the user's query does not allow.
\<close>

lemma availability_stricter:
  assumes "apply_ip_availability q avail = Inr q'"
  shows "\<exists>es. q' = query_set_entry_specific es q \<and>
    entry_specific_inter es (query_entry_specific q) = Some es \<and>
    (avail = Ipv4 \<longrightarrow> es_ip_version es = Only V4) \<and> (avail = Ipv6 \<longrightarrow> es_ip_version es = Only V6)"
proof -
  obtain merged where m: "q' = query_set_entry_specific ((query_entry_specific q)\<lparr>es_ip_version := merged\<rparr>) q"
    "\<forall>v. es_ip_version (query_entry_specific q) = Only v \<longrightarrow> merged = Only v"
    "avail = Ipv4 \<longrightarrow> merged = Only V4" "avail = Ipv6 \<longrightarrow> merged = Only V6"
    using apply_ip_availability_Inr [OF assms] by blast
  have "constraint_inter inter_partialeq merged (es_ip_version (query_entry_specific q)) = Some merged"
    using m(2) by (cases "es_ip_version (query_entry_specific q)") (auto simp: partialeq.idempotence)
  with m show ?thesis
    by (intro exI [of _ "(query_entry_specific q)\<lparr>es_ip_version := merged\<rparr>"])
      (simp add: entry_specific_inter_Some obfuscation_constraint.idempotence partialeq_constraint.idempotence)
qed

lemma query_set_twice [simp]:
  "query_set_entry_specific a (query_set_entry_specific b q) = query_set_entry_specific a q"
  by (cases "rq_hops q") (simp_all add: query_set_entry_specific_def query_map_entry_def)

lemma get_relay_honours:
  assumes ok: "\<And>n. rng_ok (rngs n)" and relays: "annotated_ok relays"
    and r: "get_relay_with_custom_params hav rngs relays cl q attempt order avail = Inr r"
  shows "answer_honours relays cl q avail r"
proof -
  obtain user where user: "apply_ip_availability q avail = Inr user"
    using r unfolding get_relay_with_custom_params_def by auto
  obtain es where es: "user = query_set_entry_specific es q"
    "entry_specific_inter es (query_entry_specific q) = Some es"
    "avail = Ipv4 \<longrightarrow> es_ip_version es = Only V4" "avail = Ipv6 \<longrightarrow> es_ip_version es = Only V6"
    using availability_stricter [OF user] by blast
  let ?queries = "List.map_filter (merge_retry user) order"
  let ?f = "\<lambda>d q. get_relay_by_query hav (rngs d) relays cl q"
  obtain k q' where answer: "?f k q' = Inr r" and q': "q' = user \<or> q' \<in> set ?queries"
  proof (cases "cycle_nth ?f ?queries attempt (?queries, 0)")
    case (Pair o' d)
    then show ?thesis
      using r user that cycle_nth_Some [of ?f ?queries attempt "(?queries, 0)"]
      unfolding get_relay_with_custom_params_def by (cases o') (auto simp: Let_def)
  qed
  obtain es' where es': "q' = query_set_entry_specific es' q" "entry_specific_inter es' es = Some es'"
  proof (cases "q' = user")
    case True
    then show ?thesis using that es entry_specific.idempotence by blast
  next
    case False
    with q' obtain retry where "merge_retry user retry = Some q'" by (auto simp: map_filter_Some)
    then obtain merged where "entry_specific_inter es retry = Some merged" "q' = query_set_entry_specific merged user"
      by (auto simp: merge_retry_Some es)
    then show ?thesis using that entry_specific.stricter_left es by simp
  qed
  have "constraint_inter inter_partialeq (es_ip_version es') (es_ip_version es) = Some (es_ip_version es')"
    using es'(2) by (simp add: entry_specific_inter_Some)
  then have avail: "es_ip_version es' = Only v" if "es_ip_version es = Only v" for v
    using that by (simp add: stricter_Only)
  show ?thesis
    using answer_honours_stricter [OF ok relays answer [unfolded es'(1)]
        entry_specific.stricter_trans [OF es'(2) es(2)]] avail es(3,4) by simp
qed

section \<open>No panics\<close>

lemma select_from_multihop_no_panic:
  assumes "rng_ok rng"
  shows "select_from_multihop_partitions hav rng p c \<noteq> Inl (Panic msg)"
proof (rule pick_random_relay_cases [OF assms, of "rp_matches (mp_exits p)" 0])
  fix exit assume exit: "pick_random_relay rng 0 (rp_matches (mp_exits p)) = Inr (Some exit)"
  let ?candidates = "case ex_location (ec_general (mh_entry c)) of
    Any \<Rightarrow> closest_relays hav (rp_matches (mp_entries p)) (rl_location exit)
  | Only _ \<Rightarrow> rp_matches (mp_entries p)"
  show ?thesis
    by (rule pick_random_relay_excluding_cases [OF assms, of ?candidates exit 1])
      (simp_all add: exit select_from_multihop_partitions_def)
qed (simp add: select_from_multihop_partitions_def)

lemma select_wireguard_relay_no_panic:
  assumes ok: "rng_ok rng" and relays: "annotated_ok relays"
  shows "select_wireguard_relay hav rng relays cl query \<noteq> Inl (Panic msg)"
proof -
  have entry: "\<exists>p. partition_entry relays c cl = Inr p" and multi: "\<exists>p. partition_multihop relays m cl = Inr p" for c m
    using partition_entry_matches [OF relays] partition_multihop_Inr [OF relays] by blast+
  have pick: "pick_random_relay rng 0 rs = Inr None \<or> (\<exists>r. pick_random_relay rng 0 rs = Inr (Some r))" for rs
    by (rule pick_random_relay_cases [OF ok, of rs 0]) auto
  show ?thesis
  proof (cases "rq_hops query")
    case (HopsSingle c)
    obtain p where "partition_entry relays c cl = Inr p" using entry by blast
    with HopsSingle pick [of "rp_matches p"] show ?thesis by (auto simp: select_wireguard_relay_def)
  next
    case (HopsAuto c)
    obtain p m where "partition_entry relays c cl = Inr p" "partition_multihop relays (into_autohop c) cl = Inr m"
      using entry multi by metis
    with HopsAuto pick [of "rp_matches p"] select_from_multihop_no_panic [OF ok] show ?thesis
      by (auto simp: select_wireguard_relay_def partition_autohop_def)
  next
    case (HopsMulti c)
    obtain m where "partition_multihop relays c cl = Inr m" using multi by blast
    with HopsMulti select_from_multihop_no_panic [OF ok] show ?thesis
      by (auto simp: select_wireguard_relay_def)
  qed
qed

lemma get_relay_by_query_no_panic:
  assumes "rng_ok rng" and "annotated_ok relays"
  shows "get_relay_by_query hav rng relays cl query \<noteq> Inl (Panic msg)"
proof (cases "select_wireguard_relay hav rng relays cl query")
  case (Inl e)
  then show ?thesis
    using select_wireguard_relay_no_panic [OF assms, of hav cl query msg] by (auto simp: get_relay_by_query_def)
next
  case (Inr config)
  then show ?thesis
    by (cases "endpoint_set_for relays (config_entry config)")
      (auto simp: get_relay_by_query_def Let_def split: sum.splits)
qed

lemma get_relay_no_panic:
  assumes "\<And>n. rng_ok (rngs n)" and "annotated_ok relays"
  shows "get_relay_with_custom_params hav rngs relays cl q attempt order avail \<noteq> Inl (Panic msg)"
proof (cases "apply_ip_availability q avail")
  case (Inl e)
  then show ?thesis
    using apply_ip_availability_no_panic [of q avail msg] by (auto simp: get_relay_with_custom_params_def)
next
  case (Inr user)
  let ?queries = "List.map_filter (merge_retry user) order"
  let ?f = "\<lambda>d q. get_relay_by_query hav (rngs d) relays cl q"
  show ?thesis
  proof (cases "cycle_nth ?f ?queries attempt (?queries, 0)")
    case (Pair o' d)
    then show ?thesis
      using Inr get_relay_by_query_no_panic [OF assms] cycle_nth_Some [of ?f ?queries attempt "(?queries, 0)"]
      by (cases o') (auto simp: get_relay_with_custom_params_def Let_def)
  qed
qed

lemma partition_relays_no_panic:
  assumes relays: "annotated_ok relays"
  shows "\<exists>p. partition_relays relays cl pred = Inr p"
proof -
  have "\<exists>p. partition_entry relays c cl = Inr p" "\<exists>p. partition_multihop relays m cl = Inr p" for c m
    using partition_entry_matches [OF relays] partition_multihop_Inr [OF relays] by blast+
  then show ?thesis
    by (cases pred) (fastforce simp: partition_relays_def partition_autohop_def and_then_Inr_iff)+
qed

section \<open>The states of the selector\<close>

inductive selector_reachable :: "relay_selector \<Rightarrow> bool" where
  from_query: "selector_from_query query relays bridges = Inr s \<Longrightarrow> selector_reachable s"
| from_settings: "selector_from_settings settings relays bridges = Inr s \<Longrightarrow> selector_reachable s"
| set_config: "selector_reachable s \<Longrightarrow> selector_reachable (set_config settings s)"
| set_custom_lists: "selector_reachable s \<Longrightarrow> selector_reachable (set_custom_lists cl s)"
| set_relays: "selector_reachable s \<Longrightarrow> set_relays relays s = Inr s' \<Longrightarrow> selector_reachable s'"
| set_bridges: "selector_reachable s \<Longrightarrow> selector_reachable (set_bridges bridges s)"

lemma selector_reachable_ok: "selector_reachable s \<Longrightarrow> annotated_ok (rs_relays s)"
proof (induction rule: selector_reachable.induct)
  case (set_relays s relays s')
  then show ?case using annotated_new_Inr by (auto simp: set_relays_def)
qed (use annotated_new_Inr in
    \<open>auto simp: selector_from_query_def selector_from_settings_def set_config_def set_custom_lists_def set_bridges_def\<close>)

end
