(* ===== verification/Retry.thy ===== *)
theory Retry
  imports Prelude
begin

text \<open>
  Retrying (\<open>talpid-future/src/retry.rs\<close>): the two iterators of delays and the loop that calls a
  future again until its result need not be retried or the delays are used up. A \<open>Duration\<close> is its
  number of nanoseconds. What the k-th call of the future yields is an input, and so is whether it
  is retried, since the predicates of the callers ask the network state at that moment. The loop
  may run forever, so that not returning is the value \<open>None\<close>.
\<close>

section \<open>Durations\<close>

type_synonym duration = nat

definition DURATION_MAX :: duration where
  "DURATION_MAX = 2 ^ 64 * 10 ^ 9 - 1"

definition duration_from_secs :: "u64 \<Rightarrow> duration" where
  "duration_from_secs secs = unat secs * 10 ^ 9"

definition duration_saturating_mul :: "duration \<Rightarrow> u32 \<Rightarrow> duration" where
  "duration_saturating_mul d k = min (d * unat k) DURATION_MAX"

definition saturating_incr :: "u64 \<Rightarrow> u64" where
  "saturating_incr n = (if n = - 1 then n else n + 1)"

lemma unat_saturating_incr:
  assumes "n < (m :: u64)"
  shows "unat (saturating_incr n) = Suc (unat n)"
proof -
  have "n \<noteq> - 1" using assms word_order.extremum_strict [of m] by blast
  moreover have "Suc (unat n) < 2 ^ 64"
    using assms unsigned_less [of m, where 'a = nat] by (simp add: word_less_nat_alt)
  ultimately show ?thesis
    by (simp add: saturating_incr_def unat_word_ariths)
qed

section \<open>Constant intervals\<close>

record constant_interval =
  ci_interval :: duration
  ci_attempt :: u64
  ci_max_attempts :: "u64 option"

definition constant_interval_new :: "duration \<Rightarrow> u64 option \<Rightarrow> constant_interval" where
  "constant_interval_new interval max_attempts =
     \<lparr>ci_interval = interval, ci_attempt = 0, ci_max_attempts = max_attempts\<rparr>"

definition constant_interval_next :: "constant_interval \<Rightarrow> duration option \<times> constant_interval" where
  "constant_interval_next self =
     (if (case ci_max_attempts self of None \<Rightarrow> False | Some max_attempts \<Rightarrow> ci_attempt self \<ge> max_attempts)
      then (None, self)
      else (Some (ci_interval self), self\<lparr>ci_attempt := saturating_incr (ci_attempt self)\<rparr>))"

section \<open>Exponential backoff\<close>

record exponential_backoff =
  eb_next :: duration
  eb_factor :: u32
  eb_max_delay :: "duration option"

definition exponential_backoff_new :: "duration \<Rightarrow> u32 \<Rightarrow> exponential_backoff" where
  "exponential_backoff_new initial factor = \<lparr>eb_next = initial, eb_factor = factor, eb_max_delay = None\<rparr>"

definition with_max_delay :: "duration option \<Rightarrow> exponential_backoff \<Rightarrow> exponential_backoff" where
  "with_max_delay duration self = self\<lparr>eb_max_delay := duration\<rparr>"

definition next_delay :: "exponential_backoff \<Rightarrow> duration \<times> exponential_backoff" where
  "next_delay self =
     (let next = eb_next self
      in case eb_max_delay self of
           Some max_delay \<Rightarrow>
             if next > max_delay then (max_delay, self)
             else (next, self\<lparr>eb_next := duration_saturating_mul next (eb_factor self)\<rparr>)
         | None \<Rightarrow> (next, self\<lparr>eb_next := duration_saturating_mul next (eb_factor self)\<rparr>))"

definition exponential_backoff_next :: "exponential_backoff \<Rightarrow> duration option \<times> exponential_backoff" where
  "exponential_backoff_next self = (case next_delay self of (d, self) \<Rightarrow> (Some d, self))"

text \<open>
  \<open>Jittered\<close>: every delay is scaled by a random factor, computed in \<open>f64\<close>. Floats are values of an
  ordered field, in which every operation is rounded by \<open>js_round\<close>; \<open>js_u64\<close> is the cast \<open>as u64\<close>, and
  \<open>js_draw n\<close> is the n-th number drawn.
\<close>

record 'f jitter_source =
  js_round :: "'f \<Rightarrow> 'f"
  js_u64 :: "'f \<Rightarrow> nat"
  js_draw :: "nat \<Rightarrow> 'f"

definition apply_jitter :: "'f :: linordered_field jitter_source \<Rightarrow> duration \<Rightarrow> 'f \<Rightarrow> duration" where
  "apply_jitter js duration jitter =
     (let secs = js_round js (js_round js (of_nat (duration div 10 ^ 9)) * jitter);
          nanos = js_round js (of_nat (duration mod 10 ^ 9) * jitter);
          millis = js_round js (js_round js (secs * 1000) + js_round js (nanos / 1000000))
      in js_u64 js millis * 10 ^ 6)"

record 'i jittered =
  jt_inner :: 'i
  jt_drawn :: nat

definition jitter_new :: "'i \<Rightarrow> 'i jittered" where
  "jitter_new inner = \<lparr>jt_inner = inner, jt_drawn = 0\<rparr>"

definition jittered_next ::
  "'f :: linordered_field jitter_source \<Rightarrow> ('i \<Rightarrow> duration option \<times> 'i) \<Rightarrow> 'i jittered \<Rightarrow> duration option \<times> 'i jittered" where
  "jittered_next js inner_next self =
     (case inner_next (jt_inner self) of
        (None, inner) \<Rightarrow> (None, self\<lparr>jt_inner := inner\<rparr>)
      | (Some next_value, inner) \<Rightarrow>
          (Some (apply_jitter js next_value (js_draw js (jt_drawn self))),
           self\<lparr>jt_inner := inner, jt_drawn := Suc (jt_drawn self)\<rparr>))"

section \<open>The retry loop\<close>

text \<open>The result, the number of calls made and the delays slept in between, latest first.\<close>

partial_function (option) retry_loop ::
  "(nat \<Rightarrow> 't) \<Rightarrow> (nat \<Rightarrow> 't \<Rightarrow> bool) \<Rightarrow> ('i \<Rightarrow> duration option \<times> 'i) \<Rightarrow> nat \<Rightarrow> 'i \<Rightarrow> duration list
   \<Rightarrow> ('t \<times> nat \<times> duration list) option" where
  "retry_loop factory should_retry next n delays slept =
     (let current_result = factory n
      in if should_retry n current_result then
           (case next delays of
              (Some delay, delays) \<Rightarrow> retry_loop factory should_retry next (Suc n) delays (delay # slept)
            | (None, _) \<Rightarrow> Some (current_result, Suc n, slept))
         else Some (current_result, Suc n, slept))"

declare retry_loop.simps [code]

definition retry_future ::
  "(nat \<Rightarrow> 't) \<Rightarrow> (nat \<Rightarrow> 't \<Rightarrow> bool) \<Rightarrow> ('i \<Rightarrow> duration option \<times> 'i) \<Rightarrow> 'i
   \<Rightarrow> ('t \<times> nat \<times> duration list) option" where
  "retry_future factory should_retry next delays = retry_loop factory should_retry next 0 delays []"

lemma retry_loop_stop:
  "\<not> should_retry n (factory n) \<Longrightarrow>
   retry_loop factory should_retry next n delays slept = Some (factory n, Suc n, slept)"
  by (subst retry_loop.simps) simp

lemma retry_loop_next:
  assumes "should_retry n (factory n)" and "next delays = (Some d, delays')"
  shows "retry_loop factory should_retry next n delays slept =
    retry_loop factory should_retry next (Suc n) delays' (d # slept)"
  using assms by (subst retry_loop.simps) simp

lemma retry_loop_exhausted:
  assumes "fst (next delays) = None"
  shows "retry_loop factory should_retry next n delays slept = Some (factory n, Suc n, slept)"
  using assms by (subst retry_loop.simps) (cases "next delays", simp add: Let_def)

section \<open>Strategies\<close>

text \<open>A strategy that runs out of delays: every delay it gives makes a bound smaller.\<close>

locale bounded_delays =
  fixes nxt :: "'i \<Rightarrow> duration option \<times> 'i"
    and inv :: "'i \<Rightarrow> bool"
    and limit :: "'i \<Rightarrow> nat"
  assumes next_inv: "inv i \<Longrightarrow> nxt i = (Some d, i') \<Longrightarrow> inv i'"
    and next_limit: "inv i \<Longrightarrow> nxt i = (Some d, i') \<Longrightarrow> limit i = Suc (limit i')"
    and next_end: "inv i \<Longrightarrow> fst (nxt i) = None \<longleftrightarrow> limit i = 0"
begin

lemma retry_loop_returns:
  assumes "inv i"
  shows "\<exists>k \<le> limit i. \<exists>ds. length ds = k \<and>
    retry_loop f s nxt n i slept = Some (f (n + k), Suc (n + k), ds @ slept) \<and>
    (\<forall>j < k. s (n + j) (f (n + j))) \<and> (s (n + k) (f (n + k)) \<longrightarrow> k = limit i)"
  using assms
proof (induction "limit i" arbitrary: i n slept)
  case 0
  then have "retry_loop f s nxt n i slept = Some (f n, Suc n, slept)"
    using next_end by (simp add: retry_loop_exhausted)
  with 0 show ?case by (intro exI [of _ 0]) simp
next
  case (Suc l)
  then obtain d i' where d: "nxt i = (Some d, i')"
    using next_end [of i] by (cases "nxt i") auto
  show ?case
  proof (cases "s n (f n)")
    case True
    have "inv i'" "l = limit i'" using next_inv [OF Suc.prems d] next_limit [OF Suc.prems d] Suc.hyps(2) by auto
    from Suc.hyps(1) [OF this(2,1), of "Suc n" "d # slept"] obtain k ds where
      k: "k \<le> l" "length ds = k" "retry_loop f s nxt (Suc n) i' (d # slept) = Some (f (Suc n + k), Suc (Suc n + k), ds @ d # slept)"
        "\<forall>j < k. s (Suc n + j) (f (Suc n + j))" "s (Suc n + k) (f (Suc n + k)) \<longrightarrow> k = l"
      using \<open>l = limit i'\<close> by blast
    have "\<forall>j < Suc k. s (n + j) (f (n + j))"
      using k(4) True by (auto simp: less_Suc_eq_0_disj)
    with k True show ?thesis
      unfolding retry_loop_next [of s n f nxt i, OF True d] Suc.hyps(2) [symmetric]
      by (intro exI [of _ "Suc k"] conjI exI [of _ "ds @ [d]"]) simp_all
  next
    case False
    then show ?thesis by (intro exI [of _ 0]) (simp add: retry_loop_stop)
  qed
qed

end

text \<open>A strategy that never runs out and never sleeps longer than its cap.\<close>

locale endless_delays =
  fixes nxt :: "'i \<Rightarrow> duration option \<times> 'i"
    and inv :: "'i \<Rightarrow> bool"
    and cap :: duration
  assumes next_some: "inv i \<Longrightarrow> \<exists>d i'. nxt i = (Some d, i') \<and> inv i' \<and> d \<le> cap"
begin

lemma retry_loop_first:
  assumes "inv i" and "\<And>j. j < k \<Longrightarrow> s (n + j) (f (n + j))" and "\<not> s (n + k) (f (n + k))"
  shows "\<exists>ds. retry_loop f s nxt n i slept = Some (f (n + k), Suc (n + k), ds @ slept) \<and>
    length ds = k \<and> (\<forall>d \<in> set ds. d \<le> cap)"
  using assms
proof (induction k arbitrary: n i slept)
  case 0
  then show ?case by (simp add: retry_loop_stop)
next
  case (Suc k)
  obtain d i' where d: "nxt i = (Some d, i')" "inv i'" "d \<le> cap" using next_some [OF Suc.prems(1)] by blast
  have "s n (f n)" using Suc.prems(2) [of 0] by simp
  moreover obtain ds where "retry_loop f s nxt (Suc n) i' (d # slept) =
      Some (f (Suc n + k), Suc (Suc n + k), ds @ d # slept)" "length ds = k" "\<forall>d \<in> set ds. d \<le> cap"
    using Suc.prems(2) [of "Suc j" for j] Suc.prems(3) Suc.IH [OF d(2), of "Suc n" "d # slept"] by auto
  ultimately show ?case
    using d(3) retry_loop_next [of s n f nxt i, OF _ d(1)] by (intro exI [of _ "ds @ [d]"]) simp
qed

end

definition ci_bounded :: "constant_interval \<Rightarrow> bool" where
  "ci_bounded i = (case ci_max_attempts i of None \<Rightarrow> False | Some m \<Rightarrow> ci_attempt i \<le> m)"

definition ci_left :: "constant_interval \<Rightarrow> nat" where
  "ci_left i = (case ci_max_attempts i of None \<Rightarrow> 0 | Some m \<Rightarrow> unat m - unat (ci_attempt i))"

interpretation interval: bounded_delays constant_interval_next ci_bounded ci_left
proof
  fix i d i'
  assume inv: "ci_bounded i" and step: "constant_interval_next i = (Some d, i')"
  obtain m where m: "ci_max_attempts i = Some m" using inv by (auto simp: ci_bounded_def split: option.splits)
  have "ci_attempt i < m" and i': "i' = i\<lparr>ci_attempt := saturating_incr (ci_attempt i)\<rparr>"
    using step m by (auto simp: constant_interval_next_def split: if_splits)
  then have "unat (saturating_incr (ci_attempt i)) = Suc (unat (ci_attempt i))" "unat (ci_attempt i) < unat m"
    by (auto simp: unat_saturating_incr word_less_nat_alt)
  then show "ci_bounded i'" "ci_left i = Suc (ci_left i')"
    using m i' by (auto simp: ci_bounded_def ci_left_def word_le_nat_alt)
next
  fix i
  assume "ci_bounded i"
  then show "fst (constant_interval_next i) = None \<longleftrightarrow> ci_left i = 0"
    by (auto simp: ci_bounded_def ci_left_def constant_interval_next_def word_le_nat_alt split: option.splits)
qed

definition eb_capped :: "duration \<Rightarrow> exponential_backoff \<Rightarrow> bool" where
  "eb_capped cap i = (eb_max_delay i = Some cap)"

interpretation backoff: endless_delays exponential_backoff_next "eb_capped cap" cap for cap
  by standard (auto simp: exponential_backoff_next_def next_delay_def eb_capped_def Let_def)

text \<open>
  What is known of floats: rounding keeps the order and does not change integers up to \<open>2 ^ 53\<close>, the
  cast to \<open>u64\<close> does not make a value greater, and the factors are drawn from the interval from 0
  (excluded) to 1.
\<close>

definition jitter_ok :: "'f :: linordered_field jitter_source \<Rightarrow> bool" where
  "jitter_ok js \<longleftrightarrow>
     mono (js_round js) \<and> (\<forall>n \<le> 2 ^ 53. js_round js (of_nat n) = of_nat n) \<and>
     (\<forall>x n. x \<le> of_nat n \<longrightarrow> js_u64 js x \<le> n) \<and> (\<forall>n. 0 < js_draw js n \<and> js_draw js n \<le> 1)"

lemma round_le:
  assumes "jitter_ok js" and "x \<le> of_nat n" and "n \<le> 2 ^ 53"
  shows "js_round js x \<le> of_nat n"
  using assms monoD [of "js_round js" x "of_nat n"] by (auto simp: jitter_ok_def)

text \<open>A delay below a bound of whole seconds stays below it, whatever is drawn and however it is rounded.\<close>

lemma apply_jitter_le:
  fixes j :: "'f :: linordered_field"
  assumes js: "jitter_ok js" and j: "0 < j" "j \<le> 1" and d: "d \<le> k * 10 ^ 9" and k: "k * 1000 \<le> 2 ^ 53"
  shows "apply_jitter js d j \<le> k * 10 ^ 9"
proof -
  let ?fl = "js_round js" and ?s = "d div 10 ^ 9" and ?n = "d mod 10 ^ 9"
  have s: "?s \<le> k" using div_le_mono [OF d, of "10 ^ 9"] by simp
  have scaled: "of_nat n * j \<le> of_nat n" for n using j by (simp add: mult_left_le)
  have exact: "?fl (of_nat ?s) = of_nat ?s" using js s k by (simp add: jitter_ok_def)
  have sm: "?fl (?fl (?fl (of_nat ?s) * j) * 1000) \<le> of_nat (?s * 1000)"
  proof (rule round_le [OF js])
    have "?fl (of_nat ?s * j) \<le> of_nat ?s" by (rule round_le [OF js scaled]) (use s k in linarith)
    then show "?fl (?fl (of_nat ?s) * j) * 1000 \<le> of_nat (?s * 1000)" unfolding exact by simp
    show "?s * 1000 \<le> 2 ^ 53" using s k by linarith
  qed
  define rest :: nat where "rest = (if ?n = 0 then 0 else 1000)"
  have nm: "?fl (?fl (of_nat ?n * j) / 1000000) \<le> of_nat rest"
  proof (rule round_le [OF js])
    have "?fl (of_nat ?n * j) \<le> of_nat ?n" by (rule round_le [OF js scaled]) simp
    also have "of_nat ?n \<le> (of_nat (rest * 1000000) :: 'f)" by (simp only: of_nat_le_iff) (simp add: rest_def)
    finally show "?fl (of_nat ?n * j) / 1000000 \<le> of_nat rest" by (simp add: divide_le_eq)
  qed (simp add: rest_def)
  have total: "?s * 1000 + rest \<le> k * 1000"
  proof (cases "?n = 0")
    case False
    have "?s * 10 ^ 9 + ?n \<le> k * 10 ^ 9" using d by (simp only: div_mult_mod_eq)
    with False have "?s * 10 ^ 9 < k * 10 ^ 9" by linarith
    then have "?s < k" by (simp only: mult_less_cancel2)
    with False show ?thesis by (simp add: rest_def)
  qed (use s in \<open>simp add: rest_def\<close>)
  have "?fl (?fl (?fl (?fl (of_nat ?s) * j) * 1000) + ?fl (?fl (of_nat ?n * j) / 1000000)) \<le> of_nat (k * 1000)"
  proof (rule round_le [OF js _ k])
    have "(of_nat (?s * 1000 + rest) :: 'f) \<le> of_nat (k * 1000)" using total by (simp only: of_nat_le_iff)
    then show "?fl (?fl (?fl (of_nat ?s) * j) * 1000) + ?fl (?fl (of_nat ?n * j) / 1000000) \<le> of_nat (k * 1000)"
      using add_mono [OF sm nm] by (simp only: of_nat_add)
  qed
  then have "js_u64 js (?fl (?fl (?fl (?fl (of_nat ?s) * j) * 1000) + ?fl (?fl (of_nat ?n * j) / 1000000))) \<le> k * 1000"
    using js unfolding jitter_ok_def by blast
  then show ?thesis unfolding apply_jitter_def Let_def by simp
qed

lemma jittered_endless:
  assumes "jitter_ok js" and "k * 1000 \<le> 2 ^ 53"
  shows "endless_delays (jittered_next js exponential_backoff_next) (\<lambda>i. eb_capped (k * 10 ^ 9) (jt_inner i)) (k * 10 ^ 9)"
proof
  fix i :: "exponential_backoff jittered"
  assume "eb_capped (k * 10 ^ 9) (jt_inner i)"
  from backoff.next_some [OF this] obtain d i' where
    "exponential_backoff_next (jt_inner i) = (Some d, i')" "eb_capped (k * 10 ^ 9) i'" "d \<le> k * 10 ^ 9" by blast
  moreover from this(3) have "apply_jitter js d (js_draw js (jt_drawn i)) \<le> k * 10 ^ 9"
    using assms by (intro apply_jitter_le) (simp_all add: jitter_ok_def)
  ultimately show "\<exists>d i'. jittered_next js exponential_backoff_next i = (Some d, i') \<and>
      eb_capped (k * 10 ^ 9) (jt_inner i') \<and> d \<le> k * 10 ^ 9"
    by (simp add: jittered_next_def)
qed

section \<open>The delays of the backoff\<close>

fun backoff_at :: "nat \<Rightarrow> exponential_backoff \<Rightarrow> duration" where
  "backoff_at 0 b = fst (next_delay b)"
| "backoff_at (Suc n) b = backoff_at n (snd (next_delay b))"

definition backoff_cap :: "exponential_backoff \<Rightarrow> duration" where
  "backoff_cap b = (case eb_max_delay b of None \<Rightarrow> DURATION_MAX | Some m \<Rightarrow> min m DURATION_MAX)"

text \<open>The n-th delay is \<open>initial * factor ^ n\<close>, cut off at the maximal delay and at \<open>Duration::MAX\<close>.\<close>

lemma backoff_at_exact:
  assumes "eb_next b \<le> DURATION_MAX" and "0 < eb_factor b"
  shows "backoff_at n b = min (eb_next b * unat (eb_factor b) ^ n) (backoff_cap b)"
  using assms
proof (induction n arbitrary: b)
  case 0
  then show ?case
    by (auto simp: next_delay_def backoff_cap_def Let_def split: option.splits)
next
  case (Suc n)
  let ?k = "unat (eb_factor b)"
  have k: "1 \<le> ?k" using Suc.prems(2) by (simp add: Suc_leI unat_gt_0 word_gt_0)
  show ?case
  proof (cases "\<exists>m. eb_max_delay b = Some m \<and> m < eb_next b")
    case True
    then obtain m where m: "eb_max_delay b = Some m" "m < eb_next b" by blast
    have "eb_next b * 1 \<le> eb_next b * ?k ^ n" "eb_next b * 1 \<le> eb_next b * ?k ^ Suc n"
      using k by (intro mult_le_mono2 one_le_power; simp)+
    then have "m \<le> eb_next b * ?k ^ n" "m \<le> eb_next b * ?k ^ Suc n" using m(2) by linarith+
    moreover have "backoff_at n b = min (eb_next b * ?k ^ n) m" "backoff_cap b = m"
      using Suc m by (auto simp: backoff_cap_def)
    moreover have "snd (next_delay b) = b" using m by (simp add: next_delay_def Let_def)
    ultimately show ?thesis by (simp add: min_absorb2 del: power_Suc)
  next
    case False
    let ?b = "b\<lparr>eb_next := duration_saturating_mul (eb_next b) (eb_factor b)\<rparr>"
    have "snd (next_delay b) = ?b"
      using False by (auto simp: next_delay_def Let_def split: option.splits)
    moreover have "backoff_at n ?b = min (eb_next ?b * ?k ^ n) (backoff_cap b)"
      using Suc.IH [of ?b] Suc.prems(2) by (simp add: duration_saturating_mul_def backoff_cap_def)
    moreover have "min (min (eb_next b * ?k) DURATION_MAX * ?k ^ n) (backoff_cap b) =
        min (eb_next b * ?k ^ Suc n) (backoff_cap b)"
    proof (cases "eb_next b * ?k \<le> DURATION_MAX")
      case True
      then show ?thesis by (simp add: min_absorb1 mult.assoc)
    next
      case False
      have cap: "backoff_cap b \<le> DURATION_MAX" by (simp add: backoff_cap_def split: option.splits)
      have p: "1 \<le> ?k ^ n" using k by (rule one_le_power)
      have "DURATION_MAX * 1 \<le> DURATION_MAX * ?k ^ n" "DURATION_MAX * 1 \<le> eb_next b * ?k * ?k ^ n"
        using p False by (intro mult_le_mono; simp)+
      then have "backoff_cap b \<le> DURATION_MAX * ?k ^ n" "backoff_cap b \<le> eb_next b * ?k ^ Suc n"
        using cap by (simp only: mult_1_right power_Suc mult.assoc; linarith)+
      with False show ?thesis by (simp add: min_absorb2 del: power_Suc)
    qed
    ultimately show ?thesis by (simp add: duration_saturating_mul_def)
  qed
qed

end
