(* ===== verification/Device_Types.thy ===== *)
theory Device_Types
  imports Net_Types Retry
begin

text \<open>
  Accounts and devices: \<open>mullvad-types/src/device.rs\<close>, \<open>mullvad-types/src/wireguard.rs\<close>, the errors
  of the REST client (\<open>mullvad-api/src/rest.rs\<close>) and the private device state of
  \<open>mullvad-daemon/src/device/mod.rs\<close>. A \<open>DateTime\<close> is its number of nanoseconds since the epoch.
  The public key of a private key is computed by \<open>x25519_dalek\<close> and is the parameter \<open>public_key\<close>.
  An \<open>Ipv4Network\<close> or \<open>Ipv6Network\<close> is an address and a prefix length.
\<close>

type_synonym time = int
type_synonym account_number = string
type_synonym device_id = string

section \<open>WireGuard data\<close>

definition hours :: "nat \<Rightarrow> duration" where
  "hours n = n * 3600 * 10 ^ 9"

definition MIN_ROTATION_INTERVAL :: duration where "MIN_ROTATION_INTERVAL = hours 24"
definition MAX_ROTATION_INTERVAL :: duration where "MAX_ROTATION_INTERVAL = hours (30 * 24)"

datatype rotation_interval_error = TooSmall | TooLarge

definition rotation_interval_new :: "duration \<Rightarrow> rotation_interval_error + duration" where
  "rotation_interval_new interval =
     (if interval < MIN_ROTATION_INTERVAL then Inl TooSmall
      else if interval > MAX_ROTATION_INTERVAL then Inl TooLarge
      else Inr interval)"

text \<open>\<open>TryFrom<u64>\<close>: a number of hours, with a checked multiplication.\<close>

definition rotation_interval_try_from :: "u64 \<Rightarrow> rotation_interval_error + duration" where
  "rotation_interval_try_from val =
     (if unat val * 3600 \<ge> 2 ^ 64 then Inl TooLarge
      else rotation_interval_new (duration_from_secs (val * 3600)))"

definition rotation_interval_ok :: "duration \<Rightarrow> bool" where
  "rotation_interval_ok i = (MIN_ROTATION_INTERVAL \<le> i \<and> i \<le> MAX_ROTATION_INTERVAL)"

lemma rotation_interval_new_ok: "rotation_interval_new i = Inr j \<longleftrightarrow> j = i \<and> rotation_interval_ok i"
  by (auto simp: rotation_interval_new_def rotation_interval_ok_def)

text \<open>The checked multiplication only refuses intervals that are too large anyway.\<close>

lemma rotation_interval_try_from_exact:
  "rotation_interval_try_from h = rotation_interval_new (hours (unat h))"
proof (cases "unat h * 3600 < 2 ^ 64")
  case True
  then have "unat (h * 3600) = unat h * 3600" by (simp add: unat_word_ariths)
  with True show ?thesis
    by (simp add: rotation_interval_try_from_def duration_from_secs_def hours_def not_le mult.commute)
next
  case False
  then have "2 ^ 64 * 10 ^ 9 \<le> hours (unat h)" by (simp add: hours_def)
  with False show ?thesis
    by (simp add: rotation_interval_try_from_def rotation_interval_new_def MIN_ROTATION_INTERVAL_def
        MAX_ROTATION_INTERVAL_def hours_def)
qed

record associated_addresses =
  aa_ipv4_address :: "u32 \<times> nat"
  aa_ipv6_address :: "u128 \<times> nat"

record wireguard_data =
  wd_private_key :: wg_key
  wd_addresses :: associated_addresses
  wd_created :: time

section \<open>Devices\<close>

record device =
  dev_id :: device_id
  dev_name :: string
  dev_pubkey :: wg_key
  dev_hijack_dns :: bool
  dev_created :: time

record private_device =
  pd_id :: device_id
  pd_name :: string
  pd_wg_data :: wireguard_data
  pd_hijack_dns :: bool
  pd_created :: time

record private_account_and_device =
  pad_account_number :: account_number
  pad_device :: private_device

record account_and_device =
  ad_account_number :: account_number
  ad_device :: device

datatype private_device_state =
  LoggedIn private_account_and_device
| LoggedOut
| Revoked

datatype device_state =
  DeviceLoggedIn account_and_device
| DeviceLoggedOut
| DeviceRevoked

definition logged_in :: "private_device_state \<Rightarrow> bool" where
  "logged_in s = (case s of LoggedIn _ \<Rightarrow> True | _ \<Rightarrow> False)"

definition logged_out :: "private_device_state \<Rightarrow> bool" where
  "logged_out s = (case s of LoggedOut \<Rightarrow> True | _ \<Rightarrow> False)"

definition into_device :: "private_device_state \<Rightarrow> private_account_and_device option" where
  "into_device s = (case s of LoggedIn device \<Rightarrow> Some device | _ \<Rightarrow> None)"

lemma into_device_simps [simp]:
  "into_device (LoggedIn d) = Some d" "into_device LoggedOut = None" "into_device Revoked = None"
  by (simp_all add: into_device_def)

lemma into_device_Some [simp]: "into_device s = Some d \<longleftrightarrow> s = LoggedIn d"
  by (cases s) simp_all

lemma logged_in_iff: "logged_in s \<longleftrightarrow> (\<exists>d. s = LoggedIn d)"
  by (cases s) (simp_all add: logged_in_def)

section \<open>Errors\<close>

datatype rest_error =
  RestServiceDown
| RestAborted
| LegacyHyperError
| HyperError
| InvalidHeaderError
| HttpError
| RestTimeoutError
| DeserializeError
| ApiError u16 string
| InvalidUri
| NoAccessTokenStore
| FetchVersions
| BodyTooLarge

definition rest_is_network_error :: "rest_error \<Rightarrow> bool" where
  "rest_is_network_error e = (e = HyperError \<or> e = LegacyHyperError \<or> e = RestTimeoutError)"

definition rest_is_aborted :: "rest_error \<Rightarrow> bool" where
  "rest_is_aborted e = (e = RestAborted)"

datatype device_error =
  MaxDevicesReached
| NoDevice
| InvalidDevice
| InvalidAccount
| InvalidVoucher
| UsedVoucher
| DeviceIoError
| ParseDeviceCache
| OtherRestError rest_error
| Cancelled
| AccountChange
| AccountManagerDown

definition device_is_network_error :: "device_error \<Rightarrow> bool" where
  "device_is_network_error e = (case e of OtherRestError r \<Rightarrow> rest_is_network_error r | _ \<Rightarrow> False)"

definition device_is_aborted :: "device_error \<Rightarrow> bool" where
  "device_is_aborted e = (case e of OtherRestError r \<Rightarrow> rest_is_aborted r | _ \<Rightarrow> False)"

definition map_rest_error :: "rest_error \<Rightarrow> device_error" where
  "map_rest_error error = (case error of
       ApiError _ code \<Rightarrow>
         if code = ''DEVICE_NOT_FOUND'' \<or> code = ''INVALID_ACCESS_TOKEN'' then InvalidDevice
         else if code = ''INVALID_ACCOUNT'' then InvalidAccount
         else if code = ''MAX_DEVICES_REACHED'' then MaxDevicesReached
         else if code = ''INVALID_VOUCHER'' then InvalidVoucher
         else if code = ''VOUCHER_USED'' then UsedVoucher
         else OtherRestError error
     | _ \<Rightarrow> OtherRestError error)"

section \<open>Private devices\<close>

definition try_from_device ::
  "(wg_key \<Rightarrow> wg_key) \<Rightarrow> device \<Rightarrow> wireguard_data \<Rightarrow> device_error + private_device" where
  "try_from_device public_key device wg_data =
     (if dev_pubkey device \<noteq> public_key (wd_private_key wg_data) then Inl InvalidDevice
      else Inr \<lparr>pd_id = dev_id device, pd_name = dev_name device, pd_wg_data = wg_data,
                pd_hijack_dns = dev_hijack_dns device, pd_created = dev_created device\<rparr>)"

definition private_device_update ::
  "(wg_key \<Rightarrow> wg_key) \<Rightarrow> device \<Rightarrow> private_device \<Rightarrow> device_error + private_device" where
  "private_device_update public_key device self =
     (if dev_pubkey device \<noteq> public_key (wd_private_key (pd_wg_data self)) then Inl InvalidDevice
      else Inr (self\<lparr>pd_id := dev_id device, pd_name := dev_name device,
                     pd_hijack_dns := dev_hijack_dns device, pd_created := dev_created device\<rparr>))"

definition device_from :: "(wg_key \<Rightarrow> wg_key) \<Rightarrow> private_device \<Rightarrow> device" where
  "device_from public_key d =
     \<lparr>dev_id = pd_id d, dev_name = pd_name d, dev_pubkey = public_key (wd_private_key (pd_wg_data d)),
      dev_hijack_dns = pd_hijack_dns d, dev_created = pd_created d\<rparr>"

definition account_and_device_from ::
  "(wg_key \<Rightarrow> wg_key) \<Rightarrow> private_account_and_device \<Rightarrow> account_and_device" where
  "account_and_device_from public_key config =
     \<lparr>ad_account_number = pad_account_number config, ad_device = device_from public_key (pad_device config)\<rparr>"

definition device_state_from :: "(wg_key \<Rightarrow> wg_key) \<Rightarrow> private_device_state \<Rightarrow> device_state" where
  "device_state_from public_key state = (case state of
       LoggedIn dev \<Rightarrow> DeviceLoggedIn (account_and_device_from public_key dev)
     | LoggedOut \<Rightarrow> DeviceLoggedOut
     | Revoked \<Rightarrow> DeviceRevoked)"

text \<open>The public view of a device can be combined with its key again, and nothing else fits the key.\<close>

lemma try_from_device_roundtrip:
  "try_from_device public_key (device_from public_key d) (pd_wg_data d) = Inr d"
  by (simp add: try_from_device_def device_from_def)

lemma device_from_try_from:
  "try_from_device public_key dev wg = Inr d \<longleftrightarrow> device_from public_key d = dev \<and> pd_wg_data d = wg"
  by (auto simp: try_from_device_def device_from_def)

lemma private_device_update_exact:
  "private_device_update public_key dev d = try_from_device public_key dev (pd_wg_data d)"
  by (simp add: private_device_update_def try_from_device_def)

section \<open>Events\<close>

datatype private_device_event =
  EventLogin private_account_and_device
| EventLogout
| EventRevoked
| EventUpdated private_account_and_device
| EventRotatedKey private_account_and_device

datatype account_event =
  DeviceChanged private_device_event
| Expiry time

fun event_state :: "private_device_event \<Rightarrow> private_device_state" where
  "event_state (EventLogin config) = LoggedIn config"
| "event_state (EventUpdated config) = LoggedIn config"
| "event_state (EventRotatedKey config) = LoggedIn config"
| "event_state EventLogout = LoggedOut"
| "event_state EventRevoked = Revoked"

datatype device_event_cause = CauseLoggedIn | CauseLoggedOut | CauseRevoked | CauseUpdated | CauseRotatedKey

fun event_cause :: "private_device_event \<Rightarrow> device_event_cause" where
  "event_cause (EventLogin _) = CauseLoggedIn"
| "event_cause EventLogout = CauseLoggedOut"
| "event_cause EventRevoked = CauseRevoked"
| "event_cause (EventUpdated _) = CauseUpdated"
| "event_cause (EventRotatedKey _) = CauseRotatedKey"

definition device_event_from ::
  "(wg_key \<Rightarrow> wg_key) \<Rightarrow> private_device_event \<Rightarrow> device_event_cause \<times> device_state" where
  "device_event_from public_key event =
     (event_cause event, device_state_from public_key (event_state event))"

end
