(* ===== verification/Tunnel_Params.thy ===== *)
theory Tunnel_Params
  imports Tunnel_Types Relay_Correct Device_Types
begin

text \<open>
  From the user's settings to tunnel parameters: the generator of
  \<open>mullvad-daemon/src/tunnel.rs\<close> that asks the account manager for the device and the relay selector
  for a relay, and custom tunnel endpoints (\<open>mullvad-types/src/custom_tunnel.rs\<close>), which are
  resolved by name. What the account manager answers, what the resolver of the standard library
  yields for a host name and the draws of the relay selector are inputs.
\<close>

section \<open>Tunnel options of the settings\<close>

record daita_settings =
  ds_enabled :: bool
  ds_use_multihop_if_necessary :: bool

record wireguard_options =
  wo_mtu :: "u16 option"
  wo_quantum_resistant :: quantum_resistant_state
  wo_daita :: daita_settings
  wo_userspace :: bool
  wo_rotation_interval :: "duration option"

record settings_tunnel_options =
  sto_wireguard :: wireguard_options
  sto_generic :: generic_tunnel_options
  sto_dns_options :: dns_options

definition quantum_resistant_enabled :: "quantum_resistant_state \<Rightarrow> bool" where
  "quantum_resistant_enabled s = (case s of QrOn \<Rightarrow> True | QrOff \<Rightarrow> False)"

definition into_talpid_tunnel_options :: "wireguard_options \<Rightarrow> tunnel_options" where
  "into_talpid_tunnel_options o' =
     \<lparr>to_mtu = wo_mtu o', to_quantum_resistant = quantum_resistant_enabled (wo_quantum_resistant o'),
      to_daita = ds_enabled (wo_daita o'), to_userspace = wo_userspace o'\<rparr>"

section \<open>Custom tunnel endpoints\<close>

datatype custom_tunnel_error = InvalidHost string | HostHasNoIpv4 string

text \<open>\<open>Vec::pop\<close> takes the last element.\<close>

definition vec_pop :: "'a list \<Rightarrow> 'a option" where
  "vec_pop xs = (if xs = [] then None else Some (last xs))"

text \<open>\<open>lookup\<close> stands for \<open>to_socket_addrs\<close> of a host with port 0; an error is \<open>Inl\<close>.\<close>

definition resolve_to_ip ::
  "(string \<Rightarrow> unit + socket_addr list) \<Rightarrow> string \<Rightarrow> custom_tunnel_error + ip_addr" where
  "resolve_to_ip lookup host =
     (case lookup host of
        Inl _ \<Rightarrow> Inl (InvalidHost host)
      | Inr addrs \<Rightarrow>
          let (ipv4, ipv6) = partition is_ipv4 (map sock_ip addrs)
          in of_option (HostHasNoIpv4 host)
               (case vec_pop ipv4 of Some ip \<Rightarrow> Some ip | None \<Rightarrow> vec_pop ipv6))"

definition to_tunnel_parameters ::
  "(string \<Rightarrow> unit + socket_addr list) \<Rightarrow> settings_tunnel_options \<Rightarrow> custom_tunnel_endpoint
   \<Rightarrow> custom_tunnel_error + tunnel_parameters" where
  "to_tunnel_parameters lookup tunnel_options self =
     and_then (resolve_to_ip lookup (cte_host self)) (\<lambda>ip.
     Inr \<lparr>tp_connection = set_ip (cte_config self) ip,
          tp_options = (into_talpid_tunnel_options (sto_wireguard tunnel_options))\<lparr>to_quantum_resistant := False\<rparr>,
          tp_generic_options = sto_generic tunnel_options, tp_obfuscation = None\<rparr>)"

section \<open>The generator\<close>

datatype params_error =
  NoAuthDetails
| SelectRelay selector_error
| ResolveCustomHostname
| DeviceFailed device_error

record last_selected_relays =
  lsr_config :: wireguard_config
  lsr_has_obfuscator :: bool
  lsr_server_override :: bool

record parameters_generator =
  pg_relay_selector :: relay_selector
  pg_relay_settings :: relay_settings
  pg_tunnel_options :: settings_tunnel_options
  pg_last_generated_relays :: "last_selected_relays option"

definition generator_new ::
  "relay_selector \<Rightarrow> relay_settings \<Rightarrow> settings_tunnel_options \<Rightarrow> parameters_generator" where
  "generator_new relay_selector relay_settings tunnel_options =
     \<lparr>pg_relay_selector = relay_selector, pg_relay_settings = relay_settings,
      pg_tunnel_options = tunnel_options, pg_last_generated_relays = None\<rparr>"

definition set_tunnel_options :: "settings_tunnel_options \<Rightarrow> parameters_generator \<Rightarrow> parameters_generator" where
  "set_tunnel_options tunnel_options self = self\<lparr>pg_tunnel_options := tunnel_options\<rparr>"

definition set_generator_settings :: "selector_settings \<Rightarrow> parameters_generator \<Rightarrow> parameters_generator" where
  "set_generator_settings settings self =
     self\<lparr>pg_relay_settings := st_relay_settings settings,
          pg_relay_selector := set_config settings (pg_relay_selector self)\<rparr>"

definition last_relay_was_overridden :: "parameters_generator \<Rightarrow> bool" where
  "last_relay_was_overridden self =
     (case pg_last_generated_relays self of None \<Rightarrow> False | Some relays \<Rightarrow> lsr_server_override relays)"

definition TUNNEL_FWMARK :: u32 where
  "TUNNEL_FWMARK = 0x6d6f6c65"

definition create_wireguard_tunnel_parameters ::
  "settings_tunnel_options \<Rightarrow> mullvad_endpoint \<Rightarrow> private_account_and_device \<Rightarrow> obfuscators option
   \<Rightarrow> tunnel_parameters" where
  "create_wireguard_tunnel_parameters tunnel_options endpoint data obfuscator_config =
     (let wg_data = pd_wg_data (pad_device data);
          tunnel_ipv4 = fst (aa_ipv4_address (wd_addresses wg_data));
          tunnel_ipv6 = fst (aa_ipv6_address (wd_addresses wg_data));
          tunnel = \<lparr>tc_private_key = wd_private_key wg_data, tc_addresses = [IpV4 tunnel_ipv4, IpV6 tunnel_ipv6]\<rparr>
      in \<lparr>tp_connection = \<lparr>cc_tunnel = tunnel, cc_peer = me_peer endpoint, cc_exit_peer = me_exit_peer endpoint,
                          cc_ipv4_gateway = me_ipv4_gateway endpoint,
                          cc_ipv6_gateway = Some (me_ipv6_gateway endpoint), cc_fwmark = Some TUNNEL_FWMARK\<rparr>,
          tp_options = into_talpid_tunnel_options (sto_wireguard tunnel_options),
          tp_generic_options = sto_generic tunnel_options, tp_obfuscation = obfuscator_config\<rparr>)"

definition server_override :: "get_relay \<Rightarrow> bool" where
  "server_override r =
     (let first_relay = config_entry (gr_inner r)
      in case pc_endpoint (me_peer (gr_endpoint r)) of
           SockV4 _ _ \<Rightarrow> overridden_ipv4 first_relay
         | SockV6 _ _ _ _ \<Rightarrow> overridden_ipv6 first_relay)"

text \<open>\<open>device()\<close>: what the account manager answers, as a device that is logged in.\<close>

definition auth_device :: "device_error + private_device_state \<Rightarrow> params_error + private_account_and_device" where
  "auth_device account_data = (case account_data of
       Inl e \<Rightarrow> Inl (DeviceFailed e)
     | Inr state \<Rightarrow> of_option NoAuthDetails (into_device state))"

definition inner_generate ::
  "haversine \<Rightarrow> (nat \<Rightarrow> rng) \<Rightarrow> (string \<Rightarrow> unit + socket_addr list) \<Rightarrow> device_error + private_device_state
   \<Rightarrow> u32 \<Rightarrow> ip_availability \<Rightarrow> parameters_generator \<Rightarrow> (params_error + tunnel_parameters) \<times> parameters_generator" where
  "inner_generate hav rngs lookup account_data retry_attempt ip_availability self =
     (case pg_relay_settings self of
        CustomTunnelEndpoint endpoint \<Rightarrow>
          (case to_tunnel_parameters lookup (pg_tunnel_options self) endpoint of
             Inl _ \<Rightarrow> Inl ResolveCustomHostname
           | Inr parameters \<Rightarrow> Inr parameters,
           self\<lparr>pg_last_generated_relays := None\<rparr>)
      | NormalRelays _ \<Rightarrow>
          (case auth_device account_data of
             Inl e \<Rightarrow> (Inl e, self)
           | Inr data \<Rightarrow>
               (case selector_get_relay hav rngs (pg_relay_selector self) (unat retry_attempt) ip_availability of
                  Inl e \<Rightarrow> (Inl (SelectRelay e), self)
                | Inr selected_relay \<Rightarrow>
                    (Inr (create_wireguard_tunnel_parameters (pg_tunnel_options self)
                            (gr_endpoint selected_relay) data (gr_obfuscator selected_relay)),
                     self\<lparr>pg_last_generated_relays := Some
                       \<lparr>lsr_config = gr_inner selected_relay,
                        lsr_has_obfuscator = (gr_obfuscator selected_relay \<noteq> None),
                        lsr_server_override = server_override selected_relay\<rparr>\<rparr>))))"

definition parameter_error_from :: "params_error \<Rightarrow> parameter_generation_error" where
  "parameter_error_from error = (case error of
       SelectRelay NoBridge \<Rightarrow> NoMatchingBridgeRelay
     | ResolveCustomHostname \<Rightarrow> CustomTunnelHostResolutionError
     | SelectRelay (Relay_Query.IpVersionUnavailable family) \<Rightarrow> Tunnel_Types.IpVersionUnavailable family
     | SelectRelay (NoRelayEntry _) \<Rightarrow> NoMatchingRelayEntry
     | SelectRelay (NoRelayExit _) \<Rightarrow> NoMatchingRelayExit
     | NoAuthDetails \<Rightarrow> NoMatchingRelay
     | SelectRelay _ \<Rightarrow> NoMatchingRelay
     | DeviceFailed _ \<Rightarrow> NoMatchingRelay)"

definition generate ::
  "haversine \<Rightarrow> (nat \<Rightarrow> rng) \<Rightarrow> (string \<Rightarrow> unit + socket_addr list) \<Rightarrow> device_error + private_device_state
   \<Rightarrow> u32 \<Rightarrow> ip_availability \<Rightarrow> parameters_generator
   \<Rightarrow> (parameter_generation_error + tunnel_parameters) \<times> parameters_generator" where
  "generate hav rngs lookup account_data retry_attempt ip_availability self =
     (case inner_generate hav rngs lookup account_data retry_attempt ip_availability self of
        (Inl e, self) \<Rightarrow> (Inl (parameter_error_from e), self)
      | (Inr p, self) \<Rightarrow> (Inr p, self))"

section \<open>The location reported\<close>

record geo_ip_location =
  gl_ipv4 :: "u32 option"
  gl_ipv6 :: "u128 option"
  gl_country :: string
  gl_city :: "string option"
  gl_latitude :: f64
  gl_longitude :: f64
  gl_mullvad_exit_ip :: bool
  gl_hostname :: "string option"
  gl_entry_hostname :: "string option"
  gl_obfuscator_hostname :: "string option"

definition get_last_location :: "parameters_generator \<Rightarrow> geo_ip_location option" where
  "get_last_location self =
     map_option (\<lambda>relays.
       let (entry, exit, obfuscator) = (case lsr_config relays of
             Singlehop exit \<Rightarrow> (None, exit, if lsr_has_obfuscator relays then Some exit else None)
           | Multihop exit entry \<Rightarrow> (Some entry, exit, if lsr_has_obfuscator relays then Some entry else None));
           location = rl_location exit
       in \<lparr>gl_ipv4 = None, gl_ipv6 = None, gl_country = loc_country location, gl_city = Some (loc_city location),
           gl_latitude = latitude location, gl_longitude = longitude location, gl_mullvad_exit_ip = True,
           gl_hostname = Some (hostname exit), gl_entry_hostname = map_option hostname entry,
           gl_obfuscator_hostname = map_option hostname obfuscator\<rparr>)
     (pg_last_generated_relays self)"

section \<open>Where the tunnel traffic goes\<close>

text \<open>The addresses a relay list gives for a relay.\<close>

definition relay_addresses :: "wireguard_relay \<Rightarrow> ip_addr set" where
  "relay_addresses r =
     {IpV4 (ipv4_addr_in r)} \<union> IpV6 ` set_option (ipv6_addr_in r) \<union>
     set (wre_shadowsocks_extra_addr_in (endpoint_data r)) \<union>
     (case wre_quic (endpoint_data r) of None \<Rightarrow> {} | Some q \<Rightarrow> set (q_addr_in q))"

lemma quic_in_addresses:
  assumes "wre_quic (endpoint_data r) = Some q"
  shows "IpV4 ` set (quic_in_ipv4 q) \<subseteq> relay_addresses r" "IpV6 ` set (quic_in_ipv6 q) \<subseteq> relay_addresses r"
  using assms
  by (auto simp: relay_addresses_def quic_in_ipv4_def quic_in_ipv6_def List.map_filter_def split: ip_addr.splits)

lemma select_ip_relay:
  assumes "relay_endpoint_set_new r data = Some es" and "select_ip (res_wireguard es) v = Some ip"
  shows "ip \<in> relay_addresses r"
  using assms
  by (auto simp: relay_endpoint_set_new_def select_ip_def relay_addresses_def split: constraint.splits ip_version.splits)

lemma wg_random_endpoint_relay:
  assumes "relay_endpoint_set_new r data = Some es" and "wg_random_endpoint pick (res_wireguard es) v port = Some a"
  shows "sock_ip a \<in> relay_addresses r"
proof -
  obtain ip p where "select_ip (res_wireguard es) v = Some ip" "a = socket_addr_new ip p"
    using assms(2) by (auto simp: wg_random_endpoint_def bind_eq_Some_conv)
  with select_ip_relay [OF assms(1)] show ?thesis by simp
qed

lemma ss_random_endpoint_relay:
  assumes ok: "rng_ok rng" and es: "relay_endpoint_set_new r data = Some es" "res_shadowsocks es = Some ss"
    and a: "ss_random_endpoint rng ss (res_wireguard es) v port = Some a"
  shows "sock_ip a \<in> relay_addresses r"
proof -
  have ded: "se_dedicated_addrs ss = wre_shadowsocks_extra_addr_in (endpoint_data r)"
    using es by (auto simp: relay_endpoint_set_new_def shadowsocks_endpoints_new_def Let_def split: if_splits)
  have choose: "chooses (rng_obfuscator_addr rng)" using ok by (simp add: rng_ok_def)
  show ?thesis
  proof (cases "rng_obfuscator_addr rng (filter (\<lambda>ip. case v of Any \<Rightarrow> True | Only v' \<Rightarrow> ip_version_of ip = v')
      (se_dedicated_addrs ss))")
    case None
    then obtain ip p where "select_ip (res_wireguard es) v = Some ip" "a = socket_addr_new ip p"
      using a by (auto simp: ss_random_endpoint_def bind_eq_Some_conv)
    with select_ip_relay [OF es(1)] show ?thesis by simp
  next
    case (Some ip)
    then have "ip \<in> set (se_dedicated_addrs ss)" using chooses_Some [OF choose Some] by simp
    with a Some ded show ?thesis by (auto simp: ss_random_endpoint_def relay_addresses_def)
  qed
qed

lemma quic_random_endpoint_relay:
  assumes ok: "rng_ok rng" and es: "relay_endpoint_set_new r data = Some es" "res_quic es = Some quic"
    and a: "quic_random_endpoint rng quic v = Some a"
  shows "sock_ip a \<in> relay_addresses r"
proof -
  obtain q where q: "wre_quic (endpoint_data r) = Some q" "qe_ipv4 quic = quic_in_ipv4 q" "qe_ipv6 quic = quic_in_ipv6 q"
    using es by (auto simp: relay_endpoint_set_new_def quic_endpoints_new_def split: option.splits if_splits)
  have choose: "chooses (rng_obfuscator_addr rng)" using ok by (simp add: rng_ok_def)
  have "sock_ip a \<in> IpV4 ` set (qe_ipv4 quic) \<union> IpV6 ` set (qe_ipv6 quic)"
    using a by (auto simp: quic_random_endpoint_def Let_def dest!: chooses_Some [OF choose]
        split: constraint.splits ip_version.splits option.splits)
  with q quic_in_addresses [OF q(1)] show ?thesis by auto
qed

text \<open>The endpoint and the obfuscator chosen for a relay are at addresses of that relay.\<close>

definition obfuscator_at :: "obfuscators option \<Rightarrow> ip_addr set \<Rightarrow> bool" where
  "obfuscator_at obfuscator A = (case obfuscator of
       None \<Rightarrow> True
     | Some o' \<Rightarrow> \<forall>e \<in> set (obfuscators_endpoints o'). sock_ip (ep_address e) \<in> A)"

lemma get_wireguard_obfuscator_relay:
  assumes ok: "rng_ok rng" and es: "relay_endpoint_set_new r data = Some es"
    and g: "get_wireguard_obfuscator rng es query v = Inr (addr, obfuscator)"
  shows "sock_ip addr \<in> relay_addresses r \<and> obfuscator_at obfuscator (relay_addresses r)"
proof -
  obtain port where "wg_random_endpoint (rng_wg_port rng) (res_wireguard es) v port = Some addr"
    using g unfolding get_wireguard_obfuscator_def Let_def
    by (auto split: constraint.splits obfuscation_mode.splits)
  then have addr: "sock_ip addr \<in> relay_addresses r" by (rule wg_random_endpoint_relay [OF es])
  with g ss_random_endpoint_relay [OF ok es] quic_random_endpoint_relay [OF ok es] show ?thesis
    unfolding get_wireguard_obfuscator_def Let_def
    by (auto simp: obfuscator_at_def udp2tcp_config_def lwo_config_def shadowsocks_config_def quic_config_def
        split: constraint.splits obfuscation_mode.splits if_splits)
qed

lemma get_relay_by_query_addresses:
  assumes ok: "rng_ok rng" and relays: "annotated_ok relays" and g: "get_relay_by_query hav rng relays cl q = Inr r"
    and entry: "config_entry (gr_inner r) \<in> set (all_relays relays)"
  shows "\<exists>r' \<in> set (all_relays relays). hostname r' = hostname (config_entry (gr_inner r)) \<and>
    sock_ip (pc_endpoint (me_peer (gr_endpoint r))) \<in> relay_addresses r' \<and>
    obfuscator_at (gr_obfuscator r) (relay_addresses r')"
proof -
  obtain inner es addr o' where set: "endpoint_set_for relays (config_entry inner) = Some es"
    and obf: "get_wireguard_obfuscator rng es (es_obfuscation (query_entry_specific q))
       (es_ip_version (query_entry_specific q)) = Inr (addr, o')"
    and r: "r = \<lparr>gr_endpoint = wireguard_endpoint (rq_allowed_ips q) (rl_wireguard (arl_inner relays)) inner addr,
              gr_obfuscator = o', gr_inner = inner\<rparr>"
    using g unfolding get_relay_by_query_def Let_def by (auto split: sum.splits)
  obtain r' where "r' \<in> set (all_relays relays)" "hostname r' = hostname (config_entry inner)"
    "relay_endpoint_set_new r' (rl_wireguard (arl_inner relays)) = Some es"
    using relays entry set r by (auto simp: annotated_ok_def)
  with get_wireguard_obfuscator_relay [OF ok this(3) obf] r show ?thesis
    by (auto simp: wireguard_endpoint_peer)
qed

lemma get_relay_source:
  assumes "get_relay_with_custom_params hav rngs relays cl q attempt order avail = Inr r"
  shows "\<exists>k q'. get_relay_by_query hav (rngs k) relays cl q' = Inr r"
proof -
  obtain user where user: "apply_ip_availability q avail = Inr user"
    using assms unfolding get_relay_with_custom_params_def by auto
  let ?queries = "List.map_filter (merge_retry user) order"
  let ?f = "\<lambda>d q. get_relay_by_query hav (rngs d) relays cl q"
  show ?thesis
  proof (cases "cycle_nth ?f ?queries attempt (?queries, 0)")
    case (Pair o' d)
    then show ?thesis
      using assms user cycle_nth_Some [of ?f ?queries attempt "(?queries, 0)"]
      unfolding get_relay_with_custom_params_def by (cases o') (auto simp: Let_def)
  qed
qed

section \<open>Generated parameters\<close>

text \<open>What parameters for relays of the list owe the user.\<close>

definition parameters_honour ::
  "relay_selector \<Rightarrow> settings_tunnel_options \<Rightarrow> private_account_and_device \<Rightarrow> ip_availability \<Rightarrow> get_relay
   \<Rightarrow> tunnel_parameters \<Rightarrow> bool" where
  "parameters_honour s opts data avail r p \<longleftrightarrow>
     answer_honours (rs_relays s) (sc_custom_lists (rs_config s)) (sc_query (rs_config s)) avail r \<and>
     (\<exists>r' \<in> set (all_relays (rs_relays s)). hostname r' = hostname (config_entry (gr_inner r)) \<and>
        (\<forall>e \<in> set (get_next_hop_endpoints p). sock_ip (ep_address e) \<in> relay_addresses r')) \<and>
     tc_private_key (cc_tunnel (tp_connection p)) = wd_private_key (pd_wg_data (pad_device data)) \<and>
     tp_options p = into_talpid_tunnel_options (sto_wireguard opts) \<and>
     (cc_exit_peer (tp_connection p) = None \<longleftrightarrow> (\<exists>exit. gr_inner r = Singlehop exit))"

lemma wireguard_endpoint_exit_peer:
  "me_exit_peer (wireguard_endpoint ips data config addr) = None \<longleftrightarrow> (\<exists>exit. config = Singlehop exit)"
  by (cases config) (simp_all add: wireguard_endpoint_def wireguard_singlehop_endpoint_def
      wireguard_multihop_endpoint_def Let_def)

lemma get_relay_by_query_exit_peer:
  "get_relay_by_query hav rng relays cl q = Inr r \<Longrightarrow>
   me_exit_peer (gr_endpoint r) = None \<longleftrightarrow> (\<exists>exit. gr_inner r = Singlehop exit)"
  unfolding get_relay_by_query_def Let_def by (auto simp: wireguard_endpoint_exit_peer split: sum.splits)

lemma inner_generate_normal:
  assumes "inner_generate hav rngs lookup account_data attempt avail g = (Inr p, g')"
    and "pg_relay_settings g = NormalRelays c"
  obtains data r where "account_data = Inr (LoggedIn data)"
    and "selector_get_relay hav rngs (pg_relay_selector g) (unat attempt) avail = Inr r"
    and "p = create_wireguard_tunnel_parameters (pg_tunnel_options g) (gr_endpoint r) data (gr_obfuscator r)"
    and "g' = g\<lparr>pg_last_generated_relays := Some \<lparr>lsr_config = gr_inner r,
           lsr_has_obfuscator = (gr_obfuscator r \<noteq> None), lsr_server_override = server_override r\<rparr>\<rparr>"
  using assms by (auto simp: inner_generate_def auth_device_def split: sum.splits)

lemma generated_parameters_honour:
  assumes "\<And>n. rng_ok (rngs n)" and "selector_reachable s"
    and get: "selector_get_relay hav rngs s attempt avail = Inr r"
  shows "parameters_honour s opts data avail r
    (create_wireguard_tunnel_parameters opts (gr_endpoint r) data (gr_obfuscator r))"
proof -
  note ok = selector_reachable_ok [OF assms(2)]
  have honours: "answer_honours (rs_relays s) (sc_custom_lists (rs_config s)) (sc_query (rs_config s)) avail r"
    using get_relay_honours [OF assms(1) ok] get by (simp add: selector_get_relay_def)
  obtain k q' where q': "get_relay_by_query hav (rngs k) (rs_relays s) (sc_custom_lists (rs_config s)) q' = Inr r"
    using get_relay_source [OF get [unfolded selector_get_relay_def]] by blast
  have "config_entry (gr_inner r) \<in> set (all_relays (rs_relays s))"
    using honours by (simp add: answer_honours_def Let_def)
  from get_relay_by_query_addresses [OF assms(1) ok q' this] obtain r' where
    "r' \<in> set (all_relays (rs_relays s))" "hostname r' = hostname (config_entry (gr_inner r))"
    "sock_ip (pc_endpoint (me_peer (gr_endpoint r))) \<in> relay_addresses r'"
    "obfuscator_at (gr_obfuscator r) (relay_addresses r')" by blast
  then show ?thesis
    using honours get_relay_by_query_exit_peer [OF q']
    unfolding parameters_honour_def create_wireguard_tunnel_parameters_def Let_def
    by (auto simp: get_next_hop_endpoints_def get_endpoint_def obfuscator_at_def split: option.splits)
qed

section \<open>Custom endpoints\<close>

lemma resolve_to_ip_Inr:
  assumes "resolve_to_ip lookup host = Inr ip"
  obtains addrs where "lookup host = Inr addrs" and "ip \<in> sock_ip ` set addrs"
    and "(\<exists>a \<in> set addrs. is_ipv4 (sock_ip a)) \<longrightarrow> is_ipv4 ip"
proof -
  from assms obtain addrs where a: "lookup host = Inr addrs" by (auto simp: resolve_to_ip_def split: sum.splits)
  let ?v4 = "filter is_ipv4 (map sock_ip addrs)" and ?v6 = "filter (Not \<circ> is_ipv4) (map sock_ip addrs)"
  have ip: "ip = last ?v4 \<and> ?v4 \<noteq> [] \<or> ip = last ?v6 \<and> ?v6 \<noteq> [] \<and> ?v4 = []"
    using assms a by (auto simp: resolve_to_ip_def vec_pop_def Let_def comp_def split: if_splits)
  then have "ip \<in> set ?v4 \<or> ip \<in> set ?v6" using last_in_set by metis
  moreover have "?v4 \<noteq> [] \<longrightarrow> is_ipv4 ip" using ip last_in_set [of ?v4] by auto
  ultimately show thesis
    using that [OF a] by (auto simp: filter_empty_conv)
qed

end
