(* ===== verification/Version.thy ===== *)
theory Version
  imports Prelude
begin

text \<open>
  Application versions (\<open>mullvad-version/src/lib.rs\<close>): their partial order, printing, and parsing with a
  regular expression. The expression is matched by hand: after its start it can match in at
  most one way, and it is tried at each position of the string from the left, as the
  regular expression engine does for an expression that is not anchored at its start. The numbers of
  a version come from at most four digits, so natural numbers stand for \<open>u32\<close>.
\<close>

section \<open>Versions and their order\<close>

datatype ordering = LT | EQ | GT

datatype pre_stable_type = Alpha nat | Beta nat

record app_version =
  av_year :: nat
  av_incremental :: nat
  av_pre_stable :: "pre_stable_type option"
  av_dev :: "string option"

definition nat_cmp :: "nat \<Rightarrow> nat \<Rightarrow> ordering" where
  "nat_cmp a b = (if a < b then LT else if a = b then EQ else GT)"

definition ordering_then :: "ordering \<Rightarrow> ordering \<Rightarrow> ordering" where
  "ordering_then a b = (if a = EQ then b else a)"

fun pre_stable_cmp :: "pre_stable_type \<Rightarrow> pre_stable_type \<Rightarrow> ordering" where
  "pre_stable_cmp (Alpha a) (Alpha b) = nat_cmp a b"
| "pre_stable_cmp (Beta a) (Beta b) = nat_cmp a b"
| "pre_stable_cmp (Alpha _) (Beta _) = LT"
| "pre_stable_cmp (Beta _) (Alpha _) = GT"

definition is_dev :: "app_version \<Rightarrow> bool" where
  "is_dev v = (av_dev v \<noteq> None)"

definition is_stable :: "app_version \<Rightarrow> bool" where
  "is_stable v = (av_pre_stable v = None \<and> \<not> is_dev v)"

definition is_beta :: "app_version \<Rightarrow> bool" where
  "is_beta v = (case av_pre_stable v of Some (Beta _) \<Rightarrow> True | _ \<Rightarrow> False)"

definition version_partial_cmp :: "app_version \<Rightarrow> app_version \<Rightarrow> ordering option" where
  "version_partial_cmp a b =
     (let type_ordering = (case (av_pre_stable a, av_pre_stable b) of
            (None, None) \<Rightarrow> EQ
          | (Some _, None) \<Rightarrow> LT
          | (None, Some _) \<Rightarrow> GT
          | (Some x, Some y) \<Rightarrow> pre_stable_cmp x y);
          dev_ordering = (case (av_dev a, av_dev b) of
            (Some _, None) \<Rightarrow> Some GT
          | (None, Some _) \<Rightarrow> Some LT
          | (Some x, Some y) \<Rightarrow> if x \<noteq> y then None else Some EQ
          | (None, None) \<Rightarrow> Some EQ);
          release_ordering = ordering_then (ordering_then (nat_cmp (av_year a) (av_year b))
            (nat_cmp (av_incremental a) (av_incremental b))) type_ordering
      in if release_ordering = EQ then dev_ordering else Some release_ordering)"

text \<open>The operator \<open>>\<close> of a type with a partial order.\<close>

definition version_gt :: "app_version \<Rightarrow> app_version \<Rightarrow> bool" where
  "version_gt a b = (version_partial_cmp a b = Some GT)"

section \<open>Printing\<close>

text \<open>Decimal digits of a number, most significant first.\<close>

fun show_nat :: "nat \<Rightarrow> string" where
  "show_nat n = (if n < 10 then [char_of (48 + n)] else show_nat (n div 10) @ [char_of (48 + n mod 10)])"

declare show_nat.simps [simp del]

definition version_to_string :: "app_version \<Rightarrow> string" where
  "version_to_string v =
     show_nat (av_year v) @ ''.'' @ show_nat (av_incremental v) @
     (case av_pre_stable v of
        Some (Alpha n) \<Rightarrow> ''-alpha'' @ show_nat n
      | Some (Beta n) \<Rightarrow> ''-beta'' @ show_nat n
      | None \<Rightarrow> []) @
     (case av_dev v of Some hash \<Rightarrow> ''-dev-'' @ hash | None \<Rightarrow> [])"

section \<open>Parsing\<close>

definition is_digit :: "char \<Rightarrow> bool" where
  "is_digit c = (48 \<le> (of_char c :: nat) \<and> (of_char c :: nat) \<le> 57)"

definition is_hex :: "char \<Rightarrow> bool" where
  "is_hex c = (is_digit c \<or> 97 \<le> (of_char c :: nat) \<and> (of_char c :: nat) \<le> 102)"

definition digits_to_nat :: "string \<Rightarrow> nat" where
  "digits_to_nat s = foldl (\<lambda>n c. 10 * n + (of_char c - 48)) 0 s"

text \<open>\<open>[1-9]\d?\<close> and \<open>[1-9]\d?\d?\<close>: a number without a leading zero of at most \<open>k\<close> digits.\<close>

definition is_number :: "nat \<Rightarrow> string \<Rightarrow> bool" where
  "is_number k s = (s \<noteq> [] \<and> length s \<le> k \<and> hd s \<noteq> CHR ''0'')"

definition strip_prefix :: "string \<Rightarrow> string \<Rightarrow> string option" where
  "strip_prefix p s = (if take (length p) s = p then Some (drop (length p) s) else None)"

definition match_dev :: "string \<Rightarrow> string option option" where
  "match_dev s =
     (if s = [] then Some None
      else case strip_prefix ''-dev-'' s of
             Some hash \<Rightarrow> if hash \<noteq> [] \<and> list_all is_hex hash then Some (Some hash) else None
           | None \<Rightarrow> None)"

definition match_pre_stable :: "string \<Rightarrow> (pre_stable_type option \<times> string) option" where
  "match_pre_stable s =
     (case strip_prefix ''-alpha'' s of
        Some rest \<Rightarrow>
          (let d = takeWhile is_digit rest in
           if is_number 3 d then Some (Some (Alpha (digits_to_nat d)), dropWhile is_digit rest) else None)
      | None \<Rightarrow>
          (case strip_prefix ''-beta'' s of
             Some rest \<Rightarrow>
               (let d = takeWhile is_digit rest in
                if is_number 3 d then Some (Some (Beta (digits_to_nat d)), dropWhile is_digit rest) else None)
           | None \<Rightarrow> Some (None, s)))"

definition match_version :: "string \<Rightarrow> app_version option" where
  "match_version s =
     (let year = take 4 s; rest = drop 4 s in
      if length year = 4 \<and> list_all is_digit year \<and> take 1 rest = ''.'' then
        (let rest = drop 1 rest; inc = takeWhile is_digit rest in
         if is_number 2 inc then
           Option.bind (match_pre_stable (dropWhile is_digit rest)) (\<lambda>(pre_stable, rest).
           Option.bind (match_dev rest) (\<lambda>dev.
           Some \<lparr>av_year = digits_to_nat year, av_incremental = digits_to_nat inc,
                 av_pre_stable = pre_stable, av_dev = dev\<rparr>))
         else None)
      else None)"

fun find_version :: "string \<Rightarrow> app_version option" where
  "find_version [] = match_version []"
| "find_version (c # s) = (case match_version (c # s) of Some v \<Rightarrow> Some v | None \<Rightarrow> find_version s)"

definition version_from_str :: "string \<Rightarrow> string + app_version" where
  "version_from_str s = of_option (''Version does not match expected format: '' @ s) (find_version s)"

section \<open>The order is a partial order\<close>

text \<open>A version without its development suffix as a tuple of numbers, in the same order.\<close>

fun pre_stable_key :: "pre_stable_type option \<Rightarrow> nat \<times> nat" where
  "pre_stable_key (Some (Alpha n)) = (0, n)"
| "pre_stable_key (Some (Beta n)) = (1, n)"
| "pre_stable_key None = (2, 0)"

definition version_key :: "app_version \<Rightarrow> nat \<times> nat \<times> nat \<times> nat" where
  "version_key v = (av_year v, av_incremental v, pre_stable_key (av_pre_stable v))"

definition cmp_key :: "'a :: linorder \<Rightarrow> 'a \<Rightarrow> ordering" where
  "cmp_key a b = (if a < b then LT else if a = b then EQ else GT)"

lemma pre_stable_key_inject: "pre_stable_key a = pre_stable_key b \<longleftrightarrow> a = b"
  by (cases a rule: pre_stable_key.cases; cases b rule: pre_stable_key.cases) auto

lemma pre_stable_cmp_key: "pre_stable_cmp a b = cmp_key (pre_stable_key (Some a)) (pre_stable_key (Some b))"
  by (cases a; cases b) (auto simp: nat_cmp_def cmp_key_def)

lemma type_ordering_key:
  "(case (a, b) of (None, None) \<Rightarrow> EQ | (Some _, None) \<Rightarrow> LT | (None, Some _) \<Rightarrow> GT
      | (Some x, Some y) \<Rightarrow> pre_stable_cmp x y) = cmp_key (pre_stable_key a) (pre_stable_key b)"
proof -
  have "pre_stable_key (Some x) < (2, 0)" "pre_stable_key (Some x) \<noteq> (2, 0)" "\<not> (2, 0) < pre_stable_key (Some x)" for x
    by (cases x; auto)+
  then show ?thesis by (cases a; cases b) (auto simp: pre_stable_cmp_key cmp_key_def not_sym)
qed

lemma version_partial_cmp_key:
  "version_partial_cmp a b =
     (if version_key a = version_key b
      then (case (av_dev a, av_dev b) of
              (Some x, Some y) \<Rightarrow> if x = y then Some EQ else None
            | (Some _, None) \<Rightarrow> Some GT | (None, Some _) \<Rightarrow> Some LT | (None, None) \<Rightarrow> Some EQ)
      else Some (cmp_key (version_key a) (version_key b)))"
  unfolding version_partial_cmp_def Let_def type_ordering_key
  by (auto simp: version_key_def nat_cmp_def ordering_then_def cmp_key_def split: option.splits)

lemma version_gt_key:
  "version_gt a b \<longleftrightarrow> version_key b < version_key a \<or>
     version_key a = version_key b \<and> av_dev a \<noteq> None \<and> av_dev b = None"
  by (cases "av_dev a"; cases "av_dev b")
    (auto simp: version_gt_def version_partial_cmp_key cmp_key_def)

lemma version_gt_trans: "version_gt a b \<Longrightarrow> version_gt b c \<Longrightarrow> version_gt a c"
  by (auto simp: version_gt_key)

lemma version_gt_irrefl [simp]: "\<not> version_gt a a"
  by (auto simp: version_gt_key)

lemma version_partial_cmp_EQ: "version_partial_cmp a b = Some EQ \<longleftrightarrow> a = b"
proof
  assume "version_partial_cmp a b = Some EQ"
  then have "version_key a = version_key b" "av_dev a = av_dev b"
    by (auto simp: version_partial_cmp_key cmp_key_def split: if_splits option.splits)
  then show "a = b" by (auto simp: version_key_def pre_stable_key_inject)
qed (auto simp: version_partial_cmp_key split: option.splits)

lemma version_partial_cmp_LT: "version_partial_cmp a b = Some LT \<longleftrightarrow> version_gt b a"
  by (auto simp: version_gt_key version_partial_cmp_key cmp_key_def split: if_splits option.splits)

lemma version_comparable:
  "version_partial_cmp a b = None \<longleftrightarrow>
     version_key a = version_key b \<and> av_dev a \<noteq> None \<and> av_dev b \<noteq> None \<and> av_dev a \<noteq> av_dev b"
  by (auto simp: version_partial_cmp_key split: if_splits option.splits)

lemma version_total:
  assumes "\<not> is_dev a" "\<not> is_dev b"
  shows "version_gt a b \<or> a = b \<or> version_gt b a"
proof (cases "version_partial_cmp a b")
  case None
  with assms show ?thesis by (simp add: version_comparable is_dev_def)
next
  case (Some c)
  then show ?thesis
    by (cases c) (simp_all add: version_partial_cmp_EQ version_partial_cmp_LT, simp add: version_gt_def)
qed

section \<open>Printing and parsing\<close>

lemma is_digit_char_of [simp]: "d < 10 \<Longrightarrow> is_digit (char_of (48 + d :: nat))"
  by (simp add: is_digit_def of_char_of)

lemma show_nat_digits: "list_all is_digit (show_nat n)"
  by (induction n rule: show_nat.induct) (subst show_nat.simps, auto)

lemma show_nat_not_empty [simp]: "show_nat n \<noteq> []"
  by (subst show_nat.simps) auto

lemma digits_to_nat_snoc: "digits_to_nat (s @ [c]) = 10 * digits_to_nat s + (of_char c - 48)"
  by (simp add: digits_to_nat_def)

lemma digits_to_nat_show [simp]: "digits_to_nat (show_nat n) = n"
proof (induction n rule: show_nat.induct)
  case (1 n)
  show ?case
  proof (cases "n < 10")
    case True
    then show ?thesis by (subst show_nat.simps) (simp add: digits_to_nat_def of_char_of)
  next
    case False
    have "digits_to_nat (show_nat n) = 10 * (n div 10) + n mod 10"
      using 1 False by (subst show_nat.simps) (simp add: digits_to_nat_snoc of_char_of)
    then show ?thesis by simp
  qed
qed

lemma show_nat_hd: "0 < n \<Longrightarrow> hd (show_nat n) \<noteq> CHR ''0''"
proof (induction n rule: show_nat.induct)
  case (1 n)
  show ?case
  proof (cases "n < 10")
    case True
    have "char_of (48 + n) \<noteq> CHR ''0''"
    proof
      assume "char_of (48 + n) = CHR ''0''"
      then have "of_char (char_of (48 + n)) = (of_char CHR ''0'' :: nat)" by simp
      with True 1(2) show False by (simp add: of_char_of)
    qed
    then show ?thesis using True by (subst show_nat.simps) simp
  next
    case False
    then show ?thesis using 1 by (subst show_nat.simps) (simp add: hd_append)
  qed
qed

lemma length_show_nat: "n < 10 ^ k \<Longrightarrow> 0 < k \<Longrightarrow> length (show_nat n) \<le> k"
proof (induction n arbitrary: k rule: show_nat.induct)
  case (1 n)
  show ?case
  proof (cases "n < 10")
    case True
    then show ?thesis using 1(3) by (subst show_nat.simps) simp
  next
    case False
    then obtain j where j: "k = Suc j" using 1(3) by (cases k) auto
    have "0 < j" using 1(2) False j by (cases j) auto
    then have "length (show_nat (n div 10)) \<le> j"
      using 1(1) [OF False, of j] 1(2) j by (simp add: less_mult_imp_div_less mult.commute)
    then show ?thesis using False j by (subst show_nat.simps) simp
  qed
qed

lemma length_show_nat_ge: "10 ^ k \<le> n \<Longrightarrow> k < length (show_nat n)"
proof (induction k arbitrary: n)
  case (Suc k)
  have "10 * 1 \<le> 10 * (10 :: nat) ^ k" by (rule mult_le_mono2) simp
  also have "10 * 10 ^ k \<le> n" using Suc.prems by simp
  finally have "\<not> n < 10" by simp
  moreover have "10 ^ k \<le> n div 10" using Suc.prems by (simp add: less_eq_div_iff_mult_less_eq mult.commute)
  ultimately show ?case using Suc.IH [of "n div 10"] by (subst show_nat.simps) simp
qed simp

lemma span_digits:
  assumes "list_all is_digit d" "rest = [] \<or> \<not> is_digit (hd rest)"
  shows "takeWhile is_digit (d @ rest) = d" "dropWhile is_digit (d @ rest) = rest"
  using assms by (auto simp: list_all_iff takeWhile_append dropWhile_append dropWhile_eq_self_iff takeWhile_eq_Nil_iff)

lemma strip_prefix_append [simp]: "strip_prefix p (p @ s) = Some s"
  by (simp add: strip_prefix_def)

definition version_wf :: "app_version \<Rightarrow> bool" where
  "version_wf v =
     (1000 \<le> av_year v \<and> av_year v \<le> 9999 \<and> 1 \<le> av_incremental v \<and> av_incremental v \<le> 99 \<and>
      (case av_pre_stable v of
         Some (Alpha n) \<Rightarrow> 1 \<le> n \<and> n \<le> 999 | Some (Beta n) \<Rightarrow> 1 \<le> n \<and> n \<le> 999 | None \<Rightarrow> True) \<and>
      (case av_dev v of Some h \<Rightarrow> h \<noteq> [] \<and> list_all is_hex h | None \<Rightarrow> True))"

lemma is_number_show: "1 \<le> n \<Longrightarrow> n < 10 ^ k \<Longrightarrow> is_number k (show_nat n)"
proof -
  assume n: "1 \<le> n" "n < 10 ^ k"
  then have "0 < k" by (cases k) auto
  then show "is_number k (show_nat n)" using n show_nat_hd length_show_nat by (simp add: is_number_def)
qed

abbreviation dev_suffix :: "string option \<Rightarrow> string" where
  "dev_suffix d \<equiv> (case d of Some hash \<Rightarrow> ''-dev-'' @ hash | None \<Rightarrow> [])"

lemma match_dev_suffix:
  "(case d of Some h \<Rightarrow> h \<noteq> [] \<and> list_all is_hex h | None \<Rightarrow> True) \<Longrightarrow> match_dev (dev_suffix d) = Some d"
  using strip_prefix_append [of "''-dev-''"] by (auto simp: match_dev_def split: option.splits)

lemma dev_suffix_hd: "dev_suffix d = [] \<or> \<not> is_digit (hd (dev_suffix d))"
  by (cases d) (auto simp: is_digit_def)

lemma match_pre_stable_print:
  assumes "case p of Some (Alpha n) \<Rightarrow> 1 \<le> n \<and> n \<le> 999 | Some (Beta n) \<Rightarrow> 1 \<le> n \<and> n \<le> 999 | None \<Rightarrow> True"
  shows "match_pre_stable ((case p of Some (Alpha n) \<Rightarrow> ''-alpha'' @ show_nat n
      | Some (Beta n) \<Rightarrow> ''-beta'' @ show_nat n | None \<Rightarrow> []) @ dev_suffix d) = Some (p, dev_suffix d)"
proof -
  note span = span_digits [OF show_nat_digits dev_suffix_hd]
  have num: "is_number 3 (show_nat n)" if "1 \<le> n" "n \<le> 999" for n
    using that by (intro is_number_show) simp_all
  consider "p = None" | n where "p = Some (Alpha n)" | n where "p = Some (Beta n)"
    by (metis not_Some_eq pre_stable_type.exhaust)
  then show ?thesis
  proof cases
    case 1
    then show ?thesis by (cases d) (simp_all add: match_pre_stable_def strip_prefix_def)
  next
    case (2 n)
    then show ?thesis
      using assms num [of n] span [of n d] by (simp add: match_pre_stable_def strip_prefix_def Let_def)
  next
    case (3 n)
    then show ?thesis
      using assms num [of n] span [of n d] by (simp add: match_pre_stable_def strip_prefix_def Let_def)
  qed
qed

lemma match_version_print:
  assumes "version_wf v"
  shows "match_version (version_to_string v) = Some v"
proof -
  let ?pre = "case av_pre_stable v of Some (Alpha n) \<Rightarrow> ''-alpha'' @ show_nat n
      | Some (Beta n) \<Rightarrow> ''-beta'' @ show_nat n | None \<Rightarrow> []"
  let ?tail = "?pre @ dev_suffix (av_dev v)"
  have year: "length (show_nat (av_year v)) = 4"
    using assms length_show_nat [of "av_year v" 4] length_show_nat_ge [of 3 "av_year v"]
    by (simp add: version_wf_def)
  have inc: "is_number 2 (show_nat (av_incremental v))"
    using assms by (intro is_number_show) (auto simp: version_wf_def)
  have "?tail = [] \<or> \<not> is_digit (hd ?tail)"
    using dev_suffix_hd [of "av_dev v"] by (auto simp: is_digit_def split: option.splits pre_stable_type.splits)
  note span = span_digits [OF show_nat_digits this, of "av_incremental v"]
  have "match_pre_stable ?tail = Some (av_pre_stable v, dev_suffix (av_dev v))"
    using assms by (intro match_pre_stable_print) (simp add: version_wf_def)
  moreover have "match_dev (dev_suffix (av_dev v)) = Some (av_dev v)"
    using assms by (intro match_dev_suffix) (simp add: version_wf_def)
  ultimately show ?thesis
    using year inc span show_nat_digits [of "av_year v"]
    by (simp add: match_version_def version_to_string_def Let_def)
qed

lemma find_version_match: "match_version s = Some v \<Longrightarrow> find_version s = Some v"
  by (cases s) auto

text \<open>Whatever stands before a version, as long as it has no dot, is skipped.\<close>

lemma match_version_dot: "match_version s = Some v \<Longrightarrow> 4 < length s \<and> s ! 4 = CHR ''.''"
proof -
  assume m: "match_version s = Some v"
  then have "take 1 (drop 4 s) = ''.''" by (simp add: match_version_def Let_def split: if_splits)
  then obtain t where "drop 4 s = CHR ''.'' # t" by (cases "drop 4 s") auto
  then show ?thesis by (metis drop_eq_Nil hd_drop_conv_nth linorder_not_le list.distinct(1) list.sel(1))
qed

lemma find_version_skip:
  assumes "CHR ''.'' \<notin> set p" "match_version s = Some v" "CHR ''.'' \<notin> set (take 4 s)"
  shows "find_version (p @ s) = Some v"
  using assms(1)
proof (induction p)
  case Nil
  then show ?case using find_version_match [OF assms(2)] by simp
next
  case (Cons c p)
  have "match_version (c # p @ s) = None"
  proof (rule ccontr)
    assume "match_version (c # p @ s) \<noteq> None"
    then obtain w where "match_version ((c # p) @ s) = Some w" by auto
    then have dot: "4 < length ((c # p) @ s)" "((c # p) @ s) ! 4 = CHR ''.''" by (auto dest: match_version_dot)
    show False
    proof (cases "4 < length (c # p)")
      case True
      then have "((c # p) @ s) ! 4 \<in> set (c # p)" by (simp only: nth_append if_True nth_mem)
      with dot(2) Cons.prems show False by (simp del: nth_Cons_numeral)
    next
      case False
      then have "((c # p) @ s) ! 4 = s ! (4 - length (c # p))" by (simp only: nth_append if_False)
      moreover have "4 - length (c # p) < length (take 4 s)"
        using False dot(1) by (simp add: less_diff_conv2) 
      ultimately have "CHR ''.'' \<in> set (take 4 s)"
        using dot(2) by (metis nth_mem nth_take length_take min_less_iff_conj)
      with assms(3) show False by simp
    qed
  qed
  then show ?case using Cons by simp
qed

end
