(* ===== verification/Migrations.thy ===== *)
theory Migrations
  imports Json Access_Methods Version
begin

text \<open>
  The migrations of the settings file (\<open>mullvad-daemon/src/migrations/\<close>) of the Linux build, from the format
  without a version up to version 16, as functions on JSON values. An error leaves the
  file alone, so the settings that a failing migration has changed in memory are not kept. A panic
  is an error of its own.
\<close>

section \<open>Errors and the outside\<close>

datatype migration_error =
  MigReadFailed
| MigDeserialize
| InvalidSettingsContent
| MissingKey string
| MigSerialize
| MigWriteFailed
| ParseHistory
| ReadHistory
| WriteHistory
| MigrationPanic string

text \<open>
  Code that is not part of the migrations: the standard library's parsers of addresses, followed by printing
  what was parsed, the known Shadowsocks ciphers, printing a JSON value, and the derived decoder and
  encoder of bridge constraints.
\<close>

record serde_env =
  se_ip_addr :: "string \<Rightarrow> string option"
  se_socket_addr :: "string \<Rightarrow> string option"
  se_cipher :: "string \<Rightarrow> string option"
  se_to_string :: "json \<Rightarrow> string"
  se_bridge_constraints :: "json \<Rightarrow> json option"

text \<open>\<open>settings[a][b] = x\<close>, with the panic of an index into a value that has no fields.\<close>

definition index_assign :: "string list \<Rightarrow> json \<Rightarrow> json \<Rightarrow> migration_error + json" where
  "index_assign ks x v = of_option (MigrationPanic ''cannot access key in JSON value'') (json_assign ks x v)"

text \<open>\<open>as_object_mut().ok_or(InvalidSettingsContent)?.remove(k)\<close>\<close>

definition field_remove :: "string \<Rightarrow> json \<Rightarrow> migration_error + json" where
  "field_remove k v = map_sum id (\<lambda>m. JObject (obj_remove k m)) (of_option InvalidSettingsContent (as_object v))"

definition set_version :: "int \<Rightarrow> json \<Rightarrow> migration_error + json" where
  "set_version n v = index_assign [''settings_version''] (JNumber (JInt n)) v"

definition CURRENT_SETTINGS_VERSION :: int where "CURRENT_SETTINGS_VERSION = 16"

definition version_matches :: "int \<Rightarrow> json \<Rightarrow> bool" where
  "version_matches n v = (json_get ''settings_version'' v = Some (JNumber (JInt n)))"

section \<open>Versions 1 to 4\<close>

definition v1_migrate_normal :: "json \<Rightarrow> migration_error + json" where
  "v1_migrate_normal normal =
     (let openvpn = json_path [''tunnel'', ''only'', ''openvpn''] normal;
          wireguard = json_path [''tunnel'', ''only'', ''wireguard''] normal in
      and_then
        (case (openvpn, wireguard) of
           (Some c, _) \<Rightarrow>
             and_then (index_assign [''openvpn_constraints''] c normal)
               (index_assign [''tunnel_protocol''] (JString ''any''))
         | (None, Some c) \<Rightarrow>
             and_then (index_assign [''wireguard_constraints''] c normal)
               (index_assign [''tunnel_protocol''] (JObject [(''only'', JString ''wireguard'')]))
         | (None, None) \<Rightarrow> index_assign [''tunnel_protocol''] (JString ''any'') normal)
        (\<lambda>normal. Inr (case as_object normal of Some m \<Rightarrow> JObject (obj_remove ''tunnel'' m) | None \<Rightarrow> normal)))"

definition v1_migrate :: "json \<Rightarrow> migration_error + json" where
  "v1_migrate settings =
     (if json_get ''settings_version'' settings \<noteq> None then Inr settings
      else
        and_then (json_update [''relay_settings'', ''normal''] v1_migrate_normal settings) (\<lambda>settings.
        and_then (index_assign [''show_beta_releases''] (JBool False) settings) (set_version 2)))"

definition V2_MIN_ROTATION_INTERVAL :: nat where "V2_MIN_ROTATION_INTERVAL = 1 * 24 * 60 * 60"
definition V2_MAX_ROTATION_INTERVAL :: nat where "V2_MAX_ROTATION_INTERVAL = 7 * 24 * 60 * 60"

definition v2_rotation_interval :: "nat \<Rightarrow> nat" where
  "v2_rotation_interval interval =
     (let ivl = (60 * 60 * interval) mod 2 ^ 64 in
      if ivl < V2_MIN_ROTATION_INTERVAL then V2_MIN_ROTATION_INTERVAL
      else if ivl > V2_MAX_ROTATION_INTERVAL then V2_MAX_ROTATION_INTERVAL
      else ivl)"

definition json_of_duration :: "nat \<Rightarrow> json" where
  "json_of_duration secs = JObject [(''nanos'', JNumber (JInt 0)), (''secs'', JNumber (JInt (int secs)))]"

definition v2_migrate :: "json \<Rightarrow> migration_error + json" where
  "v2_migrate settings =
     (if \<not> version_matches 2 settings then Inr settings
      else
        and_then (if json_get ''show_beta_releases'' settings = Some JNull
                  then field_remove ''show_beta_releases'' settings else Inr settings) (\<lambda>settings.
        and_then
          (case Option.bind (json_path [''tunnel_options'', ''wireguard'', ''automatic_rotation''] settings) as_u64 of
             None \<Rightarrow> Inr settings
           | Some interval \<Rightarrow>
               and_then (index_assign [''tunnel_options'', ''wireguard'', ''rotation_interval'']
                   (json_of_duration (v2_rotation_interval interval)) settings)
                 (json_update [''tunnel_options'', ''wireguard''] (field_remove ''automatic_rotation'')))
          (set_version 3)))"

fun map_all :: "('a \<Rightarrow> 'b option) \<Rightarrow> 'a list \<Rightarrow> 'b list option" where
  "map_all f [] = Some []"
| "map_all f (x # xs) = Option.bind (f x) (\<lambda>y. map_option (Cons y) (map_all f xs))"

definition v3_addresses :: "serde_env \<Rightarrow> json \<Rightarrow> json list option" where
  "v3_addresses env v =
     Option.bind (as_array v) (map_all (\<lambda>a. map_option JString (Option.bind (as_str a) (se_ip_addr env))))"

definition v3_dns_options :: "bool \<Rightarrow> json list \<Rightarrow> json" where
  "v3_dns_options custom addresses =
     JObject [(''custom_options'', JObject [(''addresses'', JArray addresses)]),
              (''default_options'', JObject [(''block_ads'', JBool False), (''block_trackers'', JBool False)]),
              (''state'', JString (if custom then ''custom'' else ''default''))]"

definition v3_migrate :: "serde_env \<Rightarrow> json \<Rightarrow> migration_error + json" where
  "v3_migrate env settings =
     (if \<not> version_matches 3 settings then Inr settings
      else
        and_then
          (case json_path [''tunnel_options'', ''dns_options''] settings of
             None \<Rightarrow> Inr settings
           | Some options \<Rightarrow>
               if json_get ''state'' options \<noteq> None then Inr settings
               else
                 let custom = (json_get ''custom'' options = Some (JBool True)) in
                 and_then (case json_get ''addresses'' options of
                     Some addrs \<Rightarrow> of_option InvalidSettingsContent (v3_addresses env addrs)
                   | None \<Rightarrow> Inr []) (\<lambda>addresses.
                 index_assign [''tunnel_options'', ''dns_options''] (v3_dns_options custom addresses) settings))
          (set_version 4))"

definition V4_WIREGUARD_TCP_PORTS :: "u16 list" where "V4_WIREGUARD_TCP_PORTS = [80, 443, 5001]"
definition V4_OPENVPN_TCP_PORTS :: "u16 list" where "V4_OPENVPN_TCP_PORTS = [80, 443]"

record transport_port =
  tp_protocol :: transport_protocol
  tp_port :: "u16 constraint"

definition json_of_transport_port :: "transport_port \<Rightarrow> json" where
  "json_of_transport_port t =
     JObject [(''port'', json_of_constraint json_of_u16 (tp_port t)),
              (''protocol'', json_of_transport_protocol (tp_protocol t))]"

definition wg_protocol_from_port :: "u16 \<Rightarrow> transport_protocol" where
  "wg_protocol_from_port port = (if port \<in> set V4_WIREGUARD_TCP_PORTS then Tcp else Udp)"

definition openvpn_protocol_from_port :: "u16 \<Rightarrow> transport_protocol" where
  "openvpn_protocol_from_port port = (if port \<in> set V4_OPENVPN_TCP_PORTS then Tcp else Udp)"

definition v4_wireguard_port :: "u16 constraint \<Rightarrow> transport_port constraint" where
  "v4_wireguard_port port =
     (case port of Any \<Rightarrow> Any
      | Only p \<Rightarrow> Only \<lparr>tp_protocol = wg_protocol_from_port p, tp_port = Only p\<rparr>)"

definition v4_openvpn_port :: "u16 constraint \<Rightarrow> transport_protocol constraint \<Rightarrow> transport_port constraint" where
  "v4_openvpn_port port transport =
     (case (port, transport) of
        (Only p, Any) \<Rightarrow> Only \<lparr>tp_protocol = openvpn_protocol_from_port p, tp_port = Only p\<rparr>
      | (port, Only protocol) \<Rightarrow> Only \<lparr>tp_protocol = protocol, tp_port = port\<rparr>
      | (Any, Any) \<Rightarrow> Any)"

text \<open>The value of an optional field, decoded.\<close>

definition field_or_any :: "string \<Rightarrow> (json \<Rightarrow> 'a constraint option) \<Rightarrow> json \<Rightarrow> migration_error + 'a constraint" where
  "field_or_any k dec v = (case json_get k v of Some x \<Rightarrow> of_option InvalidSettingsContent (dec x) | None \<Rightarrow> Inr Any)"

definition v4_wireguard_constraints :: "json \<Rightarrow> migration_error + json" where
  "v4_wireguard_constraints constraints =
     and_then (field_or_any ''port'' (json_constraint json_u16) constraints) (\<lambda>port.
     and_then (index_assign [''port''] (json_of_constraint json_of_transport_port (v4_wireguard_port port)) constraints)
       (field_remove ''protocol''))"

definition v4_openvpn_constraints :: "json \<Rightarrow> migration_error + json" where
  "v4_openvpn_constraints constraints =
     and_then (field_or_any ''port'' (json_constraint json_u16) constraints) (\<lambda>port.
     and_then (field_or_any ''protocol'' (json_constraint json_transport_protocol) constraints) (\<lambda>transport.
     and_then (index_assign [''port''] (json_of_constraint json_of_transport_port (v4_openvpn_port port transport)) constraints)
       (field_remove ''protocol'')))"

definition v4_migrate :: "json \<Rightarrow> migration_error + json" where
  "v4_migrate settings =
     (if \<not> version_matches 4 settings then Inr settings
      else
        and_then (json_update [''relay_settings'', ''normal'', ''wireguard_constraints''] v4_wireguard_constraints settings) (\<lambda>settings.
        and_then (json_update [''relay_settings'', ''normal'', ''openvpn_constraints''] v4_openvpn_constraints settings)
          (set_version 5)))"

section \<open>Versions 5 and 6\<close>

record migration_data =
  mig_token :: string
  mig_wg_data :: "json option"

text \<open>A struct with two fields that have no default.\<close>

definition json_transport_port :: "json \<Rightarrow> transport_port option" where
  "json_transport_port v =
     (let make = (\<lambda>protocol port.
        Option.bind (json_transport_protocol protocol) (\<lambda>protocol.
        Option.bind (json_constraint json_u16 port) (\<lambda>port. Some \<lparr>tp_protocol = protocol, tp_port = port\<rparr>))) in
      case v of
        JObject m \<Rightarrow>
          Option.bind (obj_get ''protocol'' m) (\<lambda>protocol. Option.bind (obj_get ''port'' m) (make protocol))
      | JArray [protocol, port] \<Rightarrow> make protocol port
      | _ \<Rightarrow> None)"

definition create_migrated_obfuscation_settings :: "u16 constraint \<Rightarrow> json" where
  "create_migrated_obfuscation_settings port =
     JObject [(''selected_obfuscation'', JString ''udp2_tcp''),
              (''udp2tcp'', JObject [(''port'', json_of_constraint json_of_u16 port)])]"

definition v5_entry_location :: "json \<Rightarrow> migration_error + json" where
  "v5_entry_location constraints =
     (case json_get ''entry_location'' constraints of
        None \<Rightarrow> Inr constraints
      | Some location \<Rightarrow>
          if json_get ''use_multihop'' constraints \<noteq> None then Inr constraints
          else if location = JNull then field_remove ''entry_location'' constraints
          else index_assign [''use_multihop''] (JBool True) constraints)"

text \<open>The new port constraint and the obfuscation settings that replace a port over TCP.\<close>

definition v5_port :: "json \<Rightarrow> migration_error + json \<times> json option" where
  "v5_port constraints =
     (case json_get ''port'' constraints of
        None \<Rightarrow> Inr (constraints, None)
      | Some port \<Rightarrow>
          and_then (of_option InvalidSettingsContent (json_constraint json_transport_port port)) (\<lambda>port.
          case port of
            Any \<Rightarrow> Inr (constraints, None)
          | Only t \<Rightarrow>
              (case tp_protocol t of
                 Udp \<Rightarrow>
                   and_then (index_assign [''port''] (json_of_constraint json_of_u16 (tp_port t)) constraints)
                     (\<lambda>constraints. Inr (constraints, None))
               | Tcp \<Rightarrow>
                   and_then (index_assign [''port''] (JString ''any'') constraints)
                     (\<lambda>constraints. Inr (constraints, Some (create_migrated_obfuscation_settings (tp_port t)))))))"

definition v5_wireguard_constraints :: "json \<Rightarrow> migration_error + json" where
  "v5_wireguard_constraints settings =
     (let path = [''relay_settings'', ''normal'', ''wireguard_constraints''] in
      case json_path path settings of
        None \<Rightarrow> Inr settings
      | Some constraints \<Rightarrow>
          and_then (v5_entry_location constraints) (\<lambda>constraints.
          and_then (v5_port constraints) (\<lambda>(constraints, obfuscation_settings).
          let settings = json_put path constraints settings in
          case obfuscation_settings of
            None \<Rightarrow> Inr settings
          | Some o' \<Rightarrow> index_assign [''obfuscation_settings''] o' settings)))"

definition not_null :: "json option \<Rightarrow> json option" where
  "not_null v = (if v = Some JNull then None else v)"

definition v5_account :: "json \<Rightarrow> migration_error + json \<times> migration_data option" where
  "v5_account settings =
     (case not_null (json_get ''account_token'' settings) of
        None \<Rightarrow> Inr (settings, None)
      | Some token \<Rightarrow>
          and_then (of_option InvalidSettingsContent (as_str token)) (\<lambda>token.
          let data = \<lparr>mig_token = token, mig_wg_data = not_null (json_get ''wireguard'' settings)\<rparr> in
          and_then (field_remove ''account_token'' settings) (\<lambda>settings.
          and_then (field_remove ''wireguard'' settings) (\<lambda>settings. Inr (settings, Some data)))))"

definition v5_migrate :: "json \<Rightarrow> migration_error + json \<times> migration_data option" where
  "v5_migrate settings =
     (if \<not> version_matches 5 settings then Inr (settings, None)
      else
        and_then (v5_wireguard_constraints settings) (\<lambda>settings.
        and_then (v5_account settings) (\<lambda>(settings, data).
        and_then (set_version 6 settings) (\<lambda>settings. Inr (settings, data)))))"

definition wrap_location :: "json \<Rightarrow> migration_error + json" where
  "wrap_location = json_update [''only''] (\<lambda>only.
     and_then (index_assign [''location''] only only) (\<lambda>only.
     and_then (field_remove ''country'' only) (\<lambda>only.
     and_then (field_remove ''city'' only) (field_remove ''hostname''))))"

definition migrate_location_constraint :: "json \<Rightarrow> migration_error + json" where
  "migrate_location_constraint settings =
     and_then (json_update [''relay_settings'', ''normal'', ''location''] wrap_location settings) (\<lambda>settings.
     and_then (json_update [''relay_settings'', ''normal'', ''wireguard_constraints'', ''entry_location''] wrap_location settings)
       (json_update [''bridge_settings'', ''normal'', ''location''] wrap_location))"

definition migrate_pq_setting :: "json \<Rightarrow> migration_error + json" where
  "migrate_pq_setting = json_update [''tunnel_options'', ''wireguard''] (\<lambda>options.
     and_then (of_option InvalidSettingsContent (as_object options)) (\<lambda>m.
     case obj_get ''use_pq_safe_psk'' m of
       None \<Rightarrow> Inr options
     | Some psk_setting \<Rightarrow>
         index_assign [''quantum_resistant'']
           (JString (if as_bool psk_setting = Some True then ''on'' else ''auto''))
           (JObject (obj_remove ''use_pq_safe_psk'' m))))"

definition migrate_udp2tcp_port_443 :: "json \<Rightarrow> migration_error + json" where
  "migrate_udp2tcp_port_443 = json_update [''obfuscation_settings'', ''udp2tcp'', ''port''] (\<lambda>port.
     Inr (if port = JObject [(''only'', JNumber (JInt 443))] then JString ''any'' else port))"

definition v6_migrate :: "json \<Rightarrow> migration_error + json" where
  "v6_migrate settings =
     (if \<not> version_matches 6 settings then Inr settings
      else
        and_then (migrate_pq_setting settings) (\<lambda>settings.
        and_then (migrate_udp2tcp_port_443 settings) (\<lambda>settings.
        and_then (migrate_location_constraint settings) (set_version 7))))"

section \<open>Version 7\<close>

definition extract_str :: "json option \<Rightarrow> migration_error + string" where
  "extract_str v = and_then (of_option InvalidSettingsContent v) (\<lambda>v. of_option InvalidSettingsContent (as_str v))"

definition rename_map_field :: "string \<Rightarrow> string \<Rightarrow> json_map \<Rightarrow> migration_error + json_map" where
  "rename_map_field old new m =
     and_then (of_option InvalidSettingsContent (obj_get old m)) (\<lambda>v. Inr (obj_remove old (obj_insert new v m)))"

definition rename_field :: "string \<Rightarrow> string \<Rightarrow> json \<Rightarrow> migration_error + json" where
  "rename_field old new v =
     and_then (of_option InvalidSettingsContent (as_object v)) (\<lambda>m.
     and_then (rename_map_field old new m) (\<lambda>m. Inr (JObject m)))"

definition v7_custom_access_method :: "json \<Rightarrow> migration_error + json" where
  "v7_custom_access_method custom =
     (case json_get ''shadowsocks'' custom of
        Some shadowsocks \<Rightarrow>
          and_then (rename_field ''peer'' ''endpoint'' shadowsocks) (\<lambda>shadowsocks.
          Inr (json_put [''shadowsocks''] shadowsocks custom))
      | None \<Rightarrow>
     (case json_path [''socks5'', ''local''] custom of
        Some socks5_local \<Rightarrow>
          and_then (index_assign [''socks5_local''] socks5_local custom) (field_remove ''socks5'')
      | None \<Rightarrow>
     (case json_path [''socks5'', ''remote''] custom of
        Some socks5_remote \<Rightarrow>
          and_then (rename_field ''authentication'' ''auth'' socks5_remote) (\<lambda>socks5_remote.
          and_then (rename_field ''peer'' ''endpoint'' socks5_remote) (\<lambda>socks5_remote.
          and_then (index_assign [''socks5_remote''] socks5_remote custom) (field_remove ''socks5'')))
      | None \<Rightarrow> Inl InvalidSettingsContent)))"

definition v7_access_method_setting :: "json \<Rightarrow> migration_error + json" where
  "v7_access_method_setting setting =
     and_then (of_option InvalidSettingsContent (json_get ''access_method'' setting)) (\<lambda>_.
     json_update [''access_method'', ''custom''] v7_custom_access_method setting)"

definition v7_split_built_ins :: "json_map \<Rightarrow> json_map" where
  "v7_split_built_ins m =
     (case Option.bind (obj_get ''custom'' m) as_array of
        None \<Rightarrow> m
      | Some methods \<Rightarrow>
          (let built_ins = filter (\<lambda>v. json_path [''access_method'', ''built_in''] v \<noteq> None) methods;
               methods = fold (\<lambda>b. filter (\<lambda>v. json_get ''id'' v \<noteq> json_get ''id'' b)) built_ins methods;
               named = List.map_filter (\<lambda>b.
                 case Option.bind (json_path [''access_method'', ''built_in''] b) as_str of
                   None \<Rightarrow> None
                 | Some name \<Rightarrow>
                     if name = ''direct'' then Some (''direct'', b)
                     else if name = ''bridge'' then Some (''mullvad_bridges'', b)
                     else None) built_ins
           in obj_extend named (obj_insert ''custom'' (JArray methods) m)))"

definition migrate_api_access_settings :: "json \<Rightarrow> migration_error + json" where
  "migrate_api_access_settings settings =
     and_then (json_update [''api_access_methods'', ''access_method_settings''] (\<lambda>v.
         case as_array v of None \<Rightarrow> Inr v
         | Some methods \<Rightarrow>
             and_then (try_map v7_access_method_setting methods) (\<lambda>methods. Inr (JArray methods))) settings)
       (json_update [''api_access_methods''] (\<lambda>v.
         case as_object v of None \<Rightarrow> Inr v
         | Some m \<Rightarrow>
             and_then (rename_map_field ''access_method_settings'' ''custom'' m) (\<lambda>m.
             Inr (JObject (v7_split_built_ins m)))))"

definition v7_bridge_settings :: "string \<Rightarrow> json \<Rightarrow> json \<Rightarrow> json" where
  "v7_bridge_settings bridge_type normal custom =
     JObject [(''bridge_type'', JString bridge_type), (''custom'', custom), (''normal'', normal)]"

definition v7_default_constraints :: json where
  "v7_default_constraints =
     JObject [(''location'', JString ''any''), (''ownership'', JString ''any''), (''providers'', JString ''any'')]"

definition v7_socket_addr :: "serde_env \<Rightarrow> string \<Rightarrow> json \<Rightarrow> migration_error + json" where
  "v7_socket_addr env k v =
     and_then (extract_str (json_get k v)) (\<lambda>s.
     and_then (of_option InvalidSettingsContent (se_socket_addr env s)) (\<lambda>a. Inr (JString a)))"

definition v7_local :: "serde_env \<Rightarrow> json \<Rightarrow> migration_error + json" where
  "v7_local env bridge =
     and_then (v7_socket_addr env ''peer'' bridge) (\<lambda>address.
     and_then (of_option InvalidSettingsContent (json_get ''port'' bridge)) (\<lambda>port.
     and_then (of_option InvalidSettingsContent (json_u16 port)) (\<lambda>port.
     Inr (JObject [(''socks5_local'', JObject [(''local_port'', json_of_u16 port),
            (''remote_endpoint'', JObject [(''address'', address), (''protocol'', JString ''tcp'')])])]))))"

definition v7_auth :: "serde_env \<Rightarrow> json \<Rightarrow> json" where
  "v7_auth env bridge =
     (case Option.bind (json_get ''auth'' bridge) (\<lambda>auth.
             Option.bind (json_get ''username'' auth) (\<lambda>username.
             Option.bind (json_get ''password'' auth) (\<lambda>password.
             case socks_auth_new (se_to_string env username) (se_to_string env password) of
               Inr a \<Rightarrow> Some a | Inl _ \<Rightarrow> None))) of
        None \<Rightarrow> JNull
      | Some a \<Rightarrow> JObject [(''password'', JString (sa_password a)), (''username'', JString (sa_username a))])"

definition v7_remote :: "serde_env \<Rightarrow> json \<Rightarrow> migration_error + json" where
  "v7_remote env bridge =
     and_then (v7_socket_addr env ''address'' bridge) (\<lambda>endpoint.
     Inr (JObject [(''socks5_remote'', JObject [(''auth'', v7_auth env bridge), (''endpoint'', endpoint)])]))"

definition v7_shadowsocks :: "serde_env \<Rightarrow> json \<Rightarrow> migration_error + json" where
  "v7_shadowsocks env bridge =
     and_then (v7_socket_addr env ''peer'' bridge) (\<lambda>endpoint.
     and_then (extract_str (json_get ''password'' bridge)) (\<lambda>password.
     and_then (extract_str (json_get ''cipher'' bridge)) (\<lambda>cipher.
     and_then (of_option InvalidSettingsContent (se_cipher env cipher)) (\<lambda>cipher.
     Inr (JObject [(''shadowsocks'', JObject [(''cipher'', JString cipher), (''endpoint'', endpoint),
            (''password'', JString password)])])))))"

definition migrate_bridge_settings :: "serde_env \<Rightarrow> json \<Rightarrow> migration_error + json" where
  "migrate_bridge_settings env settings =
     (let custom = (\<lambda>kind. json_path [''bridge_settings'', ''custom'', kind] settings);
          save = (\<lambda>new. index_assign [''bridge_settings''] new settings);
          save_custom = (\<lambda>c. save (v7_bridge_settings ''custom'' v7_default_constraints c)) in
      case custom ''local'' of Some bridge \<Rightarrow> and_then (v7_local env bridge) save_custom | None \<Rightarrow>
     (case custom ''remote'' of Some bridge \<Rightarrow> and_then (v7_remote env bridge) save_custom | None \<Rightarrow>
     (case custom ''shadowsocks'' of Some bridge \<Rightarrow> and_then (v7_shadowsocks env bridge) save_custom | None \<Rightarrow>
     (case json_path [''bridge_settings'', ''normal''] settings of
        Some normal \<Rightarrow>
          and_then (of_option MigSerialize (se_bridge_constraints env normal)) (\<lambda>normal.
          save (v7_bridge_settings ''normal'' normal JNull))
      | None \<Rightarrow> Inr settings))))"

definition v7_migrate :: "serde_env \<Rightarrow> json \<Rightarrow> migration_error + json" where
  "v7_migrate env settings =
     (if \<not> version_matches 7 settings then Inr settings
      else
        and_then (migrate_bridge_settings env settings) (\<lambda>settings.
        and_then (migrate_api_access_settings settings) (set_version 8)))"

section \<open>Versions 8 to 10\<close>

definition migrate_selected_obfuscaton :: "json \<Rightarrow> migration_error + json" where
  "migrate_selected_obfuscaton = json_update [''obfuscation_settings'', ''selected_obfuscation''] (\<lambda>selected.
     Inr (if selected = JString ''off'' then JString ''auto'' else selected))"

definition v8_migrate :: "json \<Rightarrow> migration_error + json" where
  "v8_migrate settings =
     (if \<not> version_matches 8 settings then Inr settings
      else and_then (migrate_selected_obfuscaton settings) (set_version 9))"

definition v9_migrate :: "json \<Rightarrow> migration_error + json" where
  "v9_migrate settings =
     (if \<not> version_matches 9 settings then Inr settings
      else
        and_then (of_option InvalidSettingsContent (as_object settings)) (\<lambda>json_blob.
        Inr (JObject (obj_insert ''settings_version'' (JNumber (JInt 10)) json_blob))))"

definition migrate_tunnel_type_inner :: "json \<Rightarrow> migration_error + json" where
  "migrate_tunnel_type_inner normal =
     (case json_get ''tunnel_protocol'' normal of
        None \<Rightarrow> Inr normal
      | Some protocol \<Rightarrow>
          if protocol = JString ''any'' then
            (let protocol =
               (case json_path [''location'', ''only'', ''location'', ''hostname''] normal of
                  Some (JString s) \<Rightarrow> if ''ovpn'' \<in> set (split_dash s) then ''openvpn'' else ''wireguard''
                | _ \<Rightarrow> ''wireguard'')
             in index_assign [''tunnel_protocol''] (JString protocol) normal)
          else
            (case protocol of
               JObject constraint \<Rightarrow>
                 (case obj_get ''only'' constraint of
                    Some (JString s) \<Rightarrow>
                      if s = ''wireguard'' \<or> s = ''openvpn''
                      then index_assign [''tunnel_protocol''] (JString s) normal
                      else Inl InvalidSettingsContent
                  | _ \<Rightarrow> Inl InvalidSettingsContent)
             | _ \<Rightarrow> Inl InvalidSettingsContent))"

definition v10_migrate :: "json \<Rightarrow> migration_error + json" where
  "v10_migrate settings =
     (if \<not> version_matches 10 settings then Inr settings
      else and_then (json_update [''relay_settings'', ''normal''] migrate_tunnel_type_inner settings) (set_version 11))"

end
