(* ===== verification/Settings.thy ===== *)
theory Settings
  imports Settings_Patch Access_Methods Tunnel_Params Migrations
begin

text \<open>
  The settings of the daemon (\<open>mullvad-types/src/settings/mod.rs\<close>) with their operations, the persister that
  keeps them in a file and tells listeners about changes (\<open>mullvad-daemon/src/settings/mod.rs\<close>, writing through
  \<open>mullvad-fs\<close>), and the target state that survives a crash (\<open>mullvad-daemon/src/target_state.rs\<close>).
\<close>

section \<open>Settings\<close>

datatype recent = Singlehop location_constraint | Multihop location_constraint location_constraint

record user_settings =
  us_relay_settings :: relay_settings
  us_obfuscation_settings :: obfuscation_settings
  us_custom_lists :: custom_lists_settings
  us_api_access_methods :: access_settings
  us_update_default_location :: bool
  us_allow_lan :: bool
  us_lockdown_mode :: bool
  us_auto_connect :: bool
  us_tunnel_options :: settings_tunnel_options
  us_relay_overrides :: "relay_override list"
  us_show_beta_releases :: bool
  us_settings_version :: int
  us_recents :: "recent list option"
  us_rollout_threshold_seed :: "u32 option"

definition daita_settings_default :: daita_settings where
  "daita_settings_default = \<lparr>ds_enabled = False, ds_use_multihop_if_necessary = True\<rparr>"

definition wireguard_options_default :: wireguard_options where
  "wireguard_options_default = \<lparr>wo_mtu = None, wo_quantum_resistant = QrOn, wo_daita = daita_settings_default,
     wo_userspace = False, wo_rotation_interval = None\<rparr>"

definition dns_options_default :: dns_options where
  "dns_options_default = \<lparr>do_state = DnsStateDefault,
     do_default_options = \<lparr>block_ads = False, block_trackers = False, block_malware = False, block_adult_content = False,
       block_gambling = False, block_social_media = False\<rparr>, do_custom_addresses = []\<rparr>"

definition settings_tunnel_options_default :: settings_tunnel_options where
  "settings_tunnel_options_default = \<lparr>sto_wireguard = wireguard_options_default,
     sto_generic = \<lparr>enable_ipv6 = False\<rparr>, sto_dns_options = dns_options_default\<rparr>"

text \<open>The default has new random identifiers of the built-in access methods.\<close>

type_synonym uuids = "u128 \<times> u128 \<times> u128 \<times> u128"

definition settings_default :: "uuids \<Rightarrow> user_settings" where
  "settings_default = (\<lambda>(u1, u2, u3, u4).
     \<lparr>us_relay_settings = NormalRelays
        \<lparr>rc_location = Only (Location (Country ''se'')), rc_providers = Any, rc_ownership = Any,
         rc_wireguard_constraints = \<lparr>wc_ip_version = Any, wc_allowed_ips = Any, wc_use_multihop = False,
           wc_entry_location = Only (Location (Country ''se'')), wc_entry_providers = Any, wc_entry_ownership = Any\<rparr>\<rparr>,
      us_obfuscation_settings = obfuscation_settings_default, us_custom_lists = [],
      us_api_access_methods = access_settings_default u1 u2 u3 u4, us_update_default_location = True,
      us_allow_lan = False, us_lockdown_mode = False, us_auto_connect = False,
      us_tunnel_options = settings_tunnel_options_default, us_relay_overrides = [], us_show_beta_releases = False,
      us_settings_version = CURRENT_SETTINGS_VERSION, us_recents = Some [], us_rollout_threshold_seed = None\<rparr>)"

definition is_hostname_location :: "location_constraint \<Rightarrow> bool" where
  "is_hostname_location l = (case l of Location (Hostname _ _ _) \<Rightarrow> True | _ \<Rightarrow> False)"

definition recent_try_from :: "relay_settings \<Rightarrow> string + recent" where
  "recent_try_from settings =
     (case settings of
        CustomTunnelEndpoint _ \<Rightarrow> Inl ''Cannot convert CustomTunnelEndpoint to Recent''
      | NormalRelays constraints \<Rightarrow>
          and_then (of_option ''Location must be Constraint::Only'' (constraint_option (rc_location constraints))) (\<lambda>location.
          if wc_use_multihop (rc_wireguard_constraints constraints) then
            and_then (of_option ''Location must be Constraint::Only''
              (constraint_option (wc_entry_location (rc_wireguard_constraints constraints)))) (\<lambda>entry.
            if is_hostname_location entry \<and> is_hostname_location location \<and> entry = location
            then Inl ''Multihop recent cannot have identical (country, city, host) triple.''
            else Inr (Multihop entry location))
          else Inr (Singlehop location)))"

definition RECENTS_MAX_COUNT :: nat where "RECENTS_MAX_COUNT = 50"

definition set_relay_settings :: "relay_settings \<Rightarrow> user_settings \<Rightarrow> user_settings" where
  "set_relay_settings new_settings self =
     (if us_relay_settings self \<noteq> new_settings then self\<lparr>us_relay_settings := new_settings\<rparr> else self)"

text \<open>\<open>Vec::swap_remove\<close> at an index that is in range.\<close>

definition swap_remove :: "nat \<Rightarrow> 'a list \<Rightarrow> 'a list" where
  "swap_remove i xs = butlast (xs[i := last xs])"

definition set_relay_override :: "relay_override \<Rightarrow> user_settings \<Rightarrow> user_settings" where
  "set_relay_override relay_override self =
     (let overrides = us_relay_overrides self in
      self\<lparr>us_relay_overrides :=
        (case find_index (\<lambda>o'. ro_hostname o' = ro_hostname relay_override) overrides of
           None \<Rightarrow> overrides @ [relay_override]
         | Some index \<Rightarrow>
             if override_is_empty relay_override then swap_remove index overrides
             else overrides[index := relay_override])\<rparr>)"

definition update_recents :: "user_settings \<Rightarrow> user_settings" where
  "update_recents self =
     (case us_recents self of
        None \<Rightarrow> self
      | Some recents \<Rightarrow>
          (case recent_try_from (us_relay_settings self) of
             Inl _ \<Rightarrow> self
           | Inr new_recent \<Rightarrow>
               self\<lparr>us_recents := Some (take RECENTS_MAX_COUNT (new_recent # filter (\<lambda>r. r \<noteq> new_recent) recents))\<rparr>))"

section \<open>The persister\<close>

datatype settings_error = SettingsRead | SettingsParse | SettingsDelete | SettingsWrite | UpdateFailed string

text \<open>
  The file, whose contents have the type \<open>'b\<close>, and the encoding of settings, which is derived by serde. A file that is replaced atomically has the new content only if
  creating, writing, syncing and renaming the temporary file all succeed.
\<close>

record 'b settings_codec =
  sc_encode :: "user_settings \<Rightarrow> 'b"
  sc_decode :: "'b \<Rightarrow> user_settings option"

datatype 'b file_read = FileContent 'b | FileNotFound | FileUnreadable

record write_outcome =
  wo_create :: bool
  wo_write :: bool
  wo_sync :: bool
  wo_rename :: bool

definition atomic_write :: "write_outcome \<Rightarrow> 'b \<Rightarrow> 'b file_read \<Rightarrow> bool \<times> 'b file_read" where
  "atomic_write o' content file =
     (if wo_create o' \<and> wo_write o' \<and> wo_sync o' \<and> wo_rename o' then (True, FileContent content) else (False, file))"

record 'b settings_persister =
  sp_settings :: user_settings
  sp_file :: "'b file_read"
  sp_told :: "user_settings list"

definition default_settings :: "bool \<Rightarrow> uuids \<Rightarrow> user_settings" where
  "default_settings beta ids =
     (if beta then (settings_default ids)\<lparr>us_show_beta_releases := True\<rparr> else settings_default ids)"

definition load_from_file :: "'b settings_codec \<Rightarrow> 'b file_read \<Rightarrow> settings_error + user_settings" where
  "load_from_file c file =
     (case file of
        FileContent bytes \<Rightarrow> of_option SettingsParse (sc_decode c bytes)
      | _ \<Rightarrow> Inl SettingsRead)"

definition load_inner :: "'b settings_codec \<Rightarrow> bool \<Rightarrow> uuids \<Rightarrow> 'b file_read \<Rightarrow> user_settings \<times> bool" where
  "load_inner c beta ids file =
     (let (settings, should_save) =
        (case load_from_file c file of
           Inr settings \<Rightarrow> (settings, False)
         | Inl _ \<Rightarrow>
             if file = FileNotFound then (default_settings beta ids, True)
             else ((default_settings beta ids)\<lparr>us_lockdown_mode := True\<rparr>, True))
      in if beta then (settings\<lparr>us_show_beta_releases := True\<rparr>, should_save \<or> \<not> us_show_beta_releases settings)
         else (settings, should_save))"

definition persister_load :: "'b settings_codec \<Rightarrow> bool \<Rightarrow> uuids \<Rightarrow> write_outcome \<Rightarrow> 'b file_read \<Rightarrow> 'b settings_persister" where
  "persister_load c beta ids o' file =
     (let (settings, should_save) = load_inner c beta ids file;
          file = (if should_save then snd (atomic_write o' (sc_encode c settings) file) else file)
      in \<lparr>sp_settings = settings, sp_file = file, sp_told = []\<rparr>)"

definition notify_listeners :: "'b settings_persister \<Rightarrow> 'b settings_persister" where
  "notify_listeners self = self\<lparr>sp_told := sp_told self @ [sp_settings self]\<rparr>"

definition persister_try_update ::
  "'b settings_codec \<Rightarrow> write_outcome \<Rightarrow> (user_settings \<Rightarrow> string + user_settings) \<Rightarrow> 'b settings_persister
   \<Rightarrow> (settings_error + bool) \<times> 'b settings_persister" where
  "persister_try_update c o' update_fn self =
     (case update_fn (sp_settings self) of
        Inl e \<Rightarrow> (Inl (UpdateFailed e), self)
      | Inr new_settings \<Rightarrow>
          if sp_settings self = new_settings then (Inr False, self)
          else
            (case atomic_write o' (sc_encode c new_settings) (sp_file self) of
               (False, file) \<Rightarrow> (Inl SettingsWrite, self\<lparr>sp_file := file\<rparr>)
             | (True, file) \<Rightarrow>
                 (Inr True, notify_listeners (self\<lparr>sp_file := file, sp_settings := new_settings\<rparr>))))"

definition persister_update ::
  "'b settings_codec \<Rightarrow> write_outcome \<Rightarrow> (user_settings \<Rightarrow> user_settings) \<Rightarrow> 'b settings_persister
   \<Rightarrow> (settings_error + bool) \<times> 'b settings_persister" where
  "persister_update c o' update_fn self = persister_try_update c o' (\<lambda>s. Inr (update_fn s)) self"

text \<open>A reset that cannot be saved removes the file, so that the next start uses the defaults.\<close>

definition persister_reset ::
  "'b settings_codec \<Rightarrow> bool \<Rightarrow> uuids \<Rightarrow> write_outcome \<Rightarrow> bool \<Rightarrow> 'b settings_persister \<Rightarrow> (settings_error + unit) \<times> 'b settings_persister" where
  "persister_reset c beta ids o' remove_ok self =
     (let self = self\<lparr>sp_settings := default_settings beta ids\<rparr> in
      case atomic_write o' (sc_encode c (sp_settings self)) (sp_file self) of
        (True, file) \<Rightarrow> (Inr (), notify_listeners (self\<lparr>sp_file := file\<rparr>))
      | (False, file) \<Rightarrow>
          if file = FileNotFound \<or> remove_ok then (Inr (), notify_listeners (self\<lparr>sp_file := FileNotFound\<rparr>))
          else (Inl SettingsDelete, self\<lparr>sp_file := file\<rparr>))"

definition merge_validate_patch ::
  "'b settings_codec \<Rightarrow> (user_settings \<Rightarrow> json) \<Rightarrow> (json \<Rightarrow> user_settings option) \<Rightarrow> (string \<Rightarrow> json option) \<Rightarrow> write_outcome
   \<Rightarrow> string \<Rightarrow> 'b settings_persister \<Rightarrow> (patch_error + (settings_error + bool)) \<times> 'b settings_persister" where
  "merge_validate_patch c to_json from_json parse o' json_patch self =
     (case merge_validate_patch_inner to_json from_json parse (sp_settings self) json_patch of
        Inl e \<Rightarrow> (Inl e, self)
      | Inr new_settings \<Rightarrow> map_prod Inr id (persister_update c o' (\<lambda>_. new_settings) self))"

section \<open>The target state\<close>

datatype target_state = Unsecured | Secured

record persistent_target_state =
  pts_state :: target_state
  pts_file :: "string file_read"
  pts_locked :: bool

definition DEFAULT_TARGET_STATE :: target_state where "DEFAULT_TARGET_STATE = Unsecured"

definition json_of_target_state :: "target_state \<Rightarrow> string" where
  "json_of_target_state s =
     [CHR 0x22] @ (case s of Unsecured \<Rightarrow> ''unsecured'' | Secured \<Rightarrow> ''secured'') @ [CHR 0x22]"

text \<open>\<open>parse\<close> reads JSON text as a target state.\<close>

definition read_target_state :: "(string \<Rightarrow> target_state option) \<Rightarrow> string file_read \<Rightarrow> target_state \<times> bool" where
  "read_target_state parse file =
     (case file of
        FileContent content \<Rightarrow> (case parse content of Some state \<Rightarrow> (state, False) | None \<Rightarrow> (Secured, True))
      | FileNotFound \<Rightarrow> (DEFAULT_TARGET_STATE, False)
      | FileUnreadable \<Rightarrow> (Secured, True))"

text \<open>A write that fails leaves a part of the text, or the old file if it could not be opened.\<close>

datatype plain_write = Written | WrittenPart nat | NotOpened

definition pts_save :: "plain_write \<Rightarrow> persistent_target_state \<Rightarrow> persistent_target_state" where
  "pts_save w self =
     (case w of
        Written \<Rightarrow> self\<lparr>pts_file := FileContent (json_of_target_state (pts_state self))\<rparr>
      | WrittenPart n \<Rightarrow> self\<lparr>pts_file := FileContent (take n (json_of_target_state (pts_state self)))\<rparr>
      | NotOpened \<Rightarrow> self)"

definition pts_new :: "(string \<Rightarrow> target_state option) \<Rightarrow> plain_write \<Rightarrow> string file_read \<Rightarrow> persistent_target_state" where
  "pts_new parse w file =
     (let (state, update_cache) = read_target_state parse file;
          self = \<lparr>pts_state = state, pts_file = file, pts_locked = False\<rparr>
      in if update_cache then pts_save w self else self)"

definition pts_new_secured :: "plain_write \<Rightarrow> string file_read \<Rightarrow> persistent_target_state" where
  "pts_new_secured w file = pts_save w \<lparr>pts_state = Secured, pts_file = file, pts_locked = False\<rparr>"

definition pts_set :: "plain_write \<Rightarrow> target_state \<Rightarrow> persistent_target_state \<Rightarrow> persistent_target_state" where
  "pts_set w new_state self =
     (if new_state \<noteq> pts_state self then pts_save w (self\<lparr>pts_state := new_state\<rparr>) else self)"

definition pts_lock :: "persistent_target_state \<Rightarrow> persistent_target_state" where
  "pts_lock self = self\<lparr>pts_locked := True\<rparr>"

definition pts_finalize :: "bool \<Rightarrow> persistent_target_state \<Rightarrow> persistent_target_state" where
  "pts_finalize remove_ok self =
     (if pts_locked self then self
      else self\<lparr>pts_file := if remove_ok then FileNotFound else pts_file self, pts_locked := True\<rparr>)"

text \<open>
  The destructor removes the file of an instance that is not locked. It runs when the instance goes out of scope,
  also while a panic unwinds; it does not run when the process is killed.
\<close>

definition pts_drop :: "bool \<Rightarrow> persistent_target_state \<Rightarrow> persistent_target_state" where
  "pts_drop remove_ok self =
     (if pts_locked self then self else self\<lparr>pts_file := if remove_ok then FileNotFound else pts_file self\<rparr>)"

end
