(* ===== verification/Access_Mode.thy ===== *)
theory Access_Mode
  imports Access_Methods
begin

text \<open>
  How the daemon reaches the API: connection modes (\<open>mullvad-api/src/proxy.rs\<close>), the cache of the API
  address (\<open>address_cache.rs\<close>), the resolution of an access method to a connection mode and the
  endpoint the firewall has to open for it (\<open>mullvad-daemon/src/api.rs\<close>), and the actor that keeps
  the current access method and rotates it (\<open>mullvad-api/src/access_mode.rs\<close>). What the actor needs of
  the resolver is the locale \<open>method_resolver\<close>, interpreted on the resolver of the daemon. The build is
  the one without the \<open>api-override\<close> feature.
\<close>

section \<open>Connection modes\<close>

record domain_fronting_config =
  dfc_addr :: socket_addr
  dfc_front :: string
  dfc_proxy_host :: string
  dfc_session_header_key :: string

datatype api_proxy_config =
  PcShadowsocks shadowsocks_proxy
| PcSocks5Local socks5_local
| PcSocks5Remote socks5_remote
| PcEncryptedDnsProxy edp_config
| PcDomainFronting domain_fronting_config

datatype api_connection_mode = ApiDirect | ApiProxied api_proxy_config

definition proxy_config_get_endpoint :: "api_proxy_config \<Rightarrow> endpoint" where
  "proxy_config_get_endpoint c =
     (case c of
        PcShadowsocks s \<Rightarrow> endpoint_from_socket_address (sp_endpoint s) Tcp
      | PcSocks5Local l \<Rightarrow> sl_remote_endpoint l
      | PcSocks5Remote r \<Rightarrow> endpoint_from_socket_address (sr_endpoint r) Tcp
      | PcEncryptedDnsProxy p \<Rightarrow> endpoint_from_socket_address (SockV4 (edp_ip p) (edp_port p)) Tcp
      | PcDomainFronting d \<Rightarrow> endpoint_from_socket_address (dfc_addr d) Tcp)"

definition proxy_config_from_custom :: "custom_proxy \<Rightarrow> api_proxy_config" where
  "proxy_config_from_custom p =
     (case p of
        CustomShadowsocks s \<Rightarrow> PcShadowsocks s
      | CustomSocks5Local s \<Rightarrow> PcSocks5Local s
      | CustomSocks5Remote s \<Rightarrow> PcSocks5Remote s)"

definition api_mode_get_endpoint :: "api_connection_mode \<Rightarrow> endpoint option" where
  "api_mode_get_endpoint m =
     (case m of ApiDirect \<Rightarrow> None | ApiProxied c \<Rightarrow> Some (proxy_config_get_endpoint c))"

definition is_proxy :: "api_connection_mode \<Rightarrow> bool" where
  "is_proxy m = (m \<noteq> ApiDirect)"

text \<open>
  Reading the mode from its cache file: \<open>None\<close> for a file that does not exist, an error for one that
  cannot be read; \<open>deserialize\<close> is \<open>serde_json::from_str\<close>.
\<close>

definition mode_from_cache :: "(string \<Rightarrow> api_connection_mode option) \<Rightarrow> 'e + string option \<Rightarrow> 'e option + api_connection_mode" where
  "mode_from_cache deserialize file =
     (case file of
        Inr (Some s) \<Rightarrow> (case deserialize s of Some m \<Rightarrow> Inr m | None \<Rightarrow> Inl None)
      | Inr None \<Rightarrow> Inr ApiDirect
      | Inl e \<Rightarrow> Inl (Some e))"

definition mode_try_from_cache :: "(string \<Rightarrow> api_connection_mode option) \<Rightarrow> 'e + string option \<Rightarrow> api_connection_mode" where
  "mode_try_from_cache deserialize file =
     (case mode_from_cache deserialize file of Inr m \<Rightarrow> m | Inl _ \<Rightarrow> ApiDirect)"

section \<open>The cache of the API address\<close>

datatype address_cache_error = AcNoPath | AcOpen | AcRead | AcParse | AcWrite

record file_backing =
  fb_read_path :: "string option"
  fb_write_path :: "string option"

record address_cache =
  adc_hostname :: string
  adc_address :: socket_addr
  adc_backing :: file_backing

text \<open>
  \<open>AsyncReadExt::read\<close> fills the buffer it is given with what the file has, at most the length of the
  buffer; the rest of the buffer is unchanged.
\<close>

definition file_read :: "string \<Rightarrow> string \<Rightarrow> string" where
  "file_read contents buf = take (length buf) contents @ drop (length contents) buf"

text \<open>
  A file system gives the contents of a path, or why it cannot be opened or read. The buffer that
  \<open>read\<close> passes is a new vector.
\<close>

definition file_backing_read ::
  "(string \<Rightarrow> address_cache_error + string) \<Rightarrow> file_backing \<Rightarrow> address_cache_error + string" where
  "file_backing_read fs self =
     (case fb_read_path self of
        None \<Rightarrow> Inl AcNoPath
      | Some read_path \<Rightarrow> and_then (fs read_path) (\<lambda>contents. Inr (file_read contents [])))"

definition file_backing_write :: "(string \<Rightarrow> address_cache_error + unit) \<Rightarrow> file_backing \<Rightarrow> address_cache_error + unit" where
  "file_backing_write fs self =
     (case fb_write_path self of None \<Rightarrow> Inl AcNoPath | Some write_path \<Rightarrow> fs write_path)"

definition read_address_backing ::
  "(string \<Rightarrow> socket_addr option) \<Rightarrow> address_cache_error + string \<Rightarrow> address_cache_error + socket_addr" where
  "read_address_backing parse_addr read = and_then read (\<lambda>a. of_option AcParse (parse_addr (trim a)))"

definition address_cache_new :: "socket_addr \<Rightarrow> string \<Rightarrow> string option \<Rightarrow> address_cache" where
  "address_cache_new address host write_path =
     \<lparr>adc_hostname = host, adc_address = address, adc_backing = \<lparr>fb_read_path = None, fb_write_path = write_path\<rparr>\<rparr>"

definition address_cache_from_file ::
  "(string \<Rightarrow> socket_addr option) \<Rightarrow> (string \<Rightarrow> address_cache_error + string) \<Rightarrow> string \<Rightarrow> string option \<Rightarrow> string
   \<Rightarrow> address_cache_error + address_cache" where
  "address_cache_from_file parse_addr fs read_path write_path host =
     (let backing = \<lparr>fb_read_path = Some read_path, fb_write_path = write_path\<rparr> in
      and_then (read_address_backing parse_addr (file_backing_read fs backing)) (\<lambda>address.
      Inr \<lparr>adc_hostname = host, adc_address = address, adc_backing = backing\<rparr>))"

definition resolve_hostname :: "address_cache \<Rightarrow> string \<Rightarrow> socket_addr option" where
  "resolve_hostname self host = (if eq_ignore_ascii_case host (adc_hostname self) then Some (adc_address self) else None)"

definition set_address ::
  "(string \<Rightarrow> address_cache_error + unit) \<Rightarrow> socket_addr \<Rightarrow> address_cache \<Rightarrow> address_cache \<times> (address_cache_error + unit)" where
  "set_address fs address self =
     (if address \<noteq> adc_address self
      then (case file_backing_write fs (adc_backing self) of
              Inr _ \<Rightarrow> (self\<lparr>adc_address := address\<rparr>, Inr ())
            | Inl err \<Rightarrow> if err = AcNoPath then (self\<lparr>adc_address := address\<rparr>, Inr ()) else (self, Inl err))
      else (self, Inr ()))"

section \<open>Resolving an access method\<close>

definition mode_allowed_clients :: "api_connection_mode \<Rightarrow> allowed_clients" where
  "mode_allowed_clients m = (case m of ApiProxied (PcSocks5Local _) \<Rightarrow> All | _ \<Rightarrow> Root)"

definition resolve_allowed_endpoint :: "api_connection_mode \<Rightarrow> socket_addr \<Rightarrow> allowed_endpoint" where
  "resolve_allowed_endpoint m fallback =
     \<lparr>ae_endpoint = (case api_mode_get_endpoint m of
          Some endpoint \<Rightarrow> endpoint | None \<Rightarrow> endpoint_from_socket_address fallback Tcp),
      ae_clients = mode_allowed_clients m\<rparr>"

text \<open>
  \<open>get_bridge_forced\<close> of the relay selector. That choosing a bridge does not panic is shown below, so
  the panic is not distinguished from the other errors here.
\<close>

definition get_bridge_forced ::
  "(relay list \<Rightarrow> relay option) \<Rightarrow> (u64 \<Rightarrow> u64 \<Rightarrow> u64) \<Rightarrow> (shadowsocks_endpoint_data list \<Rightarrow> shadowsocks_endpoint_data option)
   \<Rightarrow> relay_selector \<Rightarrow> shadowsocks_proxy option" where
  "get_bridge_forced pick_bridge random_range pick s =
     (case get_proxy_settings pick_bridge random_range pick (rs_bridges s) of
        Inr (endpoint, _) \<Rightarrow> Some endpoint | Inl _ \<Rightarrow> None)"

text \<open>What the outside answers to the resolver, by the number of the call.\<close>

record resolver_world =
  rw_pick_bridge :: "nat \<Rightarrow> relay list \<Rightarrow> relay option"
  rw_random_range :: "nat \<Rightarrow> u64 \<Rightarrow> u64 \<Rightarrow> u64"
  rw_pick_endpoint :: "nat \<Rightarrow> shadowsocks_endpoint_data list \<Rightarrow> shadowsocks_endpoint_data option"
  rw_lookup :: "nat \<Rightarrow> unit + ip_addr list"
  rw_hash_order :: "nat \<Rightarrow> edp_config list \<Rightarrow> edp_config list"
  rw_domain_fronting :: "nat \<Rightarrow> domain_fronting_config option"
  rw_api_address :: "nat \<Rightarrow> socket_addr"

record daemon_resolver =
  dr_relay_selector :: relay_selector
  dr_encrypted_dns_proxy_cache :: edp_state
  dr_calls :: nat

definition resolve_connection_mode ::
  "resolver_world \<Rightarrow> access_method \<Rightarrow> daemon_resolver \<Rightarrow> daemon_resolver \<times> api_connection_mode option" where
  "resolve_connection_mode w method self =
     (let n = dr_calls self in
      case method of
        BuiltIn AmDirect \<Rightarrow> (self, Some ApiDirect)
      | BuiltIn AmBridge \<Rightarrow>
          (self, map_option (\<lambda>bridge. ApiProxied (proxy_config_from_custom (CustomShadowsocks bridge)))
                   (get_bridge_forced (rw_pick_bridge w n) (rw_random_range w n) (rw_pick_endpoint w n)
                      (dr_relay_selector self)))
      | BuiltIn AmEncryptedDnsProxy \<Rightarrow>
          (let cache = fst (fetch_configs (rw_hash_order w n)
                              (map_sum id configs_of_lookup (rw_lookup w n)) (dr_encrypted_dns_proxy_cache self))
           in case next_configuration cache of (cache, edp) \<Rightarrow>
                (self\<lparr>dr_encrypted_dns_proxy_cache := cache\<rparr>,
                 map_option (\<lambda>edp. ApiProxied (PcEncryptedDnsProxy edp)) edp))
      | BuiltIn AmDomainFronting \<Rightarrow>
          (self, map_option (\<lambda>c. ApiProxied (PcDomainFronting c)) (rw_domain_fronting w n))
      | Custom config \<Rightarrow> (self, Some (ApiProxied (proxy_config_from_custom config))))"

definition resolve_access_method_setting ::
  "resolver_world \<Rightarrow> daemon_resolver \<Rightarrow> access_method \<Rightarrow> daemon_resolver \<times> (allowed_endpoint \<times> api_connection_mode) option" where
  "resolve_access_method_setting w self method =
     (case resolve_connection_mode w method self of
        (self', None) \<Rightarrow> (self'\<lparr>dr_calls := Suc (dr_calls self)\<rparr>, None)
      | (self', Some connection_mode) \<Rightarrow>
          (self'\<lparr>dr_calls := Suc (dr_calls self)\<rparr>,
           Some (resolve_allowed_endpoint connection_mode (rw_api_address w (dr_calls self)), connection_mode)))"

definition default_connection_mode :: "resolver_world \<Rightarrow> daemon_resolver \<Rightarrow> allowed_endpoint" where
  "default_connection_mode w self = resolve_allowed_endpoint ApiDirect (rw_api_address w (dr_calls self))"

section \<open>The selector\<close>

record resolved_connection_mode =
  rcm_connection_mode :: api_connection_mode
  rcm_endpoint :: allowed_endpoint
  rcm_setting :: access_method_setting

datatype mode_message =
  MsgGet nat
| MsgUse nat u128
| MsgRotate nat
| MsgUpdate nat access_settings
| MsgResolve nat access_method_setting

datatype mode_reply =
  ReplyCurrent resolved_connection_mode
| ReplyDone
| ReplyMode api_connection_mode
| ReplyResolved "resolved_connection_mode option"

datatype mode_error = NoAccessMethods | ResolveError access_method | SendFailed | OneshotSendFailed | NotRunning

definition is_critical_error :: "mode_error \<Rightarrow> bool" where
  "is_critical_error e = (case e of SendFailed \<Rightarrow> True | NotRunning \<Rightarrow> True | _ \<Rightarrow> False)"

text \<open>
  The selector with its resolver, the modes it has sent to the REST client, the events it has given to
  tasks for the daemon, and the replies it has sent. A resolver is a function of its state and
  the endpoint it defaults to.
\<close>

record 'r mode_selector =
  asel_resolver :: 'r
  asel_settings :: access_settings
  asel_current :: resolved_connection_mode
  asel_index :: nat
  asel_modes :: "api_connection_mode list"
  asel_events :: "resolved_connection_mode list"
  asel_replies :: "(nat \<times> mode_reply) list"

type_synonym 'r resolver = "('r \<Rightarrow> access_method \<Rightarrow> 'r \<times> (allowed_endpoint \<times> api_connection_mode) option) \<times> ('r \<Rightarrow> allowed_endpoint)"

text \<open>\<open>iter().enumerate().cycle().skip(start).take(cardinality)\<close> is one rotation of the list.\<close>

definition find_next_active :: "nat \<Rightarrow> access_settings \<Rightarrow> nat \<times> access_method_setting" where
  "find_next_active start s =
     (case find (\<lambda>(_, m). ams_enabled m) (rotate start (enumerate 0 (acs_iter s))) of
        Some r \<Rightarrow> r
      | None \<Rightarrow> (0, acs_direct s))"

definition resolve_with_default :: "'r resolver \<Rightarrow> access_method_setting \<Rightarrow> 'r \<Rightarrow> 'r \<times> resolved_connection_mode" where
  "resolve_with_default res setting r =
     (case fst res r (ams_access_method setting) of
        (r, Some (endpoint, connection_mode)) \<Rightarrow>
          (r, \<lparr>rcm_connection_mode = connection_mode, rcm_endpoint = endpoint, rcm_setting = setting\<rparr>)
      | (r, None) \<Rightarrow>
          (r, \<lparr>rcm_connection_mode = ApiDirect, rcm_endpoint = snd res r, rcm_setting = setting\<rparr>))"

definition mode_selector_spawn :: "'r resolver \<Rightarrow> 'r \<Rightarrow> access_settings \<Rightarrow> 'r mode_selector" where
  "mode_selector_spawn res r settings =
     (case find_next_active 0 settings of (index, next) \<Rightarrow>
      case resolve_with_default res next r of (r, initial) \<Rightarrow>
        \<lparr>asel_resolver = r, asel_settings = settings, asel_current = initial, asel_index = index,
         asel_modes = [rcm_connection_mode initial], asel_events = [], asel_replies = []\<rparr>)"

definition notify_connection_mode :: "resolved_connection_mode \<Rightarrow> 'r mode_selector \<Rightarrow> 'r mode_selector" where
  "notify_connection_mode resolved self =
     self\<lparr>asel_events := asel_events self @ [resolved],
          asel_modes := asel_modes self @ [rcm_connection_mode resolved]\<rparr>"

definition set_current :: "'r resolver \<Rightarrow> access_method_setting \<Rightarrow> 'r mode_selector \<Rightarrow> 'r mode_selector" where
  "set_current res method self =
     (case resolve_with_default res method (asel_resolver self) of (r, resolved) \<Rightarrow>
        (notify_connection_mode resolved (self\<lparr>asel_resolver := r\<rparr>))\<lparr>asel_current := resolved\<rparr>)"

definition selector_use_access_method :: "'r resolver \<Rightarrow> u128 \<Rightarrow> 'r mode_selector \<Rightarrow> 'r mode_selector" where
  "selector_use_access_method res i self =
     (case position (\<lambda>m. ams_id m = i) (acs_iter (asel_settings self)) of
        None \<Rightarrow> self
      | Some index \<Rightarrow> set_current res (acs_iter (asel_settings self) ! index) (self\<lparr>asel_index := index\<rparr>))"

definition next_connection_mode :: "'r resolver \<Rightarrow> 'r mode_selector \<Rightarrow> 'r mode_selector" where
  "next_connection_mode res self =
     (case find_next_active (asel_index self + 1) (asel_settings self) of (next_index, next) \<Rightarrow>
        set_current res next (self\<lparr>asel_index := next_index\<rparr>))"

definition selector_update_access_methods :: "'r resolver \<Rightarrow> access_settings \<Rightarrow> 'r mode_selector \<Rightarrow> 'r mode_selector" where
  "selector_update_access_methods res settings self =
     (let self = self\<lparr>asel_settings := settings\<rparr> in
      case position (\<lambda>m. ams_id m = ams_id (rcm_setting (asel_current self))) (acs_iter settings) of
        Some index \<Rightarrow>
          (let self = self\<lparr>asel_index := index\<rparr>; new_current = acs_iter settings ! index in
           if rcm_setting (asel_current self) \<noteq> new_current
           then if ams_enabled new_current then set_current res new_current self
                else next_connection_mode res self
           else self)
      | None \<Rightarrow> next_connection_mode res (self\<lparr>asel_index := asel_index self - 1\<rparr>))"

definition selector_resolve :: "'r resolver \<Rightarrow> access_method_setting \<Rightarrow> 'r mode_selector \<Rightarrow> 'r mode_selector \<times> resolved_connection_mode option" where
  "selector_resolve res setting self =
     (case fst res (asel_resolver self) (ams_access_method setting) of (r, x) \<Rightarrow>
        (self\<lparr>asel_resolver := r\<rparr>,
         map_option (\<lambda>(endpoint, connection_mode).
             \<lparr>rcm_connection_mode = connection_mode, rcm_endpoint = endpoint, rcm_setting = setting\<rparr>) x))"

text \<open>A reply fails when the receiver is gone.\<close>

definition mode_reply_send :: "(nat \<Rightarrow> bool) \<Rightarrow> nat \<Rightarrow> mode_reply \<Rightarrow> 'r mode_selector \<Rightarrow> 'r mode_selector \<times> (mode_error + unit)" where
  "mode_reply_send alive tx value self =
     (if alive tx then (self\<lparr>asel_replies := asel_replies self @ [(tx, value)]\<rparr>, Inr ())
      else (self, Inl OneshotSendFailed))"

definition mode_selector_handle ::
  "'r resolver \<Rightarrow> (nat \<Rightarrow> bool) \<Rightarrow> mode_message \<Rightarrow> 'r mode_selector \<Rightarrow> 'r mode_selector \<times> (mode_error + unit)" where
  "mode_selector_handle res alive cmd self =
     (case cmd of
        MsgGet tx \<Rightarrow> mode_reply_send alive tx (ReplyCurrent (asel_current self)) self
      | MsgUse tx i \<Rightarrow> mode_reply_send alive tx ReplyDone (selector_use_access_method res i self)
      | MsgRotate tx \<Rightarrow>
          (let self = next_connection_mode res self
           in mode_reply_send alive tx (ReplyMode (rcm_connection_mode (asel_current self))) self)
      | MsgUpdate tx values \<Rightarrow> mode_reply_send alive tx ReplyDone (selector_update_access_methods res values self)
      | MsgResolve tx setting \<Rightarrow>
          (case selector_resolve res setting self of (self, reply) \<Rightarrow>
             mode_reply_send alive tx (ReplyResolved reply) self))"

text \<open>The loop of \<open>into_future\<close>: it ends with the commands, or early with a critical error.\<close>

fun mode_selector_run ::
  "'r resolver \<Rightarrow> (nat \<Rightarrow> bool) \<Rightarrow> mode_message list \<Rightarrow> 'r mode_selector \<Rightarrow> 'r mode_selector \<times> mode_message list" where
  "mode_selector_run res alive [] self = (self, [])"
| "mode_selector_run res alive (cmd # cmds) self =
     (case mode_selector_handle res alive cmd self of
        (self, Inr _) \<Rightarrow> mode_selector_run res alive cmds self
      | (self, Inl error) \<Rightarrow>
          if is_critical_error error then (self, cmds) else mode_selector_run res alive cmds self)"

section \<open>The contract of the resolver\<close>

text \<open>
  The endpoint that is opened in the firewall is the remote end of the connection mode: of the proxy,
  or an address of the API, one of \<open>api\<close>, over TCP. It is open to all clients for a local proxy, which
  connects as another user, and otherwise to root, the user of the daemon.
\<close>

definition endpoint_for :: "socket_addr set \<Rightarrow> api_connection_mode \<Rightarrow> allowed_endpoint \<Rightarrow> bool" where
  "endpoint_for api m e =
     (ae_clients e = (case m of ApiProxied (PcSocks5Local _) \<Rightarrow> All | _ \<Rightarrow> Root) \<and>
      (case m of
         ApiDirect \<Rightarrow> \<exists>a \<in> api. ae_endpoint e = endpoint_from_socket_address a Tcp
       | ApiProxied c \<Rightarrow> ae_endpoint e = proxy_config_get_endpoint c))"

lemma resolve_allowed_endpoint_for: "addr \<in> api \<Longrightarrow> endpoint_for api m (resolve_allowed_endpoint m addr)"
  by (cases m) (auto simp: endpoint_for_def resolve_allowed_endpoint_def api_mode_get_endpoint_def mode_allowed_clients_def)

text \<open>
  The connection mode belongs to the access method: a custom method is used as it is configured, and
  a built-in one in its own way or, when it cannot be resolved, as a direct connection.
\<close>

definition mode_for :: "access_method \<Rightarrow> api_connection_mode \<Rightarrow> bool" where
  "mode_for method m =
     (case method of
        BuiltIn b \<Rightarrow> m = ApiDirect \<or>
          (case b of
             AmDirect \<Rightarrow> False
           | AmBridge \<Rightarrow> \<exists>x. m = ApiProxied (PcShadowsocks x)
           | AmEncryptedDnsProxy \<Rightarrow> \<exists>x. m = ApiProxied (PcEncryptedDnsProxy x)
           | AmDomainFronting \<Rightarrow> \<exists>x. m = ApiProxied (PcDomainFronting x))
      | Custom p \<Rightarrow> m = ApiProxied (proxy_config_from_custom p))"

definition resolved_ok :: "socket_addr set \<Rightarrow> resolved_connection_mode \<Rightarrow> bool" where
  "resolved_ok api x =
     (endpoint_for api (rcm_connection_mode x) (rcm_endpoint x) \<and>
      mode_for (ams_access_method (rcm_setting x)) (rcm_connection_mode x))"

text \<open>
  What the selector keeps true, \<open>first\<close> being the mode it started with: the current method is the one its
  index points to; the current mode is the one last sent to the daemon, or the first one when none has been
  sent; the REST client was told the first mode and then the mode of each event, in this
  order; and all of them are resolved as they should.
\<close>

definition announced_ok :: "socket_addr set \<Rightarrow> resolved_connection_mode \<Rightarrow> 'r mode_selector \<Rightarrow> bool" where
  "announced_ok api first s =
     (asel_modes s = map rcm_connection_mode (first # asel_events s) \<and>
      asel_current s = last (first # asel_events s) \<and>
      (\<forall>x \<in> set (first # asel_events s). resolved_ok api x))"

definition selector_ok :: "socket_addr set \<Rightarrow> resolved_connection_mode \<Rightarrow> 'r mode_selector \<Rightarrow> bool" where
  "selector_ok api first s =
     (asel_index s < cardinality (asel_settings s) \<and>
      acs_iter (asel_settings s) ! asel_index s = rcm_setting (asel_current s) \<and>
      announced_ok api first s)"

lemma selector_ok_announced: "selector_ok api first s \<Longrightarrow> announced_ok api first s"
  by (simp add: selector_ok_def)

lemma announced_ok_simps [simp]:
  "announced_ok api first (s\<lparr>asel_settings := x\<rparr>) = announced_ok api first s"
  "announced_ok api first (s\<lparr>asel_index := i\<rparr>) = announced_ok api first s"
  "announced_ok api first (s\<lparr>asel_resolver := r\<rparr>) = announced_ok api first s"
  "announced_ok api first (s\<lparr>asel_replies := q\<rparr>) = announced_ok api first s"
  by (simp_all add: announced_ok_def)

lemma find_next_active_index:
  assumes "find_next_active start s = (i, m)"
  shows "i < cardinality s" and "acs_iter s ! i = m"
proof -
  have "i < cardinality s \<and> acs_iter s ! i = m"
  proof (cases "find (\<lambda>(_, m). ams_enabled m) (rotate start (enumerate 0 (acs_iter s)))")
    case None
    then show ?thesis using assms by (auto simp: find_next_active_def cardinality_def acs_iter_def)
  next
    case (Some r)
    then have "r \<in> set (rotate start (enumerate 0 (acs_iter s)))"
      by (metis find_Some_iff nth_mem)
    then show ?thesis
      using assms Some by (auto simp: find_next_active_def cardinality_def in_set_enumerate_eq)
  qed
  then show "i < cardinality s" and "acs_iter s ! i = m" by auto
qed

text \<open>The next method is the first enabled one after the current position, in cyclic order.\<close>

lemma find_next_active_exact:
  assumes "list_ex ams_enabled (acs_iter s)"
  obtains k where "k < cardinality s" and
    "find_next_active start s = ((start + k) mod cardinality s, acs_iter s ! ((start + k) mod cardinality s))"
    and "ams_enabled (acs_iter s ! ((start + k) mod cardinality s))"
    and "\<forall>j < k. \<not> ams_enabled (acs_iter s ! ((start + j) mod cardinality s))"
proof -
  let ?n = "cardinality s" and ?xs = "enumerate 0 (acs_iter s)"
  have n: "length ?xs = ?n" "?n \<noteq> 0" by (simp_all add: cardinality_def)
  have rot: "rotate start ?xs ! j = ((start + j) mod ?n, acs_iter s ! ((start + j) mod ?n))" if "j < ?n" for j
    using that n by (simp add: nth_rotate nth_enumerate_eq cardinality_def)
  from assms obtain i where "i < length (acs_iter s)" "ams_enabled (acs_iter s ! i)"
    by (auto simp: list_ex_length)
  then have "(i, acs_iter s ! i) \<in> set (rotate start ?xs) \<and> (\<lambda>(_, m). ams_enabled m) (i, acs_iter s ! i)"
    by (simp add: in_set_enumerate_eq)
  then obtain r where "find (\<lambda>(_, m). ams_enabled m) (rotate start ?xs) = Some r"
    by (metis find_None_iff not_Some_eq)
  then obtain k where k: "k < ?n" "(\<lambda>(_, m). ams_enabled m) (rotate start ?xs ! k)" "r = rotate start ?xs ! k"
    "\<forall>j < k. \<not> (\<lambda>(_, m). ams_enabled m) (rotate start ?xs ! j)"
    "find_next_active start s = r"
    using n(1) by (auto simp: find_Some_iff find_next_active_def)
  show thesis
  proof (rule that [OF k(1)])
    show "\<forall>j < k. \<not> ams_enabled (acs_iter s ! ((start + j) mod ?n))"
      using k(1,4) rot by (metis (no_types, lifting) case_prod_conv order.strict_trans)
  qed (use k rot [OF k(1)] in auto)
qed

locale method_resolver =
  fixes res :: "'r resolver" and api :: "socket_addr set"
  assumes resolved: "fst res r m = (r', Some (e, c)) \<Longrightarrow> endpoint_for api c e \<and> mode_for m c"
    and unresolved: "fst res r m = (r', None) \<Longrightarrow> mode_for m ApiDirect"
    and defaulted: "endpoint_for api ApiDirect (snd res r)"
begin

lemma resolve_with_default_ok:
  "resolve_with_default res setting r = (r', x) \<Longrightarrow> resolved_ok api x \<and> rcm_setting x = setting"
  by (auto simp: resolve_with_default_def resolved_ok_def defaulted split: prod.splits option.splits
      dest: resolved unresolved)

lemma set_current_ok:
  assumes "i < cardinality (asel_settings s)" "acs_iter (asel_settings s) ! i = m" "announced_ok api first s"
  shows "selector_ok api first (set_current res m (s\<lparr>asel_index := i\<rparr>))"
  using assms resolve_with_default_ok [of m "asel_resolver s"]
  by (auto simp: set_current_def notify_connection_mode_def selector_ok_def announced_ok_def split: prod.splits)

lemma next_connection_mode_ok:
  assumes "announced_ok api first s"
  shows "selector_ok api first (next_connection_mode res s)"
  using find_next_active_index [of "asel_index s + 1" "asel_settings s"] assms
  by (auto simp: next_connection_mode_def intro!: set_current_ok split: prod.splits)

lemma spawn_ok:
  "selector_ok api (asel_current (mode_selector_spawn res r settings)) (mode_selector_spawn res r settings)"
proof -
  obtain i m where i: "find_next_active 0 settings = (i, m)" by fastforce
  obtain r' x where x: "resolve_with_default res m r = (r', x)" by fastforce
  show ?thesis
    using find_next_active_index [OF i] resolve_with_default_ok [OF x]
    by (simp add: mode_selector_spawn_def i x selector_ok_def announced_ok_def)
qed

lemma use_ok:
  assumes "selector_ok api first s"
  shows "selector_ok api first (selector_use_access_method res i s)"
  using assms position_Some [of "\<lambda>m. ams_id m = i" "acs_iter (asel_settings s)"]
  by (auto simp: selector_use_access_method_def cardinality_def selector_ok_announced intro!: set_current_ok
      split: option.splits)

lemma update_ok:
  assumes "selector_ok api first s"
  shows "selector_ok api first (selector_update_access_methods res settings s)"
proof (cases "position (\<lambda>m. ams_id m = ams_id (rcm_setting (asel_current s))) (acs_iter settings)")
  case None
  then show ?thesis
    using assms by (simp add: selector_update_access_methods_def Let_def next_connection_mode_ok selector_ok_announced)
next
  case (Some i)
  let ?s = "s\<lparr>asel_settings := settings\<rparr>"
  have i: "i < cardinality settings" using position_Some [OF Some] by (simp add: cardinality_def)
  have ev: "announced_ok api first s" using assms by (rule selector_ok_announced)
  have "selector_ok api first (set_current res (acs_iter settings ! i) (?s\<lparr>asel_index := i\<rparr>))"
    by (rule set_current_ok) (use i ev in simp_all)
  moreover have "selector_ok api first (next_connection_mode res (?s\<lparr>asel_index := i\<rparr>))"
    by (rule next_connection_mode_ok) (use ev in simp)
  moreover have "selector_ok api first (?s\<lparr>asel_index := i\<rparr>)" if "rcm_setting (asel_current s) = acs_iter settings ! i"
    using assms i that by (simp add: selector_ok_def)
  ultimately show ?thesis using Some by (simp add: selector_update_access_methods_def Let_def)
qed

lemma resolve_ok: "selector_ok api first s \<Longrightarrow> selector_ok api first (fst (selector_resolve res setting s))"
  by (simp add: selector_resolve_def selector_ok_def split: prod.splits)

lemma handle_ok:
  assumes "selector_ok api first s"
  shows "selector_ok api first (fst (mode_selector_handle res alive cmd s))"
proof -
  have reply: "selector_ok api first (fst (mode_reply_send alive tx v t)) = selector_ok api first t"
    for tx v and t :: "'r mode_selector"
    by (simp add: mode_reply_send_def selector_ok_def)
  have "selector_ok api first (next_connection_mode res s)"
    using assms by (simp add: next_connection_mode_ok selector_ok_announced)
  then show ?thesis
    using assms use_ok [OF assms] update_ok [OF assms] resolve_ok [OF assms]
    by (cases cmd) (simp_all add: mode_selector_handle_def Let_def reply case_prod_beta)
qed

lemma run_ok: "selector_ok api first s \<Longrightarrow> selector_ok api first (fst (mode_selector_run res alive cmds s))"
proof (induction cmds arbitrary: s)
  case (Cons cmd cmds)
  obtain t r where t: "mode_selector_handle res alive cmd s = (t, r)" by fastforce
  with handle_ok [OF Cons.prems, of alive cmd] have "selector_ok api first t" by simp
  with Cons.IH show ?case by (auto simp: t split: sum.splits)
qed simp

end

lemma resolve_connection_mode_for:
  "resolve_connection_mode w m r = (r', c) \<Longrightarrow> mode_for m (case c of Some c \<Rightarrow> c | None \<Rightarrow> ApiDirect)"
  by (auto simp: resolve_connection_mode_def mode_for_def proxy_config_from_custom_def Let_def
      split: access_method.splits built_in_access_method.splits prod.splits option.splits custom_proxy.splits)

interpretation daemon_method_resolver:
  method_resolver "(resolve_access_method_setting w, default_connection_mode w)" "range (rw_api_address w)" for w
  by unfold_locales
    (auto simp: resolve_access_method_setting_def default_connection_mode_def resolve_allowed_endpoint_for
      split: prod.splits option.splits dest: resolve_connection_mode_for)

section \<open>The loop and rotation\<close>

lemma mode_selector_handle_not_critical:
  "mode_selector_handle res alive cmd s = (t, Inl e) \<Longrightarrow> \<not> is_critical_error e"
  by (cases cmd) (auto simp: mode_selector_handle_def mode_reply_send_def is_critical_error_def Let_def split: if_splits prod.splits)

lemma mode_selector_run_processes_all: "snd (mode_selector_run res alive cmds s) = []"
  by (induction cmds arbitrary: s) (auto split: prod.splits sum.splits dest: mode_selector_handle_not_critical)

lemma set_current_fields [simp]:
  "asel_settings (set_current res m s) = asel_settings s"
  "asel_index (set_current res m s) = asel_index s"
  "rcm_setting (asel_current (set_current res m s)) = m"
  by (auto simp: set_current_def notify_connection_mode_def resolve_with_default_def split: prod.splits option.splits)

lemma next_connection_mode_fields:
  "asel_settings (next_connection_mode res s) = asel_settings s"
  "asel_index (next_connection_mode res s) = fst (find_next_active (asel_index s + 1) (asel_settings s))"
  "rcm_setting (asel_current (next_connection_mode res s)) = snd (find_next_active (asel_index s + 1) (asel_settings s))"
  by (auto simp: next_connection_mode_def split: prod.splits)

text \<open>Rotating visits every enabled method: \<open>d\<close> positions ahead means at most \<open>d + 1\<close> rotations.\<close>

lemma rotation_reaches:
  assumes "ams_enabled (acs_iter (asel_settings s) ! ((asel_index s + 1 + d) mod cardinality (asel_settings s)))"
    and "d < cardinality (asel_settings s)"
  shows "\<exists>k \<le> d. rcm_setting (asel_current ((next_connection_mode res ^^ Suc k) s)) =
    acs_iter (asel_settings s) ! ((asel_index s + 1 + d) mod cardinality (asel_settings s))"
  using assms
proof (induction d arbitrary: s rule: less_induct)
  case (less d)
  let ?n = "cardinality (asel_settings s)" and ?t = "next_connection_mode res s"
  have n: "0 < ?n" by (simp add: cardinality_def)
  have "(asel_index s + 1 + d) mod ?n < length (acs_iter (asel_settings s))" using n by (simp add: cardinality_def)
  with less.prems(1) have ex: "list_ex ams_enabled (acs_iter (asel_settings s))" by (meson list_ex_length)
  obtain k where k: "k < ?n" "find_next_active (asel_index s + 1) (asel_settings s) =
      ((asel_index s + 1 + k) mod ?n, acs_iter (asel_settings s) ! ((asel_index s + 1 + k) mod ?n))"
    "\<forall>j < k. \<not> ams_enabled (acs_iter (asel_settings s) ! ((asel_index s + 1 + j) mod ?n))"
    by (rule find_next_active_exact [OF ex, of "asel_index s + 1"]) auto
  have "k \<le> d" using k(3) less.prems(1) by (meson not_le)
  note t = next_connection_mode_fields [of res s]
  show ?case
  proof (cases "k = d")
    case True
    then show ?thesis using t(3) k(2) by (intro exI [of _ 0]) simp
  next
    case False
    define d' where "d' = d - k - 1"
    have "asel_index ?t = (asel_index s + 1 + k) mod ?n" using t(2) k(2) by simp
    then have "(asel_index ?t + 1 + d') mod ?n = ((asel_index s + 1 + k) mod ?n + (1 + d')) mod ?n"
      by (simp only: add.assoc)
    also have "\<dots> = (asel_index s + 1 + k + (1 + d')) mod ?n" by (simp only: mod_add_left_eq)
    also have "asel_index s + 1 + k + (1 + d') = asel_index s + 1 + d"
      using \<open>k \<le> d\<close> False by (simp add: d'_def)
    finally have "(asel_index ?t + 1 + d') mod ?n = (asel_index s + 1 + d) mod ?n" .
    then have pos: "(asel_index ?t + 1 + d') mod cardinality (asel_settings ?t) = (asel_index s + 1 + d) mod ?n"
      using t(1) by simp
    have "\<exists>j \<le> d'. rcm_setting (asel_current ((next_connection_mode res ^^ Suc j) ?t)) =
        acs_iter (asel_settings ?t) ! ((asel_index ?t + 1 + d') mod cardinality (asel_settings ?t))"
      by (rule less.IH) (use \<open>k \<le> d\<close> False less.prems pos t(1) in \<open>auto simp: d'_def\<close>)
    then obtain j where "j \<le> d'" "rcm_setting (asel_current ((next_connection_mode res ^^ Suc j) ?t)) =
        acs_iter (asel_settings s) ! ((asel_index s + 1 + d) mod ?n)"
      using pos t(1) by auto
    then show ?thesis
      using \<open>k \<le> d\<close> False by (intro exI [of _ "Suc j"]) (auto simp: d'_def funpow_swap1)
  qed
qed

lemma rotation_visits_all:
  assumes "m \<in> set (acs_iter (asel_settings s))" "ams_enabled m" "asel_index s < cardinality (asel_settings s)"
  shows "\<exists>k. 1 \<le> k \<and> k \<le> cardinality (asel_settings s) \<and>
    rcm_setting (asel_current ((next_connection_mode res ^^ k) s)) = m"
proof -
  let ?n = "cardinality (asel_settings s)"
  obtain j where j: "j < ?n" "acs_iter (asel_settings s) ! j = m"
    using assms(1) by (metis cardinality_def in_set_conv_nth)
  define d where "d = (j + ?n - (asel_index s + 1)) mod ?n"
  have "(asel_index s + 1 + d) mod ?n = (asel_index s + 1 + (j + ?n - (asel_index s + 1))) mod ?n"
    by (simp only: d_def mod_add_right_eq)
  also have "\<dots> = (j + ?n) mod ?n" using assms(3) by simp
  also have "\<dots> = j" using j(1) by simp
  finally have d: "(asel_index s + 1 + d) mod ?n = j" .
  have "d < ?n" using j(1) by (simp add: d_def)
  then obtain k where "k \<le> d" "rcm_setting (asel_current ((next_connection_mode res ^^ Suc k) s)) = m"
    using rotation_reaches [of s d res] d assms(2) j(2) by auto
  then show ?thesis using \<open>d < ?n\<close> by (intro exI [of _ "Suc k"]) auto
qed

end
