(* ===== verification/Device_Check.thy ===== *)
theory Device_Check
  imports Device_Types Tunnel_Types
begin

text \<open>
  \<open>TunnelStateChangeHandler\<close> of \<open>mullvad-daemon/src/device/mod.rs\<close>: after several failed attempts to
  connect, check whether the device is still valid. The handler sees every transition of the tunnel
  state machine; a check runs in the background and its result may allow another one.
\<close>

definition WG_DEVICE_CHECK_THRESHOLD :: u64 where
  "WG_DEVICE_CHECK_THRESHOLD = 3"

record change_handler =
  ch_can_retry :: bool
  ch_wg_retry_attempt :: u64

definition change_handler_new :: change_handler where
  "change_handler_new = \<lparr>ch_can_retry = True, ch_wg_retry_attempt = 0\<rparr>"

fun update_retry_counter :: "tunnel_state_transition \<Rightarrow> u64 \<Rightarrow> u64" where
  "update_retry_counter (TConnecting _) retry_attempt = retry_attempt + 1"
| "update_retry_counter (TConnected _) retry_attempt = 0"
| "update_retry_counter _ retry_attempt = retry_attempt"

fun update_retry_bool :: "tunnel_state_transition \<Rightarrow> bool \<Rightarrow> bool" where
  "update_retry_bool (TDisconnected _) can_retry = True"
| "update_retry_bool (TConnected _) can_retry = True"
| "update_retry_bool (TError _) can_retry = True"
| "update_retry_bool _ can_retry = can_retry"

definition should_check_device_validity_on_attempt :: "u64 \<Rightarrow> bool" where
  "should_check_device_validity_on_attempt attempt =
     (attempt > 0 \<and> attempt mod WG_DEVICE_CHECK_THRESHOLD = 0)"

text \<open>Whether a check is due, and the flag afterwards: \<open>swap\<close> only happens on a due attempt.\<close>

definition should_check_device_validity :: "u64 \<Rightarrow> bool \<Rightarrow> bool \<times> bool" where
  "should_check_device_validity attempt can_retry =
     (if should_check_device_validity_on_attempt attempt then (can_retry, False) else (False, can_retry))"

text \<open>The result says whether a check was spawned.\<close>

definition handle_state_transition :: "tunnel_state_transition \<Rightarrow> change_handler \<Rightarrow> bool \<times> change_handler" where
  "handle_state_transition new_state self =
     (let attempt = update_retry_counter new_state (ch_wg_retry_attempt self);
          can_retry = update_retry_bool new_state (ch_can_retry self)
      in case should_check_device_validity attempt can_retry of
           (check, can_retry) \<Rightarrow> (check, \<lparr>ch_can_retry = can_retry, ch_wg_retry_attempt = attempt\<rparr>))"

definition should_continue_retries :: "device_error \<Rightarrow> bool" where
  "should_continue_retries err = (device_is_network_error err \<or> device_is_aborted err)"

definition check_device_validity_inner :: "device_error + unit \<Rightarrow> device_error + time \<Rightarrow> device_error + unit" where
  "check_device_validity_inner validated expiry =
     and_then validated (\<lambda>_. and_then expiry (\<lambda>_. Inr ()))"

definition check_device_validity :: "device_error + unit \<Rightarrow> bool \<Rightarrow> bool" where
  "check_device_validity result can_retry = (case result of
       Inl error \<Rightarrow> if should_continue_retries error then True else can_retry
     | Inr _ \<Rightarrow> can_retry)"

section \<open>Runs\<close>

datatype check_event = Transition tunnel_state_transition | CheckDone "device_error + unit"

text \<open>The number of checks spawned on the way, and the handler at the end.\<close>

fun check_run :: "check_event list \<Rightarrow> change_handler \<Rightarrow> nat \<times> change_handler" where
  "check_run [] self = (0, self)"
| "check_run (Transition t # evs) self =
     (case handle_state_transition t self of
        (check, self) \<Rightarrow> apfst (\<lambda>n. n + (if check then 1 else 0)) (check_run evs self))"
| "check_run (CheckDone result # evs) self =
     check_run evs (self\<lparr>ch_can_retry := check_device_validity result (ch_can_retry self)\<rparr>)"

text \<open>What allows another check: leaving the connecting loop, or a check that failed for the network.\<close>

fun rearms :: "check_event \<Rightarrow> bool" where
  "rearms (Transition (TDisconnected _)) = True"
| "rearms (Transition (TConnected _)) = True"
| "rearms (Transition (TError _)) = True"
| "rearms (CheckDone (Inl e)) = should_continue_retries e"
| "rearms _ = False"

lemma update_retry_bool_cases: "update_retry_bool t b = (b \<or> rearms (Transition t))"
  by (cases t) auto

lemma check_run_bound:
  "fst (check_run evs self) + of_bool (ch_can_retry (snd (check_run evs self))) \<le>
     of_bool (ch_can_retry self) + length (filter rearms evs)"
proof (induction evs self rule: check_run.induct)
  case (2 t evs self)
  obtain check self' where h: "handle_state_transition t self = (check, self')" by fastforce
  have "of_bool check + of_bool (ch_can_retry self') \<le> (of_bool (ch_can_retry self) + of_bool (rearms (Transition t)) :: nat)"
    using h by (auto simp: handle_state_transition_def should_check_device_validity_def update_retry_bool_cases Let_def
        split: if_splits)
  then show ?case using 2 [OF h [symmetric]] h by (cases "check_run evs self'") auto
next
  case (3 result evs self)
  have "of_bool (check_device_validity result (ch_can_retry self)) \<le>
      (of_bool (ch_can_retry self) + of_bool (rearms (CheckDone result)) :: nat)"
    by (auto simp: check_device_validity_def split: sum.splits)
  with 3 show ?case by (auto split: if_splits)
qed simp

text \<open>A connecting loop reaches its check with the third attempt.\<close>

lemma third_attempt_checks:
  assumes "ch_can_retry self" and "unat (ch_wg_retry_attempt self) mod 3 = 2"
    and "unat (ch_wg_retry_attempt self) + 1 < 2 ^ 64"
  shows "fst (handle_state_transition (TConnecting e) self)"
proof -
  let ?n = "ch_wg_retry_attempt self + 1"
  have n: "unat ?n = Suc (unat (ch_wg_retry_attempt self))"
    using assms(3) by (simp add: unat_word_ariths)
  have m: "unat (?n mod 3) = unat ?n mod 3" by (simp add: unat_mod_distrib)
  have "unat ?n mod 3 = 0" using assms(2) n by (simp add: mod_Suc)
  then have "?n mod 3 = 0" using m by (metis unsigned_0 word_unat_eq_iff)
  moreover have "?n > 0" using n by (simp add: word_less_nat_alt)
  ultimately show ?thesis
    using assms(1)
    by (simp add: handle_state_transition_def should_check_device_validity_def
        should_check_device_validity_on_attempt_def WG_DEVICE_CHECK_THRESHOLD_def)
qed

end
