(* ===== verification/Availability.thy ===== *)
theory Availability
  imports Prelude
begin

text \<open>
  When requests to the API may be made (\<open>mullvad-api/src/availability.rs\<close>): the state shared by all
  users of the API, the broadcast of its changes, the inactivity timer, and waiting for a state.
  Timer tasks are numbered; the task held in \<open>av_timer\<close> is the only one that has not been
  aborted, and \<open>timer_fires\<close> is what it does after its sleep. Messages are kept oldest first.
\<close>

record api_state =
  as_suspended :: bool
  as_pause_background :: bool
  as_offline :: bool
  as_inactive :: bool

definition api_state_default :: api_state where
  "api_state_default = \<lparr>as_suspended = False, as_pause_background = False, as_offline = False, as_inactive = False\<rparr>"

definition is_suspended :: "api_state \<Rightarrow> bool" where
  "is_suspended s = as_suspended s"

definition is_background_paused :: "api_state \<Rightarrow> bool" where
  "is_background_paused s = (as_offline s \<or> as_pause_background s \<or> as_suspended s \<or> as_inactive s)"

definition is_api_offline :: "api_state \<Rightarrow> bool" where
  "is_api_offline s = as_offline s"

record api_availability =
  av_sent :: "api_state list"
  av_state :: api_state
  av_timer :: "nat option"
  av_next_timer :: nat

section \<open>Operations on the locked state\<close>

definition av_send :: "api_availability \<Rightarrow> api_availability" where
  "av_send self = self\<lparr>av_sent := av_sent self @ [av_state self]\<rparr>"

definition inner_suspend :: "api_availability \<Rightarrow> api_availability" where
  "inner_suspend self =
     (if \<not> as_suspended (av_state self) then av_send (self\<lparr>av_state := (av_state self)\<lparr>as_suspended := True\<rparr>\<rparr>) else self)"

definition inner_unsuspend :: "api_availability \<Rightarrow> api_availability" where
  "inner_unsuspend self =
     (if as_suspended (av_state self) then av_send (self\<lparr>av_state := (av_state self)\<lparr>as_suspended := False\<rparr>\<rparr>) else self)"

definition inner_set_inactive :: "api_availability \<Rightarrow> api_availability" where
  "inner_set_inactive self =
     (if \<not> as_inactive (av_state self) then av_send (self\<lparr>av_state := (av_state self)\<lparr>as_inactive := True\<rparr>\<rparr>) else self)"

definition inner_set_active :: "api_availability \<Rightarrow> api_availability" where
  "inner_set_active self =
     (if as_inactive (av_state self) then av_send (self\<lparr>av_state := (av_state self)\<lparr>as_inactive := False\<rparr>\<rparr>) else self)"

definition inner_set_offline :: "bool \<Rightarrow> api_availability \<Rightarrow> api_availability" where
  "inner_set_offline b self =
     (if as_offline (av_state self) \<noteq> b then av_send (self\<lparr>av_state := (av_state self)\<lparr>as_offline := b\<rparr>\<rparr>) else self)"

definition inner_pause_background :: "api_availability \<Rightarrow> api_availability" where
  "inner_pause_background self =
     (if \<not> as_pause_background (av_state self) then av_send (self\<lparr>av_state := (av_state self)\<lparr>as_pause_background := True\<rparr>\<rparr>) else self)"

definition inner_resume_background :: "api_availability \<Rightarrow> api_availability" where
  "inner_resume_background self =
     (if as_pause_background (av_state self) then av_send (self\<lparr>av_state := (av_state self)\<lparr>as_pause_background := False\<rparr>\<rparr>) else self)"

definition inner_stop_inactivity_timer :: "api_availability \<Rightarrow> api_availability" where
  "inner_stop_inactivity_timer self = self\<lparr>av_timer := None\<rparr>"

section \<open>The handle\<close>

definition reset_inactivity_timer :: "api_availability \<Rightarrow> api_availability" where
  "reset_inactivity_timer self =
     (let inner = inner_stop_inactivity_timer self;
          inner = inner\<lparr>av_timer := Some (av_next_timer inner), av_next_timer := Suc (av_next_timer inner)\<rparr>
      in inner_set_active inner)"

definition availability_new :: "api_state \<Rightarrow> api_availability" where
  "availability_new initial_state =
     reset_inactivity_timer \<lparr>av_sent = [], av_state = initial_state, av_timer = None, av_next_timer = 0\<rparr>"

definition resume_background :: "api_availability \<Rightarrow> api_availability" where
  "resume_background self =
     (let inner = inner_resume_background self
      in if av_timer inner \<noteq> None then reset_inactivity_timer inner else inner)"

text \<open>Everything that happens to a handle: calls of its methods, and its timer task waking up.\<close>

datatype av_op =
  AvResetTimer
| AvStopTimer
| AvPauseBackground
| AvResumeBackground
| AvSuspend
| AvUnsuspend
| AvSetOffline bool
| AvTimerFires nat

fun av_step :: "av_op \<Rightarrow> api_availability \<Rightarrow> api_availability" where
  "av_step AvResetTimer a = reset_inactivity_timer a"
| "av_step AvStopTimer a = inner_stop_inactivity_timer a"
| "av_step AvPauseBackground a = inner_pause_background a"
| "av_step AvResumeBackground a = resume_background a"
| "av_step AvSuspend a = inner_suspend a"
| "av_step AvUnsuspend a = inner_unsuspend a"
| "av_step (AvSetOffline b) a = inner_set_offline b a"
| "av_step (AvTimerFires n) a = (if av_timer a = Some n then inner_set_inactive a else a)"

section \<open>Waiting\<close>

text \<open>
  \<open>wait_for_state\<close>: the state when the future is first polled, then what the receiver yields; an
  error if it lagged behind or the sender is gone. \<open>None\<close> means that it still waits.
\<close>

datatype recv_error = Lagged | Closed

fun wait_loop :: "(api_state \<Rightarrow> bool) \<Rightarrow> (recv_error + api_state) list \<Rightarrow> (recv_error + unit) option" where
  "wait_loop state_ready [] = None"
| "wait_loop state_ready (Inl e # _) = Some (Inl e)"
| "wait_loop state_ready (Inr new_state # ms) =
     (if state_ready new_state then Some (Inr ()) else wait_loop state_ready ms)"

definition wait_for_state ::
  "(api_state \<Rightarrow> bool) \<Rightarrow> api_state \<Rightarrow> (recv_error + api_state) list \<Rightarrow> (recv_error + unit) option" where
  "wait_for_state state_ready state received =
     (if state_ready state then Some (Inr ()) else wait_loop state_ready received)"

lemma wait_loop_messages:
  "wait_loop p (map Inr ms) = (if \<exists>m \<in> set ms. p m then Some (Inr ()) else None)"
  by (induction ms) auto

section \<open>Every change is sent\<close>

lemmas inner_defs = inner_suspend_def inner_unsuspend_def inner_set_inactive_def inner_set_active_def
  inner_set_offline_def inner_pause_background_def inner_resume_background_def inner_stop_inactivity_timer_def

text \<open>
  \<open>av_trace a b ms\<close>: \<open>b\<close> comes from \<open>a\<close>, \<open>ms\<close> was sent on the way, and the state now is the last message
  or unchanged.
\<close>

definition av_trace :: "api_availability \<Rightarrow> api_availability \<Rightarrow> api_state list \<Rightarrow> bool" where
  "av_trace a b ms \<longleftrightarrow> av_sent b = av_sent a @ ms \<and> av_state b = last (av_state a # ms)"

lemma av_trace_refl: "av_trace a a []"
  by (simp add: av_trace_def)

lemma av_trace_trans: "av_trace a b ms \<Longrightarrow> av_trace b c ms' \<Longrightarrow> av_trace a c (ms @ ms')"
  by (cases ms' rule: rev_cases) (auto simp: av_trace_def)

lemma av_trace_send: "av_trace a (av_send (a\<lparr>av_state := s\<rparr>)) [s]"
  by (simp add: av_trace_def av_send_def)

lemma av_trace_timer: "av_trace (a\<lparr>av_timer := t, av_next_timer := n\<rparr>) b ms \<Longrightarrow> av_trace a b ms"
  "av_trace a b ms \<Longrightarrow> av_trace a (b\<lparr>av_timer := t\<rparr>) ms"
  by (simp_all add: av_trace_def)

lemma inner_trace:
  "\<exists>ms. av_trace a (inner_suspend a) ms" "\<exists>ms. av_trace a (inner_unsuspend a) ms"
  "\<exists>ms. av_trace a (inner_set_inactive a) ms" "\<exists>ms. av_trace a (inner_set_active a) ms"
  "\<exists>ms. av_trace a (inner_set_offline b a) ms" "\<exists>ms. av_trace a (inner_pause_background a) ms"
  "\<exists>ms. av_trace a (inner_resume_background a) ms" "\<exists>ms. av_trace a (inner_stop_inactivity_timer a) ms"
  by (auto simp: inner_defs intro: av_trace_send av_trace_refl av_trace_timer(2))

lemma reset_inactivity_timer_trace: "\<exists>ms. av_trace a (reset_inactivity_timer a) ms"
  using inner_trace(4) [of "a\<lparr>av_timer := Some (av_next_timer a), av_next_timer := Suc (av_next_timer a)\<rparr>"]
  by (auto simp: reset_inactivity_timer_def inner_stop_inactivity_timer_def Let_def intro: av_trace_timer(1))

lemma resume_background_trace: "\<exists>ms. av_trace a (resume_background a) ms"
  using inner_trace(7) [of a] reset_inactivity_timer_trace av_trace_trans
  by (auto simp: resume_background_def Let_def) blast

lemma av_step_trace: "\<exists>ms. av_trace a (av_step op a) ms"
  by (cases op) (auto simp: inner_trace reset_inactivity_timer_trace resume_background_trace intro: av_trace_refl)

lemma av_steps_trace: "\<exists>ms. av_trace a (fold av_step ops a) ms"
proof (induction ops arbitrary: a)
  case Nil
  then show ?case by (auto intro: av_trace_refl)
next
  case (Cons op ops)
  then show ?case using av_step_trace [of a op] av_trace_trans by fastforce
qed

text \<open>
  A waiter that looked at the state of \<open>a\<close> and receives what is sent from then on has been woken
  by the time the state is ready.
\<close>

lemma wait_for_state_woken:
  assumes "state_ready (av_state (fold av_step ops a))"
  shows "wait_for_state state_ready (av_state a)
    (map Inr (drop (length (av_sent a)) (av_sent (fold av_step ops a)))) = Some (Inr ())"
proof -
  obtain ms where ms: "av_trace a (fold av_step ops a) ms" using av_steps_trace by blast
  then have "drop (length (av_sent a)) (av_sent (fold av_step ops a)) = ms" by (simp add: av_trace_def)
  moreover have "state_ready (av_state a) \<or> (\<exists>m \<in> set ms. state_ready m)"
    using ms assms by (cases ms rule: rev_cases) (auto simp: av_trace_def)
  ultimately show ?thesis by (auto simp: wait_for_state_def wait_loop_messages)
qed

section \<open>Inactivity\<close>

text \<open>
  The state is inactive only while no timer is pending other than the one that fired: a request
  that resets the timer makes it active.
\<close>

lemma reset_inactivity_timer_active:
  "\<not> as_inactive (av_state (reset_inactivity_timer a))" "av_timer (reset_inactivity_timer a) = Some (av_next_timer a)"
  by (simp_all add: reset_inactivity_timer_def inner_set_active_def inner_stop_inactivity_timer_def av_send_def Let_def)

end
