(* ===== verification/Version_Info.thy ===== *)
theory Version_Info
  imports Version "HOL-Library.Word"
begin

text \<open>
  From signed release metadata to the versions that are offered (\<open>mullvad-update/src/format/\<close>,
  \<open>version/info.rs\<close>, \<open>version/rollout.rs\<close>, \<open>mullvad-api/src/version.rs\<close>), and the updater that checks
  for them and keeps the result (\<open>mullvad-daemon/src/version/check.rs\<close>). JSON, the canonical form, and
  the signature scheme are parameters. An \<open>f32\<close> is its bit pattern.
\<close>

section \<open>Rollout\<close>

text \<open>
  In the range from zero to one the order of \<open>f32\<close> is that of the bit patterns, except for the
  negative zero, which is equal to zero.
\<close>

type_synonym rollout = u32

definition ROLLOUT_IGNORE :: rollout where "ROLLOUT_IGNORE = 0"
definition SUPPORTED_VERSION :: rollout where "SUPPORTED_VERSION = 0x34000000"
definition FULLY_ROLLED_OUT :: rollout where "FULLY_ROLLED_OUT = 0x3F800000"

definition rollout_key :: "u32 \<Rightarrow> nat" where
  "rollout_key x = (if x = 0x80000000 then 0 else unat x)"

definition f32_is_finite :: "u32 \<Rightarrow> bool" where
  "f32_is_finite x = (and x 0x7F800000 \<noteq> 0x7F800000)"

datatype rollout_error = NotFinite | OutsideRange

definition rollout_try_from :: "u32 \<Rightarrow> rollout_error + rollout" where
  "rollout_try_from x =
     (if \<not> f32_is_finite x then Inl NotFinite
      else if \<not> rollout_key x \<le> rollout_key FULLY_ROLLED_OUT then Inl OutsideRange
      else Inr x)"

definition rollout_ge :: "rollout \<Rightarrow> rollout \<Rightarrow> bool" where
  "rollout_ge a b = (rollout_key b \<le> rollout_key a)"

definition is_complete_rollout :: "rollout \<Rightarrow> bool" where
  "is_complete_rollout r = (rollout_key r = rollout_key FULLY_ROLLED_OUT)"

section \<open>Releases\<close>

datatype architecture = X86 | Arm64

record installer =
  in_architecture :: architecture
  in_urls :: "string list"
  in_size :: nat
  in_sha256 :: string

record release =
  rel_version :: app_version
  rel_changelog :: string
  rel_installers :: "installer list"
  rel_rollout :: rollout

record version_response =
  resp_metadata_version :: nat
  resp_metadata_expiry :: int
  resp_releases :: "release list"

record version_parameters =
  vp_architecture :: architecture
  vp_rollout :: rollout
  vp_allow_empty :: bool
  vp_lowest_metadata_version :: nat

record version_metadata =
  md_version :: app_version
  md_urls :: "string list"
  md_size :: nat
  md_changelog :: string
  md_sha256 :: "u8 list"

record version_info =
  vi_stable :: version_metadata
  vi_beta :: "version_metadata option"

datatype version_info_error = DuplicateVersions | InvalidChecksumHex | InvalidChecksumLength | NoStableVersion

text \<open>
  The metadata of one release: none if it has no installer for the architecture, an error if the checksum
  of the installer is not one. \<open>hex\<close> is \<open>hex::decode\<close>.
\<close>

definition release_metadata ::
  "(string \<Rightarrow> u8 list option) \<Rightarrow> version_parameters \<Rightarrow> release \<Rightarrow> (version_info_error + version_metadata) option" where
  "release_metadata hex params r =
     (if rel_installers r = [] \<and> vp_allow_empty params
      then Some (Inr \<lparr>md_version = rel_version r, md_urls = [], md_size = 0, md_changelog = rel_changelog r,
                       md_sha256 = replicate 32 0\<rparr>)
      else map_option (\<lambda>i.
             and_then (of_option InvalidChecksumHex (hex (in_sha256 i))) (\<lambda>bytes.
             if length bytes = 32
             then Inr \<lparr>md_version = rel_version r, md_urls = in_urls i, md_size = in_size i,
                       md_changelog = rel_changelog r, md_sha256 = bytes\<rparr>
             else Inl InvalidChecksumLength))
           (find (\<lambda>i. vp_architecture params = in_architecture i) (rel_installers r)))"

fun try_collect :: "('e + 'a) list \<Rightarrow> 'e + 'a list" where
  "try_collect [] = Inr []"
| "try_collect (x # xs) = and_then x (\<lambda>y. and_then (try_collect xs) (\<lambda>ys. Inr (y # ys)))"

text \<open>\<open>max_by\<close> with \<open>partial_cmp().unwrap_or(Equal)\<close>: of equal elements the last one.\<close>

definition max_by_version :: "version_metadata list \<Rightarrow> version_metadata option" where
  "max_by_version xs =
     (case xs of [] \<Rightarrow> None
      | x # xs \<Rightarrow> Some (foldl (\<lambda>a b. if version_gt (md_version a) (md_version b) then a else b) x xs))"

definition available_versions ::
  "(string \<Rightarrow> u8 list option) \<Rightarrow> version_parameters \<Rightarrow> release list \<Rightarrow> version_info_error + version_metadata list" where
  "available_versions hex params releases =
     try_collect (List.map_filter (release_metadata hex params)
       (filter (\<lambda>r. \<not> is_dev (rel_version r)) (filter (\<lambda>r. rollout_ge (rel_rollout r) (vp_rollout params)) releases)))"

definition try_from_response ::
  "(string \<Rightarrow> u8 list option) \<Rightarrow> version_parameters \<Rightarrow> version_response \<Rightarrow> version_info_error + version_info" where
  "try_from_response hex params response =
     (if \<not> distinct (map rel_version (resp_releases response)) then Inl DuplicateVersions
      else and_then (available_versions hex params (resp_releases response)) (\<lambda>available.
           and_then (of_option NoStableVersion
             (max_by_version (filter (\<lambda>m. av_pre_stable (md_version m) = None) available))) (\<lambda>stable.
           Inr \<lparr>vi_stable = stable,
                vi_beta = max_by_version (filter (\<lambda>m. version_gt (md_version m) (md_version stable))
                            (filter (\<lambda>m. is_beta (md_version m)) available))\<rparr>)))"

definition is_version_supported :: "app_version \<Rightarrow> version_response \<Rightarrow> bool" where
  "is_version_supported current response = list_ex (\<lambda>r. rel_version r = current) (resp_releases response)"

section \<open>Signed metadata\<close>

datatype response_signature = Ed25519 (rsig_keyid: string) (rsig_sig: string) | OtherSignature string string

text \<open>
  JSON and cryptography: parsing the envelope, the canonical bytes of a value, the check of a
  signature, parsing the canonical bytes again, and reading the response.
\<close>

record 'j metadata_codec =
  mc_envelope :: "string \<Rightarrow> (response_signature list \<times> 'j) option"
  mc_canonical :: "'j \<Rightarrow> string option"
  mc_verify_strict :: "string \<Rightarrow> string \<Rightarrow> string \<Rightarrow> bool"
  mc_parse :: "string \<Rightarrow> 'j option"
  mc_response :: "'j \<Rightarrow> version_response option"

datatype metadata_error =
  InvalidVersionJson
| UnrecognizedKey
| CanonicalFailed
| VerificationFailed
| ReparseFailed
| ResponseFailed
| MetadataExpired int
| MetadataTooOld nat nat

fun find_trusted_signature :: "string list \<Rightarrow> response_signature list \<Rightarrow> (string \<times> string) option" where
  "find_trusted_signature keys [] = None"
| "find_trusted_signature keys (Ed25519 keyid sig # sigs) =
     (if keyid \<in> set keys then Some (keyid, sig) else find_trusted_signature keys sigs)"
| "find_trusted_signature keys (OtherSignature _ _ # sigs) = find_trusted_signature keys sigs"

definition deserialize_and_verify ::
  "'j metadata_codec \<Rightarrow> string list \<Rightarrow> string \<Rightarrow> metadata_error + (response_signature list \<times> 'j)" where
  "deserialize_and_verify mc keys bytes =
     and_then (of_option InvalidVersionJson (mc_envelope mc bytes)) (\<lambda>(signatures, signed).
     and_then (of_option UnrecognizedKey (find_trusted_signature keys signatures)) (\<lambda>(key, sig).
     and_then (of_option CanonicalFailed (mc_canonical mc signed)) (\<lambda>canon_data.
     and_then (if mc_verify_strict mc key canon_data sig then Inr () else Inl VerificationFailed) (\<lambda>_.
     and_then (of_option ReparseFailed (mc_parse mc canon_data)) (\<lambda>signed.
     Inr (signatures, signed))))))"

definition deserialize_and_verify_at_time ::
  "'j metadata_codec \<Rightarrow> string list \<Rightarrow> string \<Rightarrow> int \<Rightarrow> nat \<Rightarrow> metadata_error + version_response" where
  "deserialize_and_verify_at_time mc keys bytes current_time min_metadata_version =
     and_then (deserialize_and_verify mc keys bytes) (\<lambda>(_, signed).
     and_then (of_option ResponseFailed (mc_response mc signed)) (\<lambda>response.
     if resp_metadata_expiry response \<le> current_time then Inl (MetadataExpired (resp_metadata_expiry response))
     else if resp_metadata_version response < min_metadata_version
     then Inl (MetadataTooOld (resp_metadata_version response) min_metadata_version)
     else Inr response))"

record app_version_response =
  avr_version_info :: version_info
  avr_metadata_version :: nat
  avr_current_version_supported :: bool
  avr_etag :: "string option"

datatype http_answer = HttpFailed string | HttpNotModified | HttpBody string "string option"

datatype version_check_error = CheckHttp string | FetchMetadata metadata_error | FetchVersions version_info_error

text \<open>
  The request and what is made of its answer: \<open>ask\<close> gets the entity tag and answers; the body of an
  answer that is not modified, without a tag in the request, is read like any other, and is empty.
\<close>

definition version_check ::
  "'j metadata_codec \<Rightarrow> string list \<Rightarrow> (string \<Rightarrow> u8 list option) \<Rightarrow> app_version \<Rightarrow> int \<Rightarrow> (string option \<Rightarrow> http_answer)
   \<Rightarrow> bool \<Rightarrow> architecture \<Rightarrow> nat \<Rightarrow> rollout \<Rightarrow> string option \<Rightarrow> version_check_error + app_version_response option" where
  "version_check mc keys hex current now ask linux architecture lowest rollout etag =
     (let answer = ask etag in
      if etag \<noteq> None \<and> answer = HttpNotModified then Inr None
      else case answer of
          HttpFailed e \<Rightarrow> Inl (CheckHttp e)
        | _ \<Rightarrow>
          (let (bytes, etag) = (case answer of HttpBody b t \<Rightarrow> (b, t) | _ \<Rightarrow> ([], None)) in
           and_then (map_sum FetchMetadata id (deserialize_and_verify_at_time mc keys bytes now lowest)) (\<lambda>response.
           and_then (map_sum FetchVersions id (try_from_response hex
               \<lparr>vp_architecture = architecture, vp_rollout = rollout, vp_allow_empty = linux,
                vp_lowest_metadata_version = lowest\<rparr> response)) (\<lambda>info.
           Inr (Some \<lparr>avr_version_info = info, avr_metadata_version = resp_metadata_version response,
             avr_current_version_supported = is_version_supported current response, avr_etag = etag\<rparr>)))))"

section \<open>The updater\<close>

record version_cache =
  vc_cache_version :: app_version
  vc_current_version_supported :: bool
  vc_version_info :: version_info
  vc_last_platform_header_check :: int
  vc_metadata_version :: nat
  vc_etag :: "string option"

definition PLATFORM_HEADER_INTERVAL :: int where "PLATFORM_HEADER_INTERVAL = 24 * 60 * 60"
definition MIN_VERIFY_METADATA_VERSION :: nat where "MIN_VERIFY_METADATA_VERSION = 0"

text \<open>\<open>elapsed\<close> fails when the time lies in the future.\<close>

definition should_include_platform_headers :: "int \<Rightarrow> int option \<Rightarrow> bool" where
  "should_include_platform_headers now time =
     (case time of None \<Rightarrow> True
      | Some t \<Rightarrow> if t \<le> now then PLATFORM_HEADER_INTERVAL \<le> now - t else True)"

definition cache_is_stale :: "version_cache \<Rightarrow> app_version \<Rightarrow> bool" where
  "cache_is_stale cache current = (vc_cache_version cache \<noteq> current)"

text \<open>
  One check. \<open>check\<close> is \<open>version_check\<close> with the lowest metadata version, whether to send platform
  headers, and the tag. Without a tag there is always a body, so the last case of an answer that is
  not modified is a panic.
\<close>

datatype check_error = CheckFailed version_check_error | CheckPanic string

definition version_check_inner ::
  "(nat \<Rightarrow> bool \<Rightarrow> string option \<Rightarrow> version_check_error + app_version_response option) \<Rightarrow> app_version \<Rightarrow> int
   \<Rightarrow> version_cache option \<Rightarrow> check_error + version_cache" where
  "version_check_inner check app_version now cache =
     (let make = (\<lambda>response last. \<lparr>vc_cache_version = app_version,
            vc_current_version_supported = avr_current_version_supported response,
            vc_version_info = avr_version_info response, vc_last_platform_header_check = last,
            vc_metadata_version = avr_metadata_version response, vc_etag = avr_etag response\<rparr>) in
      case cache of
        Some prev \<Rightarrow>
          (let add_headers = should_include_platform_headers now (Some (vc_last_platform_header_check prev));
               last = (if add_headers then now else vc_last_platform_header_check prev) in
           case check (vc_metadata_version prev) add_headers (vc_etag prev) of
             Inl e \<Rightarrow> Inl (CheckFailed e)
           | Inr None \<Rightarrow> Inr (prev\<lparr>vc_last_platform_header_check := last\<rparr>)
           | Inr (Some response) \<Rightarrow> Inr (make response last))
      | None \<Rightarrow>
          (case check MIN_VERIFY_METADATA_VERSION True None of
             Inl e \<Rightarrow> Inl (CheckFailed e)
           | Inr None \<Rightarrow> Inl (CheckPanic ''function must return body if no etag was set'')
           | Inr (Some response) \<Rightarrow> Inr (make response now)))"

record version_updater =
  vu_last :: "version_cache option"
  vu_sent :: "version_cache list"

definition ignore_cache_if_same_version :: "version_updater \<Rightarrow> version_cache \<Rightarrow> version_cache" where
  "ignore_cache_if_same_version self new =
     (case vu_last self of
        Some current \<Rightarrow>
          if vc_metadata_version current = vc_metadata_version new
          then current\<lparr>vc_last_platform_header_check := vc_last_platform_header_check new, vc_etag := vc_etag new\<rparr>
          else new
      | None \<Rightarrow> new)"

definition update_version_info :: "version_cache \<Rightarrow> version_updater \<Rightarrow> version_updater" where
  "update_version_info new self =
     (let new = ignore_cache_if_same_version self new in
      self\<lparr>vu_sent := vu_sent self @ [new], vu_last := Some new\<rparr>)"

definition handle_version_response :: "check_error + version_cache \<Rightarrow> version_updater \<Rightarrow> version_updater" where
  "handle_version_response response self =
     (case response of
        Inr info \<Rightarrow> update_version_info info self
      | Inl _ \<Rightarrow>
          (case vu_last self of
             Some info \<Rightarrow> update_version_info info self
           | None \<Rightarrow> self))"

text \<open>Loading the cache: a cache of another version of the application is not used.\<close>

definition try_load_cache :: "(string \<Rightarrow> version_cache option) \<Rightarrow> app_version \<Rightarrow> string option \<Rightarrow> version_cache option" where
  "try_load_cache deserialize current content =
     (case content of None \<Rightarrow> None
      | Some s \<Rightarrow>
          (case deserialize s of
             None \<Rightarrow> None
           | Some cache \<Rightarrow> if cache_is_stale cache current then None else Some cache))"

text \<open>
  The loop of the updater. A check that is running remembers the cache it was started with, which bounds
  the metadata version it accepts. A request while a foreground check runs is not started again; the
  timer of the background check is armed again only once that check has ended.
\<close>

record updater_loop =
  ul_updater :: version_updater
  ul_fg :: "version_cache option option"
  ul_bg :: "version_cache option option"
  ul_timer :: bool

datatype updater_event =
  RefreshRequest
| NextCheck
| BackgroundDone "check_error + version_cache"
| ForegroundDone "check_error + version_cache"

definition updater_run_inner :: "updater_event \<Rightarrow> updater_loop \<Rightarrow> updater_loop" where
  "updater_run_inner event self =
     (case event of
        RefreshRequest \<Rightarrow>
          (if ul_fg self \<noteq> None then self else self\<lparr>ul_fg := Some (vu_last (ul_updater self))\<rparr>)
      | NextCheck \<Rightarrow>
          (if ul_timer self then self\<lparr>ul_timer := False, ul_bg := Some (vu_last (ul_updater self))\<rparr> else self)
      | BackgroundDone response \<Rightarrow>
          (if ul_bg self = None then self
           else self\<lparr>ul_updater := handle_version_response response (ul_updater self), ul_bg := None, ul_timer := True\<rparr>)
      | ForegroundDone response \<Rightarrow>
          (if ul_fg self = None then self
           else self\<lparr>ul_updater := handle_version_response response (ul_updater self), ul_fg := None\<rparr>))"

definition updater_loop_start :: "version_cache option \<Rightarrow> updater_loop" where
  "updater_loop_start cache =
     \<lparr>ul_updater = \<lparr>vu_last = cache, vu_sent = []\<rparr>, ul_fg = None, ul_bg = None, ul_timer = True\<rparr>"

section \<open>The offered versions\<close>

lemma foldl_max:
  "(\<forall>y \<in> set xs. \<not> is_dev (md_version y)) \<Longrightarrow> \<not> is_dev (md_version x) \<Longrightarrow>
   m = foldl (\<lambda>a b. if version_gt (md_version a) (md_version b) then a else b) x xs \<Longrightarrow>
   m \<in> set (x # xs) \<and> (\<forall>y \<in> set (x # xs). \<not> version_gt (md_version y) (md_version m))"
proof (induction xs arbitrary: x)
  case (Cons y ys)
  let ?z = "if version_gt (md_version x) (md_version y) then x else y"
  have z: "m \<in> set (?z # ys)" "\<forall>w \<in> set (?z # ys). \<not> version_gt (md_version w) (md_version m)"
    using Cons.IH [of ?z] Cons.prems by auto
  have "\<not> version_gt (md_version x) (md_version m)" "\<not> version_gt (md_version y) (md_version m)"
    using z(2) version_gt_trans version_total [of "md_version x" "md_version y"] Cons.prems(1,2)
    by (auto split: if_splits)
  with z show ?case by (auto split: if_splits)
qed simp

lemma max_by_version_Some:
  assumes "max_by_version xs = Some m" "\<forall>y \<in> set xs. \<not> is_dev (md_version y)"
  shows "m \<in> set xs" "\<forall>y \<in> set xs. \<not> version_gt (md_version y) (md_version m)"
  using assms foldl_max [of _ _ m] by (auto simp: max_by_version_def split: list.splits)

lemma max_by_version_None: "max_by_version xs = None \<longleftrightarrow> xs = []"
  by (auto simp: max_by_version_def split: list.splits)

lemma try_collect_Inr: "try_collect xs = Inr ys \<Longrightarrow> xs = map Inr ys"
  by (induction xs arbitrary: ys) auto

lemma release_metadata_version: "release_metadata hex params r = Some (Inr m) \<Longrightarrow> md_version m = rel_version r"
  by (auto simp: release_metadata_def split: if_splits)

definition offered :: "version_parameters \<Rightarrow> release \<Rightarrow> bool" where
  "offered params r = (rollout_ge (rel_rollout r) (vp_rollout params) \<and> \<not> is_dev (rel_version r))"

lemma available_versions_Inr:
  assumes "available_versions hex params releases = Inr ms"
  shows "m \<in> set ms \<longleftrightarrow> (\<exists>r \<in> set releases. offered params r \<and> release_metadata hex params r = Some (Inr m))"
proof -
  have "set (map Inr ms) = {x. \<exists>r \<in> set releases. offered params r \<and> release_metadata hex params r = Some x}"
    using try_collect_Inr [OF assms [unfolded available_versions_def]]
    by (auto simp: offered_def set_map_filter simp flip: \<open>_ = map Inr ms\<close>)
  then show ?thesis by (auto simp: image_iff set_eq_iff)
qed

lemma available_not_dev:
  "available_versions hex params releases = Inr ms \<Longrightarrow> m \<in> set ms \<Longrightarrow> \<not> is_dev (md_version m)"
  by (auto simp: available_versions_Inr offered_def dest: release_metadata_version)

lemma try_from_response_Inr:
  assumes "try_from_response hex params response = Inr info"
  obtains available where "available_versions hex params (resp_releases response) = Inr available"
    and "distinct (map rel_version (resp_releases response))"
    and "max_by_version (filter (\<lambda>m. av_pre_stable (md_version m) = None) available) = Some (vi_stable info)"
    and "vi_beta info = max_by_version (filter (\<lambda>m. version_gt (md_version m) (md_version (vi_stable info)))
                            (filter (\<lambda>m. is_beta (md_version m)) available))"
  using assms by (auto simp: try_from_response_def split: if_splits)

lemma try_from_response_stable:
  assumes "try_from_response hex params response = Inr info"
  shows "\<exists>r \<in> set (resp_releases response). offered params r \<and> is_stable (rel_version r) \<and>
      release_metadata hex params r = Some (Inr (vi_stable info))"
    and "r \<in> set (resp_releases response) \<Longrightarrow> offered params r \<Longrightarrow> is_stable (rel_version r) \<Longrightarrow>
      release_metadata hex params r = Some (Inr m) \<Longrightarrow> \<not> version_gt (rel_version r) (md_version (vi_stable info))"
proof -
  obtain ms where ms: "available_versions hex params (resp_releases response) = Inr ms"
    "max_by_version (filter (\<lambda>m. av_pre_stable (md_version m) = None) ms) = Some (vi_stable info)"
    by (rule try_from_response_Inr [OF assms])
  have nd: "\<forall>y \<in> set (filter (\<lambda>m. av_pre_stable (md_version m) = None) ms). \<not> is_dev (md_version y)"
    using available_not_dev [OF ms(1)] by auto
  note max = max_by_version_Some [OF ms(2) nd]
  show "\<exists>r \<in> set (resp_releases response). offered params r \<and> is_stable (rel_version r) \<and>
      release_metadata hex params r = Some (Inr (vi_stable info))"
  proof -
    obtain r where r: "r \<in> set (resp_releases response)" "offered params r"
      "release_metadata hex params r = Some (Inr (vi_stable info))"
      using max(1) available_versions_Inr [OF ms(1)] by auto
    moreover have "is_stable (rel_version r)"
      using max(1) r(2) release_metadata_version [OF r(3)] by (simp add: is_stable_def offered_def)
    ultimately show ?thesis by blast
  qed
  show "\<not> version_gt (rel_version r) (md_version (vi_stable info))"
    if r: "r \<in> set (resp_releases response)" "offered params r" "is_stable (rel_version r)"
      "release_metadata hex params r = Some (Inr m)"
  proof -
    have "md_version m = rel_version r" using r(4) by (rule release_metadata_version)
    moreover have "m \<in> set ms" using available_versions_Inr [OF ms(1)] r by blast
    ultimately show ?thesis using max(2) r(3) by (auto simp: is_stable_def)
  qed
qed

lemma try_from_response_beta:
  assumes "try_from_response hex params response = Inr info" and "vi_beta info = Some b"
  shows "\<exists>r \<in> set (resp_releases response). offered params r \<and> is_beta (rel_version r) \<and>
      release_metadata hex params r = Some (Inr b)"
    and "version_gt (md_version b) (md_version (vi_stable info))"
    and "r \<in> set (resp_releases response) \<Longrightarrow> offered params r \<Longrightarrow> is_beta (rel_version r) \<Longrightarrow>
      release_metadata hex params r = Some (Inr m) \<Longrightarrow> \<not> version_gt (rel_version r) (md_version b)"
proof -
  obtain ms where ms: "available_versions hex params (resp_releases response) = Inr ms"
    "max_by_version (filter (\<lambda>m. version_gt (md_version m) (md_version (vi_stable info)))
       (filter (\<lambda>m. is_beta (md_version m)) ms)) = Some b"
    using try_from_response_Inr [OF assms(1)] assms(2) by metis
  have nd: "\<forall>y \<in> set (filter (\<lambda>m. version_gt (md_version m) (md_version (vi_stable info)))
       (filter (\<lambda>m. is_beta (md_version m)) ms)). \<not> is_dev (md_version y)"
    using available_not_dev [OF ms(1)] by auto
  note max = max_by_version_Some [OF ms(2) nd]
  show gt: "version_gt (md_version b) (md_version (vi_stable info))" using max(1) by simp
  show "\<exists>r \<in> set (resp_releases response). offered params r \<and> is_beta (rel_version r) \<and>
      release_metadata hex params r = Some (Inr b)"
  proof -
    obtain r where r: "r \<in> set (resp_releases response)" "offered params r"
      "release_metadata hex params r = Some (Inr b)"
      using max(1) available_versions_Inr [OF ms(1)] by auto
    moreover have "is_beta (rel_version r)" using max(1) release_metadata_version [OF r(3)] by simp
    ultimately show ?thesis by blast
  qed
  show "\<not> version_gt (rel_version r) (md_version b)"
    if r: "r \<in> set (resp_releases response)" "offered params r" "is_beta (rel_version r)"
      "release_metadata hex params r = Some (Inr m)"
  proof
    assume newer: "version_gt (rel_version r) (md_version b)"
    have m: "md_version m = rel_version r" using r(4) by (rule release_metadata_version)
    have "m \<in> set ms" using available_versions_Inr [OF ms(1)] r by blast
    moreover have "version_gt (md_version m) (md_version (vi_stable info))"
      using newer gt m version_gt_trans by simp
    ultimately show False using max(2) newer m r(3) by auto
  qed
qed

text \<open>One release with a bad checksum is an error for all.\<close>

lemma release_metadata_ok:
  assumes "try_from_response hex params response = Inr info" and "r \<in> set (resp_releases response)"
    and "offered params r" and "release_metadata hex params r \<noteq> None"
  obtains m where "release_metadata hex params r = Some (Inr m)"
proof -
  obtain ms where "available_versions hex params (resp_releases response) = Inr ms"
    by (rule try_from_response_Inr [OF assms(1)])
  note all = try_collect_Inr [OF this [unfolded available_versions_def]]
  obtain x where x: "release_metadata hex params r = Some x" using assms(4) by auto
  then have "x \<in> set (map Inr ms)"
    unfolding all [symmetric] set_map_filter using assms(2,3) by (auto simp: offered_def)
  with x that show ?thesis by auto
qed

section \<open>Signed and not rolled back\<close>

lemma find_trusted_signature_Some:
  "find_trusted_signature keys sigs = Some (k, s) \<Longrightarrow> k \<in> set keys \<and> Ed25519 k s \<in> set sigs"
  by (induction keys sigs rule: find_trusted_signature.induct) (auto split: if_splits)

lemma deserialize_and_verify_signed:
  assumes "deserialize_and_verify_at_time mc keys bytes now lowest = Inr response"
  shows "\<exists>key \<in> set keys. \<exists>data sig signed. mc_verify_strict mc key data sig \<and> mc_parse mc data = Some signed \<and>
      mc_response mc signed = Some response"
    and "now < resp_metadata_expiry response" and "lowest \<le> resp_metadata_version response"
proof -
  obtain sigs j key sig data signed where
    "find_trusted_signature keys sigs = Some (key, sig)" "mc_canonical mc j = Some data"
    "mc_verify_strict mc key data sig" "mc_parse mc data = Some signed" "mc_response mc signed = Some response"
    and *: "now < resp_metadata_expiry response" "lowest \<le> resp_metadata_version response"
    using assms
    by (auto simp: deserialize_and_verify_at_time_def deserialize_and_verify_def split: if_splits)
  moreover from this have "key \<in> set keys" by (blast dest: find_trusted_signature_Some)
  ultimately show "\<exists>key \<in> set keys. \<exists>data sig signed. mc_verify_strict mc key data sig \<and> mc_parse mc data = Some signed \<and>
      mc_response mc signed = Some response" by blast
  show "now < resp_metadata_expiry response" "lowest \<le> resp_metadata_version response" by (fact *)+
qed

lemma map_sum_Inr [simp]: "map_sum f id x = Inr y \<longleftrightarrow> x = Inr y"
  by (cases x) auto

lemma version_check_Some:
  assumes "version_check mc keys hex current now ask linux arch lowest rollout etag = Inr (Some r)"
  obtains response bytes where "deserialize_and_verify_at_time mc keys bytes now lowest = Inr response"
    and "try_from_response hex \<lparr>vp_architecture = arch, vp_rollout = rollout, vp_allow_empty = linux,
           vp_lowest_metadata_version = lowest\<rparr> response = Inr (avr_version_info r)"
    and "avr_metadata_version r = resp_metadata_version response"
    and "avr_current_version_supported r = is_version_supported current response"
  using assms that
  by (cases "ask etag") (auto simp: version_check_def Let_def and_then_Inr_iff split: if_splits)

section \<open>The updater loop\<close>

text \<open>
  An event that one of the two checks can give: its answer is not older than the cache it was started
  with, which is what \<open>version_check\<close> guarantees.
\<close>

definition not_older :: "version_cache option \<Rightarrow> version_cache \<Rightarrow> bool" where
  "not_older prev new = (case prev of None \<Rightarrow> True | Some p \<Rightarrow> vc_metadata_version p \<le> vc_metadata_version new)"

definition event_possible :: "updater_event \<Rightarrow> updater_loop \<Rightarrow> bool" where
  "event_possible event self =
     (case event of
        BackgroundDone (Inr new) \<Rightarrow> (case ul_bg self of Some prev \<Rightarrow> not_older prev new | None \<Rightarrow> False)
      | ForegroundDone (Inr new) \<Rightarrow> (case ul_fg self of Some prev \<Rightarrow> not_older prev new | None \<Rightarrow> False)
      | _ \<Rightarrow> True)"

lemma version_check_inner_not_older:
  assumes "version_check_inner (\<lambda>lowest headers etag. version_check mc keys hex app now (ask headers) linux arch lowest rollout etag)
      app now' cache = Inr new"
  shows "not_older cache new"
proof (cases cache)
  case (Some prev)
  let ?check = "version_check mc keys hex app now
    (ask (should_include_platform_headers now' (Some (vc_last_platform_header_check prev))))
    linux arch (vc_metadata_version prev) rollout (vc_etag prev)"
  consider "?check = Inr None" | r where "?check = Inr (Some r)" "vc_metadata_version new = avr_metadata_version r"
    using assms Some by (auto simp: version_check_inner_def Let_def split: sum.splits option.splits)
  then show ?thesis
  proof cases
    case 1
    then show ?thesis using assms Some by (auto simp: version_check_inner_def Let_def not_older_def split: if_splits)
  next
    case (2 r)
    then show ?thesis
      using Some by (elim version_check_Some) (auto simp: not_older_def dest: deserialize_and_verify_signed(3))
  qed
qed (simp add: not_older_def)

lemma update_version_info_last [simp]:
  "vu_last (update_version_info new self) = Some (ignore_cache_if_same_version self new)"
  by (simp add: update_version_info_def Let_def)

lemma ignore_cache_metadata_version [simp]:
  "vc_metadata_version (ignore_cache_if_same_version self new) = vc_metadata_version new"
  by (simp add: ignore_cache_if_same_version_def split: option.split)

text \<open>As long as only one check runs at a time, it was started with the cache that is still the last one.\<close>

definition checks_current :: "updater_loop \<Rightarrow> bool" where
  "checks_current self =
     ((ul_fg self = None \<or> ul_bg self = None) \<and>
      (ul_fg self = None \<or> ul_fg self = Some (vu_last (ul_updater self))) \<and>
      (ul_bg self = None \<or> ul_bg self = Some (vu_last (ul_updater self))) \<and> (ul_timer self \<longrightarrow> ul_bg self = None))"

definition sequential :: "updater_event \<Rightarrow> updater_loop \<Rightarrow> bool" where
  "sequential event self =
     ((event = RefreshRequest \<longrightarrow> ul_bg self = None) \<and> (event = NextCheck \<longrightarrow> ul_fg self = None))"

definition metadata_at_least :: "version_cache option \<Rightarrow> version_cache option \<Rightarrow> bool" where
  "metadata_at_least old new = (case new of None \<Rightarrow> old = None | Some n \<Rightarrow> not_older old n)"

lemma metadata_at_least_refl [simp]: "metadata_at_least c c"
  by (simp add: metadata_at_least_def not_older_def split: option.split)

lemma metadata_at_least_trans: "metadata_at_least a b \<Longrightarrow> metadata_at_least b c \<Longrightarrow> metadata_at_least a c"
  by (auto simp: metadata_at_least_def not_older_def split: option.splits)

lemma handle_version_response_at_least:
  "(\<And>new. response = Inr new \<Longrightarrow> not_older (vu_last self) new) \<Longrightarrow>
   metadata_at_least (vu_last self) (vu_last (handle_version_response response self))"
  by (cases response) (auto simp: handle_version_response_def metadata_at_least_def not_older_def split: option.splits)

lemma updater_run_inner_sequential:
  assumes "checks_current s" "event_possible e s" "sequential e s"
  shows "checks_current (updater_run_inner e s)"
    and "metadata_at_least (vu_last (ul_updater s)) (vu_last (ul_updater (updater_run_inner e s)))"
proof -
  show "checks_current (updater_run_inner e s)"
    using assms by (cases e) (auto simp: updater_run_inner_def checks_current_def sequential_def)
  show "metadata_at_least (vu_last (ul_updater s)) (vu_last (ul_updater (updater_run_inner e s)))"
    using assms
    by (cases e) (auto simp: updater_run_inner_def checks_current_def event_possible_def
        intro!: handle_version_response_at_least)
qed

fun updater_steps :: "(updater_event \<Rightarrow> updater_loop \<Rightarrow> bool) \<Rightarrow> updater_event list \<Rightarrow> updater_loop \<Rightarrow> bool" where
  "updater_steps ok [] s = True"
| "updater_steps ok (e # es) s = (ok e s \<and> updater_steps ok es (updater_run_inner e s))"

lemma updater_run_sequential:
  "checks_current s \<Longrightarrow> updater_steps event_possible es s \<Longrightarrow> updater_steps sequential es s \<Longrightarrow>
   metadata_at_least (vu_last (ul_updater s)) (vu_last (ul_updater (fold updater_run_inner es s)))"
proof (induction es arbitrary: s)
  case (Cons e es)
  then show ?case
    using updater_run_inner_sequential [of s e] by (auto intro: metadata_at_least_trans)
qed simp

end
