(* ===== verification/Version_Router.thy ===== *)
theory Version_Router
  imports Version_Info
begin

text \<open>
  The version router (\<open>mullvad-daemon/src/version/router.rs\<close>) with the downloader it starts
  (\<open>downloader.rs\<close>), in the build that has in-app upgrades: it passes new versions on to the daemon and
  to whoever asked, and runs at most one download. Dropping the handle of a download aborts it and
  says so on the broadcast channel. A panic is an error. The installed version is an argument, and so is
  \<open>bin_path\<close>, the place of the installer of a version in the download directory.
\<close>

section \<open>Version information\<close>

record suggested_upgrade =
  su_version :: app_version
  su_changelog :: string
  su_verified_installer_path :: "string option"

record app_version_info =
  avi_current_version_supported :: bool
  avi_suggested_upgrade :: "suggested_upgrade option"

datatype app_upgrade_error = GeneralError | DownloadFailed | VerificationFailed

record app_upgrade_download_progress =
  adp_server :: string
  adp_progress :: nat
  adp_time_left :: "int option"

datatype app_upgrade_event =
  DownloadStarting | DownloadProgress app_upgrade_download_progress | UpgradeAborted | VerifyingInstaller | VerifiedInstaller | UpgradeError app_upgrade_error

definition recommended_version_upgrade :: "app_version \<Rightarrow> version_info \<Rightarrow> bool \<Rightarrow> version_metadata option" where
  "recommended_version_upgrade current info beta_program =
     (let details = (if beta_program then (case vi_beta info of Some b \<Rightarrow> b | None \<Rightarrow> vi_stable info)
                     else vi_stable info)
      in if version_gt (md_version details) current then Some details else None)"

definition to_app_version_info :: "app_version \<Rightarrow> version_cache \<Rightarrow> bool \<Rightarrow> string option \<Rightarrow> app_version_info" where
  "to_app_version_info current cache beta_program path =
     \<lparr>avi_current_version_supported = vc_current_version_supported cache,
      avi_suggested_upgrade = map_option (\<lambda>v.
        \<lparr>su_version = md_version v, su_changelog = md_changelog v, su_verified_installer_path = path\<rparr>)
        (recommended_version_upgrade current (vc_version_info cache) beta_program)\<rparr>"

section \<open>The downloader\<close>

text \<open>
  The task of a download: the events it broadcasts and whether it has a verified installer. \<open>url\<close> is the
  mirror that was chosen, if there is one; the other arguments are the outcomes of its steps and the
  progress that the download reports on its way.
\<close>

definition downloader_start ::
  "string option \<Rightarrow> bool \<Rightarrow> app_upgrade_download_progress list \<Rightarrow> bool \<Rightarrow> bool \<Rightarrow> app_upgrade_event list \<times> bool" where
  "downloader_start url dir_ok progress download_ok verify_ok =
     (case url of
        None \<Rightarrow> ([], False)
      | Some _ \<Rightarrow>
          if \<not> dir_ok then ([UpgradeError GeneralError], False)
          else
            let started = DownloadStarting # map DownloadProgress progress in
            if \<not> download_ok then (started @ [UpgradeError DownloadFailed], False)
            else if \<not> verify_ok then (started @ [VerifyingInstaller, UpgradeError VerificationFailed], False)
            else (started @ [VerifyingInstaller, VerifiedInstaller], True))"

text \<open>What awaiting the handle gives: the result of the task, or that the task was cancelled or panicked.\<close>

datatype download_result = DownloadOk | DownloadErr | DownloadJoinError

section \<open>The router\<close>

datatype router_state =
  NoVersion
| HasVersion version_cache
| Downloading version_cache version_metadata
| Downloaded version_cache string

record version_router =
  vr_state :: router_state
  vr_beta_program :: bool
  vr_version_request_channels :: "nat list"
  vr_version_events :: "app_version_info list"
  vr_replies :: "(nat \<times> app_version_info) list"
  vr_failed_replies :: "nat list"
  vr_broadcast :: "app_upgrade_event list"
  vr_downloads :: "version_metadata list"

definition get_version_cache :: "router_state \<Rightarrow> version_cache option" where
  "get_version_cache s =
     (case s of NoVersion \<Rightarrow> None | HasVersion c \<Rightarrow> Some c | Downloading c _ \<Rightarrow> Some c | Downloaded c _ \<Rightarrow> Some c)"

definition version_router_new :: "bool \<Rightarrow> version_router" where
  "version_router_new beta_program =
     \<lparr>vr_state = NoVersion, vr_beta_program = beta_program, vr_version_request_channels = [], vr_version_events = [],
      vr_replies = [], vr_failed_replies = [], vr_broadcast = [], vr_downloads = []\<rparr>"

text \<open>Leaving a state drops what it owns: the handle of a download that has not ended.\<close>

definition set_router_state :: "router_state \<Rightarrow> version_router \<Rightarrow> version_router" where
  "set_router_state s self =
     self\<lparr>vr_state := s,
          vr_broadcast := vr_broadcast self @
            (case vr_state self of Downloading _ _ \<Rightarrow> [UpgradeAborted] | _ \<Rightarrow> [])\<rparr>"

definition send_version_event :: "app_version_info \<Rightarrow> version_router \<Rightarrow> version_router" where
  "send_version_event info self = self\<lparr>vr_version_events := vr_version_events self @ [info]\<rparr>"

definition notify_version_requesters :: "app_version_info \<Rightarrow> version_router \<Rightarrow> version_router" where
  "notify_version_requesters info self =
     self\<lparr>vr_replies := vr_replies self @ map (\<lambda>tx. (tx, info)) (vr_version_request_channels self),
          vr_version_request_channels := []\<rparr>"

definition on_new_version :: "app_version \<Rightarrow> version_cache \<Rightarrow> version_router \<Rightarrow> version_router \<times> app_version_info \<times> bool" where
  "on_new_version current cache self =
     (let beta = vr_beta_program self in
      case vr_state self of
        NoVersion \<Rightarrow>
          (set_router_state (HasVersion cache) self, to_app_version_info current cache beta None, True)
      | HasVersion prev \<Rightarrow>
          (let info = to_app_version_info current cache beta None in
           (set_router_state (HasVersion cache) self, info, info \<noteq> to_app_version_info current prev beta None))
      | Downloading prev upgrading_to \<Rightarrow>
          (let info = to_app_version_info current cache beta None in
           if info = to_app_version_info current prev beta None
           then (self\<lparr>vr_state := Downloading cache upgrading_to\<rparr>, info, False)
           else (set_router_state (HasVersion cache) self, info, True))
      | Downloaded prev path \<Rightarrow>
          (let info = to_app_version_info current cache beta (Some path) in
           if info = to_app_version_info current prev beta (Some path)
           then (self\<lparr>vr_state := Downloaded cache path\<rparr>, info, False)
           else (set_router_state (HasVersion cache) self, info, True)))"

definition handle_new_version :: "app_version \<Rightarrow> version_cache \<Rightarrow> version_router \<Rightarrow> version_router" where
  "handle_new_version current cache self =
     (case on_new_version current cache self of (self, info, is_new) \<Rightarrow>
        let self = notify_version_requesters info self in
        if is_new then send_version_event info self else self)"

definition router_set_beta_program :: "app_version \<Rightarrow> bool \<Rightarrow> version_router \<Rightarrow> string + version_router" where
  "router_set_beta_program current new_state self =
     (if new_state = vr_beta_program self then Inr self
      else
        let previous_state = vr_beta_program self; self = self\<lparr>vr_beta_program := new_state\<rparr> in
        case get_version_cache (vr_state self) of
          None \<Rightarrow> Inr self
        | Some cache \<Rightarrow>
            (let info = to_app_version_info current cache new_state None in
             if info = to_app_version_info current cache previous_state None then Inr self
             else
               case vr_state self of
                 NoVersion \<Rightarrow> Inl ''Can't get recommended upgrade on beta change without version''
               | _ \<Rightarrow>
                   Inr (notify_version_requesters info
                          (send_version_event info (set_router_state (HasVersion cache) self)))))"

text \<open>\<open>refresh_open\<close>: the updater still receives requests to refresh.\<close>

definition router_get_latest_version :: "bool \<Rightarrow> nat \<Rightarrow> version_router \<Rightarrow> version_router" where
  "router_get_latest_version refresh_open tx self =
     (if refresh_open
      then self\<lparr>vr_version_request_channels := vr_version_request_channels self @ [tx]\<rparr>
      else self\<lparr>vr_failed_replies := vr_failed_replies self @ [tx]\<rparr>)"

definition update_application :: "app_version \<Rightarrow> version_router \<Rightarrow> version_router" where
  "update_application current self =
     (case vr_state self of
        HasVersion cache \<Rightarrow>
          (case recommended_version_upgrade current (vc_version_info cache) (vr_beta_program self) of
             None \<Rightarrow> self
           | Some upgrading_to \<Rightarrow>
               self\<lparr>vr_state := Downloading cache upgrading_to, vr_downloads := vr_downloads self @ [upgrading_to]\<rparr>)
      | _ \<Rightarrow> self)"

definition cancel_upgrade :: "app_version \<Rightarrow> version_router \<Rightarrow> version_router" where
  "cancel_upgrade current self =
     (case vr_state self of
        Downloading cache _ \<Rightarrow> set_router_state (HasVersion cache) self
      | Downloaded cache _ \<Rightarrow>
          (let info = to_app_version_info current cache (vr_beta_program self) None;
               self = set_router_state (HasVersion cache) self;
               self = self\<lparr>vr_broadcast := vr_broadcast self @ [UpgradeAborted]\<rparr>
           in send_version_event info (notify_version_requesters info self))
      | _ \<Rightarrow> self)"

text \<open>
  \<open>wait_for_update\<close>: a download that has ended leaves its handle without anything to broadcast, except when its
  task could not be joined. In the other states it never resolves.
\<close>

definition wait_for_update :: "(app_version \<Rightarrow> string) \<Rightarrow> download_result \<Rightarrow> version_router \<Rightarrow> version_router" where
  "wait_for_update bin_path result self =
     (case vr_state self of
        Downloading cache upgrading_to \<Rightarrow>
          (case result of
             DownloadOk \<Rightarrow>
               (let path = bin_path (md_version upgrading_to) in
                send_version_event
                  \<lparr>avi_current_version_supported = vc_current_version_supported cache,
                   avi_suggested_upgrade = Some \<lparr>su_version = md_version upgrading_to,
                     su_changelog = md_changelog upgrading_to, su_verified_installer_path = Some path\<rparr>\<rparr>
                  (self\<lparr>vr_state := Downloaded cache path\<rparr>))
           | DownloadErr \<Rightarrow> self\<lparr>vr_state := HasVersion cache\<rparr>
           | DownloadJoinError \<Rightarrow> set_router_state (HasVersion cache) self)
      | _ \<Rightarrow> self)"

datatype router_message =
  SetBetaProgram bool
| GetLatestVersion nat
| UpdateApplication
| CancelUpdate
| GetCacheDir

definition router_handle_message :: "app_version \<Rightarrow> bool \<Rightarrow> router_message \<Rightarrow> version_router \<Rightarrow> string + version_router" where
  "router_handle_message current refresh_open message self =
     (case message of
        SetBetaProgram state \<Rightarrow> router_set_beta_program current state self
      | GetLatestVersion tx \<Rightarrow> Inr (router_get_latest_version refresh_open tx self)
      | UpdateApplication \<Rightarrow> Inr (update_application current self)
      | CancelUpdate \<Rightarrow> Inr (cancel_upgrade current self)
      | GetCacheDir \<Rightarrow> Inr self)"

datatype router_input = NewVersion version_cache | DownloadEnded download_result | RouterMessage bool router_message

definition router_run_step :: "app_version \<Rightarrow> (app_version \<Rightarrow> string) \<Rightarrow> router_input \<Rightarrow> version_router \<Rightarrow> string + version_router" where
  "router_run_step current bin_path input self =
     (case input of
        NewVersion cache \<Rightarrow> Inr (handle_new_version current cache self)
      | DownloadEnded result \<Rightarrow> Inr (wait_for_update bin_path result self)
      | RouterMessage refresh_open message \<Rightarrow> router_handle_message current refresh_open message self)"

section \<open>Invariant\<close>

lemma recommended_newer:
  "recommended_version_upgrade current info beta = Some v \<Longrightarrow> version_gt (md_version v) current"
  by (auto simp: recommended_version_upgrade_def Let_def split: if_splits)

text \<open>The information that a cache, the program and a path give, compared: the upgrades are the same.\<close>

lemma to_app_version_info_eq:
  assumes "to_app_version_info current c b p = to_app_version_info current c' b' p"
    and "recommended_version_upgrade current (vc_version_info c') b' = Some v'"
  obtains v where "recommended_version_upgrade current (vc_version_info c) b = Some v"
    and "md_version v = md_version v'" and "md_changelog v = md_changelog v'"
  using assms by (auto simp: to_app_version_info_def)

text \<open>The upgrade that a version cache offers, by what the user sees of it.\<close>

definition offers :: "app_version \<Rightarrow> version_cache \<Rightarrow> bool \<Rightarrow> app_version \<Rightarrow> bool" where
  "offers current cache beta v =
     (\<exists>m. recommended_version_upgrade current (vc_version_info cache) beta = Some m \<and> md_version m = v)"

definition state_ok :: "app_version \<Rightarrow> (app_version \<Rightarrow> string) \<Rightarrow> bool \<Rightarrow> router_state \<Rightarrow> bool" where
  "state_ok current bin_path beta s =
     (case s of
        Downloading cache m \<Rightarrow> offers current cache beta (md_version m)
      | Downloaded cache path \<Rightarrow> \<exists>v. offers current cache beta v \<and> path = bin_path v
      | _ \<Rightarrow> True)"

definition upgrades_only :: "app_version \<Rightarrow> app_version_info \<Rightarrow> bool" where
  "upgrades_only current info =
     (\<forall>u. avi_suggested_upgrade info = Some u \<longrightarrow> version_gt (su_version u) current)"

definition router_ok :: "app_version \<Rightarrow> (app_version \<Rightarrow> string) \<Rightarrow> version_router \<Rightarrow> bool" where
  "router_ok current bin_path s =
     (state_ok current bin_path (vr_beta_program s) (vr_state s) \<and>
      (\<forall>info \<in> set (vr_version_events s). upgrades_only current info) \<and>
      (\<forall>reply \<in> set (vr_replies s). upgrades_only current (snd reply)))"

lemma offers_newer: "offers current cache beta v \<Longrightarrow> version_gt v current"
  by (auto simp: offers_def dest: recommended_newer)

lemma offers_cong:
  assumes "to_app_version_info current c b p = to_app_version_info current c' b' p"
  shows "offers current c b v = offers current c' b' v"
  unfolding offers_def using to_app_version_info_eq [OF assms] to_app_version_info_eq [OF assms [symmetric]] by metis

lemma to_app_version_info_upgrades [simp]: "upgrades_only current (to_app_version_info current cache beta path)"
  by (auto simp: upgrades_only_def to_app_version_info_def dest: recommended_newer)

lemma set_router_state_fields [simp]:
  "vr_state (set_router_state s r) = s" "vr_beta_program (set_router_state s r) = vr_beta_program r"
  "vr_version_events (set_router_state s r) = vr_version_events r" "vr_replies (set_router_state s r) = vr_replies r"
  "vr_version_request_channels (set_router_state s r) = vr_version_request_channels r"
  by (simp_all add: set_router_state_def)

lemma notify_ok [simp]:
  "router_ok current bin_path (notify_version_requesters info s) \<longleftrightarrow>
     router_ok current bin_path s \<and> (vr_version_request_channels s \<noteq> [] \<longrightarrow> upgrades_only current info)"
  by (cases "vr_version_request_channels s") (auto simp: router_ok_def notify_version_requesters_def)

lemma send_ok [simp]:
  "router_ok current bin_path (send_version_event info s) \<longleftrightarrow> router_ok current bin_path s \<and> upgrades_only current info"
  by (auto simp: router_ok_def send_version_event_def)

lemma broadcast_ok [simp]: "router_ok current bin_path (s\<lparr>vr_broadcast := evs\<rparr>) = router_ok current bin_path s"
  by (simp add: router_ok_def)

lemma has_version_ok: "router_ok current bin_path s \<Longrightarrow> router_ok current bin_path (set_router_state (HasVersion c) s)"
  by (simp add: router_ok_def state_ok_def)

lemma on_new_version_ok:
  assumes "router_ok current bin_path s" and "on_new_version current cache s = (s', info, is_new)"
  shows "router_ok current bin_path s'" and "upgrades_only current info"
proof -
  have keep: "router_ok current bin_path (s\<lparr>vr_state := st\<rparr>)"
    if "state_ok current bin_path (vr_beta_program s) st" for st
    using assms(1) that by (simp add: router_ok_def)
  show "router_ok current bin_path s'"
  proof (cases "vr_state s")
    case (Downloading prev m)
    let ?p = "None"
    have "state_ok current bin_path (vr_beta_program s) (Downloading cache m)"
      if "to_app_version_info current cache (vr_beta_program s) ?p = to_app_version_info current prev (vr_beta_program s) ?p"
      using assms(1) Downloading offers_cong [OF that] by (simp add: router_ok_def state_ok_def)
    then show ?thesis
      using assms(2) Downloading keep has_version_ok [OF assms(1)]
      by (auto simp: on_new_version_def Let_def split: if_splits)
  next
    case (Downloaded prev path)
    let ?p = "(Some path)"
    have "state_ok current bin_path (vr_beta_program s) (Downloaded cache path)"
      if "to_app_version_info current cache (vr_beta_program s) ?p = to_app_version_info current prev (vr_beta_program s) ?p"
      using assms(1) Downloaded offers_cong [OF that] by (simp add: router_ok_def state_ok_def)
    then show ?thesis
      using assms(2) Downloaded keep has_version_ok [OF assms(1)]
      by (auto simp: on_new_version_def Let_def split: if_splits)
  qed (use assms has_version_ok [OF assms(1)] in \<open>auto simp: on_new_version_def Let_def\<close>)
  show "upgrades_only current info"
    using assms(2) by (auto simp: on_new_version_def Let_def split: router_state.splits if_splits)
qed

lemma handle_new_version_ok:
  assumes "router_ok current bin_path s"
  shows "router_ok current bin_path (handle_new_version current cache s)"
proof -
  obtain s' info is_new where n: "on_new_version current cache s = (s', info, is_new)" by (metis prod_cases3)
  with on_new_version_ok [OF assms this] show ?thesis by (simp add: handle_new_version_def Let_def)
qed

lemma set_beta_program_ok:
  assumes "router_ok current bin_path s" and "router_set_beta_program current b s = Inr s'"
  shows "router_ok current bin_path s'"
proof (cases "get_version_cache (vr_state s)")
  case None
  then have "vr_state s = NoVersion" by (auto simp: get_version_cache_def split: router_state.splits)
  then show ?thesis
    using assms by (auto simp: router_set_beta_program_def Let_def router_ok_def state_ok_def get_version_cache_def split: if_splits)
next
  case (Some c)
  let ?s = "s\<lparr>vr_beta_program := b\<rparr>"
  have reset: "router_ok current bin_path (set_router_state (HasVersion c) ?s)"
    using assms(1) by (simp add: router_ok_def state_ok_def)
  have same: "router_ok current bin_path ?s"
    if "to_app_version_info current c b None = to_app_version_info current c (vr_beta_program s) None"
    using assms(1) Some offers_cong [OF that]
    by (cases "vr_state s") (auto simp: router_ok_def state_ok_def get_version_cache_def)
  show ?thesis
    using assms Some reset same
    by (auto simp: router_set_beta_program_def Let_def split: if_splits router_state.splits)
qed

lemma router_run_step_ok:
  assumes "router_ok current bin_path s" and "router_run_step current bin_path input s = Inr s'"
  shows "router_ok current bin_path s'"
proof -
  have upd: "router_ok current bin_path (update_application current s)"
    using assms(1) by (auto simp: update_application_def router_ok_def state_ok_def offers_def
        split: router_state.splits option.splits)
  have cancel: "router_ok current bin_path (cancel_upgrade current s)"
    using assms(1) has_version_ok [OF assms(1)]
    by (simp add: cancel_upgrade_def Let_def split: router_state.split)
  have wait: "router_ok current bin_path (wait_for_update bin_path r s)" for r
  proof (cases "vr_state s")
    case (Downloading c m)
    then have "offers current c (vr_beta_program s) (md_version m)" using assms(1) by (simp add: router_ok_def state_ok_def)
    then show ?thesis
      using Downloading assms(1) has_version_ok [OF assms(1)] offers_newer
      by (cases r) (auto simp: wait_for_update_def Let_def router_ok_def state_ok_def upgrades_only_def send_version_event_def)
  qed (use assms(1) in \<open>simp_all add: wait_for_update_def\<close>)
  have get: "router_ok current bin_path (router_get_latest_version o' tx s)" for o' tx
    using assms(1) by (simp add: router_get_latest_version_def router_ok_def)
  show ?thesis
    using assms(2) handle_new_version_ok [OF assms(1)] upd cancel wait get set_beta_program_ok [OF assms(1)] assms(1)
    by (auto simp: router_run_step_def router_handle_message_def split: router_input.splits router_message.splits)
qed

lemma router_run_step_no_panic: "router_run_step current bin_path input s \<noteq> Inl msg"
  by (auto simp: router_run_step_def router_handle_message_def router_set_beta_program_def Let_def get_version_cache_def
      split: router_input.splits router_message.splits option.splits router_state.splits)

fun router_run :: "app_version \<Rightarrow> (app_version \<Rightarrow> string) \<Rightarrow> router_input list \<Rightarrow> version_router \<Rightarrow> string + version_router" where
  "router_run current bin_path [] s = Inr s"
| "router_run current bin_path (i # is) s =
     and_then (router_run_step current bin_path i s) (router_run current bin_path is)"

lemma router_run_ok:
  "router_ok current bin_path s \<Longrightarrow> \<exists>s'. router_run current bin_path is s = Inr s' \<and> router_ok current bin_path s'"
proof (induction "is" arbitrary: s)
  case (Cons i "is")
  obtain t where t: "router_run_step current bin_path i s = Inr t"
    using router_run_step_no_panic by (metis obj_sumE)
  with Cons router_run_step_ok [OF Cons.prems t] show ?case by simp
qed simp

end
