(* ===== verification/Daemon_Types.thy ===== *)
theory Daemon_Types
  imports Settings Access_Mode Device_Check Availability Version_Router
begin

text \<open>
  What the daemon works with: the tunnel state it reports (\<open>mullvad-types/src/states.rs\<close>) with the feature indicators
  (\<open>features.rs\<close>), the account history (\<open>mullvad-daemon/src/account_history.rs\<close>), and its commands, events and errors
  (\<open>mullvad-daemon/src/lib.rs\<close>). Commands of other platforms are left out.
\<close>

section \<open>Feature indicators\<close>

datatype feature_indicator =
  FiQuantumResistance | FiMultihop | FiSplitTunneling | FiLockdownMode | FiWireguardPort | FiUdp2Tcp | FiShadowsocks | FiQuic | FiLwo
| FiLanSharing | FiDnsContentBlockers | FiCustomDns | FiServerIpOverride | FiCustomMtu | FiDaita | FiDaitaMultihop

definition has_obfuscation :: "tunnel_endpoint \<Rightarrow> obfuscation_type \<Rightarrow> bool" where
  "has_obfuscation endpoint obfs =
     (case te_obfuscation endpoint of
        Some (InfoSingle e) \<Rightarrow> oe_type e = obfs
      | Some (InfoMultiplexer _ obfuscators) \<Rightarrow> list_ex (\<lambda>single. oe_type single = obfs) obfuscators
      | None \<Rightarrow> False)"

text \<open>Split tunneling is not a setting on Linux.\<close>

definition compute_feature_indicators :: "user_settings \<Rightarrow> tunnel_endpoint \<Rightarrow> bool \<Rightarrow> feature_indicator set" where
  "compute_feature_indicators settings endpoint server_ip_override =
     (let dns = sto_dns_options (us_tunnel_options settings);
          use_multihop = (case us_relay_settings settings of
             NormalRelays constraints \<Rightarrow> Some (wc_use_multihop (rc_wireguard_constraints constraints)) | CustomTunnelEndpoint _ \<Rightarrow> None);
          multihop = (te_entry_endpoint endpoint \<noteq> None \<and> use_multihop = Some True);
          daita_multihop = (te_daita endpoint \<and> te_entry_endpoint endpoint \<noteq> None \<and> use_multihop = Some False);
          protocol_features =
            [(False, FiSplitTunneling),
             (us_allow_lan settings, FiLanSharing),
             (any_blockers_enabled (do_default_options dns), FiDnsContentBlockers),
             (do_state dns = DnsStateCustom, FiCustomDns),
             (server_ip_override, FiServerIpOverride),
             (us_lockdown_mode settings, FiLockdownMode),
             (te_quantum_resistant endpoint, FiQuantumResistance),
             (multihop, FiMultihop),
             (selected_obfuscation (us_obfuscation_settings settings) = SelWireguardPort, FiWireguardPort),
             (has_obfuscation endpoint ObfUdp2Tcp, FiUdp2Tcp),
             (has_obfuscation endpoint ObfShadowsocks, FiShadowsocks),
             (has_obfuscation endpoint ObfQuic, FiQuic),
             (has_obfuscation endpoint ObfLwo, FiLwo),
             (wo_mtu (sto_wireguard (us_tunnel_options settings)) \<noteq> None, FiCustomMtu),
             (te_daita endpoint \<and> \<not> daita_multihop, FiDaita),
             (daita_multihop, FiDaitaMultihop)]
      in set (List.map_filter (\<lambda>(active, feature). if active then Some feature else None) protocol_features))"

section \<open>The reported tunnel state\<close>

datatype daemon_tunnel_state =
  TsDisconnected "geo_ip_location option" bool
| TsConnecting tunnel_endpoint "geo_ip_location option" "feature_indicator set"
| TsConnected tunnel_endpoint "geo_ip_location option" "feature_indicator set"
| TsDisconnecting action_after_disconnect
| TsError error_state_info

definition is_in_error_state :: "daemon_tunnel_state \<Rightarrow> bool" where
  "is_in_error_state s = (case s of TsError _ \<Rightarrow> True | _ \<Rightarrow> False)"

definition is_connected :: "daemon_tunnel_state \<Rightarrow> bool" where
  "is_connected s = (case s of TsConnected _ _ _ \<Rightarrow> True | _ \<Rightarrow> False)"

definition is_disconnected :: "daemon_tunnel_state \<Rightarrow> bool" where
  "is_disconnected s = (case s of TsDisconnected _ _ \<Rightarrow> True | _ \<Rightarrow> False)"

definition ts_endpoint :: "daemon_tunnel_state \<Rightarrow> tunnel_endpoint option" where
  "ts_endpoint s = (case s of TsConnecting e _ _ \<Rightarrow> Some e | TsConnected e _ _ \<Rightarrow> Some e | _ \<Rightarrow> None)"

definition ts_get_location :: "daemon_tunnel_state \<Rightarrow> geo_ip_location option" where
  "ts_get_location s =
     (case s of TsConnected _ l _ \<Rightarrow> l | TsConnecting _ l _ \<Rightarrow> l | TsDisconnected l _ \<Rightarrow> l | _ \<Rightarrow> None)"

section \<open>Countries\<close>

text \<open>\<open><\<close> on numbers with floating point; \<open>f64::MAX\<close>.\<close>

definition f64_lt :: "f64 \<Rightarrow> f64 \<Rightarrow> bool" where
  "f64_lt a b = (f64_le a b \<and> \<not> f64_le b a)"

definition F64_MAX :: f64 where "F64_MAX = 0x7FEFFFFFFFFFFFFF"

definition get_nearest_country_with_relay :: "haversine \<Rightarrow> f64 \<Rightarrow> f64 \<Rightarrow> relay_list \<Rightarrow> string option" where
  "get_nearest_country_with_relay haversine lat lon self =
     (case rl_countries self of
        [] \<Rightarrow> None
      | first # _ \<Rightarrow>
          Some (rlo_code (snd (fold (\<lambda>(country, relay) (min_dist, min_dist_country).
            let distance = haversine (latitude (rl_location relay)) (longitude (rl_location relay)) lat lon
            in if f64_lt distance min_dist then (distance, country) else (min_dist, min_dist_country))
          (concat (map (\<lambda>country. map (Pair country) (concat (map rlc_relays (rlo_cities country)))) (rl_countries self)))
          (F64_MAX, first)))))"

section \<open>Account history\<close>

datatype history_error = HistoryRead | HistoryWrite

record account_history =
  ah_file :: "string option"
  ah_number :: "account_number option"

text \<open>
  How writing the file goes: whether it could be truncated, how many characters were written, whether all calls succeeded.
  A file that could not be read as text is \<open>None\<close>.
\<close>

record history_write =
  hw_truncated :: bool
  hw_written :: nat
  hw_ok :: bool

definition history_save_to_disk :: "history_write \<Rightarrow> account_history \<Rightarrow> (history_error + unit) \<times> account_history" where
  "history_save_to_disk o' self =
     (let content = (case ah_number self of None \<Rightarrow> [] | Some n \<Rightarrow> n) in
      if \<not> hw_truncated o' then (Inl HistoryWrite, self)
      else if hw_ok o' then (Inr (), self\<lparr>ah_file := Some content\<rparr>)
      else (Inl HistoryWrite, self\<lparr>ah_file := Some (take (hw_written o') content)\<rparr>))"

definition is_account_number :: "string \<Rightarrow> bool" where
  "is_account_number s = (s \<noteq> [] \<and> list_all (\<lambda>c. CHR ''0'' \<le> c \<and> c \<le> CHR ''9'') s)"

definition account_history_new :: "history_write \<Rightarrow> string option \<Rightarrow> account_number option \<Rightarrow> account_history" where
  "account_history_new o' content current_number =
     (case content of
        Some buffer \<Rightarrow>
          if is_account_number buffer then \<lparr>ah_file = content, ah_number = Some buffer\<rparr>
          else snd (history_save_to_disk o' \<lparr>ah_file = content, ah_number = current_number\<rparr>)
      | None \<Rightarrow> snd (history_save_to_disk o' \<lparr>ah_file = content, ah_number = current_number\<rparr>))"

definition history_set :: "history_write \<Rightarrow> account_number \<Rightarrow> account_history \<Rightarrow> (history_error + unit) \<times> account_history" where
  "history_set o' new_entry self = history_save_to_disk o' (self\<lparr>ah_number := Some new_entry\<rparr>)"

definition history_clear :: "history_write \<Rightarrow> account_history \<Rightarrow> (history_error + unit) \<times> account_history" where
  "history_clear o' self = history_save_to_disk o' (self\<lparr>ah_number := None\<rparr>)"

section \<open>Errors, commands and events\<close>

datatype access_daemon_error =
  AmNoSuchMethod u128 | AmApiService mode_error | AmRest rest_error | AmSettings settings_error

datatype daemon_error =
  DeRestError rest_error
| DeLoginError device_error
| DeLogoutError device_error
| DeKeyRotationError device_error
| DeListDevicesError device_error
| DeRemoveDeviceError device_error
| DeUpdateDeviceError device_error
| DeVoucherSubmission device_error
| DeAlreadyLoggedIn
| DeNoAccountNumber
| DeSettingsError settings_error
| DeAccountHistory history_error
| DeFactoryResetError string
| DeCustomListError custom_list_error
| DeAccessMethodError access_daemon_error
| DeApiConnectionModeError mode_error

text \<open>Errors of updates of the settings are kept as their text.\<close>

fun custom_list_error_text :: "custom_list_error \<Rightarrow> string" where
  "custom_list_error_text NameTooLong = ''Custom list name too long''"
| "custom_list_error_text DuplicateName = ''Custom list with name already exists''"
| "custom_list_error_text ListNotFound = ''Custom list not found''"
| "custom_list_error_text ListExists = ''List with given ID already exists''"

fun access_method_error_text :: "access_method_error \<Rightarrow> string" where
  "access_method_error_text AmDuplicateName = ''Access method with name already exists''"
| "access_method_error_text (RemoveBuiltin m) = ''Cannot remove built-in access method '' @ canonical_name m"

text \<open>The commands of the daemon, grouped by what they are about; they carry the sender for the answer.\<close>

datatype state_command =
  SetTargetState sender target_state
| Reconnect sender
| GetState sender
| GetFeatureIndicators sender
| IsPerformingPostUpgrade sender
| GetCurrentVersion sender
| GetVersionInfo sender
| PrepareRestart bool
| FactoryReset sender
| GetRolloutThreshold sender
| GenerateNewRolloutSeed sender
| SetRolloutThresholdSeed u32 sender
| AppUpgrade sender
| AppUpgradeAbort sender
| GetAppUpgradeCacheDir sender

datatype account_command =
  CreateNewAccount sender
| GetAccountData sender account_number
| GetWwwAuthToken sender
| SubmitVoucher sender string
| GetAccountHistory sender
| ClearAccountHistory sender
| LoginAccount sender account_number
| LogoutAccount sender
| GetDevice sender
| UpdateDevice sender
| ListDevices sender account_number
| RemoveDevice sender account_number device_id
| RotateWireguardKey sender
| GetWireguardKey sender

datatype settings_command =
  SetRelaySettings sender relay_settings
| SetAllowLan sender bool
| SetShowBetaReleases sender bool
| SetLockdownMode sender bool
| SetAutoConnect sender bool
| SetEnableIpv6 sender bool
| SetUserspaceWireguard sender bool
| SetEnableRecents sender bool
| SetQuantumResistantTunnel sender quantum_resistant_state
| SetEnableDaita sender bool
| SetDaitaUseMultihopIfNecessary sender bool
| SetDaitaSettings sender daita_settings
| SetDnsOptions sender dns_options
| SetRelayOverride sender relay_override
| ClearAllRelayOverrides sender
| SetWireguardMtu sender "u16 option"
| SetWireguardAllowedIps sender "allowed_ips constraint"
| SetWireguardRotationInterval sender "duration option"
| SetObfuscationSettings sender obfuscation_settings
| GetSettings sender
| ResetSettings sender
| ApplyJsonSettings sender string
| ExportJsonSettings sender
| UpdateDefaultLocationCountry sender

datatype relay_command =
  GetRelayLocations sender
| UpdateRelayLocations
| GetBridges sender
| CreateCustomList sender string "geographic_location_constraint list"
| DeleteCustomList sender u128
| UpdateCustomList sender custom_list
| ClearCustomLists sender
| DisableRelay string sender
| EnableRelay string sender

datatype api_command =
  AddApiAccessMethod sender string bool access_method
| RemoveApiAccessMethod sender u128
| SetApiAccessMethod sender u128
| UpdateApiAccessMethod sender access_method_setting
| ClearCustomApiAccessMethods sender
| GetCurrentAccessMethod sender
| TestApiAccessMethodById sender u128
| TestCustomApiAccessMethod sender custom_proxy

datatype process_command =
  SplitTunnelIsSupported sender
| GetSplitTunnelProcesses sender
| AddSplitTunnelProcess sender int
| RemoveSplitTunnelProcess sender int
| ClearSplitTunnelProcesses sender

datatype daemon_command =
  CmdState state_command
| CmdAccount account_command
| CmdSettings settings_command
| CmdRelay relay_command
| CmdApi api_command
| CmdProcess process_command

datatype access_method_event =
  AmAllow allowed_endpoint
| AmNew access_method_setting api_connection_mode allowed_endpoint

datatype internal_event =
  DvTunnelStateTransition tunnel_state_transition
| DvCommand daemon_command
| DvTriggerShutdown bool
| DvNewAppVersionInfo app_version_info
| DvDevice account_event
| DvAccessMethod access_method_event sender
| DvDeviceMigration "device_error + private_account_and_device"
| DvLocation u64 geo_ip_location
| DvSettingsChanged
| DvLeakDetected string

end
