(* ===== verification/Daemon.thy ===== *)
theory Daemon
  imports Daemon_Types
begin

text \<open>
  The daemon (\<open>mullvad-daemon/src/lib.rs\<close>, \<open>custom_list.rs\<close>, \<open>access_method.rs\<close>, \<open>geoip.rs\<close>) on Linux: its state, what it does with a
  transition of the tunnel, a device event or an event of the access methods, and the handlers of its commands. Everything
  the daemon sends, spawns or calls is recorded in a log; a \<open>daemon_world\<close> gives the answers, indexed by a counter.
\<close>

section \<open>Effects\<close>

datatype daemon_reply =
  ReBool bool
| ReUnit
| ReState daemon_tunnel_state
| ReFeatures "feature_indicator set"
| ReVersion app_version
| ReSettings "settings_error + unit"
| ReSettingsValue user_settings
| RePatch "(patch_error + settings_error) + unit"
| ReExport json
| ReDaemon "daemon_error + unit"
| ReId "daemon_error + u128"
| ReKey "daemon_error + wg_key option"
| ReToken "daemon_error + string"
| ReTest "daemon_error + bool"
| ReHistory "account_number option"
| ReRelays relay_list
| ReBridges bridge_list
| ReThreshold u32
| ReUpgrade
| ReCacheDir string
| ReProcesses "unit + int list"
| ReProcess "unit + unit"

text \<open>Tasks that the daemon spawns. Those with a sender answer it with what they come to.\<close>

datatype daemon_task =
  TaskCreateAccount sender
| TaskAccountData sender account_number
| TaskWwwAuthToken sender account_number
| TaskSubmitVoucher sender string
| TaskLogin sender account_number
| TaskLogout sender
| TaskGetDevice sender
| TaskUpdateDevice sender
| TaskListDevices sender account_number
| TaskRemoveDevice sender account_number device_id
| TaskRotateKey sender
| TaskVersionInfo sender
| TaskCurrentMethod sender
| TaskTestMethod sender allowed_endpoint
| TaskEndpointActive sender sender "access_method_setting option"
| TaskMigrateDevice "device_error + private_account_and_device"
| TaskSaveMode api_connection_mode
| TaskCheckDevice
| TaskLocation u64 bool
| TaskSetBetaReleases bool
| TaskRotateMethod
| TaskSetRotationInterval duration
| TaskUpdateAccessMethods access_settings
| TaskUpdateOverrides "relay_override list"

datatype daemon_notification =
  NotifyState daemon_tunnel_state
| NotifyRelayList relay_list
| NotifyAppVersion app_version_info
| NotifyLeak string
| NotifyDevice "device_event_cause \<times> device_state"

datatype daemon_effect =
  FxTunnel tunnel_command
| FxReply sender daemon_reply
| FxForward sender sender
| FxSpawn daemon_task
| FxNotify daemon_notification
| FxLeakChecker tunnel_state_transition
| FxResetApi
| FxAbortLocation
| FxUpdateRelayList
| FxSetRotationInterval duration
| FxLogout
| FxPids process_command

section \<open>State and world\<close>

record 'b daemon =
  d_tunnel_state :: daemon_tunnel_state
  d_target_state :: persistent_target_state
  d_pending :: "internal_event list"
  d_reconnection_job :: "duration option"
  d_migration_complete :: bool
  d_settings :: "'b settings_persister"
  d_account_history :: account_history
  d_device_checker :: change_handler
  d_availability :: api_availability
  d_generator :: parameters_generator
  d_options_queue :: "settings_tunnel_options list"
  d_settings_tasks :: "user_settings list"
  d_shutdown_tasks :: "(sender \<times> string option) list"
  d_request_id :: u64
  d_log :: "daemon_effect list"
  d_calls :: nat
  d_next_sender :: sender
  d_panicked :: bool

record 'b daemon_world =
  dm_codec :: "'b settings_codec"
  dm_to_json :: "user_settings \<Rightarrow> json"
  dm_from_json :: "json \<Rightarrow> user_settings option"
  dm_override_json :: "relay_override \<Rightarrow> json"
  dm_parse :: "string \<Rightarrow> json option"
  dm_beta :: bool
  dm_version :: app_version
  dm_uuids :: "nat \<Rightarrow> uuids"
  dm_uuid :: "nat \<Rightarrow> u128"
  dm_seed :: "nat \<Rightarrow> u32"
  dm_threshold :: "u32 \<Rightarrow> u32"
  dm_write :: "nat \<Rightarrow> write_outcome"
  dm_remove :: "nat \<Rightarrow> bool"
  dm_target_write :: "nat \<Rightarrow> plain_write"
  dm_history :: "nat \<Rightarrow> history_write"
  dm_data :: "nat \<Rightarrow> device_error + private_device_state"
  dm_now :: "nat \<Rightarrow> time"
  dm_public_key :: "wg_key \<Rightarrow> wg_key"
  dm_haversine :: haversine
  dm_contains :: "ip_network \<Rightarrow> ip_addr \<Rightarrow> bool"
  dm_use_method :: "nat \<Rightarrow> mode_error + unit"
  dm_resolve :: "nat \<Rightarrow> mode_error + resolved_connection_mode option"
  dm_pids_supported :: "nat \<Rightarrow> bool"
  dm_pids_list :: "nat \<Rightarrow> unit + int list"
  dm_pids :: "nat \<Rightarrow> unit + unit"

abbreviation settings :: "'b daemon \<Rightarrow> user_settings" where
  "settings d \<equiv> sp_settings (d_settings d)"

abbreviation target :: "'b daemon \<Rightarrow> target_state" where
  "target d \<equiv> pts_state (d_target_state d)"

definition fx :: "daemon_effect \<Rightarrow> 'b daemon \<Rightarrow> 'b daemon" where
  "fx e d = d\<lparr>d_log := d_log d @ [e]\<rparr>"

definition called :: "'b daemon \<Rightarrow> 'b daemon" where
  "called d = d\<lparr>d_calls := Suc (d_calls d)\<rparr>"

definition oneshot_send :: "sender \<Rightarrow> daemon_reply \<Rightarrow> 'b daemon \<Rightarrow> 'b daemon" where
  "oneshot_send tx r d = fx (FxReply tx r) d"

definition spawn :: "daemon_task \<Rightarrow> 'b daemon \<Rightarrow> 'b daemon" where
  "spawn t d = fx (FxSpawn t) d"

definition notify_interface :: "daemon_notification \<Rightarrow> 'b daemon \<Rightarrow> 'b daemon" where
  "notify_interface n d = fx (FxNotify n) d"

text \<open>A new channel; the receiver of \<open>oneshot_map\<close> answers the sender with success when its own sender is completed.\<close>

definition oneshot_channel :: "'b daemon \<Rightarrow> sender \<times> 'b daemon" where
  "oneshot_channel d = (d_next_sender d, d\<lparr>d_next_sender := Suc (d_next_sender d)\<rparr>)"

definition oneshot_map :: "sender \<Rightarrow> 'b daemon \<Rightarrow> sender \<times> 'b daemon" where
  "oneshot_map tx d = (case oneshot_channel d of (new_tx, d) \<Rightarrow> (new_tx, fx (FxForward new_tx tx) d))"

definition send_event :: "internal_event \<Rightarrow> 'b daemon \<Rightarrow> 'b daemon" where
  "send_event e d = d\<lparr>d_pending := d_pending d @ [e]\<rparr>"

definition send_tunnel_command :: "tunnel_command \<Rightarrow> 'b daemon \<Rightarrow> 'b daemon" where
  "send_tunnel_command c d = fx (FxTunnel c) d"

definition connect_tunnel :: "'b daemon \<Rightarrow> 'b daemon" where
  "connect_tunnel d = send_tunnel_command Connect d"

definition disconnect_tunnel :: "'b daemon \<Rightarrow> 'b daemon" where
  "disconnect_tunnel d = send_tunnel_command Disconnect d"

definition reconnect_tunnel :: "'b daemon \<Rightarrow> 'b daemon" where
  "reconnect_tunnel d = (if target d = Secured then connect_tunnel d else d)"

definition set_target_state :: "'b daemon_world \<Rightarrow> target_state \<Rightarrow> 'b daemon \<Rightarrow> bool \<times> 'b daemon" where
  "set_target_state w new_state d =
     (if new_state \<noteq> target d \<or> is_in_error_state (d_tunnel_state d) then
        (let d = called (d\<lparr>d_target_state := pts_set (dm_target_write w (d_calls d)) new_state (d_target_state d)\<rparr>)
         in (True, case target d of Secured \<Rightarrow> connect_tunnel d | Unsecured \<Rightarrow> disconnect_tunnel d))
      else (False, d))"

section \<open>Settings\<close>

definition selector_settings_of :: "user_settings \<Rightarrow> selector_settings" where
  "selector_settings_of s =
     (let wg = sto_wireguard (us_tunnel_options s) in
      \<lparr>st_relay_settings = us_relay_settings s, st_obfuscation_settings = us_obfuscation_settings s,
       st_daita_enabled = ds_enabled (wo_daita wg), st_daita_use_multihop_if_necessary = ds_use_multihop_if_necessary (wo_daita wg),
       st_quantum_resistant = wo_quantum_resistant wg, st_custom_lists = us_custom_lists s\<rparr>)"

text \<open>
  What the listeners do that are registered when the daemon starts. The management interface is told through \<open>sp_told\<close>. The generator of
  tunnel parameters gets the tunnel options through a queue and the settings from a task of its own for every change.
\<close>

definition settings_listeners :: "'b daemon \<Rightarrow> 'b daemon" where
  "settings_listeners d =
     (let d = spawn (TaskUpdateAccessMethods (us_api_access_methods (settings d))) d;
          d = d\<lparr>d_options_queue := d_options_queue d @ [us_tunnel_options (settings d)]\<rparr>;
          d = d\<lparr>d_settings_tasks := d_settings_tasks d @ [settings d]\<rparr>;
          d = send_event DvSettingsChanged d
      in spawn (TaskUpdateOverrides (us_relay_overrides (settings d))) d)"

definition settings_try_update ::
  "'b daemon_world \<Rightarrow> (user_settings \<Rightarrow> string + user_settings) \<Rightarrow> 'b daemon \<Rightarrow> (settings_error + bool) \<times> 'b daemon" where
  "settings_try_update w f d =
     (case persister_try_update (dm_codec w) (dm_write w (d_calls d)) f (d_settings d) of
        (r, p) \<Rightarrow>
          let d = called (d\<lparr>d_settings := p\<rparr>) in (r, if r = Inr True then settings_listeners d else d))"

definition settings_update ::
  "'b daemon_world \<Rightarrow> (user_settings \<Rightarrow> user_settings) \<Rightarrow> 'b daemon \<Rightarrow> (settings_error + bool) \<times> 'b daemon" where
  "settings_update w f d = settings_try_update w (\<lambda>s. Inr (f s)) d"

definition settings_reset :: "'b daemon_world \<Rightarrow> 'b daemon \<Rightarrow> (settings_error + unit) \<times> 'b daemon" where
  "settings_reset w d =
     (case persister_reset (dm_codec w) (dm_beta w) (dm_uuids w (d_calls d)) (dm_write w (d_calls d)) (dm_remove w (d_calls d)) (d_settings d) of
        (r, p) \<Rightarrow>
          let d = called (d\<lparr>d_settings := p\<rparr>) in (r, if r = Inr () then settings_listeners d else d))"

text \<open>The tasks of the listeners.\<close>

definition deliver_options :: "'b daemon \<Rightarrow> 'b daemon" where
  "deliver_options d =
     (case d_options_queue d of
        [] \<Rightarrow> d
      | options # rest \<Rightarrow> d\<lparr>d_options_queue := rest, d_generator := set_tunnel_options options (d_generator d)\<rparr>)"

definition run_settings_task :: "nat \<Rightarrow> 'b daemon \<Rightarrow> 'b daemon" where
  "run_settings_task i d =
     (if i < length (d_settings_tasks d)
      then d\<lparr>d_settings_tasks := take i (d_settings_tasks d) @ drop (Suc i) (d_settings_tasks d),
             d_generator := set_generator_settings (selector_settings_of (d_settings_tasks d ! i)) (d_generator d)\<rparr>
      else d)"

definition run_update_recents :: "'b daemon_world \<Rightarrow> 'b daemon \<Rightarrow> 'b daemon" where
  "run_update_recents w d = snd (settings_update w update_recents d)"

definition clear_update_default_location :: "'b daemon_world \<Rightarrow> 'b daemon \<Rightarrow> 'b daemon" where
  "clear_update_default_location w d =
     (if us_update_default_location (settings d) then snd (settings_update w (\<lambda>s. s\<lparr>us_update_default_location := False\<rparr>) d) else d)"

section \<open>Transitions of the tunnel\<close>

definition WG_RECONNECT_DELAY :: duration where "WG_RECONNECT_DELAY = 4 * 60 * 10 ^ 9"

definition unschedule_reconnect :: "'b daemon \<Rightarrow> 'b daemon" where
  "unschedule_reconnect d = d\<lparr>d_reconnection_job := None\<rparr>"

definition schedule_reconnect :: "duration \<Rightarrow> 'b daemon \<Rightarrow> 'b daemon" where
  "schedule_reconnect delay d = (unschedule_reconnect d)\<lparr>d_reconnection_job := Some delay\<rparr>"

definition send_geo_location_request :: "bool \<Rightarrow> 'b daemon \<Rightarrow> 'b daemon" where
  "send_geo_location_request use_ipv6 d =
     (let d = d\<lparr>d_request_id := d_request_id d + 1\<rparr>;
          d = fx FxAbortLocation d
      in spawn (TaskLocation (d_request_id d) use_ipv6) d)"

definition fetch_am_i_mullvad :: "'b daemon \<Rightarrow> 'b daemon" where
  "fetch_am_i_mullvad d =
     (let d = fx FxAbortLocation d in
      case d_tunnel_state d of
        TsConnected _ _ _ \<Rightarrow> send_geo_location_request (enable_ipv6 (sto_generic (us_tunnel_options (settings d)))) d
      | TsDisconnected _ _ \<Rightarrow>
          send_geo_location_request
            (case us_relay_settings (settings d) of
               NormalRelays relay_constraints \<Rightarrow> wc_ip_version (rc_wireguard_constraints relay_constraints) = Only V6
             | CustomTunnelEndpoint _ \<Rightarrow> False) d
      | _ \<Rightarrow> d)"

definition reset_rpc_sockets_on_tunnel_state_transition :: "tunnel_state_transition \<Rightarrow> 'b daemon \<Rightarrow> 'b daemon" where
  "reset_rpc_sockets_on_tunnel_state_transition t d =
     (if is_connected (d_tunnel_state d) \<or> (case t of TConnected _ \<Rightarrow> True | _ \<Rightarrow> False) then fx FxResetApi d else d)"

definition tunnel_state_from_transition :: "tunnel_state_transition \<Rightarrow> 'b daemon \<Rightarrow> daemon_tunnel_state" where
  "tunnel_state_from_transition t d =
     (let features = (\<lambda>endpoint. compute_feature_indicators (settings d) endpoint (last_relay_was_overridden (d_generator d)));
          location = get_last_location (d_generator d) in
      case t of
        TDisconnected locked \<Rightarrow> TsDisconnected None locked
      | TConnecting endpoint \<Rightarrow> TsConnecting endpoint location (features endpoint)
      | TConnected endpoint \<Rightarrow> TsConnected endpoint location (features endpoint)
      | TDisconnecting after_disconnect \<Rightarrow> TsDisconnecting after_disconnect
      | TError error_state \<Rightarrow> TsError error_state)"

definition is_auth_failed :: "error_state_cause \<Rightarrow> bool" where
  "is_auth_failed cause = (case cause of AuthFailed _ \<Rightarrow> True | _ \<Rightarrow> False)"

definition update_availability :: "daemon_tunnel_state \<Rightarrow> daemon_tunnel_state \<Rightarrow> api_availability \<Rightarrow> api_availability" where
  "update_availability old new a =
     (let a = (if is_disconnected old \<and> \<not> is_disconnected new then resume_background a else a)
      in if is_disconnected new then reset_inactivity_timer a else inner_stop_inactivity_timer a)"

text \<open>The leak checker and the device checker are told of every transition.\<close>

definition observe_transition :: "tunnel_state_transition \<Rightarrow> 'b daemon \<Rightarrow> 'b daemon" where
  "observe_transition t d =
     (let d = reset_rpc_sockets_on_tunnel_state_transition t (fx (FxLeakChecker t) d) in
      case handle_state_transition t (d_device_checker d) of
        (check, checker) \<Rightarrow>
          let d = d\<lparr>d_device_checker := checker\<rparr> in if check then spawn TaskCheckDevice d else d)"

definition set_tunnel_state :: "daemon_tunnel_state \<Rightarrow> 'b daemon \<Rightarrow> 'b daemon" where
  "set_tunnel_state tunnel_state d =
     (let d = (if is_connected tunnel_state then d else unschedule_reconnect d);
          d = d\<lparr>d_availability := update_availability (d_tunnel_state d) tunnel_state (d_availability d)\<rparr>;
          d = (case tunnel_state of
                 TsError error_state \<Rightarrow> if is_auth_failed (es_cause error_state) then schedule_reconnect (60 * 10 ^ 9) d else d
               | _ \<Rightarrow> d)
      in d\<lparr>d_tunnel_state := tunnel_state\<rparr>)"

definition handle_tunnel_state_transition :: "tunnel_state_transition \<Rightarrow> 'b daemon \<Rightarrow> 'b daemon" where
  "handle_tunnel_state_transition t d =
     (let d = observe_transition t d;
          tunnel_state = tunnel_state_from_transition t d;
          d = set_tunnel_state tunnel_state d
      in fetch_am_i_mullvad (notify_interface (NotifyState tunnel_state) d))"

section \<open>Other events\<close>

definition handle_location_event :: "u64 \<Rightarrow> geo_ip_location \<Rightarrow> 'b daemon \<Rightarrow> 'b daemon" where
  "handle_location_event request_id fetched d =
     (if d_request_id d \<noteq> request_id then d
      else
        (let updated =
           (case d_tunnel_state d of
              TsDisconnected _ locked \<Rightarrow> Some (TsDisconnected (Some fetched) locked)
            | TsConnected endpoint location features \<Rightarrow>
                Some (TsConnected endpoint
                  (Some ((case location of Some l \<Rightarrow> l | None \<Rightarrow> fetched)\<lparr>gl_ipv4 := gl_ipv4 fetched, gl_ipv6 := gl_ipv6 fetched\<rparr>)) features)
            | _ \<Rightarrow> None) in
         case updated of
           None \<Rightarrow> d
         | Some tunnel_state \<Rightarrow>
             (let d = d\<lparr>d_tunnel_state := tunnel_state\<rparr>;
                  d = (if us_update_default_location (settings d) then
                         (case oneshot_channel d of (tx, d) \<Rightarrow>
                            send_event (DvCommand (CmdSettings (UpdateDefaultLocationCountry tx))) d) else d)
              in notify_interface (NotifyState tunnel_state) d)))"

definition update_features :: "user_settings \<Rightarrow> daemon_tunnel_state \<Rightarrow> daemon_tunnel_state" where
  "update_features s state =
     (let update = (\<lambda>endpoint features. compute_feature_indicators s endpoint (FiServerIpOverride \<in> features)) in
      case state of
        TsConnecting endpoint location features \<Rightarrow> TsConnecting endpoint location (update endpoint features)
      | TsConnected endpoint location features \<Rightarrow> TsConnected endpoint location (update endpoint features)
      | _ \<Rightarrow> state)"

definition update_feature_indicators_on_settings_changed :: "'b daemon \<Rightarrow> 'b daemon" where
  "update_feature_indicators_on_settings_changed d =
     (let tunnel_state = update_features (settings d) (d_tunnel_state d) in
      if tunnel_state \<noteq> d_tunnel_state d
      then notify_interface (NotifyState tunnel_state) (d\<lparr>d_tunnel_state := tunnel_state\<rparr>) else d)"

definition handle_device_event :: "'b daemon_world \<Rightarrow> account_event \<Rightarrow> 'b daemon \<Rightarrow> 'b daemon" where
  "handle_device_event w event d =
     (let d =
        (case event of
           DeviceChanged (EventLogin device) \<Rightarrow>
             (let d = called (d\<lparr>d_account_history :=
                        snd (history_set (dm_history w (d_calls d)) (pad_account_number device) (d_account_history d))\<rparr>);
                  d = clear_update_default_location w d;
                  d = reconnect_tunnel d
              in run_update_recents w d)
         | DeviceChanged EventLogout \<Rightarrow> snd (set_target_state w Unsecured d)
         | DeviceChanged EventRevoked \<Rightarrow> if target d = Secured then connect_tunnel d else d
         | DeviceChanged (EventRotatedKey _) \<Rightarrow> schedule_reconnect WG_RECONNECT_DELAY d
         | Expiry expiry \<Rightarrow>
             if target d = Secured then
               (let now = dm_now w (d_calls d); d = called d in
                if now \<le> expiry then
                  (case d_tunnel_state d of
                     TsError state \<Rightarrow> if is_auth_failed (es_cause state) then connect_tunnel d else d
                   | _ \<Rightarrow> d)
                else send_tunnel_command (Block (AuthFailed (Some ''[EXPIRED_ACCOUNT]''))) d)
             else d
         | _ \<Rightarrow> d)
      in case event of
           DeviceChanged event \<Rightarrow> notify_interface (NotifyDevice (device_event_from (dm_public_key w) event)) d
         | _ \<Rightarrow> d)"

definition handle_access_method_event :: "access_method_event \<Rightarrow> sender \<Rightarrow> 'b daemon \<Rightarrow> 'b daemon" where
  "handle_access_method_event event endpoint_active_tx d =
     (case event of
        AmAllow endpoint \<Rightarrow>
          (case oneshot_channel d of (completion_tx, d) \<Rightarrow>
             spawn (TaskEndpointActive completion_tx endpoint_active_tx None)
               (send_tunnel_command (AllowEndpoint endpoint completion_tx) d))
      | AmNew setting connection_mode endpoint \<Rightarrow>
          (case oneshot_channel (spawn (TaskSaveMode connection_mode) d) of (completion_tx, d) \<Rightarrow>
             spawn (TaskEndpointActive completion_tx endpoint_active_tx (Some setting))
               (send_tunnel_command (AllowEndpoint endpoint completion_tx) d)))"

end
