(* ===== verification/Nft.thy ===== *)
theory Nft
  imports Net_Types
begin

text \<open>
  The nftables rule language that the Linux firewall emits through the \<open>nftnl\<close> crate, and the
  contract of the kernel that evaluates it. A rule is a list of expressions over one register:
  load expressions fill it, \<open>bitwise\<close> transforms it, \<open>cmp\<close> ends the rule when the comparison
  fails, statements set marks or give a verdict. The kernel is not part of the repository: its
  evaluator is the parameter of the locale \<open>nftables\<close>, whose assumptions are the documented
  behaviour of the expressions the firewall uses. Loads of a header field are specified only for
  packets that carry that header, so a proof goes through only if the generated rule checks the
  protocol first, as the source's comments demand.
\<close>

section \<open>Packets\<close>

datatype l3_header = L3v4 u32 u32 | L3v6 u128 u128 \<comment> \<open>source, destination\<close>

datatype l4_header =
  L4udp u16 u16
| L4tcp u16 u16
| L4icmpv6 u8 u8 \<comment> \<open>type, code\<close>
| L4none u8 \<comment> \<open>the protocol number of a packet with none of these headers\<close>

text \<open>
  What the rules can observe of a packet: interfaces, headers, packet mark, conntrack mark and
  state, owner of the socket, net_cls class, cgroup2 ancestor.
\<close>

record packet =
  p_iif :: u32
  p_oif :: u32
  p_l3 :: l3_header
  p_l4 :: l4_header
  p_mark :: u32
  p_ct_mark :: u32
  p_ct_state :: u32
  p_skuid :: "u32 option"
  p_cgroup :: u32
  p_cgroup2 :: "u64 option"

fun l3_src :: "l3_header \<Rightarrow> ip_addr" where
  "l3_src (L3v4 s d) = IpV4 s"
| "l3_src (L3v6 s d) = IpV6 s"

fun l3_dst :: "l3_header \<Rightarrow> ip_addr" where
  "l3_dst (L3v4 s d) = IpV4 d"
| "l3_dst (L3v6 s d) = IpV6 d"

text \<open>Protocol numbers of \<open>libc\<close>: \<open>NFPROTO_IPV4\<close>, \<open>NFPROTO_IPV6\<close>, \<open>IPPROTO_*\<close>.\<close>

fun l3_nfproto :: "l3_header \<Rightarrow> u8" where
  "l3_nfproto (L3v4 _ _) = 2"
| "l3_nfproto (L3v6 _ _) = 10"

fun l4_number :: "l4_header \<Rightarrow> u8" where
  "l4_number (L4udp _ _) = 17"
| "l4_number (L4tcp _ _) = 6"
| "l4_number (L4icmpv6 _ _) = 58"
| "l4_number (L4none n) = n"

section \<open>Expressions\<close>

text \<open>Register contents, tagged with how the source encodes them (\<open>to_be\<close> for ports).\<close>

datatype nft_val =
  ValU8 u8
| ValBe16 u16
| ValU32 u32
| ValU64 u64
| ValIp ip_addr
| ValU16s "u16 list"

datatype rejection_type = IcmpPortUnreach | TcpRst

datatype verdict = Accept | Drop | Reject rejection_type

datatype nft_expr =
  MetaIif | MetaOif | MetaNfproto | MetaL4proto | MetaMark | MetaCgroup | MetaSkuid
| SocketCgroupv2 nat
| CtState | CtMark
| PayloadIpv4Saddr | PayloadIpv4Daddr | PayloadIpv6Saddr | PayloadIpv6Daddr
| PayloadUdpSport | PayloadUdpDport | PayloadTcpSport | PayloadTcpDport
| PayloadIcmpv6Type | PayloadIcmpv6Code
| Bitwise nft_val nft_val \<comment> \<open>mask, xor\<close>
| CmpEq nft_val
| CmpNeq nft_val
| ImmediateData nft_val
| CtMarkSet | MetaMarkSet
| Masquerade
| Counter
| VerdictExpr verdict

type_synonym nft_rule = "nft_expr list"

text \<open>A rule either decides the packet or hands it to the next rule, possibly with new marks.\<close>

datatype rule_result = Next | Final verdict

section \<open>The contract of the kernel's evaluator\<close>

locale nftables =
  fixes eval :: "nft_expr list \<Rightarrow> nft_val \<Rightarrow> packet \<Rightarrow> packet \<times> rule_result"
    and chain :: "verdict \<Rightarrow> nft_rule list \<Rightarrow> packet \<Rightarrow> packet \<times> verdict"
  assumes eval_Nil [simp]: "eval [] r p = (p, Next)"
    and eval_iif [simp]: "eval (MetaIif # es) r p = eval es (ValU32 (p_iif p)) p"
    and eval_oif [simp]: "eval (MetaOif # es) r p = eval es (ValU32 (p_oif p)) p"
    and eval_nfproto [simp]: "eval (MetaNfproto # es) r p = eval es (ValU8 (l3_nfproto (p_l3 p))) p"
    and eval_l4proto [simp]: "eval (MetaL4proto # es) r p = eval es (ValU8 (l4_number (p_l4 p))) p"
    and eval_mark [simp]: "eval (MetaMark # es) r p = eval es (ValU32 (p_mark p)) p"
    and eval_cgroup [simp]: "eval (MetaCgroup # es) r p = eval es (ValU32 (p_cgroup p)) p"
    and eval_ct_state [simp]: "eval (CtState # es) r p = eval es (ValU32 (p_ct_state p)) p"
    and eval_ct_mark [simp]: "eval (CtMark # es) r p = eval es (ValU32 (p_ct_mark p)) p"
    and eval_skuid_Some [simp]:
      "p_skuid p = Some uid \<Longrightarrow> eval (MetaSkuid # es) r p = eval es (ValU32 uid) p"
    and eval_skuid_None [simp]: "p_skuid p = None \<Longrightarrow> eval (MetaSkuid # es) r p = (p, Next)"
    and eval_cgroup2_Some [simp]:
      "p_cgroup2 p = Some c \<Longrightarrow> eval (SocketCgroupv2 1 # es) r p = eval es (ValU64 c) p"
    and eval_cgroup2_None [simp]:
      "p_cgroup2 p = None \<Longrightarrow> eval (SocketCgroupv2 1 # es) r p = (p, Next)"
    and eval_ipv4_saddr [simp]:
      "p_l3 p = L3v4 s d \<Longrightarrow> eval (PayloadIpv4Saddr # es) r p = eval es (ValIp (IpV4 s)) p"
    and eval_ipv4_daddr [simp]:
      "p_l3 p = L3v4 s d \<Longrightarrow> eval (PayloadIpv4Daddr # es) r p = eval es (ValIp (IpV4 d)) p"
    and eval_ipv6_saddr [simp]:
      "p_l3 p = L3v6 s6 d6 \<Longrightarrow> eval (PayloadIpv6Saddr # es) r p = eval es (ValIp (IpV6 s6)) p"
    and eval_ipv6_daddr [simp]:
      "p_l3 p = L3v6 s6 d6 \<Longrightarrow> eval (PayloadIpv6Daddr # es) r p = eval es (ValIp (IpV6 d6)) p"
    and eval_udp_sport [simp]:
      "p_l4 p = L4udp sp dp \<Longrightarrow> eval (PayloadUdpSport # es) r p = eval es (ValBe16 sp) p"
    and eval_udp_dport [simp]:
      "p_l4 p = L4udp sp dp \<Longrightarrow> eval (PayloadUdpDport # es) r p = eval es (ValBe16 dp) p"
    and eval_tcp_sport [simp]:
      "p_l4 p = L4tcp sp dp \<Longrightarrow> eval (PayloadTcpSport # es) r p = eval es (ValBe16 sp) p"
    and eval_tcp_dport [simp]:
      "p_l4 p = L4tcp sp dp \<Longrightarrow> eval (PayloadTcpDport # es) r p = eval es (ValBe16 dp) p"
    and eval_icmpv6_type [simp]:
      "p_l4 p = L4icmpv6 t c6 \<Longrightarrow> eval (PayloadIcmpv6Type # es) r p = eval es (ValU8 t) p"
    and eval_icmpv6_code [simp]:
      "p_l4 p = L4icmpv6 t c6 \<Longrightarrow> eval (PayloadIcmpv6Code # es) r p = eval es (ValU8 c6) p"
    and eval_no_header [simp]:
      "p_l4 p = L4none n \<Longrightarrow>
       e \<in> {PayloadUdpSport, PayloadUdpDport, PayloadTcpSport, PayloadTcpDport,
            PayloadIcmpv6Type, PayloadIcmpv6Code} \<Longrightarrow> eval (e # es) r p = (p, Next)"
    and eval_bitwise_ipv4 [simp]:
      "eval (Bitwise (ValIp (IpV4 m)) (ValU32 0) # es) (ValIp (IpV4 a)) p =
         eval es (ValIp (IpV4 (and a m))) p"
    and eval_bitwise_ipv6 [simp]:
      "eval (Bitwise (ValIp (IpV6 m6)) (ValU16s (replicate 8 0)) # es) (ValIp (IpV6 a6)) p =
         eval es (ValIp (IpV6 (and a6 m6))) p"
    and eval_bitwise_u32 [simp]:
      "eval (Bitwise (ValU32 m) (ValU32 0) # es) (ValU32 v) p = eval es (ValU32 (and v m)) p"
    and eval_cmp_eq [simp]:
      "eval (CmpEq v1 # es) r p = (if r = v1 then eval es r p else (p, Next))"
    and eval_cmp_neq [simp]:
      "eval (CmpNeq v1 # es) r p = (if r \<noteq> v1 then eval es r p else (p, Next))"
    and eval_immediate [simp]: "eval (ImmediateData v1 # es) r p = eval es v1 p"
    and eval_ct_mark_set [simp]:
      "eval (CtMarkSet # es) (ValU32 v) p = eval es (ValU32 v) (p\<lparr>p_ct_mark := v\<rparr>)"
    and eval_meta_mark_set [simp]:
      "eval (MetaMarkSet # es) (ValU32 v) p = eval es (ValU32 v) (p\<lparr>p_mark := v\<rparr>)"
    and eval_counter [simp]: "eval (Counter # es) r p = eval es r p"
    and eval_verdict [simp]: "eval (VerdictExpr w # es) r p = (p, Final w)"
    and chain_Nil [simp]: "chain policy [] p = (p, policy)"
    and chain_Cons [simp]:
      "chain policy (rule # rules) p =
         (case eval rule (ValU32 0) p of
            (p', Next) \<Rightarrow> chain policy rules p'
          | (p', Final w) \<Rightarrow> (p', w))"
begin

text \<open>
  A rule that leaves the packet alone and decides it exactly when a guard holds; chains of such
  rules evaluate by first match.
\<close>

definition decides :: "nft_rule \<Rightarrow> packet \<Rightarrow> bool \<Rightarrow> verdict \<Rightarrow> bool" where
  "decides rule p c v \<longleftrightarrow> eval rule (ValU32 0) p = (p, if c then Final v else Next)"

lemma chain_decides:
  assumes "list_all2 (\<lambda>rule (c, v). decides rule p c v) rules guards"
  shows "chain policy rules p = (p, first_match guards policy)"
  using assms
  by (induction rules guards rule: list_all2_induct) (auto simp: decides_def)

end

section \<open>A reference evaluator\<close>

text \<open>
  An executable register machine that satisfies the contract. It is what concrete examples are
  evaluated with; where the contract leaves a load unspecified it ends the rule.
\<close>

fun nft_load :: "nft_expr \<Rightarrow> packet \<Rightarrow> nft_val option" where
  "nft_load MetaIif p = Some (ValU32 (p_iif p))"
| "nft_load MetaOif p = Some (ValU32 (p_oif p))"
| "nft_load MetaNfproto p = Some (ValU8 (l3_nfproto (p_l3 p)))"
| "nft_load MetaL4proto p = Some (ValU8 (l4_number (p_l4 p)))"
| "nft_load MetaMark p = Some (ValU32 (p_mark p))"
| "nft_load MetaCgroup p = Some (ValU32 (p_cgroup p))"
| "nft_load MetaSkuid p = map_option ValU32 (p_skuid p)"
| "nft_load (SocketCgroupv2 n) p = map_option ValU64 (p_cgroup2 p)"
| "nft_load CtState p = Some (ValU32 (p_ct_state p))"
| "nft_load CtMark p = Some (ValU32 (p_ct_mark p))"
| "nft_load PayloadIpv4Saddr p = (case p_l3 p of L3v4 s d \<Rightarrow> Some (ValIp (IpV4 s)) | _ \<Rightarrow> None)"
| "nft_load PayloadIpv4Daddr p = (case p_l3 p of L3v4 s d \<Rightarrow> Some (ValIp (IpV4 d)) | _ \<Rightarrow> None)"
| "nft_load PayloadIpv6Saddr p = (case p_l3 p of L3v6 s d \<Rightarrow> Some (ValIp (IpV6 s)) | _ \<Rightarrow> None)"
| "nft_load PayloadIpv6Daddr p = (case p_l3 p of L3v6 s d \<Rightarrow> Some (ValIp (IpV6 d)) | _ \<Rightarrow> None)"
| "nft_load PayloadUdpSport p = (case p_l4 p of L4udp s d \<Rightarrow> Some (ValBe16 s) | _ \<Rightarrow> None)"
| "nft_load PayloadUdpDport p = (case p_l4 p of L4udp s d \<Rightarrow> Some (ValBe16 d) | _ \<Rightarrow> None)"
| "nft_load PayloadTcpSport p = (case p_l4 p of L4tcp s d \<Rightarrow> Some (ValBe16 s) | _ \<Rightarrow> None)"
| "nft_load PayloadTcpDport p = (case p_l4 p of L4tcp s d \<Rightarrow> Some (ValBe16 d) | _ \<Rightarrow> None)"
| "nft_load PayloadIcmpv6Type p = (case p_l4 p of L4icmpv6 t c \<Rightarrow> Some (ValU8 t) | _ \<Rightarrow> None)"
| "nft_load PayloadIcmpv6Code p = (case p_l4 p of L4icmpv6 t c \<Rightarrow> Some (ValU8 c) | _ \<Rightarrow> None)"
| "nft_load (ImmediateData v) p = Some v"
| "nft_load _ p = None"

fun nft_bitwise :: "nft_val \<Rightarrow> nft_val \<Rightarrow> nft_val option" where
  "nft_bitwise (ValIp (IpV4 m)) (ValIp (IpV4 a)) = Some (ValIp (IpV4 (and a m)))"
| "nft_bitwise (ValIp (IpV6 m)) (ValIp (IpV6 a)) = Some (ValIp (IpV6 (and a m)))"
| "nft_bitwise (ValU32 m) (ValU32 a) = Some (ValU32 (and a m))"
| "nft_bitwise _ _ = None"

fun nft_vm :: "nft_expr list \<Rightarrow> nft_val \<Rightarrow> packet \<Rightarrow> packet \<times> rule_result" where
  "nft_vm [] r p = (p, Next)"
| "nft_vm (e # es) r p =
     (case e of
        CmpEq v \<Rightarrow> if r = v then nft_vm es r p else (p, Next)
      | CmpNeq v \<Rightarrow> if r \<noteq> v then nft_vm es r p else (p, Next)
      | Bitwise m x \<Rightarrow>
          (case nft_bitwise m r of None \<Rightarrow> (p, Next) | Some v \<Rightarrow> nft_vm es v p)
      | CtMarkSet \<Rightarrow> (case r of ValU32 v \<Rightarrow> nft_vm es r (p\<lparr>p_ct_mark := v\<rparr>) | _ \<Rightarrow> (p, Next))
      | MetaMarkSet \<Rightarrow> (case r of ValU32 v \<Rightarrow> nft_vm es r (p\<lparr>p_mark := v\<rparr>) | _ \<Rightarrow> (p, Next))
      | Masquerade \<Rightarrow> (p, Final Accept)
      | Counter \<Rightarrow> nft_vm es r p
      | VerdictExpr w \<Rightarrow> (p, Final w)
      | _ \<Rightarrow> (case nft_load e p of None \<Rightarrow> (p, Next) | Some v \<Rightarrow> nft_vm es v p))"

fun nft_chain :: "verdict \<Rightarrow> nft_rule list \<Rightarrow> packet \<Rightarrow> packet \<times> verdict" where
  "nft_chain policy [] p = (p, policy)"
| "nft_chain policy (rule # rules) p =
     (case nft_vm rule (ValU32 0) p of
        (p', Next) \<Rightarrow> nft_chain policy rules p'
      | (p', Final w) \<Rightarrow> (p', w))"

interpretation vm: nftables nft_vm nft_chain
  by unfold_locales auto

end
