(* ===== verification/Firewall_Linux.thy ===== *)
theory Firewall_Linux
  imports Firewall_Policy Nft
begin

text \<open>
  The Linux firewall (\<open>talpid-core/src/firewall/linux.rs\<close>): how a policy becomes a batch of
  nftables messages, function by function in the order of the source. The source mutates a rule by
  appending expressions and a batch by appending messages; here a \<open>check_*\<close> function returns the
  expressions it appends and an \<open>add_*\<close> method takes and returns the batch. Interface lookup, the
  netmasks of \<open>ipnetwork\<close>, the conntrack constant of \<open>nftnl\<close>, the debug environment variable and
  the \<open>cgroup2\<close> cargo feature are fields of the parameter \<open>fw_host\<close>.
\<close>

record fw_host =
  h_iface_index :: "string \<Rightarrow> u32 option"
  h_v4_mask :: "nat \<Rightarrow> u32"
  h_v6_mask :: "nat \<Rightarrow> u128"
  h_established :: u32
  h_add_counters :: bool
  h_feature_cgroup2 :: bool

datatype fw_error =
  NetlinkOpenError
| NetlinkSendError
| NetlinkRecvError
| ProcessNetlinkError
| NetfilterTableNotSetError
| LookupIfaceIndexError string

datatype direction = In | Out

datatype conn_end = Src | Dst

section \<open>Expressions of a rule\<close>

fun l3proto :: "ip_addr \<Rightarrow> u8" where
  "l3proto (IpV4 _) = 2"
| "l3proto (IpV6 _) = 10"

fun l4proto :: "transport_protocol \<Rightarrow> u8" where
  "l4proto Udp = 17"
| "l4proto Tcp = 6"

definition check_l3proto :: "ip_addr \<Rightarrow> nft_rule" where
  "check_l3proto ip = [MetaNfproto, CmpEq (ValU8 (l3proto ip))]"

definition check_l4proto :: "transport_protocol \<Rightarrow> nft_rule" where
  "check_l4proto protocol = [MetaL4proto, CmpEq (ValU8 (l4proto protocol))]"

fun payload_port :: "transport_protocol \<Rightarrow> conn_end \<Rightarrow> nft_expr" where
  "payload_port Udp Src = PayloadUdpSport"
| "payload_port Udp Dst = PayloadUdpDport"
| "payload_port Tcp Src = PayloadTcpSport"
| "payload_port Tcp Dst = PayloadTcpDport"

definition check_port :: "transport_protocol \<Rightarrow> conn_end \<Rightarrow> u16 \<Rightarrow> nft_rule" where
  "check_port protocol e port =
     check_l4proto protocol @ [payload_port protocol e, CmpEq (ValBe16 port)]"

fun payload_addr :: "ip_addr \<Rightarrow> conn_end \<Rightarrow> nft_expr" where
  "payload_addr (IpV4 _) Src = PayloadIpv4Saddr"
| "payload_addr (IpV4 _) Dst = PayloadIpv4Daddr"
| "payload_addr (IpV6 _) Src = PayloadIpv6Saddr"
| "payload_addr (IpV6 _) Dst = PayloadIpv6Daddr"

definition check_ip :: "conn_end \<Rightarrow> ip_addr \<Rightarrow> nft_rule" where
  "check_ip e ip = check_l3proto ip @ [payload_addr ip e, CmpEq (ValIp ip)]"

definition check_endpoint :: "conn_end \<Rightarrow> endpoint \<Rightarrow> nft_rule" where
  "check_endpoint e ep =
     check_ip e (sock_ip (ep_address ep)) @
     check_port (ep_protocol ep) e (sock_port (ep_address ep))"

definition check_icmpv6 :: "u8 \<Rightarrow> u8 \<Rightarrow> nft_rule" where
  "check_icmpv6 type code =
     [MetaL4proto, CmpEq (ValU8 58), PayloadIcmpv6Type, CmpEq (ValU8 type),
      PayloadIcmpv6Code, CmpEq (ValU8 code)]"

fun net_mask_expr :: "fw_host \<Rightarrow> ip_network \<Rightarrow> nft_expr" where
  "net_mask_expr h (NetV4 _ n) = Bitwise (ValIp (IpV4 (h_v4_mask h n))) (ValU32 0)"
| "net_mask_expr h (NetV6 _ n) = Bitwise (ValIp (IpV6 (h_v6_mask h n))) (ValU16s (replicate 8 0))"

definition check_net :: "fw_host \<Rightarrow> conn_end \<Rightarrow> ip_network \<Rightarrow> nft_rule" where
  "check_net h e net =
     check_l3proto (net_ip net) @
     [payload_addr (net_ip net) e, net_mask_expr h net, CmpEq (ValIp (net_ip net))]"

definition load_iface :: "direction \<Rightarrow> nft_expr" where
  "load_iface d = (case d of In \<Rightarrow> MetaIif | Out \<Rightarrow> MetaOif)"

definition check_iface :: "fw_host \<Rightarrow> direction \<Rightarrow> string \<Rightarrow> fw_error + nft_rule" where
  "check_iface h d iface =
     and_then (of_option (LookupIfaceIndexError iface) (h_iface_index h iface)) (\<lambda>iface_index.
     Inr [load_iface d, CmpEq (ValU32 iface_index)])"

definition check_not_iface :: "fw_host \<Rightarrow> direction \<Rightarrow> string \<Rightarrow> fw_error + nft_rule" where
  "check_not_iface h d iface =
     and_then (of_option (LookupIfaceIndexError iface) (h_iface_index h iface)) (\<lambda>iface_index.
     Inr [load_iface d, CmpNeq (ValU32 iface_index)])"

definition add_verdict :: "fw_host \<Rightarrow> verdict \<Rightarrow> nft_rule" where
  "add_verdict h v = (if h_add_counters h then [Counter] else []) @ [VerdictExpr v]"

definition maybe_counter :: "fw_host \<Rightarrow> nft_rule" where
  "maybe_counter h = (if h_add_counters h then [Counter] else [])"

text \<open>
  The conntrack test that the source writes out three times: load the state, mask it with the
  \<open>ESTABLISHED\<close> bit, compare with zero.
\<close>

definition check_established :: "fw_host \<Rightarrow> nft_rule" where
  "check_established h = [CtState, Bitwise (ValU32 (h_established h)) (ValU32 0), CmpNeq (ValU32 0)]"

definition allow_interface_rule :: "fw_host \<Rightarrow> direction \<Rightarrow> string \<Rightarrow> fw_error + nft_rule" where
  "allow_interface_rule h d iface =
     and_then (check_iface h d iface) (\<lambda>r. Inr (r @ add_verdict h Accept))"

text \<open>The table of every chain is of the \<open>Inet\<close> family, so the address family is always checked.\<close>

definition allow_tunnel_dns_rule ::
  "fw_host \<Rightarrow> string \<Rightarrow> transport_protocol \<Rightarrow> ip_addr \<Rightarrow> fw_error + nft_rule" where
  "allow_tunnel_dns_rule h iface protocol host =
     and_then (check_iface h Out iface) (\<lambda>r.
     Inr (r @ check_port protocol Dst 53 @ check_l3proto host @
          [payload_addr host Dst, CmpEq (ValIp host)] @ add_verdict h Accept))"

section \<open>Batches\<close>

datatype chain_name =
  PreroutingChain | OutChain | InChain | ForwardChain | MangleChain | NatChain

datatype hook = HookPreRouting | HookOut | HookIn | HookForward | HookPostRouting

datatype chain_type = TypeFilter | TypeRoute | TypeNat

datatype chain_policy = PolicyAccept | PolicyDrop

record chain_decl =
  cd_name :: chain_name
  cd_hook :: hook
  cd_priority :: int
  cd_type :: "chain_type option"
  cd_policy :: "chain_policy option"

datatype nft_msg =
  TableAdd
| TableDel
| ChainAdd chain_decl
| RuleAdd chain_name nft_rule

type_synonym batch = "nft_msg list"

definition MANGLE_CHAIN_PRIORITY :: int where
  "MANGLE_CHAIN_PRIORITY = - 150"

definition PREROUTING_CHAIN_PRIORITY :: int where
  "PREROUTING_CHAIN_PRIORITY = - 200 + 1"

definition batch_new :: batch where
  "batch_new =
    [TableAdd, TableDel, TableAdd,
     ChainAdd \<lparr>cd_name = PreroutingChain, cd_hook = HookPreRouting,
               cd_priority = PREROUTING_CHAIN_PRIORITY, cd_type = Some TypeFilter, cd_policy = None\<rparr>,
     ChainAdd \<lparr>cd_name = OutChain, cd_hook = HookOut, cd_priority = 0, cd_type = None,
               cd_policy = Some PolicyDrop\<rparr>,
     ChainAdd \<lparr>cd_name = InChain, cd_hook = HookIn, cd_priority = 0, cd_type = None,
               cd_policy = Some PolicyDrop\<rparr>,
     ChainAdd \<lparr>cd_name = ForwardChain, cd_hook = HookForward, cd_priority = 0, cd_type = None,
               cd_policy = Some PolicyDrop\<rparr>,
     ChainAdd \<lparr>cd_name = MangleChain, cd_hook = HookOut, cd_priority = MANGLE_CHAIN_PRIORITY,
               cd_type = Some TypeRoute, cd_policy = Some PolicyAccept\<rparr>,
     ChainAdd \<lparr>cd_name = NatChain, cd_hook = HookPostRouting, cd_priority = 100,
               cd_type = Some TypeNat, cd_policy = Some PolicyAccept\<rparr>]"

definition add_rule :: "chain_name \<Rightarrow> nft_rule \<Rightarrow> batch \<Rightarrow> batch" where
  "add_rule c r b = b @ [RuleAdd c r]"

text \<open>A loop \<open>for chain in chains\<close> that adds the same rule to each.\<close>

definition add_to_chains :: "chain_name list \<Rightarrow> nft_rule \<Rightarrow> batch \<Rightarrow> batch" where
  "add_to_chains cs r b = fold (\<lambda>c. add_rule c r) cs b"

section \<open>Rules common to all policies\<close>

definition add_loopback_rules :: "fw_host \<Rightarrow> batch \<Rightarrow> fw_error + batch" where
  "add_loopback_rules h b =
     and_then (allow_interface_rule h Out ''lo'') (\<lambda>out_rule.
     let b = add_rule OutChain out_rule b in
     and_then (allow_interface_rule h In ''lo'') (\<lambda>in_rule.
     Inr (add_rule InChain in_rule b)))"

definition split_tunnel_MARK :: u32 where
  "split_tunnel_MARK = 0xf41"

record firewall =
  fw_fwmark :: u32
  fw_excluded_cgroup2 :: "u64 option" \<comment> \<open>the inode of the cgroup\<close>
  fw_net_cls :: "u32 option"

definition add_tunnel_dns_mangle_rules ::
  "fw_host \<Rightarrow> string \<Rightarrow> ip_addr \<Rightarrow> batch \<Rightarrow> fw_error + batch" where
  "add_tunnel_dns_mangle_rules h iface server b =
     and_then (allow_tunnel_dns_rule h iface Udp server) (\<lambda>r.
     let b = add_rule MangleChain r b in
     and_then (allow_tunnel_dns_rule h iface Tcp server) (\<lambda>r.
     Inr (add_rule MangleChain r b)))"

definition add_actual_split_tunneling_rules ::
  "fw_host \<Rightarrow> firewall_policy \<Rightarrow> u32 \<Rightarrow> nft_rule \<Rightarrow> batch \<Rightarrow> fw_error + batch" where
  "add_actual_split_tunneling_rules h policy fwmark selector b =
     and_then
       (case policy of
          PolicyConnected _ tunnel _ dns_config \<Rightarrow>
            try_fold (add_tunnel_dns_mangle_rules h (tm_interface tunnel))
              (rd_tunnel_config dns_config) b
        | _ \<Rightarrow> Inr b) (\<lambda>b.
     let b = add_rule MangleChain
               (selector @
                [ImmediateData (ValU32 split_tunnel_MARK), CtMarkSet,
                 ImmediateData (ValU32 fwmark), MetaMarkSet] @ maybe_counter h) b;
         b = add_to_chains [InChain, OutChain, ForwardChain]
               ([CtMark, CmpEq (ValU32 split_tunnel_MARK)] @ add_verdict h Accept) b in
     and_then
       (case policy of
          PolicyConnected _ tunnel _ _ \<Rightarrow>
            and_then (check_iface h Out (tm_interface tunnel)) (\<lambda>r.
            Inr (add_rule NatChain
                   (r @ [CtMark, CmpEq (ValU32 split_tunnel_MARK)] @ add_verdict h Drop) b))
        | _ \<Rightarrow> Inr b) (\<lambda>b.
     and_then (of_option (LookupIfaceIndexError ''lo'') (h_iface_index h ''lo'')) (\<lambda>iface_index.
     let b = add_rule NatChain
               ([MetaOif, CmpNeq (ValU32 iface_index), CtMark, CmpEq (ValU32 split_tunnel_MARK),
                 Masquerade] @ maybe_counter h) b in
     (case policy of
        PolicyConnected _ tunnel _ _ \<Rightarrow>
          and_then (check_not_iface h In (tm_interface tunnel)) (\<lambda>r.
          Inr (add_rule PreroutingChain
                 (r @ [CtMark, CmpEq (ValU32 split_tunnel_MARK),
                       ImmediateData (ValU32 fwmark), MetaMarkSet] @ maybe_counter h) b))
      | _ \<Rightarrow> Inr b))))"

definition add_split_tunneling_rules ::
  "fw_host \<Rightarrow> firewall_policy \<Rightarrow> firewall \<Rightarrow> batch \<Rightarrow> fw_error + batch" where
  "add_split_tunneling_rules h policy fw b =
     (case (h_feature_cgroup2 h, fw_excluded_cgroup2 fw, fw_net_cls fw) of
        (True, Some inode, _) \<Rightarrow>
          add_actual_split_tunneling_rules h policy (fw_fwmark fw)
            [SocketCgroupv2 1, CmpEq (ValU64 inode)] b
      | (_, _, Some net_cls) \<Rightarrow>
          add_actual_split_tunneling_rules h policy (fw_fwmark fw)
            [MetaCgroup, CmpEq (ValU32 net_cls)] b
      | _ \<Rightarrow> Inr b)"

definition IPV6_LINK_LOCAL :: ip_network where
  "IPV6_LINK_LOCAL = NetV6 (ipv6_new [0xfe80, 0, 0, 0, 0, 0, 0, 0]) 10"

definition DHCPV6_SERVER_ADDRS :: "u128 list" where
  "DHCPV6_SERVER_ADDRS =
     [ipv6_new [0xff02, 0, 0, 0, 0, 0, 1, 2], ipv6_new [0xff05, 0, 0, 0, 0, 0, 1, 3]]"

definition ROUTER_SOLICITATION_OUT_DST_ADDR :: u128 where
  "ROUTER_SOLICITATION_OUT_DST_ADDR = ipv6_new [0xff02, 0, 0, 0, 0, 0, 0, 2]"

definition SOLICITED_NODE_MULTICAST :: ip_network where
  "SOLICITED_NODE_MULTICAST = NetV6 (ipv6_new [0xff02, 0, 0, 0, 0, 1, 0xFF00, 0]) 104"

definition DHCPV4_SERVER_PORT :: u16 where "DHCPV4_SERVER_PORT = 67"
definition DHCPV4_CLIENT_PORT :: u16 where "DHCPV4_CLIENT_PORT = 68"
definition DHCPV6_SERVER_PORT :: u16 where "DHCPV6_SERVER_PORT = 547"
definition DHCPV6_CLIENT_PORT :: u16 where "DHCPV6_CLIENT_PORT = 546"
definition ROOT_UID :: u32 where "ROOT_UID = 0"

definition add_dhcp_client_rules :: "fw_host \<Rightarrow> batch \<Rightarrow> batch" where
  "add_dhcp_client_rules h b =
     (let b = add_to_chains [OutChain, ForwardChain]
                (check_port Udp Src DHCPV4_CLIENT_PORT @ check_ip Dst (IpV4 ipv4_broadcast) @
                 check_port Udp Dst DHCPV4_SERVER_PORT @ add_verdict h Accept) b;
          b = add_to_chains [InChain, ForwardChain]
                (check_port Udp Src DHCPV4_SERVER_PORT @ check_port Udp Dst DHCPV4_CLIENT_PORT @
                 add_verdict h Accept) b;
          b = fold (\<lambda>c. fold (\<lambda>dhcpv6_server. add_rule c
                (check_net h Src IPV6_LINK_LOCAL @ check_port Udp Src DHCPV6_CLIENT_PORT @
                 check_ip Dst (IpV6 dhcpv6_server) @ check_port Udp Dst DHCPV6_SERVER_PORT @
                 add_verdict h Accept)) DHCPV6_SERVER_ADDRS) [OutChain, ForwardChain] b
      in add_to_chains [InChain, ForwardChain]
           (check_net h Src IPV6_LINK_LOCAL @ check_port Udp Src DHCPV6_SERVER_PORT @
            check_net h Dst IPV6_LINK_LOCAL @ check_port Udp Dst DHCPV6_CLIENT_PORT @
            add_verdict h Accept) b)"

definition add_ndp_rules :: "fw_host \<Rightarrow> batch \<Rightarrow> batch" where
  "add_ndp_rules h b =
     (let b = add_to_chains [OutChain, ForwardChain]
                (check_ip Dst (IpV6 ROUTER_SOLICITATION_OUT_DST_ADDR) @ check_icmpv6 133 0 @
                 add_verdict h Accept) b;
          b = add_to_chains [InChain, ForwardChain]
                (check_net h Src IPV6_LINK_LOCAL @ check_icmpv6 134 0 @ add_verdict h Accept) b;
          b = add_to_chains [InChain, ForwardChain]
                (check_net h Src IPV6_LINK_LOCAL @ check_icmpv6 137 0 @ add_verdict h Accept) b;
          b = add_to_chains [OutChain, ForwardChain]
                (check_net h Dst SOLICITED_NODE_MULTICAST @ check_icmpv6 135 0 @
                 add_verdict h Accept) b;
          b = add_to_chains [OutChain, ForwardChain]
                (check_net h Dst IPV6_LINK_LOCAL @ check_icmpv6 135 0 @ add_verdict h Accept) b;
          b = add_to_chains [InChain, ForwardChain]
                (check_net h Src IPV6_LINK_LOCAL @ check_icmpv6 135 0 @ add_verdict h Accept) b;
          b = add_to_chains [OutChain, ForwardChain]
                (check_net h Dst IPV6_LINK_LOCAL @ check_icmpv6 136 0 @ add_verdict h Accept) b
      in add_to_chains [InChain, ForwardChain]
           (check_icmpv6 136 0 @ add_verdict h Accept) b)"

section \<open>Rules of a policy\<close>

definition add_allow_tunnel_endpoint_rules ::
  "fw_host \<Rightarrow> u32 \<Rightarrow> allowed_endpoint \<Rightarrow> batch \<Rightarrow> batch" where
  "add_allow_tunnel_endpoint_rules h fwmark ep b =
     (let b = add_rule PreroutingChain
                (check_endpoint Src (ae_endpoint ep) @
                 [ImmediateData (ValU32 fwmark), MetaMarkSet] @ maybe_counter h) b;
          b = add_rule InChain
                (check_endpoint Src (ae_endpoint ep) @ check_established h @
                 add_verdict h Accept) b;
          b = add_rule OutChain
                (check_endpoint Dst (ae_endpoint ep) @ [MetaMark, CmpEq (ValU32 fwmark)] @
                 add_verdict h Accept) b
      in if allow_all (ae_clients ep) then
           add_rule MangleChain
             (check_endpoint Dst (ae_endpoint ep) @
              [ImmediateData (ValU32 split_tunnel_MARK), CtMarkSet,
               ImmediateData (ValU32 fwmark), MetaMarkSet]) b
         else b)"

definition check_clients :: "allowed_clients \<Rightarrow> nft_rule" where
  "check_clients c = (if \<not> allow_all c then [MetaSkuid, CmpEq (ValU32 ROOT_UID)] else [])"

definition add_allow_endpoint_rules :: "fw_host \<Rightarrow> allowed_endpoint \<Rightarrow> batch \<Rightarrow> batch" where
  "add_allow_endpoint_rules h ep b =
     (let b = add_rule InChain
                (check_endpoint Src (ae_endpoint ep) @ check_established h @
                 check_clients (ae_clients ep) @ add_verdict h Accept) b
      in add_rule OutChain
           (check_endpoint Dst (ae_endpoint ep) @ check_clients (ae_clients ep) @
            add_verdict h Accept) b)"

definition add_allow_tunnel_dns_rule ::
  "fw_host \<Rightarrow> string \<Rightarrow> transport_protocol \<Rightarrow> ip_addr \<Rightarrow> batch \<Rightarrow> fw_error + batch" where
  "add_allow_tunnel_dns_rule h interface protocol host b =
     try_fold (\<lambda>c b. and_then (allow_tunnel_dns_rule h interface protocol host) (\<lambda>r.
       Inr (add_rule c r b))) [OutChain, ForwardChain] b"

definition add_allow_local_dns_rule ::
  "fw_host \<Rightarrow> string \<Rightarrow> transport_protocol \<Rightarrow> ip_addr \<Rightarrow> batch \<Rightarrow> fw_error + batch" where
  "add_allow_local_dns_rule h tunnel_interface protocol host b =
     try_fold (\<lambda>(c, d) b.
       let addr = payload_addr host (case d of In \<Rightarrow> Src | Out \<Rightarrow> Dst);
           port_dir = (case d of In \<Rightarrow> Src | Out \<Rightarrow> Dst) in
       and_then (check_not_iface h d tunnel_interface) (\<lambda>r.
       Inr (add_rule c (r @ check_port protocol port_dir 53 @ check_l3proto host @
              [addr, CmpEq (ValIp host)] @ add_verdict h Accept) b)))
       [(OutChain, Out), (ForwardChain, Out), (InChain, In), (ForwardChain, In)] b"

definition add_drop_dns_rule :: "fw_host \<Rightarrow> batch \<Rightarrow> batch" where
  "add_drop_dns_rule h b =
     fold (\<lambda>c b.
       let b = add_rule c (check_port Udp Dst 53 @ add_verdict h (Reject IcmpPortUnreach)) b
       in add_rule c (check_port Tcp Dst 53 @ add_verdict h (Reject TcpRst)) b)
       [OutChain, ForwardChain] b"

definition add_allow_in_tunnel_endpoint_rules ::
  "fw_host \<Rightarrow> string \<Rightarrow> endpoint \<Rightarrow> batch \<Rightarrow> fw_error + batch" where
  "add_allow_in_tunnel_endpoint_rules h tunnel_interface ep b =
     try_fold (\<lambda>(c, d, e) b.
       and_then (check_iface h d tunnel_interface) (\<lambda>r.
       Inr (add_rule c (r @ check_ip e (sock_ip (ep_address ep)) @
              check_port (ep_protocol ep) e (sock_port (ep_address ep)) @
              add_verdict h Accept) b)))
       [(OutChain, Out, Dst), (InChain, In, Src)] b"

definition add_allow_tunnel_rules :: "fw_host \<Rightarrow> string \<Rightarrow> batch \<Rightarrow> fw_error + batch" where
  "add_allow_tunnel_rules h tunnel_interface b =
     and_then (allow_interface_rule h Out tunnel_interface) (\<lambda>r.
     let b = add_rule OutChain r b in
     and_then (allow_interface_rule h Out tunnel_interface) (\<lambda>r.
     let b = add_rule ForwardChain r b in
     and_then (allow_interface_rule h In tunnel_interface) (\<lambda>r.
     let b = add_rule InChain r b in
     and_then (check_iface h In tunnel_interface) (\<lambda>r.
     Inr (add_rule ForwardChain (r @ check_established h @ add_verdict h Accept) b)))))"

definition add_block_cve_2019_14899 :: "fw_host \<Rightarrow> tunnel_metadata \<Rightarrow> batch \<Rightarrow> batch" where
  "add_block_cve_2019_14899 h tunnel b =
     fold (\<lambda>tunnel_ip. add_rule InChain (check_ip Dst tunnel_ip @ add_verdict h Drop))
       (tm_ips tunnel) b"

definition add_dhcp_server_rules :: "fw_host \<Rightarrow> batch \<Rightarrow> batch" where
  "add_dhcp_server_rules h b =
     (let b = add_rule OutChain
                (check_port Udp Src DHCPV4_SERVER_PORT @ check_port Udp Dst DHCPV4_CLIENT_PORT @
                 add_verdict h Accept) b
      in add_rule InChain
           (check_port Udp Src DHCPV4_CLIENT_PORT @
            check_endpoint Dst (endpoint_new (IpV4 ipv4_broadcast) DHCPV4_SERVER_PORT Udp) @
            add_verdict h Accept) b)"

definition add_allow_lan_rules :: "fw_host \<Rightarrow> batch \<Rightarrow> batch" where
  "add_allow_lan_rules h b =
     (let b = fold (\<lambda>c b.
            let b = fold (\<lambda>net. add_rule c (check_net h Dst net @ add_verdict h Accept))
                      ALLOWED_LAN_NETS b
            in fold (\<lambda>net. add_rule c (check_net h Dst net @ add_verdict h Accept))
                 ALLOWED_LAN_MULTICAST_NETS b) [OutChain, ForwardChain] b;
          b = fold (\<lambda>net. add_rule InChain (check_net h Src net @ add_verdict h Accept))
                ALLOWED_LAN_NETS b
      in add_dhcp_server_rules h b)"

definition add_connecting_tunnel_rules ::
  "fw_host \<Rightarrow> tunnel_metadata \<Rightarrow> allowed_tunnel_traffic \<Rightarrow> batch \<Rightarrow> fw_error + batch" where
  "add_connecting_tunnel_rules h tunnel traffic b =
     (case traffic of
        TrafficAll \<Rightarrow> add_allow_tunnel_rules h (tm_interface tunnel) b
      | TrafficNone \<Rightarrow> Inr b
      | TrafficOne ep \<Rightarrow> add_allow_in_tunnel_endpoint_rules h (tm_interface tunnel) ep b
      | TrafficTwo ep1 ep2 \<Rightarrow>
          and_then (add_allow_in_tunnel_endpoint_rules h (tm_interface tunnel) ep1 b)
            (add_allow_in_tunnel_endpoint_rules h (tm_interface tunnel) ep2))"

definition add_connected_dns_rules ::
  "fw_host \<Rightarrow> string \<Rightarrow> resolved_dns_config \<Rightarrow> batch \<Rightarrow> fw_error + batch" where
  "add_connected_dns_rules h iface dns_config b =
     and_then
       (try_fold (\<lambda>server b.
          and_then (add_allow_tunnel_dns_rule h iface Udp server b)
            (add_allow_tunnel_dns_rule h iface Tcp server)) (rd_tunnel_config dns_config) b)
       (try_fold (\<lambda>server b.
          and_then (add_allow_local_dns_rule h iface Udp server b)
            (add_allow_local_dns_rule h iface Tcp server)) (rd_non_tunnel_config dns_config))"

definition add_policy_specific_rules ::
  "fw_host \<Rightarrow> firewall_policy \<Rightarrow> u32 \<Rightarrow> batch \<Rightarrow> fw_error + batch" where
  "add_policy_specific_rules h policy fwmark b =
     and_then
       (case policy of
          PolicyConnecting peer_endpoints tunnel allow_lan allowed_endpoint traffic \<Rightarrow>
            (let b = fold (add_allow_tunnel_endpoint_rules h fwmark) peer_endpoints b;
                 b = add_allow_endpoint_rules h allowed_endpoint b;
                 b = add_drop_dns_rule h b in
             (case tunnel of
                None \<Rightarrow> Inr (b, allow_lan)
              | Some tunnel \<Rightarrow>
                  and_then (add_connecting_tunnel_rules h tunnel traffic b) (\<lambda>b.
                  Inr (if allow_lan then add_block_cve_2019_14899 h tunnel b else b, allow_lan))))
        | PolicyConnected peer_endpoints tunnel allow_lan dns_config \<Rightarrow>
            (let b = fold (add_allow_tunnel_endpoint_rules h fwmark) peer_endpoints b in
             and_then (add_connected_dns_rules h (tm_interface tunnel) dns_config b) (\<lambda>b.
             let b = add_drop_dns_rule h b in
             and_then (add_allow_tunnel_rules h (tm_interface tunnel) b) (\<lambda>b.
             Inr (if allow_lan then add_block_cve_2019_14899 h tunnel b else b, allow_lan))))
        | PolicyBlocked allow_lan allowed_endpoint \<Rightarrow>
            (let b = (case allowed_endpoint of None \<Rightarrow> b
                      | Some ep \<Rightarrow> add_allow_endpoint_rules h ep b)
             in Inr (add_drop_dns_rule h b, allow_lan)))
       (\<lambda>(b, allow_lan).
     let b = (if allow_lan then add_allow_lan_rules h b else b)
     in Inr (add_to_chains [OutChain, ForwardChain]
               (add_verdict h (Reject IcmpPortUnreach)) b))"

definition finalize_batch ::
  "fw_host \<Rightarrow> firewall_policy \<Rightarrow> firewall \<Rightarrow> batch \<Rightarrow> fw_error + batch" where
  "finalize_batch h policy fw b =
     and_then (add_loopback_rules h b) (\<lambda>b.
     and_then (add_split_tunneling_rules h policy fw b) (\<lambda>b.
     let b = add_dhcp_client_rules h b;
         b = add_ndp_rules h b in
     add_policy_specific_rules h policy (fw_fwmark fw) b))"

section \<open>Applying and resetting a policy\<close>

text \<open>
  Sending a batch is a netlink transaction. Netfilter commits a batch as a whole or not at all; the
  acknowledgements can fail to be read either way. What the kernel did is an input of the model,
  and the state \<open>fw_kernel\<close> records the last batch it committed together with the two sysctls
  that the firewall writes.
\<close>

datatype netlink_outcome =
  Committed
| NotCommitted fw_error
| CommittedUnacked fw_error

record fw_kernel =
  k_batch :: "batch option"
  k_src_valid_mark :: string
  k_arp_ignore :: string

record fw_io =
  io_host :: fw_host
  io_netlink :: netlink_outcome
  io_verify :: "fw_error option" \<comment> \<open>reading the table list back fails with this error\<close>
  io_table_listed :: bool
  io_dont_set_src_valid_mark :: bool
  io_dont_set_arp_ignore :: bool
  io_write_src_valid_mark_ok :: bool
  io_read_arp_ignore_ok :: bool
  io_write_arp_ignore_ok :: bool

definition set_src_valid_mark_sysctl :: "fw_io \<Rightarrow> fw_kernel \<Rightarrow> fw_kernel" where
  "set_src_valid_mark_sysctl io k =
     (if io_write_src_valid_mark_ok io then k\<lparr>k_src_valid_mark := ''1''\<rparr> else k)"

definition lock_down_arp_ignore_sysctl :: "fw_io \<Rightarrow> fw_kernel \<Rightarrow> fw_kernel" where
  "lock_down_arp_ignore_sysctl io k =
     (if \<not> io_read_arp_ignore_ok io then k
      else let current = trim (k_arp_ignore k) in
        if current = ''0'' \<or> current = ''1'' then
          (if io_write_arp_ignore_ok io then k\<lparr>k_arp_ignore := ''2''\<rparr> else k)
        else k)"

definition apply_kernel_config :: "fw_io \<Rightarrow> firewall_policy \<Rightarrow> fw_kernel \<Rightarrow> fw_kernel" where
  "apply_kernel_config io policy k =
     (let k = (if io_dont_set_src_valid_mark io then k
               else case policy of
                      PolicyConnecting _ _ _ _ _ \<Rightarrow> set_src_valid_mark_sysctl io k
                    | _ \<Rightarrow> k)
      in if io_dont_set_arp_ignore io then k
         else case policy of
                PolicyBlocked _ _ \<Rightarrow> k
              | _ \<Rightarrow> lock_down_arp_ignore_sysctl io k)"

definition send_and_process :: "fw_io \<Rightarrow> batch \<Rightarrow> fw_kernel \<Rightarrow> (fw_error + unit) \<times> fw_kernel" where
  "send_and_process io b k =
     (case io_netlink io of
        Committed \<Rightarrow> (Inr (), k\<lparr>k_batch := Some b\<rparr>)
      | NotCommitted e \<Rightarrow> (Inl e, k)
      | CommittedUnacked e \<Rightarrow> (Inl e, k\<lparr>k_batch := Some b\<rparr>))"

definition verify_tables :: "fw_io \<Rightarrow> fw_error + unit" where
  "verify_tables io =
     (case io_verify io of
        Some e \<Rightarrow> Inl e
      | None \<Rightarrow> if io_table_listed io then Inr () else Inl NetfilterTableNotSetError)"

definition fw_apply_policy ::
  "fw_io \<Rightarrow> firewall \<Rightarrow> firewall_policy \<Rightarrow> fw_kernel \<Rightarrow> (fw_error + unit) \<times> fw_kernel" where
  "fw_apply_policy io fw policy k =
     (case finalize_batch (io_host io) policy fw batch_new of
        Inl e \<Rightarrow> (Inl e, k)
      | Inr b \<Rightarrow>
          (case send_and_process io b k of
             (Inl e, k) \<Rightarrow> (Inl e, k)
           | (Inr _, k) \<Rightarrow> (verify_tables io, apply_kernel_config io policy k)))"

definition fw_reset_policy :: "fw_io \<Rightarrow> fw_kernel \<Rightarrow> (fw_error + unit) \<times> fw_kernel" where
  "fw_reset_policy io k = send_and_process io [TableAdd, TableDel] k"

end
