(* ===== verification/Firewall_Spec.thy ===== *)
theory Firewall_Spec
  imports Firewall_Linux
begin

text \<open>
  What the generated nftables rules mean. The first part reads a batch back: the rules and the
  default verdict of each chain. The second part is the specification, the "App states" section
  of \<open>docs/security.md\<close> as predicates on packets. The third part, inside the locale \<open>nftables\<close>,
  computes the decision function of every \<open>add_*\<close> method, one lemma per method and chain.
\<close>

section \<open>Reading a batch\<close>

fun rules_of :: "chain_name \<Rightarrow> batch \<Rightarrow> nft_rule list" where
  "rules_of c [] = []"
| "rules_of c (RuleAdd c' r # b) = (if c' = c then [r] else []) @ rules_of c b"
| "rules_of c (_ # b) = rules_of c b"

fun base_verdict :: "chain_name \<Rightarrow> batch \<Rightarrow> verdict" where
  "base_verdict c [] = Accept"
| "base_verdict c (ChainAdd decl # b) =
     (if cd_name decl = c then (if cd_policy decl = Some PolicyDrop then Drop else Accept)
      else base_verdict c b)"
| "base_verdict c (_ # b) = base_verdict c b"

lemma rules_of_append [simp]: "rules_of c (b @ b') = rules_of c b @ rules_of c b'"
  by (induction c b rule: rules_of.induct) auto

lemma base_verdict_add_rule [simp]: "base_verdict c (add_rule c' r b) = base_verdict c b"
  unfolding add_rule_def by (induction c b rule: base_verdict.induct) auto

lemma rules_of_new [simp]: "rules_of c batch_new = []"
  by (simp add: batch_new_def)

section \<open>Packets as the security document describes them\<close>

definition end_addr :: "conn_end \<Rightarrow> packet \<Rightarrow> ip_addr" where
  "end_addr e p = (case e of Src \<Rightarrow> l3_src (p_l3 p) | Dst \<Rightarrow> l3_dst (p_l3 p))"

definition port_match :: "transport_protocol \<Rightarrow> conn_end \<Rightarrow> u16 \<Rightarrow> packet \<Rightarrow> bool" where
  "port_match protocol e port p =
     (case p_l4 p of
        L4udp s d \<Rightarrow> protocol = Udp \<and> port = (case e of Src \<Rightarrow> s | Dst \<Rightarrow> d)
      | L4tcp s d \<Rightarrow> protocol = Tcp \<and> port = (case e of Src \<Rightarrow> s | Dst \<Rightarrow> d)
      | _ \<Rightarrow> False)"

fun in_net :: "fw_host \<Rightarrow> ip_network \<Rightarrow> ip_addr \<Rightarrow> bool" where
  "in_net h (NetV4 a n) (IpV4 x) = (and x (h_v4_mask h n) = a)"
| "in_net h (NetV6 a n) (IpV6 x) = (and x (h_v6_mask h n) = a)"
| "in_net h _ _ = False"

definition endpoint_match :: "conn_end \<Rightarrow> endpoint \<Rightarrow> packet \<Rightarrow> bool" where
  "endpoint_match e ep p =
     (end_addr e p = sock_ip (ep_address ep) \<and>
      port_match (ep_protocol ep) e (sock_port (ep_address ep)) p)"

definition icmpv6_match :: "u8 \<Rightarrow> packet \<Rightarrow> bool" where
  "icmpv6_match type p = (p_l4 p = L4icmpv6 type 0)"

definition established :: "fw_host \<Rightarrow> packet \<Rightarrow> bool" where
  "established h p = (and (p_ct_state p) (h_established h) \<noteq> 0)"

definition clients_match :: "allowed_clients \<Rightarrow> packet \<Rightarrow> bool" where
  "clients_match c p = (allow_all c \<or> p_skuid p = Some 0)"

definition on_iface :: "fw_host \<Rightarrow> direction \<Rightarrow> string \<Rightarrow> packet \<Rightarrow> bool" where
  "on_iface h d iface p = (h_iface_index h iface = Some (case d of In \<Rightarrow> p_iif p | Out \<Rightarrow> p_oif p))"

section \<open>Decision functions of single expressions\<close>

context nftables
begin

lemma eval_check_port [rule_sem]:
  "eval (check_port protocol e port @ es) r p =
     (if port_match protocol e port p then eval es (ValBe16 port) p else (p, Next))"
  by (cases "p_l4 p"; cases protocol; cases e)
    (auto simp: check_port_def check_l4proto_def port_match_def)

lemma eval_check_ip [rule_sem]:
  "eval (check_ip e ip @ es) r p = (if end_addr e p = ip then eval es (ValIp ip) p else (p, Next))"
  by (cases "p_l3 p"; cases ip; cases e) (auto simp: check_ip_def check_l3proto_def end_addr_def)

lemma eval_check_net [rule_sem]:
  "eval (check_net h e net @ es) r p =
     (if in_net h net (end_addr e p) then eval es (ValIp (net_ip net)) p else (p, Next))"
  by (cases "p_l3 p"; cases net; cases e)
    (auto simp: check_net_def check_l3proto_def end_addr_def)

lemma eval_check_icmpv6 [rule_sem]:
  "eval (check_icmpv6 type 0 @ es) r p =
     (if icmpv6_match type p then eval es (ValU8 0) p else (p, Next))"
  by (cases "p_l4 p") (auto simp: check_icmpv6_def icmpv6_match_def)

lemma eval_check_established [rule_sem]:
  "eval (check_established h @ es) r p =
     (if established h p then eval es (ValU32 (and (p_ct_state p) (h_established h))) p else (p, Next))"
  by (auto simp: check_established_def established_def)

lemma eval_check_endpoint [rule_sem]:
  "eval (check_endpoint e ep @ es) r p =
     (if endpoint_match e ep p then eval es (ValBe16 (sock_port (ep_address ep))) p else (p, Next))"
  by (auto simp: check_endpoint_def endpoint_match_def rule_sem)

lemma eval_check_l3_addr [rule_sem]:
  "eval (check_l3proto ip @ payload_addr ip e # CmpEq (ValIp ip) # es) r p =
     (if end_addr e p = ip then eval es (ValIp ip) p else (p, Next))"
  using eval_check_ip [of e ip es r p] by (simp add: check_ip_def)

lemma eval_add_verdict [rule_sem]: "eval (add_verdict h v) r p = (p, Final v)"
  by (simp add: add_verdict_def)

lemma decides_clients:
  "eval (check_clients c @ add_verdict h v) r p =
     (p, if clients_match c p then Final v else Next)"
  by (cases "p_skuid p")
    (auto simp: check_clients_def clients_match_def rule_sem ROOT_UID_def)

section \<open>Decision functions of chains\<close>

text \<open>
  \<open>sem c b p F\<close>: on packet \<open>p\<close>, chain \<open>c\<close> of batch \<open>b\<close> leaves the packet unchanged and decides
  \<open>F d\<close>, where \<open>d\<close> is what is decided after its last rule; the chain still has the default
  verdict it was created with.
\<close>

definition sem :: "chain_name \<Rightarrow> batch \<Rightarrow> packet \<Rightarrow> (verdict \<Rightarrow> verdict) \<Rightarrow> bool" where
  "sem c b p F \<longleftrightarrow>
     (\<exists>guards. list_all2 (\<lambda>rule (g, v). decides rule p g v) (rules_of c b) guards \<and>
               (\<forall>d. first_match guards d = F d)) \<and>
     base_verdict c b = base_verdict c batch_new"

lemma sem_chain:
  "sem c b p F \<Longrightarrow>
   chain (base_verdict c b) (rules_of c b) p = (p, F (base_verdict c batch_new))"
  by (auto simp: sem_def chain_decides)

lemma sem_new: "sem c batch_new p (\<lambda>d. d)"
  by (auto simp: sem_def)

lemma sem_add_rule:
  assumes "sem c b p F" and "decides rule p g v"
  shows "sem c (add_rule c rule b) p (\<lambda>d. F (if g then v else d))"
proof -
  from assms(1) obtain guards
    where gs: "list_all2 (\<lambda>rule (g, v). decides rule p g v) (rules_of c b) guards"
      and F: "\<And>d. first_match guards d = F d"
    by (auto simp: sem_def)
  from gs assms(2)
  have "list_all2 (\<lambda>rule (g, v). decides rule p g v)
          (rules_of c (add_rule c rule b)) (guards @ [(g, v)])"
    by (auto simp: add_rule_def intro: list_all2_appendI)
  moreover have "\<And>d. first_match (guards @ [(g, v)]) d = F (if g then v else d)"
    by (simp add: first_match_append F)
  moreover from assms(1) have "base_verdict c (add_rule c rule b) = base_verdict c batch_new"
    by (simp add: sem_def)
  ultimately show ?thesis unfolding sem_def by blast
qed

lemma sem_other [simp]: "c' \<noteq> c \<Longrightarrow> sem c (add_rule c' rule b) p F = sem c b p F"
  by (simp add: sem_def) (simp add: add_rule_def)

lemma sem_cong: "sem c b p F \<Longrightarrow> (\<And>d. F d = G d) \<Longrightarrow> sem c b p G"
  by (simp add: sem_def)

lemma sem_loop:
  assumes step: "\<And>x b F. sem c b p F \<Longrightarrow> sem c (f x b) p (\<lambda>d. F (if g x then v else d))"
  shows "sem c b p F \<Longrightarrow> sem c (fold f xs b) p (\<lambda>d. F (if \<exists>x \<in> set xs. g x then v else d))"
proof (induction xs arbitrary: b F)
  case (Cons x xs)
  have "sem c (fold f (x # xs) b) p
          (\<lambda>d. F (if g x then v else if \<exists>x \<in> set xs. g x then v else d))"
    using Cons.IH [OF step [OF Cons.prems]] by simp
  then show ?case by (rule sem_cong) simp
qed simp

lemma sem_try_loop:
  assumes step: "\<And>x b b' F. f x b = Inr b' \<Longrightarrow> sem c b p F \<Longrightarrow>
      sem c b' p (\<lambda>d. F (if g x then v else d))"
  shows "try_fold f xs b = Inr b' \<Longrightarrow> sem c b p F \<Longrightarrow>
      sem c b' p (\<lambda>d. F (if \<exists>x \<in> set xs. g x then v else d))"
proof (induction xs arbitrary: b F)
  case (Cons x xs)
  from Cons.prems(1) obtain b1 where b1: "f x b = Inr b1" and rest: "try_fold f xs b1 = Inr b'"
    by auto
  have "sem c b' p (\<lambda>d. F (if g x then v else if \<exists>x \<in> set xs. g x then v else d))"
    using Cons.IH [OF rest step [OF b1 Cons.prems(2)]] by simp
  then show ?case by (rule sem_cong) simp
qed simp

lemma sem_loop_other:
  assumes "\<And>x b. sem c (f x b) p F = sem c b p F"
  shows "sem c (fold f xs b) p F = sem c b p F"
  using assms by (induction xs arbitrary: b) auto

lemma sem_try_loop_other:
  assumes step: "\<And>x b b'. f x b = Inr b' \<Longrightarrow> sem c b p F \<Longrightarrow> sem c b' p F"
  shows "try_fold f xs b = Inr b' \<Longrightarrow> sem c b p F \<Longrightarrow> sem c b' p F"
  using step by (induction xs arbitrary: b) auto

end

section \<open>The specification\<close>

definition lo_out :: "fw_host \<Rightarrow> packet \<Rightarrow> bool" where "lo_out h = on_iface h Out ''lo''"
definition lo_in :: "fw_host \<Rightarrow> packet \<Rightarrow> bool" where "lo_in h = on_iface h In ''lo''"

definition split_tunneling :: "fw_host \<Rightarrow> firewall \<Rightarrow> bool" where
  "split_tunneling h fw =
     (h_feature_cgroup2 h \<and> fw_excluded_cgroup2 fw \<noteq> None \<or> fw_net_cls fw \<noteq> None)"

definition excluded :: "fw_host \<Rightarrow> firewall \<Rightarrow> packet \<Rightarrow> bool" where
  "excluded h fw p = (split_tunneling h fw \<and> p_ct_mark p = split_tunnel_MARK)"

definition dhcp_client_out :: "fw_host \<Rightarrow> packet \<Rightarrow> bool" where
  "dhcp_client_out h p =
     (port_match Udp Src 68 p \<and> end_addr Dst p = IpV4 ipv4_broadcast \<and> port_match Udp Dst 67 p \<or>
      in_net h IPV6_LINK_LOCAL (end_addr Src p) \<and> port_match Udp Src 546 p \<and>
      (\<exists>server \<in> set DHCPV6_SERVER_ADDRS. end_addr Dst p = IpV6 server) \<and> port_match Udp Dst 547 p)"

definition dhcp_client_in :: "fw_host \<Rightarrow> packet \<Rightarrow> bool" where
  "dhcp_client_in h p =
     (port_match Udp Src 67 p \<and> port_match Udp Dst 68 p \<or>
      in_net h IPV6_LINK_LOCAL (end_addr Src p) \<and> port_match Udp Src 547 p \<and>
      in_net h IPV6_LINK_LOCAL (end_addr Dst p) \<and> port_match Udp Dst 546 p)"

definition ndp_out :: "fw_host \<Rightarrow> packet \<Rightarrow> bool" where
  "ndp_out h p =
     (end_addr Dst p = IpV6 ROUTER_SOLICITATION_OUT_DST_ADDR \<and> icmpv6_match 133 p \<or>
      (in_net h SOLICITED_NODE_MULTICAST (end_addr Dst p) \<or> in_net h IPV6_LINK_LOCAL (end_addr Dst p))
        \<and> icmpv6_match 135 p \<or>
      in_net h IPV6_LINK_LOCAL (end_addr Dst p) \<and> icmpv6_match 136 p)"

definition ndp_in :: "fw_host \<Rightarrow> packet \<Rightarrow> bool" where
  "ndp_in h p =
     (in_net h IPV6_LINK_LOCAL (end_addr Src p) \<and>
        (icmpv6_match 134 p \<or> icmpv6_match 137 p \<or> icmpv6_match 135 p) \<or>
      icmpv6_match 136 p)"

definition dns_out :: "packet \<Rightarrow> bool" where
  "dns_out p = (port_match Udp Dst 53 p \<or> port_match Tcp Dst 53 p)"

definition dns_reject :: "packet \<Rightarrow> verdict" where
  "dns_reject p = Reject (if port_match Udp Dst 53 p then IcmpPortUnreach else TcpRst)"

definition peer_out :: "firewall \<Rightarrow> allowed_endpoint \<Rightarrow> packet \<Rightarrow> bool" where
  "peer_out fw ep p = (endpoint_match Dst (ae_endpoint ep) p \<and> p_mark p = fw_fwmark fw)"

definition peer_in :: "fw_host \<Rightarrow> allowed_endpoint \<Rightarrow> packet \<Rightarrow> bool" where
  "peer_in h ep p = (endpoint_match Src (ae_endpoint ep) p \<and> established h p)"

definition api_out :: "allowed_endpoint \<Rightarrow> packet \<Rightarrow> bool" where
  "api_out ep p = (endpoint_match Dst (ae_endpoint ep) p \<and> clients_match (ae_clients ep) p)"

definition api_in :: "fw_host \<Rightarrow> allowed_endpoint \<Rightarrow> packet \<Rightarrow> bool" where
  "api_in h ep p =
     (endpoint_match Src (ae_endpoint ep) p \<and> established h p \<and> clients_match (ae_clients ep) p)"

definition lan_dst :: "fw_host \<Rightarrow> packet \<Rightarrow> bool" where
  "lan_dst h p =
     (\<exists>net \<in> set (ALLOWED_LAN_NETS @ ALLOWED_LAN_MULTICAST_NETS). in_net h net (end_addr Dst p))"

definition lan_src :: "fw_host \<Rightarrow> packet \<Rightarrow> bool" where
  "lan_src h p = (\<exists>net \<in> set ALLOWED_LAN_NETS. in_net h net (end_addr Src p))"

definition dhcp_server_out :: "packet \<Rightarrow> bool" where
  "dhcp_server_out p = (port_match Udp Src 67 p \<and> port_match Udp Dst 68 p)"

definition dhcp_server_in :: "packet \<Rightarrow> bool" where
  "dhcp_server_in p =
     (port_match Udp Src 68 p \<and> end_addr Dst p = IpV4 ipv4_broadcast \<and> port_match Udp Dst 67 p)"

definition tunnel_dns_out :: "fw_host \<Rightarrow> string \<Rightarrow> ip_addr \<Rightarrow> packet \<Rightarrow> bool" where
  "tunnel_dns_out h iface server p =
     (on_iface h Out iface p \<and> dns_out p \<and> end_addr Dst p = server)"

definition off_iface :: "fw_host \<Rightarrow> direction \<Rightarrow> string \<Rightarrow> packet \<Rightarrow> bool" where
  "off_iface h d iface p = (h_iface_index h iface \<noteq> Some (case d of In \<Rightarrow> p_iif p | Out \<Rightarrow> p_oif p))"

definition local_dns_out :: "fw_host \<Rightarrow> string \<Rightarrow> ip_addr \<Rightarrow> packet \<Rightarrow> bool" where
  "local_dns_out h iface server p =
     (off_iface h Out iface p \<and> dns_out p \<and> end_addr Dst p = server)"

definition local_dns_in :: "fw_host \<Rightarrow> string \<Rightarrow> ip_addr \<Rightarrow> packet \<Rightarrow> bool" where
  "local_dns_in h iface server p =
     (off_iface h In iface p \<and> (port_match Udp Src 53 p \<or> port_match Tcp Src 53 p) \<and>
      end_addr Src p = server)"

definition in_tunnel_out :: "fw_host \<Rightarrow> string \<Rightarrow> allowed_tunnel_traffic \<Rightarrow> packet \<Rightarrow> bool" where
  "in_tunnel_out h iface traffic p =
     (on_iface h Out iface p \<and>
      (case traffic of
         TrafficNone \<Rightarrow> False
       | TrafficAll \<Rightarrow> True
       | TrafficOne ep \<Rightarrow> endpoint_match Dst ep p
       | TrafficTwo ep1 ep2 \<Rightarrow> endpoint_match Dst ep1 p \<or> endpoint_match Dst ep2 p))"

definition in_tunnel_in :: "fw_host \<Rightarrow> string \<Rightarrow> allowed_tunnel_traffic \<Rightarrow> packet \<Rightarrow> bool" where
  "in_tunnel_in h iface traffic p =
     (on_iface h In iface p \<and>
      (case traffic of
         TrafficNone \<Rightarrow> False
       | TrafficAll \<Rightarrow> True
       | TrafficOne ep \<Rightarrow> endpoint_match Src ep p
       | TrafficTwo ep1 ep2 \<Rightarrow> endpoint_match Src ep1 p \<or> endpoint_match Src ep2 p))"

definition lan_out :: "fw_host \<Rightarrow> packet \<Rightarrow> bool" where
  "lan_out h p = (lan_dst h p \<or> dhcp_server_out p)"

definition lan_in :: "fw_host \<Rightarrow> packet \<Rightarrow> bool" where
  "lan_in h p = (lan_src h p \<or> dhcp_server_in p)"

definition tunnel_fwd :: "fw_host \<Rightarrow> string \<Rightarrow> packet \<Rightarrow> bool" where
  "tunnel_fwd h iface p = (on_iface h Out iface p \<or> on_iface h In iface p \<and> established h p)"

text \<open>What is allowed in every state: loopback, excluded applications, DHCP, a subset of NDP.\<close>

definition always_out :: "fw_host \<Rightarrow> firewall \<Rightarrow> packet \<Rightarrow> bool" where
  "always_out h fw p = (lo_out h p \<or> excluded h fw p \<or> dhcp_client_out h p \<or> ndp_out h p)"

definition always_in :: "fw_host \<Rightarrow> firewall \<Rightarrow> packet \<Rightarrow> bool" where
  "always_in h fw p = (lo_in h p \<or> excluded h fw p \<or> dhcp_client_in h p \<or> ndp_in h p)"

definition always_fwd :: "fw_host \<Rightarrow> firewall \<Rightarrow> packet \<Rightarrow> bool" where
  "always_fwd h fw p =
     (excluded h fw p \<or> dhcp_client_out h p \<or> dhcp_client_in h p \<or> ndp_out h p \<or> ndp_in h p)"

text \<open>What a policy allows in addition.\<close>

fun policy_out :: "fw_host \<Rightarrow> firewall \<Rightarrow> firewall_policy \<Rightarrow> packet \<Rightarrow> bool" where
  "policy_out h fw (PolicyConnecting peers tunnel lan api traffic) p =
     ((\<exists>peer \<in> set peers. peer_out fw peer p) \<or> api_out api p \<or>
      \<not> dns_out p \<and>
        ((\<exists>t. tunnel = Some t \<and> in_tunnel_out h (tm_interface t) traffic p) \<or> lan \<and> lan_out h p))"
| "policy_out h fw (PolicyConnected peers tunnel lan dns) p =
     ((\<exists>peer \<in> set peers. peer_out fw peer p) \<or>
      (\<exists>server \<in> set (rd_tunnel_config dns). tunnel_dns_out h (tm_interface tunnel) server p) \<or>
      (\<exists>server \<in> set (rd_non_tunnel_config dns). local_dns_out h (tm_interface tunnel) server p) \<or>
      \<not> dns_out p \<and> (on_iface h Out (tm_interface tunnel) p \<or> lan \<and> lan_out h p))"
| "policy_out h fw (PolicyBlocked lan api) p =
     ((\<exists>ep. api = Some ep \<and> api_out ep p) \<or> \<not> dns_out p \<and> lan \<and> lan_out h p)"

fun policy_in :: "fw_host \<Rightarrow> firewall_policy \<Rightarrow> packet \<Rightarrow> bool" where
  "policy_in h (PolicyConnecting peers tunnel lan api traffic) p =
     ((\<exists>peer \<in> set peers. peer_in h peer p) \<or> api_in h api p \<or>
      (\<exists>t. tunnel = Some t \<and> in_tunnel_in h (tm_interface t) traffic p) \<or>
      lan \<and> lan_in h p \<and> (\<forall>t. tunnel = Some t \<longrightarrow> end_addr Dst p \<notin> set (tm_ips t)))"
| "policy_in h (PolicyConnected peers tunnel lan dns) p =
     ((\<exists>peer \<in> set peers. peer_in h peer p) \<or>
      (\<exists>server \<in> set (rd_non_tunnel_config dns). local_dns_in h (tm_interface tunnel) server p) \<or>
      on_iface h In (tm_interface tunnel) p \<or>
      lan \<and> lan_in h p \<and> end_addr Dst p \<notin> set (tm_ips tunnel))"
| "policy_in h (PolicyBlocked lan api) p =
     ((\<exists>ep. api = Some ep \<and> api_in h ep p) \<or> lan \<and> lan_in h p)"

fun policy_fwd :: "fw_host \<Rightarrow> firewall_policy \<Rightarrow> packet \<Rightarrow> bool" where
  "policy_fwd h (PolicyConnecting peers tunnel lan api traffic) p =
     (\<not> dns_out p \<and>
      ((\<exists>t. tunnel = Some t \<and> traffic = TrafficAll \<and> tunnel_fwd h (tm_interface t) p) \<or>
       lan \<and> lan_dst h p))"
| "policy_fwd h (PolicyConnected peers tunnel lan dns) p =
     ((\<exists>server \<in> set (rd_tunnel_config dns). tunnel_dns_out h (tm_interface tunnel) server p) \<or>
      (\<exists>server \<in> set (rd_non_tunnel_config dns).
         local_dns_out h (tm_interface tunnel) server p \<or> local_dns_in h (tm_interface tunnel) server p) \<or>
      \<not> dns_out p \<and> (tunnel_fwd h (tm_interface tunnel) p \<or> lan \<and> lan_dst h p))"
| "policy_fwd h (PolicyBlocked lan api) p = (\<not> dns_out p \<and> lan \<and> lan_dst h p)"

text \<open>A packet passes a chain of a batch under a given evaluator of chains.\<close>

definition accepted ::
  "(verdict \<Rightarrow> nft_rule list \<Rightarrow> packet \<Rightarrow> packet \<times> verdict) \<Rightarrow> chain_name \<Rightarrow> batch \<Rightarrow> packet \<Rightarrow> bool"
where
  "accepted chain c b p = (snd (chain (base_verdict c b) (rules_of c b) p) = Accept)"

end
