(* ===== verification/Firewall_Sem.thy ===== *)
theory Firewall_Sem
  imports Firewall_Spec
begin

text \<open>
  The decision function of every \<open>add_*\<close> method of the Linux firewall, for the output, input and
  forward chains, proved once for any evaluator that satisfies the \<open>nftables\<close> contract.
\<close>

context nftables
begin

definition decides_at :: "nft_rule \<Rightarrow> nft_val \<Rightarrow> packet \<Rightarrow> bool \<Rightarrow> verdict \<Rightarrow> bool" where
  "decides_at rule r p g v \<longleftrightarrow> eval rule r p = (p, if g then Final v else Next)"

lemma decidesI: "decides_at rule (ValU32 0) p g v \<Longrightarrow> decides rule p g v"
  by (simp add: decides_at_def decides_def)

lemma dec_verdict: "decides_at (add_verdict h v) r p True v"
  by (simp add: decides_at_def rule_sem)

lemma dec_port:
  "decides_at es (ValBe16 port) p g v \<Longrightarrow>
   decides_at (check_port protocol e port @ es) r p (port_match protocol e port p \<and> g) v"
  by (simp add: decides_at_def rule_sem)

lemma dec_ip:
  "decides_at es (ValIp ip) p g v \<Longrightarrow> decides_at (check_ip e ip @ es) r p (end_addr e p = ip \<and> g) v"
  by (simp add: decides_at_def rule_sem)

lemma dec_net:
  "decides_at es (ValIp (net_ip net)) p g v \<Longrightarrow>
   decides_at (check_net h e net @ es) r p (in_net h net (end_addr e p) \<and> g) v"
  by (simp add: decides_at_def rule_sem)

lemma dec_icmpv6:
  "decides_at es (ValU8 0) p g v \<Longrightarrow>
   decides_at (check_icmpv6 type 0 @ es) r p (icmpv6_match type p \<and> g) v"
  by (simp add: decides_at_def rule_sem)

lemma dec_endpoint:
  "decides_at es (ValBe16 (sock_port (ep_address ep))) p g v \<Longrightarrow>
   decides_at (check_endpoint e ep @ es) r p (endpoint_match e ep p \<and> g) v"
  by (simp add: decides_at_def rule_sem)

lemma dec_established:
  "decides_at es (ValU32 (and (p_ct_state p) (h_established h))) p g v \<Longrightarrow>
   decides_at (check_established h @ es) r p (established h p \<and> g) v"
  by (simp add: decides_at_def rule_sem)

lemma dec_clients: "decides_at (check_clients c @ add_verdict h v) r p (clients_match c p) v"
  by (simp add: decides_at_def decides_clients)

lemma dec_l3_addr:
  "decides_at es (ValIp ip) p g v \<Longrightarrow>
   decides_at (check_l3proto ip @ payload_addr ip e # CmpEq (ValIp ip) # es) r p
     (end_addr e p = ip \<and> g) v"
  by (simp add: decides_at_def rule_sem)

lemma dec_ct_mark:
  "decides_at es (ValU32 m) p g v \<Longrightarrow>
   decides_at (CtMark # CmpEq (ValU32 m) # es) r p (p_ct_mark p = m \<and> g) v"
  by (simp add: decides_at_def)

lemma dec_mark:
  "decides_at es (ValU32 m) p g v \<Longrightarrow>
   decides_at (MetaMark # CmpEq (ValU32 m) # es) r p (p_mark p = m \<and> g) v"
  by (simp add: decides_at_def)

lemma dec_iface:
  "h_iface_index h iface = Some i \<Longrightarrow> decides_at es (ValU32 i) p g v \<Longrightarrow>
   decides_at (load_iface d # CmpEq (ValU32 i) # es) r p (on_iface h d iface p \<and> g) v"
  by (cases d) (auto simp: decides_at_def load_iface_def on_iface_def)

lemma dec_not_iface:
  "h_iface_index h iface = Some i \<Longrightarrow>
   decides_at es (ValU32 (case d of In \<Rightarrow> p_iif p | Out \<Rightarrow> p_oif p)) p g v \<Longrightarrow>
   decides_at (load_iface d # CmpNeq (ValU32 i) # es) r p (off_iface h d iface p \<and> g) v"
  by (cases d) (auto simp: decides_at_def load_iface_def off_iface_def)

lemmas dec_intros = decidesI dec_verdict dec_port dec_ip dec_net dec_icmpv6 dec_endpoint
  dec_established dec_clients dec_l3_addr dec_ct_mark dec_mark

lemmas port_consts = DHCPV4_CLIENT_PORT_def DHCPV4_SERVER_PORT_def DHCPV6_CLIENT_PORT_def
  DHCPV6_SERVER_PORT_def

lemma sem_skip: "c' \<noteq> c \<Longrightarrow> sem c b p F \<Longrightarrow> sem c (add_rule c' rule b) p F"
  by simp

section \<open>Rules common to all policies\<close>

lemma sem_loopback:
  assumes ok: "add_loopback_rules h b = Inr b'"
  shows "sem OutChain b p F \<Longrightarrow> sem OutChain b' p (\<lambda>d. F (if lo_out h p then Accept else d))"
    and "sem InChain b p F \<Longrightarrow> sem InChain b' p (\<lambda>d. F (if lo_in h p then Accept else d))"
    and "sem ForwardChain b p F \<Longrightarrow> sem ForwardChain b' p F"
proof -
  from ok obtain i where i: "h_iface_index h ''lo'' = Some i"
    and b': "b' = add_rule InChain (load_iface In # CmpEq (ValU32 i) # add_verdict h Accept)
                  (add_rule OutChain (load_iface Out # CmpEq (ValU32 i) # add_verdict h Accept) b)"
    by (auto simp: add_loopback_rules_def allow_interface_rule_def check_iface_def)
  show "sem OutChain b p F \<Longrightarrow> sem OutChain b' p (\<lambda>d. F (if lo_out h p then Accept else d))"
    unfolding b'
    by (simp, rule sem_cong, rule sem_add_rule, assumption, rule decidesI, rule dec_iface [OF i],
        rule dec_verdict) (simp add: lo_out_def)
  show "sem InChain b p F \<Longrightarrow> sem InChain b' p (\<lambda>d. F (if lo_in h p then Accept else d))"
    unfolding b'
    by (rule sem_cong, rule sem_add_rule, simp, rule decidesI, rule dec_iface [OF i],
        rule dec_verdict) (simp add: lo_in_def)
  show "sem ForwardChain b p F \<Longrightarrow> sem ForwardChain b' p F"
    unfolding b' by simp
qed

lemma sem_dhcp_client:
  shows "sem OutChain b p F \<Longrightarrow>
      sem OutChain (add_dhcp_client_rules h b) p (\<lambda>d. F (if dhcp_client_out h p then Accept else d))"
    and "sem InChain b p F \<Longrightarrow>
      sem InChain (add_dhcp_client_rules h b) p (\<lambda>d. F (if dhcp_client_in h p then Accept else d))"
    and "sem ForwardChain b p F \<Longrightarrow>
      sem ForwardChain (add_dhcp_client_rules h b) p
        (\<lambda>d. F (if dhcp_client_out h p \<or> dhcp_client_in h p then Accept else d))"
  unfolding add_dhcp_client_rules_def Let_def add_to_chains_def DHCPV6_SERVER_ADDRS_def
  by (simp only: fold_simps id_apply comp_apply, rule sem_cong,
      (rule sem_add_rule | assumption | (rule sem_skip, simp) | rule dec_intros)+,
      force simp: dhcp_client_out_def dhcp_client_in_def DHCPV6_SERVER_ADDRS_def port_consts)+

lemma sem_ndp:
  shows "sem OutChain b p F \<Longrightarrow>
      sem OutChain (add_ndp_rules h b) p (\<lambda>d. F (if ndp_out h p then Accept else d))"
    and "sem InChain b p F \<Longrightarrow>
      sem InChain (add_ndp_rules h b) p (\<lambda>d. F (if ndp_in h p then Accept else d))"
    and "sem ForwardChain b p F \<Longrightarrow>
      sem ForwardChain (add_ndp_rules h b) p (\<lambda>d. F (if ndp_out h p \<or> ndp_in h p then Accept else d))"
  unfolding add_ndp_rules_def Let_def add_to_chains_def
  by (simp only: fold_simps id_apply comp_apply, rule sem_cong,
      (rule sem_add_rule | assumption | (rule sem_skip, simp) | rule dec_intros)+,
      force simp: ndp_out_def ndp_in_def)+

lemma sem_tunnel_dns_mangle:
  "add_tunnel_dns_mangle_rules h iface server b = Inr b' \<Longrightarrow> c \<noteq> MangleChain \<Longrightarrow>
   sem c b p F \<Longrightarrow> sem c b' p F"
  by (auto simp: add_tunnel_dns_mangle_rules_def)

lemma sem_actual_split_tunneling:
  assumes ok: "add_actual_split_tunneling_rules h policy fwmark selector b = Inr b'"
    and c: "c \<in> {InChain, OutChain, ForwardChain}"
    and F: "sem c b p F"
  shows "sem c b' p (\<lambda>d. F (if p_ct_mark p = split_tunnel_MARK then Accept else d))"
proof -
  let ?r = "[CtMark, CmpEq (ValU32 split_tunnel_MARK)] @ add_verdict h Accept"
  have dec: "decides ?r p (p_ct_mark p = split_tunnel_MARK) Accept"
    by (simp add: decides_def rule_sem)
  have step: "sem c (add_to_chains [InChain, OutChain, ForwardChain] ?r (add_rule MangleChain m b1)) p
                (\<lambda>d. F (if p_ct_mark p = split_tunnel_MARK then Accept else d))"
    if "sem c b1 p F" for m b1
    using c that sem_add_rule [OF _ dec, of c]
    by (auto simp: add_to_chains_def)
  have mangle: "sem c b1 p F"
    if "try_fold (add_tunnel_dns_mangle_rules h iface) servers b = Inr b1" for iface servers b1
    using c sem_try_loop_other [where f = "add_tunnel_dns_mangle_rules h iface", OF _ that F]
    by (auto intro: sem_tunnel_dns_mangle)
  show ?thesis
    using ok c step mangle F
    by (cases policy) (auto simp: add_actual_split_tunneling_rules_def Let_def)
qed

lemma sem_split_tunneling:
  assumes "add_split_tunneling_rules h policy fw b = Inr b'"
    and "c \<in> {InChain, OutChain, ForwardChain}" and "sem c b p F"
  shows "sem c b' p (\<lambda>d. F (if excluded h fw p then Accept else d))"
  using assms sem_actual_split_tunneling [OF _ assms(2,3)]
  by (auto simp: add_split_tunneling_rules_def excluded_def split_tunneling_def
      split: bool.splits option.splits)

section \<open>Rules of a policy\<close>

lemma sem_tunnel_endpoint:
  shows "sem OutChain b p F \<Longrightarrow>
      sem OutChain (add_allow_tunnel_endpoint_rules h (fw_fwmark fw) ep b) p
        (\<lambda>d. F (if peer_out fw ep p then Accept else d))"
    and "sem InChain b p F \<Longrightarrow>
      sem InChain (add_allow_tunnel_endpoint_rules h (fw_fwmark fw) ep b) p
        (\<lambda>d. F (if peer_in h ep p then Accept else d))"
    and "sem ForwardChain b p F \<Longrightarrow>
      sem ForwardChain (add_allow_tunnel_endpoint_rules h (fw_fwmark fw) ep b) p F"
proof -
  have out: "decides (check_endpoint Dst (ae_endpoint ep) @ [MetaMark, CmpEq (ValU32 (fw_fwmark fw))]
      @ add_verdict h Accept) p (peer_out fw ep p) Accept"
    by (simp add: decides_def rule_sem peer_out_def)
  have inn: "decides (check_endpoint Src (ae_endpoint ep) @ check_established h @ add_verdict h Accept)
      p (peer_in h ep p) Accept"
    by (simp add: decides_def rule_sem peer_in_def)
  show "sem OutChain b p F \<Longrightarrow>
      sem OutChain (add_allow_tunnel_endpoint_rules h (fw_fwmark fw) ep b) p
        (\<lambda>d. F (if peer_out fw ep p then Accept else d))"
    using sem_add_rule [OF _ out, of OutChain]
    by (simp add: add_allow_tunnel_endpoint_rules_def Let_def)
  show "sem InChain b p F \<Longrightarrow>
      sem InChain (add_allow_tunnel_endpoint_rules h (fw_fwmark fw) ep b) p
        (\<lambda>d. F (if peer_in h ep p then Accept else d))"
    using sem_add_rule [OF _ inn, of InChain]
    by (simp add: add_allow_tunnel_endpoint_rules_def Let_def)
  show "sem ForwardChain b p F \<Longrightarrow>
      sem ForwardChain (add_allow_tunnel_endpoint_rules h (fw_fwmark fw) ep b) p F"
    by (simp add: add_allow_tunnel_endpoint_rules_def Let_def)
qed

lemma sem_tunnel_endpoints:
  shows "sem OutChain b p F \<Longrightarrow>
      sem OutChain (fold (add_allow_tunnel_endpoint_rules h (fw_fwmark fw)) eps b) p
        (\<lambda>d. F (if \<exists>ep \<in> set eps. peer_out fw ep p then Accept else d))"
    and "sem InChain b p F \<Longrightarrow>
      sem InChain (fold (add_allow_tunnel_endpoint_rules h (fw_fwmark fw)) eps b) p
        (\<lambda>d. F (if \<exists>ep \<in> set eps. peer_in h ep p then Accept else d))"
    and "sem ForwardChain b p F \<Longrightarrow>
      sem ForwardChain (fold (add_allow_tunnel_endpoint_rules h (fw_fwmark fw)) eps b) p F"
proof -
  show "sem OutChain b p F \<Longrightarrow>
      sem OutChain (fold (add_allow_tunnel_endpoint_rules h (fw_fwmark fw)) eps b) p
        (\<lambda>d. F (if \<exists>ep \<in> set eps. peer_out fw ep p then Accept else d))"
    by (rule sem_loop) (rule sem_tunnel_endpoint(1))
  show "sem InChain b p F \<Longrightarrow>
      sem InChain (fold (add_allow_tunnel_endpoint_rules h (fw_fwmark fw)) eps b) p
        (\<lambda>d. F (if \<exists>ep \<in> set eps. peer_in h ep p then Accept else d))"
    by (rule sem_loop) (rule sem_tunnel_endpoint(2))
  show "sem ForwardChain b p F \<Longrightarrow>
      sem ForwardChain (fold (add_allow_tunnel_endpoint_rules h (fw_fwmark fw)) eps b) p F"
    by (induction eps arbitrary: b) (simp_all add: sem_tunnel_endpoint(3))
qed

lemma sem_allow_endpoint:
  shows "sem OutChain b p F \<Longrightarrow>
      sem OutChain (add_allow_endpoint_rules h ep b) p (\<lambda>d. F (if api_out ep p then Accept else d))"
    and "sem InChain b p F \<Longrightarrow>
      sem InChain (add_allow_endpoint_rules h ep b) p (\<lambda>d. F (if api_in h ep p then Accept else d))"
    and "sem ForwardChain b p F \<Longrightarrow> sem ForwardChain (add_allow_endpoint_rules h ep b) p F"
  unfolding add_allow_endpoint_rules_def Let_def
  by (rule sem_cong,
      (rule sem_add_rule | assumption | (rule sem_skip, simp) | rule dec_intros)+,
      force simp: api_out_def api_in_def)+

lemma sem_drop_dns:
  shows "sem OutChain b p F \<Longrightarrow>
      sem OutChain (add_drop_dns_rule h b) p (\<lambda>d. F (if dns_out p then dns_reject p else d))"
    and "sem ForwardChain b p F \<Longrightarrow>
      sem ForwardChain (add_drop_dns_rule h b) p (\<lambda>d. F (if dns_out p then dns_reject p else d))"
    and "sem InChain b p F \<Longrightarrow> sem InChain (add_drop_dns_rule h b) p F"
  unfolding add_drop_dns_rule_def Let_def
  by (simp only: fold_simps id_apply comp_apply, rule sem_cong,
      (rule sem_add_rule | assumption | (rule sem_skip, simp) | rule dec_intros)+,
      force simp: dns_out_def dns_reject_def)+

lemma iface_ok:
  "check_iface h d iface = Inr r \<longleftrightarrow>
     (\<exists>i. h_iface_index h iface = Some i \<and> r = [load_iface d, CmpEq (ValU32 i)])"
  "check_not_iface h d iface = Inr r \<longleftrightarrow>
     (\<exists>i. h_iface_index h iface = Some i \<and> r = [load_iface d, CmpNeq (ValU32 i)])"
  by (auto simp: check_iface_def check_not_iface_def and_then_Inr_iff)

lemma tunnel_dns_rule_ok:
  assumes "allow_tunnel_dns_rule h iface protocol host = Inr r"
  shows "decides r p
    (on_iface h Out iface p \<and> port_match protocol Dst 53 p \<and> end_addr Dst p = host) Accept"
proof -
  from assms obtain i where i: "h_iface_index h iface = Some i"
    and r: "r = load_iface Out # CmpEq (ValU32 i) # check_port protocol Dst 53 @
      check_l3proto host @ payload_addr host Dst # CmpEq (ValIp host) # add_verdict h Accept"
    by (auto simp: allow_tunnel_dns_rule_def iface_ok)
  show ?thesis
    unfolding r using dec_iface [OF i dec_port [OF dec_l3_addr [OF dec_verdict]], THEN decidesI]
    by simp
qed

lemma sem_allow_tunnel_dns:
  fixes p :: packet
  assumes ok: "add_allow_tunnel_dns_rule h iface protocol host b = Inr b'"
  defines "g \<equiv> on_iface h Out iface p \<and> port_match protocol Dst 53 p \<and> end_addr Dst p = host"
  shows "sem OutChain b p F \<Longrightarrow> sem OutChain b' p (\<lambda>d. F (if g then Accept else d))"
    and "sem ForwardChain b p F \<Longrightarrow> sem ForwardChain b' p (\<lambda>d. F (if g then Accept else d))"
    and "sem InChain b p F \<Longrightarrow> sem InChain b' p F"
proof -
  from ok obtain r where r: "allow_tunnel_dns_rule h iface protocol host = Inr r"
    and b': "b' = add_rule ForwardChain r (add_rule OutChain r b)"
    by (auto simp: add_allow_tunnel_dns_rule_def)
  have dec: "decides r p g Accept"
    unfolding g_def using r by (rule tunnel_dns_rule_ok)
  show "sem OutChain b p F \<Longrightarrow> sem OutChain b' p (\<lambda>d. F (if g then Accept else d))"
    and "sem ForwardChain b p F \<Longrightarrow> sem ForwardChain b' p (\<lambda>d. F (if g then Accept else d))"
    and "sem InChain b p F \<Longrightarrow> sem InChain b' p F"
    unfolding b' using dec by (simp_all add: sem_add_rule)
qed

lemma sem_allow_local_dns:
  fixes p :: packet
  assumes ok: "add_allow_local_dns_rule h iface protocol host b = Inr b'"
  defines "go \<equiv> off_iface h Out iface p \<and> port_match protocol Dst 53 p \<and> end_addr Dst p = host"
    and "gi \<equiv> off_iface h In iface p \<and> port_match protocol Src 53 p \<and> end_addr Src p = host"
  shows "sem OutChain b p F \<Longrightarrow> sem OutChain b' p (\<lambda>d. F (if go then Accept else d))"
    and "sem InChain b p F \<Longrightarrow> sem InChain b' p (\<lambda>d. F (if gi then Accept else d))"
    and "sem ForwardChain b p F \<Longrightarrow> sem ForwardChain b' p (\<lambda>d. F (if go \<or> gi then Accept else d))"
proof -
  let ?r = "\<lambda>i d e. load_iface d # CmpNeq (ValU32 i) # check_port protocol e 53 @
      check_l3proto host @ payload_addr host e # CmpEq (ValIp host) # add_verdict h Accept"
  from ok obtain i where i: "h_iface_index h iface = Some i"
    and b': "b' = add_rule ForwardChain (?r i In Src) (add_rule InChain (?r i In Src)
        (add_rule ForwardChain (?r i Out Dst) (add_rule OutChain (?r i Out Dst) b)))"
    by (auto simp: add_allow_local_dns_rule_def iface_ok Let_def)
  have out: "decides (?r i Out Dst) p go Accept" and inn: "decides (?r i In Src) p gi Accept"
    using dec_not_iface [OF i dec_port [OF dec_l3_addr [OF dec_verdict]], THEN decidesI]
    by (auto simp: go_def gi_def)
  show "sem OutChain b p F \<Longrightarrow> sem OutChain b' p (\<lambda>d. F (if go then Accept else d))"
    unfolding b' using out by (simp add: sem_add_rule)
  show "sem InChain b p F \<Longrightarrow> sem InChain b' p (\<lambda>d. F (if gi then Accept else d))"
    unfolding b' using inn by (simp add: sem_add_rule)
  show "sem ForwardChain b p F \<Longrightarrow> sem ForwardChain b' p (\<lambda>d. F (if go \<or> gi then Accept else d))"
    unfolding b'
    by (rule sem_cong, rule sem_add_rule, rule sem_skip, simp, rule sem_add_rule, simp,
        rule out, rule inn) simp
qed

lemma sem_in_tunnel_endpoint:
  assumes ok: "add_allow_in_tunnel_endpoint_rules h iface ep b = Inr b'"
  shows "sem OutChain b p F \<Longrightarrow>
      sem OutChain b' p (\<lambda>d. F (if on_iface h Out iface p \<and> endpoint_match Dst ep p then Accept else d))"
    and "sem InChain b p F \<Longrightarrow>
      sem InChain b' p (\<lambda>d. F (if on_iface h In iface p \<and> endpoint_match Src ep p then Accept else d))"
    and "sem ForwardChain b p F \<Longrightarrow> sem ForwardChain b' p F"
proof -
  let ?r = "\<lambda>i d e. load_iface d # CmpEq (ValU32 i) # check_ip e (sock_ip (ep_address ep)) @
      check_port (ep_protocol ep) e (sock_port (ep_address ep)) @ add_verdict h Accept"
  from ok obtain i where i: "h_iface_index h iface = Some i"
    and b': "b' = add_rule InChain (?r i In Src) (add_rule OutChain (?r i Out Dst) b)"
    by (auto simp: add_allow_in_tunnel_endpoint_rules_def iface_ok)
  have out: "decides (?r i Out Dst) p (on_iface h Out iface p \<and> endpoint_match Dst ep p) Accept"
    and inn: "decides (?r i In Src) p (on_iface h In iface p \<and> endpoint_match Src ep p) Accept"
    using dec_iface [OF i dec_ip [OF dec_port [OF dec_verdict]], THEN decidesI]
    by (auto simp: endpoint_match_def)
  show "sem OutChain b p F \<Longrightarrow>
      sem OutChain b' p (\<lambda>d. F (if on_iface h Out iface p \<and> endpoint_match Dst ep p then Accept else d))"
    unfolding b' using out by (simp add: sem_add_rule)
  show "sem InChain b p F \<Longrightarrow>
      sem InChain b' p (\<lambda>d. F (if on_iface h In iface p \<and> endpoint_match Src ep p then Accept else d))"
    unfolding b' using sem_add_rule [OF _ inn, of InChain] by simp
  show "sem ForwardChain b p F \<Longrightarrow> sem ForwardChain b' p F"
    unfolding b' by simp
qed

lemma sem_allow_tunnel:
  assumes ok: "add_allow_tunnel_rules h iface b = Inr b'"
  shows "sem OutChain b p F \<Longrightarrow>
      sem OutChain b' p (\<lambda>d. F (if on_iface h Out iface p then Accept else d))"
    and "sem InChain b p F \<Longrightarrow>
      sem InChain b' p (\<lambda>d. F (if on_iface h In iface p then Accept else d))"
    and "sem ForwardChain b p F \<Longrightarrow> sem ForwardChain b' p
      (\<lambda>d. F (if on_iface h Out iface p \<or> on_iface h In iface p \<and> established h p then Accept else d))"
proof -
  let ?r = "\<lambda>i d. load_iface d # CmpEq (ValU32 i) # add_verdict h Accept"
  let ?e = "\<lambda>i. load_iface In # CmpEq (ValU32 i) # check_established h @ add_verdict h Accept"
  from ok obtain i where i: "h_iface_index h iface = Some i"
    and b': "b' = add_rule ForwardChain (?e i) (add_rule InChain (?r i In)
        (add_rule ForwardChain (?r i Out) (add_rule OutChain (?r i Out) b)))"
    by (auto simp: add_allow_tunnel_rules_def allow_interface_rule_def iface_ok Let_def)
  have out: "decides (?r i d) p (on_iface h d iface p) Accept" for d
    using dec_iface [OF i dec_verdict, THEN decidesI] by simp
  have est: "decides (?e i) p (on_iface h In iface p \<and> established h p) Accept"
    using dec_iface [OF i dec_established [OF dec_verdict], THEN decidesI] by simp
  show "sem OutChain b p F \<Longrightarrow>
      sem OutChain b' p (\<lambda>d. F (if on_iface h Out iface p then Accept else d))"
    and "sem InChain b p F \<Longrightarrow>
      sem InChain b' p (\<lambda>d. F (if on_iface h In iface p then Accept else d))"
    unfolding b' using out by (simp_all add: sem_add_rule)
  show "sem ForwardChain b p F \<Longrightarrow> sem ForwardChain b' p
      (\<lambda>d. F (if on_iface h Out iface p \<or> on_iface h In iface p \<and> established h p then Accept else d))"
    unfolding b'
    by (rule sem_cong, rule sem_add_rule, rule sem_skip, simp, rule sem_add_rule, simp,
        rule out, rule est) auto
qed

lemma sem_cve:
  shows "sem InChain b p F \<Longrightarrow>
      sem InChain (add_block_cve_2019_14899 h tunnel b) p
        (\<lambda>d. F (if end_addr Dst p \<in> set (tm_ips tunnel) then Drop else d))"
    and "c \<noteq> InChain \<Longrightarrow> sem c (add_block_cve_2019_14899 h tunnel b) p F = sem c b p F"
proof -
  let ?f = "\<lambda>ip. add_rule InChain (check_ip Dst ip @ add_verdict h Drop)"
  assume "sem InChain b p F"
  then have "sem InChain (fold ?f (tm_ips tunnel) b) p
      (\<lambda>d. F (if \<exists>ip \<in> set (tm_ips tunnel). end_addr Dst p = ip then Drop else d))"
    by (rule sem_loop [rotated]) (rule sem_add_rule, simp_all add: decides_def rule_sem)
  then show "sem InChain (add_block_cve_2019_14899 h tunnel b) p
        (\<lambda>d. F (if end_addr Dst p \<in> set (tm_ips tunnel) then Drop else d))"
    by (simp add: add_block_cve_2019_14899_def)
next
  assume "c \<noteq> InChain"
  then show "sem c (add_block_cve_2019_14899 h tunnel b) p F = sem c b p F"
    unfolding add_block_cve_2019_14899_def by (intro sem_loop_other) simp
qed

lemma sem_nets:
  "sem c b p F \<Longrightarrow>
   sem c (fold (\<lambda>net. add_rule c (check_net h e net @ add_verdict h Accept)) nets b) p
     (\<lambda>d. F (if \<exists>net \<in> set nets. in_net h net (end_addr e p) then Accept else d))"
  by (rule sem_loop) (rule sem_add_rule, simp_all add: decides_def rule_sem)

lemma sem_nets_other:
  "c' \<noteq> c \<Longrightarrow>
   sem c (fold (\<lambda>net. add_rule c' (check_net h e net @ add_verdict h Accept)) nets b) p F = sem c b p F"
  by (intro sem_loop_other) simp

lemma sem_dhcp_server:
  shows "sem OutChain b p F \<Longrightarrow>
      sem OutChain (add_dhcp_server_rules h b) p (\<lambda>d. F (if dhcp_server_out p then Accept else d))"
    and "sem InChain b p F \<Longrightarrow>
      sem InChain (add_dhcp_server_rules h b) p (\<lambda>d. F (if dhcp_server_in p then Accept else d))"
    and "sem ForwardChain b p F \<Longrightarrow> sem ForwardChain (add_dhcp_server_rules h b) p F"
  unfolding add_dhcp_server_rules_def Let_def
  by (rule sem_cong,
      (rule sem_add_rule | assumption | (rule sem_skip, simp) | rule dec_intros)+,
      force simp: dhcp_server_out_def dhcp_server_in_def endpoint_match_def endpoint_new_def
        port_consts)+

lemma sem_lan:
  shows "sem OutChain b p F \<Longrightarrow>
      sem OutChain (add_allow_lan_rules h b) p (\<lambda>d. F (if lan_out h p then Accept else d))"
    and "sem InChain b p F \<Longrightarrow>
      sem InChain (add_allow_lan_rules h b) p (\<lambda>d. F (if lan_in h p then Accept else d))"
    and "sem ForwardChain b p F \<Longrightarrow>
      sem ForwardChain (add_allow_lan_rules h b) p (\<lambda>d. F (if lan_dst h p then Accept else d))"
proof -
  note expand = add_allow_lan_rules_def Let_def fold_simps id_apply comp_apply
  show "sem OutChain b p F \<Longrightarrow>
      sem OutChain (add_allow_lan_rules h b) p (\<lambda>d. F (if lan_out h p then Accept else d))"
    unfolding expand
    by (rule sem_cong, rule sem_dhcp_server(1), simp only: sem_nets_other chain_name.distinct simp_thms,
        rule sem_nets, rule sem_nets, assumption)
      (auto simp: lan_out_def lan_dst_def)
  show "sem InChain b p F \<Longrightarrow>
      sem InChain (add_allow_lan_rules h b) p (\<lambda>d. F (if lan_in h p then Accept else d))"
    unfolding expand
    by (rule sem_cong, rule sem_dhcp_server(2), rule sem_nets, simp add: sem_nets_other)
      (auto simp: lan_in_def lan_src_def)
  show "sem ForwardChain b p F \<Longrightarrow>
      sem ForwardChain (add_allow_lan_rules h b) p (\<lambda>d. F (if lan_dst h p then Accept else d))"
    unfolding expand
    by (rule sem_cong, rule sem_dhcp_server(3), simp only: sem_nets_other chain_name.distinct simp_thms,
        rule sem_nets, rule sem_nets, simp add: sem_nets_other)
      (auto simp: lan_dst_def)
qed

lemma sem_connecting_tunnel:
  assumes ok: "add_connecting_tunnel_rules h tunnel traffic b = Inr b'"
  shows "sem OutChain b p F \<Longrightarrow> sem OutChain b' p
      (\<lambda>d. F (if in_tunnel_out h (tm_interface tunnel) traffic p then Accept else d))"
    and "sem InChain b p F \<Longrightarrow> sem InChain b' p
      (\<lambda>d. F (if in_tunnel_in h (tm_interface tunnel) traffic p then Accept else d))"
    and "sem ForwardChain b p F \<Longrightarrow> sem ForwardChain b' p
      (\<lambda>d. F (if traffic = TrafficAll \<and> tunnel_fwd h (tm_interface tunnel) p then Accept else d))"
proof -
  show "sem OutChain b p F \<Longrightarrow> sem OutChain b' p
      (\<lambda>d. F (if in_tunnel_out h (tm_interface tunnel) traffic p then Accept else d))"
    using ok
    by (cases traffic)
      (auto simp: add_connecting_tunnel_rules_def in_tunnel_out_def
        dest!: sem_allow_tunnel(1) sem_in_tunnel_endpoint(1) elim: sem_cong)
  show "sem InChain b p F \<Longrightarrow> sem InChain b' p
      (\<lambda>d. F (if in_tunnel_in h (tm_interface tunnel) traffic p then Accept else d))"
    using ok
    by (cases traffic)
      (auto simp: add_connecting_tunnel_rules_def in_tunnel_in_def
        dest!: sem_allow_tunnel(2) sem_in_tunnel_endpoint(2) elim: sem_cong)
  show "sem ForwardChain b p F \<Longrightarrow> sem ForwardChain b' p
      (\<lambda>d. F (if traffic = TrafficAll \<and> tunnel_fwd h (tm_interface tunnel) p then Accept else d))"
    using ok
    by (cases traffic)
      (auto simp: add_connecting_tunnel_rules_def tunnel_fwd_def
        dest!: sem_allow_tunnel(3) sem_in_tunnel_endpoint(3) elim: sem_cong)
qed

end

end
