(* ===== verification/Firewall_Correct.thy ===== *)
theory Firewall_Correct
  imports Firewall_Sem
begin

text \<open>
  The batch that \<open>finalize_batch\<close> builds, read by any evaluator that satisfies the kernel's
  contract, accepts in each chain exactly the packets of the specification.
\<close>

section \<open>DNS rules of the connected state\<close>

context nftables
begin

lemma sem_tunnel_dns_server:
  assumes "and_then (add_allow_tunnel_dns_rule h iface Udp server b)
             (add_allow_tunnel_dns_rule h iface Tcp server) = Inr b'"
  shows "c \<in> {OutChain, ForwardChain} \<Longrightarrow> sem c b p F \<Longrightarrow>
      sem c b' p (\<lambda>d. F (if tunnel_dns_out h iface server p then Accept else d))"
    and "sem InChain b p F \<Longrightarrow> sem InChain b' p F"
proof -
  from assms obtain b1 where b1: "add_allow_tunnel_dns_rule h iface Udp server b = Inr b1"
    and b': "add_allow_tunnel_dns_rule h iface Tcp server b1 = Inr b'" by auto
  note dns = sem_allow_tunnel_dns(1) [OF b' sem_allow_tunnel_dns(1) [OF b1]]
    sem_allow_tunnel_dns(2) [OF b' sem_allow_tunnel_dns(2) [OF b1]]
  show "c \<in> {OutChain, ForwardChain} \<Longrightarrow> sem c b p F \<Longrightarrow>
      sem c b' p (\<lambda>d. F (if tunnel_dns_out h iface server p then Accept else d))"
    by (rule sem_cong, erule insertE, simp only:, erule dns,
        simp only: singleton_iff, erule dns) (auto simp: tunnel_dns_out_def dns_out_def)
  show "sem InChain b p F \<Longrightarrow> sem InChain b' p F"
    by (rule sem_allow_tunnel_dns(3) [OF b' sem_allow_tunnel_dns(3) [OF b1]])
qed

lemma sem_local_dns_server:
  assumes "and_then (add_allow_local_dns_rule h iface Udp server b)
             (add_allow_local_dns_rule h iface Tcp server) = Inr b'"
  shows "sem OutChain b p F \<Longrightarrow>
      sem OutChain b' p (\<lambda>d. F (if local_dns_out h iface server p then Accept else d))"
    and "sem InChain b p F \<Longrightarrow>
      sem InChain b' p (\<lambda>d. F (if local_dns_in h iface server p then Accept else d))"
    and "sem ForwardChain b p F \<Longrightarrow> sem ForwardChain b' p
      (\<lambda>d. F (if local_dns_out h iface server p \<or> local_dns_in h iface server p then Accept else d))"
proof -
  from assms obtain b1 where b1: "add_allow_local_dns_rule h iface Udp server b = Inr b1"
    and b': "add_allow_local_dns_rule h iface Tcp server b1 = Inr b'" by auto
  show "sem OutChain b p F \<Longrightarrow>
      sem OutChain b' p (\<lambda>d. F (if local_dns_out h iface server p then Accept else d))"
    by (rule sem_cong, erule sem_allow_local_dns(1) [OF b' sem_allow_local_dns(1) [OF b1]])
      (auto simp: local_dns_out_def dns_out_def)
  show "sem InChain b p F \<Longrightarrow>
      sem InChain b' p (\<lambda>d. F (if local_dns_in h iface server p then Accept else d))"
    by (rule sem_cong, erule sem_allow_local_dns(2) [OF b' sem_allow_local_dns(2) [OF b1]])
      (auto simp: local_dns_in_def)
  show "sem ForwardChain b p F \<Longrightarrow> sem ForwardChain b' p
      (\<lambda>d. F (if local_dns_out h iface server p \<or> local_dns_in h iface server p then Accept else d))"
    by (rule sem_cong, erule sem_allow_local_dns(3) [OF b' sem_allow_local_dns(3) [OF b1]])
      (auto simp: local_dns_out_def local_dns_in_def dns_out_def)
qed

lemma sem_connected_dns:
  assumes ok: "add_connected_dns_rules h iface dns b = Inr b'"
  shows "sem OutChain b p F \<Longrightarrow> sem OutChain b' p
      (\<lambda>d. F (if \<exists>s \<in> set (rd_tunnel_config dns). tunnel_dns_out h iface s p then Accept else
              if \<exists>s \<in> set (rd_non_tunnel_config dns). local_dns_out h iface s p then Accept else d))"
    and "sem InChain b p F \<Longrightarrow> sem InChain b' p
      (\<lambda>d. F (if \<exists>s \<in> set (rd_non_tunnel_config dns). local_dns_in h iface s p then Accept else d))"
    and "sem ForwardChain b p F \<Longrightarrow> sem ForwardChain b' p
      (\<lambda>d. F (if \<exists>s \<in> set (rd_tunnel_config dns). tunnel_dns_out h iface s p then Accept else
              if \<exists>s \<in> set (rd_non_tunnel_config dns).
                   local_dns_out h iface s p \<or> local_dns_in h iface s p then Accept else d))"
proof -
  from ok obtain b1
    where t: "try_fold (\<lambda>server b. and_then (add_allow_tunnel_dns_rule h iface Udp server b)
                (add_allow_tunnel_dns_rule h iface Tcp server)) (rd_tunnel_config dns) b = Inr b1"
      and l: "try_fold (\<lambda>server b. and_then (add_allow_local_dns_rule h iface Udp server b)
                (add_allow_local_dns_rule h iface Tcp server)) (rd_non_tunnel_config dns) b1 = Inr b'"
    by (auto simp: add_connected_dns_rules_def and_then_Inr_iff)
  have tun: "sem c b1 p (\<lambda>d. F (if \<exists>s \<in> set (rd_tunnel_config dns). tunnel_dns_out h iface s p
               then Accept else d))" if "sem c b p F" "c \<in> {OutChain, ForwardChain}" for c F
    by (rule sem_try_loop [OF _ t that(1)]) (rule sem_tunnel_dns_server(1) [OF _ that(2)])
  have tun_in: "sem InChain b1 p F" if "sem InChain b p F" for F
    by (rule sem_try_loop_other [OF _ t that]) (rule sem_tunnel_dns_server(2))
  show "sem OutChain b p F \<Longrightarrow> sem OutChain b' p
      (\<lambda>d. F (if \<exists>s \<in> set (rd_tunnel_config dns). tunnel_dns_out h iface s p then Accept else
              if \<exists>s \<in> set (rd_non_tunnel_config dns). local_dns_out h iface s p then Accept else d))"
    by (rule sem_try_loop [OF _ l, rotated], erule tun, simp) (rule sem_local_dns_server(1))
  show "sem InChain b p F \<Longrightarrow> sem InChain b' p
      (\<lambda>d. F (if \<exists>s \<in> set (rd_non_tunnel_config dns). local_dns_in h iface s p then Accept else d))"
    by (rule sem_try_loop [OF _ l, rotated], erule tun_in) (rule sem_local_dns_server(2))
  show "sem ForwardChain b p F \<Longrightarrow> sem ForwardChain b' p
      (\<lambda>d. F (if \<exists>s \<in> set (rd_tunnel_config dns). tunnel_dns_out h iface s p then Accept else
              if \<exists>s \<in> set (rd_non_tunnel_config dns).
                   local_dns_out h iface s p \<or> local_dns_in h iface s p then Accept else d))"
    by (rule sem_try_loop [OF _ l, rotated], erule tun, simp) (rule sem_local_dns_server(3))
qed

section \<open>The whole policy\<close>

lemma sem_reject:
  shows "sem OutChain b p F \<Longrightarrow>
      sem OutChain (add_to_chains [OutChain, ForwardChain] (add_verdict h v) b) p (\<lambda>d. F v)"
    and "sem ForwardChain b p F \<Longrightarrow>
      sem ForwardChain (add_to_chains [OutChain, ForwardChain] (add_verdict h v) b) p (\<lambda>d. F v)"
    and "sem InChain b p F \<Longrightarrow>
      sem InChain (add_to_chains [OutChain, ForwardChain] (add_verdict h v) b) p F"
  using sem_add_rule [of _ _ p F "add_verdict h v" True v]
  by (simp_all add: add_to_chains_def decides_def rule_sem)

lemma sem_policy_lan:
  shows "sem OutChain b p F \<Longrightarrow> sem OutChain (if lan then add_allow_lan_rules h b else b) p
      (\<lambda>d. F (if lan \<and> lan_out h p then Accept else d))"
    and "sem InChain b p F \<Longrightarrow> sem InChain (if lan then add_allow_lan_rules h b else b) p
      (\<lambda>d. F (if lan \<and> lan_in h p then Accept else d))"
    and "sem ForwardChain b p F \<Longrightarrow> sem ForwardChain (if lan then add_allow_lan_rules h b else b) p
      (\<lambda>d. F (if lan \<and> lan_dst h p then Accept else d))"
  by (simp_all add: sem_lan)

lemma sem_policy_cve:
  shows "sem OutChain b p F \<Longrightarrow>
      sem OutChain (if lan then add_block_cve_2019_14899 h t b else b) p F"
    and "sem InChain b p F \<Longrightarrow> sem InChain (if lan then add_block_cve_2019_14899 h t b else b) p
      (\<lambda>d. F (if lan \<and> end_addr Dst p \<in> set (tm_ips t) then Drop else d))"
    and "sem ForwardChain b p F \<Longrightarrow>
      sem ForwardChain (if lan then add_block_cve_2019_14899 h t b else b) p F"
  by (simp_all add: sem_cve)

lemma sem_policy_api:
  shows "sem OutChain b p F \<Longrightarrow>
      sem OutChain (case api of None \<Rightarrow> b | Some ep \<Rightarrow> add_allow_endpoint_rules h ep b) p
        (\<lambda>d. F (if \<exists>ep. api = Some ep \<and> api_out ep p then Accept else d))"
    and "sem InChain b p F \<Longrightarrow>
      sem InChain (case api of None \<Rightarrow> b | Some ep \<Rightarrow> add_allow_endpoint_rules h ep b) p
        (\<lambda>d. F (if \<exists>ep. api = Some ep \<and> api_in h ep p then Accept else d))"
    and "sem ForwardChain b p F \<Longrightarrow>
      sem ForwardChain (case api of None \<Rightarrow> b | Some ep \<Rightarrow> add_allow_endpoint_rules h ep b) p F"
  by (cases api; simp add: sem_allow_endpoint)+

text \<open>
  \<open>extends c b b' p A\<close>: what \<open>b'\<close> adds to chain \<open>c\<close> of \<open>b\<close> decides to accept the packet \<open>p\<close>
  exactly when \<open>A\<close> holds, in a chain whose default is to drop.
\<close>

definition extends :: "chain_name \<Rightarrow> batch \<Rightarrow> batch \<Rightarrow> packet \<Rightarrow> bool \<Rightarrow> bool" where
  "extends c b b' p A \<longleftrightarrow>
     (\<forall>F. sem c b p F \<longrightarrow> (\<exists>G. sem c b' p (\<lambda>d. F (G d)) \<and> (G Drop = Accept \<longleftrightarrow> A)))"

lemma extendsI:
  assumes "\<And>F. sem c b p F \<Longrightarrow> sem c b' p (\<lambda>d. F (G d))" and "G Drop = Accept \<longleftrightarrow> A"
  shows "extends c b b' p A"
  using assms unfolding extends_def by blast

lemma dns_reject_not_Accept [simp]: "dns_reject p \<noteq> Accept"
  by (simp add: dns_reject_def)

lemma extends_blocked:
  assumes ok: "add_policy_specific_rules h (PolicyBlocked lan api) (fw_fwmark fw) b = Inr b'"
  shows "extends OutChain b b' p (policy_out h fw (PolicyBlocked lan api) p)"
    and "extends InChain b b' p (policy_in h (PolicyBlocked lan api) p)"
    and "extends ForwardChain b b' p (policy_fwd h (PolicyBlocked lan api) p)"
proof -
  let ?b1 = "add_drop_dns_rule h (case api of None \<Rightarrow> b | Some ep \<Rightarrow> add_allow_endpoint_rules h ep b)"
  from ok have b': "b' = add_to_chains [OutChain, ForwardChain]
      (add_verdict h (Reject IcmpPortUnreach)) (if lan then add_allow_lan_rules h ?b1 else ?b1)"
    by (simp add: add_policy_specific_rules_def Let_def)
  show "extends OutChain b b' p (policy_out h fw (PolicyBlocked lan api) p)"
    unfolding b' by (rule extendsI, rule sem_reject(1) [OF sem_policy_lan(1)
        [OF sem_drop_dns(1) [OF sem_policy_api(1)]]], assumption) auto
  show "extends InChain b b' p (policy_in h (PolicyBlocked lan api) p)"
    unfolding b' by (rule extendsI, rule sem_reject(3) [OF sem_policy_lan(2)
        [OF sem_drop_dns(3) [OF sem_policy_api(2)]]], assumption) auto
  show "extends ForwardChain b b' p (policy_fwd h (PolicyBlocked lan api) p)"
    unfolding b' by (rule extendsI, rule sem_reject(2) [OF sem_policy_lan(3)
        [OF sem_drop_dns(2) [OF sem_policy_api(3)]]], assumption) auto
qed

lemma extends_connected:
  assumes ok: "add_policy_specific_rules h (PolicyConnected peers t lan dns) (fw_fwmark fw) b = Inr b'"
  shows "extends OutChain b b' p (policy_out h fw (PolicyConnected peers t lan dns) p)"
    and "extends InChain b b' p (policy_in h (PolicyConnected peers t lan dns) p)"
    and "extends ForwardChain b b' p (policy_fwd h (PolicyConnected peers t lan dns) p)"
proof -
  let ?b1 = "fold (add_allow_tunnel_endpoint_rules h (fw_fwmark fw)) peers b"
  from ok obtain b2 b3
    where b2: "add_connected_dns_rules h (tm_interface t) dns ?b1 = Inr b2"
      and b3: "add_allow_tunnel_rules h (tm_interface t) (add_drop_dns_rule h b2) = Inr b3"
      and b': "b' = add_to_chains [OutChain, ForwardChain] (add_verdict h (Reject IcmpPortUnreach))
         (if lan then add_allow_lan_rules h (if lan then add_block_cve_2019_14899 h t b3 else b3)
          else if lan then add_block_cve_2019_14899 h t b3 else b3)"
    by (auto simp: add_policy_specific_rules_def Let_def and_then_Inr_iff)
  show "extends OutChain b b' p (policy_out h fw (PolicyConnected peers t lan dns) p)"
    unfolding b' by (rule extendsI, rule sem_reject(1) [OF sem_policy_lan(1) [OF sem_policy_cve(1)
        [OF sem_allow_tunnel(1) [OF b3 sem_drop_dns(1) [OF sem_connected_dns(1)
          [OF b2 sem_tunnel_endpoints(1)]]]]]], assumption) auto
  show "extends InChain b b' p (policy_in h (PolicyConnected peers t lan dns) p)"
    unfolding b' by (rule extendsI, rule sem_reject(3) [OF sem_policy_lan(2) [OF sem_policy_cve(2)
        [OF sem_allow_tunnel(2) [OF b3 sem_drop_dns(3) [OF sem_connected_dns(2)
          [OF b2 sem_tunnel_endpoints(2)]]]]]], assumption) auto
  show "extends ForwardChain b b' p (policy_fwd h (PolicyConnected peers t lan dns) p)"
    unfolding b' by (rule extendsI, rule sem_reject(2) [OF sem_policy_lan(3) [OF sem_policy_cve(3)
        [OF sem_allow_tunnel(3) [OF b3 sem_drop_dns(2) [OF sem_connected_dns(3)
          [OF b2 sem_tunnel_endpoints(3)]]]]]], assumption) (auto simp: tunnel_fwd_def)
qed

lemma extends_connecting_no_tunnel:
  assumes ok: "add_policy_specific_rules h (PolicyConnecting peers None lan api traffic)
      (fw_fwmark fw) b = Inr b'"
  shows "extends OutChain b b' p (policy_out h fw (PolicyConnecting peers None lan api traffic) p)"
    and "extends InChain b b' p (policy_in h (PolicyConnecting peers None lan api traffic) p)"
    and "extends ForwardChain b b' p (policy_fwd h (PolicyConnecting peers None lan api traffic) p)"
proof -
  let ?b1 = "add_drop_dns_rule h (add_allow_endpoint_rules h api
      (fold (add_allow_tunnel_endpoint_rules h (fw_fwmark fw)) peers b))"
  from ok have b': "b' = add_to_chains [OutChain, ForwardChain]
      (add_verdict h (Reject IcmpPortUnreach)) (if lan then add_allow_lan_rules h ?b1 else ?b1)"
    by (simp add: add_policy_specific_rules_def Let_def)
  show "extends OutChain b b' p (policy_out h fw (PolicyConnecting peers None lan api traffic) p)"
    unfolding b' by (rule extendsI, rule sem_reject(1) [OF sem_policy_lan(1) [OF sem_drop_dns(1)
        [OF sem_allow_endpoint(1) [OF sem_tunnel_endpoints(1)]]]], assumption) auto
  show "extends InChain b b' p (policy_in h (PolicyConnecting peers None lan api traffic) p)"
    unfolding b' by (rule extendsI, rule sem_reject(3) [OF sem_policy_lan(2) [OF sem_drop_dns(3)
        [OF sem_allow_endpoint(2) [OF sem_tunnel_endpoints(2)]]]], assumption) auto
  show "extends ForwardChain b b' p (policy_fwd h (PolicyConnecting peers None lan api traffic) p)"
    unfolding b' by (rule extendsI, rule sem_reject(2) [OF sem_policy_lan(3) [OF sem_drop_dns(2)
        [OF sem_allow_endpoint(3) [OF sem_tunnel_endpoints(3)]]]], assumption) auto
qed

lemma extends_connecting_tunnel:
  assumes ok: "add_policy_specific_rules h (PolicyConnecting peers (Some t) lan api traffic)
      (fw_fwmark fw) b = Inr b'"
  shows "extends OutChain b b' p (policy_out h fw (PolicyConnecting peers (Some t) lan api traffic) p)"
    and "extends InChain b b' p (policy_in h (PolicyConnecting peers (Some t) lan api traffic) p)"
    and "extends ForwardChain b b' p (policy_fwd h (PolicyConnecting peers (Some t) lan api traffic) p)"
proof -
  let ?b1 = "add_drop_dns_rule h (add_allow_endpoint_rules h api
      (fold (add_allow_tunnel_endpoint_rules h (fw_fwmark fw)) peers b))"
  from ok obtain b2
    where b2: "add_connecting_tunnel_rules h t traffic ?b1 = Inr b2"
      and b': "b' = add_to_chains [OutChain, ForwardChain] (add_verdict h (Reject IcmpPortUnreach))
         (if lan then add_allow_lan_rules h (if lan then add_block_cve_2019_14899 h t b2 else b2)
          else if lan then add_block_cve_2019_14899 h t b2 else b2)"
    by (auto simp: add_policy_specific_rules_def Let_def and_then_Inr_iff)
  show "extends OutChain b b' p (policy_out h fw (PolicyConnecting peers (Some t) lan api traffic) p)"
    unfolding b' by (rule extendsI, rule sem_reject(1) [OF sem_policy_lan(1) [OF sem_policy_cve(1)
        [OF sem_connecting_tunnel(1) [OF b2 sem_drop_dns(1)
          [OF sem_allow_endpoint(1) [OF sem_tunnel_endpoints(1)]]]]]], assumption) auto
  show "extends InChain b b' p (policy_in h (PolicyConnecting peers (Some t) lan api traffic) p)"
    unfolding b' by (rule extendsI, rule sem_reject(3) [OF sem_policy_lan(2) [OF sem_policy_cve(2)
        [OF sem_connecting_tunnel(2) [OF b2 sem_drop_dns(3)
          [OF sem_allow_endpoint(2) [OF sem_tunnel_endpoints(2)]]]]]], assumption) auto
  show "extends ForwardChain b b' p (policy_fwd h (PolicyConnecting peers (Some t) lan api traffic) p)"
    unfolding b' by (rule extendsI, rule sem_reject(2) [OF sem_policy_lan(3) [OF sem_policy_cve(3)
        [OF sem_connecting_tunnel(3) [OF b2 sem_drop_dns(2)
          [OF sem_allow_endpoint(3) [OF sem_tunnel_endpoints(3)]]]]]], assumption) auto
qed

lemma extends_policy:
  assumes "add_policy_specific_rules h policy (fw_fwmark fw) b = Inr b'"
  shows "extends OutChain b b' p (policy_out h fw policy p)"
    and "extends InChain b b' p (policy_in h policy p)"
    and "extends ForwardChain b b' p (policy_fwd h policy p)"
  using assms extends_blocked extends_connected extends_connecting_no_tunnel extends_connecting_tunnel
  by (cases policy rule: firewall_policy.exhaust; metis option.exhaust)+

lemma finalize_stages:
  assumes "finalize_batch h policy fw b = Inr b'"
  obtains b1 b2 where "add_loopback_rules h b = Inr b1"
    and "add_split_tunneling_rules h policy fw b1 = Inr b2"
    and "add_policy_specific_rules h policy (fw_fwmark fw)
           (add_ndp_rules h (add_dhcp_client_rules h b2)) = Inr b'"
  using assms by (auto simp: finalize_batch_def Let_def and_then_Inr_iff)

lemma base_verdict_new:
  "base_verdict OutChain batch_new = Drop" "base_verdict InChain batch_new = Drop"
  "base_verdict ForwardChain batch_new = Drop"
  by (simp_all add: batch_new_def)

lemma extends_accepted:
  assumes "sem c b p (\<lambda>d. if A then Accept else d)" and "extends c b b' p B"
    and "base_verdict c batch_new = Drop"
  shows "accepted chain c b' p \<longleftrightarrow> A \<or> B"
proof -
  from assms(1,2) obtain G where G: "sem c b' p (\<lambda>d. if A then Accept else G d)"
    and B: "G Drop = Accept \<longleftrightarrow> B"
    unfolding extends_def by blast
  from sem_chain [OF G] show ?thesis by (simp add: accepted_def assms(3) B)
qed

lemma finalize_accepts:
  assumes "finalize_batch h policy fw batch_new = Inr b"
  shows "accepted chain OutChain b p \<longleftrightarrow> always_out h fw p \<or> policy_out h fw policy p"
    and "accepted chain InChain b p \<longleftrightarrow> always_in h fw p \<or> policy_in h policy p"
    and "accepted chain ForwardChain b p \<longleftrightarrow> always_fwd h fw p \<or> policy_fwd h policy p"
proof -
  from assms obtain b1 b2 where b1: "add_loopback_rules h batch_new = Inr b1"
    and b2: "add_split_tunneling_rules h policy fw b1 = Inr b2"
    and b: "add_policy_specific_rules h policy (fw_fwmark fw)
           (add_ndp_rules h (add_dhcp_client_rules h b2)) = Inr b"
    by (rule finalize_stages)
  have "sem OutChain (add_ndp_rules h (add_dhcp_client_rules h b2)) p
      (\<lambda>d. if always_out h fw p then Accept else d)"
    by (rule sem_cong, rule sem_ndp(1) [OF sem_dhcp_client(1) [OF sem_split_tunneling [OF b2 _
        sem_loopback(1) [OF b1 sem_new]]]], simp) (simp add: always_out_def)
  from extends_accepted [OF this extends_policy(1) [OF b]]
  show "accepted chain OutChain b p \<longleftrightarrow> always_out h fw p \<or> policy_out h fw policy p"
    by (simp add: base_verdict_new)
  have "sem InChain (add_ndp_rules h (add_dhcp_client_rules h b2)) p
      (\<lambda>d. if always_in h fw p then Accept else d)"
    by (rule sem_cong, rule sem_ndp(2) [OF sem_dhcp_client(2) [OF sem_split_tunneling [OF b2 _
        sem_loopback(2) [OF b1 sem_new]]]], simp) (simp add: always_in_def)
  from extends_accepted [OF this extends_policy(2) [OF b]]
  show "accepted chain InChain b p \<longleftrightarrow> always_in h fw p \<or> policy_in h policy p"
    by (simp add: base_verdict_new)
  have "sem ForwardChain (add_ndp_rules h (add_dhcp_client_rules h b2)) p
      (\<lambda>d. if always_fwd h fw p then Accept else d)"
    by (rule sem_cong, rule sem_ndp(3) [OF sem_dhcp_client(3) [OF sem_split_tunneling [OF b2 _
        sem_loopback(3) [OF b1 sem_new]]]], simp) (simp add: always_fwd_def)
  from extends_accepted [OF this extends_policy(3) [OF b]]
  show "accepted chain ForwardChain b p \<longleftrightarrow> always_fwd h fw p \<or> policy_fwd h policy p"
    by (simp add: base_verdict_new)
qed

end

section \<open>When a batch can be built\<close>

text \<open>
  The interfaces a policy names. Everything else in the construction of a batch is total.
\<close>

definition policy_ifaces :: "firewall_policy \<Rightarrow> string list" where
  "policy_ifaces policy =
     ''lo'' #
     (case policy of
        PolicyConnecting _ (Some t) _ _ traffic \<Rightarrow>
          if traffic = TrafficNone then [] else [tm_interface t]
      | PolicyConnected _ t _ _ \<Rightarrow> [tm_interface t]
      | _ \<Rightarrow> [])"

lemma res_ok_iface:
  "res_ok (of_option e x) \<longleftrightarrow> x \<noteq> None"
  "res_ok (check_iface h d iface) \<longleftrightarrow> h_iface_index h iface \<noteq> None"
  "res_ok (check_not_iface h d iface) \<longleftrightarrow> h_iface_index h iface \<noteq> None"
  by (cases "h_iface_index h iface"; cases x; simp add: check_iface_def check_not_iface_def)+

lemma res_ok_and_then_const:
  "(\<And>x. res_ok (f x) \<longleftrightarrow> Q) \<Longrightarrow> res_ok (and_then r f) \<longleftrightarrow> res_ok r \<and> Q"
  by (cases r) auto

lemma res_ok_try_fold:
  "(\<And>x s. res_ok (f x s) \<longleftrightarrow> Q) \<Longrightarrow> res_ok (try_fold f xs s) \<longleftrightarrow> xs = [] \<or> Q"
  by (induction xs arbitrary: s) (auto simp: res_ok_and_then_const)

lemmas res_ok_simps' = res_ok_iface res_ok_and_then_const res_ok_try_fold Let_def

lemma res_ok_rules:
  "res_ok (allow_interface_rule h d iface) \<longleftrightarrow> h_iface_index h iface \<noteq> None"
  "res_ok (allow_tunnel_dns_rule h iface protocol host) \<longleftrightarrow> h_iface_index h iface \<noteq> None"
  by (simp_all add: allow_interface_rule_def allow_tunnel_dns_rule_def res_ok_simps')

lemma res_ok_methods:
  "res_ok (add_loopback_rules h b) \<longleftrightarrow> h_iface_index h ''lo'' \<noteq> None"
  "res_ok (add_tunnel_dns_mangle_rules h iface server b) \<longleftrightarrow> h_iface_index h iface \<noteq> None"
  "res_ok (add_allow_tunnel_dns_rule h iface protocol server b) \<longleftrightarrow> h_iface_index h iface \<noteq> None"
  "res_ok (add_allow_local_dns_rule h iface protocol server b) \<longleftrightarrow> h_iface_index h iface \<noteq> None"
  "res_ok (add_allow_in_tunnel_endpoint_rules h iface ep b) \<longleftrightarrow> h_iface_index h iface \<noteq> None"
  "res_ok (add_allow_tunnel_rules h iface b) \<longleftrightarrow> h_iface_index h iface \<noteq> None"
  by (simp_all add: add_loopback_rules_def add_tunnel_dns_mangle_rules_def
      add_allow_tunnel_dns_rule_def add_allow_local_dns_rule_def
      add_allow_in_tunnel_endpoint_rules_def add_allow_tunnel_rules_def res_ok_rules res_ok_simps')

lemma res_ok_connecting_tunnel:
  "res_ok (add_connecting_tunnel_rules h t traffic b) \<longleftrightarrow>
     traffic = TrafficNone \<or> h_iface_index h (tm_interface t) \<noteq> None"
  by (cases traffic) (simp_all add: add_connecting_tunnel_rules_def res_ok_methods res_ok_simps')

lemma res_ok_connected_dns:
  "res_ok (add_connected_dns_rules h iface dns b) \<longleftrightarrow>
     rd_tunnel_config dns = [] \<and> rd_non_tunnel_config dns = [] \<or> h_iface_index h iface \<noteq> None"
  by (auto simp: add_connected_dns_rules_def res_ok_methods res_ok_simps')

lemma res_ok_split_tunneling:
  "res_ok (add_split_tunneling_rules h policy fw b) \<longleftrightarrow>
     (split_tunneling h fw \<longrightarrow>
      h_iface_index h ''lo'' \<noteq> None \<and>
      (case policy of PolicyConnected _ t _ _ \<Rightarrow> h_iface_index h (tm_interface t) \<noteq> None | _ \<Rightarrow> True))"
  by (cases policy; cases "h_feature_cgroup2 h"; cases "fw_excluded_cgroup2 fw"; cases "fw_net_cls fw")
    (auto simp: add_split_tunneling_rules_def add_actual_split_tunneling_rules_def
      split_tunneling_def res_ok_methods res_ok_simps')

lemma res_ok_policy_specific:
  "res_ok (add_policy_specific_rules h policy fwmark b) \<longleftrightarrow>
     (case policy of
        PolicyConnecting _ (Some t) _ _ traffic \<Rightarrow>
          traffic = TrafficNone \<or> h_iface_index h (tm_interface t) \<noteq> None
      | PolicyConnected _ t _ _ \<Rightarrow> h_iface_index h (tm_interface t) \<noteq> None
      | _ \<Rightarrow> True)"
  by (auto simp: add_policy_specific_rules_def res_ok_methods res_ok_simps' res_ok_connecting_tunnel
      res_ok_connected_dns split: firewall_policy.splits option.splits prod.splits)

lemma res_ok_finalize:
  "res_ok (finalize_batch h policy fw b) \<longleftrightarrow>
     (\<forall>iface \<in> set (policy_ifaces policy). h_iface_index h iface \<noteq> None)"
  by (auto simp: finalize_batch_def res_ok_methods res_ok_simps' res_ok_split_tunneling
      res_ok_policy_specific policy_ifaces_def split: firewall_policy.splits option.splits)

end
