(* ===== verification/Firewall_Mark.thy ===== *)
theory Firewall_Mark
  imports Firewall_Correct
begin

text \<open>
  Split tunneling. Packets of excluded processes are marked in the mangle chain, which the kernel
  runs before the output chain (priority -150 against 0 on the same hook); marked packets pass the
  filter chains and are kept out of the tunnel by the NAT chain.
\<close>

section \<open>What the other methods leave alone\<close>

lemma rules_of_add_rule [simp]:
  "rules_of c (add_rule c' r b) = rules_of c b @ (if c' = c then [r] else [])"
  by (simp add: add_rule_def)

lemma rules_of_fold:
  "(\<And>x b. rules_of c (f x b) = rules_of c b) \<Longrightarrow> rules_of c (fold f xs b) = rules_of c b"
  by (induction xs arbitrary: b) auto

lemma rules_of_try_fold:
  "(\<And>x b b'. f x b = Inr b' \<Longrightarrow> rules_of c b' = rules_of c b) \<Longrightarrow>
   try_fold f xs b = Inr b' \<Longrightarrow> rules_of c b' = rules_of c b"
proof (induction xs arbitrary: b)
  case (Cons x xs)
  from Cons.prems(2) obtain b1 where b1: "f x b = Inr b1" and rest: "try_fold f xs b1 = Inr b'"
    by auto
  from Cons.IH [OF Cons.prems(1) rest] Cons.prems(1) [OF b1] show ?case by simp
qed simp

text \<open>No method touches the default verdict of a chain.\<close>

lemma base_verdict_fold:
  "(\<And>x b. base_verdict c (f x b) = base_verdict c b) \<Longrightarrow> base_verdict c (fold f xs b) = base_verdict c b"
  by (induction xs arbitrary: b) auto

lemma base_verdict_try_fold:
  "(\<And>x b b'. f x b = Inr b' \<Longrightarrow> base_verdict c b' = base_verdict c b) \<Longrightarrow>
   try_fold f xs b = Inr b' \<Longrightarrow> base_verdict c b' = base_verdict c b"
proof (induction xs arbitrary: b)
  case (Cons x xs)
  from Cons.prems(2) obtain b1 where b1: "f x b = Inr b1" and rest: "try_fold f xs b1 = Inr b'"
    by auto
  from Cons.IH [OF Cons.prems(1) rest] Cons.prems(1) [OF b1] show ?case by simp
qed simp

lemma base_verdict_total:
  shows "base_verdict c (add_dhcp_client_rules h b) = base_verdict c b"
    and "base_verdict c (add_ndp_rules h b) = base_verdict c b"
    and "base_verdict c (add_allow_tunnel_endpoint_rules h fwmark ep b) = base_verdict c b"
    and "base_verdict c (add_allow_endpoint_rules h ep b) = base_verdict c b"
    and "base_verdict c (add_drop_dns_rule h b) = base_verdict c b"
    and "base_verdict c (add_block_cve_2019_14899 h t b) = base_verdict c b"
    and "base_verdict c (add_allow_lan_rules h b) = base_verdict c b"
    and "base_verdict c (add_to_chains cs r b) = base_verdict c b"
  by (simp_all add: add_dhcp_client_rules_def add_ndp_rules_def add_allow_tunnel_endpoint_rules_def
      add_allow_endpoint_rules_def add_drop_dns_rule_def add_block_cve_2019_14899_def
      add_dhcp_server_rules_def add_allow_lan_rules_def add_to_chains_def DHCPV6_SERVER_ADDRS_def
      Let_def base_verdict_fold)

lemma base_verdict_partial:
  shows "add_loopback_rules h b = Inr b' \<Longrightarrow> base_verdict c b' = base_verdict c b"
    and "add_tunnel_dns_mangle_rules h iface server b = Inr b' \<Longrightarrow> base_verdict c b' = base_verdict c b"
    and "add_allow_tunnel_dns_rule h iface protocol server b = Inr b' \<Longrightarrow>
           base_verdict c b' = base_verdict c b"
    and "add_allow_local_dns_rule h iface protocol server b = Inr b' \<Longrightarrow>
           base_verdict c b' = base_verdict c b"
    and "add_allow_in_tunnel_endpoint_rules h iface ep b = Inr b' \<Longrightarrow>
           base_verdict c b' = base_verdict c b"
    and "add_allow_tunnel_rules h iface b = Inr b' \<Longrightarrow> base_verdict c b' = base_verdict c b"
  by (auto simp: add_loopback_rules_def add_tunnel_dns_mangle_rules_def add_allow_tunnel_dns_rule_def
      add_allow_local_dns_rule_def add_allow_in_tunnel_endpoint_rules_def add_allow_tunnel_rules_def
      Let_def)

lemma base_verdict_connecting_tunnel:
  "add_connecting_tunnel_rules h t traffic b = Inr b' \<Longrightarrow> base_verdict c b' = base_verdict c b"
  by (cases traffic)
    (auto simp: add_connecting_tunnel_rules_def dest!: base_verdict_partial(5,6) [where c = c])

lemma base_verdict_connected_dns:
  assumes ok: "add_connected_dns_rules h iface dns b = Inr b'"
  shows "base_verdict c b' = base_verdict c b"
proof -
  have t: "try_fold (\<lambda>server b. and_then (add_allow_tunnel_dns_rule h iface Udp server b)
             (add_allow_tunnel_dns_rule h iface Tcp server)) servers b1 = Inr b2 \<Longrightarrow>
      base_verdict c b2 = base_verdict c b1" for servers b1 b2
    by (erule base_verdict_try_fold [rotated]) (auto dest!: base_verdict_partial(3) [where c = c])
  have l: "try_fold (\<lambda>server b. and_then (add_allow_local_dns_rule h iface Udp server b)
             (add_allow_local_dns_rule h iface Tcp server)) servers b1 = Inr b2 \<Longrightarrow>
      base_verdict c b2 = base_verdict c b1" for servers b1 b2
    by (erule base_verdict_try_fold [rotated]) (auto dest!: base_verdict_partial(4) [where c = c])
  from ok show ?thesis by (auto simp: add_connected_dns_rules_def and_then_Inr_iff dest!: t l)
qed

lemma base_verdict_split_tunneling:
  assumes ok: "add_split_tunneling_rules h policy fw b = Inr b'"
  shows "base_verdict c b' = base_verdict c b"
proof -
  have t: "try_fold (add_tunnel_dns_mangle_rules h iface) servers b1 = Inr b2 \<Longrightarrow>
      base_verdict c b2 = base_verdict c b1" for iface servers b1 b2
    by (erule base_verdict_try_fold [rotated]) (rule base_verdict_partial(2))
  have "add_actual_split_tunneling_rules h policy fwmark sel b = Inr b' \<Longrightarrow>
      base_verdict c b' = base_verdict c b" for fwmark sel
    by (cases policy)
      (auto simp: add_actual_split_tunneling_rules_def Let_def base_verdict_total and_then_Inr_iff
        dest: t)
  with ok show ?thesis
    by (auto simp: add_split_tunneling_rules_def split: bool.splits option.splits)
qed

lemma base_verdict_policy:
  assumes ok: "add_policy_specific_rules h policy fwmark b = Inr b'"
  shows "base_verdict c b' = base_verdict c b"
proof (cases policy)
  case (PolicyConnecting peers tunnel lan api traffic)
  with ok show ?thesis
    by (cases tunnel)
      (auto simp: add_policy_specific_rules_def Let_def base_verdict_total base_verdict_fold
        dest: base_verdict_connecting_tunnel [where c = c])
next
  case (PolicyConnected peers tunnel lan dns)
  with ok show ?thesis
    by (auto simp: add_policy_specific_rules_def Let_def base_verdict_total base_verdict_fold
        dest!: base_verdict_connected_dns [where c = c] base_verdict_partial(6) [where c = c])
next
  case (PolicyBlocked lan api)
  with ok show ?thesis
    by (cases api)
      (auto simp: add_policy_specific_rules_def Let_def base_verdict_total)
qed

lemma base_verdict_finalize:
  "finalize_batch h policy fw b = Inr b' \<Longrightarrow> base_verdict c b' = base_verdict c b"
  by (auto simp: finalize_batch_def Let_def base_verdict_total
      dest!: base_verdict_partial(1) [where c = c] base_verdict_split_tunneling [where c = c]
        base_verdict_policy [where c = c])

definition filter_chain :: "chain_name \<Rightarrow> bool" where
  "filter_chain c = (c \<in> {OutChain, InChain, ForwardChain})"

lemma filter_chain_simps [simp]:
  "filter_chain OutChain" "filter_chain InChain" "filter_chain ForwardChain"
  "\<not> filter_chain MangleChain" "\<not> filter_chain NatChain" "\<not> filter_chain PreroutingChain"
  by (simp_all add: filter_chain_def)

lemma not_filter_chain [simp]:
  "\<not> filter_chain c \<Longrightarrow> OutChain \<noteq> c" "\<not> filter_chain c \<Longrightarrow> InChain \<noteq> c"
  "\<not> filter_chain c \<Longrightarrow> ForwardChain \<noteq> c"
  by auto

lemma filter_only_total:
  assumes "\<not> filter_chain c"
  shows "rules_of c (add_dhcp_client_rules h b) = rules_of c b"
    and "rules_of c (add_ndp_rules h b) = rules_of c b"
    and "rules_of c (add_allow_endpoint_rules h ep b) = rules_of c b"
    and "rules_of c (add_drop_dns_rule h b) = rules_of c b"
    and "rules_of c (add_block_cve_2019_14899 h t b) = rules_of c b"
    and "rules_of c (add_dhcp_server_rules h b) = rules_of c b"
    and "rules_of c (add_allow_lan_rules h b) = rules_of c b"
    and "rules_of c (add_to_chains [OutChain, ForwardChain] r b) = rules_of c b"
  using assms
  by (simp_all add: add_dhcp_client_rules_def add_ndp_rules_def add_allow_endpoint_rules_def add_drop_dns_rule_def add_block_cve_2019_14899_def
      add_dhcp_server_rules_def add_allow_lan_rules_def add_to_chains_def DHCPV6_SERVER_ADDRS_def
      Let_def rules_of_fold)

lemma filter_only_partial:
  assumes "\<not> filter_chain c"
  shows "add_loopback_rules h b = Inr b' \<Longrightarrow> rules_of c b' = rules_of c b"
    and "add_allow_tunnel_dns_rule h iface protocol server b = Inr b' \<Longrightarrow> rules_of c b' = rules_of c b"
    and "add_allow_local_dns_rule h iface protocol server b = Inr b' \<Longrightarrow> rules_of c b' = rules_of c b"
    and "add_allow_in_tunnel_endpoint_rules h iface ep b = Inr b' \<Longrightarrow> rules_of c b' = rules_of c b"
    and "add_allow_tunnel_rules h iface b = Inr b' \<Longrightarrow> rules_of c b' = rules_of c b"
  using assms
  by (auto simp: add_loopback_rules_def add_allow_tunnel_dns_rule_def add_allow_local_dns_rule_def
      add_allow_in_tunnel_endpoint_rules_def add_allow_tunnel_rules_def Let_def)

lemma filter_only_connecting:
  assumes c: "\<not> filter_chain c" and ok: "add_connecting_tunnel_rules h t traffic b = Inr b'"
  shows "rules_of c b' = rules_of c b"
  using ok
  by (cases traffic)
    (auto simp: add_connecting_tunnel_rules_def
      dest!: filter_only_partial(4) [OF c] filter_only_partial(5) [OF c])

lemma filter_only_connected_dns:
  assumes c: "\<not> filter_chain c" and ok: "add_connected_dns_rules h iface dns b = Inr b'"
  shows "rules_of c b' = rules_of c b"
proof -
  from ok obtain b1
    where t: "try_fold (\<lambda>server b. and_then (add_allow_tunnel_dns_rule h iface Udp server b)
                (add_allow_tunnel_dns_rule h iface Tcp server)) (rd_tunnel_config dns) b = Inr b1"
      and l: "try_fold (\<lambda>server b. and_then (add_allow_local_dns_rule h iface Udp server b)
                (add_allow_local_dns_rule h iface Tcp server)) (rd_non_tunnel_config dns) b1 = Inr b'"
    by (auto simp: add_connected_dns_rules_def and_then_Inr_iff)
  have "rules_of c b1 = rules_of c b"
    by (rule rules_of_try_fold [OF _ t]) (auto dest!: filter_only_partial(2) [OF c])
  moreover have "rules_of c b' = rules_of c b1"
    by (rule rules_of_try_fold [OF _ l]) (auto dest!: filter_only_partial(3) [OF c])
  ultimately show ?thesis by simp
qed

definition mark_rule :: "firewall \<Rightarrow> allowed_endpoint \<Rightarrow> nft_rule" where
  "mark_rule fw ep =
     check_endpoint Dst (ae_endpoint ep) @
     [ImmediateData (ValU32 split_tunnel_MARK), CtMarkSet,
      ImmediateData (ValU32 (fw_fwmark fw)), MetaMarkSet]"

abbreviation shared_peers :: "allowed_endpoint list \<Rightarrow> allowed_endpoint list" where
  "shared_peers \<equiv> filter (\<lambda>ep. allow_all (ae_clients ep))"

definition policy_peers :: "firewall_policy \<Rightarrow> allowed_endpoint list" where
  "policy_peers policy = (case policy_peer_endpoints policy of None \<Rightarrow> [] | Some peers \<Rightarrow> peers)"

lemma rules_of_peers:
  shows "rules_of MangleChain (fold (add_allow_tunnel_endpoint_rules h (fw_fwmark fw)) peers b) =
      rules_of MangleChain b @ map (mark_rule fw) (shared_peers peers)"
    and "rules_of NatChain (fold (add_allow_tunnel_endpoint_rules h fwmark) peers b) = rules_of NatChain b"
proof -
  show "rules_of MangleChain (fold (add_allow_tunnel_endpoint_rules h (fw_fwmark fw)) peers b) =
      rules_of MangleChain b @ map (mark_rule fw) (shared_peers peers)"
    by (induction peers arbitrary: b)
      (simp_all add: add_allow_tunnel_endpoint_rules_def mark_rule_def Let_def)
  show "rules_of NatChain (fold (add_allow_tunnel_endpoint_rules h fwmark) peers b) = rules_of NatChain b"
    by (rule rules_of_fold) (simp add: add_allow_tunnel_endpoint_rules_def Let_def)
qed

lemma rules_of_policy:
  assumes c: "\<not> filter_chain c" and ok: "add_policy_specific_rules h policy fwmark b = Inr b'"
  shows "rules_of c b' =
    rules_of c (fold (add_allow_tunnel_endpoint_rules h fwmark) (policy_peers policy) b)"
proof (cases policy)
  case (PolicyConnecting peers tunnel lan api traffic)
  with ok show ?thesis
    by (cases tunnel)
      (auto simp: add_policy_specific_rules_def Let_def filter_only_total [OF c] policy_peers_def
        dest: filter_only_connecting [OF c])
next
  case (PolicyConnected peers tunnel lan dns)
  with ok show ?thesis
    by (auto simp: add_policy_specific_rules_def Let_def filter_only_total [OF c] policy_peers_def
        dest!: filter_only_connected_dns [OF c] filter_only_partial(5) [OF c])
next
  case (PolicyBlocked lan api)
  with ok show ?thesis
    by (cases api)
      (auto simp: add_policy_specific_rules_def Let_def filter_only_total [OF c] policy_peers_def)
qed

section \<open>The split tunneling rules\<close>

definition selector_rule :: "fw_host \<Rightarrow> firewall \<Rightarrow> nft_rule" where
  "selector_rule h fw =
     (case (h_feature_cgroup2 h, fw_excluded_cgroup2 fw) of
        (True, Some inode) \<Rightarrow> [SocketCgroupv2 1, CmpEq (ValU64 inode)]
      | _ \<Rightarrow> [MetaCgroup, CmpEq (ValU32 (the (fw_net_cls fw)))])"

definition exclude_rule :: "fw_host \<Rightarrow> firewall \<Rightarrow> nft_rule" where
  "exclude_rule h fw =
     selector_rule h fw @ [ImmediateData (ValU32 split_tunnel_MARK), CtMarkSet,
       ImmediateData (ValU32 (fw_fwmark fw)), MetaMarkSet] @ maybe_counter h"

lemma add_split_tunneling_rules_alt:
  "add_split_tunneling_rules h policy fw b =
     (if split_tunneling h fw
      then add_actual_split_tunneling_rules h policy (fw_fwmark fw) (selector_rule h fw) b
      else Inr b)"
  by (auto simp: add_split_tunneling_rules_def split_tunneling_def selector_rule_def
      split: bool.splits option.splits)

lemma mangle_dns_servers:
  assumes "try_fold (add_tunnel_dns_mangle_rules h iface) servers b = Inr b'"
  shows "\<exists>rules. rules_of MangleChain b' = rules_of MangleChain b @ rules \<and>
     (\<forall>rule \<in> set rules. \<exists>protocol. \<exists>server \<in> set servers.
        allow_tunnel_dns_rule h iface protocol server = Inr rule) \<and>
     (\<forall>protocol. \<forall>server \<in> set servers. \<exists>rule \<in> set rules.
        allow_tunnel_dns_rule h iface protocol server = Inr rule)"
  using assms
proof (induction servers arbitrary: b)
  case (Cons s servers)
  from Cons.prems obtain b1 where b1: "add_tunnel_dns_mangle_rules h iface s b = Inr b1"
    and rest: "try_fold (add_tunnel_dns_mangle_rules h iface) servers b1 = Inr b'"
    by auto
  from b1 obtain ru rt where ru: "allow_tunnel_dns_rule h iface Udp s = Inr ru"
    and rt: "allow_tunnel_dns_rule h iface Tcp s = Inr rt"
    and rules1: "rules_of MangleChain b1 = rules_of MangleChain b @ [ru, rt]"
    by (auto simp: add_tunnel_dns_mangle_rules_def Let_def)
  from Cons.IH [OF rest] obtain rules
    where rules: "rules_of MangleChain b' = rules_of MangleChain b1 @ rules"
      and sound: "\<forall>rule \<in> set rules. \<exists>protocol. \<exists>server \<in> set servers.
        allow_tunnel_dns_rule h iface protocol server = Inr rule"
      and complete: "\<forall>protocol. \<forall>server \<in> set servers. \<exists>rule \<in> set rules.
        allow_tunnel_dns_rule h iface protocol server = Inr rule"
    by blast
  have "allow_tunnel_dns_rule h iface protocol s \<in> {Inr ru, Inr rt}" for protocol
    using ru rt by (cases protocol) auto
  then show ?case
    using rules rules1 ru rt sound complete
    by (intro exI [of _ "ru # rt # rules"]) fastforce
qed simp

lemma actual_split_tunneling_mangle:
  assumes "add_actual_split_tunneling_rules h policy (fw_fwmark fw) (selector_rule h fw) b = Inr b'"
  obtains dns_b where
    "(case policy of
        PolicyConnected _ t _ dns \<Rightarrow>
          try_fold (add_tunnel_dns_mangle_rules h (tm_interface t)) (rd_tunnel_config dns) b
      | _ \<Rightarrow> Inr b) = Inr dns_b"
    and "rules_of MangleChain b' = rules_of MangleChain dns_b @ [exclude_rule h fw]"
  using assms
  by (cases policy)
    (auto simp: add_actual_split_tunneling_rules_def exclude_rule_def Let_def add_to_chains_def
      and_then_Inr_iff)

section \<open>The output hook\<close>

text \<open>
  The two base chains on the output hook, in the order of their priorities: what the mangle chain
  lets through, with the marks it set, is what the output chain sees.
\<close>

definition output_hook ::
  "(verdict \<Rightarrow> nft_rule list \<Rightarrow> packet \<Rightarrow> packet \<times> verdict) \<Rightarrow> batch \<Rightarrow> packet \<Rightarrow> packet \<times> verdict" where
  "output_hook chain b p =
     (case chain (base_verdict MangleChain b) (rules_of MangleChain b) p of
        (p', Accept) \<Rightarrow> chain (base_verdict OutChain b) (rules_of OutChain b) p'
      | (p', v) \<Rightarrow> (p', v))"

definition selected :: "fw_host \<Rightarrow> firewall \<Rightarrow> packet \<Rightarrow> bool" where
  "selected h fw p =
     (case (h_feature_cgroup2 h, fw_excluded_cgroup2 fw) of
        (True, Some inode) \<Rightarrow> p_cgroup2 p = Some inode
      | _ \<Rightarrow> fw_net_cls fw = Some (p_cgroup p))"

definition mark_packet :: "firewall \<Rightarrow> packet \<Rightarrow> packet" where
  "mark_packet fw p = p\<lparr>p_ct_mark := split_tunnel_MARK, p_mark := fw_fwmark fw\<rparr>"

fun in_tunnel_dns :: "fw_host \<Rightarrow> firewall_policy \<Rightarrow> packet \<Rightarrow> bool" where
  "in_tunnel_dns h (PolicyConnected _ t _ dns) p =
     (\<exists>server \<in> set (rd_tunnel_config dns). tunnel_dns_out h (tm_interface t) server p)"
| "in_tunnel_dns h _ p = False"

definition mangled :: "fw_host \<Rightarrow> firewall \<Rightarrow> firewall_policy \<Rightarrow> packet \<Rightarrow> packet" where
  "mangled h fw policy p =
     (if split_tunneling h fw \<and> in_tunnel_dns h policy p then p
      else if split_tunneling h fw \<and> selected h fw p \<or>
              (\<exists>peer \<in> set (policy_peers policy). allow_all (ae_clients peer) \<and>
                 endpoint_match Dst (ae_endpoint peer) p)
           then mark_packet fw p
      else p)"

lemma endpoint_match_mark [simp]:
  "endpoint_match e ep (mark_packet fw p) = endpoint_match e ep p"
  by (cases e) (simp_all add: endpoint_match_def port_match_def end_addr_def mark_packet_def)

lemma mark_packet_idem [simp]: "mark_packet fw (mark_packet fw p) = mark_packet fw p"
  by (simp add: mark_packet_def)

context nftables
begin

lemma eval_mark_rule:
  "eval (mark_rule fw ep) r p =
     (if endpoint_match Dst (ae_endpoint ep) p then mark_packet fw p else p, Next)"
  by (simp add: mark_rule_def rule_sem mark_packet_def)

lemma chain_mark_rules:
  "chain d (map (mark_rule fw) eps) p =
     (if \<exists>ep \<in> set eps. endpoint_match Dst (ae_endpoint ep) p then mark_packet fw p else p, d)"
  by (induction eps arbitrary: p) (auto simp: eval_mark_rule)

lemma eval_exclude_rule:
  assumes "split_tunneling h fw"
  shows "eval (exclude_rule h fw) r p =
     (if selected h fw p then mark_packet fw p else p, Next)"
  using assms
  by (cases "p_cgroup2 p"; cases "fw_excluded_cgroup2 fw"; cases "h_feature_cgroup2 h")
    (auto simp: exclude_rule_def selector_rule_def selected_def split_tunneling_def maybe_counter_def mark_packet_def
      simp del: One_nat_def)

lemma chain_accepts_append:
  assumes "\<forall>rule \<in> set rules. \<exists>g. decides rule p g Accept"
  shows "chain d (rules @ rest) p =
     (if \<exists>rule \<in> set rules. decides rule p True Accept then (p, Accept) else chain d rest p)"
  using assms
  by (induction rules) (auto simp: decides_def split: if_splits)

lemma tunnel_dns_mangle_accepts:
  assumes "try_fold (add_tunnel_dns_mangle_rules h iface) servers b = Inr b'"
    and "rules_of MangleChain b = []"
  shows "chain d (rules_of MangleChain b' @ rest) p =
     (if \<exists>server \<in> set servers. tunnel_dns_out h iface server p then (p, Accept)
      else chain d rest p)"
proof -
  from mangle_dns_servers [OF assms(1)] assms(2)
  have sound: "\<forall>rule \<in> set (rules_of MangleChain b'). \<exists>protocol. \<exists>server \<in> set servers.
        allow_tunnel_dns_rule h iface protocol server = Inr rule"
    and complete: "\<forall>protocol. \<forall>server \<in> set servers. \<exists>rule \<in> set (rules_of MangleChain b').
        allow_tunnel_dns_rule h iface protocol server = Inr rule"
    by auto
  have iff: "decides rule p True Accept \<longleftrightarrow>
      on_iface h Out iface p \<and> port_match protocol Dst 53 p \<and> end_addr Dst p = server"
    if "allow_tunnel_dns_rule h iface protocol server = Inr rule" for rule protocol server
    using tunnel_dns_rule_ok [OF that, of p] by (auto simp: decides_def split: if_splits)
  have "(\<exists>rule \<in> set (rules_of MangleChain b'). decides rule p True Accept) \<longleftrightarrow>
      (\<exists>server \<in> set servers. \<exists>protocol.
        on_iface h Out iface p \<and> port_match protocol Dst 53 p \<and> end_addr Dst p = server)"
    (is "?L \<longleftrightarrow> ?R")
  proof
    assume ?L with sound iff show ?R by blast
  next
    assume ?R with complete iff show ?L by blast
  qed
  also have "\<dots> \<longleftrightarrow> (\<exists>server \<in> set servers. tunnel_dns_out h iface server p)"
    unfolding tunnel_dns_out_def dns_out_def by (metis (full_types) transport_protocol.exhaust)
  finally have "(\<exists>rule \<in> set (rules_of MangleChain b'). decides rule p True Accept) \<longleftrightarrow>
      (\<exists>server \<in> set servers. tunnel_dns_out h iface server p)" .
  moreover have "\<forall>rule \<in> set (rules_of MangleChain b'). \<exists>g. decides rule p g Accept"
    using sound tunnel_dns_rule_ok by blast
  ultimately show ?thesis by (simp add: chain_accepts_append)
qed

lemma mangle_chain_effect:
  assumes "finalize_batch h policy fw batch_new = Inr b"
  shows "chain Accept (rules_of MangleChain b) p = (mangled h fw policy p, Accept)"
proof -
  from assms obtain b1 b2 where b1: "add_loopback_rules h batch_new = Inr b1"
    and b2: "add_split_tunneling_rules h policy fw b1 = Inr b2"
    and b: "add_policy_specific_rules h policy (fw_fwmark fw)
           (add_ndp_rules h (add_dhcp_client_rules h b2)) = Inr b"
    by (rule finalize_stages)
  let ?peers = "map (mark_rule fw) (shared_peers (policy_peers policy))"
  have rules_b: "rules_of MangleChain b = rules_of MangleChain b2 @ ?peers"
    using rules_of_policy [OF _ b, of MangleChain] by (simp add: filter_only_total rules_of_peers)
  have rules_b1: "rules_of MangleChain b1 = []"
    using filter_only_partial(1) [OF _ b1, of MangleChain] by simp
  show ?thesis
  proof (cases "split_tunneling h fw")
    case False
    with b2 rules_b rules_b1 show ?thesis
      by (auto simp: add_split_tunneling_rules_alt chain_mark_rules mangled_def)
  next
    case True
    from True b2 obtain db where db: "(case policy of
        PolicyConnected _ t _ dns \<Rightarrow>
          try_fold (add_tunnel_dns_mangle_rules h (tm_interface t)) (rd_tunnel_config dns) b1
      | _ \<Rightarrow> Inr b1) = Inr db"
      and rules_b2: "rules_of MangleChain b2 = rules_of MangleChain db @ [exclude_rule h fw]"
      by (auto simp: add_split_tunneling_rules_alt elim: actual_split_tunneling_mangle)
    have rest: "chain Accept (exclude_rule h fw # ?peers) p =
        (if selected h fw p \<or> (\<exists>peer \<in> set (policy_peers policy). allow_all (ae_clients peer) \<and>
             endpoint_match Dst (ae_endpoint peer) p) then mark_packet fw p else p, Accept)"
      by (auto simp: eval_exclude_rule [OF True] chain_mark_rules)
    have "chain Accept (rules_of MangleChain db @ exclude_rule h fw # ?peers) p =
        (if in_tunnel_dns h policy p then (p, Accept) else chain Accept (exclude_rule h fw # ?peers) p)"
      using db rules_b1 tunnel_dns_mangle_accepts [OF _ rules_b1]
      by (cases policy) (auto simp del: chain_Cons)
    with True show ?thesis
      unfolding rules_b rules_b2 append_assoc append_Cons append_Nil rest mangled_def by simp
  qed
qed

lemma nat_chain_effect:
  assumes ok: "finalize_batch h (PolicyConnected peers t lan dns) fw batch_new = Inr b"
    and excl: "excluded h fw p" and tun: "on_iface h Out (tm_interface t) p"
  shows "chain Accept (rules_of NatChain b) p = (p, Drop)"
proof -
  let ?policy = "PolicyConnected peers t lan dns"
  from ok obtain b1 b2 where b1: "add_loopback_rules h batch_new = Inr b1"
    and b2: "add_split_tunneling_rules h ?policy fw b1 = Inr b2"
    and b: "add_policy_specific_rules h ?policy (fw_fwmark fw)
           (add_ndp_rules h (add_dhcp_client_rules h b2)) = Inr b"
    by (rule finalize_stages)
  have rules_b: "rules_of NatChain b = rules_of NatChain b2"
    using rules_of_policy [OF _ b, of NatChain] by (simp add: filter_only_total rules_of_peers)
  have rules_b1: "rules_of NatChain b1 = []"
    using filter_only_partial(1) [OF _ b1, of NatChain] by simp
  have mangle_only: "rules_of NatChain b' = rules_of NatChain b1"
    if "try_fold (add_tunnel_dns_mangle_rules h iface) servers b1 = Inr b'" for iface servers b'
    by (rule rules_of_try_fold [OF _ that]) (auto simp: add_tunnel_dns_mangle_rules_def)
  from b2 excl obtain i rest where i: "h_iface_index h (tm_interface t) = Some i"
    and rules: "rules_of NatChain b2 =
      (load_iface Out # CmpEq (ValU32 i) # CtMark # CmpEq (ValU32 split_tunnel_MARK) #
        add_verdict h Drop) # rest"
    by (auto simp: add_split_tunneling_rules_alt add_actual_split_tunneling_rules_def excluded_def
        iface_ok Let_def add_to_chains_def and_then_Inr_iff mangle_only rules_b1)
  from dec_iface [OF i dec_ct_mark [OF dec_verdict]] excl tun
  have "eval (load_iface Out # CmpEq (ValU32 i) # CtMark # CmpEq (ValU32 split_tunnel_MARK) #
        add_verdict h Drop) (ValU32 0) p = (p, Final Drop)"
    by (simp add: decides_at_def excluded_def)
  then show ?thesis by (simp add: rules_b rules)
qed

end

end
