(* ===== verification/Firewall_Driver.thy ===== *)
theory Firewall_Driver
  imports Firewall_Mark
begin

text \<open>
  The contract between the tunnel state machine and the firewall it drives (\<open>Firewall::apply_policy\<close>
  and \<open>Firewall::reset_policy\<close>), as a locale, and its interpretation on the Linux implementation.
\<close>

section \<open>The contract\<close>

locale firewall_driver =
  fixes apply_pol :: "'io \<Rightarrow> 'pol \<Rightarrow> 'k \<Rightarrow> ('e + unit) \<times> 'k"
    and reset_pol :: "'io \<Rightarrow> 'k \<Rightarrow> ('e + unit) \<times> 'k"
    and table :: "'k \<Rightarrow> 't"
    and table_for :: "'pol \<Rightarrow> 't set"
    and no_table :: "'t set"
  assumes apply_ok: "apply_pol io pol k = (Inr (), k') \<Longrightarrow> table k' \<in> table_for pol"
    and apply_atomic: "apply_pol io pol k = (r, k') \<Longrightarrow> table k' = table k \<or> table k' \<in> table_for pol"
    and reset_ok: "reset_pol io k = (Inr (), k') \<Longrightarrow> table k' \<in> no_table"
    and reset_atomic: "reset_pol io k = (r, k') \<Longrightarrow> table k' = table k \<or> table k' \<in> no_table"
    and table_disjoint: "table_for pol \<inter> no_table = {}"
begin

definition secured :: "'k \<Rightarrow> bool" where
  "secured k \<longleftrightarrow> (\<exists>pol. table k \<in> table_for pol)"

lemma secured_not_open: "secured k \<Longrightarrow> table k \<notin> no_table"
  unfolding secured_def using table_disjoint by blast

lemma apply_ok_secured: "apply_pol io pol k = (Inr (), k') \<Longrightarrow> secured k'"
  unfolding secured_def using apply_ok by blast

lemma apply_keeps_secured: "secured k \<Longrightarrow> secured (snd (apply_pol io pol k))"
  unfolding secured_def by (metis apply_atomic prod.collapse)

text \<open>A history of policies applied one after the other, whatever the kernel answered.\<close>

fun apply_all :: "('io \<times> 'pol) list \<Rightarrow> 'k \<Rightarrow> 'k" where
  "apply_all [] k = k"
| "apply_all ((io, pol) # calls) k = apply_all calls (snd (apply_pol io pol k))"

lemma apply_all_secured: "secured k \<Longrightarrow> secured (apply_all calls k)"
  by (induction calls k rule: apply_all.induct) (auto simp: apply_keeps_secured)

lemma apply_all_last:
  "table (apply_all calls k) = table k \<or> (\<exists>(io, pol) \<in> set calls. table (apply_all calls k) \<in> table_for pol)"
proof (induction calls k rule: apply_all.induct)
  case (2 io pol calls k)
  have "table (snd (apply_pol io pol k)) = table k \<or> table (snd (apply_pol io pol k)) \<in> table_for pol"
    by (rule apply_atomic [of io pol k "fst (apply_pol io pol k)"]) simp
  with 2 show ?case by auto
qed simp

end

section \<open>The Linux implementation\<close>

definition batches_for :: "firewall \<Rightarrow> firewall_policy \<Rightarrow> batch option set" where
  "batches_for fw policy = {Some b | b h. finalize_batch h policy fw batch_new = Inr b}"

definition open_batches :: "batch option set" where
  "open_batches = {None, Some [TableAdd, TableDel]}"

lemma send_and_process_batch:
  "send_and_process io b k = (r, k') \<Longrightarrow>
     (k_batch k' = k_batch k \<or> k_batch k' = Some b) \<and> (r = Inr () \<longrightarrow> k_batch k' = Some b)"
  by (auto simp: send_and_process_def split: netlink_outcome.splits)

lemma apply_kernel_config_batch [simp]: "k_batch (apply_kernel_config io policy k) = k_batch k"
  by (auto simp: apply_kernel_config_def set_src_valid_mark_sysctl_def lock_down_arp_ignore_sysctl_def
      Let_def split: firewall_policy.splits)

lemma fw_apply_policy_batch:
  assumes "fw_apply_policy io fw policy k = (r, k')"
  shows "k_batch k' = k_batch k \<or> k_batch k' \<in> batches_for fw policy"
    and "r = Inr () \<Longrightarrow> k_batch k' \<in> batches_for fw policy"
  using assms send_and_process_batch
  by (fastforce simp: fw_apply_policy_def batches_for_def split: sum.splits prod.splits)+

lemma finalize_not_open:
  assumes "finalize_batch h policy fw batch_new = Inr b"
  shows "b \<noteq> [TableAdd, TableDel]"
  using base_verdict_finalize [OF assms, of OutChain] by (auto simp: batch_new_def)

interpretation linux: firewall_driver "\<lambda>io. fw_apply_policy io fw" fw_reset_policy k_batch
  "batches_for fw" open_batches for fw
proof
  show "batches_for fw pol \<inter> open_batches = {}" for pol
    by (auto simp: batches_for_def open_batches_def dest: finalize_not_open)
qed (auto simp: fw_reset_policy_def open_batches_def
    dest: fw_apply_policy_batch dest!: send_and_process_batch)

end
