(* ===== verification/Tunnel_Shared.thy ===== *)
theory Tunnel_Shared
  imports Tunnel_Types Firewall_Driver
begin

text \<open>
  \<open>SharedTunnelStateValues\<close> of \<open>tunnel_state_machine/mod.rs\<close>, the values common to all tunnel
  states, with the calls the states make on the firewall, the DNS monitor, the route manager and
  NetworkManager. What the outside answers to the \<open>n\<close>-th call is given by a \<open>world\<close>, and every call
  is recorded in the log \<open>sv_log\<close>, newest first.
\<close>

section \<open>The outside\<close>

record nm_io =
  nm_new_ok :: bool \<comment> \<open>\<open>NetworkManager::new\<close> connects to the bus\<close>
  nm_get_ok :: bool
  nm_set_ok :: bool

record world =
  w_fw :: "nat \<Rightarrow> fw_io"
  w_dns_set_ok :: "nat \<Rightarrow> bool"
  w_nm :: "nat \<Rightarrow> nm_io"
  w_generate :: "nat \<Rightarrow> u32 \<Rightarrow> ip_availability \<Rightarrow> parameter_generation_error + tunnel_parameters"

datatype effect =
  FwApply firewall_policy bool \<comment> \<open>whether it returned \<open>Ok\<close>\<close>
| FwReset bool
| DnsSet string resolved_dns_config bool
| DnsReset
| DnsResetBeforeRemoval
| ClearRoutes
| ClearRoutingRules
| TunnelStart nat tunnel_parameters u32
| TunnelClose nat
| Sent sender

section \<open>Shared values\<close>

record shared =
  sv_firewall :: firewall
  sv_kernel :: fw_kernel
  sv_allow_lan :: bool
  sv_lockdown_mode :: lockdown_mode
  sv_connectivity :: connectivity
  sv_dns_config :: dns_config
  sv_allowed_endpoint :: allowed_endpoint
  sv_connectivity_check_was_enabled :: "bool option"
  sv_nm_check :: bool \<comment> \<open>NetworkManager's own setting\<close>
  sv_tunnels :: "nat list" \<comment> \<open>tunnel threads that have been started and have not exited\<close>
  sv_next_tunnel :: nat
  sv_clock :: nat
  sv_log :: "effect list"

definition record_effect :: "effect \<Rightarrow> shared \<Rightarrow> shared" where
  "record_effect e sv = sv\<lparr>sv_clock := Suc (sv_clock sv), sv_log := e # sv_log sv\<rparr>"

definition send_done :: "sender \<Rightarrow> shared \<Rightarrow> shared" where
  "send_done tx sv = record_effect (Sent tx) sv"

definition apply_policy :: "world \<Rightarrow> firewall_policy \<Rightarrow> shared \<Rightarrow> (fw_error + unit) \<times> shared" where
  "apply_policy w policy sv =
     (case fw_apply_policy (w_fw w (sv_clock sv)) (sv_firewall sv) policy (sv_kernel sv) of
        (r, k) \<Rightarrow> (r, record_effect (FwApply policy (res_ok r)) (sv\<lparr>sv_kernel := k\<rparr>)))"

definition reset_policy :: "world \<Rightarrow> shared \<Rightarrow> (fw_error + unit) \<times> shared" where
  "reset_policy w sv =
     (case fw_reset_policy (w_fw w (sv_clock sv)) (sv_kernel sv) of
        (r, k) \<Rightarrow> (r, record_effect (FwReset (res_ok r)) (sv\<lparr>sv_kernel := k\<rparr>)))"

definition dns_set :: "world \<Rightarrow> string \<Rightarrow> resolved_dns_config \<Rightarrow> shared \<Rightarrow> bool \<times> shared" where
  "dns_set w iface config sv =
     (let ok = w_dns_set_ok w (sv_clock sv) in (ok, record_effect (DnsSet iface config ok) sv))"

definition dns_reset :: "shared \<Rightarrow> shared" where
  "dns_reset sv = record_effect DnsReset sv"

definition dns_reset_before_interface_removal :: "shared \<Rightarrow> shared" where
  "dns_reset_before_interface_removal sv = record_effect DnsResetBeforeRemoval sv"

definition reset_routes :: "shared \<Rightarrow> shared" where
  "reset_routes sv = record_effect ClearRoutingRules (record_effect ClearRoutes sv)"

definition set_allow_lan :: "bool \<Rightarrow> shared \<Rightarrow> bool \<times> shared" where
  "set_allow_lan allow_lan sv =
     (if sv_allow_lan sv \<noteq> allow_lan then (True, sv\<lparr>sv_allow_lan := allow_lan\<rparr>) else (False, sv))"

definition set_dns_config :: "dns_config \<Rightarrow> shared \<Rightarrow> bool \<times> shared" where
  "set_dns_config dns_config sv =
     (if sv_dns_config sv \<noteq> dns_config then (True, sv\<lparr>sv_dns_config := dns_config\<rparr>) else (False, sv))"

section \<open>NetworkManager's connectivity check\<close>

definition nm_disable_connectivity_check :: "nm_io \<Rightarrow> bool \<Rightarrow> bool option \<times> bool" where
  "nm_disable_connectivity_check io check =
     (if \<not> nm_get_ok io then (None, check)
      else if check then (if nm_set_ok io then (Some True, False) else (Some False, check))
      else (Some False, check))"

definition nm_enable_connectivity_check :: "nm_io \<Rightarrow> bool \<Rightarrow> bool" where
  "nm_enable_connectivity_check io check = (if nm_set_ok io then True else check)"

definition disable_connectivity_check :: "world \<Rightarrow> shared \<Rightarrow> shared" where
  "disable_connectivity_check w sv =
     (if sv_connectivity_check_was_enabled sv = None then
        let io = w_nm w (sv_clock sv); sv = sv\<lparr>sv_clock := Suc (sv_clock sv)\<rparr> in
        if nm_new_ok io then
          (case nm_disable_connectivity_check io (sv_nm_check sv) of
             (was_enabled, check) \<Rightarrow>
               sv\<lparr>sv_connectivity_check_was_enabled := was_enabled, sv_nm_check := check\<rparr>)
        else sv
      else sv)"

definition reset_connectivity_check :: "world \<Rightarrow> shared \<Rightarrow> shared" where
  "reset_connectivity_check w sv =
     (let was_enabled = sv_connectivity_check_was_enabled sv;
          io = w_nm w (sv_clock sv);
          sv = sv\<lparr>sv_connectivity_check_was_enabled := None, sv_clock := Suc (sv_clock sv)\<rparr> in
      if was_enabled = Some True \<and> nm_new_ok io
      then sv\<lparr>sv_nm_check := nm_enable_connectivity_check io (sv_nm_check sv)\<rparr>
      else sv)"

end
