(* ===== verification/Tunnel_States.thy ===== *)
theory Tunnel_States
  imports Tunnel_Shared
begin

text \<open>
  The five states of the tunnel state machine, one group of definitions per file of
  \<open>talpid-core/src/tunnel_state_machine/\<close>, on Linux. Entering a state and handling an event are
  functions on the shared values.
\<close>

section \<open>State data\<close>

text \<open>
  The channels of a tunnel are numbered by the tunnel thread they belong to. The future of its close
  event is fused: it records that it has already yielded its value.
\<close>

datatype tunnel_close_event = CloseEvent (ce_tunnel: nat) (ce_terminated: bool)

record connecting_state =
  cg_tunnel_events :: nat
  cg_tunnel_parameters :: tunnel_parameters
  cg_tunnel_metadata :: "tunnel_metadata option"
  cg_allowed_tunnel_traffic :: allowed_tunnel_traffic
  cg_tunnel_close_event :: tunnel_close_event
  cg_tunnel_close_tx :: nat
  cg_retry_attempt :: u32

record connected_state =
  cd_metadata :: tunnel_metadata
  cd_tunnel_events :: nat
  cd_tunnel_parameters :: tunnel_parameters
  cd_tunnel_close_event :: tunnel_close_event
  cd_tunnel_close_tx :: nat

record disconnecting_state =
  dg_tunnel_close_event :: tunnel_close_event
  dg_after_disconnect :: after_disconnect

datatype tunnel_state =
  DisconnectedState
| ConnectingState connecting_state
| ConnectedState connected_state
| DisconnectingState disconnecting_state
| ErrorState error_state_cause

type_synonym new_state = "tunnel_state \<times> tunnel_state_transition"

datatype event_consequence =
  NewState new_state
| SameState tunnel_state
| Finished

section \<open>The error state: entering\<close>

definition ErrorState_set_firewall_policy ::
  "world \<Rightarrow> shared \<Rightarrow> (firewall_policy_error + unit) \<times> shared" where
  "ErrorState_set_firewall_policy w sv =
     (let policy = PolicyBlocked (sv_allow_lan sv) (Some (sv_allowed_endpoint sv));
          sv = disable_connectivity_check w sv in
      case apply_policy w policy sv of
        (Inl _, sv) \<Rightarrow> (Inl Generic, sv)
      | (Inr _, sv) \<Rightarrow> (Inr (), sv))"

definition ErrorState_enter ::
  "world \<Rightarrow> error_state_cause \<Rightarrow> shared \<Rightarrow> new_state \<times> shared" where
  "ErrorState_enter w block_reason sv =
     (case ErrorState_set_firewall_policy w sv of
        (r, sv) \<Rightarrow>
          let block_failure = (case r of Inl e \<Rightarrow> Some e | Inr _ \<Rightarrow> None) in
          ((ErrorState block_reason,
            TError \<lparr>es_cause = block_reason, es_block_failure = block_failure\<rparr>), sv))"

section \<open>The disconnecting state: entering\<close>

definition DisconnectingState_enter ::
  "nat \<Rightarrow> tunnel_close_event \<Rightarrow> after_disconnect \<Rightarrow> shared \<Rightarrow> new_state \<times> shared" where
  "DisconnectingState_enter tunnel_close_tx tunnel_close_event after sv =
     (let sv = record_effect (TunnelClose tunnel_close_tx) sv in
      ((DisconnectingState
          \<lparr>dg_tunnel_close_event = tunnel_close_event, dg_after_disconnect = after\<rparr>,
        TDisconnecting (action after)), sv))"

section \<open>The disconnected state: entering\<close>

definition DisconnectedState_set_firewall_policy :: "world \<Rightarrow> bool \<Rightarrow> shared \<Rightarrow> shared" where
  "DisconnectedState_set_firewall_policy w should_reset_firewall sv =
     (if lockdown_bool (sv_lockdown_mode sv) then
        snd (apply_policy w (PolicyBlocked (sv_allow_lan sv) (Some (sv_allowed_endpoint sv))) sv)
      else if should_reset_firewall then snd (reset_policy w sv)
      else sv)"

definition construct_state_transition :: "shared \<Rightarrow> new_state" where
  "construct_state_transition sv =
     (DisconnectedState, TDisconnected (lockdown_bool (sv_lockdown_mode sv)))"

definition DisconnectedState_enter :: "world \<Rightarrow> bool \<Rightarrow> shared \<Rightarrow> new_state \<times> shared" where
  "DisconnectedState_enter w should_reset_firewall sv =
     (let sv = DisconnectedState_set_firewall_policy w should_reset_firewall sv;
          sv = reset_connectivity_check w sv in
      (construct_state_transition sv, sv))"

section \<open>The connecting state\<close>

abbreviation INITIAL_ALLOWED_TUNNEL_TRAFFIC :: allowed_tunnel_traffic where
  "INITIAL_ALLOWED_TUNNEL_TRAFFIC \<equiv> TrafficNone"

definition root_endpoints :: "endpoint list \<Rightarrow> allowed_endpoint list" where
  "root_endpoints = map (\<lambda>endpoint. \<lparr>ae_endpoint = endpoint, ae_clients = Root\<rparr>)"

definition connecting_policy ::
  "shared \<Rightarrow> tunnel_parameters \<Rightarrow> tunnel_metadata option \<Rightarrow> allowed_tunnel_traffic \<Rightarrow> firewall_policy" where
  "connecting_policy sv params tunnel_metadata allowed_tunnel_traffic =
     PolicyConnecting (root_endpoints (get_next_hop_endpoints params)) tunnel_metadata
       (sv_allow_lan sv) (sv_allowed_endpoint sv) allowed_tunnel_traffic"

definition ConnectingState_set_firewall_policy ::
  "world \<Rightarrow> tunnel_parameters \<Rightarrow> tunnel_metadata option \<Rightarrow> allowed_tunnel_traffic \<Rightarrow> shared \<Rightarrow>
   (firewall_policy_error + unit) \<times> shared" where
  "ConnectingState_set_firewall_policy w params tunnel_metadata allowed_tunnel_traffic sv =
     (let sv = disable_connectivity_check w sv;
          policy = connecting_policy sv params tunnel_metadata allowed_tunnel_traffic in
      case apply_policy w policy sv of
        (Inl _, sv) \<Rightarrow> (Inl Generic, sv)
      | (Inr _, sv) \<Rightarrow> (Inr (), sv))"

text \<open>Starting a tunnel spawns its thread; \<open>tunnel_thread\<close> is what the thread computes.\<close>

definition start_tunnel :: "tunnel_parameters \<Rightarrow> u32 \<Rightarrow> shared \<Rightarrow> connecting_state \<times> shared" where
  "start_tunnel parameters retry_attempt sv =
     (let n = sv_next_tunnel sv;
          sv = record_effect (TunnelStart n parameters retry_attempt)
                 (sv\<lparr>sv_next_tunnel := Suc n, sv_tunnels := n # sv_tunnels sv\<rparr>) in
      (\<lparr>cg_tunnel_events = n, cg_tunnel_parameters = parameters, cg_tunnel_metadata = None,
        cg_allowed_tunnel_traffic = INITIAL_ALLOWED_TUNNEL_TRAFFIC,
        cg_tunnel_close_event = CloseEvent n False, cg_tunnel_close_tx = n,
        cg_retry_attempt = retry_attempt\<rparr>, sv))"

definition generate_parameters ::
  "world \<Rightarrow> u32 \<Rightarrow> ip_availability \<Rightarrow> shared \<Rightarrow> (parameter_generation_error + tunnel_parameters) \<times> shared" where
  "generate_parameters w retry_attempt ip_availability sv =
     (w_generate w (sv_clock sv) retry_attempt ip_availability, sv\<lparr>sv_clock := Suc (sv_clock sv)\<rparr>)"

definition ConnectingState_enter :: "world \<Rightarrow> u32 \<Rightarrow> shared \<Rightarrow> new_state \<times> shared" where
  "ConnectingState_enter w retry_attempt sv =
     (case availability (sv_connectivity sv) of
        None \<Rightarrow> ErrorState_enter w IsOffline sv
      | Some ip_availability \<Rightarrow>
          (case generate_parameters w retry_attempt ip_availability sv of
             (Inl err, sv) \<Rightarrow> ErrorState_enter w (TunnelParameterError err) sv
           | (Inr tunnel_parameters, sv) \<Rightarrow>
               (case ConnectingState_set_firewall_policy w tunnel_parameters None TrafficNone sv of
                  (Inl error, sv) \<Rightarrow> ErrorState_enter w (SetFirewallPolicyError error) sv
                | (Inr _, sv) \<Rightarrow>
                    (case start_tunnel tunnel_parameters retry_attempt sv of
                       (connecting_state, sv) \<Rightarrow>
                         ((ConnectingState connecting_state,
                           TConnecting (get_tunnel_endpoint (cg_tunnel_parameters connecting_state))),
                          sv)))))"

definition ConnectingState_disconnect ::
  "connecting_state \<Rightarrow> after_disconnect \<Rightarrow> shared \<Rightarrow> event_consequence \<times> shared" where
  "ConnectingState_disconnect self after sv =
     (let sv = reset_routes sv in
      apfst NewState
        (DisconnectingState_enter (cg_tunnel_close_tx self) (cg_tunnel_close_event self) after sv))"

text \<open>Apply the policy of the state again and disconnect if that fails.\<close>

definition ConnectingState_reset_firewall ::
  "world \<Rightarrow> connecting_state \<Rightarrow> shared \<Rightarrow> event_consequence \<times> shared" where
  "ConnectingState_reset_firewall w self sv =
     (case ConnectingState_set_firewall_policy w (cg_tunnel_parameters self)
             (cg_tunnel_metadata self) (cg_allowed_tunnel_traffic self) sv of
        (Inr _, sv) \<Rightarrow> (SameState (ConnectingState self), sv)
      | (Inl error, sv) \<Rightarrow>
          ConnectingState_disconnect self (AfterBlock (SetFirewallPolicyError error)) sv)"

definition ConnectingState_handle_commands ::
  "world \<Rightarrow> connecting_state \<Rightarrow> tunnel_command option \<Rightarrow> shared \<Rightarrow> event_consequence \<times> shared" where
  "ConnectingState_handle_commands w self command sv =
     (case command of
        Some (AllowLan allow_lan complete_tx) \<Rightarrow>
          (case set_allow_lan allow_lan sv of
             (changed, sv) \<Rightarrow>
               (case if changed then ConnectingState_reset_firewall w self sv
                     else (SameState (ConnectingState self), sv) of
                  (consequence, sv) \<Rightarrow> (consequence, send_done complete_tx sv)))
      | Some (AllowEndpoint endpoint tx) \<Rightarrow>
          if sv_allowed_endpoint sv \<noteq> endpoint then
            (case ConnectingState_set_firewall_policy w (cg_tunnel_parameters self)
                    (cg_tunnel_metadata self) (cg_allowed_tunnel_traffic self)
                    (sv\<lparr>sv_allowed_endpoint := endpoint\<rparr>) of
               (Inl error, sv) \<Rightarrow>
                 ConnectingState_disconnect self (AfterBlock (SetFirewallPolicyError error))
                   (send_done tx sv)
             | (Inr _, sv) \<Rightarrow> (SameState (ConnectingState self), send_done tx sv))
          else (SameState (ConnectingState self), send_done tx sv)
      | Some (Dns servers complete_tx) \<Rightarrow>
          (SameState (ConnectingState self), send_done complete_tx (snd (set_dns_config servers sv)))
      | Some (LockdownMode lockdown_mode complete_tx) \<Rightarrow>
          (SameState (ConnectingState self),
           send_done complete_tx (sv\<lparr>sv_lockdown_mode := lockdown_mode\<rparr>))
      | Some (Connectivity connectivity) \<Rightarrow>
          let sv = sv\<lparr>sv_connectivity := connectivity\<rparr> in
          if is_offline connectivity then ConnectingState_disconnect self (AfterBlock IsOffline) sv
          else (SameState (ConnectingState self), sv)
      | Some Connect \<Rightarrow> ConnectingState_disconnect self (AfterReconnect 0) sv
      | Some Disconnect \<Rightarrow> ConnectingState_disconnect self AfterNothing sv
      | None \<Rightarrow> ConnectingState_disconnect self AfterNothing sv
      | Some (Block reason) \<Rightarrow> ConnectingState_disconnect self (AfterBlock reason) sv)"

section \<open>The connected state\<close>

definition resolve_dns :: "tunnel_metadata \<Rightarrow> shared \<Rightarrow> resolved_dns_config" where
  "resolve_dns metadata sv = dns_resolve (sv_dns_config sv) (gateways metadata)"

definition get_firewall_policy :: "connected_state \<Rightarrow> shared \<Rightarrow> firewall_policy" where
  "get_firewall_policy self sv =
     PolicyConnected (root_endpoints (get_next_hop_endpoints (cd_tunnel_parameters self)))
       (cd_metadata self) (sv_allow_lan sv) (resolve_dns (cd_metadata self) sv)"

definition ConnectedState_set_firewall_policy ::
  "world \<Rightarrow> connected_state \<Rightarrow> shared \<Rightarrow> (firewall_policy_error + unit) \<times> shared" where
  "ConnectedState_set_firewall_policy w self sv =
     (case apply_policy w (get_firewall_policy self sv) sv of
        (Inl _, sv) \<Rightarrow> (Inl Generic, sv)
      | (Inr _, sv) \<Rightarrow> (Inr (), sv))"

definition ConnectedState_set_dns :: "world \<Rightarrow> connected_state \<Rightarrow> shared \<Rightarrow> bool \<times> shared" where
  "ConnectedState_set_dns w self sv =
     dns_set w (tm_interface (cd_metadata self)) (resolve_dns (cd_metadata self) sv) sv"

definition ConnectedState_enter ::
  "world \<Rightarrow> tunnel_metadata \<Rightarrow> nat \<Rightarrow> tunnel_parameters \<Rightarrow> tunnel_close_event \<Rightarrow> nat \<Rightarrow> shared \<Rightarrow>
   new_state \<times> shared" where
  "ConnectedState_enter w metadata tunnel_events tunnel_parameters tunnel_close_event tunnel_close_tx sv =
     (let connected_state =
            \<lparr>cd_metadata = metadata, cd_tunnel_events = tunnel_events,
             cd_tunnel_parameters = tunnel_parameters, cd_tunnel_close_event = tunnel_close_event,
             cd_tunnel_close_tx = tunnel_close_tx\<rparr>;
          tunnel_endpoint =
            (get_tunnel_endpoint tunnel_parameters)
              \<lparr>te_tunnel_interface := Some (tm_interface metadata)\<rparr> in
      case ConnectedState_set_firewall_policy w connected_state sv of
        (Inl error, sv) \<Rightarrow>
          DisconnectingState_enter tunnel_close_tx tunnel_close_event
            (AfterBlock (SetFirewallPolicyError error)) sv
      | (Inr _, sv) \<Rightarrow>
          (case ConnectedState_set_dns w connected_state sv of
             (False, sv) \<Rightarrow>
               DisconnectingState_enter tunnel_close_tx tunnel_close_event (AfterBlock SetDnsError) sv
           | (True, sv) \<Rightarrow> ((ConnectedState connected_state, TConnected tunnel_endpoint), sv)))"

definition ConnectedState_reset_dns :: "shared \<Rightarrow> shared" where
  "ConnectedState_reset_dns sv = dns_reset_before_interface_removal sv"

definition ConnectedState_disconnect ::
  "connected_state \<Rightarrow> after_disconnect \<Rightarrow> shared \<Rightarrow> event_consequence \<times> shared" where
  "ConnectedState_disconnect self after sv =
     (let sv = ConnectedState_reset_dns sv;
          sv = reset_routes sv in
      apfst NewState
        (DisconnectingState_enter (cd_tunnel_close_tx self) (cd_tunnel_close_event self) after sv))"

definition ConnectedState_handle_commands ::
  "world \<Rightarrow> connected_state \<Rightarrow> tunnel_command option \<Rightarrow> shared \<Rightarrow> event_consequence \<times> shared" where
  "ConnectedState_handle_commands w self command sv =
     (case command of
        Some (AllowLan allow_lan complete_tx) \<Rightarrow>
          (case set_allow_lan allow_lan sv of
             (changed, sv) \<Rightarrow>
               (case if changed then
                       (case ConnectedState_set_firewall_policy w self sv of
                          (Inr _, sv) \<Rightarrow> (SameState (ConnectedState self), sv)
                        | (Inl error, sv) \<Rightarrow>
                            ConnectedState_disconnect self
                              (AfterBlock (SetFirewallPolicyError error)) sv)
                     else (SameState (ConnectedState self), sv) of
                  (consequence, sv) \<Rightarrow> (consequence, send_done complete_tx sv)))
      | Some (AllowEndpoint endpoint tx) \<Rightarrow>
          (SameState (ConnectedState self), send_done tx (sv\<lparr>sv_allowed_endpoint := endpoint\<rparr>))
      | Some (Dns servers complete_tx) \<Rightarrow>
          (case set_dns_config servers sv of
             (changed, sv) \<Rightarrow>
               if changed then
                 (case ConnectedState_set_firewall_policy w self sv of
                    (Inl error, sv) \<Rightarrow>
                      ConnectedState_disconnect self (AfterBlock (SetFirewallPolicyError error)) sv
                  | (Inr _, sv) \<Rightarrow>
                      (case (case ConnectedState_set_dns w self sv of
                               (True, sv) \<Rightarrow> (SameState (ConnectedState self), sv)
                             | (False, sv) \<Rightarrow>
                                 ConnectedState_disconnect self (AfterBlock SetDnsError) sv) of
                         (consequence, sv) \<Rightarrow> (consequence, send_done complete_tx sv)))
               else (SameState (ConnectedState self), send_done complete_tx sv))
      | Some (LockdownMode lockdown_mode complete_tx) \<Rightarrow>
          (SameState (ConnectedState self),
           send_done complete_tx (sv\<lparr>sv_lockdown_mode := lockdown_mode\<rparr>))
      | Some (Connectivity connectivity) \<Rightarrow>
          let sv = sv\<lparr>sv_connectivity := connectivity\<rparr> in
          if is_offline connectivity then ConnectedState_disconnect self (AfterBlock IsOffline) sv
          else (SameState (ConnectedState self), sv)
      | Some Connect \<Rightarrow> ConnectedState_disconnect self (AfterReconnect 0) sv
      | Some Disconnect \<Rightarrow> ConnectedState_disconnect self AfterNothing sv
      | None \<Rightarrow> ConnectedState_disconnect self AfterNothing sv
      | Some (Block reason) \<Rightarrow> ConnectedState_disconnect self (AfterBlock reason) sv)"

definition ConnectedState_handle_tunnel_events ::
  "connected_state \<Rightarrow> tunnel_event option \<Rightarrow> shared \<Rightarrow> event_consequence \<times> shared" where
  "ConnectedState_handle_tunnel_events self event sv =
     (case event of
        Some Down \<Rightarrow> ConnectedState_disconnect self (AfterReconnect 0) sv
      | None \<Rightarrow> ConnectedState_disconnect self (AfterReconnect 0) sv
      | Some _ \<Rightarrow> (SameState (ConnectedState self), sv))"

definition ConnectedState_handle_tunnel_close_event ::
  "world \<Rightarrow> connected_state \<Rightarrow> error_state_cause option \<Rightarrow> shared \<Rightarrow> event_consequence \<times> shared" where
  "ConnectedState_handle_tunnel_close_event w self block_reason sv =
     (let sv = ConnectedState_reset_dns sv;
          sv = reset_routes sv in
      case block_reason of
        Some block_reason \<Rightarrow> apfst NewState (ErrorState_enter w block_reason sv)
      | None \<Rightarrow> apfst NewState (ConnectingState_enter w 0 sv))"

section \<open>The connecting state: events\<close>

definition ConnectingState_handle_tunnel_events ::
  "world \<Rightarrow> connecting_state \<Rightarrow> tunnel_event option \<Rightarrow> shared \<Rightarrow> event_consequence \<times> shared" where
  "ConnectingState_handle_tunnel_events w self event sv =
     (case event of
        Some (EventAuthFailed reason) \<Rightarrow>
          ConnectingState_disconnect self (AfterBlock (AuthFailed reason)) sv
      | Some (InterfaceUp metadata allowed_tunnel_traffic) \<Rightarrow>
          ConnectingState_reset_firewall w
            (self\<lparr>cg_allowed_tunnel_traffic := allowed_tunnel_traffic,
                  cg_tunnel_metadata := Some metadata\<rparr>) sv
      | Some (Up metadata) \<Rightarrow>
          apfst NewState
            (ConnectedState_enter w metadata (cg_tunnel_events self) (cg_tunnel_parameters self)
               (cg_tunnel_close_event self) (cg_tunnel_close_tx self) sv)
      | Some Down \<Rightarrow>
          (SameState (ConnectingState
             (self\<lparr>cg_allowed_tunnel_traffic := INITIAL_ALLOWED_TUNNEL_TRAFFIC,
                   cg_tunnel_metadata := None\<rparr>)), sv)
      | None \<Rightarrow>
          ConnectingState_disconnect self (AfterReconnect (cg_retry_attempt self + 1)) sv)"

definition ConnectingState_handle_tunnel_close_event ::
  "world \<Rightarrow> connecting_state \<Rightarrow> error_state_cause option \<Rightarrow> shared \<Rightarrow> event_consequence \<times> shared" where
  "ConnectingState_handle_tunnel_close_event w self block_reason sv =
     (let sv = reset_routes sv in
      case block_reason of
        Some block_reason \<Rightarrow> apfst NewState (ErrorState_enter w block_reason sv)
      | None \<Rightarrow> apfst NewState (ConnectingState_enter w (cg_retry_attempt self + 1) sv))"

section \<open>The disconnecting state\<close>

definition DisconnectingState_handle_commands ::
  "disconnecting_state \<Rightarrow> tunnel_command option \<Rightarrow> shared \<Rightarrow> event_consequence \<times> shared" where
  "DisconnectingState_handle_commands self command sv =
     (let after = dg_after_disconnect self;
          (after, sv) =
       (case command of
          Some (AllowLan allow_lan complete_tx) \<Rightarrow>
            (after, send_done complete_tx (snd (set_allow_lan allow_lan sv)))
        | Some (AllowEndpoint endpoint tx) \<Rightarrow>
            (after, send_done tx (sv\<lparr>sv_allowed_endpoint := endpoint\<rparr>))
        | Some (Dns servers complete_tx) \<Rightarrow>
            (after, send_done complete_tx (snd (set_dns_config servers sv)))
        | Some (LockdownMode lockdown_mode complete_tx) \<Rightarrow>
            (after, send_done complete_tx (sv\<lparr>sv_lockdown_mode := lockdown_mode\<rparr>))
        | Some (Connectivity connectivity) \<Rightarrow>
            ((case after of
                AfterReconnect n \<Rightarrow>
                  if is_offline connectivity then AfterBlock IsOffline else AfterReconnect n
              | AfterBlock IsOffline \<Rightarrow>
                  if \<not> is_offline connectivity then AfterReconnect 0 else AfterBlock IsOffline
              | after \<Rightarrow> after), sv\<lparr>sv_connectivity := connectivity\<rparr>)
        | Some Connect \<Rightarrow>
            ((case after of AfterReconnect retry_attempt \<Rightarrow> AfterReconnect retry_attempt
              | _ \<Rightarrow> AfterReconnect 0), sv)
        | Some Disconnect \<Rightarrow> (AfterNothing, sv)
        | Some (Block reason) \<Rightarrow>
            ((case after of AfterNothing \<Rightarrow> AfterNothing | _ \<Rightarrow> AfterBlock reason), sv)
        | None \<Rightarrow>
            ((case after of AfterReconnect _ \<Rightarrow> AfterNothing | after \<Rightarrow> after), sv))
      in (SameState (DisconnectingState (self\<lparr>dg_after_disconnect := after\<rparr>)), sv))"

definition DisconnectingState_after_disconnect ::
  "world \<Rightarrow> disconnecting_state \<Rightarrow> error_state_cause option \<Rightarrow> shared \<Rightarrow> new_state \<times> shared" where
  "DisconnectingState_after_disconnect w self block_reason sv =
     (case block_reason of
        Some reason \<Rightarrow> ErrorState_enter w reason sv
      | None \<Rightarrow>
          (case dg_after_disconnect self of
             AfterNothing \<Rightarrow> DisconnectedState_enter w True sv
           | AfterBlock cause \<Rightarrow> ErrorState_enter w cause sv
           | AfterReconnect retry_attempt \<Rightarrow> ConnectingState_enter w retry_attempt sv))"

section \<open>The disconnected state\<close>

definition DisconnectedState_reset_dns :: "shared \<Rightarrow> shared" where
  "DisconnectedState_reset_dns sv = dns_reset sv"

definition DisconnectedState_handle_commands ::
  "world \<Rightarrow> tunnel_command option \<Rightarrow> shared \<Rightarrow> event_consequence \<times> shared" where
  "DisconnectedState_handle_commands w command sv =
     (case command of
        Some (AllowLan allow_lan complete_tx) \<Rightarrow>
          (case set_allow_lan allow_lan sv of
             (changed, sv) \<Rightarrow>
               let sv = (if changed then DisconnectedState_set_firewall_policy w False sv else sv) in
               (SameState DisconnectedState, send_done complete_tx sv))
      | Some (AllowEndpoint endpoint tx) \<Rightarrow>
          let sv = (if sv_allowed_endpoint sv \<noteq> endpoint
                    then DisconnectedState_set_firewall_policy w False
                           (sv\<lparr>sv_allowed_endpoint := endpoint\<rparr>)
                    else sv) in
          (SameState DisconnectedState, send_done tx sv)
      | Some (Dns servers complete_tx) \<Rightarrow>
          (SameState DisconnectedState, send_done complete_tx (snd (set_dns_config servers sv)))
      | Some (LockdownMode lockdown_mode complete_tx) \<Rightarrow>
          if \<not> lockdown_eq (sv_lockdown_mode sv) lockdown_mode then
            let sv = DisconnectedState_set_firewall_policy w True
                       (sv\<lparr>sv_lockdown_mode := lockdown_mode\<rparr>);
                sv = send_done complete_tx sv in
            (NewState (construct_state_transition sv), sv)
          else (SameState DisconnectedState, send_done complete_tx sv)
      | Some (Connectivity connectivity) \<Rightarrow>
          (SameState DisconnectedState, sv\<lparr>sv_connectivity := connectivity\<rparr>)
      | Some Connect \<Rightarrow> apfst NewState (ConnectingState_enter w 0 sv)
      | Some (Block _) \<Rightarrow> (SameState DisconnectedState, sv)
      | None \<Rightarrow> (Finished, DisconnectedState_reset_dns sv)
      | Some _ \<Rightarrow> (SameState DisconnectedState, sv))"

section \<open>The error state\<close>

definition ErrorState_reset_dns :: "shared \<Rightarrow> shared" where
  "ErrorState_reset_dns sv = dns_reset sv"

definition ErrorState_handle_commands ::
  "world \<Rightarrow> error_state_cause \<Rightarrow> tunnel_command option \<Rightarrow> shared \<Rightarrow> event_consequence \<times> shared" where
  "ErrorState_handle_commands w block_reason command sv =
     (let same = SameState (ErrorState block_reason) in
      case command of
        Some (AllowLan allow_lan complete_tx) \<Rightarrow>
          (case set_allow_lan allow_lan sv of
             (changed, sv) \<Rightarrow>
               let sv = (if changed then snd (ErrorState_set_firewall_policy w sv) else sv) in
               (same, send_done complete_tx sv))
      | Some (AllowEndpoint endpoint tx) \<Rightarrow>
          let sv = (if sv_allowed_endpoint sv \<noteq> endpoint
                    then snd (ErrorState_set_firewall_policy w (sv\<lparr>sv_allowed_endpoint := endpoint\<rparr>))
                    else sv) in
          (same, send_done tx sv)
      | Some (Dns servers complete_tx) \<Rightarrow>
          (case set_dns_config servers sv of
             (changed, sv) \<Rightarrow>
               let sv = (if changed then snd (ErrorState_set_firewall_policy w sv) else sv) in
               (same, send_done complete_tx sv))
      | Some (LockdownMode lockdown_mode complete_tx) \<Rightarrow>
          (same, send_done complete_tx (sv\<lparr>sv_lockdown_mode := lockdown_mode\<rparr>))
      | Some (Connectivity connectivity) \<Rightarrow>
          let sv = sv\<lparr>sv_connectivity := connectivity\<rparr> in
          if \<not> is_offline connectivity \<and>
             (block_reason = IsOffline \<or>
              (case block_reason of
                 TunnelParameterError (IpVersionUnavailable family) \<Rightarrow> has_family connectivity family
               | _ \<Rightarrow> False))
          then apfst NewState (ConnectingState_enter w 0 (ErrorState_reset_dns sv))
          else (same, sv)
      | Some Connect \<Rightarrow> apfst NewState (ConnectingState_enter w 0 (ErrorState_reset_dns sv))
      | Some Disconnect \<Rightarrow>
          (let sv = reset_connectivity_check w sv; sv = ErrorState_reset_dns sv in
           apfst NewState (DisconnectedState_enter w True sv))
      | None \<Rightarrow>
          (let sv = reset_connectivity_check w sv; sv = ErrorState_reset_dns sv in
           apfst NewState (DisconnectedState_enter w True sv))
      | Some (Block reason) \<Rightarrow> apfst NewState (ErrorState_enter w reason sv))"

end
