(* ===== verification/Tunnel_Machine.thy ===== *)
theory Tunnel_Machine
  imports Tunnel_States
begin

text \<open>
  \<open>TunnelStateMachine\<close>: how each state waits for its next event (\<open>handle_event\<close>), the loop \<open>run\<close>,
  the construction \<open>new\<close>, and the interleaving with the outside: commands being sent, the command
  channel being closed, tunnel threads exiting.
\<close>

section \<open>The command channel\<close>

text \<open>
  \<open>stream::Fuse<UnboundedReceiver<TunnelCommand>>\<close>: the queue, whether a sender is alive, and whether
  the fused stream has yielded \<open>None\<close>. \<open>commands_next\<close> is \<open>None\<close> while the stream is pending.
\<close>

record command_rx =
  rx_queue :: "tunnel_command list"
  rx_open :: bool
  rx_done :: bool

definition commands_next :: "command_rx \<Rightarrow> (tunnel_command option \<times> command_rx) option" where
  "commands_next rx =
     (if rx_done rx then Some (None, rx)
      else case rx_queue rx of
             c # cs \<Rightarrow> Some (Some c, rx\<lparr>rx_queue := cs\<rparr>)
           | [] \<Rightarrow> if rx_open rx then None else Some (None, rx\<lparr>rx_done := True\<rparr>))"

datatype try_recv_error = RecvEmpty | RecvClosed

definition commands_try_recv :: "command_rx \<Rightarrow> (try_recv_error + tunnel_command) \<times> command_rx" where
  "commands_try_recv rx =
     (case rx_queue rx of
        c # cs \<Rightarrow> (Inr c, rx\<lparr>rx_queue := cs\<rparr>)
      | [] \<Rightarrow> (Inl (if rx_open rx then RecvEmpty else RecvClosed), rx))"

section \<open>Waiting for an event\<close>

text \<open>
  \<open>select!\<close> takes any branch that is ready; a \<open>branch\<close> says which one. A branch on a fused stream or
  future that has terminated is never taken. The result is \<open>None\<close> if the branch is not ready.
\<close>

datatype branch = BCommand | BEvent "tunnel_event option" | BClose

type_synonym exits = "nat \<Rightarrow> close_result option"

definition select_command :: "command_rx \<Rightarrow> (event_result \<times> command_rx) option" where
  "select_command rx =
     (if rx_done rx then None
      else map_option (\<lambda>(c, rx). (EvCommand c, rx)) (commands_next rx))"

definition select_close ::
  "exits \<Rightarrow> tunnel_close_event \<Rightarrow> command_rx \<Rightarrow> (event_result \<times> command_rx) option" where
  "select_close exits ev rx =
     (if ce_terminated ev then None
      else map_option (\<lambda>r. (EvClose r, rx)) (exits (ce_tunnel ev)))"

definition unwrap_or_none :: "close_result \<Rightarrow> error_state_cause option" where
  "unwrap_or_none r = (case r of Inl _ \<Rightarrow> None | Inr block_reason \<Rightarrow> block_reason)"

definition terminate :: "event_result \<Rightarrow> tunnel_close_event \<Rightarrow> tunnel_close_event" where
  "terminate r ev = (case r of EvClose _ \<Rightarrow> CloseEvent (ce_tunnel ev) True | _ \<Rightarrow> ev)"

text \<open>The \<open>select!\<close> of the connecting and connected states.\<close>

definition select3 ::
  "branch \<Rightarrow> exits \<Rightarrow> tunnel_close_event \<Rightarrow> command_rx \<Rightarrow> (event_result \<times> command_rx) option" where
  "select3 br exits ev rx =
     (case br of
        BCommand \<Rightarrow> select_command rx
      | BEvent e \<Rightarrow> Some (EvEvent e, rx)
      | BClose \<Rightarrow> select_close exits ev rx)"

definition ConnectingState_handle_event ::
  "world \<Rightarrow> connecting_state \<Rightarrow> event_result \<Rightarrow> shared \<Rightarrow> event_consequence \<times> shared" where
  "ConnectingState_handle_event w self result sv =
     (let self = self\<lparr>cg_tunnel_close_event := terminate result (cg_tunnel_close_event self)\<rparr> in
      case result of
        EvCommand command \<Rightarrow> ConnectingState_handle_commands w self command sv
      | EvEvent event \<Rightarrow> ConnectingState_handle_tunnel_events w self event sv
      | EvClose result \<Rightarrow>
          ConnectingState_handle_tunnel_close_event w self (unwrap_or_none result) sv)"

definition ConnectedState_handle_event ::
  "world \<Rightarrow> connected_state \<Rightarrow> event_result \<Rightarrow> shared \<Rightarrow> event_consequence \<times> shared" where
  "ConnectedState_handle_event w self result sv =
     (let self = self\<lparr>cd_tunnel_close_event := terminate result (cd_tunnel_close_event self)\<rparr> in
      case result of
        EvCommand command \<Rightarrow> ConnectedState_handle_commands w self command sv
      | EvEvent event \<Rightarrow> ConnectedState_handle_tunnel_events self event sv
      | EvClose result \<Rightarrow>
          ConnectedState_handle_tunnel_close_event w self (unwrap_or_none result) sv)"

text \<open>
  The disconnecting state polls the command channel when its close event has already been consumed;
  the third arm of its match is \<open>unreachable!\<close>, which no value of \<open>DisconnectingState_result\<close> takes.
\<close>

definition DisconnectingState_result ::
  "branch \<Rightarrow> exits \<Rightarrow> tunnel_close_event \<Rightarrow> command_rx \<Rightarrow> (event_result \<times> command_rx) option" where
  "DisconnectingState_result br exits ev rx =
     (if ce_terminated ev then
        if rx_done rx then Some (EvClose (Inr None), rx)
        else
          (case commands_try_recv rx of
             (Inr command, rx) \<Rightarrow> Some (EvCommand (Some command), rx)
           | (Inl RecvEmpty, rx) \<Rightarrow> Some (EvCommand None, rx)
           | (Inl RecvClosed, rx) \<Rightarrow> Some (EvClose (Inr None), rx))
      else
        (case br of
           BCommand \<Rightarrow> select_command rx
         | BEvent _ \<Rightarrow> None
         | BClose \<Rightarrow> select_close exits ev rx))"

definition DisconnectingState_handle_event ::
  "world \<Rightarrow> disconnecting_state \<Rightarrow> event_result \<Rightarrow> shared \<Rightarrow> (event_consequence \<times> shared) option" where
  "DisconnectingState_handle_event w self result sv =
     (let self = self\<lparr>dg_tunnel_close_event := terminate result (dg_tunnel_close_event self)\<rparr> in
      case result of
        EvCommand command \<Rightarrow> Some (DisconnectingState_handle_commands self command sv)
      | EvClose result \<Rightarrow>
          Some (apfst NewState
                  (DisconnectingState_after_disconnect w self (unwrap_or_none result) sv))
      | EvEvent _ \<Rightarrow> None)"

fun handle_event ::
  "world \<Rightarrow> branch \<Rightarrow> exits \<Rightarrow> tunnel_state \<Rightarrow> command_rx \<Rightarrow> shared \<Rightarrow>
   (event_consequence \<times> command_rx \<times> shared) option" where
  "handle_event w br exits DisconnectedState rx sv =
     (case br of
        BCommand \<Rightarrow>
          (case commands_next rx of
             None \<Rightarrow> None
           | Some (command, rx) \<Rightarrow>
               (case DisconnectedState_handle_commands w command sv of (c, sv) \<Rightarrow> Some (c, rx, sv)))
      | _ \<Rightarrow> None)"
| "handle_event w br exits (ErrorState block_reason) rx sv =
     (case br of
        BCommand \<Rightarrow>
          (case commands_next rx of
             None \<Rightarrow> None
           | Some (command, rx) \<Rightarrow>
               (case ErrorState_handle_commands w block_reason command sv of
                  (c, sv) \<Rightarrow> Some (c, rx, sv)))
      | _ \<Rightarrow> None)"
| "handle_event w br exits (ConnectingState self) rx sv =
     (case select3 br exits (cg_tunnel_close_event self) rx of
        None \<Rightarrow> None
      | Some (result, rx) \<Rightarrow>
          (case ConnectingState_handle_event w self result sv of (c, sv) \<Rightarrow> Some (c, rx, sv)))"
| "handle_event w br exits (ConnectedState self) rx sv =
     (case select3 br exits (cd_tunnel_close_event self) rx of
        None \<Rightarrow> None
      | Some (result, rx) \<Rightarrow>
          (case ConnectedState_handle_event w self result sv of (c, sv) \<Rightarrow> Some (c, rx, sv)))"
| "handle_event w br exits (DisconnectingState self) rx sv =
     (case DisconnectingState_result br exits (dg_tunnel_close_event self) rx of
        None \<Rightarrow> None
      | Some (result, rx) \<Rightarrow>
          (case DisconnectingState_handle_event w self result sv of
             None \<Rightarrow> None
           | Some (c, sv) \<Rightarrow> Some (c, rx, sv)))"

section \<open>The machine and its loop\<close>

record machine =
  m_state :: "tunnel_state option" \<comment> \<open>\<open>current_state\<close>; \<open>None\<close> once finished\<close>
  m_commands :: command_rx
  m_shared :: shared
  m_exits :: exits \<comment> \<open>values waiting in the oneshot channels of tunnel threads\<close>
  m_transitions :: "tunnel_state_transition list" \<comment> \<open>sent to the listener, newest first\<close>
  m_running :: bool

text \<open>
  One iteration of the loop of \<open>run\<close>. \<open>listening\<close> says whether the listener still accepts
  transitions; when it does not, the loop breaks.
\<close>

definition run_step :: "world \<Rightarrow> bool \<Rightarrow> branch \<Rightarrow> machine \<Rightarrow> machine option" where
  "run_step w listening br m =
     (if \<not> m_running m then None
      else case m_state m of
        None \<Rightarrow> None
      | Some state \<Rightarrow>
          (case handle_event w br (m_exits m) state (m_commands m) (m_shared m) of
             None \<Rightarrow> None
           | Some (consequence, rx, sv) \<Rightarrow>
               (let m = m\<lparr>m_commands := rx, m_shared := sv\<rparr> in
                Some (case consequence of
                  NewState (state, transition) \<Rightarrow>
                    (let m = m\<lparr>m_state := Some state\<rparr> in
                     if listening then m\<lparr>m_transitions := transition # m_transitions m\<rparr>
                     else m\<lparr>m_running := False\<rparr>)
                | SameState state \<Rightarrow> m\<lparr>m_state := Some state\<rparr>
                | Finished \<Rightarrow> m\<lparr>m_state := None, m_running := False\<rparr>))))"

record initial_tunnel_state =
  is_allow_lan :: bool
  is_lockdown_mode :: lockdown_mode
  is_dns_config :: dns_config
  is_allowed_endpoint :: allowed_endpoint
  is_reset_firewall :: bool

record linux_networking_identifiers =
  li_fwmark :: u32
  li_table_id :: u32
  li_excluded_cgroup2 :: "u64 option"
  li_net_cls :: "u32 option"

definition firewall_from_args :: "linux_networking_identifiers \<Rightarrow> firewall" where
  "firewall_from_args ids =
     \<lparr>fw_fwmark = li_fwmark ids, fw_excluded_cgroup2 = li_excluded_cgroup2 ids,
      fw_net_cls = li_net_cls ids\<rparr>"

text \<open>
  \<open>TunnelStateMachine::new\<close>: \<open>connectivity\<close> is what the offline monitor reports, \<open>k\<close> and
  \<open>check\<close> are the state the daemon finds the kernel and NetworkManager in.
\<close>

definition initial_shared ::
  "initial_tunnel_state \<Rightarrow> linux_networking_identifiers \<Rightarrow> connectivity \<Rightarrow> fw_kernel \<Rightarrow> bool \<Rightarrow> shared" where
  "initial_shared settings ids connectivity k check =
     \<lparr>sv_firewall = firewall_from_args ids, sv_kernel = k,
      sv_allow_lan = is_allow_lan settings, sv_lockdown_mode = is_lockdown_mode settings,
      sv_connectivity = connectivity, sv_dns_config = is_dns_config settings,
      sv_allowed_endpoint = is_allowed_endpoint settings,
      sv_connectivity_check_was_enabled = None, sv_nm_check = check,
      sv_tunnels = [], sv_next_tunnel = 0, sv_clock = 0, sv_log = []\<rparr>"

definition TunnelStateMachine_new ::
  "world \<Rightarrow> initial_tunnel_state \<Rightarrow> linux_networking_identifiers \<Rightarrow> connectivity \<Rightarrow> fw_kernel \<Rightarrow> bool \<Rightarrow>
   machine" where
  "TunnelStateMachine_new w settings ids connectivity k check =
     (case DisconnectedState_enter w (is_reset_firewall settings)
             (initial_shared settings ids connectivity k check) of
        ((state, _), sv) \<Rightarrow>
          \<lparr>m_state = Some state, m_commands = \<lparr>rx_queue = [], rx_open = True, rx_done = False\<rparr>,
           m_shared = sv, m_exits = (\<lambda>_. None), m_transitions = [], m_running = True\<rparr>)"

section \<open>Interleaving with the outside\<close>

inductive tsm_step :: "world \<Rightarrow> machine \<Rightarrow> machine \<Rightarrow> bool" for w where
  send_command:
    "rx_open (m_commands m) \<Longrightarrow>
     tsm_step w m (m\<lparr>m_commands := (m_commands m)\<lparr>rx_queue := rx_queue (m_commands m) @ [c]\<rparr>\<rparr>)"
| drop_sender:
    "tsm_step w m (m\<lparr>m_commands := (m_commands m)\<lparr>rx_open := False\<rparr>\<rparr>)"
| tunnel_exit:
    "n \<in> set (sv_tunnels (m_shared m)) \<Longrightarrow>
     tsm_step w m
       (m\<lparr>m_shared := (m_shared m)\<lparr>sv_tunnels := remove1 n (sv_tunnels (m_shared m))\<rparr>,
          m_exits := (m_exits m)(n := Some r)\<rparr>)"
| loop:
    "run_step w listening br m = Some m' \<Longrightarrow> tsm_step w m m'"

inductive tsm_reachable :: "world \<Rightarrow> machine \<Rightarrow> bool" for w where
  start: "tsm_reachable w (TunnelStateMachine_new w settings ids connectivity k check)"
| step: "tsm_reachable w m \<Longrightarrow> tsm_step w m m' \<Longrightarrow> tsm_reachable w m'"

inductive_cases tsm_stepE: "tsm_step w m m'"

lemma run_stepE:
  assumes "run_step w listening br m = Some m'"
  obtains state consequence rx sv
  where "m_running m" and "m_state m = Some state"
    and "handle_event w br (m_exits m) state (m_commands m) (m_shared m) = Some (consequence, rx, sv)"
    and "m_commands m' = rx" and "m_shared m' = sv" and "m_exits m' = m_exits m"
    and "(\<exists>st tr. consequence = NewState (st, tr) \<and> m_state m' = Some st \<and>
            (m_transitions m' = tr # m_transitions m \<and> m_running m' \<or>
             m_transitions m' = m_transitions m \<and> \<not> m_running m')) \<or>
         (\<exists>st. consequence = SameState st \<and> m_state m' = Some st \<and> m_running m' \<and>
            m_transitions m' = m_transitions m) \<or>
         consequence = Finished \<and> m_state m' = None \<and> \<not> m_running m' \<and>
            m_transitions m' = m_transitions m"
  using assms
  by (auto simp: run_step_def Let_def split: if_splits option.splits event_consequence.splits prod.splits)

end
