(* ===== verification/Daemon_Handlers.thy ===== *)
theory Daemon_Handlers
  imports Daemon Tunnel_Machine
begin

text \<open>
  The handlers of the commands of the daemon, one definition for each, and its event loop
  (\<open>mullvad-daemon/src/lib.rs\<close>, with \<open>custom_list.rs\<close> and \<open>access_method.rs\<close>).
\<close>

section \<open>State and target state\<close>

definition on_set_target_state :: "'b daemon_world \<Rightarrow> sender \<Rightarrow> target_state \<Rightarrow> 'b daemon \<Rightarrow> 'b daemon" where
  "on_set_target_state w tx new_target_state d =
     (case set_target_state w new_target_state d of (initiated, d) \<Rightarrow> oneshot_send tx (ReBool initiated) d)"

definition on_reconnect :: "sender \<Rightarrow> 'b daemon \<Rightarrow> 'b daemon" where
  "on_reconnect tx d =
     (if target d = Secured \<or> is_in_error_state (d_tunnel_state d)
      then oneshot_send tx (ReBool True) (connect_tunnel d)
      else oneshot_send tx (ReBool False) d)"

definition on_get_feature_indicators :: "sender \<Rightarrow> 'b daemon \<Rightarrow> 'b daemon" where
  "on_get_feature_indicators tx d =
     oneshot_send tx (ReFeatures
       (case d_tunnel_state d of TsConnecting _ _ f \<Rightarrow> f | TsConnected _ _ f \<Rightarrow> f | _ \<Rightarrow> {})) d"

text \<open>A channel whose receiver is dropped.\<close>

definition send_unwatched :: "(sender \<Rightarrow> tunnel_command) \<Rightarrow> 'b daemon \<Rightarrow> 'b daemon" where
  "send_unwatched command d = (case oneshot_channel d of (tx, d) \<Rightarrow> send_tunnel_command (command tx) d)"

definition on_prepare_restart :: "bool \<Rightarrow> 'b daemon \<Rightarrow> 'b daemon" where
  "on_prepare_restart shutdown d =
     (let d = (if target d = Secured then send_unwatched (LockdownMode (LockdownEnabled True)) d else d);
          d = d\<lparr>d_target_state := pts_lock (d_target_state d)\<rparr>
      in if shutdown then send_event (DvTriggerShutdown False) d else d)"

definition on_trigger_shutdown :: "bool \<Rightarrow> 'b daemon \<Rightarrow> 'b daemon" where
  "on_trigger_shutdown user_init_shutdown d =
     (let d = (if \<not> user_init_shutdown \<and> (target d = Secured \<or> us_auto_connect (settings d))
               then send_unwatched (LockdownMode lockdown_yes) d else d)
      in disconnect_tunnel d)"

definition on_factory_reset :: "'b daemon_world \<Rightarrow> sender \<Rightarrow> 'b daemon \<Rightarrow> 'b daemon" where
  "on_factory_reset w tx d =
     (let d = called (fx FxLogout d);
          (cleared, history) = history_clear (dm_history w (d_calls d)) (d_account_history d);
          d = called (d\<lparr>d_account_history := history\<rparr>);
          last_error = (case cleared of Inl _ \<Rightarrow> Some ''Failed to clear account history'' | Inr _ \<Rightarrow> None);
          (reset, d) = settings_reset w d;
          last_error = (case reset of Inl _ \<Rightarrow> Some ''Failed to reset settings'' | Inr _ \<Rightarrow> last_error);
          d = send_event (DvTriggerShutdown False) d
      in d\<lparr>d_shutdown_tasks := d_shutdown_tasks d @ [(tx, last_error)]\<rparr>)"

text \<open>What the task of a factory reset answers when the daemon is finalized; \<open>cleared\<close> is whether the directories could be cleared.\<close>

definition factory_reset_task :: "bool \<Rightarrow> string option \<Rightarrow> daemon_error + unit" where
  "factory_reset_task cleared last_error =
     (case if cleared then last_error else Some ''Failed to clear cache and log directories'' of
        Some error \<Rightarrow> Inl (DeFactoryResetError error) | None \<Rightarrow> Inr ())"

definition set_rollout_threshold_seed :: "'b daemon_world \<Rightarrow> u32 \<Rightarrow> 'b daemon \<Rightarrow> 'b daemon" where
  "set_rollout_threshold_seed w seed d = snd (settings_update w (\<lambda>s. s\<lparr>us_rollout_threshold_seed := Some seed\<rparr>) d)"

definition generate_and_set :: "'b daemon_world \<Rightarrow> 'b daemon \<Rightarrow> u32 \<times> 'b daemon" where
  "generate_and_set w d = (let seed = dm_seed w (d_calls d) in (seed, set_rollout_threshold_seed w seed (called d)))"

definition on_get_rollout_threshold :: "'b daemon_world \<Rightarrow> sender \<Rightarrow> 'b daemon \<Rightarrow> 'b daemon" where
  "on_get_rollout_threshold w reply d =
     (case (case us_rollout_threshold_seed (settings d) of Some seed \<Rightarrow> (seed, d) | None \<Rightarrow> generate_and_set w d) of
        (seed, d) \<Rightarrow> oneshot_send reply (ReThreshold (dm_threshold w seed)) d)"

definition on_get_state :: "sender \<Rightarrow> 'b daemon \<Rightarrow> 'b daemon" where
  "on_get_state tx d = oneshot_send tx (ReState (d_tunnel_state d)) d"

definition on_is_performing_post_upgrade :: "sender \<Rightarrow> 'b daemon \<Rightarrow> 'b daemon" where
  "on_is_performing_post_upgrade tx d = oneshot_send tx (ReBool (\<not> d_migration_complete d)) d"

definition on_get_current_version :: "'b daemon_world \<Rightarrow> sender \<Rightarrow> 'b daemon \<Rightarrow> 'b daemon" where
  "on_get_current_version w tx d = oneshot_send tx (ReVersion (dm_version w)) d"

definition on_get_version_info :: "sender \<Rightarrow> 'b daemon \<Rightarrow> 'b daemon" where
  "on_get_version_info tx d = spawn (TaskVersionInfo tx) d"

text \<open>There are no upgrades in the app on Linux.\<close>

definition on_app_upgrade :: "sender \<Rightarrow> 'b daemon \<Rightarrow> 'b daemon" where
  "on_app_upgrade tx d = oneshot_send tx ReUpgrade d"

definition on_app_upgrade_abort :: "sender \<Rightarrow> 'b daemon \<Rightarrow> 'b daemon" where
  "on_app_upgrade_abort tx d = oneshot_send tx ReUpgrade d"

definition on_get_app_upgrade_cache_dir :: "sender \<Rightarrow> 'b daemon \<Rightarrow> 'b daemon" where
  "on_get_app_upgrade_cache_dir tx d = oneshot_send tx (ReCacheDir []) d"

definition handle_state_command :: "'b daemon_world \<Rightarrow> state_command \<Rightarrow> 'b daemon \<Rightarrow> 'b daemon" where
  "handle_state_command w command d =
     (case command of
        SetTargetState tx state \<Rightarrow> on_set_target_state w tx state d
      | Reconnect tx \<Rightarrow> on_reconnect tx d
      | GetState tx \<Rightarrow> on_get_state tx d
      | GetFeatureIndicators tx \<Rightarrow> on_get_feature_indicators tx d
      | IsPerformingPostUpgrade tx \<Rightarrow> on_is_performing_post_upgrade tx d
      | GetCurrentVersion tx \<Rightarrow> on_get_current_version w tx d
      | GetVersionInfo tx \<Rightarrow> on_get_version_info tx d
      | PrepareRestart shutdown \<Rightarrow> on_prepare_restart shutdown d
      | FactoryReset tx \<Rightarrow> on_factory_reset w tx d
      | GetRolloutThreshold tx \<Rightarrow> on_get_rollout_threshold w tx d
      | GenerateNewRolloutSeed tx \<Rightarrow>
          (case generate_and_set w d of (seed, d) \<Rightarrow> oneshot_send tx (ReThreshold (dm_threshold w seed)) d)
      | SetRolloutThresholdSeed seed tx \<Rightarrow> oneshot_send tx ReUnit (set_rollout_threshold_seed w seed d)
      | AppUpgrade tx \<Rightarrow> on_app_upgrade tx d
      | AppUpgradeAbort tx \<Rightarrow> on_app_upgrade_abort tx d
      | GetAppUpgradeCacheDir tx \<Rightarrow> on_get_app_upgrade_cache_dir tx d)"

section \<open>Accounts\<close>

definition on_get_www_auth_token :: "'b daemon_world \<Rightarrow> sender \<Rightarrow> 'b daemon \<Rightarrow> 'b daemon" where
  "on_get_www_auth_token w tx d =
     (case dm_data w (d_calls d) of
        Inr (LoggedIn device) \<Rightarrow> spawn (TaskWwwAuthToken tx (pad_account_number device)) (called d)
      | _ \<Rightarrow> oneshot_send tx (ReToken (Inl DeNoAccountNumber)) (called d))"

definition on_get_wireguard_key :: "'b daemon_world \<Rightarrow> sender \<Rightarrow> 'b daemon \<Rightarrow> 'b daemon" where
  "on_get_wireguard_key w tx d =
     (case dm_data w (d_calls d) of
        Inr (LoggedIn config) \<Rightarrow>
          oneshot_send tx (ReKey (Inr (Some (dm_public_key w (wd_private_key (pd_wg_data (pad_device config))))))) (called d)
      | _ \<Rightarrow> oneshot_send tx (ReKey (Inl DeNoAccountNumber)) (called d))"

definition on_clear_account_history :: "'b daemon_world \<Rightarrow> sender \<Rightarrow> 'b daemon \<Rightarrow> 'b daemon" where
  "on_clear_account_history w tx d =
     (case history_clear (dm_history w (d_calls d)) (d_account_history d) of
        (result, history) \<Rightarrow>
          oneshot_send tx (ReDaemon (case result of Inl e \<Rightarrow> Inl (DeAccountHistory e) | Inr _ \<Rightarrow> Inr ()))
            (called (d\<lparr>d_account_history := history\<rparr>)))"

text \<open>Handlers that leave everything to a task.\<close>

definition on_create_new_account :: "sender \<Rightarrow> 'b daemon \<Rightarrow> 'b daemon" where
  "on_create_new_account tx d = spawn (TaskCreateAccount tx) d"

definition on_get_account_data :: "sender \<Rightarrow> account_number \<Rightarrow> 'b daemon \<Rightarrow> 'b daemon" where
  "on_get_account_data tx account_number d = spawn (TaskAccountData tx account_number) d"

definition on_submit_voucher :: "sender \<Rightarrow> string \<Rightarrow> 'b daemon \<Rightarrow> 'b daemon" where
  "on_submit_voucher tx voucher d = spawn (TaskSubmitVoucher tx voucher) d"

definition on_login_account :: "sender \<Rightarrow> account_number \<Rightarrow> 'b daemon \<Rightarrow> 'b daemon" where
  "on_login_account tx account_number d = spawn (TaskLogin tx account_number) d"

definition on_logout_account :: "sender \<Rightarrow> 'b daemon \<Rightarrow> 'b daemon" where
  "on_logout_account tx d = spawn (TaskLogout tx) d"

definition on_get_device :: "sender \<Rightarrow> 'b daemon \<Rightarrow> 'b daemon" where
  "on_get_device tx d = spawn (TaskGetDevice tx) d"

definition on_update_device :: "sender \<Rightarrow> 'b daemon \<Rightarrow> 'b daemon" where
  "on_update_device tx d = spawn (TaskUpdateDevice tx) d"

definition on_list_devices :: "sender \<Rightarrow> account_number \<Rightarrow> 'b daemon \<Rightarrow> 'b daemon" where
  "on_list_devices tx account_number d = spawn (TaskListDevices tx account_number) d"

definition on_remove_device :: "sender \<Rightarrow> account_number \<Rightarrow> device_id \<Rightarrow> 'b daemon \<Rightarrow> 'b daemon" where
  "on_remove_device tx account_number device_id d = spawn (TaskRemoveDevice tx account_number device_id) d"

definition on_rotate_wireguard_key :: "sender \<Rightarrow> 'b daemon \<Rightarrow> 'b daemon" where
  "on_rotate_wireguard_key tx d = spawn (TaskRotateKey tx) d"

definition on_get_account_history :: "sender \<Rightarrow> 'b daemon \<Rightarrow> 'b daemon" where
  "on_get_account_history tx d = oneshot_send tx (ReHistory (ah_number (d_account_history d))) d"

definition handle_account_command :: "'b daemon_world \<Rightarrow> account_command \<Rightarrow> 'b daemon \<Rightarrow> 'b daemon" where
  "handle_account_command w command d =
     (case command of
        CreateNewAccount tx \<Rightarrow> on_create_new_account tx d
      | GetAccountData tx account_number \<Rightarrow> on_get_account_data tx account_number d
      | GetWwwAuthToken tx \<Rightarrow> on_get_www_auth_token w tx d
      | SubmitVoucher tx voucher \<Rightarrow> on_submit_voucher tx voucher d
      | GetAccountHistory tx \<Rightarrow> on_get_account_history tx d
      | ClearAccountHistory tx \<Rightarrow> on_clear_account_history w tx d
      | LoginAccount tx account_number \<Rightarrow> on_login_account tx account_number d
      | LogoutAccount tx \<Rightarrow> on_logout_account tx d
      | GetDevice tx \<Rightarrow> on_get_device tx d
      | UpdateDevice tx \<Rightarrow> on_update_device tx d
      | ListDevices tx account_number \<Rightarrow> on_list_devices tx account_number d
      | RemoveDevice tx account_number device_id \<Rightarrow> on_remove_device tx account_number device_id d
      | RotateWireguardKey tx \<Rightarrow> on_rotate_wireguard_key tx d
      | GetWireguardKey tx \<Rightarrow> on_get_wireguard_key w tx d)"

text \<open>What the tasks answer, from the answers of the account manager and the API.\<close>

definition create_new_account_task ::
  "device_error + private_device_state \<Rightarrow> rest_error + account_number \<Rightarrow> device_error + unit \<Rightarrow> daemon_error + account_number" where
  "create_new_account_task data created login =
     (if (case data of Inr s \<Rightarrow> logged_in s | Inl _ \<Rightarrow> False) then Inl DeAlreadyLoggedIn
      else
        (case created of
           Inl e \<Rightarrow> Inl (DeRestError e)
         | Inr token \<Rightarrow> (case login of Inl e \<Rightarrow> Inl (DeLoginError e) | Inr _ \<Rightarrow> Inr token)))"

definition login_task :: "device_error + unit \<Rightarrow> api_availability \<Rightarrow> (daemon_error + unit) \<times> api_availability" where
  "login_task login a = (case login of Inl e \<Rightarrow> (Inl (DeLoginError e), a) | Inr _ \<Rightarrow> (Inr (), resume_background a))"

definition get_device_task :: "(wg_key \<Rightarrow> wg_key) \<Rightarrow> device_error + private_device_state \<Rightarrow> daemon_error + device_state" where
  "get_device_task public_key data =
     (case data of Inl _ \<Rightarrow> Inl DeNoAccountNumber | Inr s \<Rightarrow> Inr (device_state_from public_key s))"

definition update_device_task :: "device_error + unit \<Rightarrow> daemon_error + unit" where
  "update_device_task validated =
     (case validated of
        Inr _ \<Rightarrow> Inr ()
      | Inl NoDevice \<Rightarrow> Inr ()
      | Inl error \<Rightarrow> Inl (DeUpdateDeviceError error))"

text \<open>
  The task for a device of an old version: whether it is given to the account manager, and the event that is announced if that fails.
\<close>

definition device_migration_task ::
  "device_error + private_device_state \<Rightarrow> device_error + private_account_and_device \<Rightarrow> (private_account_and_device \<Rightarrow> device_error + unit)
   \<Rightarrow> (device_event_cause \<times> device_state) option" where
  "device_migration_task data result account_manager_set =
     (if (case data of Inr s \<Rightarrow> into_device s \<noteq> None | Inl _ \<Rightarrow> False) then None
      else
        (case and_then result account_manager_set of
           Inr _ \<Rightarrow> None
         | Inl InvalidDevice \<Rightarrow> Some (CauseRevoked, DeviceRevoked)
         | Inl _ \<Rightarrow> Some (CauseLoggedOut, DeviceLoggedOut)))"

section \<open>Settings\<close>

text \<open>Most handlers save a setting, answer, and, if it has changed, do something about it.\<close>

definition update_setting ::
  "'b daemon_world \<Rightarrow> sender \<Rightarrow> (user_settings \<Rightarrow> user_settings) \<Rightarrow> ('b daemon \<Rightarrow> 'b daemon) \<Rightarrow> 'b daemon \<Rightarrow> 'b daemon" where
  "update_setting w tx f on_change d =
     (case settings_update w f d of
        (Inr settings_changed, d) \<Rightarrow>
          (let d = oneshot_send tx (ReSettings (Inr ())) d in if settings_changed then on_change d else d)
      | (Inl e, d) \<Rightarrow> oneshot_send tx (ReSettings (Inl e)) d)"

text \<open>Settings of the tunnel state machine are answered when it has applied them.\<close>

definition update_machine_setting ::
  "'b daemon_world \<Rightarrow> sender \<Rightarrow> (user_settings \<Rightarrow> user_settings) \<Rightarrow> (user_settings \<Rightarrow> sender \<Rightarrow> tunnel_command) \<Rightarrow> 'b daemon \<Rightarrow> 'b daemon" where
  "update_machine_setting w tx f command d =
     (case settings_update w f d of
        (Inr settings_changed, d) \<Rightarrow>
          if settings_changed
          then (case oneshot_map tx d of (new_tx, d) \<Rightarrow> send_tunnel_command (command (settings d) new_tx) d)
          else oneshot_send tx (ReSettings (Inr ())) d
      | (Inl e, d) \<Rightarrow> oneshot_send tx (ReSettings (Inl e)) d)"

definition on_set_relay_settings :: "'b daemon_world \<Rightarrow> sender \<Rightarrow> relay_settings \<Rightarrow> 'b daemon \<Rightarrow> 'b daemon" where
  "on_set_relay_settings w tx update d =
     run_update_recents w (clear_update_default_location w (update_setting w tx (set_relay_settings update) reconnect_tunnel d))"

definition on_set_allow_lan :: "'b daemon_world \<Rightarrow> sender \<Rightarrow> bool \<Rightarrow> 'b daemon \<Rightarrow> 'b daemon" where
  "on_set_allow_lan w tx allow_lan d =
     update_machine_setting w tx (\<lambda>s. s\<lparr>us_allow_lan := allow_lan\<rparr>) (\<lambda>_. AllowLan allow_lan) d"

definition on_set_show_beta_releases :: "'b daemon_world \<Rightarrow> sender \<Rightarrow> bool \<Rightarrow> 'b daemon \<Rightarrow> 'b daemon" where
  "on_set_show_beta_releases w tx enabled d =
     update_setting w tx (\<lambda>s. s\<lparr>us_show_beta_releases := enabled\<rparr>) (spawn (TaskSetBetaReleases enabled)) d"

definition on_set_lockdown_mode :: "'b daemon_world \<Rightarrow> sender \<Rightarrow> bool \<Rightarrow> 'b daemon \<Rightarrow> 'b daemon" where
  "on_set_lockdown_mode w tx lockdown_mode d =
     update_machine_setting w tx (\<lambda>s. s\<lparr>us_lockdown_mode := lockdown_mode\<rparr>) (\<lambda>_. LockdownMode (lockdown_from_bool lockdown_mode)) d"

definition on_set_auto_connect :: "'b daemon_world \<Rightarrow> sender \<Rightarrow> bool \<Rightarrow> 'b daemon \<Rightarrow> 'b daemon" where
  "on_set_auto_connect w tx auto_connect d = update_setting w tx (\<lambda>s. s\<lparr>us_auto_connect := auto_connect\<rparr>) id d"

definition on_set_obfuscation_settings :: "'b daemon_world \<Rightarrow> sender \<Rightarrow> obfuscation_settings \<Rightarrow> 'b daemon \<Rightarrow> 'b daemon" where
  "on_set_obfuscation_settings w tx new_settings d =
     (case settings_update w (\<lambda>s. s\<lparr>us_obfuscation_settings := new_settings\<rparr>) d of
        (Inr settings_changed, d) \<Rightarrow>
          oneshot_send tx (ReSettings (Inr ())) (if settings_changed then reconnect_tunnel d else d)
      | (Inl e, d) \<Rightarrow> oneshot_send tx (ReSettings (Inl e)) d)"

definition tunnel_options_update :: "(settings_tunnel_options \<Rightarrow> settings_tunnel_options) \<Rightarrow> user_settings \<Rightarrow> user_settings" where
  "tunnel_options_update f s = s\<lparr>us_tunnel_options := f (us_tunnel_options s)\<rparr>"

definition wireguard_update :: "(wireguard_options \<Rightarrow> wireguard_options) \<Rightarrow> user_settings \<Rightarrow> user_settings" where
  "wireguard_update f s = tunnel_options_update (\<lambda>t. t\<lparr>sto_wireguard := f (sto_wireguard t)\<rparr>) s"

definition on_set_enable_ipv6 :: "'b daemon_world \<Rightarrow> sender \<Rightarrow> bool \<Rightarrow> 'b daemon \<Rightarrow> 'b daemon" where
  "on_set_enable_ipv6 w tx ipv6 d =
     update_setting w tx (tunnel_options_update (\<lambda>t. t\<lparr>sto_generic := (sto_generic t)\<lparr>enable_ipv6 := ipv6\<rparr>\<rparr>)) reconnect_tunnel d"

definition on_set_userspace_wireguard :: "'b daemon_world \<Rightarrow> sender \<Rightarrow> bool \<Rightarrow> 'b daemon \<Rightarrow> 'b daemon" where
  "on_set_userspace_wireguard w tx userspace d =
     update_setting w tx (wireguard_update (\<lambda>o'. o'\<lparr>wo_userspace := userspace\<rparr>)) reconnect_tunnel d"

definition on_set_enable_recents :: "'b daemon_world \<Rightarrow> sender \<Rightarrow> bool \<Rightarrow> 'b daemon \<Rightarrow> 'b daemon" where
  "on_set_enable_recents w tx enable_recents d =
     update_setting w tx (\<lambda>s.
       case us_recents s of
         None \<Rightarrow> if enable_recents then update_recents (s\<lparr>us_recents := Some []\<rparr>) else s
       | Some _ \<Rightarrow> if \<not> enable_recents then s\<lparr>us_recents := None\<rparr> else s) id d"

definition on_set_quantum_resistant_tunnel :: "'b daemon_world \<Rightarrow> sender \<Rightarrow> quantum_resistant_state \<Rightarrow> 'b daemon \<Rightarrow> 'b daemon" where
  "on_set_quantum_resistant_tunnel w tx quantum_resistant d =
     update_setting w tx (wireguard_update (\<lambda>o'. o'\<lparr>wo_quantum_resistant := quantum_resistant\<rparr>)) reconnect_tunnel d"

definition has_custom_relay :: "user_settings \<Rightarrow> bool" where
  "has_custom_relay s = (case us_relay_settings s of CustomTunnelEndpoint _ \<Rightarrow> True | NormalRelays _ \<Rightarrow> False)"

definition on_set_daita_enabled :: "'b daemon_world \<Rightarrow> sender \<Rightarrow> bool \<Rightarrow> 'b daemon \<Rightarrow> 'b daemon" where
  "on_set_daita_enabled w tx v d =
     update_setting w tx (wireguard_update (\<lambda>o'. o'\<lparr>wo_daita := (wo_daita o')\<lparr>ds_enabled := v\<rparr>\<rparr>))
       (\<lambda>d. if has_custom_relay (settings d) then d else reconnect_tunnel d) d"

definition on_set_daita_use_multihop_if_necessary :: "'b daemon_world \<Rightarrow> sender \<Rightarrow> bool \<Rightarrow> 'b daemon \<Rightarrow> 'b daemon" where
  "on_set_daita_use_multihop_if_necessary w tx v d =
     update_setting w tx (wireguard_update (\<lambda>o'. o'\<lparr>wo_daita := (wo_daita o')\<lparr>ds_use_multihop_if_necessary := v\<rparr>\<rparr>))
       (\<lambda>d. if has_custom_relay (settings d) then d
            else if ds_enabled (wo_daita (sto_wireguard (us_tunnel_options (settings d)))) then reconnect_tunnel d else d) d"

definition on_set_daita_settings :: "'b daemon_world \<Rightarrow> sender \<Rightarrow> daita_settings \<Rightarrow> 'b daemon \<Rightarrow> 'b daemon" where
  "on_set_daita_settings w tx daita d =
     update_setting w tx (wireguard_update (\<lambda>o'. o'\<lparr>wo_daita := daita\<rparr>)) reconnect_tunnel d"

definition on_set_dns_options :: "'b daemon_world \<Rightarrow> sender \<Rightarrow> dns_options \<Rightarrow> 'b daemon \<Rightarrow> 'b daemon" where
  "on_set_dns_options w tx dns_options d =
     update_machine_setting w tx (tunnel_options_update (\<lambda>t. t\<lparr>sto_dns_options := dns_options\<rparr>))
       (\<lambda>s. Dns (addresses_from_options (dm_contains w) (sto_dns_options (us_tunnel_options s)))) d"

definition on_set_relay_override :: "'b daemon_world \<Rightarrow> sender \<Rightarrow> relay_override \<Rightarrow> 'b daemon \<Rightarrow> 'b daemon" where
  "on_set_relay_override w tx relay_override d = update_setting w tx (set_relay_override relay_override) reconnect_tunnel d"

definition on_clear_all_relay_overrides :: "'b daemon_world \<Rightarrow> sender \<Rightarrow> 'b daemon \<Rightarrow> 'b daemon" where
  "on_clear_all_relay_overrides w tx d = update_setting w tx (\<lambda>s. s\<lparr>us_relay_overrides := []\<rparr>) reconnect_tunnel d"

definition on_set_wireguard_mtu :: "'b daemon_world \<Rightarrow> sender \<Rightarrow> u16 option \<Rightarrow> 'b daemon \<Rightarrow> 'b daemon" where
  "on_set_wireguard_mtu w tx mtu d = update_setting w tx (wireguard_update (\<lambda>o'. o'\<lparr>wo_mtu := mtu\<rparr>)) reconnect_tunnel d"

definition interval_or_default :: "duration option \<Rightarrow> duration" where
  "interval_or_default interval = (case interval of Some i \<Rightarrow> i | None \<Rightarrow> MAX_ROTATION_INTERVAL)"

definition on_set_wireguard_rotation_interval :: "'b daemon_world \<Rightarrow> sender \<Rightarrow> duration option \<Rightarrow> 'b daemon \<Rightarrow> 'b daemon" where
  "on_set_wireguard_rotation_interval w tx interval d =
     update_setting w tx (wireguard_update (\<lambda>o'. o'\<lparr>wo_rotation_interval := interval\<rparr>))
       (fx (FxSetRotationInterval (interval_or_default interval))) d"

definition on_set_wireguard_allowed_ips :: "'b daemon_world \<Rightarrow> sender \<Rightarrow> allowed_ips constraint \<Rightarrow> 'b daemon \<Rightarrow> 'b daemon" where
  "on_set_wireguard_allowed_ips w tx allowed_ips d =
     update_setting w tx (\<lambda>s.
       case us_relay_settings s of
         NormalRelays c \<Rightarrow>
           s\<lparr>us_relay_settings := NormalRelays (c\<lparr>rc_wireguard_constraints := (rc_wireguard_constraints c)\<lparr>wc_allowed_ips := allowed_ips\<rparr>\<rparr>)\<rparr>
       | CustomTunnelEndpoint _ \<Rightarrow> s) reconnect_tunnel d"

definition on_reset_settings :: "'b daemon_world \<Rightarrow> sender \<Rightarrow> 'b daemon \<Rightarrow> 'b daemon" where
  "on_reset_settings w tx d =
     (case settings_reset w d of
        (result, d) \<Rightarrow>
          let d = oneshot_send tx (ReSettings result) d;
              d = send_unwatched (LockdownMode (lockdown_from_bool (us_lockdown_mode (settings d)))) d;
              d = send_unwatched (AllowLan (us_allow_lan (settings d))) d;
              d = send_unwatched (Dns (addresses_from_options (dm_contains w) (sto_dns_options (us_tunnel_options (settings d))))) d;
              d = spawn (TaskSetBetaReleases (us_show_beta_releases (settings d))) d;
              d = spawn TaskRotateMethod d;
              d = spawn (TaskSetRotationInterval (interval_or_default (wo_rotation_interval (sto_wireguard (us_tunnel_options (settings d)))))) d
          in reconnect_tunnel d)"

definition on_apply_json_settings :: "'b daemon_world \<Rightarrow> sender \<Rightarrow> string \<Rightarrow> 'b daemon \<Rightarrow> 'b daemon" where
  "on_apply_json_settings w tx blob d =
     (case merge_validate_patch_inner (dm_to_json w) (dm_from_json w) (dm_parse w) (settings d) blob of
        Inl e \<Rightarrow> oneshot_send tx (RePatch (Inl (Inl e))) d
      | Inr new_settings \<Rightarrow>
          (case settings_update w (\<lambda>_. new_settings) d of
             (Inl e, d) \<Rightarrow> oneshot_send tx (RePatch (Inl (Inr e))) d
           | (Inr _, d) \<Rightarrow> oneshot_send tx (RePatch (Inr ())) (reconnect_tunnel d)))"

definition on_export_json_settings :: "'b daemon_world \<Rightarrow> sender \<Rightarrow> 'b daemon \<Rightarrow> 'b daemon" where
  "on_export_json_settings w tx d =
     oneshot_send tx (ReExport (export_settings_inner (map (dm_override_json w) (us_relay_overrides (settings d))))) d"

abbreviation relay_selector_of :: "'b daemon \<Rightarrow> relay_selector" where
  "relay_selector_of d \<equiv> pg_relay_selector (d_generator d)"

definition default_country :: "'b daemon_world \<Rightarrow> 'b daemon \<Rightarrow> string option" where
  "default_country w d =
     (if us_update_default_location (settings d) then
        Option.bind (ts_get_location (d_tunnel_state d)) (\<lambda>location.
          let relays = arl_inner (rs_relays (relay_selector_of d)) in
          case lookup_country_code_by_name relays (gl_country location) of
            Some code \<Rightarrow> Some code
          | None \<Rightarrow> get_nearest_country_with_relay (dm_haversine w) (gl_latitude location) (gl_longitude location) relays)
      else None)"

definition country_relay_settings :: "string \<Rightarrow> relay_settings" where
  "country_relay_settings country_code =
     NormalRelays \<lparr>rc_location = Only (Location (Country country_code)), rc_providers = Any, rc_ownership = Any,
       rc_wireguard_constraints = \<lparr>wc_ip_version = Any, wc_allowed_ips = Any, wc_use_multihop = False,
         wc_entry_location = Only (Location (Country country_code)), wc_entry_providers = Any, wc_entry_ownership = Any\<rparr>\<rparr>"

definition on_update_default_location :: "'b daemon_world \<Rightarrow> sender \<Rightarrow> 'b daemon \<Rightarrow> 'b daemon" where
  "on_update_default_location w tx d =
     (case default_country w d of
        Some country_code \<Rightarrow> on_set_relay_settings w tx (country_relay_settings country_code) d
      | None \<Rightarrow> oneshot_send tx (ReSettings (Inr ())) d)"

definition on_get_settings :: "sender \<Rightarrow> 'b daemon \<Rightarrow> 'b daemon" where
  "on_get_settings tx d = oneshot_send tx (ReSettingsValue (settings d)) d"

definition handle_settings_command :: "'b daemon_world \<Rightarrow> settings_command \<Rightarrow> 'b daemon \<Rightarrow> 'b daemon" where
  "handle_settings_command w command d =
     (case command of
        SetRelaySettings tx update \<Rightarrow> on_set_relay_settings w tx update d
      | SetAllowLan tx allow_lan \<Rightarrow> on_set_allow_lan w tx allow_lan d
      | SetShowBetaReleases tx enabled \<Rightarrow> on_set_show_beta_releases w tx enabled d
      | SetLockdownMode tx lockdown_mode \<Rightarrow> on_set_lockdown_mode w tx lockdown_mode d
      | SetAutoConnect tx auto_connect \<Rightarrow> on_set_auto_connect w tx auto_connect d
      | SetEnableIpv6 tx ipv6 \<Rightarrow> on_set_enable_ipv6 w tx ipv6 d
      | SetUserspaceWireguard tx userspace \<Rightarrow> on_set_userspace_wireguard w tx userspace d
      | SetEnableRecents tx enable_recents \<Rightarrow> on_set_enable_recents w tx enable_recents d
      | SetQuantumResistantTunnel tx quantum_resistant \<Rightarrow> on_set_quantum_resistant_tunnel w tx quantum_resistant d
      | SetEnableDaita tx v \<Rightarrow> on_set_daita_enabled w tx v d
      | SetDaitaUseMultihopIfNecessary tx v \<Rightarrow> on_set_daita_use_multihop_if_necessary w tx v d
      | SetDaitaSettings tx daita \<Rightarrow> on_set_daita_settings w tx daita d
      | SetDnsOptions tx dns_options \<Rightarrow> on_set_dns_options w tx dns_options d
      | SetRelayOverride tx relay_override \<Rightarrow> on_set_relay_override w tx relay_override d
      | ClearAllRelayOverrides tx \<Rightarrow> on_clear_all_relay_overrides w tx d
      | SetWireguardMtu tx mtu \<Rightarrow> on_set_wireguard_mtu w tx mtu d
      | SetWireguardAllowedIps tx allowed_ips \<Rightarrow> on_set_wireguard_allowed_ips w tx allowed_ips d
      | SetWireguardRotationInterval tx interval \<Rightarrow> on_set_wireguard_rotation_interval w tx interval d
      | SetObfuscationSettings tx new_settings \<Rightarrow> on_set_obfuscation_settings w tx new_settings d
      | GetSettings tx \<Rightarrow> on_get_settings tx d
      | ResetSettings tx \<Rightarrow> on_reset_settings w tx d
      | ApplyJsonSettings tx blob \<Rightarrow> on_apply_json_settings w tx blob d
      | ExportJsonSettings tx \<Rightarrow> on_export_json_settings w tx d
      | UpdateDefaultLocationCountry tx \<Rightarrow> on_update_default_location w tx d)"

section \<open>Relays and custom lists\<close>

definition update_relay_selector :: "(relay_selector \<Rightarrow> relay_selector) \<Rightarrow> 'b daemon \<Rightarrow> 'b daemon" where
  "update_relay_selector f d = d\<lparr>d_generator := (d_generator d)\<lparr>pg_relay_selector := f (relay_selector_of d)\<rparr>\<rparr>"

definition create_custom_list ::
  "'b daemon_world \<Rightarrow> string \<Rightarrow> geographic_location_constraint list \<Rightarrow> 'b daemon \<Rightarrow> (daemon_error + u128) \<times> 'b daemon" where
  "create_custom_list w name locations d =
     (case custom_list_new (dm_uuid w (d_calls d)) name of
        Inl e \<Rightarrow> (Inl (DeCustomListError e), called d)
      | Inr new_list \<Rightarrow>
          (let new_list = new_list\<lparr>cl_locations := locations\<rparr> in
           case settings_try_update w (\<lambda>s.
             case custom_lists_add (us_custom_lists s) new_list of
               Inl e \<Rightarrow> Inl (custom_list_error_text e) | Inr ls \<Rightarrow> Inr (s\<lparr>us_custom_lists := ls\<rparr>)) (called d) of
             (Inl e, d) \<Rightarrow> (Inl (DeSettingsError e), d)
           | (Inr _, d) \<Rightarrow> (Inr (cl_id new_list), d)))"

definition selects_list :: "u128 option \<Rightarrow> location_constraint constraint \<Rightarrow> bool" where
  "selects_list custom_list_id location =
     (case location of
        Only (CustomListId list_id) \<Rightarrow> (case custom_list_id of Some i \<Rightarrow> i = list_id | None \<Rightarrow> True)
      | _ \<Rightarrow> False)"

definition change_should_cause_reconnect :: "u128 option \<Rightarrow> 'b daemon \<Rightarrow> bool" where
  "change_should_cause_reconnect custom_list_id d =
     (case us_relay_settings (settings d) of
        CustomTunnelEndpoint _ \<Rightarrow> False
      | NormalRelays relay_settings \<Rightarrow>
          (let wg = rc_wireguard_constraints relay_settings in
           selects_list custom_list_id (rc_location relay_settings) \<or>
           (ts_endpoint (d_tunnel_state d) \<noteq> None \<and> wc_use_multihop wg \<and> selects_list custom_list_id (wc_entry_location wg))))"

definition update_custom_lists ::
  "'b daemon_world \<Rightarrow> sender \<Rightarrow> u128 option \<Rightarrow> (custom_lists_settings \<Rightarrow> custom_list_error + custom_lists_settings) \<Rightarrow> 'b daemon \<Rightarrow> 'b daemon" where
  "update_custom_lists w tx custom_list_id f d =
     (case settings_try_update w (\<lambda>s.
        case f (us_custom_lists s) of Inl e \<Rightarrow> Inl (custom_list_error_text e) | Inr ls \<Rightarrow> Inr (s\<lparr>us_custom_lists := ls\<rparr>)) d of
        (settings_changed, d) \<Rightarrow>
          let d = (if settings_changed = Inr True then
                     (let d = update_relay_selector (set_custom_lists (us_custom_lists (settings d))) d
                      in if change_should_cause_reconnect custom_list_id d then reconnect_tunnel d else d)
                   else d)
          in oneshot_send tx (ReDaemon (case settings_changed of Inl e \<Rightarrow> Inl (DeSettingsError e) | Inr _ \<Rightarrow> Inr ())) d)"

definition on_delete_custom_list :: "'b daemon_world \<Rightarrow> sender \<Rightarrow> u128 \<Rightarrow> 'b daemon \<Rightarrow> 'b daemon" where
  "on_delete_custom_list w tx i d = update_custom_lists w tx (Some i) (\<lambda>ls. custom_lists_remove ls i) d"

definition on_update_custom_list :: "'b daemon_world \<Rightarrow> sender \<Rightarrow> custom_list \<Rightarrow> 'b daemon \<Rightarrow> 'b daemon" where
  "on_update_custom_list w tx new_list d = update_custom_lists w tx (Some (cl_id new_list)) (\<lambda>ls. custom_lists_update ls new_list) d"

definition on_clear_custom_lists :: "'b daemon_world \<Rightarrow> sender \<Rightarrow> 'b daemon \<Rightarrow> 'b daemon" where
  "on_clear_custom_lists w tx d = update_custom_lists w tx None (\<lambda>ls. Inr (custom_lists_clear ls)) d"

definition toggle_city :: "string \<Rightarrow> bool \<Rightarrow> bool \<Rightarrow> relay_list_city \<Rightarrow> relay_list_city" where
  "toggle_city relay matching_country active' city =
     city\<lparr>rlc_relays := map (\<lambda>r. if hostname r = relay \<or> rlc_name city = relay \<or> matching_country
       then r\<lparr>active := active'\<rparr> else r) (rlc_relays city)\<rparr>"

definition toggle_relay :: "string \<Rightarrow> bool \<Rightarrow> relay_list \<Rightarrow> relay_list" where
  "toggle_relay relay active' l =
     l\<lparr>rl_countries := map (\<lambda>country.
       country\<lparr>rlo_cities := map (toggle_city relay (rlo_name country = relay) active') (rlo_cities country)\<rparr>) (rl_countries l)\<rparr>"

definition on_toggle_relay :: "string \<Rightarrow> bool \<Rightarrow> sender \<Rightarrow> 'b daemon \<Rightarrow> 'b daemon" where
  "on_toggle_relay relay active' tx d =
     (let relays = toggle_relay relay active' (arl_inner (rs_relays (relay_selector_of d))) in
      case set_relays relays (relay_selector_of d) of
        Inl _ \<Rightarrow> d\<lparr>d_panicked := True\<rparr>
      | Inr selector \<Rightarrow>
          oneshot_send tx ReUnit (reconnect_tunnel (notify_interface (NotifyRelayList relays) (update_relay_selector (\<lambda>_. selector) d))))"

definition on_get_relay_locations :: "sender \<Rightarrow> 'b daemon \<Rightarrow> 'b daemon" where
  "on_get_relay_locations tx d = oneshot_send tx (ReRelays (arl_inner (rs_relays (relay_selector_of d)))) d"

definition on_update_relay_locations :: "'b daemon \<Rightarrow> 'b daemon" where
  "on_update_relay_locations d = fx FxUpdateRelayList d"

definition on_get_bridges :: "sender \<Rightarrow> 'b daemon \<Rightarrow> 'b daemon" where
  "on_get_bridges tx d = oneshot_send tx (ReBridges (rs_bridges (relay_selector_of d))) d"

definition on_create_custom_list :: "'b daemon_world \<Rightarrow> sender \<Rightarrow> string \<Rightarrow> geographic_location_constraint list \<Rightarrow> 'b daemon \<Rightarrow> 'b daemon" where
  "on_create_custom_list w tx name locations d =
     (case create_custom_list w name locations d of (result, d) \<Rightarrow> oneshot_send tx (ReId result) d)"

definition handle_relay_command :: "'b daemon_world \<Rightarrow> relay_command \<Rightarrow> 'b daemon \<Rightarrow> 'b daemon" where
  "handle_relay_command w command d =
     (case command of
        GetRelayLocations tx \<Rightarrow> on_get_relay_locations tx d
      | UpdateRelayLocations \<Rightarrow> on_update_relay_locations d
      | GetBridges tx \<Rightarrow> on_get_bridges tx d
      | CreateCustomList tx name locations \<Rightarrow> on_create_custom_list w tx name locations d
      | DeleteCustomList tx i \<Rightarrow> on_delete_custom_list w tx i d
      | UpdateCustomList tx new_list \<Rightarrow> on_update_custom_list w tx new_list d
      | ClearCustomLists tx \<Rightarrow> on_clear_custom_lists w tx d
      | DisableRelay relay tx \<Rightarrow> on_toggle_relay relay False tx d
      | EnableRelay relay tx \<Rightarrow> on_toggle_relay relay True tx d)"

section \<open>Access methods and excluded processes\<close>

definition update_access_settings ::
  "'b daemon_world \<Rightarrow> (access_method_error \<Rightarrow> string) \<Rightarrow> (access_settings \<Rightarrow> access_method_error + access_settings) \<Rightarrow> 'b daemon
   \<Rightarrow> (settings_error + bool) \<times> 'b daemon" where
  "update_access_settings w describe f d =
     settings_try_update w (\<lambda>s.
       case f (us_api_access_methods s) of Inl e \<Rightarrow> Inl (describe e) | Inr m \<Rightarrow> Inr (s\<lparr>us_api_access_methods := m\<rparr>)) d"

definition on_add_access_method :: "'b daemon_world \<Rightarrow> sender \<Rightarrow> string \<Rightarrow> bool \<Rightarrow> access_method \<Rightarrow> 'b daemon \<Rightarrow> 'b daemon" where
  "on_add_access_method w tx name enabled method d =
     (let i = dm_uuid w (d_calls d) in
      case update_access_settings w access_method_error_text (add_access_method i name enabled method) (called d) of
        (Inl e, d) \<Rightarrow> oneshot_send tx (ReId (Inl (DeSettingsError e))) d
      | (Inr _, d) \<Rightarrow> oneshot_send tx (ReId (Inr i)) d)"

definition access_result :: "settings_error + bool \<Rightarrow> daemon_error + unit" where
  "access_result r = (case r of Inl e \<Rightarrow> Inl (DeAccessMethodError (AmSettings e)) | Inr _ \<Rightarrow> Inr ())"

definition on_remove_api_access_method :: "'b daemon_world \<Rightarrow> sender \<Rightarrow> u128 \<Rightarrow> 'b daemon \<Rightarrow> 'b daemon" where
  "on_remove_api_access_method w tx i d =
     (case update_access_settings w (\<lambda>_. ''Access method error'') (remove_access_method i) d of
        (r, d) \<Rightarrow> oneshot_send tx (ReDaemon (access_result r)) d)"

definition on_set_api_access_method :: "'b daemon_world \<Rightarrow> sender \<Rightarrow> u128 \<Rightarrow> 'b daemon \<Rightarrow> 'b daemon" where
  "on_set_api_access_method w tx i d =
     (case update_access_settings w (\<lambda>_. ''Access method error'') (use_api_access_method i) d of
        (Inl e, d) \<Rightarrow> oneshot_send tx (ReDaemon (access_result (Inl e))) d
      | (Inr _, d) \<Rightarrow>
          oneshot_send tx (ReDaemon
            (case dm_use_method w (d_calls d) of
               Inl e \<Rightarrow> Inl (DeAccessMethodError (AmApiService e)) | Inr _ \<Rightarrow> Inr ())) (called d))"

definition on_update_api_access_method :: "'b daemon_world \<Rightarrow> sender \<Rightarrow> access_method_setting \<Rightarrow> 'b daemon \<Rightarrow> 'b daemon" where
  "on_update_api_access_method w tx method d =
     (case update_access_settings w access_method_error_text (update_access_method method) d of
        (r, d) \<Rightarrow> oneshot_send tx (ReDaemon (case r of Inl e \<Rightarrow> Inl (DeSettingsError e) | Inr _ \<Rightarrow> Inr ())) d)"

definition on_clear_custom_api_access_methods :: "'b daemon_world \<Rightarrow> sender \<Rightarrow> 'b daemon \<Rightarrow> 'b daemon" where
  "on_clear_custom_api_access_methods w tx d =
     (case update_access_settings w access_method_error_text (\<lambda>m. Inr (clear_custom_api_access_methods m)) d of
        (r, d) \<Rightarrow> oneshot_send tx (ReDaemon (access_result r)) d)"

definition on_test_proxy_as_access_method :: "sender \<Rightarrow> custom_proxy \<Rightarrow> 'b daemon \<Rightarrow> 'b daemon" where
  "on_test_proxy_as_access_method tx proxy d =
     spawn (TaskTestMethod tx
       \<lparr>ae_endpoint = fst (get_remote_endpoint proxy), ae_clients = mode_allowed_clients (ApiProxied (proxy_config_from_custom proxy))\<rparr>) d"

definition on_test_api_access_method :: "'b daemon_world \<Rightarrow> sender \<Rightarrow> u128 \<Rightarrow> 'b daemon \<Rightarrow> 'b daemon" where
  "on_test_api_access_method w tx i d =
     (case get_api_access_method i (us_api_access_methods (settings d)) of
        Inl i \<Rightarrow> oneshot_send tx (ReTest (Inl (DeAccessMethodError (AmNoSuchMethod i)))) d
      | Inr access_method \<Rightarrow>
          (case dm_resolve w (d_calls d) of
             Inr (Some test_subject) \<Rightarrow> spawn (TaskTestMethod tx (rcm_endpoint test_subject)) (called d)
           | Inr None \<Rightarrow>
               oneshot_send tx (ReTest (Inl (DeApiConnectionModeError (ResolveError (ams_access_method access_method))))) (called d)
           | Inl e \<Rightarrow> oneshot_send tx (ReTest (Inl (DeApiConnectionModeError e))) (called d)))"

text \<open>
  The task that tests a method: it opens the firewall for the endpoint, makes a request, and opens it for the endpoint of the current method again.
  The events it sends to the daemon and its answer.
\<close>

definition test_access_method ::
  "mode_error + allowed_endpoint \<Rightarrow> allowed_endpoint \<Rightarrow> mode_error + unit \<Rightarrow> rest_error + bool \<Rightarrow> mode_error + unit
   \<Rightarrow> access_method_event list \<times> (daemon_error + bool)" where
  "test_access_method current proxy allowed request restored =
     (case current of
        Inl e \<Rightarrow> ([], Inl (DeAccessMethodError (AmApiService e)))
      | Inr reset \<Rightarrow>
          (case allowed of
             Inl e \<Rightarrow> ([AmAllow proxy], Inl (DeAccessMethodError (AmApiService e)))
           | Inr _ \<Rightarrow>
               ([AmAllow proxy, AmAllow reset],
                case restored of
                  Inl e \<Rightarrow> Inl (DeAccessMethodError (AmApiService e))
                | Inr _ \<Rightarrow> (case request of Inl e \<Rightarrow> Inl (DeAccessMethodError (AmRest e)) | Inr b \<Rightarrow> Inr b))))"

definition on_get_current_api_access_method :: "sender \<Rightarrow> 'b daemon \<Rightarrow> 'b daemon" where
  "on_get_current_api_access_method tx d = spawn (TaskCurrentMethod tx) d"

definition handle_api_command :: "'b daemon_world \<Rightarrow> api_command \<Rightarrow> 'b daemon \<Rightarrow> 'b daemon" where
  "handle_api_command w command d =
     (case command of
        AddApiAccessMethod tx name enabled method \<Rightarrow> on_add_access_method w tx name enabled method d
      | RemoveApiAccessMethod tx i \<Rightarrow> on_remove_api_access_method w tx i d
      | SetApiAccessMethod tx i \<Rightarrow> on_set_api_access_method w tx i d
      | UpdateApiAccessMethod tx method \<Rightarrow> on_update_api_access_method w tx method d
      | ClearCustomApiAccessMethods tx \<Rightarrow> on_clear_custom_api_access_methods w tx d
      | GetCurrentAccessMethod tx \<Rightarrow> on_get_current_api_access_method tx d
      | TestApiAccessMethodById tx i \<Rightarrow> on_test_api_access_method w tx i d
      | TestCustomApiAccessMethod tx proxy \<Rightarrow> on_test_proxy_as_access_method tx proxy d)"

text \<open>The manager of excluded processes is called, with its answers given by the world.\<close>

definition on_split_tunnel_is_supported :: "'b daemon_world \<Rightarrow> sender \<Rightarrow> 'b daemon \<Rightarrow> 'b daemon" where
  "on_split_tunnel_is_supported w tx d = oneshot_send tx (ReBool (dm_pids_supported w (d_calls d))) (called (fx (FxPids (SplitTunnelIsSupported tx)) d))"

definition on_get_split_tunnel_processes :: "'b daemon_world \<Rightarrow> sender \<Rightarrow> 'b daemon \<Rightarrow> 'b daemon" where
  "on_get_split_tunnel_processes w tx d = oneshot_send tx (ReProcesses (dm_pids_list w (d_calls d))) (called (fx (FxPids (GetSplitTunnelProcesses tx)) d))"

definition on_add_split_tunnel_process :: "'b daemon_world \<Rightarrow> sender \<Rightarrow> int \<Rightarrow> 'b daemon \<Rightarrow> 'b daemon" where
  "on_add_split_tunnel_process w tx pid d = oneshot_send tx (ReProcess (dm_pids w (d_calls d))) (called (fx (FxPids (AddSplitTunnelProcess tx pid)) d))"

definition on_remove_split_tunnel_process :: "'b daemon_world \<Rightarrow> sender \<Rightarrow> int \<Rightarrow> 'b daemon \<Rightarrow> 'b daemon" where
  "on_remove_split_tunnel_process w tx pid d = oneshot_send tx (ReProcess (dm_pids w (d_calls d))) (called (fx (FxPids (RemoveSplitTunnelProcess tx pid)) d))"

definition on_clear_split_tunnel_processes :: "'b daemon_world \<Rightarrow> sender \<Rightarrow> 'b daemon \<Rightarrow> 'b daemon" where
  "on_clear_split_tunnel_processes w tx d = oneshot_send tx (ReProcess (dm_pids w (d_calls d))) (called (fx (FxPids (ClearSplitTunnelProcesses tx)) d))"

definition handle_process_command :: "'b daemon_world \<Rightarrow> process_command \<Rightarrow> 'b daemon \<Rightarrow> 'b daemon" where
  "handle_process_command w command d =
     (case command of
        SplitTunnelIsSupported tx \<Rightarrow> on_split_tunnel_is_supported w tx d
      | GetSplitTunnelProcesses tx \<Rightarrow> on_get_split_tunnel_processes w tx d
      | AddSplitTunnelProcess tx pid \<Rightarrow> on_add_split_tunnel_process w tx pid d
      | RemoveSplitTunnelProcess tx pid \<Rightarrow> on_remove_split_tunnel_process w tx pid d
      | ClearSplitTunnelProcesses tx \<Rightarrow> on_clear_split_tunnel_processes w tx d)"

section \<open>Starting\<close>

text \<open>
  What the daemon finds when it starts: the settings as loaded, the account of the device, the account history and target state files, whether there is a device to migrate,
  the relay selector for the settings, and the endpoint of the current access method.
\<close>

record 'b daemon_input =
  di_settings :: "'b settings_persister"
  di_account :: "account_number option"
  di_history :: "string option"
  di_target_file :: "string file_read"
  di_target_parse :: "string \<Rightarrow> target_state option"
  di_migrated :: bool
  di_relay_selector :: relay_selector
  di_endpoint :: allowed_endpoint

definition initial_tunnel_settings :: "'b daemon_world \<Rightarrow> user_settings \<Rightarrow> allowed_endpoint \<Rightarrow> target_state \<Rightarrow> initial_tunnel_state" where
  "initial_tunnel_settings w s endpoint target_state =
     \<lparr>is_allow_lan = us_allow_lan s, is_lockdown_mode = lockdown_from_bool (us_lockdown_mode s),
      is_dns_config = addresses_from_options (dm_contains w) (sto_dns_options (us_tunnel_options s)),
      is_allowed_endpoint = endpoint, is_reset_firewall = (target_state \<noteq> Secured)\<rparr>"

definition initial_target_state :: "'b daemon_world \<Rightarrow> 'b daemon_input \<Rightarrow> persistent_target_state" where
  "initial_target_state w i =
     (if us_auto_connect (sp_settings (di_settings i)) then pts_new_secured (dm_target_write w 0) (di_target_file i)
      else pts_new (di_target_parse i) (dm_target_write w 0) (di_target_file i))"

definition daemon_new :: "'b daemon_world \<Rightarrow> 'b daemon_input \<Rightarrow> 'b daemon" where
  "daemon_new w i =
     (let s = sp_settings (di_settings i) in
      \<lparr>d_tunnel_state = TsDisconnected None (us_lockdown_mode s), d_target_state = initial_target_state w i, d_pending = [],
       d_reconnection_job = None, d_migration_complete = di_migrated i, d_settings = di_settings i,
       d_account_history = account_history_new (dm_history w 0) (di_history i) (di_account i), d_device_checker = change_handler_new,
       d_availability = inner_unsuspend (inner_suspend (availability_new api_state_default)),
       d_generator = generator_new (di_relay_selector i) (us_relay_settings s) (us_tunnel_options s),
       d_options_queue = [], d_settings_tasks = [], d_shutdown_tasks = [], d_request_id = 0, d_log = [], d_calls = 1, d_next_sender = 0,
       d_panicked = False\<rparr>)"

text \<open>The tunnel state machine gets its settings before the rollout seed is saved. If that fails the daemon does not start.\<close>

definition daemon_start :: "'b daemon_world \<Rightarrow> 'b daemon_input \<Rightarrow> daemon_error + (initial_tunnel_state \<times> 'b daemon)" where
  "daemon_start w i =
     (let d = daemon_new w i;
          tunnel_settings = initial_tunnel_settings w (settings d) (di_endpoint i) (target d) in
      case settings_update w (\<lambda>s.
             case us_rollout_threshold_seed s of None \<Rightarrow> s\<lparr>us_rollout_threshold_seed := Some (dm_seed w 0)\<rparr> | Some _ \<Rightarrow> s) d of
        (Inl e, _) \<Rightarrow> Inl (DeSettingsError e)
      | (Inr _, d) \<Rightarrow> Inr (tunnel_settings, d))"

section \<open>The event loop\<close>

definition handle_daemon_command :: "'b daemon_world \<Rightarrow> daemon_command \<Rightarrow> 'b daemon \<Rightarrow> 'b daemon" where
  "handle_daemon_command w command d =
     (let d = (if is_disconnected (d_tunnel_state d) then d\<lparr>d_availability := reset_inactivity_timer (d_availability d)\<rparr> else d) in
      case command of
        CmdState c \<Rightarrow> handle_state_command w c d
      | CmdAccount c \<Rightarrow> handle_account_command w c d
      | CmdSettings c \<Rightarrow> handle_settings_command w c d
      | CmdRelay c \<Rightarrow> handle_relay_command w c d
      | CmdApi c \<Rightarrow> handle_api_command w c d
      | CmdProcess c \<Rightarrow> handle_process_command w c d)"

text \<open>The result says whether the loop stops.\<close>

definition handle_internal_event :: "'b daemon_world \<Rightarrow> internal_event \<Rightarrow> 'b daemon \<Rightarrow> bool \<times> 'b daemon" where
  "handle_internal_event w event d =
     (case event of
        DvTunnelStateTransition t \<Rightarrow> (False, handle_tunnel_state_transition t d)
      | DvCommand command \<Rightarrow> (False, handle_daemon_command w command d)
      | DvTriggerShutdown user_init_shutdown \<Rightarrow> (True, on_trigger_shutdown user_init_shutdown d)
      | DvNewAppVersionInfo info \<Rightarrow> (False, notify_interface (NotifyAppVersion info) d)
      | DvDevice event \<Rightarrow> (False, handle_device_event w event d)
      | DvAccessMethod event tx \<Rightarrow> (False, handle_access_method_event event tx d)
      | DvDeviceMigration result \<Rightarrow> (False, spawn (TaskMigrateDevice result) d)
      | DvLocation request_id location \<Rightarrow> (False, handle_location_event request_id location d)
      | DvSettingsChanged \<Rightarrow> (False, update_feature_indicators_on_settings_changed d)
      | DvLeakDetected leak \<Rightarrow> (False, notify_interface (NotifyLeak leak) d))"

definition handle_initial_target_state :: "'b daemon \<Rightarrow> 'b daemon" where
  "handle_initial_target_state d =
     (case target d of Secured \<Rightarrow> send_tunnel_command Connect d | Unsecured \<Rightarrow> fetch_am_i_mullvad d)"

fun handle_events :: "'b daemon_world \<Rightarrow> internal_event list \<Rightarrow> 'b daemon \<Rightarrow> 'b daemon" where
  "handle_events w [] d = d"
| "handle_events w (event # rx) d =
     (case handle_internal_event w event d of (should_stop, d) \<Rightarrow> if should_stop then d else handle_events w rx d)"

text \<open>
  After the loop the daemon disconnects and only looks at transitions until the tunnel is disconnected.
\<close>

fun wait_disconnected :: "internal_event list \<Rightarrow> 'b daemon \<Rightarrow> 'b daemon" where
  "wait_disconnected [] d = d"
| "wait_disconnected (event # rx) d =
     (let d = (case event of DvTunnelStateTransition t \<Rightarrow> handle_tunnel_state_transition t d | _ \<Rightarrow> d)
      in if is_disconnected (d_tunnel_state d) then d else wait_disconnected rx d)"

definition disconnect_tunnel_and_wait :: "internal_event list \<Rightarrow> 'b daemon \<Rightarrow> 'b daemon" where
  "disconnect_tunnel_and_wait rx d =
     (if is_disconnected (d_tunnel_state d) then d else wait_disconnected rx (disconnect_tunnel d))"

text \<open>
  Finalizing answers the requests for a factory reset and removes the file of the target state unless it is locked; \<open>cleared\<close> and \<open>removed\<close> are whether
  the directories could be cleared and the file removed.
\<close>

definition daemon_finalize :: "bool \<Rightarrow> bool \<Rightarrow> 'b daemon \<Rightarrow> 'b daemon" where
  "daemon_finalize cleared removed d =
     (let d = fold (\<lambda>(tx, last_error). oneshot_send tx (ReDaemon (factory_reset_task cleared last_error))) (d_shutdown_tasks d) d
      in d\<lparr>d_target_state := pts_finalize removed (d_target_state d)\<rparr>)"

text \<open>
  One step of the daemon: an event from outside, an event it has sent to itself, a task of a settings listener, a tunnel being generated with the parameters
  of the generator (which notes the relays), new relays from the relay list updater, the end of a device migration, or the API availability changing by itself.
  Events of its own may be overtaken by each other.
\<close>

inductive daemon_step :: "'b daemon_world \<Rightarrow> 'b daemon \<Rightarrow> 'b daemon \<Rightarrow> bool" for w where
  external: "handle_internal_event w event d = (False, d') \<Longrightarrow> daemon_step w d d'"
| own: "i < length (d_pending d) \<Longrightarrow>
    handle_internal_event w (d_pending d ! i) (d\<lparr>d_pending := take i (d_pending d) @ drop (Suc i) (d_pending d)\<rparr>) = (False, d') \<Longrightarrow>
    daemon_step w d d'"
| options: "daemon_step w d (deliver_options d)"
| settings_task: "daemon_step w d (run_settings_task i d)"
| generated: "daemon_step w d (d\<lparr>d_generator := (d_generator d)\<lparr>pg_last_generated_relays := relays\<rparr>\<rparr>)"
| relays: "daemon_step w d (update_relay_selector (\<lambda>s. s\<lparr>rs_relays := relay_list, rs_bridges := bridges\<rparr>) d)"
| migrated: "daemon_step w d (d\<lparr>d_migration_complete := True\<rparr>)"
| availability: "op \<in> {AvPauseBackground, AvResumeBackground, AvSuspend, AvUnsuspend} \<union> range AvSetOffline \<union> range AvTimerFires \<Longrightarrow>
    daemon_step w d (d\<lparr>d_availability := av_step op (d_availability d)\<rparr>)"

lemmas simple_handlers = on_get_state_def on_is_performing_post_upgrade_def on_get_current_version_def on_get_version_info_def on_app_upgrade_def
  on_app_upgrade_abort_def on_get_app_upgrade_cache_dir_def on_create_new_account_def on_get_account_data_def on_submit_voucher_def on_login_account_def
  on_logout_account_def on_get_device_def on_update_device_def on_list_devices_def on_remove_device_def on_rotate_wireguard_key_def
  on_get_account_history_def on_get_settings_def on_get_relay_locations_def on_update_relay_locations_def on_get_bridges_def
  on_create_custom_list_def on_get_current_api_access_method_def on_split_tunnel_is_supported_def on_get_split_tunnel_processes_def
  on_add_split_tunnel_process_def on_remove_split_tunnel_process_def on_clear_split_tunnel_processes_def

end
