(* ===== verification/Daemon_Invariants.thy ===== *)
theory Daemon_Invariants
  imports Daemon_Handlers
begin

text \<open>
  Invariants of the daemon. A handler is put together from a few operations: answering, spawning tasks, sending events and commands,
  saving settings. The locale \<open>daemon_invariant\<close> says what an invariant needs of these; inside it, every handler and
  every step of the daemon keeps the invariant. The invariants themselves are instances of it.
\<close>

section \<open>What changes settings of the tunnel state machine\<close>

text \<open>The settings that the tunnel state machine has a copy of.\<close>

definition machine_settings :: "user_settings \<Rightarrow> bool \<times> bool \<times> dns_options" where
  "machine_settings s = (us_allow_lan s, us_lockdown_mode s, sto_dns_options (us_tunnel_options s))"

definition keeps_machine_settings :: "(user_settings \<Rightarrow> string + user_settings) \<Rightarrow> bool" where
  "keeps_machine_settings f = (\<forall>s s'. f s = Inr s' \<longrightarrow> machine_settings s' = machine_settings s)"

named_theorems keeps_settings \<open>updates that leave the settings of the tunnel state machine alone\<close>

lemma keeps_machine_settingsI [intro]:
  "(\<And>s s'. f s = Inr s' \<Longrightarrow> machine_settings s' = machine_settings s) \<Longrightarrow> keeps_machine_settings f"
  by (simp add: keeps_machine_settings_def)

lemma keeps_pure [keeps_settings]:
  "(\<And>s. machine_settings (f s) = machine_settings s) \<Longrightarrow> keeps_machine_settings (\<lambda>s. Inr (f s))"
  by (simp add: keeps_machine_settings_def)

lemma machine_settings_frame [simp]:
  "machine_settings (s\<lparr>us_relay_settings := r\<rparr>) = machine_settings s"
  "machine_settings (s\<lparr>us_obfuscation_settings := obf\<rparr>) = machine_settings s"
  "machine_settings (s\<lparr>us_custom_lists := ls\<rparr>) = machine_settings s"
  "machine_settings (s\<lparr>us_api_access_methods := m\<rparr>) = machine_settings s"
  "machine_settings (s\<lparr>us_relay_overrides := ro\<rparr>) = machine_settings s"
  "machine_settings (s\<lparr>us_show_beta_releases := b\<rparr>) = machine_settings s"
  "machine_settings (s\<lparr>us_auto_connect := b\<rparr>) = machine_settings s"
  "machine_settings (s\<lparr>us_recents := rs\<rparr>) = machine_settings s"
  "machine_settings (s\<lparr>us_update_default_location := b\<rparr>) = machine_settings s"
  "machine_settings (s\<lparr>us_rollout_threshold_seed := seed\<rparr>) = machine_settings s"
  "machine_settings (wireguard_update f s) = machine_settings s"
  by (simp_all add: machine_settings_def wireguard_update_def tunnel_options_update_def)

lemma machine_settings_functions [simp]:
  "machine_settings (update_recents s) = machine_settings s"
  "machine_settings (set_relay_settings r s) = machine_settings s"
  "machine_settings (set_relay_override ro s) = machine_settings s"
  "machine_settings (tunnel_options_update (\<lambda>t. t\<lparr>sto_generic := g t\<rparr>) s) = machine_settings s"
  by (simp_all add: update_recents_def set_relay_settings_def set_relay_override_def Let_def tunnel_options_update_def
      machine_settings_def split: option.split sum.split)

section \<open>The commands that are sent\<close>

definition commands_of :: "daemon_effect list \<Rightarrow> tunnel_command list" where
  "commands_of log = List.map_filter (\<lambda>e. case e of FxTunnel c \<Rightarrow> Some c | _ \<Rightarrow> None) log"

abbreviation tunnel_commands :: "'b daemon \<Rightarrow> tunnel_command list" where
  "tunnel_commands d \<equiv> commands_of (d_log d)"

lemma commands_of_append [simp]:
  "commands_of [] = []"
  "commands_of (log @ es) = commands_of log @ commands_of es"
  "commands_of (e # es) = (case e of FxTunnel c \<Rightarrow> [c] | _ \<Rightarrow> []) @ commands_of es"
  by (simp_all add: commands_of_def List.map_filter_def split: daemon_effect.split)

definition is_tunnel_effect :: "daemon_effect \<Rightarrow> bool" where
  "is_tunnel_effect e = (case e of FxTunnel _ \<Rightarrow> True | _ \<Rightarrow> False)"

lemma commands_of_others: "\<not> is_tunnel_effect e \<Longrightarrow> commands_of [e] = []"
  by (simp add: is_tunnel_effect_def split: daemon_effect.splits)

section \<open>The interface\<close>

text \<open>
  What invariants look at: the settings, the target state, the reported state, the events and tasks that are waiting, the availability of the API
  and the commands that were sent. The rest may change in any way, these only by the listed operations.
\<close>

definition daemon_view ::
  "'b daemon \<Rightarrow> 'b settings_persister \<times> persistent_target_state \<times> daemon_tunnel_state \<times> internal_event list \<times> api_availability \<times>
     (sender \<times> string option) list \<times> tunnel_command list" where
  "daemon_view d =
     (d_settings d, d_target_state d, d_tunnel_state d, d_pending d, d_availability d, d_shutdown_tasks d, tunnel_commands d)"

locale daemon_invariant =
  fixes w :: "'b daemon_world" and I :: "'b daemon \<Rightarrow> bool"
  assumes inv_view: "I d \<Longrightarrow> daemon_view d' = daemon_view d \<Longrightarrow> I d'"
    and inv_event: "I d \<Longrightarrow> I (send_event event d)"
    and inv_own: "I d \<Longrightarrow> i < length (d_pending d) \<Longrightarrow> d_pending d ! i \<noteq> DvSettingsChanged \<Longrightarrow>
      I (d\<lparr>d_pending := take i (d_pending d) @ drop (Suc i) (d_pending d)\<rparr>)"
    and inv_settings_changed: "I d \<Longrightarrow> I (update_feature_indicators_on_settings_changed (d\<lparr>d_pending := ps\<rparr>))"
    and inv_connect: "I d \<Longrightarrow> I (connect_tunnel d)"
    and inv_endpoint: "I d \<Longrightarrow> I (send_tunnel_command (AllowEndpoint endpoint tx) d)"
    and inv_block: "I d \<Longrightarrow> I (send_tunnel_command (Block cause) d)"
    and inv_prepare_restart: "I d \<Longrightarrow> I (on_prepare_restart shutdown d)"
    and inv_target: "I d \<Longrightarrow> I (snd (set_target_state w state d))"
    and inv_settings: "I d \<Longrightarrow> keeps_machine_settings f \<Longrightarrow> I (snd (settings_try_update w f d))"
    and inv_allow_lan: "I d \<Longrightarrow> I (on_set_allow_lan w tx b d)"
    and inv_lockdown_mode: "I d \<Longrightarrow> I (on_set_lockdown_mode w tx b d)"
    and inv_dns: "I d \<Longrightarrow> I (on_set_dns_options w tx dns d)"
    and inv_patch: "I d \<Longrightarrow> I (on_apply_json_settings w tx blob d)"
    and inv_reset: "I d \<Longrightarrow> I (on_reset_settings w tx d)"
    and inv_factory_reset: "I d \<Longrightarrow> I (on_factory_reset w tx d)"
    and inv_transition: "I d \<Longrightarrow> I (handle_tunnel_state_transition t d)"
    and inv_location: "I d \<Longrightarrow> I (handle_location_event request location d)"
    and inv_timer: "I d \<Longrightarrow> is_disconnected (d_tunnel_state d) \<Longrightarrow>
      I (d\<lparr>d_availability := reset_inactivity_timer (d_availability d)\<rparr>)"
    and inv_availability: "I d \<Longrightarrow> op \<in> {AvPauseBackground, AvResumeBackground, AvSuspend, AvUnsuspend} \<union> range AvSetOffline \<union> range AvTimerFires \<Longrightarrow>
      I (d\<lparr>d_availability := av_step op (d_availability d)\<rparr>)"
begin

lemma inv_fx: "I d \<Longrightarrow> \<not> is_tunnel_effect e \<Longrightarrow> I (fx e d)"
  by (erule inv_view) (use commands_of_others in \<open>simp add: daemon_view_def fx_def\<close>)

lemma inv_called [intro!]: "I d \<Longrightarrow> I (called d)"
  by (erule inv_view) (simp add: daemon_view_def called_def)

lemma inv_fields:
  "I d \<Longrightarrow> I (d\<lparr>d_next_sender := n\<rparr>)"
  "I d \<Longrightarrow> I (d\<lparr>d_account_history := h\<rparr>)"
  "I d \<Longrightarrow> I (d\<lparr>d_reconnection_job := j\<rparr>)"
  "I d \<Longrightarrow> I (d\<lparr>d_generator := g\<rparr>)"
  "I d \<Longrightarrow> I (d\<lparr>d_options_queue := q\<rparr>)"
  "I d \<Longrightarrow> I (d\<lparr>d_settings_tasks := ts\<rparr>)"
  "I d \<Longrightarrow> I (d\<lparr>d_panicked := p\<rparr>)"
  "I d \<Longrightarrow> I (d\<lparr>d_migration_complete := c\<rparr>)"
  by (erule inv_view, simp add: daemon_view_def)+

lemma inv_oneshot [intro!]: "I d \<Longrightarrow> I (oneshot_send tx r d)"
  by (simp add: oneshot_send_def inv_fx is_tunnel_effect_def)

lemma inv_spawn [intro!]: "I d \<Longrightarrow> I (spawn t d)"
  by (simp add: spawn_def inv_fx is_tunnel_effect_def)

lemma inv_notify [intro!]: "I d \<Longrightarrow> I (notify_interface n d)"
  by (simp add: notify_interface_def inv_fx is_tunnel_effect_def)

lemma inv_channel: "oneshot_channel d = (tx, d') \<Longrightarrow> I d \<Longrightarrow> I d'"
  by (auto simp: oneshot_channel_def intro: inv_fields)

lemma inv_reconnect [intro!]: "I d \<Longrightarrow> I (reconnect_tunnel d)"
  by (simp add: reconnect_tunnel_def inv_connect)

lemma inv_try_update: "settings_try_update w f d = (r, d') \<Longrightarrow> I d \<Longrightarrow> keeps_machine_settings f \<Longrightarrow> I d'"
  using inv_settings [of d f] by simp

lemma inv_update: "settings_update w f d = (r, d') \<Longrightarrow> I d \<Longrightarrow> (\<And>s. machine_settings (f s) = machine_settings s) \<Longrightarrow> I d'"
  unfolding settings_update_def by (erule inv_try_update) (auto intro: keeps_pure)

lemma inv_update_setting [intro!]:
  assumes "I d" and "\<And>s. machine_settings (f s) = machine_settings s" and "\<And>d. I d \<Longrightarrow> I (on_change d)"
  shows "I (update_setting w tx f on_change d)"
proof -
  have "I d'" if "settings_update w f d = (r, d')" for r d' using inv_update [OF that] assms(1,2) by blast
  then show ?thesis by (auto simp: update_setting_def Let_def intro!: assms(3) split: prod.split sum.split)
qed

lemma inv_recents [intro!]: "I d \<Longrightarrow> I (run_update_recents w d)"
  using inv_update [of update_recents d "fst (settings_update w update_recents d)"] by (simp add: run_update_recents_def)

lemma inv_clear_default [intro!]: "I d \<Longrightarrow> I (clear_update_default_location w d)"
  using inv_update [of "\<lambda>s. s\<lparr>us_update_default_location := False\<rparr>" d, OF prod.collapse [symmetric]]
  by (simp add: clear_update_default_location_def)

text \<open>The handlers.\<close>

lemma inv_target_command: "I d \<Longrightarrow> I (on_set_target_state w tx state d)"
  using inv_target [of d state] by (auto simp: on_set_target_state_def split: prod.split)

lemma inv_seed: "I d \<Longrightarrow> I (set_rollout_threshold_seed w seed d)"
  using inv_update [of "\<lambda>s. s\<lparr>us_rollout_threshold_seed := Some seed\<rparr>" d, OF prod.collapse [symmetric]]
  by (simp add: set_rollout_threshold_seed_def)

lemma inv_generate: "generate_and_set w d = (seed, d') \<Longrightarrow> I d \<Longrightarrow> I d'"
  by (auto simp: generate_and_set_def Let_def intro!: inv_seed)

lemma inv_threshold: "I d \<Longrightarrow> I (on_get_rollout_threshold w tx d)"
  by (auto simp: on_get_rollout_threshold_def intro: inv_generate split: prod.split option.split)

lemma inv_state_command: "I d \<Longrightarrow> I (handle_state_command w command d)"
  by (cases command)
    (auto simp: handle_state_command_def simple_handlers on_reconnect_def on_get_feature_indicators_def split: prod.split
      intro: inv_target_command inv_threshold inv_prepare_restart inv_factory_reset inv_connect inv_generate inv_seed)

lemma inv_account_command: "I d \<Longrightarrow> I (handle_account_command w command d)"
  by (cases command)
    (auto simp: handle_account_command_def simple_handlers on_get_www_auth_token_def on_get_wireguard_key_def on_clear_account_history_def
      split: prod.split sum.split private_device_state.split intro!: inv_fields)

lemma inv_relay_settings: "I d \<Longrightarrow> I (on_set_relay_settings w tx update d)"
  by (auto simp: on_set_relay_settings_def)

lemma inv_obfuscation: "I d \<Longrightarrow> I (on_set_obfuscation_settings w tx obf d)"
  using inv_update [of "\<lambda>s. s\<lparr>us_obfuscation_settings := obf\<rparr>" d]
  by (auto simp: on_set_obfuscation_settings_def split: prod.split sum.split)

lemma inv_default_location: "I d \<Longrightarrow> I (on_update_default_location w tx d)"
  by (auto simp: on_update_default_location_def intro: inv_relay_settings split: option.split)

lemmas setting_handlers = on_set_show_beta_releases_def on_set_auto_connect_def on_set_enable_ipv6_def on_set_userspace_wireguard_def
  on_set_quantum_resistant_tunnel_def on_set_daita_enabled_def on_set_daita_use_multihop_if_necessary_def on_set_daita_settings_def
  on_set_relay_override_def on_clear_all_relay_overrides_def on_set_wireguard_mtu_def on_set_wireguard_rotation_interval_def
  on_set_enable_recents_def on_set_wireguard_allowed_ips_def on_export_json_settings_def

lemma inv_settings_command: "I d \<Longrightarrow> I (handle_settings_command w command d)"
  by (cases command)
    (auto simp: handle_settings_command_def simple_handlers setting_handlers is_tunnel_effect_def intro!: inv_fx split: option.split relay_settings.split
      intro: inv_relay_settings inv_obfuscation inv_default_location inv_allow_lan inv_lockdown_mode inv_dns inv_patch inv_reset)

lemma inv_create_list: "create_custom_list w name locations d = (r, d') \<Longrightarrow> I d \<Longrightarrow> I d'"
  by (auto simp: create_custom_list_def Let_def split: sum.splits prod.splits
      intro!: keeps_machine_settingsI elim!: inv_try_update)

lemma inv_selector: "I d \<Longrightarrow> I (update_relay_selector f d)"
  by (simp add: update_relay_selector_def inv_fields)

lemma inv_lists: "I d \<Longrightarrow> I (update_custom_lists w tx i f d)"
  by (auto simp: update_custom_lists_def Let_def intro!: inv_selector split: sum.splits prod.splits)
    (auto elim!: inv_try_update intro!: keeps_machine_settingsI split: sum.splits)

lemma inv_toggle: "I d \<Longrightarrow> I (on_toggle_relay relay b tx d)"
  by (auto simp: on_toggle_relay_def Let_def intro!: inv_selector inv_fields split: sum.split)

lemma inv_relay_command: "I d \<Longrightarrow> I (handle_relay_command w command d)"
  by (cases command)
    (auto simp: handle_relay_command_def simple_handlers on_delete_custom_list_def on_update_custom_list_def on_clear_custom_lists_def is_tunnel_effect_def
      intro: inv_lists inv_toggle inv_create_list inv_fx split: prod.split)

lemma inv_access: "update_access_settings w describe f d = (r, d') \<Longrightarrow> I d \<Longrightarrow> I d'"
  by (auto simp: update_access_settings_def split: sum.splits intro!: keeps_machine_settingsI elim!: inv_try_update)

lemma inv_api_command: "I d \<Longrightarrow> I (handle_api_command w command d)"
  by (cases command)
    (auto simp: handle_api_command_def simple_handlers on_add_access_method_def on_remove_api_access_method_def on_set_api_access_method_def
      on_update_api_access_method_def on_clear_custom_api_access_methods_def on_test_api_access_method_def
      on_test_proxy_as_access_method_def Let_def dest!: inv_access split: prod.split sum.split option.split)

lemma inv_process_command: "I d \<Longrightarrow> I (handle_process_command w command d)"
  by (cases command) (auto simp: handle_process_command_def simple_handlers Let_def is_tunnel_effect_def intro!: inv_fx)

lemma inv_command: "I d \<Longrightarrow> I (handle_daemon_command w command d)"
  by (cases command)
    (auto simp: handle_daemon_command_def Let_def intro!: inv_timer intro: inv_state_command inv_account_command inv_settings_command
      inv_relay_command inv_api_command inv_process_command)

lemma inv_device: "I d \<Longrightarrow> I (handle_device_event w event d)"
  using inv_target [of d Unsecured]
  by (auto simp: handle_device_event_def Let_def schedule_reconnect_def unschedule_reconnect_def
      intro!: inv_fields inv_block inv_connect
      split: account_event.split private_device_event.split daemon_tunnel_state.split)

lemma inv_access_event: "I d \<Longrightarrow> I (handle_access_method_event event tx d)"
  by (auto simp: handle_access_method_event_def intro!: inv_endpoint dest: inv_channel split: access_method_event.split prod.split)

lemma inv_event_handled:
  assumes "I d" and "handle_internal_event w event d = (False, d')" and "event \<noteq> DvSettingsChanged"
  shows "I d'"
  using assms
  by (cases event) (auto simp: handle_internal_event_def intro: inv_transition inv_command inv_device inv_access_event inv_location)

lemma inv_step: "daemon_step w d d' \<Longrightarrow> I d \<Longrightarrow> I d'"
proof (induction rule: daemon_step.induct)
  case (external event d d')
  then show ?case
    using inv_settings_changed [of d "d_pending d"] inv_event_handled [of d event d']
    by (cases "event = DvSettingsChanged") (simp_all add: handle_internal_event_def)
next
  case (own i d d')
  then show ?case
    using inv_settings_changed [of d] inv_event_handled [OF inv_own [of d i]]
    by (cases "d_pending d ! i = DvSettingsChanged") (auto simp: handle_internal_event_def)
next
  case (options d)
  then show ?case by (auto simp: deliver_options_def intro!: inv_fields split: list.split)
next
  case (settings_task d i)
  then show ?case by (auto simp: run_settings_task_def intro!: inv_fields)
qed (auto intro: inv_fields inv_selector inv_availability)

lemma inv_run: "(daemon_step w)\<^sup>*\<^sup>* d d' \<Longrightarrow> I d \<Longrightarrow> I d'"
  by (induction rule: rtranclp_induct) (auto intro: inv_step)

end

end
