(* ===== verification/Tunnel_Invariants.thy ===== *)
theory Tunnel_Invariants
  imports Tunnel_Machine
begin

text \<open>
  Invariants of the tunnel state machine: one lemma per operation on the shared values, one per way
  of entering a state, one per handler, and the induction over reachable machines.
\<close>

section \<open>What calls leave alone\<close>

text \<open>
  \<open>frame sv sv'\<close>: same settings, same tunnels, no DNS call. \<open>installed sv policy\<close>: the kernel holds the table of
  the policy.
\<close>

definition is_dns_effect :: "effect \<Rightarrow> bool" where
  "is_dns_effect e = (case e of DnsSet _ _ _ \<Rightarrow> True | DnsReset \<Rightarrow> True | DnsResetBeforeRemoval \<Rightarrow> True | _ \<Rightarrow> False)"

definition last_dns :: "shared \<Rightarrow> effect option" where
  "last_dns sv = find is_dns_effect (sv_log sv)"

definition frame :: "shared \<Rightarrow> shared \<Rightarrow> bool" where
  "frame sv sv' \<longleftrightarrow>
     sv_firewall sv' = sv_firewall sv \<and> sv_allow_lan sv' = sv_allow_lan sv \<and>
     sv_lockdown_mode sv' = sv_lockdown_mode sv \<and> sv_connectivity sv' = sv_connectivity sv \<and>
     sv_dns_config sv' = sv_dns_config sv \<and> sv_allowed_endpoint sv' = sv_allowed_endpoint sv \<and>
     sv_tunnels sv' = sv_tunnels sv \<and> sv_next_tunnel sv' = sv_next_tunnel sv \<and>
     last_dns sv' = last_dns sv"

definition installed :: "shared \<Rightarrow> firewall_policy \<Rightarrow> bool" where
  "installed sv policy \<longleftrightarrow> k_batch (sv_kernel sv) \<in> batches_for (sv_firewall sv) policy"

definition secured :: "shared \<Rightarrow> bool" where
  "secured sv \<longleftrightarrow> (\<exists>policy. installed sv policy)"

text \<open>A firewall call for a policy: atomic, and the policy is in place when it reports success.\<close>

definition fw_call :: "shared \<Rightarrow> firewall_policy \<Rightarrow> bool \<Rightarrow> shared \<Rightarrow> bool" where
  "fw_call sv policy ok sv' \<longleftrightarrow>
     frame sv sv' \<and> (k_batch (sv_kernel sv') = k_batch (sv_kernel sv) \<or> installed sv' policy) \<and>
     (ok \<longrightarrow> installed sv' policy)"

lemma frame_refl [simp]: "frame sv sv"
  by (simp add: frame_def)

lemma frame_trans: "frame a b \<Longrightarrow> frame b c \<Longrightarrow> frame a c"
  by (simp add: frame_def)

lemma installed_secured: "installed sv policy \<Longrightarrow> secured sv"
  by (auto simp: secured_def)

lemma fw_call_secured: "fw_call sv policy ok sv' \<Longrightarrow> secured sv \<Longrightarrow> secured sv'"
  by (auto simp: fw_call_def secured_def installed_def frame_def)

lemma record_effect_simps [simp]:
  "sv_firewall (record_effect e sv) = sv_firewall sv"
  "sv_kernel (record_effect e sv) = sv_kernel sv"
  "sv_allow_lan (record_effect e sv) = sv_allow_lan sv"
  "sv_lockdown_mode (record_effect e sv) = sv_lockdown_mode sv"
  "sv_connectivity (record_effect e sv) = sv_connectivity sv"
  "sv_dns_config (record_effect e sv) = sv_dns_config sv"
  "sv_allowed_endpoint (record_effect e sv) = sv_allowed_endpoint sv"
  "sv_connectivity_check_was_enabled (record_effect e sv) = sv_connectivity_check_was_enabled sv"
  "sv_nm_check (record_effect e sv) = sv_nm_check sv"
  "sv_tunnels (record_effect e sv) = sv_tunnels sv"
  "sv_next_tunnel (record_effect e sv) = sv_next_tunnel sv"
  "sv_log (record_effect e sv) = e # sv_log sv"
  "last_dns (record_effect e sv) = (if is_dns_effect e then Some e else last_dns sv)"
  by (simp_all add: record_effect_def last_dns_def)

lemma is_dns_effect_simps [simp]:
  "is_dns_effect (DnsSet i c b)" "is_dns_effect DnsReset" "is_dns_effect DnsResetBeforeRemoval"
  "\<not> is_dns_effect (FwApply p b)" "\<not> is_dns_effect (FwReset b)" "\<not> is_dns_effect ClearRoutes"
  "\<not> is_dns_effect ClearRoutingRules" "\<not> is_dns_effect (TunnelStart n q r)"
  "\<not> is_dns_effect (TunnelClose n)" "\<not> is_dns_effect (Sent tx)"
  by (simp_all add: is_dns_effect_def)

lemmas plain_calls = send_done_def dns_reset_def dns_reset_before_interface_removal_def
  reset_routes_def DisconnectedState_reset_dns_def ErrorState_reset_dns_def
  ConnectedState_reset_dns_def

lemma check_simps [simp]:
  "frame sv (disable_connectivity_check w sv)"
  "frame sv (reset_connectivity_check w sv)"
  "sv_kernel (disable_connectivity_check w sv) = sv_kernel sv"
  "sv_kernel (reset_connectivity_check w sv) = sv_kernel sv"
  by (simp_all add: disable_connectivity_check_def reset_connectivity_check_def frame_def Let_def
      last_dns_def split: prod.splits)

lemma frame_disable [simp]: "frame (disable_connectivity_check w sv) sv' = frame sv sv'"
  by (simp add: disable_connectivity_check_def frame_def Let_def last_dns_def split: prod.splits)

section \<open>Firewall calls\<close>

lemma apply_policy_call:
  "apply_policy w policy sv = (r, sv') \<Longrightarrow>
   fw_call sv policy (r = Inr ()) sv'"
  using linux.apply_ok linux.apply_atomic
  by (fastforce simp: apply_policy_def fw_call_def installed_def frame_def last_dns_def
      split: prod.splits)

lemma ErrorState_set_firewall_policy_call:
  assumes "ErrorState_set_firewall_policy w sv = (r, sv')"
  shows "fw_call sv (PolicyBlocked (sv_allow_lan sv) (Some (sv_allowed_endpoint sv))) (r = Inr ()) sv'"
proof -
  let ?policy = "PolicyBlocked (sv_allow_lan sv) (Some (sv_allowed_endpoint sv))"
  obtain r0 where a: "apply_policy w ?policy (disable_connectivity_check w sv) = (r0, sv')"
    and r: "r = Inr () \<longleftrightarrow> r0 = Inr ()"
    using assms by (auto simp: ErrorState_set_firewall_policy_def Let_def split: prod.splits sum.splits)
  from apply_policy_call [OF a] r show ?thesis
    by (simp add: fw_call_def)
qed

lemma ConnectingState_set_firewall_policy_call:
  assumes "ConnectingState_set_firewall_policy w params md traffic sv = (r, sv')"
  shows "fw_call sv (connecting_policy sv params md traffic) (r = Inr ()) sv'"
proof -
  let ?sv = "disable_connectivity_check w sv"
  obtain r0 where a: "apply_policy w (connecting_policy ?sv params md traffic) ?sv = (r0, sv')"
    and r: "r = Inr () \<longleftrightarrow> r0 = Inr ()"
    using assms by (auto simp: ConnectingState_set_firewall_policy_def Let_def split: prod.splits sum.splits)
  have "connecting_policy ?sv params md traffic = connecting_policy sv params md traffic"
    using check_simps(1) [of sv w] by (simp add: connecting_policy_def frame_def)
  with apply_policy_call [OF a] r show ?thesis
    by (simp add: fw_call_def)
qed

lemma ConnectedState_set_firewall_policy_call:
  "ConnectedState_set_firewall_policy w self sv = (r, sv') \<Longrightarrow>
   fw_call sv (get_firewall_policy self sv) (r = Inr ()) sv'"
  by (auto simp: ConnectedState_set_firewall_policy_def dest!: apply_policy_call
      split: prod.splits sum.splits)

lemmas fw_calls = ErrorState_set_firewall_policy_call ConnectingState_set_firewall_policy_call
  ConnectedState_set_firewall_policy_call

section \<open>The invariant of a state\<close>

text \<open>
  A state with a tunnel owns it: its channels belong to one thread, whose close event has not been
  consumed, and that thread is the only one running, or none runs and its exit is waiting.
\<close>

definition fresh :: "exits \<Rightarrow> shared \<Rightarrow> bool" where
  "fresh exits sv \<longleftrightarrow> (\<forall>n \<ge> sv_next_tunnel sv. exits n = None)"

definition idle :: "exits \<Rightarrow> shared \<Rightarrow> bool" where
  "idle exits sv \<longleftrightarrow> sv_tunnels sv = [] \<and> fresh exits sv"

definition owns :: "exits \<Rightarrow> shared \<Rightarrow> tunnel_close_event \<Rightarrow> bool" where
  "owns exits sv ev \<longleftrightarrow>
     \<not> ce_terminated ev \<and> ce_tunnel ev < sv_next_tunnel sv \<and> fresh exits sv \<and>
     (sv_tunnels sv = [ce_tunnel ev] \<and> exits (ce_tunnel ev) = None \<or>
      sv_tunnels sv = [] \<and> exits (ce_tunnel ev) \<noteq> None)"

definition dns_current :: "connected_state \<Rightarrow> shared \<Rightarrow> bool" where
  "dns_current self sv \<longleftrightarrow>
     last_dns sv =
       Some (DnsSet (tm_interface (cd_metadata self)) (resolve_dns (cd_metadata self) sv) True)"

text \<open>
  While connecting, a connecting policy for the current parameters and settings is in place; once the
  tunnel interface is up it is the one for that interface.
\<close>

definition connecting_installed :: "connecting_state \<Rightarrow> shared \<Rightarrow> bool" where
  "connecting_installed self sv \<longleftrightarrow>
     (\<exists>md traffic. installed sv (connecting_policy sv (cg_tunnel_parameters self) md traffic) \<and>
        (cg_tunnel_metadata self \<noteq> None \<longrightarrow>
           md = cg_tunnel_metadata self \<and> traffic = cg_allowed_tunnel_traffic self))"

lemma connecting_installedI:
  "installed sv (connecting_policy sv (cg_tunnel_parameters self) (cg_tunnel_metadata self)
     (cg_allowed_tunnel_traffic self)) \<Longrightarrow> connecting_installed self sv"
  "installed sv (connecting_policy sv (cg_tunnel_parameters self) md traffic) \<Longrightarrow>
   cg_tunnel_metadata self = None \<Longrightarrow> connecting_installed self sv"
  by (auto simp: connecting_installed_def)

fun state_inv :: "exits \<Rightarrow> shared \<Rightarrow> tunnel_state \<Rightarrow> bool" where
  "state_inv exits sv DisconnectedState \<longleftrightarrow> idle exits sv"
| "state_inv exits sv (ErrorState _) \<longleftrightarrow> idle exits sv"
| "state_inv exits sv (ConnectingState self) \<longleftrightarrow>
     owns exits sv (cg_tunnel_close_event self) \<and>
     cg_tunnel_events self = ce_tunnel (cg_tunnel_close_event self) \<and>
     cg_tunnel_close_tx self = ce_tunnel (cg_tunnel_close_event self) \<and>
     \<not> is_offline (sv_connectivity sv) \<and>
     connecting_installed self sv"
| "state_inv exits sv (ConnectedState self) \<longleftrightarrow>
     owns exits sv (cd_tunnel_close_event self) \<and>
     cd_tunnel_events self = ce_tunnel (cd_tunnel_close_event self) \<and>
     cd_tunnel_close_tx self = ce_tunnel (cd_tunnel_close_event self) \<and>
     \<not> is_offline (sv_connectivity sv) \<and>
     installed sv (get_firewall_policy self sv) \<and> dns_current self sv"
| "state_inv exits sv (DisconnectingState self) \<longleftrightarrow>
     owns exits sv (dg_tunnel_close_event self) \<and> secured sv"

fun consequence_inv :: "exits \<Rightarrow> shared \<Rightarrow> event_consequence \<Rightarrow> bool" where
  "consequence_inv exits sv (NewState (st, tr)) \<longleftrightarrow> state_inv exits sv st"
| "consequence_inv exits sv (SameState st) \<longleftrightarrow> state_inv exits sv st"
| "consequence_inv exits sv Finished \<longleftrightarrow> idle exits sv"

lemma owns_frame: "frame sv sv' \<Longrightarrow> owns exits sv' ev = owns exits sv ev"
  by (simp add: owns_def frame_def fresh_def)

lemma idle_frame: "frame sv sv' \<Longrightarrow> idle exits sv' = idle exits sv"
  by (simp add: idle_def frame_def fresh_def)

section \<open>Entering a state\<close>

lemma ErrorState_enter_call:
  assumes "ErrorState_enter w c sv = ((st, tr), sv')"
  shows "st = ErrorState c \<and>
    (\<exists>e. tr = TError e \<and> es_cause e = c \<and>
       fw_call sv (PolicyBlocked (sv_allow_lan sv) (Some (sv_allowed_endpoint sv))) (is_blocking e) sv')"
proof -
  obtain r where r: "ErrorState_set_firewall_policy w sv = (r, sv')"
    using assms by (auto simp: ErrorState_enter_def Let_def split: prod.splits)
  from ErrorState_set_firewall_policy_call [OF r] assms r show ?thesis
    by (cases r) (auto simp: ErrorState_enter_def Let_def is_blocking_def)
qed

lemma DisconnectedState_set_firewall_policy_frame:
  "frame sv (DisconnectedState_set_firewall_policy w reset sv)"
  by (auto simp: DisconnectedState_set_firewall_policy_def reset_policy_def frame_def last_dns_def
      apply_policy_def split: prod.splits)

lemma DisconnectedState_enter_frame:
  assumes "DisconnectedState_enter w reset sv = ((st, tr), sv')"
  shows "frame sv sv'" and "st = DisconnectedState"
  using assms DisconnectedState_set_firewall_policy_frame [of sv w reset]
  by (auto simp: DisconnectedState_enter_def construct_state_transition_def Let_def
      intro: frame_trans)

lemma ConnectingState_enter_cases:
  assumes "ConnectingState_enter w retry sv = ((st, tr), sv')"
  obtains (error) sv0 c where "frame sv sv0" and "secured sv \<longrightarrow> secured sv0"
    and "ErrorState_enter w c sv0 = ((st, tr), sv')"
  | (connecting) params sv0 cs where "frame sv sv0" and "\<not> is_offline (sv_connectivity sv)"
    and "installed sv0 (connecting_policy sv0 params None TrafficNone)"
    and "start_tunnel params retry sv0 = (cs, sv')" and "st = ConnectingState cs"
    and "tr = TConnecting (get_tunnel_endpoint params)"
proof (cases "availability (sv_connectivity sv)")
  case None
  with assms error [of sv IsOffline] show thesis by (simp add: ConnectingState_enter_def)
next
  case (Some av)
  let ?sv1 = "sv\<lparr>sv_clock := Suc (sv_clock sv)\<rparr>"
  have sv1: "frame sv ?sv1" "secured ?sv1 = secured sv"
    by (simp_all add: frame_def last_dns_def secured_def installed_def)
  have online: "\<not> is_offline (sv_connectivity sv)"
    using Some by (metis availability_None_iff option.distinct(1))
  show thesis
  proof (cases "w_generate w (sv_clock sv) retry av")
    case (Inl err)
    with assms Some sv1 error [of ?sv1 "TunnelParameterError err"] show thesis
      by (simp add: ConnectingState_enter_def generate_parameters_def)
  next
    case (Inr params)
    obtain r sv2 where fw: "ConnectingState_set_firewall_policy w params None TrafficNone ?sv1 = (r, sv2)"
      by fastforce
    note call = ConnectingState_set_firewall_policy_call [OF fw]
    have sv2: "frame sv sv2" using sv1 call by (auto simp: fw_call_def intro: frame_trans)
    show thesis
    proof (cases r)
      case (Inl e)
      have "secured sv \<longrightarrow> secured sv2" using fw_call_secured [OF call] sv1 by simp
      with assms Some Inr fw Inl sv2 error [of sv2 "SetFirewallPolicyError e"] show thesis
        by (simp add: ConnectingState_enter_def generate_parameters_def)
    next
      case [simp]: (Inr u)
      have pol: "connecting_policy ?sv1 params None TrafficNone = connecting_policy sv2 params None TrafficNone"
        using call by (simp add: fw_call_def frame_def connecting_policy_def)
      obtain cs sv3 where st: "start_tunnel params retry sv2 = (cs, sv3)" by fastforce
      have "cg_tunnel_parameters cs = params" using st by (auto simp: start_tunnel_def Let_def)
      with assms Some \<open>w_generate w (sv_clock sv) retry av = Inr params\<close> fw call pol sv2 online st
        connecting [of sv2 params cs]
      show thesis
        by (simp add: ConnectingState_enter_def generate_parameters_def fw_call_def)
    qed
  qed
qed

lemma start_tunnel_owns:
  assumes "start_tunnel params retry sv = (cs, sv')" and "idle exits sv"
  shows "owns exits sv' (cg_tunnel_close_event cs)"
    and "cg_tunnel_close_tx cs = ce_tunnel (cg_tunnel_close_event cs) \<and>
         cg_tunnel_events cs = ce_tunnel (cg_tunnel_close_event cs)" and "cg_tunnel_metadata cs = None"
    and "cg_tunnel_parameters cs = params" and "cg_retry_attempt cs = retry"
    and "sv_kernel sv' = sv_kernel sv" and "sv_firewall sv' = sv_firewall sv"
    and "sv_connectivity sv' = sv_connectivity sv"
    and "connecting_policy sv' params md traffic = connecting_policy sv params md traffic"
  using assms by (auto simp: start_tunnel_def Let_def owns_def idle_def fresh_def connecting_policy_def)

lemma ConnectingState_enter_inv:
  assumes enter: "ConnectingState_enter w retry sv = ((st, tr), sv')"
    and "idle exits sv"
  shows "state_inv exits sv' st"
  using enter
proof (cases rule: ConnectingState_enter_cases)
  case (error sv0 c)
  with ErrorState_enter_call [OF error(3)] assms(2) show ?thesis
    by (auto simp: fw_call_def idle_frame)
next
  case (connecting params sv0 cs)
  with assms(2) have "idle exits sv0" by (simp add: idle_frame)
  note st = start_tunnel_owns [OF connecting(4) this]
  have "installed sv' (connecting_policy sv' params None TrafficNone)"
    using connecting(3) st(6,7,9) by (simp add: installed_def)
  with connecting(1,2,5) st show ?thesis
    by (auto simp: frame_def intro: connecting_installedI(2))
qed

section \<open>Handlers\<close>

lemma secured_record_effect [simp]: "secured (record_effect e sv) = secured sv"
  by (simp add: secured_def installed_def)

lemma owns_record_effect [simp]:
  "owns exits (record_effect e sv) ev = owns exits sv ev"
  "idle exits (record_effect e sv) = idle exits sv"
  by (simp_all add: owns_def idle_def fresh_def)

lemma connecting_installed_record [simp]:
  "connecting_installed self (record_effect e sv) = connecting_installed self sv"
  by (simp add: connecting_installed_def installed_def connecting_policy_def)

lemma state_inv_record [simp]:
  "\<not> is_dns_effect e \<Longrightarrow> state_inv exits (record_effect e sv) st = state_inv exits sv st"
  by (cases st) (simp_all add: connecting_installed_def installed_def connecting_policy_def
      get_firewall_policy_def resolve_dns_def dns_current_def)

lemma consequence_inv_record [simp]:
  "\<not> is_dns_effect e \<Longrightarrow> consequence_inv exits (record_effect e sv) c = consequence_inv exits sv c"
  by (cases c) auto

lemma DisconnectingState_enter_inv:
  "DisconnectingState_enter tx ev after sv = ((st, tr), sv') \<Longrightarrow> owns exits sv ev \<Longrightarrow> secured sv \<Longrightarrow>
   state_inv exits sv' st"
  by (auto simp: DisconnectingState_enter_def Let_def)

lemma ConnectingState_disconnect_inv:
  "ConnectingState_disconnect self after sv = (c, sv') \<Longrightarrow>
   owns exits sv (cg_tunnel_close_event self) \<Longrightarrow> secured sv \<Longrightarrow> consequence_inv exits sv' c"
  by (auto simp: ConnectingState_disconnect_def DisconnectingState_enter_def plain_calls Let_def)

lemma ConnectedState_disconnect_inv:
  "ConnectedState_disconnect self after sv = (c, sv') \<Longrightarrow>
   owns exits sv (cd_tunnel_close_event self) \<Longrightarrow> secured sv \<Longrightarrow> consequence_inv exits sv' c"
  by (auto simp: ConnectedState_disconnect_def DisconnectingState_enter_def plain_calls Let_def)

text \<open>Settings that a state does not depend on can change under it.\<close>

lemma owns_update [simp]:
  "owns exits (sv\<lparr>sv_allow_lan := a\<rparr>) ev = owns exits sv ev"
  "owns exits (sv\<lparr>sv_lockdown_mode := l\<rparr>) ev = owns exits sv ev"
  "owns exits (sv\<lparr>sv_dns_config := d\<rparr>) ev = owns exits sv ev"
  "owns exits (sv\<lparr>sv_allowed_endpoint := ep\<rparr>) ev = owns exits sv ev"
  "owns exits (sv\<lparr>sv_connectivity := cy\<rparr>) ev = owns exits sv ev"
  by (simp_all add: owns_def fresh_def)

lemma idle_update [simp]:
  "idle exits (sv\<lparr>sv_allow_lan := a\<rparr>) = idle exits sv"
  "idle exits (sv\<lparr>sv_lockdown_mode := l\<rparr>) = idle exits sv"
  "idle exits (sv\<lparr>sv_dns_config := d\<rparr>) = idle exits sv"
  "idle exits (sv\<lparr>sv_allowed_endpoint := ep\<rparr>) = idle exits sv"
  "idle exits (sv\<lparr>sv_connectivity := cy\<rparr>) = idle exits sv"
  by (simp_all add: idle_def fresh_def)

lemma secured_update [simp]:
  "secured (sv\<lparr>sv_allow_lan := a\<rparr>) = secured sv"
  "secured (sv\<lparr>sv_lockdown_mode := l\<rparr>) = secured sv"
  "secured (sv\<lparr>sv_dns_config := d\<rparr>) = secured sv"
  "secured (sv\<lparr>sv_allowed_endpoint := ep\<rparr>) = secured sv"
  "secured (sv\<lparr>sv_connectivity := cy\<rparr>) = secured sv"
  by (simp_all add: secured_def installed_def)

lemma connecting_secured:
  "state_inv exits sv (ConnectingState self) \<Longrightarrow> secured sv"
  "state_inv exits sv (ConnectedState cd) \<Longrightarrow> secured sv"
  by (auto simp: connecting_installed_def intro: installed_secured)

lemma ConnectingState_call_inv:
  assumes fw: "ConnectingState_set_firewall_policy w (cg_tunnel_parameters self)
      (cg_tunnel_metadata self) (cg_allowed_tunnel_traffic self) sv = (r, sv')"
    and own: "owns exits sv (cg_tunnel_close_event self)"
      "cg_tunnel_events self = ce_tunnel (cg_tunnel_close_event self)"
      "cg_tunnel_close_tx self = ce_tunnel (cg_tunnel_close_event self)" "\<not> is_offline (sv_connectivity sv)"
    and sec: "secured sv"
  shows "owns exits sv' (cg_tunnel_close_event self)" and "secured sv'"
    and "r = Inr () \<Longrightarrow> state_inv exits sv' (ConnectingState self)"
proof -
  note call = ConnectingState_set_firewall_policy_call [OF fw]
  then have fr: "frame sv sv'" by (simp add: fw_call_def)
  show "owns exits sv' (cg_tunnel_close_event self)"
    using own fr by (simp add: owns_frame)
  show "secured sv'" using fw_call_secured [OF call sec] .
  have pol: "connecting_policy sv params md traffic = connecting_policy sv' params md traffic" for params md traffic
    using fr by (simp add: connecting_policy_def frame_def)
  show "r = Inr () \<Longrightarrow> state_inv exits sv' (ConnectingState self)"
    using own call fr
    by (simp add: fw_call_def owns_frame pol connecting_installedI) (simp add: frame_def)
qed

lemma ConnectingState_reset_firewall_inv:
  assumes "ConnectingState_reset_firewall w self sv = (c, sv')"
    and "owns exits sv (cg_tunnel_close_event self)"
      "cg_tunnel_events self = ce_tunnel (cg_tunnel_close_event self)"
      "cg_tunnel_close_tx self = ce_tunnel (cg_tunnel_close_event self)" "\<not> is_offline (sv_connectivity sv)"
    and "secured sv"
  shows "consequence_inv exits sv' c"
proof -
  obtain r sv1 where fw: "ConnectingState_set_firewall_policy w (cg_tunnel_parameters self)
      (cg_tunnel_metadata self) (cg_allowed_tunnel_traffic self) sv = (r, sv1)" by fastforce
  note inv = ConnectingState_call_inv [OF fw assms(2-6)]
  show ?thesis
  proof (cases r)
    case (Inl e)
    with assms(1) fw have "ConnectingState_disconnect self (AfterBlock (SetFirewallPolicyError e)) sv1 = (c, sv')"
      by (simp add: ConnectingState_reset_firewall_def)
    then show ?thesis using inv(1,2) by (rule ConnectingState_disconnect_inv)
  next
    case (Inr u)
    with assms(1) fw inv(3) show ?thesis by (auto simp: ConnectingState_reset_firewall_def)
  qed
qed

lemma connecting_invD:
  assumes "state_inv exits sv (ConnectingState self)"
  shows "owns exits sv (cg_tunnel_close_event self)"
    and "cg_tunnel_events self = ce_tunnel (cg_tunnel_close_event self)"
    and "cg_tunnel_close_tx self = ce_tunnel (cg_tunnel_close_event self)"
    and "\<not> is_offline (sv_connectivity sv)" and "secured sv"
  using assms connecting_secured(1) [OF assms] by auto

lemma connecting_inv_update:
  assumes "state_inv exits sv (ConnectingState self)"
  shows "state_inv exits (sv\<lparr>sv_lockdown_mode := l\<rparr>) (ConnectingState self)"
    and "state_inv exits (sv\<lparr>sv_dns_config := d\<rparr>) (ConnectingState self)"
    and "\<not> is_offline cy \<Longrightarrow> state_inv exits (sv\<lparr>sv_connectivity := cy\<rparr>) (ConnectingState self)"
  using assms by (simp_all add: connecting_installed_def installed_def connecting_policy_def)

lemma connecting_allow_lan_inv:
  assumes h: "ConnectingState_handle_commands w self (Some (AllowLan lan tx)) sv = (c, sv')"
    and inv: "state_inv exits sv (ConnectingState self)"
  shows "consequence_inv exits sv' c"
proof (cases "sv_allow_lan sv = lan")
  case True
  with h inv show ?thesis
    by (auto simp: ConnectingState_handle_commands_def set_allow_lan_def plain_calls)
next
  case False
  with h obtain sv1 where rf: "ConnectingState_reset_firewall w self (sv\<lparr>sv_allow_lan := lan\<rparr>) = (c, sv1)"
    and sv': "sv' = send_done tx sv1"
    by (auto simp: ConnectingState_handle_commands_def set_allow_lan_def split: prod.splits)
  from rf have "consequence_inv exits sv1 c"
    by (rule ConnectingState_reset_firewall_inv) (use connecting_invD [OF inv] in simp_all)
  then show ?thesis by (simp add: sv' send_done_def)
qed

lemma connecting_allow_endpoint_inv:
  assumes h: "ConnectingState_handle_commands w self (Some (AllowEndpoint ep tx)) sv = (c, sv')"
    and inv: "state_inv exits sv (ConnectingState self)"
  shows "consequence_inv exits sv' c"
proof (cases "sv_allowed_endpoint sv = ep")
  case True
  with h inv show ?thesis by (auto simp: ConnectingState_handle_commands_def plain_calls)
next
  case False
  let ?sv = "sv\<lparr>sv_allowed_endpoint := ep\<rparr>"
  obtain r sv1 where fw: "ConnectingState_set_firewall_policy w (cg_tunnel_parameters self)
      (cg_tunnel_metadata self) (cg_allowed_tunnel_traffic self) ?sv = (r, sv1)" by fastforce
  have call: "owns exits sv1 (cg_tunnel_close_event self)" "secured sv1"
    "r = Inr () \<Longrightarrow> state_inv exits sv1 (ConnectingState self)"
    using ConnectingState_call_inv [OF fw, of exits] connecting_invD [OF inv] by simp_all
  from h False fw call show ?thesis
    by (cases r) (auto simp: ConnectingState_handle_commands_def send_done_def
        elim!: ConnectingState_disconnect_inv simp del: state_inv.simps)
qed

lemma ConnectingState_handle_commands_inv:
  assumes h: "ConnectingState_handle_commands w self command sv = (c, sv')"
    and inv: "state_inv exits sv (ConnectingState self)"
  shows "consequence_inv exits sv' c"
proof (cases command)
  case None
  with h connecting_invD [OF inv] show ?thesis
    by (auto simp: ConnectingState_handle_commands_def elim!: ConnectingState_disconnect_inv)
next
  case (Some cmd)
  show ?thesis
    using h Some connecting_allow_lan_inv [OF _ inv] connecting_allow_endpoint_inv [OF _ inv]
      connecting_invD [OF inv] connecting_inv_update [OF inv] inv
    by (cases cmd)
      (auto simp: ConnectingState_handle_commands_def send_done_def set_dns_config_def Let_def
        simp del: state_inv.simps elim!: ConnectingState_disconnect_inv split: if_splits)
qed

lemma ConnectedState_enter_inv:
  assumes h: "ConnectedState_enter w md events params ev tx sv = ((st, tr), sv')"
    and own: "owns exits sv ev" "events = ce_tunnel ev" "tx = ce_tunnel ev"
    and online: "\<not> is_offline (sv_connectivity sv)" and sec: "secured sv"
  shows "state_inv exits sv' st"
proof -
  let ?self = "\<lparr>cd_metadata = md, cd_tunnel_events = events, cd_tunnel_parameters = params,
      cd_tunnel_close_event = ev, cd_tunnel_close_tx = tx\<rparr>"
  obtain r sv1 where fw: "ConnectedState_set_firewall_policy w ?self sv = (r, sv1)" by fastforce
  note call = ConnectedState_set_firewall_policy_call [OF fw]
  then have fr: "frame sv sv1" by (simp add: fw_call_def)
  have sec1: "secured sv1" using call sec by (rule fw_call_secured)
  have own1: "owns exits sv1 ev" using own fr by (simp add: owns_frame)
  have pol: "get_firewall_policy ?self sv = get_firewall_policy ?self sv1"
    using fr by (simp add: get_firewall_policy_def resolve_dns_def frame_def)
  have online1: "\<not> is_offline (sv_connectivity sv1)" using online fr by (simp add: frame_def)
  show ?thesis
  proof (cases r)
    case (Inl e)
    with h fw have "DisconnectingState_enter tx ev (AfterBlock (SetFirewallPolicyError e)) sv1 = ((st, tr), sv')"
      by (simp add: ConnectedState_enter_def Let_def)
    then show ?thesis using own1 sec1 by (rule DisconnectingState_enter_inv)
  next
    case (Inr u)
    with call pol have "installed sv1 (get_firewall_policy ?self sv1)" by (simp add: fw_call_def)
    with h fw Inr own own1 sec1 online1 show ?thesis
      by (auto simp: ConnectedState_enter_def Let_def ConnectedState_set_dns_def dns_set_def
          get_firewall_policy_def resolve_dns_def dns_current_def installed_def
          elim!: DisconnectingState_enter_inv split: bool.splits)
  qed
qed

lemma ConnectingState_handle_tunnel_events_inv:
  assumes h: "ConnectingState_handle_tunnel_events w self event sv = (c, sv')"
    and inv: "state_inv exits sv (ConnectingState self)"
  shows "consequence_inv exits sv' c"
proof -
  note D = connecting_invD [OF inv]
  have up: "consequence_inv exits sv' c"
    if "apfst NewState (ConnectedState_enter w md (cg_tunnel_events self) (cg_tunnel_parameters self)
          (cg_tunnel_close_event self) (cg_tunnel_close_tx self) sv) = (c, sv')" for md
    using that ConnectedState_enter_inv [OF _ D(1-5)]
    by (cases "ConnectedState_enter w md (cg_tunnel_events self) (cg_tunnel_parameters self)
          (cg_tunnel_close_event self) (cg_tunnel_close_tx self) sv") auto
  have down: "state_inv exits sv (ConnectingState
      (self\<lparr>cg_allowed_tunnel_traffic := t, cg_tunnel_metadata := None\<rparr>))" for t
    using inv by (auto simp: connecting_installed_def)
  have iface_up: "consequence_inv exits sv' c"
    if "ConnectingState_reset_firewall w
          (self\<lparr>cg_allowed_tunnel_traffic := t, cg_tunnel_metadata := Some md\<rparr>) sv = (c, sv')" for t md
    using that by (rule ConnectingState_reset_firewall_inv) (use D in simp_all)
  from h D up down iface_up show ?thesis
    by (auto simp: ConnectingState_handle_tunnel_events_def simp del: state_inv.simps
        elim!: ConnectingState_disconnect_inv split: option.splits tunnel_event.splits)
qed

text \<open>When the close event of the owned tunnel is ready, no tunnel runs any more.\<close>

lemma owns_exited: "owns exits sv ev \<Longrightarrow> exits (ce_tunnel ev) = Some r \<Longrightarrow> idle exits sv"
  by (auto simp: owns_def idle_def)

lemma enter_after_close_inv:
  assumes "idle exits sv"
  shows "apfst NewState (ErrorState_enter w cause sv) = (c, sv') \<Longrightarrow> consequence_inv exits sv' c"
    and "apfst NewState (ConnectingState_enter w retry sv) = (c, sv') \<Longrightarrow> consequence_inv exits sv' c"
    and "apfst NewState (DisconnectedState_enter w reset sv) = (c, sv') \<Longrightarrow> consequence_inv exits sv' c"
proof -
  show "consequence_inv exits sv' c" if "apfst NewState (ErrorState_enter w cause sv) = (c, sv')"
    using that assms ErrorState_enter_call [of w cause sv]
    by (cases "ErrorState_enter w cause sv") (fastforce simp: fw_call_def idle_frame)
  show "consequence_inv exits sv' c" if "apfst NewState (ConnectingState_enter w retry sv) = (c, sv')"
    using that assms ConnectingState_enter_inv [of w retry sv]
    by (cases "ConnectingState_enter w retry sv") fastforce
  show "consequence_inv exits sv' c" if "apfst NewState (DisconnectedState_enter w reset sv) = (c, sv')"
    using that assms DisconnectedState_enter_frame [of w reset sv]
    by (cases "DisconnectedState_enter w reset sv") (fastforce simp: idle_frame)
qed

lemma close_event_inv:
  assumes "idle exits sv"
  shows "ConnectingState_handle_tunnel_close_event w self reason sv = (c, sv') \<Longrightarrow> consequence_inv exits sv' c"
    and "ConnectedState_handle_tunnel_close_event w cd reason sv = (c, sv') \<Longrightarrow> consequence_inv exits sv' c"
    and "apfst NewState (DisconnectingState_after_disconnect w dg reason sv) = (c, sv') \<Longrightarrow>
         consequence_inv exits sv' c"
  using assms
  by (auto simp: ConnectingState_handle_tunnel_close_event_def ConnectedState_handle_tunnel_close_event_def
      DisconnectingState_after_disconnect_def plain_calls Let_def
      elim!: enter_after_close_inv [rotated] split: option.splits after_disconnect.splits)

lemma connected_invD:
  assumes "state_inv exits sv (ConnectedState self)"
  shows "owns exits sv (cd_tunnel_close_event self)" and "secured sv"
  using assms connecting_secured(2) [OF assms] by auto

lemma connected_inv_update:
  assumes "state_inv exits sv (ConnectedState self)"
  shows "state_inv exits (sv\<lparr>sv_lockdown_mode := l\<rparr>) (ConnectedState self)"
    and "state_inv exits (sv\<lparr>sv_allowed_endpoint := ep\<rparr>) (ConnectedState self)"
    and "\<not> is_offline cy \<Longrightarrow> state_inv exits (sv\<lparr>sv_connectivity := cy\<rparr>) (ConnectedState self)"
  using assms
  by (simp_all add: installed_def get_firewall_policy_def resolve_dns_def dns_current_def last_dns_def)

lemma ConnectedState_call_inv:
  assumes fw: "ConnectedState_set_firewall_policy w self sv = (r, sv')"
    and own: "owns exits sv (cd_tunnel_close_event self)" and sec: "secured sv"
  shows "owns exits sv' (cd_tunnel_close_event self)" and "secured sv'" and "frame sv sv'"
    and "r = Inr () \<Longrightarrow> installed sv' (get_firewall_policy self sv')"
proof -
  note call = ConnectedState_set_firewall_policy_call [OF fw]
  then show fr: "frame sv sv'" by (simp add: fw_call_def)
  show "owns exits sv' (cd_tunnel_close_event self)" using own fr by (simp add: owns_frame)
  show "secured sv'" using call sec by (rule fw_call_secured)
  have "get_firewall_policy self sv = get_firewall_policy self sv'"
    using fr by (simp add: get_firewall_policy_def resolve_dns_def frame_def)
  with call show "r = Inr () \<Longrightarrow> installed sv' (get_firewall_policy self sv')"
    by (simp add: fw_call_def)
qed

lemma connected_allow_lan_inv:
  assumes h: "ConnectedState_handle_commands w self (Some (AllowLan lan tx)) sv = (c, sv')"
    and inv: "state_inv exits sv (ConnectedState self)"
  shows "consequence_inv exits sv' c"
proof (cases "sv_allow_lan sv = lan")
  case True
  with h inv show ?thesis
    by (auto simp: ConnectedState_handle_commands_def set_allow_lan_def send_done_def
        simp del: state_inv.simps)
next
  case False
  let ?sv = "sv\<lparr>sv_allow_lan := lan\<rparr>"
  obtain r sv1 where fw: "ConnectedState_set_firewall_policy w self ?sv = (r, sv1)" by fastforce
  note call = ConnectedState_call_inv [OF fw, of exits, simplified, OF connected_invD [OF inv]]
  have "dns_current self sv1"
    using inv call(3) by (simp add: dns_current_def resolve_dns_def frame_def last_dns_def)
  moreover have "\<not> is_offline (sv_connectivity sv1)" using inv call(3) by (simp add: frame_def)
  ultimately have ok: "r = Inr () \<Longrightarrow> state_inv exits sv1 (ConnectedState self)"
    using call inv by simp
  obtain sv2 where "(case r of Inr _ \<Rightarrow> (SameState (ConnectedState self), sv1)
      | Inl e \<Rightarrow> ConnectedState_disconnect self (AfterBlock (SetFirewallPolicyError e)) sv1) = (c, sv2)"
    and sv': "sv' = send_done tx sv2"
    using h False fw
    by (auto simp: ConnectedState_handle_commands_def set_allow_lan_def split: sum.splits prod.splits)
  then have "consequence_inv exits sv2 c"
    using call(1,2) ok
    by (cases r) (auto simp del: state_inv.simps elim!: ConnectedState_disconnect_inv)
  then show ?thesis by (simp add: sv' send_done_def)
qed

lemma connected_dns_inv:
  assumes h: "ConnectedState_handle_commands w self (Some (Dns servers tx)) sv = (c, sv')"
    and inv: "state_inv exits sv (ConnectedState self)"
  shows "consequence_inv exits sv' c"
proof (cases "sv_dns_config sv = servers")
  case True
  with h inv show ?thesis
    by (auto simp: ConnectedState_handle_commands_def set_dns_config_def send_done_def
        simp del: state_inv.simps)
next
  case False
  let ?sv = "sv\<lparr>sv_dns_config := servers\<rparr>"
  obtain r sv1 where fw: "ConnectedState_set_firewall_policy w self ?sv = (r, sv1)" by fastforce
  note call = ConnectedState_call_inv [OF fw, of exits, simplified, OF connected_invD [OF inv]]
  have online: "\<not> is_offline (sv_connectivity sv1)" using inv call(3) by (simp add: frame_def)
  let ?set = "\<lambda>ok. record_effect (DnsSet (tm_interface (cd_metadata self)) (resolve_dns (cd_metadata self) sv1) ok) sv1"
  have ok: "r = Inr () \<Longrightarrow> state_inv exits (?set True) (ConnectedState self)"
    using call(1,4) inv online
    by (simp add: installed_def get_firewall_policy_def resolve_dns_def dns_current_def)
  have bad: "ConnectedState_disconnect self after (?set b) = (c2, sv2) \<Longrightarrow> consequence_inv exits sv2 c2"
    for after b c2 sv2
    using call(1,2) by (auto elim!: ConnectedState_disconnect_inv)
  show ?thesis
  proof (cases r)
    case (Inl e)
    with h False fw call(1,2) show ?thesis
      by (auto simp: ConnectedState_handle_commands_def set_dns_config_def
          elim!: ConnectedState_disconnect_inv)
  next
    case (Inr u)
    with h False fw ok bad show ?thesis
      by (auto simp: ConnectedState_handle_commands_def set_dns_config_def ConnectedState_set_dns_def
          dns_set_def send_done_def Let_def simp del: state_inv.simps split: bool.splits prod.splits)
  qed
qed

lemma ConnectedState_handle_commands_inv:
  assumes h: "ConnectedState_handle_commands w self command sv = (c, sv')"
    and inv: "state_inv exits sv (ConnectedState self)"
  shows "consequence_inv exits sv' c"
proof (cases command)
  case None
  with h connected_invD [OF inv] show ?thesis
    by (auto simp: ConnectedState_handle_commands_def elim!: ConnectedState_disconnect_inv)
next
  case (Some cmd)
  show ?thesis
    using h Some connected_allow_lan_inv [OF _ inv] connected_dns_inv [OF _ inv]
      connected_invD [OF inv] connected_inv_update [OF inv] inv
    by (cases cmd)
      (auto simp: ConnectedState_handle_commands_def send_done_def Let_def
        simp del: state_inv.simps elim!: ConnectedState_disconnect_inv split: if_splits)
qed

lemma ConnectedState_handle_tunnel_events_inv:
  assumes "ConnectedState_handle_tunnel_events self event sv = (c, sv')"
    and inv: "state_inv exits sv (ConnectedState self)"
  shows "consequence_inv exits sv' c"
  using assms connected_invD [OF inv]
  by (auto simp: ConnectedState_handle_tunnel_events_def simp del: state_inv.simps
      elim!: ConnectedState_disconnect_inv split: option.splits tunnel_event.splits)

lemma DisconnectingState_handle_commands_inv:
  assumes "DisconnectingState_handle_commands self command sv = (c, sv')"
    and "state_inv exits sv (DisconnectingState self)"
  shows "consequence_inv exits sv' c"
  using assms
  by (auto simp: DisconnectingState_handle_commands_def Let_def send_done_def set_allow_lan_def
      set_dns_config_def split: option.splits tunnel_command.splits prod.splits)

lemma DisconnectedState_handle_commands_inv:
  assumes h: "DisconnectedState_handle_commands w command sv = (c, sv')"
    and inv: "idle exits sv"
  shows "consequence_inv exits sv' c"
proof -
  have fr: "idle exits (DisconnectedState_set_firewall_policy w b sv1) = idle exits sv1" for b sv1
    using DisconnectedState_set_firewall_policy_frame [of sv1 w b] by (rule idle_frame)
  from h inv show ?thesis
    by (auto simp: DisconnectedState_handle_commands_def send_done_def plain_calls Let_def fr
        set_allow_lan_def set_dns_config_def construct_state_transition_def
        elim!: enter_after_close_inv(2) [rotated] split: option.splits tunnel_command.splits if_splits)
qed

lemma ErrorState_handle_commands_inv:
  assumes h: "ErrorState_handle_commands w reason command sv = (c, sv')"
    and inv: "idle exits sv"
  shows "consequence_inv exits sv' c"
proof -
  have fr: "idle exits (snd (ErrorState_set_firewall_policy w sv1)) = idle exits sv1" for sv1
    using ErrorState_set_firewall_policy_call [of w sv1] by (metis idle_frame fw_call_def prod.collapse)
  have rc: "idle exits (reset_connectivity_check w sv)"
    using inv idle_frame [OF check_simps(2) [of sv w]] by simp
  from h inv rc show ?thesis
    by (auto simp: ErrorState_handle_commands_def send_done_def plain_calls Let_def fr
        set_allow_lan_def set_dns_config_def
        elim!: enter_after_close_inv [rotated] split: option.splits tunnel_command.splits if_splits)
qed

section \<open>One event\<close>

lemma terminate_simps [simp]:
  "terminate (EvCommand c) ev = ev" "terminate (EvEvent e) ev = ev"
  by (simp_all add: terminate_def)

lemma handle_event_inv:
  assumes h: "handle_event w br exits st rx sv = Some (c, rx', sv')" and inv: "state_inv exits sv st"
  shows "consequence_inv exits sv' c"
proof (cases st)
  case DisconnectedState
  with h inv show ?thesis
    by (auto split: branch.splits option.splits prod.splits
        elim!: DisconnectedState_handle_commands_inv)
next
  case (ErrorState reason)
  with h inv show ?thesis
    by (auto split: branch.splits option.splits prod.splits elim!: ErrorState_handle_commands_inv)
next
  case (ConnectingState self)
  with inv have own: "owns exits sv (cg_tunnel_close_event self)" by simp
  from h inv ConnectingState show ?thesis
    by (auto simp: ConnectingState_handle_event_def select3_def select_command_def select_close_def
        simp del: state_inv.simps dest!: owns_exited [OF own]
        elim!: ConnectingState_handle_commands_inv ConnectingState_handle_tunnel_events_inv
          close_event_inv(1) [rotated]
        split: branch.splits option.splits prod.splits if_splits)
next
  case (ConnectedState self)
  with inv have own: "owns exits sv (cd_tunnel_close_event self)" by simp
  from h inv ConnectedState show ?thesis
    by (auto simp: ConnectedState_handle_event_def select3_def select_command_def select_close_def
        simp del: state_inv.simps dest!: owns_exited [OF own]
        elim!: ConnectedState_handle_commands_inv ConnectedState_handle_tunnel_events_inv
          close_event_inv(2) [rotated]
        split: branch.splits option.splits prod.splits if_splits)
next
  case (DisconnectingState self)
  with inv have own: "owns exits sv (dg_tunnel_close_event self)" by simp
  then have "\<not> ce_terminated (dg_tunnel_close_event self)" by (simp add: owns_def)
  with h inv DisconnectingState show ?thesis
    by (auto simp: DisconnectingState_handle_event_def DisconnectingState_result_def
        select_command_def select_close_def
        simp del: state_inv.simps dest!: owns_exited [OF own]
        elim!: DisconnectingState_handle_commands_inv close_event_inv(3) [rotated]
        split: branch.splits option.splits prod.splits if_splits)
qed

section \<open>Reachable machines\<close>

definition machine_inv :: "machine \<Rightarrow> bool" where
  "machine_inv m \<longleftrightarrow>
     (case m_state m of
        None \<Rightarrow> idle (m_exits m) (m_shared m)
      | Some st \<Rightarrow> state_inv (m_exits m) (m_shared m) st)"

lemma machine_inv_new: "machine_inv (TunnelStateMachine_new w settings ids connectivity k check)"
proof -
  let ?sv = "initial_shared settings ids connectivity k check"
  obtain st tr sv' where enter: "DisconnectedState_enter w (is_reset_firewall settings) ?sv = ((st, tr), sv')"
    by (metis prod.exhaust)
  have "idle (\<lambda>_. None) ?sv" by (simp add: initial_shared_def idle_def fresh_def)
  with DisconnectedState_enter_frame [OF enter] have "idle (\<lambda>_. None) sv'" "st = DisconnectedState"
    by (simp_all add: idle_frame)
  with enter show ?thesis by (simp add: TunnelStateMachine_new_def machine_inv_def)
qed

lemma machine_inv_exit:
  assumes inv: "machine_inv m" and n: "n \<in> set (sv_tunnels (m_shared m))"
  shows "machine_inv (m\<lparr>m_shared := (m_shared m)\<lparr>sv_tunnels := remove1 n (sv_tunnels (m_shared m))\<rparr>,
          m_exits := (m_exits m)(n := Some r)\<rparr>)" (is "machine_inv ?m")
proof -
  let ?sv = "(m_shared m)\<lparr>sv_tunnels := remove1 n (sv_tunnels (m_shared m))\<rparr>"
  let ?exits = "(m_exits m)(n := Some r)"
  have own: "owns ?exits ?sv ev" if "owns (m_exits m) (m_shared m) ev" for ev
    using that n by (auto simp: owns_def fresh_def)
  have "\<not> idle (m_exits m) (m_shared m)" using n by (auto simp: idle_def)
  moreover have "installed ?sv p = installed (m_shared m) p" for p by (simp add: installed_def)
  moreover have "connecting_installed cs ?sv = connecting_installed cs (m_shared m)" for cs
    by (simp add: connecting_installed_def installed_def connecting_policy_def)
  ultimately show ?thesis
    using inv own
    by (cases "m_state m"; cases "the (m_state m)")
      (auto simp: machine_inv_def secured_def dns_current_def last_dns_def get_firewall_policy_def
        resolve_dns_def)
qed

lemma machine_inv_step: "tsm_step w m m' \<Longrightarrow> machine_inv m \<Longrightarrow> machine_inv m'"
proof (induction rule: tsm_step.induct)
  case (tunnel_exit n m r)
  then show ?case by (intro machine_inv_exit)
next
  case (loop listening br m m')
  from loop(1) show ?case
  proof (cases rule: run_stepE)
    case (1 st c rx sv)
    with loop(2) have "consequence_inv (m_exits m) sv c"
      by (intro handle_event_inv [OF 1(3)]) (simp add: machine_inv_def)
    with 1 show ?thesis by (auto simp: machine_inv_def)
  qed
qed (auto simp: machine_inv_def split: option.splits)

lemma reachable_inv: "tsm_reachable w m \<Longrightarrow> machine_inv m"
  by (induction rule: tsm_reachable.induct) (auto intro: machine_inv_new machine_inv_step)

end
