(* ===== verification/Tunnel_Guard.thy ===== *)
theory Tunnel_Guard
  imports Tunnel_Invariants
begin

text \<open>
  What the machine guarantees, and reports, when the firewall itself fails: in the error state, and in
  the disconnected state under lockdown mode.
\<close>

definition is_fw_effect :: "effect \<Rightarrow> bool" where
  "is_fw_effect e = (case e of FwApply _ _ \<Rightarrow> True | FwReset _ \<Rightarrow> True | _ \<Rightarrow> False)"

text \<open>The last call on the firewall was an \<open>apply_policy\<close> that returned an error.\<close>

definition fw_failed :: "shared \<Rightarrow> bool" where
  "fw_failed sv = (case find is_fw_effect (sv_log sv) of Some (FwApply _ ok) \<Rightarrow> \<not> ok | _ \<Rightarrow> False)"

lemma is_fw_effect_simps [simp]:
  "is_fw_effect (FwApply p b)" "is_fw_effect (FwReset b)" "\<not> is_fw_effect (DnsSet i c b)"
  "\<not> is_fw_effect DnsReset" "\<not> is_fw_effect DnsResetBeforeRemoval" "\<not> is_fw_effect ClearRoutes"
  "\<not> is_fw_effect ClearRoutingRules" "\<not> is_fw_effect (TunnelStart n q r)"
  "\<not> is_fw_effect (TunnelClose n)" "\<not> is_fw_effect (Sent tx)"
  by (simp_all add: is_fw_effect_def)

lemma fw_failed_record [simp]:
  "\<not> is_fw_effect e \<Longrightarrow> fw_failed (record_effect e sv) = fw_failed sv"
  "fw_failed (record_effect (FwApply p ok) sv) = (\<not> ok)"
  by (simp_all add: fw_failed_def)

lemma fw_failed_update [simp]:
  "fw_failed (sv\<lparr>sv_allow_lan := a\<rparr>) = fw_failed sv"
  "fw_failed (sv\<lparr>sv_lockdown_mode := l\<rparr>) = fw_failed sv"
  "fw_failed (sv\<lparr>sv_dns_config := d\<rparr>) = fw_failed sv"
  "fw_failed (sv\<lparr>sv_allowed_endpoint := ep\<rparr>) = fw_failed sv"
  "fw_failed (sv\<lparr>sv_connectivity := cy\<rparr>) = fw_failed sv"
  "fw_failed (sv\<lparr>sv_kernel := k\<rparr>) = fw_failed sv"
  by (simp_all add: fw_failed_def)

lemma guard_check [simp]:
  "fw_failed (reset_connectivity_check w sv) = fw_failed sv"
  "secured (reset_connectivity_check w sv) = secured sv"
  "sv_lockdown_mode (reset_connectivity_check w sv) = sv_lockdown_mode sv"
  by (simp_all add: reset_connectivity_check_def fw_failed_def secured_def installed_def Let_def)

text \<open>The guarantee of a state: secured, or the failure is on record.\<close>

definition locked :: "shared \<Rightarrow> bool" where
  "locked sv \<longleftrightarrow> (lockdown_bool (sv_lockdown_mode sv) \<longrightarrow> secured sv \<or> fw_failed sv)"

definition reported :: "tunnel_state_transition \<Rightarrow> bool" where
  "reported tr \<longleftrightarrow> (\<exists>e. tr = TError e \<and> \<not> is_blocking e)"

fun entered_guard :: "new_state \<Rightarrow> shared \<Rightarrow> bool" where
  "entered_guard (DisconnectedState, tr) sv \<longleftrightarrow> locked sv"
| "entered_guard (ErrorState _, tr) sv \<longleftrightarrow> secured sv \<or> reported tr"
| "entered_guard _ sv \<longleftrightarrow> True"

section \<open>Entering\<close>

lemma DisconnectedState_set_firewall_policy_locked:
  "locked (DisconnectedState_set_firewall_policy w b sv)"
proof -
  let ?policy = "PolicyBlocked (sv_allow_lan sv) (Some (sv_allowed_endpoint sv))"
  obtain r sv' where ap: "apply_policy w ?policy sv = (r, sv')" by fastforce
  have "r = Inr () \<Longrightarrow> secured sv'"
    using apply_policy_call [OF ap] by (auto simp: fw_call_def intro: installed_secured)
  moreover have "r \<noteq> Inr () \<Longrightarrow> fw_failed sv'"
    using ap by (cases r) (auto simp: apply_policy_def split: prod.splits)
  moreover have "sv_lockdown_mode (DisconnectedState_set_firewall_policy w b sv) = sv_lockdown_mode sv"
    using DisconnectedState_set_firewall_policy_frame [of sv w b] by (simp add: frame_def)
  ultimately show ?thesis
    using ap by (auto simp: locked_def DisconnectedState_set_firewall_policy_def)
qed

lemma DisconnectedState_enter_guard:
  "DisconnectedState_enter w b sv = (ns, sv') \<Longrightarrow> entered_guard ns sv'"
  using DisconnectedState_set_firewall_policy_locked [of w b sv]
  by (auto simp: DisconnectedState_enter_def construct_state_transition_def Let_def locked_def)

lemma ErrorState_enter_guard:
  assumes "ErrorState_enter w cause sv = (ns, sv')"
  shows "entered_guard ns sv'"
proof -
  obtain st tr where ns: "ns = (st, tr)" by fastforce
  from ErrorState_enter_call [of w cause sv st tr sv'] assms show ?thesis
    by (auto simp: ns reported_def fw_call_def intro: installed_secured)
qed

lemma ConnectingState_enter_guard:
  assumes "ConnectingState_enter w retry sv = (ns, sv')"
  shows "entered_guard ns sv'"
proof -
  obtain st tr where ns: "ns = (st, tr)" by fastforce
  from assms have "ConnectingState_enter w retry sv = ((st, tr), sv')" by (simp add: ns)
  then show ?thesis
    by (cases rule: ConnectingState_enter_cases) (auto simp: ns dest: ErrorState_enter_guard)
qed

lemma DisconnectingState_enter_guard:
  "DisconnectingState_enter tx ev after sv = (ns, sv') \<Longrightarrow> entered_guard ns sv'"
  by (auto simp: DisconnectingState_enter_def Let_def)

lemma ConnectedState_enter_guard:
  "ConnectedState_enter w md events params ev tx sv = (ns, sv') \<Longrightarrow> entered_guard ns sv'"
  by (auto simp: ConnectedState_enter_def Let_def elim!: DisconnectingState_enter_guard
      split: prod.splits sum.splits bool.splits)

lemmas enter_guards = DisconnectedState_enter_guard ErrorState_enter_guard
  ConnectingState_enter_guard DisconnectingState_enter_guard ConnectedState_enter_guard

lemma apfst_guard:
  assumes "apfst NewState x = (c, sv')"
  obtains ns where "x = (ns, sv')" and "c = NewState ns"
  using assms by (cases x) auto

section \<open>Handling\<close>

text \<open>
  The guarantee after an event: for a new state the guarantee of entering it; a state that is kept
  keeps what it had.
\<close>

fun guard :: "tunnel_state \<Rightarrow> shared \<Rightarrow> event_consequence \<Rightarrow> shared \<Rightarrow> bool" where
  "guard st sv (NewState ns) sv' \<longleftrightarrow> entered_guard ns sv'"
| "guard st sv (SameState st') sv' \<longleftrightarrow>
     (st' = DisconnectedState \<longrightarrow> st = DisconnectedState \<and> (locked sv \<longrightarrow> locked sv')) \<and>
     (\<forall>c. st' = ErrorState c \<longrightarrow> st = ErrorState c \<and> (secured sv \<longrightarrow> secured sv'))"
| "guard st sv Finished sv' \<longleftrightarrow> True"

lemma locked_record [simp]: "\<not> is_fw_effect e \<Longrightarrow> locked (record_effect e sv) = locked sv"
  by (simp add: locked_def)

lemma locked_update [simp]:
  "locked (sv\<lparr>sv_allow_lan := a\<rparr>) = locked sv"
  "locked (sv\<lparr>sv_dns_config := d\<rparr>) = locked sv"
  "locked (sv\<lparr>sv_allowed_endpoint := ep\<rparr>) = locked sv"
  "locked (sv\<lparr>sv_connectivity := cy\<rparr>) = locked sv"
  by (simp_all add: locked_def)

lemma DisconnectedState_handle_commands_guard:
  "DisconnectedState_handle_commands w command sv = (c, sv') \<Longrightarrow> guard DisconnectedState sv c sv'"
  by (auto simp: DisconnectedState_handle_commands_def send_done_def Let_def set_allow_lan_def
      set_dns_config_def construct_state_transition_def DisconnectedState_set_firewall_policy_locked
      elim!: apfst_guard enter_guards split: option.splits tunnel_command.splits if_splits)

lemma ErrorState_secured:
  "secured sv \<Longrightarrow> secured (snd (ErrorState_set_firewall_policy w sv))"
  using ErrorState_set_firewall_policy_call [of w sv] fw_call_secured by (metis prod.collapse)

lemma ErrorState_handle_commands_guard:
  "ErrorState_handle_commands w reason command sv = (c, sv') \<Longrightarrow> guard (ErrorState reason) sv c sv'"
  by (auto simp: ErrorState_handle_commands_def send_done_def Let_def set_allow_lan_def
      set_dns_config_def ErrorState_secured
      elim!: apfst_guard enter_guards split: option.splits tunnel_command.splits if_splits)

lemma ConnectingState_disconnect_guard:
  "ConnectingState_disconnect self after sv = (c, sv') \<Longrightarrow> guard st sv0 c sv'"
  by (auto simp: ConnectingState_disconnect_def Let_def elim!: apfst_guard enter_guards)

lemma ConnectedState_disconnect_guard:
  "ConnectedState_disconnect self after sv = (c, sv') \<Longrightarrow> guard st sv0 c sv'"
  by (auto simp: ConnectedState_disconnect_def Let_def elim!: apfst_guard enter_guards)

lemma send_done_guard [simp]:
  "locked (send_done tx sv) = locked sv" "secured (send_done tx sv) = secured sv"
  by (simp_all add: send_done_def)

lemma entered_guard_send_done [simp]: "entered_guard ns (send_done tx sv) = entered_guard ns sv"
  by (cases ns; cases "fst ns") auto

lemma guard_send_done [simp]: "guard st sv c (send_done tx sv') = guard st sv c sv'"
  by (cases c) simp_all

lemma ConnectingState_reset_firewall_guard:
  "ConnectingState_reset_firewall w self sv = (c, sv') \<Longrightarrow> guard st sv0 c sv'"
  by (auto simp: ConnectingState_reset_firewall_def elim!: ConnectingState_disconnect_guard
      split: prod.splits sum.splits)

lemma ConnectingState_handle_commands_guard:
  "ConnectingState_handle_commands w self command sv = (c, sv') \<Longrightarrow> guard st sv0 c sv'"
  by (auto simp: ConnectingState_handle_commands_def Let_def
      elim!: ConnectingState_disconnect_guard ConnectingState_reset_firewall_guard
      split: option.splits tunnel_command.splits if_splits prod.splits sum.splits)

lemma ConnectingState_handle_tunnel_events_guard:
  "ConnectingState_handle_tunnel_events w self event sv = (c, sv') \<Longrightarrow> guard st sv0 c sv'"
  by (auto simp: ConnectingState_handle_tunnel_events_def
      elim!: apfst_guard enter_guards ConnectingState_disconnect_guard
        ConnectingState_reset_firewall_guard
      split: option.splits tunnel_event.splits)

lemma ConnectedState_handle_commands_guard:
  "ConnectedState_handle_commands w self command sv = (c, sv') \<Longrightarrow> guard st sv0 c sv'"
  by (auto simp: ConnectedState_handle_commands_def Let_def elim!: ConnectedState_disconnect_guard
      split: option.splits tunnel_command.splits if_splits prod.splits sum.splits bool.splits)

lemma ConnectedState_handle_tunnel_events_guard:
  "ConnectedState_handle_tunnel_events self event sv = (c, sv') \<Longrightarrow> guard st sv0 c sv'"
  by (auto simp: ConnectedState_handle_tunnel_events_def elim!: ConnectedState_disconnect_guard
      split: option.splits tunnel_event.splits)

lemma close_event_guard:
  "ConnectingState_handle_tunnel_close_event w self reason sv = (c, sv') \<Longrightarrow> guard st sv0 c sv'"
  "ConnectedState_handle_tunnel_close_event w cd reason sv = (c, sv') \<Longrightarrow> guard st sv0 c sv'"
  "apfst NewState (DisconnectingState_after_disconnect w dg reason sv) = (c, sv') \<Longrightarrow> guard st sv0 c sv'"
  by (auto simp: ConnectingState_handle_tunnel_close_event_def
      ConnectedState_handle_tunnel_close_event_def DisconnectingState_after_disconnect_def Let_def
      elim!: apfst_guard enter_guards split: option.splits after_disconnect.splits)

lemma DisconnectingState_handle_commands_guard:
  "DisconnectingState_handle_commands self command sv = (c, sv') \<Longrightarrow> guard st sv0 c sv'"
  by (auto simp: DisconnectingState_handle_commands_def Let_def split: prod.splits)

lemma handle_event_guard:
  assumes "handle_event w br exits st rx sv = Some (c, rx', sv')"
  shows "guard st sv c sv'"
  using assms
  by (cases st)
    (auto simp: ConnectingState_handle_event_def ConnectedState_handle_event_def
      DisconnectingState_handle_event_def Let_def
      elim!: DisconnectedState_handle_commands_guard ErrorState_handle_commands_guard
        ConnectingState_handle_commands_guard ConnectingState_handle_tunnel_events_guard
        ConnectedState_handle_commands_guard ConnectedState_handle_tunnel_events_guard
        DisconnectingState_handle_commands_guard close_event_guard
      split: branch.splits option.splits prod.splits event_result.splits)

section \<open>Reachable machines\<close>

definition machine_guard :: "machine \<Rightarrow> bool" where
  "machine_guard m \<longleftrightarrow>
     (m_state m = Some DisconnectedState \<longrightarrow> locked (m_shared m)) \<and>
     (\<forall>c. m_state m = Some (ErrorState c) \<longrightarrow> m_running m \<longrightarrow>
        secured (m_shared m) \<or> (\<exists>tr trs. m_transitions m = tr # trs \<and> reported tr))"

lemma locked_check [simp]: "locked (reset_connectivity_check w sv) = locked sv"
  by (simp add: locked_def)

lemma machine_guard_new: "machine_guard (TunnelStateMachine_new w settings ids connectivity k check)"
  by (simp add: TunnelStateMachine_new_def machine_guard_def Let_def DisconnectedState_enter_def
      construct_state_transition_def DisconnectedState_set_firewall_policy_locked)

lemma guard_exit [simp]:
  "secured (sv\<lparr>sv_tunnels := t\<rparr>) = secured sv" "locked (sv\<lparr>sv_tunnels := t\<rparr>) = locked sv"
  by (simp_all add: secured_def installed_def locked_def fw_failed_def)

lemma machine_guard_step: "tsm_step w m m' \<Longrightarrow> machine_guard m \<Longrightarrow> machine_guard m'"
proof (induction rule: tsm_step.induct)
  case (loop listening br m m')
  from loop(1) show ?case
  proof (cases rule: run_stepE)
    case (1 st c rx sv)
    from handle_event_guard [OF 1(3)] 1 loop(2) show ?thesis
      by (auto simp: machine_guard_def)
  qed
qed (auto simp: machine_guard_def)

lemma reachable_guard: "tsm_reachable w m \<Longrightarrow> machine_guard m"
  by (induction rule: tsm_reachable.induct) (auto intro: machine_guard_new machine_guard_step)

end
