(* ===== verification/Tunnel_Commands.thy ===== *)
theory Tunnel_Commands
  imports Tunnel_Invariants
begin

text \<open>
  Commands that carry a completion sender, and NetworkManager's connectivity check.
\<close>

section \<open>Acknowledgements\<close>

fun sender_of :: "tunnel_command \<Rightarrow> sender option" where
  "sender_of (AllowLan _ tx) = Some tx"
| "sender_of (AllowEndpoint _ tx) = Some tx"
| "sender_of (Dns _ tx) = Some tx"
| "sender_of (LockdownMode _ tx) = Some tx"
| "sender_of _ = None"

lemma log_send_done: "Sent tx \<in> set (sv_log (send_done tx sv))"
  by (simp add: send_done_def)

lemma log_disconnect:
  "ConnectingState_disconnect cs after sv = (c, sv') \<Longrightarrow> set (sv_log sv) \<subseteq> set (sv_log sv')"
  "ConnectedState_disconnect cd after sv = (c, sv') \<Longrightarrow> set (sv_log sv) \<subseteq> set (sv_log sv')"
  by (auto simp: ConnectingState_disconnect_def ConnectedState_disconnect_def
      DisconnectingState_enter_def plain_calls Let_def)

definition command_handler :: "world \<Rightarrow> tunnel_state \<Rightarrow> tunnel_command option \<Rightarrow> shared \<Rightarrow> event_consequence \<times> shared" where
  "command_handler w st command sv =
     (case st of
        DisconnectedState \<Rightarrow> DisconnectedState_handle_commands w command sv
      | ConnectingState self \<Rightarrow> ConnectingState_handle_commands w self command sv
      | ConnectedState self \<Rightarrow> ConnectedState_handle_commands w self command sv
      | DisconnectingState self \<Rightarrow> DisconnectingState_handle_commands self command sv
      | ErrorState reason \<Rightarrow> ErrorState_handle_commands w reason command sv)"

text \<open>The exception: a DNS change in the connected state whose firewall update fails.\<close>

definition dns_update_fails :: "world \<Rightarrow> tunnel_state \<Rightarrow> tunnel_command \<Rightarrow> shared \<Rightarrow> bool" where
  "dns_update_fails w st command sv =
     (case (st, command) of
        (ConnectedState self, Dns servers _) \<Rightarrow>
          sv_dns_config sv \<noteq> servers \<and>
          \<not> res_ok (fst (ConnectedState_set_firewall_policy w self (sv\<lparr>sv_dns_config := servers\<rparr>)))
      | _ \<Rightarrow> False)"

lemma command_acknowledged_aux:
  assumes h: "command_handler w st (Some cmd) sv = (c, sv')" and tx: "sender_of cmd = Some tx"
    and ok: "\<not> dns_update_fails w st cmd sv"
  shows "Sent tx \<in> set (sv_log sv')"
proof (cases st)
  case DisconnectedState
  with h tx show ?thesis
    by (cases cmd) (auto simp: command_handler_def DisconnectedState_handle_commands_def Let_def
        log_send_done split: prod.splits if_splits)
next
  case (ConnectingState self)
  with h tx show ?thesis
    by (cases cmd) (auto simp: command_handler_def ConnectingState_handle_commands_def log_send_done
        dest!: log_disconnect split: prod.splits sum.splits if_splits intro: subsetD [OF _ log_send_done])
next
  case (ConnectedState self)
  with h tx ok show ?thesis
    by (cases cmd) (auto simp: command_handler_def ConnectedState_handle_commands_def log_send_done
        set_dns_config_def dns_update_fails_def split: prod.splits sum.splits if_splits)
next
  case (DisconnectingState self)
  with h tx show ?thesis
    by (cases cmd) (auto simp: command_handler_def DisconnectingState_handle_commands_def log_send_done)
next
  case (ErrorState reason)
  with h tx show ?thesis
    by (cases cmd) (auto simp: command_handler_def ErrorState_handle_commands_def Let_def
        log_send_done split: prod.splits if_splits)
qed

lemma dns_update_fails_log:
  assumes "dns_update_fails w (ConnectedState self) (Dns servers tx) sv"
    and "ConnectedState_handle_commands w self (Some (Dns servers tx)) sv = (c, sv')"
  shows "sv_log sv' =
    [TunnelClose (cd_tunnel_close_tx self), ClearRoutingRules, ClearRoutes, DnsResetBeforeRemoval,
     FwApply (get_firewall_policy self (sv\<lparr>sv_dns_config := servers\<rparr>)) False] @ sv_log sv"
  using assms
  by (auto simp: dns_update_fails_def ConnectedState_handle_commands_def set_dns_config_def
      ConnectedState_set_firewall_policy_def apply_policy_def ConnectedState_disconnect_def
      DisconnectingState_enter_def plain_calls Let_def split: prod.splits sum.splits)

section \<open>NetworkManager\<close>

definition nm_inv :: "bool \<Rightarrow> shared \<Rightarrow> bool" where
  "nm_inv check sv \<longleftrightarrow>
     (if sv_connectivity_check_was_enabled sv = Some True then check \<and> \<not> sv_nm_check sv
      else sv_nm_check sv = check)"

definition nm_works :: "world \<Rightarrow> bool" where
  "nm_works w \<longleftrightarrow> (\<forall>n. nm_new_ok (w_nm w n) \<and> nm_get_ok (w_nm w n) \<and> nm_set_ok (w_nm w n))"

lemma nm_disable: "nm_works w \<Longrightarrow> nm_inv check sv \<Longrightarrow> nm_inv check (disable_connectivity_check w sv)"
  by (auto simp: nm_inv_def nm_works_def disable_connectivity_check_def
      nm_disable_connectivity_check_def Let_def)

lemma nm_reset:
  "nm_works w \<Longrightarrow> nm_inv check sv \<Longrightarrow>
   nm_inv check (reset_connectivity_check w sv) \<and>
   sv_connectivity_check_was_enabled (reset_connectivity_check w sv) = None"
  by (auto simp: nm_inv_def nm_works_def reset_connectivity_check_def
      nm_enable_connectivity_check_def Let_def split: option.splits bool.splits)

lemma nm_record [simp]:
  "nm_inv check (record_effect e sv) = nm_inv check sv"
  "nm_inv check (send_done tx sv) = nm_inv check sv"
  "sv_connectivity_check_was_enabled (send_done tx sv) = sv_connectivity_check_was_enabled sv"
  by (simp_all add: nm_inv_def send_done_def)

lemma nm_update [simp]:
  "nm_inv check (sv\<lparr>sv_allow_lan := a\<rparr>) = nm_inv check sv"
  "nm_inv check (sv\<lparr>sv_lockdown_mode := l\<rparr>) = nm_inv check sv"
  "nm_inv check (sv\<lparr>sv_dns_config := d\<rparr>) = nm_inv check sv"
  "nm_inv check (sv\<lparr>sv_allowed_endpoint := ep\<rparr>) = nm_inv check sv"
  "nm_inv check (sv\<lparr>sv_connectivity := cy\<rparr>) = nm_inv check sv"
  "nm_inv check (sv\<lparr>sv_kernel := k\<rparr>) = nm_inv check sv"
  "nm_inv check (sv\<lparr>sv_clock := t\<rparr>) = nm_inv check sv"
  "nm_inv check (sv\<lparr>sv_tunnels := ts\<rparr>) = nm_inv check sv"
  "nm_inv check (sv\<lparr>sv_next_tunnel := n\<rparr>) = nm_inv check sv"
  by (simp_all add: nm_inv_def)

lemma nm_apply:
  "apply_policy w policy sv = (r, sv') \<Longrightarrow>
   nm_inv check sv' = nm_inv check sv \<and>
   sv_connectivity_check_was_enabled sv' = sv_connectivity_check_was_enabled sv"
  "reset_policy w sv = (r, sv') \<Longrightarrow>
   nm_inv check sv' = nm_inv check sv \<and>
   sv_connectivity_check_was_enabled sv' = sv_connectivity_check_was_enabled sv"
  by (auto simp: apply_policy_def reset_policy_def split: prod.splits)

lemma nm_Disconnected_policy [simp]:
  "nm_inv check (DisconnectedState_set_firewall_policy w b sv) = nm_inv check sv"
  "sv_connectivity_check_was_enabled (DisconnectedState_set_firewall_policy w b sv) =
   sv_connectivity_check_was_enabled sv"
  using nm_apply [of w] by (auto simp: DisconnectedState_set_firewall_policy_def)
    (metis prod.collapse)+

lemma nm_firewall:
  assumes "nm_works w" and "nm_inv check sv"
  shows "ErrorState_set_firewall_policy w sv = (r, sv') \<Longrightarrow> nm_inv check sv'"
    and "ConnectingState_set_firewall_policy w p md t sv = (e, sv') \<Longrightarrow> nm_inv check sv'"
    and "ConnectedState_set_firewall_policy w cd sv = (e', sv') \<Longrightarrow> nm_inv check sv'"
  using assms(2) nm_disable [OF assms]
  by (auto simp: ErrorState_set_firewall_policy_def ConnectingState_set_firewall_policy_def
      ConnectedState_set_firewall_policy_def Let_def dest!: nm_apply [where check = check]
      split: prod.splits sum.splits)

text \<open>The disconnected state is left with NetworkManager's setting restored.\<close>

definition nm_entered :: "bool \<Rightarrow> tunnel_state \<Rightarrow> shared \<Rightarrow> bool" where
  "nm_entered check st sv \<longleftrightarrow>
     nm_inv check sv \<and> (st = DisconnectedState \<longrightarrow> sv_connectivity_check_was_enabled sv = None)"

lemma nm_entered_simps [simp]:
  "nm_entered check (ErrorState c) sv = nm_inv check sv"
  "nm_entered check (ConnectingState cs) sv = nm_inv check sv"
  "nm_entered check (ConnectedState cd) sv = nm_inv check sv"
  "nm_entered check (DisconnectingState dg) sv = nm_inv check sv"
  by (simp_all add: nm_entered_def)

fun nm_consequence :: "bool \<Rightarrow> event_consequence \<Rightarrow> shared \<Rightarrow> bool" where
  "nm_consequence check (NewState (st, tr)) sv = nm_entered check st sv"
| "nm_consequence check (SameState st) sv = nm_entered check st sv"
| "nm_consequence check Finished sv = nm_inv check sv"

lemma nm_enter:
  assumes works: "nm_works w" and inv: "nm_inv check sv"
  shows "ErrorState_enter w cause sv = ((st, tr), sv') \<Longrightarrow> nm_entered check st sv'"
    and "DisconnectedState_enter w b sv = ((st, tr), sv') \<Longrightarrow> nm_entered check st sv'"
    and "DisconnectingState_enter tx ev after sv = ((st, tr), sv') \<Longrightarrow> nm_entered check st sv'"
proof -
  show "ErrorState_enter w cause sv = ((st, tr), sv') \<Longrightarrow> nm_entered check st sv'"
    using nm_firewall(1) [OF assms]
    by (auto simp: ErrorState_enter_def nm_entered_def Let_def split: prod.splits)
  show "DisconnectedState_enter w b sv = ((st, tr), sv') \<Longrightarrow> nm_entered check st sv'"
    using nm_reset [OF works, of check "DisconnectedState_set_firewall_policy w b sv"] inv
    by (auto simp: DisconnectedState_enter_def construct_state_transition_def nm_entered_def Let_def)
  show "DisconnectingState_enter tx ev after sv = ((st, tr), sv') \<Longrightarrow> nm_entered check st sv'"
    using inv by (auto simp: DisconnectingState_enter_def nm_entered_def Let_def)
qed

lemma nm_enter_connecting:
  assumes works: "nm_works w" and inv: "nm_inv check sv"
    and enter: "ConnectingState_enter w retry sv = ((st, tr), sv')"
  shows "nm_entered check st sv'"
proof -
  have start: "nm_entered check (ConnectingState cs) sv2"
    if "start_tunnel p n sv1 = (cs, sv2)" "nm_inv check sv1" for p n sv1 cs sv2
    using that by (auto simp: start_tunnel_def nm_entered_def Let_def)
  show ?thesis
    using enter inv
    by (auto simp: ConnectingState_enter_def generate_parameters_def
        elim!: nm_enter(1) [OF works, rotated] start nm_firewall(2) [OF works, rotated]
        split: option.splits sum.splits prod.splits)
qed

lemma nm_enter_connected:
  assumes works: "nm_works w" and inv: "nm_inv check sv"
    and enter: "ConnectedState_enter w md events params ev tx sv = ((st, tr), sv')"
  shows "nm_entered check st sv'"
proof -
  have dns: "nm_inv check sv2" if "ConnectedState_set_dns w cd sv1 = (b, sv2)" "nm_inv check sv1"
    for cd sv1 b sv2
    using that by (auto simp: ConnectedState_set_dns_def dns_set_def Let_def)
  show ?thesis
    using enter inv
    by (auto simp: ConnectedState_enter_def Let_def
        elim!: nm_enter(3) [OF works, rotated] nm_firewall(3) [OF works, rotated] dns
        split: sum.splits prod.splits bool.splits)
qed

lemma nm_newstate:
  assumes "apfst NewState x = (c, sv')" and "\<And>st tr. x = ((st, tr), sv') \<Longrightarrow> nm_entered check st sv'"
  shows "nm_consequence check c sv'"
  using assms by (cases x) auto

lemma nm_disconnect:
  "ConnectingState_disconnect cs after sv = (c, sv') \<Longrightarrow> nm_inv check sv \<Longrightarrow> nm_consequence check c sv'"
  "ConnectedState_disconnect cd after sv = (c, sv') \<Longrightarrow> nm_inv check sv \<Longrightarrow> nm_consequence check c sv'"
  by (auto simp: ConnectingState_disconnect_def ConnectedState_disconnect_def
      DisconnectingState_enter_def plain_calls Let_def)

lemma nm_send_done [simp]: "nm_consequence check c (send_done tx sv) = nm_consequence check c sv"
  by (cases c) (auto simp: nm_entered_def)

lemma nm_reset_firewall:
  assumes works: "nm_works w"
  shows "ConnectingState_reset_firewall w self sv = (c, sv') \<Longrightarrow> nm_inv check sv \<Longrightarrow>
    nm_consequence check c sv'"
  by (auto simp: ConnectingState_reset_firewall_def
      elim!: nm_disconnect nm_firewall(2) [OF works, rotated] split: prod.splits sum.splits)

lemma nm_settings [simp]:
  "nm_inv check (snd (set_allow_lan a sv)) = nm_inv check sv"
  "nm_inv check (snd (set_dns_config d sv)) = nm_inv check sv"
  by (simp_all add: set_allow_lan_def set_dns_config_def)

lemma nm_settingsD:
  "set_allow_lan a sv = (b, sv') \<Longrightarrow> nm_inv check sv' = nm_inv check sv"
  "set_dns_config d sv = (b, sv') \<Longrightarrow> nm_inv check sv' = nm_inv check sv"
  by (auto simp: set_allow_lan_def set_dns_config_def split: if_splits)

lemma nm_ConnectingState_commands:
  assumes works: "nm_works w" and h: "ConnectingState_handle_commands w self command sv = (c, sv')"
    and inv: "nm_inv check sv"
  shows "nm_consequence check c sv'"
  using h inv
  by (auto simp: ConnectingState_handle_commands_def Let_def
      dest!: nm_settingsD [where check = check]
      elim!: nm_disconnect nm_reset_firewall [OF works] nm_firewall(2) [OF works, rotated]
      split: option.splits tunnel_command.splits if_splits prod.splits sum.splits)

lemma nm_ConnectedState_commands:
  assumes works: "nm_works w" and h: "ConnectedState_handle_commands w self command sv = (c, sv')"
    and inv: "nm_inv check sv"
  shows "nm_consequence check c sv'"
proof -
  have dns: "nm_inv check sv2" if "ConnectedState_set_dns w cd sv1 = (b, sv2)" "nm_inv check sv1"
    for cd sv1 b sv2
    using that by (auto simp: ConnectedState_set_dns_def dns_set_def Let_def)
  show ?thesis
    using h inv
    by (auto simp: ConnectedState_handle_commands_def Let_def
        dest!: nm_settingsD [where check = check]
        elim!: nm_disconnect nm_firewall(3) [OF works, rotated] dns
        split: option.splits tunnel_command.splits if_splits prod.splits sum.splits bool.splits)
qed

lemma nm_events:
  assumes works: "nm_works w" and inv: "nm_inv check sv"
  shows "ConnectingState_handle_tunnel_events w self event sv = (c, sv') \<Longrightarrow> nm_consequence check c sv'"
    and "ConnectedState_handle_tunnel_events cd event sv = (c, sv') \<Longrightarrow> nm_consequence check c sv'"
    and "ConnectingState_handle_tunnel_close_event w self reason sv = (c, sv') \<Longrightarrow> nm_consequence check c sv'"
    and "ConnectedState_handle_tunnel_close_event w cd reason sv = (c, sv') \<Longrightarrow> nm_consequence check c sv'"
    and "apfst NewState (DisconnectingState_after_disconnect w dg reason sv) = (c, sv') \<Longrightarrow>
         nm_consequence check c sv'"
  using inv
  by (auto simp: ConnectingState_handle_tunnel_events_def ConnectedState_handle_tunnel_events_def
      ConnectingState_handle_tunnel_close_event_def ConnectedState_handle_tunnel_close_event_def
      DisconnectingState_after_disconnect_def plain_calls Let_def
      elim!: nm_newstate nm_disconnect nm_reset_firewall [OF works] nm_enter [OF works, rotated]
        nm_enter_connecting [OF works, rotated] nm_enter_connected [OF works, rotated]
      split: option.splits tunnel_event.splits after_disconnect.splits)

lemma nm_Disconnecting_commands:
  assumes "DisconnectingState_handle_commands dg command sv = (c, sv')" and "nm_inv check sv"
  shows "nm_consequence check c sv'"
  using assms
  by (auto simp: DisconnectingState_handle_commands_def Let_def
      split: option.splits tunnel_command.splits prod.splits)

lemma nm_ErrorState_firewall:
  "nm_works w \<Longrightarrow> nm_inv check sv \<Longrightarrow> nm_inv check (snd (ErrorState_set_firewall_policy w sv))"
  by (cases "ErrorState_set_firewall_policy w sv") (auto dest: nm_firewall(1))

lemma nm_ErrorState_commands:
  assumes works: "nm_works w" and inv: "nm_inv check sv"
    and h: "ErrorState_handle_commands w reason command sv = (c, sv')"
  shows "nm_consequence check c sv'"
  using h inv nm_reset [OF works inv]
  by (auto simp: ErrorState_handle_commands_def plain_calls Let_def nm_ErrorState_firewall [OF works]
      dest!: nm_settingsD [where check = check]
      elim!: nm_newstate nm_enter [OF works, rotated] nm_enter_connecting [OF works, rotated]
      split: option.splits tunnel_command.splits prod.splits if_splits)

lemma nm_DisconnectedState_commands:
  assumes works: "nm_works w" and inv: "nm_entered check DisconnectedState sv"
    and h: "DisconnectedState_handle_commands w command sv = (c, sv')"
  shows "nm_consequence check c sv'"
  using h inv
  by (auto simp: DisconnectedState_handle_commands_def plain_calls Let_def nm_entered_def
      set_allow_lan_def set_dns_config_def construct_state_transition_def
      elim!: nm_newstate nm_enter_connecting [OF works, rotated, unfolded nm_entered_def]
      split: option.splits tunnel_command.splits if_splits)

lemma nm_handle_event:
  assumes works: "nm_works w" and inv: "nm_entered check st sv"
    and h: "handle_event w br exits st rx sv = Some (c, rx', sv')"
  shows "nm_consequence check c sv'"
  using h inv
  by (cases st)
    (auto simp: ConnectingState_handle_event_def ConnectedState_handle_event_def
      DisconnectingState_handle_event_def Let_def
      elim!: nm_DisconnectedState_commands [OF works, rotated] nm_ErrorState_commands [OF works, rotated]
        nm_ConnectingState_commands [OF works] nm_ConnectedState_commands [OF works]
        nm_Disconnecting_commands nm_events [OF works, rotated]
      split: branch.splits option.splits prod.splits event_result.splits)

definition machine_nm :: "bool \<Rightarrow> machine \<Rightarrow> bool" where
  "machine_nm check m \<longleftrightarrow>
     (case m_state m of
        None \<Rightarrow> nm_inv check (m_shared m)
      | Some st \<Rightarrow> nm_entered check st (m_shared m))"

lemma machine_nm_new:
  assumes "nm_works w"
  shows "machine_nm check (TunnelStateMachine_new w settings ids connectivity k check)"
proof -
  let ?sv = "initial_shared settings ids connectivity k check"
  obtain st tr sv' where enter: "DisconnectedState_enter w (is_reset_firewall settings) ?sv = ((st, tr), sv')"
    by (metis prod.exhaust)
  have "nm_inv check ?sv" by (simp add: nm_inv_def initial_shared_def)
  from nm_enter(2) [OF assms this enter] enter show ?thesis
    by (simp add: TunnelStateMachine_new_def machine_nm_def)
qed

lemma machine_nm_step:
  assumes works: "nm_works w"
  shows "tsm_step w m m' \<Longrightarrow> machine_nm check m \<Longrightarrow> machine_nm check m'"
proof (induction rule: tsm_step.induct)
  case (loop listening br m m')
  from loop(1) show ?case
  proof (cases rule: run_stepE)
    case (1 st c rx sv)
    with loop(2) have "nm_consequence check c sv"
      by (intro nm_handle_event [OF works _ 1(3)]) (simp add: machine_nm_def)
    with 1 show ?thesis by (auto simp: machine_nm_def)
  qed
qed (auto simp: machine_nm_def nm_entered_def split: option.splits)

lemma reachable_nm:
  assumes "nm_works w"
    and "(tsm_step w)\<^sup>*\<^sup>* (TunnelStateMachine_new w settings ids connectivity k check) m"
  shows "machine_nm check m"
  using assms(2) by (induction rule: rtranclp_induct) (auto intro: machine_nm_new machine_nm_step assms(1))

end
