(* ===== verification/Tunnel_Follow.thy ===== *)
theory Tunnel_Follow
  imports Tunnel_Guard Tunnel_Commands
begin

text \<open>
  The tunnel state machine follows its commands: once it has handled all of them, local network sharing, lockdown mode and DNS are as the last command for each
  says, and after a request to connect it does not stay disconnected until there is a request to disconnect.
\<close>

section \<open>What commands ask for\<close>

type_synonym told_values = "bool \<times> bool \<times> dns_config"

definition machine_values :: "shared \<Rightarrow> told_values" where
  "machine_values sv = (sv_allow_lan sv, lockdown_bool (sv_lockdown_mode sv), sv_dns_config sv)"

fun tell :: "tunnel_command \<Rightarrow> told_values \<Rightarrow> told_values" where
  "tell (AllowLan lan _) (_, lockdown, dns) = (lan, lockdown, dns)"
| "tell (LockdownMode m _) (lan, _, dns) = (lan, lockdown_bool m, dns)"
| "tell (Dns servers _) (lan, lockdown, _) = (lan, lockdown, servers)"
| "tell _ v = v"

fun wanted :: "tunnel_command \<Rightarrow> bool \<Rightarrow> bool" where
  "wanted Connect b = True"
| "wanted Disconnect b = False"
| "wanted _ b = b"

fun state_wants :: "tunnel_state \<Rightarrow> bool" where
  "state_wants DisconnectedState = False"
| "state_wants (DisconnectingState self) = (dg_after_disconnect self \<noteq> AfterNothing)"
| "state_wants _ = True"

lemma fold_wanted_mono: "(a \<longrightarrow> b) \<Longrightarrow> fold wanted cs a \<Longrightarrow> fold wanted cs b"
proof (induction cs arbitrary: a b)
  case (Cons c cs)
  then show ?case by (cases c) auto
qed simp

section \<open>Entering a state\<close>

lemma machine_values_frame [simp]:
  "machine_values (record_effect e sv) = machine_values sv"
  "machine_values (sv\<lparr>sv_connectivity := cn\<rparr>) = machine_values sv"
  "machine_values (sv\<lparr>sv_allowed_endpoint := ae\<rparr>) = machine_values sv"
  "machine_values (sv\<lparr>sv_kernel := k\<rparr>) = machine_values sv"
  "machine_values (sv\<lparr>sv_clock := n\<rparr>) = machine_values sv"
  "machine_values (sv\<lparr>sv_next_tunnel := n\<rparr>) = machine_values sv"
  "machine_values (sv\<lparr>sv_tunnels := ts\<rparr>) = machine_values sv"
  by (simp_all add: machine_values_def)

lemma frame_values: "frame sv sv' \<Longrightarrow> machine_values sv' = machine_values sv"
  by (simp add: frame_def machine_values_def)

lemma values_checks [simp]:
  "machine_values (disable_connectivity_check w sv) = machine_values sv"
  "machine_values (reset_connectivity_check w sv) = machine_values sv"
  "machine_values (DisconnectedState_set_firewall_policy w reset sv) = machine_values sv"
  by (rule frame_values, simp add: DisconnectedState_set_firewall_policy_frame)+

lemma values_policy: "apply_policy w policy sv = (r, sv') \<Longrightarrow> machine_values sv' = machine_values sv"
  by (auto simp: apply_policy_def split: prod.splits)

lemma values_policies:
  "ErrorState_set_firewall_policy w sv = (re, sv') \<Longrightarrow> machine_values sv' = machine_values sv"
  "ConnectingState_set_firewall_policy w params md traffic sv = (re, sv') \<Longrightarrow> machine_values sv' = machine_values sv"
  "ConnectedState_set_firewall_policy w cd sv = (re, sv') \<Longrightarrow> machine_values sv' = machine_values sv"
  by (auto simp: ErrorState_set_firewall_policy_def ConnectingState_set_firewall_policy_def ConnectedState_set_firewall_policy_def
      Let_def split: prod.splits sum.splits dest!: values_policy)

lemma values_error_policy [simp]: "machine_values (snd (ErrorState_set_firewall_policy w sv)) = machine_values sv"
  by (rule values_policies(1) [OF prod.collapse [symmetric]])

definition follows :: "told_values \<Rightarrow> bool \<Rightarrow> event_consequence \<times> shared \<Rightarrow> bool" where
  "follows v b r =
     (machine_values (snd r) = v \<and>
      (case fst r of NewState n \<Rightarrow> b \<longrightarrow> state_wants (fst n) | SameState st \<Rightarrow> b \<longrightarrow> state_wants st | Finished \<Rightarrow> False))"

lemma follows_simps [simp]:
  "follows v b (apfst NewState n) = (machine_values (snd n) = v \<and> (b \<longrightarrow> state_wants (fst (fst n))))"
  "follows v b (NewState n', sv) = (machine_values sv = v \<and> (b \<longrightarrow> state_wants (fst n')))"
  "follows v b (SameState st, sv) = (machine_values sv = v \<and> (b \<longrightarrow> state_wants st))"
  by (simp_all add: follows_def)

lemma enter_values [simp]:
  "machine_values (snd (ErrorState_enter w cause sv)) = machine_values sv"
  "state_wants (fst (fst (ErrorState_enter w cause sv)))"
  "machine_values (snd (DisconnectedState_enter w reset sv)) = machine_values sv"
  "machine_values (snd (DisconnectingState_enter tx ev after sv)) = machine_values sv"
  "state_wants (fst (fst (DisconnectingState_enter tx ev after sv))) = (after \<noteq> AfterNothing)"
  by (auto simp: ErrorState_enter_def DisconnectedState_enter_def DisconnectingState_enter_def Let_def
      dest!: values_policies split: prod.split)

lemma connecting_enter_values [simp]:
  "machine_values (snd (ConnectingState_enter w retry sv)) = machine_values sv"
  "state_wants (fst (fst (ConnectingState_enter w retry sv)))"
  by (auto simp: ConnectingState_enter_def generate_parameters_def start_tunnel_def Let_def
      split: option.split sum.split prod.split dest!: values_policies)

lemma connected_enter_values [simp]:
  "machine_values (snd (ConnectedState_enter w md ev params cev ctx sv)) = machine_values sv"
  "state_wants (fst (fst (ConnectedState_enter w md ev params cev ctx sv)))"
  by (auto simp: ConnectedState_enter_def ConnectedState_set_dns_def dns_set_def Let_def
      dest!: values_policies split: sum.split prod.split bool.split)

lemma values_settings:
  "set_allow_lan lan sv = (changed, sv') \<Longrightarrow> machine_values sv' = tell (AllowLan lan 0) (machine_values sv)"
  "set_dns_config dns sv = (changed, sv') \<Longrightarrow> machine_values sv' = tell (Dns dns 0) (machine_values sv)"
  by (auto simp: set_allow_lan_def set_dns_config_def machine_values_def split: if_splits)

lemma values_settings_snd [simp]:
  "machine_values (snd (set_allow_lan lan sv)) = tell (AllowLan lan 0) (machine_values sv)"
  "machine_values (snd (set_dns_config dns sv)) = tell (Dns dns 0) (machine_values sv)"
  "machine_values (sv\<lparr>sv_lockdown_mode := m\<rparr>) = tell (LockdownMode m 0) (machine_values sv)"
  by (simp_all add: set_allow_lan_def set_dns_config_def machine_values_def)

lemma tell_sender [simp]:
  "NO_MATCH 0 tx \<Longrightarrow> tell (AllowLan lan tx) v = tell (AllowLan lan 0) v"
  "NO_MATCH 0 tx \<Longrightarrow> tell (LockdownMode m tx) v = tell (LockdownMode m 0) v"
  "NO_MATCH 0 tx \<Longrightarrow> tell (Dns dns tx) v = tell (Dns dns 0) v"
  by (cases v, simp)+

section \<open>Commands\<close>

lemma disconnect_follows [simp]:
  "follows v b (ConnectingState_disconnect cs after sv) = (machine_values sv = v \<and> (b \<longrightarrow> after \<noteq> AfterNothing))"
  "follows v b (ConnectedState_disconnect cd after sv) = (machine_values sv = v \<and> (b \<longrightarrow> after \<noteq> AfterNothing))"
  by (simp_all add: ConnectingState_disconnect_def ConnectedState_disconnect_def plain_calls Let_def)

lemma reset_firewall_follows [simp]:
  "follows v b (ConnectingState_reset_firewall w cs sv) = (machine_values sv = v)"
  by (auto simp: ConnectingState_reset_firewall_def dest!: values_policies split: prod.split sum.split)

lemma tell_lockdown_same:
  "lockdown_eq (sv_lockdown_mode sv) m \<Longrightarrow> tell (LockdownMode m 0) (machine_values sv) = machine_values sv"
  by (simp add: lockdown_eq_def machine_values_def)

lemma tell_others [simp]:
  "tell (AllowEndpoint e tx) v = v" "tell (Connectivity cn) v = v" "tell Connect v = v" "tell Disconnect v = v" "tell (Block r) v = v"
  by (cases v, simp)+

lemma disconnected_follows:
  "follows (tell c (machine_values sv)) (wanted c False) (DisconnectedState_handle_commands w (Some c) sv)"
  by (cases c)
    (auto simp: DisconnectedState_handle_commands_def Let_def plain_calls tell_lockdown_same
      dest!: values_settings split: prod.split)

lemma error_follows:
  "follows (tell c (machine_values sv)) (wanted c True) (ErrorState_handle_commands w cause (Some c) sv)"
  by (cases c)
    (auto simp: ErrorState_handle_commands_def Let_def plain_calls dest!: values_settings split: prod.split)

lemma disconnecting_follows:
  "follows (tell c (machine_values sv)) (wanted c (state_wants (DisconnectingState self))) (DisconnectingState_handle_commands self (Some c) sv)"
  by (cases c)
    (auto simp: DisconnectingState_handle_commands_def Let_def plain_calls split: prod.split after_disconnect.split error_state_cause.split)

lemma follows_record [simp]: "follows v b (c, record_effect e sv) = follows v b (c, sv)"
  by (simp add: follows_def)

lemma follows_equations:
  "ConnectingState_reset_firewall w cs sv = (c, sv') \<Longrightarrow> follows v b (c, sv') = (machine_values sv = v)"
  "ConnectingState_disconnect cs after sv = (c, sv') \<Longrightarrow> follows v b (c, sv') = (machine_values sv = v \<and> (b \<longrightarrow> after \<noteq> AfterNothing))"
  "ConnectedState_disconnect cd after sv = (c, sv') \<Longrightarrow> follows v b (c, sv') = (machine_values sv = v \<and> (b \<longrightarrow> after \<noteq> AfterNothing))"
  by (metis reset_firewall_follows, metis disconnect_follows(1), metis disconnect_follows(2))

lemma connecting_follows:
  "follows (tell c (machine_values sv)) (wanted c True) (ConnectingState_handle_commands w self (Some c) sv)"
  by (cases c)
    (auto simp: ConnectingState_handle_commands_def Let_def plain_calls follows_equations dest!: values_settings values_policies
      split: prod.split sum.split)

lemma connected_follows:
  "follows (tell c (machine_values sv)) (wanted c True) (ConnectedState_handle_commands w self (Some c) sv)"
  by (cases c)
    (auto simp: ConnectedState_handle_commands_def ConnectedState_set_dns_def dns_set_def Let_def plain_calls follows_equations
      dest!: values_settings values_policies split: prod.splits sum.splits bool.splits if_splits)

section \<open>Other events\<close>

lemma tunnel_events_follow:
  "follows (machine_values sv) True (ConnectingState_handle_tunnel_events w cs event sv)"
  "follows (machine_values sv) True (ConnectingState_handle_tunnel_close_event w cs reason sv)"
  "follows (machine_values sv) True (ConnectedState_handle_tunnel_events cd event sv)"
  "follows (machine_values sv) True (ConnectedState_handle_tunnel_close_event w cd reason sv)"
  by (auto simp: ConnectingState_handle_tunnel_events_def ConnectingState_handle_tunnel_close_event_def
      ConnectedState_handle_tunnel_events_def ConnectedState_handle_tunnel_close_event_def Let_def plain_calls
      split: option.split tunnel_event.split)

lemma after_disconnect_follows:
  "machine_values (snd (DisconnectingState_after_disconnect w self reason sv)) = machine_values sv"
  "dg_after_disconnect self \<noteq> AfterNothing \<Longrightarrow> state_wants (fst (fst (DisconnectingState_after_disconnect w self reason sv)))"
  by (auto simp: DisconnectingState_after_disconnect_def split: option.split after_disconnect.split)

lemma handlers_follow:
  "DisconnectedState_handle_commands w (Some cmd) sv = r \<Longrightarrow> follows (tell cmd (machine_values sv)) (wanted cmd False) r"
  "ErrorState_handle_commands w cause (Some cmd) sv = r \<Longrightarrow> follows (tell cmd (machine_values sv)) (wanted cmd True) r"
  "ConnectingState_handle_commands w cs (Some cmd) sv = r \<Longrightarrow> follows (tell cmd (machine_values sv)) (wanted cmd True) r"
  "ConnectedState_handle_commands w cd (Some cmd) sv = r \<Longrightarrow> follows (tell cmd (machine_values sv)) (wanted cmd True) r"
  "DisconnectingState_handle_commands dg (Some cmd) sv = r \<Longrightarrow>
     follows (tell cmd (machine_values sv)) (wanted cmd (dg_after_disconnect dg \<noteq> AfterNothing)) r"
  "ConnectingState_handle_tunnel_events w cs event sv = r \<Longrightarrow> follows (machine_values sv) True r"
  "ConnectingState_handle_tunnel_close_event w cs reason sv = r \<Longrightarrow> follows (machine_values sv) True r"
  "ConnectedState_handle_tunnel_events cd event sv = r \<Longrightarrow> follows (machine_values sv) True r"
  "ConnectedState_handle_tunnel_close_event w cd reason sv = r \<Longrightarrow> follows (machine_values sv) True r"
  "apfst NewState (DisconnectingState_after_disconnect w dg reason sv) = r \<Longrightarrow>
     follows (machine_values sv) (dg_after_disconnect dg \<noteq> AfterNothing) r"
  using disconnected_follows error_follows connecting_follows connected_follows disconnecting_follows tunnel_events_follow
  by (auto simp: after_disconnect_follows)

text \<open>
  An event is a command from the queue or something else; the sender of commands is there.
\<close>

lemma handle_event_follows:
  assumes "handle_event w br exits st rx sv = Some (c, rx', sv')" and "state_inv exits sv st" and "rx_open rx" and "\<not> rx_done rx"
  shows "rx_open rx' \<and> \<not> rx_done rx' \<and>
    (rx_queue rx' = rx_queue rx \<and> follows (machine_values sv) (state_wants st) (c, sv') \<or>
     (\<exists>cmd. rx_queue rx = cmd # rx_queue rx' \<and> follows (tell cmd (machine_values sv)) (wanted cmd (state_wants st)) (c, sv')))"
proof -
  have next_cases: "(\<exists>cmd rest. rx_queue rx = cmd # rest \<and> commands_next rx = Some (Some cmd, rx\<lparr>rx_queue := rest\<rparr>)) \<or> commands_next rx = None"
    using assms(3,4) by (auto simp: commands_next_def split: list.split)
  show ?thesis
    using assms next_cases
    by (cases st)
      (auto simp: ConnectingState_handle_event_def ConnectedState_handle_event_def DisconnectingState_handle_event_def
        DisconnectingState_result_def select3_def select_command_def select_close_def terminate_def Let_def owns_def
        split: branch.splits prod.splits if_splits dest!: handlers_follow)
qed

section \<open>Runs\<close>

text \<open>A run of the machine whose sender of commands is there, with the commands sent so far.\<close>

inductive machine_run :: "world \<Rightarrow> initial_tunnel_state \<Rightarrow> tunnel_command list \<Rightarrow> machine \<Rightarrow> bool" for w settings where
  run_start: "machine_run w settings [] (TunnelStateMachine_new w settings ids connectivity k check)"
| run_sent: "machine_run w settings cs m \<Longrightarrow>
    machine_run w settings (cs @ [c]) (m\<lparr>m_commands := (m_commands m)\<lparr>rx_queue := rx_queue (m_commands m) @ [c]\<rparr>\<rparr>)"
| run_exit: "machine_run w settings cs m \<Longrightarrow> n \<in> set (sv_tunnels (m_shared m)) \<Longrightarrow>
    machine_run w settings cs (m\<lparr>m_shared := (m_shared m)\<lparr>sv_tunnels := remove1 n (sv_tunnels (m_shared m))\<rparr>,
      m_exits := (m_exits m)(n := Some r)\<rparr>)"
| run_loop: "machine_run w settings cs m \<Longrightarrow> run_step w listening br m = Some m' \<Longrightarrow> machine_run w settings cs m'"

definition initial_values :: "initial_tunnel_state \<Rightarrow> told_values" where
  "initial_values settings = (is_allow_lan settings, lockdown_bool (is_lockdown_mode settings), is_dns_config settings)"

definition caught_up :: "told_values \<Rightarrow> tunnel_command list \<Rightarrow> machine \<Rightarrow> bool" where
  "caught_up v cs m =
     (rx_open (m_commands m) \<and> \<not> rx_done (m_commands m) \<and>
      fold tell (rx_queue (m_commands m)) (machine_values (m_shared m)) = fold tell cs v \<and>
      (\<exists>st. m_state m = Some st \<and> (fold wanted cs False \<longrightarrow> fold wanted (rx_queue (m_commands m)) (state_wants st))))"

lemma caught_up_start: "caught_up (initial_values settings) [] (TunnelStateMachine_new w settings ids connectivity k check)"
  using enter_values(3) [of w "is_reset_firewall settings" "initial_shared settings ids connectivity k check"]
  by (auto simp: caught_up_def TunnelStateMachine_new_def initial_values_def initial_shared_def machine_values_def split: prod.splits)

lemma caught_up_loop:
  assumes "caught_up v cs m" and "run_step w listening br m = Some m'" and "tsm_reachable w m"
  shows "caught_up v cs m'"
proof -
  obtain st c rx sv where st: "m_state m = Some st" and
    h: "handle_event w br (m_exits m) st (m_commands m) (m_shared m) = Some (c, rx, sv)" and
    m': "m_commands m' = rx" "m_shared m' = sv" and
    c: "(\<exists>st tr. c = NewState (st, tr) \<and> m_state m' = Some st) \<or> (\<exists>st. c = SameState st \<and> m_state m' = Some st) \<or> c = Finished"
    by (rule run_stepE [OF assms(2)]) blast
  have "state_inv (m_exits m) (m_shared m) st" using reachable_inv [OF assms(3)] st by (simp add: machine_inv_def)
  from handle_event_follows [OF h this] assms(1) st m' c show ?thesis
    by (auto simp: caught_up_def follows_def elim: fold_wanted_mono [rotated])
qed

lemma machine_run_caught_up: "machine_run w settings cs m \<Longrightarrow> tsm_reachable w m \<and> caught_up (initial_values settings) cs m"
proof (induction rule: machine_run.induct)
  case (run_start ids connectivity k check)
  then show ?case by (simp add: caught_up_start tsm_reachable.start)
next
  case (run_sent cs m c)
  then have "tsm_step w m (m\<lparr>m_commands := (m_commands m)\<lparr>rx_queue := rx_queue (m_commands m) @ [c]\<rparr>\<rparr>)"
    by (intro tsm_step.send_command) (simp add: caught_up_def)
  with run_sent show ?case
    by (cases c) (auto simp: caught_up_def intro: tsm_reachable.step)
next
  case (run_exit cs m n r)
  then show ?case by (auto simp: caught_up_def intro: tsm_reachable.step tsm_step.tunnel_exit)
next
  case (run_loop cs m listening br m')
  then show ?case by (auto intro: caught_up_loop tsm_reachable.step tsm_step.loop)
qed

end
