(* ===== verification/Settings_Properties.thy ===== *)
theory Settings_Properties
  imports Settings
begin

text \<open>
  Properties of the settings: what is in memory is what a restart loads, failed operations change nothing,
  settings that cannot be read block the internet, a patch changes the relay overrides and nothing else, an
  exported patch brings the overrides back, and the target state survives a crash.
\<close>

section \<open>The persister\<close>

text \<open>A beta version always shows beta releases.\<close>

definition force_beta :: "bool \<Rightarrow> user_settings \<Rightarrow> user_settings" where
  "force_beta beta s = (if beta then s\<lparr>us_show_beta_releases := True\<rparr> else s)"

text \<open>
  What can happen to a persister: it is loaded, settings are updated, with success or not, and they are reset,
  with success.
\<close>

inductive persister_reach :: "'b settings_codec \<Rightarrow> bool \<Rightarrow> 'b settings_persister \<Rightarrow> bool" for c beta where
  reach_load: "persister_reach c beta (persister_load c beta ids o' stored)"
| reach_update: "persister_reach c beta p \<Longrightarrow> persister_reach c beta (snd (persister_try_update c o' update_fn p))"
| reach_reset: "persister_reach c beta p \<Longrightarrow> persister_reset c beta ids o' remove_ok p = (Inr (), p') \<Longrightarrow> persister_reach c beta p'"

text \<open>
  A restart that draws the identifiers \<open>ids\<close> loads what is in memory. If there is no file that can be read, because
  the defaults could not be saved, these are defaults again: all is the same but the identifiers of the built-in
  access methods, which are new.
\<close>

definition readable :: "'b settings_codec \<Rightarrow> 'b file_read \<Rightarrow> bool" where
  "readable c file = (\<exists>s. load_from_file c file = Inr s)"

definition default_methods :: "uuids \<Rightarrow> access_settings" where
  "default_methods = (\<lambda>(u1, u2, u3, u4). access_settings_default u1 u2 u3 u4)"

definition restart_loads :: "'b settings_codec \<Rightarrow> bool \<Rightarrow> uuids \<Rightarrow> 'b settings_persister \<Rightarrow> bool" where
  "restart_loads c beta ids p =
     (if readable c (sp_file p) then fst (load_inner c beta ids (sp_file p)) = force_beta beta (sp_settings p)
      else us_api_access_methods (sp_settings p) \<in> range default_methods \<and>
        fst (load_inner c beta ids (sp_file p)) = (sp_settings p)\<lparr>us_api_access_methods := default_methods ids\<rparr>)"

definition listeners_current :: "'b settings_persister \<Rightarrow> bool" where
  "listeners_current p = (sp_told p \<noteq> [] \<longrightarrow> last (sp_told p) = sp_settings p)"

lemma load_inner_content: "sc_decode c t = Some s \<Longrightarrow> fst (load_inner c beta ids (FileContent t)) = force_beta beta s"
  by (simp add: load_inner_def load_from_file_def force_beta_def)

lemma load_inner_unreadable:
  "\<not> readable c file \<Longrightarrow> fst (load_inner c beta ids file) =
     (if file = FileNotFound then default_settings beta ids else (default_settings beta ids)\<lparr>us_lockdown_mode := True\<rparr>)"
  by (auto simp: load_inner_def readable_def default_settings_def split: sum.splits)

lemma default_settings_ids:
  "us_api_access_methods (default_settings beta ids) = default_methods ids"
  "(default_settings beta ids)\<lparr>us_api_access_methods := default_methods ids'\<rparr> = default_settings beta ids'"
  "(default_settings beta ids)\<lparr>us_lockdown_mode := True, us_api_access_methods := default_methods ids'\<rparr> =
     (default_settings beta ids')\<lparr>us_lockdown_mode := True\<rparr>"
  by (cases ids; cases ids'; simp add: default_settings_def settings_default_def default_methods_def)+

lemma readable_simps [simp]:
  "readable c (FileContent t) = (sc_decode c t \<noteq> None)" "\<not> readable c FileNotFound" "\<not> readable c FileUnreadable"
  by (auto simp: readable_def load_from_file_def of_option_def split: option.splits)

lemma load_inner_readable:
  "readable c file \<Longrightarrow> fst (load_inner c beta ids file) = fst (load_inner c beta ids' file)"
  by (auto simp: load_inner_def readable_def split: prod.splits)

lemma force_beta_default [simp]: "force_beta beta (default_settings beta ids) = default_settings beta ids"
  by (simp add: force_beta_def default_settings_def)

lemma force_beta_load [simp]: "force_beta beta (fst (load_inner c beta ids stored)) = fst (load_inner c beta ids stored)"
  by (simp add: force_beta_def load_inner_def split: prod.split)

lemma atomic_write_cases:
  "atomic_write o' t stored = (True, FileContent t) \<or> atomic_write o' t stored = (False, stored)"
  by (simp add: atomic_write_def)

lemma persister_try_update_cases:
  obtains (same) r where "persister_try_update c o' f p = (r, p)" and "r \<noteq> Inr True"
  | (changed) new where "f (sp_settings p) = Inr new" and "new \<noteq> sp_settings p"
      and "persister_try_update c o' f p =
        (Inr True, notify_listeners (p\<lparr>sp_file := FileContent (sc_encode c new), sp_settings := new\<rparr>))"
proof (cases "f (sp_settings p)")
  case (Inl e)
  then show thesis by (intro same [of "Inl (UpdateFailed e)"]) (simp_all add: persister_try_update_def)
next
  case (Inr new)
  show thesis
  proof (cases "new = sp_settings p")
    case True
    then show thesis by (intro same [of "Inr False"]) (simp_all add: persister_try_update_def Inr)
  next
    case False
    then show thesis
      using atomic_write_cases [of o' "sc_encode c new" "sp_file p"]
      by (elim disjE) (auto simp: persister_try_update_def Inr intro: same [of "Inl SettingsWrite"] changed)
  qed
qed

lemma persister_reset_cases:
  assumes "persister_reset c beta ids o' remove_ok p = (Inr (), p')"
  shows "sp_settings p' = default_settings beta ids" and "sp_told p' = sp_told p @ [default_settings beta ids]"
    and "sp_file p' = FileContent (sc_encode c (default_settings beta ids)) \<or> sp_file p' = FileNotFound"
  using assms atomic_write_cases [of o' "sc_encode c (default_settings beta ids)" "sp_file p"]
  by (auto simp: persister_reset_def Let_def notify_listeners_def split: if_splits)

lemma saved_restart_loads:
  assumes "\<And>s. sc_decode c (sc_encode c s) = Some s" and "sp_file p = FileContent (sc_encode c (sp_settings p))"
  shows "restart_loads c beta ids p"
  using assms load_inner_content [OF assms(1), of beta ids "sp_settings p"] by (simp add: restart_loads_def)

lemma load_restart_loads:
  assumes "\<And>s. sc_decode c (sc_encode c s) = Some s"
  shows "restart_loads c beta ids' (persister_load c beta ids o' stored)"
proof -
  obtain s save where l: "load_inner c beta ids stored = (s, save)" by fastforce
  then have s: "force_beta beta s = s" using force_beta_load [of beta c ids stored] by simp
  have old: "restart_loads c beta ids' \<lparr>sp_settings = s, sp_file = stored, sp_told = []\<rparr>"
  proof (cases "readable c stored")
    case True
    then show ?thesis using load_inner_readable [OF True, of beta ids' ids] l s by (simp add: restart_loads_def)
  next
    case False
    have "s = (if stored = FileNotFound then default_settings beta ids else (default_settings beta ids)\<lparr>us_lockdown_mode := True\<rparr>)"
      using load_inner_unreadable [OF False, of beta ids] l by simp
    with False show ?thesis
      by (auto simp: restart_loads_def load_inner_unreadable default_settings_ids)
  qed
  have new: "restart_loads c beta ids' \<lparr>sp_settings = s, sp_file = FileContent (sc_encode c s), sp_told = []\<rparr>"
    by (rule saved_restart_loads [OF assms]) simp
  show ?thesis
    using atomic_write_cases [of o' "sc_encode c s" stored] l old new by (auto simp: persister_load_def)
qed

lemma update_restart_loads:
  assumes "\<And>s. sc_decode c (sc_encode c s) = Some s" and "restart_loads c beta ids p"
  shows "restart_loads c beta ids (snd (persister_try_update c o' f p))"
  by (rule persister_try_update_cases [of c o' f p])
    (use assms(2) in \<open>auto simp: notify_listeners_def intro!: saved_restart_loads [OF assms(1)]\<close>)

lemma update_listeners_current: "listeners_current p \<Longrightarrow> listeners_current (snd (persister_try_update c o' f p))"
  by (rule persister_try_update_cases [of c o' f p]) (auto simp: listeners_current_def notify_listeners_def)


definition ex_codec :: "user_settings settings_codec" where
  "ex_codec = \<lparr>sc_encode = id, sc_decode = Some\<rparr>"

definition write_works :: write_outcome where
  "write_works = \<lparr>wo_create = True, wo_write = True, wo_sync = True, wo_rename = True\<rparr>"

definition write_fails :: write_outcome where
  "write_fails = \<lparr>wo_create = True, wo_write = True, wo_sync = True, wo_rename = False\<rparr>"


text \<open>
  An update either changes nothing, in memory, in the file and for the listeners, and says that there was an
  error or no change; or the new settings are in memory and in the file and the listeners have been told of them.
\<close>

theorem update_all_or_nothing:
  "case persister_try_update c o' f p of
     (Inr True, p') \<Rightarrow> f (sp_settings p) = Inr (sp_settings p') \<and> sp_settings p' \<noteq> sp_settings p \<and>
       sp_file p' = FileContent (sc_encode c (sp_settings p')) \<and> sp_told p' = sp_told p @ [sp_settings p']
   | (_, p') \<Rightarrow> p' = p"
  by (rule persister_try_update_cases [of c o' f p]) (auto simp: notify_listeners_def split: sum.split bool.split)

text \<open>
  C31. If there is a settings file that cannot be read or parsed, the daemon starts with lockdown mode on, whether
  or not the new settings can be saved.
\<close>

theorem unreadable_settings_block:
  assumes "stored \<noteq> FileNotFound" and "\<And>t s. stored = FileContent t \<Longrightarrow> sc_decode c t \<noteq> Some s"
  shows "us_lockdown_mode (sp_settings (persister_load c beta ids o' stored))"
  using assms by (cases stored) (auto simp: persister_load_def load_inner_def load_from_file_def of_option_def
      split: option.splits)

theorem unreadable_settings_block_witness:
  "us_lockdown_mode (sp_settings (persister_load ex_codec False (1, 2, 3, 4) write_fails FileUnreadable))"
  using unreadable_settings_block [of FileUnreadable ex_codec False "(1, 2, 3, 4)" write_fails] by simp

text \<open>
  A reset that can neither save the defaults nor remove the file reports an error, but has already replaced the
  settings in memory: the file keeps the old settings, and the listeners have not been told of the defaults.
\<close>

theorem failed_reset_replaces_memory:
  assumes "persister_reset c beta ids o' remove_ok p = (Inl e, p')"
  shows "e = SettingsDelete \<and> sp_settings p' = default_settings beta ids \<and> sp_file p' = sp_file p \<and> sp_told p' = sp_told p"
  using assms atomic_write_cases [of o' "sc_encode c (default_settings beta ids)" "sp_file p"]
  by (auto simp: persister_reset_def Let_def split: if_splits)

theorem failed_reset_replaces_memory_witness:
  "sp_told (snd (persister_reset ex_codec False (1, 2, 3, 4) write_fails False
     \<lparr>sp_settings = (settings_default (1, 2, 3, 4))\<lparr>us_lockdown_mode := True\<rparr>, sp_file = FileUnreadable, sp_told = []\<rparr>)) = []"
  using failed_reset_replaces_memory [of ex_codec False "(1, 2, 3, 4)" write_fails False
      "\<lparr>sp_settings = (settings_default (1, 2, 3, 4))\<lparr>us_lockdown_mode := True\<rparr>, sp_file = FileUnreadable, sp_told = []\<rparr>"]
  by (simp add: persister_reset_def atomic_write_def write_fails_def)

section \<open>Recent locations and overrides\<close>

text \<open>
  The recent locations are at most 50, without repetition, and the newest is first: choosing a location
  moves it to the front, the others keep their order, and only the oldest one is lost.
\<close>

theorem recents_bounded:
  assumes "us_recents s = Some rs" and "distinct rs" and "length rs \<le> RECENTS_MAX_COUNT"
    and "recent_try_from (us_relay_settings s) = Inr r"
  shows "\<exists>rs'. us_recents (update_recents s) = Some rs' \<and> distinct rs' \<and> length rs' \<le> RECENTS_MAX_COUNT \<and>
    hd rs' = r \<and> tl rs' = take 49 (filter (\<lambda>x. x \<noteq> r) rs) \<and> (r \<in> set rs \<longrightarrow> set rs' = set rs)"
proof -
  have len: "length (filter (\<lambda>x. x \<noteq> r) rs) \<le> 49" if "r \<in> set rs"
    using that assms(3) length_filter_less [of r rs "\<lambda>x. x \<noteq> r"] by (simp add: RECENTS_MAX_COUNT_def)
  have "r \<notin> set (take n (filter (\<lambda>x. x \<noteq> r) rs))" for n using set_take_subset [of n "filter (\<lambda>x. x \<noteq> r) rs"] by auto
  then show ?thesis
    using assms(1,2,4) len by (auto simp: update_recents_def RECENTS_MAX_COUNT_def)
qed

definition ex_recents :: user_settings where
  "ex_recents = (settings_default (1, 2, 3, 4))\<lparr>us_recents := Some [Singlehop (Location (Country ''no''))]\<rparr>"

theorem recents_bounded_witness:
  "us_recents (update_recents ex_recents) = Some [Singlehop (Location (Country ''se'')), Singlehop (Location (Country ''no''))]"
  using recents_bounded [of ex_recents "[Singlehop (Location (Country ''no''))]" "Singlehop (Location (Country ''se''))"]
  by (simp add: ex_recents_def settings_default_def recent_try_from_def RECENTS_MAX_COUNT_def constraint_option_def update_recents_def)

lemma swap_remove_mset:
  assumes "i < length xs"
  shows "mset xs = add_mset (xs ! i) (mset (swap_remove i xs))"
proof -
  have "xs \<noteq> []" using assms by auto
  then obtain ys y where xs: "xs = ys @ [y]" by (metis append_butlast_last_id)
  show ?thesis
    using assms by (auto simp: xs swap_remove_def nth_append list_update_append mset_update less_Suc_eq)
qed

lemma swap_remove_distinct:
  assumes "i < length xs" and "distinct (map f xs)"
  shows "distinct (map f (swap_remove i xs))" and "set (swap_remove i xs) = {x \<in> set xs. f x \<noteq> f (xs ! i)}"
proof -
  have m: "mset (map f xs) = mset (map f (xs ! i # swap_remove i xs))"
    using swap_remove_mset [OF assms(1)] by simp
  then have d: "distinct (map f (xs ! i # swap_remove i xs))"
    using assms(2) mset_eq_imp_distinct_iff by blast
  then show "distinct (map f (swap_remove i xs))" by simp
  have "set xs = insert (xs ! i) (set (swap_remove i xs))"
    using arg_cong [OF swap_remove_mset [OF assms(1)], of set_mset] by simp
  moreover have "f x \<noteq> f (xs ! i)" if "x \<in> set (swap_remove i xs)" for x
    using d imageI [OF that, of f] by auto
  ultimately show "set (swap_remove i xs) = {x \<in> set xs. f x \<noteq> f (xs ! i)}" by auto
qed

lemma list_update_distinct:
  assumes "i < length xs" and "distinct (map f xs)" and "f (xs ! i) = f y"
  shows "distinct (map f (xs[i := y]))" and "set (xs[i := y]) = insert y {x \<in> set xs. f x \<noteq> f y}"
proof -
  have "map f (xs[i := y]) = map f xs" using assms by (metis list_update_id map_update)
  then show "distinct (map f (xs[i := y]))" using assms(2) by simp
  have "x = xs ! i" if "x \<in> set xs" "f x = f y" for x
    using that assms by (auto simp: distinct_map inj_on_def)
  moreover have "distinct xs" using assms(2) by (simp add: distinct_map)
  ultimately show "set (xs[i := y]) = insert y {x \<in> set xs. f x \<noteq> f y}"
    using assms by (auto simp: set_update_distinct)
qed

text \<open>
  Setting the override of a relay keeps at most one override per host name and those of all other
  relays. An empty override removes the one that there is; it is added if there is none.
\<close>

theorem set_relay_override_exact:
  assumes "distinct (map ro_hostname (us_relay_overrides s))"
  shows "distinct (map ro_hostname (us_relay_overrides (set_relay_override r s))) \<and>
    set (us_relay_overrides (set_relay_override r s)) = {o' \<in> set (us_relay_overrides s). ro_hostname o' \<noteq> ro_hostname r} \<union>
      (if override_is_empty r \<and> ro_hostname r \<in> ro_hostname ` set (us_relay_overrides s) then {} else {r})"
proof (cases "find_index (\<lambda>o'. ro_hostname o' = ro_hostname r) (us_relay_overrides s)")
  case None
  then have "us_relay_overrides (set_relay_override r s) = us_relay_overrides s @ [r]"
    by (simp add: set_relay_override_def Let_def)
  moreover have "\<forall>o' \<in> set (us_relay_overrides s). ro_hostname o' \<noteq> ro_hostname r"
    using None by (simp add: find_index_None)
  ultimately show ?thesis
    using assms by auto
next
  case (Some i)
  then have i: "i < length (us_relay_overrides s)" "ro_hostname (us_relay_overrides s ! i) = ro_hostname r"
    by (auto simp: find_index_Some)
  then have "ro_hostname r \<in> ro_hostname ` set (us_relay_overrides s)" by (metis image_eqI nth_mem)
  then show ?thesis
    using Some i swap_remove_distinct [OF i(1) assms] list_update_distinct [OF i(1) assms, of r]
    by (simp add: set_relay_override_def Let_def)
qed

theorem set_relay_override_exact_witness:
  "us_relay_overrides (set_relay_override (override_empty ''a'') (settings_default (1, 2, 3, 4))) = [override_empty ''a'']"
  using set_relay_override_exact [of "settings_default (1, 2, 3, 4)" "override_empty ''a''"]
  by (simp add: settings_default_def set_relay_override_def)

section \<open>Patches\<close>

lemma validated_keys:
  "try_fold (\<lambda>(k, v) _. if k = l then f v else Inl (e k)) m () = Inr u \<Longrightarrow> set (map fst m) \<subseteq> {l}"
  by (induction m) (auto split: if_splits)

text \<open>
  A patch that is accepted changes the relay overrides and no other setting: what is read as the new settings
  has all other fields of the old ones. A patch is an object whose only key is the one for overrides, whatever else it says.
\<close>

theorem patch_changes_only_overrides:
  assumes "merge_validate_patch_inner to_json from_json parse s input = Inr s'" and "to_json s = JObject m"
  shows "\<exists>p w. parse input = Some (JObject p) \<and> set (map fst p) \<subseteq> {''relay_overrides''} \<and>
    from_json w = Some s' \<and> same_except {''relay_overrides''} (to_json s) w"
proof -
  obtain v w where v: "parse input = Some v" "validate_patch_value PERMITTED_SUBKEYS v 0 = Inr ()"
    "merge_patch_to_value PERMITTED_SUBKEYS (JObject m) v 0 = Inr w" "from_json w = Some s'"
    using assms by (auto simp: merge_validate_patch_inner_def)
  then obtain p where p: "v = JObject p" by (auto simp: validate_top)
  have "set (map fst p) \<subseteq> {''relay_overrides''}"
    using v(2) unfolding validate_top p by (intro validated_keys) auto
  moreover have "same_except {''relay_overrides''} (JObject m) w"
    using v(3) unfolding p by (rule merge_patch_same_except)
  ultimately show ?thesis using v(1,4) p assms(2) by auto
qed

definition ex_patch_settings :: json where
  "ex_patch_settings = JObject [(''allow_lan'', JBool True), (''relay_overrides'', JArray [])]"

definition ex_patch :: json where
  "ex_patch = JObject [(''relay_overrides'', JArray [JObject [(''hostname'', JString ''a''), (''ipv4_addr_in'', JString ''1.2.3.4'')]])]"

lemma ex_patch_valid: "validate_patch_value PERMITTED_SUBKEYS ex_patch 0 = Inr ()"
proof -
  have "validate_patch_value RELAY_OVERRIDES_KEY
      (JArray [JObject [(''hostname'', JString ''a''), (''ipv4_addr_in'', JString ''1.2.3.4'')]]) 1 = Inr ()"
    by (rule validate_overrides) simp
  then show ?thesis by (simp add: validate_top ex_patch_def)
qed

lemma ex_patch_accepted:
  "merge_validate_patch_inner id Some (\<lambda>_. Some ex_patch) ex_patch_settings [] =
     Inr (JObject [(''allow_lan'', JBool True),
       (''relay_overrides'', JArray [JObject [(''hostname'', JString ''a''), (''ipv4_addr_in'', JString ''1.2.3.4'')]])])"
  unfolding merge_validate_patch_inner_def
  by (simp add: ex_patch_valid)
    (simp add: ex_patch_settings_def ex_patch_def merge_top merge_relay_overrides_def merge_relay_override_def as_array_def as_str_def)

theorem patch_changes_only_overrides_witness:
  "\<exists>w. same_except {''relay_overrides''} ex_patch_settings w"
  using patch_changes_only_overrides [OF ex_patch_accepted] by (auto simp: ex_patch_settings_def)

text \<open>
  What the overrides are after a patch: each entry of the patch, in order, sets the fields that it has for its relay and
  leaves the other fields of the relay and the other relays as they are. The patch cannot be refused, except by the decoder of the settings.
\<close>

theorem patch_merges_overrides:
  assumes "parse input = Some (JObject [(''relay_overrides'', JArray ps)])"
    and "validate_patch_value PERMITTED_SUBKEYS (JObject [(''relay_overrides'', JArray ps)]) 0 = Inr ()"
    and "list_all patch_entry ps" and "to_json s = JObject m" and "obj_get ''relay_overrides'' m = Some (JArray xs)"
  shows "\<exists>ys. merge_validate_patch_inner to_json from_json parse s input =
      of_option DeserializePatched (from_json (JObject (obj_insert ''relay_overrides'' (JArray ys) m))) \<and>
    override_of ys = fold apply_override ps (override_of xs)"
  using merge_single_field [OF assms(5,3)] assms(1,2,4) by (auto simp: merge_validate_patch_inner_def)

theorem patch_merges_overrides_witness:
  "\<exists>ys. merge_validate_patch_inner id Some (\<lambda>_. Some ex_patch) ex_patch_settings [] =
      Inr (JObject [(''allow_lan'', JBool True), (''relay_overrides'', JArray ys)]) \<and>
    override_of ys ''a'' ''ipv4_addr_in'' = Some (JString ''1.2.3.4'')"
  using patch_merges_overrides [where parse = "\<lambda>_. Some ex_patch" and input = "[]" and to_json = id and from_json = Some
      and ps = "[JObject [(''hostname'', JString ''a''), (''ipv4_addr_in'', JString ''1.2.3.4'')]]" and s = ex_patch_settings
      and m = "[(''allow_lan'', JBool True), (''relay_overrides'', JArray [])]" and xs = "[]"]
  by (auto simp: ex_patch_valid [unfolded ex_patch_def] ex_patch_def ex_patch_settings_def patch_entry_def
      apply_override_def entry_hostname_def as_str_def)

lemma exported_addresses:
  assumes "list_all encoded_override xs" and "distinct (map entry_hostname xs)" and "k \<in> {''ipv4_addr_in'', ''ipv6_addr_in''}"
  shows "fold apply_override (List.map_filter export_override xs) ov h k =
    (case override_of xs h k of Some v \<Rightarrow> if v = JNull then ov h k else Some v | None \<Rightarrow> ov h k)"
proof (cases "find_entry h xs")
  case None
  then show ?thesis
    using exported_entries [OF assms(1,2)] by (simp add: fold_apply_distinct override_of_def)
next
  case (Some v)
  then have v: "encoded_override v" using assms(1) by (auto simp: find_entry_def find_Some_iff list_all_length)
  show ?thesis
  proof (cases "export_override v")
    case None
    obtain h' a b where "v = JObject [(''hostname'', JString h'), (''ipv4_addr_in'', a), (''ipv6_addr_in'', b)]"
      by (rule encoded_overrideE [OF v])
    with None assms(3) have "json_get k v = Some JNull" by (auto simp: export_override_def Let_def split: if_splits)
    then show ?thesis
      using exported_entries [OF assms(1,2)] Some None by (simp add: fold_apply_distinct override_of_def)
  next
    case (Some w)
    then show ?thesis
      using exported_entries [OF assms(1,2)] \<open>find_entry h xs = Some v\<close> export_override_entry(3) [OF v Some]
      by (simp add: fold_apply_distinct override_of_def split: option.split)
  qed
qed

text \<open>
  An entry that the decoder of the settings accepts: a host name, and addresses that are absent or such that
  \<open>addr\<close> holds of them.
\<close>

definition decodable :: "(string \<Rightarrow> json \<Rightarrow> bool) \<Rightarrow> json \<Rightarrow> bool" where
  "decodable addr v =
     (entry_hostname v \<noteq> None \<and>
      (\<forall>k \<in> {''ipv4_addr_in'', ''ipv6_addr_in''}. \<forall>x. json_get k v = Some x \<longrightarrow> addr k x))"

lemma decodable_extend:
  assumes "patch_entry (JObject p)" and "decodable addr (JObject p)" and "decodable addr (JObject m)"
  shows "decodable addr (JObject (obj_extend p m))"
proof -
  have "distinct (map fst p)" using assms(1) by (simp add: patch_entry_def)
  note ext = obj_get_extend [OF this, of _ m]
  show ?thesis
    using assms(2,3) by (auto simp: decodable_def entry_hostname_def ext split: option.splits)
qed

lemma update_first_all:
  "update_first P f xs = Some ys \<Longrightarrow> list_all Q xs \<Longrightarrow> (\<And>x. Q x \<Longrightarrow> Q (f x)) \<Longrightarrow> list_all Q ys"
  by (induction xs arbitrary: ys) (auto split: if_splits)

lemma merge_decodable:
  assumes "patch_entry p" and "decodable addr p" and "list_all (decodable addr) xs" and "merge_relay_override p xs = Inr ys"
  shows "list_all (decodable addr) ys"
proof -
  obtain h where "entry_hostname p = Some h" using assms(1) by (auto simp: patch_entry_def)
  then obtain m where m: "p = JObject m" "obj_get ''hostname'' m = Some (JString h)" using entry_object by blast
  let ?f = "\<lambda>v. case v of JObject current \<Rightarrow> JObject (obj_extend m current) | _ \<Rightarrow> v"
  have f: "decodable addr (?f x)" if "decodable addr x" for x
    using decodable_extend [of m addr] assms(1,2) m(1) that by (cases x) auto
  show ?thesis
  proof (cases "update_first (\<lambda>v. entry_hostname v = Some h) ?f xs")
    case None
    then show ?thesis using assms m by (auto simp: merge_relay_override_def as_str_def)
  next
    case (Some zs)
    then show ?thesis
      using update_first_all [OF Some assms(3) f] assms(4) m by (simp add: merge_relay_override_def as_str_def)
  qed
qed

lemma merge_all_decodable:
  "list_all patch_entry ps \<Longrightarrow> list_all (decodable addr) ps \<Longrightarrow> list_all (decodable addr) xs \<Longrightarrow>
   try_fold merge_relay_override ps xs = Inr ys \<Longrightarrow> list_all (decodable addr) ys"
proof (induction ps arbitrary: xs)
  case (Cons p ps)
  then obtain zs where zs: "merge_relay_override p xs = Inr zs" "try_fold merge_relay_override ps zs = Inr ys" by auto
  then show ?case using Cons merge_decodable [of p addr xs zs] by auto
qed simp

lemma exported_decodable:
  assumes "list_all encoded_override xs" and "list_all (decodable addr) xs"
  shows "list_all (decodable addr) (List.map_filter export_override xs)"
  using assms export_override_entry(1,3)
  by (induction xs) (fastforce simp: map_filter_simps decodable_def split: option.splits if_splits)+

text \<open>Merging the exported overrides into overrides \<open>zs\<close>.\<close>

lemma merge_exported:
  assumes "list_all encoded_override xs" and "distinct (map entry_hostname xs)"
    and "list_all (decodable addr) xs" and "list_all (decodable addr) zs"
    and "obj_get ''relay_overrides'' m = Some (JArray zs)"
  obtains w ys where "merge_patch_to_value PERMITTED_SUBKEYS (JObject m) (export_settings_inner xs) 0 = Inr w"
    and "json_get ''relay_overrides'' w = Some (JArray ys)" and "list_all (decodable addr) ys"
    and "override_of ys = fold apply_override (List.map_filter export_override xs) (override_of zs)"
proof (cases "List.map_filter export_override xs = []")
  case True
  then show thesis
    using assms(4,5) by (intro that [of "JObject m" zs]) (simp_all add: export_settings_inner_def merge_top)
next
  case False
  let ?ps = "List.map_filter export_override xs"
  note ps = exported_entries(1) [OF assms(1,2)]
  obtain ys where ys: "try_fold merge_relay_override ?ps zs = Inr ys" "override_of ys = fold apply_override ?ps (override_of zs)"
    using merge_all_overrides [OF ps] by blast
  show thesis
  proof (rule that [of "JObject (obj_insert ''relay_overrides'' (JArray ys) m)" ys])
    show "list_all (decodable addr) ys"
      by (rule merge_all_decodable [OF ps exported_decodable [OF assms(1,3)] assms(4) ys(1)])
    show "merge_patch_to_value PERMITTED_SUBKEYS (JObject m) (export_settings_inner xs) 0 =
        Inr (JObject (obj_insert ''relay_overrides'' (JArray ys) m))"
      using False ys(1) assms(5)
      by (simp add: export_settings_inner_def merge_top merge_relay_overrides_def as_array_def)
  qed (simp_all add: ys(2))
qed

text \<open>
  C36. The exported overrides are a patch that is accepted by any settings, whatever overrides they have: each address that is
  exported for a relay replaces the one of that relay, every other address of every relay is what it was, and no other setting changes. In particular
  settings without overrides get back every exported address. The overrides of both settings are as their encoder writes them, with one entry for each
  host name in the exported ones; the decoder is assumed to accept settings in which the overrides have been replaced by a list of entries
  with a host name and addresses like those that it accepts in these settings.
\<close>

theorem exported_patch_roundtrip:
  assumes "list_all encoded_override xs" and "distinct (map entry_hostname xs)"
    and "parse input = Some (export_settings_inner xs)"
    and "to_json s = JObject m" and "obj_get ''relay_overrides'' m = Some (JArray zs)"
    and "list_all (decodable addr) xs" and "list_all (decodable addr) zs"
    and "\<And>w ys. same_except {''relay_overrides''} (to_json s) w \<Longrightarrow> json_get ''relay_overrides'' w = Some (JArray ys) \<Longrightarrow>
      list_all (decodable addr) ys \<Longrightarrow> \<exists>s'. from_json w = Some s'"
  shows "\<exists>s' w ys. merge_validate_patch_inner to_json from_json parse s input = Inr s' \<and>
    from_json w = Some s' \<and> same_except {''relay_overrides''} (to_json s) w \<and> json_get ''relay_overrides'' w = Some (JArray ys) \<and>
    (\<forall>h. \<forall>k \<in> {''ipv4_addr_in'', ''ipv6_addr_in''}. override_of ys h k =
      (case override_of xs h k of
         Some v \<Rightarrow> if v = JNull then override_of zs h k else Some v | None \<Rightarrow> override_of zs h k))"
proof -
  obtain w ys where w: "merge_patch_to_value PERMITTED_SUBKEYS (JObject m) (export_settings_inner xs) 0 = Inr w"
    "json_get ''relay_overrides'' w = Some (JArray ys)" "list_all (decodable addr) ys"
    "override_of ys = fold apply_override (List.map_filter export_override xs) (override_of zs)"
    by (rule merge_exported [OF assms(1,2,6,7,5)])
  have same: "same_except {''relay_overrides''} (to_json s) w"
    using merge_patch_same_except w(1) assms(4) by (simp add: export_settings_inner_def Let_def)
  obtain s' where s': "from_json w = Some s'" using assms(8) [OF same w(2,3)] by blast
  have "merge_validate_patch_inner to_json from_json parse s input = Inr s'"
    using export_validates [OF assms(1)] w(1) s' assms(3,4) by (simp add: merge_validate_patch_inner_def)
  with s' same w(2) exported_addresses [OF assms(1,2)] show ?thesis
    by (intro exI [of _ s'] exI [of _ w] exI [of _ ys]) (simp add: w(4))
qed

definition ex_overrides :: "json list" where
  "ex_overrides = [JObject [(''hostname'', JString ''a''), (''ipv4_addr_in'', JString ''1.2.3.4''), (''ipv6_addr_in'', JNull)]]"

definition ex_overridden :: json where
  "ex_overridden = JObject [(''allow_lan'', JBool True), (''relay_overrides'', JArray
     [JObject [(''hostname'', JString ''a''), (''ipv4_addr_in'', JString ''9.9.9.9''), (''ipv6_addr_in'', JString ''::1'')]])]"

text \<open>A decoder that reads settings with entries whose addresses are null or text.\<close>

definition ex_addr :: "string \<Rightarrow> json \<Rightarrow> bool" where
  "ex_addr k v = (v = JNull \<or> as_str v \<noteq> None)"

definition ex_decode :: "json \<Rightarrow> json option" where
  "ex_decode v = (case json_get ''relay_overrides'' v of
     Some (JArray ys) \<Rightarrow> if list_all (decodable ex_addr) ys then Some v else None | _ \<Rightarrow> None)"

theorem exported_patch_roundtrip_witness:
  "\<exists>s' ys. merge_validate_patch_inner id ex_decode (\<lambda>_. Some (export_settings_inner ex_overrides)) ex_overridden [] = Inr s' \<and>
    json_get ''relay_overrides'' s' = Some (JArray ys) \<and> override_of ys ''a'' ''ipv4_addr_in'' = Some (JString ''1.2.3.4'') \<and>
    override_of ys ''a'' ''ipv6_addr_in'' = Some (JString ''::1'')"
proof -
  let ?z = "JObject [(''hostname'', JString ''a''), (''ipv4_addr_in'', JString ''9.9.9.9''), (''ipv6_addr_in'', JString ''::1'')]"
  have dec: "list_all (decodable ex_addr) ex_overrides" "list_all (decodable ex_addr) [?z]" "list_all encoded_override ex_overrides"
    by (auto simp: ex_overrides_def decodable_def ex_addr_def entry_hostname_def as_str_def encoded_override_def)
  obtain s' w ys where s': "merge_validate_patch_inner id ex_decode (\<lambda>_. Some (export_settings_inner ex_overrides)) ex_overridden [] = Inr s'"
    "ex_decode w = Some s'" "json_get ''relay_overrides'' w = Some (JArray ys)"
    "\<forall>h. \<forall>k \<in> {''ipv4_addr_in'', ''ipv6_addr_in''}. override_of ys h k = (case override_of ex_overrides h k of
       Some v \<Rightarrow> if v = JNull then override_of [?z] h k else Some v | None \<Rightarrow> override_of [?z] h k)"
    using exported_patch_roundtrip [OF dec(3) _ _ _ _ dec(1,2), where parse = "\<lambda>_. Some (export_settings_inner ex_overrides)"
        and input = "[]" and to_json = id and s = ex_overridden and from_json = ex_decode
        and m = "[(''allow_lan'', JBool True), (''relay_overrides'', JArray [?z])]"]
    by (auto simp: ex_overrides_def ex_overridden_def ex_decode_def)
  have "json_get ''relay_overrides'' s' = Some (JArray ys)"
    using s'(2,3) by (auto simp: ex_decode_def split: if_splits)
  with s'(1,4) show ?thesis
    by (intro exI [of _ s'] exI [of _ ys]) (simp add: ex_overrides_def override_of_def find_entry_def entry_hostname_def as_str_def)
qed

section \<open>The target state\<close>

text \<open>
  What happens to the target state until the daemon ends, and how it ends: the process is killed, or the instance is
  finalized, as in a shutdown, or only dropped, as by a panic that unwinds. The flag says whether removing the file works.
\<close>

datatype target_op = SetTarget plain_write target_state | LockTarget

datatype target_end = Killed | Dropped bool | Finalized bool

definition target_step :: "target_op \<Rightarrow> persistent_target_state \<Rightarrow> persistent_target_state" where
  "target_step op self = (case op of SetTarget w s \<Rightarrow> pts_set w s self | LockTarget \<Rightarrow> pts_lock self)"

definition target_end :: "target_end \<Rightarrow> persistent_target_state \<Rightarrow> persistent_target_state" where
  "target_end e self =
     (case e of
        Killed \<Rightarrow> self
      | Dropped remove_ok \<Rightarrow> pts_drop remove_ok self
      | Finalized remove_ok \<Rightarrow> pts_drop remove_ok (pts_finalize remove_ok self))"

definition opens_file :: "target_op \<Rightarrow> bool" where
  "opens_file op = (case op of SetTarget w _ \<Rightarrow> w \<noteq> NotOpened | LockTarget \<Rightarrow> True)"

text \<open>A write of the unsecured state that stops before the end.\<close>

definition cut_short :: "target_op \<Rightarrow> bool" where
  "cut_short op = (\<exists>n. op = SetTarget (WrittenPart n) Unsecured \<and> n < length (json_of_target_state Unsecured))"

text \<open>The file keeps the state: the process was killed, the instance was locked or the file could not be removed.\<close>

definition file_kept :: "target_op list \<Rightarrow> target_end \<Rightarrow> bool" where
  "file_kept ops e = (e \<in> {Killed, Dropped False, Finalized False} \<or> LockTarget \<in> set ops)"

text \<open>The state that the next start of the daemon takes from the file.\<close>

definition next_start :: "(string \<Rightarrow> target_state option) \<Rightarrow> persistent_target_state \<Rightarrow> target_state" where
  "next_start parse p = fst (read_target_state parse (pts_file p))"

definition recovers :: "(string \<Rightarrow> target_state option) \<Rightarrow> bool \<Rightarrow> persistent_target_state \<Rightarrow> bool" where
  "recovers parse half p = (next_start parse p = pts_state p \<or> half \<and> next_start parse p = Secured)"

lemma save_recovers:
  assumes "\<And>t. parse (json_of_target_state t) = Some t"
    and "\<And>t n. n < length (json_of_target_state t) \<Longrightarrow> parse (take n (json_of_target_state t)) = None"
    and "w \<noteq> NotOpened" and "pts_state p = s" and "cut_short (SetTarget w s) \<Longrightarrow> half"
  shows "recovers parse half (pts_save w p)"
proof (cases w)
  case (WrittenPart n)
  show ?thesis
  proof (cases "n < length (json_of_target_state s)")
    case True
    then have "next_start parse (pts_save w p) = Secured"
      using WrittenPart assms(2) [of n s] assms(4) by (simp add: next_start_def pts_save_def read_target_state_def)
    moreover have "pts_state (pts_save w p) = s" using WrittenPart assms(4) by (simp add: pts_save_def)
    moreover have "half \<or> s = Secured" using WrittenPart True assms(5) by (cases s) (auto simp: cut_short_def)
    ultimately show ?thesis by (auto simp: recovers_def)
  qed (use WrittenPart assms in \<open>simp add: recovers_def next_start_def pts_save_def read_target_state_def\<close>)
qed (use assms in \<open>auto simp: recovers_def next_start_def pts_save_def read_target_state_def\<close>)

lemma new_recovers:
  assumes "\<And>t. parse (json_of_target_state t) = Some t"
    and "\<And>t n. n < length (json_of_target_state t) \<Longrightarrow> parse (take n (json_of_target_state t)) = None"
  shows "recovers parse False (pts_new parse w stored)"
proof -
  obtain s update where r: "read_target_state parse stored = (s, update)" by fastforce
  let ?p = "\<lparr>pts_state = s, pts_file = stored, pts_locked = False\<rparr>"
  have "recovers parse False (pts_save w ?p)" if update
  proof (cases "w = NotOpened")
    case False
    have "s = Secured" using r that by (auto simp: read_target_state_def split: file_read.splits option.splits)
    with False show ?thesis by (intro save_recovers [OF assms, where s = Secured]) (auto simp: cut_short_def)
  qed (simp add: recovers_def next_start_def pts_save_def r)
  then show ?thesis by (auto simp: pts_new_def r recovers_def next_start_def Let_def)
qed

lemma step_recovers:
  assumes "\<And>t. parse (json_of_target_state t) = Some t"
    and "\<And>t n. n < length (json_of_target_state t) \<Longrightarrow> parse (take n (json_of_target_state t)) = None"
    and "opens_file op" and "recovers parse half p"
  shows "recovers parse (half \<or> cut_short op) (target_step op p)"
proof (cases op)
  case (SetTarget w s)
  show ?thesis
  proof (cases "s = pts_state p")
    case False
    have "recovers parse (half \<or> cut_short op) (pts_save w (p\<lparr>pts_state := s\<rparr>))"
      by (rule save_recovers [OF assms(1,2), where s = s]) (use SetTarget assms(3) in \<open>auto simp: opens_file_def\<close>)
    with False SetTarget show ?thesis by (simp add: target_step_def pts_set_def)
  qed (use SetTarget assms(4) in \<open>auto simp: target_step_def pts_set_def recovers_def\<close>)
qed (use assms(4) in \<open>auto simp: target_step_def pts_lock_def recovers_def next_start_def\<close>)

lemma steps_recover:
  assumes "\<And>t. parse (json_of_target_state t) = Some t"
    and "\<And>t n. n < length (json_of_target_state t) \<Longrightarrow> parse (take n (json_of_target_state t)) = None"
    and "list_all opens_file ops"
  shows "recovers parse (list_ex cut_short ops) (fold target_step ops (pts_new parse w stored))"
  using assms(3)
proof (induction ops rule: rev_induct)
  case (snoc op ops)
  then show ?case
    using step_recovers [OF assms(1,2), of op "list_ex cut_short ops"] by (simp add: disj_commute)
qed (simp add: new_recovers [OF assms(1,2)])

lemma steps_locked: "pts_locked (fold target_step ops p) \<longleftrightarrow> pts_locked p \<or> LockTarget \<in> set ops"
proof (induction ops rule: rev_induct)
  case (snoc op ops)
  then show ?case
    by (cases op) (auto simp: target_step_def pts_set_def pts_save_def pts_lock_def split: plain_write.splits)
qed simp

lemma new_unlocked: "\<not> pts_locked (pts_new parse w stored)"
  by (auto simp: pts_new_def pts_save_def Let_def split: prod.splits plain_write.splits)

lemma target_end_file:
  "pts_file (target_end e p) =
     (if e \<in> {Killed, Dropped False, Finalized False} \<or> pts_locked p then pts_file p else FileNotFound)"
  by (cases e) (auto simp: target_end_def pts_drop_def pts_finalize_def)


definition parse_target :: "string \<Rightarrow> target_state option" where
  "parse_target t = find (\<lambda>s. json_of_target_state s = t) [Unsecured, Secured]"

lemma parse_target_laws:
  "parse_target (json_of_target_state t) = Some t"
  "n < length (json_of_target_state t) \<Longrightarrow> parse_target (take n (json_of_target_state t)) = None"
proof -
  show "parse_target (json_of_target_state t) = Some t" by (cases t) (simp_all add: parse_target_def json_of_target_state_def)
  have ends: "json_of_target_state s = CHR 0x22 # xs @ [CHR 0x22] \<Longrightarrow> CHR 0x22 \<notin> set xs" for s xs
    by (cases s) (auto simp: json_of_target_state_def)
  assume n: "n < length (json_of_target_state t)"
  have "json_of_target_state s \<noteq> take n (json_of_target_state t)" for s
    using n by (cases s; cases t) (auto simp: json_of_target_state_def take_Cons less_Suc_eq split: nat.splits)
  then show "parse_target (take n (json_of_target_state t)) = None" by (simp add: parse_target_def)
qed


end
