(* ===== verification/Daemon_Told.thy ===== *)
theory Daemon_Told
  imports Daemon_Invariants Tunnel_Follow Settings_Properties
begin

text \<open>
  The invariants of the daemon, each an instance of \<open>daemon_invariant\<close>: what the tunnel state machine is told agrees with the settings, a tunnel is asked for while the target
  state is secured, the API is not suspended for inactivity while there is a tunnel, and the feature indicators are those of the settings.
\<close>

lemmas sends = oneshot_send_def spawn_def notify_interface_def send_tunnel_command_def connect_tunnel_def disconnect_tunnel_def fx_def called_def
  send_event_def oneshot_channel_def oneshot_map_def

section \<open>Saving settings\<close>

lemma listeners_frame [simp]:
  "d_settings (settings_listeners d) = d_settings d"
  "d_target_state (settings_listeners d) = d_target_state d"
  "d_tunnel_state (settings_listeners d) = d_tunnel_state d"
  "d_availability (settings_listeners d) = d_availability d"
  "d_shutdown_tasks (settings_listeners d) = d_shutdown_tasks d"
  "d_pending (settings_listeners d) = d_pending d @ [DvSettingsChanged]"
  "tunnel_commands (settings_listeners d) = tunnel_commands d"
  by (simp_all add: settings_listeners_def sends Let_def)

text \<open>What an update leaves alone, and what it changes.\<close>

definition same_besides_settings :: "'b daemon \<Rightarrow> 'b daemon \<Rightarrow> bool" where
  "same_besides_settings d d' =
     (d_target_state d' = d_target_state d \<and> d_tunnel_state d' = d_tunnel_state d \<and> d_availability d' = d_availability d \<and>
      d_shutdown_tasks d' = d_shutdown_tasks d \<and> tunnel_commands d' = tunnel_commands d)"

lemma try_update_effect:
  assumes "settings_try_update w f d = (r, d')"
  shows "same_besides_settings d d'"
    and "r = Inr True \<and> f (settings d) = Inr (settings d') \<and> d_pending d' = d_pending d @ [DvSettingsChanged] \<or>
      r \<noteq> Inr True \<and> settings d' = settings d \<and> d_pending d' = d_pending d"
  using assms
  by (auto simp: settings_try_update_def persister_try_update_def notify_listeners_def called_def same_besides_settings_def Let_def
      split: sum.splits prod.splits if_splits bool.splits)

lemma reset_effect:
  assumes "settings_reset w d = (r, d')"
  shows "same_besides_settings d d'"
    and "r = Inr () \<and> d_pending d' = d_pending d @ [DvSettingsChanged] \<or>
      r = Inl SettingsDelete \<and> d_pending d' = d_pending d \<and> \<not> dm_remove w (d_calls d)"
  using assms
  by (auto simp: settings_reset_def persister_reset_def notify_listeners_def called_def same_besides_settings_def Let_def
      split: prod.splits if_splits bool.splits)

section \<open>What the tunnel state machine is told\<close>

definition agrees :: "'b daemon_world \<Rightarrow> bool \<Rightarrow> bool \<times> bool \<times> dns_options \<Rightarrow> told_values \<Rightarrow> bool" where
  "agrees w restarting s v =
     (case (s, v) of ((allow_lan, lockdown_mode, dns_options), (lan, lockdown, dns)) \<Rightarrow>
        lan = allow_lan \<and> dns = addresses_from_options (dm_contains w) dns_options \<and>
        (lockdown_mode \<longrightarrow> lockdown) \<and> (\<not> restarting \<longrightarrow> lockdown = lockdown_mode))"

text \<open>
  The commands agree with the settings until the settings are reset for the daemon to shut down. Preparing for a restart may block more than the settings say.
\<close>

definition machine_told :: "'b daemon_world \<Rightarrow> told_values \<Rightarrow> 'b daemon \<Rightarrow> bool" where
  "machine_told w v d =
     (d_shutdown_tasks d = [] \<longrightarrow>
        agrees w (pts_locked (d_target_state d)) (machine_settings (settings d)) (fold tell (tunnel_commands d) v))"

text \<open>The derived decoder reads each of the settings from its own field.\<close>

definition fields_decoded :: "'b daemon_world \<Rightarrow> bool" where
  "fields_decoded w =
     ((\<forall>s. \<exists>m. dm_to_json w s = JObject m) \<and>
      (\<forall>s s' j. same_except {''relay_overrides''} (dm_to_json w s) j \<longrightarrow> dm_from_json w j = Some s' \<longrightarrow>
         machine_settings s' = machine_settings s))"

lemma patch_keeps:
  assumes "fields_decoded w"
    and "merge_validate_patch_inner (dm_to_json w) (dm_from_json w) (dm_parse w) s blob = Inr s'"
  shows "machine_settings s' = machine_settings s"
  using assms patch_changes_only_overrides [OF assms(2)] unfolding fields_decoded_def by metis

lemma told_by_settings:
  assumes "machine_told w v d" and "same_besides_settings d d'" and "machine_settings (settings d') = machine_settings (settings d)"
  shows "machine_told w v d'"
  using assms by (simp add: machine_told_def same_besides_settings_def)

lemma told_try_update:
  assumes "settings_try_update w f d = (r, d')" and "machine_told w v d" and "f (settings d) = Inr (settings d') \<Longrightarrow> machine_settings (settings d') = machine_settings (settings d)"
  shows "machine_told w v d'"
  using told_by_settings [OF assms(2) try_update_effect(1) [OF assms(1)]] try_update_effect(2) [OF assms(1)] assms(3) by metis

text \<open>A setting of the machine: saved and sent, or neither.\<close>

lemma told_machine_setting:
  assumes "machine_told w v d"
    and "\<And>s tx v. agrees w l (machine_settings s) v \<Longrightarrow> agrees w l (machine_settings (f s)) (tell (command (f s) tx) v)"
    and "l = pts_locked (d_target_state d)"
  shows "machine_told w v (update_machine_setting w tx f command d)"
proof -
  obtain r d' where u: "settings_update w f d = (r, d')" by fastforce
  note e = try_update_effect [OF u [unfolded settings_update_def]]
  note step = assms(2) [of "settings d" "fold tell (tunnel_commands d) v" "d_next_sender d'"]
  show ?thesis
    using assms(1,3) e u told_by_settings [OF assms(1) e(1)] step
    by (cases r)
      (auto simp: update_machine_setting_def sends machine_told_def same_besides_settings_def split: if_splits)
qed


lemma told_fx: "machine_told w v d \<Longrightarrow> commands_of [e] = [] \<Longrightarrow> machine_told w v (fx e d)"
  by (simp add: machine_told_def fx_def)

lemma told_command: "machine_told w v d \<Longrightarrow> (\<And>v. tell c v = v) \<Longrightarrow> machine_told w v (send_tunnel_command c d)"
  by (simp add: machine_told_def sends)

section \<open>Transitions\<close>

lemma reset_rpc_frame [simp]:
  "d_settings (reset_rpc_sockets_on_tunnel_state_transition t d) = d_settings d"
  "d_target_state (reset_rpc_sockets_on_tunnel_state_transition t d) = d_target_state d"
  "d_shutdown_tasks (reset_rpc_sockets_on_tunnel_state_transition t d) = d_shutdown_tasks d"
  "d_pending (reset_rpc_sockets_on_tunnel_state_transition t d) = d_pending d"
  "d_availability (reset_rpc_sockets_on_tunnel_state_transition t d) = d_availability d"
  "d_tunnel_state (reset_rpc_sockets_on_tunnel_state_transition t d) = d_tunnel_state d"
  "tunnel_commands (reset_rpc_sockets_on_tunnel_state_transition t d) = tunnel_commands d"
  "d_generator (reset_rpc_sockets_on_tunnel_state_transition t d) = d_generator d"
  by (simp_all add: reset_rpc_sockets_on_tunnel_state_transition_def fx_def)

lemma schedule_frame [simp]:
  "d_settings (unschedule_reconnect d) = d_settings d"
  "d_target_state (unschedule_reconnect d) = d_target_state d"
  "d_shutdown_tasks (unschedule_reconnect d) = d_shutdown_tasks d"
  "d_pending (unschedule_reconnect d) = d_pending d"
  "d_availability (unschedule_reconnect d) = d_availability d"
  "d_tunnel_state (unschedule_reconnect d) = d_tunnel_state d"
  "tunnel_commands (unschedule_reconnect d) = tunnel_commands d"
  "d_settings (schedule_reconnect delay d) = d_settings d"
  "d_target_state (schedule_reconnect delay d) = d_target_state d"
  "d_shutdown_tasks (schedule_reconnect delay d) = d_shutdown_tasks d"
  "d_pending (schedule_reconnect delay d) = d_pending d"
  "d_availability (schedule_reconnect delay d) = d_availability d"
  "d_tunnel_state (schedule_reconnect delay d) = d_tunnel_state d"
  "tunnel_commands (schedule_reconnect delay d) = tunnel_commands d"
  by (simp_all add: unschedule_reconnect_def schedule_reconnect_def)

lemma fetch_frame [simp]:
  "d_settings (fetch_am_i_mullvad d) = d_settings d"
  "d_target_state (fetch_am_i_mullvad d) = d_target_state d"
  "d_shutdown_tasks (fetch_am_i_mullvad d) = d_shutdown_tasks d"
  "d_pending (fetch_am_i_mullvad d) = d_pending d"
  "d_availability (fetch_am_i_mullvad d) = d_availability d"
  "d_tunnel_state (fetch_am_i_mullvad d) = d_tunnel_state d"
  "tunnel_commands (fetch_am_i_mullvad d) = tunnel_commands d"
  by (simp_all add: fetch_am_i_mullvad_def send_geo_location_request_def sends Let_def split: daemon_tunnel_state.split)

lemma from_transition_cong:
  "d_settings d' = d_settings d \<Longrightarrow> d_generator d' = d_generator d \<Longrightarrow> tunnel_state_from_transition t d' = tunnel_state_from_transition t d"
  by (simp add: tunnel_state_from_transition_def)

lemma spawn_frame [simp]:
  "d_settings (spawn t d) = d_settings d"
  "d_target_state (spawn t d) = d_target_state d"
  "d_shutdown_tasks (spawn t d) = d_shutdown_tasks d"
  "d_pending (spawn t d) = d_pending d"
  "d_availability (spawn t d) = d_availability d"
  "d_tunnel_state (spawn t d) = d_tunnel_state d"
  "tunnel_commands (spawn t d) = tunnel_commands d"
  "d_generator (spawn t d) = d_generator d"
  by (simp_all add: sends)

lemma notify_frame [simp]:
  "d_settings (notify_interface n d) = d_settings d"
  "d_target_state (notify_interface n d) = d_target_state d"
  "d_shutdown_tasks (notify_interface n d) = d_shutdown_tasks d"
  "d_pending (notify_interface n d) = d_pending d"
  "d_availability (notify_interface n d) = d_availability d"
  "d_tunnel_state (notify_interface n d) = d_tunnel_state d"
  "tunnel_commands (notify_interface n d) = tunnel_commands d"
  by (simp_all add: sends)

lemma observe_frame [simp]:
  "d_settings (observe_transition t d) = d_settings d"
  "d_target_state (observe_transition t d) = d_target_state d"
  "d_shutdown_tasks (observe_transition t d) = d_shutdown_tasks d"
  "d_pending (observe_transition t d) = d_pending d"
  "d_availability (observe_transition t d) = d_availability d"
  "d_tunnel_state (observe_transition t d) = d_tunnel_state d"
  "tunnel_commands (observe_transition t d) = tunnel_commands d"
  "d_generator (observe_transition t d) = d_generator d"
  by (simp_all add: observe_transition_def fx_def Let_def split: prod.split)

lemma set_tunnel_state_frame [simp]:
  "d_settings (set_tunnel_state ts d) = d_settings d"
  "d_target_state (set_tunnel_state ts d) = d_target_state d"
  "d_shutdown_tasks (set_tunnel_state ts d) = d_shutdown_tasks d"
  "d_pending (set_tunnel_state ts d) = d_pending d"
  "tunnel_commands (set_tunnel_state ts d) = tunnel_commands d"
  "d_tunnel_state (set_tunnel_state ts d) = ts"
  "d_availability (set_tunnel_state ts d) = update_availability (d_tunnel_state d) ts (d_availability d)"
  by (simp_all add: set_tunnel_state_def Let_def split: daemon_tunnel_state.split)

lemma transition_frame [simp]:
  "d_settings (handle_tunnel_state_transition t d) = d_settings d"
  "d_target_state (handle_tunnel_state_transition t d) = d_target_state d"
  "d_shutdown_tasks (handle_tunnel_state_transition t d) = d_shutdown_tasks d"
  "d_pending (handle_tunnel_state_transition t d) = d_pending d"
  "tunnel_commands (handle_tunnel_state_transition t d) = tunnel_commands d"
  "d_tunnel_state (handle_tunnel_state_transition t d) = tunnel_state_from_transition t d"
  "d_availability (handle_tunnel_state_transition t d) = update_availability (d_tunnel_state d) (tunnel_state_from_transition t d) (d_availability d)"
  by (simp_all add: handle_tunnel_state_transition_def Let_def from_transition_cong [of "observe_transition t d" d])

lemma told_transition: "machine_told w v d \<Longrightarrow> machine_told w v (handle_tunnel_state_transition t d)"
  by (simp add: machine_told_def)

lemma location_frame:
  "d_settings (handle_location_event request location d) = d_settings d"
  "d_target_state (handle_location_event request location d) = d_target_state d"
  "d_shutdown_tasks (handle_location_event request location d) = d_shutdown_tasks d"
  "d_availability (handle_location_event request location d) = d_availability d"
  "tunnel_commands (handle_location_event request location d) = tunnel_commands d"
  by (simp_all add: handle_location_event_def Let_def sends split: daemon_tunnel_state.split)

lemma settings_changed_frame:
  "d_settings (update_feature_indicators_on_settings_changed d) = d_settings d"
  "d_target_state (update_feature_indicators_on_settings_changed d) = d_target_state d"
  "d_shutdown_tasks (update_feature_indicators_on_settings_changed d) = d_shutdown_tasks d"
  "d_availability (update_feature_indicators_on_settings_changed d) = d_availability d"
  "d_pending (update_feature_indicators_on_settings_changed d) = d_pending d"
  "tunnel_commands (update_feature_indicators_on_settings_changed d) = tunnel_commands d"
  by (simp_all add: update_feature_indicators_on_settings_changed_def Let_def)

lemma target_effect:
  "set_target_state w state d = (r, d') \<Longrightarrow>
   d_settings d' = d_settings d \<and> d_shutdown_tasks d' = d_shutdown_tasks d \<and> d_tunnel_state d' = d_tunnel_state d \<and> d_pending d' = d_pending d \<and>
   d_availability d' = d_availability d \<and> pts_locked (d_target_state d') = pts_locked (d_target_state d) \<and>
   (if r then target d' = state \<and> tunnel_commands d' = tunnel_commands d @ [if state = Secured then Connect else Disconnect]
    else target d' = target d \<and> tunnel_commands d' = tunnel_commands d)"
  by (auto simp: set_target_state_def Let_def sends pts_set_def pts_save_def split: if_splits target_state.splits plain_write.splits)

lemma oneshot_send_frame [simp]:
  "d_settings (oneshot_send tx r d) = d_settings d"
  "d_target_state (oneshot_send tx r d) = d_target_state d"
  "d_shutdown_tasks (oneshot_send tx r d) = d_shutdown_tasks d"
  "d_pending (oneshot_send tx r d) = d_pending d"
  "d_availability (oneshot_send tx r d) = d_availability d"
  "d_tunnel_state (oneshot_send tx r d) = d_tunnel_state d"
  "tunnel_commands (oneshot_send tx r d) = tunnel_commands d"
  by (simp_all add: sends)

lemma unwatched_frame [simp]:
  "d_settings (send_unwatched command d) = d_settings d"
  "d_target_state (send_unwatched command d) = d_target_state d"
  "d_shutdown_tasks (send_unwatched command d) = d_shutdown_tasks d"
  "d_pending (send_unwatched command d) = d_pending d"
  "d_availability (send_unwatched command d) = d_availability d"
  "d_tunnel_state (send_unwatched command d) = d_tunnel_state d"
  "tunnel_commands (send_unwatched command d) = tunnel_commands d @ [command (d_next_sender d)]"
  by (simp_all add: send_unwatched_def sends)

lemma reconnect_frame [simp]:
  "d_settings (reconnect_tunnel d) = d_settings d"
  "d_target_state (reconnect_tunnel d) = d_target_state d"
  "d_shutdown_tasks (reconnect_tunnel d) = d_shutdown_tasks d"
  "d_pending (reconnect_tunnel d) = d_pending d"
  "d_availability (reconnect_tunnel d) = d_availability d"
  "d_tunnel_state (reconnect_tunnel d) = d_tunnel_state d"
  "tunnel_commands (reconnect_tunnel d) = tunnel_commands d @ (if target d = Secured then [Connect] else [])"
  by (simp_all add: reconnect_tunnel_def sends)

lemma told_reset:
  assumes "machine_told w v d"
  shows "machine_told w v (on_reset_settings w tx d)"
proof -
  obtain r d' where r: "settings_reset w d = (r, d')" by fastforce
  show ?thesis
    using reset_effect(1) [OF r] assms
    by (cases "fold tell (tunnel_commands d) v")
      (simp add: on_reset_settings_def r Let_def machine_told_def same_besides_settings_def agrees_def machine_settings_def)
qed

lemma told_patch:
  assumes "fields_decoded w" and "machine_told w v d"
  shows "machine_told w v (on_apply_json_settings w tx blob d)"
proof (cases "merge_validate_patch_inner (dm_to_json w) (dm_from_json w) (dm_parse w) (settings d) blob")
  case (Inr s)
  obtain r d' where u: "settings_update w (\<lambda>_. s) d = (r, d')" by fastforce
  have "machine_told w v d'"
    using u [unfolded settings_update_def] assms(2) patch_keeps [OF assms(1) Inr] by (auto intro: told_try_update)
  then show ?thesis
    by (auto simp: on_apply_json_settings_def Inr u sends machine_told_def reconnect_tunnel_def split: sum.split)
qed (use assms(2) in \<open>simp add: on_apply_json_settings_def sends machine_told_def\<close>)

lemma told_prepare_restart: "machine_told w v d \<Longrightarrow> machine_told w v (on_prepare_restart shutdown d)"
  by (auto simp: on_prepare_restart_def Let_def send_unwatched_def sends machine_told_def pts_lock_def agrees_def lockdown_bool_def
      split: prod.split)

lemma told_allow_lan: "machine_told w v d \<Longrightarrow> machine_told w v (on_set_allow_lan w tx b d)"
  unfolding on_set_allow_lan_def
  by (rule told_machine_setting) (auto simp: agrees_def machine_settings_def split: prod.splits)

lemma told_lockdown_mode: "machine_told w v d \<Longrightarrow> machine_told w v (on_set_lockdown_mode w tx b d)"
  unfolding on_set_lockdown_mode_def
  by (rule told_machine_setting) (auto simp: agrees_def machine_settings_def split: prod.splits)

lemma told_dns: "machine_told w v d \<Longrightarrow> machine_told w v (on_set_dns_options w tx dns d)"
  unfolding on_set_dns_options_def
  by (rule told_machine_setting) (auto simp: agrees_def machine_settings_def tunnel_options_update_def split: prod.splits)

lemma told_factory_reset: "machine_told w v (on_factory_reset w tx d)"
  by (simp add: on_factory_reset_def Let_def machine_told_def split: prod.split)

lemma told_target: "machine_told w v d \<Longrightarrow> machine_told w v (snd (set_target_state w state d))"
  using target_effect [of w state d "fst (set_target_state w state d)" "snd (set_target_state w state d)"]
  by (simp add: machine_told_def split: if_splits)

lemma told_view: "machine_told w v d \<Longrightarrow> daemon_view d' = daemon_view d \<Longrightarrow> machine_told w v d'"
  by (simp add: machine_told_def daemon_view_def)

lemma told_updates: "machine_told w v d \<Longrightarrow> keeps_machine_settings f \<Longrightarrow> machine_told w v (snd (settings_try_update w f d))"
  by (rule told_try_update [OF prod.collapse [symmetric]]) (auto simp: keeps_machine_settings_def)

lemma told_others:
  "machine_told w v d \<Longrightarrow> machine_told w v (send_event event d)"
  "machine_told w v d \<Longrightarrow> machine_told w v (d\<lparr>d_pending := ps\<rparr>)"
  "machine_told w v d \<Longrightarrow> machine_told w v (d\<lparr>d_availability := a\<rparr>)"
  "machine_told w v d \<Longrightarrow> machine_told w v (update_feature_indicators_on_settings_changed (d\<lparr>d_pending := ps\<rparr>))"
  "machine_told w v d \<Longrightarrow> machine_told w v (handle_location_event request location d)"
  "machine_told w v d \<Longrightarrow> machine_told w v (connect_tunnel d)"
  by (simp_all add: machine_told_def location_frame settings_changed_frame sends)

lemmas told_rules = told_allow_lan told_lockdown_mode told_dns told_patch told_reset told_factory_reset told_target told_transition
  told_prepare_restart told_updates told_others told_command

interpretation told: daemon_invariant w "\<lambda>d. fields_decoded w \<longrightarrow> machine_told w v d" for w v
  by unfold_locales (auto intro: told_rules dest: told_view)

section \<open>Operations on the settings\<close>

text \<open>
  What the handlers of settings do besides: no request to disconnect, and if settings change there is an event for it, unless
  the settings file could neither be written nor removed.
\<close>

definition settings_op :: "'b daemon_world \<Rightarrow> 'b daemon \<Rightarrow> 'b daemon \<Rightarrow> bool" where
  "settings_op w d d' =
     (target d' = target d \<and> d_tunnel_state d' = d_tunnel_state d \<and> d_availability d' = d_availability d \<and>
      (\<exists>cs. tunnel_commands d' = tunnel_commands d @ cs \<and> Disconnect \<notin> set cs) \<and> set (d_pending d) \<subseteq> set (d_pending d') \<and>
      (settings d' = settings d \<or> DvSettingsChanged \<in> set (d_pending d') \<or> (\<exists>n. \<not> dm_remove w n)))"

lemma settings_op_try_update: "settings_try_update w f d = (r, d') \<Longrightarrow> settings_op w d d'"
  using try_update_effect [of w f d r d'] by (auto simp: settings_op_def same_besides_settings_def)

lemma settings_op_reset: "settings_reset w d = (r, d') \<Longrightarrow> settings_op w d d'"
  using reset_effect [of w d r d'] by (auto simp: settings_op_def same_besides_settings_def)

lemma settings_op_trans: "settings_op w d d' \<Longrightarrow> settings_op w d' d'' \<Longrightarrow> settings_op w d d''"
  by (auto simp: settings_op_def)

lemma settings_op_view:
  assumes "settings_op w d d'" and "d_settings d'' = d_settings d'" and "target d'' = target d'" and "d_tunnel_state d'' = d_tunnel_state d'"
    and "set (d_pending d') \<subseteq> set (d_pending d'')" and "d_availability d'' = d_availability d'"
    and "tunnel_commands d'' = tunnel_commands d' @ cs" and "Disconnect \<notin> set cs"
  shows "settings_op w d d''"
  using assms by (auto simp: settings_op_def)

lemma settings_op_machine_setting:
  assumes "\<And>s tx. command s tx \<noteq> Disconnect"
  shows "settings_op w d (update_machine_setting w tx f command d)"
proof -
  obtain r d' where u: "settings_update w f d = (r, d')" by fastforce
  note op = settings_op_try_update [OF u [unfolded settings_update_def]]
  show ?thesis
    by (cases r; cases "r = Inr True")
      (auto simp: update_machine_setting_def u oneshot_map_def oneshot_channel_def send_tunnel_command_def fx_def assms not_sym [OF assms]
        intro: settings_op_view [OF op] )
qed

lemma settings_op_handlers:
  "settings_op w d (on_set_allow_lan w tx b d)"
  "settings_op w d (on_set_lockdown_mode w tx b d)"
  "settings_op w d (on_set_dns_options w tx dns d)"
  by (simp_all add: on_set_allow_lan_def on_set_lockdown_mode_def on_set_dns_options_def settings_op_machine_setting)

lemma settings_op_on_reset: "settings_op w d (on_reset_settings w tx d)"
proof -
  obtain r d' where r: "settings_reset w d = (r, d')" by fastforce
  show ?thesis
    by (rule settings_op_view [OF settings_op_reset [OF r]]) (simp_all add: on_reset_settings_def r Let_def, auto)
qed

lemma settings_op_patch: "settings_op w d (on_apply_json_settings w tx blob d)"
proof (cases "merge_validate_patch_inner (dm_to_json w) (dm_from_json w) (dm_parse w) (settings d) blob")
  case (Inr s)
  obtain r d' where u: "settings_update w (\<lambda>_. s) d = (r, d')" by fastforce
  note op = settings_op_try_update [OF u [unfolded settings_update_def]]
  show ?thesis
    by (rule settings_op_view [OF op, where cs = "if r \<noteq> Inl (projl r) \<and> target d' = Secured then [Connect] else []"])
      (auto simp: on_apply_json_settings_def Inr u split: sum.split)
qed (simp add: on_apply_json_settings_def settings_op_def)

lemma settings_op_factory_reset: "settings_op w d (on_factory_reset w tx d)"
proof -
  let ?d = "called (fx FxLogout d)"
  obtain c h where h: "history_clear (dm_history w (d_calls ?d)) (d_account_history ?d) = (c, h)" by fastforce
  obtain r d' where r: "settings_reset w (called (?d\<lparr>d_account_history := h\<rparr>)) = (r, d')" by fastforce
  have "settings_op w d d'" using settings_op_reset [OF r] by (simp add: settings_op_def called_def fx_def)
  then show ?thesis
    by (rule settings_op_view [where cs = "[]"]) (auto simp: on_factory_reset_def Let_def h r send_event_def)
qed

lemma settings_op_prepare: "settings_op w d (on_prepare_restart shutdown d)"
  by (auto simp: on_prepare_restart_def Let_def settings_op_def pts_lock_def send_event_def)

lemmas settings_ops = settings_op_handlers settings_op_on_reset settings_op_patch settings_op_factory_reset settings_op_prepare
  settings_op_try_update [OF prod.collapse [symmetric]]

text \<open>
  An invariant that these operations keep is one of the daemon if in addition it is kept by the few operations that change the target state or the reported
  state, or take an event.
\<close>

locale settings_op_invariant =
  fixes w :: "'b daemon_world" and I :: "'b daemon \<Rightarrow> bool"
  assumes op_view: "I d \<Longrightarrow> daemon_view d' = daemon_view d \<Longrightarrow> I d'"
    and op_settings: "I d \<Longrightarrow> settings_op w d d' \<Longrightarrow> I d'"
    and op_own: "I d \<Longrightarrow> i < length (d_pending d) \<Longrightarrow> d_pending d ! i \<noteq> DvSettingsChanged \<Longrightarrow>
      I (d\<lparr>d_pending := take i (d_pending d) @ drop (Suc i) (d_pending d)\<rparr>)"
    and op_settings_changed: "I d \<Longrightarrow> I (update_feature_indicators_on_settings_changed (d\<lparr>d_pending := ps\<rparr>))"
    and op_target: "I d \<Longrightarrow> I (snd (set_target_state w state d))"
    and op_transition: "I d \<Longrightarrow> I (handle_tunnel_state_transition t d)"
    and op_location: "I d \<Longrightarrow> I (handle_location_event request location d)"
    and op_timer: "I d \<Longrightarrow> is_disconnected (d_tunnel_state d) \<Longrightarrow>
      I (d\<lparr>d_availability := reset_inactivity_timer (d_availability d)\<rparr>)"
    and op_availability: "I d \<Longrightarrow> op \<in> {AvPauseBackground, AvResumeBackground, AvSuspend, AvUnsuspend} \<union> range AvSetOffline \<union> range AvTimerFires \<Longrightarrow>
      I (d\<lparr>d_availability := av_step op (d_availability d)\<rparr>)"

lemma settings_op_sends:
  "settings_op w d (send_event event d)"
  "settings_op w d (connect_tunnel d)"
  "settings_op w d (send_tunnel_command (AllowEndpoint endpoint tx) d)"
  "settings_op w d (send_tunnel_command (Block cause) d)"
  by (auto simp: settings_op_def sends)

sublocale settings_op_invariant \<subseteq> daemon_invariant w I
  by unfold_locales
    (rule op_view op_own op_settings_changed op_target op_transition op_location op_timer op_availability op_settings; (assumption | rule settings_ops settings_op_sends))+

section \<open>A tunnel is asked for while the target state is secured\<close>

definition secured_wanted :: "'b daemon \<Rightarrow> bool" where
  "secured_wanted d = (target d = Secured \<longrightarrow> fold wanted (tunnel_commands d) False)"

lemma wanted_without_disconnect: "Disconnect \<notin> set cs \<Longrightarrow> b \<Longrightarrow> fold wanted cs b"
proof (induction cs arbitrary: b)
  case (Cons c cs)
  then show ?case by (cases c) auto
qed simp

lemma wanted_op: "secured_wanted d \<Longrightarrow> settings_op w d d' \<Longrightarrow> secured_wanted d'"
  by (auto simp: secured_wanted_def settings_op_def intro: wanted_without_disconnect)

lemma wanted_target: "secured_wanted d \<Longrightarrow> secured_wanted (snd (set_target_state w state d))"
  using target_effect [of w state d "fst (set_target_state w state d)" "snd (set_target_state w state d)"]
  by (auto simp: secured_wanted_def split: if_splits)

lemma wanted_others:
  "secured_wanted d \<Longrightarrow> daemon_view d' = daemon_view d \<Longrightarrow> secured_wanted d'"
  "secured_wanted d \<Longrightarrow> secured_wanted (d\<lparr>d_pending := ps\<rparr>)"
  "secured_wanted d \<Longrightarrow> secured_wanted (d\<lparr>d_availability := a\<rparr>)"
  "secured_wanted d \<Longrightarrow> secured_wanted (update_feature_indicators_on_settings_changed (d\<lparr>d_pending := ps\<rparr>))"
  "secured_wanted d \<Longrightarrow> secured_wanted (handle_location_event request location d)"
  "secured_wanted d \<Longrightarrow> secured_wanted (handle_tunnel_state_transition t d)"
  by (simp_all add: secured_wanted_def location_frame settings_changed_frame daemon_view_def)

interpretation wanting: settings_op_invariant w secured_wanted for w
  by unfold_locales (auto intro: wanted_others wanted_target wanted_op)

section \<open>Inactivity\<close>

definition active_while_tunneling :: "'b daemon \<Rightarrow> bool" where
  "active_while_tunneling d =
     ((av_timer (d_availability d) \<noteq> None) = is_disconnected (d_tunnel_state d) \<and>
      (as_inactive (av_state (d_availability d)) \<longrightarrow> is_disconnected (d_tunnel_state d)))"

lemma timer_started: "av_timer (reset_inactivity_timer a) \<noteq> None \<and> \<not> as_inactive (av_state (reset_inactivity_timer a))"
  by (simp add: reset_inactivity_timer_def inner_defs av_send_def Let_def)

lemma background_resumed:
  "(av_timer (resume_background a) \<noteq> None) = (av_timer a \<noteq> None)"
  "as_inactive (av_state (resume_background a)) = (as_inactive (av_state a) \<and> av_timer a = None)"
  using timer_started by (auto simp: resume_background_def Let_def inner_resume_background_def av_send_def)

lemma availability_updated:
  "active_while_tunneling d \<Longrightarrow> d_tunnel_state d' = state \<Longrightarrow> d_availability d' = update_availability (d_tunnel_state d) state (d_availability d) \<Longrightarrow>
   active_while_tunneling d'"
  using timer_started
  by (auto simp: active_while_tunneling_def update_availability_def background_resumed inner_stop_inactivity_timer_def Let_def)

lemma availability_steps:
  "op \<in> {AvPauseBackground, AvResumeBackground, AvSuspend, AvUnsuspend} \<union> range AvSetOffline \<union> range AvTimerFires \<Longrightarrow>
   (av_timer (av_step op a) \<noteq> None) = (av_timer a \<noteq> None) \<and>
   (as_inactive (av_state (av_step op a)) \<longrightarrow> as_inactive (av_state a) \<or> av_timer a \<noteq> None)"
  using background_resumed [of a] by (cases op) (auto simp: inner_defs av_send_def split: if_splits)

lemma disconnected_kept:
  "is_disconnected (d_tunnel_state (handle_location_event request location d)) = is_disconnected (d_tunnel_state d)"
  "is_disconnected (d_tunnel_state (update_feature_indicators_on_settings_changed d)) = is_disconnected (d_tunnel_state d)"
  by (auto simp: handle_location_event_def update_feature_indicators_on_settings_changed_def update_features_def is_disconnected_def Let_def sends
      split: daemon_tunnel_state.split)

lemma activity_kept:
  "active_while_tunneling d \<Longrightarrow> is_disconnected (d_tunnel_state d') = is_disconnected (d_tunnel_state d) \<Longrightarrow> d_availability d' = d_availability d \<Longrightarrow>
   active_while_tunneling d'"
  by (simp add: active_while_tunneling_def)

interpretation activity: settings_op_invariant w active_while_tunneling for w
proof (unfold_locales, goal_cases)
  case (5 d state)
  then show ?case
    using target_effect [of w state d "fst (set_target_state w state d)" "snd (set_target_state w state d)"]
    by (intro activity_kept [OF 5]) (auto split: if_splits)
next
  case (6 d t)
  then show ?case by (rule availability_updated) simp_all
next
  case (9 d op)
  then show ?case using availability_steps [of op "d_availability d"] by (auto simp: active_while_tunneling_def)
qed (auto simp: daemon_view_def settings_op_def location_frame settings_changed_frame disconnected_kept active_while_tunneling_def timer_started [simplified]
  elim!: activity_kept)

section \<open>Feature indicators\<close>

text \<open>The indicators are those of the settings, or there is an event because of which they will be computed again.\<close>

definition features_current :: "'b daemon \<Rightarrow> bool" where
  "features_current d =
     (DvSettingsChanged \<in> set (d_pending d) \<or> update_features (settings d) (d_tunnel_state d) = d_tunnel_state d)"

lemma server_ip_override_indicator [simp]: "FiServerIpOverride \<in> compute_feature_indicators s endpoint b \<longleftrightarrow> b"
  by (auto simp: compute_feature_indicators_def Let_def List.map_filter_def image_iff)

lemma update_features_idem [simp]: "update_features s (update_features s state) = update_features s state"
  by (simp add: update_features_def Let_def split: daemon_tunnel_state.split)

lemma features_from_transition [simp]: "update_features (settings d) (tunnel_state_from_transition t d) = tunnel_state_from_transition t d"
  by (simp add: update_features_def tunnel_state_from_transition_def Let_def split: daemon_tunnel_state.split tunnel_state_transition.split)

lemma features_op: "features_current d \<Longrightarrow> settings_op w d d' \<Longrightarrow> \<forall>n. dm_remove w n \<Longrightarrow> features_current d'"
  by (auto simp: features_current_def settings_op_def)

lemma features_location: "features_current d \<Longrightarrow> features_current (handle_location_event request location d)"
  by (auto simp: features_current_def handle_location_event_def update_features_def Let_def sends split: daemon_tunnel_state.split)

lemma features_settings_changed: "features_current (update_feature_indicators_on_settings_changed d)"
  by (auto simp: features_current_def update_feature_indicators_on_settings_changed_def Let_def)

lemma event_left: "e \<in> set ps \<Longrightarrow> i < length ps \<Longrightarrow> ps ! i \<noteq> e \<Longrightarrow> e \<in> set (take i ps @ drop (Suc i) ps)"
  by (metis Un_iff id_take_nth_drop set_ConsD set_append)

interpretation features: settings_op_invariant w "\<lambda>d. (\<forall>n. dm_remove w n) \<longrightarrow> features_current d" for w
proof (unfold_locales, goal_cases)
  case (5 d state)
  then show ?case
    using target_effect [of w state d "fst (set_target_state w state d)" "snd (set_target_state w state d)"]
    by (simp add: features_current_def split: if_splits)
qed (auto simp: features_settings_changed daemon_view_def features_current_def [of "handle_tunnel_state_transition _ _"]
  intro: features_op features_location, auto simp: features_current_def dest: event_left)

end
