(* ===== verification/Daemon_Answers.thy ===== *)
theory Daemon_Answers
  imports Daemon_Handlers
begin

text \<open>
  Who answers a command: the handler itself, the tunnel state machine through a forwarded channel, a task that was given the sender, or the task that
  runs when the daemon is finalized.
\<close>

fun task_sender :: "daemon_task \<Rightarrow> sender option" where
  "task_sender (TaskCreateAccount tx) = Some tx"
| "task_sender (TaskAccountData tx _) = Some tx"
| "task_sender (TaskWwwAuthToken tx _) = Some tx"
| "task_sender (TaskSubmitVoucher tx _) = Some tx"
| "task_sender (TaskLogin tx _) = Some tx"
| "task_sender (TaskLogout tx) = Some tx"
| "task_sender (TaskGetDevice tx) = Some tx"
| "task_sender (TaskUpdateDevice tx) = Some tx"
| "task_sender (TaskListDevices tx _) = Some tx"
| "task_sender (TaskRemoveDevice tx _ _) = Some tx"
| "task_sender (TaskRotateKey tx) = Some tx"
| "task_sender (TaskVersionInfo tx) = Some tx"
| "task_sender (TaskCurrentMethod tx) = Some tx"
| "task_sender (TaskTestMethod tx _) = Some tx"
| "task_sender _ = None"

definition holds :: "sender \<Rightarrow> daemon_effect \<Rightarrow> bool" where
  "holds tx e =
     (case e of FxReply t _ \<Rightarrow> t = tx | FxForward _ t \<Rightarrow> t = tx | FxSpawn task \<Rightarrow> task_sender task = Some tx | _ \<Rightarrow> False)"

definition answers :: "sender \<Rightarrow> 'b daemon \<Rightarrow> nat" where
  "answers tx d = length (filter (holds tx) (d_log d)) + length (filter (\<lambda>(t, _). t = tx) (d_shutdown_tasks d))"

fun state_sender :: "state_command \<Rightarrow> sender option" where
  "state_sender (SetTargetState tx _) = Some tx"
| "state_sender (Reconnect tx) = Some tx"
| "state_sender (GetState tx) = Some tx"
| "state_sender (GetFeatureIndicators tx) = Some tx"
| "state_sender (IsPerformingPostUpgrade tx) = Some tx"
| "state_sender (GetCurrentVersion tx) = Some tx"
| "state_sender (GetVersionInfo tx) = Some tx"
| "state_sender (PrepareRestart _) = None"
| "state_sender (FactoryReset tx) = Some tx"
| "state_sender (GetRolloutThreshold tx) = Some tx"
| "state_sender (GenerateNewRolloutSeed tx) = Some tx"
| "state_sender (SetRolloutThresholdSeed _ tx) = Some tx"
| "state_sender (AppUpgrade tx) = Some tx"
| "state_sender (AppUpgradeAbort tx) = Some tx"
| "state_sender (GetAppUpgradeCacheDir tx) = Some tx"

fun account_sender :: "account_command \<Rightarrow> sender option" where
  "account_sender (CreateNewAccount tx) = Some tx"
| "account_sender (GetAccountData tx _) = Some tx"
| "account_sender (GetWwwAuthToken tx) = Some tx"
| "account_sender (SubmitVoucher tx _) = Some tx"
| "account_sender (GetAccountHistory tx) = Some tx"
| "account_sender (ClearAccountHistory tx) = Some tx"
| "account_sender (LoginAccount tx _) = Some tx"
| "account_sender (LogoutAccount tx) = Some tx"
| "account_sender (GetDevice tx) = Some tx"
| "account_sender (UpdateDevice tx) = Some tx"
| "account_sender (ListDevices tx _) = Some tx"
| "account_sender (RemoveDevice tx _ _) = Some tx"
| "account_sender (RotateWireguardKey tx) = Some tx"
| "account_sender (GetWireguardKey tx) = Some tx"

fun settings_sender :: "settings_command \<Rightarrow> sender option" where
  "settings_sender (SetRelaySettings tx _) = Some tx"
| "settings_sender (SetAllowLan tx _) = Some tx"
| "settings_sender (SetShowBetaReleases tx _) = Some tx"
| "settings_sender (SetLockdownMode tx _) = Some tx"
| "settings_sender (SetAutoConnect tx _) = Some tx"
| "settings_sender (SetEnableIpv6 tx _) = Some tx"
| "settings_sender (SetUserspaceWireguard tx _) = Some tx"
| "settings_sender (SetEnableRecents tx _) = Some tx"
| "settings_sender (SetQuantumResistantTunnel tx _) = Some tx"
| "settings_sender (SetEnableDaita tx _) = Some tx"
| "settings_sender (SetDaitaUseMultihopIfNecessary tx _) = Some tx"
| "settings_sender (SetDaitaSettings tx _) = Some tx"
| "settings_sender (SetDnsOptions tx _) = Some tx"
| "settings_sender (SetRelayOverride tx _) = Some tx"
| "settings_sender (ClearAllRelayOverrides tx) = Some tx"
| "settings_sender (SetWireguardMtu tx _) = Some tx"
| "settings_sender (SetWireguardAllowedIps tx _) = Some tx"
| "settings_sender (SetWireguardRotationInterval tx _) = Some tx"
| "settings_sender (SetObfuscationSettings tx _) = Some tx"
| "settings_sender (GetSettings tx) = Some tx"
| "settings_sender (ResetSettings tx) = Some tx"
| "settings_sender (ApplyJsonSettings tx _) = Some tx"
| "settings_sender (ExportJsonSettings tx) = Some tx"
| "settings_sender (UpdateDefaultLocationCountry tx) = Some tx"

fun relay_sender :: "relay_command \<Rightarrow> sender option" where
  "relay_sender (GetRelayLocations tx) = Some tx"
| "relay_sender UpdateRelayLocations = None"
| "relay_sender (GetBridges tx) = Some tx"
| "relay_sender (CreateCustomList tx _ _) = Some tx"
| "relay_sender (DeleteCustomList tx _) = Some tx"
| "relay_sender (UpdateCustomList tx _) = Some tx"
| "relay_sender (ClearCustomLists tx) = Some tx"
| "relay_sender (DisableRelay _ tx) = Some tx"
| "relay_sender (EnableRelay _ tx) = Some tx"

fun api_sender :: "api_command \<Rightarrow> sender option" where
  "api_sender (AddApiAccessMethod tx _ _ _) = Some tx"
| "api_sender (RemoveApiAccessMethod tx _) = Some tx"
| "api_sender (SetApiAccessMethod tx _) = Some tx"
| "api_sender (UpdateApiAccessMethod tx _) = Some tx"
| "api_sender (ClearCustomApiAccessMethods tx) = Some tx"
| "api_sender (GetCurrentAccessMethod tx) = Some tx"
| "api_sender (TestApiAccessMethodById tx _) = Some tx"
| "api_sender (TestCustomApiAccessMethod tx _) = Some tx"

fun process_sender :: "process_command \<Rightarrow> sender option" where
  "process_sender (SplitTunnelIsSupported tx) = Some tx"
| "process_sender (GetSplitTunnelProcesses tx) = Some tx"
| "process_sender (AddSplitTunnelProcess tx _) = Some tx"
| "process_sender (RemoveSplitTunnelProcess tx _) = Some tx"
| "process_sender (ClearSplitTunnelProcesses tx) = Some tx"

fun command_sender :: "daemon_command \<Rightarrow> sender option" where
  "command_sender (CmdState c) = state_sender c"
| "command_sender (CmdAccount c) = account_sender c"
| "command_sender (CmdSettings c) = settings_sender c"
| "command_sender (CmdRelay c) = relay_sender c"
| "command_sender (CmdApi c) = api_sender c"
| "command_sender (CmdProcess c) = process_sender c"

section \<open>Operations\<close>

lemma answers_fx [simp]: "answers tx (fx e d) = answers tx d + (if holds tx e then 1 else 0)"
  by (simp add: answers_def fx_def)

lemma holds_simps [simp]:
  "holds tx (FxReply t r) = (t = tx)" "holds tx (FxForward t' t) = (t = tx)" "holds tx (FxSpawn task) = (task_sender task = Some tx)"
  "\<not> holds tx (FxTunnel c)" "\<not> holds tx (FxNotify n)" "\<not> holds tx FxLogout" "\<not> holds tx FxUpdateRelayList" "\<not> holds tx (FxPids c')"
  "\<not> holds tx (FxSetRotationInterval i)"
  by (simp_all add: holds_def)

lemma answers_frame [simp]:
  "answers tx (d\<lparr>d_settings := s\<rparr>) = answers tx d"
  "answers tx (d\<lparr>d_calls := n\<rparr>) = answers tx d"
  "answers tx (d\<lparr>d_options_queue := q\<rparr>) = answers tx d"
  "answers tx (d\<lparr>d_settings_tasks := ts\<rparr>) = answers tx d"
  "answers tx (d\<lparr>d_pending := p\<rparr>) = answers tx d"
  "answers tx (d\<lparr>d_next_sender := n\<rparr>) = answers tx d"
  "answers tx (d\<lparr>d_target_state := pts\<rparr>) = answers tx d"
  "answers tx (d\<lparr>d_account_history := h\<rparr>) = answers tx d"
  "answers tx (d\<lparr>d_generator := g\<rparr>) = answers tx d"
  "answers tx (d\<lparr>d_availability := a\<rparr>) = answers tx d"
  "answers tx (d\<lparr>d_shutdown_tasks := d_shutdown_tasks d @ [(t, e)]\<rparr>) = answers tx d + (if t = tx then 1 else 0)"
  by (simp_all add: answers_def)

lemma answers_ops [simp]:
  "answers tx (called d) = answers tx d"
  "answers tx (oneshot_send t r d) = answers tx d + (if t = tx then 1 else 0)"
  "answers tx (spawn task d) = answers tx d + (if task_sender task = Some tx then 1 else 0)"
  "answers tx (notify_interface n d) = answers tx d"
  "answers tx (send_event e d) = answers tx d"
  "answers tx (send_tunnel_command c d) = answers tx d"
  "answers tx (connect_tunnel d) = answers tx d"
  "answers tx (disconnect_tunnel d) = answers tx d"
  "answers tx (reconnect_tunnel d) = answers tx d"
  "answers tx (send_unwatched command d) = answers tx d"
  "answers tx (settings_listeners d) = answers tx d"
  "answers tx (update_relay_selector f d) = answers tx d"
  by (simp_all add: called_def oneshot_send_def spawn_def notify_interface_def send_event_def send_tunnel_command_def connect_tunnel_def disconnect_tunnel_def
      reconnect_tunnel_def send_unwatched_def oneshot_channel_def settings_listeners_def update_relay_selector_def Let_def)

lemma answers_results:
  "settings_try_update w f d = (r, d') \<Longrightarrow> \<forall>tx. answers tx d' = answers tx d"
  "settings_update w g d = (r, d') \<Longrightarrow> \<forall>tx. answers tx d' = answers tx d"
  "settings_reset w d = (r', d') \<Longrightarrow> \<forall>tx. answers tx d' = answers tx d"
  "set_target_state w state d = (b, d') \<Longrightarrow> \<forall>tx. answers tx d' = answers tx d"
  "oneshot_map t d = (t', d') \<Longrightarrow> \<forall>tx. answers tx d' = answers tx d + (if t = tx then 1 else 0)"
  by (auto simp: settings_try_update_def settings_update_def settings_reset_def set_target_state_def oneshot_map_def oneshot_channel_def Let_def
      split: prod.splits if_splits target_state.splits)

lemma answers_settings_ops [simp]:
  "answers tx (set_rollout_threshold_seed w seed d) = answers tx d"
  "answers tx (run_update_recents w d) = answers tx d"
  "answers tx (clear_update_default_location w d) = answers tx d"
  by (simp_all add: set_rollout_threshold_seed_def run_update_recents_def clear_update_default_location_def
      answers_results(2) [OF prod.collapse [symmetric], rule_format])

lemma answers_update_setting [simp]:
  assumes "\<And>d. answers tx (on_change d) = answers tx d"
  shows "answers tx (update_setting w t f on_change d) = answers tx d + (if t = tx then 1 else 0)"
  using assms by (auto simp: update_setting_def Let_def dest!: answers_results split: prod.split sum.split)

lemma answers_machine_setting [simp]:
  "answers tx (update_machine_setting w t f command d) = answers tx d + (if t = tx then 1 else 0)"
  by (auto simp: update_machine_setting_def dest!: answers_results split: prod.split sum.split)


section \<open>Handlers\<close>

lemma answers_state: "answers tx (handle_state_command w c d) = answers tx d + (if state_sender c = Some tx then 1 else 0)"
  by (cases c)
    (auto simp: handle_state_command_def simple_handlers on_set_target_state_def on_reconnect_def on_get_feature_indicators_def on_prepare_restart_def
      on_factory_reset_def on_get_rollout_threshold_def generate_and_set_def Let_def dest!: answers_results split: prod.split option.split)

lemma answers_account: "answers tx (handle_account_command w c d) = answers tx d + (if account_sender c = Some tx then 1 else 0)"
  by (cases c)
    (auto simp: handle_account_command_def simple_handlers on_get_www_auth_token_def on_get_wireguard_key_def on_clear_account_history_def
      split: prod.split sum.split private_device_state.split)

lemma answers_relay_settings [simp]: "answers tx (on_set_relay_settings w t r d) = answers tx d + (if t = tx then 1 else 0)"
  by (simp add: on_set_relay_settings_def)

lemma answers_settings: "answers tx (handle_settings_command w c d) = answers tx d + (if settings_sender c = Some tx then 1 else 0)"
  by (cases c)
    (auto simp: handle_settings_command_def simple_handlers on_set_allow_lan_def on_set_lockdown_mode_def on_set_dns_options_def on_set_show_beta_releases_def
      on_set_auto_connect_def on_set_enable_ipv6_def on_set_userspace_wireguard_def on_set_quantum_resistant_tunnel_def on_set_daita_enabled_def
      on_set_daita_use_multihop_if_necessary_def on_set_daita_settings_def on_set_relay_override_def on_clear_all_relay_overrides_def
      on_set_wireguard_mtu_def on_set_wireguard_rotation_interval_def on_set_enable_recents_def on_set_wireguard_allowed_ips_def
      on_export_json_settings_def on_set_obfuscation_settings_def on_reset_settings_def on_apply_json_settings_def on_update_default_location_def Let_def
      dest!: answers_results split: prod.split sum.split option.split)

lemma answers_lists [simp]: "answers tx (update_custom_lists w t i f d) = answers tx d + (if t = tx then 1 else 0)"
  by (auto simp: update_custom_lists_def Let_def dest!: answers_results split: prod.split)

lemma answers_create: "create_custom_list w name locations d = (r, d') \<Longrightarrow> \<forall>tx. answers tx d' = answers tx d"
  by (auto simp: create_custom_list_def Let_def dest!: answers_results split: sum.splits prod.splits)

lemma answers_relay:
  "\<not> d_panicked (handle_relay_command w c d) \<Longrightarrow> answers tx (handle_relay_command w c d) = answers tx d + (if relay_sender c = Some tx then 1 else 0)"
  by (cases c)
    (auto simp: handle_relay_command_def simple_handlers on_delete_custom_list_def on_update_custom_list_def on_clear_custom_lists_def on_toggle_relay_def Let_def
      dest!: answers_create split: prod.splits sum.splits)

lemma answers_access: "update_access_settings w describe f d = (r, d') \<Longrightarrow> \<forall>tx. answers tx d' = answers tx d"
  by (auto simp: update_access_settings_def dest!: answers_results)

lemma answers_api: "answers tx (handle_api_command w c d) = answers tx d + (if api_sender c = Some tx then 1 else 0)"
  by (cases c)
    (auto simp: handle_api_command_def simple_handlers on_add_access_method_def on_remove_api_access_method_def on_set_api_access_method_def
      on_update_api_access_method_def on_clear_custom_api_access_methods_def on_test_api_access_method_def on_test_proxy_as_access_method_def Let_def
      dest!: answers_access split: prod.split sum.split option.split)

lemma answers_process: "answers tx (handle_process_command w c d) = answers tx d + (if process_sender c = Some tx then 1 else 0)"
  by (cases c) (auto simp: handle_process_command_def simple_handlers Let_def)

lemma answers_command:
  assumes "\<not> d_panicked (handle_daemon_command w c d)"
  shows "answers tx (handle_daemon_command w c d) = answers tx d + (if command_sender c = Some tx then 1 else 0)"
  using assms
  by (cases c)
    (simp_all add: handle_daemon_command_def Let_def answers_state answers_account answers_settings answers_relay answers_api answers_process
      split: if_splits)

end
