(* ===== verification/Relay_Properties.thy ===== *)
theory Relay_Properties
  imports Relay_Correct
begin

text \<open>
  The properties of the relay selector, for every relay list, every query and every outcome of the
  random choices, with a small relay list as the example of their hypotheses.
\<close>

section \<open>An example\<close>

definition ex_relay :: "string \<Rightarrow> string \<Rightarrow> f64 \<Rightarrow> bool \<Rightarrow> wireguard_relay" where
  "ex_relay host country lat daita =
     \<lparr>hostname = host, ipv4_addr_in = 0x0A000001, ipv6_addr_in = None, active = True, weight = 100,
      rl_location = \<lparr>loc_country = country, loc_country_code = country, loc_city = ''got'',
        loc_city_code = ''got'', latitude = lat, longitude = 0\<rparr>,
      overridden_ipv4 = False, overridden_ipv6 = False, include_in_country = True, owned = True,
      provider = ''31173'',
      endpoint_data = \<lparr>wre_public_key = [], wre_daita = daita,
        wre_quic = Some \<lparr>q_addr_in = [IpV6 1], q_token = ''token'', q_domain = ''host''\<rparr>,
        wre_lwo = True, wre_shadowsocks_extra_addr_in = []\<rparr>\<rparr>"

definition ex_data :: endpoint_data where
  "ex_data = \<lparr>ed_port_ranges = [(53, 53), (4000, 4001)], ed_ipv4_gateway = 0x0A400001,
     ed_ipv6_gateway = 1, ed_shadowsocks_port_ranges = [], ed_udp2tcp_ports = [443]\<rparr>"

definition ex_relay_list :: relay_list where
  "ex_relay_list =
     \<lparr>rl_countries = [\<lparr>rlo_name = ''Sweden'', rlo_code = ''se'', rlo_cities =
        [\<lparr>rlc_name = ''Gothenburg'', rlc_code = ''got'', rlc_latitude = 0, rlc_longitude = 0,
          rlc_relays = [ex_relay ''a'' ''se'' 0 True, ex_relay ''b'' ''se'' 0 False,
                        ex_relay ''c'' ''no'' 1 True]\<rparr>]\<rparr>],
      rl_wireguard = ex_data\<rparr>"

definition ex_rng :: rng where
  "ex_rng = \<lparr>rng_relay = (\<lambda>_ xs. case xs of [] \<Rightarrow> None | x # _ \<Rightarrow> Some x), rng_weight = (\<lambda>_ lo _. lo),
     rng_wg_port = (\<lambda>xs. case xs of [] \<Rightarrow> None | x # _ \<Rightarrow> Some x),
     rng_obfuscator_port = (\<lambda>xs. case xs of [] \<Rightarrow> None | x # _ \<Rightarrow> Some x),
     rng_any_port = (\<lambda>lo _. lo),
     rng_obfuscator_addr = (\<lambda>xs. case xs of [] \<Rightarrow> None | x # _ \<Rightarrow> Some x)\<rparr>"

definition ex_haversine :: haversine where
  "ex_haversine a b c d = (if a = c \<and> b = d then 0 else 0x4059000000000000)"

definition ex_query :: "location_constraint constraint \<Rightarrow> relay_query" where
  "ex_query entry_location =
     \<lparr>rq_hops = HopsMulti
        \<lparr>mh_entry = \<lparr>ec_general = \<lparr>ex_location = entry_location, ex_providers = Any, ex_ownership = Any\<rparr>,
                    ec_entry_specific = \<lparr>es_obfuscation = Any, es_daita = Only True, es_ip_version = Any\<rparr>\<rparr>,
         mh_exit = \<lparr>ex_location = Only (Location (Country ''se'')), ex_providers = Any, ex_ownership = Any\<rparr>\<rparr>,
      rq_allowed_ips = Any, rq_quantum_resistant = Any\<rparr>"

definition ex_annotated :: annotated_relay_list where
  "ex_annotated = projr (annotated_new ex_relay_list)"

lemma ex_rng_ok: "rng_ok ex_rng"
  by (auto simp: rng_ok_def ex_rng_def chooses_def draws_in_range_def split: list.splits)

lemma ex_relays: "relay_list_relays ex_relay_list =
    [ex_relay ''a'' ''se'' 0 True, ex_relay ''b'' ''se'' 0 False, ex_relay ''c'' ''no'' 1 True]"
  by (simp add: relay_list_relays_def ex_relay_list_def)

lemma ex_annotated_new: "annotated_new ex_relay_list = Inr ex_annotated"
proof -
  have "res_ok (annotated_new ex_relay_list)"
    by (simp add: annotated_new_exact ex_relay_list_def ex_data_def)
  then show ?thesis by (auto simp: ex_annotated_def res_ok_def split: sum.splits)
qed

lemma ex_annotated_ok: "annotated_ok ex_annotated"
  using annotated_new_Inr [OF ex_annotated_new] by simp

definition ex_selector :: relay_selector where
  "ex_selector = \<lparr>rs_config = config_from_query (ex_query (Only (Location (Country ''no'')))),
     rs_relays = ex_annotated, rs_bridges = \<lparr>bl_bridges = [], bl_bridge_endpoint = []\<rparr>\<rparr>"

lemma ex_selector_reachable: "selector_reachable ex_selector"
proof (rule selector_reachable.from_query)
  show "selector_from_query (ex_query (Only (Location (Country ''no'')))) ex_relay_list
      \<lparr>bl_bridges = [], bl_bridge_endpoint = []\<rparr> = Inr ex_selector"
    by (simp add: selector_from_query_def ex_annotated_new ex_selector_def)
qed

section \<open>The user's choice\<close>

text \<open>
  C11. Whatever retry attempt it is and whatever is drawn, a relay the selector returns honours the
  user's query and the address families of the host: the exit is active and meets the location,
  provider and ownership constraints; two hops are used only if the query allows them, and are two
  relays, of which a chosen entry meets the constraints on the entry; the entry runs DAITA if that
  is asked for; its address is of a family the user and the host allow; and an obfuscation method
  and port the user chose are used as chosen.
\<close>

theorem relay_honours_user:
  assumes "selector_reachable s" and "\<And>n. rng_ok (rngs n)"
    and "selector_get_relay hav rngs s retry_attempt avail = Inr r"
  shows "answer_honours (rs_relays s) (sc_custom_lists (rs_config s)) (sc_query (rs_config s)) avail r"
  using get_relay_honours [OF assms(2) selector_reachable_ok [OF assms(1)]] assms(3)
  by (simp add: selector_get_relay_def)

theorem relay_honours_user_witness:
  "\<exists>r. selector_get_relay ex_haversine (\<lambda>_. ex_rng) ex_selector 3 Ipv4 = Inr r \<and>
     answer_honours (rs_relays ex_selector) [] (ex_query (Only (Location (Country ''no'')))) Ipv4 r"
proof -
  have "res_ok (selector_get_relay ex_haversine (\<lambda>_. ex_rng) ex_selector 3 Ipv4)" by code_simp
  then obtain r where r: "selector_get_relay ex_haversine (\<lambda>_. ex_rng) ex_selector 3 Ipv4 = Inr r"
    by (auto simp: res_ok_def split: sum.splits)
  have config: "rs_config ex_selector = config_from_query (ex_query (Only (Location (Country ''no''))))"
    by (simp add: ex_selector_def)
  from r relay_honours_user [OF ex_selector_reachable ex_rng_ok r] show ?thesis
    by (simp add: config config_from_query_def)
qed

section \<open>What constraints admit\<close>

text \<open>
  What a constraint means: the values it admits. An intersection is right if the merged constraint
  admits exactly the values both constraints admit, and there is none if no value is admitted by both.
\<close>

locale admitting =
  fixes meet :: "'a \<Rightarrow> 'a \<Rightarrow> 'a option" and allows :: "'a \<Rightarrow> 'v \<Rightarrow> bool"
  assumes merged: "meet a b = Some c \<Longrightarrow> allows c v \<longleftrightarrow> allows a v \<and> allows b v"
    and conflict: "meet a b = None \<Longrightarrow> \<not> (allows a v \<and> allows b v)"
begin

lemma merged_fun: "meet a b = Some c \<Longrightarrow> allows c = (\<lambda>v. allows a v \<and> allows b v)"
  using merged by blast

lemma conflict_all: "meet a b = None \<Longrightarrow> \<forall>v. \<not> (allows a v \<and> allows b v)"
  using conflict by blast

lemma admitting_constraint: "admitting (constraint_inter meet) (constraint_matches allows)"
proof
  show "constraint_matches allows c v \<longleftrightarrow> constraint_matches allows a v \<and> constraint_matches allows b v"
    if "constraint_inter meet a b = Some c" for a b c v
    using that merged by (cases a; cases b) (auto simp: constraint_matches_def)
  show "\<not> (constraint_matches allows a v \<and> constraint_matches allows b v)"
    if "constraint_inter meet a b = None" for a b v
    using that conflict by (cases a; cases b) (auto simp: constraint_matches_def)
qed

end

interpretation equal: admitting inter_partialeq "(=)"
  by unfold_locales (auto simp: inter_partialeq_def split: if_splits)

interpretation equal_constraint: admitting "constraint_inter inter_partialeq" "constraint_matches (=)"
  by (rule equal.admitting_constraint)

text \<open>How WireGuard traffic can be carried to the entry relay, with the port it is sent to.\<close>

datatype carrier = OverPlain | OverPort u16 | OverUdp2tcp u16 | OverShadowsocks u16 | OverQuic | OverLwo u16

fun mode_carries :: "obfuscation_mode \<Rightarrow> carrier \<Rightarrow> bool" where
  "mode_carries ModeOff c \<longleftrightarrow> c = OverPlain"
| "mode_carries (ModePort s) c \<longleftrightarrow> (\<exists>port. c = OverPort port \<and> constraint_matches (=) (wgp_port s) port)"
| "mode_carries (ModeUdp2tcp s) c \<longleftrightarrow> (\<exists>port. c = OverUdp2tcp port \<and> constraint_matches (=) (u2t_port s) port)"
| "mode_carries (ModeShadowsocks s) c \<longleftrightarrow> (\<exists>port. c = OverShadowsocks port \<and> constraint_matches (=) (ss_port s) port)"
| "mode_carries ModeQuic c \<longleftrightarrow> c = OverQuic"
| "mode_carries (ModeLwo s) c \<longleftrightarrow> (\<exists>port. c = OverLwo port \<and> constraint_matches (=) (lwo_port s) port)"

interpretation mode: admitting obfuscation_mode_inter mode_carries
proof
  show "mode_carries c v \<longleftrightarrow> mode_carries a v \<and> mode_carries b v"
    if "obfuscation_mode_inter a b = Some c" for a b c v
    using that by (cases a; cases b) (auto simp: port_inter_def dest!: equal_constraint.merged_fun)
  show "\<not> (mode_carries a v \<and> mode_carries b v)" if "obfuscation_mode_inter a b = None" for a b v
    using that by (cases a; cases b) (auto simp: port_inter_def dest: equal_constraint.conflict_all)
qed

interpretation mode_constraint: admitting "constraint_inter obfuscation_mode_inter" "constraint_matches mode_carries"
  by (rule mode.admitting_constraint)

text \<open>A way to reach an entry relay: the carrier, whether DAITA is used, and the IP version.\<close>

definition entry_admits :: "entry_specific_constraints \<Rightarrow> carrier \<times> bool \<times> ip_version \<Rightarrow> bool" where
  "entry_admits es = (\<lambda>(carrier, daita, version).
     constraint_matches mode_carries (es_obfuscation es) carrier \<and> constraint_matches (=) (es_daita es) daita \<and>
     constraint_matches (=) (es_ip_version es) version)"

interpretation entry: admitting entry_specific_inter entry_admits
proof
  show "entry_admits c v \<longleftrightarrow> entry_admits a v \<and> entry_admits b v"
    if "entry_specific_inter a b = Some c" for a b c v
    using that by (auto simp: entry_specific_inter_def entry_admits_def split: bind_splits
        dest!: mode_constraint.merged_fun equal_constraint.merged_fun)
  show "\<not> (entry_admits a v \<and> entry_admits b v)" if "entry_specific_inter a b = None" for a b v
    using that by (cases v) (auto simp: entry_specific_inter_def entry_admits_def split: bind_splits
        dest!: mode_constraint.conflict_all equal_constraint.conflict_all)
qed

lemma entry_admits_some: "\<exists>way. entry_admits es way"
proof -
  have eq: "\<exists>x. constraint_matches (=) c x" for c :: "'b constraint"
    by (cases c) (auto simp: constraint_matches_def)
  have "\<exists>x. mode_carries m x" for m by (cases m) (auto simp: eq)
  then have "\<exists>x. constraint_matches mode_carries (es_obfuscation es) x"
    by (cases "es_obfuscation es") (auto simp: constraint_matches_def)
  with eq [of "es_daita es"] eq [of "es_ip_version es"] show ?thesis by (auto simp: entry_admits_def)
qed


section \<open>Robustness\<close>

text \<open>
  C14. In every state the selector can be in, neither a request for a relay nor partitioning the relay
  list panics: every relay of its list has an endpoint set, the weighted choice always ends at a
  relay, and the \<open>unwrap\<close> in \<open>apply_ip_availability\<close> is never reached with \<open>Any\<close>. A new relay
  list is refused, with a panic, exactly if it has relays and no WireGuard port ranges.
\<close>

theorem selector_never_panics:
  assumes "selector_reachable s" and "\<And>n. rng_ok (rngs n)"
  shows "selector_get_relay hav rngs s retry_attempt avail \<noteq> Inl (Panic msg) \<and>
    (\<exists>p. partition_relays (rs_relays s) (sc_custom_lists (rs_config s)) predicate = Inr p) \<and>
    (res_ok (set_relays relays s) \<longleftrightarrow>
       relay_list_relays relays = [] \<or> ed_port_ranges (rl_wireguard relays) \<noteq> [])"
proof -
  note ok = selector_reachable_ok [OF assms(1)]
  show ?thesis
    using get_relay_no_panic [OF assms(2) ok] partition_relays_no_panic [OF ok] annotated_new_exact [of relays]
    by (cases "annotated_new relays") (simp_all add: selector_get_relay_def set_relays_def)
qed

theorem selector_never_panics_witness:
  "selector_get_relay ex_haversine (\<lambda>_. ex_rng) ex_selector 0 Ipv6 \<noteq> Inl (Panic ''unwrap'') \<and>
   \<not> res_ok (set_relays (ex_relay_list\<lparr>rl_wireguard := ex_data\<lparr>ed_port_ranges := []\<rparr>\<rparr>) ex_selector)"
  using selector_never_panics [OF ex_selector_reachable ex_rng_ok,
      where relays = "ex_relay_list\<lparr>rl_wireguard := ex_data\<lparr>ed_port_ranges := []\<rparr>\<rparr>" and avail = Ipv6
        and retry_attempt = 0 and msg = "''unwrap''" and hav = ex_haversine]
  by (simp add: relay_list_relays_def ex_relay_list_def)

section \<open>Finding relays\<close>

text \<open>
  C15. With unique host names and a location for the entry, choosing two hops succeeds, whatever is
  drawn, exactly if the list has a relay that fits as the entry and another one that fits as the
  exit.
\<close>

theorem multihop_selection_exact:
  assumes "rng_ok rng" and "annotated_ok relays" and "distinct (map hostname (all_relays relays))"
    and "rq_hops query = HopsMulti c" and "ex_location (ec_general (mh_entry c)) = Only l"
  shows "res_ok (select_wireguard_relay hav rng relays cl query) \<longleftrightarrow>
    (\<exists>entry \<in> set (all_relays relays). \<exists>exit \<in> set (all_relays relays).
       entry_ok relays cl (mh_entry c) entry \<and> exit_ok exit (mh_exit c) cl \<and> hostname entry \<noteq> hostname exit)"
  by (rule select_multihop_exact [OF assms])

theorem multihop_selection_exact_witness:
  "\<exists>entry \<in> set (all_relays ex_annotated). \<exists>exit \<in> set (all_relays ex_annotated).
     exit_ok exit (query_exit (ex_query (Only (Location (Country ''no''))))) [] \<and> hostname entry \<noteq> hostname exit"
proof -
  let ?l = "Location (Country ''no'')"
  let ?q = "ex_query (Only ?l)"
  have "res_ok (select_wireguard_relay ex_haversine ex_rng ex_annotated [] ?q)" by code_simp
  moreover have distinct: "distinct (map hostname (all_relays ex_annotated))" by code_simp
  moreover obtain c where c: "rq_hops ?q = HopsMulti c" "ex_location (ec_general (mh_entry c)) = Only ?l"
    "query_exit ?q = mh_exit c"
    by (simp add: ex_query_def query_exit_def)
  ultimately show ?thesis
    using multihop_selection_exact [OF ex_rng_ok ex_annotated_ok distinct c(1,2), of ex_haversine "[]"] c(3) by auto
qed

text \<open>
  With no location for the entry (an automatic entry), the selection fails for want of an entry
  although another relay fits as the entry, whenever the exit that was drawn fits as an entry too
  and every other candidate is at a positive distance from it: the exit is then the only closest
  candidate, and it is excluded only after the others were dropped.
\<close>

theorem automatic_entry_blocked:
  assumes "rng_ok rng" and relays: "annotated_ok relays" and distinct: "distinct (map hostname (all_relays relays))"
    and hops: "rq_hops query = HopsMulti c" and loc: "ex_location (ec_general (mh_entry c)) = Any"
    and p: "partition_multihop relays c cl = Inr p"
    and exit: "pick_random_relay rng 0 (rp_matches (mp_exits p)) = Inr (Some exit)"
    and both: "exit \<in> set (rp_matches (mp_entries p))"
    and zero: "distance_from hav (rl_location exit) (rl_location exit) = 0"
    and far: "\<forall>e \<in> set (rp_matches (mp_entries p)). hostname e \<noteq> hostname exit \<longrightarrow>
      0 < f64_total_key (distance_from hav (rl_location e) (rl_location exit))"
  shows "select_wireguard_relay hav rng relays cl query = Inl (NoRelayEntry (mh_entry c)) \<and>
    (\<exists>entry \<in> set (rp_matches (mp_entries p)). hostname entry \<noteq> hostname exit)"
proof
  have sub: "set (rp_matches (mp_entries p)) \<subseteq> set (all_relays relays)"
    using partition_multihop_sound(1) [OF relays p] by blast
  have "e = exit" if "e \<in> set (rp_matches (mp_entries p))" "relay_eq e exit" for e
    using distinct_hostname_inj [OF distinct] sub both that by blast
  then have "\<forall>r \<in> set (closest_relays hav (rp_matches (mp_entries p)) (rl_location exit)). relay_eq r exit"
    using far by (intro closest_relays_only_exit [OF both zero]) (auto simp: relay_eq_def)
  then show "select_wireguard_relay hav rng relays cl query = Inl (NoRelayEntry (mh_entry c))"
    using select_auto_entry_blocked [OF assms(1) loc exit] by (simp add: select_wireguard_relay_def hops p)
  have "exit \<in> set (rp_matches (mp_exits p))"
    using exit by (rule_tac pick_random_relay_cases [OF assms(1), of "rp_matches (mp_exits p)" 0]) auto
  then show "\<exists>entry \<in> set (rp_matches (mp_entries p)). hostname entry \<noteq> hostname exit"
    using unresolved_conflict_other [OF relays distinct p _ both] by blast
qed

lemma ex_multihop_partition:
  "partition_multihop ex_annotated (case rq_hops (ex_query Any) of HopsMulti c \<Rightarrow> c) [] =
     Inr \<lparr>mp_entries = \<lparr>rp_matches = [ex_relay ''a'' ''se'' 0 True, ex_relay ''c'' ''no'' 1 True],
                        rp_discards = [(ex_relay ''b'' ''se'' 0 False, [ReasonDaita])]\<rparr>,
          mp_exits = \<lparr>rp_matches = [ex_relay ''a'' ''se'' 0 True, ex_relay ''b'' ''se'' 0 False],
                      rp_discards = [(ex_relay ''c'' ''no'' 1 True, [ReasonLocation])]\<rparr>\<rparr>"
  by code_simp

theorem automatic_entry_blocked_witness:
  "select_wireguard_relay ex_haversine ex_rng ex_annotated [] (ex_query Any) =
     Inl (NoRelayEntry (query_entry (ex_query Any))) \<and>
   hostname (ex_relay ''c'' ''no'' 1 True) \<noteq> hostname (ex_relay ''a'' ''se'' 0 True)"
proof -
  let ?exit = "ex_relay ''a'' ''se'' 0 True" and ?other = "ex_relay ''c'' ''no'' 1 True"
  obtain c where c: "rq_hops (ex_query Any) = HopsMulti c" "ex_location (ec_general (mh_entry c)) = Any"
    "query_entry (ex_query Any) = mh_entry c"
    by (simp add: ex_query_def query_entry_def)
  note p = ex_multihop_partition [unfolded c(1) hops.case]
  have distinct: "distinct (map hostname (all_relays ex_annotated))" by code_simp
  have pick: "pick_random_relay ex_rng 0 [?exit, ex_relay ''b'' ''se'' 0 False] = Inr (Some ?exit)" by code_simp
  have dist: "distance_from ex_haversine (rl_location ?exit) (rl_location ?exit) = 0"
    "0 < f64_total_key (distance_from ex_haversine (rl_location ?other) (rl_location ?exit))"
    by code_simp+
  show ?thesis
    using automatic_entry_blocked [OF ex_rng_ok ex_annotated_ok distinct c(1,2) p, of ?exit ex_haversine] pick dist c(3)
    by (simp add: ex_relay_def)
qed

section \<open>Endpoints\<close>

text \<open>
  For a relay that the filter accepts for the obfuscation and address family asked for, an
  endpoint and obfuscator are found, whatever is drawn, exactly if the WireGuard address of the relay
  has that family. A relay that is accepted for its IPv6 QUIC or Shadowsocks addresses but has no
  IPv6 WireGuard address ends in an error.
\<close>

theorem accepted_relay_endpoint_exact:
  assumes "rng_ok rng" and "relay_endpoint_set_new relay data = Some self" and "endpoint_data_usable data"
    and "obfuscation_verdict self c = RelayAccept"
  shows "res_ok (get_wireguard_obfuscator rng self (es_obfuscation c) (es_ip_version c)) \<longleftrightarrow>
    es_ip_version c \<noteq> Only V6 \<or> ipv6_addr_in relay \<noteq> None"
proof -
  have "res_wireguard self = \<lparr>we_ipv4 = ipv4_addr_in relay, we_ipv6 = ipv6_addr_in relay,
      we_port_ranges = ed_port_ranges data\<rparr>"
    using assms(2) by (auto simp: relay_endpoint_set_new_def vec1_try_from_vec_def split: if_splits)
  then have "wg_supports_ip_version (res_wireguard self) (es_ip_version c) \<longleftrightarrow>
      es_ip_version c \<noteq> Only V6 \<or> ipv6_addr_in relay \<noteq> None"
    by (auto simp: wg_supports_ip_version_def select_ip_def split: constraint.splits ip_version.splits)
  then show ?thesis
    using get_wireguard_obfuscator_exact [OF assms(1) relay_endpoint_set_new_usable [OF assms(2,3)] assms(4)]
    by simp
qed

theorem accepted_relay_endpoint_exact_witness:
  "\<exists>self. relay_endpoint_set_new (ex_relay ''a'' ''se'' 0 True) ex_data = Some self \<and>
     obfuscation_verdict self (es_with_ip_version es_quic V6) = RelayAccept \<and>
     \<not> res_ok (get_wireguard_obfuscator ex_rng self (es_obfuscation (es_with_ip_version es_quic V6)) (Only V6))"
proof -
  let ?relay = "ex_relay ''a'' ''se'' 0 True" and ?c = "es_with_ip_version es_quic V6"
  obtain self where self: "relay_endpoint_set_new ?relay ex_data = Some self"
    using relay_endpoint_set_new_None [of ?relay ex_data] by (auto simp: ex_data_def)
  have "(case relay_endpoint_set_new ?relay ex_data of None \<Rightarrow> False | Some es \<Rightarrow> obfuscation_verdict es ?c = RelayAccept)"
    by code_simp
  then have accept: "obfuscation_verdict self ?c = RelayAccept" by (simp add: self)
  have "endpoint_data_usable ex_data" by code_simp
  from accepted_relay_endpoint_exact [OF ex_rng_ok self this accept] self accept show ?thesis
    by (auto simp: es_with_ip_version_def ex_relay_def)
qed

end
