(* ===== verification/Firewall_Properties.thy ===== *)
theory Firewall_Properties
  imports Firewall_Driver
begin

text \<open>
  The properties of the Linux firewall: the exact set of packets each hook lets through, and what
  follows for leaks, and the effect of applying a policy on the kernel's state.
\<close>

section \<open>Shared lemmas\<close>

lemma mangled_cases:
  assumes "\<not> selected h fw p"
    and "\<forall>peer \<in> set (policy_peers policy). \<not> endpoint_match Dst (ae_endpoint peer) p"
  shows "mangled h fw policy p = p"
  using assms by (auto simp: mangled_def)

lemma no_peer_out:
  "\<forall>peer \<in> set (policy_peers policy). \<not> endpoint_match Dst (ae_endpoint peer) p \<Longrightarrow>
   peer \<in> set (policy_peers policy) \<Longrightarrow> \<not> peer_out fw peer p"
  by (simp add: peer_out_def)

lemma port_match_unique:
  "port_match protocol e port p \<Longrightarrow> port_match protocol' e port' p \<Longrightarrow> port = port' \<and> protocol = protocol'"
  by (auto simp: port_match_def split: l4_header.splits)

lemma dns_not_always:
  assumes "dns_out p" shows "\<not> dhcp_client_out h p" and "\<not> ndp_out h p"
proof -
  have "\<not> port_match Udp Dst 67 p" "\<not> port_match Udp Dst 547 p"
    using assms port_match_unique by (force simp: dns_out_def)+
  then show "\<not> dhcp_client_out h p" by (simp add: dhcp_client_out_def)
  have "\<not> icmpv6_match type p" for type
    using assms by (auto simp: dns_out_def icmpv6_match_def port_match_def split: l4_header.splits)
  then show "\<not> ndp_out h p" by (simp add: ndp_out_def)
qed

context nftables
begin

lemma output_hook_accepts:
  assumes ok: "finalize_batch h policy fw batch_new = Inr b"
  shows "snd (output_hook chain b p) = Accept \<longleftrightarrow>
           always_out h fw (mangled h fw policy p) \<or> policy_out h fw policy (mangled h fw policy p)"
proof -
  have mangle: "chain (base_verdict MangleChain b) (rules_of MangleChain b) p =
      (mangled h fw policy p, Accept)"
    using base_verdict_finalize [OF ok, of MangleChain] mangle_chain_effect [OF ok]
    by (simp add: batch_new_def)
  show "snd (output_hook chain b p) = Accept \<longleftrightarrow>
      always_out h fw (mangled h fw policy p) \<or> policy_out h fw policy (mangled h fw policy p)"
    using finalize_accepts(1) [OF ok, of "mangled h fw policy p"]
    by (simp add: output_hook_def mangle accepted_def)
qed

lemma leaves_only:
  assumes "finalize_batch h policy fw batch_new = Inr b"
    and "snd (output_hook chain b p) = Accept"
    and "\<not> selected h fw p" and "p_ct_mark p \<noteq> split_tunnel_MARK" and "\<not> lo_out h p"
    and "\<forall>peer \<in> set (policy_peers policy). \<not> endpoint_match Dst (ae_endpoint peer) p"
  shows "(\<exists>t. policy_tunnel policy = Some t \<and> on_iface h Out (tm_interface t) p) \<or>
     (\<exists>ep. policy_allowed_endpoint policy = Some ep \<and> api_out ep p) \<or>
     policy_allow_lan policy \<and> lan_out h p \<or>
     (\<exists>peers t lan dns. policy = PolicyConnected peers t lan dns \<and>
        (\<exists>server \<in> set (rd_non_tunnel_config dns). local_dns_out h (tm_interface t) server p)) \<or>
     dhcp_client_out h p \<or> ndp_out h p"
proof -
  from assms(3,6) have q: "mangled h fw policy p = p" by (rule mangled_cases)
  from output_hook_accepts [OF assms(1), of p] assms(2,4,5)
  have "dhcp_client_out h p \<or> ndp_out h p \<or> policy_out h fw policy p"
    by (auto simp: q always_out_def excluded_def)
  then show ?thesis
    using no_peer_out [OF assms(6)]
    by (cases policy; cases "policy_tunnel policy"; cases "policy_allowed_endpoint policy")
      (auto simp: policy_peers_def in_tunnel_out_def tunnel_dns_out_def)
qed

lemma dns_leaves_only:
  assumes "finalize_batch h (PolicyConnected peers t lan dns) fw batch_new = Inr b"
    and "snd (output_hook chain b p) = Accept" and "dns_out p"
    and "\<not> selected h fw p" and "p_ct_mark p \<noteq> split_tunnel_MARK" and "\<not> lo_out h p"
    and "\<forall>peer \<in> set peers. \<not> endpoint_match Dst (ae_endpoint peer) p"
  shows "(\<exists>server \<in> set (rd_tunnel_config dns).
            end_addr Dst p = server \<and> on_iface h Out (tm_interface t) p) \<or>
         (\<exists>server \<in> set (rd_non_tunnel_config dns).
            end_addr Dst p = server \<and> off_iface h Out (tm_interface t) p)"
proof -
  let ?policy = "PolicyConnected peers t lan dns"
  from assms(7) have peers: "\<forall>peer \<in> set (policy_peers ?policy). \<not> endpoint_match Dst (ae_endpoint peer) p"
    by (simp add: policy_peers_def)
  from assms(4) peers have q: "mangled h fw ?policy p = p" by (rule mangled_cases)
  from output_hook_accepts [OF assms(1), of p] assms(2,5,6) dns_not_always [OF assms(3)]
  have "policy_out h fw ?policy p" by (auto simp: q always_out_def excluded_def)
  then show ?thesis
    using no_peer_out [OF peers] assms(3)
    by (auto simp: policy_peers_def tunnel_dns_out_def local_dns_out_def)
qed

end

section \<open>A concrete host\<close>

definition ex_host :: fw_host where
  "ex_host =
     \<lparr>h_iface_index = [''lo'' \<mapsto> 1, ''wg0-mullvad'' \<mapsto> 2],
      h_v4_mask = (\<lambda>n. not (mask (32 - n))), h_v6_mask = (\<lambda>n. not (mask (128 - n))),
      h_established = 2, h_add_counters = False, h_feature_cgroup2 = True\<rparr>"

definition ex_firewall :: firewall where
  "ex_firewall = \<lparr>fw_fwmark = 0x6d6f6c65, fw_excluded_cgroup2 = Some 77, fw_net_cls = None\<rparr>"

definition ex_tunnel :: tunnel_metadata where
  "ex_tunnel = \<lparr>tm_interface = ''wg0-mullvad'', tm_ips = [IpV4 0x0A400007],
     tm_ipv4_gateway = 0x0A400001, tm_ipv6_gateway = None\<rparr>"

definition ex_dns :: resolved_dns_config where
  "ex_dns = \<lparr>rd_tunnel_config = [IpV4 0x0A400001], rd_non_tunnel_config = []\<rparr>"

definition ex_api :: allowed_endpoint where
  "ex_api = \<lparr>ae_endpoint = Endpoint (SockV4 0x2D539B4A 443) Tcp, ae_clients = Root\<rparr>"

text \<open>A UDP packet from 10.64.0.7 to the given address and port, leaving on the given interface.\<close>

definition ex_packet :: "u32 \<Rightarrow> u32 \<Rightarrow> u16 \<Rightarrow> packet" where
  "ex_packet oif dst dport =
     \<lparr>p_iif = 0, p_oif = oif, p_l3 = L3v4 0x0A400007 dst, p_l4 = L4udp 40000 dport, p_mark = 0,
      p_ct_mark = 0, p_ct_state = 0, p_skuid = Some 1000, p_cgroup = 0, p_cgroup2 = Some 1\<rparr>"

lemmas ex_defs = ex_host_def ex_firewall_def ex_tunnel_def ex_dns_def ex_api_def ex_packet_def

lemma ex_finalize:
  "\<exists>b. finalize_batch ex_host (PolicyConnected [] ex_tunnel lan ex_dns) fw batch_new = Inr b"
  "\<exists>b. finalize_batch ex_host (PolicyBlocked lan api) fw batch_new = Inr b"
  using res_ok_finalize [of ex_host "PolicyConnected [] ex_tunnel lan ex_dns" fw batch_new]
    res_ok_finalize [of ex_host "PolicyBlocked lan api" fw batch_new]
  by (simp_all add: policy_ifaces_def ex_defs res_ok_def split: sum.splits)

lemmas packet_specs = mangled_def split_tunneling_def selected_def always_out_def lo_out_def
  on_iface_def excluded_def dhcp_client_out_def ndp_out_def port_match_def end_addr_def
  icmpv6_match_def tunnel_dns_out_def dns_out_def policy_peers_def

section \<open>What leaves the host\<close>

text \<open>
  C6. Outgoing packets. The rules the daemon installs let a packet of a local process leave the host
  exactly when the specification does: in every state loopback, excluded traffic, DHCP and NDP
  requests; and what the policy adds, judged on the packet with the marks the mangle chain gives it.
\<close>

theorem output_hook_exact:
  assumes "nftables eval chain" and "finalize_batch h policy fw batch_new = Inr b"
  shows "snd (output_hook chain b p) = Accept \<longleftrightarrow>
    always_out h fw (mangled h fw policy p) \<or> policy_out h fw policy (mangled h fw policy p)"
  using assms by (rule nftables.output_hook_accepts)

theorem output_hook_exact_witness:
  "\<exists>b. finalize_batch ex_host (PolicyConnected [] ex_tunnel False ex_dns) ex_firewall batch_new = Inr b \<and>
     snd (output_hook nft_chain b (ex_packet 2 0x0A400001 53)) = Accept \<and>
     snd (output_hook nft_chain b (ex_packet 3 0x0A400001 53)) \<noteq> Accept"
proof -
  obtain b where
    b: "finalize_batch ex_host (PolicyConnected [] ex_tunnel False ex_dns) ex_firewall batch_new = Inr b"
    using ex_finalize(1) by blast
  note exact = output_hook_exact [OF vm.nftables_axioms b]
  have "snd (output_hook nft_chain b (ex_packet 2 0x0A400001 53)) = Accept"
    unfolding exact by (simp add: packet_specs ex_defs split_tunnel_MARK_def)
  moreover have "snd (output_hook nft_chain b (ex_packet 3 0x0A400001 53)) \<noteq> Accept"
    unfolding exact by (simp add: packet_specs ex_defs split_tunnel_MARK_def)
  ultimately show ?thesis using b by blast
qed

text \<open>
  No leaks outside the tunnel. Under any policy, a packet of a process that is not excluded, that
  is not on the loopback interface and does not go to a relay, only leaves the host through the
  tunnel interface, to the allowed API endpoint, to the local network when sharing with it is
  allowed, to a DNS server configured outside the tunnel, or as a DHCP or NDP request.
\<close>

theorem no_leak_outside_tunnel:
  assumes "nftables eval chain" and "finalize_batch h policy fw batch_new = Inr b"
    and "snd (output_hook chain b p) = Accept"
    and "\<not> selected h fw p" and "p_ct_mark p \<noteq> split_tunnel_MARK" and "\<not> lo_out h p"
    and "\<forall>peer \<in> set (policy_peers policy). \<not> endpoint_match Dst (ae_endpoint peer) p"
  shows "(\<exists>t. policy_tunnel policy = Some t \<and> on_iface h Out (tm_interface t) p) \<or>
     (\<exists>ep. policy_allowed_endpoint policy = Some ep \<and> api_out ep p) \<or>
     policy_allow_lan policy \<and> lan_out h p \<or>
     (\<exists>peers t lan dns. policy = PolicyConnected peers t lan dns \<and>
        (\<exists>server \<in> set (rd_non_tunnel_config dns). local_dns_out h (tm_interface t) server p)) \<or>
     dhcp_client_out h p \<or> ndp_out h p"
  using assms by (rule nftables.leaves_only)

theorem no_leak_outside_tunnel_witness:
  "\<exists>b. finalize_batch ex_host (PolicyBlocked False None) ex_firewall batch_new = Inr b \<and>
     snd (output_hook nft_chain b (ex_packet 3 0x08080808 443)) \<noteq> Accept"
proof -
  let ?p = "ex_packet 3 0x08080808 443"
  obtain b where b: "finalize_batch ex_host (PolicyBlocked False None) ex_firewall batch_new = Inr b"
    using ex_finalize(2) by blast
  have "snd (output_hook nft_chain b ?p) \<noteq> Accept"
  proof
    assume "snd (output_hook nft_chain b ?p) = Accept"
    from no_leak_outside_tunnel [OF vm.nftables_axioms b this] show False
      by (simp add: packet_specs ex_defs split_tunnel_MARK_def)
  qed
  with b show ?thesis by blast
qed

text \<open>
  C7. No DNS leaks. In the connected state, a DNS request of a process that is not excluded, off the
  loopback interface and not to a relay, only leaves the host to a server of the current DNS
  configuration, and to a server inside the tunnel only through the tunnel interface.
\<close>

theorem no_dns_leak:
  assumes "nftables eval chain"
    and "finalize_batch h (PolicyConnected peers t lan dns) fw batch_new = Inr b"
    and "snd (output_hook chain b p) = Accept" and "dns_out p"
    and "\<not> selected h fw p" and "p_ct_mark p \<noteq> split_tunnel_MARK" and "\<not> lo_out h p"
    and "\<forall>peer \<in> set peers. \<not> endpoint_match Dst (ae_endpoint peer) p"
  shows "(\<exists>server \<in> set (rd_tunnel_config dns).
            end_addr Dst p = server \<and> on_iface h Out (tm_interface t) p) \<or>
         (\<exists>server \<in> set (rd_non_tunnel_config dns).
            end_addr Dst p = server \<and> off_iface h Out (tm_interface t) p)"
  using assms by (rule nftables.dns_leaves_only)

theorem no_dns_leak_witness:
  "\<exists>b. finalize_batch ex_host (PolicyConnected [] ex_tunnel True ex_dns) ex_firewall batch_new = Inr b \<and>
     snd (output_hook nft_chain b (ex_packet 2 0x08080808 53)) \<noteq> Accept"
proof -
  let ?p = "ex_packet 2 0x08080808 53"
  obtain b where
    b: "finalize_batch ex_host (PolicyConnected [] ex_tunnel True ex_dns) ex_firewall batch_new = Inr b"
    using ex_finalize(1) by blast
  have "snd (output_hook nft_chain b ?p) \<noteq> Accept"
  proof
    assume "snd (output_hook nft_chain b ?p) = Accept"
    from no_dns_leak [OF vm.nftables_axioms b this] show False
      by (simp add: packet_specs ex_defs split_tunnel_MARK_def)
  qed
  with b show ?thesis by blast
qed

text \<open>
  Split tunneling. With split tunneling set up, a packet of an excluded process is let out under
  every policy, with the connection mark and the firewall mark set, unless it is a DNS request to a
  server inside the tunnel.
\<close>

theorem excluded_process_bypasses:
  assumes "nftables eval chain" and "finalize_batch h policy fw batch_new = Inr b"
    and "split_tunneling h fw" and "selected h fw p" and "\<not> in_tunnel_dns h policy p"
  shows "chain (base_verdict MangleChain b) (rules_of MangleChain b) p =
           (p\<lparr>p_ct_mark := split_tunnel_MARK, p_mark := fw_fwmark fw\<rparr>, Accept) \<and>
         snd (output_hook chain b p) = Accept"
proof
  from assms(3,4,5) have q: "mangled h fw policy p = mark_packet fw p" by (simp add: mangled_def)
  show "chain (base_verdict MangleChain b) (rules_of MangleChain b) p =
      (p\<lparr>p_ct_mark := split_tunnel_MARK, p_mark := fw_fwmark fw\<rparr>, Accept)"
    using nftables.mangle_chain_effect [OF assms(1,2), of p]
      base_verdict_finalize [OF assms(2), of MangleChain]
    by (simp add: q mark_packet_def batch_new_def)
  show "snd (output_hook chain b p) = Accept"
    using nftables.output_hook_accepts [OF assms(1,2), of p] assms(3)
    by (simp add: q always_out_def excluded_def mark_packet_def)
qed

theorem excluded_process_bypasses_witness:
  "\<exists>b. finalize_batch ex_host (PolicyBlocked False None) ex_firewall batch_new = Inr b \<and>
     snd (output_hook nft_chain b ((ex_packet 3 0x08080808 443)\<lparr>p_cgroup2 := Some 77\<rparr>)) = Accept"
proof -
  obtain b where b: "finalize_batch ex_host (PolicyBlocked False None) ex_firewall batch_new = Inr b"
    using ex_finalize(2) by blast
  have "snd (output_hook nft_chain b ((ex_packet 3 0x08080808 443)\<lparr>p_cgroup2 := Some 77\<rparr>)) = Accept"
    by (rule excluded_process_bypasses [OF vm.nftables_axioms b, THEN conjunct2])
      (simp_all add: packet_specs ex_defs)
  with b show ?thesis by blast
qed

text \<open>
  Excluded traffic is kept out of the tunnel. In the connected state, the NAT chain drops a
  packet with the connection mark of split tunneling that is about to leave on the tunnel interface.
\<close>

theorem excluded_not_in_tunnel:
  assumes "nftables eval chain"
    and "finalize_batch h (PolicyConnected peers t lan dns) fw batch_new = Inr b"
    and "excluded h fw p" and "on_iface h Out (tm_interface t) p"
  shows "chain (base_verdict NatChain b) (rules_of NatChain b) p = (p, Drop)"
  using nftables.nat_chain_effect [OF assms] base_verdict_finalize [OF assms(2), of NatChain]
  by (simp add: batch_new_def)

theorem excluded_not_in_tunnel_witness:
  "\<exists>b. finalize_batch ex_host (PolicyConnected [] ex_tunnel True ex_dns) ex_firewall batch_new = Inr b \<and>
     snd (nft_chain (base_verdict NatChain b) (rules_of NatChain b)
       ((ex_packet 2 0x08080808 443)\<lparr>p_ct_mark := split_tunnel_MARK\<rparr>)) = Drop"
proof -
  let ?p = "(ex_packet 2 0x08080808 443)\<lparr>p_ct_mark := split_tunnel_MARK\<rparr>"
  obtain b where
    b: "finalize_batch ex_host (PolicyConnected [] ex_tunnel True ex_dns) ex_firewall batch_new = Inr b"
    using ex_finalize(1) by blast
  have "nft_chain (base_verdict NatChain b) (rules_of NatChain b) ?p = (?p, Drop)"
    by (rule excluded_not_in_tunnel [OF vm.nftables_axioms b]) (simp_all add: packet_specs ex_defs)
  with b show ?thesis by auto
qed

section \<open>What reaches the host and what it forwards\<close>

text \<open>
  Incoming packets. The input chain accepts exactly the packets of the specification: loopback,
  excluded connections, DHCP and NDP replies in every state, and what the policy adds.
\<close>

theorem in_chain_exact:
  assumes "nftables eval chain" and "finalize_batch h policy fw batch_new = Inr b"
  shows "accepted chain InChain b p \<longleftrightarrow> always_in h fw p \<or> policy_in h policy p"
  using assms by (rule nftables.finalize_accepts)

definition ex_reply :: "u32 \<Rightarrow> u32 \<Rightarrow> packet" where
  "ex_reply iif dst =
     \<lparr>p_iif = iif, p_oif = 0, p_l3 = L3v4 0xC0A80101 dst, p_l4 = L4udp 443 40000, p_mark = 0,
      p_ct_mark = 0, p_ct_state = 2, p_skuid = None, p_cgroup = 0, p_cgroup2 = None\<rparr>"

lemmas in_specs = always_in_def lo_in_def on_iface_def off_iface_def excluded_def dhcp_client_in_def
  ndp_in_def port_match_def end_addr_def icmpv6_match_def split_tunnel_MARK_def

theorem in_chain_exact_witness:
  "\<exists>b. finalize_batch ex_host (PolicyConnected [] ex_tunnel False ex_dns) ex_firewall batch_new = Inr b \<and>
     accepted nft_chain InChain b (ex_reply 2 0x0A400007) \<and>
     \<not> accepted nft_chain InChain b (ex_reply 3 0x0A400007)"
proof -
  obtain b where
    b: "finalize_batch ex_host (PolicyConnected [] ex_tunnel False ex_dns) ex_firewall batch_new = Inr b"
    using ex_finalize(1) by blast
  note exact = in_chain_exact [OF vm.nftables_axioms b]
  have "accepted nft_chain InChain b (ex_reply 2 0x0A400007)"
    unfolding exact by (simp add: in_specs ex_defs ex_reply_def)
  moreover have "\<not> accepted nft_chain InChain b (ex_reply 3 0x0A400007)"
    unfolding exact by (simp add: in_specs ex_defs ex_reply_def)
  ultimately show ?thesis using b by blast
qed

text \<open>
  Forwarded packets. The forward chain accepts exactly the packets of the specification.
\<close>

theorem forward_chain_exact:
  assumes "nftables eval chain" and "finalize_batch h policy fw batch_new = Inr b"
  shows "accepted chain ForwardChain b p \<longleftrightarrow> always_fwd h fw p \<or> policy_fwd h policy p"
  using assms by (rule nftables.finalize_accepts)

theorem forward_chain_exact_witness:
  "\<exists>b. finalize_batch ex_host (PolicyConnected [] ex_tunnel False ex_dns) ex_firewall batch_new = Inr b \<and>
     accepted nft_chain ForwardChain b (ex_packet 2 0x08080808 443) \<and>
     \<not> accepted nft_chain ForwardChain b (ex_packet 3 0x08080808 443)"
proof -
  obtain b where
    b: "finalize_batch ex_host (PolicyConnected [] ex_tunnel False ex_dns) ex_firewall batch_new = Inr b"
    using ex_finalize(1) by blast
  note exact = forward_chain_exact [OF vm.nftables_axioms b]
  have "accepted nft_chain ForwardChain b (ex_packet 2 0x08080808 443)"
    unfolding exact by (simp add: packet_specs tunnel_fwd_def ex_defs)
  moreover have "\<not> accepted nft_chain ForwardChain b (ex_packet 3 0x08080808 443)"
    unfolding exact
    by (simp add: packet_specs in_specs always_fwd_def tunnel_fwd_def ex_defs)
  ultimately show ?thesis using b by blast
qed

text \<open>
  C37. CVE-2019-14899. A packet addressed to an IP of the tunnel
  interface that did not arrive through the tunnel or on the loopback interface is only accepted from
  an established connection to a relay or to the API, from a DNS server outside the tunnel, for an
  excluded connection, or as a DHCP or NDP reply. Being on the local network does not help.
\<close>

theorem cve_2019_14899_blocked:
  assumes "nftables eval chain" and "finalize_batch h policy fw batch_new = Inr b"
    and "policy_tunnel policy = Some t" and "end_addr Dst p \<in> set (tm_ips t)"
    and "off_iface h In (tm_interface t) p" and "\<not> lo_in h p"
    and "accepted chain InChain b p"
  shows "(\<exists>peer \<in> set (policy_peers policy). peer_in h peer p) \<or>
     (\<exists>ep. policy_allowed_endpoint policy = Some ep \<and> api_in h ep p) \<or>
     (\<exists>peers lan dns. policy = PolicyConnected peers t lan dns \<and>
        (\<exists>server \<in> set (rd_non_tunnel_config dns). local_dns_in h (tm_interface t) server p)) \<or>
     excluded h fw p \<or> dhcp_client_in h p \<or> ndp_in h p"
proof -
  have off: "\<not> on_iface h In (tm_interface t) p"
    using assms(5) by (simp add: on_iface_def off_iface_def)
  have "excluded h fw p \<or> dhcp_client_in h p \<or> ndp_in h p \<or> policy_in h policy p"
    using nftables.finalize_accepts(2) [OF assms(1,2)] assms(6,7) by (auto simp: always_in_def)
  then show ?thesis
    using assms(3,4) off
  proof (cases policy)
    case (PolicyConnecting peers tunnel lan api traffic)
    then show ?thesis
      using \<open>excluded h fw p \<or> dhcp_client_in h p \<or> ndp_in h p \<or> policy_in h policy p\<close> assms(3,4) off
      by (cases tunnel) (auto simp: policy_peers_def in_tunnel_in_def)
  qed (auto simp: policy_peers_def)
qed

theorem cve_2019_14899_blocked_witness:
  "\<exists>b. finalize_batch ex_host (PolicyConnected [] ex_tunnel True ex_dns) ex_firewall batch_new = Inr b \<and>
     \<not> accepted nft_chain InChain b (ex_reply 3 0x0A400007)"
proof -
  let ?p = "ex_reply 3 0x0A400007"
  obtain b where
    b: "finalize_batch ex_host (PolicyConnected [] ex_tunnel True ex_dns) ex_firewall batch_new = Inr b"
    using ex_finalize(1) by blast
  have "\<not> accepted nft_chain InChain b ?p"
  proof
    assume "accepted nft_chain InChain b ?p"
    from cve_2019_14899_blocked [OF vm.nftables_axioms b _ _ _ _ this, of ex_tunnel] show False
      by (simp add: in_specs ex_defs ex_reply_def policy_peers_def)
  qed
  with b show ?thesis by blast
qed

text \<open>
  Traffic to the API is not forwarded. There is a policy and a packet that the output chain
  accepts and the forward chain, given the same packet, does not: the forward chain has no rule for
  the API endpoint, nor for relays.
\<close>

theorem forward_stricter_than_output:
  "\<exists>b p. finalize_batch ex_host (PolicyBlocked False (Some ex_api)) ex_firewall batch_new = Inr b \<and>
     accepted nft_chain OutChain b p \<and> \<not> accepted nft_chain ForwardChain b p"
proof -
  let ?p = "(ex_packet 3 0x2D539B4A 443)\<lparr>p_l4 := L4tcp 40000 443, p_skuid := Some 0\<rparr>"
  obtain b where
    b: "finalize_batch ex_host (PolicyBlocked False (Some ex_api)) ex_firewall batch_new = Inr b"
    using ex_finalize(2) by blast
  have "accepted nft_chain OutChain b ?p"
    unfolding vm.finalize_accepts(1) [OF b]
    by (simp add: api_out_def endpoint_match_def clients_match_def packet_specs ex_defs)
  moreover have "\<not> accepted nft_chain ForwardChain b ?p"
    unfolding vm.finalize_accepts(3) [OF b]
    by (simp add: packet_specs in_specs always_fwd_def ex_defs)
  ultimately show ?thesis using b by blast
qed

section \<open>Applying a policy\<close>

text \<open>
  Building the rules fails only when an interface the policy names does not exist: the loopback
  interface always, and the tunnel interface unless no tunnel traffic is allowed yet.
\<close>

theorem finalize_batch_total:
  "(\<exists>b. finalize_batch h policy fw batch_new = Inr b) =
     list_all (\<lambda>iface. h_iface_index h iface \<noteq> None) (policy_ifaces policy)"
  using res_ok_finalize [of h policy fw batch_new] by (auto simp: res_ok_def list_all_iff split: sum.splits)

text \<open>
  Applying a policy is atomic and an \<open>Ok\<close> is never wrong: whatever the kernel answers, the
  table in place afterwards is the old one or the complete table of the new policy, and it is the new
  one when \<open>apply_policy\<close> reports success. No \<open>apply_policy\<close> ever removes a table.
\<close>

theorem apply_policy_atomic:
  "case fw_apply_policy io fw policy k of (r, k') \<Rightarrow>
     (k_batch k' = k_batch k \<or> k_batch k' \<in> batches_for fw policy) \<and>
     (if r = Inr () then k_batch k' \<in> batches_for fw policy else True)"
  using linux.apply_ok [of io fw policy k] linux.apply_atomic [of io fw policy k] by fastforce

text \<open>
  The ARP lockdown is one way: applying a policy never changes \<open>arp_ignore\<close> from a value that
  is already strict, and the only value it writes is 2.
\<close>

theorem arp_ignore_never_relaxed:
  "case fw_apply_policy io fw policy k of (r, k') \<Rightarrow>
     k_arp_ignore k' = k_arp_ignore k \<or>
     k_arp_ignore k' = ''2'' \<and> trim (k_arp_ignore k) \<in> {''0'', ''1''}"
  by (auto simp: fw_apply_policy_def send_and_process_def apply_kernel_config_def
      set_src_valid_mark_sysctl_def lock_down_arp_ignore_sysctl_def Let_def
      split: sum.splits prod.splits netlink_outcome.splits firewall_policy.splits if_splits)

end
