(* ===== verification/Tunnel_Shutdown.thy ===== *)
theory Tunnel_Shutdown
  imports Tunnel_Invariants
begin

text \<open>
  Shutdown: once the command channel is closed and drained the machine stops reconnecting, each turn
  of the loop brings it closer to the end, and it ends.
\<close>

section \<open>After the end of the command stream\<close>

fun winding_down :: "tunnel_state \<Rightarrow> bool" where
  "winding_down (ConnectingState _) = False"
| "winding_down (ConnectedState _) = False"
| "winding_down (DisconnectingState self) = (\<forall>n. dg_after_disconnect self \<noteq> AfterReconnect n)"
| "winding_down _ = True"

fun consequence_winding_down :: "event_consequence \<Rightarrow> bool" where
  "consequence_winding_down (NewState (st, tr)) = winding_down st"
| "consequence_winding_down (SameState st) = winding_down st"
| "consequence_winding_down Finished = True"

lemma enter_winding_down:
  "ErrorState_enter w cause sv = ((st, tr), sv') \<Longrightarrow> winding_down st"
  "DisconnectedState_enter w b sv = ((st, tr), sv') \<Longrightarrow> winding_down st"
  by (auto dest!: ErrorState_enter_call DisconnectedState_enter_frame(2))

lemma none_winding_down:
  "consequence_winding_down (fst (ConnectingState_handle_commands w cs None sv))"
  "consequence_winding_down (fst (ConnectedState_handle_commands w cd None sv))"
  "consequence_winding_down (fst (DisconnectingState_handle_commands dg None sv))"
  "consequence_winding_down (fst (DisconnectedState_handle_commands w None sv))"
  "consequence_winding_down (fst (ErrorState_handle_commands w reason None sv))"
  by (auto simp: ConnectingState_handle_commands_def ConnectedState_handle_commands_def
      DisconnectingState_handle_commands_def DisconnectedState_handle_commands_def
      ErrorState_handle_commands_def ConnectingState_disconnect_def ConnectedState_disconnect_def
      DisconnectingState_enter_def DisconnectedState_enter_def construct_state_transition_def Let_def
      split: after_disconnect.splits)

text \<open>The stream ends at most once: afterwards nothing is queued and nothing can be sent.\<close>

definition rx_inv :: "command_rx \<Rightarrow> bool" where
  "rx_inv rx \<longleftrightarrow> (rx_done rx \<longrightarrow> \<not> rx_open rx \<and> rx_queue rx = [])"

lemma commands_next_rx:
  assumes "commands_next rx = Some (command, rx')" and "rx_inv rx"
  shows "rx_inv rx'" and "rx_done rx' \<Longrightarrow> command = None" and "rx_done rx \<Longrightarrow> rx' = rx"
  using assms by (auto simp: commands_next_def rx_inv_def split: if_splits list.splits)

lemma after_close_winding_down:
  assumes "winding_down (DisconnectingState self)"
    and "DisconnectingState_after_disconnect w self reason sv = ((st, tr), sv')"
  shows "winding_down st"
  using assms
  by (auto simp: DisconnectingState_after_disconnect_def dest: enter_winding_down
      split: option.splits after_disconnect.splits)

lemma select_command_rx:
  assumes "select_command rx = Some (r, rx')" and "rx_inv rx"
  shows "rx_inv rx'" and "rx_done rx' \<Longrightarrow> r = EvCommand None" and "\<not> rx_done rx"
  using assms commands_next_rx [OF _ assms(2)]
  by (auto simp: select_command_def split: if_splits)

lemma select_close_rx:
  "select_close exits ev rx = Some (r, rx') \<Longrightarrow> rx' = rx \<and> (\<exists>x. r = EvClose x)"
  by (auto simp: select_close_def split: if_splits)

lemma tunnel_state_done:
  assumes "select3 br exits ev rx = Some (r, rx')" and "rx_inv rx" and "\<not> rx_done rx"
  shows "rx_inv rx'" and "rx_done rx' \<Longrightarrow> r = EvCommand None"
  using assms select_command_rx [of rx r rx'] select_close_rx [of exits ev rx r rx']
  by (auto simp: select3_def split: branch.splits)

lemma handle_event_done:
  assumes h: "handle_event w br exits st rx sv = Some (c, rx', sv')"
    and rx: "rx_inv rx" and wd: "rx_done rx \<longrightarrow> winding_down st" and own: "state_inv exits sv st"
  shows "rx_inv rx' \<and> (rx_done rx' \<longrightarrow> consequence_winding_down c)"
proof (cases st)
  case DisconnectedState
  with h rx show ?thesis
    using commands_next_rx [of rx _ rx'] none_winding_down(4) [of w sv]
    by (fastforce split: branch.splits option.splits prod.splits)
next
  case (ErrorState reason)
  with h rx show ?thesis
    using commands_next_rx [of rx _ rx'] none_winding_down(5) [of w reason sv]
    by (fastforce split: branch.splits option.splits prod.splits)
next
  case (ConnectingState self)
  with h wd obtain r where r: "select3 br exits (cg_tunnel_close_event self) rx = Some (r, rx')"
    and c: "ConnectingState_handle_event w self r sv = (c, sv')" and nd: "\<not> rx_done rx"
    by (auto split: option.splits prod.splits)
  show ?thesis
    using tunnel_state_done [OF r rx nd] c none_winding_down(1) [of w self sv]
    by (auto simp: ConnectingState_handle_event_def Let_def)
next
  case (ConnectedState self)
  with h wd obtain r where r: "select3 br exits (cd_tunnel_close_event self) rx = Some (r, rx')"
    and c: "ConnectedState_handle_event w self r sv = (c, sv')" and nd: "\<not> rx_done rx"
    by (auto split: option.splits prod.splits)
  show ?thesis
    using tunnel_state_done [OF r rx nd] c none_winding_down(2) [of w self sv]
    by (auto simp: ConnectedState_handle_event_def Let_def)
next
  case (DisconnectingState self)
  with own have nt: "\<not> ce_terminated (dg_tunnel_close_event self)" by (simp add: owns_def)
  with h DisconnectingState obtain r
    where r: "(br = BCommand \<and> select_command rx = Some (r, rx')) \<or>
              (br = BClose \<and> select_close exits (dg_tunnel_close_event self) rx = Some (r, rx'))"
      and c: "DisconnectingState_handle_event w self r sv = Some (c, sv')"
    by (auto simp: DisconnectingState_result_def split: option.splits prod.splits branch.splits)
  from r show ?thesis
  proof
    assume "br = BCommand \<and> select_command rx = Some (r, rx')"
    with c none_winding_down(3) [of self sv] show ?thesis
      using select_command_rx [of rx r rx'] rx
      by (auto simp: DisconnectingState_handle_event_def)
  next
    assume "br = BClose \<and> select_close exits (dg_tunnel_close_event self) rx = Some (r, rx')"
    then obtain x where x: "r = EvClose x" "rx' = rx" using select_close_rx by blast
    with c wd DisconnectingState rx show ?thesis
      using after_close_winding_down [of "self\<lparr>dg_tunnel_close_event :=
          terminate r (dg_tunnel_close_event self)\<rparr>" w "unwrap_or_none x" sv]
      by (cases "DisconnectingState_after_disconnect w (self\<lparr>dg_tunnel_close_event :=
          terminate r (dg_tunnel_close_event self)\<rparr>) (unwrap_or_none x) sv")
        (auto simp: DisconnectingState_handle_event_def Let_def)
  qed
qed

section \<open>Reachable machines\<close>

definition machine_done :: "machine \<Rightarrow> bool" where
  "machine_done m \<longleftrightarrow>
     rx_inv (m_commands m) \<and>
     (rx_done (m_commands m) \<longrightarrow> (case m_state m of None \<Rightarrow> True | Some st \<Rightarrow> winding_down st))"

lemma machine_done_new: "machine_done (TunnelStateMachine_new w settings ids connectivity k check)"
  by (simp add: TunnelStateMachine_new_def machine_done_def rx_inv_def Let_def split: prod.splits)

lemma machine_done_step: "tsm_step w m m' \<Longrightarrow> machine_inv m \<Longrightarrow> machine_done m \<Longrightarrow> machine_done m'"
proof (induction rule: tsm_step.induct)
  case (loop listening br m m')
  from loop(1) show ?case
  proof (cases rule: run_stepE)
    case (1 st c rx sv)
    have "rx_inv rx \<and> (rx_done rx \<longrightarrow> consequence_winding_down c)"
      using handle_event_done [OF 1(3)] loop(2,3) 1(2) by (simp add: machine_done_def machine_inv_def)
    with 1 show ?thesis by (auto simp: machine_done_def)
  qed
qed (auto simp: machine_done_def rx_inv_def split: option.splits)

lemma reachable_done: "tsm_reachable w m \<Longrightarrow> machine_done m"
  by (induction rule: tsm_reachable.induct)
    (auto intro: machine_done_new machine_done_step reachable_inv)

fun state_rank :: "tunnel_state option \<Rightarrow> nat" where
  "state_rank None = 0"
| "state_rank (Some DisconnectedState) = 1"
| "state_rank (Some (ErrorState _)) = 2"
| "state_rank (Some (DisconnectingState _)) = 3"
| "state_rank (Some _) = 4"

lemma after_disconnect_rank:
  assumes "winding_down (DisconnectingState self)"
    and "DisconnectingState_after_disconnect w self reason sv = ((st, tr), sv')"
  shows "state_rank (Some st) < 3"
  using assms
  by (auto simp: DisconnectingState_after_disconnect_def
      dest!: ErrorState_enter_call DisconnectedState_enter_frame(2)
      split: option.splits after_disconnect.splits)

lemma handle_event_rank:
  assumes h: "handle_event w br exits st rx sv = Some (c, rx', sv')"
    and rx: "rx_done rx" and wd: "winding_down st" and own: "state_inv exits sv st"
  shows "rx_done rx' \<and> (case c of NewState (st', _) \<Rightarrow> state_rank (Some st') < state_rank (Some st)
           | SameState _ \<Rightarrow> False | Finished \<Rightarrow> True)"
proof (cases st)
  case DisconnectedState
  with h rx show ?thesis
    by (auto simp: commands_next_def DisconnectedState_handle_commands_def split: branch.splits)
next
  case (ErrorState reason)
  with h rx show ?thesis
    by (auto simp: commands_next_def ErrorState_handle_commands_def Let_def DisconnectedState_enter_def
        construct_state_transition_def split: branch.splits)
next
  case (DisconnectingState self)
  with own have nt: "\<not> ce_terminated (dg_tunnel_close_event self)" by (simp add: owns_def)
  with h rx DisconnectingState obtain r
    where r: "select_close exits (dg_tunnel_close_event self) rx = Some (r, rx')"
      and c: "DisconnectingState_handle_event w self r sv = Some (c, sv')"
    by (auto simp: DisconnectingState_result_def select_command_def
        split: option.splits prod.splits branch.splits)
  obtain x where x: "r = EvClose x" "rx' = rx" using select_close_rx [OF r] by blast
  let ?self = "self\<lparr>dg_tunnel_close_event := terminate r (dg_tunnel_close_event self)\<rparr>"
  from wd DisconnectingState have "winding_down (DisconnectingState ?self)" by simp
  from after_disconnect_rank [OF this] c x rx DisconnectingState show ?thesis
    by (cases "DisconnectingState_after_disconnect w ?self (unwrap_or_none x) sv")
      (auto simp: DisconnectingState_handle_event_def Let_def)
qed (use wd in auto)

lemma run_step_rank:
  assumes reach: "tsm_reachable w m" and rx: "rx_done (m_commands m)"
    and step: "run_step w listening br m = Some m'"
  shows "rx_done (m_commands m') \<and> state_rank (m_state m') < state_rank (m_state m)"
  using step
proof (cases rule: run_stepE)
  case (1 st c rx' sv)
  have "winding_down st" "state_inv (m_exits m) (m_shared m) st"
    using reachable_done [OF reach] reachable_inv [OF reach] rx 1(2)
    by (simp_all add: machine_done_def machine_inv_def)
  from handle_event_rank [OF 1(3) rx this] 1 show ?thesis
    by (cases st) (auto split: event_consequence.splits)
qed

section \<open>The machine ends\<close>

lemma run_step_enabled:
  assumes "m_running m" and "m_state m = Some st"
    and "handle_event w br (m_exits m) st (m_commands m) (m_shared m) \<noteq> None"
  shows "\<exists>m'. run_step w True br m = Some m' \<and> (m_running m' \<or> m_state m' = None)"
  using assms
  by (auto simp: run_step_def Let_def split: event_consequence.splits prod.splits)

lemma reachable_steps:
  assumes "tsm_reachable w m" and "(tsm_step w)\<^sup>*\<^sup>* m m'"
  shows "tsm_reachable w m'"
  using assms(2,1) by (induction rule: rtranclp_induct) (auto intro: tsm_reachable.step)

text \<open>A machine that waits for its tunnel to exit can proceed once it has.\<close>

lemma close_ready:
  assumes inv: "machine_inv m" and st: "m_state m = Some (DisconnectingState self)"
  shows "\<exists>m'. (tsm_step w)\<^sup>*\<^sup>* m m' \<and> m_state m' = m_state m \<and> m_commands m' = m_commands m \<and>
      m_running m' = m_running m \<and> m_exits m' (ce_tunnel (dg_tunnel_close_event self)) \<noteq> None"
proof -
  let ?n = "ce_tunnel (dg_tunnel_close_event self)"
  from inv st have own: "owns (m_exits m) (m_shared m) (dg_tunnel_close_event self)"
    by (simp add: machine_inv_def)
  show ?thesis
  proof (cases "m_exits m ?n")
    case None
    with own have "?n \<in> set (sv_tunnels (m_shared m))" by (simp add: owns_def)
    define m' where "m' = m\<lparr>m_shared := (m_shared m)\<lparr>sv_tunnels := remove1 ?n (sv_tunnels (m_shared m))\<rparr>,
          m_exits := (m_exits m)(?n := Some (Inr None))\<rparr>"
    have "tsm_step w m m'"
      unfolding m'_def by (rule tsm_step.tunnel_exit) (fact \<open>?n \<in> set (sv_tunnels (m_shared m))\<close>)
    then show ?thesis by (intro exI [of _ m']) (auto simp: m'_def)
  next
    case (Some r)
    then show ?thesis by auto
  qed
qed

lemma done_proceeds:
  assumes reach: "tsm_reachable w m" and run: "m_running m" and rx: "rx_done (m_commands m)"
    and st: "m_state m = Some st"
  shows "\<exists>m'. (tsm_step w)\<^sup>*\<^sup>* m m' \<and> rx_done (m_commands m') \<and> (m_running m' \<or> m_state m' = None) \<and>
           state_rank (m_state m') < state_rank (m_state m)"
proof -
  have wd: "winding_down st" using reachable_done [OF reach] rx st by (simp add: machine_done_def)
  have "\<exists>m1 br. (tsm_step w)\<^sup>*\<^sup>* m m1 \<and> m_state m1 = m_state m \<and> m_commands m1 = m_commands m \<and>
      m_running m1 \<and> handle_event w br (m_exits m1) st (m_commands m1) (m_shared m1) \<noteq> None"
  proof (cases st)
    case (DisconnectingState self)
    from close_ready [OF reachable_inv [OF reach], of self w] st DisconnectingState obtain m1
      where m1: "(tsm_step w)\<^sup>*\<^sup>* m m1" "m_state m1 = m_state m" "m_commands m1 = m_commands m"
        "m_running m1 = m_running m" "m_exits m1 (ce_tunnel (dg_tunnel_close_event self)) \<noteq> None"
      by auto
    have "\<not> ce_terminated (dg_tunnel_close_event self)"
      using reachable_inv [OF reach] st DisconnectingState by (simp add: machine_inv_def owns_def)
    with m1 run DisconnectingState show ?thesis
      by (intro exI [of _ m1] exI [of _ BClose])
        (auto simp: DisconnectingState_result_def DisconnectingState_handle_event_def select_close_def Let_def
          split: prod.splits)
  qed (use wd run rx in \<open>auto intro!: exI [of _ m] exI [of _ BCommand] simp: commands_next_def
      split: prod.splits\<close>)
  then obtain m1 br where m1: "(tsm_step w)\<^sup>*\<^sup>* m m1" "m_state m1 = m_state m"
      "m_commands m1 = m_commands m" "m_running m1"
      "handle_event w br (m_exits m1) st (m_commands m1) (m_shared m1) \<noteq> None"
    by blast
  from run_step_enabled [OF m1(4) _ m1(5)] m1(2) st obtain m2
    where m2: "run_step w True br m1 = Some m2" "m_running m2 \<or> m_state m2 = None" by auto
  have "rx_done (m_commands m2) \<and> state_rank (m_state m2) < state_rank (m_state m1)"
    using run_step_rank [OF reachable_steps [OF reach m1(1)] _ m2(1)] rx m1(3) by simp
  moreover have "(tsm_step w)\<^sup>*\<^sup>* m m2" using m1(1) tsm_step.loop [OF m2(1)] by simp
  ultimately show ?thesis using m1(2) m2(2) by auto
qed

lemma done_ends:
  assumes "tsm_reachable w m" and "m_running m \<or> m_state m = None" and "rx_done (m_commands m)"
  shows "\<exists>m'. (tsm_step w)\<^sup>*\<^sup>* m m' \<and> m_state m' = None"
  using assms
proof (induction "state_rank (m_state m)" arbitrary: m rule: less_induct)
  case less
  show ?case
  proof (cases "m_state m")
    case (Some st)
    with done_proceeds [OF less.prems(1) _ less.prems(3) Some] less.prems(2) obtain m1
      where m1: "(tsm_step w)\<^sup>*\<^sup>* m m1" "rx_done (m_commands m1)" "m_running m1 \<or> m_state m1 = None"
        "state_rank (m_state m1) < state_rank (m_state m)" by auto
    from less.hyps [OF m1(4) reachable_steps [OF less.prems(1) m1(1)] m1(3,2)] m1(1)
    show ?thesis by (meson rtranclp_trans)
  qed auto
qed

text \<open>The end of the stream can be received in every state.\<close>

lemma end_of_stream:
  assumes reach: "tsm_reachable w m" and run: "m_running m" and st: "m_state m = Some st"
    and rx: "\<not> rx_open (m_commands m)" "rx_queue (m_commands m) = []" "\<not> rx_done (m_commands m)"
  shows "\<exists>m'. run_step w True BCommand m = Some m' \<and> rx_done (m_commands m') \<and>
           (m_running m' \<or> m_state m' = None)"
proof -
  have nx: "commands_next (m_commands m) = Some (None, (m_commands m)\<lparr>rx_done := True\<rparr>)"
    using rx by (simp add: commands_next_def)
  have nt: "\<not> ce_terminated (dg_tunnel_close_event self)" if "st = DisconnectingState self" for self
    using reachable_inv [OF reach] st that by (simp add: machine_inv_def owns_def)
  have ev: "\<exists>c sv'. handle_event w BCommand (m_exits m) st (m_commands m) (m_shared m) =
      Some (c, (m_commands m)\<lparr>rx_done := True\<rparr>, sv')"
    using rx nx nt
    by (cases st) (auto simp: select3_def select_command_def DisconnectingState_result_def
        DisconnectingState_handle_event_def split: prod.splits)
  then obtain m' where m': "run_step w True BCommand m = Some m'" "m_running m' \<or> m_state m' = None"
    using run_step_enabled [OF run st] by fastforce
  from m'(1) have "rx_done (m_commands m')"
  proof (cases rule: run_stepE)
    case (1 st' c rx' sv)
    with ev st have "m_commands m' = (m_commands m)\<lparr>rx_done := True\<rparr>" by auto
    then show ?thesis by simp
  qed
  with m' show ?thesis by blast
qed

lemma closed_ends:
  assumes reach: "tsm_reachable w m" and run: "m_running m"
    and rx: "\<not> rx_open (m_commands m)" "rx_queue (m_commands m) = []"
  shows "\<exists>m'. (tsm_step w)\<^sup>*\<^sup>* m m' \<and> m_state m' = None"
proof (cases "m_state m")
  case (Some st)
  show ?thesis
  proof (cases "rx_done (m_commands m)")
    case False
    from end_of_stream [OF reach run Some rx False] obtain m1
      where m1: "tsm_step w m m1" "rx_done (m_commands m1)" "m_running m1 \<or> m_state m1 = None"
      by (auto intro: tsm_step.loop)
    from done_ends [OF tsm_reachable.step [OF reach m1(1)] m1(3,2)] m1(1)
    show ?thesis by (meson converse_rtranclp_into_rtranclp)
  qed (use done_ends [OF reach] run in blast)
qed auto

end
