(* ===== verification/Tunnel_Example.thy ===== *)
theory Tunnel_Example
  imports Firewall_Properties Tunnel_Guard Tunnel_Shutdown Tunnel_Commands
begin

text \<open>
  A concrete world, in which every call succeeds, and concrete runs of the tunnel state machine in
  it: connecting, connected, disconnecting, and the error state.
\<close>

definition ex_params :: tunnel_parameters where
  "ex_params =
     \<lparr>tp_connection =
        \<lparr>cc_tunnel = \<lparr>tc_private_key = [1], tc_addresses = [IpV4 0x0A400007, IpV6 1]\<rparr>,
         cc_peer = \<lparr>pc_public_key = [], pc_allowed_ips = [NetV4 0 0, NetV6 0 0, NetV6 1 128, NetV4 0x0A400001 32],
                    pc_endpoint = SockV4 0xB9D5EA45 443, pc_psk = None, pc_constant_packet_size = False\<rparr>,
         cc_exit_peer = None, cc_ipv4_gateway = 0x0A400001, cc_ipv6_gateway = Some 1,
         cc_fwmark = Some 0x6d6f6c65\<rparr>,
      tp_options = \<lparr>to_mtu = None, to_quantum_resistant = False, to_daita = False, to_userspace = False\<rparr>,
      tp_generic_options = \<lparr>enable_ipv6 = False\<rparr>, tp_obfuscation = None\<rparr>"

definition ex_world :: world where
  "ex_world =
     \<lparr>w_fw = (\<lambda>_. \<lparr>io_host = ex_host, io_netlink = Committed, io_verify = None, io_table_listed = True,
                   io_dont_set_src_valid_mark = False, io_dont_set_arp_ignore = False,
                   io_write_src_valid_mark_ok = True, io_read_arp_ignore_ok = True,
                   io_write_arp_ignore_ok = True\<rparr>),
      w_dns_set_ok = (\<lambda>_. True),
      w_nm = (\<lambda>_. \<lparr>nm_new_ok = True, nm_get_ok = True, nm_set_ok = True\<rparr>),
      w_generate = (\<lambda>_ _ _. Inr ex_params)\<rparr>"

definition ex_settings :: initial_tunnel_state where
  "ex_settings =
     \<lparr>is_allow_lan = False, is_lockdown_mode = LockdownDisabled, is_dns_config = DnsDefault,
      is_allowed_endpoint = ex_api, is_reset_firewall = True\<rparr>"

definition ex_ids :: linux_networking_identifiers where
  "ex_ids = \<lparr>li_fwmark = 0x6d6f6c65, li_table_id = 0x6d6f6c65, li_excluded_cgroup2 = Some 77,
     li_net_cls = None\<rparr>"

definition ex_kernel :: fw_kernel where
  "ex_kernel = \<lparr>k_batch = None, k_src_valid_mark = ''0'', k_arp_ignore = ''0''\<rparr>"

definition ex_start :: "dns_config \<Rightarrow> connectivity \<Rightarrow> machine" where
  "ex_start dns connectivity =
     TunnelStateMachine_new ex_world (ex_settings\<lparr>is_dns_config := dns\<rparr>) ex_ids connectivity ex_kernel True"

lemma ex_nm_works: "nm_works ex_world"
  by (simp add: nm_works_def ex_world_def)

lemma ex_apply:
  assumes "\<forall>iface \<in> set (policy_ifaces policy). h_iface_index ex_host iface \<noteq> None"
  shows "\<exists>sv'. apply_policy ex_world policy sv = (Inr (), sv') \<and> frame sv sv'"
proof -
  obtain b where "finalize_batch ex_host policy (sv_firewall sv) batch_new = Inr b"
    using assms res_ok_finalize [of ex_host policy "sv_firewall sv" batch_new]
    by (auto simp: res_ok_def split: sum.splits)
  then obtain sv' where "apply_policy ex_world policy sv = (Inr (), sv')"
    by (auto simp: apply_policy_def fw_apply_policy_def ex_world_def send_and_process_def verify_tables_def)
  with apply_policy_call [OF this] show ?thesis by (auto simp: fw_call_def)
qed

lemma ex_connecting_call:
  "\<exists>sv'. ConnectingState_set_firewall_policy ex_world p None TrafficNone sv = (Inr (), sv') \<and> frame sv sv'"
proof -
  let ?sv = "disable_connectivity_check ex_world sv"
  obtain sv' where "apply_policy ex_world (connecting_policy ?sv p None TrafficNone) ?sv = (Inr (), sv')"
    and "frame ?sv sv'"
    using ex_apply [of "connecting_policy ?sv p None TrafficNone" ?sv]
    by (auto simp: connecting_policy_def policy_ifaces_def ex_host_def)
  then show ?thesis by (auto simp: ConnectingState_set_firewall_policy_def Let_def)
qed

lemma ex_connected_call:
  assumes "tm_interface (cd_metadata self) = ''wg0-mullvad''"
  shows "\<exists>sv'. ConnectedState_set_firewall_policy ex_world self sv = (Inr (), sv') \<and> frame sv sv'"
  using ex_apply [of "get_firewall_policy self sv" sv] assms
  by (auto simp: ConnectedState_set_firewall_policy_def get_firewall_policy_def policy_ifaces_def ex_host_def)

lemma ex_enter_connecting:
  assumes "\<not> is_offline (sv_connectivity sv)"
  shows "\<exists>cs tr sv'. ConnectingState_enter ex_world retry sv = ((ConnectingState cs, tr), sv') \<and>
    cg_tunnel_parameters cs = ex_params \<and> sv_connectivity sv' = sv_connectivity sv \<and>
    sv_dns_config sv' = sv_dns_config sv \<and> (\<exists>n es. sv_log sv' = TunnelStart n ex_params retry # es)"
proof -
  obtain av where av: "availability (sv_connectivity sv) = Some av"
    using assms by (metis availability_None_iff not_None_eq)
  obtain sv1 where "ConnectingState_set_firewall_policy ex_world ex_params None TrafficNone
      (sv\<lparr>sv_clock := Suc (sv_clock sv)\<rparr>) = (Inr (), sv1)" and "frame (sv\<lparr>sv_clock := Suc (sv_clock sv)\<rparr>) sv1"
    using ex_connecting_call by blast
  with av show ?thesis
    by (auto simp: ConnectingState_enter_def generate_parameters_def start_tunnel_def Let_def frame_def
        ex_world_def [THEN arg_cong [of _ _ w_generate]])
qed

section \<open>Running the machine\<close>

text \<open>A machine of the example world that waits in a given state with an empty, open channel.\<close>

definition waits_in :: "tunnel_state \<Rightarrow> shared \<Rightarrow> machine \<Rightarrow> bool" where
  "waits_in st sv m \<longleftrightarrow>
     tsm_reachable ex_world m \<and> m_running m \<and> m_state m = Some st \<and> m_shared m = sv \<and>
     m_commands m = \<lparr>rx_queue = [], rx_open = True, rx_done = False\<rparr>"

lemma waits_in_loop:
  assumes m: "tsm_reachable ex_world m" "m_running m" "m_state m = Some st"
    and h: "handle_event ex_world br (m_exits m) st (m_commands m) (m_shared m) =
      Some (NewState (st', tr), \<lparr>rx_queue = [], rx_open = True, rx_done = False\<rparr>, sv')"
  shows "\<exists>m'. waits_in st' sv' m' \<and> m_transitions m' = tr # m_transitions m"
proof -
  from m h obtain m' where m': "run_step ex_world True br m = Some m'" "m_state m' = Some st'" "m_running m'"
      "m_shared m' = sv'" "m_commands m' = \<lparr>rx_queue = [], rx_open = True, rx_done = False\<rparr>"
      "m_transitions m' = tr # m_transitions m"
    by (simp add: run_step_def Let_def)
  from tsm_reachable.step [OF m(1) tsm_step.loop [OF m'(1)]] m' show ?thesis
    by (auto simp: waits_in_def)
qed

lemma waits_in_command:
  assumes m: "waits_in st sv m" and st: "\<And>dg. st \<noteq> DisconnectingState dg"
    and h: "command_handler ex_world st (Some c) sv = (NewState (st', tr), sv')"
  shows "\<exists>m'. waits_in st' sv' m' \<and> m_transitions m' = tr # m_transitions m"
proof -
  define m1 where "m1 = m\<lparr>m_commands := (m_commands m)\<lparr>rx_queue := rx_queue (m_commands m) @ [c]\<rparr>\<rparr>"
  have reach: "tsm_reachable ex_world m1"
    using m unfolding m1_def by (intro tsm_reachable.step [OF _ tsm_step.send_command]) (auto simp: waits_in_def)
  have "handle_event ex_world BCommand (m_exits m1) st (m_commands m1) (m_shared m1) =
      Some (NewState (st', tr), \<lparr>rx_queue = [], rx_open = True, rx_done = False\<rparr>, sv')"
    using m h st
    by (cases st) (auto simp: m1_def waits_in_def commands_next_def command_handler_def select3_def
        select_command_def ConnectingState_handle_event_def ConnectedState_handle_event_def)
  from waits_in_loop [OF reach _ _ this] m show ?thesis by (auto simp: m1_def waits_in_def)
qed

lemma waits_in_event:
  assumes m: "waits_in (ConnectingState cs) sv m"
    and h: "ConnectingState_handle_tunnel_events ex_world cs (Some e) sv = (NewState (st', tr), sv')"
  shows "\<exists>m'. waits_in st' sv' m' \<and> m_transitions m' = tr # m_transitions m"
  using m h
  by (intro waits_in_loop [where st = "ConnectingState cs" and br = "BEvent (Some e)"])
    (auto simp: waits_in_def select3_def ConnectingState_handle_event_def)

lemma ex_disconnected:
  "\<exists>sv. waits_in DisconnectedState sv (ex_start dns cy) \<and> sv_connectivity sv = cy \<and>
     sv_lockdown_mode sv = LockdownDisabled \<and> sv_dns_config sv = dns"
proof -
  let ?sv = "initial_shared (ex_settings\<lparr>is_dns_config := dns\<rparr>) ex_ids cy ex_kernel True"
  obtain st tr sv where enter: "DisconnectedState_enter ex_world True ?sv = ((st, tr), sv)"
    by (metis prod.exhaust)
  have "tsm_reachable ex_world (ex_start dns cy)" unfolding ex_start_def by (rule tsm_reachable.start)
  moreover have "m_state (ex_start dns cy) = Some DisconnectedState" "m_shared (ex_start dns cy) = sv"
    "m_running (ex_start dns cy)" "m_commands (ex_start dns cy) = \<lparr>rx_queue = [], rx_open = True, rx_done = False\<rparr>"
    using enter DisconnectedState_enter_frame(2) [OF enter]
    by (simp_all add: ex_start_def TunnelStateMachine_new_def ex_settings_def)
  moreover have "sv_connectivity sv = cy" "sv_lockdown_mode sv = LockdownDisabled" "sv_dns_config sv = dns"
    using DisconnectedState_enter_frame(1) [OF enter] by (simp_all add: frame_def initial_shared_def ex_settings_def)
  ultimately show ?thesis by (auto simp: waits_in_def)
qed

lemma ex_connecting:
  "\<exists>m sv cs. waits_in (ConnectingState cs) sv m \<and> \<not> is_offline (sv_connectivity sv) \<and>
     cg_tunnel_parameters cs = ex_params \<and> (\<exists>n es. sv_log sv = TunnelStart n ex_params 0 # es) \<and>
     sv_dns_config sv = dns"
proof -
  obtain sv where m0: "waits_in DisconnectedState sv (ex_start dns PresumeOnline)"
    and cy: "sv_connectivity sv = PresumeOnline" "sv_dns_config sv = dns" using ex_disconnected by blast
  from cy obtain cs tr sv' where "ConnectingState_enter ex_world 0 sv = ((ConnectingState cs, tr), sv')"
    and "cg_tunnel_parameters cs = ex_params" "sv_connectivity sv' = sv_connectivity sv"
      "sv_dns_config sv' = sv_dns_config sv" "\<exists>n es. sv_log sv' = TunnelStart n ex_params 0 # es"
    using ex_enter_connecting [of sv 0] by (auto simp: is_offline_def)
  moreover from this(1) have "command_handler ex_world DisconnectedState (Some Connect) sv =
      (NewState (ConnectingState cs, tr), sv')"
    by (simp add: command_handler_def DisconnectedState_handle_commands_def)
  ultimately show ?thesis
    using waits_in_command [OF m0] cy by (fastforce simp: is_offline_def)
qed

lemma ex_connected:
  "\<exists>m sv cd. waits_in (ConnectedState cd) sv m \<and> cd_metadata cd = ex_tunnel \<and> sv_dns_config sv = dns"
proof -
  obtain m sv cs where m: "waits_in (ConnectingState cs) sv m" and dns: "sv_dns_config sv = dns"
    using ex_connecting by blast
  define cd where "cd = \<lparr>cd_metadata = ex_tunnel, cd_tunnel_events = cg_tunnel_events cs,
      cd_tunnel_parameters = cg_tunnel_parameters cs, cd_tunnel_close_event = cg_tunnel_close_event cs,
      cd_tunnel_close_tx = cg_tunnel_close_tx cs\<rparr>"
  obtain sv1 where "ConnectedState_set_firewall_policy ex_world cd sv = (Inr (), sv1)" "frame sv sv1"
    using ex_connected_call [of cd sv] by (auto simp: cd_def ex_tunnel_def)
  then obtain tr sv' where "ConnectingState_handle_tunnel_events ex_world cs (Some (Up ex_tunnel)) sv =
      (NewState (ConnectedState cd, tr), sv')" and "sv_dns_config sv' = dns"
    using dns
    by (auto simp: ConnectingState_handle_tunnel_events_def frame_def ConnectedState_enter_def
        ConnectedState_set_dns_def dns_set_def Let_def cd_def ex_world_def
        [THEN arg_cong [of _ _ w_dns_set_ok]])
  from waits_in_event [OF m this(1)] this(2)
  have "\<exists>m' sv'. waits_in (ConnectedState cd) sv' m' \<and> sv_dns_config sv' = dns" by blast
  moreover have "cd_metadata cd = ex_tunnel" by (simp add: cd_def)
  ultimately show ?thesis by blast
qed

lemma ex_disconnecting:
  "\<exists>m sv dg. waits_in (DisconnectingState dg) sv m \<and> dg_after_disconnect dg = AfterNothing"
proof -
  obtain m sv cd where m: "waits_in (ConnectedState cd) sv m" using ex_connected by blast
  obtain dg tr sv' where h: "command_handler ex_world (ConnectedState cd) (Some Disconnect) sv =
      (NewState (DisconnectingState dg, tr), sv')" and dg: "dg_after_disconnect dg = AfterNothing"
    by (simp add: command_handler_def ConnectedState_handle_commands_def ConnectedState_disconnect_def
        DisconnectingState_enter_def Let_def)
  from waits_in_command [OF m _ h] dg show ?thesis by auto
qed

lemma ex_error: "\<exists>m sv. waits_in (ErrorState IsOffline) sv m"
proof -
  obtain sv where m0: "waits_in DisconnectedState sv (ex_start DnsDefault Offline)"
    and cy: "sv_connectivity sv = Offline" using ex_disconnected by blast
  obtain st tr sv' where e: "ErrorState_enter ex_world IsOffline sv = ((st, tr), sv')"
    by (metis prod.exhaust)
  with ErrorState_enter_call [OF e] cy
  have h: "command_handler ex_world DisconnectedState (Some Connect) sv = (NewState (ErrorState IsOffline, tr), sv')"
    by (simp add: command_handler_def DisconnectedState_handle_commands_def ConnectingState_enter_def)
  from waits_in_command [OF m0 _ h] show ?thesis by auto
qed

end
