(* ===== verification/Tunnel_Order.thy ===== *)
theory Tunnel_Order
  imports Tunnel_Invariants
begin

text \<open>
  The order of the calls the tunnel state machine makes on the outside, read off the log: a tunnel is
  started, and the system resolver is configured, only right after the firewall policy that goes with
  it has been applied.
\<close>

section \<open>Well-ordered logs\<close>

text \<open>What the log must hold right before an effect; logs are newest first.\<close>

definition after_policy :: "effect \<Rightarrow> effect list \<Rightarrow> bool" where
  "after_policy e earlier =
     (case e of
        TunnelStart _ params _ \<Rightarrow>
          (case earlier of
             FwApply (PolicyConnecting peers tunnel _ _ traffic) ok # _ \<Rightarrow>
               ok \<and> peers = root_endpoints (get_next_hop_endpoints params) \<and> tunnel = None \<and>
               traffic = TrafficNone
           | _ \<Rightarrow> False)
      | DnsSet iface config _ \<Rightarrow>
          (case earlier of
             FwApply (PolicyConnected _ tunnel _ dns) ok # _ \<Rightarrow>
               ok \<and> tm_interface tunnel = iface \<and> dns = config
           | _ \<Rightarrow> False)
      | _ \<Rightarrow> True)"

fun ordered_log :: "effect list \<Rightarrow> bool" where
  "ordered_log [] = True"
| "ordered_log (e # es) = (after_policy e es \<and> ordered_log es)"

lemma ordered_log_append: "ordered_log (later @ e # earlier) \<Longrightarrow> after_policy e earlier"
  by (induction later) auto

lemma after_policy_simps [simp]:
  "after_policy (FwApply p b) es" "after_policy (FwReset b) es" "after_policy DnsReset es"
  "after_policy DnsResetBeforeRemoval es" "after_policy ClearRoutes es"
  "after_policy ClearRoutingRules es" "after_policy (TunnelClose n) es" "after_policy (Sent tx) es"
  by (simp_all add: after_policy_def)

section \<open>The log of each operation\<close>

lemma log_calls [simp]:
  "sv_log (disable_connectivity_check w sv) = sv_log sv"
  "sv_log (reset_connectivity_check w sv) = sv_log sv"
  "sv_log (snd (set_allow_lan a sv)) = sv_log sv"
  "sv_log (snd (set_dns_config d sv)) = sv_log sv"
  by (simp_all add: disable_connectivity_check_def reset_connectivity_check_def set_allow_lan_def
      set_dns_config_def Let_def split: prod.splits)

lemma log_settings:
  "set_allow_lan a sv = (b, sv') \<Longrightarrow> sv_log sv' = sv_log sv"
  "set_dns_config d sv = (b, sv') \<Longrightarrow> sv_log sv' = sv_log sv"
  by (auto simp: set_allow_lan_def set_dns_config_def split: if_splits)

lemma log_apply_policy:
  "apply_policy w policy sv = (r, sv') \<Longrightarrow> sv_log sv' = FwApply policy (res_ok r) # sv_log sv"
  "reset_policy w sv = (r', sv') \<Longrightarrow> sv_log sv' = FwReset (res_ok r') # sv_log sv"
  by (auto simp: apply_policy_def reset_policy_def split: prod.splits)

lemma log_set_firewall_policy:
  "ErrorState_set_firewall_policy w sv = (r, sv') \<Longrightarrow>
   sv_log sv' = FwApply (PolicyBlocked (sv_allow_lan sv) (Some (sv_allowed_endpoint sv))) (res_ok r) # sv_log sv"
  "ConnectingState_set_firewall_policy w params md traffic sv = (r, sv') \<Longrightarrow>
   sv_log sv' = FwApply (connecting_policy sv params md traffic) (res_ok r) # sv_log sv"
  "ConnectedState_set_firewall_policy w self sv = (r, sv') \<Longrightarrow>
   sv_log sv' = FwApply (get_firewall_policy self sv) (res_ok r) # sv_log sv"
  using check_simps(1) [of sv w]
  by (auto simp: ErrorState_set_firewall_policy_def ConnectingState_set_firewall_policy_def
      ConnectedState_set_firewall_policy_def connecting_policy_def frame_def Let_def
      dest!: log_apply_policy split: prod.splits sum.splits)

lemma ordered_set_firewall_policy [simp]:
  "ordered_log (sv_log (snd (ErrorState_set_firewall_policy w sv))) = ordered_log (sv_log sv)"
  "ordered_log (sv_log (snd (ConnectingState_set_firewall_policy w p md t sv))) = ordered_log (sv_log sv)"
  "ordered_log (sv_log (snd (ConnectedState_set_firewall_policy w cd sv))) = ordered_log (sv_log sv)"
  "ordered_log (sv_log (DisconnectedState_set_firewall_policy w b sv)) = ordered_log (sv_log sv)"
proof -
  show "ordered_log (sv_log (snd (ErrorState_set_firewall_policy w sv))) = ordered_log (sv_log sv)"
    by (cases "ErrorState_set_firewall_policy w sv") (auto dest: log_set_firewall_policy)
  show "ordered_log (sv_log (snd (ConnectingState_set_firewall_policy w p md t sv))) = ordered_log (sv_log sv)"
    by (cases "ConnectingState_set_firewall_policy w p md t sv") (auto dest: log_set_firewall_policy)
  show "ordered_log (sv_log (snd (ConnectedState_set_firewall_policy w cd sv))) = ordered_log (sv_log sv)"
    by (cases "ConnectedState_set_firewall_policy w cd sv") (auto dest: log_set_firewall_policy)
  show "ordered_log (sv_log (DisconnectedState_set_firewall_policy w b sv)) = ordered_log (sv_log sv)"
    using log_apply_policy [of w] unfolding DisconnectedState_set_firewall_policy_def
    by (cases "reset_policy w sv"; cases "apply_policy w (PolicyBlocked (sv_allow_lan sv) (Some (sv_allowed_endpoint sv))) sv")
      (auto dest: log_apply_policy)
qed

lemma ordered_enter [simp]:
  "ordered_log (sv_log (snd (ErrorState_enter w cause sv))) = ordered_log (sv_log sv)"
  "ordered_log (sv_log (snd (DisconnectedState_enter w b sv))) = ordered_log (sv_log sv)"
  "ordered_log (sv_log (snd (DisconnectingState_enter tx ev after sv))) = ordered_log (sv_log sv)"
  "ordered_log (sv_log (snd (ConnectingState_disconnect cs after sv))) = ordered_log (sv_log sv)"
  "ordered_log (sv_log (snd (ConnectedState_disconnect cd after sv))) = ordered_log (sv_log sv)"
proof -
  show "ordered_log (sv_log (snd (ErrorState_enter w cause sv))) = ordered_log (sv_log sv)"
    using ordered_set_firewall_policy(1) [of w sv] by (simp add: ErrorState_enter_def Let_def case_prod_beta)
qed (simp_all add: DisconnectedState_enter_def DisconnectingState_enter_def ConnectingState_disconnect_def
    ConnectedState_disconnect_def plain_calls Let_def)

lemma ordered_start [simp]:
  assumes "fst (ConnectingState_set_firewall_policy w params None TrafficNone sv) = Inr u"
    and "ordered_log (sv_log sv)"
  shows "ordered_log (sv_log (snd (start_tunnel params retry
    (snd (ConnectingState_set_firewall_policy w params None TrafficNone sv)))))"
proof (cases "ConnectingState_set_firewall_policy w params None TrafficNone sv")
  case (Pair r sv')
  with log_set_firewall_policy(2) [OF Pair] assms show ?thesis
    by (simp add: start_tunnel_def Let_def after_policy_def connecting_policy_def)
qed

lemma ordered_ConnectingState_enter [simp]:
  "ordered_log (sv_log sv) \<Longrightarrow> ordered_log (sv_log (snd (ConnectingState_enter w retry sv)))"
  by (simp add: ConnectingState_enter_def generate_parameters_def case_prod_beta
      split: option.split sum.split)

lemma ordered_set_dns [simp]:
  assumes "fst (ConnectedState_set_firewall_policy w self sv) = Inr u" and "ordered_log (sv_log sv)"
  shows "ordered_log (sv_log (snd (ConnectedState_set_dns w self
    (snd (ConnectedState_set_firewall_policy w self sv)))))"
proof (cases "ConnectedState_set_firewall_policy w self sv")
  case (Pair r sv')
  then have "resolve_dns (cd_metadata self) sv' = resolve_dns (cd_metadata self) sv"
    using ConnectedState_set_firewall_policy_call [OF Pair] by (simp add: fw_call_def frame_def resolve_dns_def)
  with log_set_firewall_policy(3) [OF Pair] Pair assms show ?thesis
    by (simp add: ConnectedState_set_dns_def dns_set_def Let_def after_policy_def get_firewall_policy_def)
qed

lemma ordered_ConnectedState_enter [simp]:
  "ordered_log (sv_log sv) \<Longrightarrow>
   ordered_log (sv_log (snd (ConnectedState_enter w md events params ev tx sv)))"
  by (simp add: ConnectedState_enter_def Let_def case_prod_beta split: sum.split bool.split)

section \<open>Handlers\<close>

lemma ordered_send_done [simp]: "ordered_log (sv_log (send_done tx sv)) = ordered_log (sv_log sv)"
  by (simp add: send_done_def)

lemma ordered_reset_firewall [simp]:
  "ordered_log (sv_log sv) \<Longrightarrow> ordered_log (sv_log (snd (ConnectingState_reset_firewall w self sv)))"
  by (simp add: ConnectingState_reset_firewall_def case_prod_beta split: sum.split)

lemma ordered_connecting [simp]:
  assumes "ordered_log (sv_log sv)"
  shows "ordered_log (sv_log (snd (ConnectingState_handle_commands w self command sv)))"
    and "ordered_log (sv_log (snd (ConnectingState_handle_tunnel_events w self event sv)))"
    and "ordered_log (sv_log (snd (ConnectingState_handle_tunnel_close_event w self reason sv)))"
  using assms
  by (simp_all add: ConnectingState_handle_commands_def ConnectingState_handle_tunnel_events_def
      ConnectingState_handle_tunnel_close_event_def reset_routes_def Let_def case_prod_beta
      split: option.split tunnel_command.split tunnel_event.split sum.split)

lemma ordered_connected [simp]:
  assumes "ordered_log (sv_log sv)"
  shows "ordered_log (sv_log (snd (ConnectedState_handle_commands w self command sv)))"
    and "ordered_log (sv_log (snd (ConnectedState_handle_tunnel_events self event sv)))"
    and "ordered_log (sv_log (snd (ConnectedState_handle_tunnel_close_event w self reason sv)))"
  using assms
  by (simp_all add: ConnectedState_handle_commands_def ConnectedState_handle_tunnel_events_def
      ConnectedState_handle_tunnel_close_event_def ConnectedState_reset_dns_def reset_routes_def
      dns_reset_before_interface_removal_def Let_def case_prod_beta
      split: option.split tunnel_command.split tunnel_event.split sum.split bool.split)

lemma ordered_others [simp]:
  assumes "ordered_log (sv_log sv)"
  shows "ordered_log (sv_log (snd (DisconnectingState_handle_commands dg command sv)))"
    and "ordered_log (sv_log (snd (DisconnectingState_after_disconnect w dg reason sv)))"
    and "ordered_log (sv_log (snd (DisconnectedState_handle_commands w command sv)))"
    and "ordered_log (sv_log (snd (ErrorState_handle_commands w cause command sv)))"
  using assms
  by (simp_all add: DisconnectingState_handle_commands_def DisconnectingState_after_disconnect_def
      DisconnectedState_handle_commands_def ErrorState_handle_commands_def DisconnectedState_reset_dns_def
      ErrorState_reset_dns_def dns_reset_def Let_def case_prod_beta
      split: option.split tunnel_command.split after_disconnect.split)

lemma ordered_disconnecting:
  "DisconnectingState_handle_commands dg command sv = (c, sv') \<Longrightarrow>
   ordered_log (sv_log sv) \<Longrightarrow> ordered_log (sv_log sv')"
  "apfst NewState (DisconnectingState_after_disconnect w dg reason sv) = (c, sv') \<Longrightarrow>
   ordered_log (sv_log sv) \<Longrightarrow> ordered_log (sv_log sv')"
  using ordered_others(1) [of sv dg command] ordered_others(2) [of sv w dg reason]
  by (auto simp: apfst_def map_prod_def case_prod_beta)

lemma ordered_handle_event:
  assumes "handle_event w br exits st rx sv = Some (c, rx', sv')" and "ordered_log (sv_log sv)"
  shows "ordered_log (sv_log sv')"
  using assms
  by (cases st) (auto simp: ConnectingState_handle_event_def ConnectedState_handle_event_def
      DisconnectingState_handle_event_def Let_def case_prod_beta
      elim!: ordered_disconnecting split: branch.splits option.splits event_result.splits)

lemma ordered_step: "tsm_step w m m' \<Longrightarrow> ordered_log (sv_log (m_shared m)) \<Longrightarrow> ordered_log (sv_log (m_shared m'))"
  by (induction rule: tsm_step.induct) (auto elim!: run_stepE dest: ordered_handle_event)

lemma reachable_ordered: "tsm_reachable w m \<Longrightarrow> ordered_log (sv_log (m_shared m))"
proof (induction rule: tsm_reachable.induct)
  case (start settings ids connectivity k check)
  show ?case
    by (simp add: TunnelStateMachine_new_def case_prod_beta) (simp add: initial_shared_def)
qed (rule ordered_step)

end
