(* ===== verification/Tunnel_Properties.thy ===== *)
theory Tunnel_Properties
  imports Tunnel_Example Tunnel_Order
begin

text \<open>
  The properties of the tunnel state machine, for every reachable machine, whatever the firewall, the
  DNS monitor, NetworkManager, the relay selector and the tunnels do.
\<close>

section \<open>The kill switch\<close>

text \<open>
  C9. Connected: the table in the kernel is exactly the one of the connected policy for the current
  settings and the current tunnel, and the last DNS call was a successful one that pointed the system
  at the servers this policy allows.
\<close>

theorem connected_policy_in_force:
  assumes "tsm_reachable w m" and "m_state m = Some (ConnectedState self)"
  shows "k_batch (sv_kernel (m_shared m)) \<in>
           batches_for (sv_firewall (m_shared m)) (get_firewall_policy self (m_shared m)) \<and>
         find is_dns_effect (sv_log (m_shared m)) =
           Some (DnsSet (tm_interface (cd_metadata self)) (resolve_dns (cd_metadata self) (m_shared m)) True)"
  using reachable_inv [OF assms(1)] assms(2)
  by (auto simp: machine_inv_def installed_def dns_current_def last_dns_def)

theorem connected_policy_in_force_witness:
  "\<exists>m self. tsm_reachable ex_world m \<and> m_state m = Some (ConnectedState self) \<and>
     k_batch (sv_kernel (m_shared m)) \<in>
       batches_for (sv_firewall (m_shared m)) (get_firewall_policy self (m_shared m))"
proof -
  obtain m sv self where m: "waits_in (ConnectedState self) sv m" using ex_connected by blast
  then have "tsm_reachable ex_world m" "m_state m = Some (ConnectedState self)"
    by (simp_all add: waits_in_def)
  with connected_policy_in_force [OF this] show ?thesis by blast
qed

text \<open>
  Connecting: a connecting policy for the current settings and the parameters of this attempt is
  in place; once the tunnel interface is up, it is the one for that interface and the traffic that may
  use it.
\<close>

theorem connecting_policy_in_force:
  assumes "tsm_reachable w m" and "m_state m = Some (ConnectingState self)"
  shows "\<exists>md traffic.
     k_batch (sv_kernel (m_shared m)) \<in> batches_for (sv_firewall (m_shared m))
       (connecting_policy (m_shared m) (cg_tunnel_parameters self) md traffic) \<and>
     (cg_tunnel_metadata self = None \<or>
      md = cg_tunnel_metadata self \<and> traffic = cg_allowed_tunnel_traffic self)"
  using reachable_inv [OF assms(1)] assms(2)
  by (auto simp: machine_inv_def connecting_installed_def installed_def)

theorem connecting_policy_in_force_witness:
  "\<exists>m self md traffic. tsm_reachable ex_world m \<and> m_state m = Some (ConnectingState self) \<and>
     k_batch (sv_kernel (m_shared m)) \<in> batches_for (sv_firewall (m_shared m))
       (connecting_policy (m_shared m) ex_params md traffic)"
proof -
  obtain m sv self where "waits_in (ConnectingState self) sv m" "cg_tunnel_parameters self = ex_params"
    using ex_connecting by blast
  then have m: "tsm_reachable ex_world m" "m_state m = Some (ConnectingState self)"
    "cg_tunnel_parameters self = ex_params" by (simp_all add: waits_in_def)
  with connecting_policy_in_force [OF m(1,2)] show ?thesis by auto
qed

text \<open>
  C8. The kill switch never opens around a tunnel: while connecting, connected or disconnecting the
  kernel holds the complete table of some policy, even if firewall calls fail on the way.
\<close>

theorem kill_switch:
  assumes "tsm_reachable w m" and "m_state m = Some st"
    and "case st of ConnectingState _ \<Rightarrow> True | ConnectedState _ \<Rightarrow> True
         | DisconnectingState _ \<Rightarrow> True | _ \<Rightarrow> False"
  shows "\<exists>policy. k_batch (sv_kernel (m_shared m)) \<in> batches_for (sv_firewall (m_shared m)) policy"
  using reachable_inv [OF assms(1)] assms(2,3)
  by (cases st) (auto simp: machine_inv_def connecting_installed_def secured_def installed_def)

theorem kill_switch_witness:
  "\<exists>m dg policy. tsm_reachable ex_world m \<and> m_state m = Some (DisconnectingState dg) \<and>
     k_batch (sv_kernel (m_shared m)) \<in> batches_for (sv_firewall (m_shared m)) policy"
proof -
  obtain m sv dg where "waits_in (DisconnectingState dg) sv m" using ex_disconnecting by blast
  then have m: "tsm_reachable ex_world m" "m_state m = Some (DisconnectingState dg)"
    by (simp_all add: waits_in_def)
  with kill_switch [OF m] show ?thesis by auto
qed

text \<open>
  C12. Error state: either the kernel holds the complete table of some policy, or the transition that
  was last sent to the listener says that traffic is not being blocked.
\<close>

theorem error_state_blocks_or_reports:
  assumes "tsm_reachable w m" and "m_running m" and "m_state m = Some (ErrorState cause)"
  shows "(\<exists>policy. k_batch (sv_kernel (m_shared m)) \<in> batches_for (sv_firewall (m_shared m)) policy) \<or>
         (\<exists>e trs. m_transitions m = TError e # trs \<and> \<not> is_blocking e)"
  using reachable_guard [OF assms(1)] assms(2,3)
  by (auto simp: machine_guard_def secured_def installed_def reported_def)

theorem error_state_blocks_or_reports_witness:
  "\<exists>m. tsm_reachable ex_world m \<and> m_state m = Some (ErrorState IsOffline) \<and>
     ((\<exists>policy. k_batch (sv_kernel (m_shared m)) \<in> batches_for (sv_firewall (m_shared m)) policy) \<or>
      (\<exists>e trs. m_transitions m = TError e # trs \<and> \<not> is_blocking e))"
proof -
  obtain m sv where "waits_in (ErrorState IsOffline) sv m" using ex_error by blast
  then have m: "tsm_reachable ex_world m" "m_running m" "m_state m = Some (ErrorState IsOffline)"
    by (simp_all add: waits_in_def)
  with error_state_blocks_or_reports [OF m] show ?thesis by blast
qed

text \<open>
  C13. Lockdown mode: in the disconnected state with lockdown mode on, the kernel holds the complete
  table of some policy, unless the last call on the firewall was an \<open>apply_policy\<close> that failed.
\<close>

theorem lockdown_blocks_or_failed:
  assumes "tsm_reachable w m" and "m_state m = Some DisconnectedState"
    and "lockdown_bool (sv_lockdown_mode (m_shared m))"
  shows "(\<exists>policy. k_batch (sv_kernel (m_shared m)) \<in> batches_for (sv_firewall (m_shared m)) policy) \<or>
         fw_failed (m_shared m)"
  using reachable_guard [OF assms(1)] assms(2,3)
  by (auto simp: machine_guard_def locked_def secured_def installed_def)

theorem lockdown_blocks_or_failed_witness:
  "\<exists>m. tsm_reachable ex_world m \<and> m_state m = Some DisconnectedState \<and>
     lockdown_bool (sv_lockdown_mode (m_shared m)) \<and>
     ((\<exists>policy. k_batch (sv_kernel (m_shared m)) \<in> batches_for (sv_firewall (m_shared m)) policy) \<or>
      fw_failed (m_shared m))"
proof -
  obtain sv where m0: "waits_in DisconnectedState sv (ex_start DnsDefault PresumeOnline)"
    and "sv_lockdown_mode sv = LockdownDisabled"
    using ex_disconnected by blast
  then obtain tr sv' where h: "command_handler ex_world DisconnectedState (Some (LockdownMode lockdown_yes 0)) sv =
      (NewState (DisconnectedState, tr), sv')" and l: "sv_lockdown_mode sv' = lockdown_yes"
    using DisconnectedState_set_firewall_policy_frame [of "sv\<lparr>sv_lockdown_mode := lockdown_yes\<rparr>" ex_world True]
    by (auto simp: command_handler_def DisconnectedState_handle_commands_def lockdown_eq_def
        lockdown_bool_def lockdown_yes_def construct_state_transition_def send_done_def Let_def frame_def)
  from waits_in_command [OF m0 _ h] obtain m where "waits_in DisconnectedState sv' m" by auto
  with l have m: "tsm_reachable ex_world m" "m_state m = Some DisconnectedState"
    "lockdown_bool (sv_lockdown_mode (m_shared m))"
    by (auto simp: waits_in_def lockdown_bool_def lockdown_yes_def)
  with lockdown_blocks_or_failed [OF m] show ?thesis by blast
qed

text \<open>
  A failed lockdown is reported as blocked: there is a run in which the daemon ends up in the
  disconnected state with lockdown mode on, tells the listener that access is locked down, and the
  kernel holds no table at all.
\<close>

theorem locked_down_reported_without_table:
  "\<exists>w sv sv'. command_handler w DisconnectedState (Some (LockdownMode lockdown_yes 0)) sv =
     (NewState (DisconnectedState, TDisconnected True), sv') \<and>
     k_batch (sv_kernel sv') = None"
proof -
  let ?w = "ex_world\<lparr>w_fw := \<lambda>_. (w_fw ex_world 0)\<lparr>io_netlink := NotCommitted NetlinkOpenError\<rparr>\<rparr>"
  let ?sv = "initial_shared ex_settings ex_ids PresumeOnline ex_kernel True"
  obtain b where "finalize_batch ex_host (PolicyBlocked False (Some ex_api)) (firewall_from_args ex_ids)
      batch_new = Inr b"
    using ex_finalize(2) by blast
  then have "case command_handler ?w DisconnectedState (Some (LockdownMode lockdown_yes 0)) ?sv of
      (c, sv') \<Rightarrow> c = NewState (DisconnectedState, TDisconnected True) \<and> k_batch (sv_kernel sv') = None"
    by (simp add: command_handler_def DisconnectedState_handle_commands_def lockdown_eq_def
        lockdown_bool_def lockdown_yes_def construct_state_transition_def send_done_def Let_def
        DisconnectedState_set_firewall_policy_def apply_policy_def fw_apply_policy_def
        send_and_process_def initial_shared_def ex_settings_def ex_kernel_def ex_world_def)
  then obtain sv' where "command_handler ?w DisconnectedState (Some (LockdownMode lockdown_yes 0)) ?sv =
      (NewState (DisconnectedState, TDisconnected True), sv')" "k_batch (sv_kernel sv') = None"
    by (cases "command_handler ?w DisconnectedState (Some (LockdownMode lockdown_yes 0)) ?sv") auto
  then show ?thesis by blast
qed

section \<open>Tunnels\<close>

text \<open>
  There is never more than one tunnel: at most one tunnel thread runs, none in the disconnected
  and error states, and in the other states the channels of the state all belong to that thread.
\<close>

theorem one_tunnel:
  assumes "tsm_reachable w m"
  shows "length (sv_tunnels (m_shared m)) \<le> 1 \<and>
    (case m_state m of
       Some (ConnectingState s) \<Rightarrow>
         set (sv_tunnels (m_shared m)) \<subseteq> {cg_tunnel_events s} \<and>
         cg_tunnel_close_tx s = cg_tunnel_events s \<and> ce_tunnel (cg_tunnel_close_event s) = cg_tunnel_events s
     | Some (ConnectedState s) \<Rightarrow>
         set (sv_tunnels (m_shared m)) \<subseteq> {cd_tunnel_events s} \<and>
         cd_tunnel_close_tx s = cd_tunnel_events s \<and> ce_tunnel (cd_tunnel_close_event s) = cd_tunnel_events s
     | Some (DisconnectingState s) \<Rightarrow>
         set (sv_tunnels (m_shared m)) \<subseteq> {ce_tunnel (dg_tunnel_close_event s)}
     | _ \<Rightarrow> sv_tunnels (m_shared m) = [])"
  using reachable_inv [OF assms]
  by (auto simp: machine_inv_def owns_def idle_def split: option.splits tunnel_state.splits)

theorem one_tunnel_witness:
  "\<exists>m self. tsm_reachable ex_world m \<and> m_state m = Some (ConnectedState self) \<and>
     length (sv_tunnels (m_shared m)) \<le> 1"
proof -
  obtain m sv self where "waits_in (ConnectedState self) sv m" using ex_connected by blast
  then have m: "tsm_reachable ex_world m" "m_state m = Some (ConnectedState self)"
    by (simp_all add: waits_in_def)
  with one_tunnel [OF m(1)] show ?thesis by auto
qed

text \<open>
  The polling branch of the disconnecting state is never taken: the close event of a reachable
  disconnecting state has not been consumed, so the state always blocks until the tunnel has exited or
  a command arrives.
\<close>

theorem disconnecting_never_polls:
  assumes "tsm_reachable w m" and "m_state m = Some (DisconnectingState self)"
  shows "\<not> ce_terminated (dg_tunnel_close_event self) \<and>
    (DisconnectingState_result br (m_exits m) (dg_tunnel_close_event self) (m_commands m) =
       (case br of BCommand \<Rightarrow> select_command (m_commands m)
        | BEvent _ \<Rightarrow> None
        | BClose \<Rightarrow> map_option (\<lambda>r. (EvClose r, m_commands m)) (m_exits m (ce_tunnel (dg_tunnel_close_event self)))))"
  using reachable_inv [OF assms(1)] assms(2)
  by (auto simp: machine_inv_def owns_def DisconnectingState_result_def select_close_def
      split: branch.splits)

theorem disconnecting_never_polls_witness:
  "\<exists>m dg. tsm_reachable ex_world m \<and> m_state m = Some (DisconnectingState dg) \<and>
     \<not> ce_terminated (dg_tunnel_close_event dg)"
proof -
  obtain m sv dg where "waits_in (DisconnectingState dg) sv m" using ex_disconnecting by blast
  then have m: "tsm_reachable ex_world m" "m_state m = Some (DisconnectingState dg)"
    by (simp_all add: waits_in_def)
  with disconnecting_never_polls [OF m] show ?thesis by blast
qed

text \<open>
  No tunnel is attempted or kept while the host is known to be offline.
\<close>

theorem online_while_tunneling:
  assumes "tsm_reachable w m" and "sv_connectivity (m_shared m) = Offline"
  shows "case m_state m of Some (ConnectingState _) \<Rightarrow> False | Some (ConnectedState _) \<Rightarrow> False | _ \<Rightarrow> True"
  using reachable_inv [OF assms(1)] assms(2)
  by (auto simp: machine_inv_def is_offline_def split: option.splits tunnel_state.splits)

theorem online_while_tunneling_witness:
  "\<exists>m. tsm_reachable ex_world m \<and> sv_connectivity (m_shared m) = Offline \<and>
     (case m_state m of Some (ConnectingState _) \<Rightarrow> False | Some (ConnectedState _) \<Rightarrow> False | _ \<Rightarrow> True)"
proof -
  obtain sv where "waits_in DisconnectedState sv (ex_start DnsDefault Offline)" "sv_connectivity sv = Offline"
    using ex_disconnected by blast
  then have m: "tsm_reachable ex_world (ex_start DnsDefault Offline)" "sv_connectivity (m_shared (ex_start DnsDefault Offline)) = Offline"
    by (simp_all add: waits_in_def)
  with online_while_tunneling [OF m] show ?thesis by blast
qed

section \<open>Shutting down\<close>

text \<open>
  C40. Once the end of the command stream has been received, every turn of the loop brings the machine
  strictly closer to its end: disconnecting, error, disconnected, finished. At most three turns are
  left, and it never connects again.
\<close>

theorem shutdown_progress:
  assumes "tsm_reachable w m" and "rx_done (m_commands m)"
    and "run_step w listening br m = Some m'"
  shows "rx_done (m_commands m') \<and> state_rank (m_state m') < state_rank (m_state m) \<and>
         state_rank (m_state m) \<le> 3"
proof -
  have "state_rank (m_state m) \<le> 3"
    using reachable_done [OF assms(1)] assms(2)
    by (cases "m_state m"; cases "the (m_state m)") (auto simp: machine_done_def)
  with run_step_rank [OF assms] show ?thesis by simp
qed

lemma ex_finishing:
  "\<exists>m m'. tsm_reachable ex_world m \<and> rx_done (m_commands m) \<and> run_step ex_world True BCommand m = Some m'"
proof -
  obtain m0 sv where m0: "waits_in (ErrorState IsOffline) sv m0" using ex_error by blast
  define m1 where "m1 = m0\<lparr>m_commands := (m_commands m0)\<lparr>rx_open := False\<rparr>\<rparr>"
  have m1: "tsm_reachable ex_world m1" "m_running m1" "m_state m1 = Some (ErrorState IsOffline)"
    "\<not> rx_open (m_commands m1)" "rx_queue (m_commands m1) = []" "\<not> rx_done (m_commands m1)"
    using m0 tsm_reachable.step [OF _ tsm_step.drop_sender, of ex_world m0]
    by (auto simp: m1_def waits_in_def)
  obtain m2 where m2: "run_step ex_world True BCommand m1 = Some m2" "rx_done (m_commands m2)"
    using end_of_stream [OF m1] by blast
  from m2(1) m1(2,3) have st: "m_state m2 = Some DisconnectedState" "m_running m2"
    using m1(4-6)
    by (auto simp: run_step_def commands_next_def ErrorState_handle_commands_def DisconnectedState_enter_def
        construct_state_transition_def Let_def)
  have "\<exists>m'. run_step ex_world True BCommand m2 = Some m'"
    using st m2(2) by (simp add: run_step_def commands_next_def Let_def split: prod.splits)
  with tsm_reachable.step [OF m1(1) tsm_step.loop [OF m2(1)]] m2(2) show ?thesis by blast
qed

theorem shutdown_progress_witness:
  "\<exists>m m'. tsm_reachable ex_world m \<and> run_step ex_world True BCommand m = Some m' \<and>
     state_rank (m_state m') < state_rank (m_state m)"
proof -
  obtain m m' where m: "tsm_reachable ex_world m" "rx_done (m_commands m)"
    "run_step ex_world True BCommand m = Some m'" using ex_finishing by blast
  with shutdown_progress [OF m] show ?thesis by blast
qed

text \<open>
  C39. Shutdown completes: from every reachable machine whose command channel is closed and empty, the
  machine can finish, given that its tunnel exits. Nothing it is waiting for can be missing.
\<close>

theorem shutdown_completes:
  assumes "tsm_reachable w m" and "m_running m"
    and "\<not> rx_open (m_commands m)" and "rx_queue (m_commands m) = []"
  shows "\<exists>m'. (tsm_step w)\<^sup>*\<^sup>* m m' \<and> m_state m' = None"
  using assms by (rule closed_ends)

theorem shutdown_completes_witness:
  "\<exists>m self m'. tsm_reachable ex_world m \<and> m_state m = Some (ConnectedState self) \<and>
     (tsm_step ex_world)\<^sup>*\<^sup>* m m' \<and> m_state m' = None"
proof -
  obtain m0 sv self where m0: "waits_in (ConnectedState self) sv m0" using ex_connected by blast
  define m where "m = m0\<lparr>m_commands := (m_commands m0)\<lparr>rx_open := False\<rparr>\<rparr>"
  have "tsm_reachable ex_world m" "m_running m" "\<not> rx_open (m_commands m)" "rx_queue (m_commands m) = []"
    "m_state m = Some (ConnectedState self)"
    using m0 tsm_reachable.step [OF _ tsm_step.drop_sender, of ex_world m0]
    by (auto simp: m_def waits_in_def)
  with shutdown_completes [of ex_world m] show ?thesis by blast
qed

section \<open>The order of calls\<close>

text \<open>
  C38. The firewall comes before the tunnel: whenever a tunnel was started, the call right before it
  was a successful application of a connecting policy that opens the firewall for exactly the relay
  endpoints of that attempt and for no traffic inside a tunnel.
\<close>

theorem policy_before_tunnel:
  assumes "tsm_reachable w m"
    and "sv_log (m_shared m) = later @ TunnelStart n params retry # earlier"
  shows "\<exists>lan api rest. earlier =
    FwApply (PolicyConnecting (root_endpoints (get_next_hop_endpoints params)) None lan api TrafficNone) True # rest"
  using reachable_ordered [OF assms(1)] assms(2)
  by (auto dest!: ordered_log_append simp: after_policy_def
      split: list.splits effect.splits firewall_policy.splits)

theorem policy_before_tunnel_witness:
  "\<exists>m n lan api rest. tsm_reachable ex_world m \<and>
     sv_log (m_shared m) = TunnelStart n ex_params 0 #
       FwApply (PolicyConnecting (root_endpoints (get_next_hop_endpoints ex_params)) None lan api TrafficNone) True # rest"
proof -
  obtain m sv self n es where "waits_in (ConnectingState self) sv m" "sv_log sv = TunnelStart n ex_params 0 # es"
    using ex_connecting by blast
  then have m: "tsm_reachable ex_world m" "sv_log (m_shared m) = [] @ TunnelStart n ex_params 0 # es"
    by (simp_all add: waits_in_def)
  with policy_before_tunnel [OF m] show ?thesis by fastforce
qed

text \<open>
  The firewall comes before the resolver: whenever the system resolver was configured, the call
  right before it was a successful application of a connected policy for the same interface and the
  same DNS servers.
\<close>

theorem policy_before_resolver:
  assumes "tsm_reachable w m"
    and "sv_log (m_shared m) = later @ DnsSet iface config ok # earlier"
  shows "\<exists>peers tunnel lan rest. tm_interface tunnel = iface \<and>
    earlier = FwApply (PolicyConnected peers tunnel lan config) True # rest"
  using reachable_ordered [OF assms(1)] assms(2)
  by (auto dest!: ordered_log_append simp: after_policy_def
      split: list.splits effect.splits firewall_policy.splits)

theorem policy_before_resolver_witness:
  "\<exists>m iface config later peers tunnel lan rest. tsm_reachable ex_world m \<and>
     sv_log (m_shared m) = later @ DnsSet iface config True # FwApply (PolicyConnected peers tunnel lan config) True # rest"
proof -
  obtain m sv self where "waits_in (ConnectedState self) sv m" using ex_connected by blast
  then have m: "tsm_reachable ex_world m" "m_state m = Some (ConnectedState self)"
    by (simp_all add: waits_in_def)
  from reachable_inv [OF m(1)] m(2) obtain iface config where
    "find is_dns_effect (sv_log (m_shared m)) = Some (DnsSet iface config True)"
    by (auto simp: machine_inv_def dns_current_def last_dns_def)
  then obtain later earlier where log: "sv_log (m_shared m) = later @ DnsSet iface config True # earlier"
    by (metis find_Some_iff id_take_nth_drop)
  from policy_before_resolver [OF m(1) log] log m(1) show ?thesis by blast
qed

section \<open>Commands\<close>

text \<open>
  Commands that carry a completion sender are acknowledged before their handler returns, in
  every state and whatever the calls they make return, with one exception: a DNS change in the
  connected state whose firewall update fails.
\<close>

theorem command_acknowledged:
  assumes "command_handler w st (Some cmd) sv = (c, sv')" and "sender_of cmd = Some tx"
    and "\<not> dns_update_fails w st cmd sv"
  shows "Sent tx \<in> set (sv_log sv')"
  using assms by (rule command_acknowledged_aux)

theorem command_acknowledged_witness:
  "\<exists>c sv'. command_handler ex_world (ErrorState IsOffline) (Some (AllowLan True 7))
     (initial_shared ex_settings ex_ids Offline ex_kernel True) = (c, sv') \<and> Sent 7 \<in> set (sv_log sv')"
proof -
  let ?h = "command_handler ex_world (ErrorState IsOffline) (Some (AllowLan True 7))
     (initial_shared ex_settings ex_ids Offline ex_kernel True)"
  obtain c sv' where h: "?h = (c, sv')" by (cases ?h)
  have "Sent 7 \<in> set (sv_log sv')"
    by (rule command_acknowledged [OF h]) (simp_all add: dns_update_fails_def)
  with h show ?thesis by blast
qed

text \<open>
  The exception: a DNS change in the connected state whose firewall update fails blocks the
  machine with a firewall error and returns without acknowledging the command.
\<close>

theorem dns_failure_not_acknowledged:
  assumes "dns_update_fails w (ConnectedState self) (Dns servers tx) sv"
    and "ConnectedState_handle_commands w self (Some (Dns servers tx)) sv = (c, sv')"
    and "Sent tx \<notin> set (sv_log sv)"
  shows "Sent tx \<notin> set (sv_log sv') \<and>
    (\<exists>dg tr. c = NewState (DisconnectingState dg, tr) \<and>
       dg_after_disconnect dg = AfterBlock (SetFirewallPolicyError Generic))"
proof -
  have "\<exists>dg tr. c = NewState (DisconnectingState dg, tr) \<and>
       dg_after_disconnect dg = AfterBlock (SetFirewallPolicyError Generic)"
    using assms(1,2)
    by (auto simp: dns_update_fails_def ConnectedState_handle_commands_def set_dns_config_def
        ConnectedState_set_firewall_policy_def ConnectedState_disconnect_def
        DisconnectingState_enter_def Let_def split: prod.splits sum.splits)
  with dns_update_fails_log [OF assms(1,2)] assms(3) show ?thesis by simp
qed

definition ex_cd :: connected_state where
  "ex_cd = \<lparr>cd_metadata = ex_tunnel, cd_tunnel_events = 0, cd_tunnel_parameters = ex_params,
     cd_tunnel_close_event = CloseEvent 0 False, cd_tunnel_close_tx = 0\<rparr>"

text \<open>A world in which netlink cannot be opened.\<close>

definition ex_broken :: world where
  "ex_broken = ex_world\<lparr>w_fw := \<lambda>_. (w_fw ex_world 0)\<lparr>io_netlink := NotCommitted NetlinkOpenError\<rparr>\<rparr>"

lemma ex_broken_apply: "\<not> res_ok (fst (apply_policy ex_broken policy sv))"
  by (simp add: apply_policy_def fw_apply_policy_def ex_broken_def ex_world_def send_and_process_def
      split: sum.splits prod.splits)

theorem dns_failure_not_acknowledged_witness:
  "\<exists>c sv'. ConnectedState_handle_commands ex_broken ex_cd (Some (Dns (DnsOverride [] []) 7))
     (initial_shared ex_settings ex_ids PresumeOnline ex_kernel True) = (c, sv') \<and> Sent 7 \<notin> set (sv_log sv')"
proof -
  let ?sv = "initial_shared ex_settings ex_ids PresumeOnline ex_kernel True"
  let ?h = "ConnectedState_handle_commands ex_broken ex_cd (Some (Dns (DnsOverride [] []) 7)) ?sv"
  obtain c sv' where h: "?h = (c, sv')" by (cases ?h)
  have "\<not> res_ok (fst (ConnectedState_set_firewall_policy ex_broken ex_cd sv))" for sv
    using ex_broken_apply [of "get_firewall_policy ex_cd sv" sv]
    by (auto simp: ConnectedState_set_firewall_policy_def split: prod.splits sum.splits)
  then have "dns_update_fails ex_broken (ConnectedState ex_cd) (Dns (DnsOverride [] []) 7) ?sv"
    by (simp add: dns_update_fails_def initial_shared_def ex_settings_def)
  from dns_failure_not_acknowledged [OF this h] h show ?thesis by (simp add: initial_shared_def)
qed

text \<open>
  A disconnect request is final: while disconnecting to the disconnected state, no command except
  Connect changes that, and when the tunnel closes without an error the machine is disconnected, with
  the lockdown flag of the current settings.
\<close>

theorem disconnect_is_final:
  assumes "dg_after_disconnect self = AfterNothing" and "command \<noteq> Some Connect"
    and "DisconnectingState_handle_commands self command sv = (c, sv')"
  shows "\<exists>self'. c = SameState (DisconnectingState self') \<and> dg_after_disconnect self' = AfterNothing \<and>
    dg_tunnel_close_event self' = dg_tunnel_close_event self \<and>
    fst (DisconnectingState_after_disconnect w self' None sv') =
      (DisconnectedState, TDisconnected (lockdown_bool (sv_lockdown_mode sv')))"
proof -
  have "fst (DisconnectedState_enter w True sv') =
      (DisconnectedState, TDisconnected (lockdown_bool (sv_lockdown_mode sv')))"
    using DisconnectedState_enter_frame(1) [of w True sv']
    by (cases "DisconnectedState_enter w True sv'")
      (auto simp: DisconnectedState_enter_def construct_state_transition_def Let_def frame_def)
  with assms show ?thesis
    by (cases command; cases "the command")
      (auto simp: DisconnectingState_handle_commands_def DisconnectingState_after_disconnect_def Let_def)
qed

theorem disconnect_is_final_witness:
  "\<exists>self' sv'. DisconnectingState_handle_commands
       \<lparr>dg_tunnel_close_event = CloseEvent 0 False, dg_after_disconnect = AfterNothing\<rparr> (Some (Block IsOffline))
       (initial_shared ex_settings ex_ids PresumeOnline ex_kernel True) =
     (SameState (DisconnectingState self'), sv') \<and> dg_after_disconnect self' = AfterNothing"
proof -
  let ?h = "DisconnectingState_handle_commands
       \<lparr>dg_tunnel_close_event = CloseEvent 0 False, dg_after_disconnect = AfterNothing\<rparr> (Some (Block IsOffline))
       (initial_shared ex_settings ex_ids PresumeOnline ex_kernel True)"
  obtain c sv' where h: "?h = (c, sv')" by (cases ?h)
  from disconnect_is_final [OF _ _ h] h show ?thesis by auto
qed

section \<open>NetworkManager\<close>

text \<open>
  NetworkManager's connectivity check is put back: as long as NetworkManager answers, its setting
  is the one the daemon found at its start whenever the machine is disconnected, lockdown mode or not.
\<close>

theorem connectivity_check_restored:
  assumes "nm_works w"
    and "(tsm_step w)\<^sup>*\<^sup>* (TunnelStateMachine_new w settings ids connectivity k check) m"
    and "m_state m = Some DisconnectedState"
  shows "sv_nm_check (m_shared m) = check"
  using reachable_nm [OF assms(1,2)] assms(3) by (simp add: machine_nm_def nm_entered_def nm_inv_def)

theorem connectivity_check_restored_witness: "sv_nm_check (m_shared (ex_start DnsDefault PresumeOnline))"
proof -
  have "m_state (ex_start DnsDefault PresumeOnline) = Some DisconnectedState"
    using ex_disconnected [of DnsDefault PresumeOnline] by (auto simp: waits_in_def)
  from connectivity_check_restored [OF ex_nm_works _ this, of "ex_settings\<lparr>is_dns_config := DnsDefault\<rparr>" ex_ids PresumeOnline ex_kernel True]
  show ?thesis by (simp add: ex_start_def)
qed

section \<open>The tunnel thread\<close>

text \<open>
  What a tunnel thread reports when it ends: IPv6 being unavailable if the tunnel needs it and the
  system has it disabled; otherwise a start error exactly if WireGuard failed with an error that is not
  recoverable, timeouts of a running tunnel excepted. In every other case the attempt is repeated.
\<close>

theorem tunnel_thread_block_reason:
  "tunnel_thread disable_ipv6 params started retry_attempt =
     (if enable_ipv6 (tp_generic_options params) \<and> \<not> is_ipv6_enabled_in_os disable_ipv6
      then Some Ipv6Unavailable
      else if (\<exists>e. started = Inl e \<and> \<not> wg_is_recoverable e) \<or>
              (\<exists>e. started = Inr (Inl e) \<and> \<not> wg_is_recoverable e \<and> e \<noteq> TimeoutError)
      then Some StartTunnelError else None)"
  by (auto simp: tunnel_thread_def wait_for_tunnel_monitor_def monitor_start_def
      ensure_ipv6_can_be_used_if_enabled_def should_retry_def
      split: sum.splits wireguard_error.splits)

end
