(* ===== verification/Version_Properties.thy ===== *)
theory Version_Properties
  imports Version_Router
begin

text \<open>
  Properties of versions and upgrades: printing and parsing, which versions are offered and by whom
  they were signed, that metadata is not rolled back, and what the version router tells the user. Ways in which the
  code does not do what it means to are stated as well.
\<close>

section \<open>Versions\<close>

text \<open>
  A version that is printed is parsed back as itself: years of four digits, increments
  of at most two, prerelease numbers of at most three, and hexadecimal development hashes.
\<close>

theorem version_roundtrip:
  assumes "version_wf v"
  shows "version_from_str (version_to_string v) = Inr v"
  using find_version_match [OF match_version_print [OF assms]] by (simp add: version_from_str_def of_option_def)

definition ex_version :: app_version where
  "ex_version = \<lparr>av_year = 2025, av_incremental = 14, av_pre_stable = Some (Beta 2), av_dev = Some ''a7bd''\<rparr>"

theorem version_roundtrip_witness:
  "version_from_str ''2025.14-beta2-dev-a7bd'' = Inr ex_version"
proof -
  have "version_to_string ex_version = ''2025.14-beta2-dev-a7bd''" by code_simp
  moreover have "version_wf ex_version" by code_simp
  ultimately show ?thesis using version_roundtrip [of ex_version] by simp
qed

lemma version_to_string_year:
  assumes "version_wf v"
  shows "CHR ''.'' \<notin> set (take 4 (version_to_string v))"
proof -
  have "length (show_nat (av_year v)) = 4"
    using assms length_show_nat [of "av_year v" 4] length_show_nat_ge [of 3 "av_year v"] by (simp add: version_wf_def)
  then have "take 4 (version_to_string v) = show_nat (av_year v)" by (simp add: version_to_string_def)
  then show ?thesis using show_nat_digits [of "av_year v"] by (auto simp: list_all_iff is_digit_def)
qed

text \<open>
  Anything without a dot may stand before a version: the expression that parses versions is
  anchored at the end of the string and not at its start.
\<close>

theorem version_prefix_accepted:
  assumes "CHR ''.'' \<notin> set p" and "version_wf v"
  shows "version_from_str (p @ version_to_string v) = Inr v"
  using find_version_skip [OF assms(1) match_version_print [OF assms(2)] version_to_string_year [OF assms(2)]]
  by (simp add: version_from_str_def of_option_def)

theorem version_prefix_accepted_witness:
  "version_from_str ''not a version 12025.14-beta2-dev-a7bd'' = Inr ex_version"
proof -
  have "''not a version 1'' @ version_to_string ex_version = ''not a version 12025.14-beta2-dev-a7bd''" by code_simp
  moreover have "version_wf ex_version" by code_simp
  moreover have "CHR ''.'' \<notin> set ''not a version 1''" by simp
  ultimately show ?thesis using version_prefix_accepted [of "''not a version 1''" ex_version] by simp
qed

text \<open>
  Versions are partially ordered: being newer is irreflexive and transitive, versions compare as equal
  only to themselves, comparing the other way round gives the opposite answer, and two versions are not comparable
  exactly if they are different development builds of the same release.
\<close>

theorem version_order:
  "\<not> version_gt a a \<and> (version_gt a b \<and> version_gt b c \<longrightarrow> version_gt a c) \<and>
   (version_partial_cmp a b = Some EQ \<longleftrightarrow> a = b) \<and>
   (version_partial_cmp a b = Some LT \<longleftrightarrow> version_partial_cmp b a = Some GT) \<and>
   (version_partial_cmp a b = None \<longleftrightarrow>
      a\<lparr>av_dev := None\<rparr> = b\<lparr>av_dev := None\<rparr> \<and> is_dev a \<and> is_dev b \<and> a \<noteq> b)"
proof (intro conjI)
  show "version_partial_cmp a b = None \<longleftrightarrow> a\<lparr>av_dev := None\<rparr> = b\<lparr>av_dev := None\<rparr> \<and> is_dev a \<and> is_dev b \<and> a \<noteq> b"
    by (cases a; cases b) (auto simp: version_comparable is_dev_def version_key_def pre_stable_key_inject)
qed (auto simp: version_partial_cmp_EQ version_partial_cmp_LT version_gt_def [symmetric] intro: version_gt_trans)

theorem version_order_witness:
  "version_gt (ex_version\<lparr>av_pre_stable := None\<rparr>) (ex_version\<lparr>av_dev := None\<rparr>)"
proof -
  have "version_gt (ex_version\<lparr>av_pre_stable := None\<rparr>) ex_version" by code_simp
  moreover have "version_gt ex_version (ex_version\<lparr>av_dev := None\<rparr>)" by code_simp
  ultimately show ?thesis using version_order [of "ex_version\<lparr>av_pre_stable := None\<rparr>" ex_version] by blast
qed

section \<open>Offered versions\<close>

text \<open>
  C29. The versions offered are the newest ones for this client: the stable version is a stable release
  with an installer for the architecture that is rolled out to the client, and no such release is newer; the beta
  version is the newest such beta release, and newer than the stable one.
\<close>

theorem offered_versions_are_newest:
  assumes "try_from_response hex params response = Inr info"
  shows "(\<exists>r \<in> set (resp_releases response). offered params r \<and> is_stable (rel_version r) \<and>
            release_metadata hex params r = Some (Inr (vi_stable info))) \<and>
    (\<forall>r \<in> set (resp_releases response). offered params r \<and> is_stable (rel_version r) \<and>
       release_metadata hex params r \<noteq> None \<longrightarrow> \<not> version_gt (rel_version r) (md_version (vi_stable info))) \<and>
    (\<forall>b. vi_beta info = Some b \<longrightarrow>
       (\<exists>r \<in> set (resp_releases response). offered params r \<and> is_beta (rel_version r) \<and>
          release_metadata hex params r = Some (Inr b)) \<and>
       version_gt (md_version b) (md_version (vi_stable info)) \<and>
       (\<forall>r \<in> set (resp_releases response). offered params r \<and> is_beta (rel_version r) \<and>
          release_metadata hex params r \<noteq> None \<longrightarrow> \<not> version_gt (rel_version r) (md_version b)))"
proof (intro conjI allI impI ballI)
  fix r assume r: "r \<in> set (resp_releases response)"
    "offered params r \<and> is_stable (rel_version r) \<and> release_metadata hex params r \<noteq> None"
  then obtain m where "release_metadata hex params r = Some (Inr m)"
    using release_metadata_ok [OF assms] by blast
  with r show "\<not> version_gt (rel_version r) (md_version (vi_stable info))"
    using try_from_response_stable(2) [OF assms] by blast
next
  fix b r assume b: "vi_beta info = Some b" and r: "r \<in> set (resp_releases response)"
    "offered params r \<and> is_beta (rel_version r) \<and> release_metadata hex params r \<noteq> None"
  then obtain m where "release_metadata hex params r = Some (Inr m)"
    using release_metadata_ok [OF assms] by blast
  with r show "\<not> version_gt (rel_version r) (md_version b)"
    using try_from_response_beta(3) [OF assms b] by blast
qed (use try_from_response_stable(1) [OF assms] try_from_response_beta(1,2) [OF assms] in blast)+

definition ex_installer :: installer where
  "ex_installer = \<lparr>in_architecture = X86, in_urls = [''u''], in_size = 9, in_sha256 = ''s''\<rparr>"

definition ex_release :: "nat \<Rightarrow> pre_stable_type option \<Rightarrow> rollout \<Rightarrow> release" where
  "ex_release n pre rollout =
     \<lparr>rel_version = \<lparr>av_year = 2025, av_incremental = n, av_pre_stable = pre, av_dev = None\<rparr>,
      rel_changelog = ''c'', rel_installers = [ex_installer], rel_rollout = rollout\<rparr>"

definition ex_response :: version_response where
  "ex_response = \<lparr>resp_metadata_version = 3, resp_metadata_expiry = 100, resp_releases =
     [ex_release 2 None FULLY_ROLLED_OUT, ex_release 4 None 0x3E000000, ex_release 3 None FULLY_ROLLED_OUT,
      ex_release 5 (Some (Beta 1)) FULLY_ROLLED_OUT]\<rparr>"

definition ex_hex :: "string \<Rightarrow> u8 list option" where
  "ex_hex s = Some (replicate 32 7)"

definition ex_vparams :: version_parameters where
  "ex_vparams = \<lparr>vp_architecture = X86, vp_rollout = 0x3F000000, vp_allow_empty = False, vp_lowest_metadata_version = 2\<rparr>"

definition ex_metadata :: "nat \<Rightarrow> pre_stable_type option \<Rightarrow> version_metadata" where
  "ex_metadata n pre = \<lparr>md_version = \<lparr>av_year = 2025, av_incremental = n, av_pre_stable = pre, av_dev = None\<rparr>,
     md_urls = [''u''], md_size = 9, md_changelog = ''c'', md_sha256 = replicate 32 7\<rparr>"

definition ex_info :: version_info where
  "ex_info = \<lparr>vi_stable = ex_metadata 3 None, vi_beta = Some (ex_metadata 5 (Some (Beta 1)))\<rparr>"

lemma ex_rollouts:
  "rollout_key FULLY_ROLLED_OUT = 0x3F800000" "rollout_key 0x3E000000 = 0x3E000000" "rollout_key 0x3F000000 = 0x3F000000"
  by (simp_all add: rollout_key_def FULLY_ROLLED_OUT_def)

lemmas ex_release_defs = ex_release_def ex_vparams_def ex_installer_def ex_hex_def ex_metadata_def
  release_metadata_def rollout_ge_def ex_rollouts is_dev_def of_option_def

lemma ex_available:
  "available_versions ex_hex ex_vparams (resp_releases ex_response) =
     Inr [ex_metadata 2 None, ex_metadata 3 None, ex_metadata 5 (Some (Beta 1))]"
  by (simp add: available_versions_def ex_response_def ex_release_defs map_filter_simps)

lemma ex_response_info: "try_from_response ex_hex ex_vparams ex_response = Inr ex_info"
  unfolding try_from_response_def ex_available
  by (simp add: ex_response_def ex_release_def max_by_version_def ex_metadata_def of_option_def is_beta_def
      version_gt_key version_key_def ex_info_def)

theorem offered_versions_are_newest_witness:
  "\<not> version_gt (rel_version (ex_release 2 None FULLY_ROLLED_OUT)) (md_version (vi_stable ex_info)) \<and>
   version_gt (md_version (ex_metadata 5 (Some (Beta 1)))) (md_version (vi_stable ex_info))"
proof -
  have "ex_release 2 None FULLY_ROLLED_OUT \<in> set (resp_releases ex_response)" by (simp add: ex_response_def)
  moreover have "offered ex_vparams (ex_release 2 None FULLY_ROLLED_OUT)"
    "is_stable (rel_version (ex_release 2 None FULLY_ROLLED_OUT))"
    "release_metadata ex_hex ex_vparams (ex_release 2 None FULLY_ROLLED_OUT) \<noteq> None"
    by (simp_all add: offered_def is_stable_def ex_release_defs)
  moreover have "vi_beta ex_info = Some (ex_metadata 5 (Some (Beta 1)))" by (simp add: ex_info_def)
  ultimately show ?thesis using offered_versions_are_newest [OF ex_response_info] by blast
qed

text \<open>
  C27. A version check that succeeds was signed: what it returns comes from a response whose canonical
  bytes carry the signature of a trusted key, which has not expired, and whose metadata version is not lower than the
  lowest one that is accepted.
\<close>

theorem version_check_is_signed:
  assumes "version_check mc keys hex current now ask linux arch lowest rollout etag = Inr (Some r)"
  shows "\<exists>key \<in> set keys. \<exists>data sig signed response. mc_verify_strict mc key data sig \<and>
    mc_parse mc data = Some signed \<and> mc_response mc signed = Some response \<and>
    now < resp_metadata_expiry response \<and> lowest \<le> avr_metadata_version r \<and>
    avr_metadata_version r = resp_metadata_version response \<and>
    try_from_response hex \<lparr>vp_architecture = arch, vp_rollout = rollout, vp_allow_empty = linux,
       vp_lowest_metadata_version = lowest\<rparr> response = Inr (avr_version_info r)"
proof -
  obtain response bytes where "deserialize_and_verify_at_time mc keys bytes now lowest = Inr response"
    and "try_from_response hex \<lparr>vp_architecture = arch, vp_rollout = rollout, vp_allow_empty = linux,
           vp_lowest_metadata_version = lowest\<rparr> response = Inr (avr_version_info r)"
    and "avr_metadata_version r = resp_metadata_version response"
    using version_check_Some [OF assms] by metis
  with deserialize_and_verify_signed [OF this(1)] show ?thesis by metis
qed

definition ex_codec :: "nat metadata_codec" where
  "ex_codec = \<lparr>mc_envelope = (\<lambda>b. if b = ''good'' then Some ([OtherSignature ''k'' ''x'', Ed25519 ''k'' ''s''], 1)
                                   else if b = ''bad'' then Some ([Ed25519 ''k'' ''forged''], 1) else None),
     mc_canonical = (\<lambda>n. Some ''1''), mc_verify_strict = (\<lambda>k d s. (k, d, s) = (''k'', ''1'', ''s'')),
     mc_parse = (\<lambda>d. Some 1), mc_response = (\<lambda>n. Some ex_response)\<rparr>"

definition ex_checked :: app_version_response where
  "ex_checked = \<lparr>avr_version_info = ex_info, avr_metadata_version = 3, avr_current_version_supported = True, avr_etag = None\<rparr>"

lemma ex_checked_response: "deserialize_and_verify_at_time ex_codec [''k''] ''good'' 99 2 = Inr ex_response"
  by (simp add: deserialize_and_verify_at_time_def deserialize_and_verify_def ex_codec_def of_option_def ex_response_def)

theorem version_check_is_signed_witness:
  "2 \<le> avr_metadata_version ex_checked \<and> (\<exists>key \<in> set [''k'']. \<exists>data sig. mc_verify_strict ex_codec key data sig)"
proof -
  have "version_check ex_codec [''k''] ex_hex (md_version (ex_metadata 2 None)) 99 (\<lambda>_. HttpBody ''good'' None) False X86 2
      0x3F000000 None = Inr (Some ex_checked)"
    using ex_response_info ex_checked_response unfolding ex_vparams_def
    by (simp add: version_check_def Let_def ex_checked_def is_version_supported_def ex_response_def ex_release_def ex_metadata_def)
  from version_check_is_signed [OF this] show ?thesis by blast
qed

text \<open>
  Metadata is not rolled back while only one check runs at a time: whatever requests, checks and failures
  happen, the version of the metadata that is kept never decreases.
\<close>

theorem metadata_not_rolled_back:
  assumes "updater_steps event_possible es (updater_loop_start cache)"
    and "updater_steps sequential es (updater_loop_start cache)"
  shows "metadata_at_least cache (vu_last (ul_updater (fold updater_run_inner es (updater_loop_start cache))))"
  using updater_run_sequential [OF _ assms] by (simp add: checks_current_def updater_loop_start_def)

definition ex_cache :: "nat \<Rightarrow> version_info \<Rightarrow> version_cache" where
  "ex_cache n info = \<lparr>vc_cache_version = md_version (ex_metadata 2 None), vc_current_version_supported = True,
     vc_version_info = info, vc_last_platform_header_check = 0, vc_metadata_version = n, vc_etag = None\<rparr>"

theorem metadata_not_rolled_back_witness:
  "metadata_at_least (Some (ex_cache 1 ex_info)) (vu_last (ul_updater (fold updater_run_inner
     [RefreshRequest, RefreshRequest, ForegroundDone (Inr (ex_cache 2 ex_info)), NextCheck,
      BackgroundDone (Inl (CheckFailed (CheckHttp ''503'')))] (updater_loop_start (Some (ex_cache 1 ex_info))))))"
  by (rule metadata_not_rolled_back; code_simp)

text \<open>
  Two checks that overlap roll the metadata back: a foreground check that was started with the same cache as a
  background check, and ends first with newer metadata, is undone by the older metadata of the other.
\<close>

theorem overlapping_checks_roll_back:
  assumes "not_older cache old" and "vc_metadata_version old < vc_metadata_version new"
  shows "updater_steps event_possible
      [NextCheck, RefreshRequest, ForegroundDone (Inr new), BackgroundDone (Inr old)] (updater_loop_start cache) \<and>
    vu_last (ul_updater (fold updater_run_inner
      [NextCheck, RefreshRequest, ForegroundDone (Inr new), BackgroundDone (Inr old)] (updater_loop_start cache))) = Some old"
proof (intro conjI)
  have "not_older cache new" using assms by (auto simp: not_older_def split: option.splits)
  then show "updater_steps event_possible
      [NextCheck, RefreshRequest, ForegroundDone (Inr new), BackgroundDone (Inr old)] (updater_loop_start cache)"
    using assms(1) by (simp add: event_possible_def updater_run_inner_def updater_loop_start_def)
  show "vu_last (ul_updater (fold updater_run_inner
      [NextCheck, RefreshRequest, ForegroundDone (Inr new), BackgroundDone (Inr old)] (updater_loop_start cache))) = Some old"
    using assms(2) ignore_cache_metadata_version [of "\<lparr>vu_last = cache, vu_sent = []\<rparr>" new]
    by (simp add: updater_run_inner_def updater_loop_start_def handle_version_response_def
        ignore_cache_if_same_version_def [of "update_version_info _ _"])
qed

theorem overlapping_checks_roll_back_witness:
  "vu_last (ul_updater (fold updater_run_inner
     [NextCheck, RefreshRequest, ForegroundDone (Inr (ex_cache 3 ex_info)), BackgroundDone (Inr (ex_cache 2 ex_info))]
     (updater_loop_start (Some (ex_cache 1 ex_info))))) = Some (ex_cache 2 ex_info)"
  by (rule overlapping_checks_roll_back [THEN conjunct2]) (simp_all add: not_older_def ex_cache_def)

section \<open>The version router\<close>

text \<open>
  C28. The version router never panics and only ever suggests upgrades: in every run, each suggestion it sends or
  answers with is newer than the installed version, a download that is running is of the version that
  the current metadata recommends, and the installer that is kept belongs to the version recommended.
\<close>

theorem version_router_offers_upgrades:
  "\<exists>s. router_run current bin_path inputs (version_router_new beta) = Inr s \<and> router_ok current bin_path s"
  by (rule router_run_ok) (simp add: router_ok_def state_ok_def version_router_new_def)

text \<open>
  A stale installer is offered: when newer metadata recommends another version after an installer was
  downloaded, the router announces the new version together with the path of the installer of the old
  one, although it forgets that installer at the same time.
\<close>

theorem stale_installer_offered:
  assumes "vr_state s = Downloaded prev path"
    and "recommended_version_upgrade current (vc_version_info prev) (vr_beta_program s) = Some old"
    and "recommended_version_upgrade current (vc_version_info cache) (vr_beta_program s) = Some new"
    and "md_version old \<noteq> md_version new"
  shows "vr_state (handle_new_version current cache s) = HasVersion cache \<and>
    (\<exists>u. avi_suggested_upgrade (last (vr_version_events (handle_new_version current cache s))) = Some u \<and>
      su_version u = md_version new \<and> su_verified_installer_path u = Some path)"
  using assms
  by (simp add: handle_new_version_def on_new_version_def Let_def to_app_version_info_def
      notify_version_requesters_def send_version_event_def)

definition ex_bin_path :: "app_version \<Rightarrow> string" where
  "ex_bin_path v = ''mullvad-'' @ version_to_string v"

definition ex_newer :: version_info where
  "ex_newer = ex_info\<lparr>vi_stable := ex_metadata 4 None\<rparr>"

definition ex_downloaded :: version_router where
  "ex_downloaded = (case router_run (md_version (ex_metadata 2 None)) ex_bin_path
     [NewVersion (ex_cache 1 ex_info), RouterMessage True UpdateApplication, DownloadEnded DownloadOk]
     (version_router_new False) of Inr s \<Rightarrow> s | Inl _ \<Rightarrow> version_router_new False)"

theorem stale_installer_offered_witness:
  "\<exists>u. avi_suggested_upgrade (last (vr_version_events
       (handle_new_version (md_version (ex_metadata 2 None)) (ex_cache 2 ex_newer) ex_downloaded))) = Some u \<and>
     su_version u = md_version (ex_metadata 4 None) \<and> su_verified_installer_path u = Some ''mullvad-2025.3''"
  by (rule stale_installer_offered [where prev = "ex_cache 1 ex_info" and old = "ex_metadata 3 None", THEN conjunct2]; code_simp)

end
