(* ===== verification/Daemon_Properties.thy ===== *)
theory Daemon_Properties
  imports Daemon_Told Daemon_Answers Relay_Properties Tunnel_Properties Version_Properties
begin

text \<open>
  The properties of the daemon and of the daemon together with the tunnel state machine.
\<close>

section \<open>The start\<close>

lemma daemon_started:
  assumes "daemon_start w i = Inr (init, d)"
  shows "tunnel_commands d = []" and "d_shutdown_tasks d = []" and "agrees w False (machine_settings (settings d)) (initial_values init)"
    and "active_while_tunneling d" and "features_current d"
proof -
  let ?f = "\<lambda>s. case us_rollout_threshold_seed s of None \<Rightarrow> s\<lparr>us_rollout_threshold_seed := Some (dm_seed w 0)\<rparr> | Some _ \<Rightarrow> s"
  have keeps: "machine_settings (?f s) = machine_settings s" for s by (simp split: option.split)
  obtain b where u: "settings_try_update w (\<lambda>s. Inr (?f s)) (daemon_new w i) = (Inr b, d)"
    and init: "init = initial_tunnel_settings w (settings (daemon_new w i)) (di_endpoint i) (target (daemon_new w i))"
    using assms unfolding daemon_start_def settings_update_def by (auto simp: Let_def split: prod.splits sum.splits)
  have same: "same_besides_settings (daemon_new w i) d" by (rule try_update_effect(1) [OF u])
  have s: "machine_settings (settings d) = machine_settings (settings (daemon_new w i))"
    using try_update_effect(2) [OF u] keeps by (metis sum.inject(2))
  show "tunnel_commands d = []" "d_shutdown_tasks d = []" using same by (simp_all add: same_besides_settings_def daemon_new_def Let_def)
  show "agrees w False (machine_settings (settings d)) (initial_values init)"
    using s by (simp add: init initial_values_def initial_tunnel_settings_def agrees_def machine_settings_def)
  show "active_while_tunneling d"
    using same timer_started
    by (simp add: same_besides_settings_def daemon_new_def Let_def active_while_tunneling_def is_disconnected_def availability_new_def
        inner_suspend_def inner_unsuspend_def av_send_def)
  show "features_current d"
    using same by (simp add: same_besides_settings_def daemon_new_def Let_def features_current_def update_features_def)
qed

lemma initial_target_frame [simp]:
  "d_settings (handle_initial_target_state d) = d_settings d"
  "d_target_state (handle_initial_target_state d) = d_target_state d"
  "d_shutdown_tasks (handle_initial_target_state d) = d_shutdown_tasks d"
  "d_pending (handle_initial_target_state d) = d_pending d"
  "d_availability (handle_initial_target_state d) = d_availability d"
  "d_tunnel_state (handle_initial_target_state d) = d_tunnel_state d"
  "tunnel_commands (handle_initial_target_state d) = tunnel_commands d @ (if target d = Secured then [Connect] else [])"
  by (simp_all add: handle_initial_target_state_def send_tunnel_command_def fx_def split: target_state.split)

text \<open>A daemon that has been started and has made some steps, and the settings that the tunnel state machine was started with.\<close>

definition daemon_runs :: "'b daemon_world \<Rightarrow> 'b daemon_input \<Rightarrow> initial_tunnel_state \<Rightarrow> 'b daemon \<Rightarrow> bool" where
  "daemon_runs w i init d \<longleftrightarrow>
     (\<exists>d0. daemon_start w i = Inr (init, d0) \<and> (daemon_step w)\<^sup>*\<^sup>* (handle_initial_target_state d0) d)"

lemma agrees_weaken: "agrees w False s v \<Longrightarrow> agrees w restarting s v"
  by (auto simp: agrees_def split: prod.splits)

lemma runs_invariants:
  assumes "daemon_runs w i init d"
  shows "fields_decoded w \<Longrightarrow> machine_told w (initial_values init) d" and "secured_wanted d" and "active_while_tunneling d"
    and "\<forall>n. dm_remove w n \<Longrightarrow> features_current d"
proof -
  obtain d0 where start: "daemon_start w i = Inr (init, d0)" and run: "(daemon_step w)\<^sup>*\<^sup>* (handle_initial_target_state d0) d"
    using assms by (auto simp: daemon_runs_def)
  let ?d = "handle_initial_target_state d0"
  note s = daemon_started [OF start]
  have "machine_told w (initial_values init) ?d" using s(1,3) by (simp add: machine_told_def agrees_weaken)
  then show "fields_decoded w \<Longrightarrow> machine_told w (initial_values init) d"
    using told.inv_run [OF run, of "initial_values init"] by blast
  have "secured_wanted ?d" using s(1) by (simp add: secured_wanted_def)
  then show "secured_wanted d" by (rule wanting.inv_run [OF run])
  have "active_while_tunneling ?d" using s(4) by (simp add: active_while_tunneling_def)
  then show "active_while_tunneling d" by (rule activity.inv_run [OF run])
  have "features_current ?d" using s(5) by (simp add: features_current_def)
  then show "\<forall>n. dm_remove w n \<Longrightarrow> features_current d" using features.inv_run [OF run] by blast
qed

section \<open>An example\<close>

text \<open>
  A world where everything can be saved. Its decoder of settings knows settings with the default DNS options.
\<close>

definition ex_settings_json :: "user_settings \<Rightarrow> json" where
  "ex_settings_json s = JObject [(''allow_lan'', JBool (us_allow_lan s)), (''lockdown_mode'', JBool (us_lockdown_mode s)),
     (''default_dns'', JBool (us_tunnel_options s = settings_tunnel_options_default))]"

definition ex_settings_from_json :: "json \<Rightarrow> user_settings option" where
  "ex_settings_from_json j =
     (case (json_get ''allow_lan'' j, json_get ''lockdown_mode'' j, json_get ''default_dns'' j) of
        (Some (JBool lan), Some (JBool lockdown), Some (JBool True)) \<Rightarrow>
          Some ((settings_default (1, 2, 3, 4))\<lparr>us_allow_lan := lan, us_lockdown_mode := lockdown\<rparr>)
      | _ \<Rightarrow> None)"

definition ex_daemon_world :: "user_settings daemon_world" where
  "ex_daemon_world =
     \<lparr>dm_codec = Settings_Properties.ex_codec, dm_to_json = ex_settings_json, dm_from_json = ex_settings_from_json,
      dm_override_json = (\<lambda>_. JNull), dm_parse = (\<lambda>_. None), dm_beta = False, dm_version = ex_version, dm_uuids = (\<lambda>_. (1, 2, 3, 4)),
      dm_uuid = of_nat, dm_seed = of_nat, dm_threshold = id, dm_write = (\<lambda>_. write_works), dm_remove = (\<lambda>_. True),
      dm_target_write = (\<lambda>_. Written), dm_history = (\<lambda>_. \<lparr>hw_truncated = True, hw_written = 0, hw_ok = True\<rparr>),
      dm_data = (\<lambda>_. Inr LoggedOut), dm_now = (\<lambda>_. 0), dm_public_key = id, dm_haversine = ex_haversine, dm_contains = (\<lambda>_ _. False),
      dm_use_method = (\<lambda>_. Inr ()), dm_resolve = (\<lambda>_. Inr None), dm_pids_supported = (\<lambda>_. True), dm_pids_list = (\<lambda>_. Inr []),
      dm_pids = (\<lambda>_. Inr ())\<rparr>"

definition ex_daemon_input :: "bool \<Rightarrow> user_settings daemon_input" where
  "ex_daemon_input auto_connect =
     \<lparr>di_settings = \<lparr>sp_settings = (settings_default (1, 2, 3, 4))\<lparr>us_auto_connect := auto_connect, us_rollout_threshold_seed := Some 7\<rparr>,
        sp_file = FileNotFound, sp_told = []\<rparr>,
      di_account = None, di_history = None, di_target_file = FileNotFound, di_target_parse = (\<lambda>_. None), di_migrated = True,
      di_relay_selector = ex_selector, di_endpoint = ex_api\<rparr>"

definition ex_daemon :: "bool \<Rightarrow> user_settings daemon" where
  "ex_daemon auto_connect = called (daemon_new ex_daemon_world (ex_daemon_input auto_connect))"

definition ex_tunnel_settings :: "bool \<Rightarrow> initial_tunnel_state" where
  "ex_tunnel_settings auto_connect =
     initial_tunnel_settings ex_daemon_world (settings (ex_daemon auto_connect)) ex_api (target (ex_daemon auto_connect))"

lemma ex_daemon_settings [simp]:
  "settings (ex_daemon a) = (settings_default (1, 2, 3, 4))\<lparr>us_auto_connect := a, us_rollout_threshold_seed := Some 7\<rparr>"
  by (simp add: ex_daemon_def called_def daemon_new_def Let_def ex_daemon_input_def)

lemma ex_daemon_target [simp]: "target (ex_daemon True) = Secured" "target (ex_daemon False) = Unsecured"
  by (simp_all add: ex_daemon_def called_def daemon_new_def read_target_state_def DEFAULT_TARGET_STATE_def Let_def ex_daemon_input_def initial_target_state_def pts_new_secured_def pts_new_def pts_save_def
      ex_daemon_world_def settings_default_def)

lemma ex_fields_decoded: "fields_decoded ex_daemon_world"
  by (auto simp: fields_decoded_def ex_daemon_world_def ex_settings_json_def ex_settings_from_json_def same_except_def json_get_def
      machine_settings_def settings_default_def split: option.splits json.splits bool.splits)

lemma ex_daemon_starts: "daemon_start ex_daemon_world (ex_daemon_input a) = Inr (ex_tunnel_settings a, ex_daemon a)"
proof -
  have "settings (daemon_new ex_daemon_world (ex_daemon_input a)) = settings (ex_daemon a)"
    and "target (daemon_new ex_daemon_world (ex_daemon_input a)) = target (ex_daemon a)" "di_endpoint (ex_daemon_input a) = ex_api"
    by (simp_all add: ex_daemon_def called_def ex_daemon_input_def)
  then show ?thesis
    by (simp add: daemon_start_def settings_update_def settings_try_update_def persister_try_update_def ex_tunnel_settings_def Let_def)
      (simp add: ex_daemon_def)
qed

lemma ex_daemon_runs: "(daemon_step ex_daemon_world)\<^sup>*\<^sup>* (handle_initial_target_state (ex_daemon a)) d \<Longrightarrow>
    daemon_runs ex_daemon_world (ex_daemon_input a) (ex_tunnel_settings a) d"
  using ex_daemon_starts by (auto simp: daemon_runs_def)

section \<open>The daemon and the tunnel state machine\<close>

text \<open>The machine gets the commands of the daemon and, in between, what its offline monitor sends.\<close>

definition is_connectivity :: "tunnel_command \<Rightarrow> bool" where
  "is_connectivity c = (case c of Connectivity _ \<Rightarrow> True | _ \<Rightarrow> False)"

definition machine_of :: "world \<Rightarrow> initial_tunnel_state \<Rightarrow> 'b daemon \<Rightarrow> machine \<Rightarrow> bool" where
  "machine_of mw init d m \<longleftrightarrow>
     (\<exists>cs. machine_run mw init cs m \<and> filter (\<lambda>c. \<not> is_connectivity c) cs = tunnel_commands d) \<and> rx_queue (m_commands m) = []"

lemma fold_without_connectivity:
  "fold tell (filter (\<lambda>c. \<not> is_connectivity c) cs) v = fold tell cs v"
  "fold wanted (filter (\<lambda>c. \<not> is_connectivity c) cs) b = fold wanted cs b"
proof -
  have "tell c v = v" "wanted c b = b" if "is_connectivity c" for c v b using that by (cases c; simp add: is_connectivity_def)+
  then show "fold tell (filter (\<lambda>c. \<not> is_connectivity c) cs) v = fold tell cs v"
    "fold wanted (filter (\<lambda>c. \<not> is_connectivity c) cs) b = fold wanted cs b"
    by (induction cs arbitrary: v b) auto
qed

lemma machine_of_caught_up:
  assumes "machine_of mw init d m"
  shows "tsm_reachable mw m" and "machine_values (m_shared m) = fold tell (tunnel_commands d) (initial_values init)"
    and "fold wanted (tunnel_commands d) False \<Longrightarrow> \<exists>st. m_state m = Some st \<and> state_wants st"
    and "\<exists>st. m_state m = Some st"
proof -
  obtain cs where "machine_run mw init cs m" and cs: "filter (\<lambda>c. \<not> is_connectivity c) cs = tunnel_commands d"
    and q: "rx_queue (m_commands m) = []"
    using assms by (auto simp: machine_of_def)
  from machine_run_caught_up [OF this(1)] q fold_without_connectivity [of cs]
  show "tsm_reachable mw m" "machine_values (m_shared m) = fold tell (tunnel_commands d) (initial_values init)"
    "fold wanted (tunnel_commands d) False \<Longrightarrow> \<exists>st. m_state m = Some st \<and> state_wants st" "\<exists>st. m_state m = Some st"
    by (auto simp: cs [symmetric] caught_up_def)
qed

text \<open>The machine can always handle what is in its queue.\<close>

lemma machine_takes_command:
  assumes "machine_run w init cs m" and "rx_queue (m_commands m) = [c]" and "m_running m"
  shows "\<exists>m'. machine_run w init cs m' \<and> rx_queue (m_commands m') = [] \<and> m_running m'"
proof -
  note up = machine_run_caught_up [OF assms(1)]
  obtain st where st: "m_state m = Some st" and rx: "rx_open (m_commands m)" "\<not> rx_done (m_commands m)" using up by (auto simp: caught_up_def)
  have inv: "state_inv (m_exits m) (m_shared m) st" using reachable_inv up st by (fastforce simp: machine_inv_def)
  have next': "commands_next (m_commands m) = Some (Some c, (m_commands m)\<lparr>rx_queue := []\<rparr>)" using rx assms(2) by (simp add: commands_next_def)
  have "\<exists>r. handle_event w BCommand (m_exits m) st (m_commands m) (m_shared m) = Some r \<and> fst (snd r) = (m_commands m)\<lparr>rx_queue := []\<rparr>"
    using inv next' rx
    by (cases st)
      (auto simp: select3_def select_command_def DisconnectingState_result_def DisconnectingState_handle_event_def owns_def Let_def split: prod.split)
  then obtain cons sv where h: "handle_event w BCommand (m_exits m) st (m_commands m) (m_shared m) = Some (cons, (m_commands m)\<lparr>rx_queue := []\<rparr>, sv)"
    by fastforce
  then have "cons \<noteq> Finished" using handle_event_follows [OF h inv rx] by (auto simp: follows_def)
  then obtain m' where "run_step w True BCommand m = Some m'" "m_running m'" "rx_queue (m_commands m') = []"
    using st assms(3) h by (cases cons) (auto simp: run_step_def Let_def)
  then show ?thesis using run_loop [OF assms(1)] by blast
qed

lemma machine_can_catch_up: "\<exists>m. machine_run w init cs m \<and> rx_queue (m_commands m) = [] \<and> m_running m"
proof (induction cs rule: rev_induct)
  case Nil
  have "rx_queue (m_commands (TunnelStateMachine_new w init ex_ids PresumeOnline ex_kernel True)) = []"
    "m_running (TunnelStateMachine_new w init ex_ids PresumeOnline ex_kernel True)"
    by (simp_all add: TunnelStateMachine_new_def split: prod.split)
  then show ?case using run_start by blast
next
  case (snoc c cs)
  then obtain m where "machine_run w init cs m" "rx_queue (m_commands m) = []" "m_running m" by blast
  from machine_takes_command [OF run_sent [OF this(1)], of c] this show ?case by simp
qed

lemma machine_of_exists:
  assumes "\<forall>c \<in> set (tunnel_commands d). \<not> is_connectivity c"
  shows "\<exists>m. machine_of w init d m \<and> m_running m"
proof -
  have "filter (\<lambda>c. \<not> is_connectivity c) (tunnel_commands d) = tunnel_commands d" using assms by (simp add: filter_id_conv)
  then show ?thesis using machine_can_catch_up [of w init "tunnel_commands d"] unfolding machine_of_def by blast
qed

text \<open>
  C3. The settings of the user are in force: whenever the tunnel state machine has handled the commands that the daemon has sent, it allows
  the local network and uses the DNS servers exactly as the settings say, and is in lockdown mode if they say so; unless a restart is being
  prepared, only if they say so. This holds whatever commands and events the daemon has handled, whatever failed to be saved, and for
  settings that were reset or patched, until a factory reset ends the daemon. It is assumed that settings whose
  encoding differs only in the relay overrides, which is all a patch may change, are decoded with the same three settings (\<open>fields_decoded\<close>).
\<close>

theorem settings_in_force:
  assumes "daemon_runs w i init d" and "d_shutdown_tasks d = []" and "fields_decoded w" and "machine_of mw init d m"
  shows "sv_allow_lan (m_shared m) = us_allow_lan (settings d) \<and>
    sv_dns_config (m_shared m) = addresses_from_options (dm_contains w) (sto_dns_options (us_tunnel_options (settings d))) \<and>
    (us_lockdown_mode (settings d) \<longrightarrow> lockdown_bool (sv_lockdown_mode (m_shared m))) \<and>
    (\<not> pts_locked (d_target_state d) \<longrightarrow> lockdown_bool (sv_lockdown_mode (m_shared m)) = us_lockdown_mode (settings d))"
  using runs_invariants(1) [OF assms(1,3)] machine_of_caught_up(2) [OF assms(4)] assms(2)
  by (simp add: machine_told_def agrees_def machine_values_def machine_settings_def split: prod.splits)

lemma ex_daemon_fields [simp]:
  "d_shutdown_tasks (ex_daemon a) = []" "tunnel_commands (ex_daemon a) = []" "d_pending (ex_daemon a) = []" "d_settings_tasks (ex_daemon a) = []"
  "answers tx (ex_daemon a) = 0" "d_tunnel_state (ex_daemon a) = TsDisconnected None False" "\<not> d_panicked (ex_daemon a)"
  by (simp_all add: ex_daemon_def called_def daemon_new_def Let_def answers_def ex_daemon_input_def settings_default_def)

definition ex_sharing :: "user_settings daemon" where
  "ex_sharing = handle_daemon_command ex_daemon_world (CmdSettings (SetAllowLan 3 True)) (handle_initial_target_state (ex_daemon False))"

lemma ex_sharing_step: "daemon_step ex_daemon_world (handle_initial_target_state (ex_daemon False)) ex_sharing"
  by (rule daemon_step.external [where event = "DvCommand (CmdSettings (SetAllowLan 3 True))"])
    (simp add: handle_internal_event_def ex_sharing_def)

lemma ex_write [simp]: "dm_write ex_daemon_world n = write_works" "atomic_write write_works b file = (True, FileContent b)"
  by (simp_all add: ex_daemon_world_def write_works_def atomic_write_def)

lemma ex_update:
  "f (settings d) \<noteq> settings d \<Longrightarrow>
   \<exists>d'. settings_update ex_daemon_world f d = (Inr True, d') \<and> settings d' = f (settings d) \<and> same_besides_settings d d'"
  using try_update_effect [of ex_daemon_world "\<lambda>s. Inr (f s)" d]
  by (auto simp: settings_update_def settings_try_update_def persister_try_update_def notify_listeners_def called_def Let_def)

lemma ex_sharing_effect:
  "settings ex_sharing = (settings (ex_daemon False))\<lparr>us_allow_lan := True\<rparr>" "d_shutdown_tasks ex_sharing = []"
  "\<exists>n. tunnel_commands ex_sharing = [AllowLan True n]"
proof -
  let ?d = "(handle_initial_target_state (ex_daemon False))\<lparr>d_availability := reset_inactivity_timer (d_availability (ex_daemon False))\<rparr>"
  obtain d' where d': "settings_update ex_daemon_world (\<lambda>s. s\<lparr>us_allow_lan := True\<rparr>) ?d = (Inr True, d')"
    "settings d' = (settings ?d)\<lparr>us_allow_lan := True\<rparr>" "same_besides_settings ?d d'"
    using ex_update [of "\<lambda>s. s\<lparr>us_allow_lan := True\<rparr>" ?d] by (auto simp: settings_default_def)
  have sharing: "ex_sharing = (case oneshot_map 3 d' of (new_tx, d) \<Rightarrow> send_tunnel_command (AllowLan True new_tx) d)"
    using d'(1) by (simp add: ex_sharing_def handle_daemon_command_def handle_settings_command_def on_set_allow_lan_def update_machine_setting_def
        Let_def is_disconnected_def)
  show "settings ex_sharing = (settings (ex_daemon False))\<lparr>us_allow_lan := True\<rparr>" "d_shutdown_tasks ex_sharing = []"
    "\<exists>n. tunnel_commands ex_sharing = [AllowLan True n]"
    using d'(2,3) by (simp_all add: sharing oneshot_map_def oneshot_channel_def send_tunnel_command_def fx_def same_besides_settings_def)
qed

theorem settings_in_force_witness:
  "\<exists>m. machine_of ex_world (ex_tunnel_settings False) ex_sharing m \<and> sv_allow_lan (m_shared m)"
proof -
  obtain m where m: "machine_of ex_world (ex_tunnel_settings False) ex_sharing m"
    using machine_of_exists [of ex_sharing ex_world "ex_tunnel_settings False"] ex_sharing_effect(3) by (auto simp: is_connectivity_def)
  from settings_in_force [OF ex_daemon_runs ex_sharing_effect(2) ex_fields_decoded m] ex_sharing_step
  show ?thesis using m by (auto simp: ex_sharing_effect(1))
qed

text \<open>
  C4. While the target state is secured the host is protected: whenever the tunnel state machine has handled the commands that the daemon has sent, it has a tunnel
  or is about to have one and the kernel holds the complete table of some policy, or it is in the error state, where the table is there too or the daemon was
  told that traffic is not blocked. In particular no sequence of commands, device events, expired accounts or changes of settings leaves the tunnel disconnected.
\<close>

theorem secured_target_protects:
  assumes "daemon_runs w i init d" and "target d = Secured" and "machine_of mw init d m" and "m_running m"
  shows "m_state m \<noteq> Some DisconnectedState \<and>
    ((\<exists>policy. k_batch (sv_kernel (m_shared m)) \<in> batches_for (sv_firewall (m_shared m)) policy) \<or>
     (\<exists>e trs. m_transitions m = TError e # trs \<and> \<not> is_blocking e))"
proof -
  note m = machine_of_caught_up [OF assms(3)]
  obtain st where st: "m_state m = Some st" "state_wants st"
    using m(3) runs_invariants(2) [OF assms(1)] assms(2) by (auto simp: secured_wanted_def)
  then show ?thesis
    using reachable_inv [OF m(1)] reachable_guard [OF m(1)] assms(4)
    by (cases st)
      (auto simp: machine_inv_def machine_guard_def connecting_installed_def secured_def installed_def reported_def)
qed

theorem secured_target_protects_witness:
  "\<exists>m. machine_of ex_world (ex_tunnel_settings True) (handle_initial_target_state (ex_daemon True)) m \<and> m_running m \<and>
     m_state m \<noteq> Some DisconnectedState"
proof -
  obtain m where m: "machine_of ex_world (ex_tunnel_settings True) (handle_initial_target_state (ex_daemon True)) m" "m_running m"
    using machine_of_exists [of "handle_initial_target_state (ex_daemon True)"] by (auto simp: is_connectivity_def)
  from secured_target_protects [OF ex_daemon_runs _ m] m show ?thesis by auto
qed

text \<open>
  C5. When the daemon stops without the user having asked for it, and there is a target to be secured or the daemon connects by itself at its start,
  the network stays blocked: from then on the kernel holds the complete table of some policy whenever the tunnel state machine has handled its commands, unless
  the last call on the firewall failed or the daemon was told that traffic is not blocked.
\<close>

theorem shutdown_stays_blocked:
  assumes "daemon_runs w i init d" and "target d = Secured \<or> us_auto_connect (settings d)"
    and "handle_internal_event w (DvTriggerShutdown False) d = (stop, d')" and "machine_of mw init d' m" and "m_running m"
  shows "stop \<and>
    ((\<exists>policy. k_batch (sv_kernel (m_shared m)) \<in> batches_for (sv_firewall (m_shared m)) policy) \<or> fw_failed (m_shared m) \<or>
     (\<exists>e trs. m_transitions m = TError e # trs \<and> \<not> is_blocking e))"
proof -
  have d': "stop" "tunnel_commands d' = tunnel_commands d @ [LockdownMode lockdown_yes (d_next_sender d), Disconnect]"
    using assms(2,3) by (auto simp: handle_internal_event_def on_trigger_shutdown_def Let_def disconnect_tunnel_def send_tunnel_command_def fx_def send_unwatched_def oneshot_channel_def)
  note m = machine_of_caught_up [OF assms(4)]
  have l: "lockdown_bool (sv_lockdown_mode (m_shared m))"
    using m(2) d'(2)
    by (cases "fold tell (tunnel_commands d) (initial_values init)") (simp add: machine_values_def lockdown_yes_def lockdown_bool_def)
  obtain st where "m_state m = Some st" using m(4) by blast
  then show ?thesis
    using reachable_inv [OF m(1)] reachable_guard [OF m(1)] assms(5) l d'(1)
    by (cases st)
      (auto simp: machine_inv_def machine_guard_def connecting_installed_def secured_def installed_def reported_def locked_def)
qed

theorem shutdown_stays_blocked_witness:
  "\<exists>m d'. handle_internal_event ex_daemon_world (DvTriggerShutdown False) (handle_initial_target_state (ex_daemon True)) = (True, d') \<and>
     machine_of ex_world (ex_tunnel_settings True) d' m \<and>
     ((\<exists>policy. k_batch (sv_kernel (m_shared m)) \<in> batches_for (sv_firewall (m_shared m)) policy) \<or> fw_failed (m_shared m) \<or>
      (\<exists>e trs. m_transitions m = TError e # trs \<and> \<not> is_blocking e))"
proof -
  obtain d' where d': "handle_internal_event ex_daemon_world (DvTriggerShutdown False) (handle_initial_target_state (ex_daemon True)) = (True, d')"
    by (simp add: handle_internal_event_def)
  then have "\<forall>c \<in> set (tunnel_commands d'). \<not> is_connectivity c"
    by (auto simp: handle_internal_event_def on_trigger_shutdown_def Let_def disconnect_tunnel_def send_tunnel_command_def fx_def send_unwatched_def
        oneshot_channel_def is_connectivity_def)
  then obtain m where m: "machine_of ex_world (ex_tunnel_settings True) d' m" "m_running m" using machine_of_exists by blast
  from shutdown_stays_blocked [OF ex_daemon_runs _ d' m] d' m(1) show ?thesis by fastforce
qed

section \<open>Commands\<close>

text \<open>
  Every command of the management interface is answered once: after its handler, whatever the state and whatever failed, there is one more
  reply, forwarded channel or task for its sender, and none for any other sender.
\<close>

theorem every_command_answered:
  assumes "\<not> d_panicked (handle_daemon_command w command d)"
  shows "answers tx (handle_daemon_command w command d) = answers tx d + (if command_sender command = Some tx then 1 else 0)"
  by (rule answers_command [OF assms])

theorem every_command_answered_witness:
  "answers 3 (handle_daemon_command ex_daemon_world (CmdState (GetState 3)) (ex_daemon False)) = 1"
  using every_command_answered [of ex_daemon_world "CmdState (GetState 3)" "ex_daemon False" 3]
  by (simp add: handle_daemon_command_def handle_state_command_def on_get_state_def oneshot_send_def fx_def Let_def is_disconnected_def)

section \<open>The reported state\<close>

text \<open>
  Requests to the API are never held back for inactivity while there is a tunnel: the inactivity timer runs exactly while the reported state is disconnected,
  and the API is inactive only then.
\<close>

theorem api_active_while_tunneling:
  assumes "daemon_runs w i init d"
  shows "(av_timer (d_availability d) \<noteq> None) = is_disconnected (d_tunnel_state d) \<and>
    (as_inactive (av_state (d_availability d)) \<longrightarrow> is_disconnected (d_tunnel_state d))"
  using runs_invariants(3) [OF assms] by (simp add: active_while_tunneling_def)

theorem api_active_while_tunneling_witness:
  "av_timer (d_availability (handle_initial_target_state (ex_daemon True))) \<noteq> None"
  using api_active_while_tunneling [OF ex_daemon_runs, of True "handle_initial_target_state (ex_daemon True)"] by (simp add: is_disconnected_def)

text \<open>
  The feature indicators that are reported are those of the settings as soon as no change of settings is waiting to be looked at.
\<close>

theorem reported_features_current:
  assumes "daemon_runs w i init d" and "\<forall>n. dm_remove w n" and "DvSettingsChanged \<notin> set (d_pending d)"
    and "d_tunnel_state d = TsConnecting endpoint location features \<or> d_tunnel_state d = TsConnected endpoint location features"
  shows "features = compute_feature_indicators (settings d) endpoint (FiServerIpOverride \<in> features)"
  using runs_invariants(4) [OF assms(1,2)] assms(3,4)
  by (auto simp: features_current_def update_features_def Let_def)

definition ex_connecting_daemon :: "user_settings daemon" where
  "ex_connecting_daemon = handle_tunnel_state_transition (TConnecting (get_tunnel_endpoint ex_params)) (handle_initial_target_state (ex_daemon True))"

lemma ex_connecting_step: "daemon_step ex_daemon_world (handle_initial_target_state (ex_daemon True)) ex_connecting_daemon"
  by (rule daemon_step.external [where event = "DvTunnelStateTransition (TConnecting (get_tunnel_endpoint ex_params))"])
    (simp add: handle_internal_event_def ex_connecting_daemon_def)

theorem reported_features_current_witness:
  "\<exists>location features. d_tunnel_state ex_connecting_daemon = TsConnecting (get_tunnel_endpoint ex_params) location features \<and>
     features = compute_feature_indicators (settings ex_connecting_daemon) (get_tunnel_endpoint ex_params) (FiServerIpOverride \<in> features)"
proof -
  obtain l f where s: "d_tunnel_state ex_connecting_daemon = TsConnecting (get_tunnel_endpoint ex_params) l f"
    by (simp add: ex_connecting_daemon_def tunnel_state_from_transition_def Let_def)
  have "DvSettingsChanged \<notin> set (d_pending ex_connecting_daemon)" by (simp add: ex_connecting_daemon_def)
  from reported_features_current [OF ex_daemon_runs _ this disjI1 [OF s]] ex_connecting_step s show ?thesis
    by (auto simp: ex_daemon_world_def)
qed

section \<open>Two ways to lose a request\<close>

text \<open>
  A tunnel that cannot be disconnected: in the error state a request to reconnect is followed although the target state is unsecured and stays so. Once
  the tunnel is connecting, a request to disconnect is answered as having nothing to do and no command is sent.
\<close>

theorem reconnect_without_target:
  assumes "is_in_error_state (d_tunnel_state d)" and "target d = Unsecured"
    and "d1 = handle_daemon_command w (CmdState (Reconnect tx)) d"
    and "d2 = handle_tunnel_state_transition (TConnecting endpoint) d1"
    and "d3 = handle_daemon_command w (CmdState (SetTargetState tx' Unsecured)) d2"
  shows "tunnel_commands d3 = tunnel_commands d @ [Connect] \<and> target d3 = Unsecured \<and> FxReply tx' (ReBool False) \<in> set (d_log d3)"
proof -
  have d1: "d_tunnel_state d1 = d_tunnel_state d" "target d1 = Unsecured" "tunnel_commands d1 = tunnel_commands d @ [Connect]"
    using assms(1,2)
    by (simp_all add: assms(3) handle_daemon_command_def handle_state_command_def on_reconnect_def Let_def connect_tunnel_def send_tunnel_command_def fx_def)
  have "\<not> is_in_error_state (d_tunnel_state d2)"
    by (simp add: assms(4) tunnel_state_from_transition_def is_in_error_state_def Let_def)
  then show ?thesis
    using d1 by (simp add: assms(4,5) handle_daemon_command_def handle_state_command_def on_set_target_state_def set_target_state_def
        Let_def oneshot_send_def fx_def)
qed

definition ex_failed_daemon :: "user_settings daemon" where
  "ex_failed_daemon = handle_tunnel_state_transition (TError \<lparr>es_cause = IsOffline, es_block_failure = None\<rparr>) (ex_daemon False)"

theorem reconnect_without_target_witness:
  "tunnel_commands (handle_daemon_command ex_daemon_world (CmdState (SetTargetState 2 Unsecured))
     (handle_tunnel_state_transition (TConnecting (get_tunnel_endpoint ex_params))
       (handle_daemon_command ex_daemon_world (CmdState (Reconnect 5)) ex_failed_daemon))) = [Connect]"
proof -
  have "is_in_error_state (d_tunnel_state ex_failed_daemon)" "target ex_failed_daemon = Unsecured" "tunnel_commands ex_failed_daemon = []"
    by (simp_all add: ex_failed_daemon_def tunnel_state_from_transition_def is_in_error_state_def Let_def)
  from reconnect_without_target [OF this(1,2) refl refl refl, of ex_daemon_world 2 "get_tunnel_endpoint ex_params" 5] this(3) show ?thesis by simp
qed

text \<open>
  Two changes of settings made one after the other can reach the generator of tunnel parameters in the other order: their tasks are independent. When both have run,
  the next tunnel uses the relay settings from before the second change.
\<close>

theorem settings_tasks_reordered:
  assumes "d_settings_tasks d = []" and "settings_update w f d = (Inr True, d1)" and "settings_update w g d1 = (Inr True, d2)"
    and "d3 = run_settings_task 0 (run_settings_task 1 d2)"
  shows "(daemon_step w)\<^sup>*\<^sup>* d2 d3 \<and> d_settings_tasks d3 = [] \<and>
    settings d3 = settings d2 \<and> pg_relay_settings (d_generator d3) = us_relay_settings (settings d1)"
proof -
  have tasks: "d_settings_tasks d' = d_settings_tasks d @ [settings d']" if "settings_update w h d = (Inr True, d')" for h d d'
    using that by (auto simp: settings_update_def settings_try_update_def settings_listeners_def called_def spawn_def fx_def send_event_def Let_def
        split: prod.splits if_splits)
  have "d_settings_tasks d2 = [settings d1, settings d2]" using tasks [OF assms(2)] tasks [OF assms(3)] assms(1) by simp
  then show ?thesis
    using daemon_step.settings_task [of w d2 1] daemon_step.settings_task [of w "run_settings_task 1 d2" 0]
    by (auto simp: assms(4) run_settings_task_def set_generator_settings_def selector_settings_of_def Let_def
        intro: converse_rtranclp_into_rtranclp)
qed

theorem settings_tasks_reordered_witness:
  "\<exists>d2 d3. (daemon_step ex_daemon_world)\<^sup>*\<^sup>* d2 d3 \<and> us_relay_settings (settings d3) = country_relay_settings ''de'' \<and>
     pg_relay_settings (d_generator d3) = country_relay_settings ''no''"
proof -
  obtain d1 where d1: "settings_update ex_daemon_world (\<lambda>s. s\<lparr>us_relay_settings := country_relay_settings ''no''\<rparr>) (ex_daemon False) = (Inr True, d1)"
    "us_relay_settings (settings d1) = country_relay_settings ''no''"
    using ex_update [of "\<lambda>s. s\<lparr>us_relay_settings := country_relay_settings ''no''\<rparr>" "ex_daemon False"]
    by (auto simp: settings_default_def country_relay_settings_def)
  moreover from d1(2) have "(settings d1)\<lparr>us_relay_settings := country_relay_settings ''de''\<rparr> \<noteq> settings d1"
    by (auto simp: country_relay_settings_def dest: arg_cong [where f = us_relay_settings])
  ultimately obtain d2 where d2: "settings_update ex_daemon_world (\<lambda>s. s\<lparr>us_relay_settings := country_relay_settings ''de''\<rparr>) d1 = (Inr True, d2)"
    "us_relay_settings (settings d2) = country_relay_settings ''de''"
    using ex_update [of "\<lambda>s. s\<lparr>us_relay_settings := country_relay_settings ''de''\<rparr>" d1] by auto
  from settings_tasks_reordered [OF _ d1(1) d2(1) refl] d1(2) d2(2) show ?thesis by fastforce
qed

end
