(* ===== verification/Tunnel_Applied.thy ===== *)
theory Tunnel_Applied
  imports Tunnel_Order
begin

text \<open>
  Which policy the kernel holds, read off the log: while a tunnel exists or is being taken down, the
  table is the one of the last policy that was applied successfully, or of one whose application
  reported an error after that (the table may have been replaced before the error), and all of these
  are policies of a tunnel, none is the policy that blocks everything.
\<close>

section \<open>The policies that may be in force\<close>

text \<open>Logs are newest first.\<close>

fun attempted :: "effect list \<Rightarrow> firewall_policy list" where
  "attempted [] = []"
| "attempted (FwApply policy ok # es) = policy # (if ok then [] else attempted es)"
| "attempted (FwReset ok # es) = []"
| "attempted (_ # es) = attempted es"

fun is_tunnel_policy :: "firewall_policy \<Rightarrow> bool" where
  "is_tunnel_policy (PolicyBlocked lan api) = False"
| "is_tunnel_policy _ = True"

definition policy_logged :: "shared \<Rightarrow> bool" where
  "policy_logged sv \<longleftrightarrow>
     list_all is_tunnel_policy (attempted (sv_log sv)) \<and> (\<exists>policy \<in> set (attempted (sv_log sv)). installed sv policy)"

fun is_fw_effect :: "effect \<Rightarrow> bool" where
  "is_fw_effect (FwApply policy ok) = True"
| "is_fw_effect (FwReset ok) = True"
| "is_fw_effect _ = False"

lemma attempted_other [simp]: "\<not> is_fw_effect e \<Longrightarrow> attempted (e # es) = attempted es"
  by (cases e) simp_all

lemma is_tunnel_policy_simps [simp]:
  "is_tunnel_policy (connecting_policy sv params md traffic)" "is_tunnel_policy (get_firewall_policy self sv)"
  by (simp_all add: connecting_policy_def get_firewall_policy_def)

lemma policy_logged_cong:
  "sv_log sv' = sv_log sv \<Longrightarrow> sv_kernel sv' = sv_kernel sv \<Longrightarrow> sv_firewall sv' = sv_firewall sv \<Longrightarrow>
   policy_logged sv' = policy_logged sv"
  by (simp add: policy_logged_def installed_def)

lemma policy_logged_record [simp]:
  "\<not> is_fw_effect e \<Longrightarrow> policy_logged (record_effect e sv) = policy_logged sv"
  by (simp add: policy_logged_def installed_def)

lemma policy_logged_update [simp]:
  "policy_logged (sv\<lparr>sv_allow_lan := a\<rparr>) = policy_logged sv"
  "policy_logged (sv\<lparr>sv_lockdown_mode := l\<rparr>) = policy_logged sv"
  "policy_logged (sv\<lparr>sv_dns_config := d\<rparr>) = policy_logged sv"
  "policy_logged (sv\<lparr>sv_allowed_endpoint := ep\<rparr>) = policy_logged sv"
  "policy_logged (sv\<lparr>sv_connectivity := cy\<rparr>) = policy_logged sv"
  "policy_logged (sv\<lparr>sv_clock := n\<rparr>) = policy_logged sv"
  "policy_logged (sv\<lparr>sv_tunnels := ns\<rparr>) = policy_logged sv"
  "policy_logged (snd (set_allow_lan a sv)) = policy_logged sv"
  "policy_logged (snd (set_dns_config d sv)) = policy_logged sv"
  "policy_logged (send_done tx sv) = policy_logged sv"
  "policy_logged (snd (start_tunnel params retry sv)) = policy_logged sv"
  by (auto simp: set_allow_lan_def set_dns_config_def send_done_def start_tunnel_def Let_def
      intro!: policy_logged_cong) (simp_all add: policy_logged_def installed_def)

section \<open>Firewall calls\<close>

text \<open>A call keeps the property, and one that reports success establishes it.\<close>

lemma policy_logged_call:
  assumes "fw_call sv policy ok sv'" and "sv_log sv' = FwApply policy ok # sv_log sv"
    and "is_tunnel_policy policy" and "policy_logged sv \<or> ok"
  shows "policy_logged sv'"
  using assms by (auto simp: policy_logged_def fw_call_def installed_def frame_def)

lemma res_ok_unit: "res_ok r \<longleftrightarrow> r = Inr ()" for r :: "'e + unit"
  by (cases r) simp_all

lemma policy_logged_connecting [simp]:
  assumes "policy_logged sv \<or> res_ok (fst (ConnectingState_set_firewall_policy w params md traffic sv))"
  shows "policy_logged (snd (ConnectingState_set_firewall_policy w params md traffic sv))"
proof (cases "ConnectingState_set_firewall_policy w params md traffic sv")
  case (Pair r sv')
  with policy_logged_call [OF ConnectingState_set_firewall_policy_call [OF Pair]] log_set_firewall_policy(2) [OF Pair] assms
  show ?thesis by (simp add: res_ok_unit)
qed

lemma policy_logged_connected [simp]:
  assumes "policy_logged sv \<or> res_ok (fst (ConnectedState_set_firewall_policy w self sv))"
  shows "policy_logged (snd (ConnectedState_set_firewall_policy w self sv))"
proof (cases "ConnectedState_set_firewall_policy w self sv")
  case (Pair r sv')
  with policy_logged_call [OF ConnectedState_set_firewall_policy_call [OF Pair]] log_set_firewall_policy(3) [OF Pair] assms
  show ?thesis by (simp add: res_ok_unit)
qed

section \<open>Entering a state\<close>

fun has_tunnel :: "tunnel_state \<Rightarrow> bool" where
  "has_tunnel (ConnectingState self) = True"
| "has_tunnel (ConnectedState self) = True"
| "has_tunnel (DisconnectingState self) = True"
| "has_tunnel _ = False"

fun consequence_logged :: "event_consequence \<Rightarrow> shared \<Rightarrow> bool" where
  "consequence_logged (NewState (st, tr)) sv \<longleftrightarrow> (has_tunnel st \<longrightarrow> policy_logged sv)"
| "consequence_logged (SameState st) sv \<longleftrightarrow> (has_tunnel st \<longrightarrow> policy_logged sv)"
| "consequence_logged Finished sv \<longleftrightarrow> True"

lemma logged_enter [simp]:
  "\<not> has_tunnel (fst (fst (ErrorState_enter w cause sv)))"
  "\<not> has_tunnel (fst (fst (DisconnectedState_enter w reset sv)))"
  "policy_logged (snd (DisconnectingState_enter tx ev after sv)) = policy_logged sv"
  by (simp_all add: ErrorState_enter_def DisconnectedState_enter_def construct_state_transition_def
      DisconnectingState_enter_def Let_def case_prod_beta)

lemma logged_ConnectingState_enter [simp]:
  "has_tunnel (fst (fst (ConnectingState_enter w retry sv))) \<Longrightarrow>
   policy_logged (snd (ConnectingState_enter w retry sv))"
  using availability_None_iff [of "sv_connectivity sv"]
  by (auto simp: ConnectingState_enter_def generate_parameters_def case_prod_beta
      simp del: availability_None_iff split: option.splits sum.splits)

lemma logged_ConnectedState_set_dns [simp]:
  "policy_logged (snd (ConnectedState_set_dns w self sv)) = policy_logged sv"
  by (simp add: ConnectedState_set_dns_def dns_set_def Let_def)

lemma logged_ConnectedState_enter [simp]:
  "policy_logged sv \<Longrightarrow> policy_logged (snd (ConnectedState_enter w md events params ev tx sv))"
  by (simp add: ConnectedState_enter_def Let_def case_prod_beta split: sum.split bool.split)

lemma logged_disconnect [simp]:
  "policy_logged (snd (ConnectingState_disconnect cg after sv)) = policy_logged sv"
  "policy_logged (snd (ConnectedState_disconnect cd after sv)) = policy_logged sv"
  by (simp_all add: ConnectingState_disconnect_def ConnectedState_disconnect_def DisconnectingState_enter_def
      plain_calls Let_def case_prod_beta)

section \<open>Handlers\<close>

text \<open>While a tunnel exists, handlers keep the property whatever they return.\<close>

lemma logged_reset_firewall [simp]:
  "policy_logged sv \<Longrightarrow> policy_logged (snd (ConnectingState_reset_firewall w self sv))"
  by (simp add: ConnectingState_reset_firewall_def case_prod_beta split: sum.split)

lemma logged_tunnel_handlers [simp]:
  assumes "policy_logged sv"
  shows "policy_logged (snd (ConnectingState_handle_commands w cg command sv))"
    and "policy_logged (snd (ConnectingState_handle_tunnel_events w cg event sv))"
    and "policy_logged (snd (ConnectedState_handle_commands w cd command sv))"
    and "policy_logged (snd (ConnectedState_handle_tunnel_events cd event sv))"
    and "policy_logged (snd (DisconnectingState_handle_commands dg command sv))"
  using assms
  by (simp_all add: ConnectingState_handle_commands_def ConnectingState_handle_tunnel_events_def
      ConnectedState_handle_commands_def ConnectedState_handle_tunnel_events_def
      DisconnectingState_handle_commands_def dns_reset_before_interface_removal_def Let_def case_prod_beta
      split: option.split tunnel_command.split tunnel_event.split sum.split bool.split)

lemma logged_enter_consequence [simp]:
  "consequence_logged (NewState (fst (ErrorState_enter w cause sv))) sv'"
  "consequence_logged (NewState (fst (DisconnectedState_enter w reset sv))) sv'"
  "consequence_logged (NewState (fst (ConnectingState_enter w retry sv))) (snd (ConnectingState_enter w retry sv))"
  using logged_enter(1) [of w cause sv] logged_enter(2) [of w reset sv] logged_ConnectingState_enter [of w retry sv]
  by (cases "fst (ErrorState_enter w cause sv)", simp, cases "fst (DisconnectedState_enter w reset sv)", simp,
      cases "fst (ConnectingState_enter w retry sv)", auto)

lemma policy_logged_consequence: "policy_logged sv \<Longrightarrow> consequence_logged c sv"
  by (cases "(c, sv)" rule: consequence_logged.cases) auto

lemma close_logged [simp]:
  "consequence_logged (fst (ConnectingState_handle_tunnel_close_event w cg reason sv))
     (snd (ConnectingState_handle_tunnel_close_event w cg reason sv))"
  "consequence_logged (fst (ConnectedState_handle_tunnel_close_event w cd reason sv))
     (snd (ConnectedState_handle_tunnel_close_event w cd reason sv))"
  by (simp_all add: ConnectingState_handle_tunnel_close_event_def ConnectedState_handle_tunnel_close_event_def
      Let_def case_prod_beta split: option.split)

lemma idle_logged [simp]:
  "consequence_logged (fst (DisconnectedState_handle_commands w command sv))
     (snd (DisconnectedState_handle_commands w command sv))"
  "consequence_logged (fst (ErrorState_handle_commands w cause command sv))
     (snd (ErrorState_handle_commands w cause command sv))"
  "consequence_logged (NewState (fst (DisconnectingState_after_disconnect w dg r sv)))
     (snd (DisconnectingState_after_disconnect w dg r sv))"
  by (simp_all add: DisconnectedState_handle_commands_def ErrorState_handle_commands_def
      DisconnectingState_after_disconnect_def construct_state_transition_def Let_def case_prod_beta
      split: option.split tunnel_command.split after_disconnect.split)

lemma disconnecting_logged:
  "DisconnectingState_handle_commands dg command sv = (c, sv') \<Longrightarrow> policy_logged sv \<Longrightarrow> consequence_logged c sv'"
  "apfst NewState (DisconnectingState_after_disconnect w dg reason sv) = (c, sv') \<Longrightarrow> consequence_logged c sv'"
  using logged_tunnel_handlers(5) [of sv dg command] idle_logged(3) [of w dg reason sv]
  by (auto simp: apfst_def map_prod_def case_prod_beta policy_logged_consequence)

section \<open>Reachable machines\<close>

lemma handle_event_logged:
  assumes "handle_event w br exits st rx sv = Some (c, rx', sv')" and "has_tunnel st \<longrightarrow> policy_logged sv"
  shows "consequence_logged c sv'"
  using assms
  by (cases st) (auto simp: ConnectingState_handle_event_def ConnectedState_handle_event_def
      DisconnectingState_handle_event_def policy_logged_consequence Let_def case_prod_beta
      elim!: disconnecting_logged split: branch.splits option.splits event_result.splits)

definition machine_logged :: "machine \<Rightarrow> bool" where
  "machine_logged m \<longleftrightarrow> (\<forall>st. m_state m = Some st \<longrightarrow> has_tunnel st \<longrightarrow> policy_logged (m_shared m))"

lemma logged_step: "tsm_step w m m' \<Longrightarrow> machine_logged m \<Longrightarrow> machine_logged m'"
  by (induction rule: tsm_step.induct)
    (auto simp: machine_logged_def elim!: run_stepE dest: handle_event_logged)

lemma reachable_logged: "tsm_reachable w m \<Longrightarrow> machine_logged m"
proof (induction rule: tsm_reachable.induct)
  case (start settings ids connectivity k check)
  show ?case by (simp add: machine_logged_def TunnelStateMachine_new_def case_prod_beta)
qed (rule logged_step)

end
