(* ===== verification/Net_Properties.thy ===== *)
theory Net_Properties
  imports Dns_Config
begin

unbundle bit_operations_syntax

text \<open>
  Properties of the network vocabulary and of the DNS configuration.
\<close>

section \<open>DNS configuration\<close>

text \<open>The content blockers that an address of the blocking range stands for.\<close>

definition blockers_of :: "u32 \<Rightarrow> default_dns_options" where
  "blockers_of a =
     \<lparr>block_ads = bit a 0, block_trackers = bit a 1, block_malware = bit a 2,
      block_adult_content = bit a 3, block_gambling = bit a 4, block_social_media = bit a 5\<rparr>"

lemma blocking_base_low: "n < 8 \<Longrightarrow> \<not> bit DNS_BLOCKING_IP_BASE n"
  using bit_push_bit_iff [of 8 "0x644000 :: u32" n]
  by (simp add: DNS_BLOCKING_IP_BASE_def ipv4_new_def)

lemma blockers_of_blocking_ip:
  "blockers_of (DNS_BLOCKING_IP_BASE OR ucast (dns_last_byte d)) = d"
  by (intro default_dns_options.equality)
    (simp_all add: blockers_of_def bit_or_iff bit_ucast_iff blocking_base_low
      dns_last_byte_bits dns_last_byte_bits(2) [unfolded One_nat_def])

lemma blocking_ip_prefix:
  "drop_bit 8 (DNS_BLOCKING_IP_BASE OR ucast (b :: u8)) = drop_bit 8 DNS_BLOCKING_IP_BASE"
  by (rule bit_word_eqI) (auto simp: bit_drop_bit_eq bit_or_iff bit_ucast_iff dest: bit_imp_le_length)

text \<open>
  Content blocking: with default DNS and some blocker enabled the resolver is one address of
  100.64.0.0/24 whose low bits are exactly the enabled blockers, so the options can be read back from
  the address; with no blocker enabled the tunnel's own resolver is kept.
\<close>

theorem blocking_address_roundtrip:
  assumes "do_state options = DnsStateDefault"
  shows "if any_blockers_enabled (do_default_options options)
    then \<exists>a. addresses_from_options contains options = DnsOverride [IpV4 a] [] \<and>
           drop_bit 8 a = drop_bit 8 (ipv4_new 100 64 0 0) \<and> blockers_of a = do_default_options options
    else addresses_from_options contains options = DnsDefault"
  using blockers_of_blocking_ip [of "do_default_options options"] blocking_ip_prefix
  by (simp add: addresses_from_options_default [OF assms] from_addresses_def DNS_BLOCKING_IP_BASE_def)

theorem blocking_address_roundtrip_witness:
  "\<exists>a. addresses_from_options (\<lambda>net a. net_ip net = a)
      \<lparr>do_state = DnsStateDefault,
       do_default_options =
         \<lparr>block_ads = True, block_trackers = False, block_malware = True, block_adult_content = False,
          block_gambling = False, block_social_media = False\<rparr>,
       do_custom_addresses = []\<rparr> = DnsOverride [IpV4 a] [] \<and> block_malware (blockers_of a)"
proof -
  let ?options = "\<lparr>do_state = DnsStateDefault,
       do_default_options =
         \<lparr>block_ads = True, block_trackers = False, block_malware = True, block_adult_content = False,
          block_gambling = False, block_social_media = False\<rparr>,
       do_custom_addresses = []\<rparr>"
  have "do_state ?options = DnsStateDefault" by simp
  from blocking_address_roundtrip [OF this, of "\<lambda>net a. net_ip net = a"] show ?thesis
    by (auto simp: any_blockers_enabled_def)
qed

text \<open>
  Custom resolvers: every custom address is used, in the order given, inside the tunnel if it is
  public and outside it if it is local; without any the tunnel's own resolver is kept.
\<close>

theorem custom_dns_split:
  assumes "do_state options = DnsStateCustom"
  shows "dns_resolve (addresses_from_options contains options) default_config =
    (if do_custom_addresses options = []
     then \<lparr>rd_tunnel_config = default_config, rd_non_tunnel_config = []\<rparr>
     else \<lparr>rd_tunnel_config =
             filter (\<lambda>a. \<not> is_local_address contains a) (do_custom_addresses options),
           rd_non_tunnel_config = filter (is_local_address contains) (do_custom_addresses options)\<rparr>)"
  using assms by (simp add: addresses_from_options_def from_addresses_def partition_filter_conv o_def)

theorem custom_dns_split_witness:
  "dns_resolve (addresses_from_options (\<lambda>net a. net_ip net = a)
      \<lparr>do_state = DnsStateCustom,
       do_default_options =
         \<lparr>block_ads = True, block_trackers = False, block_malware = False, block_adult_content = False,
          block_gambling = False, block_social_media = False\<rparr>,
       do_custom_addresses = [IpV4 0x08080808, IpV4 0x0A000000]\<rparr>) [] =
     \<lparr>rd_tunnel_config = [IpV4 0x08080808], rd_non_tunnel_config = [IpV4 0x0A000000]\<rparr>"
proof -
  let ?options = "\<lparr>do_state = DnsStateCustom,
       do_default_options =
         \<lparr>block_ads = True, block_trackers = False, block_malware = False, block_adult_content = False,
          block_gambling = False, block_social_media = False\<rparr>,
       do_custom_addresses = [IpV4 0x08080808, IpV4 0x0A000000]\<rparr>"
  have state: "do_state ?options = DnsStateCustom" by simp
  have "is_local_address (\<lambda>net a. net_ip net = a) (IpV4 0x0A000000)"
    "\<not> is_local_address (\<lambda>net a. net_ip net = a) (IpV4 0x08080808)"
    by (simp_all add: is_local_address_def ALLOWED_LAN_NETS_def LOOPBACK_NETS_def ipv4_new_def)
  then show ?thesis by (subst custom_dns_split [OF state]) simp
qed

section \<open>Endpoints and connectivity\<close>

text \<open>
  The endpoints the firewall opens for a tunnel are never empty, sorted and without duplicates,
  and exactly the ones the transition to the user interface names: the obfuscators', or the entry
  relay's when there is no obfuscation.
\<close>

theorem next_hop_endpoints_exact:
  "get_next_hop_endpoints p \<noteq> [] \<and> sorted (get_next_hop_endpoints p) \<and>
   distinct (get_next_hop_endpoints p) \<and>
   set (get_next_hop_endpoints p) =
     (case te_obfuscation (get_tunnel_endpoint p) of
        Some info \<Rightarrow> set (obfuscation_info_get_endpoints info)
      | None \<Rightarrow> {case te_entry_endpoint (get_tunnel_endpoint p) of
                   Some entry \<Rightarrow> entry | None \<Rightarrow> te_endpoint (get_tunnel_endpoint p)})"
  using get_next_hop_endpoints_nonempty [of p] get_next_hop_endpoints_sorted_distinct [of p]
  by (cases "tp_obfuscation p"; cases "get_exit_endpoint (tp_connection p)")
    (simp_all add: get_next_hop_endpoints_def get_tunnel_endpoint_def obfuscators_endpoints_info)

text \<open>
  Connectivity built from the reachability of the two address families answers for each family
  what it was built from, is offline exactly if there is neither, and offers an availability to the
  relay selector exactly if it is not offline.
\<close>

theorem connectivity_new_exact:
  "has_family (connectivity_new v4 v6) family = (case family of V4 \<Rightarrow> v4 | V6 \<Rightarrow> v6) \<and>
   is_offline (connectivity_new v4 v6) = (\<not> v4 \<and> \<not> v6) \<and>
   (availability c = None) = is_offline c"
  using connectivity_new_family [of v4 v6] connectivity_new_offline [of v4 v6]
  by (cases family) simp_all

text \<open>
  A transport protocol is parsed from exactly the strings that are its printed form up to the case
  of letters.
\<close>

theorem transport_protocol_parse_print:
  "(transport_protocol_from_str s = Inr p) = eq_ignore_ascii_case s (transport_protocol_to_string p)"
proof -
  have lower: "map to_ascii_lowercase ''UDP'' = ''udp''" "map to_ascii_lowercase ''TCP'' = ''tcp''"
    "map to_ascii_lowercase ''udp'' = ''udp''" "map to_ascii_lowercase ''tcp'' = ''tcp''"
    by code_simp+
  show ?thesis
    by (cases p)
      (simp_all only: transport_protocol_from_str_def transport_protocol_to_string_def
        eq_ignore_ascii_case_def lower transport_protocol.case, auto)
qed

end
