(* ===== verification/Device_Service.thy ===== *)
theory Device_Service
  imports Device_Types Availability
begin

text \<open>
  The requests of the daemon to the account and device API (\<open>mullvad-daemon/src/device/service.rs\<close>).
  What the k-th call of an endpoint yields is an input, as is whether the host is offline at that
  moment; random keys and the current time are arguments. Requests that wait until the host is
  online or background requests are allowed (\<open>when_online\<close>, \<open>when_bg_resumes\<close>) yield what the request
  yields, so the waiting does not show in the result.
\<close>

section \<open>Strategies\<close>

definition RETRY_ACTION_STRATEGY :: constant_interval where
  "RETRY_ACTION_STRATEGY = constant_interval_new 0 (Some 3)"

definition RETRY_BACKOFF_STRATEGY :: exponential_backoff where
  "RETRY_BACKOFF_STRATEGY =
     with_max_delay (Some (hours 24)) (exponential_backoff_new (duration_from_secs 4) 5)"

definition should_retry_request :: "rest_error + 'a \<Rightarrow> bool \<Rightarrow> bool" where
  "should_retry_request result api_offline = (case result of
       Inl error \<Rightarrow> rest_is_network_error error \<and> \<not> api_offline
     | Inr _ \<Rightarrow> False)"

definition should_retry_backoff :: "rest_error + 'a \<Rightarrow> bool" where
  "should_retry_backoff result = (case result of
       Inr _ \<Rightarrow> False
     | Inl (ApiError status code) \<Rightarrow>
         status \<noteq> 404 \<and> code \<noteq> ''DEVICE_NOT_FOUND'' \<and> code \<noteq> ''INVALID_ACCOUNT''
         \<and> code \<noteq> ''MAX_DEVICES_REACHED'' \<and> code \<noteq> ''PUBKEY_IN_USE''
     | Inl _ \<Rightarrow> True)"

definition map_err :: "('e \<Rightarrow> 'f) \<Rightarrow> 'e + 'a \<Rightarrow> 'f + 'a" where
  "map_err f r = (case r of Inl e \<Rightarrow> Inl (f e) | Inr x \<Rightarrow> Inr x)"

lemma map_err_simps [simp]: "map_err f (Inl e) = Inl (f e)" "map_err f (Inr x) = Inr x"
  by (simp_all add: map_err_def)

text \<open>The two ways of calling an endpoint.\<close>

definition retry_action :: "(nat \<Rightarrow> rest_error + 'a) \<Rightarrow> (nat \<Rightarrow> bool) \<Rightarrow> (rest_error + 'a) option" where
  "retry_action call offline =
     map_option fst (retry_future call (\<lambda>n r. should_retry_request r (offline n))
       constant_interval_next RETRY_ACTION_STRATEGY)"

definition retry_backoff :: "'f :: linordered_field jitter_source \<Rightarrow> (nat \<Rightarrow> rest_error + 'a) \<Rightarrow> (rest_error + 'a) option" where
  "retry_backoff jitter call =
     map_option fst (retry_future call (\<lambda>_. should_retry_backoff)
       (jittered_next jitter exponential_backoff_next) (jitter_new RETRY_BACKOFF_STRATEGY))"

section \<open>Devices\<close>

definition new_private_device ::
  "(wg_key \<Rightarrow> wg_key) \<Rightarrow> account_number \<Rightarrow> wg_key \<Rightarrow> time \<Rightarrow> rest_error + (device \<times> associated_addresses)
   \<Rightarrow> device_error + private_account_and_device" where
  "new_private_device public_key account_number private_key now response =
     and_then (map_err map_rest_error response) (\<lambda>(device, addresses).
     and_then (try_from_device public_key device
       \<lparr>wd_private_key = private_key, wd_addresses = addresses, wd_created = now\<rparr>) (\<lambda>device.
     Inr \<lparr>pad_account_number = account_number, pad_device = device\<rparr>))"

text \<open>\<open>create\<close> is the endpoint: its arguments are the account number and the new public key.\<close>

definition generate_for_account ::
  "(wg_key \<Rightarrow> wg_key) \<Rightarrow> (account_number \<Rightarrow> wg_key \<Rightarrow> nat \<Rightarrow> rest_error + (device \<times> associated_addresses))
   \<Rightarrow> (nat \<Rightarrow> bool) \<Rightarrow> wg_key \<Rightarrow> time \<Rightarrow> account_number
   \<Rightarrow> (device_error + private_account_and_device) option" where
  "generate_for_account public_key create offline private_key now account_number =
     map_option (new_private_device public_key account_number private_key now)
       (retry_action (create account_number (public_key private_key)) offline)"

definition generate_for_account_with_backoff ::
  "(wg_key \<Rightarrow> wg_key) \<Rightarrow> (account_number \<Rightarrow> wg_key \<Rightarrow> nat \<Rightarrow> rest_error + (device \<times> associated_addresses))
   \<Rightarrow> 'f :: linordered_field jitter_source \<Rightarrow> wg_key \<Rightarrow> time \<Rightarrow> account_number
   \<Rightarrow> (device_error + private_account_and_device) option" where
  "generate_for_account_with_backoff public_key create jitter private_key now account_number =
     map_option (new_private_device public_key account_number private_key now)
       (retry_backoff jitter (create account_number (public_key private_key)))"

definition new_wireguard_data ::
  "wg_key \<Rightarrow> time \<Rightarrow> rest_error + associated_addresses \<Rightarrow> device_error + wireguard_data" where
  "new_wireguard_data private_key now response =
     and_then (map_err map_rest_error response) (\<lambda>addresses.
     Inr \<lparr>wd_private_key = private_key, wd_addresses = addresses, wd_created = now\<rparr>)"

definition rotate_key ::
  "(wg_key \<Rightarrow> wg_key) \<Rightarrow> (account_number \<Rightarrow> device_id \<Rightarrow> wg_key \<Rightarrow> nat \<Rightarrow> rest_error + associated_addresses)
   \<Rightarrow> (nat \<Rightarrow> bool) \<Rightarrow> wg_key \<Rightarrow> time \<Rightarrow> account_number \<Rightarrow> device_id \<Rightarrow> (device_error + wireguard_data) option" where
  "rotate_key public_key replace_wg_key offline private_key now number device =
     map_option (new_wireguard_data private_key now)
       (retry_action (replace_wg_key number device (public_key private_key)) offline)"

text \<open>\<open>std::iter::repeat(24 h)\<close>, a strategy without a state.\<close>

definition rotate_key_with_backoff ::
  "(wg_key \<Rightarrow> wg_key) \<Rightarrow> (account_number \<Rightarrow> device_id \<Rightarrow> wg_key \<Rightarrow> nat \<Rightarrow> rest_error + associated_addresses)
   \<Rightarrow> wg_key \<Rightarrow> time \<Rightarrow> account_number \<Rightarrow> device_id \<Rightarrow> (device_error + wireguard_data) option" where
  "rotate_key_with_backoff public_key replace_wg_key private_key now number device =
     map_option (\<lambda>r. new_wireguard_data private_key now (fst r))
       (retry_future (replace_wg_key number device (public_key private_key)) (\<lambda>_. should_retry_backoff)
         (\<lambda>u. (Some (hours 24), u)) ())"

definition list_devices ::
  "(account_number \<Rightarrow> nat \<Rightarrow> rest_error + device list) \<Rightarrow> (nat \<Rightarrow> bool) \<Rightarrow> account_number
   \<Rightarrow> (device_error + device list) option" where
  "list_devices lst offline number = map_option (map_err map_rest_error) (retry_action (lst number) offline)"

definition list_devices_with_backoff ::
  "(account_number \<Rightarrow> nat \<Rightarrow> rest_error + device list) \<Rightarrow> 'f :: linordered_field jitter_source \<Rightarrow> account_number
   \<Rightarrow> (device_error + device list) option" where
  "list_devices_with_backoff lst jitter number = map_option (map_err map_rest_error) (retry_backoff jitter (lst number))"

definition get_device ::
  "(account_number \<Rightarrow> device_id \<Rightarrow> nat \<Rightarrow> rest_error + device) \<Rightarrow> (nat \<Rightarrow> bool) \<Rightarrow> account_number \<Rightarrow> device_id
   \<Rightarrow> (device_error + device) option" where
  "get_device get offline number device =
     map_option (map_err map_rest_error) (retry_action (get number device) offline)"

definition remove_device_inner ::
  "(account_number \<Rightarrow> device_id \<Rightarrow> nat \<Rightarrow> rest_error + unit) \<Rightarrow> (nat \<Rightarrow> bool) \<Rightarrow> account_number \<Rightarrow> device_id
   \<Rightarrow> (device_error + unit) option" where
  "remove_device_inner remove offline number device =
     map_option (map_err map_rest_error) (retry_action (remove number device) offline)"

definition remove_device ::
  "(account_number \<Rightarrow> device_id \<Rightarrow> nat \<Rightarrow> rest_error + unit) \<Rightarrow> (account_number \<Rightarrow> nat \<Rightarrow> rest_error + device list)
   \<Rightarrow> (nat \<Rightarrow> bool) \<Rightarrow> (nat \<Rightarrow> bool) \<Rightarrow> account_number \<Rightarrow> device_id \<Rightarrow> (device_error + device list) option" where
  "remove_device remove lst offline_remove offline_list number device =
     (case remove_device_inner remove offline_remove number device of
        None \<Rightarrow> None
      | Some (Inl e) \<Rightarrow> Some (Inl e)
      | Some (Inr _) \<Rightarrow> list_devices lst offline_list number)"

text \<open>Cloning the strategy clones the backoff inside it, so the delays are not jittered here.\<close>

definition remove_device_with_backoff ::
  "(account_number \<Rightarrow> device_id \<Rightarrow> nat \<Rightarrow> rest_error + unit) \<Rightarrow> account_number \<Rightarrow> device_id
   \<Rightarrow> (device_error + unit) option" where
  "remove_device_with_backoff remove number device =
     map_option (\<lambda>r. map_err map_rest_error (fst r))
       (retry_future (remove number device) (\<lambda>_. should_retry_backoff) exponential_backoff_next
         (with_max_delay None RETRY_BACKOFF_STRATEGY))"

section \<open>Accounts\<close>

record account_data =
  acc_id :: string
  acc_expiry :: time

record voucher_submission =
  time_added :: u64
  new_expiry :: time

definition handle_account_data_result ::
  "time \<Rightarrow> rest_error + account_data \<Rightarrow> api_availability \<Rightarrow> bool \<times> api_availability" where
  "handle_account_data_result now result api_availability = (case result of
       Inr data \<Rightarrow>
         if acc_expiry data \<ge> now then (True, resume_background api_availability)
         else (True, inner_pause_background api_availability)
     | Inl (ApiError _ code) \<Rightarrow>
         if code = ''INVALID_ACCOUNT'' then (True, inner_pause_background api_availability)
         else (False, api_availability)
     | Inl _ \<Rightarrow> (False, api_availability))"

text \<open>
  \<open>get_data\<close> and \<open>submit_voucher\<close> also return the availability, and whether the check of the account
  that runs from the start of the service is aborted.
\<close>

definition get_data ::
  "(account_number \<Rightarrow> nat \<Rightarrow> rest_error + account_data) \<Rightarrow> (nat \<Rightarrow> bool) \<Rightarrow> time \<Rightarrow> api_availability
   \<Rightarrow> account_number \<Rightarrow> ((rest_error + account_data) \<times> bool \<times> api_availability) option" where
  "get_data get offline now av number =
     map_option (\<lambda>result. (result, handle_account_data_result now result av)) (retry_action (get number) offline)"

definition get_data_2 ::
  "(account_number \<Rightarrow> nat \<Rightarrow> rest_error + account_data) \<Rightarrow> (nat \<Rightarrow> bool) \<Rightarrow> time \<Rightarrow> api_availability
   \<Rightarrow> account_number \<Rightarrow> ((device_error + account_data) \<times> bool \<times> api_availability) option" where
  "get_data_2 get offline now av number =
     map_option (\<lambda>(result, rest). (map_err map_rest_error result, rest)) (get_data get offline now av number)"

definition submit_voucher ::
  "(account_number \<Rightarrow> string \<Rightarrow> nat \<Rightarrow> rest_error + voucher_submission) \<Rightarrow> (nat \<Rightarrow> bool) \<Rightarrow> api_availability
   \<Rightarrow> account_number \<Rightarrow> string \<Rightarrow> ((device_error + voucher_submission) \<times> bool \<times> api_availability) option" where
  "submit_voucher submit offline av account_number voucher =
     map_option (\<lambda>result. (map_err map_rest_error result, res_ok result,
         if res_ok result then resume_background av else av))
       (retry_action (submit account_number voucher) offline)"

definition create_account ::
  "(nat \<Rightarrow> rest_error + account_number) \<Rightarrow> (nat \<Rightarrow> bool) \<Rightarrow> (rest_error + account_number) option" where
  "create_account create offline = retry_action create offline"

definition get_www_auth_token ::
  "(account_number \<Rightarrow> nat \<Rightarrow> rest_error + string) \<Rightarrow> (nat \<Rightarrow> bool) \<Rightarrow> account_number
   \<Rightarrow> (rest_error + string) option" where
  "get_www_auth_token get offline account = retry_action (get account) offline"

section \<open>What the strategies amount to\<close>

lemma retry_action_strategy: "ci_bounded RETRY_ACTION_STRATEGY" "ci_left RETRY_ACTION_STRATEGY = 3"
  by (simp_all add: RETRY_ACTION_STRATEGY_def constant_interval_new_def ci_bounded_def ci_left_def)

text \<open>
  A request of the user is made at most four times, as long as it fails for the network and the host
  is not offline, and yields what its last call yields.
\<close>

lemma retry_action_exact:
  obtains k where "k \<le> 3" and "retry_action call offline = Some (call k)"
    and "\<And>j. j < k \<Longrightarrow> should_retry_request (call j) (offline j)"
    and "should_retry_request (call k) (offline k) \<Longrightarrow> k = 3"
proof -
  from interval.retry_loop_returns [OF retry_action_strategy(1),
      of call "\<lambda>n r. should_retry_request r (offline n)" 0 "[]"]
  obtain k where "k \<le> 3" "retry_action call offline = Some (call k)"
    "\<forall>j < k. should_retry_request (call j) (offline j)" "should_retry_request (call k) (offline k) \<longrightarrow> k = 3"
    by (auto simp: retry_action_strategy(2) retry_action_def retry_future_def)
  then show thesis using that by blast
qed

lemma retry_action_returns: "\<exists>r. retry_action call offline = Some r"
  by (rule retry_action_exact [of call offline]) blast

lemma retry_backoff_strategy: "eb_capped (86400 * 10 ^ 9) (jt_inner (jitter_new RETRY_BACKOFF_STRATEGY))"
  by (simp add: eb_capped_def RETRY_BACKOFF_STRATEGY_def with_max_delay_def jitter_new_def hours_def)

text \<open>A background request that ends does so with its first result that is not retried.\<close>

lemma retry_backoff_exact:
  assumes "jitter_ok jitter" and "\<And>j. j < k \<Longrightarrow> should_retry_backoff (call j)" and "\<not> should_retry_backoff (call k)"
  shows "retry_backoff jitter call = Some (call k)"
proof -
  from endless_delays.retry_loop_first [OF jittered_endless [OF assms(1)] retry_backoff_strategy, simplified,
      of k "\<lambda>_. should_retry_backoff" 0 call "[]"] assms(2,3)
  show ?thesis by (auto simp: retry_backoff_def retry_future_def)
qed

lemma generate_for_account_returns:
  obtains r where "generate_for_account public_key create offline private_key now account_number = Some r"
    and "\<And>d. r = Inr d \<Longrightarrow> pad_account_number d = account_number \<and>
           wd_private_key (pd_wg_data (pad_device d)) = private_key"
proof -
  obtain k where "retry_action (create account_number (public_key private_key)) offline =
      Some (create account_number (public_key private_key) k)"
    using retry_action_exact by blast
  then show thesis
    by (intro that) (auto simp: generate_for_account_def new_private_device_def try_from_device_def split: if_splits)
qed

end
