(* ===== verification/Device_Manager.thy ===== *)
theory Device_Manager
  imports Device_Service
begin

text \<open>
  The account manager of \<open>mullvad-daemon/src/device/mod.rs\<close> with the API call it has in progress
  (\<open>device/api.rs\<close>): an actor that owns the device state, caches it in a file, tells listeners about
  changes and answers commands. The state is passed and returned. What the outside answers (writing
  the cache, whether a listener is still there, the clock) is given by a \<open>device_world\<close>, indexed by a
  counter; replies, events and spawned tasks are recorded in a log, newest first. Response senders
  are numbered. An API call is represented by what it was made for, and its result is an input.
  Failing calls of \<open>expect\<close> are the value \<open>Panicked\<close>. Commands that exist on Android only are left out.
\<close>

section \<open>State\<close>

datatype reply =
  ReplyUnit
| ReplyState private_device_state
| ReplyVoucher voucher_submission
| ReplyExpiry time

text \<open>\<open>SpawnLogout\<close>: the task that removes a device from the account, then replies \<open>Ok\<close> if there is a sender.\<close>

datatype manager_effect =
  Replied nat "device_error + reply"
| Notified nat account_event
| SpawnLogout account_number device_id "nat option"
| ShutdownDone nat

datatype api_call =
  CallLogin account_number nat
| CallTimerRotation account_number device_id
| CallOneshotRotation account_number device_id
| CallValidation account_number device_id
| CallVoucher account_number string nat
| CallExpiry account_number

datatype api_result =
  ResultLogin "device_error + private_account_and_device" nat
| ResultRotation "device_error + wireguard_data"
| ResultValidation "device_error + device"
| ResultVoucher "device_error + voucher_submission" nat
| ResultExpiry "device_error + time"

record account_manager =
  am_cache :: "private_device_state option" \<comment> \<open>the file, if it can be parsed\<close>
  am_data :: private_device_state
  am_rotation_interval :: duration
  am_listeners :: "nat list"
  am_last_validation :: "time option"
  am_validation_requests :: "nat list"
  am_expiry_requests :: "nat list"
  am_rotation_requests :: "nat list"
  am_data_requests :: "nat list"
  am_call :: "api_call option"
  am_clock :: nat
  am_log :: "manager_effect list"

text \<open>A failed write may leave anything behind.\<close>

datatype write_outcome = WriteOk | WriteFailed "private_device_state option"

record device_world =
  dw_write :: "nat \<Rightarrow> write_outcome"
  dw_listener_ok :: "nat \<Rightarrow> nat \<Rightarrow> bool"
  dw_now :: "nat \<Rightarrow> time"

section \<open>The API call in progress\<close>

definition is_validating :: "account_manager \<Rightarrow> bool" where
  "is_validating m = (case am_call m of
       Some (CallValidation _ _) \<Rightarrow> True | Some (CallOneshotRotation _ _) \<Rightarrow> True | _ \<Rightarrow> False)"

definition is_checking_expiry :: "account_manager \<Rightarrow> bool" where
  "is_checking_expiry m = (case am_call m of Some (CallExpiry _) \<Rightarrow> True | _ \<Rightarrow> False)"

definition is_running_timed_rotation :: "account_manager \<Rightarrow> bool" where
  "is_running_timed_rotation m = (case am_call m of Some (CallTimerRotation _ _) \<Rightarrow> True | _ \<Rightarrow> False)"

definition is_logging_in :: "account_manager \<Rightarrow> bool" where
  "is_logging_in m = (case am_call m of Some (CallLogin _ _) \<Rightarrow> True | _ \<Rightarrow> False)"

text \<open>\<open>Call::poll\<close>: which result a call becomes.\<close>

fun completes :: "api_call \<Rightarrow> api_result \<Rightarrow> bool" where
  "completes (CallLogin _ tx) (ResultLogin _ tx') = (tx = tx')"
| "completes (CallTimerRotation _ _) (ResultRotation _) = True"
| "completes (CallOneshotRotation _ _) (ResultRotation _) = True"
| "completes (CallValidation _ _) (ResultValidation _) = True"
| "completes (CallVoucher _ _ tx) (ResultVoucher _ tx') = (tx = tx')"
| "completes (CallExpiry _) (ResultExpiry _) = True"
| "completes _ _ = False"

section \<open>Replies, events and the cache\<close>

definition emit :: "manager_effect \<Rightarrow> account_manager \<Rightarrow> account_manager" where
  "emit e m = m\<lparr>am_log := e # am_log m, am_clock := Suc (am_clock m)\<rparr>"

definition send_reply :: "nat \<Rightarrow> device_error + reply \<Rightarrow> account_manager \<Rightarrow> account_manager" where
  "send_reply tx r = emit (Replied tx r)"

definition send_all :: "nat list \<Rightarrow> device_error + reply \<Rightarrow> account_manager \<Rightarrow> account_manager" where
  "send_all txs r m = fold (\<lambda>tx. send_reply tx r) txs m"

lemma send_all_eq:
  "send_all txs r m = m\<lparr>am_log := rev (map (\<lambda>tx. Replied tx r) txs) @ am_log m,
                        am_clock := am_clock m + length txs\<rparr>"
  by (induction txs arbitrary: m) (simp_all add: send_all_def send_reply_def emit_def)

definition drain_validation :: "device_error + reply \<Rightarrow> account_manager \<Rightarrow> account_manager" where
  "drain_validation r m = (send_all (am_validation_requests m) r m)\<lparr>am_validation_requests := []\<rparr>"

definition drain_rotation :: "device_error + reply \<Rightarrow> account_manager \<Rightarrow> account_manager" where
  "drain_rotation r m = (send_all (am_rotation_requests m) r m)\<lparr>am_rotation_requests := []\<rparr>"

definition drain_expiry :: "device_error + reply \<Rightarrow> account_manager \<Rightarrow> account_manager" where
  "drain_expiry r m = (send_all (am_expiry_requests m) r m)\<lparr>am_expiry_requests := []\<rparr>"

definition drain_data :: "device_error + reply \<Rightarrow> account_manager \<Rightarrow> account_manager" where
  "drain_data r m = (send_all (am_data_requests m) r m)\<lparr>am_data_requests := []\<rparr>"

definition drain_device_requests_with_err :: "device_error \<Rightarrow> account_manager \<Rightarrow> account_manager" where
  "drain_device_requests_with_err err m = drain_validation (Inl err) (drain_rotation (Inl err) m)"

text \<open>\<open>listeners.retain(..)\<close>: a listener that cannot be reached is forgotten.\<close>

definition notify :: "device_world \<Rightarrow> account_event \<Rightarrow> account_manager \<Rightarrow> account_manager" where
  "notify w event m =
     (let alive = filter (dw_listener_ok w (am_clock m)) (am_listeners m)
      in m\<lparr>am_listeners := alive, am_log := rev (map (\<lambda>l. Notified l event) alive) @ am_log m,
           am_clock := Suc (am_clock m)\<rparr>)"

definition cacher_write ::
  "device_world \<Rightarrow> private_device_state \<Rightarrow> account_manager \<Rightarrow> (device_error + unit) \<times> account_manager" where
  "cacher_write w device m =
     (let m' = m\<lparr>am_clock := Suc (am_clock m)\<rparr>
      in case dw_write w (am_clock m) of
           WriteOk \<Rightarrow> (Inr (), m'\<lparr>am_cache := Some device\<rparr>)
         | WriteFailed rest \<Rightarrow> (Inl DeviceIoError, m'\<lparr>am_cache := rest\<rparr>))"

section \<open>Changing the device state\<close>

definition set_device ::
  "device_world \<Rightarrow> private_device_event \<Rightarrow> account_manager \<Rightarrow> (device_error + unit) \<times> account_manager" where
  "set_device w event m =
     (let device_state = event_state event
      in if device_state = am_data m then (Inr (), m)
         else case cacher_write w device_state m of
                (Inl e, m) \<Rightarrow> (Inl e, m)
              | (Inr _, m) \<Rightarrow>
                  let m = m\<lparr>am_last_validation := None\<rparr>;
                      m = (case into_device (am_data m) of
                             Some old_config \<Rightarrow>
                               if map_option (\<lambda>d. pd_id (pad_device d)) (into_device device_state)
                                    \<noteq> Some (pd_id (pad_device old_config))
                               then emit (SpawnLogout (pad_account_number old_config)
                                      (pd_id (pad_device old_config)) None) m
                               else m
                           | None \<Rightarrow> m)
                  in (Inr (), notify w (DeviceChanged event) (m\<lparr>am_data := device_state\<rparr>)))"

definition revoke_device :: "device_world \<Rightarrow> device_error \<Rightarrow> account_manager \<Rightarrow> account_manager" where
  "revoke_device w err m =
     (let m = snd (cacher_write w Revoked m);
          m = m\<lparr>am_data := Revoked\<rparr>;
          m = drain_validation (Inl err) m;
          m = drain_rotation (Inl err) m;
          m = drain_expiry (Inl err) m
      in notify w (DeviceChanged EventRevoked) m)"

definition manager_logout :: "device_world \<Rightarrow> nat \<Rightarrow> account_manager \<Rightarrow> account_manager" where
  "manager_logout w tx m =
     (let m = drain_data (Inl AccountChange) m
      in if logged_out (am_data m) then send_reply tx (Inr ReplyUnit) m
         else case cacher_write w LoggedOut m of
                (Inl err, m) \<Rightarrow> send_reply tx (Inl err) m
              | (Inr _, m) \<Rightarrow>
                  let old_config = into_device (am_data m);
                      m = notify w (DeviceChanged EventLogout) (m\<lparr>am_data := LoggedOut\<rparr>)
                  in case old_config of
                       Some old_config \<Rightarrow>
                         emit (SpawnLogout (pad_account_number old_config)
                           (pd_id (pad_device old_config)) (Some tx)) m
                     | None \<Rightarrow> send_reply tx (Inr ReplyUnit) m)"

section \<open>Commands\<close>

definition VALIDITY_CACHE_TIMEOUT :: int where
  "VALIDITY_CACHE_TIMEOUT = 10 * 10 ^ 9"

definition needs_validation :: "device_world \<Rightarrow> account_manager \<Rightarrow> bool \<times> account_manager" where
  "needs_validation w m =
     (if \<not> logged_in (am_data m) then (True, m)
      else let now = dw_now w (am_clock m);
               elapsed = (case am_last_validation m of
                   Some last_check \<Rightarrow> if now \<ge> last_check then now - last_check else VALIDITY_CACHE_TIMEOUT
                 | None \<Rightarrow> VALIDITY_CACHE_TIMEOUT)
           in if elapsed \<ge> VALIDITY_CACHE_TIMEOUT then (True, m\<lparr>am_last_validation := Some now\<rparr>)
              else (False, m))"

definition handle_validation_request :: "device_world \<Rightarrow> nat \<Rightarrow> account_manager \<Rightarrow> account_manager" where
  "handle_validation_request w tx m =
     (if is_logging_in m then send_reply tx (Inl AccountChange) m
      else if is_validating m then m\<lparr>am_validation_requests := am_validation_requests m @ [tx]\<rparr>
      else case needs_validation w m of
             (False, m) \<Rightarrow> send_reply tx (Inr ReplyUnit) m
           | (True, m) \<Rightarrow>
               (case into_device (am_data m) of
                  Some old_config \<Rightarrow>
                    m\<lparr>am_call := Some (CallValidation (pad_account_number old_config) (pd_id (pad_device old_config))),
                      am_validation_requests := am_validation_requests m @ [tx]\<rparr>
                | None \<Rightarrow> send_reply tx (Inl NoDevice) m))"

definition handle_voucher_submission :: "nat \<Rightarrow> string \<Rightarrow> account_manager \<Rightarrow> account_manager" where
  "handle_voucher_submission tx voucher m =
     (if is_logging_in m then send_reply tx (Inl AccountChange) m
      else case into_device (am_data m) of
             Some old_config \<Rightarrow> m\<lparr>am_call := Some (CallVoucher (pad_account_number old_config) voucher tx)\<rparr>
           | None \<Rightarrow> send_reply tx (Inl NoDevice) m)"

definition handle_expiry_request :: "nat \<Rightarrow> account_manager \<Rightarrow> account_manager" where
  "handle_expiry_request tx m =
     (if is_logging_in m then send_reply tx (Inl AccountChange) m
      else if is_checking_expiry m then m\<lparr>am_expiry_requests := am_expiry_requests m @ [tx]\<rparr>
      else case into_device (am_data m) of
             Some old_config \<Rightarrow>
               m\<lparr>am_call := Some (CallExpiry (pad_account_number old_config)),
                 am_expiry_requests := am_expiry_requests m @ [tx]\<rparr>
           | None \<Rightarrow> send_reply tx (Inl NoDevice) m)"

definition handle_rotate_key :: "nat \<Rightarrow> account_manager \<Rightarrow> account_manager" where
  "handle_rotate_key tx m =
     (if is_logging_in m then send_reply tx (Inl AccountChange) m
      else if is_validating m then m\<lparr>am_rotation_requests := am_rotation_requests m @ [tx]\<rparr>
      else case into_device (am_data m) of
             Some data \<Rightarrow>
               m\<lparr>am_call := Some (CallOneshotRotation (pad_account_number data) (pd_id (pad_device data))),
                 am_rotation_requests := am_rotation_requests m @ [tx]\<rparr>
           | None \<Rightarrow> send_reply tx (Inl NoDevice) m)"

datatype manager_command =
  CmdLogin account_number nat
| CmdLogout nat
| CmdSetData private_account_and_device nat
| CmdGetData nat
| CmdGetDataAfterLogin nat
| CmdRotateKey nat
| CmdSetRotationInterval duration nat
| CmdValidateDevice nat
| CmdSubmitVoucher string nat
| CmdCheckExpiry nat
| CmdShutdown nat

text \<open>All commands but \<open>CmdShutdown\<close>, which ends the loop.\<close>

fun handle_command :: "device_world \<Rightarrow> manager_command \<Rightarrow> account_manager \<Rightarrow> account_manager" where
  "handle_command w (CmdLogin number tx) m = m\<lparr>am_call := Some (CallLogin number tx)\<rparr>"
| "handle_command w (CmdLogout tx) m = manager_logout w tx (m\<lparr>am_call := None\<rparr>)"
| "handle_command w (CmdSetData data tx) m =
     (case set_device w (EventLogin data) m of
        (r, m) \<Rightarrow> send_reply tx (case r of Inl e \<Rightarrow> Inl e | Inr _ \<Rightarrow> Inr ReplyUnit) m)"
| "handle_command w (CmdGetData tx) m = send_reply tx (Inr (ReplyState (am_data m))) m"
| "handle_command w (CmdGetDataAfterLogin tx) m =
     (if is_logging_in m then m\<lparr>am_data_requests := am_data_requests m @ [tx]\<rparr>
      else send_reply tx (Inr (ReplyState (am_data m))) m)"
| "handle_command w (CmdRotateKey tx) m = handle_rotate_key tx m"
| "handle_command w (CmdSetRotationInterval interval tx) m =
     (let m = m\<lparr>am_rotation_interval := interval\<rparr>;
          m = (if is_running_timed_rotation m then m\<lparr>am_call := None\<rparr> else m)
      in send_reply tx (Inr ReplyUnit) m)"
| "handle_command w (CmdValidateDevice tx) m = handle_validation_request w tx m"
| "handle_command w (CmdSubmitVoucher voucher tx) m = handle_voucher_submission tx voucher m"
| "handle_command w (CmdCheckExpiry tx) m = handle_expiry_request tx m"
| "handle_command w (CmdShutdown tx) m = emit (ShutdownDone tx) m"

section \<open>Results of API calls\<close>

definition consume_login ::
  "device_world \<Rightarrow> device_error + private_account_and_device \<Rightarrow> nat \<Rightarrow> account_manager \<Rightarrow> account_manager" where
  "consume_login w device_response tx m =
     (case (case device_response of
              Inl e \<Rightarrow> (Inl e, m)
            | Inr data \<Rightarrow> set_device w (EventLogin data) m) of
        (r, m) \<Rightarrow>
          let m = send_reply tx (case r of Inl e \<Rightarrow> Inl e | Inr _ \<Rightarrow> Inr ReplyUnit) m
          in drain_data (Inr (ReplyState (am_data m))) m)"

definition consume_voucher_result ::
  "device_world \<Rightarrow> device_error + voucher_submission \<Rightarrow> nat \<Rightarrow> account_manager \<Rightarrow> account_manager" where
  "consume_voucher_result w response tx m =
     send_reply tx (case response of Inl e \<Rightarrow> Inl e | Inr s \<Rightarrow> Inr (ReplyVoucher s))
       (case response of
          Inr submission \<Rightarrow> notify w (Expiry (new_expiry submission)) m
        | Inl err \<Rightarrow> if err = InvalidAccount \<or> err = InvalidDevice then revoke_device w err m else m)"

definition consume_expiry_result ::
  "device_world \<Rightarrow> device_error + time \<Rightarrow> account_manager \<Rightarrow> account_manager" where
  "consume_expiry_result w response m = (case response of
       Inr expiry \<Rightarrow> drain_expiry (Inr (ReplyExpiry expiry)) (notify w (Expiry expiry) m)
     | Inl err \<Rightarrow> if err = InvalidAccount \<or> err = InvalidDevice then revoke_device w err m
                  else drain_expiry (Inl err) m)"

text \<open>The rotation that follows a validation if requests are left.\<close>

definition rotate_if_requested :: "account_manager \<Rightarrow> account_manager" where
  "rotate_if_requested m =
     (case into_device (am_data m) of
        Some updated_config \<Rightarrow>
          if am_rotation_requests m \<noteq> [] \<or> am_validation_requests m \<noteq> []
          then m\<lparr>am_call := Some (CallOneshotRotation (pad_account_number updated_config)
                                    (pd_id (pad_device updated_config)))\<rparr>
          else m
      | None \<Rightarrow> m)"

definition consume_validation ::
  "(wg_key \<Rightarrow> wg_key) \<Rightarrow> device_world \<Rightarrow> device_error + device \<Rightarrow> account_manager \<Rightarrow> string + account_manager" where
  "consume_validation public_key w response m = (case into_device (am_data m) of
       None \<Rightarrow> Inl ''Received a validation response whilst having no device data''
     | Some current_config \<Rightarrow>
         and_then (case response of
             Inr new_device \<Rightarrow>
               if dev_pubkey new_device = public_key (wd_private_key (pd_wg_data (pad_device current_config))) then
                 (case private_device_update public_key new_device (pad_device current_config) of
                    Inl _ \<Rightarrow> Inl ''pubkey must match privkey''
                  | Inr d \<Rightarrow>
                      (case set_device w (EventUpdated (current_config\<lparr>pad_device := d\<rparr>)) m of
                         (Inr _, m) \<Rightarrow> Inr (drain_validation (Inr ReplyUnit) m)
                       | (Inl err, m) \<Rightarrow> Inr (drain_validation (Inl err) m)))
               else Inr m
           | Inl err \<Rightarrow>
               Inr (if err = InvalidAccount \<or> err = InvalidDevice then revoke_device w err m
                    else drain_validation (Inl err) m)) (\<lambda>m.
         Inr (rotate_if_requested m)))"

definition consume_rotation_result ::
  "device_world \<Rightarrow> device_error + wireguard_data \<Rightarrow> account_manager \<Rightarrow> string + account_manager" where
  "consume_rotation_result w api_result m = (case into_device (am_data m) of
       None \<Rightarrow> Inl ''Received a key rotation result whilst having no data''
     | Some config \<Rightarrow>
         Inr (case api_result of
             Inr wg_data \<Rightarrow>
               (case set_device w (EventRotatedKey
                       (config\<lparr>pad_device := (pad_device config)\<lparr>pd_wg_data := wg_data\<rparr>\<rparr>)) m of
                  (Inr _, m) \<Rightarrow> drain_validation (Inr ReplyUnit) (drain_rotation (Inr ReplyUnit) m)
                | (Inl err, m) \<Rightarrow> drain_device_requests_with_err err m)
           | Inl err \<Rightarrow>
               if err = InvalidAccount \<or> err = InvalidDevice then revoke_device w err m
               else drain_device_requests_with_err err m))"

definition consume_api_result ::
  "(wg_key \<Rightarrow> wg_key) \<Rightarrow> device_world \<Rightarrow> api_result \<Rightarrow> account_manager \<Rightarrow> string + account_manager" where
  "consume_api_result public_key w result m = (case result of
       ResultLogin data tx \<Rightarrow> Inr (consume_login w data tx m)
     | ResultRotation rotation_response \<Rightarrow> consume_rotation_result w rotation_response m
     | ResultValidation data_response \<Rightarrow> consume_validation public_key w data_response m
     | ResultVoucher data_response tx \<Rightarrow> Inr (consume_voucher_result w data_response tx m)
     | ResultExpiry data_response \<Rightarrow> Inr (consume_expiry_result w data_response m))"

section \<open>The loop\<close>

text \<open>How long the timed rotation sleeps before its request.\<close>

definition time_until_next_rotation :: "duration \<Rightarrow> time \<Rightarrow> time \<Rightarrow> duration" where
  "time_until_next_rotation rotation_interval key_created now =
     (let num_seconds = (if now \<ge> key_created then (now - key_created) div 10 ^ 9
                         else - ((key_created - now) div 10 ^ 9));
          key_age = (if num_seconds < 0 then 0 else nat num_seconds * 10 ^ 9)
      in max (rotation_interval - key_age) (60 * 10 ^ 9))"

definition spawn_timed_key_rotation :: "account_manager \<Rightarrow> api_call option" where
  "spawn_timed_key_rotation m =
     map_option (\<lambda>config. CallTimerRotation (pad_account_number config) (pd_id (pad_device config)))
       (into_device (am_data m))"

definition arm_timed_rotation :: "account_manager \<Rightarrow> account_manager" where
  "arm_timed_rotation m =
     (case am_call m of
        None \<Rightarrow> (case spawn_timed_key_rotation m of
            Some timed_rotation \<Rightarrow> m\<lparr>am_call := Some timed_rotation\<rparr> | None \<Rightarrow> m)
      | Some _ \<Rightarrow> m)"

datatype manager_event = ApiReady api_result | CmdReady "manager_command option"

datatype turn = Running account_manager | Stopped account_manager | Panicked string

definition manager_turn ::
  "(wg_key \<Rightarrow> wg_key) \<Rightarrow> device_world \<Rightarrow> manager_event \<Rightarrow> account_manager \<Rightarrow> turn" where
  "manager_turn public_key w ev m =
     (let m = arm_timed_rotation m
      in case ev of
           ApiReady r \<Rightarrow>
             (case consume_api_result public_key w r (m\<lparr>am_call := None\<rparr>) of
                Inl msg \<Rightarrow> Panicked msg | Inr m \<Rightarrow> Running m)
         | CmdReady None \<Rightarrow> Stopped m
         | CmdReady (Some (CmdShutdown tx)) \<Rightarrow> Stopped (handle_command w (CmdShutdown tx) m)
         | CmdReady (Some cmd) \<Rightarrow> Running (handle_command w cmd m))"

text \<open>\<open>select!\<close> can take the API branch if the call in progress is done.\<close>

definition event_ready :: "manager_event \<Rightarrow> account_manager \<Rightarrow> bool" where
  "event_ready ev m = (case ev of
       ApiReady r \<Rightarrow> (case am_call (arm_timed_rotation m) of Some c \<Rightarrow> completes c r | None \<Rightarrow> False)
     | CmdReady _ \<Rightarrow> True)"

section \<open>The start\<close>

datatype cache_file = CacheMissing | CacheEmpty | CacheUnreadable | CacheHolds private_device_state

definition device_cacher_new ::
  "write_outcome \<Rightarrow> cache_file \<Rightarrow> device_error + (private_device_state option \<times> private_device_state)" where
  "device_cacher_new write file = (case file of
       CacheHolds device \<Rightarrow> Inr (Some device, device)
     | _ \<Rightarrow> (case write of WriteOk \<Rightarrow> Inr (Some LoggedOut, LoggedOut) | WriteFailed _ \<Rightarrow> Inl DeviceIoError))"

definition manager_spawn ::
  "write_outcome \<Rightarrow> cache_file \<Rightarrow> duration \<Rightarrow> nat \<Rightarrow> device_error + account_manager" where
  "manager_spawn write file initial_rotation_interval listener =
     and_then (device_cacher_new write file) (\<lambda>(cache, data).
     Inr \<lparr>am_cache = cache, am_data = data, am_rotation_interval = initial_rotation_interval,
          am_listeners = [listener], am_last_validation = None, am_validation_requests = [],
          am_expiry_requests = [], am_rotation_requests = [], am_data_requests = [], am_call = None,
          am_clock = 0, am_log = []\<rparr>)"

text \<open>The runs of the actor: the events it has handled, newest first, and its state.\<close>

inductive manager_run ::
  "(wg_key \<Rightarrow> wg_key) \<Rightarrow> device_world \<Rightarrow> account_manager \<Rightarrow> manager_event list \<Rightarrow> account_manager \<Rightarrow> bool"
  for public_key w m0 where
  start: "manager_run public_key w m0 [] m0"
| turn: "manager_run public_key w m0 evs m \<Longrightarrow> event_ready ev m \<Longrightarrow>
    manager_turn public_key w ev m = Running m' \<Longrightarrow> manager_run public_key w m0 (ev # evs) m'"

end
