(* ===== verification/Device_Correct.thy ===== *)
theory Device_Correct
  imports Device_Manager "HOL-Library.Multiset"
begin

text \<open>
  Invariants of the account manager: which device the API call in progress is for, that the cache
  and the listeners know the device state, and which requests are answered. One lemma per operation,
  one per command and result, then induction over runs.
\<close>

named_theorems manager_ops \<open>closed forms of the operations that only reply and notify\<close>

lemmas drain_defs [manager_ops] = drain_validation_def drain_rotation_def drain_expiry_def drain_data_def
  drain_device_requests_with_err_def send_all_eq send_reply_def emit_def

section \<open>The device a call is for\<close>

fun call_target :: "api_call \<Rightarrow> (account_number \<times> device_id) option" where
  "call_target (CallTimerRotation a i) = Some (a, i)"
| "call_target (CallOneshotRotation a i) = Some (a, i)"
| "call_target (CallValidation a i) = Some (a, i)"
| "call_target _ = None"

definition current_device :: "account_manager \<Rightarrow> (account_number \<times> device_id) option" where
  "current_device m = map_option (\<lambda>d. (pad_account_number d, pd_id (pad_device d))) (into_device (am_data m))"

definition call_for_current :: "account_manager \<Rightarrow> bool" where
  "call_for_current m = (\<forall>c t. am_call m = Some c \<longrightarrow> call_target c = Some t \<longrightarrow> current_device m = Some t)"

definition call_has_device :: "account_manager \<Rightarrow> bool" where
  "call_has_device m = (\<forall>c t. am_call m = Some c \<longrightarrow> call_target c = Some t \<longrightarrow> logged_in (am_data m))"

lemma call_for_current_has_device: "call_for_current m \<Longrightarrow> call_has_device m"
  by (auto simp: call_for_current_def call_has_device_def current_device_def logged_in_iff)

text \<open>A call that was set up for the device of the state.\<close>

lemma set_device_call [simp]: "set_device w ev m = (r, m') \<Longrightarrow> am_call m' = am_call m"
  by (auto simp: set_device_def cacher_write_def notify_def emit_def Let_def
      split: if_splits write_outcome.splits option.splits)

lemma revoke_device_call [simp]: "am_call (revoke_device w e m) = am_call m"
  by (simp add: revoke_device_def cacher_write_def notify_def manager_ops Let_def split: write_outcome.splits)

lemma notify_call [simp]: "am_call (notify w e m) = am_call m" "am_data (notify w e m) = am_data m"
  by (simp_all add: notify_def Let_def)

lemma drain_call [simp]:
  "am_call (drain_validation r m) = am_call m" "am_call (drain_rotation r m) = am_call m"
  "am_call (drain_expiry r m) = am_call m" "am_call (drain_data r m) = am_call m"
  "am_call (drain_device_requests_with_err e m) = am_call m" "am_call (send_reply tx r m) = am_call m"
  "am_data (drain_validation r m) = am_data m" "am_data (drain_rotation r m) = am_data m"
  "am_data (drain_expiry r m) = am_data m" "am_data (drain_data r m) = am_data m"
  "am_data (drain_device_requests_with_err e m) = am_data m" "am_data (send_reply tx r m) = am_data m"
  by (simp_all add: manager_ops)

text \<open>Consuming a result leaves no call, or a rotation for the device of the new state.\<close>

lemma rotate_if_requested_call:
  "am_call m = None \<Longrightarrow> call_for_current (rotate_if_requested m)"
  by (auto simp: rotate_if_requested_def call_for_current_def current_device_def split: option.splits)

lemma call_for_current_idle: "am_call m = None \<Longrightarrow> call_for_current m"
  by (simp add: call_for_current_def)

lemma consume_validation_call:
  assumes "am_call m = None" and "consume_validation pk w r m = Inr m'"
  shows "call_for_current m'"
  using assms
  by (auto simp: consume_validation_def split: option.splits sum.splits if_splits prod.splits
      intro!: rotate_if_requested_call)

lemma consume_api_result_call:
  assumes "am_call m = None" and "consume_api_result pk w r m = Inr m'"
  shows "call_for_current m'"
proof (cases r)
  case (ResultLogin data tx)
  with assms show ?thesis
    by (auto simp: consume_api_result_def consume_login_def Let_def split: sum.splits prod.splits
        intro!: call_for_current_idle)
next
  case (ResultRotation x)
  with assms show ?thesis
    by (auto simp: consume_api_result_def consume_rotation_result_def split: sum.splits prod.splits option.splits if_splits
        intro!: call_for_current_idle)
next
  case (ResultValidation x)
  with assms show ?thesis using consume_validation_call by (simp add: consume_api_result_def)
next
  case (ResultVoucher x tx)
  with assms show ?thesis
    by (auto simp: consume_api_result_def consume_voucher_result_def split: sum.splits intro!: call_for_current_idle)
next
  case (ResultExpiry x)
  with assms show ?thesis
    by (auto simp: consume_api_result_def consume_expiry_result_def split: sum.splits if_splits
        intro!: call_for_current_idle)
qed

text \<open>Results never panic when the call was for a device.\<close>

lemma consume_api_result_no_panic:
  assumes "logged_in (am_data m) \<or> (\<forall>x. r \<noteq> ResultRotation x) \<and> (\<forall>x. r \<noteq> ResultValidation x)"
  shows "\<exists>m'. consume_api_result pk w r m = Inr m'"
  using assms
  by (auto simp: consume_api_result_def consume_rotation_result_def consume_validation_def logged_in_iff
      private_device_update_def split: api_result.splits sum.splits prod.splits)

lemma arm_timed_rotation_simps [simp]:
  "am_data (arm_timed_rotation m) = am_data m" "am_log (arm_timed_rotation m) = am_log m"
  "am_cache (arm_timed_rotation m) = am_cache m" "am_clock (arm_timed_rotation m) = am_clock m"
  "am_listeners (arm_timed_rotation m) = am_listeners m"
  "am_validation_requests (arm_timed_rotation m) = am_validation_requests m"
  "am_rotation_requests (arm_timed_rotation m) = am_rotation_requests m"
  "am_expiry_requests (arm_timed_rotation m) = am_expiry_requests m"
  "am_data_requests (arm_timed_rotation m) = am_data_requests m"
  by (auto simp: arm_timed_rotation_def split: option.splits)

lemma arm_timed_rotation_call:
  assumes "call_has_device m"
  shows "call_has_device (arm_timed_rotation m)"
  using assms by (auto simp: call_has_device_def arm_timed_rotation_def spawn_timed_key_rotation_def logged_in_iff
      split: option.splits)

lemma arm_timed_rotation_current:
  assumes "call_for_current m"
  shows "call_for_current (arm_timed_rotation m)"
  using assms by (auto simp: call_for_current_def arm_timed_rotation_def spawn_timed_key_rotation_def current_device_def
      split: option.splits)

lemma needs_validation_simps:
  assumes "needs_validation w m = (b, m')"
  shows "am_call m' = am_call m" "am_data m' = am_data m" "am_log m' = am_log m" "am_cache m' = am_cache m"
    "am_clock m' = am_clock m" "am_listeners m' = am_listeners m"
    "am_validation_requests m' = am_validation_requests m" "am_rotation_requests m' = am_rotation_requests m"
    "am_expiry_requests m' = am_expiry_requests m"
  using assms by (auto simp: needs_validation_def Let_def split: if_splits option.splits)

lemma current_device_eq: "am_data m' = am_data m \<Longrightarrow> current_device m' = current_device m"
  by (simp add: current_device_def)

text \<open>Every command but \<open>SetData\<close> keeps the call on the current device; that one keeps a device.\<close>

lemma handle_command_current:
  assumes "call_for_current m" and "\<And>d tx. cmd \<noteq> CmdSetData d tx"
  shows "call_for_current (handle_command w cmd m)"
proof (cases cmd)
  case (CmdLogout tx)
  then show ?thesis
    by (auto simp: manager_logout_def cacher_write_def notify_def manager_ops Let_def
        split: write_outcome.splits option.splits intro!: call_for_current_idle)
next
  case (CmdValidateDevice tx)
  show ?thesis
  proof (cases "needs_validation w m")
    case (Pair b m')
    note n = needs_validation_simps [OF Pair]
    show ?thesis
      using assms(1) CmdValidateDevice Pair n current_device_eq [of m' m]
      by (auto simp: handle_validation_request_def call_for_current_def current_device_def manager_ops
          split: bool.splits option.splits)
  qed
qed (use assms in \<open>auto simp: call_for_current_def current_device_def handle_rotate_key_def
       handle_voucher_submission_def handle_expiry_request_def Let_def manager_ops split: option.splits\<close>)

lemma set_device_logged_in:
  assumes "logged_in (am_data m)" and "logged_in (event_state ev)" and "set_device w ev m = (r, m')"
  shows "logged_in (am_data m')"
  using assms
  by (auto simp: set_device_def cacher_write_def emit_def Let_def
      split: if_splits write_outcome.splits option.splits)

lemma handle_command_has_device:
  assumes "call_has_device m"
  shows "call_has_device (handle_command w cmd m)"
proof (cases cmd)
  case (CmdSetData d tx)
  obtain r m' where set: "set_device w (EventLogin d) m = (r, m')" by (cases "set_device w (EventLogin d) m")
  show ?thesis
    using assms set_device_logged_in [OF _ _ set] CmdSetData set
    by (auto simp: call_has_device_def logged_in_def)
next
  case (CmdLogout tx)
  then show ?thesis
    by (auto simp: manager_logout_def cacher_write_def notify_def manager_ops Let_def call_has_device_def
        split: write_outcome.splits option.splits)
next
  case (CmdValidateDevice tx)
  show ?thesis
  proof (cases "needs_validation w m")
    case (Pair b m')
    note n = needs_validation_simps [OF Pair]
    show ?thesis
      using assms(1) CmdValidateDevice Pair n
      by (auto simp: handle_validation_request_def call_has_device_def logged_in_def manager_ops
          split: bool.splits option.splits)
  qed
qed (use assms in \<open>auto simp: call_has_device_def logged_in_def handle_rotate_key_def
       handle_voucher_submission_def handle_expiry_request_def Let_def manager_ops split: option.splits\<close>)

section \<open>One turn\<close>

lemma manager_turn_cases:
  assumes "manager_turn pk w ev m = Running m'"
  obtains (api) r where "ev = ApiReady r" and "consume_api_result pk w r ((arm_timed_rotation m)\<lparr>am_call := None\<rparr>) = Inr m'"
  | (cmd) cmd where "ev = CmdReady (Some cmd)" and "m' = handle_command w cmd (arm_timed_rotation m)"
      and "\<And>tx. cmd \<noteq> CmdShutdown tx"
  using assms
  by (auto simp: manager_turn_def Let_def split: manager_event.splits sum.splits option.splits manager_command.splits)

lemma manager_turn_has_device:
  assumes "call_has_device m" and "manager_turn pk w ev m = Running m'"
  shows "call_has_device m'"
  using assms(2)
proof (cases rule: manager_turn_cases)
  case (api r)
  show ?thesis by (rule call_for_current_has_device, rule consume_api_result_call [OF _ api(2)]) simp
next
  case (cmd cmd)
  then show ?thesis using handle_command_has_device arm_timed_rotation_call assms(1) by blast
qed

lemma manager_turn_current:
  assumes "call_for_current m" and "manager_turn pk w ev m = Running m'"
    and "\<And>d tx. ev \<noteq> CmdReady (Some (CmdSetData d tx))"
  shows "call_for_current m'"
  using assms(2)
proof (cases rule: manager_turn_cases)
  case (api r)
  show ?thesis by (rule consume_api_result_call [OF _ api(2)]) simp
next
  case (cmd cmd)
  then show ?thesis using handle_command_current arm_timed_rotation_current assms(1,3) by blast
qed

text \<open>A result that panics needs a call for a device that is gone.\<close>

lemma manager_turn_no_panic:
  assumes "call_has_device m" and "event_ready ev m"
  shows "manager_turn pk w ev m \<noteq> Panicked msg"
proof (cases ev)
  case (ApiReady r)
  then obtain c where c: "am_call (arm_timed_rotation m) = Some c" "completes c r"
    using assms(2) by (auto simp: event_ready_def split: option.splits)
  have dev: "call_has_device (arm_timed_rotation m)" by (rule arm_timed_rotation_call [OF assms(1)])
  have "logged_in (am_data m) \<or> (\<forall>x. r \<noteq> ResultRotation x) \<and> (\<forall>x. r \<noteq> ResultValidation x)"
    using c dev by (cases c; cases r) (auto simp: call_has_device_def)
  then obtain m' where "consume_api_result pk w r ((arm_timed_rotation m)\<lparr>am_call := None\<rparr>) = Inr m'"
    using consume_api_result_no_panic [of "(arm_timed_rotation m)\<lparr>am_call := None\<rparr>" r pk w] by auto
  then show ?thesis using ApiReady by (simp add: manager_turn_def Let_def)
qed (auto simp: manager_turn_def Let_def split: option.splits manager_command.splits)

lemma manager_spawn_idle: "manager_spawn wr file ivl l = Inr m \<Longrightarrow> am_call m = None"
  by (auto simp: manager_spawn_def)

lemma manager_run_has_device:
  assumes "manager_run pk w m0 evs m" and "am_call m0 = None"
  shows "call_has_device m"
  using assms
proof induction
  case start
  then show ?case by (simp add: call_has_device_def)
qed (blast intro: manager_turn_has_device)

lemma manager_run_current:
  assumes "manager_run pk w m0 evs m" and "am_call m0 = None"
    and "\<forall>d tx. CmdReady (Some (CmdSetData d tx)) \<notin> set evs"
  shows "call_for_current m"
  using assms
proof induction
  case start
  then show ?case by (simp add: call_for_current_def)
next
  case (turn evs m ev m')
  have "call_for_current m" using turn.IH turn.prems by simp
  then show ?case by (rule manager_turn_current [OF _ turn.hyps(3)]) (use turn.prems(2) in \<open>metis list.set_intros(1)\<close>)
qed

section \<open>The cache and the listeners\<close>

text \<open>The device state a listener knows: the one it started with, updated by the events it was sent.\<close>

fun known_state :: "private_device_state \<Rightarrow> nat \<Rightarrow> manager_effect list \<Rightarrow> private_device_state" where
  "known_state d l [] = d"
| "known_state d l (Notified l' (DeviceChanged e) # log) = (if l = l' then event_state e else known_state d l log)"
| "known_state d l (_ # log) = known_state d l log"

lemma known_state_replies [simp]:
  "known_state d l (map (\<lambda>tx. Replied tx r) txs @ log) = known_state d l log"
  by (induction txs) auto

lemma known_state_expiry [simp]:
  "known_state d l (map (\<lambda>l. Notified l (Expiry t)) ls @ log) = known_state d l log"
  by (induction ls) auto

lemma known_state_notified [simp]:
  "known_state d l (map (\<lambda>l. Notified l (DeviceChanged e)) ls @ log) =
     (if l \<in> set ls then event_state e else known_state d l log)"
  by (induction ls) auto

text \<open>
  Every listener still reachable knows the device state, and as long as no write has failed the
  cache holds it.
\<close>

definition in_sync :: "private_device_state \<Rightarrow> device_world \<Rightarrow> account_manager \<Rightarrow> bool" where
  "in_sync d w m \<longleftrightarrow> (\<forall>l \<in> set (am_listeners m). known_state d l (am_log m) = am_data m) \<and>
     ((\<forall>n < am_clock m. dw_write w n = WriteOk) \<longrightarrow> am_cache m = Some (am_data m))"

lemma in_sync_fields [simp]:
  "in_sync d w (m\<lparr>am_call := c\<rparr>) = in_sync d w m"
  "in_sync d w (m\<lparr>am_validation_requests := x\<rparr>) = in_sync d w m"
  "in_sync d w (m\<lparr>am_rotation_requests := x\<rparr>) = in_sync d w m"
  "in_sync d w (m\<lparr>am_expiry_requests := x\<rparr>) = in_sync d w m"
  "in_sync d w (m\<lparr>am_data_requests := x\<rparr>) = in_sync d w m"
  "in_sync d w (m\<lparr>am_rotation_interval := i\<rparr>) = in_sync d w m"
  "in_sync d w (m\<lparr>am_last_validation := t\<rparr>) = in_sync d w m"
  by (simp_all add: in_sync_def)

lemma in_sync_arm [simp]: "in_sync d w (arm_timed_rotation m) = in_sync d w m"
  by (simp add: in_sync_def)

lemma in_sync_needs_validation: "needs_validation w m = (b, m') \<Longrightarrow> in_sync d w m' = in_sync d w m"
  by (simp add: in_sync_def needs_validation_simps)

lemma in_sync_drain:
  assumes "in_sync d w m"
  shows "in_sync d w (drain_validation r m)" "in_sync d w (drain_rotation r m)" "in_sync d w (drain_expiry r m)"
    "in_sync d w (drain_data r m)" "in_sync d w (drain_device_requests_with_err e m)" "in_sync d w (send_reply tx r m)"
  using assms by (auto simp: in_sync_def manager_ops rev_map)

lemma in_sync_expiry:
  assumes "in_sync d w m"
  shows "in_sync d w (notify w (Expiry t) m)"
  using assms by (auto simp: in_sync_def notify_def rev_map Let_def)

lemma in_sync_set_device:
  assumes "in_sync d w m" and "set_device w ev m = (r, m')"
  shows "in_sync d w m'"
  using assms
  by (auto simp: in_sync_def set_device_def cacher_write_def notify_def emit_def rev_map Let_def
      split: if_splits write_outcome.splits option.splits)

text \<open>After a change of the state all reachable listeners are told; the write has to come first.\<close>

lemma in_sync_notify:
  assumes "event_state e = am_data m" and "(\<forall>n < am_clock m. dw_write w n = WriteOk) \<longrightarrow> am_cache m = Some (am_data m)"
  shows "in_sync d w (notify w (DeviceChanged e) m)"
  using assms by (auto simp: in_sync_def notify_def rev_map Let_def)

lemma cacher_write_simps:
  "am_clock (snd (cacher_write w s m)) = Suc (am_clock m)"
  "dw_write w (am_clock m) = WriteOk \<Longrightarrow> am_cache (snd (cacher_write w s m)) = Some s"
  by (auto simp: cacher_write_def Let_def split: write_outcome.splits)

lemma in_sync_revoke: "in_sync d w (revoke_device w e m)"
proof -
  define m1 where "m1 = (snd (cacher_write w Revoked m))\<lparr>am_data := Revoked\<rparr>"
  define m2 where "m2 = drain_expiry (Inl e) (drain_rotation (Inl e) (drain_validation (Inl e) m1))"
  have "am_clock m2 \<ge> Suc (am_clock m)" "am_cache m2 = am_cache m1" "am_data m2 = Revoked"
    by (simp_all add: m2_def m1_def manager_ops cacher_write_simps)
  moreover have "dw_write w (am_clock m) = WriteOk \<Longrightarrow> am_cache m1 = Some Revoked"
    by (simp add: m1_def cacher_write_simps)
  ultimately have "in_sync d w (notify w (DeviceChanged EventRevoked) m2)"
    by (intro in_sync_notify) (auto simp: Suc_le_eq)
  then show ?thesis by (simp add: revoke_device_def m2_def m1_def Let_def)
qed

lemma in_sync_logout:
  assumes "in_sync d w m"
  shows "in_sync d w (manager_logout w tx m)"
proof -
  let ?m = "drain_data (Inl AccountChange) m"
  have sync: "in_sync d w ?m" by (rule in_sync_drain(4) [OF assms])
  have fails: "in_sync d w (?m\<lparr>am_clock := Suc (am_clock ?m), am_cache := c\<rparr>)"
    if "dw_write w (am_clock ?m) = WriteFailed c" for c
    using sync that by (auto simp: in_sync_def simp del: drain_call)
  have spawned: "in_sync d w (emit (SpawnLogout a i t) m')" if "in_sync d w m'" for a i t m'
    using that by (auto simp: in_sync_def emit_def)
  show ?thesis
    using sync fails
    by (auto simp: manager_logout_def cacher_write_def Let_def split: write_outcome.splits option.splits
        intro!: in_sync_drain spawned in_sync_notify)
qed

lemma in_sync_command:
  assumes "in_sync d w m"
  shows "in_sync d w (handle_command w cmd m)"
proof (cases cmd)
  case (CmdSetData x tx)
  then show ?thesis
    by (auto split: prod.splits intro!: in_sync_drain dest: in_sync_set_device [OF assms])
next
  case (CmdValidateDevice tx)
  obtain b m' where n: "needs_validation w m = (b, m')" by (cases "needs_validation w m")
  show ?thesis
    using CmdValidateDevice n assms in_sync_needs_validation [OF n]
    by (auto simp: handle_validation_request_def split: bool.splits option.splits intro!: in_sync_drain)
next
  case (CmdShutdown tx)
  with assms show ?thesis by (auto simp: in_sync_def emit_def)
qed (use assms in \<open>auto simp: handle_rotate_key_def handle_voucher_submission_def handle_expiry_request_def Let_def
       split: option.splits intro!: in_sync_drain in_sync_logout\<close>)

lemma in_sync_rotate_if_requested: "in_sync d w (rotate_if_requested m) = in_sync d w m"
  by (auto simp: rotate_if_requested_def split: option.splits)

lemma in_sync_validation:
  assumes "in_sync d w m" and "consume_validation pk w r m = Inr m'"
  shows "in_sync d w m'"
  using assms
  by (auto simp: consume_validation_def in_sync_rotate_if_requested split: option.splits sum.splits if_splits prod.splits
      intro!: in_sync_drain in_sync_revoke dest: in_sync_set_device [OF assms(1)])

lemma in_sync_rotation:
  assumes "in_sync d w m" and "consume_rotation_result w r m = Inr m'"
  shows "in_sync d w m'"
  using assms
  by (auto simp: consume_rotation_result_def split: option.splits sum.splits if_splits prod.splits
      intro!: in_sync_drain in_sync_revoke dest: in_sync_set_device [OF assms(1)])

lemma in_sync_login:
  assumes "in_sync d w m"
  shows "in_sync d w (consume_login w r tx m)"
  using assms
  by (auto simp: consume_login_def Let_def split: sum.splits prod.splits
      intro!: in_sync_drain dest: in_sync_set_device [OF assms])

lemma in_sync_result:
  assumes "in_sync d w m" and "consume_api_result pk w r m = Inr m'"
  shows "in_sync d w m'"
  using assms
  by (auto simp: consume_api_result_def consume_voucher_result_def consume_expiry_result_def
      split: api_result.splits sum.splits if_splits
      intro!: in_sync_drain in_sync_revoke in_sync_expiry in_sync_login
      dest: in_sync_rotation [OF assms(1)] in_sync_validation [OF assms(1)])

lemma in_sync_turn:
  assumes "in_sync d w m" and "manager_turn pk w ev m = Running m'"
  shows "in_sync d w m'"
  using assms(2)
proof (cases rule: manager_turn_cases)
  case (api r)
  show ?thesis by (rule in_sync_result [OF _ api(2)]) (simp add: assms(1))
next
  case (cmd cmd)
  then show ?thesis using assms(1) by (simp add: in_sync_command)
qed

lemma in_sync_spawn: "manager_spawn wr file ivl l = Inr m \<Longrightarrow> in_sync (am_data m) w m"
  by (auto simp: manager_spawn_def device_cacher_new_def in_sync_def split: cache_file.splits write_outcome.splits)

lemma manager_run_in_sync:
  assumes "manager_run pk w m0 evs m" and "in_sync d w m0"
  shows "in_sync d w m"
  using assms by induction (blast intro: in_sync_turn)+

section \<open>Requests\<close>

text \<open>
  The senders of requests, counted: those that wait in a list, the one that the API call in progress
  holds, and those that were replied to or handed to the task that logs a device out and then replies.
\<close>

definition waiting :: "account_manager \<Rightarrow> nat list" where
  "waiting m = am_validation_requests m @ am_rotation_requests m @ am_expiry_requests m @ am_data_requests m"

fun call_sender :: "api_call \<Rightarrow> nat list" where
  "call_sender (CallLogin number tx) = [tx]"
| "call_sender (CallVoucher number voucher tx) = [tx]"
| "call_sender _ = []"

definition held :: "account_manager \<Rightarrow> nat list" where
  "held m = (case am_call m of Some c \<Rightarrow> call_sender c | None \<Rightarrow> [])"

fun settles :: "manager_effect \<Rightarrow> nat list" where
  "settles (Replied tx r) = [tx]"
| "settles (SpawnLogout number device (Some tx)) = [tx]"
| "settles _ = []"

definition settled :: "account_manager \<Rightarrow> nat multiset" where
  "settled m = mset (concat (map settles (am_log m)))"

definition ledger :: "account_manager \<Rightarrow> nat multiset" where
  "ledger m = settled m + mset (waiting m)"

lemmas ledger_defs = ledger_def settled_def waiting_def

lemma settles_replied [simp]: "concat (map (settles \<circ> (\<lambda>tx. Replied tx r)) txs) = txs"
  "concat (map settles (rev (map (\<lambda>tx. Replied tx r) txs))) = rev txs"
  "concat (map settles (rev (map (\<lambda>l. Notified l e) ls))) = []"
  by (induction txs) simp_all

lemma ledger_update [simp]:
  "ledger (m\<lparr>am_data := d\<rparr>) = ledger m" "ledger (m\<lparr>am_call := c\<rparr>) = ledger m"
  "ledger (m\<lparr>am_last_validation := t\<rparr>) = ledger m" "ledger (m\<lparr>am_rotation_interval := i\<rparr>) = ledger m"
  by (simp_all add: ledger_defs)

lemma ledger_reply [simp]:
  "ledger (send_reply tx r m) = add_mset tx (ledger m)"
  "ledger (drain_validation r m) = ledger m" "ledger (drain_rotation r m) = ledger m"
  "ledger (drain_expiry r m) = ledger m" "ledger (drain_data r m) = ledger m"
  "ledger (drain_device_requests_with_err e m) = ledger m"
  by (simp_all add: ledger_defs manager_ops)

lemma ledger_notify [simp]: "ledger (notify w e m) = ledger m"
  by (simp add: ledger_defs notify_def Let_def)

lemma ledger_write [simp]: "ledger (snd (cacher_write w s m)) = ledger m"
  by (simp add: ledger_defs cacher_write_def Let_def split: write_outcome.splits)

lemma ledger_write_eq [simp]: "cacher_write w s m = (r, m') \<Longrightarrow> ledger m' = ledger m"
  using ledger_write [of w s m] by simp

lemma ledger_spawn_logout [simp]:
  "ledger (emit (SpawnLogout number device None) m) = ledger m"
  "ledger (emit (SpawnLogout number device (Some tx)) m) = add_mset tx (ledger m)"
  by (simp_all add: ledger_defs emit_def)

lemma set_device_ledger [simp]: "set_device w ev m = (r, m') \<Longrightarrow> ledger m' = ledger m"
  by (auto simp: set_device_def Let_def split: if_splits prod.splits sum.splits option.splits)

lemma set_device_lists:
  assumes "set_device w ev m = (r, m')"
  shows "am_validation_requests m' = am_validation_requests m" "am_rotation_requests m' = am_rotation_requests m"
    "am_expiry_requests m' = am_expiry_requests m" "am_data_requests m' = am_data_requests m"
  using assms
  by (auto simp: set_device_def cacher_write_def notify_def emit_def Let_def
      split: if_splits write_outcome.splits option.splits)

text \<open>Revoking answers everything but requests for the state after a login.\<close>

lemma revoke_device_requests:
  "am_validation_requests (revoke_device w e m) = []" "am_rotation_requests (revoke_device w e m) = []"
  "am_expiry_requests (revoke_device w e m) = []"
  by (simp_all add: revoke_device_def notify_def manager_ops Let_def)

lemma ledger_revoke [simp]: "ledger (revoke_device w e m) = ledger m"
  by (simp add: revoke_device_def Let_def)

lemma ledger_rotate [simp]: "ledger (rotate_if_requested m) = ledger m"
  by (simp add: rotate_if_requested_def split: option.splits)

lemma ledger_logout [simp]: "ledger (manager_logout w tx m) = add_mset tx (ledger m)"
  by (auto simp: manager_logout_def Let_def split: prod.splits sum.splits option.splits)

subsection \<open>Results and commands\<close>

fun result_sender :: "api_result \<Rightarrow> nat list" where
  "result_sender (ResultLogin r tx) = [tx]"
| "result_sender (ResultVoucher r tx) = [tx]"
| "result_sender _ = []"

lemma completes_sender: "completes c r \<Longrightarrow> result_sender r = call_sender c"
  by (induction c r rule: completes.induct) simp_all

lemma ledger_result:
  assumes "consume_api_result pk w r m = Inr m'"
  shows "ledger m' = ledger m + mset (result_sender r)"
  using assms
  by (auto simp: consume_api_result_def consume_login_def consume_voucher_result_def consume_expiry_result_def
      consume_rotation_result_def consume_validation_def Let_def
      split: api_result.splits sum.splits if_splits option.splits prod.splits)

fun command_sender :: "manager_command \<Rightarrow> nat" where
  "command_sender (CmdLogin number tx) = tx"
| "command_sender (CmdLogout tx) = tx"
| "command_sender (CmdSetData data tx) = tx"
| "command_sender (CmdGetData tx) = tx"
| "command_sender (CmdGetDataAfterLogin tx) = tx"
| "command_sender (CmdRotateKey tx) = tx"
| "command_sender (CmdSetRotationInterval interval tx) = tx"
| "command_sender (CmdValidateDevice tx) = tx"
| "command_sender (CmdSubmitVoucher voucher tx) = tx"
| "command_sender (CmdCheckExpiry tx) = tx"
| "command_sender (CmdShutdown tx) = tx"

lemma ledger_append [simp]:
  "ledger (m\<lparr>am_validation_requests := am_validation_requests m @ [tx]\<rparr>) = add_mset tx (ledger m)"
  "ledger (m\<lparr>am_rotation_requests := am_rotation_requests m @ [tx]\<rparr>) = add_mset tx (ledger m)"
  "ledger (m\<lparr>am_expiry_requests := am_expiry_requests m @ [tx]\<rparr>) = add_mset tx (ledger m)"
  "ledger (m\<lparr>am_data_requests := am_data_requests m @ [tx]\<rparr>) = add_mset tx (ledger m)"
  "ledger (m\<lparr>am_call := c, am_validation_requests := am_validation_requests m @ [tx]\<rparr>) = add_mset tx (ledger m)"
  "ledger (m\<lparr>am_last_validation := t, am_call := c, am_validation_requests := am_validation_requests m @ [tx]\<rparr>) =
     add_mset tx (ledger m)"
  "ledger (m\<lparr>am_call := c, am_rotation_requests := am_rotation_requests m @ [tx]\<rparr>) = add_mset tx (ledger m)"
  "ledger (m\<lparr>am_call := c, am_expiry_requests := am_expiry_requests m @ [tx]\<rparr>) = add_mset tx (ledger m)"
  by (simp_all add: ledger_defs)

lemma manager_logout_call: "am_call (manager_logout w tx m) = am_call m"
  by (simp add: manager_logout_def cacher_write_def notify_def manager_ops Let_def
      split: write_outcome.splits option.splits)

text \<open>
  A command may replace or cancel the call in progress, which drops the sender that the call holds;
  only logins and voucher submissions are held by a call.
\<close>

fun holding_sender :: "manager_command \<Rightarrow> nat list" where
  "holding_sender (CmdLogin number tx) = [tx]"
| "holding_sender (CmdSubmitVoucher voucher tx) = [tx]"
| "holding_sender _ = []"

lemma ledger_command:
  assumes "\<And>tx. cmd \<noteq> CmdShutdown tx" and "m' = handle_command w cmd m"
  obtains dropped where
    "ledger m' + mset (held m') + dropped = ledger m + mset (held m) + {#command_sender cmd#}"
    "mset (held m') + dropped \<subseteq># mset (held m) + mset (holding_sender cmd)"
proof -
  have keeps: "ledger m' + mset (held m') + {#} = ledger m + mset (held m) + {#command_sender cmd#} \<and>
      mset (held m') + {#} \<subseteq># mset (held m) + mset (holding_sender cmd)"
    if "am_call m' = am_call m" "ledger m' = add_mset (command_sender cmd) (ledger m)"
    using that by (simp add: held_def)
  have drops: "ledger m' + mset (held m') + mset (held m) = ledger m + mset (held m) + {#command_sender cmd#} \<and>
      mset (held m') + mset (held m) \<subseteq># mset (held m) + mset (holding_sender cmd)"
    if "ledger m' + mset (held m') = add_mset (command_sender cmd) (ledger m)"
      "mset (held m') \<subseteq># mset (holding_sender cmd)"
    using that by (metis add.commute add_mset_add_single subset_mset.add_le_cancel_right union_mset_add_mset_left)
  have "am_call m' = am_call m \<and> ledger m' = add_mset (command_sender cmd) (ledger m) \<or>
      ledger m' + mset (held m') = add_mset (command_sender cmd) (ledger m) \<and>
        mset (held m') \<subseteq># mset (holding_sender cmd)"
  proof (cases cmd)
    case (CmdLogin number tx)
    with assms(2) show ?thesis by (simp add: held_def)
  next
    case (CmdLogout tx)
    with assms(2) show ?thesis by (simp add: held_def manager_logout_call)
  next
    case (CmdShutdown tx)
    with assms(1) show ?thesis by blast
  qed (use assms(2) in \<open>auto simp: held_def handle_rotate_key_def handle_validation_request_def needs_validation_def
       handle_voucher_submission_def handle_expiry_request_def ledger_append Let_def split: if_splits option.splits
       prod.splits\<close>)
  with keeps drops that show thesis by blast
qed

text \<open>Over a turn and over a run: nothing is lost but what a replaced call held.\<close>

lemma ledger_arm [simp]: "ledger (arm_timed_rotation m) = ledger m" "held (arm_timed_rotation m) = held m"
  by (simp_all add: arm_timed_rotation_def spawn_timed_key_rotation_def held_def split: option.splits)

lemma consume_api_result_held:
  "consume_api_result pk w r m = Inr m' \<Longrightarrow> am_call m = None \<Longrightarrow> held m' = []"
  by (auto simp: consume_api_result_def consume_login_def consume_voucher_result_def consume_expiry_result_def
      consume_rotation_result_def consume_validation_def rotate_if_requested_def held_def Let_def
      dest!: set_device_call
      split: api_result.splits sum.splits if_splits option.splits prod.splits)

lemma ledger_turn_api:
  assumes "event_ready (ApiReady r) m" and "manager_turn pk w (ApiReady r) m = Running m'"
  shows "ledger m' = ledger m + mset (held m)" and "held m' = []"
proof -
  obtain c where c: "am_call (arm_timed_rotation m) = Some c" "completes c r"
    using assms(1) by (auto simp: event_ready_def split: option.splits)
  have m': "consume_api_result pk w r ((arm_timed_rotation m)\<lparr>am_call := None\<rparr>) = Inr m'"
    using assms(2) by (cases rule: manager_turn_cases) auto
  have "held m = result_sender r"
    using c completes_sender ledger_arm(2) [of m] by (metis held_def option.case(2))
  with ledger_result [OF m'] show "ledger m' = ledger m + mset (held m)" by simp
  show "held m' = []" using consume_api_result_held [OF m'] by simp
qed

fun event_senders :: "manager_event \<Rightarrow> nat list" where
  "event_senders (CmdReady (Some cmd)) = [command_sender cmd]"
| "event_senders _ = []"

fun event_holding :: "manager_event \<Rightarrow> nat list" where
  "event_holding (CmdReady (Some cmd)) = holding_sender cmd"
| "event_holding _ = []"

lemma ledger_run:
  assumes "manager_run pk w m0 evs m" and "ledger m0 = {#}" and "held m0 = []"
  shows "\<exists>dropped. ledger m + mset (held m) + dropped = mset (concat (map event_senders evs)) \<and>
    mset (held m) + dropped \<subseteq># mset (concat (map event_holding evs))"
  using assms
proof induction
  case (turn evs m ev m')
  then obtain dropped where d: "ledger m + mset (held m) + dropped = mset (concat (map event_senders evs))"
    "mset (held m) + dropped \<subseteq># mset (concat (map event_holding evs))" by blast
  from turn(3) show ?case
  proof (cases rule: manager_turn_cases)
    case (api r)
    with ledger_turn_api turn(2,3) have "ledger m' = ledger m + mset (held m)" "held m' = []" by blast+
    moreover have "dropped \<subseteq># mset (concat (map event_holding evs))"
      using d(2) by (metis mset_subset_eq_add_right subset_mset.order_trans)
    ultimately show ?thesis
      using api d by (intro exI [of _ dropped]) simp
  next
    case (cmd cmd)
    from ledger_command [OF cmd(3,2)] obtain dr where
      "ledger m' + mset (held m') + dr = ledger m + mset (held m) + {#command_sender cmd#}"
      "mset (held m') + dr \<subseteq># mset (held m) + mset (holding_sender cmd)" by auto
    moreover from this(2) d(2) have "mset (held m') + (dr + dropped) \<subseteq>#
        mset (holding_sender cmd) + mset (concat (map event_holding evs))"
      using subset_mset.add_mono [of "mset (held m') + dr" "mset (held m) + mset (holding_sender cmd)"]
      by (smt (verit) add.assoc add.commute subset_mset.add_le_cancel_left subset_mset.add_mono subset_mset.order_trans)
    ultimately show ?thesis
      using cmd(1) d(1) by (intro exI [of _ "dr + dropped"])
        (simp add: ac_simps, metis add.assoc add.commute add_mset_add_single)
  qed
qed simp

text \<open>A finished call answers the requests that wait for it, or hands them to a rotation that is started.\<close>

definition requests_served :: "api_result \<Rightarrow> account_manager \<Rightarrow> bool" where
  "requests_served r m = (case r of
       ResultLogin response tx \<Rightarrow>
         (case response of
            Inl e \<Rightarrow> Replied tx (Inl e) \<in> set (am_log m)
          | Inr data \<Rightarrow> Replied tx (Inr ReplyUnit) \<in> set (am_log m) \<and> am_data m = LoggedIn data \<or>
              (\<exists>e. Replied tx (Inl e) \<in> set (am_log m))) \<and> am_data_requests m = []
     | ResultRotation _ \<Rightarrow> am_validation_requests m = [] \<and> am_rotation_requests m = []
     | ResultValidation _ \<Rightarrow>
         am_validation_requests m = [] \<and> am_rotation_requests m = [] \<or>
         (\<exists>a i. am_call m = Some (CallOneshotRotation a i) \<and> current_device m = Some (a, i))
     | ResultVoucher response tx \<Rightarrow>
         Replied tx (case response of Inl e \<Rightarrow> Inl e | Inr s \<Rightarrow> Inr (ReplyVoucher s)) \<in> set (am_log m)
     | ResultExpiry _ \<Rightarrow> am_expiry_requests m = [])"

lemma rotate_if_requested_serves:
  "am_validation_requests (rotate_if_requested m) = [] \<and> am_rotation_requests (rotate_if_requested m) = [] \<or>
   \<not> logged_in (am_data m) \<or>
   (\<exists>a i. am_call (rotate_if_requested m) = Some (CallOneshotRotation a i) \<and>
      current_device (rotate_if_requested m) = Some (a, i))"
  by (auto simp: rotate_if_requested_def current_device_def logged_in_iff split: option.splits)

lemma rotate_if_requested_lists:
  "am_validation_requests (rotate_if_requested m) = am_validation_requests m"
  "am_rotation_requests (rotate_if_requested m) = am_rotation_requests m"
  by (simp_all add: rotate_if_requested_def split: option.splits)

lemma consume_validation_serves:
  assumes "consume_validation pk w r m = Inr m'"
  shows "requests_served (ResultValidation r) m'"
proof -
  obtain d where d: "am_data m = LoggedIn d"
    using assms by (auto simp: consume_validation_def split: option.splits)
  obtain m1 where m1: "m' = rotate_if_requested m1"
    and "logged_in (am_data m1) \<or> am_validation_requests m1 = [] \<and> am_rotation_requests m1 = []"
    using assms d
    by (force simp: consume_validation_def revoke_device_requests logged_in_iff
        dest: set_device_logged_in [of m _ w, unfolded logged_in_iff, rotated 2]
        split: sum.splits if_splits prod.splits)
  then show ?thesis
    using rotate_if_requested_serves [of m1] by (auto simp: requests_served_def rotate_if_requested_lists)
qed

lemma set_device_login:
  "set_device w (EventLogin data) m = (Inr u, m') \<Longrightarrow> am_data m' = LoggedIn data"
  by (auto simp: set_device_def cacher_write_def Let_def
      split: if_splits write_outcome.splits option.splits)

lemma consume_api_result_serves:
  assumes "consume_api_result pk w r m = Inr m'"
  shows "requests_served r m'"
proof (cases r)
  case (ResultValidation x)
  then show ?thesis using assms consume_validation_serves by (simp add: consume_api_result_def)
qed (use assms in \<open>auto simp: consume_api_result_def consume_login_def consume_voucher_result_def
       consume_expiry_result_def consume_rotation_result_def requests_served_def revoke_device_requests
       manager_ops Let_def dest!: set_device_login split: sum.splits if_splits option.splits prod.splits\<close>)

section \<open>Requests abandoned by a logout\<close>

definition lists_of :: "account_manager \<Rightarrow> nat list \<times> nat list \<times> nat list" where
  "lists_of m = (am_validation_requests m, am_rotation_requests m, am_expiry_requests m)"

lemma manager_logout_lists: "lists_of (manager_logout w tx m) = lists_of m" "am_call (manager_logout w tx m) = am_call m"
  by (simp_all add: manager_logout_call manager_logout_def lists_of_def cacher_write_def notify_def manager_ops Let_def
      split: write_outcome.splits option.splits)

lemma manager_logout_not_logged_in:
  "\<not> logged_in (am_data m) \<Longrightarrow> \<not> logged_in (am_data (manager_logout w tx m))"
  by (auto simp: manager_logout_def logged_in_def logged_out_def cacher_write_def notify_def manager_ops Let_def
      split: write_outcome.splits option.splits private_device_state.splits)

definition dormant :: "account_manager \<Rightarrow> bool" where
  "dormant m = (am_call m = None \<and> \<not> logged_in (am_data m))"

lemma dormant_no_device: "dormant m \<Longrightarrow> into_device (am_data m) = None"
  by (cases "am_data m") (simp_all add: dormant_def logged_in_def)

text \<open>Without a device nothing but a login (or data set from outside) changes the pending requests.\<close>

lemma dormant_command:
  assumes "dormant m" and "\<And>a tx. cmd \<noteq> CmdLogin a tx" and "\<And>d tx. cmd \<noteq> CmdSetData d tx"
  shows "dormant (handle_command w cmd m) \<and> lists_of (handle_command w cmd m) = lists_of m"
proof (cases cmd)
  case (CmdLogout tx)
  with assms(1) show ?thesis
    by (simp add: dormant_def manager_logout_lists manager_logout_not_logged_in) (simp add: lists_of_def)
qed (use assms dormant_no_device [OF assms(1)] in \<open>auto simp: dormant_def lists_of_def handle_rotate_key_def
       handle_validation_request_def needs_validation_def handle_voucher_submission_def handle_expiry_request_def
       is_logging_in_def is_validating_def is_checking_expiry_def is_running_timed_rotation_def Let_def manager_ops\<close>)

lemma dormant_arm: "dormant m \<Longrightarrow> arm_timed_rotation m = m"
  by (frule dormant_no_device) (simp add: dormant_def arm_timed_rotation_def spawn_timed_key_rotation_def)

definition is_login :: "manager_event \<Rightarrow> bool" where
  "is_login ev = (case ev of CmdReady (Some (CmdLogin _ _)) \<Rightarrow> True | CmdReady (Some (CmdSetData _ _)) \<Rightarrow> True | _ \<Rightarrow> False)"

lemma dormant_run:
  assumes "manager_run pk w m0 evs m" and "dormant m0" and "\<forall>ev \<in> set evs. \<not> is_login ev"
  shows "dormant m \<and> lists_of m = lists_of m0"
  using assms
proof induction
  case (turn evs m ev m')
  then have m: "dormant m" "lists_of m = lists_of m0" and ev: "\<not> is_login ev" by auto
  from turn.hyps(3) show ?case
  proof (cases rule: manager_turn_cases)
    case (api r)
    then show ?thesis using turn.hyps(2) m(1) dormant_arm [OF m(1)] by (simp add: event_ready_def dormant_def)
  next
    case (cmd cmd)
    have "cmd \<noteq> CmdLogin a tx" "cmd \<noteq> CmdSetData d tx" for a d tx using ev cmd(1) by (auto simp: is_login_def)
    from dormant_command [OF m(1) this] show ?thesis using cmd(2) dormant_arm [OF m(1)] m(2) by simp
  qed
qed simp

end
