(* ===== verification/Device_Properties.thy ===== *)
theory Device_Properties
  imports Device_Correct Device_Check
begin

text \<open>
  The properties of accounts and devices: the account manager in every run, how requests to the API
  are retried and held back, and when a device is checked, with a small example.
\<close>

section \<open>An example\<close>

definition ex_device_world :: device_world where
  "ex_device_world = \<lparr>dw_write = (\<lambda>_. WriteOk), dw_listener_ok = (\<lambda>_ _. True), dw_now = (\<lambda>_. 0)\<rparr>"

definition ex_account :: private_account_and_device where
  "ex_account =
     \<lparr>pad_account_number = ''1234'',
      pad_device = \<lparr>pd_id = ''id'', pd_name = ''happy seagull'',
        pd_wg_data = \<lparr>wd_private_key = [1],
          wd_addresses = \<lparr>aa_ipv4_address = (0x0A400007, 32), aa_ipv6_address = (1, 128)\<rparr>, wd_created = 0\<rparr>,
        pd_hijack_dns = False, pd_created = 0\<rparr>\<rparr>"

definition ex_manager :: account_manager where
  "ex_manager = projr (manager_spawn WriteOk (CacheHolds (LoggedIn ex_account)) 0 7)"

lemma ex_manager_spawn:
  "manager_spawn WriteOk (CacheHolds (LoggedIn ex_account)) 0 7 = Inr ex_manager"
  by (simp add: ex_manager_def manager_spawn_def device_cacher_new_def)

lemma ex_manager_data: "am_data ex_manager = LoggedIn ex_account" "am_call ex_manager = None"
  by (simp_all add: ex_manager_def manager_spawn_def device_cacher_new_def)

text \<open>A validation that is requested, and the answer of the API.\<close>

definition ex_events :: "manager_event list" where
  "ex_events = [ApiReady (ResultValidation (Inl InvalidDevice)), CmdReady (Some (CmdValidateDevice 3))]"

definition ex_validating :: account_manager where
  "ex_validating = handle_command ex_device_world (CmdValidateDevice 3) (arm_timed_rotation ex_manager)"

lemma ex_validating_run: "manager_run id ex_device_world ex_manager [CmdReady (Some (CmdValidateDevice 3))] ex_validating"
  by (rule manager_run.turn [OF manager_run.start]) (simp_all add: event_ready_def manager_turn_def ex_validating_def Let_def)

lemma ex_validating_call: "am_call ex_validating = Some (CallValidation ''1234'' ''id'')"
  "am_validation_requests ex_validating = [3]"
  by (code_simp)+

section \<open>The account manager\<close>

text \<open>
  C17. The account manager never panics: in every run from a cache file, whatever the API answers and
  whatever fails, a finished validation or key rotation finds a device in the state.
\<close>

theorem account_manager_no_panic:
  assumes "manager_spawn wr file interval listener = Inr m0" and "manager_run public_key w m0 evs m"
    and "event_ready ev m"
  shows "manager_turn public_key w ev m \<noteq> Panicked msg"
  by (rule manager_turn_no_panic [OF manager_run_has_device [OF assms(2) manager_spawn_idle [OF assms(1)]] assms(3)])

theorem account_manager_no_panic_witness:
  "manager_turn id ex_device_world (ApiReady (ResultValidation (Inl InvalidDevice))) ex_validating \<noteq>
     Panicked ''Received a validation response whilst having no device data''"
  by (rule account_manager_no_panic [OF ex_manager_spawn ex_validating_run])
    (simp add: event_ready_def arm_timed_rotation_def ex_validating_call)

text \<open>
  Keys are rotated for the right device: as long as no data is set from outside, the validation or
  key rotation in progress is for the account and device of the state, so that a key the API
  has accepted is stored with the device it was accepted for.
\<close>

theorem rotation_for_current_device:
  assumes "manager_spawn wr file interval listener = Inr m0" and "manager_run public_key w m0 evs m"
    and "\<forall>d tx. CmdReady (Some (CmdSetData d tx)) \<notin> set evs"
    and "am_call m = Some c" and "call_target c = Some (a, i)"
  shows "\<exists>d. am_data m = LoggedIn d \<and> pad_account_number d = a \<and> pd_id (pad_device d) = i"
  using manager_run_current [OF assms(2) manager_spawn_idle [OF assms(1)] assms(3)] assms(4,5)
  by (auto simp: call_for_current_def current_device_def)

theorem rotation_for_current_device_witness:
  "\<exists>d. am_data ex_validating = LoggedIn d \<and> pad_account_number d = ''1234'' \<and> pd_id (pad_device d) = ''id''"
  by (rule rotation_for_current_device [OF ex_manager_spawn ex_validating_run _ ex_validating_call(1)]) simp_all

text \<open>
  Everyone knows the device state: in every run, each listener that can still be reached has been
  told of the state the manager is in, and as long as no write of the cache has failed the cache
  holds it.
\<close>

theorem device_state_known:
  assumes "manager_spawn wr file interval listener = Inr m0" and "manager_run public_key w m0 evs m"
  shows "(\<forall>l \<in> set (am_listeners m). known_state (am_data m0) l (am_log m) = am_data m) \<and>
    ((\<forall>n < am_clock m. dw_write w n = WriteOk) \<longrightarrow> am_cache m = Some (am_data m))"
  using manager_run_in_sync [OF assms(2) in_sync_spawn [OF assms(1)]] by (simp add: in_sync_def)

theorem device_state_known_witness:
  "am_cache ex_validating = Some (LoggedIn ex_account)"
proof -
  have "am_data ex_validating = LoggedIn ex_account" by code_simp
  with device_state_known [OF ex_manager_spawn ex_validating_run] show ?thesis
    by (simp add: ex_device_world_def)
qed



text \<open>
  A logout abandons requests: it drops the API call in progress but answers only the requests for
  the state after a login, so requests for a validation, a rotation or an expiry check stay pending
  and unserved until the next login, whatever other commands come.
\<close>

theorem logout_abandons_requests:
  assumes "handle_command w (CmdLogout tx) m = m1" and "am_data m1 = LoggedOut"
    and "manager_run public_key w m1 evs m2" and "\<forall>ev \<in> set evs. \<not> is_login ev"
  shows "am_validation_requests m2 = am_validation_requests m \<and> am_rotation_requests m2 = am_rotation_requests m \<and>
    am_expiry_requests m2 = am_expiry_requests m \<and> am_call m2 = None"
proof -
  have "am_call m1 = None" "lists_of m1 = lists_of m"
    using assms(1) manager_logout_lists [of w tx "m\<lparr>am_call := None\<rparr>"] by (auto simp: lists_of_def)
  moreover from this assms(2) have "dormant m1" by (simp add: dormant_def logged_in_def)
  ultimately show ?thesis
    using dormant_run [OF assms(3) \<open>dormant m1\<close> assms(4)] by (simp add: lists_of_def dormant_def)
qed

theorem logout_abandons_requests_witness:
  "am_validation_requests (handle_command ex_device_world (CmdLogout 4) ex_validating) = [3]"
proof -
  have "am_data (handle_command ex_device_world (CmdLogout 4) ex_validating) = LoggedOut" by code_simp
  from logout_abandons_requests [OF refl this manager_run.start] ex_validating_call(2) show ?thesis by simp
qed

section \<open>Timing\<close>

text \<open>
  The key is rotated in time: with an interval that the settings accept, the wait until the next
  rotation is between a minute and thirty days, never beyond the interval, and the key is at most
  one interval and a second old when it ends unless less than a minute of the interval was left.
\<close>

theorem rotation_wait_bounds:
  assumes "rotation_interval_new d = Inr interval"
  shows "60 * 10 ^ 9 \<le> time_until_next_rotation interval created now \<and>
    time_until_next_rotation interval created now \<le> interval \<and> interval \<le> hours (30 * 24) \<and>
    (created \<le> now \<longrightarrow> 60 * 10 ^ 9 < time_until_next_rotation interval created now \<longrightarrow>
       now - created + int (time_until_next_rotation interval created now) < int interval + 10 ^ 9)"
proof -
  have ok: "rotation_interval_ok interval" using assms by (simp add: rotation_interval_new_ok)
  then have min: "60 * 10 ^ 9 \<le> interval"
    by (simp add: rotation_interval_ok_def MIN_ROTATION_INTERVAL_def hours_def)
  have age: "now - created + int (time_until_next_rotation interval created now) < int interval + 10 ^ 9"
    if c: "created \<le> now" and w: "60 * 10 ^ 9 < time_until_next_rotation interval created now"
  proof -
    define secs where "secs = (now - created) div 10 ^ 9"
    have secs: "0 \<le> secs" "now - created < secs * 10 ^ 9 + 10 ^ 9"
      using c by (simp_all add: secs_def pos_imp_zdiv_nonneg_iff)
    have "time_until_next_rotation interval created now = interval - nat secs * 10 ^ 9"
      using c w secs(1) by (simp add: time_until_next_rotation_def secs_def Let_def max_def split: if_splits)
    moreover from this w have "nat secs * 10 ^ 9 \<le> interval" by linarith
    ultimately have "int (time_until_next_rotation interval created now) = int interval - secs * 10 ^ 9"
      using secs(1) by (simp add: of_nat_diff)
    with secs(2) show ?thesis by linarith
  qed
  show ?thesis
    using min ok age
    by (auto simp: time_until_next_rotation_def rotation_interval_ok_def MAX_ROTATION_INTERVAL_def Let_def)
qed

theorem rotation_wait_bounds_witness:
  "time_until_next_rotation (hours 24) 0 5 \<le> hours 24"
proof -
  have "rotation_interval_new (hours 24) = Inr (hours 24)" by (simp add: rotation_interval_new_def
      MIN_ROTATION_INTERVAL_def MAX_ROTATION_INTERVAL_def hours_def)
  from rotation_wait_bounds [OF this] show ?thesis by blast
qed

text \<open>
  A request made for the user ends: it is sent at most four times, again only after a network error
  while the host is not offline, and yields the result of the last time it was sent.
\<close>

theorem user_request_ends:
  "\<exists>k \<le> 3. retry_action call offline = Some (call k) \<and>
     list_all (\<lambda>j. should_retry_request (call j) (offline j)) [0 ..< k] \<and>
     \<not> (should_retry_request (call k) (offline k) \<and> k \<noteq> 3)"
  by (rule retry_action_exact [of call offline]) (fastforce simp: list_all_iff)

text \<open>
  A background request with the capped backoff (creating and listing devices; removing one sets no
  maximal delay) is repeated until its first result that is not worth another attempt, with delays of
  at most a day however they are jittered, and yields that result.
\<close>

lemma background_request_ends:
  assumes "jitter_ok js" and "\<And>j. j < k \<Longrightarrow> should_retry_backoff (call j)" and "\<not> should_retry_backoff (call k)"
  shows "\<exists>slept. retry_future call (\<lambda>_. should_retry_backoff) (jittered_next js exponential_backoff_next)
      (jitter_new RETRY_BACKOFF_STRATEGY) = Some (call k, Suc k, slept) \<and> length slept = k \<and>
      list_all (\<lambda>d. d \<le> hours 24) slept"
  using endless_delays.retry_loop_first [OF jittered_endless [OF assms(1)] retry_backoff_strategy,
      of k "\<lambda>_. should_retry_backoff" 0 call "[]"] assms(2,3)
  by (auto simp: retry_future_def list_all_iff hours_def)

text \<open>
  A task that waits for the API to become available is woken: whatever happens to the
  availability in between, once the state is one that it waits for, it has been told so.
\<close>

theorem waiting_task_woken:
  assumes "state_ready (av_state (fold av_step ops a))"
  shows "wait_for_state state_ready (av_state a)
    (map Inr (drop (length (av_sent a)) (av_sent (fold av_step ops a)))) = Some (Inr ())"
  using assms by (rule wait_for_state_woken)

theorem waiting_task_woken_witness:
  "wait_for_state (\<lambda>s. \<not> is_background_paused s) (av_state (inner_pause_background (availability_new api_state_default)))
     (map Inr (drop 1 (av_sent (fold av_step [AvSetOffline True, AvResumeBackground, AvSetOffline False]
        (inner_pause_background (availability_new api_state_default)))))) = Some (Inr ())"
proof -
  let ?a = "inner_pause_background (availability_new api_state_default)"
  have "\<not> is_background_paused (av_state (fold av_step [AvSetOffline True, AvResumeBackground, AvSetOffline False] ?a))"
    "length (av_sent ?a) = 1" by code_simp+
  with waiting_task_woken [of "\<lambda>s. \<not> is_background_paused s"] show ?thesis by metis
qed

text \<open>
  Device checks are debounced: whatever transitions and results come, the number of checks started
  is at most one more than the number of times the connecting loop was left or a check failed
  for the network.
\<close>

theorem device_checks_debounced:
  "fst (check_run evs change_handler_new) \<le> 1 + length (filter rearms evs)"
  using check_run_bound [of evs change_handler_new] by (auto simp: change_handler_new_def split: if_splits)

end
