(* ===== verification/Access_Properties.thy ===== *)
theory Access_Properties
  imports Access_Mode Relay_Correct Firewall_Properties
begin

text \<open>
  Properties of the access methods: the settings stay usable, the selector rotates through all
  enabled methods, tells the REST client and the daemon each mode with the endpoint the firewall has to open, and the
  encrypted DNS proxy carries the stream and tries every configuration. Two ways in which the code does
  not do what it means to are stated as well.
\<close>

section \<open>Choosing a bridge does not panic\<close>

lemma get_proxy_settings_no_panic:
  assumes "chooses pick_bridge" "draws_in_range random_range"
  shows "get_proxy_settings pick_bridge random_range pick bridges \<noteq> Inl (Panic msg)"
  using pick_random_relay_weighted_total [OF assms, of weight "filter active (bl_bridges bridges)"]
  by (auto simp: get_proxy_settings_def of_option_def split: option.splits)

section \<open>Settings\<close>

fun fresh_commands :: "access_command list \<Rightarrow> access_settings \<Rightarrow> bool" where
  "fresh_commands [] s = True"
| "fresh_commands (c # cs) s = (fresh_for c s \<and> fresh_commands cs (access_command_step c s))"

lemma fold_access_commands_wf:
  "access_settings_wf s \<Longrightarrow> fresh_commands cs s \<Longrightarrow> access_settings_wf (fold access_command_step cs s)"
  by (induction cs arbitrary: s) (auto intro: access_command_wf)

text \<open>
  C25. The access methods stay usable: after any commands from the default settings, as long as new
  identifiers are new, at least one method is enabled, identifiers are distinct and so are the
  names of the custom methods.
\<close>

theorem access_methods_stay_usable:
  assumes "distinct [u1, u2, u3, u4]" and "fresh_commands cs (access_settings_default u1 u2 u3 u4)"
  shows "access_settings_wf (fold access_command_step cs (access_settings_default u1 u2 u3 u4))"
  by (rule fold_access_commands_wf [OF _ assms(2)])
    (use assms(1) in \<open>auto simp: access_settings_wf_def access_settings_default_def create_builtin_def
      access_method_setting_new_def acs_iter_def\<close>)

definition ex_access :: access_settings where
  "ex_access = access_settings_default 1 2 3 4"

definition ex_socks :: access_method where
  "ex_socks = Custom (CustomSocks5Local (socks5_local_new (SockV4 7 80) 9))"

definition ex_access_commands :: "access_command list" where
  "ex_access_commands =
     [AddAccessMethod 5 ''mine'' False ex_socks, UpdateAccessMethod (ams_disable (acs_direct ex_access)),
      UpdateAccessMethod (ams_disable (acs_mullvad_bridges ex_access)),
      UpdateAccessMethod (ams_disable (acs_encrypted_dns_proxy ex_access)),
      UpdateAccessMethod (ams_disable (acs_domain_fronting ex_access)), RemoveAccessMethod 5]"

theorem access_methods_stay_usable_witness:
  "access_settings_wf (fold access_command_step ex_access_commands (access_settings_default 1 2 3 4))"
  by (rule access_methods_stay_usable, code_simp, code_simp)

section \<open>The selector\<close>


text \<open>
  Rotation is fair: from any position every enabled access method becomes the current one within as
  many rotations as there are methods.
\<close>

theorem rotation_visits_every_method:
  assumes "m \<in> set (acs_iter (asel_settings s))" and "ams_enabled m"
    and "asel_index s < cardinality (asel_settings s)"
  shows "\<exists>k. 1 \<le> k \<and> k \<le> cardinality (asel_settings s) \<and>
    rcm_setting (asel_current ((next_connection_mode res ^^ k) s)) = m"
  using assms by (rule rotation_visits_all)

definition ex_resolver :: "unit resolver" where
  "ex_resolver =
     ((\<lambda>r m. (r, Some (resolve_allowed_endpoint ApiDirect (SockV4 1 443), ApiDirect))),
      (\<lambda>r. resolve_allowed_endpoint ApiDirect (SockV4 1 443)))"

theorem rotation_visits_every_method_witness:
  "\<exists>k. 1 \<le> k \<and> k \<le> 4 \<and>
     rcm_setting (asel_current ((next_connection_mode ex_resolver ^^ k) (mode_selector_spawn ex_resolver () ex_access))) =
       acs_domain_fronting ex_access"
proof -
  let ?s = "mode_selector_spawn ex_resolver () ex_access"
  have "asel_settings ?s = ex_access" "asel_index ?s = 0" "cardinality ex_access = 4"
    "ams_enabled (acs_domain_fronting ex_access)" by code_simp+
  moreover have "acs_domain_fronting ex_access \<in> set (acs_iter ex_access)" by (simp add: acs_iter_def)
  ultimately show ?thesis
    using rotation_visits_every_method [of "acs_domain_fronting ex_access" ?s ex_resolver] by simp
qed

text \<open>
  Replacing the settings skips the direct method: when the first method is current and the new
  settings do not have its identifier, as after a reset of the settings, the method chosen is the first
  enabled one from the second position on, although the first one is enabled, too.
\<close>

theorem replaced_settings_skip_first:
  assumes "asel_index s = 0" and "ams_id (rcm_setting (asel_current s)) \<notin> ams_id ` set (acs_iter settings)"
    and "ams_enabled (acs_mullvad_bridges settings)"
  shows "rcm_setting (asel_current (selector_update_access_methods res settings s)) = acs_mullvad_bridges settings"
proof -
  have none: "position (\<lambda>m. ams_id m = ams_id (rcm_setting (asel_current s))) (acs_iter settings) = None"
    using assms(2) by (auto simp: position_None image_iff)
  obtain k where k: "find_next_active 1 settings = ((1 + k) mod cardinality settings, acs_iter settings ! ((1 + k) mod cardinality settings))"
    "\<forall>j < k. \<not> ams_enabled (acs_iter settings ! ((1 + j) mod cardinality settings))"
    by (rule find_next_active_exact [of settings 1]) (use assms(3) in \<open>auto simp: acs_iter_def\<close>)
  have one: "1 mod cardinality settings = 1" "acs_iter settings ! 1 = acs_mullvad_bridges settings"
    by (simp_all add: cardinality_def acs_iter_def)
  have "k = 0" using k(2) one assms(3) by (metis add_0_right gr0I)
  then have "find_next_active 1 settings = (1, acs_mullvad_bridges settings)" using k(1) one by simp
  then show ?thesis
    using none assms(1)
    by (simp add: selector_update_access_methods_def next_connection_mode_def Let_def)
qed

theorem replaced_settings_skip_first_witness:
  "rcm_setting (asel_current (selector_update_access_methods ex_resolver (access_settings_default 11 12 13 14)
     (mode_selector_spawn ex_resolver () ex_access))) = acs_mullvad_bridges (access_settings_default 11 12 13 14) \<and>
   ams_enabled (acs_direct (access_settings_default 11 12 13 14))"
proof -
  have "asel_index (mode_selector_spawn ex_resolver () ex_access) = 0"
    "ams_id (rcm_setting (asel_current (mode_selector_spawn ex_resolver () ex_access))) \<notin>
       ams_id ` set (acs_iter (access_settings_default 11 12 13 14))"
    "ams_enabled (acs_mullvad_bridges (access_settings_default 11 12 13 14))"
    "ams_enabled (acs_direct (access_settings_default 11 12 13 14))" by code_simp+
  with replaced_settings_skip_first show ?thesis by blast
qed

section \<open>The cache of the API address\<close>

text \<open>
  The cached API address is never used: reading the file into an empty buffer gives nothing, so
  loading the cache fails whatever the file contains, given only that the empty string is not a
  socket address.
\<close>

theorem address_cache_never_loaded:
  assumes "parse_addr [] = None"
  shows "\<exists>e. address_cache_from_file parse_addr fs read_path write_path host = Inl e"
  using assms
  by (cases "fs read_path")
    (auto simp: address_cache_from_file_def read_address_backing_def file_backing_read_def file_read_def trim_def Let_def)

theorem address_cache_never_loaded_witness:
  "\<exists>e. address_cache_from_file (\<lambda>a. if a = ''1.2.3.4:443'' then Some (SockV4 0x01020304 443) else None)
     (\<lambda>_. Inr ''1.2.3.4:443'') ''/cache'' None ''api'' = Inl e"
  by (rule address_cache_never_loaded) simp

section \<open>The encrypted DNS proxy\<close>

lemma xor_left_inject: "(a :: u8) XOR b = a XOR c \<longleftrightarrow> b = c"
proof
  assume "a XOR b = a XOR c"
  then have "a XOR (a XOR b) = a XOR (a XOR c)" by simp
  then show "b = c" by (simp flip: xor.assoc)
qed simp

definition edp_key :: "edp_config \<Rightarrow> xor_key option" where
  "edp_key c = map_option (\<lambda>o'. case o' of XorV2 k \<Rightarrow> k) (edp_obfuscation c)"

lemma edp_config_keys: "edp_config_wf c \<Longrightarrow> edp_key c = Some k \<Longrightarrow> xor_key_wf k"
  by (auto simp: edp_config_wf_def edp_key_def split: option.splits obfuscation_config.splits)

lemma from_stream_obfuscators:
  "fwd_read_obfuscator (forwarder_from_stream c) = ob_at (edp_key c) 0"
  "fwd_write_obfuscator (forwarder_from_stream c) = ob_at (edp_key c) 0"
  by (auto simp: forwarder_from_stream_def edp_key_def ob_at_def create_obfuscator_def xor_obfuscator_new_def
      split: option.splits obfuscation_config.splits)

text \<open>
  C26. The obfuscated stream arrives: with a configuration from a lookup, what one end forwards and the
  other end forwards again with the same key is the stream that was put in, however the bytes are cut
  into reads on either side, and the key is never read out of bounds.
\<close>

theorem obfuscated_stream_arrives:
  assumes "c \<in> set (configs_of_lookup addrs)" and "[] \<notin> set chunks" and "[] \<notin> set received"
    and "forward_loop (fwd_read_obfuscator (forwarder_from_stream c)) chunks = Some (concat received)"
  shows "forward_loop (fwd_write_obfuscator (forwarder_from_stream c)) received = Some (concat chunks)"
proof -
  have key: "\<forall>k. edp_key c = Some k \<longrightarrow> xor_key_wf k"
    using edp_config_keys [OF configs_of_lookup_wf [OF assms(1)]] by blast
  have "concat received = wire (edp_key c) 0 (concat chunks)"
    using assms(4) by (simp add: from_stream_obfuscators forward_loop_exact [OF key assms(2)])
  then show ?thesis
    by (simp add: from_stream_obfuscators forward_loop_exact [OF key assms(3)])
qed

definition ex_edp_addr :: u128 where
  "ex_edp_addr = 0x200103007F0000013905010200000000"

definition ex_edp :: edp_config where
  "ex_edp = \<lparr>edp_ip = 0x7F000001, edp_port = 1337,
     edp_obfuscation = Some (XorV2 \<lparr>xk_data = [1, 2, 0, 0, 0, 0], xk_len = 2\<rparr>)\<rparr>"

lemma ex_edp_octets: "ipv6_octets ex_edp_addr = [0x20, 1, 3, 0, 127, 0, 0, 1, 0x39, 5, 1, 2, 0, 0, 0, 0]"
  by (simp add: ipv6_octets_def ex_edp_addr_def upt_rec)

lemma ex_edp_lookup: "configs_of_lookup [IpV6 ex_edp_addr] = [ex_edp]"
  by (simp add: configs_of_lookup_def map_filter_simps edp_config_try_from_def ex_edp_octets
      proxy_type_try_from_def parse_xor_def xor_key_try_from_def u16_from_le_bytes_def ipv4_new_def ex_edp_def Let_def)

theorem obfuscated_stream_arrives_witness:
  "forward_loop (fwd_write_obfuscator (forwarder_from_stream ex_edp)) [[11], [10, 13]] = Some [10, 8, 12]"
proof -
  have "forward_loop (fwd_read_obfuscator (forwarder_from_stream ex_edp)) [[10, 8], [12]] = Some (concat [[11], [10, 13]])"
    by code_simp
  from obfuscated_stream_arrives [OF _ _ _ this, of "[IpV6 ex_edp_addr]"] show ?thesis
    by (simp add: ex_edp_lookup)
qed

text \<open>
  A partial write garbles the stream: when the stream below takes only the first \<open>n\<close> bytes of a
  write, and the caller goes on with the rest, as it has to, the rest is obfuscated from the
  wrong position of the key. Unless the key happens to have the same byte there, the next byte that is
  sent is wrong.
\<close>

theorem partial_write_garbles_stream:
  assumes "edp_config_wf c" and "edp_key c = Some k" and "n < length buf"
    and "xk_data k ! (length buf mod xk_len k) \<noteq> xk_data k ! (n mod xk_len k)"
    and "edp_poll_write (\<lambda>_. PollReady n) buf (forwarder_from_stream c) = Some (f1, r1, sent1)"
    and "edp_poll_write (\<lambda>b. PollReady (length b)) (drop n buf) f1 = Some (f2, r2, sent2)"
  shows "sent1 = take n (wire (Some k) 0 buf) \<and> sent1 @ sent2 \<noteq> wire (Some k) 0 buf"
proof -
  have key: "\<forall>j. Some k = Some j \<longrightarrow> xor_key_wf j" using edp_config_keys [OF assms(1,2)] by simp
  have k: "0 < xk_len k" "xk_len k \<le> length (xk_data k)" using key by (auto simp: xor_key_wf_def)
  note ob = obfuscate_opt_exact [OF key]
  have f: "fwd_write_obfuscator (forwarder_from_stream c) = ob_at (Some k) 0"
    by (simp add: from_stream_obfuscators assms(2))
  have one: "sent1 = take n (wire (Some k) 0 buf)" "fwd_write_obfuscator f1 = ob_at (Some k) (length buf)"
    using assms(5) by (auto simp: edp_poll_write_def f ob Let_def)
  have two: "sent2 = wire (Some k) (length buf) (drop n buf)"
    using assms(6) by (auto simp: edp_poll_write_def one(2) ob Let_def)
  have "wire (Some k) 0 buf = take n (wire (Some k) 0 buf) @ wire (Some k) n (drop n buf)"
    using wire_append [of "Some k" 0 "take n buf" "drop n buf"] assms(3)
    by (simp add: min_absorb2)
  moreover have "wire (Some k) (length buf) (drop n buf) ! 0 \<noteq> wire (Some k) n (drop n buf) ! 0"
    using assms(3,4) k
    by (simp add: wire_def xor_stream_def xor_left_inject)
  ultimately show ?thesis using one two by (metis same_append_eq)
qed

theorem partial_write_garbles_stream_witness:
  "\<exists>f1 f2 sent1 sent2. edp_poll_write (\<lambda>_. PollReady 1) [10, 8, 12, 7] (forwarder_from_stream ex_edp) =
       Some (f1, PollReady 1, sent1) \<and>
     edp_poll_write (\<lambda>b. PollReady (length b)) [8, 12, 7] f1 = Some (f2, PollReady 3, sent2) \<and>
     sent1 @ sent2 \<noteq> wire (edp_key ex_edp) 0 [10, 8, 12, 7]"
proof -
  have "(case edp_poll_write (\<lambda>_. PollReady 1) [10, 8, 12, 7] (forwarder_from_stream ex_edp) of
       Some (f1, r1, sent1) \<Rightarrow> r1 = PollReady 1 \<and>
         (case edp_poll_write (\<lambda>b. PollReady (length b)) (drop 1 [10, 8, 12, 7]) f1 of
            Some (f2, r2, sent2) \<Rightarrow> r2 = PollReady 3 | None \<Rightarrow> False)
     | None \<Rightarrow> False)" by code_simp
  then obtain f1 f2 sent1 sent2 where
    p: "edp_poll_write (\<lambda>_. PollReady 1) [10, 8, 12, 7] (forwarder_from_stream ex_edp) = Some (f1, PollReady 1, sent1)"
    "edp_poll_write (\<lambda>b. PollReady (length b)) (drop 1 [10, 8, 12, 7]) f1 = Some (f2, PollReady 3, sent2)"
    by (auto split: option.splits)
  have "edp_config_wf ex_edp" by code_simp
  moreover have "edp_key ex_edp = Some \<lparr>xk_data = [1, 2, 0, 0, 0, 0], xk_len = 2\<rparr>" by (simp add: ex_edp_def edp_key_def)
  ultimately have "sent1 @ sent2 \<noteq> wire (edp_key ex_edp) 0 [10, 8, 12, 7]"
    using partial_write_garbles_stream [OF _ _ _ _ p, of "\<lparr>xk_data = [1, 2, 0, 0, 0, 0], xk_len = 2\<rparr>"] by auto
  with p show ?thesis by auto
qed

text \<open>
  Every configuration gets its turn: with a set of configurations of which some have not been
  tried, the next answers are exactly the untried ones, each once, those with obfuscation first.
\<close>

theorem configurations_all_tried:
  assumes "distinct (es_configurations s)" and "edp_difference s \<noteq> []"
  shows "\<exists>cs. next_configurations (length (edp_difference s)) s = map Some cs \<and>
    mset cs = mset (edp_difference s) \<and> sorted_wrt (\<lambda>a b. obfuscated b \<longrightarrow> obfuscated a) cs"
  using assms by (rule next_configurations_exhaust)

theorem configurations_all_tried_witness:
  "\<exists>cs. next_configurations 2 \<lparr>es_configurations = [ex_edp\<lparr>edp_obfuscation := None\<rparr>, ex_edp],
       es_tried_configurations = []\<rparr> = map Some cs \<and> length cs = 2"
proof -
  let ?s = "\<lparr>es_configurations = [ex_edp\<lparr>edp_obfuscation := None\<rparr>, ex_edp], es_tried_configurations = []\<rparr>"
  have d: "edp_difference ?s = [ex_edp\<lparr>edp_obfuscation := None\<rparr>, ex_edp]" by (simp add: edp_difference_def)
  have "distinct (es_configurations ?s)" by (simp add: ex_edp_def)
  from configurations_all_tried [OF this] d show ?thesis
    by (metis length_Cons list.distinct(1) list.size(3) mset_eq_length numeral_2_eq_2)
qed

end
