(* ===== verification/Migrations_Chain.thy ===== *)
theory Migrations_Chain
  imports Migrations
begin

text \<open>
  The migrations from version 11 on, the account history, and the chain of all migrations with the file they are
  applied to (\<open>mullvad-daemon/src/migrations/mod.rs\<close>).
\<close>

section \<open>Version 11: unique names\<close>

definition migrate_block_when_disconnected :: "json \<Rightarrow> migration_error + json" where
  "migrate_block_when_disconnected settings =
     and_then (of_option InvalidSettingsContent (as_object settings)) (\<lambda>settings_map.
     and_then (of_option InvalidSettingsContent (obj_get ''block_when_disconnected'' settings_map)) (\<lambda>value.
     Inr (JObject (obj_remove ''block_when_disconnected'' (obj_insert ''lockdown_mode'' value settings_map)))))"

definition generate_access_method_name_initial_suffix :: "string list \<Rightarrow> string \<Rightarrow> nat" where
  "generate_access_method_name_initial_suffix names name =
     (let count = length (filter (\<lambda>n. n = name) names) in if 1 < count then count - 1 else 1)"

definition get_should_rename_api_access_method :: "string list \<Rightarrow> string \<Rightarrow> nat \<Rightarrow> bool" where
  "get_should_rename_api_access_method names name index =
     list_ex (\<lambda>(i, n). i < index \<and> n = name) (enumerate 0 names)"

definition suffixed :: "string \<Rightarrow> nat \<Rightarrow> string" where
  "suffixed name suffix = name @ ''_'' @ show_nat suffix"

lemma suffixed_inj: "suffixed name a = suffixed name b \<longleftrightarrow> a = b"
  unfolding suffixed_def by (metis append_same_eq digits_to_nat_show same_append_eq)

lemma should_rename_iff: "get_should_rename_api_access_method names name index \<longleftrightarrow> name \<in> set (take index names)"
proof -
  have "get_should_rename_api_access_method names name index \<longleftrightarrow> (\<exists>i < length names. i < index \<and> names ! i = name)"
    unfolding get_should_rename_api_access_method_def list_ex_iff
    by (auto simp: in_set_enumerate_eq case_prod_beta intro!: bexI [of _ "(_, names ! _)"])
  then show ?thesis by (auto simp: in_set_conv_nth)
qed

function generate_access_method_name :: "string list \<Rightarrow> string \<Rightarrow> nat \<Rightarrow> nat \<Rightarrow> string" where
  "generate_access_method_name names name index suffix =
     (let generated = suffixed name suffix in
      if get_should_rename_api_access_method names generated index
      then generate_access_method_name names name index (suffix + 1)
      else generated)"
  by pat_completeness auto

text \<open>Each attempt uses up one of the names that start like the generated ones.\<close>

termination
proof (relation "measure (\<lambda>(names, name, index, suffix). card {k. suffix \<le> k \<and> suffixed name k \<in> set names})"; clarsimp)
  fix names name index suffix
  assume "get_should_rename_api_access_method names (suffixed name suffix) index"
  then have "suffixed name suffix \<in> set names" by (auto simp: should_rename_iff dest: in_set_takeD)
  moreover have "finite {k. suffix \<le> k \<and> suffixed name k \<in> set names}"
  proof (rule finite_subset)
    show "{k. suffix \<le> k \<and> suffixed name k \<in> set names} \<subseteq> suffixed name -` set names" by auto
    show "finite (suffixed name -` set names)" by (rule finite_vimageI) (auto simp: inj_def suffixed_inj)
  qed
  moreover have "{k. Suc suffix \<le> k \<and> suffixed name k \<in> set names} \<subset> {k. suffix \<le> k \<and> suffixed name k \<in> set names}"
    if "suffixed name suffix \<in> set names"
  proof
    show "{k. Suc suffix \<le> k \<and> suffixed name k \<in> set names} \<subseteq> {k. suffix \<le> k \<and> suffixed name k \<in> set names}" by auto
    have "suffix \<in> {k. suffix \<le> k \<and> suffixed name k \<in> set names}" using that by simp
    then show "{k. Suc suffix \<le> k \<and> suffixed name k \<in> set names} \<noteq> {k. suffix \<le> k \<and> suffixed name k \<in> set names}"
      by (metis (no_types, lifting) mem_Collect_eq not_less_eq_eq order_refl)
  qed
  ultimately show "card {k. Suc suffix \<le> k \<and> suffixed name k \<in> set names} <
      card {k. suffix \<le> k \<and> suffixed name k \<in> set names}"
    by (blast intro: psubset_card_mono)
qed

declare generate_access_method_name.simps [simp del]

definition rename_access_method :: "nat \<Rightarrow> string list \<Rightarrow> string list" where
  "rename_access_method index names =
     (let name = names ! index in
      if get_should_rename_api_access_method names name index
      then names[index := generate_access_method_name names name index
             (generate_access_method_name_initial_suffix names name)]
      else names)"

definition rename_access_methods :: "string list \<Rightarrow> string list" where
  "rename_access_methods names = fold rename_access_method [0..<length names] names"

text \<open>The names are references into the array of methods: read together, changed, and in place.\<close>

definition method_name :: "json \<Rightarrow> string option" where
  "method_name v = Option.bind (json_get ''name'' v) as_str"

fun write_names :: "json list \<Rightarrow> string list \<Rightarrow> json list" where
  "write_names [] names = []"
| "write_names (v # vs) names =
     (if method_name v = None then v # write_names vs names
      else case names of
          [] \<Rightarrow> v # vs
        | n # ns \<Rightarrow> json_put [''name''] (JString n) v # write_names vs ns)"

definition migrate_duplicated_api_access_method_names :: "json \<Rightarrow> migration_error + json" where
  "migrate_duplicated_api_access_method_names settings =
     and_then (of_option InvalidSettingsContent (as_object settings)) (\<lambda>_.
     json_update [''api_access_methods'', ''custom''] (\<lambda>v.
       case as_array v of
         None \<Rightarrow> Inr v
       | Some methods \<Rightarrow>
           Inr (JArray (write_names methods (rename_access_methods (List.map_filter method_name methods))))) settings)"

definition v11_migrate :: "json \<Rightarrow> migration_error + json" where
  "v11_migrate settings =
     (if \<not> version_matches 11 settings then Inr settings
      else
        and_then (migrate_block_when_disconnected settings) (\<lambda>settings.
        and_then (migrate_duplicated_api_access_method_names settings) (set_version 12)))"

section \<open>Versions 12 to 15\<close>

abbreviation wireguard_constraints_path :: "string list" where
  "wireguard_constraints_path \<equiv> [''relay_settings'', ''normal'', ''wireguard_constraints'']"

definition insert_if_missing :: "string \<Rightarrow> json \<Rightarrow> json_map \<Rightarrow> json_map" where
  "insert_if_missing k v m = (if obj_get k m = None then obj_insert k v m else m)"

definition migrate_filters_to_new_entry_only_filters :: "json \<Rightarrow> migration_error + json" where
  "migrate_filters_to_new_entry_only_filters = json_update [''relay_settings'', ''normal''] (\<lambda>normal.
     Inr (case (json_get ''providers'' normal, json_get ''ownership'' normal,
                Option.bind (json_get ''wireguard_constraints'' normal) as_object) of
            (Some provs, Some owner, Some m) \<Rightarrow>
              json_put [''wireguard_constraints'']
                (JObject (insert_if_missing ''entry_ownership'' owner
                           (insert_if_missing ''entry_providers'' provs m))) normal
          | _ \<Rightarrow> normal))"

definition v12_migrate :: "json \<Rightarrow> migration_error + json" where
  "v12_migrate settings =
     (if \<not> version_matches 12 settings then Inr settings
      else and_then (migrate_filters_to_new_entry_only_filters settings) (set_version 13))"

definition migrate_quantum_resistance :: "json \<Rightarrow> migration_error + json" where
  "migrate_quantum_resistance settings =
     and_then (of_option InvalidSettingsContent (as_object settings)) (\<lambda>m.
     and_then (of_option (MissingKey ''tunnel_options'') (obj_get ''tunnel_options'' m)) (\<lambda>tunnel_options.
     and_then (of_option (MissingKey ''wireguard'') (json_get ''wireguard'' tunnel_options)) (\<lambda>wg.
     and_then
       (case json_get ''quantum_resistant'' wg of
          Some q \<Rightarrow> Inr (if q = JString ''auto'' then json_put [''quantum_resistant''] (JString ''on'') wg else wg)
        | None \<Rightarrow> index_assign [''quantum_resistant''] (JString ''on'') wg) (\<lambda>wg.
     Inr (json_put [''tunnel_options'', ''wireguard''] wg settings)))))"

definition v13_migrate :: "json \<Rightarrow> migration_error + json" where
  "v13_migrate settings =
     (if \<not> version_matches 13 settings then Inr settings
      else and_then (migrate_quantum_resistance settings) (set_version 14))"

definition migrate_wireguard_port :: "json \<Rightarrow> json" where
  "migrate_wireguard_port settings =
     (case Option.bind (json_path wireguard_constraints_path settings) as_object of
        None \<Rightarrow> settings
      | Some m \<Rightarrow>
          (case obj_get ''port'' m of
             None \<Rightarrow> settings
           | Some port \<Rightarrow>
               (let settings = json_put wireguard_constraints_path (JObject (obj_remove ''port'' m)) settings in
                case Option.bind (json_get ''obfuscation_settings'' settings) as_object of
                  None \<Rightarrow> settings
                | Some o' \<Rightarrow>
                    json_put [''obfuscation_settings'']
                      (JObject (obj_insert ''wireguard_port'' (JObject [(''port'', port)]) o')) settings)))"

definition v14_migrate :: "json \<Rightarrow> migration_error + json" where
  "v14_migrate settings =
     (if \<not> version_matches 14 settings then Inr settings
      else set_version 15 (migrate_wireguard_port settings))"

text \<open>Indexing a map panics when the key is missing.\<close>

definition migrate_entry_location :: "json \<Rightarrow> migration_error + json" where
  "migrate_entry_location settings =
     (case Option.bind (json_path wireguard_constraints_path settings) as_object of
        None \<Rightarrow> Inr settings
      | Some m \<Rightarrow>
          and_then (of_option (MigrationPanic ''no entry found for key'') (obj_get ''entry_location'' m)) (\<lambda>entry_location.
          Inr (if entry_location = JObject [(''only'', JObject [(''location'', JObject [(''country'', JString [])])])]
               then json_put wireguard_constraints_path (JObject (obj_insert ''entry_location'' (JString ''any'') m)) settings
               else settings)))"

definition v15_migrate :: "json \<Rightarrow> migration_error + json" where
  "v15_migrate settings =
     (if \<not> version_matches 15 settings then Inr settings
      else and_then (migrate_entry_location settings) (set_version 16))"

section \<open>The account history\<close>

text \<open>
  The account history in the old and in the new place; how file operations end is part of the state.
\<close>

record history_dirs =
  hd_old :: "string option"
  hd_new :: "string option"
  hd_same :: bool
  hd_copy_ok :: bool
  hd_remove_ok :: bool
  hd_read_ok :: bool
  hd_write_ok :: bool

definition migrate_location :: "history_dirs \<Rightarrow> history_dirs" where
  "migrate_location d =
     (if hd_old d = None \<or> hd_new d \<noteq> None \<or> hd_same d then d
      else if hd_copy_ok d then d\<lparr>hd_new := hd_old d, hd_old := if hd_remove_ok d then None else hd_old d\<rparr>
      else d)"

definition is_format_v3 :: "string \<Rightarrow> bool" where
  "is_format_v3 bytes = list_all is_digit bytes"

definition account_entry :: "json \<Rightarrow> (string \<times> json) option" where
  "account_entry v =
     (case v of
        JObject m \<Rightarrow>
          Option.bind (Option.bind (obj_get ''account'' m) as_str) (\<lambda>account.
          map_option (Pair account) (obj_get ''wireguard'' m))
      | JArray [account, wireguard] \<Rightarrow> map_option (\<lambda>account. (account, wireguard)) (as_str account)
      | _ \<Rightarrow> None)"

definition try_format_v2 :: "(string \<Rightarrow> json option) \<Rightarrow> string \<Rightarrow> (string \<times> json) list option" where
  "try_format_v2 parse bytes = Option.bind (Option.bind (parse bytes) as_array) (map_all account_entry)"

definition try_format_v1 :: "(string \<Rightarrow> json option) \<Rightarrow> string \<Rightarrow> string list option" where
  "try_format_v1 parse bytes =
     Option.bind (parse bytes) (\<lambda>v.
     Option.bind (case v of JObject m \<Rightarrow> obj_get ''accounts'' m | JArray [x] \<Rightarrow> Some x | _ \<Rightarrow> None) (\<lambda>accounts.
     Option.bind (as_array accounts) (map_all as_str)))"

definition migrate_formats_inner :: "(string \<Rightarrow> json option) \<Rightarrow> string \<Rightarrow> json \<Rightarrow> migration_error + string option \<times> json" where
  "migrate_formats_inner parse bytes settings =
     (case try_format_v2 parse bytes of
        Some [] \<Rightarrow> Inr (None, settings)
      | Some ((token, wg_data) # _) \<Rightarrow>
          and_then (index_assign [''wireguard''] wg_data settings) (\<lambda>settings. Inr (Some token, settings))
      | None \<Rightarrow>
          (case try_format_v1 parse bytes of
             Some tokens \<Rightarrow> Inr (case tokens of [] \<Rightarrow> None | t # _ \<Rightarrow> Some t, settings)
           | None \<Rightarrow> Inl ParseHistory))"

definition migrate_formats ::
  "(string \<Rightarrow> json option) \<Rightarrow> history_dirs \<Rightarrow> json \<Rightarrow> migration_error + history_dirs \<times> json" where
  "migrate_formats parse d settings =
     (case hd_new d of
        None \<Rightarrow> Inr (d, settings)
      | Some bytes \<Rightarrow>
          if \<not> hd_read_ok d then Inl ReadHistory
          else if is_format_v3 bytes then Inr (d, settings)
          else
            and_then (migrate_formats_inner parse bytes settings) (\<lambda>(token, settings).
            if hd_write_ok d
            then Inr (d\<lparr>hd_new := Some (case token of Some t \<Rightarrow> t | None \<Rightarrow> [])\<rparr>, settings)
            else Inl WriteHistory))"

section \<open>The chain\<close>

definition migrate_history ::
  "(string \<Rightarrow> json option) \<Rightarrow> history_dirs option \<Rightarrow> json \<Rightarrow> migration_error + history_dirs option \<times> json" where
  "migrate_history parse directories settings =
     (case directories of
        None \<Rightarrow> Inr (None, settings)
      | Some d \<Rightarrow>
          and_then (migrate_formats parse (migrate_location d) settings) (\<lambda>(d, settings). Inr (Some d, settings)))"

definition migrate_settings ::
  "serde_env \<Rightarrow> (string \<Rightarrow> json option) \<Rightarrow> history_dirs option \<Rightarrow> json
   \<Rightarrow> migration_error + json \<times> migration_data option \<times> history_dirs option" where
  "migrate_settings env parse directories settings =
     (if as_object settings = None then Inl InvalidSettingsContent
      else
        and_then (v1_migrate settings) (\<lambda>settings.
        and_then (v2_migrate settings) (\<lambda>settings.
        and_then (v3_migrate env settings) (\<lambda>settings.
        and_then (v4_migrate settings) (\<lambda>settings.
        and_then (migrate_history parse directories settings) (\<lambda>(directories, settings).
        and_then (v5_migrate settings) (\<lambda>(settings, migration_data).
        and_then (v6_migrate settings) (\<lambda>settings.
        and_then (v7_migrate env settings) (\<lambda>settings.
        and_then (v8_migrate settings) (\<lambda>settings.
        and_then (v9_migrate settings) (\<lambda>settings.
        and_then (v10_migrate settings) (\<lambda>settings.
        and_then (v11_migrate settings) (\<lambda>settings.
        and_then (v12_migrate settings) (\<lambda>settings.
        and_then (v13_migrate settings) (\<lambda>settings.
        and_then (v14_migrate settings) (\<lambda>settings.
        and_then (v15_migrate settings) (\<lambda>settings.
        Inr (settings, migration_data, directories))))))))))))))))))"

text \<open>
  The file: its content and how reading it ends, and how opening, writing and syncing end. Opening truncates
  it; a write that fails leaves the part that was written.
\<close>

record settings_file =
  sf_content :: "string option"
  sf_read_ok :: bool
  sf_open_ok :: bool
  sf_write_fails_at :: "nat option"
  sf_sync_ok :: bool

definition migrate_all ::
  "serde_env \<Rightarrow> (string \<Rightarrow> json option) \<Rightarrow> (json \<Rightarrow> string) \<Rightarrow> history_dirs \<Rightarrow> settings_file
   \<Rightarrow> (migration_error + migration_data option) \<times> settings_file" where
  "migrate_all env parse print directories file =
     (case sf_content file of
        None \<Rightarrow> (Inr None, file)
      | Some bytes \<Rightarrow>
          if \<not> sf_read_ok file then (Inl MigReadFailed, file)
          else case parse bytes of
              None \<Rightarrow> (Inl MigDeserialize, file)
            | Some old_settings \<Rightarrow>
                (case migrate_settings env parse (Some directories) old_settings of
                   Inl e \<Rightarrow> (Inl e, file)
                 | Inr (settings, migration_data, _) \<Rightarrow>
                     if settings = old_settings then (Inr migration_data, file)
                     else if \<not> sf_open_ok file then (Inl MigWriteFailed, file)
                     else case sf_write_fails_at file of
                         Some n \<Rightarrow> (Inl MigWriteFailed, file\<lparr>sf_content := Some (take n (print settings))\<rparr>)
                       | None \<Rightarrow>
                           (let file = file\<lparr>sf_content := Some (print settings)\<rparr> in
                            if sf_sync_ok file then (Inr migration_data, file) else (Inl MigWriteFailed, file))))"

end
