(* ===== verification/Migrations_Correct.thy ===== *)
theory Migrations_Correct
  imports Migrations_Chain
begin

text \<open>
  What the migrations change and what they leave alone: each one touches only the fields it is about,
  raises the version by one and does nothing at any other version. That contract is a locale,
  interpreted on every migration.
\<close>

section \<open>Changes that keep the other fields\<close>

definition keeps :: "string set \<Rightarrow> (json \<Rightarrow> migration_error + json) \<Rightarrow> bool" where
  "keeps K f = (\<forall>v w. as_object v \<noteq> None \<longrightarrow> f v = Inr w \<longrightarrow> same_except K v w)"

named_theorems keeping \<open>functions on settings that change only some fields\<close>

lemma keepsD: "keeps K f \<Longrightarrow> as_object v \<noteq> None \<Longrightarrow> f v = Inr w \<Longrightarrow> same_except K v w"
  by (simp add: keeps_def)

lemma same_except_object: "same_except K v w \<Longrightarrow> as_object w \<noteq> None"
  by (simp add: same_except_def)

lemma same_except_trans_same: "same_except K u v \<Longrightarrow> same_except K v w \<Longrightarrow> same_except K u w"
  using same_except_trans [of K u v K w] by simp

lemma keeps_Inr [keeping]: "keeps K Inr"
  by (simp add: keeps_def same_except_refl)

lemma keeps_update [keeping]: "k \<in> K \<Longrightarrow> keeps K (json_update (k # ks) f)"
  unfolding keeps_def using same_except_update same_except_mono by (metis empty_subsetI insert_subset)

lemma keeps_assign [keeping]: "k \<in> K \<Longrightarrow> keeps K (index_assign (k # ks) x)"
  unfolding keeps_def by (auto simp: index_assign_def same_except_def simp del: json_assign.simps dest!: json_assign_object)

lemma keeps_remove [keeping]: "k \<in> K \<Longrightarrow> keeps K (field_remove k)"
  by (auto simp: keeps_def field_remove_def same_except_def of_option_def split: option.splits)

lemma keeps_put [keeping]: "k \<in> K \<Longrightarrow> keeps K (\<lambda>v. Inr (json_put (k # ks) x v))"
  by (auto simp: keeps_def same_except_def)

lemma keeps_set_version [keeping]: "''settings_version'' \<in> K \<Longrightarrow> keeps K (set_version n)"
  unfolding set_version_def [abs_def] by (rule keeps_assign)

lemma keeps_then [keeping]: "keeps K f \<Longrightarrow> keeps K g \<Longrightarrow> keeps K (\<lambda>v. and_then (f v) g)"
  unfolding keeps_def by (blast intro: same_except_trans_same dest: same_except_object)

lemma keeps_bind: "(\<And>x. keeps K (g x)) \<Longrightarrow> keeps K (\<lambda>v. and_then (h v) (\<lambda>x. g x v))"
  unfolding keeps_def by blast

lemma keeps_if [keeping]: "keeps K f \<Longrightarrow> keeps K g \<Longrightarrow> keeps K (\<lambda>v. if P v then f v else g v)"
  by (simp add: keeps_def)

lemma keeps_option [keeping]:
  "keeps K f \<Longrightarrow> (\<And>x. keeps K (g x)) \<Longrightarrow> keeps K (\<lambda>v. case h v of None \<Rightarrow> f v | Some x \<Rightarrow> g x v)"
  by (auto simp: keeps_def split: option.splits)

section \<open>The contract of a migration\<close>

lemma set_version_matches: "set_version n v = Inr w \<Longrightarrow> version_matches n w"
  by (cases v) (auto simp: set_version_def index_assign_def version_matches_def)

lemma version_matches_unique: "version_matches n v \<Longrightarrow> version_matches k v \<longleftrightarrow> k = n"
  by (auto simp: version_matches_def)

locale settings_migration =
  fixes n :: int and migrate :: "json \<Rightarrow> migration_error + json" and K :: "string set"
  assumes skips: "\<not> version_matches n v \<Longrightarrow> migrate v = Inr v"
    and bumps: "version_matches n v \<Longrightarrow> migrate v = Inr w \<Longrightarrow> version_matches (n + 1) w"
    and keeps_fields: "keeps K migrate"
begin

lemma version_after:
  assumes "version_matches k v" and "migrate v = Inr w"
  shows "version_matches (if k = n then n + 1 else k) w"
proof (cases "k = n")
  case True
  with assms show ?thesis using bumps by simp
next
  case False
  then have "\<not> version_matches n v" using assms(1) by (simp add: version_matches_unique)
  with assms False show ?thesis by (simp add: skips)
qed

lemma fields_after: "as_object v \<noteq> None \<Longrightarrow> migrate v = Inr w \<Longrightarrow> same_except K v w"
  by (rule keepsD [OF keeps_fields])

end

abbreviation touched :: "string list \<Rightarrow> string set" where
  "touched ks \<equiv> insert ''settings_version'' (set ks)"

interpretation v2: settings_migration 2 v2_migrate "touched [''show_beta_releases'', ''tunnel_options'']"
proof
  show "version_matches (2 + 1) w" if "version_matches 2 v" "v2_migrate v = Inr w" for v w
    using that by (auto simp: v2_migrate_def dest: set_version_matches)
  show "keeps (touched [''show_beta_releases'', ''tunnel_options'']) v2_migrate"
    unfolding v2_migrate_def [abs_def] by (intro keeping) simp_all
qed (simp add: v2_migrate_def)

interpretation v3: settings_migration 3 "v3_migrate env" "touched [''tunnel_options'']" for env
proof
  show "version_matches (3 + 1) w" if "version_matches 3 v" "v3_migrate env v = Inr w" for v w
    using that by (auto simp: v3_migrate_def dest: set_version_matches)
  show "keeps (touched [''tunnel_options'']) (v3_migrate env)"
    unfolding v3_migrate_def [abs_def] Let_def by (intro keeping keeps_bind) simp_all
qed (simp add: v3_migrate_def)

interpretation v4: settings_migration 4 v4_migrate "touched [''relay_settings'']"
proof
  show "version_matches (4 + 1) w" if "version_matches 4 v" "v4_migrate v = Inr w" for v w
    using that by (auto simp: v4_migrate_def dest: set_version_matches)
  show "keeps (touched [''relay_settings'']) v4_migrate"
    unfolding v4_migrate_def [abs_def] by (intro keeping) simp_all
qed (simp add: v4_migrate_def)

lemma v1_keeps: "keeps (touched [''relay_settings'', ''show_beta_releases'']) v1_migrate"
  unfolding v1_migrate_def [abs_def] by (intro keeping) simp_all

lemma v1_version:
  assumes "v1_migrate v = Inr w"
  shows "json_get ''settings_version'' v = None \<Longrightarrow> version_matches 2 w"
    and "json_get ''settings_version'' v \<noteq> None \<Longrightarrow> w = v"
  using assms by (auto simp: v1_migrate_def dest: set_version_matches)

text \<open>The migration from version 5 also returns the account.\<close>

lemma v5_wireguard_constraints_keeps: "keeps {''relay_settings'', ''obfuscation_settings''} v5_wireguard_constraints"
proof -
  have "same_except {''relay_settings'', ''obfuscation_settings''} v w"
    if "as_object v \<noteq> None" "v5_wireguard_constraints v = Inr w" for v w
    using that keepsD [OF keeps_assign [of "''obfuscation_settings''" "{''obfuscation_settings''}" "[]"]]
    by (auto simp: v5_wireguard_constraints_def Let_def same_except_def index_assign_def split: option.splits json.splits)
  then show ?thesis by (simp add: keeps_def)
qed

lemma v5_account_fields: "v5_account v = Inr (w, d) \<Longrightarrow> as_object v \<noteq> None \<Longrightarrow> same_except {''account_token'', ''wireguard''} v w"
  by (auto simp: v5_account_def Let_def same_except_def field_remove_def of_option_def split: option.splits)

interpretation v5: settings_migration 5 "\<lambda>v. map_sum id fst (v5_migrate v)"
  "touched [''relay_settings'', ''obfuscation_settings'', ''account_token'', ''wireguard'']"
proof
  have inv: "\<exists>d. v5_migrate v = Inr (w, d)" if "map_sum id fst (v5_migrate v) = Inr w" for v w
    using that by (cases "v5_migrate v") (auto)
  show "version_matches (5 + 1) w" if "version_matches 5 v" "map_sum id fst (v5_migrate v) = Inr w" for v w
    using that inv by (fastforce simp: v5_migrate_def dest: set_version_matches)
  show "keeps (touched [''relay_settings'', ''obfuscation_settings'', ''account_token'', ''wireguard''])
      (\<lambda>v. map_sum id fst (v5_migrate v))" (is "keeps ?K _")
    unfolding keeps_def
  proof (intro allI impI)
    fix v w assume v: "as_object v \<noteq> None" and "map_sum id fst (v5_migrate v) = Inr w"
    then obtain d where d: "v5_migrate v = Inr (w, d)" using inv by blast
    show "same_except ?K v w"
    proof (cases "version_matches 5 v")
      case True
      then obtain x y where xy: "v5_wireguard_constraints v = Inr x" "v5_account x = Inr (y, d)" "set_version 6 y = Inr w"
        using d by (auto simp: v5_migrate_def)
      have "same_except ?K v x"
        using keepsD [OF v5_wireguard_constraints_keeps v xy(1)] by (rule same_except_mono) simp
      moreover have "same_except ?K x y"
        using v5_account_fields [OF xy(2) same_except_object [OF \<open>same_except ?K v x\<close>]] by (rule same_except_mono) simp
      moreover have "same_except ?K y w"
        using keepsD [OF keeps_set_version [of ?K 6] same_except_object [OF \<open>same_except ?K x y\<close>] xy(3)] by simp
      ultimately show ?thesis using same_except_trans_same by blast
    qed (use d v in \<open>simp add: v5_migrate_def same_except_refl\<close>)
  qed
qed (simp add: v5_migrate_def)

interpretation v6: settings_migration 6 v6_migrate "touched [''tunnel_options'', ''obfuscation_settings'', ''relay_settings'', ''bridge_settings'']" 
proof
  show "version_matches (6 + 1) w" if "version_matches 6 v" "v6_migrate v = Inr w" for v w
    using that by (auto simp: v6_migrate_def dest: set_version_matches)
  show "keeps (touched [''tunnel_options'', ''obfuscation_settings'', ''relay_settings'', ''bridge_settings'']) v6_migrate"
    unfolding v6_migrate_def [abs_def] migrate_pq_setting_def migrate_udp2tcp_port_443_def migrate_location_constraint_def [abs_def] by (intro keeping keeps_bind) simp_all
qed (simp add: v6_migrate_def)

interpretation v7: settings_migration 7 "v7_migrate env" "touched [''bridge_settings'', ''api_access_methods'']" for env
proof
  show "version_matches (7 + 1) w" if "version_matches 7 v" "v7_migrate env v = Inr w" for v w
    using that by (auto simp: v7_migrate_def dest: set_version_matches)
  show "keeps (touched [''bridge_settings'', ''api_access_methods'']) (v7_migrate env)"
    unfolding v7_migrate_def [abs_def] migrate_bridge_settings_def [abs_def] migrate_api_access_settings_def [abs_def] Let_def by (intro keeping keeps_bind) simp_all
qed (simp add: v7_migrate_def)

interpretation v8: settings_migration 8 v8_migrate "touched [''obfuscation_settings'']" 
proof
  show "version_matches (8 + 1) w" if "version_matches 8 v" "v8_migrate v = Inr w" for v w
    using that by (auto simp: v8_migrate_def dest: set_version_matches)
  show "keeps (touched [''obfuscation_settings'']) v8_migrate"
    unfolding v8_migrate_def [abs_def] migrate_selected_obfuscaton_def by (intro keeping keeps_bind) simp_all
qed (simp add: v8_migrate_def)

interpretation v9: settings_migration 9 v9_migrate "touched []"
  by unfold_locales
    (auto simp: v9_migrate_def version_matches_def keeps_def same_except_def of_option_def split: option.splits)

interpretation v10: settings_migration 10 v10_migrate "touched [''relay_settings'']" 
proof
  show "version_matches (10 + 1) w" if "version_matches 10 v" "v10_migrate v = Inr w" for v w
    using that by (auto simp: v10_migrate_def dest: set_version_matches)
  show "keeps (touched [''relay_settings'']) v10_migrate"
    unfolding v10_migrate_def [abs_def] by (intro keeping keeps_bind) simp_all
qed (simp add: v10_migrate_def)

lemma block_when_disconnected_keeps:
  "keeps {''block_when_disconnected'', ''lockdown_mode''} migrate_block_when_disconnected"
  by (auto simp: keeps_def migrate_block_when_disconnected_def same_except_def)

lemma duplicated_names_keeps: "keeps {''api_access_methods''} migrate_duplicated_api_access_method_names"
  unfolding migrate_duplicated_api_access_method_names_def [abs_def] by (intro keeping keeps_bind) simp_all

lemma keeps_mono: "keeps K f \<Longrightarrow> K \<subseteq> L \<Longrightarrow> keeps L f"
  unfolding keeps_def by (blast intro: same_except_mono)

interpretation v11: settings_migration 11 v11_migrate "touched [''block_when_disconnected'', ''lockdown_mode'', ''api_access_methods'']" 
proof
  show "version_matches (11 + 1) w" if "version_matches 11 v" "v11_migrate v = Inr w" for v w
    using that by (auto simp: v11_migrate_def dest: set_version_matches)
  show "keeps (touched [''block_when_disconnected'', ''lockdown_mode'', ''api_access_methods'']) v11_migrate"
    unfolding v11_migrate_def [abs_def]
    by (intro keeping keeps_mono [OF block_when_disconnected_keeps] keeps_mono [OF duplicated_names_keeps]) simp_all
qed (simp add: v11_migrate_def)

interpretation v12: settings_migration 12 v12_migrate "touched [''relay_settings'']" 
proof
  show "version_matches (12 + 1) w" if "version_matches 12 v" "v12_migrate v = Inr w" for v w
    using that by (auto simp: v12_migrate_def dest: set_version_matches)
  show "keeps (touched [''relay_settings'']) v12_migrate"
    unfolding v12_migrate_def [abs_def] migrate_filters_to_new_entry_only_filters_def by (intro keeping keeps_bind) simp_all
qed (simp add: v12_migrate_def)

lemma quantum_resistance_keeps: "keeps {''tunnel_options''} migrate_quantum_resistance"
  unfolding migrate_quantum_resistance_def [abs_def] by (intro keeping keeps_bind) simp_all

interpretation v13: settings_migration 13 v13_migrate "touched [''tunnel_options'']" 
proof
  show "version_matches (13 + 1) w" if "version_matches 13 v" "v13_migrate v = Inr w" for v w
    using that by (auto simp: v13_migrate_def dest: set_version_matches)
  show "keeps (touched [''tunnel_options'']) v13_migrate"
    unfolding v13_migrate_def [abs_def]
    by (intro keeping keeps_mono [OF quantum_resistance_keeps]) simp_all
qed (simp add: v13_migrate_def)

lemma wireguard_port_keeps: "keeps {''relay_settings'', ''obfuscation_settings''} (\<lambda>v. Inr (migrate_wireguard_port v))"
  by (auto simp: keeps_def migrate_wireguard_port_def same_except_def Let_def split: option.splits json.splits)

lemma v14_migrate_alt:
  "v14_migrate = (\<lambda>v. if \<not> version_matches 14 v then Inr v else and_then (Inr (migrate_wireguard_port v)) (set_version 15))"
  by (simp add: v14_migrate_def fun_eq_iff)

interpretation v14: settings_migration 14 v14_migrate "touched [''relay_settings'', ''obfuscation_settings'']" 
proof
  show "version_matches (14 + 1) w" if "version_matches 14 v" "v14_migrate v = Inr w" for v w
    using that by (auto simp: v14_migrate_def dest: set_version_matches)
  show "keeps (touched [''relay_settings'', ''obfuscation_settings'']) v14_migrate"
    unfolding v14_migrate_alt
    by (intro keeping keeps_mono [OF wireguard_port_keeps]) simp_all
qed (simp add: v14_migrate_def)

lemma entry_location_keeps: "keeps {''relay_settings''} migrate_entry_location"
  by (auto simp: keeps_def migrate_entry_location_def same_except_def split: option.splits json.splits if_splits)

interpretation v15: settings_migration 15 v15_migrate "touched [''relay_settings'']" 
proof
  show "version_matches (15 + 1) w" if "version_matches 15 v" "v15_migrate v = Inr w" for v w
    using that by (auto simp: v15_migrate_def dest: set_version_matches)
  show "keeps (touched [''relay_settings'']) v15_migrate"
    unfolding v15_migrate_def [abs_def]
    by (intro keeping keeps_mono [OF entry_location_keeps]) simp_all
qed (simp add: v15_migrate_def)

section \<open>The chain\<close>

fun run_all :: "(json \<Rightarrow> migration_error + json) list \<Rightarrow> json \<Rightarrow> migration_error + json" where
  "run_all [] v = Inr v"
| "run_all (f # fs) v = and_then (f v) (run_all fs)"

abbreviation early_migrations :: "serde_env \<Rightarrow> (json \<Rightarrow> migration_error + json) list" where
  "early_migrations env \<equiv> [v2_migrate, v3_migrate env, v4_migrate]"

abbreviation late_migrations :: "serde_env \<Rightarrow> (json \<Rightarrow> migration_error + json) list" where
  "late_migrations env \<equiv> [\<lambda>v. map_sum id fst (v5_migrate v), v6_migrate, v7_migrate env, v8_migrate, v9_migrate, v10_migrate,
     v11_migrate, v12_migrate, v13_migrate, v14_migrate, v15_migrate]"

lemma migrate_settings_stages:
  assumes "migrate_settings env parse dirs s = Inr (t, d, dirs')"
  obtains a b c where "as_object s \<noteq> None" and "v1_migrate s = Inr a" and "run_all (early_migrations env) a = Inr b"
    and "migrate_history parse dirs b = Inr (dirs', c)" and "run_all (late_migrations env) c = Inr t"
    and "\<exists>e. v5_migrate c = Inr (e, d)"
  using assms by (fastforce simp: migrate_settings_def split: if_splits)

definition migrations_from :: "int \<Rightarrow> (json \<Rightarrow> migration_error + json) list \<Rightarrow> bool" where
  "migrations_from n fs = (\<forall>i < length fs. \<exists>K. settings_migration (n + int i) (fs ! i) K)"

lemma migrations_from_Cons:
  "migrations_from n (f # fs) \<longleftrightarrow> (\<exists>K. settings_migration n f K) \<and> migrations_from (n + 1) fs"
  by (auto simp: migrations_from_def All_less_Suc2 algebra_simps)

lemma migrations_from_Nil [simp]: "migrations_from n []"
  by (simp add: migrations_from_def)

lemma run_all_version:
  assumes "migrations_from n fs" and "run_all fs v = Inr w" and "version_matches k v" and "n \<le> k" "k \<le> n + int (length fs)"
  shows "version_matches (n + int (length fs)) w"
  using assms
proof (induction fs arbitrary: n k v)
  case Nil
  then show ?case by simp
next
  case (Cons f fs)
  obtain K where f: "settings_migration n f K" using Cons.prems(1) by (auto simp: migrations_from_Cons)
  obtain u where u: "f v = Inr u" "run_all fs u = Inr w" using Cons.prems(2) by auto
  have "version_matches (if k = n then n + 1 else k) u"
    by (rule settings_migration.version_after [OF f Cons.prems(3) u(1)])
  then have "version_matches (n + 1 + int (length fs)) w"
    using Cons.prems by (intro Cons.IH [OF _ u(2)]) (auto simp: migrations_from_Cons)
  then show ?case by (simp add: algebra_simps)
qed

lemma run_all_skips:
  assumes "migrations_from n fs" and "\<And>i. n \<le> i \<Longrightarrow> i < n + int (length fs) \<Longrightarrow> \<not> version_matches i v"
  shows "run_all fs v = Inr v"
  using assms
proof (induction fs arbitrary: n)
  case (Cons f fs)
  obtain K where f: "settings_migration n f K" using Cons.prems(1) by (auto simp: migrations_from_Cons)
  have "f v = Inr v" using settings_migration.skips [OF f] Cons.prems(2) [of n] by simp
  moreover have "run_all fs v = Inr v"
    using Cons.IH [of "n + 1"] Cons.prems by (simp add: migrations_from_Cons)
  ultimately show ?case by simp
qed simp

lemma run_all_keeps:
  "(\<And>f. f \<in> set fs \<Longrightarrow> keeps K f) \<Longrightarrow> as_object v \<noteq> None \<Longrightarrow> run_all fs v = Inr w \<Longrightarrow> same_except K v w"
proof (induction fs arbitrary: v)
  case Nil
  then show ?case by (simp add: same_except_refl)
next
  case (Cons f fs)
  then obtain u where u: "f v = Inr u" "run_all fs u = Inr w" by auto
  have "keeps K f" by (rule Cons.prems(1)) simp
  then have "same_except K v u" using Cons.prems(2) u(1) by (rule keepsD)
  moreover have "same_except K u w"
    using Cons.IH [of u] Cons.prems u(2) same_except_object [OF \<open>same_except K v u\<close>] by simp
  ultimately show ?case by (rule same_except_trans_same)
qed

lemma early_migrations_from: "migrations_from 2 (early_migrations env)"
  using v2.settings_migration_axioms v3.settings_migration_axioms v4.settings_migration_axioms
  by (auto simp: migrations_from_Cons)

lemma late_migrations_from: "migrations_from 5 (late_migrations env)"
  using v5.settings_migration_axioms v6.settings_migration_axioms v7.settings_migration_axioms v8.settings_migration_axioms
    v9.settings_migration_axioms v10.settings_migration_axioms v11.settings_migration_axioms v12.settings_migration_axioms
    v13.settings_migration_axioms v14.settings_migration_axioms v15.settings_migration_axioms
  unfolding migrations_from_Cons by (simp add: migrations_from_Cons) blast

lemmas all_keep = v1_keeps v2.keeps_fields v3.keeps_fields v4.keeps_fields v5.keeps_fields v6.keeps_fields v7.keeps_fields
  v8.keeps_fields v9.keeps_fields v10.keeps_fields v11.keeps_fields v12.keeps_fields v13.keeps_fields v14.keeps_fields
  v15.keeps_fields

lemma migrate_history_fields:
  assumes "migrate_history parse dirs v = Inr (dirs', w)" and "as_object v \<noteq> None"
  shows "same_except {''wireguard''} v w" and "dirs = None \<Longrightarrow> w = v \<and> dirs' = None"
proof -
  have "same_except {''wireguard''} v w" if "migrate_formats_inner parse bytes v = Inr (tok, w)" for bytes tok
    using that assms(2) keepsD [OF keeps_assign [of "''wireguard''" "{''wireguard''}" "[]"]]
    by (auto simp: migrate_formats_inner_def same_except_refl split: option.splits list.splits)
  then show "same_except {''wireguard''} v w"
    using assms by (auto simp: migrate_history_def migrate_formats_def same_except_refl split: option.splits if_splits)
  show "w = v \<and> dirs' = None" if "dirs = None"
    using assms(1) that by (simp add: migrate_history_def)
qed

text \<open>The fields that the migrations are about.\<close>

definition migrated_fields :: "string set" where
  "migrated_fields = {''settings_version'', ''relay_settings'', ''show_beta_releases'', ''tunnel_options'',
     ''obfuscation_settings'', ''account_token'', ''wireguard'', ''bridge_settings'', ''api_access_methods'',
     ''block_when_disconnected'', ''lockdown_mode''}"

lemma all_keep_migrated:
  "keeps migrated_fields v1_migrate" "f \<in> set (early_migrations env) \<Longrightarrow> keeps migrated_fields f"
  "f \<in> set (late_migrations env) \<Longrightarrow> keeps migrated_fields f"
  using all_keep [THEN keeps_mono, of migrated_fields] by (auto simp: migrated_fields_def)

end
