(* ===== verification/Migrations_Names.thy ===== *)
theory Migrations_Names
  imports Migrations_Correct
begin

text \<open>The names of access methods after version 11: no two are equal, and older ones are kept.\<close>

lemma generate_fresh:
  "generate_access_method_name names name index suffix \<notin> set (take index names) \<and>
   (\<exists>k. generate_access_method_name names name index suffix = suffixed name k)"
proof (induction names name index suffix rule: generate_access_method_name.induct)
  case (1 names name index suffix)
  then show ?case
    by (subst (1 2) generate_access_method_name.simps) (auto simp: Let_def should_rename_iff)
qed

text \<open>One step of the loop changes at most the name at the index, and only if it occurs before.\<close>

lemma rename_access_method_step:
  assumes "i < length names"
  shows "length (rename_access_method i names) = length names"
    and "j \<noteq> i \<Longrightarrow> rename_access_method i names ! j = names ! j"
    and "take i (rename_access_method i names) = take i names"
    and "rename_access_method i names ! i \<notin> set (take i names)"
    and "rename_access_method i names ! i = names ! i \<or>
      names ! i \<in> set (take i names) \<and> (\<exists>k. rename_access_method i names ! i = suffixed (names ! i) k)"
  using assms generate_fresh by (auto simp: rename_access_method_def Let_def should_rename_iff)

definition renamed_upto :: "nat \<Rightarrow> string list \<Rightarrow> string list \<Rightarrow> bool" where
  "renamed_upto i old new =
     (length new = length old \<and> distinct (take i new) \<and> (\<forall>j. i \<le> j \<longrightarrow> new ! j = old ! j) \<and>
      (\<forall>j < i. new ! j = old ! j \<or> old ! j \<in> set (take j new) \<and> (\<exists>k. new ! j = suffixed (old ! j) k)))"

lemma rename_access_method_upto:
  assumes "i < length old" and "renamed_upto i old new"
  shows "renamed_upto (Suc i) old (rename_access_method i new)"
proof -
  let ?new = "rename_access_method i new"
  have i: "i < length new" using assms by (simp add: renamed_upto_def)
  note step = rename_access_method_step [OF i]
  have take: "take (Suc i) ?new = take i new @ [?new ! i]"
    using step(1,3) i by (simp add: take_Suc_conv_app_nth)
  have same: "take j ?new = take j new" if "j \<le> i" for j
    using step(3) that by (metis min.absorb1 take_take)
  show ?thesis
    unfolding renamed_upto_def
  proof (intro conjI allI impI)
    show "length ?new = length old" using step(1) assms(2) by (simp add: renamed_upto_def)
    show "distinct (take (Suc i) ?new)" unfolding take using step(4) assms(2) by (simp add: renamed_upto_def)
    show "?new ! j = old ! j" if "Suc i \<le> j" for j using that step(2) assms(2) by (simp add: renamed_upto_def)
    show "?new ! j = old ! j \<or> old ! j \<in> set (take j ?new) \<and> (\<exists>k. ?new ! j = suffixed (old ! j) k)" if "j < Suc i" for j
    proof (cases "j = i")
      case True
      have "new ! i = old ! i" using assms(2) by (simp add: renamed_upto_def)
      with step(5) show ?thesis using True same [of i] by auto
    next
      case False
      with that have "j < i" by simp
      with assms(2) False show ?thesis using step(2) [of j] same [of j] by (simp add: renamed_upto_def)
    qed
  qed
qed

lemma rename_access_methods_upto: "renamed_upto (length names) names (rename_access_methods names)"
proof -
  have "renamed_upto i names (fold rename_access_method [0..<i] names)" if "i \<le> length names" for i
    using that by (induction i) (auto simp: renamed_upto_def [of 0] intro: rename_access_method_upto)
  then show ?thesis by (simp add: rename_access_methods_def)
qed

lemma rename_access_methods_distinct: "distinct (rename_access_methods names)"
  using rename_access_methods_upto [of names] by (auto simp: renamed_upto_def)

lemma length_rename_access_methods [simp]: "length (rename_access_methods names) = length names"
  using rename_access_methods_upto [of names] by (simp add: renamed_upto_def)

lemma method_name_put [simp]: "method_name v = Some s \<Longrightarrow> method_name (json_put [''name''] (JString n) v) = Some n"
  by (cases v) (auto simp: method_name_def as_str_def)

lemma write_names_exact:
  "length names = length (List.map_filter method_name vs) \<Longrightarrow> List.map_filter method_name (write_names vs names) = names"
proof (induction vs names rule: write_names.induct)
  case (2 v vs names)
  then show ?case
    by (cases "method_name v") (auto simp: map_filter_simps simp del: json_put.simps split: list.splits)
qed (simp add: map_filter_simps)

text \<open>The names of the custom access methods in a settings file.\<close>

definition custom_names :: "json \<Rightarrow> string list" where
  "custom_names settings =
     (case Option.bind (json_path [''api_access_methods'', ''custom''] settings) as_array of
        None \<Rightarrow> [] | Some methods \<Rightarrow> List.map_filter method_name methods)"

lemma custom_names_cong: "json_get ''api_access_methods'' v = json_get ''api_access_methods'' w \<Longrightarrow> custom_names v = custom_names w"
  by (simp add: custom_names_def)

lemma duplicated_names_migrated:
  assumes "migrate_duplicated_api_access_method_names v = Inr w"
  shows "custom_names w = rename_access_methods (custom_names v)"
proof (cases "json_path [''api_access_methods'', ''custom''] v")
  case None
  then have "w = v" using assms by (auto simp: migrate_duplicated_api_access_method_names_def json_update_def)
  with None show ?thesis by (simp add: custom_names_def rename_access_methods_def)
next
  case (Some x)
  show ?thesis
  proof (cases "as_array x")
    case None
    have "json_path [''api_access_methods'', ''custom''] w = Some x"
      using assms Some None json_path_put [of "[''api_access_methods'', ''custom'']" v x]
      by (auto simp: migrate_duplicated_api_access_method_names_def json_update_def simp del: json_path.simps json_put.simps)
    with Some None show ?thesis by (simp add: custom_names_def rename_access_methods_def del: json_path.simps)
  next
    case (Some methods)
    let ?new = "write_names methods (rename_access_methods (List.map_filter method_name methods))"
    have "json_path [''api_access_methods'', ''custom''] w = Some (JArray ?new)"
      using assms \<open>json_path _ v = Some x\<close> Some json_path_put [of "[''api_access_methods'', ''custom'']" v "JArray ?new"]
      by (auto simp: migrate_duplicated_api_access_method_names_def json_update_def simp del: json_path.simps json_put.simps)
    with Some \<open>json_path _ v = Some x\<close> show ?thesis
      by (simp add: custom_names_def as_array_def write_names_exact del: json_path.simps)
  qed
qed

lemma v11_names:
  assumes "version_matches 11 v" and "v11_migrate v = Inr w" and "as_object v \<noteq> None"
  shows "custom_names w = rename_access_methods (custom_names v)"
    and "json_get ''lockdown_mode'' w = json_get ''block_when_disconnected'' v"
proof -
  obtain a b where ab: "migrate_block_when_disconnected v = Inr a" "migrate_duplicated_api_access_method_names a = Inr b"
    "set_version 12 b = Inr w" using assms(1,2) by (auto simp: v11_migrate_def)
  have a: "same_except {''block_when_disconnected'', ''lockdown_mode''} v a"
    by (rule keepsD [OF block_when_disconnected_keeps assms(3) ab(1)])
  have b: "same_except {''api_access_methods''} a b"
    by (rule keepsD [OF duplicated_names_keeps same_except_object [OF a] ab(2)])
  have w: "same_except {''settings_version''} b w"
    by (rule keepsD [OF keeps_set_version same_except_object [OF b] ab(3)]) simp
  show "custom_names w = rename_access_methods (custom_names v)"
    using duplicated_names_migrated [OF ab(2)]
      custom_names_cong [OF same_except_get [OF a, of "''api_access_methods''"]]
      custom_names_cong [OF same_except_get [OF w, of "''api_access_methods''"]] by simp
  have "json_get ''lockdown_mode'' a = json_get ''block_when_disconnected'' v"
    using ab(1) by (auto simp: migrate_block_when_disconnected_def)
  then show "json_get ''lockdown_mode'' w = json_get ''block_when_disconnected'' v"
    using same_except_get [OF b, of "''lockdown_mode''"] same_except_get [OF w, of "''lockdown_mode''"] by simp
qed

end
