(* ===== verification/Migrations_Properties.thy ===== *)
theory Migrations_Properties
  imports Migrations_Names
begin

text \<open>
  Properties of the settings migrations: they end at the current version, do nothing a second time, and
  lose nothing they are not about. Ways in which they fail are stated as well.
\<close>

section \<open>Versions\<close>

text \<open>The settings have a version that some migration is for.\<close>

definition outdated :: "int \<Rightarrow> json \<Rightarrow> bool" where
  "outdated n s = (json_get ''settings_version'' s = None \<or> (\<exists>k \<ge> 2. k \<le> n \<and> version_matches k s))"

lemma v1_outdated:
  assumes "v1_migrate s = Inr a" and "outdated n s" and "2 \<le> n"
  obtains k where "2 \<le> k" "k \<le> n" "version_matches k a"
  using assms v1_version [OF assms(1)] by (auto simp: outdated_def version_matches_def)

lemma early_version:
  assumes "run_all (early_migrations env) a = Inr b" and "2 \<le> k" and "version_matches k a"
  shows "version_matches (max k 5) b"
proof (cases "k \<le> 5")
  case True
  then show ?thesis using run_all_version [OF early_migrations_from assms(1,3)] assms(2) by simp
next
  case False
  then have "run_all (early_migrations env) a = Inr a"
    using version_matches_unique [OF assms(3)] by (intro run_all_skips [OF early_migrations_from]) auto
  with assms False show ?thesis by simp
qed

lemma history_version:
  assumes "migrate_history parse dirs b = Inr (dirs', c)" and "version_matches k b"
  shows "version_matches k c"
proof -
  have "as_object b \<noteq> None" using assms(2) by (cases b) (auto simp: version_matches_def)
  then show ?thesis
    using same_except_get [OF migrate_history_fields(1) [OF assms(1)], of "''settings_version''"] assms(2)
    by (simp add: version_matches_def)
qed

lemma migrated_version:
  assumes "migrate_settings env parse dirs s = Inr (t, d, dirs')" and "outdated 15 s"
  shows "version_matches 16 t"
proof -
  obtain a b c where stages: "v1_migrate s = Inr a" "run_all (early_migrations env) a = Inr b"
    "migrate_history parse dirs b = Inr (dirs', c)" "run_all (late_migrations env) c = Inr t"
    by (rule migrate_settings_stages [OF assms(1)])
  obtain k where k: "2 \<le> k" "k \<le> 15" "version_matches k a" by (rule v1_outdated [OF stages(1) assms(2)]) simp
  have "version_matches (max k 5) c"
    by (rule history_version [OF stages(3) early_version [OF stages(2) k(1,3)]])
  then show ?thesis
    using run_all_version [OF late_migrations_from stages(4)] k by simp
qed

lemma migrated_same:
  assumes "migrate_settings env parse dirs s = Inr (t, d, dirs')"
  shows "same_except migrated_fields s t"
proof -
  obtain a b c where stages: "as_object s \<noteq> None" "v1_migrate s = Inr a" "run_all (early_migrations env) a = Inr b"
    "migrate_history parse dirs b = Inr (dirs', c)" "run_all (late_migrations env) c = Inr t"
    by (rule migrate_settings_stages [OF assms])
  have a: "same_except migrated_fields s a" by (rule keepsD [OF all_keep_migrated(1) stages(1,2)])
  have b: "same_except migrated_fields a b"
    by (rule run_all_keeps [OF all_keep_migrated(2) same_except_object [OF a] stages(3)])
  have c: "same_except migrated_fields b c"
    using migrate_history_fields(1) [OF stages(4) same_except_object [OF b]]
    by (rule same_except_mono) (simp add: migrated_fields_def)
  have t: "same_except migrated_fields c t"
    by (rule run_all_keeps [OF all_keep_migrated(3) same_except_object [OF c] stages(5)])
  show ?thesis by (rule same_except_trans_same [OF a same_except_trans_same [OF b same_except_trans_same [OF c t]]])
qed

text \<open>Settings that no migration is for.\<close>

definition settled :: "json \<Rightarrow> bool" where
  "settled s = (json_get ''settings_version'' s \<noteq> None \<and> (\<forall>k \<ge> 2. k \<le> 15 \<longrightarrow> \<not> version_matches k s))"

lemma settled_unchanged:
  assumes "as_object s \<noteq> None" and "settled s"
  shows "migrate_settings env parse None s = Inr (s, None, None)"
  using assms
  by (simp add: settled_def migrate_settings_def migrate_history_def v1_migrate_def v2_migrate_def v3_migrate_def
      v4_migrate_def v5_migrate_def v6_migrate_def v7_migrate_def v8_migrate_def v9_migrate_def v10_migrate_def
      v11_migrate_def v12_migrate_def v13_migrate_def v14_migrate_def v15_migrate_def)

text \<open>The settings before and after the migration from version 11.\<close>

lemma run_all_append: "run_all (fs @ gs) v = and_then (run_all fs v) (run_all gs)"
  by (induction fs arbitrary: v) (auto simp: and_then_def split: sum.splits)

abbreviation middle_migrations :: "serde_env \<Rightarrow> (json \<Rightarrow> migration_error + json) list" where
  "middle_migrations env \<equiv> [\<lambda>v. map_sum id fst (v5_migrate v), v6_migrate, v7_migrate env, v8_migrate, v9_migrate, v10_migrate]"

abbreviation last_migrations :: "(json \<Rightarrow> migration_error + json) list" where
  "last_migrations \<equiv> [v12_migrate, v13_migrate, v14_migrate, v15_migrate]"

lemma middle_migrations_from: "migrations_from 5 (middle_migrations env)"
  using late_migrations_from [of env] by (simp add: migrations_from_Cons)

lemma around_v11:
  assumes "migrate_settings env parse dirs s = Inr (t, d, dirs')" and "outdated 11 s"
  obtains u v where "same_except (migrated_fields - {''block_when_disconnected'', ''lockdown_mode''}) s u"
    and "version_matches 11 u" and "v11_migrate u = Inr v"
    and "same_except (migrated_fields - {''lockdown_mode'', ''api_access_methods''}) v t"
proof -
  let ?K = "migrated_fields - {''block_when_disconnected'', ''lockdown_mode''}"
  let ?L = "migrated_fields - {''lockdown_mode'', ''api_access_methods''}"
  obtain a b c where stages: "as_object s \<noteq> None" "v1_migrate s = Inr a" "run_all (early_migrations env) a = Inr b"
    "migrate_history parse dirs b = Inr (dirs', c)" "run_all (late_migrations env) c = Inr t"
    by (rule migrate_settings_stages [OF assms(1)])
  have "run_all (middle_migrations env @ v11_migrate # last_migrations) c = Inr t"
    using stages(5) by (simp only: append_Cons append_Nil)
  then obtain u where u: "run_all (middle_migrations env) c = Inr u" and rest: "run_all (v11_migrate # last_migrations) u = Inr t"
    unfolding run_all_append by (rule and_then_InrE)
  from rest obtain v where v: "v11_migrate u = Inr v" and t: "run_all last_migrations v = Inr t"
    unfolding run_all.simps(2) [of v11_migrate] by (rule and_then_InrE)
  note keepK = all_keep [THEN keeps_mono, of ?K] and keepL = all_keep [THEN keeps_mono, of ?L]
  have a: "same_except ?K s a" by (rule keepsD [OF keepK(1) stages(1,2)]) (simp add: migrated_fields_def)
  have b: "same_except ?K a b"
    by (rule run_all_keeps [OF _ same_except_object [OF a] stages(3)]) (use keepK in \<open>auto simp: migrated_fields_def\<close>)
  have c: "same_except ?K b c"
    using migrate_history_fields(1) [OF stages(4) same_except_object [OF b]]
    by (rule same_except_mono) (simp add: migrated_fields_def)
  have cu: "same_except ?K c u"
    by (rule run_all_keeps [OF _ same_except_object [OF c] u]) (use keepK in \<open>auto simp: migrated_fields_def\<close>)
  have "same_except ?K s u"
    by (rule same_except_trans_same [OF a same_except_trans_same [OF b same_except_trans_same [OF c cu]]])
  moreover have "version_matches 11 u"
  proof -
    obtain k where k: "2 \<le> k" "k \<le> 11" "version_matches k a" by (rule v1_outdated [OF stages(2) assms(2)]) simp
    have "version_matches (max k 5) c"
      by (rule history_version [OF stages(4) early_version [OF stages(3) k(1,3)]])
    then show ?thesis using run_all_version [OF middle_migrations_from u] k by simp
  qed
  moreover have "same_except ?L v t"
  proof (rule run_all_keeps [OF _ _ t])
    show "keeps ?L f" if "f \<in> set last_migrations" for f
      using that keepL by (auto simp: migrated_fields_def)
    show "as_object v \<noteq> None" by (rule same_except_object [OF v11.fields_after [OF same_except_object [OF cu] v]])
  qed
  ultimately show ?thesis using that v by blast
qed

text \<open>
  C33. The migrations end at the current version: settings without a version, or with one that a migration is for,
  are at the current version when the chain of migrations succeeds.
\<close>

theorem migration_reaches_current:
  assumes "migrate_settings env parse dirs s = Inr (t, d, dirs')" and "outdated 15 s"
  shows "version_matches CURRENT_SETTINGS_VERSION t"
  using migrated_version [OF assms] by (simp add: CURRENT_SETTINGS_VERSION_def)

definition ex_env :: serde_env where
  "ex_env = \<lparr>se_ip_addr = Some, se_socket_addr = Some, se_cipher = Some, se_to_string = (\<lambda>v.
     case v of JString s \<Rightarrow> [CHR 0x22] @ s @ [CHR 0x22] | _ \<Rightarrow> []), se_bridge_constraints = Some\<rparr>"

definition ex_v1_settings :: json where
  "ex_v1_settings = JObject [(''account_token'', JString ''1234''), (''block_when_disconnected'', JBool True),
     (''relay_settings'', JObject [(''normal'', JObject [(''location'', JObject [(''only'', JObject [(''country'', JString ''se'')])]),
        (''tunnel'', JObject [(''only'', JObject [(''openvpn'', JObject [(''port'', JObject [(''only'', JNumber (JInt 53))])])])])])]),
     (''tunnel_options'', JObject [(''wireguard'', JObject [(''mtu'', JNull)])])]"

definition ex_migrated :: json where
  "ex_migrated = (case migrate_settings ex_env (\<lambda>_. None) None ex_v1_settings of Inr (t, _) \<Rightarrow> t | Inl _ \<Rightarrow> JNull)"

lemma ex_migrated_eq:
  "migrate_settings ex_env (\<lambda>_. None) None ex_v1_settings =
     Inr (ex_migrated, Some \<lparr>mig_token = ''1234'', mig_wg_data = None\<rparr>, None)"
  by code_simp

theorem migration_reaches_current_witness: "version_matches CURRENT_SETTINGS_VERSION ex_migrated"
  by (rule migration_reaches_current [OF ex_migrated_eq]) (simp add: outdated_def ex_v1_settings_def)

text \<open>
  Migrating is idempotent: the result of the migrations is left alone by the migrations, whatever version
  the settings had.
\<close>

theorem migration_idempotent:
  assumes "migrate_settings env parse None s = Inr (t, d, dirs')"
  shows "migrate_settings env parse None t = Inr (t, None, None)"
proof (rule settled_unchanged)
  show "as_object t \<noteq> None" using migrated_same [OF assms] by (rule same_except_object)
  show "settled t"
  proof (cases "outdated 15 s")
    case True
    then show ?thesis using migrated_version [OF assms] by (auto simp: settled_def version_matches_def)
  next
    case False
    then have "settled s" by (simp add: settled_def outdated_def)
    moreover have "as_object s \<noteq> None" by (rule migrate_settings_stages [OF assms])
    ultimately show ?thesis using settled_unchanged [of s env parse] assms by simp
  qed
qed

theorem migration_idempotent_witness:
  "migrate_settings ex_env (\<lambda>_. None) None ex_migrated = Inr (ex_migrated, None, None)"
  by (rule migration_idempotent [OF ex_migrated_eq])

section \<open>Nothing else is lost\<close>

text \<open>
  C34. The settings that no migration is about survive: every field of the settings but the eleven that
  migrations work on has the same value afterwards, whatever it is.
\<close>

theorem migration_keeps_other_settings:
  assumes "migrate_settings env parse dirs s = Inr (t, d, dirs')" and "k \<notin> migrated_fields"
  shows "json_get k t = json_get k s"
  by (rule same_except_get [OF migrated_same [OF assms(1)] assms(2)])

theorem migration_keeps_other_settings_witness:
  "json_get ''allow_lan'' (case migrate_settings ex_env (\<lambda>_. None) None
       (JObject [(''allow_lan'', JBool True), (''block_when_disconnected'', JBool False),
          (''tunnel_options'', JObject [(''wireguard'', JObject [])])]) of Inr (t, _) \<Rightarrow> t | Inl _ \<Rightarrow> JNull) = Some (JBool True)"
proof -
  let ?s = "JObject [(''allow_lan'', JBool True), (''block_when_disconnected'', JBool False),
    (''tunnel_options'', JObject [(''wireguard'', JObject [])])]"
  have "res_ok (migrate_settings ex_env (\<lambda>_. None) None ?s)" by code_simp
  then obtain t d dirs where t: "migrate_settings ex_env (\<lambda>_. None) None ?s = Inr (t, d, dirs)"
    by (auto simp: res_ok_def split: sum.splits)
  with migration_keeps_other_settings [OF t, of "''allow_lan''"] show ?thesis by (simp add: migrated_fields_def)
qed

text \<open>
  The kill switch survives: settings older than version 12 come out of the migrations with the lockdown mode that
  was called \<open>block_when_disconnected\<close> before, which is there, and the names of the custom access methods are
  distinct.
\<close>

theorem migration_keeps_lockdown:
  assumes "migrate_settings env parse dirs s = Inr (t, d, dirs')" and "outdated 11 s"
  shows "json_get ''lockdown_mode'' t = json_get ''block_when_disconnected'' s \<and>
    json_get ''lockdown_mode'' t \<noteq> None \<and> distinct (custom_names t)"
proof -
  obtain u v where uv: "same_except (migrated_fields - {''block_when_disconnected'', ''lockdown_mode''}) s u"
    "version_matches 11 u" "v11_migrate u = Inr v" "same_except (migrated_fields - {''lockdown_mode'', ''api_access_methods''}) v t"
    by (rule around_v11 [OF assms])
  have u: "as_object u \<noteq> None" by (rule same_except_object [OF uv(1)])
  have "json_get ''lockdown_mode'' t = json_get ''lockdown_mode'' v" "json_get ''api_access_methods'' t = json_get ''api_access_methods'' v"
    "json_get ''block_when_disconnected'' u = json_get ''block_when_disconnected'' s"
    by (rule same_except_get [OF uv(4)], simp)+ (rule same_except_get [OF uv(1)], simp)
  moreover have "json_get ''block_when_disconnected'' u \<noteq> None"
    using uv(2,3) by (auto simp: v11_migrate_def migrate_block_when_disconnected_def)
  ultimately show ?thesis
    using v11_names [OF uv(2,3) u] custom_names_cong [of t v] rename_access_methods_distinct by simp
qed

theorem migration_keeps_lockdown_witness: "json_get ''lockdown_mode'' ex_migrated = Some (JBool True)"
  using migration_keeps_lockdown [OF ex_migrated_eq] by (simp add: outdated_def ex_v1_settings_def)

section \<open>Failures\<close>

text \<open>
  Settings without an entry location make the daemon panic: at version 15 the entry location of the WireGuard
  constraints is read by an index that needs it to be there, and the migration from version 5 removes it
  when it is null.
\<close>

theorem missing_entry_location_panics:
  assumes "version_matches 15 s" and "json_path wireguard_constraints_path s = Some (JObject m)"
    and "obj_get ''entry_location'' m = None"
  shows "v15_migrate s = Inl (MigrationPanic ''no entry found for key'')"
  using assms by (simp add: v15_migrate_def migrate_entry_location_def)

definition ex_null_entry :: json where
  "ex_null_entry = JObject [(''block_when_disconnected'', JBool False),
     (''relay_settings'', JObject [(''normal'', JObject [(''wireguard_constraints'', JObject [(''entry_location'', JNull)])])]),
     (''settings_version'', JNumber (JInt 5)), (''tunnel_options'', JObject [(''wireguard'', JObject [])])]"

definition ex_null_entry_v15 :: json where
  "ex_null_entry_v15 = JObject [(''lockdown_mode'', JBool False),
     (''relay_settings'', JObject [(''normal'', JObject [(''wireguard_constraints'', JObject [])])]),
     (''settings_version'', JNumber (JInt 15)),
     (''tunnel_options'', JObject [(''wireguard'', JObject [(''quantum_resistant'', JString ''on'')])])]"

theorem missing_entry_location_panics_witness:
  "v15_migrate ex_null_entry_v15 = Inl (MigrationPanic ''no entry found for key'') \<and>
   migrate_settings ex_env (\<lambda>_. None) None ex_null_entry = Inl (MigrationPanic ''no entry found for key'')"
proof
  show "v15_migrate ex_null_entry_v15 = Inl (MigrationPanic ''no entry found for key'')"
    by (rule missing_entry_location_panics [where m = "[]"])
      (simp_all add: version_matches_def ex_null_entry_v15_def)
  show "migrate_settings ex_env (\<lambda>_. None) None ex_null_entry = Inl (MigrationPanic ''no entry found for key'')"
    by code_simp
qed

text \<open>
  A port constraint is dropped: the migration from version 14 takes the port out of the WireGuard constraints
  before it looks for the obfuscation settings, so without them the port is gone.
\<close>

theorem wireguard_port_dropped:
  assumes "version_matches 14 s" and "json_path wireguard_constraints_path s = Some (JObject m)"
    and "obj_get ''port'' m = Some port" and "json_get ''obfuscation_settings'' s = None"
  shows "\<exists>t. v14_migrate s = Inr t \<and> json_get ''obfuscation_settings'' t = None \<and>
    json_path wireguard_constraints_path t = Some (JObject (obj_remove ''port'' m))"
proof -
  obtain r where r: "s = JObject r" using assms(1) by (cases s) (auto simp: version_matches_def)
  then show ?thesis
    using assms
    by (auto simp: v14_migrate_def migrate_wireguard_port_def set_version_def index_assign_def json_get_Some
        split: Option.bind_splits option.splits)
qed

theorem wireguard_port_dropped_witness:
  "\<exists>t. v14_migrate (JObject [(''relay_settings'', JObject [(''normal'', JObject [(''wireguard_constraints'',
        JObject [(''port'', JObject [(''only'', JNumber (JInt 51820))])])])]), (''settings_version'', JNumber (JInt 14))]) = Inr t \<and>
     json_get ''obfuscation_settings'' t = None \<and> json_path wireguard_constraints_path t = Some (JObject [])"
  using wireguard_port_dropped [of "JObject [(''relay_settings'', JObject [(''normal'', JObject [(''wireguard_constraints'',
        JObject [(''port'', JObject [(''only'', JNumber (JInt 51820))])])])]), (''settings_version'', JNumber (JInt 14))]"
      "[(''port'', JObject [(''only'', JNumber (JInt 51820))])]" "JObject [(''only'', JNumber (JInt 51820))]"]
  by (simp add: version_matches_def obj_remove_def)

text \<open>
  An OpenVPN relay is not recognised: the migration from version 10 looks for the relay as a string, but
  a location that names a relay is an array of country, city and host name.
\<close>

theorem openvpn_relay_not_recognised:
  assumes "json_get ''tunnel_protocol'' normal = Some (JString ''any'')"
    and "json_path [''location'', ''only'', ''location''] normal =
      Some (JObject [(''hostname'', JArray [JString country, JString city, JString host])])"
  shows "\<exists>t. migrate_tunnel_type_inner normal = Inr t \<and> json_get ''tunnel_protocol'' t = Some (JString ''wireguard'')"
proof -
  obtain m where m: "normal = JObject m" using assms(1) by (auto simp: json_get_Some)
  have "json_path [''location'', ''only'', ''location'', ''hostname''] normal =
      Some (JArray [JString country, JString city, JString host])"
    using assms(2) by (auto split: Option.bind_splits)
  then show ?thesis
    using assms(1) m by (simp add: migrate_tunnel_type_inner_def index_assign_def del: json_path.simps)
qed

theorem openvpn_relay_not_recognised_witness:
  "\<exists>t. migrate_tunnel_type_inner (JObject [(''location'', JObject [(''only'', JObject [(''location'',
        JObject [(''hostname'', JArray [JString ''at'', JString ''vie'', JString ''at-vie-ovpn-001''])])])]),
      (''tunnel_protocol'', JString ''any'')]) = Inr t \<and> json_get ''tunnel_protocol'' t = Some (JString ''wireguard'')"
  by (rule openvpn_relay_not_recognised) simp_all

text \<open>
  The account history needs no migration: there is none, or it is in the current format and can be read.
\<close>

definition history_settled :: "history_dirs \<Rightarrow> bool" where
  "history_settled dirs =
     (case hd_new (migrate_location dirs) of None \<Rightarrow> True | Some bytes \<Rightarrow> hd_read_ok dirs \<and> is_format_v3 bytes)"

lemma migrate_location_read_ok [simp]: "hd_read_ok (migrate_location d) = hd_read_ok d"
  by (simp add: migrate_location_def)

lemma settled_all_unchanged:
  assumes "as_object s \<noteq> None" and "settled s" and "history_settled dirs"
  shows "migrate_settings env parse (Some dirs) s = Inr (s, None, Some (migrate_location dirs))"
proof -
  have "migrate_history parse (Some dirs) s = Inr (Some (migrate_location dirs), s)"
    using assms(3) by (simp add: migrate_history_def migrate_formats_def history_settled_def split: option.splits)
  then show ?thesis
    using assms(1,2)
    by (simp add: settled_def migrate_settings_def v1_migrate_def v2_migrate_def v3_migrate_def
        v4_migrate_def v5_migrate_def v6_migrate_def v7_migrate_def v8_migrate_def v9_migrate_def v10_migrate_def
        v11_migrate_def v12_migrate_def v13_migrate_def v14_migrate_def v15_migrate_def)
qed

text \<open>
  C35. The settings file is written only to store migrated settings. If there is nothing to migrate (the settings are at a version no migration is for, and
  so is the account history), the migration succeeds and the file is not touched, however opening or writing it would end. If the migration fails, except in
  writing the new settings, the file is not touched either. If it succeeds, the file has the migrated settings as they are printed,
  or is untouched when they are equal to the old ones. If writing fails, the file was not opened or has a beginning of the
  migrated settings, which differ from the old ones: the old content is lost then.
\<close>

theorem failed_migration_keeps_file:
  assumes "migrate_all env parse print dirs file = (r, file')" and "sf_content file = Some text"
  shows "(\<forall>s. sf_read_ok file \<and> parse text = Some s \<and> as_object s \<noteq> None \<and> settled s \<and> history_settled dirs \<longrightarrow>
      r = Inr None \<and> file' = file) \<and>
    (case r of
       Inr d \<Rightarrow> \<exists>s t dirs'. parse text = Some s \<and> migrate_settings env parse (Some dirs) s = Inr (t, d, dirs') \<and>
         file' = (if t = s then file else file\<lparr>sf_content := Some (print t)\<rparr>)
     | Inl e \<Rightarrow> file' = file \<or>
         e = MigWriteFailed \<and> (\<exists>s t d dirs' n. parse text = Some s \<and>
           migrate_settings env parse (Some dirs) s = Inr (t, d, dirs') \<and> t \<noteq> s \<and>
           file' = file\<lparr>sf_content := Some (take n (print t))\<rparr>))"
proof -
  have settled: "r = Inr None \<and> file' = file"
    if "sf_read_ok file" "parse text = Some s" "as_object s \<noteq> None" "settled s" "history_settled dirs" for s
    using assms that settled_all_unchanged [OF that(3-5), of env parse] by (simp add: migrate_all_def)
  show ?thesis
  proof (cases "sf_read_ok file \<and> parse text \<noteq> None")
    case False
    then show ?thesis using assms by (cases "sf_read_ok file") (auto simp: migrate_all_def)
  next
    case True
    then obtain s where s: "parse text = Some s" by blast
    show ?thesis
    proof (cases "migrate_settings env parse (Some dirs) s")
      case (Inl e)
      then show ?thesis using settled True s assms by (auto simp: migrate_all_def)
    next
      case (Inr x)
      obtain t d dirs' where x: "x = (t, d, dirs')" using prod_cases3 by blast
      note run = True s Inr x assms
      consider "r = Inr d" "file' = (if t = s then file else file\<lparr>sf_content := Some (print t)\<rparr>)"
        | e n where "r = Inl e" "file' = file \<or> e = MigWriteFailed \<and> t \<noteq> s \<and> file' = file\<lparr>sf_content := Some (take n (print t))\<rparr>"
      proof (cases "t = s \<or> \<not> sf_open_ok file")
        case True
        then show thesis using run that by (auto simp: migrate_all_def split: if_splits)
      next
        case False
        then show thesis
          using run that(1) that(2) [of MigWriteFailed "the (sf_write_fails_at file)"] that(2) [of MigWriteFailed "length (print t)"]
          by (cases "sf_write_fails_at file"; cases "sf_sync_ok file") (auto simp: migrate_all_def Let_def)
      qed
      then show ?thesis using settled s Inr x True by cases (auto split del: if_split)
    qed
  qed
qed

definition ex_history :: history_dirs where
  "ex_history = \<lparr>hd_old = None, hd_new = None, hd_same = False, hd_copy_ok = True, hd_remove_ok = True, hd_read_ok = True, hd_write_ok = True\<rparr>"

definition ex_full_disk :: settings_file where
  "ex_full_disk = \<lparr>sf_content = Some ''x'', sf_read_ok = True, sf_open_ok = True, sf_write_fails_at = Some 0, sf_sync_ok = True\<rparr>"

definition ex_settled :: json where
  "ex_settled = JObject [(''settings_version'', JNumber (JInt 16))]"

theorem failed_migration_keeps_file_witness:
  "migrate_all ex_env (\<lambda>_. Some ex_settled) (\<lambda>_. ''y'') ex_history ex_full_disk = (Inr None, ex_full_disk) \<and>
   snd (migrate_all ex_env (\<lambda>_. Some ex_null_entry) (\<lambda>_. ''y'') ex_history ex_full_disk) = ex_full_disk"
proof -
  have "history_settled ex_history" "settled ex_settled" "as_object ex_settled \<noteq> None"
    by (auto simp: history_settled_def ex_history_def migrate_location_def settled_def ex_settled_def version_matches_def as_object_def)
  then have one: "migrate_all ex_env (\<lambda>_. Some ex_settled) (\<lambda>_. ''y'') ex_history ex_full_disk = (Inr None, ex_full_disk)"
    using failed_migration_keeps_file [OF prod.collapse [symmetric], of ex_full_disk "''x''"
        "\<lambda>_. Some ex_settled" ex_history ex_env "\<lambda>_. ''y''"]
    by (simp add: ex_full_disk_def prod_eq_iff)
  have "fst (migrate_all ex_env (\<lambda>_. Some ex_null_entry) (\<lambda>_. ''y'') ex_history ex_full_disk) = Inl (MigrationPanic ''no entry found for key'')"
    by code_simp
  then have "snd (migrate_all ex_env (\<lambda>_. Some ex_null_entry) (\<lambda>_. ''y'') ex_history ex_full_disk) = ex_full_disk"
    using failed_migration_keeps_file [OF prod.collapse [symmetric], of ex_full_disk "''x''"
        "\<lambda>_. Some ex_null_entry" ex_history ex_env "\<lambda>_. ''y''"]
    by (simp add: ex_full_disk_def)
  with one show ?thesis by blast
qed

end
