(* ===== verification/Wg_Connectivity.thy ===== *)
theory Wg_Connectivity
  imports Net_Types Retry
begin

text \<open>
  The connectivity monitor of a WireGuard tunnel (\<open>talpid-wireguard/src/connectivity/\<close>): traffic counters are
  read at intervals, a ping is sent when nothing has been received for a while, and the tunnel is given up
  when nothing arrives for some time after the first ping. Instants and durations are numbers of
  nanoseconds. A program that reads the clock several times during one check gets later instants each time, so
  each reading is an input of its own.
\<close>

section \<open>Constants\<close>

definition from_secs :: "nat \<Rightarrow> nat" where "from_secs n = n * 1000000000"

definition BYTES_RX_TIMEOUT :: nat where "BYTES_RX_TIMEOUT = from_secs 5"

definition TRAFFIC_TIMEOUT :: nat where "TRAFFIC_TIMEOUT = from_secs 120"

definition PING_TIMEOUT :: nat where "PING_TIMEOUT = from_secs 15"

definition ESTABLISH_TIMEOUT :: nat where "ESTABLISH_TIMEOUT = from_secs 4"

definition ESTABLISH_TIMEOUT_MULTIPLIER :: nat where "ESTABLISH_TIMEOUT_MULTIPLIER = 2"

definition MAX_ESTABLISH_TIMEOUT :: nat where "MAX_ESTABLISH_TIMEOUT = PING_TIMEOUT"

definition SECONDS_PER_PING :: nat where "SECONDS_PER_PING = from_secs 3"

definition SUSPEND_TIMEOUT :: nat where "SUSPEND_TIMEOUT = from_secs 6"


section \<open>Statistics and connection state\<close>

record wg_stats =
  st_tx_bytes :: u64
  st_rx_bytes :: u64

type_synonym stats_map = "(wg_key \<times> wg_stats) list"

text \<open>\<open>sum::<u64>\<close> wraps in a release build.\<close>

definition sum_tx :: "stats_map \<Rightarrow> u64" where
  "sum_tx m = sum_list (map (st_tx_bytes \<circ> snd) m)"

datatype conn_state =
  ConnConnecting (cs_start: nat) (cs_stats: stats_map) (cs_tx: "nat option")
| ConnConnected (cs_rx_timestamp: nat) (cs_tx_timestamp: nat) (cs_stats: stats_map)

definition conn_state_new :: "nat \<Rightarrow> stats_map \<Rightarrow> conn_state" where
  "conn_state_new start stats = ConnConnecting start stats None"

definition rx_incremented :: "stats_map \<Rightarrow> stats_map \<Rightarrow> bool" where
  "rx_incremented stats new_stats =
     list_all (\<lambda>(key, peer_stats).
       case map_of new_stats key of
         Some new \<Rightarrow> st_rx_bytes peer_stats < st_rx_bytes new
       | None \<Rightarrow> False) stats"

definition all_received :: "stats_map \<Rightarrow> bool" where
  "all_received m = (m \<noteq> [] \<and> list_all (\<lambda>(_, s). 0 < st_rx_bytes s) m)"

fun conn_update :: "nat \<Rightarrow> stats_map \<Rightarrow> conn_state \<Rightarrow> bool \<times> conn_state" where
  "conn_update now new_stats (ConnConnecting start stats tx_timestamp) =
     (if all_received new_stats then
        (True, ConnConnected now (case tx_timestamp of Some t \<Rightarrow> t | None \<Rightarrow> start) new_stats)
      else if sum_tx stats < sum_tx new_stats then (False, ConnConnecting start new_stats (Some now))
      else (False, ConnConnecting start stats tx_timestamp))"
| "conn_update now new_stats (ConnConnected rx_timestamp tx_timestamp stats) =
     (let incremented = rx_incremented stats new_stats in
      (incremented,
       ConnConnected (if incremented then now else rx_timestamp)
         (if sum_tx stats < sum_tx new_stats then now else tx_timestamp) new_stats))"

fun reset_after_suspension :: "nat \<Rightarrow> conn_state \<Rightarrow> conn_state" where
  "reset_after_suspension now (ConnConnected _ tx_timestamp stats) = ConnConnected now tx_timestamp stats"
| "reset_after_suspension now (ConnConnecting start stats tx) = ConnConnecting start stats tx"

fun conn_connected :: "conn_state \<Rightarrow> bool" where
  "conn_connected (ConnConnected _ _ _) = True"
| "conn_connected (ConnConnecting _ _ _) = False"

text \<open>What the clock says during a check; \<open>elapsed\<close> is zero for an instant in the future.\<close>

record check_clock =
  ck_now :: nat
  ck_rx :: nat
  ck_traffic_rx :: nat
  ck_traffic_tx :: nat
  ck_ping :: nat
  ck_timeout :: nat

fun rx_timed_out :: "nat \<Rightarrow> conn_state \<Rightarrow> bool" where
  "rx_timed_out clock (ConnConnecting start _ _) = (BYTES_RX_TIMEOUT \<le> clock - start)"
| "rx_timed_out clock (ConnConnected rx_timestamp tx_timestamp _) =
     (rx_timestamp \<le> tx_timestamp \<and> BYTES_RX_TIMEOUT \<le> clock - rx_timestamp)"

fun traffic_timed_out :: "check_clock \<Rightarrow> conn_state \<Rightarrow> bool" where
  "traffic_timed_out ck (ConnConnecting start stats tx) = rx_timed_out (ck_traffic_rx ck) (ConnConnecting start stats tx)"
| "traffic_timed_out ck (ConnConnected rx_timestamp tx_timestamp _) =
     (TRAFFIC_TIMEOUT \<le> ck_traffic_rx ck - rx_timestamp \<or> TRAFFIC_TIMEOUT \<le> ck_traffic_tx ck - tx_timestamp)"

section \<open>Pings\<close>

record ping_state =
  ps_initial_ping_timestamp :: "nat option"
  ps_num_pings_sent :: u32

definition ping_state_new :: ping_state where
  "ping_state_new = \<lparr>ps_initial_ping_timestamp = None, ps_num_pings_sent = 0\<rparr>"

definition ping_timed_out :: "nat \<Rightarrow> nat \<Rightarrow> ping_state \<Rightarrow> bool" where
  "ping_timed_out clock timeout self =
     (case ps_initial_ping_timestamp self of None \<Rightarrow> False | Some t \<Rightarrow> timeout < clock - t)"

definition ping_reset :: "ping_state \<Rightarrow> ping_state" where
  "ping_reset self = ping_state_new"

text \<open>
  \<open>None\<close> is a panic: the division of a duration by zero. \<open>sent\<close> is whether the ping could be sent.
\<close>

definition may_ping :: "check_clock \<Rightarrow> ping_state \<Rightarrow> bool option" where
  "may_ping ck self =
     (case ps_initial_ping_timestamp self of
        None \<Rightarrow> Some True
      | Some t \<Rightarrow>
          if ps_num_pings_sent self = 0 then None
          else Some ((ck_ping ck - t) div unat (ps_num_pings_sent self) < SECONDS_PER_PING))"

definition ping_sent :: "nat \<Rightarrow> ping_state \<Rightarrow> ping_state" where
  "ping_sent now self =
     self\<lparr>ps_initial_ping_timestamp := Some (case ps_initial_ping_timestamp self of None \<Rightarrow> now | Some t \<Rightarrow> t),
          ps_num_pings_sent := ps_num_pings_sent self + 1\<rparr>"

definition maybe_send_ping :: "check_clock \<Rightarrow> bool \<Rightarrow> conn_state \<Rightarrow> ping_state \<Rightarrow> ping_state option" where
  "maybe_send_ping ck sent conn self =
     (if rx_timed_out (ck_rx ck) conn \<or> traffic_timed_out ck conn then
        (case may_ping ck self of
           None \<Rightarrow> None
         | Some send \<Rightarrow> Some (if send \<and> sent then ping_sent (ck_now ck) self else self))
      else Some self)"

section \<open>The check\<close>

datatype connectivity_error = ConfigReadError | PingError

record check_input =
  ci_clock :: check_clock
  ci_stats :: "unit + stats_map"
  ci_ping_sent :: bool

record conn_check =
  ch_conn_state :: conn_state
  ch_ping_state :: ping_state
  ch_retry_attempt :: nat

text \<open>\<open>None\<close> is a panic again. Empty statistics mean that the tunnel has been closed.\<close>

definition check_connectivity_interval ::
  "nat \<Rightarrow> check_input \<Rightarrow> conn_check \<Rightarrow> ((connectivity_error + bool) \<times> conn_check) option" where
  "check_connectivity_interval timeout inp self =
     (case ci_stats inp of
        Inl _ \<Rightarrow> Some (Inl ConfigReadError, self)
      | Inr [] \<Rightarrow> Some (Inr False, self)
      | Inr new_stats \<Rightarrow>
          (case conn_update (ck_now (ci_clock inp)) new_stats (ch_conn_state self) of
             (True, conn) \<Rightarrow>
               Some (Inr True, self\<lparr>ch_conn_state := conn, ch_ping_state := ping_reset (ch_ping_state self)\<rparr>)
           | (False, conn) \<Rightarrow>
               (case maybe_send_ping (ci_clock inp) (ci_ping_sent inp) conn (ch_ping_state self) of
                  None \<Rightarrow> None
                | Some ping \<Rightarrow>
                    Some (Inr (\<not> ping_timed_out (ck_timeout (ci_clock inp)) timeout ping \<and> conn_connected conn),
                          self\<lparr>ch_conn_state := conn, ch_ping_state := ping\<rparr>))))"

definition check_connectivity :: "check_input \<Rightarrow> conn_check \<Rightarrow> ((connectivity_error + bool) \<times> conn_check) option" where
  "check_connectivity inp self = check_connectivity_interval PING_TIMEOUT inp self"

definition check_new :: "nat \<Rightarrow> nat \<Rightarrow> conn_check" where
  "check_new now retry_attempt =
     \<lparr>ch_conn_state = conn_state_new now [], ch_ping_state = ping_state_new, ch_retry_attempt = retry_attempt\<rparr>"

definition check_reset :: "nat \<Rightarrow> conn_check \<Rightarrow> conn_check" where
  "check_reset current_iteration self =
     self\<lparr>ch_ping_state := ping_reset (ch_ping_state self),
          ch_conn_state := reset_after_suspension current_iteration (ch_conn_state self)\<rparr>"

section \<open>Establishing a connection\<close>

definition saturating_pow_u32 :: "nat \<Rightarrow> nat \<Rightarrow> nat" where
  "saturating_pow_u32 b n = min (2 ^ 32 - 1) (b ^ n)"

definition saturating_mul_duration :: "nat \<Rightarrow> nat \<Rightarrow> nat" where
  "saturating_mul_duration d n = min DURATION_MAX (d * n)"

definition establish_check_timeout :: "nat \<Rightarrow> nat \<Rightarrow> nat \<Rightarrow> nat \<Rightarrow> nat" where
  "establish_check_timeout retry_attempt timeout_initial timeout_multiplier max_timeout =
     min max_timeout (saturating_mul_duration timeout_initial (saturating_pow_u32 timeout_multiplier retry_attempt))"

text \<open>The polls that happen before the timeout and before the token is cancelled.\<close>

fun establish_poll :: "nat \<Rightarrow> check_input list \<Rightarrow> conn_check \<Rightarrow> ((connectivity_error + bool) \<times> conn_check) option" where
  "establish_poll check_timeout [] self = Some (Inr False, self)"
| "establish_poll check_timeout (inp # inps) self =
     (case check_connectivity_interval check_timeout inp self of
        Some (Inr False, self) \<Rightarrow> establish_poll check_timeout inps self
      | r \<Rightarrow> r)"

definition establish_connectivity_inner ::
  "nat \<Rightarrow> nat \<Rightarrow> nat \<Rightarrow> nat \<Rightarrow> check_input list \<Rightarrow> conn_check \<Rightarrow> ((connectivity_error + bool) \<times> conn_check) option" where
  "establish_connectivity_inner retry_attempt timeout_initial timeout_multiplier max_timeout polls self =
     (if conn_connected (ch_conn_state self) then Some (Inr True, self)
      else establish_poll (establish_check_timeout retry_attempt timeout_initial timeout_multiplier max_timeout) polls self)"

text \<open>The first ping has no effect on the state, whether or not it can be sent.\<close>

definition establish_connectivity :: "check_input list \<Rightarrow> conn_check \<Rightarrow> ((connectivity_error + bool) \<times> conn_check) option" where
  "establish_connectivity polls self =
     establish_connectivity_inner (ch_retry_attempt self) ESTABLISH_TIMEOUT ESTABLISH_TIMEOUT_MULTIPLIER
       MAX_ESTABLISH_TIMEOUT polls self"

section \<open>The monitor\<close>

text \<open>
  One iteration of the loop: whether the token is cancelled, the clock, and whether the tunnel still exists.
\<close>

record monitor_tick =
  mt_closed :: bool
  mt_now :: nat
  mt_tunnel :: bool
  mt_check :: check_input

datatype monitor_outcome = MonitorRunning | MonitorEnded "connectivity_error + unit"

type_synonym monitor_state = "nat \<times> conn_check"

definition tunnel_exists_and_is_connected :: "monitor_tick \<Rightarrow> conn_check \<Rightarrow> ((connectivity_error + bool) \<times> conn_check) option" where
  "tunnel_exists_and_is_connected tick self =
     (if mt_tunnel tick then check_connectivity (mt_check tick) self else Some (Inr False, self))"

definition monitor_iteration :: "monitor_tick \<Rightarrow> monitor_state \<Rightarrow> (monitor_outcome \<times> monitor_state) option" where
  "monitor_iteration tick = (\<lambda>(last_check, self).
     if mt_closed tick then Some (MonitorEnded (Inr ()), (last_check, self))
     else if SUSPEND_TIMEOUT \<le> mt_now tick - last_check then
       Some (MonitorRunning, (mt_now tick, check_reset (mt_now tick) self))
     else
       (case tunnel_exists_and_is_connected tick self of
          None \<Rightarrow> None
        | Some (Inl e, self) \<Rightarrow> Some (MonitorEnded (Inl e), (mt_now tick, self))
        | Some (Inr connected, self) \<Rightarrow>
            Some (if connected then MonitorRunning else MonitorEnded (Inr ()), (mt_now tick, self))))"

fun monitor_run :: "monitor_tick list \<Rightarrow> monitor_state \<Rightarrow> (monitor_outcome \<times> monitor_state) option" where
  "monitor_run [] s = Some (MonitorRunning, s)"
| "monitor_run (tick # ticks) s =
     (case monitor_iteration tick s of
        Some (MonitorRunning, s) \<Rightarrow> monitor_run ticks s
      | r \<Rightarrow> r)"

end
