(* ===== verification/Wg_Monitor_Properties.thy ===== *)
theory Wg_Monitor_Properties
  imports Wg_Connectivity
begin

text \<open>
  Properties of the connectivity monitor: it does not panic, a connection is established exactly when something has
  been received from every peer, a tunnel is given up only after a silence, and a silent tunnel is given up in time.
\<close>

section \<open>No panic\<close>

text \<open>Pings have been sent, at most \<open>n\<close> of them, exactly if there is a time of the first one.\<close>

definition pings_counted :: "nat \<Rightarrow> ping_state \<Rightarrow> bool" where
  "pings_counted n p = ((ps_initial_ping_timestamp p = None \<longleftrightarrow> ps_num_pings_sent p = 0) \<and> unat (ps_num_pings_sent p) \<le> n)"

lemma pings_counted_new [simp]: "pings_counted n ping_state_new"
  by (simp add: pings_counted_def ping_state_new_def)

lemma pings_counted_Suc: "pings_counted n p \<Longrightarrow> pings_counted (Suc n) p"
  by (auto simp: pings_counted_def)

lemma unat_Suc_u32: "unat n < 2 ^ 32 - 1 \<Longrightarrow> unat (n + 1 :: u32) = Suc (unat n)"
  by (subst unat_add_lem [THEN iffD1]) auto

lemma pings_counted_sent:
  assumes "pings_counted n p" and "Suc n < 2 ^ 32"
  shows "pings_counted (Suc n) (ping_sent now p)"
proof -
  have "unat (ps_num_pings_sent p + 1) = Suc (unat (ps_num_pings_sent p))"
    using assms by (intro unat_Suc_u32) (simp add: pings_counted_def)
  then show ?thesis
    using assms(1) by (auto simp: pings_counted_def ping_sent_def simp flip: unat_eq_zero)
qed

lemma maybe_send_ping_counted:
  assumes "pings_counted n p" and "Suc n < 2 ^ 32"
  shows "\<exists>p'. maybe_send_ping ck sent conn p = Some p' \<and> pings_counted (Suc n) p'"
proof -
  have "may_ping ck p \<noteq> None" using assms(1) by (auto simp: may_ping_def pings_counted_def split: option.splits)
  then show ?thesis
    using pings_counted_sent [OF assms, of "ck_now ck"] pings_counted_Suc [OF assms(1)]
    by (auto simp: maybe_send_ping_def)
qed

lemma check_counted:
  assumes "pings_counted n (ch_ping_state c)" and "Suc n < 2 ^ 32"
  shows "\<exists>r c'. check_connectivity_interval timeout inp c = Some (r, c') \<and> pings_counted (Suc n) (ch_ping_state c')"
proof (cases "\<exists>m. ci_stats inp = Inr m \<and> m \<noteq> []")
  case True
  then obtain x xs where m: "ci_stats inp = Inr (x # xs)" by (auto simp: neq_Nil_conv)
  obtain b conn where u: "conn_update (ck_now (ci_clock inp)) (x # xs) (ch_conn_state c) = (b, conn)" by fastforce
  with m maybe_send_ping_counted [OF assms, of "ci_clock inp" "ci_ping_sent inp" conn] show ?thesis
    by (cases b) (auto simp: check_connectivity_interval_def ping_reset_def)
next
  case False
  then show ?thesis
    using pings_counted_Suc [OF assms(1)] by (cases "ci_stats inp") (auto simp: check_connectivity_interval_def)
qed

lemma monitor_iteration_counted:
  assumes "pings_counted n (ch_ping_state c)" and "Suc n < 2 ^ 32"
  shows "\<exists>o' l' c'. monitor_iteration tick (l, c) = Some (o', (l', c')) \<and> pings_counted (Suc n) (ch_ping_state c')"
proof -
  obtain r c' where r: "check_connectivity_interval PING_TIMEOUT (mt_check tick) c = Some (r, c')" "pings_counted (Suc n) (ch_ping_state c')"
    using check_counted [OF assms] by blast
  then show ?thesis
    using pings_counted_Suc [OF assms(1)]
    by (cases r) (auto simp: monitor_iteration_def tunnel_exists_and_is_connected_def check_connectivity_def check_reset_def ping_reset_def)
qed

lemma monitor_run_no_panic:
  "pings_counted n (ch_ping_state c) \<Longrightarrow> length ticks + n < 2 ^ 32 \<Longrightarrow> monitor_run ticks (l, c) \<noteq> None"
proof (induction ticks arbitrary: n l c)
  case (Cons tick ticks)
  obtain o' l' c' where "monitor_iteration tick (l, c) = Some (o', (l', c'))" "pings_counted (Suc n) (ch_ping_state c')"
    using monitor_iteration_counted [OF Cons.prems(1), of tick l] Cons.prems(2) by auto
  with Cons show ?case by (cases o') auto
qed simp

lemma establish_poll_no_panic:
  "pings_counted n (ch_ping_state c) \<Longrightarrow> length polls + n < 2 ^ 32 \<Longrightarrow>
   \<exists>r c'. establish_poll t polls c = Some (r, c') \<and> pings_counted (length polls + n) (ch_ping_state c')"
proof (induction polls arbitrary: n c)
  case (Cons inp polls)
  obtain r c' where c: "check_connectivity_interval t inp c = Some (r, c')" "pings_counted (Suc n) (ch_ping_state c')"
    using check_counted [OF Cons.prems(1), of t inp] Cons.prems by auto
  have "pings_counted (length (inp # polls) + n) (ch_ping_state c')"
    using c(2) by (auto simp: pings_counted_def)
  with c Cons.IH [of "Suc n" c'] Cons.prems show ?case
    by (cases r) (auto split: bool.splits)
qed simp

text \<open>
  Neither establishing a connection nor monitoring it afterwards divides by zero when it computes the interval between
  pings, however the clock, the counters and the pings behave, as long as there have been less than \<open>2\<^sup>3\<^sup>2\<close> checks.
\<close>

theorem connectivity_no_panic:
  assumes "length polls + length ticks < 2 ^ 32"
  shows "\<exists>r c. establish_connectivity polls (check_new now attempt) = Some (r, c) \<and> monitor_run ticks (now', c) \<noteq> None"
proof -
  let ?t = "establish_check_timeout attempt ESTABLISH_TIMEOUT ESTABLISH_TIMEOUT_MULTIPLIER MAX_ESTABLISH_TIMEOUT"
  obtain r c where rc: "establish_poll ?t polls (check_new now attempt) = Some (r, c)" "pings_counted (length polls + 0) (ch_ping_state c)"
    using establish_poll_no_panic [of 0 "check_new now attempt" polls ?t] assms by (auto simp: check_new_def)
  then show ?thesis
    using monitor_run_no_panic [OF rc(2), of ticks now'] assms
    by (auto simp: establish_connectivity_def establish_connectivity_inner_def check_new_def conn_state_new_def add.commute)
qed

definition ex_clock :: "nat \<Rightarrow> check_clock" where
  "ex_clock t = \<lparr>ck_now = t, ck_rx = t, ck_traffic_rx = t, ck_traffic_tx = t, ck_ping = t, ck_timeout = t\<rparr>"

definition ex_input :: "nat \<Rightarrow> u64 \<Rightarrow> u64 \<Rightarrow> check_input" where
  "ex_input t tx rx = \<lparr>ci_clock = ex_clock t, ci_stats = Inr [([1], \<lparr>st_tx_bytes = tx, st_rx_bytes = rx\<rparr>)], ci_ping_sent = True\<rparr>"

theorem connectivity_no_panic_witness:
  "\<exists>r c. establish_connectivity [ex_input 1 1 0, ex_input 2 1 1] (check_new 0 0) = Some (r, c) \<and> monitor_run [] (2, c) \<noteq> None"
  using connectivity_no_panic [of "[ex_input 1 1 0, ex_input 2 1 1]" "[]" 0 0 2] by simp

section \<open>Establishing a connection\<close>

text \<open>The polls that decide: the statistics cannot be read, or something has been received from every peer.\<close>

definition decisive :: "check_input \<Rightarrow> bool" where
  "decisive inp = (case ci_stats inp of Inl _ \<Rightarrow> True | Inr m \<Rightarrow> all_received m)"

lemma check_connecting:
  assumes "\<not> conn_connected (ch_conn_state c)" and "check_connectivity_interval t inp c = Some (r, c')"
  shows "if decisive inp then r = (case ci_stats inp of Inl _ \<Rightarrow> Inl ConfigReadError | Inr _ \<Rightarrow> Inr True)
    else r = Inr False \<and> \<not> conn_connected (ch_conn_state c')"
proof (cases "ci_stats inp")
  case (Inr m)
  show ?thesis
  proof (cases m)
    case Nil
    then show ?thesis
      using assms Inr by (auto simp: check_connectivity_interval_def decisive_def all_received_def)
  next
    case (Cons x xs)
    obtain start stats tx where "ch_conn_state c = ConnConnecting start stats tx"
      using assms(1) by (cases "ch_conn_state c") auto
    with assms Inr Cons show ?thesis
      by (auto simp: check_connectivity_interval_def decisive_def split: if_splits option.splits)
  qed
qed (use assms in \<open>auto simp: check_connectivity_interval_def decisive_def\<close>)

text \<open>
  C22. Establishing a connection succeeds exactly if, before the timeout, a reading of the statistics shows that bytes have been received from
  every peer, and no reading before failed. The first reading that decides gives the result; the pings have no influence.
\<close>

theorem establish_exact:
  assumes "length polls < 2 ^ 32"
  shows "map_option fst (establish_connectivity polls (check_new now attempt)) =
    Some (case find decisive polls of
            None \<Rightarrow> Inr False
          | Some p \<Rightarrow> (case ci_stats p of Inl _ \<Rightarrow> Inl ConfigReadError | Inr _ \<Rightarrow> Inr True))"
proof -
  have "map_option fst (establish_poll t polls c) = Some (case find decisive polls of
      None \<Rightarrow> Inr False | Some p \<Rightarrow> (case ci_stats p of Inl _ \<Rightarrow> Inl ConfigReadError | Inr _ \<Rightarrow> Inr True))"
    if "\<not> conn_connected (ch_conn_state c)" "pings_counted n (ch_ping_state c)" "length polls + n < 2 ^ 32" for t c n
    using that
  proof (induction polls arbitrary: c n)
    case (Cons inp polls)
    obtain r c' where c: "check_connectivity_interval t inp c = Some (r, c')" "pings_counted (Suc n) (ch_ping_state c')"
      using check_counted [OF Cons.prems(2), of t inp] Cons.prems by auto
    show ?case
      using check_connecting [OF Cons.prems(1) c(1)] c Cons.IH [of c' "Suc n"] Cons.prems(3)
      by (auto split: sum.splits if_splits)
  qed simp
  from this [of "check_new now attempt" 0] assms show ?thesis
    by (simp add: establish_connectivity_def establish_connectivity_inner_def check_new_def conn_state_new_def)
qed

theorem establish_exact_witness:
  "map_option fst (establish_connectivity [ex_input 1 1 0, ex_input 2 1 1] (check_new 0 0)) = Some (Inr True)"
  using establish_exact [of "[ex_input 1 1 0, ex_input 2 1 1]" 0 0]
  by (simp add: decisive_def ex_input_def all_received_def)

text \<open>
  The time allowed for establishing a connection is between 4 and 15 seconds, doubles with each attempt until it is
  15 seconds, and is 15 seconds from the third attempt on.
\<close>

theorem establish_timeout_exact:
  "establish_check_timeout attempt ESTABLISH_TIMEOUT ESTABLISH_TIMEOUT_MULTIPLIER MAX_ESTABLISH_TIMEOUT =
     (if attempt = 0 then from_secs 4 else if attempt = 1 then from_secs 8 else from_secs 15)"
proof -
  have "from_secs 15 \<le> from_secs 4 * min (2 ^ 32 - 1) (2 ^ attempt)" if "2 \<le> attempt"
    using power_increasing [OF that, of "2 :: nat"] by (simp add: from_secs_def min_def)
  then show ?thesis
    by (cases "2 \<le> attempt")
      (auto simp: establish_check_timeout_def saturating_mul_duration_def saturating_pow_u32_def ESTABLISH_TIMEOUT_def
        ESTABLISH_TIMEOUT_MULTIPLIER_def MAX_ESTABLISH_TIMEOUT_def PING_TIMEOUT_def DURATION_MAX_def from_secs_def min_def not_le less_2_cases_iff)
qed

section \<open>Silence\<close>

text \<open>The clock does not go backwards: its readings during an iteration come after each other and after \<open>t\<close>.\<close>

definition clock_ordered :: "check_clock \<Rightarrow> bool" where
  "clock_ordered ck = sorted [ck_now ck, ck_rx ck, ck_traffic_rx ck, ck_traffic_tx ck, ck_ping ck, ck_timeout ck]"

fun ticks_ordered :: "nat \<Rightarrow> monitor_tick list \<Rightarrow> bool" where
  "ticks_ordered t [] = True"
| "ticks_ordered t (tick # ticks) =
     (t \<le> mt_now tick \<and> mt_now tick \<le> ck_now (ci_clock (mt_check tick)) \<and> clock_ordered (ci_clock (mt_check tick)) \<and>
      ticks_ordered (ck_timeout (ci_clock (mt_check tick))) ticks)"

text \<open>The times of the checks at which something had been received from every peer since the check before.\<close>

definition received :: "monitor_tick \<Rightarrow> monitor_state \<Rightarrow> bool" where
  "received tick = (\<lambda>(last_check, c).
     \<not> mt_closed tick \<and> mt_now tick - last_check < SUSPEND_TIMEOUT \<and> mt_tunnel tick \<and>
     (case ci_stats (mt_check tick) of Inl _ \<Rightarrow> False
      | Inr m \<Rightarrow> m \<noteq> [] \<and> fst (conn_update (ck_now (ci_clock (mt_check tick))) m (ch_conn_state c))))"

fun receipts :: "monitor_tick list \<Rightarrow> monitor_state \<Rightarrow> nat list" where
  "receipts [] s = []"
| "receipts (tick # ticks) s =
     (if received tick s then [ck_now (ci_clock (mt_check tick))] else []) @
     (case monitor_iteration tick s of Some (MonitorRunning, s) \<Rightarrow> receipts ticks s | _ \<Rightarrow> [])"

text \<open>The first ping was sent after the last receipt.\<close>

definition pinged_later :: "nat \<Rightarrow> conn_check \<Rightarrow> bool" where
  "pinged_later t c =
     (case ch_conn_state c of
        ConnConnecting _ _ _ \<Rightarrow> False
      | ConnConnected rx _ _ \<Rightarrow> rx \<le> t \<and> (\<forall>p. ps_initial_ping_timestamp (ch_ping_state c) = Some p \<longrightarrow> rx \<le> p))"

lemma maybe_send_ping_initial:
  assumes "maybe_send_ping ck sent conn p = Some p'" and "ps_initial_ping_timestamp p' = Some t"
  shows "ps_initial_ping_timestamp p = Some t \<or> t = ck_now ck"
  using assms by (auto simp: maybe_send_ping_def ping_sent_def split: if_splits option.splits)

text \<open>A check of a connected tunnel whose statistics can be read.\<close>

lemma check_connected:
  assumes "ch_conn_state c = ConnConnected rx tx stats" and "ci_stats inp = Inr m" and "m \<noteq> []"
  shows "check_connectivity_interval timeout inp c =
    (let tx' = (if sum_tx stats < sum_tx m then ck_now (ci_clock inp) else tx) in
     if rx_incremented stats m then
       Some (Inr True, c\<lparr>ch_conn_state := ConnConnected (ck_now (ci_clock inp)) tx' m, ch_ping_state := ping_state_new\<rparr>)
     else map_option (\<lambda>p. (Inr (\<not> ping_timed_out (ck_timeout (ci_clock inp)) timeout p),
         c\<lparr>ch_conn_state := ConnConnected rx tx' m, ch_ping_state := p\<rparr>))
       (maybe_send_ping (ci_clock inp) (ci_ping_sent inp) (ConnConnected rx tx' m) (ch_ping_state c)))"
  using assms by (cases m) (simp_all add: check_connectivity_interval_def ping_reset_def Let_def split: option.split)

lemma check_pinged_later:
  assumes "pinged_later t c" and "t \<le> ck_now (ci_clock inp)" and "clock_ordered (ci_clock inp)"
    and "check_connectivity_interval timeout inp c = Some (r, c')"
  shows "pinged_later (ck_timeout (ci_clock inp)) c'" (is ?later)
    and "cs_rx_timestamp (ch_conn_state c) \<le> cs_rx_timestamp (ch_conn_state c')" (is ?mono)
    and "\<lbrakk>r = Inr False; ci_stats inp \<noteq> Inr []\<rbrakk> \<Longrightarrow>
      cs_rx_timestamp (ch_conn_state c') + timeout < ck_timeout (ci_clock inp)"
    and "\<lbrakk>ci_stats inp = Inr m; m \<noteq> []; fst (conn_update (ck_now (ci_clock inp)) m (ch_conn_state c))\<rbrakk> \<Longrightarrow>
      r = Inr True \<and> cs_rx_timestamp (ch_conn_state c') = ck_now (ci_clock inp)"
proof -
  obtain rx tx stats where conn: "ch_conn_state c = ConnConnected rx tx stats" "rx \<le> t"
    "\<forall>p. ps_initial_ping_timestamp (ch_ping_state c) = Some p \<longrightarrow> rx \<le> p"
    using assms(1) by (auto simp: pinged_later_def split: conn_state.splits)
  have le: "t \<le> ck_now (ci_clock inp)" "ck_now (ci_clock inp) \<le> ck_timeout (ci_clock inp)"
    using assms(2,3) by (auto simp: clock_ordered_def)
  have all: "?later \<and> ?mono \<and>
    (r = Inr False \<and> ci_stats inp \<noteq> Inr [] \<longrightarrow> cs_rx_timestamp (ch_conn_state c') + timeout < ck_timeout (ci_clock inp)) \<and>
    (\<forall>m. ci_stats inp = Inr m \<and> m \<noteq> [] \<and> fst (conn_update (ck_now (ci_clock inp)) m (ch_conn_state c)) \<longrightarrow>
       r = Inr True \<and> cs_rx_timestamp (ch_conn_state c') = ck_now (ci_clock inp))"
  proof (cases "\<exists>m. ci_stats inp = Inr m \<and> m \<noteq> []")
    case False
    then have "c' = c" "r \<noteq> Inr False \<or> ci_stats inp = Inr []"
      using assms(4) by (cases "ci_stats inp"; auto simp: check_connectivity_interval_def)+
    with False conn le show ?thesis by (auto simp: pinged_later_def)
  next
    case True
    then obtain m where m: "ci_stats inp = Inr m" "m \<noteq> []" by blast
    note res = assms(4) [unfolded check_connected [OF conn(1) m]]
    show ?thesis
    proof (cases "rx_incremented stats m")
      case True
      with res m conn le show ?thesis by (auto simp: pinged_later_def ping_state_new_def Let_def)
    next
      case False
      with res obtain p where p: "maybe_send_ping (ci_clock inp) (ci_ping_sent inp)
          (ConnConnected rx (if sum_tx stats < sum_tx m then ck_now (ci_clock inp) else tx) m) (ch_ping_state c) = Some p"
        "r = Inr (\<not> ping_timed_out (ck_timeout (ci_clock inp)) timeout p)"
        "ch_conn_state c' = ConnConnected rx (if sum_tx stats < sum_tx m then ck_now (ci_clock inp) else tx) m"
        "ch_ping_state c' = p"
        by (auto simp: Let_def)
      have "rx \<le> q" if "ps_initial_ping_timestamp p = Some q" for q
        using maybe_send_ping_initial [OF p(1) that] conn le by auto
      with p False m conn le show ?thesis
        by (fastforce simp: pinged_later_def ping_timed_out_def Let_def split: option.splits)
    qed
  qed
  show ?later ?mono using all by blast+
  show "\<lbrakk>r = Inr False; ci_stats inp \<noteq> Inr []\<rbrakk> \<Longrightarrow> cs_rx_timestamp (ch_conn_state c') + timeout < ck_timeout (ci_clock inp)"
    using all by blast
  show "\<lbrakk>ci_stats inp = Inr m; m \<noteq> []; fst (conn_update (ck_now (ci_clock inp)) m (ch_conn_state c))\<rbrakk> \<Longrightarrow>
      r = Inr True \<and> cs_rx_timestamp (ch_conn_state c') = ck_now (ci_clock inp)"
    using all by blast
qed

lemma iteration_pinged_later:
  assumes "pinged_later t c" and "ticks_ordered t [tick]" and "monitor_iteration tick (l, c) = Some (o', l', c')"
  shows "pinged_later (ck_timeout (ci_clock (mt_check tick))) c'"
    and "cs_rx_timestamp (ch_conn_state c) \<le> cs_rx_timestamp (ch_conn_state c')"
    and "received tick (l, c) \<Longrightarrow> o' = MonitorRunning \<and> cs_rx_timestamp (ch_conn_state c') = ck_now (ci_clock (mt_check tick))"
    and "\<lbrakk>o' = MonitorEnded (Inr ()); \<not> mt_closed tick; mt_tunnel tick; ci_stats (mt_check tick) \<noteq> Inr []\<rbrakk> \<Longrightarrow>
      cs_rx_timestamp (ch_conn_state c') + PING_TIMEOUT < ck_timeout (ci_clock (mt_check tick))"
proof -
  let ?inp = "mt_check tick"
  have le: "t \<le> mt_now tick" "t \<le> ck_now (ci_clock ?inp)" "clock_ordered (ci_clock ?inp)" "mt_now tick \<le> ck_timeout (ci_clock ?inp)"
    using assms(2) by (auto simp: clock_ordered_def)
  consider (same) "c' = c" "mt_closed tick \<or> \<not> mt_tunnel tick" "\<not> received tick (l, c)"
    | (reset) "c' = check_reset (mt_now tick) c" "o' = MonitorRunning" "\<not> received tick (l, c)"
    | (check) r where "\<not> mt_closed tick" "check_connectivity_interval PING_TIMEOUT ?inp c = Some (r, c')"
        "o' = (case r of Inl e \<Rightarrow> MonitorEnded (Inl e) | Inr b \<Rightarrow> if b then MonitorRunning else MonitorEnded (Inr ()))"
    using assms(3)
    by (auto simp: monitor_iteration_def tunnel_exists_and_is_connected_def check_connectivity_def received_def
        split: if_splits option.splits sum.splits)
  then have "pinged_later (ck_timeout (ci_clock ?inp)) c' \<and> cs_rx_timestamp (ch_conn_state c) \<le> cs_rx_timestamp (ch_conn_state c') \<and>
    (received tick (l, c) \<longrightarrow> o' = MonitorRunning \<and> cs_rx_timestamp (ch_conn_state c') = ck_now (ci_clock ?inp)) \<and>
    (o' = MonitorEnded (Inr ()) \<and> \<not> mt_closed tick \<and> mt_tunnel tick \<and> ci_stats ?inp \<noteq> Inr [] \<longrightarrow>
      cs_rx_timestamp (ch_conn_state c') + PING_TIMEOUT < ck_timeout (ci_clock ?inp))"
  proof cases
    case same
    then show ?thesis using assms(1) le by (auto simp: pinged_later_def split: conn_state.splits)
  next
    case reset
    then show ?thesis
      using assms(1) le by (auto simp: pinged_later_def check_reset_def ping_reset_def ping_state_new_def split: conn_state.splits)
  next
    case (check r)
    note props = check_pinged_later [OF assms(1) le(2,3) check(2)]
    have "received tick (l, c) \<Longrightarrow> r = Inr True \<and> cs_rx_timestamp (ch_conn_state c') = ck_now (ci_clock ?inp)"
      using props(4) by (auto simp: received_def split: sum.splits)
    with props(1-3) check(3) show ?thesis by (auto split: sum.splits if_splits)
  qed
  then show "pinged_later (ck_timeout (ci_clock ?inp)) c'"
    "cs_rx_timestamp (ch_conn_state c) \<le> cs_rx_timestamp (ch_conn_state c')"
    "received tick (l, c) \<Longrightarrow> o' = MonitorRunning \<and> cs_rx_timestamp (ch_conn_state c') = ck_now (ci_clock ?inp)"
    "\<lbrakk>o' = MonitorEnded (Inr ()); \<not> mt_closed tick; mt_tunnel tick; ci_stats ?inp \<noteq> Inr []\<rbrakk> \<Longrightarrow>
      cs_rx_timestamp (ch_conn_state c') + PING_TIMEOUT < ck_timeout (ci_clock ?inp)"
    by blast+
qed

lemma run_pinged_later:
  assumes "pinged_later t c" and "ticks_ordered t (ticks @ [last_tick])" and "monitor_run ticks (l, c) = Some (MonitorRunning, (l', c'))"
  shows "\<exists>t'. pinged_later t' c' \<and> ticks_ordered t' [last_tick] \<and> cs_rx_timestamp (ch_conn_state c) \<le> cs_rx_timestamp (ch_conn_state c') \<and>
    (\<forall>r \<in> set (receipts ticks (l, c)). r \<le> cs_rx_timestamp (ch_conn_state c'))"
  using assms
proof (induction ticks arbitrary: t l c)
  case (Cons tick ticks)
  obtain l1 c1 where it: "monitor_iteration tick (l, c) = Some (MonitorRunning, (l1, c1))"
    "monitor_run ticks (l1, c1) = Some (MonitorRunning, (l', c'))"
    using Cons.prems(3) by (auto split: option.splits monitor_outcome.splits)
  have ord: "ticks_ordered t [tick]" "ticks_ordered (ck_timeout (ci_clock (mt_check tick))) (ticks @ [last_tick])"
    using Cons.prems(2) by auto
  note step = iteration_pinged_later [OF Cons.prems(1) ord(1) it(1)]
  show ?case
    using Cons.IH [OF step(1) ord(2) it(2)] step(2,3) it(1) by (auto split: if_splits)
qed auto

text \<open>The poll that decides: the first one at which something has been received from every peer, or that fails.\<close>

definition deciding_poll :: "check_input list \<Rightarrow> check_input" where
  "deciding_poll polls = hd (dropWhile (\<lambda>p. \<not> decisive p) polls)"

lemma establish_poll_connected:
  assumes "establish_poll t polls c = Some (Inr True, c')" and "\<not> conn_connected (ch_conn_state c)"
  shows "deciding_poll polls \<in> set polls \<and> ch_ping_state c' = ping_state_new \<and>
    (\<exists>tx stats. ch_conn_state c' = ConnConnected (ck_now (ci_clock (deciding_poll polls))) tx stats)"
  using assms
proof (induction polls arbitrary: c)
  case (Cons inp polls)
  obtain r c1 where c1: "check_connectivity_interval t inp c = Some (r, c1)"
    using Cons.prems(1) by (auto split: option.splits)
  show ?case
  proof (cases "decisive inp")
    case True
    with check_connecting [OF Cons.prems(2) c1] Cons.prems(1) c1 obtain m where m: "ci_stats inp = Inr m" "all_received m" "c' = c1"
      by (auto simp: decisive_def split: sum.splits)
    obtain start stats tx where "ch_conn_state c = ConnConnecting start stats tx"
      using Cons.prems(2) by (cases "ch_conn_state c") auto
    with True c1 m show ?thesis
      by (cases m) (auto simp: check_connectivity_interval_def ping_reset_def all_received_def deciding_poll_def)
  next
    case False
    then have "deciding_poll (inp # polls) = deciding_poll polls" by (simp add: deciding_poll_def)
    with False check_connecting [OF Cons.prems(2) c1] Cons c1 show ?thesis by fastforce
  qed
qed simp

text \<open>
  C21. The monitor gives up a tunnel that still exists and whose statistics can be read only after a silence of more than 15 seconds:
  whenever it does, every receipt was more than 15 seconds ago, that is, the receipt at which the connection was established and every
  check at which something had been received since the check before. The clock may be read late, counters and pings may do anything;
  only that the clock does not go backwards is assumed.
\<close>

theorem tunnel_given_up_after_silence:
  assumes "establish_connectivity polls (check_new now attempt) = Some (Inr True, c)" and "\<forall>p \<in> set polls. ck_now (ci_clock p) \<le> t"
    and "ticks_ordered t (ticks @ [tick])" and "monitor_run ticks (l, c) = Some (MonitorRunning, s)"
    and "monitor_iteration tick s = Some (MonitorEnded (Inr ()), s')"
    and "\<not> mt_closed tick" and "mt_tunnel tick" and "ci_stats (mt_check tick) \<noteq> Inr []"
  shows "\<not> received tick s \<and>
    (\<forall>r \<in> set (ck_now (ci_clock (deciding_poll polls)) # receipts ticks (l, c)).
       r + PING_TIMEOUT < ck_timeout (ci_clock (mt_check tick)))"
proof -
  obtain tx stats where est: "deciding_poll polls \<in> set polls" "ch_ping_state c = ping_state_new"
      "ch_conn_state c = ConnConnected (ck_now (ci_clock (deciding_poll polls))) tx stats"
    using assms(1) establish_poll_connected
    by (fastforce simp: establish_connectivity_def establish_connectivity_inner_def check_new_def conn_state_new_def)
  then have "pinged_later t c" using assms(2) by (auto simp: pinged_later_def ping_state_new_def)
  moreover obtain l1 c1 l2 c2 where s: "s = (l1, c1)" "s' = (l2, c2)" by fastforce
  ultimately obtain t' where t': "pinged_later t' c1" "ticks_ordered t' [tick]"
    "cs_rx_timestamp (ch_conn_state c) \<le> cs_rx_timestamp (ch_conn_state c1)"
    "\<forall>r \<in> set (receipts ticks (l, c)). r \<le> cs_rx_timestamp (ch_conn_state c1)"
    using run_pinged_later [OF _ assms(3)] assms(4) by fastforce
  have "\<forall>r \<in> set (ck_now (ci_clock (deciding_poll polls)) # receipts ticks (l, c)). r \<le> cs_rx_timestamp (ch_conn_state c1)"
    using t'(3,4) est(3) by simp
  moreover note step = iteration_pinged_later [OF t'(1,2) assms(5) [unfolded s]]
  ultimately show ?thesis using step(2,3) step(4) [OF refl assms(6-8)] s by force
qed

section \<open>Detection of a silent tunnel\<close>

text \<open>
  Iterations, each less than \<open>SUSPEND_TIMEOUT\<close> after the one before and with its check at most \<open>g\<close> after that, in which the tunnel exists, pings can be sent and nothing is received.
\<close>

fun silent_ticks :: "nat \<Rightarrow> nat \<Rightarrow> stats_map \<Rightarrow> monitor_tick list \<Rightarrow> bool" where
  "silent_ticks g l stats [] = True"
| "silent_ticks g l stats (tick # ticks) =
     (\<not> mt_closed tick \<and> mt_tunnel tick \<and> ci_ping_sent (mt_check tick) \<and> mt_now tick - l < SUSPEND_TIMEOUT \<and>
      ck_now (ci_clock (mt_check tick)) \<le> l + g \<and>
      (case ci_stats (mt_check tick) of
         Inl _ \<Rightarrow> False
       | Inr m \<Rightarrow> m \<noteq> [] \<and> \<not> rx_incremented stats m \<and> silent_ticks g (mt_now tick) m ticks))"

text \<open>The first ping was sent before \<open>b\<close>, or the last iteration was before \<open>a\<close>.\<close>

definition pinged_by :: "nat \<Rightarrow> nat \<Rightarrow> nat \<Rightarrow> ping_state \<Rightarrow> bool" where
  "pinged_by a b l p = (case ps_initial_ping_timestamp p of None \<Rightarrow> l < a | Some t \<Rightarrow> t \<le> b)"

lemma maybe_send_ping_by:
  assumes "maybe_send_ping ck True (ConnConnected rx tx m) p = Some p'" and "pinged_by (rx + d) (rx + d + g) l p"
    and "d = BYTES_RX_TIMEOUT \<and> rx \<le> tx \<or> d = TRAFFIC_TIMEOUT" and "clock_ordered ck" and "l' \<le> ck_now ck" and "ck_now ck \<le> l + g"
  shows "pinged_by (rx + d) (rx + d + g) l' p'" and "ps_initial_ping_timestamp p' = None \<Longrightarrow> ck_now ck < rx + d"
proof -
  have "ck_now ck \<le> ck_rx ck" "ck_now ck \<le> ck_traffic_rx ck" using assms(4) by (auto simp: clock_ordered_def)
  then have late: "rx_timed_out (ck_rx ck) (ConnConnected rx tx m) \<or> traffic_timed_out ck (ConnConnected rx tx m)"
    if "rx + d \<le> ck_now ck" using that assms(3) by auto
  have "pinged_by (rx + d) (rx + d + g) l' p' \<and> (ps_initial_ping_timestamp p' = None \<longrightarrow> ck_now ck < rx + d)"
  proof (cases "ps_initial_ping_timestamp p")
    case None
    then show ?thesis
      using assms late
      by (cases "rx + d \<le> ck_now ck")
        (auto simp: maybe_send_ping_def may_ping_def ping_sent_def pinged_by_def simp del: rx_timed_out.simps traffic_timed_out.simps
          split: if_splits)
  next
    case (Some t)
    then have "ps_initial_ping_timestamp p' = Some t"
      using assms(1) by (auto simp: maybe_send_ping_def ping_sent_def split: if_splits option.splits)
    then show ?thesis using assms(2) Some by (simp add: pinged_by_def)
  qed
  then show "pinged_by (rx + d) (rx + d + g) l' p'" "ps_initial_ping_timestamp p' = None \<Longrightarrow> ck_now ck < rx + d" by auto
qed

lemma silent_run:
  assumes "ch_conn_state c = ConnConnected rx tx stats" and "rx \<le> t" and "ticks_ordered t ticks" and "silent_ticks g l stats ticks"
    and "d = BYTES_RX_TIMEOUT \<and> rx \<le> tx \<or> d = TRAFFIC_TIMEOUT" and "pinged_by (rx + d) (rx + d + g) l (ch_ping_state c)"
    and "pings_counted n (ch_ping_state c)" and "length ticks + n < 2 ^ 32"
  shows "(\<exists>s. monitor_run ticks (l, c) = Some (MonitorEnded (Inr ()), s)) \<or>
    (\<forall>tick \<in> set ticks. ck_now (ci_clock (mt_check tick)) \<le> rx + d + g + PING_TIMEOUT)"
  using assms
proof (induction ticks arbitrary: t tx stats l n c)
  case (Cons tick ticks)
  let ?inp = "mt_check tick" let ?ck = "ci_clock (mt_check tick)"
  obtain m where m: "ci_stats ?inp = Inr m" "m \<noteq> []" "\<not> rx_incremented stats m" "silent_ticks g (mt_now tick) m ticks"
    using Cons.prems(4) by (auto split: sum.splits)
  have tick: "\<not> mt_closed tick" "mt_tunnel tick" "ci_ping_sent ?inp" "mt_now tick - l < SUSPEND_TIMEOUT" "ck_now ?ck \<le> l + g"
    "t \<le> mt_now tick" "mt_now tick \<le> ck_now ?ck" "clock_ordered ?ck" "ticks_ordered (ck_timeout ?ck) ticks"
    using Cons.prems(3,4) by auto
  define tx' where "tx' = (if sum_tx stats < sum_tx m then ck_now ?ck else tx)"
  obtain p where p: "maybe_send_ping ?ck True (ConnConnected rx tx' m) (ch_ping_state c) = Some p" "pings_counted (Suc n) p"
    using maybe_send_ping_counted [OF Cons.prems(7), of ?ck True "ConnConnected rx tx' m"] Cons.prems(8) by auto
  have d: "d = BYTES_RX_TIMEOUT \<and> rx \<le> tx' \<or> d = TRAFFIC_TIMEOUT" using Cons.prems(2,5) tick(6,7) by (auto simp: tx'_def)
  note sent = maybe_send_ping_by [OF p(1) Cons.prems(6) d tick(8) _ tick(5), of "mt_now tick", OF tick(7)]
  let ?c = "c\<lparr>ch_conn_state := ConnConnected rx tx' m, ch_ping_state := p\<rparr>"
  have it: "monitor_iteration tick (l, c) =
      Some (if ping_timed_out (ck_timeout ?ck) PING_TIMEOUT p then MonitorEnded (Inr ()) else MonitorRunning, (mt_now tick, ?c))"
    using tick(1-4) p(1) m(3) check_connected [OF Cons.prems(1) m(1,2), of PING_TIMEOUT]
    by (simp add: monitor_iteration_def tunnel_exists_and_is_connected_def check_connectivity_def tx'_def Let_def)
  show ?case
  proof (cases "ping_timed_out (ck_timeout ?ck) PING_TIMEOUT p")
    case True
    with it show ?thesis by simp
  next
    case False
    have now: "ck_now ?ck \<le> ck_timeout ?ck" using tick(8) by (auto simp: clock_ordered_def)
    have "ck_now ?ck \<le> rx + d + g + PING_TIMEOUT"
      using False sent now by (auto simp: ping_timed_out_def pinged_by_def split: option.splits)
    moreover have "rx \<le> ck_timeout ?ck" using Cons.prems(2) tick(6,7) now by simp
    ultimately show ?thesis
      using Cons.IH [of ?c tx' m "ck_timeout ?ck" "mt_now tick" "Suc n"] it False sent(1) p(2) d m(4) tick(9) Cons.prems(8) by auto
  qed
qed simp


definition ex_tick :: "nat \<Rightarrow> u64 \<Rightarrow> monitor_tick" where
  "ex_tick t tx = \<lparr>mt_closed = False, mt_now = t, mt_tunnel = True, mt_check = ex_input t tx 1\<rparr>"

definition ex_ticks :: "monitor_tick list" where
  "ex_ticks = [ex_tick (from_secs 3) 2, ex_tick (from_secs 7) 3, ex_tick (from_secs 11) 4, ex_tick (from_secs 15) 5,
     ex_tick (from_secs 19) 6]"

definition ex_last_tick :: monitor_tick where "ex_last_tick = ex_tick (from_secs 23) 7"

definition ex_connected :: conn_check where
  "ex_connected = \<lparr>ch_conn_state = ConnConnected 2 2 [([1], \<lparr>st_tx_bytes = 1, st_rx_bytes = 1\<rparr>)],
     ch_ping_state = ping_state_new, ch_retry_attempt = 0\<rparr>"

lemmas ex_tick_defs = ex_ticks_def ex_last_tick_def ex_tick_def ex_input_def ex_clock_def ex_connected_def from_secs_def clock_ordered_def
  BYTES_RX_TIMEOUT_def TRAFFIC_TIMEOUT_def PING_TIMEOUT_def SUSPEND_TIMEOUT_def SECONDS_PER_PING_def rx_incremented_def


lemma ex_established:
  "establish_connectivity [ex_input 1 0 0, ex_input 2 1 1] (check_new 2 0) = Some (Inr True, ex_connected)"
  by (simp add: establish_connectivity_def establish_connectivity_inner_def check_new_def conn_state_new_def
      check_connectivity_interval_def ex_input_def ex_clock_def all_received_def sum_tx_def maybe_send_ping_def
      ping_reset_def ping_state_new_def ping_timed_out_def ex_connected_def BYTES_RX_TIMEOUT_def from_secs_def)

lemma ex_silent_run:
  "\<exists>s s'. monitor_run ex_ticks (0, ex_connected) = Some (MonitorRunning, s) \<and>
    monitor_iteration ex_last_tick s = Some (MonitorEnded (Inr ()), s')"
  by (simp add: ex_tick_defs monitor_iteration_def tunnel_exists_and_is_connected_def check_connectivity_def
      check_connectivity_interval_def sum_tx_def maybe_send_ping_def may_ping_def ping_sent_def ping_state_new_def ping_timed_out_def)

theorem tunnel_given_up_after_silence_witness:
  "\<exists>s. \<not> received ex_last_tick s \<and> monitor_run ex_ticks (0, ex_connected) = Some (MonitorRunning, s)"
proof -
  obtain s s' where s: "monitor_run ex_ticks (0, ex_connected) = Some (MonitorRunning, s)"
    "monitor_iteration ex_last_tick s = Some (MonitorEnded (Inr ()), s')" using ex_silent_run by blast
  have "\<not> received ex_last_tick s \<and>
      (\<forall>r \<in> set (ck_now (ci_clock (deciding_poll [ex_input 1 0 0, ex_input 2 1 1])) # receipts ex_ticks (0, ex_connected)).
         r + PING_TIMEOUT < ck_timeout (ci_clock (mt_check ex_last_tick)))"
    by (rule tunnel_given_up_after_silence [OF ex_established _ _ s, of 2]) (simp_all add: ex_tick_defs)
  with s(1) show ?thesis by blast
qed

text \<open>
  Whether a ping is sent: when one is due and some have been sent before, another one is sent exactly if less than three seconds have
  passed per ping that was sent. So the more pings have been sent the sooner the next one goes out, and with checks every second, or every
  20 milliseconds while the connection is established, every check sends a ping; once pings are rarer than one in three seconds no more is sent.
\<close>

theorem ping_interval_inverted:
  assumes "rx_timed_out (ck_rx ck) conn \<or> traffic_timed_out ck conn"
    and "ps_initial_ping_timestamp p = Some t" and "ps_num_pings_sent p = n" and "n \<noteq> 0"
  shows "maybe_send_ping ck True conn p = Some (if ck_ping ck - t < SECONDS_PER_PING * unat n then ping_sent (ck_now ck) p else p)"
  using assms by (auto simp: maybe_send_ping_def may_ping_def div_less_iff_less_mult unat_gt_0)

theorem ping_interval_inverted_witness:
  "maybe_send_ping (ex_clock (from_secs 7)) True (ConnConnected 0 0 []) \<lparr>ps_initial_ping_timestamp = Some (from_secs 6), ps_num_pings_sent = 1\<rparr>
    = Some \<lparr>ps_initial_ping_timestamp = Some (from_secs 6), ps_num_pings_sent = 2\<rparr>"
  using ping_interval_inverted [of "ex_clock (from_secs 7)" "ConnConnected 0 0 []"
      "\<lparr>ps_initial_ping_timestamp = Some (from_secs 6), ps_num_pings_sent = 1\<rparr>" "from_secs 6" 1]
  by (simp add: ex_tick_defs ping_sent_def)

text \<open>
  If pings cannot be sent, a tunnel that exists and whose statistics can be read is never given up, however long nothing is received.
\<close>

theorem unsendable_pings_hide_silence:
  assumes "conn_connected (ch_conn_state c)" and "ps_initial_ping_timestamp (ch_ping_state c) = None"
    and "\<forall>tick \<in> set ticks. \<not> mt_closed tick \<and> mt_tunnel tick \<and> \<not> ci_ping_sent (mt_check tick) \<and>
      (\<exists>m. ci_stats (mt_check tick) = Inr m \<and> m \<noteq> [])"
  shows "\<exists>s. monitor_run ticks (l, c) = Some (MonitorRunning, s)"
  using assms
proof (induction ticks arbitrary: l c)
  case (Cons tick ticks)
  obtain rx tx stats where conn: "ch_conn_state c = ConnConnected rx tx stats" using Cons.prems(1) by (cases "ch_conn_state c") auto
  obtain m where m: "ci_stats (mt_check tick) = Inr m" "m \<noteq> []" using Cons.prems(3) by auto
  have ping: "maybe_send_ping ck False conn (ch_ping_state c) = Some (ch_ping_state c)" for ck conn
    using Cons.prems(2) by (simp add: maybe_send_ping_def may_ping_def)
  have "\<exists>l' c'. monitor_iteration tick (l, c) = Some (MonitorRunning, (l', c')) \<and> conn_connected (ch_conn_state c') \<and>
      ps_initial_ping_timestamp (ch_ping_state c') = None"
    using Cons.prems check_connected [OF conn m, of PING_TIMEOUT] ping conn
    by (auto simp: monitor_iteration_def tunnel_exists_and_is_connected_def check_connectivity_def check_reset_def ping_reset_def
        ping_state_new_def ping_timed_out_def Let_def)
  with Cons show ?case by fastforce
qed simp

theorem unsendable_pings_hide_silence_witness:
  "\<exists>s. monitor_run (replicate 1000 \<lparr>mt_closed = False, mt_now = from_secs 3, mt_tunnel = True,
      mt_check = (ex_input (from_secs 3) 2 1)\<lparr>ci_ping_sent := False\<rparr>\<rparr>) (0, ex_connected) = Some (MonitorRunning, s)"
  by (rule unsendable_pings_hide_silence) (auto simp: ex_connected_def ping_state_new_def ex_input_def)

end
