(* ===== verification/Wg_Tunnel.thy ===== *)
theory Wg_Tunnel
  imports Wg_Connectivity Tunnel_Types
begin

text \<open>
  A WireGuard tunnel from its parameters to its end (\<open>talpid-wireguard/src/\<close>: \<open>lib.rs\<close>, \<open>config.rs\<close>, \<open>obfuscation.rs\<close>,
  \<open>ephemeral.rs\<close>, and \<open>talpid-tunnel-config-client/src/lib.rs\<close>): the configuration, its MTU and routes, the negotiation of ephemeral
  peers, and the sequence of calls and events of a tunnel on Linux. Calls to the outside are recorded in a log;
  a \<open>wg_world\<close> gives their answers, indexed by the length of the log.
\<close>

section \<open>Configuration\<close>

record wg_config =
  cfg_tunnel :: tunnel_config
  cfg_entry_peer :: peer_config
  cfg_exit_peer :: "peer_config option"
  cfg_ipv4_gateway :: u32
  cfg_ipv6_gateway :: "u128 option"
  cfg_mtu :: u16
  cfg_fwmark :: "u32 option"
  cfg_enable_ipv6 :: bool
  cfg_obfuscator_config :: "obfuscators option"
  cfg_quantum_resistant :: bool
  cfg_daita :: bool

datatype wg_config_error = InvalidTunnelIpError | InvalidPeerIpError

fun net_is_ipv4 :: "ip_network \<Rightarrow> bool" where
  "net_is_ipv4 (NetV4 _ _) = True"
| "net_is_ipv4 (NetV6 _ _) = False"

fun net_prefix :: "ip_network \<Rightarrow> nat" where
  "net_prefix (NetV4 _ n) = n"
| "net_prefix (NetV6 _ n) = n"

definition retain_peer_ips :: "bool \<Rightarrow> peer_config \<Rightarrow> peer_config" where
  "retain_peer_ips ipv6 peer = peer\<lparr>pc_allowed_ips := filter (\<lambda>ip. net_is_ipv4 ip \<or> ipv6) (pc_allowed_ips peer)\<rparr>"

definition cfg_peers :: "wg_config \<Rightarrow> peer_config list" where
  "cfg_peers self = (case cfg_exit_peer self of None \<Rightarrow> [] | Some p \<Rightarrow> [p]) @ [cfg_entry_peer self]"

definition config_new ::
  "connection_config \<Rightarrow> tunnel_options \<Rightarrow> generic_tunnel_options \<Rightarrow> obfuscators option \<Rightarrow> u16 \<Rightarrow> wg_config_error + wg_config" where
  "config_new connection wg_options generic_options obfuscator_config default_mtu =
     (let ipv6 = enable_ipv6 generic_options;
          tunnel = cc_tunnel connection;
          mtu = (case to_mtu wg_options of Some m \<Rightarrow> m | None \<Rightarrow> default_mtu)
      in if tc_addresses tunnel = [] then Inl InvalidTunnelIpError
         else
           (let config = \<lparr>cfg_tunnel = tunnel\<lparr>tc_addresses := filter (\<lambda>ip. is_ipv4 ip \<or> ipv6) (tc_addresses tunnel)\<rparr>,
                  cfg_entry_peer = retain_peer_ips ipv6 (cc_peer connection),
                  cfg_exit_peer = map_option (retain_peer_ips ipv6) (cc_exit_peer connection),
                  cfg_ipv4_gateway = cc_ipv4_gateway connection,
                  cfg_ipv6_gateway = (if ipv6 then cc_ipv6_gateway connection else None), cfg_mtu = mtu,
                  cfg_fwmark = cc_fwmark connection, cfg_enable_ipv6 = ipv6, cfg_obfuscator_config = obfuscator_config,
                  cfg_quantum_resistant = to_quantum_resistant wg_options, cfg_daita = to_daita wg_options\<rparr>
            in if \<exists>peer \<in> set (cfg_peers config). pc_allowed_ips peer = [] then Inl InvalidPeerIpError else Inr config))"

definition config_from_parameters :: "tunnel_parameters \<Rightarrow> u16 \<Rightarrow> wg_config_error + wg_config" where
  "config_from_parameters params default_mtu =
     config_new (tp_connection params) (tp_options params) (tp_generic_options params) (tp_obfuscation params) default_mtu"

definition is_multihop :: "wg_config \<Rightarrow> bool" where
  "is_multihop self = (cfg_exit_peer self \<noteq> None)"

definition exit_peer :: "wg_config \<Rightarrow> peer_config" where
  "exit_peer self = (case cfg_exit_peer self of Some p \<Rightarrow> p | None \<Rightarrow> cfg_entry_peer self)"

definition exit_peer_update :: "(peer_config \<Rightarrow> peer_config) \<Rightarrow> wg_config \<Rightarrow> wg_config" where
  "exit_peer_update f self =
     (case cfg_exit_peer self of
        Some p \<Rightarrow> self\<lparr>cfg_exit_peer := Some (f p)\<rparr>
      | None \<Rightarrow> self\<lparr>cfg_entry_peer := f (cfg_entry_peer self)\<rparr>)"

definition get_tunnel_destinations :: "wg_config \<Rightarrow> ip_network list" where
  "get_tunnel_destinations self = concat (map pc_allowed_ips (cfg_peers self))"

section \<open>MTU\<close>

definition IPV4_HEADER_SIZE :: u16 where "IPV4_HEADER_SIZE = 20"
definition IPV6_HEADER_SIZE :: u16 where "IPV6_HEADER_SIZE = 40"
definition WIREGUARD_HEADER_SIZE :: u16 where "WIREGUARD_HEADER_SIZE = 8 + 32"
definition ICMP_HEADER_SIZE :: u16 where "ICMP_HEADER_SIZE = 8"
definition MIN_IPV4_MTU :: u16 where "MIN_IPV4_MTU = 576"
definition MIN_IPV6_MTU :: u16 where "MIN_IPV6_MTU = 1280"

fun wireguard_overhead :: "ip_addr \<Rightarrow> u16" where
  "wireguard_overhead (IpV4 _) = IPV4_HEADER_SIZE + WIREGUARD_HEADER_SIZE"
| "wireguard_overhead (IpV6 _) = IPV6_HEADER_SIZE + WIREGUARD_HEADER_SIZE"

definition saturating_sub_u16 :: "u16 \<Rightarrow> u16 \<Rightarrow> u16" where
  "saturating_sub_u16 a b = (if a < b then 0 else a - b)"

text \<open>\<open>Ord::clamp\<close>, for \<open>lo \<le> hi\<close>.\<close>

definition clamp_u16 :: "u16 \<Rightarrow> u16 \<Rightarrow> u16 \<Rightarrow> u16" where
  "clamp_u16 lo hi x = (if x < lo then lo else if hi < x then hi else x)"

definition MTU_SAFETY_MARGIN :: u16 where "MTU_SAFETY_MARGIN = 60"

definition min_mtu :: "tunnel_parameters \<Rightarrow> u16" where
  "min_mtu params = (if enable_ipv6 (tp_generic_options params) then MIN_IPV6_MTU else MIN_IPV4_MTU)"

definition max_peer_mtu :: "tunnel_parameters \<Rightarrow> u16" where
  "max_peer_mtu params = 1500 - MTU_SAFETY_MARGIN - wireguard_overhead (sock_ip (pc_endpoint (cc_peer (tp_connection params))))"

definition clamp_tunnel_mtu :: "tunnel_parameters \<Rightarrow> u16 \<Rightarrow> u16" where
  "clamp_tunnel_mtu params mtu = clamp_u16 (min_mtu params) (max_peer_mtu params) mtu"

definition mtu_overhead :: "tunnel_parameters \<Rightarrow> bool \<Rightarrow> u16" where
  "mtu_overhead params userspace_multihop =
     wireguard_overhead (sock_ip (pc_endpoint (cc_peer (tp_connection params)))) +
     (case (userspace_multihop, cc_exit_peer (tp_connection params)) of
        (True, Some p) \<Rightarrow> wireguard_overhead (sock_ip (pc_endpoint p)) | _ \<Rightarrow> 0)"

definition calculate_tunnel_mtu :: "u16 \<Rightarrow> tunnel_parameters \<Rightarrow> bool \<Rightarrow> u16" where
  "calculate_tunnel_mtu link_mtu_for_peer params userspace_multihop =
     (case to_mtu (tp_options params) of
        Some mtu \<Rightarrow> mtu
      | None \<Rightarrow> clamp_tunnel_mtu params (saturating_sub_u16 link_mtu_for_peer (mtu_overhead params userspace_multihop)))"

definition DEFAULT_MTU :: u16 where "DEFAULT_MTU = 1380"

definition get_route_mtu :: "(ip_addr \<Rightarrow> u16 option) \<Rightarrow> tunnel_parameters \<Rightarrow> u16" where
  "get_route_mtu get_mtu_for_route params =
     (case get_mtu_for_route (sock_ip (pc_endpoint (cc_peer (tp_connection params)))) of Some m \<Rightarrow> m | None \<Rightarrow> DEFAULT_MTU)"

section \<open>Routes\<close>

record required_route =
  rr_prefix :: ip_network
  rr_node :: string
  rr_main_table :: bool
  rr_mtu :: "u16 option"

definition required_route_new :: "ip_network \<Rightarrow> string \<Rightarrow> required_route" where
  "required_route_new prefix node = \<lparr>rr_prefix = prefix, rr_node = node, rr_main_table = True, rr_mtu = None\<rparr>"

definition PADDING_BYTES_MARGIN :: u16 where "PADDING_BYTES_MARGIN = 15"

definition apply_route_mtu_for_multihop :: "required_route \<Rightarrow> wg_config \<Rightarrow> bool \<Rightarrow> required_route" where
  "apply_route_mtu_for_multihop route config userspace_wireguard =
     (if \<not> is_multihop config \<or> userspace_wireguard then route
      else route\<lparr>rr_mtu := Some (cfg_mtu config - wireguard_overhead (net_ip (rr_prefix route)) - PADDING_BYTES_MARGIN)\<rparr>)"

definition get_pre_tunnel_routes :: "string \<Rightarrow> wg_config \<Rightarrow> bool \<Rightarrow> required_route list" where
  "get_pre_tunnel_routes iface_name config userspace_wireguard =
     map (\<lambda>route. apply_route_mtu_for_multihop route config userspace_wireguard)
       (required_route_new (NetV4 (cfg_ipv4_gateway config) 32) iface_name #
        (case cfg_ipv6_gateway config of None \<Rightarrow> [] | Some g \<Rightarrow> [required_route_new (NetV6 g 128) iface_name])) @
     map (\<lambda>ip. required_route_new ip iface_name)
       (filter (\<lambda>allowed_ip. net_prefix allowed_ip \<noteq> 0) (get_tunnel_destinations config))"

definition get_post_tunnel_routes :: "string \<Rightarrow> wg_config \<Rightarrow> bool \<Rightarrow> required_route list" where
  "get_post_tunnel_routes iface_name config userspace_wireguard =
     map (\<lambda>ip. apply_route_mtu_for_multihop ((required_route_new ip iface_name)\<lparr>rr_main_table := False\<rparr>) config userspace_wireguard)
       (filter (\<lambda>allowed_ip. net_prefix allowed_ip = 0) (get_tunnel_destinations config))"

section \<open>Obfuscation settings\<close>

definition auth_token_new :: "string \<Rightarrow> string option" where
  "auth_token_new token = (if take 6 token = ''Bearer'' then None else Some token)"

datatype transport_settings =
  Udp2TcpSettings socket_addr "u32 option"
| ShadowsocksSettings socket_addr socket_addr "u32 option"
| QuicSettings socket_addr socket_addr string string u16 "u32 option"
| LwoSettings socket_addr wg_key wg_key "u32 option"
| MultiplexerSettings "multiplexer_transport list" "u32 option"
and multiplexer_transport = DirectTransport socket_addr | ObfuscatedTransport transport_settings

definition LOCAL_WIREGUARD_V4 :: socket_addr where "LOCAL_WIREGUARD_V4 = SockV4 (ipv4_new 127 0 0 1) 51820"
definition LOCAL_WIREGUARD_V6 :: socket_addr where "LOCAL_WIREGUARD_V6 = SockV6 1 51820 0 0"

text \<open>\<open>None\<close> is the panic of an authentication token that cannot be parsed. \<open>public_key\<close> derives a public key.\<close>

definition settings_from_single_config ::
  "(wg_key \<Rightarrow> wg_key) \<Rightarrow> wg_config \<Rightarrow> obfuscator_config \<Rightarrow> u16 \<Rightarrow> u32 option \<Rightarrow> transport_settings option" where
  "settings_from_single_config public_key config obfuscation_config mtu fwmark =
     (case obfuscation_config of
        CfgUdp2Tcp endpoint \<Rightarrow> Some (Udp2TcpSettings endpoint fwmark)
      | CfgShadowsocks endpoint \<Rightarrow>
          Some (ShadowsocksSettings endpoint (if is_ipv4 (sock_ip endpoint) then LOCAL_WIREGUARD_V4 else LOCAL_WIREGUARD_V6) fwmark)
      | CfgQuic hostname endpoint auth_token \<Rightarrow>
          map_option (\<lambda>token. QuicSettings endpoint LOCAL_WIREGUARD_V4 hostname token mtu fwmark) (auth_token_new auth_token)
      | CfgLwo endpoint \<Rightarrow>
          Some (LwoSettings endpoint (public_key (tc_private_key (cfg_tunnel config))) (pc_public_key (cfg_entry_peer config)) fwmark))"

definition settings_from_config ::
  "(wg_key \<Rightarrow> wg_key) \<Rightarrow> wg_config \<Rightarrow> obfuscators \<Rightarrow> u16 \<Rightarrow> u32 option \<Rightarrow> transport_settings option" where
  "settings_from_config public_key config obfuscation_config mtu fwmark =
     (case obfuscation_config of
        Single c \<Rightarrow> settings_from_single_config public_key config c mtu fwmark
      | Multiplexer direct (first_obfs, remaining_obfs) \<Rightarrow>
          (let settings = map (\<lambda>c. settings_from_single_config public_key config c mtu fwmark) (first_obfs # remaining_obfs)
           in if None \<in> set settings then None
              else Some (MultiplexerSettings
                     ((case direct of None \<Rightarrow> [] | Some d \<Rightarrow> [DirectTransport d]) @ map (ObfuscatedTransport \<circ> the) settings) fwmark)))"

definition is_single_lwo :: "obfuscators \<Rightarrow> bool" where
  "is_single_lwo obfs = (case obfs of Single (CfgLwo _) \<Rightarrow> True | _ \<Rightarrow> False)"

end
