(* ===== verification/Wg_Run.thy ===== *)
theory Wg_Run
  imports Wg_Tunnel
begin

text \<open>
  The life of a WireGuard tunnel: opening it, the negotiation of ephemeral peers, the events it reports and the message it ends
  with. A computation takes the log of calls so far and returns a value, or why the tunnel stops, with the new log.
\<close>

section \<open>Calls, messages and the world\<close>

datatype close_msg =
  CloseStop
| EphemeralPeerNegotiationTimeout
| PingErr
| SetupError wireguard_error
| ObfuscatorExpired
| ObfuscatorFailed wireguard_error

datatype wg_stop = StopMsg close_msg | StopError wireguard_error | StopPanic

text \<open>\<open>f64\<close> values are passed on as they are; their bits stand for them.\<close>

record daita_setup =
  da_client_machines :: "string list"
  da_max_decoy_frac :: u64
  da_max_delay_frac :: u64

record ephemeral_peer =
  eph_psk :: "wg_key option"
  eph_daita :: "daita_setup option"

text \<open>The response of the config service, or that there is none in time.\<close>

record peer_response =
  pr_ciphertexts :: "u8 list list option"
  pr_daita :: "daita_setup option"

datatype rpc_result = RpcTimeout | RpcFailed | RpcResponse peer_response

datatype tunnel_impl = GotaTun | NetworkManagerTunnel | NetlinkTunnel

datatype wg_action =
  ActEvent tunnel_event
| ActCreateObfuscator transport_settings
| ActOpenTunnel tunnel_impl wg_config
| ActCreateRoutingRules bool
| ActAddRoutes "required_route list"
| ActRequestPeer u32 wg_key wg_key bool bool
| ActSetConfig wg_config "daita_setup option"
| ActDetectMtu u16
| ActEstablish "connectivity_error + bool"
| ActMonitor
| ActClosePinger
| ActStopTunnel

type_synonym wg_log = "wg_action list"
type_synonym 'a wg_m = "wg_log \<Rightarrow> (wg_stop + 'a) \<times> wg_log"

record wg_world =
  ww_public_key :: "wg_key \<Rightarrow> wg_key"
  ww_ephemeral_private_key :: wg_key
  ww_ml_kem :: "u8 list \<Rightarrow> u8 list option"
  ww_hqc :: "u8 list \<Rightarrow> u8 list option"
  ww_machine_ok :: "string \<Rightarrow> bool"
  ww_rpc :: "nat \<Rightarrow> rpc_result"
  ww_obfuscator :: "nat \<Rightarrow> (socket_addr \<times> u16) option"
  ww_open :: "nat \<Rightarrow> wg_tunnel_error option"
  ww_nm_manages_dns :: bool
  ww_iface :: string
  ww_ping_ok :: bool
  ww_route :: "nat \<Rightarrow> routing_error option"
  ww_tunnel_exists :: "nat \<Rightarrow> bool"
  ww_set_config :: "nat \<Rightarrow> wg_tunnel_error option"
  ww_establish :: "connectivity_error + bool"

definition wg_return :: "'a \<Rightarrow> 'a wg_m" where
  "wg_return x = (\<lambda>l. (Inr x, l))"

definition wg_fail :: "wg_stop \<Rightarrow> 'a wg_m" where
  "wg_fail e = (\<lambda>l. (Inl e, l))"

definition wg_bind :: "'a wg_m \<Rightarrow> ('a \<Rightarrow> 'b wg_m) \<Rightarrow> 'b wg_m" where
  "wg_bind m f = (\<lambda>l. case m l of (Inl e, l) \<Rightarrow> (Inl e, l) | (Inr x, l) \<Rightarrow> f x l)"

text \<open>A call is recorded; its answer depends on how many calls came before.\<close>

definition wg_call :: "wg_action \<Rightarrow> (nat \<Rightarrow> wg_stop + 'a) \<Rightarrow> 'a wg_m" where
  "wg_call a answer = (\<lambda>l. (answer (length l), l @ [a]))"

definition wg_event :: "tunnel_event \<Rightarrow> unit wg_m" where
  "wg_event e = wg_call (ActEvent e) (\<lambda>_. Inr ())"

definition fails_with :: "('e \<Rightarrow> wg_stop) \<Rightarrow> (nat \<Rightarrow> 'e option) \<Rightarrow> nat \<Rightarrow> wg_stop + unit" where
  "fails_with f answer n = (case answer n of None \<Rightarrow> Inr () | Some e \<Rightarrow> Inl (f e))"

section \<open>Obfuscation\<close>

text \<open>The overhead of the obfuscator that is running, if there is one, is its handle.\<close>

definition apply_obfuscation_config ::
  "wg_world \<Rightarrow> wg_config \<Rightarrow> u16 \<Rightarrow> bool \<Rightarrow> (wireguard_error \<Rightarrow> wg_stop) \<Rightarrow> (wg_config \<times> u16 option) wg_m" where
  "apply_obfuscation_config w config obfuscation_mtu is_gotatun err =
     (case cfg_obfuscator_config config of
        None \<Rightarrow> wg_return (config, None)
      | Some obfuscator_config \<Rightarrow>
          if is_gotatun \<and> is_single_lwo obfuscator_config then wg_return (config, None)
          else
            (case settings_from_config (ww_public_key w) config obfuscator_config obfuscation_mtu (cfg_fwmark config) of
               None \<Rightarrow> wg_fail StopPanic
             | Some settings \<Rightarrow>
                 wg_bind
                   (wg_call (ActCreateObfuscator settings)
                     (\<lambda>n. case ww_obfuscator w n of None \<Rightarrow> Inl (err ObfuscationError) | Some o' \<Rightarrow> Inr o'))
                   (\<lambda>(endpoint, packet_overhead).
                     wg_return (config\<lparr>cfg_entry_peer := (cfg_entry_peer config)\<lparr>pc_endpoint := endpoint\<rparr>\<rparr>, Some packet_overhead))))"

section \<open>Ephemeral peers\<close>

definition xor_assign :: "u8 list \<Rightarrow> u8 list \<Rightarrow> u8 list" where
  "xor_assign dst src = map2 (\<lambda>a b. Bit_Operations.semiring_bit_operations_class.xor a b) dst src"

definition parse_daita_response :: "(string \<Rightarrow> bool) \<Rightarrow> daita_setup \<Rightarrow> daita_setup option" where
  "parse_daita_response machine_ok daita = (if list_all machine_ok (da_client_machines daita) then Some daita else None)"

text \<open>The response to a request; every error is a failed negotiation.\<close>

definition peer_from_response :: "wg_world \<Rightarrow> bool \<Rightarrow> bool \<Rightarrow> peer_response \<Rightarrow> ephemeral_peer option" where
  "peer_from_response w enable_quantum_resistant enable_daita response =
     Option.bind
       (if enable_quantum_resistant then
          (case pr_ciphertexts response of
             Some [ml_kem_ciphertext, hqc_ciphertext] \<Rightarrow>
               Option.bind (ww_ml_kem w ml_kem_ciphertext) (\<lambda>secret1.
               Option.bind (ww_hqc w hqc_ciphertext) (\<lambda>secret2.
               Some (Some (xor_assign (xor_assign (replicate 32 0) secret1) secret2))))
           | _ \<Rightarrow> None)
        else Some None) (\<lambda>psk.
     Option.bind
       (case pr_daita response of None \<Rightarrow> Some None | Some d \<Rightarrow> map_option Some (parse_daita_response (ww_machine_ok w) d)) (\<lambda>daita.
     if daita = None \<and> enable_daita then None else Some \<lparr>eph_psk = psk, eph_daita = daita\<rparr>))"

definition request_ephemeral_peer :: "wg_world \<Rightarrow> wg_config \<Rightarrow> wg_key \<Rightarrow> bool \<Rightarrow> bool \<Rightarrow> ephemeral_peer wg_m" where
  "request_ephemeral_peer w config wg_psk_pubkey enable_pq enable_daita =
     wg_call (ActRequestPeer (cfg_ipv4_gateway config) (ww_public_key w (tc_private_key (cfg_tunnel config))) wg_psk_pubkey enable_pq enable_daita)
       (\<lambda>n. case ww_rpc w n of
              RpcTimeout \<Rightarrow> Inl (StopMsg EphemeralPeerNegotiationTimeout)
            | RpcFailed \<Rightarrow> Inl (StopMsg (SetupError EphemeralPeerNegotiationError))
            | RpcResponse r \<Rightarrow>
                of_option (StopMsg (SetupError EphemeralPeerNegotiationError)) (peer_from_response w enable_pq enable_daita r))"

text \<open>The time that is allowed for a request.\<close>

definition INITIAL_PSK_EXCHANGE_TIMEOUT :: nat where "INITIAL_PSK_EXCHANGE_TIMEOUT = from_secs 8"
definition MAX_PSK_EXCHANGE_TIMEOUT :: nat where "MAX_PSK_EXCHANGE_TIMEOUT = from_secs 48"
definition PSK_EXCHANGE_TIMEOUT_MULTIPLIER :: nat where "PSK_EXCHANGE_TIMEOUT_MULTIPLIER = 2"

definition psk_exchange_timeout :: "nat \<Rightarrow> nat" where
  "psk_exchange_timeout retry_attempt =
     min MAX_PSK_EXCHANGE_TIMEOUT
       (saturating_mul_duration INITIAL_PSK_EXCHANGE_TIMEOUT (saturating_pow_u32 PSK_EXCHANGE_TIMEOUT_MULTIPLIER retry_attempt))"

definition reconfigure_tunnel ::
  "wg_world \<Rightarrow> wg_config \<Rightarrow> daita_setup option \<Rightarrow> u16 \<Rightarrow> u16 option \<Rightarrow> bool \<Rightarrow> (wg_config \<times> u16 option) wg_m" where
  "reconfigure_tunnel w config daita obfuscation_mtu obfuscator is_gotatun =
     wg_bind
       (case obfuscator of
          None \<Rightarrow> wg_return (config, None)
        | Some _ \<Rightarrow> apply_obfuscation_config w config obfuscation_mtu is_gotatun (StopMsg \<circ> ObfuscatorFailed)) (\<lambda>(config, obfuscator).
     wg_bind
       (\<lambda>l. if ww_tunnel_exists w (length l)
            then wg_call (ActSetConfig config daita) (fails_with (StopMsg \<circ> SetupError \<circ> TunnelError) (ww_set_config w)) l
            else wg_return () l) (\<lambda>_.
     wg_return (config, obfuscator)))"

text \<open>With multihop the tunnel leads to the entry first; its peer gets a key of its own and has the DAITA settings.\<close>

definition negotiate_entry :: "wg_world \<Rightarrow> wg_config \<Rightarrow> u16 \<Rightarrow> u16 option \<Rightarrow> bool \<Rightarrow> (wg_config \<times> daita_setup option \<times> u16 option) wg_m" where
  "negotiate_entry w config obfuscation_mtu obfuscator is_gotatun =
     (let entry_tun_config = config\<lparr>cfg_exit_peer := None,
            cfg_entry_peer := (cfg_entry_peer config)
              \<lparr>pc_allowed_ips := pc_allowed_ips (cfg_entry_peer config) @ [NetV4 (cfg_ipv4_gateway config) 32]\<rparr>\<rparr> in
      wg_bind (reconfigure_tunnel w entry_tun_config None obfuscation_mtu obfuscator is_gotatun) (\<lambda>(entry_config, obfuscator).
      wg_bind (request_ephemeral_peer w entry_config (ww_public_key w (ww_ephemeral_private_key w)) (cfg_quantum_resistant config) (cfg_daita config))
        (\<lambda>entry_ephemeral_peer.
      wg_return (config\<lparr>cfg_entry_peer := (cfg_entry_peer config)\<lparr>pc_psk := eph_psk entry_ephemeral_peer\<rparr>\<rparr>,
        eph_daita entry_ephemeral_peer, obfuscator))))"

definition with_ephemeral_keys :: "wg_world \<Rightarrow> ephemeral_peer \<Rightarrow> wg_config \<Rightarrow> wg_config" where
  "with_ephemeral_keys w exit_ephemeral_peer config =
     (let config = exit_peer_update (\<lambda>peer. peer\<lparr>pc_psk := eph_psk exit_ephemeral_peer\<rparr>) config;
          config = (if cfg_daita config
                    then config\<lparr>cfg_entry_peer := (cfg_entry_peer config)\<lparr>pc_constant_packet_size := True\<rparr>\<rparr> else config)
      in config\<lparr>cfg_tunnel := (cfg_tunnel config)\<lparr>tc_private_key := ww_ephemeral_private_key w\<rparr>\<rparr>)"

definition config_ephemeral_peers ::
  "wg_world \<Rightarrow> wg_config \<Rightarrow> u16 \<Rightarrow> u16 option \<Rightarrow> bool \<Rightarrow> (wg_config \<times> u16 option) wg_m" where
  "config_ephemeral_peers w config obfuscation_mtu obfuscator is_gotatun =
     (let exit_should_have_daita = (cfg_daita config \<and> \<not> is_multihop config) in
      wg_bind (request_ephemeral_peer w config (ww_public_key w (ww_ephemeral_private_key w)) (cfg_quantum_resistant config) exit_should_have_daita)
        (\<lambda>exit_ephemeral_peer.
      wg_bind
        (if is_multihop config then negotiate_entry w config obfuscation_mtu obfuscator is_gotatun
         else wg_return (config, eph_daita exit_ephemeral_peer, obfuscator)) (\<lambda>(config, daita, obfuscator).
      reconfigure_tunnel w (with_ephemeral_keys w exit_ephemeral_peer config) daita obfuscation_mtu obfuscator is_gotatun)))"

section \<open>The tunnel\<close>

definition CONFIG_SERVICE_PORT :: u16 where "CONFIG_SERVICE_PORT = 1337"

definition allowed_traffic_during_tunnel_config :: "wg_config \<Rightarrow> allowed_tunnel_traffic" where
  "allowed_traffic_during_tunnel_config config =
     (if cfg_quantum_resistant config \<or> cfg_daita config then
        (let config_endpoint = endpoint_new (IpV4 (cfg_ipv4_gateway config)) CONFIG_SERVICE_PORT Tcp in
         if is_multihop config
         then TrafficTwo config_endpoint (endpoint_from_socket_address (pc_endpoint (exit_peer config)) Udp)
         else TrafficOne config_endpoint)
      else TrafficAll)"

definition allowed_traffic_after_tunnel_config :: allowed_tunnel_traffic where
  "allowed_traffic_after_tunnel_config = TrafficAll"

definition wg_tunnel_metadata :: "string \<Rightarrow> wg_config \<Rightarrow> tunnel_metadata" where
  "wg_tunnel_metadata interface_name config =
     \<lparr>tm_interface = interface_name, tm_ips = tc_addresses (cfg_tunnel config),
      tm_ipv4_gateway = cfg_ipv4_gateway config, tm_ipv6_gateway = cfg_ipv6_gateway config\<rparr>"

definition open_tunnel :: "wg_world \<Rightarrow> wg_config \<Rightarrow> bool \<Rightarrow> unit wg_m" where
  "open_tunnel w config userspace_wireguard =
     (let gotatun = wg_call (ActOpenTunnel GotaTun config) (fails_with (StopError \<circ> TunnelError) (ww_open w));
          kernel = (if ww_nm_manages_dns w then NetworkManagerTunnel else NetlinkTunnel) in
      if userspace_wireguard then gotatun
      else
        wg_bind (wg_call (ActOpenTunnel kernel config) (\<lambda>n. Inr (ww_open w n = None))) (\<lambda>opened.
        if opened then wg_return () else gotatun))"

definition add_routes :: "wg_world \<Rightarrow> required_route list \<Rightarrow> unit wg_m" where
  "add_routes w routes = wg_call (ActAddRoutes routes) (fails_with (StopMsg \<circ> SetupError \<circ> SetupRoutingError) (ww_route w))"

text \<open>The future that runs the tunnel, in three parts; it never returns a value.\<close>

definition tunnel_prepare :: "wg_world \<Rightarrow> wg_config \<Rightarrow> bool \<Rightarrow> unit wg_m" where
  "tunnel_prepare w config userspace_wireguard =
     wg_bind (wg_event (InterfaceUp (wg_tunnel_metadata (ww_iface w) config) (allowed_traffic_during_tunnel_config config))) (\<lambda>_.
     wg_bind (wg_call (ActCreateRoutingRules (cfg_enable_ipv6 config))
       (fails_with (StopMsg \<circ> SetupError \<circ> SetupRoutingError) (ww_route w))) (\<lambda>_.
     add_routes w (get_pre_tunnel_routes (ww_iface w) config userspace_wireguard)))"

definition tunnel_negotiate :: "wg_world \<Rightarrow> wg_config \<Rightarrow> u16 \<Rightarrow> u16 option \<Rightarrow> bool \<Rightarrow> wg_config wg_m" where
  "tunnel_negotiate w config obfuscation_mtu obfuscator userspace_wireguard =
     (if cfg_quantum_resistant config \<or> cfg_daita config then
        wg_bind (config_ephemeral_peers w config obfuscation_mtu obfuscator userspace_wireguard) (\<lambda>(config, _).
        wg_bind (wg_event (InterfaceUp (wg_tunnel_metadata (ww_iface w) config) allowed_traffic_after_tunnel_config)) (\<lambda>_.
        wg_return config))
      else wg_return config)"

definition tunnel_bring_up :: "wg_world \<Rightarrow> bool \<Rightarrow> wg_config \<Rightarrow> bool \<Rightarrow> unit wg_m" where
  "tunnel_bring_up w detect_mtu config userspace_wireguard =
     wg_bind (if detect_mtu \<and> \<not> cfg_daita config then wg_call (ActDetectMtu (cfg_mtu config)) (\<lambda>_. Inr ()) else wg_return ()) (\<lambda>_.
     wg_bind (\<lambda>l. if ww_tunnel_exists w (length l) then wg_return () l else wg_fail StopPanic l) (\<lambda>_.
     wg_bind (wg_call (ActEstablish (ww_establish w)) (\<lambda>_. if ww_establish w = Inr True then Inr () else Inl (StopMsg PingErr))) (\<lambda>_.
     wg_bind (add_routes w (get_post_tunnel_routes (ww_iface w) config userspace_wireguard)) (\<lambda>_.
     wg_bind (wg_event (Up (wg_tunnel_metadata (ww_iface w) config))) (\<lambda>_.
     wg_call ActMonitor (\<lambda>_. Inl (StopMsg PingErr)))))))"

definition tunnel_fut :: "wg_world \<Rightarrow> bool \<Rightarrow> wg_config \<Rightarrow> u16 \<Rightarrow> u16 option \<Rightarrow> bool \<Rightarrow> unit wg_m" where
  "tunnel_fut w detect_mtu config obfuscation_mtu obfuscator userspace_wireguard =
     wg_bind (tunnel_prepare w config userspace_wireguard) (\<lambda>_.
     wg_bind (tunnel_negotiate w config obfuscation_mtu obfuscator userspace_wireguard) (\<lambda>config.
     tunnel_bring_up w detect_mtu config userspace_wireguard))"

text \<open>
  \<open>WireguardMonitor::start\<close>: errors of the first part are returned, the rest is the future.
\<close>

definition wg_start :: "wg_world \<Rightarrow> bool \<Rightarrow> (ip_addr \<Rightarrow> u16 option) \<Rightarrow> tunnel_parameters \<Rightarrow> unit wg_m" where
  "wg_start w FORCE_USERSPACE_WIREGUARD get_mtu_for_route params =
     (let is_single_lwo = (case tp_obfuscation params of None \<Rightarrow> False | Some o' \<Rightarrow> is_single_lwo o');
          userspace_wireguard = (FORCE_USERSPACE_WIREGUARD \<or> use_userspace_wg params \<or> is_single_lwo);
          route_mtu = get_route_mtu get_mtu_for_route params;
          tunnel_mtu = calculate_tunnel_mtu route_mtu params userspace_wireguard in
      case config_from_parameters params tunnel_mtu of
        Inl _ \<Rightarrow> wg_fail (StopError WireguardConfigError)
      | Inr config \<Rightarrow>
          wg_bind (apply_obfuscation_config w config route_mtu userspace_wireguard StopError) (\<lambda>(config, obfuscator).
          let config =
            (case (to_mtu (tp_options params), obfuscator) of
               (None, Some packet_overhead) \<Rightarrow>
                 config\<lparr>cfg_mtu := clamp_tunnel_mtu params (saturating_sub_u16 (cfg_mtu config) packet_overhead)\<rparr>
             | _ \<Rightarrow> config) in
          wg_bind (open_tunnel w config userspace_wireguard) (\<lambda>_.
          if \<not> ww_ping_ok w then wg_fail (StopError ConnectivityMonitorError)
          else tunnel_fut w (to_mtu (tp_options params) = None) config route_mtu obfuscator userspace_wireguard)))"

text \<open>What waiting for the monitor does with the first message; \<open>None\<close> is a closed channel.\<close>

definition wait_result :: "close_msg option \<Rightarrow> wireguard_error + unit" where
  "wait_result msg =
     (case msg of
        Some EphemeralPeerNegotiationTimeout \<Rightarrow> Inl TimeoutError
      | Some PingErr \<Rightarrow> Inl TimeoutError
      | Some CloseStop \<Rightarrow> Inr ()
      | Some ObfuscatorExpired \<Rightarrow> Inr ()
      | Some (SetupError e) \<Rightarrow> Inl e
      | Some (ObfuscatorFailed e) \<Rightarrow> Inl e
      | None \<Rightarrow> Inr ())"

definition stop_tunnel :: "wg_world \<Rightarrow> wg_log \<Rightarrow> wg_log" where
  "stop_tunnel w l = (if ww_tunnel_exists w (length l) then l @ [ActStopTunnel] else l)"

definition wg_wait :: "wg_world \<Rightarrow> close_msg option \<Rightarrow> wg_log \<Rightarrow> (wireguard_error + unit) \<times> wg_log" where
  "wg_wait w msg l = (wait_result msg, stop_tunnel w (l @ [ActClosePinger, ActEvent Down]))"

section \<open>MTU detection\<close>

definition MTU_STEP_SIZE :: u16 where "MTU_STEP_SIZE = 20"

text \<open>\<open>None\<close> is a failed assertion. The values lie between the bounds, so they are computed as numbers.\<close>

definition next_multiple_of :: "nat \<Rightarrow> nat \<Rightarrow> nat" where
  "next_multiple_of n k = (if n mod k = 0 then n else n + (k - n mod k))"

function step_by_from :: "nat \<Rightarrow> nat \<Rightarrow> nat \<Rightarrow> nat list" where
  "step_by_from a b k = (if k = 0 \<or> b \<le> a then [] else a # step_by_from (a + k) b k)"
  by pat_completeness auto

termination
  by (relation "measure (\<lambda>(a, b, k). b - a)") auto

declare step_by_from.simps [simp del]

definition mtu_spacing :: "nat \<Rightarrow> nat \<Rightarrow> nat \<Rightarrow> nat list option" where
  "mtu_spacing mtu_min mtu_max step_size =
     (if mtu_min < mtu_max \<and> step_size < mtu_max \<and> step_size \<noteq> 0
      then Some ([mtu_min] @ step_by_from (next_multiple_of (mtu_min + 1) step_size) mtu_max step_size @ [mtu_max])
      else None)"

datatype mtu_error = MtuAllDropped | MtuUnexpected | MtuSetupSocket | MtuSet

text \<open>
  What a ping comes to, in the order in which they finish: its size, a timeout, another error; or a gap of
  \<open>PING_OFFSET_TIMEOUT\<close> without any.
\<close>

datatype ping_end = PingOk u16 | PingTimedOut | PingFailed | PingGap

fun max_ping_rest :: "u16 \<Rightarrow> ping_end list \<Rightarrow> mtu_error + u16" where
  "max_ping_rest acc [] = Inr acc"
| "max_ping_rest acc (PingOk n # ps) = max_ping_rest (max acc n) ps"
| "max_ping_rest acc (PingGap # ps) = Inr acc"
| "max_ping_rest acc (PingTimedOut # ps) = Inl MtuUnexpected"
| "max_ping_rest acc (PingFailed # ps) = Inl MtuUnexpected"

text \<open>No gap ends the wait for the first ping; \<open>None\<close> is the panic if there is none at all.\<close>

fun max_ping_size :: "ping_end list \<Rightarrow> (mtu_error + u16) option" where
  "max_ping_size [] = None"
| "max_ping_size (PingGap # ps) = max_ping_size ps"
| "max_ping_size (PingOk n # ps) = Some (max_ping_rest n ps)"
| "max_ping_size (PingTimedOut # ps) = Some (Inl MtuAllDropped)"
| "max_ping_size (PingFailed # ps) = Some (Inl MtuUnexpected)"

text \<open>
  \<open>pings\<close> is what the pings of the sizes that were sent come to. The result has the MTU that was set, if any.
\<close>

definition automatic_mtu_correction ::
  "bool \<Rightarrow> (nat list \<Rightarrow> ping_end list) \<Rightarrow> bool \<Rightarrow> u16 \<Rightarrow> (mtu_error + u16 option) option" where
  "automatic_mtu_correction socket_ok pings set_ok current_tunnel_mtu =
     (case mtu_spacing (unat MIN_IPV4_MTU) (unat current_tunnel_mtu) (unat MTU_STEP_SIZE) of
        None \<Rightarrow> None
      | Some linspace \<Rightarrow>
          if \<not> socket_ok then Some (Inl MtuSetupSocket)
          else
            (case max_ping_size (pings linspace) of
               None \<Rightarrow> None
             | Some (Inl e) \<Rightarrow> Some (Inl e)
             | Some (Inr verified_mtu) \<Rightarrow>
                 Some (if verified_mtu = current_tunnel_mtu then Inr None
                       else if set_ok then Inr (Some verified_mtu) else Inl MtuSet)))"

end
