(* ===== verification/Wg_Properties.thy ===== *)
theory Wg_Properties
  imports Wg_Run
begin

text \<open>
  Properties of a WireGuard tunnel: traffic is let through only when the keys that were asked for are in place, the default route is
  set only when the tunnel works, packets fit, and how a tunnel that ends is taken by the state machine.
\<close>

section \<open>Logs that keep a rule\<close>

text \<open>Every action of the log satisfies a condition on the log before it.\<close>

definition keeps_rule :: "(wg_log \<Rightarrow> wg_action \<Rightarrow> bool) \<Rightarrow> wg_log \<Rightarrow> bool" where
  "keeps_rule ok l = (\<forall>pre a post. l = pre @ a # post \<longrightarrow> ok pre a)"

lemma keeps_rule_Nil [simp]: "keeps_rule ok []"
  by (simp add: keeps_rule_def)

lemma keeps_rule_snoc [simp]: "keeps_rule ok (l @ [a]) \<longleftrightarrow> keeps_rule ok l \<and> ok l a"
proof
  assume *: "keeps_rule ok (l @ [a])"
  then have "ok l a" by (auto simp: keeps_rule_def)
  moreover have "ok pre b" if "l = pre @ b # post" for pre b post
    using * that unfolding keeps_rule_def by (metis append.assoc append_Cons)
  ultimately show "keeps_rule ok l \<and> ok l a" by (simp add: keeps_rule_def)
next
  assume *: "keeps_rule ok l \<and> ok l a"
  have "ok pre b" if "l @ [a] = pre @ b # post" for pre b post
  proof (cases post rule: rev_cases)
    case Nil
    with that * show ?thesis by simp
  next
    case (snoc post' c)
    with that have "l = pre @ b # post'" by simp
    with * show ?thesis by (auto simp: keeps_rule_def)
  qed
  then show "keeps_rule ok (l @ [a])" by (auto simp: keeps_rule_def)
qed

text \<open>
  A computation keeps a rule, from logs with \<open>P\<close> to values and logs with \<open>Q\<close>.
\<close>

definition wg_keeps :: "(wg_log \<Rightarrow> wg_action \<Rightarrow> bool) \<Rightarrow> (wg_log \<Rightarrow> bool) \<Rightarrow> 'a wg_m \<Rightarrow> ('a \<Rightarrow> wg_log \<Rightarrow> bool) \<Rightarrow> bool" where
  "wg_keeps ok P m Q =
     (\<forall>l. keeps_rule ok l \<and> P l \<longrightarrow>
        (case m l of (r, l') \<Rightarrow> keeps_rule ok l' \<and> (case r of Inl _ \<Rightarrow> True | Inr x \<Rightarrow> Q x l')))"

lemma wg_keeps_bind:
  assumes "wg_keeps ok P m Q" and "\<And>x. wg_keeps ok (Q x) (f x) R"
  shows "wg_keeps ok P (wg_bind m f) R"
proof -
  have "case wg_bind m f l of (r, l') \<Rightarrow> keeps_rule ok l' \<and> (case r of Inl _ \<Rightarrow> True | Inr x \<Rightarrow> R x l')"
    if l: "keeps_rule ok l" "P l" for l
  proof -
    obtain r l' where m: "m l = (r, l')" by fastforce
    then have "keeps_rule ok l' \<and> (case r of Inl _ \<Rightarrow> True | Inr x \<Rightarrow> Q x l')" using assms(1) l by (force simp: wg_keeps_def)
    then show ?thesis using assms(2) m by (cases r) (auto simp: wg_bind_def wg_keeps_def)
  qed
  then show ?thesis by (simp add: wg_keeps_def)
qed

lemma wg_keeps_return: "(\<And>l. P l \<Longrightarrow> Q x l) \<Longrightarrow> wg_keeps ok P (wg_return x) Q"
  by (auto simp: wg_keeps_def wg_return_def)

lemma wg_keeps_fail: "wg_keeps ok P (wg_fail e) Q"
  by (auto simp: wg_keeps_def wg_fail_def)

lemma wg_keeps_call:
  assumes "\<And>l. P l \<Longrightarrow> ok l a" and "\<And>l x. P l \<Longrightarrow> answer (length l) = Inr x \<Longrightarrow> Q x (l @ [a])"
  shows "wg_keeps ok P (wg_call a answer) Q"
  using assms by (auto simp: wg_keeps_def wg_call_def split: sum.split)

lemma wg_keeps_weaken: "wg_keeps ok P m Q \<Longrightarrow> (\<And>l. P' l \<Longrightarrow> P l) \<Longrightarrow> (\<And>x l. Q x l \<Longrightarrow> Q' x l) \<Longrightarrow> wg_keeps ok P' m Q'"
  unfolding wg_keeps_def
proof (intro allI impI)
  fix l
  assume *: "\<forall>l. keeps_rule ok l \<and> P l \<longrightarrow>
      (case m l of (r, l') \<Rightarrow> keeps_rule ok l' \<and> (case r of Inl _ \<Rightarrow> True | Inr x \<Rightarrow> Q x l'))"
    "\<And>l. P' l \<Longrightarrow> P l" "\<And>x l. Q x l \<Longrightarrow> Q' x l" "keeps_rule ok l \<and> P' l"
  obtain r l' where "m l = (r, l')" by fastforce
  with * show "case m l of (r, l') \<Rightarrow> keeps_rule ok l' \<and> (case r of Inl _ \<Rightarrow> True | Inr x \<Rightarrow> Q' x l')"
    by (cases r) force+
qed

lemma wg_keeps_pure: "(A \<Longrightarrow> wg_keeps ok (\<lambda>_. True) m Q) \<Longrightarrow> wg_keeps ok (\<lambda>_. A) m Q"
  by (auto simp: wg_keeps_def)

lemma wg_keeps_if: "(b \<Longrightarrow> wg_keeps ok P m Q) \<Longrightarrow> (\<not> b \<Longrightarrow> wg_keeps ok P m' Q) \<Longrightarrow> wg_keeps ok P (if b then m else m') Q"
  by simp

section \<open>Keys before traffic\<close>

text \<open>The configuration that the tunnel has after the calls of a log, with its DAITA settings.\<close>

fun last_config :: "wg_log \<Rightarrow> (wg_config \<times> daita_setup option) option" where
  "last_config [] = None"
| "last_config (ActOpenTunnel _ config # l) = (case last_config l of None \<Rightarrow> Some (config, None) | r \<Rightarrow> r)"
| "last_config (ActSetConfig config daita # l) = (case last_config l of None \<Rightarrow> Some (config, daita) | r \<Rightarrow> r)"
| "last_config (_ # l) = last_config l"

lemma last_config_append: "last_config (l @ m) = (case last_config m of None \<Rightarrow> last_config l | r \<Rightarrow> r)"
  by (induction l rule: last_config.induct) (auto split: option.splits)

text \<open>The keys and settings that the parameters ask for.\<close>

definition keys_in_place :: "tunnel_parameters \<Rightarrow> wg_config \<times> daita_setup option \<Rightarrow> bool" where
  "keys_in_place params = (\<lambda>(config, daita).
     (to_quantum_resistant (tp_options params) \<longrightarrow> (\<forall>peer \<in> set (cfg_peers config). pc_psk peer \<noteq> None)) \<and>
     (to_daita (tp_options params) \<longrightarrow> daita \<noteq> None))"

definition keys_ready :: "tunnel_parameters \<Rightarrow> wg_log \<Rightarrow> bool" where
  "keys_ready params l = (\<exists>c. last_config l = Some c \<and> keys_in_place params c)"

definition opens_traffic :: "wg_action \<Rightarrow> bool" where
  "opens_traffic a = (case a of ActEvent (InterfaceUp _ t) \<Rightarrow> t = TrafficAll | ActEvent (Up _) \<Rightarrow> True | _ \<Rightarrow> False)"

definition adds_default_route :: "wg_action \<Rightarrow> bool" where
  "adds_default_route a = (case a of ActAddRoutes rs \<Rightarrow> \<exists>r \<in> set rs. net_prefix (rr_prefix r) = 0 | _ \<Rightarrow> False)"

definition keys_rule :: "tunnel_parameters \<Rightarrow> wg_log \<Rightarrow> wg_action \<Rightarrow> bool" where
  "keys_rule params l a =
     ((opens_traffic a \<longrightarrow> keys_ready params l) \<and>
      ((adds_default_route a \<or> (\<exists>m. a = ActEvent (Up m))) \<longrightarrow> ActEstablish (Inr True) \<in> set l))"

text \<open>The flags of a configuration are those of the parameters.\<close>

definition flags_of :: "tunnel_parameters \<Rightarrow> wg_config \<Rightarrow> bool" where
  "flags_of params config =
     (cfg_quantum_resistant config = to_quantum_resistant (tp_options params) \<and> cfg_daita config = to_daita (tp_options params))"

lemma config_flags: "config_from_parameters params mtu = Inr config \<Longrightarrow> flags_of params config"
  by (auto simp: config_from_parameters_def config_new_def Let_def flags_of_def split: if_splits)

lemma quiet_call:
  assumes "\<not> opens_traffic a" and "\<not> adds_default_route a" and "\<And>x. Q x"
  shows "wg_keeps (keys_rule params) P (wg_call a answer) (\<lambda>x _. Q x)"
  using assms by (intro wg_keeps_call) (auto simp: keys_rule_def opens_traffic_def)

lemma apply_obfuscation_keeps:
  "wg_keeps (keys_rule params) P (apply_obfuscation_config w config mtu gotatun err)
     (\<lambda>(config', _) _. \<exists>e. config' = config\<lparr>cfg_entry_peer := (cfg_entry_peer config)\<lparr>pc_endpoint := e\<rparr>\<rparr>)"
proof -
  have same: "\<exists>e. config = config\<lparr>cfg_entry_peer := (cfg_entry_peer config)\<lparr>pc_endpoint := e\<rparr>\<rparr>"
    by (rule exI [of _ "pc_endpoint (cfg_entry_peer config)"]) simp
  show ?thesis
    unfolding apply_obfuscation_config_def
    by (auto simp: opens_traffic_def adds_default_route_def split: option.split
        intro!: wg_keeps_return wg_keeps_fail same wg_keeps_bind [OF quiet_call [where Q = "\<lambda>_. True"]])
qed

lemma reconfigure_keeps:
  assumes "\<And>n. ww_tunnel_exists w n"
  shows "wg_keeps (keys_rule params) P (reconfigure_tunnel w config daita mtu obfs gotatun)
    (\<lambda>(config', _) l. (\<exists>e. config' = config\<lparr>cfg_entry_peer := (cfg_entry_peer config)\<lparr>pc_endpoint := e\<rparr>\<rparr>) \<and>
      last_config l = Some (config', daita))"
proof -
  let ?same = "\<lambda>config'. \<exists>e. config' = config\<lparr>cfg_entry_peer := (cfg_entry_peer config)\<lparr>pc_endpoint := e\<rparr>\<rparr>"
  have obfs: "wg_keeps (keys_rule params) P
      (case obfs of None \<Rightarrow> wg_return (config, None)
       | Some _ \<Rightarrow> apply_obfuscation_config w config mtu gotatun (StopMsg \<circ> ObfuscatorFailed)) (\<lambda>(config', _) _. ?same config')"
    using apply_obfuscation_keeps
    by (auto split: option.split intro!: wg_keeps_return exI [of _ "pc_endpoint (cfg_entry_peer config)"])
  have set: "wg_keeps (keys_rule params) (\<lambda>_. ?same c) (wg_call (ActSetConfig c daita) answer) (\<lambda>_ l. ?same c \<and> last_config l = Some (c, daita))"
    for c and answer :: "nat \<Rightarrow> wg_stop + unit"
    by (rule wg_keeps_call) (auto simp: keys_rule_def opens_traffic_def adds_default_route_def last_config_append)
  show ?thesis
    unfolding reconfigure_tunnel_def using assms
    by (auto intro!: wg_keeps_bind [OF obfs] wg_keeps_bind [OF set] wg_keeps_return)
qed

lemma request_keeps:
  "wg_keeps (keys_rule params) P (request_ephemeral_peer w config key pq daita)
     (\<lambda>peer _. (pq \<longrightarrow> eph_psk peer \<noteq> None) \<and> (daita \<longrightarrow> eph_daita peer \<noteq> None))"
  unfolding request_ephemeral_peer_def
  by (rule wg_keeps_call)
    (auto simp: keys_rule_def opens_traffic_def adds_default_route_def peer_from_response_def
      split: rpc_result.splits option.splits list.splits if_splits Option.bind_splits)

lemma negotiate_keeps:
  assumes "\<And>n. ww_tunnel_exists w n"
  shows "wg_keeps (keys_rule params) P (negotiate_entry w config mtu obfs gotatun)
    (\<lambda>(c, d, _) _. \<exists>psk. c = config\<lparr>cfg_entry_peer := (cfg_entry_peer config)\<lparr>pc_psk := psk\<rparr>\<rparr> \<and>
       (cfg_quantum_resistant config \<longrightarrow> psk \<noteq> None) \<and> (cfg_daita config \<longrightarrow> d \<noteq> None))"
  unfolding negotiate_entry_def Let_def
proof (rule wg_keeps_bind [OF reconfigure_keeps [OF assms]])
  fix x :: "wg_config \<times> u16 option" and Q
  obtain c o' where x: "x = (c, o')" by fastforce
  show "wg_keeps (keys_rule params) (Q x)
     (case x of (entry_config, obfuscator) \<Rightarrow>
        wg_bind (request_ephemeral_peer w entry_config (ww_public_key w (ww_ephemeral_private_key w)) (cfg_quantum_resistant config) (cfg_daita config))
          (\<lambda>entry_ephemeral_peer. wg_return (config\<lparr>cfg_entry_peer := (cfg_entry_peer config)\<lparr>pc_psk := eph_psk entry_ephemeral_peer\<rparr>\<rparr>,
             eph_daita entry_ephemeral_peer, obfuscator)))
     (\<lambda>(c, d, _) _. \<exists>psk. c = config\<lparr>cfg_entry_peer := (cfg_entry_peer config)\<lparr>pc_psk := psk\<rparr>\<rparr> \<and>
       (cfg_quantum_resistant config \<longrightarrow> psk \<noteq> None) \<and> (cfg_daita config \<longrightarrow> d \<noteq> None))"
    unfolding x prod.case by (rule wg_keeps_bind [OF request_keeps], rule wg_keeps_return) auto
qed

text \<open>The configuration in the end differs from the one in the beginning in its keys and local endpoint.\<close>

lemma ephemeral_keeps:
  assumes "\<And>n. ww_tunnel_exists w n" and "flags_of params config"
  shows "wg_keeps (keys_rule params) P (config_ephemeral_peers w config mtu obfs gotatun)
    (\<lambda>(config', _) l. flags_of params config' \<and> (\<exists>c. last_config l = Some c \<and> keys_in_place params c))"
proof -
  let ?pq = "to_quantum_resistant (tp_options params)" and ?daita = "to_daita (tp_options params)"
  have final: "wg_keeps (keys_rule params) P' (reconfigure_tunnel w c d mtu obfs gotatun)
      (\<lambda>(config', _) l. flags_of params config' \<and> (\<exists>c. last_config l = Some c \<and> keys_in_place params c))"
    if "flags_of params c" "keys_in_place params (c, d)" for P' c d obfs
    by (rule wg_keeps_weaken [OF reconfigure_keeps [OF assms(1)]])
      (use that in \<open>auto simp: flags_of_def keys_in_place_def cfg_peers_def split: option.splits\<close>)
  note flags = assms(2)
  have keys: "flags_of params (with_ephemeral_keys w peer c) \<and> keys_in_place params (with_ephemeral_keys w peer c, d)"
    if "flags_of params c" "?daita \<longrightarrow> d \<noteq> None" "?pq \<longrightarrow> eph_psk peer \<noteq> None"
      "?pq \<and> is_multihop c \<longrightarrow> pc_psk (cfg_entry_peer c) \<noteq> None" for peer c d
    using that by (auto simp: with_ephemeral_keys_def Let_def exit_peer_update_def keys_in_place_def cfg_peers_def flags_of_def is_multihop_def
        split: option.splits)
  show ?thesis
    unfolding config_ephemeral_peers_def Let_def
  proof (rule wg_keeps_bind [OF request_keeps], rule wg_keeps_bind)
    fix peer :: ephemeral_peer
    let ?exit = "\<lambda>_. (cfg_quantum_resistant config \<longrightarrow> eph_psk peer \<noteq> None) \<and>
      (cfg_daita config \<and> \<not> is_multihop config \<longrightarrow> eph_daita peer \<noteq> None)"
    let ?mid = "\<lambda>(c, d, _) _. flags_of params c \<and> (?daita \<longrightarrow> d \<noteq> None) \<and> (?pq \<longrightarrow> eph_psk peer \<noteq> None) \<and>
      (?pq \<and> is_multihop c \<longrightarrow> pc_psk (cfg_entry_peer c) \<noteq> None)"
    have "wg_keeps (keys_rule params) ?exit (negotiate_entry w config mtu obfs gotatun) ?mid"
    proof (rule wg_keeps_pure, rule wg_keeps_weaken [OF negotiate_keeps [OF assms(1), of params "\<lambda>_. True"]])
      fix x l
      assume "?exit l" and "(\<lambda>(c, d, _) _. \<exists>psk. c = config\<lparr>cfg_entry_peer := (cfg_entry_peer config)\<lparr>pc_psk := psk\<rparr>\<rparr> \<and>
         (cfg_quantum_resistant config \<longrightarrow> psk \<noteq> None) \<and> (cfg_daita config \<longrightarrow> d \<noteq> None)) x l"
      then show "?mid x l" using flags by (cases x) (auto simp: flags_of_def)
    qed simp
    then show "wg_keeps (keys_rule params) ?exit
        (if is_multihop config then negotiate_entry w config mtu obfs gotatun else wg_return (config, eph_daita peer, obfs)) ?mid"
      using assms(2) by (auto simp: flags_of_def intro!: wg_keeps_return)
    show "wg_keeps (keys_rule params) (?mid x)
        (case x of (config, daita, obfs) \<Rightarrow> reconfigure_tunnel w (with_ephemeral_keys w peer config) daita mtu obfs gotatun)
        (\<lambda>(config', _) l. flags_of params config' \<and> (\<exists>c. last_config l = Some c \<and> keys_in_place params c))" for x
    proof (cases x)
      case (fields c d o')
      show ?thesis unfolding fields prod.case by (rule wg_keeps_pure, rule final) (use keys in blast)+
    qed
  qed
qed

text \<open>What holds of the log from the opening of the tunnel on, from the last change of its keys on, and once it works.\<close>

definition tunnel_opened :: "wg_config \<Rightarrow> wg_log \<Rightarrow> bool" where
  "tunnel_opened config l = (\<exists>daita. last_config l = Some (config, daita))"

definition tunnel_works :: "tunnel_parameters \<Rightarrow> wg_log \<Rightarrow> bool" where
  "tunnel_works params l = (keys_ready params l \<and> ActEstablish (Inr True) \<in> set l)"

lemma keys_ready_append: "last_config [a] = None \<Longrightarrow> keys_ready params (l @ [a]) = keys_ready params l"
  by (simp add: keys_ready_def last_config_append)

lemma tunnel_opened_append: "last_config [a] = None \<Longrightarrow> tunnel_opened config (l @ [a]) = tunnel_opened config l"
  by (simp add: tunnel_opened_def last_config_append)

lemma tunnel_works_append: "last_config [a] = None \<Longrightarrow> tunnel_works params l \<Longrightarrow> tunnel_works params (l @ [a])"
  by (simp add: tunnel_works_def keys_ready_append)

lemma stable_call:
  assumes "\<And>l. P l \<Longrightarrow> keys_rule params l a" and "\<And>l. P l \<Longrightarrow> Q (l @ [a])"
  shows "wg_keeps (keys_rule params) P (wg_call a answer) (\<lambda>_. Q)"
  using assms by (rule wg_keeps_call)

lemma pre_routes_not_default: "r \<in> set (get_pre_tunnel_routes iface config userspace) \<Longrightarrow> net_prefix (rr_prefix r) \<noteq> 0"
  by (auto simp: get_pre_tunnel_routes_def apply_route_mtu_for_multihop_def required_route_new_def split: option.splits if_splits)

lemma opened_ready:
  "flags_of params config \<Longrightarrow> \<not> cfg_quantum_resistant config \<Longrightarrow> \<not> cfg_daita config \<Longrightarrow> tunnel_opened config l \<Longrightarrow> keys_ready params l"
  by (auto simp: tunnel_opened_def keys_ready_def keys_in_place_def flags_of_def)

lemma tunnel_prepare_keeps:
  assumes "flags_of params config"
  shows "wg_keeps (keys_rule params) (tunnel_opened config) (tunnel_prepare w config userspace) (\<lambda>_. tunnel_opened config)"
  unfolding tunnel_prepare_def wg_event_def add_routes_def
proof (intro wg_keeps_bind [OF stable_call [where Q = "tunnel_opened config"]] stable_call)
  fix l
  assume "tunnel_opened config l"
  then show "keys_rule params l (ActEvent (InterfaceUp (wg_tunnel_metadata (ww_iface w) config) (allowed_traffic_during_tunnel_config config)))"
    using opened_ready [OF assms, of l]
    by (auto simp: keys_rule_def opens_traffic_def adds_default_route_def allowed_traffic_during_tunnel_config_def Let_def
        split: if_splits)
  show "keys_rule params l (ActAddRoutes (get_pre_tunnel_routes (ww_iface w) config userspace))"
    by (auto simp: keys_rule_def opens_traffic_def adds_default_route_def dest!: pre_routes_not_default)
qed (simp_all add: tunnel_opened_append keys_rule_def opens_traffic_def adds_default_route_def)

lemma tunnel_negotiate_keeps:
  assumes "\<And>n. ww_tunnel_exists w n" and "flags_of params config"
  shows "wg_keeps (keys_rule params) (tunnel_opened config) (tunnel_negotiate w config mtu obfs userspace) (\<lambda>_. keys_ready params)"
  unfolding tunnel_negotiate_def wg_event_def
proof (rule wg_keeps_if)
  have event: "wg_keeps (keys_rule params) (keys_ready params)
      (wg_bind (wg_call (ActEvent (InterfaceUp m allowed_traffic_after_tunnel_config)) answer) (\<lambda>_. wg_return c)) (\<lambda>_. keys_ready params)"
    for m and c :: wg_config and answer :: "nat \<Rightarrow> wg_stop + unit"
    by (rule wg_keeps_bind [OF stable_call [where Q = "keys_ready params"]])
      (auto simp: keys_rule_def opens_traffic_def adds_default_route_def keys_ready_append intro: wg_keeps_return)
  show "wg_keeps (keys_rule params) (tunnel_opened config)
      (wg_bind (config_ephemeral_peers w config mtu obfs userspace) (\<lambda>(config, _).
         wg_bind (wg_call (ActEvent (InterfaceUp (wg_tunnel_metadata (ww_iface w) config) allowed_traffic_after_tunnel_config)) (\<lambda>_. Inr ()))
           (\<lambda>_. wg_return config))) (\<lambda>_. keys_ready params)"
    by (rule wg_keeps_bind [OF ephemeral_keeps [OF assms]]) (auto intro: wg_keeps_weaken [OF event] simp: keys_ready_def)
qed (auto intro!: wg_keeps_return opened_ready [OF assms(2)])

lemma tunnel_bring_up_keeps:
  assumes "\<And>n. ww_tunnel_exists w n"
  shows "wg_keeps (keys_rule params) (keys_ready params) (tunnel_bring_up w detect config userspace) (\<lambda>_ _. True)"
  unfolding tunnel_bring_up_def wg_event_def add_routes_def
proof (intro wg_keeps_bind)
  show "wg_keeps (keys_rule params) (keys_ready params)
      (if detect \<and> \<not> cfg_daita config then wg_call (ActDetectMtu (cfg_mtu config)) (\<lambda>_. Inr ()) else wg_return ()) (\<lambda>_. keys_ready params)"
    by (auto simp: keys_rule_def opens_traffic_def adds_default_route_def keys_ready_append intro!: wg_keeps_return stable_call)
  show "wg_keeps (keys_rule params) (keys_ready params) (\<lambda>l. if ww_tunnel_exists w (length l) then wg_return () l else wg_fail StopPanic l)
      (\<lambda>_. keys_ready params)"
    using assms by (auto intro: wg_keeps_return)
  show "wg_keeps (keys_rule params) (keys_ready params)
      (wg_call (ActEstablish (ww_establish w)) (\<lambda>_. if ww_establish w = Inr True then Inr () else Inl (StopMsg PingErr)))
      (\<lambda>_. tunnel_works params)"
  proof (cases "ww_establish w = Inr True")
    case True
    then show ?thesis
      by (intro stable_call) (auto simp: keys_rule_def opens_traffic_def adds_default_route_def tunnel_works_def keys_ready_append)
  next
    case False
    then show ?thesis by (auto simp: wg_keeps_def wg_call_def keys_rule_def opens_traffic_def adds_default_route_def)
  qed
  show "wg_keeps (keys_rule params) (tunnel_works params) (wg_call (ActAddRoutes rs) answer) (\<lambda>_. tunnel_works params)"
    for rs and answer :: "nat \<Rightarrow> wg_stop + unit"
    by (rule stable_call) (auto simp: keys_rule_def opens_traffic_def tunnel_works_def keys_ready_append)
  show "wg_keeps (keys_rule params) (tunnel_works params) (wg_call (ActEvent (Up m)) answer) (\<lambda>_. tunnel_works params)"
    for m and answer :: "nat \<Rightarrow> wg_stop + unit"
    by (rule stable_call) (auto simp: keys_rule_def tunnel_works_def keys_ready_append adds_default_route_def)
  show "wg_keeps (keys_rule params) (tunnel_works params) (wg_call ActMonitor answer) (\<lambda>_ _. True)"
    for answer :: "nat \<Rightarrow> wg_stop + unit"
    by (rule stable_call) (auto simp: keys_rule_def opens_traffic_def adds_default_route_def)
qed

lemma open_tunnel_keeps:
  "wg_keeps (keys_rule params) P (open_tunnel w config userspace) (\<lambda>_. tunnel_opened config)"
proof -
  have opened: "wg_keeps (keys_rule params) P' (wg_call (ActOpenTunnel impl config) answer) (\<lambda>_. tunnel_opened config)"
    for P' impl and answer :: "nat \<Rightarrow> wg_stop + 'x"
    by (rule stable_call) (auto simp: keys_rule_def opens_traffic_def adds_default_route_def tunnel_opened_def last_config_append)
  show ?thesis
    unfolding open_tunnel_def Let_def
    by (auto intro!: opened wg_keeps_bind [OF opened] wg_keeps_return)
qed

lemma tunnel_fut_keeps:
  assumes "\<And>n. ww_tunnel_exists w n" and "flags_of params config"
  shows "wg_keeps (keys_rule params) (tunnel_opened config) (tunnel_fut w d config mtu obfs u) (\<lambda>_ _. True)"
  unfolding tunnel_fut_def
  by (intro wg_keeps_bind [OF tunnel_prepare_keeps [OF assms(2)]] wg_keeps_bind [OF tunnel_negotiate_keeps [OF assms]]
      tunnel_bring_up_keeps [OF assms(1)])

lemma wg_start_keeps:
  assumes "\<And>n. ww_tunnel_exists w n"
  shows "wg_keeps (keys_rule params) (\<lambda>_. True) (wg_start w force get_mtu params) (\<lambda>_ _. True)"
proof (cases "config_from_parameters params (calculate_tunnel_mtu (get_route_mtu get_mtu params) params
    (force \<or> use_userspace_wg params \<or> (case tp_obfuscation params of None \<Rightarrow> False | Some o' \<Rightarrow> is_single_lwo o')))")
  case (Inl e)
  then show ?thesis by (simp add: wg_start_def wg_keeps_fail)
next
  case (Inr config)
  have rest: "wg_keeps (keys_rule params) ((\<lambda>(c, _) _. \<exists>e. c = config\<lparr>cfg_entry_peer := (cfg_entry_peer config)\<lparr>pc_endpoint := e\<rparr>\<rparr>) x)
      (case x of (c, obfs) \<Rightarrow> wg_bind (open_tunnel w (f obfs c) u)
         (\<lambda>_. if \<not> ww_ping_ok w then wg_fail (StopError ConnectivityMonitorError) else tunnel_fut w d (f obfs c) mtu obfs u)) (\<lambda>_ _. True)"
    if "\<And>obfs c. flags_of params c \<Longrightarrow> flags_of params (f obfs c)" for x f d mtu u
  proof (cases x)
    case (Pair c obfs)
    show ?thesis
      unfolding Pair prod.case
    proof (rule wg_keeps_pure)
      assume "\<exists>e. c = config\<lparr>cfg_entry_peer := (cfg_entry_peer config)\<lparr>pc_endpoint := e\<rparr>\<rparr>"
      then have "flags_of params c" using config_flags [OF Inr] by (auto simp: flags_of_def)
      then show "wg_keeps (keys_rule params) (\<lambda>_. True) (wg_bind (open_tunnel w (f obfs c) u)
         (\<lambda>_. if \<not> ww_ping_ok w then wg_fail (StopError ConnectivityMonitorError) else tunnel_fut w d (f obfs c) mtu obfs u)) (\<lambda>_ _. True)"
        using that by (intro wg_keeps_bind [OF open_tunnel_keeps]) (auto intro: wg_keeps_fail tunnel_fut_keeps [OF assms])
    qed
  qed
  show ?thesis
    unfolding wg_start_def Let_def Inr sum.case
    by (rule wg_keeps_bind [OF apply_obfuscation_keeps], rule rest [where f = "\<lambda>obfs c.
        case (to_mtu (tp_options params), obfs) of
          (None, Some packet_overhead) \<Rightarrow> c\<lparr>cfg_mtu := clamp_tunnel_mtu params (saturating_sub_u16 (cfg_mtu c) packet_overhead)\<rparr>
        | _ \<Rightarrow> c"])
      (auto simp: flags_of_def split: option.split)
qed


definition ex_wg_peer :: peer_config where
  "ex_wg_peer = \<lparr>pc_public_key = [7], pc_allowed_ips = [NetV4 0 0], pc_endpoint = SockV4 (ipv4_new 193 138 218 1) 51820, pc_psk = None,
     pc_constant_packet_size = False\<rparr>"

definition ex_wg_params :: tunnel_parameters where
  "ex_wg_params = \<lparr>tp_connection = \<lparr>cc_tunnel = \<lparr>tc_private_key = [1], tc_addresses = [IpV4 (ipv4_new 10 1 2 3)]\<rparr>, cc_peer = ex_wg_peer,
       cc_exit_peer = None, cc_ipv4_gateway = ipv4_new 10 64 0 1, cc_ipv6_gateway = None, cc_fwmark = None\<rparr>,
     tp_options = \<lparr>to_mtu = None, to_quantum_resistant = True, to_daita = False, to_userspace = False\<rparr>,
     tp_generic_options = \<lparr>enable_ipv6 = False\<rparr>, tp_obfuscation = None\<rparr>"

definition ex_wg_world :: wg_world where
  "ex_wg_world = \<lparr>ww_public_key = id, ww_ephemeral_private_key = [2], ww_ml_kem = (\<lambda>c. Some (replicate 32 3)), ww_hqc = (\<lambda>c. Some (replicate 32 5)),
     ww_machine_ok = (\<lambda>_. True), ww_rpc = (\<lambda>_. RpcResponse \<lparr>pr_ciphertexts = Some [[1], [2]], pr_daita = None\<rparr>),
     ww_obfuscator = (\<lambda>_. None), ww_open = (\<lambda>_. None), ww_nm_manages_dns = False, ww_iface = ''wg0-mullvad'', ww_ping_ok = True,
     ww_route = (\<lambda>_. None), ww_tunnel_exists = (\<lambda>_. True), ww_set_config = (\<lambda>_. None), ww_establish = Inr True\<rparr>"

lemmas ex_wg_defs = wg_start_def Let_def ex_wg_params_def ex_wg_world_def ex_wg_peer_def config_from_parameters_def config_new_def cfg_peers_def
  retain_peer_ips_def use_userspace_wg_def apply_obfuscation_config_def wg_bind_def wg_return_def wg_call_def wg_event_def fails_with_def open_tunnel_def
  tunnel_fut_def tunnel_prepare_def tunnel_negotiate_def tunnel_bring_up_def add_routes_def config_ephemeral_peers_def is_multihop_def
  request_ephemeral_peer_def peer_from_response_def reconfigure_tunnel_def with_ephemeral_keys_def exit_peer_update_def

lemma ex_wg_run:
  "\<exists>r pre m post. wg_start ex_wg_world False (\<lambda>_. Some 1500) ex_wg_params [] = (r, pre @ ActEvent (Up m) # post)"
proof -
  obtain r l where run: "wg_start ex_wg_world False (\<lambda>_. Some 1500) ex_wg_params [] = (r, l)" by fastforce
  then have "10 < length l \<and> (\<exists>m. l ! 10 = ActEvent (Up m))" by (auto simp: ex_wg_defs)
  then show ?thesis using run id_take_nth_drop [of 10 l] by metis
qed


section \<open>How a tunnel ends\<close>

text \<open>The ways in which a computation can stop.\<close>

definition wg_stops :: "wg_stop set \<Rightarrow> 'a wg_m \<Rightarrow> bool" where
  "wg_stops S m = (\<forall>l e l'. m l = (Inl e, l') \<longrightarrow> e \<in> S)"

lemma wg_stops_bind [intro]: "wg_stops S m \<Longrightarrow> (\<And>x. wg_stops S (f x)) \<Longrightarrow> wg_stops S (wg_bind m f)"
  by (fastforce simp: wg_stops_def wg_bind_def split: prod.splits sum.splits)

lemma wg_stops_return [intro]: "wg_stops S (wg_return x)"
  by (simp add: wg_stops_def wg_return_def)

lemma wg_stops_fail: "e \<in> S \<Longrightarrow> wg_stops S (wg_fail e)"
  by (simp add: wg_stops_def wg_fail_def)

lemma wg_stops_call: "(\<And>n e. answer n = Inl e \<Longrightarrow> e \<in> S) \<Longrightarrow> wg_stops S (wg_call a answer)"
  by (auto simp: wg_stops_def wg_call_def)

lemma wg_stops_event [intro]: "wg_stops S (wg_event e)"
  unfolding wg_event_def by (rule wg_stops_call) simp

lemma wg_stops_fails_with: "(\<And>e. f e \<in> S) \<Longrightarrow> wg_stops S (wg_call a (fails_with f answer))"
  by (rule wg_stops_call) (auto simp: fails_with_def split: option.splits)

lemma wg_stops_if_exists: "wg_stops S m \<Longrightarrow> wg_stops S m' \<Longrightarrow> wg_stops S (\<lambda>l. if P (length l) then m l else m' l)"
  by (auto simp: wg_stops_def)

text \<open>What a tunnel that has been opened can stop with.\<close>

definition running_stops :: "wg_stop set" where
  "running_stops = {StopPanic, StopMsg PingErr, StopMsg EphemeralPeerNegotiationTimeout, StopMsg (SetupError EphemeralPeerNegotiationError),
     StopMsg (ObfuscatorFailed ObfuscationError)} \<union> range (\<lambda>e. StopMsg (SetupError (SetupRoutingError e))) \<union>
     range (\<lambda>e. StopMsg (SetupError (TunnelError e)))"

lemma apply_obfuscation_stops:
  "StopPanic \<in> S \<Longrightarrow> err ObfuscationError \<in> S \<Longrightarrow> wg_stops S (apply_obfuscation_config w config mtu gotatun err)"
  unfolding apply_obfuscation_config_def
  by (auto intro!: wg_stops_bind wg_stops_return wg_stops_fail wg_stops_call split: option.splits prod.split)

lemma reconfigure_stops: "wg_stops running_stops (reconfigure_tunnel w config daita mtu obfuscator gotatun)"
  unfolding reconfigure_tunnel_def
  by (auto intro!: wg_stops_bind wg_stops_return apply_obfuscation_stops wg_stops_if_exists wg_stops_fails_with
      simp: running_stops_def split: option.split)

lemma request_stops: "wg_stops running_stops (request_ephemeral_peer w config key pq daita)"
  unfolding request_ephemeral_peer_def
  by (auto intro!: wg_stops_call simp: running_stops_def of_option_def split: rpc_result.splits option.splits)

lemma ephemeral_stops: "wg_stops running_stops (config_ephemeral_peers w config mtu obfuscator gotatun)"
  unfolding config_ephemeral_peers_def negotiate_entry_def Let_def
  by (auto intro!: wg_stops_bind wg_stops_return reconfigure_stops request_stops split: prod.split)

lemma add_routes_stops: "wg_stops running_stops (add_routes w routes)"
  unfolding add_routes_def by (rule wg_stops_fails_with) (simp add: running_stops_def)

lemma tunnel_prepare_stops: "wg_stops running_stops (tunnel_prepare w config userspace)"
  unfolding tunnel_prepare_def by (intro wg_stops_bind wg_stops_event add_routes_stops wg_stops_fails_with) (simp add: running_stops_def)

lemma tunnel_negotiate_stops: "wg_stops running_stops (tunnel_negotiate w config mtu obfuscator userspace)"
  unfolding tunnel_negotiate_def by (auto intro!: wg_stops_bind wg_stops_event wg_stops_return ephemeral_stops split: prod.split)

lemma establish_stops:
  "wg_stops running_stops (wg_call (ActEstablish r) (\<lambda>_. if ok then Inr () else Inl (StopMsg PingErr)))"
  "wg_stops running_stops (wg_call ActMonitor (\<lambda>_. Inl (StopMsg PingErr)))"
  by (rule wg_stops_call, simp add: running_stops_def split: if_splits)+

lemma tunnel_bring_up_stops: "wg_stops running_stops (tunnel_bring_up w detect config userspace)"
proof -
  have "wg_stops running_stops (wg_call (ActDetectMtu m) (\<lambda>_. Inr ()))" for m by (rule wg_stops_call) simp
  moreover have "StopPanic \<in> running_stops" by (simp add: running_stops_def)
  ultimately show ?thesis
    unfolding tunnel_bring_up_def
    by (intro wg_stops_bind wg_stops_event wg_stops_if_exists wg_stops_fail add_routes_stops establish_stops)
      (auto intro: wg_stops_return)
qed

lemma tunnel_fut_stops: "wg_stops running_stops (tunnel_fut w detect config mtu obfuscator userspace)"
  unfolding tunnel_fut_def by (intro wg_stops_bind tunnel_prepare_stops tunnel_negotiate_stops tunnel_bring_up_stops)

lemma wg_stops_mono: "wg_stops S m \<Longrightarrow> S \<subseteq> S' \<Longrightarrow> wg_stops S' m"
  by (auto simp: wg_stops_def)

lemma open_tunnel_stops: "wg_stops (range StopError) (open_tunnel w config userspace)"
proof -
  have gotatun: "wg_stops (range StopError) (wg_call a (fails_with (StopError \<circ> TunnelError) answer))" for a answer
    by (rule wg_stops_fails_with) simp
  have "wg_stops (range StopError) (wg_call a (\<lambda>n. Inr (ok n)))" for a and ok :: "nat \<Rightarrow> bool" by (rule wg_stops_call) simp
  with gotatun show ?thesis unfolding open_tunnel_def Let_def by (auto intro!: wg_stops_bind wg_stops_return)
qed

lemma wg_start_stops: "wg_stops (range StopError \<union> running_stops) (wg_start w force get_mtu params)"
proof -
  have "wg_stops (range StopError \<union> running_stops) (tunnel_fut w detect config mtu obfuscator userspace)"
    "wg_stops (range StopError \<union> running_stops) (open_tunnel w config userspace)"
    "wg_stops (range StopError \<union> running_stops) (apply_obfuscation_config w config mtu userspace StopError)" for detect config mtu obfuscator userspace
    by (rule wg_stops_mono [OF tunnel_fut_stops] wg_stops_mono [OF open_tunnel_stops] apply_obfuscation_stops, auto simp: running_stops_def)+
  then show ?thesis
    unfolding wg_start_def Let_def by (auto intro!: wg_stops_bind wg_stops_fail split: sum.split prod.split)
qed

text \<open>
  A tunnel that has been opened ends with a message. Waiting for it stops the pings, reports that the tunnel is down and then stops it, in that
  order. The tunnel state machine enters the error state only when routes could not be set up or the configuration could not be applied;
  after a lost connection, a failed negotiation of keys or a failed obfuscator it connects again.
\<close>

theorem tunnel_end_reported:
  assumes "wg_start w force get_mtu params [] = (Inl (StopMsg m), l)" and "\<And>n. ww_tunnel_exists w n"
    and "ensure_ipv6_can_be_used_if_enabled disable_ipv6 params = Inr ()" and "wg_wait w (Some m) l = (waited, l')"
  shows "l' = l @ [ActClosePinger, ActEvent Down, ActStopTunnel] \<and> (\<exists>e. waited = Inl e) \<and>
    (tunnel_thread disable_ipv6 params (Inr waited) retry_attempt \<noteq> None \<longrightarrow>
       (\<exists>e. m = SetupError (SetupRoutingError e)) \<or> (\<exists>e. m = SetupError (TunnelError e) \<and> e \<noteq> RecoverableStartWireguardError))"
proof -
  have "StopMsg m \<in> running_stops" using wg_start_stops [of w force get_mtu params] assms(1) by (auto simp: wg_stops_def)
  then show ?thesis using assms(2-)
    by (auto simp: monitor_start_def running_stops_def wg_wait_def stop_tunnel_def wait_result_def tunnel_thread_def wait_for_tunnel_monitor_def should_retry_def)
qed

lemma ex_wg_end: "\<exists>l. wg_start ex_wg_world False (\<lambda>_. Some 1500) ex_wg_params [] = (Inl (StopMsg PingErr), l)"
  by (simp add: ex_wg_defs)

theorem tunnel_end_reported_witness:
  "\<exists>l. wg_start ex_wg_world False (\<lambda>_. Some 1500) ex_wg_params [] = (Inl (StopMsg PingErr), l) \<and>
     snd (wg_wait ex_wg_world (Some PingErr) l) = l @ [ActClosePinger, ActEvent Down, ActStopTunnel]"
proof -
  obtain l where run: "wg_start ex_wg_world False (\<lambda>_. Some 1500) ex_wg_params [] = (Inl (StopMsg PingErr), l)" using ex_wg_end by blast
  obtain waited l' where wait: "wg_wait ex_wg_world (Some PingErr) l = (waited, l')" by fastforce
  have "ensure_ipv6_can_be_used_if_enabled None ex_wg_params = Inr ()"
    by (simp add: ensure_ipv6_can_be_used_if_enabled_def ex_wg_params_def)
  then show ?thesis using tunnel_end_reported [OF run _ _ wait] run wait by (auto simp: ex_wg_world_def)
qed

end
