(* ===== verification/Wg_Mtu_Properties.thy ===== *)
theory Wg_Mtu_Properties
  imports Wg_Run
begin

text \<open>
  The MTU of a WireGuard tunnel: what is computed from the link always lies within the limits and leaves room for the headers,
  the packet sizes that are probed are dense, and the correction only ever lowers the MTU to a size that was seen to get through.
\<close>

section \<open>The computed MTU\<close>

lemmas mtu_consts = IPV4_HEADER_SIZE_def IPV6_HEADER_SIZE_def WIREGUARD_HEADER_SIZE_def MIN_IPV4_MTU_def MIN_IPV6_MTU_def MTU_SAFETY_MARGIN_def
  MTU_STEP_SIZE_def

lemma wireguard_overhead_cases: "wireguard_overhead ip = 60 \<or> wireguard_overhead ip = 80"
  by (cases ip) (simp_all add: mtu_consts)

lemma mtu_overhead_cases: "mtu_overhead params us \<in> {60, 80, 120, 140, 160}"
  using wireguard_overhead_cases [of "sock_ip (pc_endpoint (cc_peer (tp_connection params)))"]
    wireguard_overhead_cases [of "sock_ip (pc_endpoint (the (cc_exit_peer (tp_connection params))))"]
  by (auto simp: mtu_overhead_def split: option.split bool.split)

lemma max_peer_mtu_cases: "max_peer_mtu params = 1380 \<or> max_peer_mtu params = 1360"
  using wireguard_overhead_cases [of "sock_ip (pc_endpoint (cc_peer (tp_connection params)))"] by (auto simp: max_peer_mtu_def mtu_consts)

lemma min_mtu_cases: "min_mtu params = 576 \<or> min_mtu params = 1280"
  by (simp add: min_mtu_def mtu_consts)

lemma unat_clamp_u16: "unat (clamp_u16 lo hi x) = (if unat x < unat lo then unat lo else if unat hi < unat x then unat hi else unat x)"
  by (simp add: clamp_u16_def word_less_nat_alt)

lemma unat_saturating_sub_u16: "unat (saturating_sub_u16 a b) = unat a - unat b"
  by (auto simp: saturating_sub_u16_def word_less_nat_alt unat_sub_if')

lemma clamp_tunnel_mtu_bounds:
  "unat (min_mtu params) \<le> unat (clamp_tunnel_mtu params x)" "unat (clamp_tunnel_mtu params x) \<le> 1380"
  "unat (clamp_tunnel_mtu params x) \<le> max (unat (min_mtu params)) (unat x)"
  using max_peer_mtu_cases [of params] min_mtu_cases [of params] by (auto simp: clamp_tunnel_mtu_def unat_clamp_u16)

section \<open>The configuration a tunnel is opened with\<close>

text \<open>Computations that extend the log and open no tunnel.\<close>

definition opens_none :: "'a wg_m \<Rightarrow> bool" where
  "opens_none m \<longleftrightarrow> (\<forall>l. \<exists>k. snd (m l) = l @ k \<and> (\<forall>impl c. ActOpenTunnel impl c \<notin> set k))"

lemma opens_none_bind [intro]: "opens_none m \<Longrightarrow> (\<And>x. opens_none (f x)) \<Longrightarrow> opens_none (wg_bind m f)"
  unfolding opens_none_def
proof
  fix l
  assume m: "\<forall>l. \<exists>k. snd (m l) = l @ k \<and> (\<forall>impl c. ActOpenTunnel impl c \<notin> set k)"
    and f: "\<And>x. \<forall>l. \<exists>k. snd (f x l) = l @ k \<and> (\<forall>impl c. ActOpenTunnel impl c \<notin> set k)"
  obtain k where k: "snd (m l) = l @ k" "\<forall>impl c. ActOpenTunnel impl c \<notin> set k" using m by blast
  show "\<exists>k. snd (wg_bind m f l) = l @ k \<and> (\<forall>impl c. ActOpenTunnel impl c \<notin> set k)"
  proof (cases "fst (m l)")
    case (Inl e)
    with k show ?thesis by (cases "m l") (auto simp: wg_bind_def)
  next
    case (Inr x)
    obtain k' where "snd (f x (l @ k)) = (l @ k) @ k'" "\<forall>impl c. ActOpenTunnel impl c \<notin> set k'" using f by blast
    with Inr k show ?thesis by (cases "m l") (auto simp: wg_bind_def intro!: exI [of _ "k @ k'"])
  qed
qed

lemma opens_none_simps [intro]:
  "opens_none (wg_return x)" "opens_none (wg_fail e)" "opens_none (wg_event ev)"
  by (auto simp: opens_none_def wg_return_def wg_fail_def wg_event_def wg_call_def)

lemma opens_none_call [intro]: "(\<And>impl c. a \<noteq> ActOpenTunnel impl c) \<Longrightarrow> opens_none (wg_call a answer)"
  by (auto simp: opens_none_def wg_call_def)

lemma opens_none_if_exists [intro]: "opens_none m \<Longrightarrow> opens_none m' \<Longrightarrow> opens_none (\<lambda>l. if P (length l) then m l else m' l)"
  by (auto simp: opens_none_def)

lemma opens_none_if [intro]: "opens_none m \<Longrightarrow> opens_none m' \<Longrightarrow> opens_none (if b then m else m')"
  by simp

lemma tunnel_fut_opens_none: "opens_none (tunnel_fut w detect config mtu obfuscator us)"
proof -
  have obfs: "opens_none (apply_obfuscation_config w config mtu us err)" for config us err
    by (auto simp: apply_obfuscation_config_def split: option.split prod.split)
  have reconf: "opens_none (reconfigure_tunnel w config daita mtu obfuscator us)" for config daita obfuscator us
    unfolding reconfigure_tunnel_def case_prod_beta
    by (intro opens_none_bind opens_none_if_exists opens_none_call opens_none_simps) (auto simp: obfs split: option.split)
  have request: "opens_none (request_ephemeral_peer w config key pq daita)" for config key pq daita
    by (auto simp: request_ephemeral_peer_def)
  have "opens_none (tunnel_negotiate w config mtu obfuscator us)"
    unfolding tunnel_negotiate_def config_ephemeral_peers_def negotiate_entry_def Let_def case_prod_beta
    by (auto intro!: opens_none_bind reconf request)
  moreover have "opens_none (tunnel_prepare w config us)" "opens_none (tunnel_bring_up w detect config' us)" for config'
    unfolding tunnel_prepare_def tunnel_bring_up_def add_routes_def
    by (intro opens_none_bind opens_none_if_exists opens_none_if opens_none_call opens_none_simps; simp)+
  ultimately show ?thesis by (auto simp: tunnel_fut_def)
qed

text \<open>The userspace implementation is asked for, forced, or needed for LWO.\<close>

definition in_userspace :: "bool \<Rightarrow> tunnel_parameters \<Rightarrow> bool" where
  "in_userspace force params \<longleftrightarrow>
     force \<or> use_userspace_wg params \<or> (case tp_obfuscation params of None \<Rightarrow> False | Some o' \<Rightarrow> is_single_lwo o')"

text \<open>The packet overhead that the obfuscator reported, if one was created before the tunnel was opened.\<close>

definition obfuscator_overhead :: "wg_world \<Rightarrow> wg_log \<Rightarrow> nat" where
  "obfuscator_overhead w l =
     (case l of
        ActCreateObfuscator settings # rest \<Rightarrow> (case ww_obfuscator w 0 of Some (endpoint, n) \<Rightarrow> unat n | None \<Rightarrow> 0)
      | _ \<Rightarrow> 0)"

lemma open_tunnel_log:
  "\<exists>k. snd (open_tunnel w config us l) = l @ k \<and> (\<forall>impl c. ActOpenTunnel impl c \<in> set k \<longrightarrow> c = config) \<and>
     (\<exists>a k'. k = a # k' \<and> (\<forall>s. a \<noteq> ActCreateObfuscator s))"
  by (auto simp: open_tunnel_def wg_call_def wg_bind_def wg_return_def fails_with_def Let_def split: prod.splits sum.splits option.splits)

lemma opened_log:
  assumes "wg_bind (open_tunnel w config us) (\<lambda>_. if ok then wg_fail e else tunnel_fut w d config mtu obfs us) l = (r, l')"
  shows "\<exists>a k. l' = l @ a # k \<and> (\<forall>s. a \<noteq> ActCreateObfuscator s) \<and>
    (\<forall>impl c. ActOpenTunnel impl c \<in> set l' \<longrightarrow> ActOpenTunnel impl c \<in> set l \<or> c = config)"
proof -
  obtain a k where k: "snd (open_tunnel w config us l) = l @ a # k" "\<forall>s. a \<noteq> ActCreateObfuscator s"
    "\<forall>impl c. ActOpenTunnel impl c \<in> set (a # k) \<longrightarrow> c = config"
    using open_tunnel_log [of w config us l] by auto
  obtain k' where k': "snd (tunnel_fut w d config mtu obfs us (l @ a # k)) = (l @ a # k) @ k'"
    "\<forall>impl c. ActOpenTunnel impl c \<notin> set k'"
    using tunnel_fut_opens_none [of w d config mtu obfs us] unfolding opens_none_def by blast
  have "l' = l @ a # k \<or> l' = (l @ a # k) @ k'"
    using assms k(1) k'(1)
    by (cases "open_tunnel w config us l") (auto simp: wg_bind_def wg_fail_def split: sum.splits if_splits)
  with k k' show ?thesis by auto
qed

lemma opened_config:
  assumes "to_mtu (tp_options params) = None" and "wg_start w force get_mtu params [] = (r, l)" and "ActOpenTunnel impl config \<in> set l"
  obtains mtu where "mtu = calculate_tunnel_mtu (get_route_mtu get_mtu params) params (in_userspace force params)"
    and "cfg_exit_peer config = None \<longleftrightarrow> cc_exit_peer (tp_connection params) = None"
    and "cfg_mtu config = mtu \<and> obfuscator_overhead w l = 0 \<or>
      (\<exists>n. cfg_mtu config = clamp_tunnel_mtu params (saturating_sub_u16 mtu n) \<and> obfuscator_overhead w l = unat n)"
proof -
  define us link mtu where "us = in_userspace force params" and "link = get_route_mtu get_mtu params"
    and "mtu = calculate_tunnel_mtu link params us"
  note fold = us_def [unfolded in_userspace_def, symmetric] link_def [symmetric] mtu_def [symmetric]
  obtain c where c: "config_from_parameters params mtu = Inr c"
    using assms(2,3) by (auto simp: wg_start_def Let_def fold wg_fail_def split: sum.splits)
  have cm: "cfg_mtu c = mtu" "cfg_exit_peer c = None \<longleftrightarrow> cc_exit_peer (tp_connection params) = None"
    using c assms(1) by (auto simp: config_from_parameters_def config_new_def Let_def split: if_splits option.splits)
  obtain r0 l0 where o: "apply_obfuscation_config w c link us StopError [] = (r0, l0)" by fastforce
  have stop: "ActOpenTunnel impl config \<notin> set l0"
    using o by (auto simp: apply_obfuscation_config_def wg_return_def wg_fail_def wg_bind_def wg_call_def
        split: option.splits if_splits sum.splits prod.splits)
  with assms(2,3) c o obtain c1 ob where r0: "r0 = Inr (c1, ob)"
    by (cases r0) (auto simp: wg_start_def Let_def fold wg_bind_def)
  define c2 where "c2 = (case (to_mtu (tp_options params), ob) of
      (None, Some n) \<Rightarrow> c1\<lparr>cfg_mtu := clamp_tunnel_mtu params (saturating_sub_u16 (cfg_mtu c1) n)\<rparr> | _ \<Rightarrow> c1)"
  have "wg_bind (open_tunnel w c2 us) (\<lambda>_. if \<not> ww_ping_ok w then wg_fail (StopError ConnectivityMonitorError)
      else tunnel_fut w (to_mtu (tp_options params) = None) c2 link ob us) l0 = (r, l)"
    using assms(1,2) c [unfolded mtu_def link_def us_def in_userspace_def] o [unfolded link_def us_def in_userspace_def] r0
    by (cases "ww_ping_ok w") (simp_all add: wg_start_def Let_def wg_bind_def [of "apply_obfuscation_config w c m u e" for m u e]
        c2_def us_def link_def in_userspace_def)
  from opened_log [OF this] assms(3) stop obtain a k where l: "l = l0 @ a # k" "\<forall>s. a \<noteq> ActCreateObfuscator s" "config = c2"
    by blast
  have "(\<exists>e. c1 = c\<lparr>cfg_entry_peer := (cfg_entry_peer c)\<lparr>pc_endpoint := e\<rparr>\<rparr>) \<and>
      (ob = None \<and> l0 = [] \<or> (\<exists>s e n. l0 = [ActCreateObfuscator s] \<and> ww_obfuscator w 0 = Some (e, n) \<and> ob = Some n))"
    using o r0 by (auto simp: apply_obfuscation_config_def wg_return_def wg_fail_def wg_bind_def wg_call_def
        intro: exI [of _ "pc_endpoint (cfg_entry_peer c)"]
        split: option.splits if_splits sum.splits prod.splits)
  with l cm assms(1) show thesis
    by (intro that [of mtu]) (auto simp: mtu_def link_def us_def c2_def obfuscator_overhead_def split: list.splits wg_action.splits)
qed

section \<open>Packets on the wire\<close>

text \<open>
  The size of a packet that WireGuard sends to an endpoint, for a packet of \<open>n\<close> bytes that it carries: a data message has 16 bytes
  before the payload (type, receiver, counter) and an authentication tag of 16 bytes after it, and goes into a UDP datagram (8 bytes)
  in an IPv4 packet (20 bytes) or an IPv6 packet (40 bytes).
\<close>

definition carried :: "ip_addr \<Rightarrow> nat \<Rightarrow> nat" where
  "carried endpoint n = (case endpoint of IpV4 _ \<Rightarrow> 20 | IpV6 _ \<Rightarrow> 40) + 8 + (16 + n + 16)"

text \<open>With two hops a packet is sent to the exit inside one to the entry; the obfuscator adds its overhead.\<close>

definition wire_size :: "tunnel_parameters \<Rightarrow> nat \<Rightarrow> nat \<Rightarrow> nat" where
  "wire_size params obfuscation n =
     carried (sock_ip (pc_endpoint (cc_peer (tp_connection params))))
       (case cc_exit_peer (tp_connection params) of
          None \<Rightarrow> n
        | Some p \<Rightarrow> carried (sock_ip (pc_endpoint p)) n) + obfuscation"

text \<open>The largest packet on a route through the tunnel.\<close>

definition route_size :: "wg_config \<Rightarrow> required_route \<Rightarrow> nat" where
  "route_size config r = (case rr_mtu r of None \<Rightarrow> unat (cfg_mtu config) | Some m \<Rightarrow> unat m)"

lemma carried_add: "carried ip n = n + unat (wireguard_overhead ip)"
  by (cases ip) (simp_all add: carried_def mtu_consts)

lemma mtu_overhead_unat:
  "unat (mtu_overhead params us) = unat (wireguard_overhead (sock_ip (pc_endpoint (cc_peer (tp_connection params))))) +
     (case cc_exit_peer (tp_connection params) of
        Some p \<Rightarrow> if us then unat (wireguard_overhead (sock_ip (pc_endpoint p))) else 0 | None \<Rightarrow> 0)"
  using wireguard_overhead_cases [of "sock_ip (pc_endpoint (cc_peer (tp_connection params)))"]
    wireguard_overhead_cases [of "sock_ip (pc_endpoint (the (cc_exit_peer (tp_connection params))))"]
  by (auto simp: mtu_overhead_def split: option.split bool.split)

lemma opened_mtu_bounds:
  assumes "to_mtu (tp_options params) = None" and "wg_start w force get_mtu params [] = (r, l)" and "ActOpenTunnel impl config \<in> set l"
  shows "unat (min_mtu params) \<le> unat (cfg_mtu config)" and "unat (cfg_mtu config) \<le> 1380"
    and "unat (min_mtu params) + unat (mtu_overhead params (in_userspace force params)) + obfuscator_overhead w l
           \<le> unat (get_route_mtu get_mtu params) \<Longrightarrow>
         unat (cfg_mtu config) + unat (mtu_overhead params (in_userspace force params)) + obfuscator_overhead w l
           \<le> unat (get_route_mtu get_mtu params)"
    and "cfg_exit_peer config = None \<longleftrightarrow> cc_exit_peer (tp_connection params) = None"
proof -
  let ?us = "in_userspace force params" and ?link = "get_route_mtu get_mtu params"
  obtain mtu where mtu: "mtu = calculate_tunnel_mtu ?link params ?us"
    and exit: "cfg_exit_peer config = None \<longleftrightarrow> cc_exit_peer (tp_connection params) = None"
    and cfg: "cfg_mtu config = mtu \<and> obfuscator_overhead w l = 0 \<or>
      (\<exists>n. cfg_mtu config = clamp_tunnel_mtu params (saturating_sub_u16 mtu n) \<and> obfuscator_overhead w l = unat n)"
    using opened_config [OF assms] by blast
  have m: "mtu = clamp_tunnel_mtu params (saturating_sub_u16 ?link (mtu_overhead params ?us))"
    using assms(1) mtu by (simp add: calculate_tunnel_mtu_def)
  note b = clamp_tunnel_mtu_bounds [of params "saturating_sub_u16 ?link (mtu_overhead params ?us)", folded m]
  note b' = clamp_tunnel_mtu_bounds [of params "saturating_sub_u16 mtu n" for n]
  show "unat (min_mtu params) \<le> unat (cfg_mtu config)" "unat (cfg_mtu config) \<le> 1380" using cfg b b' by auto
  show "cfg_exit_peer config = None \<longleftrightarrow> cc_exit_peer (tp_connection params) = None" by (rule exit)
  assume "unat (min_mtu params) + unat (mtu_overhead params ?us) + obfuscator_overhead w l \<le> unat ?link"
  then show "unat (cfg_mtu config) + unat (mtu_overhead params ?us) + obfuscator_overhead w l \<le> unat ?link"
    using cfg
  proof (elim disjE exE conjE)
    fix n
    assume n: "cfg_mtu config = clamp_tunnel_mtu params (saturating_sub_u16 mtu n)" "obfuscator_overhead w l = unat n"
      and room: "unat (min_mtu params) + unat (mtu_overhead params ?us) + obfuscator_overhead w l \<le> unat ?link"
    have "unat (cfg_mtu config) \<le> max (unat (min_mtu params)) (unat mtu - unat n)"
      using b'(3) [of n] n(1) by (simp only: unat_saturating_sub_u16)
    moreover have "unat mtu \<le> max (unat (min_mtu params)) (unat ?link - unat (mtu_overhead params ?us))"
      using b(3) by (simp only: unat_saturating_sub_u16)
    ultimately show ?thesis using room n(2) by linarith
  qed (use b(3) in \<open>auto simp: unat_saturating_sub_u16\<close>)
qed

text \<open>
  C23. The MTU of a tunnel fits its link. When the user has set no MTU, every configuration a tunnel is opened with has an MTU between
  576 and 1380, and at least 1280 with IPv6. Take a default route of that configuration, and an exit (with two hops) that is reached
  over IPv4. If a packet of the smallest MTU, with the headers of WireGuard, UDP and IP for every hop and the overhead that the
  obfuscator has reported, fits the link towards the entry, then so does the largest packet of that route.
\<close>

theorem tunnel_mtu_fits:
  assumes "to_mtu (tp_options params) = None" and "wg_start w force get_mtu params [] = (r, l)" and "ActOpenTunnel impl config \<in> set l"
    and "\<And>p. cc_exit_peer (tp_connection params) = Some p \<Longrightarrow> is_ipv4 (sock_ip (pc_endpoint p))"
    and "route \<in> set (get_post_tunnel_routes iface config (in_userspace force params))"
  shows "(if enable_ipv6 (tp_generic_options params) then 1280 else 576) \<le> unat (cfg_mtu config) \<and> unat (cfg_mtu config) \<le> 1380 \<and>
    (wire_size params (obfuscator_overhead w l) (if enable_ipv6 (tp_generic_options params) then 1280 else 576)
       \<le> unat (get_route_mtu get_mtu params) \<longrightarrow>
     wire_size params (obfuscator_overhead w l) (route_size config route) \<le> unat (get_route_mtu get_mtu params))"
proof -
  let ?us = "in_userspace force params" and ?link = "get_route_mtu get_mtu params"
  note b = opened_mtu_bounds [OF assms(1-3)]
  have lim: "(if enable_ipv6 (tp_generic_options params) then 1280 else 576) = unat (min_mtu params)"
    by (simp add: min_mtu_def mtu_consts)
  have "wire_size params ob n = n + unat (mtu_overhead params ?us) + ob + (case cc_exit_peer (tp_connection params) of
      Some p \<Rightarrow> if ?us then 0 else unat (wireguard_overhead (sock_ip (pc_endpoint p))) | None \<Rightarrow> 0)" for ob n
    by (simp add: wire_size_def carried_add mtu_overhead_unat split: option.split)
  note sizes = this
  have "route_size config route + (case cc_exit_peer (tp_connection params) of
      Some p \<Rightarrow> if ?us then 0 else unat (wireguard_overhead (sock_ip (pc_endpoint p))) | None \<Rightarrow> 0) \<le> unat (cfg_mtu config)"
  proof (cases "cc_exit_peer (tp_connection params)")
    case None
    with b(4) assms(5) show ?thesis
      by (auto simp: route_size_def get_post_tunnel_routes_def apply_route_mtu_for_multihop_def is_multihop_def required_route_new_def)
  next
    case (Some p)
    then have "wireguard_overhead (sock_ip (pc_endpoint p)) = 60"
      using assms(4) [OF Some] by (cases "sock_ip (pc_endpoint p)") (simp_all add: mtu_consts)
    moreover have "rr_mtu route = (if ?us then None
        else Some (cfg_mtu config - wireguard_overhead (net_ip (rr_prefix route)) - PADDING_BYTES_MARGIN))"
      using Some b(4) assms(5) by (auto simp: get_post_tunnel_routes_def apply_route_mtu_for_multihop_def is_multihop_def required_route_new_def)
    moreover have "unat (cfg_mtu config - wireguard_overhead (net_ip (rr_prefix route)) - PADDING_BYTES_MARGIN) + 60 \<le> unat (cfg_mtu config)"
      using b(1) min_mtu_cases [of params] wireguard_overhead_cases [of "net_ip (rr_prefix route)"]
      by (auto simp: PADDING_BYTES_MARGIN_def unat_sub_if')
    ultimately show ?thesis using Some by (simp add: route_size_def)
  qed
  with b(1-3) show ?thesis unfolding lim sizes by linarith
qed

definition ex_mtu_params :: tunnel_parameters where
  "ex_mtu_params = \<lparr>tp_connection = \<lparr>cc_tunnel = \<lparr>tc_private_key = [1], tc_addresses = [IpV4 (ipv4_new 10 1 2 3)]\<rparr>,
       cc_peer = \<lparr>pc_public_key = [7], pc_allowed_ips = [NetV4 0 0], pc_endpoint = SockV4 (ipv4_new 193 138 218 1) 51820, pc_psk = None,
         pc_constant_packet_size = False\<rparr>,
       cc_exit_peer = None, cc_ipv4_gateway = ipv4_new 10 64 0 1, cc_ipv6_gateway = None, cc_fwmark = None\<rparr>,
     tp_options = \<lparr>to_mtu = None, to_quantum_resistant = False, to_daita = False, to_userspace = False\<rparr>,
     tp_generic_options = \<lparr>enable_ipv6 = False\<rparr>, tp_obfuscation = None\<rparr>"

lemmas ex_mtu_defs = ex_mtu_params_def mtu_overhead_def min_mtu_def mtu_consts

definition ex_mtu_world :: wg_world where
  "ex_mtu_world = \<lparr>ww_public_key = id, ww_ephemeral_private_key = [2], ww_ml_kem = (\<lambda>_. None), ww_hqc = (\<lambda>_. None),
     ww_machine_ok = (\<lambda>_. True), ww_rpc = (\<lambda>_. RpcTimeout),
     ww_obfuscator = (\<lambda>_. None), ww_open = (\<lambda>_. None), ww_nm_manages_dns = False, ww_iface = ''wg0-mullvad'', ww_ping_ok = True,
     ww_route = (\<lambda>_. None), ww_tunnel_exists = (\<lambda>_. True), ww_set_config = (\<lambda>_. None), ww_establish = Inr True\<rparr>"

lemmas ex_mtu_run_defs = wg_start_def Let_def ex_mtu_params_def ex_mtu_world_def config_from_parameters_def config_new_def cfg_peers_def
  retain_peer_ips_def use_userspace_wg_def apply_obfuscation_config_def wg_bind_def wg_return_def wg_call_def wg_event_def fails_with_def open_tunnel_def
  tunnel_fut_def tunnel_prepare_def tunnel_negotiate_def tunnel_bring_up_def add_routes_def

theorem tunnel_mtu_fits_witness:
  "\<exists>r l impl config route. wg_start ex_mtu_world False (\<lambda>_. Some 1400) ex_mtu_params [] = (r, l) \<and> ActOpenTunnel impl config \<in> set l \<and>
     route \<in> set (get_post_tunnel_routes ''wg0-mullvad'' config (in_userspace False ex_mtu_params)) \<and>
     wire_size ex_mtu_params 0 (route_size config route) \<le> 1400"
proof -
  obtain r l where run: "wg_start ex_mtu_world False (\<lambda>_. Some 1400) ex_mtu_params [] = (r, l)" by fastforce
  then obtain k config where l: "l = ActOpenTunnel NetlinkTunnel config # k" "NetV4 0 0 \<in> set (get_tunnel_destinations config)"
    by (auto simp: ex_mtu_run_defs get_tunnel_destinations_def)
  then obtain route where route:
    "route \<in> set (get_post_tunnel_routes ''wg0-mullvad'' config (in_userspace False ex_mtu_params))"
    by (fastforce simp: get_post_tunnel_routes_def)
  have "obfuscator_overhead ex_mtu_world l = 0" "get_route_mtu (\<lambda>_. Some 1400) ex_mtu_params = 1400"
    using l by (simp_all add: obfuscator_overhead_def get_route_mtu_def)
  moreover have "wire_size ex_mtu_params 0 576 \<le> 1400" by (simp add: wire_size_def carried_def ex_mtu_params_def ipv4_new_def)
  ultimately have "wire_size ex_mtu_params 0 (route_size config route) \<le> 1400"
    using tunnel_mtu_fits [OF _ run _ _ route, of NetlinkTunnel] l by (simp add: ex_mtu_params_def)
  with run l route show ?thesis by fastforce
qed



section \<open>The sizes that are probed\<close>

definition spaced :: "nat \<Rightarrow> nat list \<Rightarrow> bool" where
  "spaced k = successively (\<lambda>x y. x < y \<and> y \<le> x + k)"

lemma next_multiple_of_bounds: "0 < k \<Longrightarrow> n \<le> next_multiple_of n k \<and> next_multiple_of n k < n + k"
  using mod_less_divisor [of k n] by (auto simp: next_multiple_of_def simp del: mod_less_divisor)

lemma step_by_from_spaced:
  "p < b \<Longrightarrow> p < a \<Longrightarrow> a \<le> p + k \<Longrightarrow> 0 < k \<Longrightarrow> spaced k (p # step_by_from a b k @ [b])"
proof (induction a b k arbitrary: p rule: step_by_from.induct)
  case (1 a b k)
  show ?case
  proof (cases "b \<le> a")
    case True
    then show ?thesis using 1 by (simp add: spaced_def step_by_from.simps [of a])
  next
    case False
    with 1 have "spaced k (a # step_by_from (a + k) b k @ [b])" by simp
    with False 1 show ?thesis by (simp add: spaced_def step_by_from.simps [of a])
  qed
qed

lemma mtu_spacing_shape:
  assumes "mtu_spacing lo hi k = Some xs"
  shows "spaced k xs" "xs \<noteq> []" "hd xs = lo" "last xs = hi"
proof -
  from assms have ok: "lo < hi" "0 < k" and xs: "xs = lo # step_by_from (next_multiple_of (lo + 1) k) hi k @ [hi]"
    by (auto simp: mtu_spacing_def split: if_splits)
  with next_multiple_of_bounds [of k "lo + 1"] show "spaced k xs" by (auto intro!: step_by_from_spaced)
  from xs show "xs \<noteq> []" "hd xs = lo" "last xs = hi" by auto
qed

lemma spaced_sorted: "spaced k xs \<Longrightarrow> sorted_wrt (<) xs"
  unfolding spaced_def by (subst successively_conv_sorted_wrt [symmetric]) (auto simp: transp_def elim: successively_mono)

text \<open>
  The packet sizes that are probed go from the smallest MTU to the current one, strictly upwards, with at most
  the step size between neighbours. They can be computed exactly if the current MTU is larger than the smallest and than the step size, which is not zero.
\<close>

theorem mtu_spacing_dense:
  "(mtu_spacing lo hi k = None \<longleftrightarrow> \<not> (lo < hi \<and> k < hi \<and> k \<noteq> 0)) \<and>
   (mtu_spacing lo hi k = Some xs \<longrightarrow>
      hd xs = lo \<and> last xs = hi \<and> sorted_wrt (<) xs \<and> (\<forall>i. Suc i < length xs \<longrightarrow> xs ! Suc i \<le> xs ! i + k))"
  using mtu_spacing_shape [of lo hi k xs] spaced_sorted [of k xs]
  by (auto simp: mtu_spacing_def spaced_def successively_conv_nth)

theorem mtu_spacing_dense_witness:
  "mtu_spacing 576 620 20 = Some [576, 580, 600, 620] \<and> sorted_wrt (<) [576, 580, 600, 620 :: nat]"
proof -
  have "mtu_spacing 576 620 20 = Some [576, 580, 600, 620]"
    by (simp add: mtu_spacing_def next_multiple_of_def step_by_from.simps)
  then show ?thesis using mtu_spacing_dense [of 576 620 20 "[576, 580, 600, 620]"] by simp
qed

section \<open>The correction\<close>

lemma max_ping_rest_cases: "max_ping_rest acc ps = Inr v \<Longrightarrow> v = acc \<or> PingOk v \<in> set ps"
  by (induction acc ps rule: max_ping_rest.induct) (auto simp: max_def split: if_splits)

lemma max_ping_size_answered: "max_ping_size ps = Some (Inr v) \<Longrightarrow> PingOk v \<in> set ps"
  by (induction ps rule: max_ping_size.induct) (auto dest: max_ping_rest_cases)

lemma max_ping_rest_ge: "max_ping_rest acc ps = Inr v \<Longrightarrow> acc \<le> v"
  by (induction acc ps rule: max_ping_rest.induct) auto

lemma max_ping_rest_all: "max_ping_rest acc ps = Inr v \<Longrightarrow> PingGap \<notin> set ps \<Longrightarrow> PingOk n \<in> set ps \<Longrightarrow> n \<le> v"
  by (induction acc ps rule: max_ping_rest.induct) (auto dest: max_ping_rest_ge)

lemma max_ping_size_all: "max_ping_size ps = Some (Inr v) \<Longrightarrow> PingGap \<notin> set ps \<Longrightarrow> PingOk n \<in> set ps \<Longrightarrow> n \<le> v"
  by (induction ps rule: max_ping_size.induct) (auto dest: max_ping_rest_ge max_ping_rest_all)

lemma mtu_spacing_member: "mtu_spacing lo hi k = Some xs \<Longrightarrow> n \<in> set xs \<Longrightarrow> lo \<le> n \<and> n \<le> hi"
proof -
  assume xs: "mtu_spacing lo hi k = Some xs" and n: "n \<in> set xs"
  note shape = mtu_spacing_shape [OF xs]
  from n obtain i where i: "i < length xs" "n = xs ! i" by (auto simp: in_set_conv_nth)
  have "sorted xs" using spaced_sorted [OF shape(1)] strict_sorted_iff by blast
  then have "xs ! 0 \<le> xs ! i" "xs ! i \<le> xs ! (length xs - 1)" using i by (auto intro!: sorted_nth_mono)
  with shape i show "lo \<le> n \<and> n \<le> hi" by (simp add: hd_conv_nth last_conv_nth)
qed

text \<open>
  When every answered ping is one of those that were sent, the automatic correction sets an MTU only to a size that was seen to get
  through the tunnel; that size is smaller than the current MTU and never below 576. If there was no gap between the answers, it is the largest that came back.
\<close>

theorem mtu_correction_lowers:
  assumes "\<And>xs n. PingOk n \<in> set (pings xs) \<Longrightarrow> unat n \<in> set xs" and "automatic_mtu_correction sock pings ok cur = Some (Inr (Some v))"
  obtains xs where "mtu_spacing 576 (unat cur) 20 = Some xs" and "PingOk v \<in> set (pings xs)"
    and "576 \<le> unat v" and "unat v < unat cur" and "PingGap \<notin> set (pings xs) \<Longrightarrow> PingOk n \<in> set (pings xs) \<Longrightarrow> n \<le> v"
proof -
  from assms(2) obtain xs where xs: "mtu_spacing 576 (unat cur) 20 = Some xs" and v: "max_ping_size (pings xs) = Some (Inr v)" "v \<noteq> cur"
    by (auto simp: automatic_mtu_correction_def mtu_consts split: option.splits if_splits sum.splits)
  from v(1) have "PingOk v \<in> set (pings xs)" by (rule max_ping_size_answered)
  with assms(1) mtu_spacing_member [OF xs] have "576 \<le> unat v" "unat v \<le> unat cur" by auto
  moreover from this(2) v(2) have "unat v < unat cur" by (metis le_neq_implies_less word_unat_eq_iff)
  ultimately show thesis using that xs \<open>PingOk v \<in> set (pings xs)\<close> max_ping_size_all [OF v(1)] by blast
qed

definition ex_pings :: "nat list \<Rightarrow> ping_end list" where
  "ex_pings xs = map (PingOk \<circ> of_nat) (filter (\<lambda>n. n < 610) xs)"

lemma ex_pings_sent: "PingOk n \<in> set (ex_pings xs) \<Longrightarrow> unat n \<in> set xs"
  by (auto simp: ex_pings_def unat_of_nat)

theorem mtu_correction_lowers_witness:
  "\<exists>xs. mtu_spacing 576 620 20 = Some xs \<and> PingOk 600 \<in> set (ex_pings xs) \<and>
     automatic_mtu_correction True ex_pings True 620 = Some (Inr (Some 600))"
proof -
  have spacing: "mtu_spacing 576 620 20 = Some [576, 580, 600, 620]"
    by (simp add: mtu_spacing_def next_multiple_of_def step_by_from.simps)
  then have run: "automatic_mtu_correction True ex_pings True 620 = Some (Inr (Some 600))"
    by (simp add: automatic_mtu_correction_def mtu_consts ex_pings_def max_def)
  show ?thesis by (rule mtu_correction_lowers [OF ex_pings_sent run]) (use run in auto)
qed

text \<open>
  A tunnel whose link is small can have an MTU of 576, the smallest that is allowed without IPv6. The correction then fails an
  assertion, whatever the network does.
\<close>

theorem mtu_detection_panics_at_minimum:
  assumes "to_mtu (tp_options params) = None" and "\<not> enable_ipv6 (tp_generic_options params)"
    and "unat link \<le> 576 + unat (mtu_overhead params us)"
  shows "calculate_tunnel_mtu link params us = 576 \<and> automatic_mtu_correction sock pings ok (calculate_tunnel_mtu link params us) = None"
proof -
  from assms(3) have "unat (saturating_sub_u16 link (mtu_overhead params us)) \<le> 576" by (simp add: unat_saturating_sub_u16)
  then have "unat (calculate_tunnel_mtu link params us) = unat (576 :: u16)"
    using assms(1,2) clamp_tunnel_mtu_bounds(1,3) [of params "saturating_sub_u16 link (mtu_overhead params us)"]
    by (simp add: calculate_tunnel_mtu_def min_mtu_def mtu_consts)
  then have "calculate_tunnel_mtu link params us = 576" by (simp only: word_unat_eq_iff)
  then show ?thesis by (simp add: automatic_mtu_correction_def mtu_spacing_def mtu_consts)
qed

theorem mtu_detection_panics_at_minimum_witness:
  "automatic_mtu_correction True (\<lambda>_. []) True (calculate_tunnel_mtu 600 ex_mtu_params False) = None"
  by (rule mtu_detection_panics_at_minimum [THEN conjunct2]) (simp_all add: ex_mtu_defs)

end
