(* ===== verification/Tunnel_Origin.thy ===== *)
theory Tunnel_Origin
  imports Tunnel_Invariants
begin

text \<open>
  Where the parameters of a tunnel come from: whenever the machine is connecting or connected, its
  parameters are ones that the generator of tunnel parameters returned.
\<close>

fun state_params :: "tunnel_state \<Rightarrow> tunnel_parameters option" where
  "state_params (ConnectingState self) = Some (cg_tunnel_parameters self)"
| "state_params (ConnectedState self) = Some (cd_tunnel_parameters self)"
| "state_params _ = None"

definition was_generated :: "world \<Rightarrow> tunnel_parameters \<Rightarrow> bool" where
  "was_generated w p \<longleftrightarrow> (\<exists>n attempt availability. w_generate w n attempt availability = Inr p)"

definition state_generated :: "world \<Rightarrow> tunnel_state \<Rightarrow> bool" where
  "state_generated w st = (case state_params st of None \<Rightarrow> True | Some p \<Rightarrow> was_generated w p)"

lemma was_generatedI: "w_generate w n attempt av = Inr p \<Longrightarrow> was_generated w p"
  by (auto simp: was_generated_def)

lemma state_generated_simps [simp]:
  "state_generated w (ConnectingState self) = was_generated w (cg_tunnel_parameters self)"
  "state_generated w (ConnectedState cd) = was_generated w (cd_tunnel_parameters cd)"
  "state_generated w DisconnectedState" "state_generated w (ErrorState r)" "state_generated w (DisconnectingState dg)"
  by (simp_all add: state_generated_def)

fun consequence_generated :: "world \<Rightarrow> event_consequence \<Rightarrow> bool" where
  "consequence_generated w (NewState (st, tr)) \<longleftrightarrow> state_generated w st"
| "consequence_generated w (SameState st) \<longleftrightarrow> state_generated w st"
| "consequence_generated w Finished \<longleftrightarrow> True"

section \<open>Entering a state\<close>

lemma enter_generated:
  "ErrorState_enter w cause sv = ((st, tr), sv') \<Longrightarrow> state_generated w' st"
  "DisconnectedState_enter w reset sv = ((st, tr), sv') \<Longrightarrow> state_generated w' st"
  "DisconnectingState_enter tx ev after sv = ((st, tr), sv') \<Longrightarrow> state_generated w' st"
  by (auto dest: ErrorState_enter_call DisconnectedState_enter_frame simp: DisconnectingState_enter_def Let_def)

lemma ConnectingState_enter_generated:
  assumes "ConnectingState_enter w retry sv = ((st, tr), sv')"
  shows "state_generated w st"
  using assms
  by (auto simp: ConnectingState_enter_def generate_parameters_def start_tunnel_def Let_def
      dest: enter_generated intro: was_generatedI split: option.splits sum.splits prod.splits)

lemma ConnectedState_enter_generated:
  assumes "ConnectedState_enter w md ev params cev ctx sv = ((st, tr), sv')" and "was_generated w params"
  shows "state_generated w st"
  using assms
  by (auto simp: ConnectedState_enter_def Let_def dest: enter_generated(3) split: sum.splits prod.splits if_splits bool.splits)

lemma apfst_connected_generated:
  assumes "apfst NewState (ConnectedState_enter w md ev params cev ctx sv) = (c, sv')" and "was_generated w params"
  shows "consequence_generated w c"
  using assms ConnectedState_enter_generated [of w md ev params cev ctx sv]
  by (cases "ConnectedState_enter w md ev params cev ctx sv") fastforce

lemma disconnect_generated:
  "ConnectingState_disconnect cg after sv = (c, sv') \<Longrightarrow> consequence_generated w c"
  "ConnectedState_disconnect cd after sv = (c, sv') \<Longrightarrow> consequence_generated w c"
  by (auto simp: ConnectingState_disconnect_def ConnectedState_disconnect_def DisconnectingState_enter_def Let_def)

lemma apfst_enter_generated:
  "apfst NewState (ErrorState_enter w cause sv) = (c, sv') \<Longrightarrow> consequence_generated w' c"
  "apfst NewState (DisconnectedState_enter w reset sv) = (c, sv') \<Longrightarrow> consequence_generated w' c"
  "apfst NewState (ConnectingState_enter w retry sv) = (c, sv') \<Longrightarrow> consequence_generated w c"
proof -
  show "consequence_generated w' c" if "apfst NewState (ErrorState_enter w cause sv) = (c, sv')"
    using that enter_generated(1) [of w cause sv] by (cases "ErrorState_enter w cause sv") fastforce
  show "consequence_generated w' c" if "apfst NewState (DisconnectedState_enter w reset sv) = (c, sv')"
    using that enter_generated(2) [of w reset sv] by (cases "DisconnectedState_enter w reset sv") fastforce
  show "consequence_generated w c" if "apfst NewState (ConnectingState_enter w retry sv) = (c, sv')"
    using that ConnectingState_enter_generated [of w retry sv] by (cases "ConnectingState_enter w retry sv") fastforce
qed

section \<open>Handlers\<close>

lemma connecting_generated:
  assumes "was_generated w (cg_tunnel_parameters self)"
  shows "ConnectingState_handle_commands w self command sv = (c, sv') \<Longrightarrow> consequence_generated w c"
    and "ConnectingState_handle_tunnel_events w self event sv = (c, sv') \<Longrightarrow> consequence_generated w c"
proof -
  show "consequence_generated w c" if "ConnectingState_handle_commands w self command sv = (c, sv')"
    using that assms
    by (auto simp: ConnectingState_handle_commands_def ConnectingState_reset_firewall_def Let_def
        dest!: disconnect_generated(1)
        split: option.splits tunnel_command.splits prod.splits sum.splits if_splits)
  show "consequence_generated w c" if "ConnectingState_handle_tunnel_events w self event sv = (c, sv')"
    using that assms
    by (auto simp: ConnectingState_handle_tunnel_events_def ConnectingState_reset_firewall_def Let_def
        dest!: disconnect_generated(1) dest: apfst_connected_generated
        split: option.splits tunnel_event.splits prod.splits sum.splits if_splits)
qed

lemma connected_generated:
  assumes "was_generated w (cd_tunnel_parameters self)"
  shows "ConnectedState_handle_commands w self command sv = (c, sv') \<Longrightarrow> consequence_generated w c"
    and "ConnectedState_handle_tunnel_events self event sv = (c, sv') \<Longrightarrow> consequence_generated w c"
proof -
  show "consequence_generated w c" if "ConnectedState_handle_commands w self command sv = (c, sv')"
    using that assms
    by (auto simp: ConnectedState_handle_commands_def Let_def dest!: disconnect_generated(2)
        split: option.splits tunnel_command.splits prod.splits sum.splits if_splits bool.splits)
  show "consequence_generated w c" if "ConnectedState_handle_tunnel_events self event sv = (c, sv')"
    using that assms
    by (auto simp: ConnectedState_handle_tunnel_events_def dest!: disconnect_generated(2)
        split: option.splits tunnel_event.splits)
qed

lemma close_generated:
  "ConnectingState_handle_tunnel_close_event w cg reason sv = (c, sv') \<Longrightarrow> consequence_generated w c"
  "ConnectedState_handle_tunnel_close_event w cd reason sv = (c, sv') \<Longrightarrow> consequence_generated w c"
  by (auto simp: ConnectingState_handle_tunnel_close_event_def ConnectedState_handle_tunnel_close_event_def Let_def
      dest!: apfst_enter_generated split: option.splits)

lemma idle_generated:
  "DisconnectedState_handle_commands w command sv = (c, sv') \<Longrightarrow> consequence_generated w c"
  "ErrorState_handle_commands w reason command sv = (c, sv') \<Longrightarrow> consequence_generated w c"
  "DisconnectingState_handle_commands self command sv = (c, sv') \<Longrightarrow> consequence_generated w c"
  "apfst NewState (DisconnectingState_after_disconnect w self r sv) = (c, sv') \<Longrightarrow> consequence_generated w c"
proof -
  show "consequence_generated w c" if "DisconnectedState_handle_commands w command sv = (c, sv')"
    using that by (auto simp: DisconnectedState_handle_commands_def construct_state_transition_def Let_def dest!: apfst_enter_generated
        split: option.splits tunnel_command.splits if_splits prod.splits)
  show "consequence_generated w c" if "ErrorState_handle_commands w reason command sv = (c, sv')"
    using that by (auto simp: ErrorState_handle_commands_def Let_def dest!: apfst_enter_generated
        split: option.splits tunnel_command.splits if_splits prod.splits)
  show "consequence_generated w c" if "DisconnectingState_handle_commands self command sv = (c, sv')"
    using that by (auto simp: DisconnectingState_handle_commands_def Let_def
        split: option.splits tunnel_command.splits prod.splits)
  show "consequence_generated w c" if "apfst NewState (DisconnectingState_after_disconnect w self r sv) = (c, sv')"
    using that by (auto simp: DisconnectingState_after_disconnect_def Let_def dest!: apfst_enter_generated
        split: option.splits after_disconnect.splits)
qed

section \<open>Reachable machines\<close>

lemma handle_event_generated:
  assumes h: "handle_event w br exits st rx sv = Some (c, rx', sv')" and "state_generated w st"
  shows "consequence_generated w c"
  using assms
  by (cases st)
    (auto simp: ConnectingState_handle_event_def ConnectedState_handle_event_def DisconnectingState_handle_event_def
      select3_def select_command_def select_close_def Let_def
      dest: connecting_generated connected_generated close_generated idle_generated
      split: branch.splits option.splits prod.splits if_splits event_result.splits)

lemma generated_step:
  assumes "tsm_step w m m'" and "\<forall>st. m_state m = Some st \<longrightarrow> state_generated w st"
  shows "\<forall>st. m_state m' = Some st \<longrightarrow> state_generated w st"
  using assms
proof (induction rule: tsm_step.induct)
  case (loop listening br m m')
  from loop(1) show ?case
  proof (cases rule: run_stepE)
    case (1 st c rx sv)
    with loop(2) handle_event_generated [OF 1(3)] have "consequence_generated w c" by simp
    with 1 show ?thesis by auto
  qed
qed auto

lemma reachable_generated:
  assumes "tsm_reachable w m" and "m_state m = Some st"
  shows "state_generated w st"
proof -
  have "\<forall>st. m_state m = Some st \<longrightarrow> state_generated w st"
    using assms(1)
  proof induction
    case (start settings ids connectivity k check)
    obtain st tr sv where "DisconnectedState_enter w (is_reset_firewall settings)
        (initial_shared settings ids connectivity k check) = ((st, tr), sv)" by (metis prod.exhaust)
    with enter_generated(2) [OF this] show ?case by (simp add: TunnelStateMachine_new_def)
  next
    case (step m m')
    then show ?case using generated_step by blast
  qed
  with assms(2) show ?thesis by blast
qed

end
