(* ===== verification/Spec2Isabelle.thy ===== *)
theory Spec2Isabelle
  imports Daemon_Properties Tunnel_Applied Tunnel_Properties Net_Properties Relay_Properties Device_Properties Access_Properties Version_Properties Migrations_Properties Settings_Properties Wg_Monitor_Properties Wg_Properties Wg_Mtu_Properties Tunnel_Params Tunnel_Origin
begin

text \<open>
  A verification of the core of the VPN daemon: its event loop with the handlers of all commands, the relay selector, the account manager, the access
  methods of the API, the upgrades of the application, the settings with their migrations, the tunnel state machine, the WireGuard tunnels it runs, the firewall it drives, and the DNS and tunnel parameters they work on. The build modelled is the Linux one
  (\<open>target_os = "linux"\<close>) in the release profile, so unsigned arithmetic wraps.

  \<^bold>\<open>The program.\<close> The daemon (\<open>mullvad-daemon/src/lib.rs\<close>) is a loop over commands of the user interfaces and events of its
  components; it keeps the settings and the target state, and turns them into commands for the
  tunnel state machine (\<open>talpid-core/src/tunnel_state_machine/\<close>). The machine runs a loop in its own
  thread: the current state waits for a command, an event of the running tunnel, or the exit of the
  tunnel thread, and becomes the next state. On the way it applies firewall policies
  (\<open>talpid-core/src/firewall/\<close>), configures the system resolver, clears routes, switches
  NetworkManager's connectivity check off and on, starts tunnels and closes them, and reports every
  transition to a listener. The firewall translates a policy into one nftables transaction that
  replaces its table. A tunnel (\<open>talpid-wireguard/src/lib.rs\<close>) is opened by its implementation of WireGuard, negotiates keys with
  the relay, is probed until traffic comes back, and is then monitored until it goes silent. The parameters of
  each attempt come from a generator (\<open>mullvad-daemon/src/tunnel.rs\<close>) that asks the relay selector
  for relays and the account manager (\<open>mullvad-daemon/src/device/\<close>) for the device with its key; the
  account manager talks to the API, which is only called while it is available
  (\<open>mullvad-api/src/availability.rs\<close>), and retries (\<open>talpid-future/src/retry.rs\<close>). How the API is
  reached is chosen by the access mode selector (\<open>mullvad-api/src/access_mode.rs\<close>), which also tells the
  firewall which endpoint to leave open; one of its methods is a proxy found through encrypted DNS. New versions of
  the application come from signed metadata, and the version router
  (\<open>mullvad-daemon/src/version/\<close>) announces and downloads them. At its start the daemon migrates the settings file of
  an older version (\<open>mullvad-daemon/src/migrations/\<close>) and loads it; every change of a setting is written to the file
  before it takes effect (\<open>mullvad-daemon/src/settings/\<close>). What the user
  relies on is that no packet leaves outside the tunnel while a tunnel is wanted, whatever fails,
  and that the tunnel goes to a relay that was asked for.

  \<^bold>\<open>Theories and sources.\<close>
  \<^item> \<open>Prelude\<close>: integer widths, \<open>Result\<close> with its \<open>?\<close> operator, loops that may fail, first match in
    a list of guarded verdicts, \<open>str::trim\<close>.
  \<^item> \<open>Net_Types\<close>: \<open>talpid-types/src/net/\<close> (addresses, endpoints with their derived order,
    connectivity, networks, obfuscators, WireGuard parameters) and \<open>TunnelMetadata\<close> of
    \<open>talpid-tunnel/src/lib.rs\<close>.
  \<^item> \<open>Dns_Config\<close>: \<open>talpid-dns/src/lib.rs\<close>, \<open>mullvad-types/src/settings/dns.rs\<close>,
    \<open>mullvad-daemon/src/dns.rs\<close>, and \<open>is_local_address\<close> of \<open>firewall/mod.rs\<close>.
  \<^item> \<open>Firewall_Policy\<close>: the policies of \<open>firewall/mod.rs\<close>.
  \<^item> \<open>Nft\<close>: the interface to nftables. The locale \<open>nftables\<close> states what is relied on of the kernel:
    the effect of each rule expression on the register and the packet, and that a chain takes the
    verdict of the first rule that has one, else its policy. A reference machine interprets it.
  \<^item> \<open>Firewall_Linux\<close>: \<open>firewall/linux.rs\<close>, method by method: from a policy to a batch of messages,
    and \<open>apply_policy\<close>, \<open>reset_policy\<close> with every way netlink and the sysctls can answer.
  \<^item> \<open>Firewall_Spec\<close>: which packets a policy is meant to let through, written without rules:
    \<open>policy_out\<close>, \<open>policy_in\<close>, \<open>policy_fwd\<close> and what is allowed in every state.
  \<^item> \<open>Firewall_Sem\<close>, \<open>Firewall_Correct\<close>, \<open>Firewall_Mark\<close>: the effect of each method on the verdict of
    a chain, the refinement of the specification by the filter chains, and the marks of the mangle
    and NAT chains (split tunneling).
  \<^item> \<open>Firewall_Driver\<close>: the contract between the state machine and its firewall, the locale
    \<open>firewall_driver\<close> (success means the policy's table is in the kernel, failure never means a
    half-built one), interpreted on the Linux implementation.
  \<^item> \<open>Tunnel_Types\<close>, \<open>Tunnel_Shared\<close>, \<open>Tunnel_States\<close>, \<open>Tunnel_Machine\<close>: causes, transitions, commands
    and events (\<open>talpid-types/src/tunnel.rs\<close>, \<open>tunnel_state_machine/mod.rs\<close>), the tunnel thread
    (\<open>tunnel_monitor.rs\<close>), the shared values with the calls on the outside, the five states with every
    handler, and the loop. \<open>tsm_step\<close> interleaves turns of the loop with commands being sent, the
    command channel being closed and tunnel threads exiting; \<open>tsm_reachable\<close> are the machines that
    can arise from any initial settings.
  \<^item> \<open>Tunnel_Invariants\<close>, \<open>Tunnel_Guard\<close>, \<open>Tunnel_Shutdown\<close>, \<open>Tunnel_Commands\<close>, \<open>Tunnel_Order\<close>:
    invariants of the reachable machines, one lemma per operation, one per handler, then the
    induction: the table in the kernel goes with the state; a missing table has been reported or
    the last firewall call failed; after the end of the command stream every turn comes closer to
    the end; commands are acknowledged and NetworkManager's setting is put back; firewall calls
    come before the calls that rely on them. \<open>Tunnel_Applied\<close>: after a tunnel has been attempted, the last policy
    that was applied is one of a tunnel, until the machine has left the tunnel states. \<open>Tunnel_Follow\<close>: what the
    machine holds and wants once it has handled the commands of its queue.
  \<^item> \<open>Daemon_Types\<close>, \<open>Daemon\<close>, \<open>Daemon_Handlers\<close>: \<open>mullvad-daemon/src/lib.rs\<close>, \<open>custom_list.rs\<close>, \<open>access_method.rs\<close>,
    \<open>account_history.rs\<close>, \<open>geoip.rs\<close>, \<open>mullvad-types/src/features.rs\<close>, \<open>states.rs\<close>: commands, internal events and errors; the record
    \<open>daemon\<close> with the transitions of the tunnel, device events and access method events; the handler of every command, the start, the loop and
    the end. What a handler does to the outside (commands to the tunnel state machine, replies, tasks, notifications) is recorded in \<open>d_log\<close>;
    \<open>daemon_step\<close> interleaves events, pending events and tasks. \<open>Daemon_Invariants\<close>, \<open>Daemon_Told\<close>, \<open>Daemon_Answers\<close>: invariants
    of its runs (inactivity timer, features), what the tunnel state machine has been told, and that each command is answered once.
    \<open>Daemon_Properties\<close>: the daemon together with the tunnel state machine.
  \<^item> \<open>Relay_Constraints\<close>, \<open>Relay_List\<close>: \<open>mullvad-types/src/\<close> (\<open>constraints/\<close>,
    \<open>relay_constraints.rs\<close>, \<open>relay_list.rs\<close>, \<open>location.rs\<close>, \<open>custom_list.rs\<close>): constraints with
    their intersection, a partial meet operation stated as the locale \<open>intersection\<close> and
    interpreted on every type that has one; what a constraint admits, and that the meet admits exactly what both
    sides admit, is the locale \<open>admitting\<close> of \<open>Relay_Properties\<close>; obfuscation settings, relay lists and overrides, custom
    lists and the invariant of their operations.
  \<^item> \<open>Relay_Endpoints\<close>, \<open>Relay_Query\<close>, \<open>Relay_Filter\<close>, \<open>Relay_Selector\<close>:
    \<open>mullvad-relay-selector/src/relay_selector/\<close>: endpoint sets with the choice of addresses and
    ports, queries with the retry order, the verdict on each relay with its reasons, and the choice of one
    or two relays. \<open>Relay_Correct\<close>, \<open>Relay_Properties\<close>: what an answer says about the query, when
    there is one, and that the selector does not panic.
  \<^item> \<open>Retry\<close>, \<open>Availability\<close>: retry strategies with the retry loop, and the availability of the API
    with the tasks that wait for it.
  \<^item> \<open>Device_Types\<close>, \<open>Device_Service\<close>, \<open>Device_Manager\<close>, \<open>Device_Check\<close>: device states and key
    rotation intervals, the requests to the API with their retries, the account manager (one turn
    of its loop per command, finished API call or rotation timer, with its cache file and its
    listeners), and the check of the device when tunnels keep failing. \<open>Device_Correct\<close>,
    \<open>Device_Properties\<close>: no panic, calls are for the current device, and a ledger of the senders of all requests.
  \<^item> \<open>Encrypted_Dns\<close>: \<open>mullvad-encrypted-dns-proxy/src/\<close>: proxy configurations read from IPv6 addresses, the
    obfuscated stream and the order in which configurations are tried.
  \<^item> \<open>Access_Methods\<close>, \<open>Access_Mode\<close>: \<open>mullvad-types/src/access_method.rs\<close>,
    \<open>mullvad-daemon/src/access_method.rs\<close>, \<open>mullvad-api/src/access_mode.rs\<close>, \<open>mullvad-daemon/src/api.rs\<close>: the settings of the
    access methods, and the selector that turns them into connection modes and endpoints for the
    firewall. What the selector needs of the resolver of methods is the locale \<open>method_resolver\<close>,
    interpreted on the resolver of the daemon. \<open>Access_Properties\<close>: the settings stay usable, every method gets its turn,
    the REST client and the daemon are told each mode with its endpoint.
  \<^item> \<open>Version\<close>, \<open>Version_Info\<close>, \<open>Version_Router\<close>: \<open>mullvad-version/src/lib.rs\<close>, \<open>mullvad-update/src/\<close>
    (\<open>format/\<close>, \<open>version/\<close>), \<open>mullvad-api/src/version.rs\<close>, \<open>mullvad-daemon/src/version/\<close>: versions, the
    metadata and what is offered, the updater loop, and the router with its download.
    \<open>Version_Properties\<close>: what is offered is signed, newest and newer than what is installed.
  \<^item> \<open>Json\<close>, \<open>Migrations\<close>, \<open>Migrations_Chain\<close>: JSON values as the daemon uses them, the fifteen migrations of
    \<open>mullvad-daemon/src/migrations/\<close>, the account history and the chain of migrations with its file. What a
    migration is for the chain is the locale \<open>settings_migration\<close>, interpreted on each of them.
    \<open>Migrations_Correct\<close>, \<open>Migrations_Names\<close>, \<open>Migrations_Properties\<close>: what each migration leaves alone, the
    names of access methods, and that the chain ends at the current version and loses nothing else.
  \<^item> \<open>Settings_Patch\<close>, \<open>Settings\<close>: \<open>mullvad-daemon/src/settings/\<close>, \<open>mullvad-types/src/settings/mod.rs\<close>,
    \<open>mullvad-fs/src/lib.rs\<close>, \<open>mullvad-daemon/src/target_state.rs\<close>: patches, the settings with their operations, the
    persister and the target state. \<open>Settings_Properties\<close>: memory, file and listeners agree; what a patch
    changes; what a crash leaves.
  \<^item> \<open>Tunnel_Params\<close>: \<open>mullvad-daemon/src/tunnel.rs\<close> and \<open>mullvad-types/src/custom_tunnel.rs\<close>, from
    a selected relay and a device to the parameters of an attempt. \<open>Tunnel_Origin\<close>: the parameters
    that a connecting or connected machine holds were generated for one of its attempts.
  \<^item> \<open>Wg_Connectivity\<close>: \<open>talpid-wireguard/src/connectivity/\<close>: the state of a connection as its counters show it, the pings, the check
    while a connection is established, and the monitor. \<open>Wg_Monitor_Properties\<close>: when a tunnel is given up, when not, and that no
    division fails.
  \<^item> \<open>Wg_Tunnel\<close>, \<open>Wg_Run\<close>: \<open>talpid-wireguard/src/\<close> (\<open>config.rs\<close>, \<open>obfuscation.rs\<close>, \<open>ephemeral.rs\<close>, \<open>mtu_detection.rs\<close>, \<open>lib.rs\<close>),
    \<open>talpid-tunnel-config-client/src/lib.rs\<close>: configuration, MTU and routes, the negotiation of ephemeral peers, and the life of a
    tunnel as a computation over the log of its calls. \<open>Wg_Properties\<close>: keys come before traffic, a connection before
    routes, and how a tunnel ends; \<open>Wg_Mtu_Properties\<close>: the MTU fits the link and is only lowered.
  \<^item> \<open>Net_Properties\<close>, \<open>Firewall_Properties\<close>, \<open>Tunnel_Example\<close>, \<open>Tunnel_Properties\<close>: the properties of each
    component and concrete hosts, packets and runs to which they apply. This theory has the
    properties that span components, from the user's settings to packets.

  \<^bold>\<open>How state and effects correspond.\<close> \<open>&mut SharedTunnelStateValues\<close> is the record \<open>shared\<close>, passed and
  returned. What the outside answers to a call is given by a \<open>world\<close>, indexed by a call counter, so
  that a theorem for all worlds covers every sequence of successes and failures; a call is
  also recorded in the log \<open>sv_log\<close>. The kernel's part of the firewall is the record \<open>fw_kernel\<close>: the
  last committed batch and two sysctls. Errors are values of sums. The state machine's \<open>select!\<close> takes any
  branch that is ready, given as an argument. No definition needs fuel: rules are built by structural
  recursion, and the loop is a step relation whose termination after the end of the command stream is a
  theorem. The retry loop may not end; it is a partial function into options, and the theorems say
  when it returns. The account manager is a record with its clock, its log of messages and its cache
  file; a \<open>device_world\<close> gives what the disk and the clock answer.

  \<^bold>\<open>What is assumed.\<close> The laws of the locale \<open>nftables\<close>; that netfilter commits a batch as a whole or not
  at all (\<open>netlink_outcome\<close>); interface lookup, netmasks and \<open>IpNetwork::contains\<close> are parameters
  about which nothing is assumed. The state machine works with any generator of tunnel parameters;
  the last section below composes it with the modelled generator and relay selector. Random draws
  (also those of the jitter), distances between places, key derivation and name resolution are parameters.

  \<^bold>\<open>What is not modelled.\<close> Other platforms' firewalls and split tunneling; the backends of the DNS
  monitor, the route manager, the offline monitor and the implementations of WireGuard (their
  calls are recorded and may fail); the text form of JSON and the encodings that serde derives, the HTTP client of the API,
  the gRPC side of the management interface, the leak checker, installers, the user interfaces. Time: the minimal lifetime of
  a tunnel thread and the shutdown timeout of the handle are left out.

  \<^bold>\<open>Plan.\<close> Next: the framings of the obfuscation transports.
\<close>

section \<open>From the user's settings to the packets on the wire\<close>

text \<open>
  The policy that goes with a state that has a tunnel: while connecting the one for the current settings
  and parameters, and once the interface is up for that interface and the traffic allowed in it; while
  connected the one for the current settings and the tunnel; while disconnecting, when settings are only
  stored, the last policy of a tunnel that was applied, or one whose application failed after that.
\<close>

definition goes_with :: "tunnel_state \<Rightarrow> shared \<Rightarrow> firewall_policy \<Rightarrow> bool" where
  "goes_with st sv policy =
     (case st of
        ConnectingState self \<Rightarrow>
          (\<exists>md traffic. policy = connecting_policy sv (cg_tunnel_parameters self) md traffic \<and>
             (cg_tunnel_metadata self \<noteq> None \<longrightarrow>
                md = cg_tunnel_metadata self \<and> traffic = cg_allowed_tunnel_traffic self))
      | ConnectedState self \<Rightarrow> policy = get_firewall_policy self sv
      | DisconnectingState _ \<Rightarrow> is_tunnel_policy policy \<and> policy \<in> set (attempted (sv_log sv))
      | _ \<Rightarrow> False)"

lemma tunnel_table:
  assumes "tsm_reachable w m" and "m_state m = Some st"
    and "case st of ConnectingState _ \<Rightarrow> True | ConnectedState _ \<Rightarrow> True
         | DisconnectingState _ \<Rightarrow> True | _ \<Rightarrow> False"
  obtains h b policy where "k_batch (sv_kernel (m_shared m)) = Some b"
    and "finalize_batch h policy (sv_firewall (m_shared m)) batch_new = Inr b"
    and "goes_with st (m_shared m) policy"
proof -
  have "\<exists>policy. installed (m_shared m) policy \<and> goes_with st (m_shared m) policy"
  proof (cases st)
    case (DisconnectingState self)
    with reachable_logged [OF assms(1)] assms(2) have "policy_logged (m_shared m)" by (simp add: machine_logged_def)
    with DisconnectingState show ?thesis by (auto simp: policy_logged_def goes_with_def list_all_iff)
  qed (use reachable_inv [OF assms(1)] assms(2,3) in
      \<open>auto simp: machine_inv_def connecting_installed_def goes_with_def\<close>)
  then show thesis using that by (auto simp: installed_def batches_for_def)
qed

text \<open>Packets of processes that are not excluded, off the loopback interface.\<close>

definition unexcluded :: "fw_host \<Rightarrow> firewall \<Rightarrow> packet \<Rightarrow> bool" where
  "unexcluded h fw p \<longleftrightarrow> \<not> selected h fw p \<and> p_ct_mark p \<noteq> split_tunnel_MARK \<and> \<not> lo_out h p"

text \<open>
  The ways such a packet may leave the host: to an endpoint of a relay, carrying the firewall mark
  unless every client may use that endpoint, or by one of the other ways.
\<close>

definition relay_out :: "firewall \<Rightarrow> firewall_policy \<Rightarrow> packet \<Rightarrow> bool" where
  "relay_out fw policy p \<longleftrightarrow>
     (\<exists>peer \<in> set (policy_peers policy). endpoint_match Dst (ae_endpoint peer) p \<and>
        (allow_all (ae_clients peer) \<or> p_mark p = fw_fwmark fw))"

definition way_out :: "fw_host \<Rightarrow> firewall_policy \<Rightarrow> packet \<Rightarrow> bool" where
  "way_out h policy p \<longleftrightarrow>
     (\<exists>t. policy_tunnel policy = Some t \<and> on_iface h Out (tm_interface t) p) \<or>
     (\<exists>ep. policy_allowed_endpoint policy = Some ep \<and> api_out ep p) \<or>
     policy_allow_lan policy \<and> lan_out h p \<or>
     (\<exists>peers t lan dns. policy = PolicyConnected peers t lan dns \<and>
        (\<exists>server \<in> set (rd_non_tunnel_config dns). local_dns_out h (tm_interface t) server p)) \<or>
     dhcp_client_out h p \<or> ndp_out h p"

lemma relay_or_way_out:
  assumes "nftables eval chain" and "finalize_batch h policy fw batch_new = Inr b"
    and "snd (output_hook chain b p) = Accept" and "unexcluded h fw p"
  shows "relay_out fw policy p \<or> way_out h policy p"
proof (cases "\<exists>peer \<in> set (policy_peers policy). allow_all (ae_clients peer) \<and> endpoint_match Dst (ae_endpoint peer) p")
  case True
  then show ?thesis by (auto simp: relay_out_def)
next
  case False
  with assms(4) have q: "mangled h fw policy p = p" by (auto simp: mangled_def unexcluded_def)
  from nftables.output_hook_accepts [OF assms(1,2), of p] assms(3,4)
  have "dhcp_client_out h p \<or> ndp_out h p \<or> policy_out h fw policy p"
    by (auto simp: q always_out_def excluded_def unexcluded_def)
  then show ?thesis
    unfolding way_out_def
    by (cases policy; cases "policy_tunnel policy"; cases "policy_allowed_endpoint policy")
      (auto simp: relay_out_def peer_out_def policy_peers_def in_tunnel_out_def tunnel_dns_out_def)
qed

text \<open>
  C1. The daemon does not leak: in every reachable machine that is connecting, connected or
  disconnecting, whatever failed on the way, the kernel holds the table of a policy that goes with the
  state and the current settings (while disconnecting: of the last policy applied for the tunnel, or of
  one whose application failed after that), under which packets of processes that are not excluded, off
  the loopback interface, leave only to a relay endpoint of that policy with the firewall mark (without
  it only where the policy opens the endpoint to every client), through the tunnel interface, to the
  API, to the local network if the policy allows sharing, to a resolver configured outside the tunnel,
  or as DHCP and NDP requests.
\<close>

theorem daemon_does_not_leak:
  assumes "tsm_reachable w m" and "m_state m = Some st"
    and "case st of ConnectingState _ \<Rightarrow> True | ConnectedState _ \<Rightarrow> True
         | DisconnectingState _ \<Rightarrow> True | _ \<Rightarrow> False"
    and "nftables eval chain"
  shows "\<exists>h b policy. k_batch (sv_kernel (m_shared m)) = Some b \<and>
    finalize_batch h policy (sv_firewall (m_shared m)) batch_new = Inr b \<and>
    goes_with st (m_shared m) policy \<and>
    (\<forall>p. snd (output_hook chain b p) = Accept \<longrightarrow> unexcluded h (sv_firewall (m_shared m)) p \<longrightarrow>
       relay_out (sv_firewall (m_shared m)) policy p \<or> way_out h policy p)"
  using tunnel_table [OF assms(1-3)] relay_or_way_out [OF assms(4)] by metis

theorem daemon_does_not_leak_witness:
  "\<exists>m dg b policy h. tsm_reachable ex_world m \<and> m_state m = Some (DisconnectingState dg) \<and>
     k_batch (sv_kernel (m_shared m)) = Some b \<and>
     finalize_batch h policy (sv_firewall (m_shared m)) batch_new = Inr b \<and>
     goes_with (DisconnectingState dg) (m_shared m) policy \<and>
     (\<forall>p. snd (output_hook nft_chain b p) = Accept \<longrightarrow> unexcluded h (sv_firewall (m_shared m)) p \<longrightarrow>
        relay_out (sv_firewall (m_shared m)) policy p \<or> way_out h policy p)"
proof -
  obtain m sv dg where "waits_in (DisconnectingState dg) sv m" using ex_disconnecting by blast
  then have m: "tsm_reachable ex_world m" "m_state m = Some (DisconnectingState dg)"
    by (simp_all add: waits_in_def)
  with daemon_does_not_leak [OF m _ vm.nftables_axioms] show ?thesis by fastforce
qed

text \<open>Packets of ordinary processes: not excluded, and not to a relay.\<close>

definition ordinary :: "fw_host \<Rightarrow> firewall \<Rightarrow> firewall_policy \<Rightarrow> packet \<Rightarrow> bool" where
  "ordinary h fw policy p \<longleftrightarrow>
     \<not> selected h fw p \<and> p_ct_mark p \<noteq> split_tunnel_MARK \<and> \<not> lo_out h p \<and>
     list_all (\<lambda>peer. \<not> endpoint_match Dst (ae_endpoint peer) p) (policy_peers policy)"

lemma connected_table:
  assumes "tsm_reachable w m" and "m_state m = Some (ConnectedState self)"
  obtains h b where "k_batch (sv_kernel (m_shared m)) = Some b"
    and "finalize_batch h (get_firewall_policy self (m_shared m)) (sv_firewall (m_shared m)) batch_new = Inr b"
  using reachable_inv [OF assms(1)] assms(2) by (auto simp: machine_inv_def installed_def batches_for_def)

lemma connected_dns:
  assumes "nftables eval chain"
    and "finalize_batch h (get_firewall_policy self sv) fw batch_new = Inr b"
    and "snd (output_hook chain b p) = Accept" and "dns_out p"
    and "ordinary h fw (get_firewall_policy self sv) p"
  shows "(end_addr Dst p \<in> set (rd_tunnel_config (resolve_dns (cd_metadata self) sv)) \<and>
            on_iface h Out (tm_interface (cd_metadata self)) p) \<or>
         (end_addr Dst p \<in> set (rd_non_tunnel_config (resolve_dns (cd_metadata self) sv)) \<and>
            off_iface h Out (tm_interface (cd_metadata self)) p)"
  using assms(5) nftables.dns_leaves_only [OF assms(1) assms(2) [unfolded get_firewall_policy_def] assms(3,4)]
  by (auto simp: ordinary_def get_firewall_policy_def policy_peers_def list_all_iff)

text \<open>
  C10. Custom DNS end to end: when the daemon is connected with the configuration it computes from
  custom DNS options, the DNS requests of ordinary processes leave the host only to addresses of the
  user's list, through the tunnel to the public ones and outside it to the local ones.
\<close>

theorem custom_dns_end_to_end:
  assumes "tsm_reachable w m" and "m_state m = Some (ConnectedState self)"
    and "do_state options = DnsStateCustom" and "do_custom_addresses options \<noteq> []"
    and "sv_dns_config (m_shared m) = addresses_from_options contains options"
    and "nftables eval chain"
  shows "\<exists>h b. k_batch (sv_kernel (m_shared m)) = Some b \<and>
    finalize_batch h (get_firewall_policy self (m_shared m)) (sv_firewall (m_shared m)) batch_new = Inr b \<and>
    (\<forall>p. snd (output_hook chain b p) = Accept \<longrightarrow> dns_out p \<longrightarrow>
       ordinary h (sv_firewall (m_shared m)) (get_firewall_policy self (m_shared m)) p \<longrightarrow>
       end_addr Dst p \<in> set (do_custom_addresses options) \<and>
       (if is_local_address contains (end_addr Dst p)
        then off_iface h Out (tm_interface (cd_metadata self)) p
        else on_iface h Out (tm_interface (cd_metadata self)) p))"
proof -
  obtain h b where b: "k_batch (sv_kernel (m_shared m)) = Some b"
    and fin: "finalize_batch h (get_firewall_policy self (m_shared m)) (sv_firewall (m_shared m)) batch_new = Inr b"
    using connected_table [OF assms(1,2)] .
  have "rd_tunnel_config (resolve_dns (cd_metadata self) (m_shared m)) =
      filter (\<lambda>a. \<not> is_local_address contains a) (do_custom_addresses options)"
    "rd_non_tunnel_config (resolve_dns (cd_metadata self) (m_shared m)) =
      filter (is_local_address contains) (do_custom_addresses options)"
    using assms(3-5)
    by (simp_all add: resolve_dns_def addresses_from_options_def from_addresses_def partition_filter_conv o_def)
  with connected_dns [OF assms(6) fin] have "end_addr Dst p \<in> set (do_custom_addresses options) \<and>
       (if is_local_address contains (end_addr Dst p)
        then off_iface h Out (tm_interface (cd_metadata self)) p
        else on_iface h Out (tm_interface (cd_metadata self)) p)"
    if "snd (output_hook chain b p) = Accept" "dns_out p"
      "ordinary h (sv_firewall (m_shared m)) (get_firewall_policy self (m_shared m)) p" for p
    using that by fastforce
  with b fin show ?thesis by blast
qed

definition ex_custom :: dns_options where
  "ex_custom =
     \<lparr>do_state = DnsStateCustom,
      do_default_options =
        \<lparr>block_ads = False, block_trackers = False, block_malware = False, block_adult_content = False,
         block_gambling = False, block_social_media = False\<rparr>,
      do_custom_addresses = [IpV4 0x01010101]\<rparr>"

theorem custom_dns_end_to_end_witness:
  "\<exists>m self h b. tsm_reachable ex_world m \<and> m_state m = Some (ConnectedState self) \<and>
     k_batch (sv_kernel (m_shared m)) = Some b \<and>
     finalize_batch h (get_firewall_policy self (m_shared m)) (sv_firewall (m_shared m)) batch_new = Inr b \<and>
     (\<forall>p. snd (output_hook nft_chain b p) = Accept \<longrightarrow> dns_out p \<longrightarrow>
       ordinary h (sv_firewall (m_shared m)) (get_firewall_policy self (m_shared m)) p \<longrightarrow>
       end_addr Dst p = IpV4 0x01010101)"
proof -
  let ?contains = "\<lambda>net a. net_ip net = a"
  obtain m sv self where "waits_in (ConnectedState self) sv m"
    "sv_dns_config sv = addresses_from_options ?contains ex_custom" using ex_connected by blast
  then have m: "tsm_reachable ex_world m" "m_state m = Some (ConnectedState self)"
    "sv_dns_config (m_shared m) = addresses_from_options ?contains ex_custom"
    by (simp_all add: waits_in_def)
  have "do_state ex_custom = DnsStateCustom" "do_custom_addresses ex_custom \<noteq> []"
    by (simp_all add: ex_custom_def)
  from custom_dns_end_to_end [OF m(1,2) this m(3) vm.nftables_axioms] m(1,2) show ?thesis
    by (fastforce simp: ex_custom_def)
qed

section \<open>From the settings to the packets\<close>

text \<open>
  A call of the generator: with this account data, generator state, attempt and availability of IP
  versions it returned the parameters, for this logged-in device, with the relays that the selector of
  the generator answered.
\<close>

definition chosen_by ::
  "haversine \<Rightarrow> (nat \<Rightarrow> rng) \<Rightarrow> (string \<Rightarrow> unit + socket_addr list) \<Rightarrow> device_error + private_device_state
   \<Rightarrow> u32 \<Rightarrow> ip_availability \<Rightarrow> parameters_generator \<Rightarrow> private_account_and_device \<Rightarrow> get_relay \<Rightarrow> tunnel_parameters \<Rightarrow> bool" where
  "chosen_by hav rngs lookup account_data attempt avail g data r p \<longleftrightarrow>
     account_data = Inr (LoggedIn data) \<and>
     fst (generate hav rngs lookup account_data attempt avail g) = Inr p \<and>
     selector_get_relay hav rngs (pg_relay_selector g) (unat attempt) avail = Inr r \<and>
     parameters_honour (pg_relay_selector g) (pg_tunnel_options g) data avail r p"

lemma generate_chosen:
  assumes "\<And>k. rng_ok (rngs k)" and "selector_reachable (pg_relay_selector g)"
    and "pg_relay_settings g = NormalRelays c"
    and "fst (generate hav rngs lookup account_data attempt avail g) = Inr p"
  obtains data r where "chosen_by hav rngs lookup account_data attempt avail g data r p"
proof -
  obtain g' where "inner_generate hav rngs lookup account_data attempt avail g = (Inr p, g')"
    using assms(4) by (auto simp: generate_def split: prod.splits sum.splits)
  from inner_generate_normal [OF this assms(3)] obtain data r where
    r: "account_data = Inr (LoggedIn data)"
      "selector_get_relay hav rngs (pg_relay_selector g) (unat attempt) avail = Inr r"
      "p = create_wireguard_tunnel_parameters (pg_tunnel_options g) (gr_endpoint r) data (gr_obfuscator r)"
    by blast
  with generated_parameters_honour [OF assms(1,2) r(2)] assms(4) show thesis
    by (intro that [of data r]) (simp add: chosen_by_def)
qed

text \<open>
  The generator of the daemon at each call: its settings and the account data may have changed between
  calls. The settings choose relays of the list (not a custom endpoint).
\<close>

definition daemon_generates ::
  "world \<Rightarrow> haversine \<Rightarrow> (nat \<Rightarrow> nat \<Rightarrow> rng) \<Rightarrow> (string \<Rightarrow> unit + socket_addr list)
   \<Rightarrow> (nat \<Rightarrow> device_error + private_device_state) \<Rightarrow> (nat \<Rightarrow> parameters_generator) \<Rightarrow> bool" where
  "daemon_generates w hav rngs lookup devices gens \<longleftrightarrow>
     (\<forall>n. (\<forall>k. rng_ok (rngs n k)) \<and> selector_reachable (pg_relay_selector (gens n)) \<and>
        (\<exists>c. pg_relay_settings (gens n) = NormalRelays c) \<and>
        (\<forall>attempt avail. w_generate w n attempt avail =
           fst (generate hav (rngs n) lookup (devices n) attempt avail (gens n))))"

lemma daemon_generates_chosen:
  assumes "daemon_generates w hav rngs lookup devices gens" and "was_generated w p"
  obtains n attempt avail data r where
    "chosen_by hav (rngs n) lookup (devices n) attempt avail (gens n) data r p"
proof -
  obtain n attempt avail where "w_generate w n attempt avail = Inr p"
    using assms(2) unfolding was_generated_def by blast
  moreover note spec [OF assms(1) [unfolded daemon_generates_def], of n]
  ultimately obtain c where g: "fst (generate hav (rngs n) lookup (devices n) attempt avail (gens n)) = Inr p"
      "pg_relay_settings (gens n) = NormalRelays c" "selector_reachable (pg_relay_selector (gens n))"
      "\<And>k. rng_ok (rngs n k)"
    by auto
  show thesis by (rule generate_chosen [OF g(4,3,2,1)]) (rule that)
qed

text \<open>
  C2. From the settings to the packets: take the generator of tunnel parameters as it was at each call
  (with the settings, the relay list and the account data of that moment, choosing relays of the list
  with any random draws). In every reachable machine that is connecting, the parameters are the ones
  one of these calls returned, for the device that was logged in and the relays that the selector
  answered: these satisfy the user's constraints of that moment, and the private key is that device's.
  The kernel holds a table under which packets of processes that are not excluded leave only by the ways listed
  above other than to a relay, or with the firewall mark to an address of the entry relay that was chosen (or of a
  relay of the list with its host name).
\<close>

theorem connecting_traffic_to_chosen_relay:
  assumes "tsm_reachable w m" and "m_state m = Some (ConnectingState self)" and "nftables eval chain"
    and "daemon_generates w hav rngs lookup devices gens"
  shows "\<exists>n attempt avail data r relay h b policy.
    chosen_by hav (rngs n) lookup (devices n) attempt avail (gens n) data r (cg_tunnel_parameters self) \<and>
    answer_honours (rs_relays (pg_relay_selector (gens n)))
      (sc_custom_lists (rs_config (pg_relay_selector (gens n))))
      (sc_query (rs_config (pg_relay_selector (gens n)))) avail r \<and>
    devices n = Inr (LoggedIn data) \<and>
    tc_private_key (cc_tunnel (tp_connection (cg_tunnel_parameters self))) =
      wd_private_key (pd_wg_data (pad_device data)) \<and>
    relay \<in> set (all_relays (rs_relays (pg_relay_selector (gens n)))) \<and>
    hostname relay = hostname (config_entry (gr_inner r)) \<and>
    k_batch (sv_kernel (m_shared m)) = Some b \<and>
    finalize_batch h policy (sv_firewall (m_shared m)) batch_new = Inr b \<and>
    goes_with (ConnectingState self) (m_shared m) policy \<and>
    (\<forall>p. snd (output_hook chain b p) = Accept \<longrightarrow> unexcluded h (sv_firewall (m_shared m)) p \<longrightarrow>
       way_out h policy p \<or>
       end_addr Dst p \<in> relay_addresses relay \<and> p_mark p = fw_fwmark (sv_firewall (m_shared m)))"
proof -
  obtain h b policy where table: "k_batch (sv_kernel (m_shared m)) = Some b"
    "finalize_batch h policy (sv_firewall (m_shared m)) batch_new = Inr b"
    "goes_with (ConnectingState self) (m_shared m) policy"
    by (rule tunnel_table [OF assms(1,2)]) simp_all
  have "was_generated w (cg_tunnel_parameters self)" using reachable_generated [OF assms(1,2)] by simp
  then obtain n attempt avail data r where chosen:
    "chosen_by hav (rngs n) lookup (devices n) attempt avail (gens n) data r (cg_tunnel_parameters self)"
    by (rule daemon_generates_chosen [OF assms(4)])
  then have honour: "parameters_honour (pg_relay_selector (gens n)) (pg_tunnel_options (gens n)) data avail r
      (cg_tunnel_parameters self)" and "devices n = Inr (LoggedIn data)"
    by (simp_all add: chosen_by_def)
  then obtain relay where relay: "relay \<in> set (all_relays (rs_relays (pg_relay_selector (gens n))))"
    "hostname relay = hostname (config_entry (gr_inner r))"
    "\<forall>e \<in> set (get_next_hop_endpoints (cg_tunnel_parameters self)). sock_ip (ep_address e) \<in> relay_addresses relay"
    unfolding parameters_honour_def by blast
  have "way_out h policy p \<or>
      end_addr Dst p \<in> relay_addresses relay \<and> p_mark p = fw_fwmark (sv_firewall (m_shared m))"
    if "snd (output_hook chain b p) = Accept" "unexcluded h (sv_firewall (m_shared m)) p" for p
    using relay_or_way_out [OF assms(3) table(2) that] table(3) relay(3)
    by (auto simp: goes_with_def relay_out_def connecting_policy_def policy_peers_def root_endpoints_def
        endpoint_match_def allow_all_def)
  with chosen honour table relay \<open>devices n = _\<close> show ?thesis
    unfolding parameters_honour_def by blast
qed

text \<open>A relay list with one relay, and a user who wants plain WireGuard over IPv4.\<close>

definition ex_one_relay :: relay_list where
  "ex_one_relay =
     \<lparr>rl_countries = [\<lparr>rlo_name = ''Sweden'', rlo_code = ''se'', rlo_cities =
        [\<lparr>rlc_name = ''Gothenburg'', rlc_code = ''got'', rlc_latitude = 0, rlc_longitude = 0,
          rlc_relays = [(ex_relay ''a'' ''se'' 0 True)\<lparr>ipv4_addr_in := 0xB9D5EA45\<rparr>]\<rparr>]\<rparr>],
      rl_wireguard = ex_data\<lparr>ed_port_ranges := [(443, 443)]\<rparr>\<rparr>"

definition ex_plain :: relay_query where
  "ex_plain = query_default\<lparr>rq_hops := HopsSingle (entry_constraints_default
     \<lparr>ec_entry_specific := \<lparr>es_obfuscation = Only ModeOff, es_daita = Any, es_ip_version = Only V4\<rparr>\<rparr>)\<rparr>"

definition ex_one_selector :: relay_selector where
  "ex_one_selector = projr (selector_from_query ex_plain ex_one_relay \<lparr>bl_bridges = [], bl_bridge_endpoint = []\<rparr>)"

definition ex_generator :: parameters_generator where
  "ex_generator = generator_new ex_one_selector
     (NormalRelays \<lparr>rc_location = Any, rc_providers = Any, rc_ownership = Any,
        rc_wireguard_constraints = \<lparr>wc_ip_version = Only V4, wc_allowed_ips = Any, wc_use_multihop = False,
          wc_entry_location = Any, wc_entry_providers = Any, wc_entry_ownership = Any\<rparr>\<rparr>)
     \<lparr>sto_wireguard = \<lparr>wo_mtu = None, wo_quantum_resistant = QrOff,
        wo_daita = \<lparr>ds_enabled = False, ds_use_multihop_if_necessary = True\<rparr>, wo_userspace = False,
        wo_rotation_interval = None\<rparr>,
      sto_generic = \<lparr>enable_ipv6 = False\<rparr>, sto_dns_options = ex_custom\<rparr>"

lemma ex_one_selector_reachable: "selector_reachable ex_one_selector"
proof -
  have "res_ok (annotated_new ex_one_relay)"
    by (simp add: annotated_new_exact ex_one_relay_def)
  then have "res_ok (selector_from_query ex_plain ex_one_relay \<lparr>bl_bridges = [], bl_bridge_endpoint = []\<rparr>)"
    by (auto simp: selector_from_query_def res_ok_def split: sum.splits)
  then have "selector_from_query ex_plain ex_one_relay \<lparr>bl_bridges = [], bl_bridge_endpoint = []\<rparr> = Inr ex_one_selector"
    by (auto simp: ex_one_selector_def res_ok_def split: sum.splits)
  then show ?thesis by (rule selector_reachable.from_query)
qed

text \<open>The example world with that generator, and a run of it that connects.\<close>

definition ex_gen_world :: world where
  "ex_gen_world = ex_world\<lparr>w_generate := (\<lambda>_ attempt avail.
     fst (generate ex_haversine (\<lambda>_. ex_rng) (\<lambda>_. Inl ()) (Inr (LoggedIn ex_account)) attempt avail ex_generator))\<rparr>"

lemma ex_daemon_generates:
  "daemon_generates ex_gen_world ex_haversine (\<lambda>_ _. ex_rng) (\<lambda>_. Inl ()) (\<lambda>_. Inr (LoggedIn ex_account)) (\<lambda>_. ex_generator)"
proof -
  have "pg_relay_selector ex_generator = ex_one_selector" "\<exists>c. pg_relay_settings ex_generator = NormalRelays c"
    by (simp_all add: ex_generator_def generator_new_def)
  with ex_rng_ok ex_one_selector_reachable show ?thesis by (simp add: daemon_generates_def ex_gen_world_def)
qed

lemma ex_gen_connecting_call:
  "\<exists>sv'. ConnectingState_set_firewall_policy ex_gen_world p None TrafficNone sv = (Inr (), sv') \<and> frame sv sv'"
proof -
  have "ConnectingState_set_firewall_policy ex_gen_world = ConnectingState_set_firewall_policy ex_world"
    by (intro ext) (simp add: ex_gen_world_def ConnectingState_set_firewall_policy_def apply_policy_def
        disable_connectivity_check_def)
  with ex_connecting_call show ?thesis by simp
qed

lemma ex_gen_connecting:
  "\<exists>m self. tsm_reachable ex_gen_world m \<and> m_state m = Some (ConnectingState self)"
proof -
  define m0 where "m0 = TunnelStateMachine_new ex_gen_world ex_settings ex_ids PresumeOnline ex_kernel True"
  let ?sv = "initial_shared ex_settings ex_ids PresumeOnline ex_kernel True"
  obtain st tr sv where enter: "DisconnectedState_enter ex_gen_world True ?sv = ((st, tr), sv)"
    by (metis prod.exhaust)
  have m0: "m_state m0 = Some DisconnectedState" "m_shared m0 = sv" "m_running m0"
      "m_commands m0 = \<lparr>rx_queue = [], rx_open = True, rx_done = False\<rparr>"
    using enter DisconnectedState_enter_frame(2) [OF enter]
    by (simp_all add: m0_def TunnelStateMachine_new_def ex_settings_def)
  define m1 where "m1 = m0\<lparr>m_commands := (m_commands m0)\<lparr>rx_queue := [Connect]\<rparr>\<rparr>"
  have r0: "tsm_reachable ex_gen_world m0" unfolding m0_def by (rule tsm_reachable.start)
  have r1: "tsm_reachable ex_gen_world m1"
    using tsm_reachable.step [OF r0 tsm_step.send_command [of m0]] m0 by (simp add: m1_def)
  have "sv_connectivity sv = PresumeOnline"
    using DisconnectedState_enter_frame(1) [OF enter] by (simp add: frame_def initial_shared_def)
  moreover obtain p where "w_generate ex_gen_world (sv_clock sv) 0 ip_availability_default = Inr p"
  proof -
    have "res_ok (fst (generate ex_haversine (\<lambda>_. ex_rng) (\<lambda>_. Inl ()) (Inr (LoggedIn ex_account)) 0
        ip_availability_default ex_generator))" by code_simp
    then show thesis using that by (auto simp: ex_gen_world_def res_ok_def split: sum.splits)
  qed
  moreover obtain sv1 where "ConnectingState_set_firewall_policy ex_gen_world p None TrafficNone
      (sv\<lparr>sv_clock := Suc (sv_clock sv)\<rparr>) = (Inr (), sv1)" using ex_gen_connecting_call by blast
  ultimately obtain cs tr' sv' where "ConnectingState_enter ex_gen_world 0 sv = ((ConnectingState cs, tr'), sv')"
    by (simp add: ConnectingState_enter_def generate_parameters_def start_tunnel_def Let_def)
  then have "handle_event ex_gen_world BCommand (m_exits m1) DisconnectedState (m_commands m1) (m_shared m1) =
      Some (NewState (ConnectingState cs, tr'), \<lparr>rx_queue = [], rx_open = True, rx_done = False\<rparr>, sv')"
    using m0 by (simp add: m1_def commands_next_def DisconnectedState_handle_commands_def)
  then obtain m2 where "run_step ex_gen_world True BCommand m1 = Some m2" "m_state m2 = Some (ConnectingState cs)"
    using m0 by (simp add: m1_def run_step_def Let_def)
  with tsm_reachable.step [OF r1 tsm_step.loop] show ?thesis by blast
qed

theorem connecting_traffic_to_chosen_relay_witness:
  "\<exists>m self data relay h b policy. tsm_reachable ex_gen_world m \<and> m_state m = Some (ConnectingState self) \<and>
     Inr (LoggedIn data) = (Inr (LoggedIn ex_account) :: device_error + private_device_state) \<and>
     tc_private_key (cc_tunnel (tp_connection (cg_tunnel_parameters self))) =
       wd_private_key (pd_wg_data (pad_device data)) \<and>
     relay \<in> set (all_relays (rs_relays (pg_relay_selector ex_generator))) \<and>
     k_batch (sv_kernel (m_shared m)) = Some b \<and>
     finalize_batch h policy (sv_firewall (m_shared m)) batch_new = Inr b \<and>
     (\<forall>p. snd (output_hook nft_chain b p) = Accept \<longrightarrow> unexcluded h (sv_firewall (m_shared m)) p \<longrightarrow>
        way_out h policy p \<or>
        end_addr Dst p \<in> relay_addresses relay \<and> p_mark p = fw_fwmark (sv_firewall (m_shared m)))"
proof -
  obtain m self where m: "tsm_reachable ex_gen_world m" "m_state m = Some (ConnectingState self)"
    using ex_gen_connecting by blast
  from connecting_traffic_to_chosen_relay [OF m vm.nftables_axioms ex_daemon_generates] m show ?thesis
    by (metis (no_types, lifting))
qed

end
